(* ===== verification/Py_Base.thy ===== *)
theory Py_Base
  imports Main "HOL-Library.Word" "HOL-Library.AList" "HOL-Library.List_Lexorder"
begin

text \<open>
  The prelude of the development: what the components share of Python itself.

  \<^item> \<open>py_error\<close> and the state-and-exception computations \<open>('s, 'a) action\<close>: a function of
    the source that reads or writes module or host state and may raise is a function from
    the state to either the exception or the returned value and the new state.
  \<^item> byte strings with Python's slicing (clamped bounds, negative indices counted from the
    end), slice assignment, zero padding and big-endian integer conversion.
  \<^item> dictionaries as association lists in insertion order, because the source relies on that
    order (\<open>popitem\<close>, \<open>reversed\<close>).
  \<^item> the collections \<open>action_simps\<close> and \<open>keeps_intros\<close> and the locale \<open>action_invariant\<close>,
    from which the frame and invariant proofs of every component are built.
\<close>

section \<open>Exceptions and computations\<close>

text \<open>\<open>OutOfFuel\<close> is not an exception of Python: a loop of the model that is given a number of steps
  ends with it when the loop of the source is still running after that many iterations.\<close>

datatype py_error =
    SailExit
  | SailError string
  | SailMatchFailure
  | RuntimeError string
  | ValueError string
  | TypeError
  | KeyError
  | IndexError
  | OverflowError
  | ZeroDivisionError
  | OutOfFuel

type_synonym ('s, 'a) action = "'s \<Rightarrow> py_error + ('a \<times> 's)"

definition ret :: "'a \<Rightarrow> ('s, 'a) action" where
  "ret x = (\<lambda>s. Inr (x, s))"

definition raise :: "py_error \<Rightarrow> ('s, 'a) action" where
  "raise e = (\<lambda>s. Inl e)"

definition bind :: "('s, 'a) action \<Rightarrow> ('a \<Rightarrow> ('s, 'b) action) \<Rightarrow> ('s, 'b) action" where
  "bind m f = (\<lambda>s. case m s of Inl e \<Rightarrow> Inl e | Inr (x, t) \<Rightarrow> f x t)"

definition reads :: "('s \<Rightarrow> 'a) \<Rightarrow> ('s, 'a) action" where
  "reads f = (\<lambda>s. Inr (f s, s))"

definition modify :: "('s \<Rightarrow> 's) \<Rightarrow> ('s, unit) action" where
  "modify f = (\<lambda>s. Inr ((), f s))"

definition do_when :: "bool \<Rightarrow> ('s, unit) action \<Rightarrow> ('s, unit) action" where
  "do_when b m = (if b then m else ret ())"

text \<open>A Python assertion or a guarded \<open>raise\<close>.\<close>

definition ensure :: "bool \<Rightarrow> py_error \<Rightarrow> ('s, unit) action" where
  "ensure b e = (if b then ret () else raise e)"

text \<open>
  The bounded unsigned integer classes (\<open>Uint\<close>, \<open>U8\<close>, \<open>U64\<close>, \<open>BoundedUint\<close> and the generated
  subclasses of \<open>Unsigned\<close>) raise \<open>OverflowError\<close> when they are built outside their range.
\<close>

definition ranged :: "int \<Rightarrow> int \<Rightarrow> int \<Rightarrow> ('s, int) action" where
  "ranged lower upper value =
     (if lower \<le> value \<and> value \<le> upper then ret value else raise OverflowError)"

definition natural :: "int \<Rightarrow> ('s, int) action" where
  "natural value = (if 0 \<le> value then ret value else raise OverflowError)"

named_theorems action_simps "evaluation of computations in a given state"

lemma ret_run [action_simps, simp]: "ret x s = Inr (x, s)"
  by (simp add: ret_def)

lemma raise_run [action_simps, simp]: "raise e s = Inl e"
  by (simp add: raise_def)

lemma reads_run [action_simps, simp]: "reads f s = Inr (f s, s)"
  by (simp add: reads_def)

lemma modify_run [action_simps, simp]: "modify f s = Inr ((), f s)"
  by (simp add: modify_def)

lemma ranged_inside [simp]: "lower \<le> v \<Longrightarrow> v \<le> upper \<Longrightarrow> ranged lower upper v = ret v"
  by (simp add: ranged_def)

lemma natural_nonneg [simp]: "0 \<le> v \<Longrightarrow> natural v = ret v"
  by (simp add: natural_def)

lemma bind_run [action_simps]:
  "bind m f s = (case m s of Inl e \<Rightarrow> Inl e | Inr (x, t) \<Rightarrow> f x t)"
  by (simp add: bind_def)

lemma bind_Inl [simp]: "m s = Inl e \<Longrightarrow> bind m f s = Inl e"
  by (simp add: bind_def)

lemma bind_Inr [simp]: "m s = Inr (x, t) \<Longrightarrow> bind m f s = f x t"
  by (simp add: bind_def)

lemma do_when_run [action_simps]: "do_when b m s = (if b then m s else Inr ((), s))"
  by (simp add: do_when_def)

lemma ensure_run [action_simps]: "ensure b e s = (if b then Inr ((), s) else Inl e)"
  by (simp add: ensure_def)

lemma bind_returns_iff:
  "bind m f s = Inr (y, u) \<longleftrightarrow> (\<exists>x t. m s = Inr (x, t) \<and> f x t = Inr (y, u))"
  by (auto simp: bind_def split: sum.splits prod.splits)

lemma bind_returnsE:
  assumes "bind m f s = Inr (y, u)"
  obtains x t where "m s = Inr (x, t)" and "f x t = Inr (y, u)"
  using assms by (auto simp: bind_returns_iff)

lemma bind_ret_left [simp]: "bind (ret x) f = f x"
  by (simp add: bind_def ret_def)

lemma bind_ret_right [simp]: "bind m ret = m"
  by (auto simp: bind_def ret_def fun_eq_iff split: sum.splits prod.splits)

lemma bind_assoc: "bind (bind m f) g = bind m (\<lambda>x. bind (f x) g)"
  by (auto simp: bind_def fun_eq_iff split: sum.splits prod.splits)

lemma bind_cong_state:
  "m s = m' s \<Longrightarrow> (\<And>x t. m' s = Inr (x, t) \<Longrightarrow> f x t = f' x t) \<Longrightarrow> bind m f s = bind m' f' s"
  by (auto simp: bind_def split: sum.splits prod.splits)

text \<open>
  The congruence rules with which the function package looks into computations: a function that
  calls itself inside a computation is applied to the state there, and its termination may use
  what the computation before the call returned.
\<close>

lemma bind_state_cong [fundef_cong]:
  "s = s' \<Longrightarrow> m s' = m' s' \<Longrightarrow> (\<And>x t. m' s' = Inr (x, t) \<Longrightarrow> f x t = f' x t)
     \<Longrightarrow> bind m f s = bind m' f' s'"
  by (auto simp: bind_def split: sum.splits prod.splits)

lemma if_state_cong [fundef_cong]:
  "b = b' \<Longrightarrow> s = s' \<Longrightarrow> (b' \<Longrightarrow> x s' = x' s') \<Longrightarrow> (\<not> b' \<Longrightarrow> y s' = y' s')
     \<Longrightarrow> (if b then x else y) s = (if b' then x' else y') s'"
  by simp

lemma prod_state_cong [fundef_cong]:
  "p = p' \<Longrightarrow> s = s' \<Longrightarrow> (\<And>x y. p' = (x, y) \<Longrightarrow> f x y s' = f' x y s')
     \<Longrightarrow> case_prod f p s = case_prod f' p' s'"
  by (cases p') simp

lemma let_state_cong [fundef_cong]:
  "v = v' \<Longrightarrow> s = s' \<Longrightarrow> (\<And>x. x = v' \<Longrightarrow> f x s' = f' x s') \<Longrightarrow> Let v f s = Let v' f' s'"
  by simp

section \<open>Relations between the states before and after a computation\<close>

text \<open>
  \<open>keeps R m\<close>: whenever \<open>m\<close> returns, the state before and the state after are related by
  \<open>R\<close>. With a reflexive and transitive \<open>R\<close> the property composes along the code; every
  frame condition and every invariant of the development is an instance.
\<close>

definition keeps :: "('s \<Rightarrow> 's \<Rightarrow> bool) \<Rightarrow> ('s, 'a) action \<Rightarrow> bool" where
  "keeps R m \<longleftrightarrow> (\<forall>s x t. m s = Inr (x, t) \<longrightarrow> R s t)"

named_theorems keeps_intros "composition rules for keeps"

lemma keepsI: "(\<And>s x t. m s = Inr (x, t) \<Longrightarrow> R s t) \<Longrightarrow> keeps R m"
  by (simp add: keeps_def)

lemma keepsD: "keeps R m \<Longrightarrow> m s = Inr (x, t) \<Longrightarrow> R s t"
  by (simp add: keeps_def)

lemma keeps_raise [keeps_intros]: "keeps R (raise e)"
  by (simp add: keeps_def)

lemma keeps_modify: "(\<And>s. R s (f s)) \<Longrightarrow> keeps R (modify f)"
  by (simp add: keeps_def)

lemma keeps_if [keeps_intros]:
  "(b \<Longrightarrow> keeps R m) \<Longrightarrow> (\<not> b \<Longrightarrow> keeps R n) \<Longrightarrow> keeps R (if b then m else n)"
  by simp

locale action_invariant =
  fixes R :: "'s \<Rightarrow> 's \<Rightarrow> bool"
  assumes related_refl: "R s s"
    and related_trans: "R s t \<Longrightarrow> R t u \<Longrightarrow> R s u"
begin

lemma keeps_ret: "keeps R (ret x)"
  by (simp add: keeps_def related_refl)

lemma keeps_reads: "keeps R (reads f)"
  by (simp add: keeps_def related_refl)

lemma keeps_bind: "keeps R m \<Longrightarrow> (\<And>x. keeps R (f x)) \<Longrightarrow> keeps R (bind m f)"
  unfolding keeps_def bind_returns_iff by (blast intro: related_trans)

lemma keeps_do_when: "(b \<Longrightarrow> keeps R m) \<Longrightarrow> keeps R (do_when b m)"
  by (simp add: do_when_def keeps_ret)

lemma keeps_ensure: "keeps R (ensure b e)"
  by (simp add: ensure_def keeps_ret keeps_raise)

lemmas keeps_rules = keeps_ret keeps_reads keeps_bind keeps_do_when keeps_ensure

end

text \<open>A computation that only reads leaves every reflexive relation intact.\<close>

definition pure_action :: "('s, 'a) action \<Rightarrow> bool" where
  "pure_action m \<longleftrightarrow> keeps (=) m"

interpretation unchanged: action_invariant "(=)"
  by unfold_locales auto

lemma pure_reads [simp]: "pure_action (reads f)"
  by (simp add: pure_action_def unchanged.keeps_reads)

lemma pure_keeps:
  assumes "pure_action m" and "\<And>s. R s s"
  shows "keeps R m"
  using assms by (auto simp: pure_action_def keeps_def)

section \<open>Byte strings\<close>

type_synonym byte = "8 word"
type_synonym bytes = "byte list"

definition zeros :: "nat \<Rightarrow> bytes" where
  "zeros n = replicate n 0"

lemma length_zeros [simp]: "length (zeros n) = n"
  by (simp add: zeros_def)

lemma zeros_0 [simp]: "zeros 0 = []"
  by (simp add: zeros_def)

text \<open>Python resolves a slice bound against the length: negative counts from the end,
  and everything is clamped to the sequence.\<close>

definition slice_bound :: "nat \<Rightarrow> int \<Rightarrow> nat" where
  "slice_bound n i = (if i < 0 then nat (int n + i) else min n (nat i))"

definition py_slice :: "'a list \<Rightarrow> int \<Rightarrow> int \<Rightarrow> 'a list" where
  "py_slice xs i j =
     (let a = slice_bound (length xs) i; b = slice_bound (length xs) j
      in take (b - a) (drop a xs))"

definition py_slice_from :: "'a list \<Rightarrow> int \<Rightarrow> 'a list" where
  "py_slice_from xs i = drop (slice_bound (length xs) i) xs"

definition py_slice_assign :: "'a list \<Rightarrow> int \<Rightarrow> int \<Rightarrow> 'a list \<Rightarrow> 'a list" where
  "py_slice_assign xs i j ys =
     (let a = slice_bound (length xs) i; b = slice_bound (length xs) j
      in take a xs @ ys @ drop (max a b) xs)"

text \<open>\<open>del xs[i:]\<close>\<close>

definition py_del_from :: "'a list \<Rightarrow> int \<Rightarrow> 'a list" where
  "py_del_from xs i = take (slice_bound (length xs) i) xs"

text \<open>\<open>xs.ljust(n, b"\x00")\<close>\<close>

definition ljust_zero :: "bytes \<Rightarrow> int \<Rightarrow> bytes" where
  "ljust_zero xs n = xs @ zeros (nat n - length xs)"

lemma slice_bound_nonneg [simp]: "0 \<le> i \<Longrightarrow> slice_bound n i = min n (nat i)"
  by (simp add: slice_bound_def)

lemma slice_bound_le [simp]: "slice_bound n i \<le> n"
  by (auto simp: slice_bound_def)

lemma py_slice_nonneg:
  "0 \<le> i \<Longrightarrow> py_slice xs i j =
    (if 0 \<le> j then take (nat j - nat i) (drop (nat i) xs)
     else take (nat (int (length xs) + j) - nat i) (drop (nat i) xs))"
  by (auto simp: py_slice_def Let_def min_def slice_bound_def not_le)

lemma py_slice_span:
  "0 \<le> i \<Longrightarrow> 0 \<le> n \<Longrightarrow> py_slice xs i (i + n) = take (nat n) (drop (nat i) xs)"
  by (simp add: py_slice_nonneg nat_add_distrib)

lemma length_py_slice_span:
  "0 \<le> i \<Longrightarrow> 0 \<le> n \<Longrightarrow>
    length (py_slice xs i (i + n)) = min (length xs - nat i) (nat n)"
  by (simp add: py_slice_span)

lemma length_ljust_zero [simp]: "length (ljust_zero xs n) = max (length xs) (nat n)"
  by (simp add: ljust_zero_def)

lemma py_slice_assign_inside:
  assumes "0 \<le> i" and "nat i + length ys \<le> length xs"
  shows "py_slice_assign xs i (i + int (length ys)) ys =
    take (nat i) xs @ ys @ drop (nat i + length ys) xs"
  using assms by (simp add: py_slice_assign_def Let_def nat_add_distrib min_def)

lemma length_py_slice_assign_inside:
  assumes "0 \<le> i" and "nat i + length ys \<le> length xs"
  shows "length (py_slice_assign xs i (i + int (length ys)) ys) = length xs"
  using assms by (simp add: py_slice_assign_inside)

lemma nth_py_slice_assign_inside:
  assumes "0 \<le> i" and "nat i + length ys \<le> length xs" and "k < length xs"
  shows "py_slice_assign xs i (i + int (length ys)) ys ! k =
    (if nat i \<le> k \<and> k < nat i + length ys then ys ! (k - nat i) else xs ! k)"
  using assms by (auto simp: py_slice_assign_inside nth_append min_def)

section \<open>Big-endian integers\<close>

text \<open>\<open>int.from_bytes(data, "big")\<close> and \<open>value.to_bytes(n, "big")\<close> for a value that fits.\<close>

definition from_bytes_big :: "bytes \<Rightarrow> int" where
  "from_bytes_big bs = foldl (\<lambda>acc b. 256 * acc + uint b) 0 bs"

fun to_bytes_big :: "int \<Rightarrow> nat \<Rightarrow> bytes" where
  "to_bytes_big v 0 = []"
| "to_bytes_big v (Suc n) = to_bytes_big (v div 256) n @ [word_of_int v]"

lemma length_to_bytes_big [simp]: "length (to_bytes_big v n) = n"
  by (induction n arbitrary: v) auto

lemma from_bytes_big_Nil [simp]: "from_bytes_big [] = 0"
  by (simp add: from_bytes_big_def)

lemma from_bytes_big_snoc [simp]:
  "from_bytes_big (bs @ [b]) = 256 * from_bytes_big bs + uint b"
  by (simp add: from_bytes_big_def)

lemma from_bytes_big_append:
  "from_bytes_big (xs @ ys) = 256 ^ length ys * from_bytes_big xs + from_bytes_big ys"
proof (induction ys rule: rev_induct)
  case Nil
  show ?case by simp
next
  case (snoc y ys)
  then show ?case
    by (simp add: algebra_simps flip: append_assoc)
qed

lemma from_bytes_big_nonneg [simp]: "0 \<le> from_bytes_big bs"
  by (induction bs rule: rev_induct) auto

lemma from_bytes_big_bound: "from_bytes_big bs < 256 ^ length bs"
proof (induction bs rule: rev_induct)
  case Nil
  show ?case by simp
next
  case (snoc b bs)
  have "uint b < 256"
    using uint_lt2p [of b] by simp
  with snoc show ?case by simp
qed

lemma from_bytes_big_zeros [simp]: "from_bytes_big (zeros n) = 0"
proof (induction n)
  case 0
  show ?case by simp
next
  case (Suc n)
  have "zeros (Suc n) = zeros n @ [0]"
    by (simp add: zeros_def replicate_append_same)
  with Suc show ?case by simp
qed

lemma from_to_bytes_big:
  "from_bytes_big (to_bytes_big v n) = v mod 256 ^ n"
proof (induction n arbitrary: v)
  case 0
  show ?case by simp
next
  case (Suc n)
  have "v mod (256 * 256 ^ n) = 256 * (v div 256 mod 256 ^ n) + v mod 256"
    by (simp add: zmod_zmult2_eq)
  with Suc show ?case
    by (simp add: uint_word_of_int)
qed

lemma to_from_bytes_big:
  "length bs = n \<Longrightarrow> to_bytes_big (from_bytes_big bs) n = bs"
proof (induction n arbitrary: bs)
  case 0
  then show ?case by simp
next
  case (Suc n)
  then obtain b cs where bs: "bs = cs @ [b]" and len: "length cs = n"
    by (metis length_Suc_conv_rev)
  have b: "uint b < 256" "0 \<le> uint b"
    using uint_lt2p [of b] by simp_all
  have "(256 * from_bytes_big cs + uint b) div 256 = from_bytes_big cs"
    using b by simp
  moreover have "(word_of_int (256 * from_bytes_big cs + uint b) :: byte) = b"
  proof -
    have "(256 :: byte) = 0" by simp
    then have "256 * (word_of_int (from_bytes_big cs) :: byte) = 0"
      by (metis mult_zero_left)
    then show ?thesis by simp
  qed
  ultimately show ?case
    using Suc.IH [OF len] by (simp add: bs)
qed

section \<open>Dictionaries in insertion order\<close>

type_synonym ('k, 'v) dict = "('k \<times> 'v) list"

definition dict_get :: "('k, 'v) dict \<Rightarrow> 'k \<Rightarrow> 'v option" where
  "dict_get d k = map_of d k"

definition dict_get_default :: "('k, 'v) dict \<Rightarrow> 'k \<Rightarrow> 'v \<Rightarrow> 'v" where
  "dict_get_default d k v = (case map_of d k of None \<Rightarrow> v | Some x \<Rightarrow> x)"

definition dict_set :: "('k, 'v) dict \<Rightarrow> 'k \<Rightarrow> 'v \<Rightarrow> ('k, 'v) dict" where
  "dict_set d k v = AList.update k v d"

definition dict_del :: "('k, 'v) dict \<Rightarrow> 'k \<Rightarrow> ('k, 'v) dict" where
  "dict_del d k = AList.delete k d"

definition dict_wf :: "('k, 'v) dict \<Rightarrow> bool" where
  "dict_wf d \<longleftrightarrow> distinct (map fst d)"

text \<open>The interface the components use: what a read returns after a write or a deletion.\<close>

locale key_value_store =
  fixes get :: "'d \<Rightarrow> 'k \<Rightarrow> 'v option"
    and set_key :: "'d \<Rightarrow> 'k \<Rightarrow> 'v \<Rightarrow> 'd"
    and del_key :: "'d \<Rightarrow> 'k \<Rightarrow> 'd"
    and wf :: "'d \<Rightarrow> bool"
  assumes get_set: "wf d \<Longrightarrow> get (set_key d k v) k' = (if k' = k then Some v else get d k')"
    and get_del: "wf d \<Longrightarrow> get (del_key d k) k' = (if k' = k then None else get d k')"
    and wf_set: "wf d \<Longrightarrow> wf (set_key d k v)"
    and wf_del: "wf d \<Longrightarrow> wf (del_key d k)"
begin

lemma get_set_same: "wf d \<Longrightarrow> get (set_key d k v) k = Some v"
  by (simp add: get_set)

lemma get_set_other: "wf d \<Longrightarrow> k' \<noteq> k \<Longrightarrow> get (set_key d k v) k' = get d k'"
  by (simp add: get_set)

lemma set_set_get: "wf d \<Longrightarrow> get (set_key (set_key d k v) k w) k' = get (set_key d k w) k'"
  by (simp add: get_set wf_set)

lemma del_set_get: "wf d \<Longrightarrow> get d k = None \<Longrightarrow> get (del_key (set_key d k v) k) k' = get d k'"
  by (simp add: get_set get_del wf_set)

end

lemma dict_get_set: "dict_get (dict_set d k v) k' = (if k' = k then Some v else dict_get d k')"
  by (simp add: dict_get_def dict_set_def update_conv)

lemma dict_get_del: "dict_get (dict_del d k) k' = (if k' = k then None else dict_get d k')"
  by (simp add: dict_get_def dict_del_def delete_conv)

lemma dict_wf_set [simp]: "dict_wf d \<Longrightarrow> dict_wf (dict_set d k v)"
  by (simp add: dict_wf_def dict_set_def distinct_update)

lemma dict_wf_del [simp]: "dict_wf d \<Longrightarrow> dict_wf (dict_del d k)"
  by (simp add: dict_wf_def dict_del_def distinct_delete)

lemma dict_wf_Nil [simp]: "dict_wf []"
  by (simp add: dict_wf_def)

interpretation py_dict: key_value_store dict_get dict_set dict_del dict_wf
  by unfold_locales (simp_all add: dict_get_set dict_get_del)

lemma dict_get_default_eq:
  "dict_get_default d k v = (case dict_get d k of None \<Rightarrow> v | Some x \<Rightarrow> x)"
  by (simp add: dict_get_default_def dict_get_def)

lemma dict_get_default_set:
  "dict_get_default (dict_set d k x) k' v = (if k' = k then x else dict_get_default d k' v)"
  by (simp add: dict_get_default_eq dict_get_set)

text \<open>A new key goes to the end; an existing key keeps its place.\<close>

lemma dict_set_new: "dict_get d k = None \<Longrightarrow> dict_set d k v = d @ [(k, v)]"
  by (induction d) (auto simp: dict_get_def dict_set_def split: if_splits)

lemma dict_set_same_keys: "dict_get d k \<noteq> None \<Longrightarrow> map fst (dict_set d k v) = map fst d"
  by (induction d) (auto simp: dict_get_def dict_set_def split: if_splits)

lemma dict_set_get_same: "dict_wf d \<Longrightarrow> dict_get d k = Some v \<Longrightarrow> dict_set d k v = d"
  by (induction d) (auto simp: dict_get_def dict_set_def dict_wf_def split: if_splits)

lemma dict_set_set [simp]: "dict_set (dict_set d k v) k w = dict_set d k w"
  by (induction d) (auto simp: dict_set_def)

lemma dict_get_Some_key: "dict_get d k = Some v \<Longrightarrow> k \<in> set (map fst d)"
  by (auto simp: dict_get_def dest: map_of_SomeD intro: rev_image_eqI)

lemma dict_get_None_key: "dict_get d k = None \<longleftrightarrow> k \<notin> set (map fst d)"
  by (auto simp: dict_get_def map_of_eq_None_iff)

end
