(* ===== verification/Host_State.thy ===== *)
theory Host_State
  imports Py_Base
begin

text \<open>
  The data of the host boundary: the records of \<open>primitives/account.py\<close>, the journal
  entries of \<open>host/journal.py\<close>, the slices of \<open>primitives/bytes.py\<close>, the block-access-list
  entries of \<open>host/state.py\<close> and the \<open>HostState\<close> dataclass of \<open>contract/HostContract.py\<close>.
  Every mutable dataclass of the source is a record that the operations return updated. The
  callers copy (\<open>replace(deepcopy(..))\<close>) before they change an account, and the host copies
  the fields of the values it stores, so no two places share an object that either writes.
\<close>

section \<open>Accounts and storage values\<close>

text \<open>Addresses and hashes are the byte vectors of the source, least significant byte first.\<close>

type_synonym address = bytes
type_synonym hash = bytes

record account_info =
  nonce :: int
  balance :: int
  code_hash :: hash
  storage_root :: hash

record account =
  info :: account_info
  present :: bool
  storage_cleared :: bool
  created :: bool
  selfdestructed :: bool

record storage_value =
  curr :: int
  orig :: int

record storage_key =
  key_addr :: address
  key_slot :: int

record storage_entry =
  entry_key :: storage_key
  entry_value :: storage_value

record acct_value =
  acct_curr :: account
  acct_orig :: account

record acct_entry =
  acct_addr :: address
  acct_val :: acct_value

record account_row =
  found :: bool
  row_account :: account

record storage_block_row =
  block_found :: bool
  block_value :: storage_value

datatype storage_tx_lookup = StorageTxHit storage_value | StorageTxCleared | StorageTxMiss

datatype storage_tx_pop_result = StorageTxPopRow storage_entry | StorageTxPopExhausted

datatype acct_tx_pop_result = AcctTxPopRow acct_entry | AcctTxPopExhausted

record storage_trie_entry =
  ste_entry :: storage_entry
  ste_address_hash :: hash
  ste_slot_hash :: hash

datatype storage_block_iter_result =
  StorageBlockIterRow storage_trie_entry | StorageBlockIterExhausted

record acct_trie_entry =
  ate_entry :: acct_entry
  ate_address_hash :: hash

datatype acct_block_iter_result = AcctBlockIterRow acct_trie_entry | AcctBlockIterExhausted

section \<open>The state journal\<close>

datatype journal_entry =
    JournalTransientChanged address int int
  | JournalWarmAccountChanged address int
  | JournalWarmStorageChanged storage_key int
  | JournalAccountBalanceChanged address int
  | JournalAccountNonceChanged address int
  | JournalAccountCodeHashChanged address hash
  | JournalAccountExistsChanged address bool
  | JournalAccountCreatedChanged address bool
  | JournalAccountSelfdestructedChanged address bool
  | JournalTransactionAccountListed
  | JournalTransactionStorageListed address
  | JournalLogAppended
  | JournalStorageValueChanged storage_key int
  | JournalStorageRowGenerationChanged storage_key int
  | JournalAccountStorageGenerationChanged address int
  | JournalFrameCheckpointed
  | JournalFrameCommitted

section \<open>Slices, code and block-access-list entries\<close>

text \<open>
  Every slice class of \<open>primitives/bytes.py\<close> has an offset and a length in its region; its
  validator rejects ranges that leave 32 bits.
\<close>

record region_slice =
  slice_bytes :: int
  slice_len :: int

definition valid_range :: "int \<Rightarrow> int \<Rightarrow> bool" where
  "valid_range off len \<longleftrightarrow> 0 \<le> off \<and> 0 \<le> len \<and> off + len \<le> 2 ^ 32 - 1"

definition region_slice :: "int \<Rightarrow> int \<Rightarrow> ('s, region_slice) action" where
  "region_slice off len =
     (if valid_range off len then ret \<lparr>slice_bytes = off, slice_len = len\<rparr>
      else raise (ValueError ''slice violates Sail constraint''))"

definition region_sub_slice :: "region_slice \<Rightarrow> int \<Rightarrow> int \<Rightarrow> ('s, region_slice) action" where
  "region_sub_slice s off len = region_slice (slice_bytes s + off) len"

definition EMPTY_SLICE :: region_slice where
  "EMPTY_SLICE = \<lparr>slice_bytes = 0, slice_len = 0\<rparr>"

datatype calldata_slice = InputCalldata region_slice | MemoryCalldata region_slice

fun calldata_slice_length :: "calldata_slice \<Rightarrow> int" where
  "calldata_slice_length (InputCalldata b) = slice_len b"
| "calldata_slice_length (MemoryCalldata b) = slice_len b"

record code =
  code_off :: int
  code_len :: int
  code_jumpdests :: int

record address_result =
  success :: bool
  result_address :: address

datatype bal_iter_entry =
    BalAccount address
  | BalStorageChange int int int
  | BalStorageRead int
  | BalBalanceChange int int
  | BalNonceChange int int
  | BalCodeChange int hash
  | BalAccountEnd
  | BalEmpty

section \<open>Rows and the host state\<close>

record jumpdest_table =
  table_code_length :: int
  positions :: "int set"

record log_record =
  rec_address :: address
  rec_topics :: "int list"
  rec_data_offset :: int
  rec_data_length :: int

record authorization_record =
  seen :: bool
  originally_delegated :: bool
  delegation_set :: bool

record storage_block_cache_row =
  sbc_key :: storage_key
  sbc_value :: storage_value
  sbc_address_hash :: hash
  sbc_slot_hash :: hash

record account_block_row =
  abr_address :: address
  abr_value :: acct_value
  abr_address_hash :: "hash option"

record account_tx_row =
  atr_current :: account
  atr_original :: account

record storage_tx_row =
  str_key :: storage_key
  str_value :: storage_value
  str_generation :: int

definition STORAGE_INITIAL_GENERATION :: int where
  "STORAGE_INITIAL_GENERATION = 1"

record host_state =
  stateless_input_bytes :: bytes
  memory_bytes :: bytes
  code_bytes :: bytes
  scratch_bytes :: bytes
  output_bytes :: bytes
  public_output :: bytes
  log_data :: bytes
  operand_stack :: "int list"
  operand_stack_frames :: "int list"
  ancestor_hashes :: "(int, hash) dict"
  jumpdest_tables :: "(int, jumpdest_table) dict"
  next_jumpdest_table :: int
  code_db :: "(bytes, code) dict"
  node_db :: "(bytes, region_slice) dict"
  transient :: "(bytes \<times> int, int) dict"
  storage_tx :: "(bytes \<times> int, storage_tx_row) dict"
  storage_generations :: "(bytes, int) dict"
  storage_next_generation :: int
  storage_block :: "(bytes \<times> int, storage_block_cache_row) dict"
  storage_iterator :: "storage_block_cache_row list"
  account_tx :: "(bytes, account_tx_row) dict"
  account_block :: "(bytes, account_block_row) dict"
  account_iterator :: "account_block_row list"
  journal :: "journal_entry list"
  warm_addresses :: "(bytes, int) dict"
  warm_slots :: "(bytes \<times> int, int) dict"
  current_warm_epoch :: int
  logs :: "log_record list"
  transaction_log_start :: int
  current_log :: "int option"
  authorizations :: "(bytes, authorization_record) dict"
  bal_accounts :: "bytes set"
  bal_addresses :: "(bytes, address) dict"
  bal_storage_changes :: "(bytes \<times> int, (int, int) dict) dict"
  bal_storage_reads :: "(bytes \<times> int) set"
  bal_balance_changes :: "(bytes, (int, int) dict) dict"
  bal_nonce_changes :: "(bytes, (int, int) dict) dict"
  bal_code_changes :: "(bytes, (int, hash) dict) dict"
  bal_iterator :: "bal_iter_entry list"

definition initial_host_state :: host_state where
  "initial_host_state =
     \<lparr>stateless_input_bytes = [], memory_bytes = [], code_bytes = [], scratch_bytes = [],
      output_bytes = [], public_output = [], log_data = [], operand_stack = [],
      operand_stack_frames = [], ancestor_hashes = [], jumpdest_tables = [],
      next_jumpdest_table = 1, code_db = [], node_db = [], transient = [], storage_tx = [],
      storage_generations = [], storage_next_generation = STORAGE_INITIAL_GENERATION,
      storage_block = [], storage_iterator = [], account_tx = [], account_block = [],
      account_iterator = [], journal = [], warm_addresses = [], warm_slots = [],
      current_warm_epoch = 1, logs = [], transaction_log_start = 0, current_log = None,
      authorizations = [], bal_accounts = {}, bal_addresses = [], bal_storage_changes = [],
      bal_storage_reads = {}, bal_balance_changes = [], bal_nonce_changes = [],
      bal_code_changes = [], bal_iterator = []\<rparr>"

section \<open>Keys\<close>

definition fixed_wire_bytes :: "bytes \<Rightarrow> bytes" where
  "fixed_wire_bytes value = rev value"

definition address_key :: "address \<Rightarrow> bytes" where
  "address_key value = fixed_wire_bytes value"

definition hash_key :: "hash \<Rightarrow> bytes" where
  "hash_key value = fixed_wire_bytes value"

definition storage_key_of :: "storage_key \<Rightarrow> bytes \<times> int" where
  "storage_key_of value = (address_key (key_addr value), key_slot value)"

definition address_slot_key :: "address \<Rightarrow> int \<Rightarrow> bytes \<times> int" where
  "address_slot_key a slot = (address_key a, slot)"

definition bytes32_from_wire :: "bytes \<Rightarrow> hash" where
  "bytes32_from_wire value = rev value"

definition bytes20_from_wire :: "bytes \<Rightarrow> address" where
  "bytes20_from_wire value = rev value"

definition zero_hash :: hash where
  "zero_hash = bytes32_from_wire (zeros 32)"

text \<open>\<open>KECCAK_EMPTY\<close> and \<open>EMPTY_TRIE_ROOT\<close> of \<open>primitives/crypto.py\<close>, as wire bytes.\<close>

definition KECCAK_EMPTY :: hash where
  "KECCAK_EMPTY = bytes32_from_wire (to_bytes_big
     0xc5d2460186f7233c927e7db2dcc703c0e500b653ca82273b7bfad8045d85a470 32)"

definition EMPTY_TRIE_ROOT :: hash where
  "EMPTY_TRIE_ROOT = bytes32_from_wire (to_bytes_big
     0x56e81f171bcc55a6ff8345e692c0f86e5b48e01b996cadc001622fb5e363b421 32)"

lemmas key_defs = address_key_def hash_key_def storage_key_of_def address_slot_key_def
  fixed_wire_bytes_def bytes32_from_wire_def bytes20_from_wire_def

lemma address_key_inject [simp]: "address_key a = address_key b \<longleftrightarrow> a = b"
  by (simp add: key_defs)

lemma storage_key_of_inject [simp]: "storage_key_of k = storage_key_of l \<longleftrightarrow> k = l"
  by (cases k, cases l) (simp add: key_defs)

lemma storage_key_of_make [simp]:
  "storage_key_of \<lparr>key_addr = a, key_slot = s\<rparr> = address_slot_key a s"
  by (simp add: key_defs)

lemma fst_storage_key_of [simp]: "fst (storage_key_of k) = address_key (key_addr k)"
  by (simp add: storage_key_of_def)

end
