(* ===== verification/Words.thy ===== *)
theory Words
  imports Py_Base "HOL-Library.Signed_Division"
begin

unbundle bit_operations_syntax

text \<open>
  The 256-bit word operations of \<open>extractions/python/src/evm/prelude.py\<close> over Python's
  unbounded integers (a word is a Python integer in \<open>0 .. 2^256 - 1\<close>), with the integer
  primitives of \<open>_runtime.py\<close> they call. Each operation is written as the source computes
  it (reduction modulo \<open>2^256\<close>, magnitudes and sign bits, masks, the square-and-multiply
  loop); the lemmas relate it to the operation of HOL-Library's \<open>256 word\<close>, so the
  wrap-around, the signed readings and the range of every result are theorems.
\<close>

section \<open>Integer primitives of the runtime\<close>

text \<open>
  The source raises \<open>ZeroDivisionError\<close> for divisor 0; every caller has excluded it or
  passes a positive constant.
\<close>

definition sail_emod_int :: "int \<Rightarrow> int \<Rightarrow> int" where
  "sail_emod_int dividend divisor = dividend mod \<bar>divisor\<bar>"

definition sail_ediv_int :: "int \<Rightarrow> int \<Rightarrow> int" where
  "sail_ediv_int dividend divisor = (dividend - sail_emod_int dividend divisor) div divisor"

definition sail_tdiv_int :: "int \<Rightarrow> int \<Rightarrow> int" where
  "sail_tdiv_int dividend divisor =
     (let quotient = \<bar>dividend\<bar> div \<bar>divisor\<bar>
      in if (dividend < 0) \<noteq> (divisor < 0) then - quotient else quotient)"

definition sail_tmod_int :: "int \<Rightarrow> int \<Rightarrow> int" where
  "sail_tmod_int dividend divisor = dividend - sail_tdiv_int dividend divisor * divisor"

lemma sail_tdiv_int_nonneg [simp]:
  "0 \<le> n \<Longrightarrow> 0 < d \<Longrightarrow> sail_tdiv_int n d = n div d"
  by (simp add: sail_tdiv_int_def)

lemma sail_tmod_int_nonneg [simp]:
  "0 \<le> n \<Longrightarrow> 0 < d \<Longrightarrow> sail_tmod_int n d = n mod d"
  by (simp add: sail_tmod_int_def minus_div_mult_eq_mod)

lemma sail_ediv_int_pos [simp]: "0 < d \<Longrightarrow> sail_ediv_int n d = n div d"
  by (simp add: sail_ediv_int_def sail_emod_int_def minus_mod_eq_mult_div)

text \<open>A \<open>Bits\<close> value of a given width: construction masks (\<open>Bits.__post_init__\<close>).\<close>

definition bits :: "nat \<Rightarrow> int \<Rightarrow> int" where
  "bits width value = value AND (2 ^ width - 1)"

lemma bits_take_bit: "bits width value = take_bit width value"
  by (simp add: bits_def take_bit_eq_mask mask_eq_exp_minus_1)

lemma bits_mod: "bits width value = value mod 2 ^ width"
  by (simp add: bits_take_bit take_bit_eq_mod)

lemma bits_bounds [simp]: "0 \<le> bits width value" "bits width value < 2 ^ width"
  by (simp_all add: bits_mod)

lemma bits_id [simp]: "0 \<le> v \<Longrightarrow> v < 2 ^ w \<Longrightarrow> bits w v = v"
  by (simp add: bits_mod)

text \<open>Python's \<open>int.bit_length\<close> on a non-negative integer.\<close>

function bit_length :: "int \<Rightarrow> int" where
  "bit_length v = (if v \<le> 0 then 0 else 1 + bit_length (v div 2))"
  by pat_completeness auto
termination
  by (relation "measure nat") auto

declare bit_length.simps [simp del]

lemma bit_length_0 [simp]: "bit_length 0 = 0"
  by (simp add: bit_length.simps)

lemma bit_length_nonneg [simp]: "0 \<le> bit_length v"
  by (induction v rule: bit_length.induct) (simp add: bit_length.simps [of v for v])

lemma bit_length_upper: "0 \<le> v \<Longrightarrow> v < 2 ^ nat (bit_length v)"
proof (induction v rule: bit_length.induct)
  case (1 v)
  show ?case
  proof (cases "v \<le> 0")
    case True
    with "1.prems" show ?thesis by simp
  next
    case False
    then have "v div 2 < 2 ^ nat (bit_length (v div 2))"
      using "1.IH" by simp
    then have "v < 2 * 2 ^ nat (bit_length (v div 2))" by linarith
    moreover have "nat (1 + bit_length (v div 2)) = Suc (nat (bit_length (v div 2)))"
      by (simp add: nat_add_distrib)
    ultimately show ?thesis
      using False by (simp add: bit_length.simps [of v])
  qed
qed

lemma bit_length_lower: "0 < v \<Longrightarrow> 2 ^ nat (bit_length v - 1) \<le> v"
proof (induction v rule: bit_length.induct)
  case (1 v)
  show ?case
  proof (cases "v = 1")
    case True
    then show ?thesis by (simp add: bit_length.simps [of 1])
  next
    case False
    with "1.prems" have v: "2 \<le> v" "0 < v div 2" by auto
    then have "1 \<le> bit_length (v div 2)"
      by (simp add: bit_length.simps [of "v div 2"])
    then have "nat (bit_length (v div 2)) = Suc (nat (bit_length (v div 2) - 1))"
      by linarith
    moreover have "2 ^ nat (bit_length (v div 2) - 1) \<le> v div 2"
      using "1.IH" v by simp
    then have "2 * 2 ^ nat (bit_length (v div 2) - 1) \<le> v" by linarith
    ultimately show ?thesis
      using v by (simp add: bit_length.simps [of v])
  qed
qed

lemma bit_length_le: "0 \<le> v \<Longrightarrow> v < 2 ^ n \<Longrightarrow> bit_length v \<le> int n"
proof (rule ccontr)
  assume v: "0 \<le> v" "v < 2 ^ n" and "\<not> bit_length v \<le> int n"
  then have n: "n \<le> nat (bit_length v - 1)" and "v \<noteq> 0" by auto
  with v have "2 ^ nat (bit_length v - 1) \<le> v" by (simp add: bit_length_lower)
  moreover have "(2::int) ^ n \<le> 2 ^ nat (bit_length v - 1)"
    using n by (rule power_increasing) simp
  ultimately show False using v by linarith
qed

lemma bit_length_unique:
  assumes "2 ^ n \<le> v" and "v < 2 ^ Suc n"
  shows "bit_length v = int n + 1"
proof -
  have "0 < v" using assms(1) zero_less_power [of "2::int" n] by linarith
  then have le: "bit_length v \<le> int n + 1" and pos: "1 \<le> bit_length v"
    using assms(2) bit_length_le [of v "Suc n"] by (simp_all add: bit_length.simps [of v])
  have "v < 2 ^ nat (bit_length v)" using \<open>0 < v\<close> by (simp add: bit_length_upper)
  with assms(1) have "(2::int) ^ n < 2 ^ nat (bit_length v)" by linarith
  then have "n < nat (bit_length v)" by simp
  with le pos show ?thesis by linarith
qed

section \<open>Constants\<close>

abbreviation word_modulus :: int where
  "word_modulus \<equiv> 2 ^ 256"

definition WORD_ZERO :: int where "WORD_ZERO = 0"
definition WORD_ONE :: int where "WORD_ONE = 1"
definition ZERO_WORD :: int where "ZERO_WORD = 0"
definition WORD_ALL_ONES :: int where "WORD_ALL_ONES = 2 ^ 256 - 1"
definition WORD_SIGN_BIT :: int where "WORD_SIGN_BIT = 2 ^ 255"

lemmas word_constants = WORD_ZERO_def WORD_ONE_def ZERO_WORD_def WORD_ALL_ONES_def

definition word_range :: "int \<Rightarrow> bool" where
  "word_range w \<longleftrightarrow> 0 \<le> w \<and> w < word_modulus"

lemma word_range_uint [simp]: "word_range (uint (a :: 256 word))"
  using uint_lt2p [of a] by (simp add: word_range_def)

lemma word_range_uintE:
  assumes "word_range w"
  obtains a :: "256 word" where "w = uint a"
proof
  show "w = uint (word_of_int w :: 256 word)"
    using assms by (simp add: word_range_def uint_word_of_int)
qed

section \<open>Word operations\<close>

definition word_add_word :: "int \<Rightarrow> int \<Rightarrow> int" where
  "word_add_word left right = sail_tmod_int (left + right) word_modulus"

definition word_sub_word :: "int \<Rightarrow> int \<Rightarrow> int" where
  "word_sub_word left right =
     (if right \<le> left then left - right
      else let maximum = word_modulus - 1 in (maximum - (right - left)) + 1)"

definition word_and :: "int \<Rightarrow> int \<Rightarrow> int" where
  "word_and left right = bits 256 (bits 256 left AND bits 256 right)"

definition word_or :: "int \<Rightarrow> int \<Rightarrow> int" where
  "word_or left right = bits 256 (bits 256 left OR bits 256 right)"

definition word_xor :: "int \<Rightarrow> int \<Rightarrow> int" where
  "word_xor left right = bits 256 (bits 256 left XOR bits 256 right)"

definition word_not :: "int \<Rightarrow> int" where
  "word_not value = bits 256 (NOT (bits 256 value))"

text \<open>\<open>Bits.access\<close>: a single bit, as 0 or 1.\<close>

definition word_bit :: "int \<Rightarrow> int \<Rightarrow> int" where
  "word_bit value index = bits 1 (drop_bit (nat index) (bits 256 value) AND 1)"

definition word_low_byte :: "int \<Rightarrow> int" where
  "word_low_byte value = bits 8 value"

definition word_shift_right_one :: "int \<Rightarrow> int" where
  "word_shift_right_one value = sail_tdiv_int value 2"

definition word_of_bool :: "bool \<Rightarrow> int" where
  "word_of_bool b = (if b then WORD_ONE else WORD_ZERO)"

definition word_is_zero :: "int \<Rightarrow> bool" where
  "word_is_zero w \<longleftrightarrow> w = WORD_ZERO"

definition word_nonzero :: "int \<Rightarrow> bool" where
  "word_nonzero w \<longleftrightarrow> \<not> word_is_zero w"

definition word_ult :: "int \<Rightarrow> int \<Rightarrow> bool" where
  "word_ult a b \<longleftrightarrow> a < b"

definition word_ule :: "int \<Rightarrow> int \<Rightarrow> bool" where
  "word_ule a b \<longleftrightarrow> \<not> word_ult b a"

text \<open>\<open>64 - leading\<close> where \<open>count_leading_zeros\<close> is the width less the bit length.\<close>

definition u64_bit_length :: "int \<Rightarrow> int" where
  "u64_bit_length value = 64 - (64 - bit_length (bits 64 value))"

definition word_bit_length :: "int \<Rightarrow> int" where
  "word_bit_length value =
     (let limb3 = bits 64 (drop_bit 192 value)
      in if limb3 \<noteq> 0 then 192 + u64_bit_length limb3
         else let limb2 = bits 64 (drop_bit 128 value)
         in if limb2 \<noteq> 0 then 128 + u64_bit_length limb2
            else let limb1 = bits 64 (drop_bit 64 value)
            in if limb1 \<noteq> 0 then 64 + u64_bit_length limb1
               else let limb0 = bits 64 (drop_bit 0 value)
               in u64_bit_length limb0)"

definition word_mul_word :: "int \<Rightarrow> int \<Rightarrow> int" where
  "word_mul_word a b = sail_tmod_int (a * b) word_modulus"

definition word_div_word :: "int \<Rightarrow> int \<Rightarrow> int" where
  "word_div_word dividend divisor =
     (if divisor = 0 then WORD_ZERO else sail_tdiv_int dividend divisor)"

definition word_mod_word :: "int \<Rightarrow> int \<Rightarrow> int" where
  "word_mod_word dividend divisor =
     (if divisor = 0 then WORD_ZERO else sail_tmod_int dividend divisor)"

definition word_greater_than_word :: "int \<Rightarrow> int \<Rightarrow> bool" where
  "word_greater_than_word left right \<longleftrightarrow> left > right"

definition word_shift_left :: "int \<Rightarrow> int \<Rightarrow> int" where
  "word_shift_left value amount = bits 256 (push_bit (nat amount) (bits 256 value))"

definition word_shift_right :: "int \<Rightarrow> int \<Rightarrow> int" where
  "word_shift_right value amount = bits 256 (drop_bit (nat amount) (bits 256 value))"

definition word_byte_length :: "int \<Rightarrow> int" where
  "word_byte_length value =
     (let bit_len = word_bit_length value
      in if bit_len = 0 then 0 else sail_tdiv_int (bit_len + 7) 8)"

definition word_arithmetic_shift_right :: "int \<Rightarrow> int \<Rightarrow> int" where
  "word_arithmetic_shift_right value amount =
     (let shifted = word_shift_right value amount; sign_bit = word_bit value 255
      in if sign_bit = 1
         then let sign_fill = word_shift_left WORD_ALL_ONES (256 - amount)
              in word_or shifted sign_fill
         else shifted)"

definition word_negate :: "int \<Rightarrow> int" where
  "word_negate value = word_sub_word WORD_ZERO value"

definition word_abs :: "int \<Rightarrow> int" where
  "word_abs value = (if word_bit value 255 = 1 then word_negate value else value)"

definition word_slt :: "int \<Rightarrow> int \<Rightarrow> bool" where
  "word_slt a b =
     (let a_neg = (word_bit a 255 = 1); b_neg = (word_bit b 255 = 1)
      in if a_neg then (if b_neg then word_ult a b else True)
         else (if b_neg then False else word_ult a b))"

section \<open>The ALU\<close>

definition alu_add :: "int \<Rightarrow> int \<Rightarrow> int" where
  "alu_add a b = word_add_word a b"

definition alu_sub :: "int \<Rightarrow> int \<Rightarrow> int" where
  "alu_sub a b = word_sub_word a b"

definition alu_mul :: "int \<Rightarrow> int \<Rightarrow> int" where
  "alu_mul a b = word_mul_word a b"

definition alu_div :: "int \<Rightarrow> int \<Rightarrow> int" where
  "alu_div a b = word_div_word a b"

definition alu_mod :: "int \<Rightarrow> int \<Rightarrow> int" where
  "alu_mod a b = word_mod_word a b"

definition alu_sdiv :: "int \<Rightarrow> int \<Rightarrow> int" where
  "alu_sdiv a b =
     (if word_is_zero b then WORD_ZERO
      else let quotient = word_div_word (word_abs a) (word_abs b);
               dividend_sign = word_bit a 255; divisor_sign = word_bit b 255
           in if (dividend_sign = 1) \<noteq> (divisor_sign = 1) then word_negate quotient
              else quotient)"

definition alu_smod :: "int \<Rightarrow> int \<Rightarrow> int" where
  "alu_smod a b =
     (if word_is_zero b then WORD_ZERO
      else let remainder = word_mod_word (word_abs a) (word_abs b)
           in if word_bit a 255 = 1 then word_negate remainder else remainder)"

definition alu_addmod :: "int \<Rightarrow> int \<Rightarrow> int \<Rightarrow> int" where
  "alu_addmod a b n = (if n = 0 then WORD_ZERO else sail_tmod_int (a + b) n)"

definition alu_mulmod :: "int \<Rightarrow> int \<Rightarrow> int \<Rightarrow> int" where
  "alu_mulmod a b n = (if n = 0 then WORD_ZERO else sail_tmod_int (a * b) n)"

text \<open>The loop of \<open>alu_exp\<close>, one equation per iteration.\<close>

function alu_exp_loop :: "int \<Rightarrow> int \<Rightarrow> int \<Rightarrow> int \<Rightarrow> int" where
  "alu_exp_loop result b e remaining =
     (if \<not> remaining > 0 then result
      else let rounds_left = remaining;
               result' = (if word_bit e 0 = 1 then word_mul_word result b else result);
               b' = (if rounds_left > 1 then word_mul_word b b else b);
               e' = word_shift_right_one e
           in alu_exp_loop result' b' e' (if rounds_left > 0 then rounds_left - 1 else 0))"
  by pat_completeness auto
termination
  by (relation "measure (\<lambda>(result, b, e, remaining). nat remaining)") auto

declare alu_exp_loop.simps [simp del]

definition alu_exp :: "int \<Rightarrow> int \<Rightarrow> int" where
  "alu_exp base exponent = alu_exp_loop WORD_ONE base exponent (word_bit_length exponent)"

definition alu_signextend :: "int \<Rightarrow> int \<Rightarrow> int" where
  "alu_signextend byte_index value =
     (if byte_index < 32 then
        let index = byte_index;
            width = index * 8 + 8;
            sign_shift = index * 8 + 7;
            shifted_sign = word_shift_right value sign_shift;
            isolated_sign = word_and shifted_sign WORD_ONE;
            sign_set = (isolated_sign = WORD_ONE);
            low_mask_end = word_shift_left WORD_ONE width;
            low_mask = word_sub_word low_mask_end WORD_ONE
        in if sign_set then
             let low_value = word_and value low_mask; high_mask = word_not low_mask
             in word_or low_value high_mask
           else word_and value low_mask
      else value)"

definition alu_lt :: "int \<Rightarrow> int \<Rightarrow> int" where
  "alu_lt a b = word_of_bool (word_ult a b)"

definition alu_gt :: "int \<Rightarrow> int \<Rightarrow> int" where
  "alu_gt a b = word_of_bool (word_ult b a)"

definition alu_slt :: "int \<Rightarrow> int \<Rightarrow> int" where
  "alu_slt a b = word_of_bool (word_slt a b)"

definition alu_sgt :: "int \<Rightarrow> int \<Rightarrow> int" where
  "alu_sgt a b = word_of_bool (word_slt b a)"

definition alu_eq :: "int \<Rightarrow> int \<Rightarrow> int" where
  "alu_eq a b = word_of_bool (a = b)"

definition alu_iszero :: "int \<Rightarrow> int" where
  "alu_iszero a = word_of_bool (word_is_zero a)"

definition alu_and :: "int \<Rightarrow> int \<Rightarrow> int" where
  "alu_and a b = word_and a b"

definition alu_or :: "int \<Rightarrow> int \<Rightarrow> int" where
  "alu_or a b = word_or a b"

definition alu_xor :: "int \<Rightarrow> int \<Rightarrow> int" where
  "alu_xor a b = word_xor a b"

definition alu_not :: "int \<Rightarrow> int" where
  "alu_not a = word_not a"

definition alu_byte :: "int \<Rightarrow> int \<Rightarrow> int" where
  "alu_byte i x =
     (if i < 32 then
        let index = i; shift = (31 - index) * 8
        in word_low_byte (word_shift_right x shift)
      else WORD_ZERO)"

definition alu_shl :: "int \<Rightarrow> int \<Rightarrow> int" where
  "alu_shl shift_amt v = (if shift_amt < 256 then word_shift_left v shift_amt else WORD_ZERO)"

definition alu_shr :: "int \<Rightarrow> int \<Rightarrow> int" where
  "alu_shr shift_amt v = (if shift_amt < 256 then word_shift_right v shift_amt else WORD_ZERO)"

definition alu_sar :: "int \<Rightarrow> int \<Rightarrow> int" where
  "alu_sar shift_amt v =
     (if shift_amt < 256 then word_arithmetic_shift_right v shift_amt
      else if word_bit v 255 = 1 then WORD_ALL_ONES else WORD_ZERO)"

definition alu_clz :: "int \<Rightarrow> int" where
  "alu_clz x = 256 - word_bit_length x"

lemmas alu_defs =
  alu_add_def alu_sub_def alu_mul_def alu_div_def alu_mod_def alu_sdiv_def alu_smod_def
  alu_addmod_def alu_mulmod_def alu_exp_def alu_signextend_def alu_lt_def alu_gt_def
  alu_slt_def alu_sgt_def alu_eq_def alu_iszero_def alu_and_def alu_or_def alu_xor_def
  alu_not_def alu_byte_def alu_shl_def alu_shr_def alu_sar_def alu_clz_def

section \<open>Agreement with the machine word operations\<close>

named_theorems word_model "value of each source operation on machine words"

lemma bits_uint [simp]: "bits 256 (uint (a :: 256 word)) = uint a"
  using uint_lt2p [of a] by simp

lemma take_bit_uint_256 [simp]: "take_bit 256 (uint (a :: 256 word)) = uint a"
  by (metis bits_uint bits_take_bit)

lemma bits_256_uint: "bits 256 v = uint (word_of_int v :: 256 word)"
  by (simp add: bits_mod uint_word_of_int)

lemma word_add_word_model [word_model]:
  "word_add_word (uint a) (uint b) = uint (a + b :: 256 word)"
  by (simp add: word_add_word_def uint_word_ariths)

lemma word_sub_word_mod:
  "word_range a \<Longrightarrow> word_range b \<Longrightarrow> word_sub_word a b = (a - b) mod word_modulus"
proof (cases "b \<le> a")
  case True
  assume "word_range a" "word_range b"
  with True have "(a - b) mod word_modulus = a - b"
    by (intro mod_pos_pos_trivial) (auto simp: word_range_def)
  with True show ?thesis by (simp add: word_sub_word_def)
next
  case False
  assume ab: "word_range a" "word_range b"
  have "(a - b) mod word_modulus = (a - b + word_modulus) mod word_modulus"
    by (rule mod_add_self2 [symmetric])
  also have "\<dots> = a - b + word_modulus"
    using False ab by (intro mod_pos_pos_trivial) (auto simp: word_range_def)
  finally show ?thesis using False by (simp add: word_sub_word_def Let_def)
qed

lemma word_sub_word_model [word_model]:
  "word_sub_word (uint a) (uint b) = uint (a - b :: 256 word)"
  by (simp add: word_sub_word_mod uint_word_ariths)

lemma word_mul_word_model [word_model]:
  "word_mul_word (uint a) (uint b) = uint (a * b :: 256 word)"
  by (simp add: word_mul_word_def uint_word_ariths)

lemma word_div_word_model [word_model]:
  "word_div_word (uint a) (uint b) = uint (a div b :: 256 word)"
  by (simp add: word_div_word_def WORD_ZERO_def uint_div_distrib uint_0_iff order_less_le)

lemma word_mod_word_model [word_model]:
  "word_mod_word (uint a) (uint b) = (if b = 0 then 0 else uint (a mod b :: 256 word))"
  by (simp add: word_mod_word_def WORD_ZERO_def uint_mod_distrib uint_0_iff order_less_le)

lemma word_and_model [word_model]:
  "word_and (uint a) (uint b) = uint (a AND b :: 256 word)"
  by (simp add: word_and_def flip: uint_and)

lemma word_or_model [word_model]:
  "word_or (uint a) (uint b) = uint (a OR b :: 256 word)"
  by (simp add: word_or_def flip: uint_or)

lemma word_xor_model [word_model]:
  "word_xor (uint a) (uint b) = uint (a XOR b :: 256 word)"
  by (simp add: word_xor_def flip: uint_xor)

lemma word_not_model [word_model]:
  "word_not (uint a) = uint (NOT a :: 256 word)"
  by (simp only: word_not_def bits_uint) (simp add: unsigned_not_eq bits_take_bit)

lemma word_bit_model [word_model]:
  "word_bit (uint a) i = of_bool (bit (a :: 256 word) (nat i))"
proof -
  have "drop_bit (nat i) (uint a) AND 1 = of_bool (bit (uint a) (nat i))"
    by (simp add: and_one_eq bit_iff_odd drop_bit_eq_div odd_iff_mod_2_eq_one)
  moreover have "bit (uint a) (nat i) = bit a (nat i)"
    using bit_imp_le_length [of a] by (auto simp: bit_uint_iff)
  ultimately show ?thesis
    by (simp only: word_bit_def bits_uint) (simp add: bits_take_bit)
qed

lemma word_shift_left_model [word_model]:
  "word_shift_left (uint a) n = uint (push_bit (nat n) a :: 256 word)"
  by (simp only: word_shift_left_def bits_uint) (simp add: unsigned_push_bit_eq bits_take_bit)

lemma word_shift_right_model [word_model]:
  "word_shift_right (uint a) n = uint (drop_bit (nat n) a :: 256 word)"
proof -
  have "uint (drop_bit (nat n) a) = drop_bit (nat n) (uint a)"
    by (simp add: unsigned_drop_bit_eq)
  moreover have "drop_bit (nat n) (uint a) = bits 256 (drop_bit (nat n) (uint a))"
    using uint_lt2p [of "drop_bit (nat n) a"] calculation by (metis bits_uint)
  ultimately show ?thesis by (simp add: word_shift_right_def)
qed

text \<open>The sign bit and the magnitude of the two's complement reading.\<close>

lemma word_sign_model: "(word_bit (uint a) 255 = 1) \<longleftrightarrow> sint (a :: 256 word) < 0"
  using bit_last_iff [of a] by (simp add: word_bit_model)

lemma sint_range_256: "- (2 ^ 255) \<le> sint (a :: 256 word)" "sint (a :: 256 word) < 2 ^ 255"
  using sint_ge [of a] sint_lt [of a] by simp_all

lemma uint_sint_256:
  "uint (a :: 256 word) = (if sint a < 0 then sint a + word_modulus else sint a)"
proof -
  have "uint a = sint a mod word_modulus"
    by (simp add: uint_sint take_bit_eq_mod)
  also have "\<dots> = (if sint a < 0 then sint a + word_modulus else sint a)"
  proof (cases "sint a < 0")
    case True
    have "sint a mod word_modulus = (sint a + word_modulus) mod word_modulus"
      by (rule mod_add_self2 [symmetric])
    also have "\<dots> = sint a + word_modulus"
      using True sint_range_256 [of a] by (intro mod_pos_pos_trivial) simp_all
    finally show ?thesis using True by simp
  next
    case False
    then show ?thesis
      using sint_range_256 [of a] by (simp add: mod_pos_pos_trivial)
  qed
  finally show ?thesis .
qed

lemma word_negate_mod: "word_range q \<Longrightarrow> word_negate q = (- q) mod word_modulus"
  by (simp add: word_negate_def WORD_ZERO_def word_sub_word_mod word_range_def)

lemma word_abs_model [word_model]: "word_abs (uint a) = \<bar>sint (a :: 256 word)\<bar>"
proof (cases "sint a < 0")
  case True
  then have "(- uint a) mod word_modulus = (- sint a - word_modulus) mod word_modulus"
    by (simp add: uint_sint_256)
  also have "\<dots> = (- sint a) mod word_modulus"
    by (rule minus_mod_self2)
  also have "\<dots> = - sint a"
    using True sint_range_256 [of a] by (intro mod_pos_pos_trivial) simp_all
  finally show ?thesis
    using True by (simp add: word_abs_def word_sign_model word_negate_mod)
next
  case False
  then have "word_abs (uint a) = uint a"
    by (simp add: word_abs_def word_sign_model)
  with False show ?thesis by (simp add: uint_sint_256)
qed

lemma word_slt_model [word_model]:
  fixes a b :: "256 word"
  shows "word_slt (uint a) (uint b) \<longleftrightarrow> sint a < sint b"
proof -
  have "word_slt (uint a) (uint b) \<longleftrightarrow>
      (if sint a < 0 then (if sint b < 0 then uint a < uint b else True)
       else (if sint b < 0 then False else uint a < uint b))"
    by (simp add: word_slt_def word_sign_model Let_def word_ult_def)
  then show ?thesis by (auto simp: uint_sint_256)
qed

lemma word_of_bool_model [word_model]: "word_of_bool b = of_bool b"
  by (simp add: word_of_bool_def word_constants)

section \<open>Correctness of the ALU\<close>

lemma alu_add_model: "alu_add (uint a) (uint b) = uint (a + b :: 256 word)"
  by (simp add: alu_defs word_model)

lemma alu_sub_model: "alu_sub (uint a) (uint b) = uint (a - b :: 256 word)"
  by (simp add: alu_defs word_model)

lemma alu_mul_model: "alu_mul (uint a) (uint b) = uint (a * b :: 256 word)"
  by (simp add: alu_defs word_model)

lemma alu_div_model: "alu_div (uint a) (uint b) = uint (a div b :: 256 word)"
  by (simp add: alu_defs word_model)

lemma alu_sdiv_model:
  fixes a b :: "256 word"
  shows "alu_sdiv (uint a) (uint b) = (sint a sdiv sint b) mod word_modulus"
proof (cases "b = 0")
  case True
  then show ?thesis by (simp add: alu_sdiv_def word_is_zero_def word_constants)
next
  case False
  let ?q = "\<bar>sint a\<bar> div \<bar>sint b\<bar>"
  have b: "\<bar>sint b\<bar> \<noteq> 0" using False by (metis abs_0_eq signed_eq_0_iff)
  then have q: "word_div_word (word_abs (uint a)) (word_abs (uint b)) = ?q"
    by (simp add: word_model word_div_word_def)
  have "?q \<le> \<bar>sint a\<bar>" using zdiv_mono2 [of "\<bar>sint a\<bar>" 1 "\<bar>sint b\<bar>"] b by simp
  then have range: "word_range ?q"
    using sint_range_256 [of a] b by (auto simp: word_range_def pos_imp_zdiv_nonneg_iff)
  have pos: "?q mod word_modulus = ?q"
    using range by (simp add: word_range_def mod_pos_pos_trivial)
  have "sint a sdiv sint b = (if (sint a < 0) \<noteq> (sint b < 0) then - ?q else ?q)"
    using b by (auto simp: signed_divide_int_def sgn_if)
  moreover have "alu_sdiv (uint a) (uint b) =
      (if (sint a < 0) \<noteq> (sint b < 0) then word_negate ?q else ?q)"
    using False by (simp add: alu_sdiv_def word_is_zero_def word_constants q word_sign_model uint_0_iff)
  ultimately show ?thesis
    using range pos by (simp add: word_negate_mod)
qed

lemma alu_smod_model:
  fixes a b :: "256 word"
  assumes "b \<noteq> 0"
  shows "alu_smod (uint a) (uint b) = (sint a smod sint b) mod word_modulus"
proof -
  define r where "r = \<bar>sint a\<bar> mod \<bar>sint b\<bar>"
  have b: "\<bar>sint b\<bar> \<noteq> 0" using assms by (metis abs_0_eq signed_eq_0_iff)
  then have r: "word_mod_word (word_abs (uint a)) (word_abs (uint b)) = r"
    by (simp add: word_model word_mod_word_def r_def)
  have "0 \<le> r" "r < \<bar>sint b\<bar>" using b by (simp_all add: r_def)
  then have range: "word_range r"
    using sint_range_256 [of b] by (auto simp: word_range_def)
  have pos: "r mod word_modulus = r"
    using range by (simp add: word_range_def mod_pos_pos_trivial)
  have "sint a smod sint b = (if sint a < 0 then - r else r)"
    using b by (auto simp: signed_modulo_int_def sgn_if r_def)
  moreover have "alu_smod (uint a) (uint b) = (if sint a < 0 then word_negate r else r)"
    using assms by (simp add: alu_smod_def word_is_zero_def word_constants r word_sign_model uint_0_iff)
  ultimately show ?thesis
    using range pos by (simp add: word_negate_mod)
qed

lemma word_mul_word_mod:
  "word_range a \<Longrightarrow> word_range b \<Longrightarrow> word_mul_word a b = a * b mod word_modulus"
  by (simp add: word_mul_word_def word_range_def)

lemma word_range_mod [simp]: "word_range (a mod word_modulus)"
  by (simp add: word_range_def)

lemma word_range_mod_numeral [simp]:
  "word_range (a mod 115792089237316195423570985008687907853269984665640564039457584007913129639936)"
  by (simp add: word_range_def)

lemma word_bit_0: "word_range e \<Longrightarrow> word_bit e 0 = e mod 2"
  by (erule word_range_uintE) (simp add: word_bit_def bits_take_bit and_one_eq)

text \<open>
  The loop invariant: \<open>result * b ^ e\<close> is constant modulo \<open>2^256\<close>. The base is squared in
  every round but the last, where the remaining exponent is already used up.
\<close>

lemma alu_exp_loop_correct:
  assumes "word_range result" and "word_range b" and "0 \<le> e" and "e < 2 ^ nat remaining"
    and "0 \<le> remaining" and "remaining \<le> 256"
  shows "alu_exp_loop result b e remaining = result * b ^ nat e mod word_modulus"
  using assms
proof (induction result b e remaining rule: alu_exp_loop.induct)
  case (1 result b e remaining)
  let ?M = "word_modulus"
  define r where "r = (if word_bit e 0 = 1 then word_mul_word result b else result)"
  define c where "c = (if remaining > 1 then word_mul_word b b else b)"
  show ?case
  proof (cases "remaining > 0")
    case False
    with "1.prems" show ?thesis
      by (simp add: alu_exp_loop.simps [of result b e] word_range_def)
  next
    case True
    have pow: "(2::int) ^ nat remaining = 2 * 2 ^ nat (remaining - 1)"
      using True by (simp flip: power_Suc add: Suc_nat_eq_nat_zadd1)
    have "(2::int) ^ nat remaining \<le> ?M"
      using "1.prems" by (intro power_increasing) auto
    then have e: "word_range e" using "1.prems" by (simp add: word_range_def)
    have r: "word_range r" "r mod ?M = result * b ^ nat (e mod 2) mod ?M"
      using "1.prems" word_bit_0 [OF e] by (auto simp: r_def word_mul_word_mod mod_2_eq_odd)
    have c: "word_range c" using "1.prems" by (simp add: c_def word_mul_word_mod)
    have "alu_exp_loop result b e remaining = alu_exp_loop r c (e div 2) (remaining - 1)"
      using True "1.prems"
      by (simp add: alu_exp_loop.simps [of result b e] r_def c_def word_shift_right_one_def)
    also have "\<dots> = r * c ^ nat (e div 2) mod ?M"
    proof -
      have half: "word_shift_right_one e = e div 2"
        using "1.prems" by (simp add: word_shift_right_one_def)
      have next_round: "(if remaining > 0 then remaining - 1 else 0) = remaining - 1"
        using True by simp
      have "0 \<le> e div 2" "e div 2 < 2 ^ nat (remaining - 1)" "0 \<le> remaining - 1"
        "remaining - 1 \<le> 256"
        using "1.prems" pow True by simp_all
      then show ?thesis
        using "1.IH" [OF _ refl r_def c_def half [symmetric], unfolded next_round] True r(1) c
        by blast
    qed
    also have "\<dots> = result * b ^ nat (e mod 2) * b ^ (2 * nat (e div 2)) mod ?M"
    proof (cases "remaining > 1")
      case True
      then have "c = b * b mod ?M" using "1.prems" by (simp add: c_def word_mul_word_mod)
      then have "c ^ nat (e div 2) mod ?M = b ^ (2 * nat (e div 2)) mod ?M"
        by (simp add: power_mod power_mult power2_eq_square)
      with r(2) show ?thesis by (metis mod_mult_cong)
    next
      case False
      with \<open>remaining > 0\<close> have "remaining = 1" by simp
      with "1.prems" have "e div 2 = 0" by simp
      with r show ?thesis by simp
    qed
    also have "\<dots> = result * b ^ nat e mod ?M"
    proof -
      have "nat (e mod 2) + 2 * nat (e div 2) = nat e"
        using "1.prems" by (simp add: nat_mod_distrib nat_div_distrib)
      then show ?thesis by (simp add: mult.assoc flip: power_add)
    qed
    finally show ?thesis .
  qed
qed

lemma bit_length_drop: "0 < v div 2 ^ k \<Longrightarrow> bit_length v = int k + bit_length (v div 2 ^ k)"
proof (induction k arbitrary: v)
  case 0
  then show ?case by simp
next
  case (Suc k)
  have "v div 2 ^ Suc k = v div 2 div 2 ^ k" by (simp add: zdiv_zmult2_eq)
  moreover from this Suc.prems have "0 < v"
    by (metis div_neg_pos_less0 linorder_neqE_linordered_idom div_0 less_asym zero_less_numeral
        zero_less_power less_irrefl)
  ultimately show ?case
    using Suc.IH [of "v div 2"] Suc.prems by (simp add: bit_length.simps [of v])
qed

lemma word_bit_length_eq:
  assumes "word_range v"
  shows "word_bit_length v = bit_length v"
proof -
  have limb_range: "0 \<le> v div 2 ^ k" "v div 2 ^ k < 2 ^ 64" if "v < 2 ^ (k + 64)" for k
  proof -
    show "0 \<le> v div 2 ^ k"
      using assms by (simp add: word_range_def pos_imp_zdiv_nonneg_iff)
    have "v div 2 ^ k * 2 ^ k \<le> v"
      using div_mult_mod_eq [of v "2 ^ k"] pos_mod_sign [of "2 ^ k" v] zero_less_power [of "2::int" k]
      by linarith
    with that have "v div 2 ^ k * 2 ^ k < 2 ^ 64 * 2 ^ k"
      by (simp only: power_add mult.commute [of "2 ^ 64" "2 ^ k"])
    then show "v div 2 ^ k < 2 ^ 64" by simp
  qed
  have limb: "bits 64 (drop_bit k v) = v div 2 ^ k" if "v < 2 ^ (k + 64)" for k
    using limb_range [OF that] by (simp add: drop_bit_eq_div)
  have u64: "u64_bit_length x = bit_length x" if "0 \<le> x" "x < 2 ^ 64" for x
    using that by (simp add: u64_bit_length_def)
  have top: "bit_length v = int k + u64_bit_length (v div 2 ^ k)"
    if "v < 2 ^ (k + 64)" "v div 2 ^ k \<noteq> 0" for k
  proof -
    have "u64_bit_length (v div 2 ^ k) = bit_length (v div 2 ^ k)"
      using limb_range [OF that(1)] by (rule u64)
    with that(2) bit_length_drop [of v k] limb_range [OF that(1)] show ?thesis by simp
  qed
  have low: "v < 2 ^ k" if "v div 2 ^ k = 0" for k
    using that zero_less_power [of "2::int" k] unfolding zdiv_eq_0_iff by linarith
  have v: "0 \<le> v" "v < 2 ^ (192 + 64)" using assms by (simp_all add: word_range_def)
  have L3: "bits 64 (drop_bit 192 v) = v div 2 ^ 192" using v(2) by (rule limb)
  show ?thesis
  proof (cases "v div 2 ^ 192 = 0")
    case False
    with v top [of 192] show ?thesis by (simp add: word_bit_length_def L3 Let_def)
  next
    case h3: True
    then have "v < 2 ^ (128 + 64)" using low [of 192] by simp
    note r2 = limb [OF this] top [OF this]
    show ?thesis
    proof (cases "v div 2 ^ 128 = 0")
      case False
      then have "bit_length v = int 128 + u64_bit_length (v div 2 ^ 128)" by (rule r2(2))
      with False show ?thesis by (simp only: word_bit_length_def L3 h3 r2(1) Let_def) simp
    next
      case h2: True
      then have "v < 2 ^ (64 + 64)" using low [of 128] by simp
      note r1 = limb [OF this] top [OF this]
      show ?thesis
      proof (cases "v div 2 ^ 64 = 0")
        case False
        then have "bit_length v = int 64 + u64_bit_length (v div 2 ^ 64)" by (rule r1(2))
        with False show ?thesis
          by (simp only: word_bit_length_def L3 h3 r2(1) h2 r1(1) Let_def) simp
      next
        case h1: True
        then have small: "v < 2 ^ 64" by (rule low)
        then have "bits 64 (drop_bit 0 v) = v" using v(1) by simp
        then show ?thesis
          by (simp only: word_bit_length_def L3 h3 r2(1) h2 r1(1) h1 Let_def u64 [OF v(1) small]) simp
      qed
    qed
  qed
qed

lemma alu_exp_model:
  assumes "word_range base" and "word_range exponent"
  shows "alu_exp base exponent = base ^ nat exponent mod word_modulus"
proof -
  have e: "0 \<le> exponent" "exponent < 2 ^ 256"
    using assms(2) by (simp_all add: word_range_def)
  have "alu_exp base exponent = alu_exp_loop WORD_ONE base exponent (bit_length exponent)"
    using assms(2) by (simp only: alu_exp_def word_bit_length_eq)
  also have "\<dots> = WORD_ONE * base ^ nat exponent mod word_modulus"
  proof (rule alu_exp_loop_correct)
    show "exponent < 2 ^ nat (bit_length exponent)" using e(1) by (rule bit_length_upper)
    show "bit_length exponent \<le> 256" using bit_length_le [OF e] by simp
    show "word_range WORD_ONE" by (simp add: word_range_def WORD_ONE_def)
  qed (use assms e in simp_all)
  finally show ?thesis by (simp only: WORD_ONE_def mult_1)
qed

lemma word_one_model: "WORD_ONE = uint (1 :: 256 word)"
  by (simp add: WORD_ONE_def)

lemma word_all_ones_model: "WORD_ALL_ONES = uint (- 1 :: 256 word)"
  by (simp add: WORD_ALL_ONES_def unsigned_minus_1_eq_mask mask_eq_exp_minus_1)

lemma push_bit_1_minus_1: "push_bit n 1 - 1 = (mask n :: 256 word)"
  by (simp add: mask_eq_exp_minus_1 push_bit_of_1)

lemma signextend_word:
  fixes a :: "256 word"
  assumes "n < 256"
  shows "(if bit a n then (a AND mask (Suc n)) OR NOT (mask (Suc n)) else a AND mask (Suc n)) =
    signed_take_bit n a"
  using assms
  by (intro bit_word_eqI)
    (auto simp: bit_and_iff bit_or_iff bit_not_iff bit_mask_iff bit_signed_take_bit_iff min_def
      less_Suc_eq_le split: if_splits)

lemma alu_signextend_model:
  fixes a :: "256 word"
  assumes "0 \<le> i" and "i < 32"
  shows "alu_signextend i (uint a) = uint (signed_take_bit (8 * nat i + 7) a)"
proof -
  let ?n = "8 * nat i + 7"
  have n: "?n < 256" "nat (i * 8 + 7) = ?n" "nat (i * 8 + 8) = Suc ?n"
    using assms by auto
  have sign: "(word_and (word_shift_right (uint a) (i * 8 + 7)) WORD_ONE = WORD_ONE) = bit a ?n"
    unfolding word_one_model word_model n bit_iff_and_drop_bit_eq_1 [of a]
    by (rule word_uint_eq_iff [symmetric])
  have mask: "word_sub_word (word_shift_left WORD_ONE (i * 8 + 8)) WORD_ONE =
      uint (mask (Suc ?n) :: 256 word)"
    by (simp only: word_one_model word_model n push_bit_1_minus_1)
  have "alu_signextend i (uint a) =
      (if bit a ?n then uint ((a AND mask (Suc ?n)) OR NOT (mask (Suc ?n)))
       else uint (a AND mask (Suc ?n)))"
    unfolding alu_signextend_def Let_def unfolding sign mask
    using assms by (simp only: word_model if_True)
  also have "\<dots> = uint (signed_take_bit ?n a)"
    using signextend_word [OF n(1), of a] by (simp split: if_splits)
  finally show ?thesis .
qed

lemma alu_signextend_beyond: "32 \<le> i \<Longrightarrow> alu_signextend i v = v"
  by (simp add: alu_signextend_def)

lemma unat_less_256: "unat n < 256 \<longleftrightarrow> uint (n :: 256 word) < 256"
proof -
  have "unat n = nat (uint n)" by simp
  then show ?thesis by linarith
qed

lemma alu_shl_model: "alu_shl (uint n) (uint v) = uint (push_bit (unat n) v :: 256 word)"
  for n v :: "256 word"
proof (cases "uint n < 256")
  case True
  then show ?thesis by (simp add: alu_shl_def word_model)
next
  case False
  then have "\<not> unat n < 256" by (simp add: unat_less_256)
  then have "push_bit (unat n) v = 0"
    by (intro bit_word_eqI) (auto simp: bit_push_bit_iff)
  with False show ?thesis by (simp add: alu_shl_def WORD_ZERO_def)
qed

lemma alu_shr_model: "alu_shr (uint n) (uint v) = uint (drop_bit (unat n) v :: 256 word)"
  for n v :: "256 word"
proof (cases "uint n < 256")
  case True
  then show ?thesis by (simp add: alu_shr_def word_model)
next
  case False
  then have "256 \<le> unat n" using unat_less_256 [of n] by linarith
  then have "drop_bit (unat n) v = 0"
    by (intro bit_word_eqI) (auto simp: bit_drop_bit_eq dest!: bit_imp_le_length)
  with False show ?thesis by (simp add: alu_shr_def WORD_ZERO_def)
qed

lemma signed_drop_bit_fill:
  fixes v :: "256 word"
  assumes "n < 256"
  shows "signed_drop_bit n v =
    (if bit v 255 then drop_bit n v OR push_bit (256 - n) (- 1) else drop_bit n v)"
  using assms
  by (intro bit_word_eqI)
    (auto simp: bit_signed_drop_bit_iff bit_or_iff bit_not_iff bit_mask_iff bit_drop_bit_eq
      dest: bit_imp_le_length split: if_splits)

lemma alu_sar_model: "alu_sar (uint n) (uint v) = uint (signed_drop_bit (unat n) v :: 256 word)"
  for n v :: "256 word"
proof (cases "uint n < 256")
  case True
  then have n: "unat n < 256" "nat (256 - uint n) = 256 - unat n"
    by (simp_all add: unat_less_256 nat_diff_distrib)
  have "word_bit (uint v) 255 = of_bool (bit v 255)"
    by (simp add: word_bit_model)
  then show ?thesis
    using True signed_drop_bit_fill [OF n(1), of v]
    by (simp add: alu_sar_def word_arithmetic_shift_right_def word_all_ones_model word_model n
        Let_def del: unsigned_minus_1_eq_mask split: if_splits)
next
  case False
  then have "256 \<le> unat n" using unat_less_256 [of n] by linarith
  then have "signed_drop_bit (unat n) v = (if bit v 255 then - 1 else 0)"
    by (intro bit_word_eqI) (auto simp: bit_signed_drop_bit_iff dest: bit_imp_le_length)
  with False show ?thesis
    by (simp add: alu_sar_def word_bit_model word_all_ones_model WORD_ZERO_def
        del: unsigned_minus_1_eq_mask)
qed

lemma alu_byte_model:
  assumes "0 \<le> i" and "i < 32" and "word_range x"
  shows "alu_byte i x = x div 256 ^ nat (31 - i) mod 256"
proof -
  obtain a :: "256 word" where a: "x = uint a" using assms(3) by (rule word_range_uintE)
  have "nat ((31 - i) * 8) = 8 * nat (31 - i)" using assms by simp
  then have "word_shift_right x ((31 - i) * 8) = drop_bit (8 * nat (31 - i)) x"
    by (simp only: a word_shift_right_model) (simp add: unsigned_drop_bit_eq)
  then show ?thesis
    using assms by (simp add: alu_byte_def word_low_byte_def bits_mod drop_bit_eq_div power_mult)
qed

lemma alu_clz_model:
  assumes "word_range x"
  shows "alu_clz x = 256 - bit_length x"
  using assms by (simp add: alu_clz_def word_bit_length_eq)

section \<open>Properties\<close>

text \<open>C17: EXP by repeated squaring over the bits of the exponent is the power modulo 2^256.\<close>

theorem alu_exp_is_power:
  fixes b e :: "256 word"
  shows "alu_exp (uint b) (uint e) = uint (b ^ unat e)"
proof -
  have "b ^ unat e = word_of_int (uint b ^ unat e)" by simp
  then have "uint (b ^ unat e) = uint b ^ nat (uint e) mod 2 ^ 256"
    by (simp only: uint_word_of_int) simp
  then show ?thesis by (simp add: alu_exp_model)
qed

text \<open>C18: The signed operations of the ALU, SDIV, SMOD and SAR, and the comparisons SLT and SGT, are those
  of two's complement words: division truncates to zero and by zero gives zero (SMOD too), and
  a shift of 256 or more fills with the sign.\<close>

theorem alu_signed_operations:
  fixes a b :: "256 word"
  shows "alu_sdiv (uint a) (uint b) = uint (word_of_int (sint a sdiv sint b) :: 256 word) \<and>
    alu_smod (uint a) (uint b) =
      (if b = 0 then 0 else uint (word_of_int (sint a smod sint b) :: 256 word)) \<and>
    alu_sar (uint a) (uint b) = uint (signed_drop_bit (unat a) b) \<and>
    alu_slt (uint a) (uint b) = (if sint a < sint b then 1 else 0) \<and>
    alu_sgt (uint a) (uint b) = (if sint b < sint a then 1 else 0)"
proof (intro conjI)
  show "alu_sdiv (uint a) (uint b) = uint (word_of_int (sint a sdiv sint b) :: 256 word)"
    by (simp add: alu_sdiv_model uint_word_of_int)
  show "alu_smod (uint a) (uint b) =
      (if b = 0 then 0 else uint (word_of_int (sint a smod sint b) :: 256 word))"
  proof (cases "b = 0")
    case True
    then show ?thesis by (simp add: alu_smod_def word_is_zero_def word_constants)
  next
    case False
    then show ?thesis by (simp add: alu_smod_model uint_word_of_int)
  qed
  show "alu_sar (uint a) (uint b) = uint (signed_drop_bit (unat a) b)" by (rule alu_sar_model)
  show "alu_slt (uint a) (uint b) = (if sint a < sint b then 1 else 0)"
    by (simp add: alu_slt_def word_slt_model word_of_bool_def word_constants)
  show "alu_sgt (uint a) (uint b) = (if sint b < sint a then 1 else 0)"
    by (simp add: alu_sgt_def word_slt_model word_of_bool_def word_constants)
qed

text \<open>C19: SIGNEXTEND copies the sign bit of the selected byte upwards, and leaves the word alone
  when the byte index is 31 or more.\<close>

theorem alu_signextend_from_byte:
  fixes a i :: "256 word"
  shows "alu_signextend (uint i) (uint a) =
    (if uint i < 32 then uint (signed_take_bit (8 * unat i + 7) a) else uint a)"
proof (cases "uint i < 32")
  case True
  then have "8 * nat (uint i) + 7 = 8 * unat i + 7" by simp
  with True show ?thesis by (simp add: alu_signextend_model)
next
  case False
  then show ?thesis by (simp add: alu_signextend_beyond)
qed

end
