(* ===== verification/Host_Regions.thy ===== *)
theory Host_Regions
  imports Host_State Words
begin

text \<open>
  The byte regions of \<open>contract/HostContract.py\<close> (stateless input, EVM memory, code, scratch,
  logs, output), the EVM memory and operand-stack operations, the scratch and output buffers,
  and the code, jump-destination, node and ancestor tables; on cursor of them the bounds-checked
  readers of \<open>host/region_access.py\<close>. Keccak-256 and SHA-256 are third-party code: the
  operations that hash take the function as an argument.
\<close>

text \<open>
  Host operations are polymorphic in the extension of the host record, so that the kernel and
  the machine, whose registers extend it, call them without any lifting.
\<close>

type_synonym ('z, 'a) host = "('z host_state_scheme, 'a) action"

type_synonym hash_function = "bytes \<Rightarrow> bytes"

section \<open>Region access\<close>

datatype region_kind =
  InputRegion | MemoryRegion | CodeRegion | ScratchRegion | LogRegion | OutputRegion

definition ensure_length :: "bytes \<Rightarrow> int \<Rightarrow> bytes" where
  "ensure_length region required =
     (if required > int (length region) then region @ zeros (nat (required - int (length region)))
      else region)"

definition slice_of :: "bytes \<Rightarrow> region_slice \<Rightarrow> bytes" where
  "slice_of region value =
     (let start = slice_bytes value; end = start + slice_len value in py_slice region start end)"

fun region_content :: "region_kind \<Rightarrow> 'z host_state_scheme \<Rightarrow> bytes" where
  "region_content InputRegion s = stateless_input_bytes s"
| "region_content MemoryRegion s = memory_bytes s"
| "region_content CodeRegion s = code_bytes s"
| "region_content ScratchRegion s = scratch_bytes s"
| "region_content LogRegion s = log_data s"
| "region_content OutputRegion s = output_bytes s"

definition region_bytes :: "region_kind \<Rightarrow> region_slice \<Rightarrow> 'z host_state_scheme \<Rightarrow> bytes" where
  "region_bytes kind value s = slice_of (region_content kind s) value"

text \<open>An index of a bytes object: negative ones count from its end, and it raises out of range.\<close>

definition py_item :: "bytes \<Rightarrow> int \<Rightarrow> ('s, int) action" where
  "py_item data index =
     (let i = (if index < 0 then index + int (length data) else index)
      in if 0 \<le> i \<and> i < int (length data) then ret (uint (data ! nat i))
         else raise IndexError)"

definition region_byte :: "region_kind \<Rightarrow> region_slice \<Rightarrow> int \<Rightarrow> ('z, int) host" where
  "region_byte kind value offset =
     bind (reads (region_bytes kind value)) (\<lambda>data.
     let index = offset
     in if index < int (length data) then py_item data index else ret 0)"

definition load_word :: "region_kind \<Rightarrow> region_slice \<Rightarrow> int \<Rightarrow> int \<Rightarrow> ('z, int) host" where
  "load_word kind value offset len = reads (\<lambda>s.
     let data = region_bytes kind value s; start = offset; width = len;
         payload = py_slice data start (start + width)
     in from_bytes_big (ljust_zero payload width))"

definition copy_to_memory :: "region_kind \<Rightarrow> region_slice \<Rightarrow> int \<Rightarrow> int \<Rightarrow> int \<Rightarrow> ('z, unit) host" where
  "copy_to_memory kind value destination source len = modify (\<lambda>s.
     let count = len;
         payload = py_slice (region_bytes kind value s) source (source + count);
         padded = ljust_zero payload count;
         absolute = destination;
         memory = ensure_length (memory_bytes s) (absolute + count)
     in s\<lparr>memory_bytes := py_slice_assign memory absolute (absolute + count) padded\<rparr>)"

definition strided_zero ::
    "region_kind \<Rightarrow> region_slice \<Rightarrow> int \<Rightarrow> int \<Rightarrow> int \<Rightarrow> int \<Rightarrow> ('z, bool) host" where
  "strided_zero kind value start stride width count = reads (\<lambda>s.
     let data = region_bytes kind value s
     in list_all (\<lambda>item. let offset = start + int item * stride
          in list_all (\<lambda>b. b = 0) (py_slice data offset (offset + width))) [0..<nat count])"

definition stateless_input :: "('z, region_slice) host" where
  "stateless_input =
     bind (reads (\<lambda>s. int (length (stateless_input_bytes s)))) (\<lambda>n. region_slice 0 n)"

definition stateless_input_byte_at :: "region_slice \<Rightarrow> int \<Rightarrow> ('z, int) host" where
  "stateless_input_byte_at = region_byte InputRegion"
definition memory_slice_byte_at :: "region_slice \<Rightarrow> int \<Rightarrow> ('z, int) host" where
  "memory_slice_byte_at = region_byte MemoryRegion"
definition code_region_byte_at :: "region_slice \<Rightarrow> int \<Rightarrow> ('z, int) host" where
  "code_region_byte_at = region_byte CodeRegion"
definition scratch_slice_byte_at :: "region_slice \<Rightarrow> int \<Rightarrow> ('z, int) host" where
  "scratch_slice_byte_at = region_byte ScratchRegion"
definition log_data_slice_byte_at :: "region_slice \<Rightarrow> int \<Rightarrow> ('z, int) host" where
  "log_data_slice_byte_at = region_byte LogRegion"
definition output_slice_byte_at :: "region_slice \<Rightarrow> int \<Rightarrow> ('z, int) host" where
  "output_slice_byte_at = region_byte OutputRegion"

definition stateless_input_count_nonzero :: "region_slice \<Rightarrow> ('z, int) host" where
  "stateless_input_count_nonzero value = reads (\<lambda>s.
     int (length (filter (\<lambda>b. b \<noteq> 0) (region_bytes InputRegion value s))))"

definition stateless_input_strided_zero ::
    "region_slice \<Rightarrow> int \<Rightarrow> int \<Rightarrow> int \<Rightarrow> int \<Rightarrow> ('z, bool) host" where
  "stateless_input_strided_zero = strided_zero InputRegion"
definition memory_slice_strided_zero ::
    "region_slice \<Rightarrow> int \<Rightarrow> int \<Rightarrow> int \<Rightarrow> int \<Rightarrow> ('z, bool) host" where
  "memory_slice_strided_zero = strided_zero MemoryRegion"

definition stateless_input_load_word :: "region_slice \<Rightarrow> int \<Rightarrow> ('z, int) host" where
  "stateless_input_load_word value offset = load_word InputRegion value offset 32"
definition memory_slice_load_word :: "region_slice \<Rightarrow> int \<Rightarrow> ('z, int) host" where
  "memory_slice_load_word value offset = load_word MemoryRegion value offset 32"
definition code_region_load_word :: "region_slice \<Rightarrow> int \<Rightarrow> ('z, int) host" where
  "code_region_load_word value offset = load_word CodeRegion value offset 32"
definition scratch_slice_load_word :: "region_slice \<Rightarrow> int \<Rightarrow> ('z, int) host" where
  "scratch_slice_load_word value offset = load_word ScratchRegion value offset 32"
definition log_data_slice_load_word :: "region_slice \<Rightarrow> int \<Rightarrow> ('z, int) host" where
  "log_data_slice_load_word value offset = load_word LogRegion value offset 32"
definition output_slice_load_word :: "region_slice \<Rightarrow> int \<Rightarrow> ('z, int) host" where
  "output_slice_load_word value offset = load_word OutputRegion value offset 32"
definition stateless_input_load_n_word :: "region_slice \<Rightarrow> int \<Rightarrow> int \<Rightarrow> ('z, int) host" where
  "stateless_input_load_n_word = load_word InputRegion"
definition code_region_load_n_word :: "region_slice \<Rightarrow> int \<Rightarrow> int \<Rightarrow> ('z, int) host" where
  "code_region_load_n_word = load_word CodeRegion"
definition scratch_slice_load_n_word :: "region_slice \<Rightarrow> int \<Rightarrow> int \<Rightarrow> ('z, int) host" where
  "scratch_slice_load_n_word = load_word ScratchRegion"

definition stateless_input_copy_to_memory ::
    "region_slice \<Rightarrow> int \<Rightarrow> int \<Rightarrow> int \<Rightarrow> ('z, unit) host" where
  "stateless_input_copy_to_memory = copy_to_memory InputRegion"
definition memory_slice_copy_to_memory ::
    "region_slice \<Rightarrow> int \<Rightarrow> int \<Rightarrow> int \<Rightarrow> ('z, unit) host" where
  "memory_slice_copy_to_memory = copy_to_memory MemoryRegion"
definition code_region_copy_to_memory ::
    "region_slice \<Rightarrow> int \<Rightarrow> int \<Rightarrow> int \<Rightarrow> ('z, unit) host" where
  "code_region_copy_to_memory = copy_to_memory CodeRegion"
definition output_slice_copy_to_memory ::
    "region_slice \<Rightarrow> int \<Rightarrow> int \<Rightarrow> int \<Rightarrow> ('z, unit) host" where
  "output_slice_copy_to_memory = copy_to_memory OutputRegion"

definition scratch_input_slices_equal :: "region_slice \<Rightarrow> region_slice \<Rightarrow> ('z, bool) host" where
  "scratch_input_slices_equal left right = reads (\<lambda>s.
     region_bytes ScratchRegion left s = region_bytes InputRegion right s)"
definition log_input_slices_equal :: "region_slice \<Rightarrow> region_slice \<Rightarrow> ('z, bool) host" where
  "log_input_slices_equal left right = reads (\<lambda>s.
     region_bytes LogRegion left s = region_bytes InputRegion right s)"
definition input_code_slices_equal :: "region_slice \<Rightarrow> region_slice \<Rightarrow> ('z, bool) host" where
  "input_code_slices_equal left right = reads (\<lambda>s.
     region_bytes InputRegion left s = region_bytes CodeRegion right s)"

section \<open>EVM memory\<close>

definition mem_write_byte :: "int \<Rightarrow> int \<Rightarrow> ('z, unit) host" where
  "mem_write_byte offset value =
     bind (reads memory_bytes) (\<lambda>region.
     let absolute = offset; memory = ensure_length region (absolute + 1);
         i = (if absolute < 0 then absolute + int (length memory) else absolute)
     in if i < 0 then raise IndexError
        else modify (\<lambda>s. s\<lparr>memory_bytes := memory[nat i := word_of_int value]\<rparr>))"

definition mem_expand :: "int \<Rightarrow> int \<Rightarrow> int \<Rightarrow> ('z, unit) host" where
  "mem_expand base established required =
     (let start = base + established; end = base + required
      in if base < 0 \<or> established < 0 \<or> end \<le> start
         then raise (ValueError ''invalid EVM memory expansion'')
         else modify (\<lambda>s.
           let memory = ensure_length (memory_bytes s) end
           in s\<lparr>memory_bytes := py_slice_assign memory start end (zeros (nat (end - start)))\<rparr>))"

definition mem_view :: "int \<Rightarrow> int \<Rightarrow> int \<Rightarrow> ('z, region_slice) host" where
  "mem_view base established required =
     bind (reads (\<lambda>s. int (length (memory_bytes s)))) (\<lambda>n.
     if base < 0 \<or> required < 0 \<or> required > established \<or> base + established > n
     then raise (ValueError ''invalid EVM memory view'')
     else region_slice base required)"

definition mem_move :: "int \<Rightarrow> int \<Rightarrow> int \<Rightarrow> ('z, unit) host" where
  "mem_move destination source len = modify (\<lambda>s.
     let count = len;
         payload = ljust_zero (py_slice (memory_bytes s) source (source + count)) count;
         memory = ensure_length (memory_bytes s) (destination + count)
     in s\<lparr>memory_bytes := py_slice_assign memory destination (destination + count) payload\<rparr>)"

definition mem_load_word :: "int \<Rightarrow> ('z, int) host" where
  "mem_load_word offset = reads (\<lambda>s.
     let payload = py_slice (memory_bytes s) offset (offset + 32)
     in from_bytes_big (ljust_zero payload 32))"

text \<open>\<open>_word_bytes\<close>: the last \<open>length\<close> bytes of the 32-byte big-endian word.\<close>

definition word_bytes :: "int \<Rightarrow> int \<Rightarrow> bytes" where
  "word_bytes value len =
     py_slice_from (to_bytes_big (value AND (2 ^ 256 - 1)) 32) (- len)"

definition mem_store_word :: "int \<Rightarrow> int \<Rightarrow> ('z, unit) host" where
  "mem_store_word offset value = modify (\<lambda>s.
     let memory = ensure_length (memory_bytes s) (offset + 32)
     in s\<lparr>memory_bytes := py_slice_assign memory offset (offset + 32) (word_bytes value 32)\<rparr>)"

section \<open>The operand stack\<close>

text \<open>The cursor is 64 bits wide; its reading is the height of the active frame.\<close>

definition stack_top_of :: "int \<Rightarrow> int" where
  "stack_top_of value = value AND (2 ^ 64 - 1)"

definition stack_reset_host :: "('z, int) host" where
  "stack_reset_host =
     bind (modify (\<lambda>s. s\<lparr>operand_stack := [], operand_stack_frames := []\<rparr>)) (\<lambda>_.
     ret (stack_top_of 0))"

definition operand_stack_push_empty_frame_host :: "('z, int) host" where
  "operand_stack_push_empty_frame_host =
     bind (modify (\<lambda>s.
       s\<lparr>operand_stack_frames := operand_stack_frames s @ [int (length (operand_stack s))]\<rparr>)) (\<lambda>_.
     ret (stack_top_of 0))"

definition operand_stack_pop_frame :: "('z, unit) host" where
  "operand_stack_pop_frame =
     bind (reads operand_stack_frames) (\<lambda>frames.
     if frames = [] then raise (RuntimeError ''cannot pop the root operand-stack frame'')
     else modify (\<lambda>s.
       s\<lparr>operand_stack_frames := butlast frames,
         operand_stack := py_del_from (operand_stack s) (last frames)\<rparr>))"

definition stack_base :: "'z host_state_scheme \<Rightarrow> int" where
  "stack_base s = (if operand_stack_frames s \<noteq> [] then last (operand_stack_frames s) else 0)"

definition stack_slot_position :: "'z host_state_scheme \<Rightarrow> int \<Rightarrow> int \<Rightarrow> int" where
  "stack_slot_position s cursor index = stack_base s + cursor - 1 - index"

definition stack_top_height_host :: "int \<Rightarrow> int" where
  "stack_top_height_host cursor = cursor"

definition stack_slot_read_host :: "int \<Rightarrow> int \<Rightarrow> ('z, int) host" where
  "stack_slot_read_host cursor index =
     bind (reads (\<lambda>s. s)) (\<lambda>s.
     let position = stack_slot_position s cursor index
     in if position < stack_base s \<or> position \<ge> int (length (operand_stack s))
        then raise (RuntimeError ''operand stack slot out of range'')
        else ret (operand_stack s ! nat position))"

text \<open>The \<open>while\<close> loop appends zeros until the position exists.\<close>

definition pad_stack :: "int list \<Rightarrow> int \<Rightarrow> int list" where
  "pad_stack stack position = stack @ replicate (nat (position + 1) - length stack) 0"

definition stack_slot_write_host :: "int \<Rightarrow> int \<Rightarrow> int \<Rightarrow> ('z, unit) host" where
  "stack_slot_write_host cursor index value =
     bind (reads (\<lambda>s. s)) (\<lambda>s.
     let position = stack_slot_position s cursor index
     in if position < stack_base s
        then raise (RuntimeError ''operand stack slot out of range'')
        else modify (\<lambda>s.
          s\<lparr>operand_stack := (pad_stack (operand_stack s) position)[nat position := value]\<rparr>))"

definition stack_slot_write_next_host :: "int \<Rightarrow> int \<Rightarrow> ('z, unit) host" where
  "stack_slot_write_next_host cursor value = modify (\<lambda>s.
     let position = stack_base s + cursor
     in s\<lparr>operand_stack := (pad_stack (operand_stack s) position)[nat position := value]\<rparr>)"

definition stack_top_advance_host :: "int \<Rightarrow> int \<Rightarrow> int" where
  "stack_top_advance_host cursor count = stack_top_of (cursor + count)"

definition stack_top_retreat_host :: "int \<Rightarrow> int \<Rightarrow> int" where
  "stack_top_retreat_host cursor count = stack_top_of (cursor - count)"

section \<open>Scratch and output buffers\<close>

definition scratch_store_at :: "int \<Rightarrow> bytes \<Rightarrow> ('z, region_slice) host" where
  "scratch_store_at offset payload =
     (let start = offset; end = start + int (length payload) in
     bind (modify (\<lambda>s.
       s\<lparr>scratch_bytes := py_slice_assign (ensure_length (scratch_bytes s) end) start end payload\<rparr>))
       (\<lambda>_. region_slice 0 end))"

definition host_scratch_reserve :: "int \<Rightarrow> int \<Rightarrow> ('z, bool) host" where
  "host_scratch_reserve offset len =
     bind (modify (\<lambda>s. s\<lparr>scratch_bytes := ensure_length (scratch_bytes s) (offset + len)\<rparr>))
       (\<lambda>_. ret True)"

definition host_scratch_store_byte :: "int \<Rightarrow> byte \<Rightarrow> ('z, region_slice) host" where
  "host_scratch_store_byte offset value = scratch_store_at offset [value]"

definition host_scratch_store_region ::
    "region_kind \<Rightarrow> int \<Rightarrow> region_slice \<Rightarrow> ('z, region_slice) host" where
  "host_scratch_store_region kind offset value =
     bind (reads (region_bytes kind value)) (\<lambda>payload. scratch_store_at offset payload)"

definition host_scratch_store_stateless_input ::
    "int \<Rightarrow> region_slice \<Rightarrow> ('z, region_slice) host" where
  "host_scratch_store_stateless_input = host_scratch_store_region InputRegion"
definition host_scratch_store_scratch :: "int \<Rightarrow> region_slice \<Rightarrow> ('z, region_slice) host" where
  "host_scratch_store_scratch = host_scratch_store_region ScratchRegion"
definition host_scratch_store_log_data :: "int \<Rightarrow> region_slice \<Rightarrow> ('z, region_slice) host" where
  "host_scratch_store_log_data = host_scratch_store_region LogRegion"
definition host_scratch_store_output :: "int \<Rightarrow> region_slice \<Rightarrow> ('z, region_slice) host" where
  "host_scratch_store_output = host_scratch_store_region OutputRegion"

definition host_scratch_store_address :: "int \<Rightarrow> address \<Rightarrow> ('z, region_slice) host" where
  "host_scratch_store_address offset value = scratch_store_at offset (fixed_wire_bytes value)"

definition host_scratch_store_b256 :: "int \<Rightarrow> hash \<Rightarrow> int \<Rightarrow> ('z, region_slice) host" where
  "host_scratch_store_b256 offset value len =
     scratch_store_at offset (py_slice (fixed_wire_bytes value) 0 len)"

definition host_scratch_store_fixed_bytes_256 ::
    "int \<Rightarrow> bytes \<Rightarrow> ('z, region_slice) host" where
  "host_scratch_store_fixed_bytes_256 offset value = scratch_store_at offset value"

definition host_scratch_store_word :: "int \<Rightarrow> int \<Rightarrow> int \<Rightarrow> ('z, region_slice) host" where
  "host_scratch_store_word offset value len = scratch_store_at offset (word_bytes value len)"

definition host_scratch_truncate :: "int \<Rightarrow> ('z, unit) host" where
  "host_scratch_truncate offset =
     modify (\<lambda>s. s\<lparr>scratch_bytes := py_del_from (scratch_bytes s) offset\<rparr>)"

definition output_buffer_store_memory :: "region_slice \<Rightarrow> ('z, bool) host" where
  "output_buffer_store_memory value =
     bind (modify (\<lambda>s. s\<lparr>output_bytes := region_bytes MemoryRegion value s\<rparr>)) (\<lambda>_. ret True)"

definition output_buffer_store_input :: "region_slice \<Rightarrow> ('z, bool) host" where
  "output_buffer_store_input value =
     bind (modify (\<lambda>s. s\<lparr>output_bytes := region_bytes InputRegion value s\<rparr>)) (\<lambda>_. ret True)"

definition output_buffer_store_word :: "int \<Rightarrow> ('z, bool) host" where
  "output_buffer_store_word value =
     bind (modify (\<lambda>s. s\<lparr>output_bytes := word_bytes value 32\<rparr>)) (\<lambda>_. ret True)"

definition output_buffer_store_words :: "int \<Rightarrow> int \<Rightarrow> ('z, bool) host" where
  "output_buffer_store_words first second =
     bind (modify (\<lambda>s. s\<lparr>output_bytes := word_bytes first 32 @ word_bytes second 32\<rparr>))
       (\<lambda>_. ret True)"

definition public_output_write :: "region_slice \<Rightarrow> ('z, bool) host" where
  "public_output_write value =
     bind (modify (\<lambda>s.
       s\<lparr>public_output := public_output s @ region_bytes ScratchRegion value s\<rparr>)) (\<lambda>_. ret True)"

section \<open>Hashing\<close>

text \<open>\<open>hash\<close> is Keccak-256 or SHA-256, from wire bytes to wire bytes.\<close>

definition hash_region ::
    "hash_function \<Rightarrow> region_kind \<Rightarrow> region_slice \<Rightarrow> ('z, hash) host" where
  "hash_region hash kind value =
     reads (\<lambda>s. bytes32_from_wire (hash (region_bytes kind value s)))"

definition keccak256_word :: "hash_function \<Rightarrow> int \<Rightarrow> hash" where
  "keccak256_word keccak value = bytes32_from_wire (keccak (word_bytes value 32))"

definition keccak256_address :: "hash_function \<Rightarrow> address \<Rightarrow> hash" where
  "keccak256_address keccak value = bytes32_from_wire (keccak (fixed_wire_bytes value))"

definition sha256_pair :: "hash_function \<Rightarrow> hash \<Rightarrow> hash \<Rightarrow> hash" where
  "sha256_pair sha256 left right =
     (let payload = fixed_wire_bytes left @ fixed_wire_bytes right
      in bytes32_from_wire (sha256 payload))"

section \<open>Code, jump destinations, trie nodes and ancestor hashes\<close>

definition append_code :: "bytes \<Rightarrow> ('z, region_slice) host" where
  "append_code payload =
     bind (reads (\<lambda>s. int (length (code_bytes s)))) (\<lambda>offset.
     bind (modify (\<lambda>s. s\<lparr>code_bytes := code_bytes s @ payload\<rparr>)) (\<lambda>_.
     region_slice offset (int (length payload))))"

definition code_region_from_input :: "region_slice \<Rightarrow> ('z, region_slice) host" where
  "code_region_from_input value = bind (reads (region_bytes InputRegion value)) append_code"
definition code_region_from_memory :: "region_slice \<Rightarrow> ('z, region_slice) host" where
  "code_region_from_memory value = bind (reads (region_bytes MemoryRegion value)) append_code"
definition code_region_from_output :: "region_slice \<Rightarrow> ('z, region_slice) host" where
  "code_region_from_output value = bind (reads (region_bytes OutputRegion value)) append_code"

definition DELEGATION_PREFIX :: bytes where
  "DELEGATION_PREFIX = [0xef, 0x01, 0x00]"

definition code_region_from_delegation :: "address \<Rightarrow> ('z, region_slice) host" where
  "code_region_from_delegation a = append_code (DELEGATION_PREFIX @ fixed_wire_bytes a)"

definition jumpdest_table_alloc :: "region_slice \<Rightarrow> ('z, int) host" where
  "jumpdest_table_alloc code =
     bind (reads next_jumpdest_table) (\<lambda>index.
     bind (modify (\<lambda>s.
       s\<lparr>next_jumpdest_table := next_jumpdest_table s + 1,
         jumpdest_tables := dict_set (jumpdest_tables s) index
           \<lparr>table_code_length = slice_len code, positions = {}\<rparr>\<rparr>)) (\<lambda>_.
     ret index))"

definition jumpdest_table_mark :: "int \<Rightarrow> int \<Rightarrow> int \<Rightarrow> ('z, bool) host" where
  "jumpdest_table_mark table code_length position =
     bind (reads (\<lambda>s. dict_get (jumpdest_tables s) table)) (\<lambda>found.
     case found of
       None \<Rightarrow> ret False
     | Some entry \<Rightarrow>
         if table_code_length entry \<noteq> code_length then ret False
         else if position < 0 \<or> position \<ge> table_code_length entry then ret False
         else bind (modify (\<lambda>s.
             s\<lparr>jumpdest_tables := dict_set (jumpdest_tables s) table
                 (entry\<lparr>positions := insert position (positions entry)\<rparr>)\<rparr>)) (\<lambda>_.
           ret True))"

definition jumpdest_ref_contains :: "int \<Rightarrow> int \<Rightarrow> int \<Rightarrow> ('z, bool) host" where
  "jumpdest_ref_contains table code_length destination = reads (\<lambda>s.
     case dict_get (jumpdest_tables s) table of
       None \<Rightarrow> False
     | Some entry \<Rightarrow>
         if table_code_length entry \<noteq> code_length then False
         else if destination < 0 \<or> destination \<ge> table_code_length entry then False
         else destination \<in> positions entry)"

definition code_slice_of :: "code \<Rightarrow> region_slice" where
  "code_slice_of c = \<lparr>slice_bytes = code_off c, slice_len = code_len c\<rparr>"

definition EMPTY_CODE :: code where
  "EMPTY_CODE = \<lparr>code_off = 0, code_len = 0, code_jumpdests = 0\<rparr>"

definition code_db_store :: "hash_function \<Rightarrow> code \<Rightarrow> ('z, hash) host" where
  "code_db_store keccak code =
     bind (reads (\<lambda>s. keccak (region_bytes CodeRegion (code_slice_of code) s))) (\<lambda>digest.
     bind (modify (\<lambda>s. s\<lparr>code_db := dict_set (code_db s) digest code\<rparr>)) (\<lambda>_.
     ret (bytes32_from_wire digest)))"

definition code_db_get :: "hash \<Rightarrow> 'z host_state_scheme \<Rightarrow> code option" where
  "code_db_get value s = dict_get (code_db s) (hash_key value)"

definition code_db_lookup :: "hash \<Rightarrow> ('z, code) host" where
  "code_db_lookup value = reads (\<lambda>s.
     case code_db_get value s of None \<Rightarrow> EMPTY_CODE | Some code \<Rightarrow> code)"

definition code_db_read_delegation :: "hash \<Rightarrow> ('z, address_result) host" where
  "code_db_read_delegation value = reads (\<lambda>s.
     case code_db_get value s of
       None \<Rightarrow> \<lparr>success = False, result_address = bytes20_from_wire (zeros 20)\<rparr>
     | Some code \<Rightarrow>
         let payload = region_bytes CodeRegion (code_slice_of code) s;
             valid = (length payload = 23 \<and> take 3 payload = DELEGATION_PREFIX);
             a = (if valid then py_slice_from payload 3 else zeros 20)
         in \<lparr>success = valid, result_address = bytes20_from_wire a\<rparr>)"

definition nodedb_reset :: "('z, unit) host" where
  "nodedb_reset = modify (\<lambda>s. s\<lparr>node_db := []\<rparr>)"

definition nodedb_insert :: "hash \<Rightarrow> int \<Rightarrow> int \<Rightarrow> ('z, unit) host" where
  "nodedb_insert value offset len =
     bind (region_slice offset len) (\<lambda>slice.
     modify (\<lambda>s. s\<lparr>node_db := dict_set (node_db s) (hash_key value) slice\<rparr>))"

definition nodedb_lookup :: "hash \<Rightarrow> ('z, region_slice) host" where
  "nodedb_lookup value = reads (\<lambda>s. dict_get_default (node_db s) (hash_key value) EMPTY_SLICE)"

definition ancestor_hash_write :: "int \<Rightarrow> hash \<Rightarrow> ('z, unit) host" where
  "ancestor_hash_write index value =
     modify (\<lambda>s. s\<lparr>ancestor_hashes := dict_set (ancestor_hashes s) index value\<rparr>)"

definition ancestor_hash_read :: "int \<Rightarrow> ('z, hash) host" where
  "ancestor_hash_read index =
     reads (\<lambda>s. dict_get_default (ancestor_hashes s) index zero_hash)"

end
