(* ===== verification/Region_Access.thy ===== *)
theory Region_Access
  imports Host_Regions
begin

text \<open>
  The typed layer over the host regions: the zero-extending readers and copiers of
  \<open>host/region_access.py\<close>, the sub-slices of \<open>primitives/bytes.py\<close>, the output buffer of
  \<open>host/output.py\<close>, the stack pointers of \<open>host/stack.py\<close> and the code analysis and code
  database of \<open>host/code.py\<close> and \<open>primitives/code.py\<close>. A cast to \<open>word\<close> of a value that is
  a 256-bit word already is the identity and is left out.
\<close>

definition as_word :: "int \<Rightarrow> ('s, int) action" where
  "as_word value = ranged 0 (2 ^ 256 - 1) value"

text \<open>\<open>fatal_error\<close> of \<open>exceptions.py\<close> exits whatever the reason.\<close>

datatype fatal_reason =
    InvalidConfig | HeaderChainBroken | RlpDecode | InvalidSignature | InvalidGasLimit
  | GasUsedExceedsLimit | BlobGasLimitExceeded | ExecutionInvalid | InvalidGasUsed
  | InvalidBlobGasUsed | InvalidExcessBlobGas | InvalidStateRoot | InvalidReceiptsRoot
  | InvalidLogsBloom | InvalidBlockHash | InvalidParentHash | BlockAccessListTooLarge
  | InvalidBlockAccessList | InvalidExecutionRequests | WitnessDeficient | NumericOverflow

definition fatal_error :: "fatal_reason \<Rightarrow> ('s, 'a) action" where
  "fatal_error reason = raise SailExit"

section \<open>Zero-extending readers\<close>

definition stateless_input_slice_byte :: "region_slice \<Rightarrow> int \<Rightarrow> ('z, int) host" where
  "stateless_input_slice_byte s off =
     (if off < slice_len s then stateless_input_byte_at s off else ret 0)"

definition memory_slice_byte :: "region_slice \<Rightarrow> int \<Rightarrow> ('z, int) host" where
  "memory_slice_byte s off = (if off < slice_len s then memory_slice_byte_at s off else ret 0)"

definition code_slice_byte :: "region_slice \<Rightarrow> int \<Rightarrow> ('z, int) host" where
  "code_slice_byte s off = (if off < slice_len s then code_region_byte_at s off else ret 0)"

definition scratch_byte :: "region_slice \<Rightarrow> int \<Rightarrow> ('z, int) host" where
  "scratch_byte s off = (if off < slice_len s then scratch_slice_byte_at s off else ret 0)"

definition log_data_byte :: "region_slice \<Rightarrow> int \<Rightarrow> ('z, int) host" where
  "log_data_byte s off = (if off < slice_len s then log_data_slice_byte_at s off else ret 0)"

definition output_byte :: "region_slice \<Rightarrow> int \<Rightarrow> ('z, int) host" where
  "output_byte s off = (if off < slice_len s then output_slice_byte_at s off else ret 0)"

fun calldata_slice_byte :: "calldata_slice \<Rightarrow> int \<Rightarrow> ('z, int) host" where
  "calldata_slice_byte (InputCalldata b) off = stateless_input_slice_byte b off"
| "calldata_slice_byte (MemoryCalldata b) off = memory_slice_byte b off"

definition slice_count_nonzero :: "region_slice \<Rightarrow> ('z, int) host" where
  "slice_count_nonzero s = stateless_input_count_nonzero s"

definition stateless_input_slice_strided_zero ::
    "region_slice \<Rightarrow> int \<Rightarrow> int \<Rightarrow> int \<Rightarrow> int \<Rightarrow> ('z, bool) host" where
  "stateless_input_slice_strided_zero s start stride width count =
     stateless_input_strided_zero s start stride width count"

definition memory_slice_strided_zero_value ::
    "region_slice \<Rightarrow> int \<Rightarrow> int \<Rightarrow> int \<Rightarrow> int \<Rightarrow> ('z, bool) host" where
  "memory_slice_strided_zero_value s start stride width count =
     memory_slice_strided_zero s start stride width count"

fun slice_strided_zero ::
    "calldata_slice \<Rightarrow> int \<Rightarrow> int \<Rightarrow> int \<Rightarrow> int \<Rightarrow> ('z, bool) host" where
  "slice_strided_zero (InputCalldata b) start stride width count =
     stateless_input_slice_strided_zero b start stride width count"
| "slice_strided_zero (MemoryCalldata b) start stride width count =
     memory_slice_strided_zero_value b start stride width count"

definition stateless_input_slice_load :: "region_slice \<Rightarrow> int \<Rightarrow> ('z, int) host" where
  "stateless_input_slice_load s off =
     (if off < slice_len s then stateless_input_load_word s off else ret ZERO_WORD)"

definition memory_slice_load :: "region_slice \<Rightarrow> int \<Rightarrow> ('z, int) host" where
  "memory_slice_load s off =
     (if off < slice_len s then memory_slice_load_word s off else ret ZERO_WORD)"

definition code_slice_load :: "region_slice \<Rightarrow> int \<Rightarrow> ('z, int) host" where
  "code_slice_load s off =
     (if off < slice_len s then code_region_load_word s off else ret ZERO_WORD)"

definition scratch_slice_load :: "region_slice \<Rightarrow> int \<Rightarrow> ('z, int) host" where
  "scratch_slice_load s off =
     (if off < slice_len s then scratch_slice_load_word s off else ret ZERO_WORD)"

definition log_data_slice_load :: "region_slice \<Rightarrow> int \<Rightarrow> ('z, int) host" where
  "log_data_slice_load s off =
     (if off < slice_len s then log_data_slice_load_word s off else ret ZERO_WORD)"

definition output_slice_load :: "region_slice \<Rightarrow> int \<Rightarrow> ('z, int) host" where
  "output_slice_load s off =
     (if off < slice_len s then output_slice_load_word s off else ret ZERO_WORD)"

fun calldata_slice_load :: "calldata_slice \<Rightarrow> int \<Rightarrow> ('z, int) host" where
  "calldata_slice_load (InputCalldata b) off = stateless_input_slice_load b off"
| "calldata_slice_load (MemoryCalldata b) off = memory_slice_load b off"

definition stateless_input_slice_load_word_offset :: "region_slice \<Rightarrow> int \<Rightarrow> ('z, int) host" where
  "stateless_input_slice_load_word_offset s off =
     (if off < slice_len s then stateless_input_slice_load s off else ret ZERO_WORD)"

definition memory_slice_load_word_offset :: "region_slice \<Rightarrow> int \<Rightarrow> ('z, int) host" where
  "memory_slice_load_word_offset s off =
     (if off < slice_len s then memory_slice_load s off else ret ZERO_WORD)"

definition code_slice_load_word_offset :: "region_slice \<Rightarrow> int \<Rightarrow> ('z, int) host" where
  "code_slice_load_word_offset s off =
     (if off < slice_len s then code_slice_load s off else ret ZERO_WORD)"

fun calldata_slice_load_word_offset :: "calldata_slice \<Rightarrow> int \<Rightarrow> ('z, int) host" where
  "calldata_slice_load_word_offset (InputCalldata b) off =
     stateless_input_slice_load_word_offset b off"
| "calldata_slice_load_word_offset (MemoryCalldata b) off =
     memory_slice_load_word_offset b off"

definition stateless_input_slice_load_n :: "region_slice \<Rightarrow> int \<Rightarrow> int \<Rightarrow> ('z, int) host" where
  "stateless_input_slice_load_n s off n =
     (if off < slice_len s then bind (stateless_input_load_n_word s off n) as_word
      else ret ZERO_WORD)"

definition code_slice_load_n :: "region_slice \<Rightarrow> int \<Rightarrow> int \<Rightarrow> ('z, int) host" where
  "code_slice_load_n s off n =
     (if off < slice_len s then bind (code_region_load_n_word s off n) as_word
      else ret ZERO_WORD)"

definition scratch_slice_load_n :: "region_slice \<Rightarrow> int \<Rightarrow> int \<Rightarrow> ('z, int) host" where
  "scratch_slice_load_n s off n =
     (if off < slice_len s then bind (scratch_slice_load_n_word s off n) as_word
      else ret ZERO_WORD)"

section \<open>Copies into memory\<close>

definition stateless_input_slice_copy ::
    "region_slice \<Rightarrow> int \<Rightarrow> int \<Rightarrow> int \<Rightarrow> ('z, unit) host" where
  "stateless_input_slice_copy s dst off len = stateless_input_copy_to_memory s dst off len"

definition memory_slice_copy ::
    "region_slice \<Rightarrow> int \<Rightarrow> int \<Rightarrow> int \<Rightarrow> ('z, unit) host" where
  "memory_slice_copy s dst off len = memory_slice_copy_to_memory s dst off len"

definition code_slice_copy ::
    "region_slice \<Rightarrow> int \<Rightarrow> int \<Rightarrow> int \<Rightarrow> ('z, unit) host" where
  "code_slice_copy s dst off len = code_region_copy_to_memory s dst off len"

definition output_slice_copy ::
    "region_slice \<Rightarrow> int \<Rightarrow> int \<Rightarrow> int \<Rightarrow> ('z, unit) host" where
  "output_slice_copy s dst off len = output_slice_copy_to_memory s dst off len"

definition stateless_input_slice_copy_word_offset ::
    "region_slice \<Rightarrow> int \<Rightarrow> int \<Rightarrow> int \<Rightarrow> ('z, unit) host" where
  "stateless_input_slice_copy_word_offset s dst off len =
     (if off < slice_len s then stateless_input_slice_copy s dst off len
      else stateless_input_copy_to_memory EMPTY_SLICE dst 0 len)"

definition memory_slice_copy_word_offset ::
    "region_slice \<Rightarrow> int \<Rightarrow> int \<Rightarrow> int \<Rightarrow> ('z, unit) host" where
  "memory_slice_copy_word_offset s dst off len =
     (if off < slice_len s then memory_slice_copy s dst off len
      else stateless_input_copy_to_memory EMPTY_SLICE dst 0 len)"

definition code_slice_copy_word_offset ::
    "region_slice \<Rightarrow> int \<Rightarrow> int \<Rightarrow> int \<Rightarrow> ('z, unit) host" where
  "code_slice_copy_word_offset s dst off len =
     (if off < slice_len s then code_slice_copy s dst off len
      else stateless_input_copy_to_memory EMPTY_SLICE dst 0 len)"

fun calldata_slice_copy_word_offset ::
    "calldata_slice \<Rightarrow> int \<Rightarrow> int \<Rightarrow> int \<Rightarrow> ('z, unit) host" where
  "calldata_slice_copy_word_offset (InputCalldata b) dst off len =
     stateless_input_slice_copy_word_offset b dst off len"
| "calldata_slice_copy_word_offset (MemoryCalldata b) dst off len =
     memory_slice_copy_word_offset b dst off len"

section \<open>Sub-slices\<close>

fun calldata_sub_slice :: "calldata_slice \<Rightarrow> int \<Rightarrow> int \<Rightarrow> ('s, calldata_slice) action" where
  "calldata_sub_slice (InputCalldata b) off len =
     (if off + len \<le> slice_len b
      then bind (region_sub_slice b off len) (\<lambda>sub. ret (InputCalldata sub))
      else raise (SailError ''calldata sub-slice bounds''))"
| "calldata_sub_slice (MemoryCalldata b) off len =
     (if off + len \<le> slice_len b
      then bind (region_sub_slice b off len) (\<lambda>sub. ret (MemoryCalldata sub))
      else raise (SailError ''calldata sub-slice bounds''))"

definition region_slice_suffix :: "region_slice \<Rightarrow> int \<Rightarrow> ('s, region_slice) action" where
  "region_slice_suffix s off = region_slice (slice_bytes s + off) (slice_len s - off)"

section \<open>The output buffer\<close>

definition output_buffer_slice :: "int \<Rightarrow> ('s, region_slice) action" where
  "output_buffer_slice len = (if len = 0 then ret EMPTY_SLICE else region_slice 0 len)"

definition freeze_memory_output :: "region_slice \<Rightarrow> ('z, region_slice) host" where
  "freeze_memory_output data =
     (if slice_len data = 0 then ret EMPTY_SLICE
      else bind (output_buffer_store_memory data) (\<lambda>stored.
        if stored then output_buffer_slice (slice_len data) else ret EMPTY_SLICE))"

definition freeze_input_output :: "region_slice \<Rightarrow> ('z, region_slice) host" where
  "freeze_input_output data =
     (if slice_len data = 0 then ret EMPTY_SLICE
      else bind (output_buffer_store_input data) (\<lambda>stored.
        if stored then output_buffer_slice (slice_len data) else ret EMPTY_SLICE))"

fun freeze_calldata_output :: "calldata_slice \<Rightarrow> ('z, region_slice) host" where
  "freeze_calldata_output (InputCalldata b) = freeze_input_output b"
| "freeze_calldata_output (MemoryCalldata b) = freeze_memory_output b"

definition output_buffer_word :: "int \<Rightarrow> ('z, region_slice) host" where
  "output_buffer_word value =
     bind (output_buffer_store_word value) (\<lambda>stored.
     if stored then output_buffer_slice 32 else ret EMPTY_SLICE)"

definition output_buffer_words :: "int \<Rightarrow> int \<Rightarrow> ('z, region_slice) host" where
  "output_buffer_words first second =
     bind (output_buffer_store_words first second) (\<lambda>stored.
     if stored then output_buffer_slice 64 else ret EMPTY_SLICE)"

section \<open>Stack pointers\<close>

record stack_pointer =
  sp_storage :: int
  sp_height :: int

definition operand_stack_height :: "int \<Rightarrow> ('s, int) action" where
  "operand_stack_height value = ranged 0 1024 value"

definition stack_reset :: "('z, stack_pointer) host" where
  "stack_reset = bind stack_reset_host (\<lambda>storage. ret \<lparr>sp_storage = storage, sp_height = 0\<rparr>)"

definition operand_stack_push_empty_frame :: "('z, stack_pointer) host" where
  "operand_stack_push_empty_frame =
     bind operand_stack_push_empty_frame_host (\<lambda>storage.
     ret \<lparr>sp_storage = storage, sp_height = 0\<rparr>)"

definition stack_top_height :: "stack_pointer \<Rightarrow> int" where
  "stack_top_height cursor = sp_height cursor"

definition stack_slot_read :: "stack_pointer \<Rightarrow> int \<Rightarrow> ('z, int) host" where
  "stack_slot_read cursor index =
     bind (stack_slot_read_host (sp_storage cursor) index) as_word"

definition stack_slot_write :: "stack_pointer \<Rightarrow> int \<Rightarrow> int \<Rightarrow> ('z, unit) host" where
  "stack_slot_write cursor index value = stack_slot_write_host (sp_storage cursor) index value"

definition stack_slot_write_next :: "stack_pointer \<Rightarrow> int \<Rightarrow> ('z, unit) host" where
  "stack_slot_write_next cursor value = stack_slot_write_next_host (sp_storage cursor) value"

definition stack_top_advance :: "stack_pointer \<Rightarrow> int \<Rightarrow> ('s, stack_pointer) action" where
  "stack_top_advance cursor count =
     (let storage = stack_top_advance_host (sp_storage cursor) count in
     bind (operand_stack_height (stack_top_height_host storage)) (\<lambda>height.
     ret \<lparr>sp_storage = storage, sp_height = height\<rparr>))"

definition stack_top_retreat :: "stack_pointer \<Rightarrow> int \<Rightarrow> ('s, stack_pointer) action" where
  "stack_top_retreat cursor count =
     (let storage = stack_top_retreat_host (sp_storage cursor) count in
     bind (operand_stack_height (stack_top_height_host storage)) (\<lambda>height.
     ret \<lparr>sp_storage = storage, sp_height = height\<rparr>))"

end
