(* ===== verification/Code_Analysis.thy ===== *)
theory Code_Analysis
  imports Region_Access
begin

text \<open>
  The code database of \<open>host/code.py\<close> with the code slices of \<open>primitives/code.py\<close>: the
  jump-destination analysis that walks the code instruction by instruction, skipping the
  immediate bytes of PUSH and (from Amsterdam) of the deep-stack instructions, and marks every
  JUMPDEST it reaches in the table of the code. The reference is the set of instruction starts,
  given by the length of the immediate of each opcode and not by the step of the loop; the
  analysis marks exactly the starts that hold a JUMPDEST.
\<close>

section \<open>Forks\<close>

text \<open>\<open>primitives/fork.py\<close>: forks are compared by their number.\<close>

type_synonym fork = int

definition Frontier :: fork where "Frontier = 0"
definition Homestead :: fork where "Homestead = 1"
definition Byzantium :: fork where "Byzantium = 2"
definition Constantinople :: fork where "Constantinople = 3"
definition Istanbul :: fork where "Istanbul = 4"
definition Berlin :: fork where "Berlin = 5"
definition London :: fork where "London = 6"
definition ArrowGlacier :: fork where "ArrowGlacier = 7"
definition GrayGlacier :: fork where "GrayGlacier = 8"
definition Paris :: fork where "Paris = 9"
definition Shanghai :: fork where "Shanghai = 10"
definition Cancun :: fork where "Cancun = 11"
definition Prague :: fork where "Prague = 12"
definition Osaka :: fork where "Osaka = 13"
definition BPO1 :: fork where "BPO1 = 14"
definition BPO2 :: fork where "BPO2 = 15"
definition Amsterdam :: fork where "Amsterdam = 16"

lemmas fork_defs = Frontier_def Homestead_def Byzantium_def Constantinople_def Istanbul_def Berlin_def London_def ArrowGlacier_def
  GrayGlacier_def Paris_def Shanghai_def Cancun_def Prague_def Osaka_def BPO1_def BPO2_def Amsterdam_def

section \<open>Deep-stack immediates\<close>

datatype deep_stack_op =
  DeepStackDuplicate | DeepStackSwap | DeepStackExchange | NotDeepStackOperation

definition deep_stack_operation :: "int \<Rightarrow> deep_stack_op" where
  "deep_stack_operation opcode =
     (if opcode = 230 then DeepStackDuplicate
      else if opcode = 231 then DeepStackSwap
      else if opcode = 232 then DeepStackExchange
      else NotDeepStackOperation)"

definition deep_stack_immediate_valid :: "int \<Rightarrow> bool" where
  "deep_stack_immediate_valid immediate \<longleftrightarrow> immediate \<le> 90 \<or> 128 \<le> immediate"

definition exchange_immediate_valid :: "int \<Rightarrow> bool" where
  "exchange_immediate_valid immediate \<longleftrightarrow> immediate \<le> 81 \<or> 128 \<le> immediate"

fun deep_stack_operation_immediate_valid :: "deep_stack_op \<Rightarrow> int \<Rightarrow> bool" where
  "deep_stack_operation_immediate_valid DeepStackDuplicate immediate =
     deep_stack_immediate_valid immediate"
| "deep_stack_operation_immediate_valid DeepStackSwap immediate =
     deep_stack_immediate_valid immediate"
| "deep_stack_operation_immediate_valid DeepStackExchange immediate =
     exchange_immediate_valid immediate"
| "deep_stack_operation_immediate_valid NotDeepStackOperation immediate = False"

section \<open>Code slices and the analysis\<close>

definition validated_code_slice :: "region_slice \<Rightarrow> ('s, region_slice) action" where
  "validated_code_slice b =
     (if slice_len b \<le> 2 ^ 32 - 1 - 32 then ret b
      else raise (SailError ''executable code cursor headroom''))"

definition analyzed_code :: "region_slice \<Rightarrow> int \<Rightarrow> ('s, code) action" where
  "analyzed_code b jumpdests =
     (if valid_range (slice_bytes b) (slice_len b) \<and> slice_len b + 32 \<le> 2 ^ 32 - 1
      then ret \<lparr>code_off = slice_bytes b, code_len = slice_len b, code_jumpdests = jumpdests\<rparr>
      else raise (ValueError ''CodeFieldsValidity violates Sail constraint''))"

text \<open>The number of bytes of an instruction, as the loop computes it.\<close>

definition instruction_step :: "fork \<Rightarrow> int \<Rightarrow> int \<Rightarrow> int" where
  "instruction_step fork opcode immediate =
     (if 96 \<le> opcode \<and> opcode \<le> 127 then opcode - 94
      else if fork \<ge> Amsterdam then
        (if deep_stack_operation_immediate_valid (deep_stack_operation opcode) immediate
         then 2 else 1)
      else 1)"

lemma instruction_step_pos [simp]: "0 < instruction_step fork opcode immediate"
  by (simp add: instruction_step_def)

text \<open>The \<open>while\<close> loop; \<open>scanning\<close> is false exactly when the loop stops early.\<close>

function analyze_code_from :: "region_slice \<Rightarrow> fork \<Rightarrow> int \<Rightarrow> int \<Rightarrow> ('z, unit) host" where
  "analyze_code_from code fork table position =
     (if \<not> position < slice_len code then ret ()
      else
        bind (code_slice_byte code position) (\<lambda>opcode.
        bind (do_when (opcode = 0x5b)
               (bind (jumpdest_table_mark table (slice_len code) position) (\<lambda>marked.
                ensure marked (SailError ''JUMPDEST mark'')))) (\<lambda>_.
        bind (if \<not> (96 \<le> opcode \<and> opcode \<le> 127) \<and> fork \<ge> Amsterdam
              then code_slice_byte code (position + 1) else ret 0) (\<lambda>immediate.
        let step = instruction_step fork opcode immediate in
        if step < slice_len code - position
        then analyze_code_from code fork table (position + step)
        else ret ()))))"
  by auto

termination
proof (relation "measure (\<lambda>(code, fork, table, position). nat (slice_len code - position))")
  fix code :: region_slice and fork table position opcode immediate step :: int
  assume step: "step = instruction_step fork opcode immediate"
    and less: "step < slice_len code - position"
  have "0 < step" by (simp add: step)
  with less show "((code, fork, table, position + step), code, fork, table, position)
      \<in> measure (\<lambda>(code, fork, table, position). nat (slice_len code - position))"
    by simp
qed simp

declare analyze_code_from.simps [simp del]

definition analyze_code :: "region_slice \<Rightarrow> fork \<Rightarrow> ('z, int) host" where
  "analyze_code code fork =
     (if slice_len code = 0 then ret 0
      else
        bind (jumpdest_table_alloc code) (\<lambda>table.
        bind (ensure (table \<noteq> 0) (SailError ''JUMPDEST table allocation'')) (\<lambda>_.
        bind (analyze_code_from code fork table 0) (\<lambda>_.
        ret table))))"

section \<open>The code database\<close>

definition code_db_insert :: "hash_function \<Rightarrow> region_slice \<Rightarrow> fork \<Rightarrow> ('z, hash) host" where
  "code_db_insert keccak code fork =
     bind (analyze_code code fork) (\<lambda>table.
     bind (analyzed_code code table) (\<lambda>analyzed.
     code_db_store keccak analyzed))"

definition code_db_intern_input :: "region_slice \<Rightarrow> ('z, region_slice) host" where
  "code_db_intern_input b = bind (code_region_from_input b) validated_code_slice"

definition code_db_intern_memory :: "region_slice \<Rightarrow> ('z, region_slice) host" where
  "code_db_intern_memory b = bind (code_region_from_memory b) validated_code_slice"

definition code_db_intern_output :: "region_slice \<Rightarrow> ('z, region_slice) host" where
  "code_db_intern_output b = bind (code_region_from_output b) validated_code_slice"

definition code_db_resolve :: "hash \<Rightarrow> ('z, code) host" where
  "code_db_resolve h =
     (if h = KECCAK_EMPTY then ret EMPTY_CODE
      else bind (code_db_lookup h) (\<lambda>code.
        if code_len code = 0 then fatal_error WitnessDeficient else ret code))"

section \<open>What the analysis marks\<close>

text \<open>The code as bytes, zero beyond its end, and the instruction starts reached from a position.\<close>

definition code_at :: "bytes \<Rightarrow> int \<Rightarrow> int" where
  "code_at c p = (if 0 \<le> p \<and> p < int (length c) then uint (c ! nat p) else 0)"

text \<open>
  The reference: PUSH1 to PUSH32 carry as many immediate bytes as their names say, DUPN and SWAPN
  one unless it is 0x5b to 0x7f, EXCHANGE one unless it is 0x52 to 0x7f, the latter three from
  Amsterdam on; no other opcode carries any. An instruction is its opcode and its immediate.
\<close>

definition immediate_length :: "fork \<Rightarrow> int \<Rightarrow> int \<Rightarrow> int" where
  "immediate_length fork opcode following =
     (if opcode \<in> {0x60..0x7f} then opcode - 0x5f
      else if fork < 16 then 0
      else if opcode \<in> {0xe6, 0xe7} \<and> following \<notin> {0x5b..0x7f} then 1
      else if opcode = 0xe8 \<and> following \<notin> {0x52..0x7f} then 1
      else 0)"

definition step_at :: "bytes \<Rightarrow> fork \<Rightarrow> int \<Rightarrow> int" where
  "step_at c fork p = 1 + immediate_length fork (code_at c p) (code_at c (p + 1))"

lemma instruction_step_length: "instruction_step fork opcode following = 1 + immediate_length fork opcode following"
  by (auto simp: instruction_step_def immediate_length_def deep_stack_operation_def
      deep_stack_immediate_valid_def exchange_immediate_valid_def Amsterdam_def)

lemma step_at_pos [simp]: "0 < step_at c fork p"
  using instruction_step_pos [of fork "code_at c p" "code_at c (p + 1)"]
  by (simp add: step_at_def instruction_step_length)

inductive reaches :: "bytes \<Rightarrow> fork \<Rightarrow> int \<Rightarrow> int \<Rightarrow> bool" for c fork where
  here: "0 \<le> p \<Longrightarrow> p < int (length c) \<Longrightarrow> reaches c fork p p"
| further: "0 \<le> p \<Longrightarrow> p < int (length c) \<Longrightarrow> reaches c fork (p + step_at c fork p) q \<Longrightarrow>
    reaches c fork p q"

inductive_cases reachesE: "reaches c fork p q"

definition instruction_start :: "bytes \<Rightarrow> fork \<Rightarrow> int \<Rightarrow> bool" where
  "instruction_start c fork q \<longleftrightarrow> reaches c fork 0 q"

definition valid_jumpdest :: "bytes \<Rightarrow> fork \<Rightarrow> int \<Rightarrow> bool" where
  "valid_jumpdest c fork q \<longleftrightarrow> instruction_start c fork q \<and> code_at c q = 0x5b"

lemma reaches_bounds: "reaches c fork p q \<Longrightarrow> 0 \<le> q \<and> q < int (length c)"
  by (induction rule: reaches.induct) auto

lemma reaches_iff:
  "reaches c fork p q \<longleftrightarrow>
     0 \<le> p \<and> p < int (length c) \<and> (q = p \<or> reaches c fork (p + step_at c fork p) q)"
  by (auto intro: reaches.intros elim: reachesE)

lemma no_reach_beyond: "int (length c) \<le> p \<Longrightarrow> \<not> reaches c fork p q"
  by (auto elim: reachesE)

definition code_slice_bytes :: "region_slice \<Rightarrow> 'z host_state_scheme \<Rightarrow> bytes" where
  "code_slice_bytes code s = region_bytes CodeRegion code s"

definition code_in_region :: "region_slice \<Rightarrow> 'z host_state_scheme \<Rightarrow> bool" where
  "code_in_region code s \<longleftrightarrow> 0 \<le> slice_bytes code \<and> 0 \<le> slice_len code \<and>
     slice_bytes code + slice_len code \<le> int (length (code_bytes s))"

lemma length_code_slice_bytes:
  assumes "code_in_region code s"
  shows "int (length (code_slice_bytes code s)) = slice_len code"
  using assms
  by (simp add: code_in_region_def code_slice_bytes_def region_bytes_def slice_of_def Let_def
      py_slice_nonneg) arith

lemma code_slice_byte_run:
  assumes "code_in_region code s" and "0 \<le> p"
  shows "code_slice_byte code p s = Inr (code_at (code_slice_bytes code s) p, s)"
proof -
  have "int (length (region_bytes CodeRegion code s)) = slice_len code"
    using length_code_slice_bytes [OF assms(1)] by (simp add: code_slice_bytes_def)
  then show ?thesis
    using assms(2)
    by (simp add: code_slice_byte_def code_region_byte_at_def region_byte_def py_item_def
        code_at_def code_slice_bytes_def action_simps Let_def)
qed

lemma instruction_step_immediate:
  "instruction_step fork opcode
     (if \<not> (96 \<le> opcode \<and> opcode \<le> 127) \<and> Amsterdam \<le> fork then immediate else 0) =
   instruction_step fork opcode immediate"
  by (simp add: instruction_step_def)

definition same_code :: "'z host_state_scheme \<Rightarrow> 'z host_state_scheme \<Rightarrow> bool" where
  "same_code s t \<longleftrightarrow> code_bytes t = code_bytes s"

lemma same_code_simps:
  "same_code s t \<Longrightarrow> code_slice_bytes code t = code_slice_bytes code s"
  "same_code s t \<Longrightarrow> code_in_region code t = code_in_region code s"
  by (simp_all add: same_code_def code_slice_bytes_def region_bytes_def code_in_region_def)

text \<open>One marking step of the loop.\<close>

lemma mark_run:
  assumes "dict_get (jumpdest_tables s) table = Some e" and "table_code_length e = n"
    and "0 \<le> p" and "p < n"
  shows "\<exists>t. jumpdest_table_mark table n p s = Inr (True, t) \<and> same_code s t \<and>
    dict_get (jumpdest_tables t) table = Some (e\<lparr>positions := insert p (positions e)\<rparr>)"
  using assms
  by (simp add: jumpdest_table_mark_def action_simps same_code_def dict_get_set)

lemma mark_step_run:
  assumes "dict_get (jumpdest_tables s) table = Some e" and "table_code_length e = n"
    and "0 \<le> p" and "p < n"
  shows "\<exists>t. do_when (opcode = 0x5b) (bind (jumpdest_table_mark table n p) (\<lambda>marked.
      ensure marked (SailError msg))) s = Inr ((), t) \<and> same_code s t \<and>
    dict_get (jumpdest_tables t) table =
      Some (e\<lparr>positions := positions e \<union> {q. q = p \<and> opcode = 0x5b}\<rparr>)"
proof (cases "opcode = 0x5b")
  case True
  from mark_run [OF assms] obtain t where "jumpdest_table_mark table n p s = Inr (True, t)"
    "same_code s t"
    "dict_get (jumpdest_tables t) table = Some (e\<lparr>positions := insert p (positions e)\<rparr>)"
    by blast
  moreover have "positions e \<union> {q. q = p \<and> opcode = 0x5b} = insert p (positions e)"
    using True by auto
  ultimately show ?thesis using True by (simp add: do_when_def ensure_def)
next
  case False
  then show ?thesis using assms by (simp add: action_simps same_code_def)
qed

lemma analyze_code_from_marks:
  assumes "code_in_region code s" and "0 \<le> p"
    and "dict_get (jumpdest_tables s) table = Some e" and "table_code_length e = slice_len code"
  shows "\<exists>t. analyze_code_from code fork table p s = Inr ((), t) \<and> same_code s t \<and>
    dict_get (jumpdest_tables t) table = Some (e\<lparr>positions := positions e \<union>
      {q. reaches (code_slice_bytes code s) fork p q \<and>
          code_at (code_slice_bytes code s) q = 0x5b}\<rparr>)"
  using assms
proof (induction code fork table p arbitrary: s e rule: analyze_code_from.induct)
  case (1 code fork table p)
  let ?c = "code_slice_bytes code s" and ?n = "slice_len code"
  note len = length_code_slice_bytes [OF "1.prems"(1)]
  show ?case
  proof (cases "p < ?n")
    case False
    then have none: "{q. reaches ?c fork p q \<and> code_at ?c q = 0x5b} = {}"
      using no_reach_beyond [of ?c p fork] len by auto
    show ?thesis unfolding none
      using False "1.prems" by (simp add: analyze_code_from.simps [of code fork table p] same_code_def)
  next
    case True
    let ?op = "code_at ?c p"
    let ?here = "{q. q = p \<and> ?op = 0x5b}"
    from mark_step_run [OF "1.prems"(3,4,2) True, of ?op "''JUMPDEST mark''"] obtain t where
      t: "do_when (?op = 0x5b) (bind (jumpdest_table_mark table ?n p) (\<lambda>marked.
          ensure marked (SailError ''JUMPDEST mark''))) s = Inr ((), t)" "same_code s t"
        "dict_get (jumpdest_tables t) table = Some (e\<lparr>positions := positions e \<union> ?here\<rparr>)"
      by blast
    have in_t: "code_in_region code t" and bytes_t: "code_slice_bytes code t = ?c"
      using same_code_simps [OF t(2)] "1.prems"(1) by simp_all
    let ?push = "96 \<le> ?op \<and> ?op \<le> 127"
    let ?imm = "if \<not> ?push \<and> Amsterdam \<le> fork then code_at ?c (p + 1) else 0"
    have imm: "(if \<not> ?push \<and> fork \<ge> Amsterdam then code_slice_byte code (p + 1) else ret 0) t =
        Inr (?imm, t)"
      using code_slice_byte_run [OF in_t] "1.prems"(2) bytes_t by simp
    have step: "instruction_step fork ?op ?imm = step_at ?c fork p"
      by (simp only: instruction_step_immediate) (simp only: instruction_step_length step_at_def)
    have unroll: "analyze_code_from code fork table p s =
        (if step_at ?c fork p < ?n - p
         then analyze_code_from code fork table (p + step_at ?c fork p) t else Inr ((), t))"
      using True code_slice_byte_run [OF "1.prems"(1,2)] t(1) imm step
      by (simp add: analyze_code_from.simps [of code fork table p] Let_def)
    have reach: "{q. reaches ?c fork p q \<and> code_at ?c q = 0x5b} =
        ?here \<union> {q. reaches ?c fork (p + step_at ?c fork p) q \<and> code_at ?c q = 0x5b}"
      using reaches_iff [of ?c fork p] True len "1.prems"(2) by auto
    show ?thesis
    proof (cases "step_at ?c fork p < ?n - p")
      case False
      then have none: "{q. reaches ?c fork (p + step_at ?c fork p) q \<and> code_at ?c q = 0x5b} = {}"
        using no_reach_beyond [of ?c "p + step_at ?c fork p" fork] len by auto
      show ?thesis unfolding reach none using False unroll t by simp
    next
      case less: True
      have pos: "0 \<le> p + step_at ?c fork p"
        using "1.prems"(2) step_at_pos [of ?c fork p] by linarith
      from "1.IH" [of "step_at ?c fork p" ?op ?imm t "e\<lparr>positions := positions e \<union> ?here\<rparr>"]
      obtain u where u: "analyze_code_from code fork table (p + step_at ?c fork p) t = Inr ((), u)"
          "same_code t u" "dict_get (jumpdest_tables u) table =
            Some (e\<lparr>positions := positions e \<union> ?here \<union>
              {q. reaches ?c fork (p + step_at ?c fork p) q \<and> code_at ?c q = 0x5b}\<rparr>)"
        using True less step in_t pos t(3) "1.prems"(4) bytes_t by auto
      have "same_code s u" using t(2) u(2) by (simp add: same_code_def)
      then show ?thesis unfolding reach using less unroll u by (simp add: Un_assoc)
    qed
  qed
qed

text \<open>The analysis returns, and the table it returns holds the valid jump destinations.\<close>

lemma analyze_code_correct:
  assumes "code_in_region code s" and "0 < slice_len code" and "0 < next_jumpdest_table s"
  shows "\<exists>t. analyze_code code fork s = Inr (next_jumpdest_table s, t) \<and> same_code s t \<and>
    (\<forall>d. jumpdest_ref_contains (next_jumpdest_table s) (slice_len code) d t =
       Inr (valid_jumpdest (code_slice_bytes code s) fork d, t))"
proof -
  let ?table = "next_jumpdest_table s" and ?c = "code_slice_bytes code s"
  let ?e = "\<lparr>table_code_length = slice_len code, positions = {}\<rparr>"
  let ?s = "s\<lparr>next_jumpdest_table := ?table + 1,
    jumpdest_tables := dict_set (jumpdest_tables s) ?table ?e\<rparr>"
  have alloc: "jumpdest_table_alloc code s = Inr (?table, ?s)"
    by (simp add: jumpdest_table_alloc_def action_simps)
  have code: "code_slice_bytes code ?s = ?c" "code_in_region code ?s" "same_code s ?s"
    using assms(1)
    by (simp_all add: code_slice_bytes_def region_bytes_def code_in_region_def same_code_def)
  from analyze_code_from_marks [OF code(2), of 0 ?table ?e fork] obtain t where
    t: "analyze_code_from code fork ?table 0 ?s = Inr ((), t)" "same_code ?s t"
      "dict_get (jumpdest_tables t) ?table = Some (?e\<lparr>positions :=
        {q. reaches ?c fork 0 q \<and> code_at ?c q = 0x5b}\<rparr>)"
    by (auto simp: dict_get_set code)
  have "analyze_code code fork s = Inr (?table, t)"
    using alloc t(1) assms by (simp add: analyze_code_def action_simps)
  moreover have "same_code s t" using code(3) t(2) by (simp add: same_code_def)
  moreover have "jumpdest_ref_contains ?table (slice_len code) d t =
      Inr (valid_jumpdest ?c fork d, t)" for d
    using t(3) reaches_bounds [of ?c fork 0 d] length_code_slice_bytes [OF assms(1)]
    by (auto simp: jumpdest_ref_contains_def valid_jumpdest_def instruction_start_def)
  ultimately show ?thesis by blast
qed

text \<open>On a sample: the 0x5b of a PUSH1 is data, the ones around it are not.\<close>

lemma sample_jumpdests:
  "valid_jumpdest [0x5b, 0x60, 0x5b, 0x5b] Prague d \<longleftrightarrow> d = 0 \<or> d = 3"
proof -
  let ?c = "[0x5b, 0x60, 0x5b, 0x5b] :: bytes"
  have steps: "step_at ?c Prague 0 = 1" "step_at ?c Prague 1 = 2" "step_at ?c Prague 3 = 1"
    by (simp_all add: step_at_def immediate_length_def code_at_def Prague_def)
  have "reaches ?c Prague 0 d \<longleftrightarrow> d = 0 \<or> d = 1 \<or> d = 3"
    using reaches_iff [of ?c Prague 0 d] reaches_iff [of ?c Prague 1 d]
      reaches_iff [of ?c Prague 3 d] no_reach_beyond [of ?c 4 Prague d]
    by (auto simp: steps)
  then show ?thesis
    by (auto simp: valid_jumpdest_def instruction_start_def code_at_def)
qed

section \<open>Properties\<close>

text \<open>C12: JUMPDEST analysis of non-empty code returns, leaves the code alone, and the table it
  returns accepts exactly the positions that hold the JUMPDEST opcode and start an instruction.
  Instruction starts are those reached from the first byte by skipping, after each opcode, the
  bytes of its immediate: n bytes after PUSHn, one after a DUPN, SWAPN or EXCHANGE with a valid
  immediate from Amsterdam on, none after any other opcode.\<close>

theorem analyze_code_marks_jumpdests:
  assumes "code_in_region code s" and "0 < slice_len code" and "0 < next_jumpdest_table s"
  shows "\<exists>t. analyze_code code fork s = Inr (next_jumpdest_table s, t) \<and>
    code_bytes t = code_bytes s \<and>
    (\<forall>d. jumpdest_ref_contains (next_jumpdest_table s) (slice_len code) d t =
       Inr (valid_jumpdest (code_slice_bytes code s) fork d, t))"
  using analyze_code_correct [OF assms] by (simp add: same_code_def)

theorem analyze_code_marks_jumpdests_witness:
  "\<exists>t. analyze_code \<lparr>slice_bytes = 1, slice_len = 4\<rparr> Prague
      (initial_host_state\<lparr>code_bytes := [0, 0x5b, 0x60, 0x5b, 0x5b]\<rparr>) = Inr (1, t) \<and>
    (\<forall>d. jumpdest_ref_contains 1 4 d t = Inr (d = 0 \<or> d = 3, t))"
proof -
  let ?s = "initial_host_state\<lparr>code_bytes := [0, 0x5b, 0x60, 0x5b, 0x5b]\<rparr>"
  let ?code = "\<lparr>slice_bytes = 1, slice_len = 4\<rparr>"
  have "next_jumpdest_table ?s = 1" "code_in_region ?code ?s"
    by (simp_all add: initial_host_state_def code_in_region_def)
  moreover have "code_slice_bytes ?code ?s = [0x5b, 0x60, 0x5b, 0x5b]"
    by (simp add: code_slice_bytes_def region_bytes_def slice_of_def py_slice_nonneg Let_def)
  ultimately show ?thesis
    using analyze_code_marks_jumpdests [of ?code ?s Prague] by (auto simp: sample_jumpdests)
qed

end
