(* ===== verification/Profile.thy ===== *)
theory Profile
  imports Code_Analysis
begin

text \<open>
  The protocol profiles of \<open>primitives/chain_config.py\<close>: blob schedules, the parameters of each
  fork and the gas limits of a block. The dataclass validators are predicates, the constructors
  raise \<open>ValueError\<close> when they fail; the profiles the schema selects all satisfy them.
\<close>

section \<open>Blob schedules\<close>

record blob_schedule_fields =
  bs_target :: int
  bs_max :: int
  bs_fraction :: int

definition blob_schedule_parameters :: "int \<Rightarrow> int \<Rightarrow> int \<Rightarrow> bool" where
  "blob_schedule_parameters target maximum denominator \<longleftrightarrow>
     (target, maximum, denominator) \<in>
       {(0, 0, 1), (3, 6, 3338477), (6, 9, 5007716), (10, 15, 8346193), (14, 21, 11684671)}"

definition blob_schedule :: "int \<Rightarrow> int \<Rightarrow> int \<Rightarrow> ('s, blob_schedule_fields) action" where
  "blob_schedule target maximum denominator =
     (if blob_schedule_parameters target maximum denominator
      then ret \<lparr>bs_target = target, bs_max = maximum, bs_fraction = denominator\<rparr>
      else raise (ValueError ''BlobScheduleFieldsValidity violates Sail constraint''))"

definition compute_profile_excess_blob_gas_limit :: "fork \<Rightarrow> int \<Rightarrow> int \<Rightarrow> int \<Rightarrow> int" where
  "compute_profile_excess_blob_gas_limit fork target maximum denominator =
     (if fork < Cancun then 0 else 256 * denominator + (maximum - target) * 2 ^ 17)"

section \<open>Protocol profiles\<close>

record protocol_profile =
  pp_fork :: fork
  pp_blob_schedule :: blob_schedule_fields
  excess_blob_gas_limit :: int
  deployed_code_size_limit :: int
  initcode_size_limit :: int
  transaction_total_gas_limit :: int
  transaction_regular_gas_limit :: int
  transaction_blob_limit :: int
  refund_divisor :: int

text \<open>\<open>ProtocolProfileFieldsValidity\<close>: one row per fork, forks 6 to 9 share one.\<close>

definition protocol_profile_parameters ::
    "int \<Rightarrow> int \<Rightarrow> int \<Rightarrow> int \<Rightarrow> int \<Rightarrow> int \<Rightarrow> int \<Rightarrow> int \<Rightarrow> int \<Rightarrow> int \<Rightarrow> bool" where
  "protocol_profile_parameters fork target maximum denominator code_limit initcode_limit
       gas_total gas_regular blob_limit divisor \<longleftrightarrow>
     (fork = 5 \<and> (target, maximum, denominator) = (0, 0, 1) \<and> code_limit = 24576 \<and>
        initcode_limit = 0 \<and> gas_total = 2 ^ 64 - 1 \<and> gas_regular = 2 ^ 64 - 1 \<and> blob_limit = 0 \<and>
        divisor = 2) \<or>
     (6 \<le> fork \<and> fork \<le> 9 \<and> (target, maximum, denominator) = (0, 0, 1) \<and> code_limit = 24576 \<and>
        initcode_limit = 0 \<and> gas_total = 2 ^ 64 - 1 \<and> gas_regular = 2 ^ 64 - 1 \<and> blob_limit = 0 \<and>
        divisor = 5) \<or>
     (fork = 10 \<and> (target, maximum, denominator) = (0, 0, 1) \<and> code_limit = 24576 \<and>
        initcode_limit = 49152 \<and> gas_total = 2 ^ 64 - 1 \<and> gas_regular = 2 ^ 64 - 1 \<and> blob_limit = 0 \<and>
        divisor = 5) \<or>
     (fork = 11 \<and> (target, maximum, denominator) = (3, 6, 3338477) \<and> code_limit = 24576 \<and>
        initcode_limit = 49152 \<and> gas_total = 2 ^ 64 - 1 \<and> gas_regular = 2 ^ 64 - 1 \<and> blob_limit = 6 \<and>
        divisor = 5) \<or>
     (fork = 12 \<and> (target, maximum, denominator) = (6, 9, 5007716) \<and> code_limit = 24576 \<and>
        initcode_limit = 49152 \<and> gas_total = 2 ^ 64 - 1 \<and> gas_regular = 2 ^ 64 - 1 \<and> blob_limit = 9 \<and>
        divisor = 5) \<or>
     (fork = 13 \<and> (target, maximum, denominator) = (6, 9, 5007716) \<and> code_limit = 24576 \<and>
        initcode_limit = 49152 \<and> gas_total = 2 ^ 24 \<and> gas_regular = 2 ^ 24 \<and> blob_limit = 6 \<and>
        divisor = 5) \<or>
     (fork = 14 \<and> (target, maximum, denominator) = (10, 15, 8346193) \<and> code_limit = 24576 \<and>
        initcode_limit = 49152 \<and> gas_total = 2 ^ 24 \<and> gas_regular = 2 ^ 24 \<and> blob_limit = 6 \<and>
        divisor = 5) \<or>
     (fork = 15 \<and> (target, maximum, denominator) = (14, 21, 11684671) \<and> code_limit = 24576 \<and>
        initcode_limit = 49152 \<and> gas_total = 2 ^ 24 \<and> gas_regular = 2 ^ 24 \<and> blob_limit = 6 \<and>
        divisor = 5) \<or>
     (fork = 16 \<and> (target, maximum, denominator) = (14, 21, 11684671) \<and> code_limit = 65536 \<and>
        initcode_limit = 131072 \<and> gas_total = 2 ^ 64 - 1 \<and> gas_regular = 2 ^ 24 \<and> blob_limit = 6 \<and>
        divisor = 5)"

definition protocol_profile_of ::
    "fork \<Rightarrow> int \<Rightarrow> int \<Rightarrow> int \<Rightarrow> int \<Rightarrow> int \<Rightarrow> int \<Rightarrow> int \<Rightarrow> int \<Rightarrow> int
      \<Rightarrow> ('s, protocol_profile) action" where
  "protocol_profile_of fork target maximum denominator code_limit initcode_limit
       gas_total gas_regular blob_limit divisor =
     (if protocol_profile_parameters fork target maximum denominator code_limit initcode_limit
           gas_total gas_regular blob_limit divisor
      then bind (blob_schedule target maximum denominator) (\<lambda>schedule.
        ret \<lparr>pp_fork = fork, pp_blob_schedule = schedule,
             excess_blob_gas_limit =
               compute_profile_excess_blob_gas_limit fork target maximum denominator,
             deployed_code_size_limit = code_limit, initcode_size_limit = initcode_limit,
             transaction_total_gas_limit = gas_total, transaction_regular_gas_limit = gas_regular,
             transaction_blob_limit = blob_limit, refund_divisor = divisor\<rparr>)
      else raise (ValueError ''ProtocolProfileFieldsValidity violates Sail constraint''))"

definition schema_protocol_profile :: "int \<Rightarrow> ('s, protocol_profile) action" where
  "schema_protocol_profile schema_fork =
     (if schema_fork = 10 then
        protocol_profile_of Berlin 0 0 1 24576 0 (2 ^ 64 - 1) (2 ^ 64 - 1) 0 2
      else if schema_fork = 11 then
        protocol_profile_of London 0 0 1 24576 0 (2 ^ 64 - 1) (2 ^ 64 - 1) 0 5
      else if schema_fork = 12 then
        protocol_profile_of ArrowGlacier 0 0 1 24576 0 (2 ^ 64 - 1) (2 ^ 64 - 1) 0 5
      else if schema_fork = 13 then
        protocol_profile_of GrayGlacier 0 0 1 24576 0 (2 ^ 64 - 1) (2 ^ 64 - 1) 0 5
      else if schema_fork = 14 then
        protocol_profile_of Paris 0 0 1 24576 0 (2 ^ 64 - 1) (2 ^ 64 - 1) 0 5
      else if schema_fork = 15 then
        protocol_profile_of Shanghai 0 0 1 24576 49152 (2 ^ 64 - 1) (2 ^ 64 - 1) 0 5
      else if schema_fork = 16 then
        protocol_profile_of Cancun 3 6 3338477 24576 49152 (2 ^ 64 - 1) (2 ^ 64 - 1) 6 5
      else if schema_fork = 17 then
        protocol_profile_of Prague 6 9 5007716 24576 49152 (2 ^ 64 - 1) (2 ^ 64 - 1) 9 5
      else if schema_fork = 18 then
        protocol_profile_of Osaka 6 9 5007716 24576 49152 (2 ^ 24) (2 ^ 24) 6 5
      else if schema_fork = 19 then
        protocol_profile_of BPO1 10 15 8346193 24576 49152 (2 ^ 24) (2 ^ 24) 6 5
      else if schema_fork = 20 then
        protocol_profile_of BPO2 14 21 11684671 24576 49152 (2 ^ 24) (2 ^ 24) 6 5
      else
        protocol_profile_of Amsterdam 14 21 11684671 65536 131072 (2 ^ 64 - 1) (2 ^ 24) 6 5)"

definition schema_protocol_profile_forwards_matches :: "int \<Rightarrow> bool" where
  "schema_protocol_profile_forwards_matches schema_fork \<longleftrightarrow>
     schema_fork \<in> {10, 11, 12, 13, 14, 15, 16, 17, 18, 19, 20, 21}"

section \<open>Gas limits\<close>

record gas_limits =
  block_limit :: int
  transaction_total_limit :: int
  transaction_regular_limit :: int
  system_regular_limit :: int
  system_state_limit :: int

definition gas_limits_parameters :: "int \<Rightarrow> int \<Rightarrow> int \<Rightarrow> int \<Rightarrow> int \<Rightarrow> bool" where
  "gas_limits_parameters limit profile_total profile_regular gas_total gas_regular \<longleftrightarrow>
     0 \<le> limit \<and> limit \<le> 2 ^ 64 - 1 \<and>
     (profile_total = 2 ^ 24 \<or> profile_total = 2 ^ 64 - 1) \<and>
     (profile_regular = 2 ^ 24 \<or> profile_regular = 2 ^ 64 - 1) \<and>
     gas_total = (if limit < profile_total then limit else profile_total) \<and>
     gas_regular = (if gas_total < profile_regular then gas_total else profile_regular)"

definition gas_limits_for :: "protocol_profile \<Rightarrow> int \<Rightarrow> ('s, gas_limits) action" where
  "gas_limits_for profile limit =
     (let gas_total = (if limit < transaction_total_gas_limit profile then limit
                   else transaction_total_gas_limit profile);
          gas_regular = (if gas_total < transaction_regular_gas_limit profile then gas_total
                     else transaction_regular_gas_limit profile)
      in if gas_limits_parameters limit (transaction_total_gas_limit profile)
              (transaction_regular_gas_limit profile) gas_total gas_regular
         then ret \<lparr>block_limit = limit, transaction_total_limit = gas_total,
                   transaction_regular_limit = gas_regular, system_regular_limit = 30000000,
                   system_state_limit = 0\<rparr>
         else raise (ValueError ''GasLimitsFieldsValidity violates Sail constraint''))"

record execution_profile =
  protocol :: protocol_profile
  profile_gas :: gas_limits

definition execution_profile_for ::
    "protocol_profile \<Rightarrow> int \<Rightarrow> ('s, execution_profile) action" where
  "execution_profile_for profile limit =
     bind (gas_limits_for profile limit) (\<lambda>limits.
     ret \<lparr>protocol = profile, profile_gas = limits\<rparr>)"

section \<open>The parameters of every schema are valid\<close>

lemma fork_parameters:
  "protocol_profile_parameters Berlin 0 0 1 24576 0 (2 ^ 64 - 1) (2 ^ 64 - 1) 0 2"
  "protocol_profile_parameters London 0 0 1 24576 0 (2 ^ 64 - 1) (2 ^ 64 - 1) 0 5"
  "protocol_profile_parameters ArrowGlacier 0 0 1 24576 0 (2 ^ 64 - 1) (2 ^ 64 - 1) 0 5"
  "protocol_profile_parameters GrayGlacier 0 0 1 24576 0 (2 ^ 64 - 1) (2 ^ 64 - 1) 0 5"
  "protocol_profile_parameters Paris 0 0 1 24576 0 (2 ^ 64 - 1) (2 ^ 64 - 1) 0 5"
  "protocol_profile_parameters Shanghai 0 0 1 24576 49152 (2 ^ 64 - 1) (2 ^ 64 - 1) 0 5"
  "protocol_profile_parameters Cancun 3 6 3338477 24576 49152 (2 ^ 64 - 1) (2 ^ 64 - 1) 6 5"
  "protocol_profile_parameters Prague 6 9 5007716 24576 49152 (2 ^ 64 - 1) (2 ^ 64 - 1) 9 5"
  "protocol_profile_parameters Osaka 6 9 5007716 24576 49152 (2 ^ 24) (2 ^ 24) 6 5"
  "protocol_profile_parameters BPO1 10 15 8346193 24576 49152 (2 ^ 24) (2 ^ 24) 6 5"
  "protocol_profile_parameters BPO2 14 21 11684671 24576 49152 (2 ^ 24) (2 ^ 24) 6 5"
  "protocol_profile_parameters Amsterdam 14 21 11684671 65536 131072 (2 ^ 64 - 1) (2 ^ 24) 6 5"
  by (simp_all add: protocol_profile_parameters_def fork_defs)

section \<open>The parameters by number of the fork\<close>

text \<open>
  The reference, one parameter at a time: forks are numbered from 5 (Berlin) to 16 (Amsterdam).
  London (6) raised the refund divisor, Shanghai (10) brought the limit on initcode, which is twice
  that on code, Cancun (11) the blobs, Osaka (13) the cap on a transaction's gas and blobs, and
  Amsterdam (16) larger code and a cap on regular gas only.
\<close>

definition blob_schedule_numbers :: "int \<Rightarrow> blob_schedule_fields" where
  "blob_schedule_numbers n =
     (let (target, most, fraction) =
        if n \<ge> 15 then (14, 21, 11684671) else if n = 14 then (10, 15, 8346193)
        else if n \<ge> 12 then (6, 9, 5007716) else if n = 11 then (3, 6, 3338477) else (0, 0, 1)
      in \<lparr>bs_target = target, bs_max = most, bs_fraction = fraction\<rparr>)"

definition profile_numbers :: "int \<Rightarrow> protocol_profile" where
  "profile_numbers n =
     (let blobs = blob_schedule_numbers n; code_limit = (if n \<ge> 16 then 65536 else 24576)
      in \<lparr>pp_fork = n, pp_blob_schedule = blobs,
          excess_blob_gas_limit =
            (if n \<ge> 11 then 256 * bs_fraction blobs + (bs_max blobs - bs_target blobs) * 131072 else 0),
          deployed_code_size_limit = code_limit,
          initcode_size_limit = (if n \<ge> 10 then 2 * code_limit else 0),
          transaction_total_gas_limit = (if n \<in> {13..15} then 16777216 else 18446744073709551615),
          transaction_regular_gas_limit = (if n \<ge> 13 then 16777216 else 18446744073709551615),
          transaction_blob_limit = (if n \<ge> 13 then 6 else bs_max blobs),
          refund_divisor = (if n \<ge> 6 then 5 else 2)\<rparr>)"

lemma profile_of_numbers:
  assumes "protocol_profile_parameters n target maximum denominator code_limit initcode_limit
    gas_total gas_regular blob_limit divisor"
  shows "protocol_profile_of n target maximum denominator code_limit initcode_limit
    gas_total gas_regular blob_limit divisor s = Inr (profile_numbers n, s)"
  using assms unfolding protocol_profile_parameters_def
  by (elim disjE conjE)
    (auto simp: protocol_profile_of_def protocol_profile_parameters_def blob_schedule_def
      blob_schedule_parameters_def profile_numbers_def blob_schedule_numbers_def
      compute_profile_excess_blob_gas_limit_def Cancun_def)

lemma schema_numbers:
  "schema_protocol_profile schema_fork s =
     Inr (profile_numbers (if schema_fork \<in> {10..20} then schema_fork - 5 else 16), s)"
proof -
  have "schema_fork = 10 \<or> schema_fork = 11 \<or> schema_fork = 12 \<or> schema_fork = 13 \<or> schema_fork = 14 \<or>
      schema_fork = 15 \<or> schema_fork = 16 \<or> schema_fork = 17 \<or> schema_fork = 18 \<or> schema_fork = 19 \<or>
      schema_fork = 20 \<or> schema_fork \<notin> {10..20}"
    unfolding atLeastAtMost_iff by presburger
  then show ?thesis
    unfolding schema_protocol_profile_def fork_parameters [THEN profile_of_numbers]
    by (elim disjE) (auto simp: fork_defs)
qed

section \<open>Properties\<close>

text \<open>C21: The schema fork number 10 selects fork 5, Berlin, and so on in order up to 21 and fork
  16, Amsterdam, which any other number selects too, without raising, with the parameters that the
  reference gives for that fork. The gas limits of a block are its limit, for a transaction at most
  2^24 from Osaka to the second blob fork, for the regular gas of a transaction at most 2^24 from
  Osaka on, and 30000000 regular gas and no state gas for a system call.\<close>

theorem schema_profile_gives_limits:
  assumes "0 \<le> limit" and "limit \<le> 2 ^ 64 - 1"
    and "n = (if schema_fork \<in> {10..20} then schema_fork - 5 else 16)"
  shows "schema_protocol_profile schema_fork s = Inr (profile_numbers n, s) \<and>
    gas_limits_for (profile_numbers n) limit s =
      Inr (\<lparr>block_limit = limit,
            transaction_total_limit = (if n \<in> {13..15} then min limit 16777216 else limit),
            transaction_regular_limit = (if n \<ge> 13 then min limit 16777216 else limit),
            system_regular_limit = 30000000, system_state_limit = 0\<rparr>, s)"
  using assms(1,2)
  by (simp add: assms(3) schema_numbers gas_limits_for_def gas_limits_parameters_def
      profile_numbers_def Let_def min_def)

theorem schema_profile_gives_limits_witness:
  "schema_protocol_profile 17 (0 :: nat) = Inr (profile_numbers 12, 0) \<and>
    gas_limits_for (profile_numbers 12) 30000000 (0 :: nat) =
      Inr (\<lparr>block_limit = 30000000, transaction_total_limit = 30000000,
            transaction_regular_limit = 30000000, system_regular_limit = 30000000,
            system_state_limit = 0\<rparr>, 0)"
  using schema_profile_gives_limits [of 30000000 12 17 "0 :: nat"] by simp

end
