(* ===== verification/Byte_Words.thy ===== *)
theory Byte_Words
  imports Words
begin

text \<open>
  Conversions of \<open>prelude.py\<close> between 256-bit words and the byte vectors of hashes and
  addresses. A Sail vector of decreasing order keeps its element 0 last, so logical index \<open>i\<close>
  is the physical index \<open>length - 1 - i\<close> (\<open>_logical_index\<close> of \<open>_runtime.py\<close>). Both directions
  are inverse on vectors of the right length and on words in range.
\<close>

section \<open>Vectors of decreasing order\<close>

definition vector_access :: "'a list \<Rightarrow> nat \<Rightarrow> 'a" where
  "vector_access xs i = xs ! (length xs - 1 - i)"

definition vector_update :: "'a list \<Rightarrow> nat \<Rightarrow> 'a \<Rightarrow> 'a list" where
  "vector_update xs i x = xs[length xs - 1 - i := x]"

text \<open>The value of the nested \<open>sail_vector_append\<close> of bytes, most significant first.\<close>

fun append_bits :: "bytes \<Rightarrow> int" where
  "append_bits [] = 0"
| "append_bits (b # bs) = push_bit (8 * length bs) (uint b) OR append_bits bs"

definition bytes_to_word :: "nat \<Rightarrow> bytes \<Rightarrow> int" where
  "bytes_to_word n bs = append_bits (map (vector_access bs) [0..<n])"

definition word_to_bytes :: "nat \<Rightarrow> int \<Rightarrow> bytes" where
  "word_to_bytes n value =
     foldl (\<lambda>r i. vector_update r i (word_of_int (drop_bit (8 * (n - 1 - i)) value)))
       (zeros n) [0..<n]"

definition hash_to_word :: "bytes \<Rightarrow> int" where
  "hash_to_word h = bytes_to_word 32 h"

definition word_to_hash :: "int \<Rightarrow> bytes" where
  "word_to_hash value = word_to_bytes 32 value"

definition address_to_word :: "bytes \<Rightarrow> int" where
  "address_to_word a = bytes_to_word 20 a"

definition word_to_address :: "int \<Rightarrow> bytes" where
  "word_to_address value = word_to_bytes 20 value"

definition hash_from_bits :: "int \<Rightarrow> bytes" where
  "hash_from_bits value = word_to_hash (bits 256 value)"

definition address_from_bits :: "int \<Rightarrow> bytes" where
  "address_from_bits value = word_to_address (bits 256 value)"

section \<open>The conversions as big-endian codings\<close>

lemma append_bits_big: "append_bits bs = from_bytes_big bs"
proof (induction bs)
  case (Cons b bs)
  have "append_bits bs < 2 ^ (8 * length bs)" "0 \<le> append_bits bs"
    using Cons from_bytes_big_bound [of bs] by (simp_all add: power_mult)
  then have "push_bit (8 * length bs) (uint b) OR append_bits bs =
      uint b * 2 ^ (8 * length bs) + append_bits bs"
    using concat_bit_def [of "8 * length bs" "append_bits bs" "uint b"]
      concat_bit_eq [of "8 * length bs" "append_bits bs" "uint b"]
    by (simp add: take_bit_int_eq_self or.commute push_bit_eq_mult)
  then show ?case
    using Cons from_bytes_big_append [of "[b]" bs] by (simp add: power_mult from_bytes_big_def)
qed simp

lemma map_vector_access: "length bs = n \<Longrightarrow> map (vector_access bs) [0..<n] = rev bs"
  by (rule nth_equalityI) (auto simp: vector_access_def rev_nth)

lemma bytes_to_word_big: "length bs = n \<Longrightarrow> bytes_to_word n bs = from_bytes_big (rev bs)"
  by (simp add: bytes_to_word_def append_bits_big map_vector_access)

lemma vector_fold_update:
  assumes "length xs = n" and "k \<le> n"
  shows "foldl (\<lambda>r i. vector_update r i (f i)) xs [0..<k] =
    take (n - k) xs @ rev (map f [0..<k])"
  using assms(2)
proof (induction k)
  case (Suc k)
  then have "take (n - k) xs = take (n - Suc k) xs @ [xs ! (n - Suc k)]"
    using assms(1) by (metis Suc_diff_Suc diff_less less_le_trans not_less_zero
        take_Suc_conv_app_nth zero_less_Suc Suc_le_eq)
  with Suc assms(1) show ?case
    by (simp add: vector_update_def list_update_append)
qed (use assms(1) in simp)

lemma to_bytes_big_map:
  "to_bytes_big v n = map (\<lambda>i. word_of_int (drop_bit (8 * (n - 1 - i)) v)) [0..<n]"
proof (induction n arbitrary: v)
  case (Suc n)
  have "drop_bit (8 * (n - 1 - i)) (v div 256) = drop_bit (8 * (n - i)) v" if "i < n" for i
  proof -
    have "n - i = Suc (n - 1 - i)" using that by simp
    then show ?thesis
      by (simp add: drop_bit_eq_div zdiv_zmult2_eq [symmetric] power_add)
  qed
  then show ?case using Suc by simp
qed simp

lemma word_to_bytes_big: "word_to_bytes n v = rev (to_bytes_big v n)"
  using vector_fold_update [of "zeros n" n n "\<lambda>i. word_of_int (drop_bit (8 * (n - 1 - i)) v)"]
  by (simp add: word_to_bytes_def to_bytes_big_map)

lemma length_word_to_bytes [simp]: "length (word_to_bytes n v) = n"
  by (simp add: word_to_bytes_big)

lemma bytes_of_word: "bytes_to_word n (word_to_bytes n v) = v mod 256 ^ n"
  by (simp add: bytes_to_word_big word_to_bytes_big from_to_bytes_big)

lemma word_of_bytes: "length bs = n \<Longrightarrow> word_to_bytes n (bytes_to_word n bs) = bs"
  by (simp add: bytes_to_word_big word_to_bytes_big to_from_bytes_big)

lemma length_word_to_hash [simp]: "length (word_to_hash v) = 32"
  by (simp add: word_to_hash_def)

lemma length_word_to_address [simp]: "length (word_to_address v) = 20"
  by (simp add: word_to_address_def)

lemma hash_to_word_to_hash: "length h = 32 \<Longrightarrow> word_to_hash (hash_to_word h) = h"
  by (simp add: word_to_hash_def hash_to_word_def word_of_bytes)

lemma hash_of_word_mod: "hash_to_word (word_to_hash v) = v mod word_modulus"
  using bytes_of_word [of 32 v] by (simp add: word_to_hash_def hash_to_word_def)

lemma address_of_word_mod: "address_to_word (word_to_address v) = v mod 2 ^ 160"
  using bytes_of_word [of 20 v] by (simp add: word_to_address_def address_to_word_def)

lemma address_to_word_to_address: "length a = 20 \<Longrightarrow> word_to_address (address_to_word a) = a"
  by (simp add: word_to_address_def address_to_word_def word_of_bytes)

section \<open>Properties\<close>

text \<open>C20: Words and 32-byte hashes, and words and 20-byte addresses, convert into each other: the
  round trip from bytes is the identity, and a word loses exactly the bits that do not fit.\<close>

theorem byte_word_round_trips:
  "(length h = 32 \<longrightarrow> word_to_hash (hash_to_word h) = h) \<and>
   (length a = 20 \<longrightarrow> word_to_address (address_to_word a) = a) \<and>
   hash_to_word (word_to_hash v) = v mod 2 ^ 256 \<and>
   address_to_word (word_to_address v) = v mod 2 ^ 160"
  by (simp add: hash_to_word_to_hash address_to_word_to_address hash_of_word_mod
      address_of_word_mod)

theorem byte_word_round_trips_witness:
  "word_to_hash (hash_to_word (replicate 32 7)) = replicate 32 7 \<and>
   word_to_address (address_to_word (replicate 20 255)) = replicate 20 255"
  using byte_word_round_trips [of "replicate 32 7" "replicate 20 255" 0] by simp

end
