(* ===== verification/Rlp_Decode.thy ===== *)
theory Rlp_Decode
  imports Region_Access Byte_Words
begin

text \<open>
  RLP decoding over slices of the stateless input (\<open>lib/rlp/decoding.py\<close>, with the length
  helpers of \<open>lib/rlp/encoding.py\<close> and the field references of \<open>primitives/rlp.py\<close>): headers,
  items, lists, and the canonical readings of integers and words. Reading never changes the
  host; a malformed encoding ends in \<open>fatal_error\<close>.
\<close>

section \<open>Field references\<close>

record rlp_field_ref =
  rf_source :: region_slice
  rf_is_list :: bool
  rf_content_len :: int

definition rlp_field_ref :: "region_slice \<Rightarrow> bool \<Rightarrow> int \<Rightarrow> ('s, rlp_field_ref) action" where
  "rlp_field_ref source is_list content_len =
     (if valid_range (slice_bytes source) (slice_len source) \<and> 0 \<le> content_len \<and>
         content_len \<le> slice_len source
      then ret \<lparr>rf_source = source, rf_is_list = is_list, rf_content_len = content_len\<rparr>
      else raise (ValueError ''RlpFieldRefValidity violates Sail constraint''))"

definition RLP_SHORT_LENGTH_LIMIT :: int where "RLP_SHORT_LENGTH_LIMIT = 55"
definition RLP_WORD_LENGTH_LIMIT :: int where "RLP_WORD_LENGTH_LIMIT = 32"
definition RLP_UINT64_LENGTH_LIMIT :: int where "RLP_UINT64_LENGTH_LIMIT = 8"

section \<open>Lengths\<close>

definition rlp_nat_length_byte :: "int \<Rightarrow> int" where
  "rlp_nat_length_byte value = bits 8 value"

definition word_of_nat_byte_count :: "int \<Rightarrow> ('s, int) action" where
  "word_of_nat_byte_count value =
     (if value < 2 ^ 256 then as_word value
      else raise (SailError ''sail/primitives/quantities.sail:615.20-615.21''))"

definition rlp_length_word :: "int \<Rightarrow> ('s, int) action" where
  "rlp_length_word value = word_of_nat_byte_count value"

definition rlp_minimal_word_len :: "int \<Rightarrow> int" where
  "rlp_minimal_word_len w = word_byte_length w"

definition rlp_uint64_append :: "int \<Rightarrow> int \<Rightarrow> int" where
  "rlp_uint64_append prefix next_byte = prefix * 256 + next_byte"

fun rlp_uint64_width :: "region_slice \<Rightarrow> nat \<Rightarrow> ('z, int) host" where
  "rlp_uint64_width content 0 = ret 0"
| "rlp_uint64_width content (Suc width) =
     bind (rlp_uint64_width content width) (\<lambda>prefix.
     bind (stateless_input_slice_byte content (int width)) (\<lambda>next_byte.
     ret (rlp_uint64_append prefix next_byte)))"

section \<open>Headers and items\<close>

text \<open>The header: whether the item is a list, where its content starts and how long it is.\<close>

definition rlp_ref_hdr :: "region_slice \<Rightarrow> ('z, bool \<times> int \<times> int) host" where
  "rlp_ref_hdr b =
     (let source_len = slice_len b in
      if source_len = 0 then fatal_error RlpDecode
      else
        bind (stateless_input_slice_byte b 0) (\<lambda>h.
        if h < 128 then ret (False, 0, 1)
        else if h < 184 then ret (False, 1, h - 128)
        else if h < 192 then
          (let length_width = h - 183 in
           if length_width \<le> source_len - 1 then
             bind (region_sub_slice b 1 length_width) (\<lambda>length_bytes.
             bind (rlp_uint64_width length_bytes (nat length_width)) (\<lambda>len.
             ret (False, 1 + length_width, len)))
           else fatal_error RlpDecode)
        else if h < 248 then ret (True, 1, h - 192)
        else
          (let length_width = h - 247 in
           if length_width \<le> source_len - 1 then
             bind (region_sub_slice b 1 length_width) (\<lambda>length_bytes.
             bind (rlp_uint64_width length_bytes (nat length_width)) (\<lambda>len.
             ret (True, 1 + length_width, len)))
           else fatal_error RlpDecode)))"

definition rlp_item_content :: "rlp_field_ref \<Rightarrow> ('s, region_slice) action" where
  "rlp_item_content f =
     region_sub_slice (rf_source f) (slice_len (rf_source f) - rf_content_len f) (rf_content_len f)"

definition rlp_decode_list :: "rlp_field_ref \<Rightarrow> ('s, region_slice) action" where
  "rlp_decode_list f =
     (if rf_is_list f then rlp_item_content f else fatal_error RlpDecode)"

definition rlp_decode_item :: "region_slice \<Rightarrow> ('z, rlp_field_ref) host" where
  "rlp_decode_item cursor =
     (if slice_len cursor = 0 then fatal_error RlpDecode
      else
        bind (rlp_ref_hdr cursor) (\<lambda>(is_list, content_off, content_len).
        if slice_len cursor < content_off then fatal_error RlpDecode
        else if slice_len cursor - content_off < content_len then fatal_error RlpDecode
        else
          (let full_len = content_off + content_len in
           if 0 < full_len \<and> full_len \<le> slice_len cursor then
             bind (region_sub_slice cursor 0 full_len) (\<lambda>field_source.
             rlp_field_ref field_source is_list content_len)
           else fatal_error RlpDecode)))"

definition rlp_cursor_advance :: "region_slice \<Rightarrow> int \<Rightarrow> ('s, region_slice) action" where
  "rlp_cursor_advance cursor consumed = region_slice_suffix cursor consumed"

definition rlp_cursor_expect_end :: "region_slice \<Rightarrow> ('s, unit) action" where
  "rlp_cursor_expect_end cursor =
     (if slice_len cursor = 0 then ret () else fatal_error RlpDecode)"

text \<open>Taking the first item and advancing past it, as every decoder of fields does.\<close>

definition rlp_next :: "region_slice \<Rightarrow> ('z, rlp_field_ref \<times> region_slice) host" where
  "rlp_next cursor =
     bind (rlp_decode_item cursor) (\<lambda>field.
     bind (rlp_cursor_advance cursor (slice_len (rf_source field))) (\<lambda>cursor. ret (field, cursor)))"

lemma rlp_next_shorter:
  assumes "rlp_next cursor s = Inr ((field, rest), t)"
  shows "slice_len rest < slice_len cursor" and "0 < slice_len cursor"
  using assms
  by (auto simp: rlp_next_def rlp_decode_item_def rlp_cursor_advance_def region_slice_suffix_def
      region_sub_slice_def region_slice_def rlp_field_ref_def fatal_error_def valid_range_def Let_def
      elim!: bind_returnsE split: if_splits)

definition rlp_single_ref :: "region_slice \<Rightarrow> ('z, rlp_field_ref) host" where
  "rlp_single_ref item =
     (let item_length = slice_len item in
      if item_length = 0 then fatal_error RlpDecode
      else
        bind (rlp_ref_hdr item) (\<lambda>(is_list, content_off, content_len).
        if content_off \<le> item_length \<and> content_len = item_length - content_off
        then rlp_field_ref item is_list content_len
        else fatal_error RlpDecode))"

definition rlp_node_cursor :: "region_slice \<Rightarrow> ('z, region_slice) host" where
  "rlp_node_cursor node =
     (if slice_len node = 0 then fatal_error RlpDecode
      else bind (rlp_single_ref node) rlp_decode_list)"

section \<open>Canonical integers and words\<close>

text \<open>Both operands of the source's \<open>&\<close> and \<open>==\<close> are read; reading has no effect.\<close>

definition rlp_ref_framing_canonical :: "rlp_field_ref \<Rightarrow> ('z, bool) host" where
  "rlp_ref_framing_canonical f =
     (let n = rf_content_len f; source = rf_source f; full_length = slice_len source;
          content_offset = full_length - n in
      if full_length = 0 then ret False
      else
        bind (stateless_input_slice_byte source 0) (\<lambda>head.
        if rf_is_list f then
          (if n \<le> RLP_SHORT_LENGTH_LIMIT
           then ret (full_length = n + 1 \<and> head = bits 8 (0xc0 + rlp_nat_length_byte n))
           else
             bind (rlp_length_word n) (\<lambda>length_word.
             let length_width = rlp_minimal_word_len length_word in
             bind (if 0 < full_length then stateless_input_slice_load_n source 1 length_width
                   else ret 0) (\<lambda>loaded.
             ret (full_length = 1 + length_width + n \<and>
               head = bits 8 (0xf7 + rlp_nat_length_byte length_width) \<and> loaded = length_word))))
        else if n = 0 then ret (full_length = 1 \<and> head = 0x80)
        else
          bind (stateless_input_slice_byte source content_offset) (\<lambda>first.
          if n = 1 \<and> first < 128 then ret (full_length = 1 \<and> head = first)
          else if n \<le> RLP_SHORT_LENGTH_LIMIT
          then ret (full_length = n + 1 \<and> head = bits 8 (0x80 + rlp_nat_length_byte n))
          else
            bind (rlp_length_word n) (\<lambda>length_word.
            let length_width = rlp_minimal_word_len length_word in
            bind (if 0 < full_length then stateless_input_slice_load_n source 1 length_width
                  else ret 0) (\<lambda>loaded.
            ret (full_length = 1 + length_width + n \<and>
              head = bits 8 (0xb7 + rlp_nat_length_byte length_width) \<and> loaded = length_word))))))"

definition rlp_ref_bytes_canonical :: "rlp_field_ref \<Rightarrow> ('z, bool) host" where
  "rlp_ref_bytes_canonical f =
     bind (rlp_ref_framing_canonical f) (\<lambda>framing. ret (\<not> rf_is_list f \<and> framing))"

definition rlp_item_uint_canonical :: "rlp_field_ref \<Rightarrow> ('z, bool) host" where
  "rlp_item_uint_canonical f =
     bind (rlp_ref_bytes_canonical f) (\<lambda>bytes_canonical.
     if \<not> bytes_canonical then ret False
     else
       bind (stateless_input_slice_byte (rf_source f)
               (slice_len (rf_source f) - rf_content_len f)) (\<lambda>first.
       ret (rf_content_len f = 0 \<or> first \<noteq> 0)))"

definition rlp_word_valid :: "rlp_field_ref \<Rightarrow> bool" where
  "rlp_word_valid f \<longleftrightarrow> \<not> rf_is_list f \<and> rf_content_len f \<le> RLP_WORD_LENGTH_LIMIT"

definition rlp_u256_valid :: "rlp_field_ref \<Rightarrow> ('z, bool) host" where
  "rlp_u256_valid f =
     bind (rlp_item_uint_canonical f) (\<lambda>canonical.
     ret (canonical \<and> rf_content_len f \<le> RLP_WORD_LENGTH_LIMIT))"

definition rlp_uint64_valid :: "rlp_field_ref \<Rightarrow> ('z, bool) host" where
  "rlp_uint64_valid f =
     bind (rlp_item_uint_canonical f) (\<lambda>canonical.
     ret (canonical \<and> rf_content_len f \<le> RLP_UINT64_LENGTH_LIMIT))"

definition rlp_decode_word :: "rlp_field_ref \<Rightarrow> ('z, int) host" where
  "rlp_decode_word f =
     (let n = rf_content_len f in
      if rf_is_list f \<or> RLP_WORD_LENGTH_LIMIT < n then fatal_error RlpDecode
      else stateless_input_slice_load_n (rf_source f) (slice_len (rf_source f) - n) n)"

definition rlp_decode_u256 :: "rlp_field_ref \<Rightarrow> ('z, int) host" where
  "rlp_decode_u256 f =
     bind (rlp_item_uint_canonical f) (\<lambda>canonical.
     if canonical then rlp_decode_word f else fatal_error RlpDecode)"

definition rlp_decode_uint64 :: "rlp_field_ref \<Rightarrow> ('z, int) host" where
  "rlp_decode_uint64 f =
     bind (rlp_item_uint_canonical f) (\<lambda>canonical.
     if \<not> canonical \<or> RLP_UINT64_LENGTH_LIMIT < rf_content_len f then fatal_error RlpDecode
     else
       bind (rlp_item_content f) (\<lambda>content.
       bind (rlp_uint64_width content (nat (sail_tmod_int (rf_content_len f) 9))) (\<lambda>value.
       ranged 0 (2 ^ 64 - 1) value)))"

datatype 'a rlp_result = RlpOk 'a | RlpInvalidValue

definition rlp_decode_bool :: "rlp_field_ref \<Rightarrow> ('z, bool rlp_result) host" where
  "rlp_decode_bool field =
     bind (rlp_decode_uint64 field) (\<lambda>value.
     ret (if value = 0 then RlpOk False else if value = 1 then RlpOk True else RlpInvalidValue))"

section \<open>Reading leaves the host as it is\<close>

named_theorems pure_intros "computations that only read"

lemma pure_ret [pure_intros]: "pure_action (ret x)"
  by (simp add: pure_action_def unchanged.keeps_ret)

lemma pure_raise [pure_intros]: "pure_action (raise e)"
  by (simp add: pure_action_def keeps_raise)

lemma pure_fatal [pure_intros]: "pure_action (fatal_error r)"
  by (simp add: fatal_error_def pure_raise)

lemma pure_bind [pure_intros]:
  "pure_action m \<Longrightarrow> (\<And>x. pure_action (f x)) \<Longrightarrow> pure_action (bind m f)"
  by (simp add: pure_action_def unchanged.keeps_bind)

lemma pure_if [pure_intros]:
  "(b \<Longrightarrow> pure_action m) \<Longrightarrow> (\<not> b \<Longrightarrow> pure_action n) \<Longrightarrow> pure_action (if b then m else n)"
  by simp

lemma pure_let [pure_intros]: "(\<And>x. pure_action (f x)) \<Longrightarrow> pure_action (Let v f)"
  by simp

lemma pure_case_prod [pure_intros]:
  "(\<And>x y. pure_action (f x y)) \<Longrightarrow> pure_action (case_prod f p)"
  by (simp split: prod.splits)

lemma pure_ensure [pure_intros]: "pure_action (ensure b e)"
  by (simp add: pure_action_def unchanged.keeps_ensure)

lemma pure_ranged [pure_intros]: "pure_action (ranged a b v)"
  by (simp add: ranged_def pure_ret pure_raise)

lemma pure_as_word [pure_intros]: "pure_action (as_word v)"
  by (simp add: as_word_def pure_ranged)

lemmas [pure_intros] = pure_reads

lemma pure_region_slice [pure_intros]: "pure_action (region_slice off len)"
  by (simp add: region_slice_def pure_ret pure_raise)

lemma pure_region_sub_slice [pure_intros]: "pure_action (region_sub_slice s off len)"
  by (simp add: region_sub_slice_def pure_region_slice)

lemma pure_region_slice_suffix [pure_intros]: "pure_action (region_slice_suffix s off)"
  by (simp add: region_slice_suffix_def pure_region_slice)

lemma pure_region_byte [pure_intros]: "pure_action (region_byte kind s off)"
  unfolding region_byte_def py_item_def by (intro pure_intros)

lemma pure_load_word [pure_intros]: "pure_action (load_word kind s off n)"
  unfolding load_word_def by (intro pure_intros)

lemma pure_input_byte [pure_intros]: "pure_action (stateless_input_slice_byte s off)"
  unfolding stateless_input_slice_byte_def stateless_input_byte_at_def by (intro pure_intros)

lemma pure_input_load [pure_intros]: "pure_action (stateless_input_slice_load s off)"
  unfolding stateless_input_slice_load_def stateless_input_load_word_def by (intro pure_intros)

lemma pure_input_load_n [pure_intros]: "pure_action (stateless_input_slice_load_n s off n)"
  unfolding stateless_input_slice_load_n_def stateless_input_load_n_word_def
  by (intro pure_intros)

lemma pure_rlp_uint64_width [pure_intros]: "pure_action (rlp_uint64_width content n)"
proof (induction n)
  case (Suc n)
  then show ?case by (simp, intro pure_intros)
qed (simp add: pure_action_def keeps_def)

lemma pure_rlp_field_ref [pure_intros]: "pure_action (rlp_field_ref s l n)"
  unfolding rlp_field_ref_def by (intro pure_intros)

lemma pure_rlp_ref_hdr [pure_intros]: "pure_action (rlp_ref_hdr b)"
  unfolding rlp_ref_hdr_def by (intro pure_intros)

lemma pure_rlp_item_content [pure_intros]: "pure_action (rlp_item_content f)"
  unfolding rlp_item_content_def by (intro pure_intros)

lemma pure_rlp_decode_list [pure_intros]: "pure_action (rlp_decode_list f)"
  unfolding rlp_decode_list_def by (intro pure_intros)

lemma pure_rlp_decode_item [pure_intros]: "pure_action (rlp_decode_item f)"
  unfolding rlp_decode_item_def by (intro pure_intros)

lemma pure_rlp_cursor [pure_intros]:
  "pure_action (rlp_cursor_advance c n)" "pure_action (rlp_cursor_expect_end c)"
  unfolding rlp_cursor_advance_def rlp_cursor_expect_end_def by (intro pure_intros)+

lemma pure_rlp_single_ref [pure_intros]: "pure_action (rlp_single_ref s)"
  unfolding rlp_single_ref_def by (intro pure_intros)

lemma pure_rlp_node_cursor [pure_intros]: "pure_action (rlp_node_cursor s)"
  unfolding rlp_node_cursor_def by (intro pure_intros)

lemma pure_rlp_length_word [pure_intros]: "pure_action (rlp_length_word n)"
  unfolding rlp_length_word_def word_of_nat_byte_count_def by (intro pure_intros)

lemma pure_rlp_canonical [pure_intros]: "pure_action (rlp_item_uint_canonical f)"
  unfolding rlp_item_uint_canonical_def rlp_ref_bytes_canonical_def rlp_ref_framing_canonical_def
  by (intro pure_intros)

lemma pure_rlp_decode [pure_intros]:
  "pure_action (rlp_decode_word f)" "pure_action (rlp_decode_u256 f)"
  "pure_action (rlp_decode_uint64 f)"
  unfolding rlp_decode_word_def rlp_decode_u256_def rlp_decode_uint64_def by (intro pure_intros)+

end
