(* ===== verification/Host_World.thy ===== *)
theory Host_World
  imports Host_Regions "HOL-Library.Product_Lexorder"
begin

text \<open>
  The world state of \<open>contract/HostContract.py\<close>: transient storage, the reversible state
  journal with its checkpoints, the transaction and block caches of accounts and storage, the
  warm sets of EIP-2929, the logs and the authorization tracker. Every operation that changes
  reversible state appends the entry that undoes it to the journal; \<open>state_journal_revert\<close>
  replays the entries of the innermost open frame backwards.
\<close>

section \<open>Transient storage\<close>

definition transient_reset :: "('z, unit) host" where
  "transient_reset = modify (\<lambda>s. s\<lparr>transient := []\<rparr>)"

definition transient_store :: "address \<Rightarrow> int \<Rightarrow> int \<Rightarrow> ('z, unit) host" where
  "transient_store a slot value = modify (\<lambda>s.
     let key = address_slot_key a slot
     in s\<lparr>journal := journal s @
            [JournalTransientChanged a slot (dict_get_default (transient s) key 0)],
          transient := dict_set (transient s) key value\<rparr>)"

definition transient_load :: "address \<Rightarrow> int \<Rightarrow> ('z, int) host" where
  "transient_load a slot =
     reads (\<lambda>s. dict_get_default (transient s) (address_slot_key a slot) 0)"

section \<open>Undoing one journal entry\<close>

definition journal_append :: "journal_entry \<Rightarrow> ('z, unit) host" where
  "journal_append entry = modify (\<lambda>s. s\<lparr>journal := journal s @ [entry]\<rparr>)"

definition journal_account_row :: "address \<Rightarrow> ('z, account_tx_row) host" where
  "journal_account_row a =
     bind (reads (\<lambda>s. dict_get (account_tx s) (address_key a))) (\<lambda>row.
     case row of
       None \<Rightarrow> raise (RuntimeError ''journal entry references a missing transaction account'')
     | Some row \<Rightarrow> ret row)"

text \<open>Assigning the \<open>current\<close> account of a row that the dictionary holds.\<close>

definition set_current :: "address \<Rightarrow> account_tx_row \<Rightarrow> account \<Rightarrow> ('z, unit) host" where
  "set_current a row value = modify (\<lambda>s.
     s\<lparr>account_tx := dict_set (account_tx s) (address_key a) (row\<lparr>atr_current := value\<rparr>)\<rparr>)"

definition set_info ::
    "address \<Rightarrow> account_tx_row \<Rightarrow> (account_info \<Rightarrow> account_info) \<Rightarrow> ('z, unit) host" where
  "set_info a row f = set_current a row ((atr_current row)\<lparr>info := f (info (atr_current row))\<rparr>)"

definition last_storage_key ::
    "bytes \<Rightarrow> (bytes \<times> int, storage_tx_row) dict \<Rightarrow> (bytes \<times> int) option" where
  "last_storage_key key d = find (\<lambda>k. fst k = key) (rev (map fst d))"

definition set_storage_row :: "storage_key \<Rightarrow> (storage_tx_row \<Rightarrow> storage_tx_row) \<Rightarrow> ('z, unit) host"
  where
  "set_storage_row key f =
     bind (reads (\<lambda>s. dict_get (storage_tx s) (storage_key_of key))) (\<lambda>row.
     case row of
       None \<Rightarrow> raise KeyError
     | Some row \<Rightarrow> modify (\<lambda>s.
         s\<lparr>storage_tx := dict_set (storage_tx s) (storage_key_of key) (f row)\<rparr>))"

fun journal_restore :: "journal_entry \<Rightarrow> ('z, unit) host" where
  "journal_restore (JournalTransientChanged a slot prior) = modify (\<lambda>s.
     s\<lparr>transient := dict_set (transient s) (address_slot_key a slot) prior\<rparr>)"
| "journal_restore (JournalWarmAccountChanged a prior) = modify (\<lambda>s.
     s\<lparr>warm_addresses := dict_set (warm_addresses s) (address_key a) prior\<rparr>)"
| "journal_restore (JournalWarmStorageChanged key prior) = modify (\<lambda>s.
     s\<lparr>warm_slots := dict_set (warm_slots s) (storage_key_of key) prior\<rparr>)"
| "journal_restore (JournalAccountBalanceChanged a prior) =
     bind (journal_account_row a) (\<lambda>row. set_info a row (\<lambda>i. i\<lparr>balance := prior\<rparr>))"
| "journal_restore (JournalAccountNonceChanged a prior) =
     bind (journal_account_row a) (\<lambda>row. set_info a row (\<lambda>i. i\<lparr>nonce := prior\<rparr>))"
| "journal_restore (JournalAccountCodeHashChanged a prior) =
     bind (journal_account_row a) (\<lambda>row. set_info a row (\<lambda>i. i\<lparr>code_hash := prior\<rparr>))"
| "journal_restore (JournalAccountExistsChanged a prior) =
     bind (journal_account_row a) (\<lambda>row. set_current a row ((atr_current row)\<lparr>present := prior\<rparr>))"
| "journal_restore (JournalAccountCreatedChanged a prior) =
     bind (journal_account_row a) (\<lambda>row. set_current a row ((atr_current row)\<lparr>created := prior\<rparr>))"
| "journal_restore (JournalAccountSelfdestructedChanged a prior) =
     bind (journal_account_row a)
       (\<lambda>row. set_current a row ((atr_current row)\<lparr>selfdestructed := prior\<rparr>))"
| "journal_restore JournalTransactionAccountListed =
     bind (reads account_tx) (\<lambda>rows.
     if rows = [] then raise (RuntimeError ''journal account listing has no transaction row'')
     else modify (\<lambda>s. s\<lparr>account_tx := butlast rows\<rparr>))"
| "journal_restore (JournalTransactionStorageListed a) =
     bind (reads storage_tx) (\<lambda>rows.
     case last_storage_key (address_key a) rows of
       None \<Rightarrow> raise (RuntimeError ''journal storage listing has no transaction row'')
     | Some listed \<Rightarrow> modify (\<lambda>s. s\<lparr>storage_tx := dict_del rows listed\<rparr>))"
| "journal_restore JournalLogAppended =
     bind (reads logs) (\<lambda>records.
     if records = [] then raise IndexError
     else modify (\<lambda>s.
       s\<lparr>logs := butlast records,
         log_data := py_del_from (log_data s) (rec_data_offset (last records)),
         current_log := None\<rparr>))"
| "journal_restore (JournalStorageValueChanged key prior) =
     set_storage_row key (\<lambda>row. row\<lparr>str_value := (str_value row)\<lparr>curr := prior\<rparr>\<rparr>)"
| "journal_restore (JournalStorageRowGenerationChanged key prior) =
     set_storage_row key (\<lambda>row. row\<lparr>str_generation := prior\<rparr>)"
| "journal_restore (JournalAccountStorageGenerationChanged a prior) =
     bind (modify (\<lambda>s.
       s\<lparr>storage_generations := dict_set (storage_generations s) (address_key a) prior\<rparr>)) (\<lambda>_.
     bind (reads (\<lambda>s. dict_get (account_tx s) (address_key a))) (\<lambda>found.
     case found of
       None \<Rightarrow> ret ()
     | Some row \<Rightarrow> set_current a row ((atr_current row)\<lparr>storage_cleared :=
         storage_cleared (atr_original row) \<or> prior \<noteq> STORAGE_INITIAL_GENERATION\<rparr>)))"
| "journal_restore JournalFrameCheckpointed = ret ()"
| "journal_restore JournalFrameCommitted = ret ()"

section \<open>Frames of the journal\<close>

text \<open>The loop scans the journal from its end; \<open>closed\<close> counts the committed inner frames.\<close>

fun open_checkpoint_scan :: "int \<Rightarrow> journal_entry list \<Rightarrow> int \<Rightarrow> int option" where
  "open_checkpoint_scan index [] closed = None"
| "open_checkpoint_scan index (entry # earlier) closed =
     (if entry = JournalFrameCommitted then open_checkpoint_scan (index - 1) earlier (closed + 1)
      else if entry = JournalFrameCheckpointed then
        (if closed = 0 then Some index else open_checkpoint_scan (index - 1) earlier (closed - 1))
      else open_checkpoint_scan (index - 1) earlier closed)"

definition open_checkpoint_index :: "('z, int) host" where
  "open_checkpoint_index =
     bind (reads journal) (\<lambda>entries.
     case open_checkpoint_scan (int (length entries) - 1) (rev entries) 0 of
       None \<Rightarrow> raise (RuntimeError ''state journal has no open checkpoint'')
     | Some index \<Rightarrow> ret index)"

definition state_journal_reset :: "('z, unit) host" where
  "state_journal_reset = modify (\<lambda>s. s\<lparr>journal := []\<rparr>)"

definition state_journal_checkpoint :: "('z, unit) host" where
  "state_journal_checkpoint = journal_append JournalFrameCheckpointed"

primrec journal_restore_all :: "journal_entry list \<Rightarrow> ('z, unit) host" where
  "journal_restore_all [] = ret ()"
| "journal_restore_all (entry # rest) = bind (journal_restore entry) (\<lambda>_. journal_restore_all rest)"

definition state_journal_revert :: "('z, unit) host" where
  "state_journal_revert =
     bind open_checkpoint_index (\<lambda>marker.
     bind (reads journal) (\<lambda>entries.
     bind (journal_restore_all (rev (drop (nat marker + 1) entries))) (\<lambda>_.
     modify (\<lambda>s. s\<lparr>journal := py_del_from (journal s) marker\<rparr>))))"

definition state_journal_commit :: "('z, unit) host" where
  "state_journal_commit =
     bind open_checkpoint_index (\<lambda>_. journal_append JournalFrameCommitted)"

section \<open>Storage of the transaction\<close>

definition storage_generation :: "'z host_state_scheme \<Rightarrow> bytes \<Rightarrow> int" where
  "storage_generation s key =
     dict_get_default (storage_generations s) key STORAGE_INITIAL_GENERATION"

definition storage_tx_update_host :: "storage_entry \<Rightarrow> ('z, unit) host" where
  "storage_tx_update_host entry =
     (let canonical = storage_key_of (entry_key entry) in
     bind (reads (\<lambda>s. storage_generation s (fst canonical))) (\<lambda>generation.
     bind (reads (\<lambda>s. dict_get (storage_tx s) canonical)) (\<lambda>found.
     case found of
       None \<Rightarrow>
         bind (journal_append (JournalTransactionStorageListed (key_addr (entry_key entry)))) (\<lambda>_.
         modify (\<lambda>s. s\<lparr>storage_tx := dict_set (storage_tx s) canonical
           \<lparr>str_key = entry_key entry,
            str_value = \<lparr>curr = curr (entry_value entry), orig = orig (entry_value entry)\<rparr>,
            str_generation = generation\<rparr>\<rparr>))
     | Some row \<Rightarrow>
         bind (do_when (curr (str_value row) \<noteq> curr (entry_value entry))
           (bind (journal_append (JournalStorageValueChanged (str_key row) (curr (str_value row))))
             (\<lambda>_. set_storage_row (entry_key entry) (\<lambda>r.
                r\<lparr>str_value := (str_value r)\<lparr>curr := curr (entry_value entry)\<rparr>\<rparr>)))) (\<lambda>_.
         do_when (str_generation row \<noteq> generation)
           (bind (journal_append
                   (JournalStorageRowGenerationChanged (str_key row) (str_generation row)))
             (\<lambda>_. set_storage_row (entry_key entry) (\<lambda>r. r\<lparr>str_generation := generation\<rparr>)))))))"

definition storage_tx_get :: "storage_key \<Rightarrow> ('z, storage_tx_lookup) host" where
  "storage_tx_get key = reads (\<lambda>s.
     let canonical = storage_key_of key; generation = storage_generation s (fst canonical)
     in case dict_get (storage_tx s) canonical of
          Some row \<Rightarrow>
            if str_generation row = generation then StorageTxHit (str_value row)
            else if generation \<noteq> STORAGE_INITIAL_GENERATION then StorageTxCleared
            else StorageTxMiss
        | None \<Rightarrow>
            if generation \<noteq> STORAGE_INITIAL_GENERATION then StorageTxCleared else StorageTxMiss)"

text \<open>The \<open>while\<close> loop pops rows from the end until one is of its account's generation.\<close>

fun storage_tx_pop_loop ::
    "(bytes \<Rightarrow> int) \<Rightarrow> (bytes \<times> int, storage_tx_row) dict
      \<Rightarrow> storage_tx_pop_result \<times> (bytes \<times> int, storage_tx_row) dict" where
  "storage_tx_pop_loop generation [] = (StorageTxPopExhausted, [])"
| "storage_tx_pop_loop generation ((key, row) # earlier) =
     (if str_generation row = generation (fst key)
      then (StorageTxPopRow \<lparr>entry_key = str_key row, entry_value = str_value row\<rparr>, earlier)
      else storage_tx_pop_loop generation earlier)"

definition storage_tx_pop :: "('z, storage_tx_pop_result) host" where
  "storage_tx_pop =
     bind (reads (\<lambda>s. storage_tx_pop_loop (storage_generation s) (rev (storage_tx s)))) (\<lambda>outcome.
     bind (modify (\<lambda>s. s\<lparr>storage_tx := rev (snd outcome)\<rparr>)) (\<lambda>_.
     ret (fst outcome)))"

definition storage_tx_clear :: "address \<Rightarrow> ('z, unit) host" where
  "storage_tx_clear a =
     (let key = address_key a in
     bind (reads (\<lambda>s. storage_generation s key)) (\<lambda>prior.
     bind (journal_append (JournalAccountStorageGenerationChanged a prior)) (\<lambda>_.
     modify (\<lambda>s.
       s\<lparr>storage_next_generation := storage_next_generation s + 1,
         storage_generations :=
           dict_set (storage_generations s) key (storage_next_generation s + 1)\<rparr>))))"

definition storage_tx_reset :: "('z, unit) host" where
  "storage_tx_reset = modify (\<lambda>s.
     s\<lparr>storage_tx := [], storage_generations := [],
       storage_next_generation := STORAGE_INITIAL_GENERATION\<rparr>)"

definition storage_has_writes :: "address \<Rightarrow> ('z, bool) host" where
  "storage_has_writes a = reads (\<lambda>s.
     let key = address_key a;
         generation = storage_generation s key;
         tx_writes = list_ex (\<lambda>(storage_key, row).
           fst storage_key = key \<and> str_generation row = generation \<and> curr (str_value row) \<noteq> 0)
           (storage_tx s)
     in if tx_writes then True
        else if generation \<noteq> STORAGE_INITIAL_GENERATION then False
        else list_ex (\<lambda>(storage_key, row).
          fst storage_key = key \<and> curr (sbc_value row) \<noteq> 0) (storage_block s))"

section \<open>Storage of the block\<close>

definition storage_block_get :: "storage_key \<Rightarrow> ('z, storage_block_row) host" where
  "storage_block_get key = reads (\<lambda>s.
     case dict_get (storage_block s) (storage_key_of key) of
       None \<Rightarrow> \<lparr>block_found = False, block_value = \<lparr>curr = 0, orig = 0\<rparr>\<rparr>
     | Some row \<Rightarrow> \<lparr>block_found = True, block_value = sbc_value row\<rparr>)"

definition storage_row_hashes ::
    "hash_function \<Rightarrow> storage_key \<Rightarrow> 'z host_state_scheme \<Rightarrow> hash \<times> hash" where
  "storage_row_hashes keccak key s =
     ((case dict_get (account_block s) (address_key (key_addr key)) of
         None \<Rightarrow> keccak256_address keccak (key_addr key)
       | Some account \<Rightarrow>
           (case abr_address_hash account of
              None \<Rightarrow> keccak256_address keccak (key_addr key)
            | Some h \<Rightarrow> h)),
      keccak256_word keccak (key_slot key))"

definition storage_block_put :: "hash_function \<Rightarrow> storage_entry \<Rightarrow> ('z, unit) host" where
  "storage_block_put keccak entry = modify (\<lambda>s.
     let canonical = storage_key_of (entry_key entry)
     in case dict_get (storage_block s) canonical of
          None \<Rightarrow>
            (let hashes = storage_row_hashes keccak (entry_key entry) s
             in s\<lparr>storage_block := dict_set (storage_block s) canonical
                  \<lparr>sbc_key = entry_key entry,
                   sbc_value = \<lparr>curr = curr (entry_value entry), orig = orig (entry_value entry)\<rparr>,
                   sbc_address_hash = fst hashes, sbc_slot_hash = snd hashes\<rparr>\<rparr>)
        | Some prior \<Rightarrow>
            s\<lparr>storage_block := dict_set (storage_block s) canonical
              (prior\<lparr>sbc_key := entry_key entry,
                 sbc_value := \<lparr>curr = curr (entry_value entry), orig = orig (sbc_value prior)\<rparr>\<rparr>)\<rparr>)"

definition storage_block_cache ::
    "hash_function \<Rightarrow> storage_key \<Rightarrow> hash \<Rightarrow> int \<Rightarrow> ('z, unit) host" where
  "storage_block_cache keccak key slot_hash value = modify (\<lambda>s.
     let canonical = storage_key_of key
     in case dict_get (storage_block s) canonical of
          Some _ \<Rightarrow> s
        | None \<Rightarrow>
            s\<lparr>storage_block := dict_set (storage_block s) canonical
              \<lparr>sbc_key = key, sbc_value = \<lparr>curr = value, orig = value\<rparr>,
               sbc_address_hash = fst (storage_row_hashes keccak key s),
               sbc_slot_hash = slot_hash\<rparr>\<rparr>)"

definition storage_block_clear :: "address \<Rightarrow> ('z, unit) host" where
  "storage_block_clear a = modify (\<lambda>s.
     s\<lparr>storage_block := filter (\<lambda>(storage_key, row). fst storage_key \<noteq> address_key a)
       (storage_block s)\<rparr>)"

definition storage_block_iter_begin :: "address \<Rightarrow> ('z, unit) host" where
  "storage_block_iter_begin a = modify (\<lambda>s.
     s\<lparr>storage_iterator := sort_key (\<lambda>row. hash_key (sbc_slot_hash row))
       (map snd (filter (\<lambda>(storage_key, row). fst storage_key = address_key a)
         (storage_block s)))\<rparr>)"

fun storage_block_iter_loop ::
    "bytes \<Rightarrow> storage_block_cache_row list
      \<Rightarrow> storage_block_iter_result \<times> storage_block_cache_row list" where
  "storage_block_iter_loop key [] = (StorageBlockIterExhausted, [])"
| "storage_block_iter_loop key (row # rest) =
     (if address_key (key_addr (sbc_key row)) = key
      then (StorageBlockIterRow
              \<lparr>ste_entry = \<lparr>entry_key = sbc_key row, entry_value = sbc_value row\<rparr>,
               ste_address_hash = sbc_address_hash row, ste_slot_hash = sbc_slot_hash row\<rparr>, rest)
      else storage_block_iter_loop key rest)"

definition storage_block_iter_next :: "address \<Rightarrow> ('z, storage_block_iter_result) host" where
  "storage_block_iter_next a =
     bind (reads (\<lambda>s. storage_block_iter_loop (address_key a) (storage_iterator s))) (\<lambda>outcome.
     bind (modify (\<lambda>s. s\<lparr>storage_iterator := snd outcome\<rparr>)) (\<lambda>_.
     ret (fst outcome)))"

section \<open>Accounts of the transaction\<close>

definition EMPTY_ACCOUNT_INFO :: account_info where
  "EMPTY_ACCOUNT_INFO = \<lparr>nonce = 0, balance = 0, code_hash = KECCAK_EMPTY,
     storage_root = EMPTY_TRIE_ROOT\<rparr>"

definition EMPTY_ACCOUNT :: account where
  "EMPTY_ACCOUNT = \<lparr>info = EMPTY_ACCOUNT_INFO, present = False, storage_cleared = True,
     created = False, selfdestructed = False\<rparr>"

definition acct_tx_get :: "address \<Rightarrow> ('z, account_row) host" where
  "acct_tx_get a = reads (\<lambda>s.
     case dict_get (account_tx s) (address_key a) of
       None \<Rightarrow> \<lparr>found = False, row_account = EMPTY_ACCOUNT\<rparr>
     | Some row \<Rightarrow> \<lparr>found = True, row_account = atr_current row\<rparr>)"

definition acct_tx_update :: "address \<Rightarrow> account \<Rightarrow> ('z, unit) host" where
  "acct_tx_update a value =
     (let key = address_key a in
     bind (reads (\<lambda>s. dict_get (account_tx s) key)) (\<lambda>row.
     case row of
       None \<Rightarrow>
         bind (reads (\<lambda>s. dict_get (account_block s) key)) (\<lambda>block.
         case block of
           None \<Rightarrow>
             raise (RuntimeError ''transaction account update requires a cached account'')
         | Some block \<Rightarrow>
             bind (journal_append JournalTransactionAccountListed) (\<lambda>_.
             modify (\<lambda>s. s\<lparr>account_tx := dict_set (account_tx s) key
               \<lparr>atr_current = value, atr_original = acct_curr (abr_value block)\<rparr>\<rparr>)))
     | Some row \<Rightarrow>
         (let prior = atr_current row in
         bind (do_when (balance (info prior) \<noteq> balance (info value))
           (journal_append (JournalAccountBalanceChanged a (balance (info prior))))) (\<lambda>_.
         bind (do_when (nonce (info prior) \<noteq> nonce (info value))
           (journal_append (JournalAccountNonceChanged a (nonce (info prior))))) (\<lambda>_.
         bind (do_when (code_hash (info prior) \<noteq> code_hash (info value))
           (journal_append (JournalAccountCodeHashChanged a (code_hash (info prior))))) (\<lambda>_.
         bind (do_when (present prior \<noteq> present value)
           (journal_append (JournalAccountExistsChanged a (present prior)))) (\<lambda>_.
         bind (do_when (created prior \<noteq> created value)
           (journal_append (JournalAccountCreatedChanged a (created prior)))) (\<lambda>_.
         bind (do_when (selfdestructed prior \<noteq> selfdestructed value)
           (journal_append (JournalAccountSelfdestructedChanged a (selfdestructed prior)))) (\<lambda>_.
         set_current a row value)))))))))"

definition account_tx_required :: "address \<Rightarrow> ('z, account_tx_row) host" where
  "account_tx_required a =
     (let key = address_key a in
     bind (reads (\<lambda>s. dict_get (account_tx s) key)) (\<lambda>row.
     case row of
       Some row \<Rightarrow> ret row
     | None \<Rightarrow>
         bind (reads (\<lambda>s. dict_get (account_block s) key)) (\<lambda>block.
         case block of
           None \<Rightarrow>
             raise (RuntimeError ''transaction account update requires a cached account'')
         | Some block \<Rightarrow>
             (let row = \<lparr>atr_current = acct_curr (abr_value block),
                         atr_original = acct_curr (abr_value block)\<rparr> in
             bind (journal_append JournalTransactionAccountListed) (\<lambda>_.
             bind (modify (\<lambda>s. s\<lparr>account_tx := dict_set (account_tx s) key row\<rparr>)) (\<lambda>_.
             ret row))))))"

definition acct_tx_set_balance :: "address \<Rightarrow> int \<Rightarrow> ('z, unit) host" where
  "acct_tx_set_balance a value =
     bind (account_tx_required a) (\<lambda>row.
     do_when (balance (info (atr_current row)) \<noteq> value)
       (bind (journal_append (JournalAccountBalanceChanged a (balance (info (atr_current row)))))
         (\<lambda>_. set_info a row (\<lambda>i. i\<lparr>balance := value\<rparr>))))"

definition acct_tx_set_nonce :: "address \<Rightarrow> int \<Rightarrow> ('z, unit) host" where
  "acct_tx_set_nonce a value =
     bind (account_tx_required a) (\<lambda>row.
     do_when (nonce (info (atr_current row)) \<noteq> value)
       (bind (journal_append (JournalAccountNonceChanged a (nonce (info (atr_current row)))))
         (\<lambda>_. set_info a row (\<lambda>i. i\<lparr>nonce := value\<rparr>))))"

definition acct_tx_set_code_hash :: "address \<Rightarrow> hash \<Rightarrow> ('z, unit) host" where
  "acct_tx_set_code_hash a value =
     bind (account_tx_required a) (\<lambda>row.
     do_when (code_hash (info (atr_current row)) \<noteq> value)
       (bind (journal_append
               (JournalAccountCodeHashChanged a (code_hash (info (atr_current row)))))
         (\<lambda>_. set_info a row (\<lambda>i. i\<lparr>code_hash := value\<rparr>))))"

definition acct_tx_pop :: "('z, acct_tx_pop_result) host" where
  "acct_tx_pop =
     bind (reads (\<lambda>s. s)) (\<lambda>s.
     if account_tx s = [] then ret AcctTxPopExhausted
     else (let key = fst (last (account_tx s)); row = snd (last (account_tx s));
               a = (case dict_get (account_block s) key of
                      Some block \<Rightarrow> abr_address block
                    | None \<Rightarrow> bytes20_from_wire key) in
       bind (modify (\<lambda>s. s\<lparr>account_tx := butlast (account_tx s)\<rparr>)) (\<lambda>_.
       ret (AcctTxPopRow \<lparr>acct_addr = a,
         acct_val = \<lparr>acct_curr = atr_current row, acct_orig = atr_original row\<rparr>\<rparr>))))"

definition acct_tx_reset :: "('z, unit) host" where
  "acct_tx_reset = modify (\<lambda>s. s\<lparr>account_tx := []\<rparr>)"

section \<open>Accounts of the block\<close>

definition acct_block_get :: "address \<Rightarrow> ('z, account_row) host" where
  "acct_block_get a = reads (\<lambda>s.
     case dict_get (account_block s) (address_key a) of
       None \<Rightarrow> \<lparr>found = False, row_account = EMPTY_ACCOUNT\<rparr>
     | Some row \<Rightarrow> \<lparr>found = True, row_account = acct_curr (abr_value row)\<rparr>)"

definition acct_block_write :: "hash_function \<Rightarrow> acct_entry \<Rightarrow> ('z, unit) host" where
  "acct_block_write keccak entry = modify (\<lambda>s.
     let key = address_key (acct_addr entry);
         address_hash = (case dict_get (account_block s) key of
             Some prior \<Rightarrow>
               (case abr_address_hash prior of
                  Some h \<Rightarrow> h | None \<Rightarrow> keccak256_address keccak (acct_addr entry))
           | None \<Rightarrow> keccak256_address keccak (acct_addr entry))
     in s\<lparr>account_block := dict_set (account_block s) key
          \<lparr>abr_address = acct_addr entry, abr_value = acct_val entry,
           abr_address_hash = Some address_hash\<rparr>\<rparr>)"

definition acct_block_cache :: "address \<Rightarrow> hash \<Rightarrow> account \<Rightarrow> ('z, unit) host" where
  "acct_block_cache a address_hash account = modify (\<lambda>s.
     let key = address_key a
     in case dict_get (account_block s) key of
          Some _ \<Rightarrow> s
        | None \<Rightarrow> s\<lparr>account_block := dict_set (account_block s) key
            \<lparr>abr_address = a, abr_value = \<lparr>acct_curr = account, acct_orig = account\<rparr>,
             abr_address_hash = Some address_hash\<rparr>\<rparr>)"

text \<open>Sorting by the hashes raises when a row has none (\<open>reversed(None)\<close>).\<close>

definition acct_block_iter_begin :: "('z, unit) host" where
  "acct_block_iter_begin =
     bind (reads (\<lambda>s. s)) (\<lambda>s.
     let candidates = account_block s in
     bind (ensure (list_all (\<lambda>k. fst k \<in> fst ` set candidates) (map fst (storage_block s)))
       (RuntimeError ''storage update candidate lacks a cached account'')) (\<lambda>_.
     bind (ensure (list_all (\<lambda>row. abr_address_hash row \<noteq> None) (map snd candidates)) TypeError)
       (\<lambda>_.
     modify (\<lambda>s. s\<lparr>account_iterator :=
       sort_key (\<lambda>row. hash_key (the (abr_address_hash row))) (map snd candidates)\<rparr>))))"

definition acct_block_iter_next :: "('z, acct_block_iter_result) host" where
  "acct_block_iter_next =
     bind (reads account_iterator) (\<lambda>rows.
     case rows of
       [] \<Rightarrow> ret AcctBlockIterExhausted
     | row # rest \<Rightarrow>
         bind (modify (\<lambda>s. s\<lparr>account_iterator := rest\<rparr>)) (\<lambda>_.
         ret (AcctBlockIterRow
           \<lparr>ate_entry = \<lparr>acct_addr = abr_address row, acct_val = abr_value row\<rparr>,
            ate_address_hash = (case abr_address_hash row of Some h \<Rightarrow> h | None \<Rightarrow> [])\<rparr>)))"

section \<open>Warm addresses and slots\<close>

definition warm_reset :: "int \<Rightarrow> ('z, unit) host" where
  "warm_reset epoch = modify (\<lambda>s. s\<lparr>current_warm_epoch := epoch + 1\<rparr>)"

definition account_is_warm :: "address \<Rightarrow> ('z, bool) host" where
  "account_is_warm a = reads (\<lambda>s.
     dict_get_default (warm_addresses s) (address_key a) 0 \<ge> current_warm_epoch s)"

definition account_mark_warm :: "address \<Rightarrow> ('z, unit) host" where
  "account_mark_warm a =
     bind (reads (\<lambda>s. s)) (\<lambda>s.
     let key = address_key a; stamp = dict_get_default (warm_addresses s) key 0 in
     do_when (stamp < current_warm_epoch s)
       (bind (journal_append (JournalWarmAccountChanged a stamp)) (\<lambda>_.
        modify (\<lambda>s. s\<lparr>warm_addresses := dict_set (warm_addresses s) key (current_warm_epoch s)\<rparr>))))"

definition storage_is_warm :: "address \<Rightarrow> int \<Rightarrow> ('z, bool) host" where
  "storage_is_warm a slot = reads (\<lambda>s.
     dict_get_default (warm_slots s) (address_slot_key a slot) 0 \<ge> current_warm_epoch s)"

definition storage_mark_warm :: "address \<Rightarrow> int \<Rightarrow> ('z, unit) host" where
  "storage_mark_warm a slot =
     bind (reads (\<lambda>s. s)) (\<lambda>s.
     let key = address_slot_key a slot; stamp = dict_get_default (warm_slots s) key 0 in
     do_when (stamp < current_warm_epoch s)
       (bind (journal_append (JournalWarmStorageChanged \<lparr>key_addr = a, key_slot = slot\<rparr> stamp)) (\<lambda>_.
        modify (\<lambda>s. s\<lparr>warm_slots := dict_set (warm_slots s) key (current_warm_epoch s)\<rparr>))))"

section \<open>The authorization tracker\<close>

definition authorization_tracker_reset :: "int \<Rightarrow> ('z, unit) host" where
  "authorization_tracker_reset capacity = modify (\<lambda>s. s\<lparr>authorizations := []\<rparr>)"

definition authorization_flag ::
    "(authorization_record \<Rightarrow> bool) \<Rightarrow> address \<Rightarrow> ('z, bool) host" where
  "authorization_flag flag a = reads (\<lambda>s.
     case dict_get (authorizations s) (address_key a) of None \<Rightarrow> False | Some r \<Rightarrow> flag r)"

definition authorization_tracker_seen :: "address \<Rightarrow> ('z, bool) host" where
  "authorization_tracker_seen = authorization_flag seen"

definition authorization_tracker_originally_delegated :: "address \<Rightarrow> ('z, bool) host" where
  "authorization_tracker_originally_delegated = authorization_flag originally_delegated"

definition authorization_tracker_delegation_set :: "address \<Rightarrow> ('z, bool) host" where
  "authorization_tracker_delegation_set = authorization_flag delegation_set"

definition authorization_tracker_commit :: "address \<Rightarrow> bool \<Rightarrow> bool \<Rightarrow> ('z, unit) host" where
  "authorization_tracker_commit a originally is_set = modify (\<lambda>s.
     let key = address_key a
     in case dict_get (authorizations s) key of
          None \<Rightarrow> s\<lparr>authorizations := dict_set (authorizations s) key
            \<lparr>seen = True, originally_delegated = originally, delegation_set = is_set\<rparr>\<rparr>
        | Some r \<Rightarrow> s\<lparr>authorizations := dict_set (authorizations s) key
            (r\<lparr>seen := True, delegation_set := delegation_set r \<or> is_set\<rparr>)\<rparr>)"

section \<open>Logs\<close>

definition logs_tx_reset :: "('z, unit) host" where
  "logs_tx_reset = modify (\<lambda>s.
     s\<lparr>transaction_log_start := int (length (logs s)), current_log := None\<rparr>)"

definition log_begin :: "address \<Rightarrow> ('z, unit) host" where
  "log_begin a =
     bind (journal_append JournalLogAppended) (\<lambda>_.
     modify (\<lambda>s.
       s\<lparr>logs := logs s @ [\<lparr>rec_address = a, rec_topics = [],
             rec_data_offset = int (length (log_data s)), rec_data_length = 0\<rparr>],
         current_log := Some (int (length (logs s)))\<rparr>))"

text \<open>\<open>_current_log_record\<close>, followed by the assignment to a field of the record.\<close>

definition update_current_log :: "(log_record \<Rightarrow> log_record) \<Rightarrow> ('z, unit) host" where
  "update_current_log f =
     bind (reads (\<lambda>s. s)) (\<lambda>s.
     case current_log s of
       None \<Rightarrow> raise (RuntimeError ''log data was appended before log_begin'')
     | Some i \<Rightarrow>
         if i < int (length (logs s))
         then modify (\<lambda>s. s\<lparr>logs := (logs s)[nat i := f (logs s ! nat i)]\<rparr>)
         else raise IndexError)"

definition log_add_topic :: "int \<Rightarrow> ('z, unit) host" where
  "log_add_topic value =
     update_current_log (\<lambda>r. r\<lparr>rec_topics := rec_topics r @ [value]\<rparr>)"

definition append_log_data :: "bytes \<Rightarrow> ('z, unit) host" where
  "append_log_data payload =
     bind (update_current_log (\<lambda>r.
       r\<lparr>rec_data_length := rec_data_length r + int (length payload)\<rparr>)) (\<lambda>_.
     modify (\<lambda>s. s\<lparr>log_data := log_data s @ payload\<rparr>))"

definition log_add_data_memory :: "region_slice \<Rightarrow> ('z, unit) host" where
  "log_add_data_memory value = bind (reads (region_bytes MemoryRegion value)) append_log_data"

definition log_add_data_word :: "int \<Rightarrow> ('z, unit) host" where
  "log_add_data_word value = append_log_data (word_bytes value 32)"

definition logs_tx_start :: "('z, int) host" where
  "logs_tx_start = reads transaction_log_start"

definition logs_tx_count :: "('z, int) host" where
  "logs_tx_count = reads (\<lambda>s. int (length (logs s)) - transaction_log_start s)"

definition log_record_at :: "int \<Rightarrow> ('z, log_record) host" where
  "log_record_at index =
     bind (reads logs) (\<lambda>records.
     let i = (if index < 0 then index + int (length records) else index)
     in if 0 \<le> i \<and> i < int (length records) then ret (records ! nat i) else raise IndexError)"

definition log_address :: "int \<Rightarrow> ('z, address) host" where
  "log_address index = bind (log_record_at index) (\<lambda>r. ret (rec_address r))"

definition log_topics_count :: "int \<Rightarrow> ('z, int) host" where
  "log_topics_count index = bind (log_record_at index) (\<lambda>r. ret (int (length (rec_topics r))))"

definition log_topic :: "int \<Rightarrow> int \<Rightarrow> ('z, int) host" where
  "log_topic index topic =
     bind (log_record_at index) (\<lambda>r.
     let topics = rec_topics r;
         i = (if topic < 0 then topic + int (length topics) else topic)
     in if 0 \<le> i \<and> i < int (length topics) then ret (topics ! nat i) else raise IndexError)"

definition log_data_offset :: "int \<Rightarrow> ('z, int) host" where
  "log_data_offset index = bind (log_record_at index) (\<lambda>r. ret (rec_data_offset r))"

definition log_data_length :: "int \<Rightarrow> ('z, int) host" where
  "log_data_length index = bind (log_record_at index) (\<lambda>r. ret (rec_data_length r))"

end
