(* ===== verification/Trie_Lookup.thy ===== *)
theory Trie_Lookup
  imports Rlp_Decode Host_World
begin

text \<open>
  Lookups in the witnessed Merkle Patricia tries: nibble paths and hex-prefix decoding
  (\<open>lib/mpt/primitives.py\<close>), node references (\<open>lib/mpt/nodes.py\<close>), the decoding of leaf,
  extension and branch nodes (\<open>lib/mpt/codec.py\<close>), the walk from a root
  (\<open>lib/mpt/trie.py\<close>) and the two state readers of \<open>lib/state_trie.py\<close>. The nodes come from
  the node database of the host; a missing node ends in \<open>fatal_error\<close>, an absent key in the
  empty slice. The walk is total: every recursive call moves the cursor forward in the key.
\<close>

section \<open>Paths\<close>

record trie_path =
  path_data :: bytes
  path_length :: nat

definition path_len :: "trie_path \<Rightarrow> nat" where
  "path_len path = path_length path"

definition path_new :: "bytes \<Rightarrow> nat \<Rightarrow> ('s, trie_path) action" where
  "path_new data len =
     (if len \<le> 64 then ret \<lparr>path_data = data, path_length = len\<rparr> else raise OverflowError)"

definition path_empty :: "('s, trie_path) action" where
  "path_empty = path_new (word_to_hash 0) 0"

definition high_nibble :: "byte \<Rightarrow> int" where
  "high_nibble b = uint (drop_bit 4 b)"

definition low_nibble :: "byte \<Rightarrow> int" where
  "low_nibble b = uint (take_bit 4 b)"

definition path_nibble :: "trie_path \<Rightarrow> nat \<Rightarrow> int" where
  "path_nibble path i =
     (if path_len path \<le> i then 0
      else if i mod 2 = 0 then high_nibble (vector_access (path_data path) (i div 2))
      else low_nibble (vector_access (path_data path) (i div 2)))"

text \<open>The loop compares the segment nibble by nibble; \<open>offset\<close> never passes 64.\<close>

function path_matches_from :: "trie_path \<Rightarrow> nat \<Rightarrow> trie_path \<Rightarrow> nat \<Rightarrow> ('s, bool) action" where
  "path_matches_from key pos seg offset =
     (if \<not> offset < path_len seg then ret True
      else if pos + offset \<le> 64 \<and> path_nibble key (pos + offset) = path_nibble seg offset
      then (if offset < 64 then path_matches_from key pos seg (offset + 1)
            else fatal_error WitnessDeficient)
      else if offset < 64 then ret False else fatal_error WitnessDeficient)"
  by auto

termination
  by (relation "measure (\<lambda>(key, pos, seg, offset). path_len seg - offset)") auto

definition path_matches :: "trie_path \<Rightarrow> nat \<Rightarrow> trie_path \<Rightarrow> ('s, bool) action" where
  "path_matches key pos seg =
     (if path_len key < pos + path_len seg then ret False else path_matches_from key pos seg 0)"

definition HEX_PREFIX_MAX_LENGTH :: int where "HEX_PREFIX_MAX_LENGTH = 33"

definition hex_prefix_decode_ref :: "rlp_field_ref \<Rightarrow> ('z, bool \<times> trie_path) host" where
  "hex_prefix_decode_ref f =
     (let n = rf_content_len f in
      if rf_is_list f then fatal_error RlpDecode
      else if n = 0 then bind path_empty (\<lambda>path. ret (False, path))
      else if HEX_PREFIX_MAX_LENGTH < n then fatal_error RlpDecode
      else
        bind (region_sub_slice (rf_source f) (slice_len (rf_source f) - n) n) (\<lambda>content.
        bind (stateless_input_slice_byte content 0) (\<lambda>fb.
        let flag = fb div 16; is_leaf = odd (flag div 2); odd_path = odd flag;
            tail_length = n - 1 in
        bind (region_slice_suffix content 1) (\<lambda>tail.
        bind (stateless_input_slice_load tail 0) (\<lambda>packed.
        let paired_nibbles = tail_length * 2 in
        if odd_path then
          (if paired_nibbles < 64 then
             (let shifted = word_to_hash (word_shift_right packed 4);
                  data = vector_update shifted 0
                    (word_of_int (fb mod 16 * 16 + low_nibble (vector_access shifted 0))) in
              bind (path_new data (nat paired_nibbles + 1)) (\<lambda>path. ret (is_leaf, path)))
           else fatal_error WitnessDeficient)
        else
          bind (path_new (word_to_hash packed) (nat paired_nibbles)) (\<lambda>path.
          ret (is_leaf, path)))))))"

section \<open>Nodes\<close>

datatype node_ref =
    EmptyRef
  | InputInlineRef region_slice
  | ScratchInlineRef bytes int
  | HashRef hash

datatype input_trie_node =
    InputLeafNode trie_path region_slice
  | InputExtensionNode trie_path node_ref
  | InputBranchNode "node_ref list" region_slice

definition MPT_HASH_LENGTH :: int where "MPT_HASH_LENGTH = 32"

definition input_field_to_ref :: "rlp_field_ref \<Rightarrow> ('z, node_ref) host" where
  "input_field_to_ref f =
     (if rf_is_list f then
        (if slice_len (rf_source f) < MPT_HASH_LENGTH then ret (InputInlineRef (rf_source f))
         else fatal_error RlpDecode)
      else if rf_content_len f = MPT_HASH_LENGTH then
        bind (rlp_decode_word f) (\<lambda>word. ret (HashRef (word_to_hash word)))
      else ret EmptyRef)"

function decode_input_branch_node ::
    "region_slice \<Rightarrow> nat \<Rightarrow> node_ref list \<Rightarrow> ('z, input_trie_node) host" where
  "decode_input_branch_node cursor index children =
     (if index < 16 then
        bind (rlp_decode_item cursor) (\<lambda>child.
        bind (rlp_cursor_advance cursor (slice_len (rf_source child))) (\<lambda>next_cursor.
        bind (input_field_to_ref child) (\<lambda>decoded_child.
        decode_input_branch_node next_cursor (index + 1)
          (vector_update children index decoded_child))))
      else
        bind (rlp_decode_item cursor) (\<lambda>value.
        bind (rlp_cursor_advance cursor (slice_len (rf_source value))) (\<lambda>next_cursor.
        bind (rlp_cursor_expect_end next_cursor) (\<lambda>_.
        bind (rlp_item_content value) (\<lambda>content.
        ret (InputBranchNode children content))))))"
  by auto

termination
  by (relation "measure (\<lambda>(cursor, index, children). 16 - index)") auto

declare decode_input_branch_node.simps [simp del]

definition decode_input_trie_node :: "region_slice \<Rightarrow> ('z, input_trie_node) host" where
  "decode_input_trie_node node =
     (if slice_len node = 0 then fatal_error RlpDecode
      else
        bind (rlp_node_cursor node) (\<lambda>fields.
        bind (rlp_decode_item fields) (\<lambda>first.
        bind (rlp_cursor_advance fields (slice_len (rf_source first))) (\<lambda>fields.
        bind (rlp_decode_item fields) (\<lambda>second.
        bind (rlp_cursor_advance fields (slice_len (rf_source second))) (\<lambda>fields.
        if slice_len fields = 0 then
          bind (hex_prefix_decode_ref first) (\<lambda>(is_leaf, path).
          if is_leaf then
            bind (rlp_item_content second) (\<lambda>value. ret (InputLeafNode path value))
          else if path_len path = 0 then fatal_error RlpDecode
          else bind (input_field_to_ref second) (\<lambda>child. ret (InputExtensionNode path child)))
        else
          bind (input_field_to_ref first) (\<lambda>first_child.
          bind (input_field_to_ref second) (\<lambda>second_child.
          let children = replicate 16 EmptyRef;
              children = vector_update children 0 first_child;
              children = vector_update children 1 second_child in
          decode_input_branch_node fields 2 children))))))))"

definition resolve_witness_ref :: "node_ref \<Rightarrow> ('z, region_slice) host" where
  "resolve_witness_ref r =
     (case r of
        EmptyRef \<Rightarrow> ret EMPTY_SLICE
      | InputInlineRef node \<Rightarrow> ret node
      | ScratchInlineRef _ _ \<Rightarrow> fatal_error WitnessDeficient
      | HashRef h \<Rightarrow>
          bind (nodedb_lookup h) (\<lambda>node.
          if slice_len node = 0 then fatal_error WitnessDeficient else ret node))"

definition branch_refs_get :: "node_ref list \<Rightarrow> int \<Rightarrow> node_ref" where
  "branch_refs_get children index = vector_access children (nat index)"

section \<open>The walk\<close>

function trie_walk :: "region_slice \<Rightarrow> trie_path \<Rightarrow> nat \<Rightarrow> ('z, region_slice) host" where
  "trie_walk node key pos =
     (if slice_len node = 0 then ret EMPTY_SLICE
      else
        bind (decode_input_trie_node node) (\<lambda>decoded.
        case decoded of
          InputLeafNode path value \<Rightarrow>
            bind (path_matches key pos path) (\<lambda>matches.
            if \<not> matches then ret EMPTY_SLICE
            else if pos + path_len path = path_len key then ret value
            else ret EMPTY_SLICE)
        | InputExtensionNode path childref \<Rightarrow>
            (let extension_len = path_len path in
             if extension_len = 0 then ret EMPTY_SLICE
             else
               bind (path_matches key pos path) (\<lambda>matches.
               if \<not> matches then ret EMPTY_SLICE
               else
                 (let next_pos = pos + extension_len in
                  if next_pos \<le> 64 then
                    bind (resolve_witness_ref childref) (\<lambda>child. trie_walk child key next_pos)
                  else ret EMPTY_SLICE)))
        | InputBranchNode children value \<Rightarrow>
            (if pos = path_len key then ret value
             else if pos < path_len key then
               bind (resolve_witness_ref (branch_refs_get children (path_nibble key pos)))
                 (\<lambda>child. trie_walk child key (pos + 1))
             else ret EMPTY_SLICE)))"
  by auto

termination
  by (relation "measure (\<lambda>(node, key, pos). max 64 (path_len key) - pos)") auto

declare trie_walk.simps [simp del]

definition trie_lookup :: "hash \<Rightarrow> trie_path \<Rightarrow> ('z, region_slice) host" where
  "trie_lookup root key =
     (if root = EMPTY_TRIE_ROOT then ret EMPTY_SLICE
      else
        bind (nodedb_lookup root) (\<lambda>node.
        if slice_len node = 0 then fatal_error WitnessDeficient else trie_walk node key 0))"

section \<open>State readers\<close>

definition decode_state_account :: "region_slice \<Rightarrow> ('z, account_info) host" where
  "decode_state_account value =
     bind (rlp_node_cursor value) (\<lambda>fields.
     bind (rlp_decode_item fields) (\<lambda>nonce_ref.
     bind (rlp_cursor_advance fields (slice_len (rf_source nonce_ref))) (\<lambda>fields.
     bind (rlp_decode_item fields) (\<lambda>balance_ref.
     bind (rlp_cursor_advance fields (slice_len (rf_source balance_ref))) (\<lambda>fields.
     bind (rlp_decode_item fields) (\<lambda>storage.
     bind (rlp_cursor_advance fields (slice_len (rf_source storage))) (\<lambda>fields.
     bind (rlp_decode_item fields) (\<lambda>code.
     bind (rlp_cursor_advance fields (slice_len (rf_source code))) (\<lambda>fields.
     bind (rlp_cursor_expect_end fields) (\<lambda>_.
     bind (if rf_content_len storage = 0 then ret EMPTY_TRIE_ROOT
           else bind (rlp_decode_word storage) (\<lambda>w. ret (word_to_hash w))) (\<lambda>root.
     bind (if rf_content_len code = 0 then ret KECCAK_EMPTY
           else bind (rlp_decode_word code) (\<lambda>w. ret (word_to_hash w))) (\<lambda>hash.
     bind (rlp_decode_uint64 nonce_ref) (\<lambda>n.
     bind (rlp_decode_u256 balance_ref) (\<lambda>b.
     ret \<lparr>nonce = n, balance = b, code_hash = hash, storage_root = root\<rparr>))))))))))))))"

definition account_from_info :: "account_info \<Rightarrow> account" where
  "account_from_info i = \<lparr>info = i, present = True, storage_cleared = False, created = False,
     selfdestructed = False\<rparr>"

definition stateless_account_by_key :: "hash \<Rightarrow> hash \<Rightarrow> ('z, account) host" where
  "stateless_account_by_key root address_hash =
     bind (path_new address_hash 64) (\<lambda>path.
     bind (trie_lookup root path) (\<lambda>value.
     if slice_len value = 0 then ret EMPTY_ACCOUNT
     else bind (decode_state_account value) (\<lambda>i. ret (account_from_info i))))"

definition stateless_storage_by_key :: "hash \<Rightarrow> hash \<Rightarrow> ('z, int) host" where
  "stateless_storage_by_key root slot_hash =
     bind (path_new slot_hash 64) (\<lambda>path.
     bind (trie_lookup root path) (\<lambda>value.
     if slice_len value = 0 then ret ZERO_WORD
     else bind (rlp_single_ref value) rlp_decode_u256))"

section \<open>Lookups only read\<close>

lemma pure_path_new [pure_intros]: "pure_action (path_new d n)" "pure_action path_empty"
  unfolding path_empty_def path_new_def by (intro pure_intros)+

lemma pure_path_matches [pure_intros]: "pure_action (path_matches key pos seg)"
proof -
  have "pure_action (path_matches_from key pos seg offset :: ('s, bool) action)" for offset
  proof (induction key pos seg offset rule: path_matches_from.induct)
    case (1 key pos seg offset)
    then show ?case
      by (subst path_matches_from.simps, intro pure_intros) simp
  qed
  then show ?thesis unfolding path_matches_def by (intro pure_intros)
qed

lemma pure_hex_prefix [pure_intros]: "pure_action (hex_prefix_decode_ref f)"
  unfolding hex_prefix_decode_ref_def by (intro pure_intros)

lemma pure_input_field_to_ref [pure_intros]: "pure_action (input_field_to_ref f)"
  unfolding input_field_to_ref_def by (intro pure_intros)

lemma pure_decode_branch [pure_intros]:
  "pure_action (decode_input_branch_node cursor index children)"
proof (induction cursor index children rule: decode_input_branch_node.induct)
  case (1 cursor index children)
  then show ?case
    by (subst decode_input_branch_node.simps, intro pure_intros) simp
qed

lemma pure_decode_node [pure_intros]: "pure_action (decode_input_trie_node node)"
  unfolding decode_input_trie_node_def by (intro pure_intros)

lemma pure_nodedb_lookup [pure_intros]: "pure_action (nodedb_lookup h)"
  unfolding nodedb_lookup_def by (intro pure_intros)

lemma pure_resolve [pure_intros]: "pure_action (resolve_witness_ref r)"
  by (cases r) (auto simp: resolve_witness_ref_def intro!: pure_intros)

lemma pure_trie_walk [pure_intros]: "pure_action (trie_walk node key pos :: ('z, region_slice) host)"
proof (induction node key pos rule: trie_walk.induct)
  case (1 node key pos)
  show ?case
  proof (subst trie_walk.simps, intro pure_if pure_ret pure_bind pure_decode_node)
    fix decoded
    assume start: "slice_len node \<noteq> 0"
    show "pure_action ((case decoded of
          InputLeafNode path value \<Rightarrow>
            bind (path_matches key pos path) (\<lambda>matches.
            if \<not> matches then ret EMPTY_SLICE
            else if pos + path_len path = path_len key then ret value
            else ret EMPTY_SLICE)
        | InputExtensionNode path childref \<Rightarrow>
            (let extension_len = path_len path in
             if extension_len = 0 then ret EMPTY_SLICE
             else
               bind (path_matches key pos path) (\<lambda>matches.
               if \<not> matches then ret EMPTY_SLICE
               else
                 (let next_pos = pos + extension_len in
                  if next_pos \<le> 64 then
                    bind (resolve_witness_ref childref) (\<lambda>child. trie_walk child key next_pos)
                  else ret EMPTY_SLICE)))
        | InputBranchNode children value \<Rightarrow>
            (if pos = path_len key then ret value
             else if pos < path_len key then
               bind (resolve_witness_ref (branch_refs_get children (path_nibble key pos)))
                 (\<lambda>child. trie_walk child key (pos + 1))
             else ret EMPTY_SLICE)) :: ('z, region_slice) host)"
    proof (cases decoded)
      case (InputLeafNode path v)
      then show ?thesis by (auto intro!: pure_intros)
    next
      case (InputExtensionNode path childref)
      have "pure_action (trie_walk child key (pos + path_len path) :: ('z, region_slice) host)"
        if "path_len path \<noteq> 0" "pos + path_len path \<le> 64" for child :: region_slice
        using "1.IH"(1)[OF start refl that(1) _ refl that(2), of True] by simp
      then show ?thesis
        unfolding Let_def using InputExtensionNode by (auto intro!: pure_intros)
    next
      case (InputBranchNode children v)
      have "pure_action (trie_walk child key (pos + 1) :: ('z, region_slice) host)"
        if "pos < path_len key" for child :: region_slice
        using "1.IH"(2)[OF start _ that] that by simp
      then show ?thesis
        using InputBranchNode by (auto intro!: pure_intros)
    qed
  qed
qed

lemma pure_trie_lookup [pure_intros]: "pure_action (trie_lookup root key)"
  unfolding trie_lookup_def by (intro pure_intros)

lemma pure_decode_state_account [pure_intros]: "pure_action (decode_state_account v)"
  unfolding decode_state_account_def by (intro pure_intros)

lemma pure_state_readers [pure_intros]:
  "pure_action (stateless_account_by_key root h)" "pure_action (stateless_storage_by_key root h)"
  unfolding stateless_account_by_key_def stateless_storage_by_key_def by (intro pure_intros)+

end
