(* ===== verification/Kernel_State.thy ===== *)
theory Kernel_State
  imports Profile Trie_Lookup
begin

text \<open>
  The registers of the kernel: the module variables of \<open>kernel/environment.py\<close> and
  \<open>kernel/scratch.py\<close> as a record that extends the host state, the scratch arena operations of
  \<open>kernel/scratch.py\<close> and the environment readers of \<open>kernel/environment.py\<close> that call no other
  kernel module.
\<close>

section \<open>Registers\<close>

record block_header =
  hdr_number :: int
  hdr_timestamp :: int
  hdr_gas_limit :: int
  hdr_gas_used :: int
  hdr_prev_randao :: int
  hdr_base_fee :: int
  hdr_blob_gas_used :: int
  hdr_excess_blob_gas :: int
  hdr_state_root :: hash
  hdr_receipts_root :: hash
  hdr_logs_bloom :: region_slice
  hdr_fee_recipient :: address
  hdr_parent_hash :: hash
  hdr_parent_beacon_block_root :: hash
  hdr_slot_number :: int
  hdr_extra_data :: region_slice

record blob_hashes_ref =
  blob_bytes :: region_slice
  blob_count :: int

record tx_env =
  tx_origin :: address
  tx_gas_price :: int
  tx_blob_hashes :: blob_hashes_ref

record kernel_state = host_state +
  scratch_arena :: region_slice
  k_parent_state_root :: hash
  k_n_headers :: int
  k_chain_id :: int
  k_execution_profile :: execution_profile
  k_header :: block_header
  k_tx :: tx_env
  k_current_transaction_epoch :: int

type_synonym ('z, 'a) kernel = "('z kernel_state_scheme, 'a) action"

definition EMPTY_BLOB_HASHES :: blob_hashes_ref where
  "EMPTY_BLOB_HASHES = \<lparr>blob_bytes = EMPTY_SLICE, blob_count = 0\<rparr>"

definition ZERO_ADDRESS :: address where "ZERO_ADDRESS = replicate 20 0"
definition ZERO_HASH :: hash where "ZERO_HASH = replicate 32 0"

definition initial_header :: block_header where
  "initial_header = \<lparr>hdr_number = 0, hdr_timestamp = 0, hdr_gas_limit = 0, hdr_gas_used = 0,
     hdr_prev_randao = ZERO_WORD, hdr_base_fee = ZERO_WORD, hdr_blob_gas_used = 0,
     hdr_excess_blob_gas = 0, hdr_state_root = ZERO_HASH, hdr_receipts_root = ZERO_HASH,
     hdr_logs_bloom = \<lparr>slice_bytes = 0, slice_len = 256\<rparr>, hdr_fee_recipient = ZERO_ADDRESS,
     hdr_parent_hash = ZERO_HASH, hdr_parent_beacon_block_root = ZERO_HASH,
     hdr_slot_number = 0, hdr_extra_data = EMPTY_SLICE\<rparr>"

definition initial_tx_env :: tx_env where
  "initial_tx_env = \<lparr>tx_origin = ZERO_ADDRESS, tx_gas_price = ZERO_WORD,
     tx_blob_hashes = EMPTY_BLOB_HASHES\<rparr>"

text \<open>The profile is computed when the module is loaded; \<open>default_execution_profile\<close> is its value.\<close>

definition DEFAULT_EXECUTION_PROFILE :: "('s, execution_profile) action" where
  "DEFAULT_EXECUTION_PROFILE =
     bind (schema_protocol_profile 21) (\<lambda>protocol. execution_profile_for protocol 0)"

definition reset_environment_registers :: "('z, unit) kernel" where
  "reset_environment_registers =
     bind DEFAULT_EXECUTION_PROFILE (\<lambda>profile. modify (\<lambda>s. s\<lparr>
       k_parent_state_root := ZERO_HASH, k_n_headers := 0, k_chain_id := 1,
       k_execution_profile := profile, k_header := initial_header, k_tx := initial_tx_env,
       k_current_transaction_epoch := 0\<rparr>))"

definition reset_scratch_registers :: "('z, unit) kernel" where
  "reset_scratch_registers = modify (\<lambda>s. s\<lparr>scratch_arena := EMPTY_SLICE\<rparr>)"

definition default_execution_profile :: execution_profile where
  "default_execution_profile =
     \<lparr>protocol = \<lparr>pp_fork = Amsterdam,
        pp_blob_schedule = \<lparr>bs_target = 14, bs_max = 21, bs_fraction = 11684671\<rparr>,
        excess_blob_gas_limit = 256 * 11684671 + 7 * 2 ^ 17,
        deployed_code_size_limit = 65536, initcode_size_limit = 131072,
        transaction_total_gas_limit = 2 ^ 64 - 1, transaction_regular_gas_limit = 2 ^ 24,
        transaction_blob_limit = 6, refund_divisor = 5\<rparr>,
      profile_gas = \<lparr>block_limit = 0, transaction_total_limit = 0,
        transaction_regular_limit = 0, system_regular_limit = 30000000,
        system_state_limit = 0\<rparr>\<rparr>"

definition initial_kernel_state :: kernel_state where
  "initial_kernel_state = host_state.extend initial_host_state
     \<lparr>scratch_arena = EMPTY_SLICE, k_parent_state_root = ZERO_HASH, k_n_headers = 0,
      k_chain_id = 1, k_execution_profile = default_execution_profile, k_header = initial_header,
      k_tx = initial_tx_env, k_current_transaction_epoch = 0\<rparr>"

section \<open>The scratch arena\<close>

definition scratch_length_add :: "int \<Rightarrow> int \<Rightarrow> ('s, int) action" where
  "scratch_length_add left right =
     (if right \<le> 2 ^ 32 - 1 - left then natural (left + right)
      else raise (SailError ''scratch length overflow''))"

definition scratch_begin :: "('z, int) kernel" where
  "scratch_begin = reads (\<lambda>s. slice_len (scratch_arena s))"

definition scratch_reserve :: "int \<Rightarrow> ('z, int) kernel" where
  "scratch_reserve len =
     bind (reads (\<lambda>s. slice_len (scratch_arena s))) (\<lambda>cursor.
     bind (host_scratch_reserve cursor len) (\<lambda>reserved.
     if \<not> reserved then raise (SailError ''scratch reserve'') else ret cursor))"

definition set_scratch_arena :: "region_slice \<Rightarrow> ('z, unit) kernel" where
  "set_scratch_arena arena = modify (\<lambda>s. s\<lparr>scratch_arena := arena\<rparr>)"

text \<open>Every push writes at the end of the arena; an empty slice writes nothing.\<close>

definition scratch_push :: "(int \<Rightarrow> ('z, region_slice) kernel) \<Rightarrow> ('z, unit) kernel" where
  "scratch_push store =
     bind (reads (\<lambda>s. slice_len (scratch_arena s))) (\<lambda>cursor.
     bind (store cursor) set_scratch_arena)"

definition scratch_push_byte :: "byte \<Rightarrow> ('z, unit) kernel" where
  "scratch_push_byte data = scratch_push (\<lambda>cursor. host_scratch_store_byte cursor data)"

definition stateless_input_scratch_push_slice :: "region_slice \<Rightarrow> ('z, unit) kernel" where
  "stateless_input_scratch_push_slice data =
     (if slice_len data \<noteq> 0
      then scratch_push (\<lambda>cursor. host_scratch_store_stateless_input cursor data) else ret ())"

definition scratch_scratch_push_slice :: "region_slice \<Rightarrow> ('z, unit) kernel" where
  "scratch_scratch_push_slice data =
     (if slice_len data \<noteq> 0
      then scratch_push (\<lambda>cursor. host_scratch_store_scratch cursor data) else ret ())"

definition log_data_scratch_push_slice :: "region_slice \<Rightarrow> ('z, unit) kernel" where
  "log_data_scratch_push_slice data =
     (if slice_len data \<noteq> 0
      then scratch_push (\<lambda>cursor. host_scratch_store_log_data cursor data) else ret ())"

definition output_scratch_push_slice :: "region_slice \<Rightarrow> ('z, unit) kernel" where
  "output_scratch_push_slice data =
     (if slice_len data \<noteq> 0
      then scratch_push (\<lambda>cursor. host_scratch_store_output cursor data) else ret ())"

definition scratch_push_address :: "address \<Rightarrow> ('z, unit) kernel" where
  "scratch_push_address data = scratch_push (\<lambda>cursor. host_scratch_store_address cursor data)"

definition scratch_push_b256 :: "hash \<Rightarrow> int \<Rightarrow> ('z, unit) kernel" where
  "scratch_push_b256 data len =
     (if len \<noteq> 0 then scratch_push (\<lambda>cursor. host_scratch_store_b256 cursor data len)
      else ret ())"

definition scratch_push_fixed_bytes_256 :: "bytes \<Rightarrow> ('z, unit) kernel" where
  "scratch_push_fixed_bytes_256 data =
     scratch_push (\<lambda>cursor. host_scratch_store_fixed_bytes_256 cursor data)"

definition scratch_push_word_be :: "int \<Rightarrow> int \<Rightarrow> ('z, unit) kernel" where
  "scratch_push_word_be data len =
     (if len \<noteq> 0 then scratch_push (\<lambda>cursor. host_scratch_store_word cursor data len)
      else ret ())"

definition scratch_finish :: "int \<Rightarrow> ('z, region_slice) kernel" where
  "scratch_finish start =
     bind (reads scratch_arena) (\<lambda>arena.
     let stop_offset = slice_len arena in
     if start \<le> stop_offset then region_sub_slice arena start (stop_offset - start)
     else raise (SailError ''scratch finish mark''))"

definition scratch_rewind :: "int \<Rightarrow> ('z, unit) kernel" where
  "scratch_rewind mark =
     bind (reads scratch_arena) (\<lambda>arena.
     if mark \<le> slice_len arena then
       bind (region_sub_slice arena 0 mark) (\<lambda>rewound.
       bind (set_scratch_arena rewound) (\<lambda>_. host_scratch_truncate mark))
     else raise (SailError ''scratch rewind mark''))"

definition scratch_reset :: "('z, unit) kernel" where
  "scratch_reset = bind (set_scratch_arena EMPTY_SLICE) (\<lambda>_. host_scratch_truncate 0)"

section \<open>The environment\<close>

datatype env_field = F_Number | F_Timestamp | F_Coinbase | F_BaseFee | F_ChainId | F_GasLimit
  | F_PrevRandao | F_Origin | F_GasPrice | F_SlotNumber

definition k_env :: "env_field \<Rightarrow> ('z, int) kernel" where
  "k_env f =
     bind (reads k_header) (\<lambda>header.
     bind (reads k_tx) (\<lambda>active_tx.
     case f of
       F_Number \<Rightarrow> bind (natural (hdr_number header)) as_word
     | F_Timestamp \<Rightarrow> bind (natural (hdr_timestamp header)) as_word
     | F_Coinbase \<Rightarrow> ret (address_to_word (hdr_fee_recipient header))
     | F_BaseFee \<Rightarrow> as_word (hdr_base_fee header)
     | F_ChainId \<Rightarrow> bind (reads k_chain_id) (\<lambda>chain_id. bind (natural chain_id) as_word)
     | F_GasLimit \<Rightarrow> as_word (hdr_gas_limit header)
     | F_PrevRandao \<Rightarrow> as_word (hdr_prev_randao header)
     | F_Origin \<Rightarrow> ret (address_to_word (tx_origin active_tx))
     | F_GasPrice \<Rightarrow> as_word (tx_gas_price active_tx)
     | F_SlotNumber \<Rightarrow> bind (natural (hdr_slot_number header)) as_word))"

definition k_coinbase :: "('z, address) kernel" where
  "k_coinbase = reads (\<lambda>s. hdr_fee_recipient (k_header s))"

definition blockhash_word_distance :: "int \<Rightarrow> int \<Rightarrow> ('s, int) action" where
  "blockhash_word_distance current number = ranged 1 (2 ^ 256 - 1) (current - number)"

definition k_blockhash :: "int \<Rightarrow> ('z, hash) kernel" where
  "k_blockhash number_word =
     bind (reads (\<lambda>s. hdr_number (k_header s))) (\<lambda>current.
     bind (bind (natural current) as_word) (\<lambda>current_word.
     if number_word < current_word then
       bind (blockhash_word_distance current_word number_word) (\<lambda>distance.
       if distance \<le> 256 then
         bind (reads k_n_headers) (\<lambda>n_headers.
         if n_headers < distance then fatal_error WitnessDeficient
         else ancestor_hash_read (distance - 1))
       else ret ZERO_HASH)
     else ret ZERO_HASH))"

definition k_blobhash :: "int \<Rightarrow> ('z, int) kernel" where
  "k_blobhash index_word =
     bind (reads (\<lambda>s. tx_blob_hashes (k_tx s))) (\<lambda>hashes.
     if index_word < blob_count hashes then
       (let offset = 33 * index_word + 1 in
        stateless_input_slice_load_n (blob_bytes hashes) offset 32)
     else ret ZERO_WORD)"

lemma DEFAULT_EXECUTION_PROFILE_run: "DEFAULT_EXECUTION_PROFILE s = Inr (default_execution_profile, s)"
proof -
  have "protocol_profile_parameters Amsterdam 14 21 11684671 65536 131072 (2 ^ 64 - 1) (2 ^ 24) 6 5"
    by (simp add: protocol_profile_parameters_def fork_defs)
  then show ?thesis
    by (simp add: DEFAULT_EXECUTION_PROFILE_def default_execution_profile_def
        schema_protocol_profile_def protocol_profile_of_def blob_schedule_def
        blob_schedule_parameters_def compute_profile_excess_blob_gas_limit_def
        execution_profile_for_def gas_limits_for_def gas_limits_parameters_def fork_defs Let_def)
qed

end
