(* ===== verification/Rlp_Encode.thy ===== *)
theory Rlp_Encode
  imports Kernel_State
begin

text \<open>
  The RLP encoder of \<open>lib/rlp/encoding.py\<close>, which writes to the scratch arena, and the two
  contract address derivations: \<open>create_address\<close> of \<open>lib/rlp/codecs/address.py\<close> and
  \<open>create2_address\<close> of \<open>lib/address.py\<close>. The lemmas say what each writer appends to the arena,
  so that the derivations are shown to hash the RLP list of sender and nonce, and the 85-byte
  preimage of CREATE2, and to leave the arena as they found it.
\<close>

section \<open>Sizes\<close>

definition RLP_ENCODED_WORD_LENGTH :: int where "RLP_ENCODED_WORD_LENGTH = 33"
definition RLP_ENCODED_ADDRESS_LENGTH :: int where "RLP_ENCODED_ADDRESS_LENGTH = 21"

definition rlp_scratch_small_length :: "int \<Rightarrow> ('s, int) action" where
  "rlp_scratch_small_length value = natural value"

definition rlp_scratch_length_add :: "int \<Rightarrow> int \<Rightarrow> ('s, int) action" where
  "rlp_scratch_length_add left right =
     (if right \<le> 2 ^ 32 - 1 - left then natural (left + right) else fatal_error RlpDecode)"

definition rlp_byte_length_byte :: "int \<Rightarrow> ('s, byte) action" where
  "rlp_byte_length_byte value =
     bind (ensure (value \<le> 255) (SailError ''sail/lib/rlp/encoding.sail:75.23-75.24''))
       (\<lambda>_. ret (word_of_int value))"

definition rlp_natural_increment :: "int \<Rightarrow> int" where
  "rlp_natural_increment value = value + 1"

text \<open>Called on naturals only; a negative number never ends in the source.\<close>

function rlp_minimal_uint_len :: "int \<Rightarrow> int" where
  "rlp_minimal_uint_len n =
     (if n \<le> 0 then 0 else rlp_natural_increment (rlp_minimal_uint_len (sail_ediv_int n 256)))"
  by auto

termination
  by (relation "measure nat") (auto simp: sail_ediv_int_def sail_emod_int_def)

declare rlp_minimal_uint_len.simps [simp del]

definition rlp_length_prefix_len :: "int \<Rightarrow> ('s, int) action" where
  "rlp_length_prefix_len len =
     (if len \<le> RLP_SHORT_LENGTH_LIMIT then ranged 1 33 1
      else bind (rlp_length_word len) (\<lambda>length_word.
        ranged 1 33 (1 + rlp_minimal_word_len length_word)))"

text \<open>A single byte below 0x80 is its own encoding.\<close>

definition rlp_string_size :: "int \<Rightarrow> byte \<Rightarrow> ('s, int) action" where
  "rlp_string_size len first =
     (if len = 1 \<and> \<not> bit first 7 then ret 1
      else bind (rlp_length_prefix_len len) (\<lambda>prefix. natural (prefix + len)))"

definition first_input_byte :: "region_slice \<Rightarrow> ('z, byte) host" where
  "first_input_byte data =
     (if slice_len data = 0 then ret 0
      else bind (stateless_input_slice_byte data 0) (\<lambda>b. ret (word_of_int b)))"

definition first_scratch_byte :: "region_slice \<Rightarrow> ('z, byte) host" where
  "first_scratch_byte data =
     (if slice_len data = 0 then ret 0
      else bind (scratch_byte data 0) (\<lambda>b. ret (word_of_int b)))"

definition first_log_byte :: "region_slice \<Rightarrow> ('z, byte) host" where
  "first_log_byte data =
     (if slice_len data = 0 then ret 0
      else bind (log_data_byte data 0) (\<lambda>b. ret (word_of_int b)))"

definition rlp_input_slice_size :: "region_slice \<Rightarrow> ('z, int) host" where
  "rlp_input_slice_size data =
     bind (first_input_byte data) (\<lambda>first. rlp_string_size (slice_len data) first)"

definition rlp_materialized_slice_size :: "int \<Rightarrow> byte \<Rightarrow> ('s, int) action" where
  "rlp_materialized_slice_size len first =
     (if len = 1 \<and> \<not> bit first 7 then ret 1
      else
        bind (rlp_length_prefix_len len) (\<lambda>prefix_size.
        bind (rlp_scratch_small_length prefix_size) (\<lambda>prefix_length.
        rlp_scratch_length_add len prefix_length)))"

definition rlp_scratch_region_size :: "region_slice \<Rightarrow> ('z, int) host" where
  "rlp_scratch_region_size data =
     bind (first_scratch_byte data) (\<lambda>first. rlp_materialized_slice_size (slice_len data) first)"

definition rlp_log_data_size :: "region_slice \<Rightarrow> ('z, int) host" where
  "rlp_log_data_size data =
     bind (first_log_byte data) (\<lambda>first. rlp_materialized_slice_size (slice_len data) first)"

definition rlp_uint_word_size :: "int \<Rightarrow> ('s, int) action" where
  "rlp_uint_word_size w =
     (let len = rlp_minimal_word_len w;
          first = (if len = 1 then word_of_int (word_low_byte w) else 0 :: byte)
      in if len = 1 \<and> \<not> bit first 7 then ranged 1 33 1 else ranged 1 33 (1 + len))"

definition rlp_uint_nat_size :: "int \<Rightarrow> ('s, int) action" where
  "rlp_uint_nat_size n =
     (if n < 2 ^ 256 then bind (as_word n) rlp_uint_word_size
      else
        (let len = rlp_minimal_uint_len n in
         if len \<le> RLP_SHORT_LENGTH_LIMIT then natural (1 + len)
         else natural (1 + rlp_minimal_uint_len len + len)))"

definition rlp_uint_u64_size :: "int \<Rightarrow> int" where
  "rlp_uint_u64_size n =
     (if n < 2 ^ 7 then 1 else if n < 2 ^ 8 then 2 else if n < 2 ^ 16 then 3
      else if n < 2 ^ 24 then 4 else if n < 2 ^ 32 then 5 else if n < 2 ^ 40 then 6
      else if n < 2 ^ 48 then 7 else if n < 2 ^ 56 then 8 else 9)"

definition rlp_word_size :: int where "rlp_word_size = RLP_ENCODED_WORD_LENGTH"
definition rlp_addr_size :: int where "rlp_addr_size = RLP_ENCODED_ADDRESS_LENGTH"

definition rlp_list_size :: "int \<Rightarrow> ('s, int) action" where
  "rlp_list_size content_len =
     bind (rlp_length_prefix_len content_len) (\<lambda>prefix. natural (prefix + content_len))"

definition rlp_scratch_list_size :: "int \<Rightarrow> ('s, int) action" where
  "rlp_scratch_list_size content_len =
     bind (rlp_length_prefix_len content_len) (\<lambda>prefix_size.
     bind (rlp_scratch_small_length prefix_size) (\<lambda>prefix_length.
     rlp_scratch_length_add content_len prefix_length))"

definition rlp_input_scratch_slice_size :: "region_slice \<Rightarrow> ('z, int) host" where
  "rlp_input_scratch_slice_size data =
     bind (first_input_byte data) (\<lambda>first. rlp_materialized_slice_size (slice_len data) first)"

definition rlp_scratch_scratch_slice_size :: "region_slice \<Rightarrow> ('z, int) host" where
  "rlp_scratch_scratch_slice_size data = rlp_scratch_region_size data"

definition rlp_log_scratch_slice_size :: "region_slice \<Rightarrow> ('z, int) host" where
  "rlp_log_scratch_slice_size data = rlp_log_data_size data"

section \<open>Writers\<close>

definition rlp_write_string_prefix :: "int \<Rightarrow> byte \<Rightarrow> ('z, unit) kernel" where
  "rlp_write_string_prefix len first =
     (if len = 1 \<and> \<not> bit first 7 then ret ()
      else if len \<le> RLP_SHORT_LENGTH_LIMIT then
        scratch_push_byte (0x80 + word_of_int (rlp_nat_length_byte len))
      else
        bind (rlp_length_word len) (\<lambda>length_word.
        let length_len = rlp_minimal_word_len length_word in
        bind (scratch_push_byte (0xb7 + word_of_int (rlp_nat_length_byte length_len))) (\<lambda>_.
        scratch_push_word_be length_word length_len)))"

definition rlp_write_list_prefix :: "int \<Rightarrow> ('z, unit) kernel" where
  "rlp_write_list_prefix content_len =
     (if content_len \<le> RLP_SHORT_LENGTH_LIMIT then
        scratch_push_byte (0xc0 + word_of_int (rlp_nat_length_byte content_len))
      else
        bind (rlp_length_word content_len) (\<lambda>length_word.
        let length_len = rlp_minimal_word_len length_word in
        bind (scratch_push_byte (0xf7 + word_of_int (rlp_nat_length_byte length_len))) (\<lambda>_.
        scratch_push_word_be length_word length_len)))"

definition rlp_write_input_slice :: "region_slice \<Rightarrow> ('z, unit) kernel" where
  "rlp_write_input_slice data =
     bind (first_input_byte data) (\<lambda>first.
     bind (rlp_write_string_prefix (slice_len data) first) (\<lambda>_.
     stateless_input_scratch_push_slice data))"

definition rlp_write_scratch_slice :: "region_slice \<Rightarrow> ('z, unit) kernel" where
  "rlp_write_scratch_slice data =
     bind (first_scratch_byte data) (\<lambda>first.
     bind (rlp_write_string_prefix (slice_len data) first) (\<lambda>_.
     scratch_scratch_push_slice data))"

definition rlp_write_log_data_slice :: "region_slice \<Rightarrow> ('z, unit) kernel" where
  "rlp_write_log_data_slice data =
     bind (first_log_byte data) (\<lambda>first.
     bind (rlp_write_string_prefix (slice_len data) first) (\<lambda>_.
     log_data_scratch_push_slice data))"

definition rlp_write_uint_word :: "int \<Rightarrow> ('z, unit) kernel" where
  "rlp_write_uint_word w =
     (let len = rlp_minimal_word_len w;
          first = (if len = 1 then word_of_int (word_low_byte w) else 0 :: byte) in
      bind (rlp_write_string_prefix len first) (\<lambda>_.
      bind (as_word w) (\<lambda>v. scratch_push_word_be v len)))"

definition rlp_write_uint_nat :: "int \<Rightarrow> ('z, unit) kernel" where
  "rlp_write_uint_nat n =
     (if n < 2 ^ 256 then bind (as_word n) rlp_write_uint_word else fatal_error InvalidConfig)"

definition rlp_write_uint_u64 :: "int \<Rightarrow> ('z, unit) kernel" where
  "rlp_write_uint_u64 n = bind (as_word n) rlp_write_uint_word"

definition rlp_write_word :: "int \<Rightarrow> ('z, unit) kernel" where
  "rlp_write_word w =
     bind (rlp_write_string_prefix 32 0) (\<lambda>_. scratch_push_word_be w 32)"

definition rlp_write_addr :: "address \<Rightarrow> ('z, unit) kernel" where
  "rlp_write_addr a =
     bind (rlp_write_string_prefix 20 (vector_access a 0)) (\<lambda>_. scratch_push_address a)"

record rlp_encoder =
  encoder_start :: int
  encoder_expected_len :: int

definition rlp_encoder_begin :: "int \<Rightarrow> ('z, rlp_encoder) kernel" where
  "rlp_encoder_begin expected_len =
     bind (scratch_reserve expected_len) (\<lambda>start.
     bind (natural start) (\<lambda>start.
     bind (natural expected_len) (\<lambda>expected.
     ret \<lparr>encoder_start = start, encoder_expected_len = expected\<rparr>)))"

definition rlp_encoder_finish :: "rlp_encoder \<Rightarrow> ('z, region_slice) kernel" where
  "rlp_encoder_finish encoder =
     bind (scratch_finish (encoder_start encoder)) (\<lambda>encoded.
     bind (ensure (slice_len encoded = encoder_expected_len encoder)
       (SailError ''RLP encoder length'')) (\<lambda>_. ret encoded))"

definition rlp_encoder_rewind :: "rlp_encoder \<Rightarrow> ('z, unit) kernel" where
  "rlp_encoder_rewind encoder = scratch_rewind (encoder_start encoder)"

section \<open>Contract addresses\<close>

definition create_address :: "hash_function \<Rightarrow> address \<Rightarrow> int \<Rightarrow> ('z, address) kernel" where
  "create_address keccak sender n =
     (let address_length = rlp_addr_size in
      bind (rlp_uint_word_size n) (\<lambda>nonce_length.
      let content_len = address_length + nonce_length in
      bind (rlp_list_size content_len) (\<lambda>encoded_len.
      bind (rlp_encoder_begin encoded_len) (\<lambda>encoder.
      bind (rlp_write_list_prefix content_len) (\<lambda>_.
      bind (rlp_write_addr sender) (\<lambda>_.
      bind (rlp_write_uint_word n) (\<lambda>_.
      bind (rlp_encoder_finish encoder) (\<lambda>encoded.
      bind (hash_region keccak ScratchRegion encoded) (\<lambda>digest.
      let digest_word = hash_to_word digest; address = word_to_address digest_word in
      bind (rlp_encoder_rewind encoder) (\<lambda>_. ret address))))))))))"

definition create2_address ::
    "hash_function \<Rightarrow> address \<Rightarrow> int \<Rightarrow> hash \<Rightarrow> ('z, address) kernel" where
  "create2_address keccak sender salt init_hash =
     bind (scratch_reserve 85) (\<lambda>mark.
     bind (scratch_push_byte 0xff) (\<lambda>_.
     bind (scratch_push_address sender) (\<lambda>_.
     let salt_hash = word_to_hash salt in
     bind (scratch_push_b256 salt_hash 32) (\<lambda>_.
     bind (scratch_push_b256 init_hash 32) (\<lambda>_.
     bind (scratch_finish mark) (\<lambda>preimage.
     bind (hash_region keccak ScratchRegion preimage) (\<lambda>digest.
     bind (scratch_rewind mark) (\<lambda>_.
     let digest_word = hash_to_word digest in
     ret (word_to_address digest_word)))))))))"

definition k_create_addr :: "hash_function \<Rightarrow> address \<Rightarrow> int \<Rightarrow> ('z, address) kernel" where
  "k_create_addr keccak a n = create_address keccak a n"

definition k_create2_addr ::
    "hash_function \<Rightarrow> address \<Rightarrow> int \<Rightarrow> hash \<Rightarrow> ('z, address) kernel" where
  "k_create2_addr keccak a salt inithash = create2_address keccak a salt inithash"

section \<open>What the writers append\<close>

text \<open>
  The arena is the prefix of the scratch region that its slice covers. \<open>arena_only\<close> says that
  two states agree on everything but the scratch region and its arena.
\<close>

definition arena_ok :: "'z kernel_state_scheme \<Rightarrow> bool" where
  "arena_ok s \<longleftrightarrow> slice_bytes (scratch_arena s) = 0 \<and> 0 \<le> slice_len (scratch_arena s) \<and>
     slice_len (scratch_arena s) \<le> 2 ^ 32 - 1 \<and>
     slice_len (scratch_arena s) \<le> int (length (scratch_bytes s))"

definition arena_bytes :: "'z kernel_state_scheme \<Rightarrow> bytes" where
  "arena_bytes s = take (nat (slice_len (scratch_arena s))) (scratch_bytes s)"

definition arena_only :: "'z kernel_state_scheme \<Rightarrow> 'z kernel_state_scheme \<Rightarrow> bool" where
  "arena_only s t \<longleftrightarrow>
     t = s\<lparr>scratch_bytes := scratch_bytes t, scratch_arena := scratch_arena t\<rparr>"

lemma arena_only_refl [simp]: "arena_only s s"
  by (simp add: arena_only_def)

lemma arena_only_trans:
  assumes "arena_only s t" and "arena_only t u"
  shows "arena_only s u"
proof -
  obtain b a where t: "t = s\<lparr>scratch_bytes := b, scratch_arena := a\<rparr>"
    using assms(1) by (auto simp: arena_only_def)
  obtain b' a' where "u = t\<lparr>scratch_bytes := b', scratch_arena := a'\<rparr>"
    using assms(2) by (auto simp: arena_only_def)
  then show ?thesis using t by (simp add: arena_only_def)
qed

definition room :: "'z kernel_state_scheme \<Rightarrow> nat \<Rightarrow> bool" where
  "room s n \<longleftrightarrow> arena_ok s \<and> slice_len (scratch_arena s) + int n \<le> 2 ^ 32 - 1"

lemma length_arena_bytes: "arena_ok s \<Longrightarrow> int (length (arena_bytes s)) = slice_len (scratch_arena s)"
  unfolding arena_ok_def arena_bytes_def by (simp only: length_take) linarith

definition appends :: "bytes \<Rightarrow> ('z, unit) kernel \<Rightarrow> bool" where
  "appends payload m \<longleftrightarrow> (\<forall>s. room s (length payload) \<longrightarrow>
     (\<exists>t. m s = Inr ((), t) \<and> arena_ok t \<and> arena_only s t \<and>
        arena_bytes t = arena_bytes s @ payload))"

lemma appendsD:
  assumes "appends payload m" and "room s (length payload)"
  obtains t where "m s = Inr ((), t)" and "arena_ok t" and "arena_only s t"
    and "arena_bytes t = arena_bytes s @ payload"
  using assms unfolding appends_def by blast

lemma appends_ret [intro]: "appends [] (ret ())"
  by (auto simp: appends_def room_def)

lemma appends_bind:
  assumes m: "appends xs m" and k: "appends ys k"
  shows "appends (xs @ ys) (bind m (\<lambda>_. k))"
  unfolding appends_def
proof (intro allI impI)
  fix s :: "'a kernel_state_scheme"
  assume r: "room s (length (xs @ ys))"
  then have "room s (length xs)" by (simp add: room_def)
  with m obtain t where t: "m s = Inr ((), t)" "arena_ok t" "arena_only s t"
    "arena_bytes t = arena_bytes s @ xs" by (rule appendsD)
  have "slice_len (scratch_arena t) = slice_len (scratch_arena s) + int (length xs)"
    using length_arena_bytes [OF t(2)] length_arena_bytes [of s] r t(4) by (simp add: room_def)
  then have "room t (length ys)" using r t(2) by (simp add: room_def)
  with k obtain u where u: "k t = Inr ((), u)" "arena_ok u" "arena_only t u"
    "arena_bytes u = arena_bytes t @ ys" by (rule appendsD)
  then show "\<exists>t. bind m (\<lambda>_. k) s = Inr ((), t) \<and> arena_ok t \<and> arena_only s t \<and>
      arena_bytes t = arena_bytes s @ xs @ ys"
    using t by (auto intro: arena_only_trans)
qed

lemma appends_store: "appends payload (scratch_push (\<lambda>cursor. scratch_store_at cursor payload))"
  unfolding appends_def
proof (intro allI impI)
  fix s :: "'a kernel_state_scheme"
  assume r: "room s (length payload)"
  let ?n = "slice_len (scratch_arena s)" and ?b = "scratch_bytes s"
  let ?e = "?n + int (length payload)"
  let ?m = "py_slice_assign (ensure_length ?b ?e) ?n ?e payload"
  let ?t = "s\<lparr>scratch_bytes := ?m,
    scratch_arena := \<lparr>slice_bytes = 0, slice_len = ?e\<rparr>\<rparr>"
  have n: "0 \<le> ?n" "?n \<le> int (length ?b)" using r by (simp_all add: room_def arena_ok_def)
  have len: "nat ?n + length payload \<le> length (ensure_length ?b ?e)"
    using n by (auto simp: ensure_length_def nat_add_distrib)
  have m: "?m = take (nat ?n) (ensure_length ?b ?e) @ payload @
      drop (nat ?n + length payload) (ensure_length ?b ?e)"
    using n(1) len by (rule py_slice_assign_inside)
  have "take (nat ?n) (ensure_length ?b ?e) = take (nat ?n) ?b"
    using n by (simp add: ensure_length_def)
  then have "take (nat ?e) ?m = take (nat ?n) ?b @ payload"
    unfolding m using n by (simp add: nat_add_distrib)
  moreover have "int (length ?m) \<ge> ?e"
    unfolding m using n len by simp
  moreover have "scratch_push (\<lambda>cursor. scratch_store_at cursor payload) s = Inr ((), ?t)"
    using r n by (simp add: scratch_push_def scratch_store_at_def set_scratch_arena_def
        region_slice_def valid_range_def room_def action_simps Let_def)
  ultimately show "\<exists>t. scratch_push (\<lambda>cursor. scratch_store_at cursor payload) s = Inr ((), t) \<and>
      arena_ok t \<and> arena_only s t \<and> arena_bytes t = arena_bytes s @ payload"
    using r n by (intro exI [of _ ?t])
      (simp add: arena_ok_def arena_only_def arena_bytes_def room_def)
qed

lemma appends_push_byte: "appends [b] (scratch_push_byte b)"
  unfolding scratch_push_byte_def host_scratch_store_byte_def by (rule appends_store)

lemma appends_push_address: "appends (rev a) (scratch_push_address a)"
  unfolding scratch_push_address_def host_scratch_store_address_def fixed_wire_bytes_def
  by (rule appends_store)

lemma appends_push_hash: "length h = 32 \<Longrightarrow> appends (rev h) (scratch_push_b256 h 32)"
  using appends_store [of "rev h"]
  by (simp add: scratch_push_b256_def host_scratch_store_b256_def fixed_wire_bytes_def
      py_slice_nonneg)

lemma appends_push_word: "appends (if n = 0 then [] else word_bytes w n) (scratch_push_word_be w n)"
  by (simp add: scratch_push_word_be_def host_scratch_store_word_def appends_store appends_ret)

section \<open>The encoding\<close>

text \<open>RLP as its definition has it: strings and lists with a length prefix, integers big-endian
  without leading zeros.\<close>

function be_bytes :: "int \<Rightarrow> bytes" where
  "be_bytes n = (if n \<le> 0 then [] else be_bytes (n div 256) @ [word_of_int n])"
  by auto

termination
  by (relation "measure nat") auto

declare be_bytes.simps [simp del]

definition rlp_prefix :: "byte \<Rightarrow> byte \<Rightarrow> int \<Rightarrow> bytes" where
  "rlp_prefix short long n =
     (if n \<le> 55 then [short + word_of_int n]
      else (let l = be_bytes n in (long + word_of_int (int (length l))) # l))"

definition rlp_string :: "bytes \<Rightarrow> bytes" where
  "rlp_string bs =
     (if length bs = 1 \<and> \<not> bit (hd bs) 7 then bs
      else rlp_prefix 0x80 0xb7 (int (length bs)) @ bs)"

definition rlp_list :: "bytes \<Rightarrow> bytes" where
  "rlp_list content = rlp_prefix 0xc0 0xf7 (int (length content)) @ content"

lemma be_bytes_0 [simp]: "be_bytes 0 = []"
  by (simp add: be_bytes.simps)

lemma be_bytes_pos: "0 < n \<Longrightarrow> be_bytes n = be_bytes (n div 256) @ [word_of_int n]"
  by (simp add: be_bytes.simps)

lemma length_be_bytes: "int (length (be_bytes n)) = (bit_length n + 7) div 8"
proof (induction n rule: be_bytes.induct)
  case (1 n)
  show ?case
  proof (cases "n \<le> 0")
    case True
    then show ?thesis by (simp add: be_bytes.simps bit_length.simps)
  next
    case False
    have "bit_length (n div 256) = max 0 (bit_length n - 8)"
    proof (cases "0 < n div 256")
      case True
      then show ?thesis using bit_length_drop [of n 8] by simp
    next
      case small: False
      then have "n div 256 = 0" "n < 2 ^ 8" using False by auto
      then show ?thesis using False bit_length_le [of n 8] by simp
    qed
    moreover have "0 < bit_length n"
      using False bit_length_nonneg [of "n div 2"]
      by (simp add: bit_length.simps [of n] del: bit_length_nonneg)
    moreover have "1 + (max 0 (b - 8) + 7) div 8 = (b + 7) div 8" if "0 < b" for b :: int
      using that by (cases "b < 8") auto
    ultimately show ?thesis using 1 False by (simp add: be_bytes_pos)
  qed
qed

lemma minimal_word_len: "word_range w \<Longrightarrow> rlp_minimal_word_len w = int (length (be_bytes w))"
  by (auto simp: rlp_minimal_word_len_def word_byte_length_def word_bit_length_eq length_be_bytes
      Let_def bit_length_nonneg)

lemma to_bytes_big_be:
  "0 \<le> w \<Longrightarrow> length (be_bytes w) \<le> n \<Longrightarrow> to_bytes_big w n = zeros (n - length (be_bytes w)) @ be_bytes w"
proof (induction n arbitrary: w)
  case 0
  then show ?case by simp
next
  case (Suc n)
  show ?case
  proof (cases "w = 0")
    case True
    then show ?thesis using Suc.IH [of 0] by (simp add: zeros_def replicate_append_same [symmetric])
  next
    case False
    then have "0 < w" using Suc.prems(1) by simp
    then show ?thesis using Suc.prems Suc.IH [of "w div 256"] by (simp add: be_bytes_pos)
  qed
qed

lemma length_be_bytes_le:
  assumes "word_range w"
  shows "length (be_bytes w) \<le> 32"
proof -
  have "bit_length w \<le> 256"
    using assms bit_length_le [of w 256] by (simp add: word_range_def)
  then show ?thesis using length_be_bytes [of w] by linarith
qed

lemma be_bytes_Nil_iff: "be_bytes n = [] \<longleftrightarrow> n \<le> 0"
  by (simp add: be_bytes.simps)

lemma word_bytes_minimal:
  assumes "word_range w" and "n = int (length (be_bytes w))" and "0 < n"
  shows "word_bytes w n = be_bytes w"
proof -
  have "w AND (2 ^ 256 - 1) = w"
    using assms(1) bits_id [of w 256] by (simp add: bits_def word_range_def)
  moreover have "slice_bound 32 (- n) = 32 - length (be_bytes w)"
    using assms length_be_bytes_le [OF assms(1)] by (simp add: slice_bound_def)
  ultimately show ?thesis
    using to_bytes_big_be [of w 32] assms length_be_bytes_le [OF assms(1)]
    by (simp add: word_bytes_def py_slice_from_def word_range_def zeros_def)
qed

lemma appends_push_minimal:
  "word_range w \<Longrightarrow> appends (be_bytes w) (scratch_push_word_be w (rlp_minimal_word_len w))"
  using appends_push_word [of "rlp_minimal_word_len w" w] word_bytes_minimal [of w]
  by (auto simp: minimal_word_len split: if_splits)

lemma word_of_length_byte [simp]: "(word_of_int (rlp_nat_length_byte n) :: byte) = word_of_int n"
  by (simp add: rlp_nat_length_byte_def bits_take_bit word_of_int_eq_iff)

lemma rlp_length_word_run: "word_range n \<Longrightarrow> rlp_length_word n = ret n"
  by (simp add: rlp_length_word_def word_of_nat_byte_count_def as_word_def ranged_def word_range_def)

lemma appends_long_prefix:
  assumes "word_range n"
  shows "appends ((long + word_of_int (int (length (be_bytes n)))) # be_bytes n)
    (bind (scratch_push_byte (long + word_of_int (rlp_nat_length_byte (rlp_minimal_word_len n))))
      (\<lambda>_. scratch_push_word_be n (rlp_minimal_word_len n)))"
  using appends_bind [OF appends_push_byte appends_push_minimal [OF assms]]
  by (simp add: minimal_word_len [OF assms])

lemma appends_string_prefix:
  assumes "word_range n"
  shows "appends (if n = 1 \<and> \<not> bit first 7 then [] else rlp_prefix 0x80 0xb7 n)
    (rlp_write_string_prefix n first)"
  using appends_push_byte [of "0x80 + word_of_int n"] appends_long_prefix [OF assms]
  by (auto simp: rlp_write_string_prefix_def rlp_prefix_def RLP_SHORT_LENGTH_LIMIT_def
      rlp_length_word_run [OF assms] Let_def intro!: appends_ret)

lemma appends_list_prefix:
  assumes "word_range n"
  shows "appends (rlp_prefix 0xc0 0xf7 n) (rlp_write_list_prefix n)"
  using appends_push_byte [of "0xc0 + word_of_int n"] appends_long_prefix [OF assms]
  by (auto simp: rlp_write_list_prefix_def rlp_prefix_def RLP_SHORT_LENGTH_LIMIT_def
      rlp_length_word_run [OF assms] Let_def)

text \<open>The one byte of a number below 256 is the number.\<close>

lemma be_bytes_single: "length (be_bytes w) = 1 \<Longrightarrow> be_bytes w = [word_of_int w]"
  by (cases "w \<le> 0") (simp_all add: be_bytes.simps [of w])

lemma appends_uint_word:
  assumes "word_range w"
  shows "appends (rlp_string (be_bytes w)) (rlp_write_uint_word w :: ('z, unit) kernel)"
proof -
  let ?n = "int (length (be_bytes w))"
  let ?first = "if ?n = 1 then word_of_int (word_low_byte w) else 0 :: byte"
  have n: "rlp_minimal_word_len w = ?n" "word_range ?n"
    using assms length_be_bytes_le [OF assms] by (simp_all add: minimal_word_len word_range_def)
  have first: "?n = 1 \<Longrightarrow> hd (be_bytes w) = word_of_int (word_low_byte w)"
    using be_bytes_single [of w]
    by (simp add: word_low_byte_def bits_take_bit word_of_int_eq_iff)
  have "(rlp_write_uint_word w :: ('z, unit) kernel) =
      bind (rlp_write_string_prefix ?n ?first) (\<lambda>_. scratch_push_word_be w (rlp_minimal_word_len w))"
    using assms by (simp add: rlp_write_uint_word_def n as_word_def ranged_def word_range_def Let_def)
  moreover have "rlp_string (be_bytes w) =
      (if ?n = 1 \<and> \<not> bit ?first 7 then [] else rlp_prefix 0x80 0xb7 ?n) @ be_bytes w"
    using first by (auto simp: rlp_string_def)
  ultimately show ?thesis
    using appends_bind [OF appends_string_prefix [OF n(2), of ?first] appends_push_minimal [OF assms]]
    by (simp only: n(1))
qed

lemma appends_addr:
  assumes "length a = 20"
  shows "appends (rlp_string (rev a)) (rlp_write_addr a)"
  using appends_bind [OF appends_string_prefix [of 20 "vector_access a 0"] appends_push_address [of a]]
    assms
  by (simp add: rlp_write_addr_def rlp_string_def word_range_def)

lemma uint_word_size:
  assumes "word_range w"
  shows "rlp_uint_word_size w = ret (int (length (rlp_string (be_bytes w))))"
proof -
  let ?n = "length (be_bytes w)"
  have first: "?n = 1 \<Longrightarrow> hd (be_bytes w) = word_of_int (word_low_byte w)"
    using be_bytes_single [of w] by (simp add: word_low_byte_def bits_take_bit word_of_int_eq_iff)
  have "length (rlp_prefix 0x80 0xb7 (int ?n)) = 1"
    using length_be_bytes_le [OF assms] by (simp add: rlp_prefix_def)
  then show ?thesis
    using first length_be_bytes_le [OF assms]
    by (auto simp: rlp_uint_word_size_def rlp_string_def minimal_word_len [OF assms] Let_def
        ranged_def)
qed

section \<open>Reserving, finishing and rewinding\<close>

lemma scratch_reserve_run:
  assumes "arena_ok s" and "0 \<le> n"
  shows "\<exists>t. scratch_reserve n s = Inr (slice_len (scratch_arena s), t) \<and> arena_ok t \<and>
    arena_only s t \<and> arena_bytes t = arena_bytes s \<and> scratch_arena t = scratch_arena s"
  using assms
  by (auto simp: scratch_reserve_def host_scratch_reserve_def action_simps arena_ok_def arena_only_def
      arena_bytes_def ensure_length_def)

lemma scratch_finish_run:
  assumes "arena_ok t" and "arena_bytes t = before @ payload"
  shows "\<exists>sl. scratch_finish (int (length before)) t = Inr (sl, t) \<and>
    slice_len sl = int (length payload) \<and> region_bytes ScratchRegion sl t = payload"
proof -
  let ?n = "slice_len (scratch_arena t)"
  let ?sl = "\<lparr>slice_bytes = int (length before), slice_len = int (length payload)\<rparr>"
  have n: "?n = int (length before) + int (length payload)" "slice_bytes (scratch_arena t) = 0"
      "?n \<le> 2 ^ 32 - 1"
    using length_arena_bytes [OF assms(1)] assms by (simp_all add: arena_ok_def)
  have "take (length payload) (drop (length before) (take (nat ?n) (scratch_bytes t))) = payload"
    using assms(2) by (simp add: arena_bytes_def)
  then have "take (length payload) (drop (length before) (scratch_bytes t)) = payload"
    by (simp add: n(1) drop_take nat_add_distrib)
  then have "region_bytes ScratchRegion ?sl t = payload"
    by (simp add: region_bytes_def slice_of_def Let_def py_slice_span)
  moreover have "scratch_finish (int (length before)) t = Inr (?sl, t)"
    using n by (simp add: scratch_finish_def region_sub_slice_def region_slice_def valid_range_def
        action_simps Let_def)
  ultimately show ?thesis by auto
qed

lemma scratch_rewind_run:
  assumes "arena_ok t" and "arena_bytes t = before @ payload"
  shows "\<exists>u. scratch_rewind (int (length before)) t = Inr ((), u) \<and> arena_ok u \<and> arena_only t u \<and>
    arena_bytes u = before \<and> slice_len (scratch_arena u) = int (length before)"
proof -
  let ?n = "slice_len (scratch_arena t)"
  let ?u = "t\<lparr>scratch_arena := \<lparr>slice_bytes = 0, slice_len = int (length before)\<rparr>,
    scratch_bytes := take (length before) (scratch_bytes t)\<rparr>"
  have n: "?n = int (length before) + int (length payload)" "slice_bytes (scratch_arena t) = 0"
      "?n \<le> 2 ^ 32 - 1" "?n \<le> int (length (scratch_bytes t))"
    using length_arena_bytes [OF assms(1)] assms by (simp_all add: arena_ok_def)
  have "take (length before) (take (nat ?n) (scratch_bytes t)) = before"
    using assms(2) by (simp add: arena_bytes_def)
  then have "take (length before) (scratch_bytes t) = before"
    by (simp add: n(1) nat_add_distrib)
  moreover have "scratch_rewind (int (length before)) t = Inr ((), ?u)"
    using n by (simp add: scratch_rewind_def region_sub_slice_def region_slice_def valid_range_def
        set_scratch_arena_def host_scratch_truncate_def py_del_from_def action_simps)
  ultimately show ?thesis
    using n by (intro exI [of _ ?u]) (simp add: arena_ok_def arena_only_def arena_bytes_def)
qed

text \<open>What is written between a reservation and a rewind is read back, and forgotten.\<close>

lemma scratch_session:
  assumes m: "appends payload m" and r: "room s (length payload)" and "0 \<le> n"
  obtains t w sl u where
    "scratch_reserve n s = Inr (slice_len (scratch_arena s), t)" and "m t = Inr ((), w)"
    and "scratch_finish (slice_len (scratch_arena s)) w = Inr (sl, w)"
    and "slice_len sl = int (length payload)" and "region_bytes ScratchRegion sl w = payload"
    and "scratch_rewind (slice_len (scratch_arena s)) w = Inr ((), u)"
    and "arena_ok u" and "arena_only s u" and "arena_bytes u = arena_bytes s"
proof -
  from r have ok: "arena_ok s" by (simp add: room_def)
  from scratch_reserve_run [OF ok assms(3)] obtain t where
    t: "scratch_reserve n s = Inr (slice_len (scratch_arena s), t)" "arena_ok t" "arena_only s t"
      "arena_bytes t = arena_bytes s" "scratch_arena t = scratch_arena s" by blast
  have "room t (length payload)" using r t by (simp add: room_def)
  with m obtain w where w: "m t = Inr ((), w)" "arena_ok w" "arena_only t w"
    "arena_bytes w = arena_bytes t @ payload" by (rule appendsD)
  from scratch_finish_run [OF w(2,4)] obtain sl where
    sl: "scratch_finish (int (length (arena_bytes t))) w = Inr (sl, w)"
      "slice_len sl = int (length payload)" "region_bytes ScratchRegion sl w = payload" by blast
  from scratch_rewind_run [OF w(2,4)] obtain u where
    u: "scratch_rewind (int (length (arena_bytes t))) w = Inr ((), u)" "arena_ok u" "arena_only w u"
      "arena_bytes u = arena_bytes t" by blast
  have mark: "slice_len (scratch_arena s) = int (length (arena_bytes t))"
    using length_arena_bytes [OF ok] t(4) by simp
  have "arena_only s u" using t(3) w(3) u(3) by (blast intro: arena_only_trans)
  then show thesis
    using that [of t w sl u] t(1,4) w(1) sl u unfolding mark by simp
qed

section \<open>The derived addresses\<close>

text \<open>The preimages, and the address: the last 20 bytes of the digest.\<close>

definition create_preimage :: "address \<Rightarrow> int \<Rightarrow> bytes" where
  "create_preimage sender n = rlp_list (rlp_string (rev sender) @ rlp_string (be_bytes n))"

definition create2_preimage :: "address \<Rightarrow> int \<Rightarrow> hash \<Rightarrow> bytes" where
  "create2_preimage sender salt init_hash =
     0xff # rev sender @ rev (word_to_hash salt) @ rev init_hash"

lemma drop_to_bytes_big: "drop m (to_bytes_big v (m + k)) = to_bytes_big v k"
  by (induction k arbitrary: v) simp_all

lemma address_of_digest:
  assumes "length d = 32"
  shows "word_to_address (hash_to_word (rev d)) = rev (drop 12 d)"
proof -
  have "drop 12 (to_bytes_big (from_bytes_big d) (12 + 20)) = to_bytes_big (from_bytes_big d) 20"
    by (rule drop_to_bytes_big)
  then show ?thesis
    using assms by (simp add: word_to_address_def hash_to_word_def bytes_to_word_big
        word_to_bytes_big to_from_bytes_big)
qed

lemma create_address_run:
  fixes s :: "'z kernel_state_scheme"
  assumes a: "length sender = 20" and n: "word_range n" and r: "room s 64"
  shows "\<exists>t. create_address keccak sender n s =
      Inr (word_to_address (hash_to_word (rev (keccak (create_preimage sender n)))), t) \<and>
    arena_ok t \<and> arena_only s t \<and> arena_bytes t = arena_bytes s"
proof -
  let ?addr = "rlp_string (rev sender)" and ?num = "rlp_string (be_bytes n)"
  let ?pre = "create_preimage sender n" and ?mark = "slice_len (scratch_arena s)"
  define content where "content = int (length (?addr @ ?num))"
  let ?m = "bind (rlp_write_list_prefix content) (\<lambda>_.
      bind (rlp_write_addr sender) (\<lambda>_. rlp_write_uint_word n)) :: ('z, unit) kernel"
  have addr: "length ?addr = 21" using a by (simp add: rlp_string_def rlp_prefix_def)
  have num: "length ?num \<le> 33"
    using length_be_bytes_le [OF n] by (auto simp: rlp_string_def rlp_prefix_def)
  have payload: "?pre = rlp_prefix 0xc0 0xf7 content @ ?addr @ ?num"
    by (simp add: create_preimage_def rlp_list_def content_def)
  have c: "content = 21 + int (length ?num)" "content \<le> 54" "0 \<le> content"
    using addr num by (simp_all add: content_def)
  have len: "int (length ?pre) = 1 + content"
    unfolding payload using addr c by (simp add: rlp_prefix_def)
  have "word_range content" using c by (simp add: word_range_def)
  then have m: "appends ?pre ?m"
    unfolding payload
    by (intro appends_bind appends_list_prefix appends_addr appends_uint_word a n)
  have fits: "room s (length ?pre)" using r len c by (simp add: room_def)
  have nn: "0 \<le> 1 + content" using c by simp
  obtain t w sl u where run:
      "scratch_reserve (1 + content) s = Inr (?mark, t)" "?m t = Inr ((), w)"
      "scratch_finish ?mark w = Inr (sl, w)" "slice_len sl = int (length ?pre)"
      "region_bytes ScratchRegion sl w = ?pre" "scratch_rewind ?mark w = Inr ((), u)"
    and u: "arena_ok u" "arena_only s u" "arena_bytes u = arena_bytes s"
    by (rule scratch_session [OF m fits nn])
  from run(2) obtain w1 w2 where w:
      "rlp_write_list_prefix content t = Inr ((), w1)" "rlp_write_addr sender w1 = Inr ((), w2)"
      "rlp_write_uint_word n w2 = Inr ((), w)"
    by (auto elim!: bind_returnsE)
  have size: "rlp_uint_word_size n s = Inr (int (length ?num), s)"
    by (simp add: uint_word_size [OF n])
  have list_size: "rlp_list_size content s = Inr (1 + content, s)"
    using c by (simp add: rlp_list_size_def rlp_length_prefix_len_def RLP_SHORT_LENGTH_LIMIT_def
        ranged_def natural_def)
  have mark: "0 \<le> ?mark" using r by (simp add: room_def arena_ok_def)
  have started: "rlp_encoder_begin (1 + content) s =
      Inr (\<lparr>encoder_start = ?mark, encoder_expected_len = 1 + content\<rparr>, t)"
    using run(1) mark nn by (simp add: rlp_encoder_begin_def natural_def)
  have finish: "rlp_encoder_finish \<lparr>encoder_start = ?mark, encoder_expected_len = 1 + content\<rparr> w =
      Inr (sl, w)"
    using run(3,4) len by (simp add: rlp_encoder_finish_def ensure_def)
  have "create_address keccak sender n s =
      Inr (word_to_address (hash_to_word (rev (keccak ?pre))), u)"
    unfolding create_address_def Let_def rlp_addr_size_def RLP_ENCODED_ADDRESS_LENGTH_def
    using size list_size started w finish run(5,6)
    by (simp add: c(1) [symmetric] rlp_encoder_rewind_def hash_region_def bytes32_from_wire_def)
  with u show ?thesis by blast
qed

lemma create2_address_run:
  fixes s :: "'z kernel_state_scheme"
  assumes a: "length sender = 20" and h: "length init_hash = 32" and r: "room s 85"
  shows "\<exists>t. create2_address keccak sender salt init_hash s =
      Inr (word_to_address (hash_to_word (rev (keccak (create2_preimage sender salt init_hash)))), t) \<and>
    arena_ok t \<and> arena_only s t \<and> arena_bytes t = arena_bytes s"
proof -
  let ?pre = "create2_preimage sender salt init_hash" and ?mark = "slice_len (scratch_arena s)"
  let ?m = "bind (scratch_push_byte 0xff) (\<lambda>_. bind (scratch_push_address sender) (\<lambda>_.
      bind (scratch_push_b256 (word_to_hash salt) 32) (\<lambda>_. scratch_push_b256 init_hash 32)))
      :: ('z, unit) kernel"
  have "appends ([0xff] @ rev sender @ rev (word_to_hash salt) @ rev init_hash) ?m"
    by (intro appends_bind appends_push_byte appends_push_address appends_push_hash h) simp
  then have m: "appends ?pre ?m" by (simp add: create2_preimage_def)
  have "length ?pre = 85" using a h by (simp add: create2_preimage_def)
  then have fits: "room s (length ?pre)" using r by simp
  have nn: "(0::int) \<le> 85" by simp
  obtain t w sl u where run:
      "scratch_reserve 85 s = Inr (?mark, t)" "?m t = Inr ((), w)"
      "scratch_finish ?mark w = Inr (sl, w)" "slice_len sl = int (length ?pre)"
      "region_bytes ScratchRegion sl w = ?pre" "scratch_rewind ?mark w = Inr ((), u)"
    and u: "arena_ok u" "arena_only s u" "arena_bytes u = arena_bytes s"
    by (rule scratch_session [OF m fits nn])
  from run(2) obtain w1 w2 w3 where w:
      "scratch_push_byte 0xff t = Inr ((), w1)" "scratch_push_address sender w1 = Inr ((), w2)"
      "scratch_push_b256 (word_to_hash salt) 32 w2 = Inr ((), w3)"
      "scratch_push_b256 init_hash 32 w3 = Inr ((), w)"
    by (auto elim!: bind_returnsE)
  have "create2_address keccak sender salt init_hash s =
      Inr (word_to_address (hash_to_word (rev (keccak ?pre))), u)"
    unfolding create2_address_def Let_def
    using run(1,3,5,6) w by (simp add: hash_region_def bytes32_from_wire_def)
  with u show ?thesis by blast
qed

lemma initial_arena:
  "n \<le> 2 ^ 31 \<Longrightarrow> room initial_kernel_state n" "arena_bytes initial_kernel_state = []"
  by (simp_all add: room_def arena_ok_def arena_bytes_def initial_kernel_state_def
      host_state.defs EMPTY_SLICE_def)

section \<open>Properties\<close>

text \<open>C15: CREATE addresses: with room in the scratch arena the derivation returns the last 20 bytes
  of the digest of the RLP list of sender and nonce, and the arena and the rest of the state
  are those before the call. Keccak-256 is a parameter of which only the digest length is used.\<close>

theorem create_address_is_rlp_digest:
  assumes "length sender = 20" and "0 \<le> n" and "n < 2 ^ 256" and "room s 64"
    and "\<And>bs. length (keccak bs) = 32"
  shows "\<exists>t. create_address keccak sender n s =
      Inr (rev (drop 12 (keccak (rlp_list (rlp_string (rev sender) @ rlp_string (be_bytes n))))), t) \<and>
    arena_only s t \<and> arena_bytes t = arena_bytes s"
proof -
  have "word_range n" using assms(2,3) by (simp add: word_range_def)
  from create_address_run [OF assms(1) this assms(4), of keccak] show ?thesis
    using address_of_digest [OF assms(5)] by (auto simp: create_preimage_def)
qed

theorem create_address_is_rlp_digest_witness:
  "\<exists>t. create_address (\<lambda>bs. replicate 31 0 @ [of_nat (length bs)]) (replicate 20 1) 7
      initial_kernel_state = Inr (rev (replicate 19 0 @ [23]), t) \<and>
    arena_bytes t = []"
proof -
  have "length (rlp_list (rlp_string (rev (replicate 20 1)) @ rlp_string (be_bytes 7))) = 23"
    by (simp add: rlp_list_def rlp_string_def rlp_prefix_def be_bytes_pos)
  then show ?thesis
    using create_address_is_rlp_digest [of "replicate 20 1" 7 "initial_kernel_state"
        "\<lambda>bs. replicate 31 0 @ [of_nat (length bs)]"]
    by (auto simp: initial_arena)
qed

text \<open>C16: CREATE2 addresses: the derivation returns the last 20 bytes of the digest of 0xff, the
  sender, the salt and the hash of the initcode, and leaves the arena as it found it.\<close>

theorem create2_address_is_digest:
  assumes "length sender = 20" and "length init_hash = 32" and "room s 85"
    and "\<And>bs. length (keccak bs) = 32"
  shows "\<exists>t. create2_address keccak sender salt init_hash s =
      Inr (rev (drop 12 (keccak (0xff # rev sender @ to_bytes_big salt 32 @ rev init_hash))), t) \<and>
    arena_only s t \<and> arena_bytes t = arena_bytes s"
  using create2_address_run [OF assms(1-3), of keccak salt] address_of_digest [OF assms(4)]
  by (auto simp: create2_preimage_def word_to_hash_def word_to_bytes_big)

theorem create2_address_is_digest_witness:
  "\<exists>t. create2_address (\<lambda>bs. replicate 31 0 @ [of_nat (length bs)]) (replicate 20 1) 7 (replicate 32 3)
      initial_kernel_state = Inr (rev (replicate 19 0 @ [85]), t) \<and> arena_bytes t = []"
  using create2_address_is_digest [of "replicate 20 1" "replicate 32 3" "initial_kernel_state"
      "\<lambda>bs. replicate 31 0 @ [of_nat (length bs)]" 7]
  by (auto simp: initial_arena)

end
