(* ===== verification/Journal.thy ===== *)
theory Journal
  imports Host_World
begin

text \<open>
  What the state journal promises. \<open>same_world\<close> is the abstract view of the reversible state:
  the transaction caches and the logs as they are, and transient storage, the warm sets and
  the storage generations as the functions their readers see. An operation is journaled when
  the entries it appends are balanced (every frame it opens is closed) and undoing them gives
  the world back; the property is closed under sequencing, so everything that is built from
  journaled operations, nested frames included, can be reverted.
\<close>

section \<open>The world the journal restores\<close>

definition same_world :: "'z host_state_scheme \<Rightarrow> 'z host_state_scheme \<Rightarrow> bool" where
  "same_world s t \<longleftrightarrow>
     account_tx s = account_tx t \<and> storage_tx s = storage_tx t \<and>
     logs s = logs t \<and> log_data s = log_data t \<and>
     (\<forall>k. dict_get_default (transient s) k 0 = dict_get_default (transient t) k 0) \<and>
     (\<forall>k. dict_get_default (warm_addresses s) k 0 = dict_get_default (warm_addresses t) k 0) \<and>
     (\<forall>k. dict_get_default (warm_slots s) k 0 = dict_get_default (warm_slots t) k 0) \<and>
     (\<forall>k. storage_generation s k = storage_generation t k)"

lemma same_world_refl [simp]: "same_world s s"
  by (simp add: same_world_def)

lemma same_world_trans: "same_world s t \<Longrightarrow> same_world t u \<Longrightarrow> same_world s u"
  by (simp add: same_world_def)

lemma same_world_sym: "same_world s t \<Longrightarrow> same_world t s"
  by (simp add: same_world_def)

lemma same_world_journal [simp]:
  "same_world (s\<lparr>journal := j\<rparr>) t \<longleftrightarrow> same_world s t"
  "same_world s (t\<lparr>journal := j\<rparr>) \<longleftrightarrow> same_world s t"
  by (simp_all add: same_world_def storage_generation_def)

lemma storage_generation_set:
  "storage_generation (s\<lparr>storage_generations := dict_set (storage_generations s) k v\<rparr>) k' =
     (if k' = k then v else storage_generation s k')"
  by (simp add: storage_generation_def dict_get_default_set)

lemmas restore_defs = journal_account_row_def set_current_def set_info_def set_storage_row_def

text \<open>Undoing an entry only looks at the world, so it respects \<open>same_world\<close>.\<close>

lemma restore_same_world:
  assumes "same_world s s'" and "journal_restore e s = Inr (u, t)"
  shows "\<exists>t'. journal_restore e s' = Inr (u, t') \<and> same_world t t'"
  using assms
  by (cases e)
    (auto simp: same_world_def restore_defs action_simps storage_generation_def
      dict_get_default_set split: option.splits if_splits)

lemma restore_all_same_world:
  "same_world s s' \<Longrightarrow> journal_restore_all es s = Inr (u, t) \<Longrightarrow>
   \<exists>t'. journal_restore_all es s' = Inr (u, t') \<and> same_world t t'"
proof (induction es arbitrary: s s')
  case (Cons e es)
  from Cons.prems(2) obtain x r where r: "journal_restore e s = Inr (x, r)"
      "journal_restore_all es r = Inr (u, t)"
    by (auto elim: bind_returnsE)
  from restore_same_world [OF Cons.prems(1) r(1)] obtain r' where
    r': "journal_restore e s' = Inr (x, r')" "same_world r r'" by blast
  from Cons.IH [OF r'(2) r(2)] r'(1) show ?case by simp
qed auto

lemma restore_all_append:
  "journal_restore_all (es @ fs) =
     bind (journal_restore_all es) (\<lambda>_. journal_restore_all fs)"
  by (induction es) (simp_all add: bind_assoc)

text \<open>What undoing leaves alone: the journal, the block caches, the generation counter.\<close>

definition undo_frame :: "'z host_state_scheme \<Rightarrow> 'z host_state_scheme \<Rightarrow> bool" where
  "undo_frame s t \<longleftrightarrow> journal t = journal s \<and> account_block t = account_block s \<and>
     storage_block t = storage_block s \<and>
     storage_next_generation t = storage_next_generation s \<and>
     current_warm_epoch t = current_warm_epoch s"

interpretation undo_frame: action_invariant undo_frame
  by unfold_locales (auto simp: undo_frame_def)

lemma undo_frame_restore: "keeps undo_frame (journal_restore e)"
  by (cases e)
    (auto simp: keeps_def undo_frame_def restore_defs action_simps split: option.splits if_splits)

lemma undo_frame_restore_all: "keeps undo_frame (journal_restore_all es)"
proof (induction es)
  case Nil
  show ?case by (simp add: keeps_def undo_frame.related_refl)
next
  case (Cons e es)
  then show ?case by (simp add: undo_frame.keeps_bind undo_frame_restore)
qed

section \<open>Balanced entries\<close>

text \<open>A balanced run of entries is skipped by the search for the open checkpoint.\<close>

definition balanced :: "journal_entry list \<Rightarrow> bool" where
  "balanced es \<longleftrightarrow> (\<forall>index rest closed. 0 \<le> closed \<longrightarrow>
     open_checkpoint_scan index (rev es @ rest) closed =
     open_checkpoint_scan (index - int (length es)) rest closed)"

lemma balanced_Nil [simp]: "balanced []"
  by (simp add: balanced_def)

lemma balanced_append: "balanced es \<Longrightarrow> balanced fs \<Longrightarrow> balanced (es @ fs)"
  by (simp add: balanced_def algebra_simps)

lemma balanced_single:
  "e \<noteq> JournalFrameCheckpointed \<Longrightarrow> e \<noteq> JournalFrameCommitted \<Longrightarrow> balanced [e]"
  by (simp add: balanced_def)

lemma balanced_Cons:
  "e \<noteq> JournalFrameCheckpointed \<Longrightarrow> e \<noteq> JournalFrameCommitted \<Longrightarrow> balanced es \<Longrightarrow>
   balanced (e # es)"
  using balanced_append [OF balanced_single, of e es] by simp

lemma balanced_frame:
  assumes "balanced es"
  shows "balanced (JournalFrameCheckpointed # es @ [JournalFrameCommitted])"
  using assms by (simp add: balanced_def algebra_simps)

lemma open_checkpoint_after_balanced:
  assumes "balanced es"
  shows "open_checkpoint_scan (int (length (j @ JournalFrameCheckpointed # es)) - 1)
    (rev (j @ JournalFrameCheckpointed # es)) 0 = Some (int (length j))"
proof -
  let ?index = "int (length (j @ JournalFrameCheckpointed # es)) - 1"
  have "open_checkpoint_scan ?index (rev es @ JournalFrameCheckpointed # rev j) 0 =
      open_checkpoint_scan (?index - int (length es)) (JournalFrameCheckpointed # rev j) 0"
    using assms by (simp only: balanced_def)
  then show ?thesis by simp
qed

section \<open>The invariant of the world state\<close>

definition current_account :: "'z host_state_scheme \<Rightarrow> bytes \<Rightarrow> account option" where
  "current_account s key =
     (case dict_get (account_tx s) key of
        Some row \<Rightarrow> Some (atr_current row)
      | None \<Rightarrow> map_option (\<lambda>b. acct_curr (abr_value b)) (dict_get (account_block s) key))"

text \<open>
  The dictionaries have one row per key, a storage row is filed under its own key, the flag
  \<open>storage_cleared\<close> of a transaction account says exactly that the original was cleared or that
  the transaction cleared it, and generations are handed out in increasing order.
\<close>

definition world_ok :: "'z host_state_scheme \<Rightarrow> bool" where
  "world_ok s \<longleftrightarrow>
     dict_wf (account_tx s) \<and> dict_wf (storage_tx s) \<and>
     (\<forall>k row. dict_get (storage_tx s) k = Some row \<longrightarrow>
        storage_key_of (str_key row) = k \<and> str_generation row \<le> storage_next_generation s) \<and>
     (\<forall>k row. dict_get (account_tx s) k = Some row \<longrightarrow>
        (storage_cleared (atr_current row) \<longleftrightarrow>
           storage_cleared (atr_original row) \<or> storage_generation s k \<noteq> STORAGE_INITIAL_GENERATION)) \<and>
     (\<forall>k. storage_generation s k \<noteq> STORAGE_INITIAL_GENERATION \<longrightarrow>
        (\<exists>acc. current_account s k = Some acc \<and> storage_cleared acc)) \<and>
     STORAGE_INITIAL_GENERATION \<le> storage_next_generation s \<and>
     (\<forall>k. storage_generation s k \<le> storage_next_generation s)"

lemma world_ok_initial: "world_ok initial_host_state"
  by (simp add: world_ok_def initial_host_state_def dict_get_def storage_generation_def
      dict_get_default_def)

lemma current_account_journal [simp]:
  "current_account (s\<lparr>journal := j\<rparr>) k = current_account s k"
  by (simp add: current_account_def cong: option.case_cong)

lemma world_ok_journal [simp]: "world_ok (s\<lparr>journal := j\<rparr>) = world_ok s"
  by (simp add: world_ok_def storage_generation_def)

definition blocks_grow :: "'z host_state_scheme \<Rightarrow> 'z host_state_scheme \<Rightarrow> bool" where
  "blocks_grow s t \<longleftrightarrow>
     (\<forall>k b. dict_get (account_block s) k = Some b \<longrightarrow> dict_get (account_block t) k = Some b)"

definition caches_grow :: "'z host_state_scheme \<Rightarrow> 'z host_state_scheme \<Rightarrow> bool" where
  "caches_grow s t \<longleftrightarrow>
     blocks_grow s t \<and> storage_next_generation s \<le> storage_next_generation t"

lemma caches_grow_refl [simp]: "caches_grow s s"
  by (simp add: caches_grow_def blocks_grow_def)

lemma caches_grow_trans: "caches_grow s t \<Longrightarrow> caches_grow t u \<Longrightarrow> caches_grow s u"
  by (auto simp: caches_grow_def blocks_grow_def)

lemma undo_frame_caches: "undo_frame s t \<Longrightarrow> caches_grow u s \<Longrightarrow> caches_grow u t"
  by (simp add: undo_frame_def caches_grow_def blocks_grow_def)

lemma current_account_transfer:
  assumes "same_world t s" and "blocks_grow s t" and "current_account s k = Some acc"
  shows "current_account t k = Some acc"
  using assms by (auto simp: current_account_def same_world_def blocks_grow_def split: option.splits)

lemma world_ok_transfer:
  assumes ok: "world_ok s" and same: "same_world t s" and grow: "caches_grow s t"
  shows "world_ok t"
proof -
  have gen: "storage_generation t k = storage_generation s k" for k
    using same by (simp add: same_world_def)
  have rows: "account_tx t = account_tx s" "storage_tx t = storage_tx s"
    using same by (simp_all add: same_world_def)
  have next_gen: "storage_next_generation s \<le> storage_next_generation t"
    using grow by (simp add: caches_grow_def)
  have cleared: "\<exists>acc. current_account t k = Some acc \<and> storage_cleared acc"
    if "storage_generation s k \<noteq> STORAGE_INITIAL_GENERATION" for k
    using ok that current_account_transfer [OF same] grow
    unfolding world_ok_def caches_grow_def by blast
  show ?thesis
    using ok next_gen cleared unfolding world_ok_def gen rows by (meson order_trans)
qed

section \<open>Journaled operations\<close>

definition undoable :: "'z host_state_scheme \<Rightarrow> 'z host_state_scheme \<Rightarrow> bool" where
  "undoable s t \<longleftrightarrow> caches_grow s t \<and>
     (\<exists>es t'. journal t = journal s @ es \<and> balanced es \<and>
        journal_restore_all (rev es) t = Inr ((), t') \<and> same_world t' s)"

definition journaled_step :: "'z host_state_scheme \<Rightarrow> 'z host_state_scheme \<Rightarrow> bool" where
  "journaled_step s t \<longleftrightarrow> (world_ok s \<longrightarrow> world_ok t \<and> undoable s t)"

lemma restore_all_Nil [simp]: "journal_restore_all [] s = Inr ((), s)"
  by simp

lemma undoable_refl: "undoable s s"
  unfolding undoable_def by (rule conjI, simp, rule exI [of _ "[]"]) simp

lemma undoable_trans:
  assumes "undoable s t" and "undoable t u"
  shows "undoable s u"
proof -
  from assms(1) obtain es t' where es: "journal t = journal s @ es" "balanced es"
      "journal_restore_all (rev es) t = Inr ((), t')" "same_world t' s"
    by (auto simp: undoable_def)
  from assms(2) obtain fs u' where fs: "journal u = journal t @ fs" "balanced fs"
      "journal_restore_all (rev fs) u = Inr ((), u')" "same_world u' t"
    by (auto simp: undoable_def)
  from restore_all_same_world [OF same_world_sym [OF fs(4)] es(3)] obtain u'' where
    "journal_restore_all (rev es) u' = Inr ((), u'')" "same_world t' u''" by blast
  then have "journal_restore_all (rev (es @ fs)) u = Inr ((), u'') \<and> same_world u'' s"
    using fs(3) es(4) by (auto simp: restore_all_append intro: same_world_trans same_world_sym)
  moreover have "balanced (es @ fs)" using es(2) fs(2) by (rule balanced_append)
  moreover have "journal u = journal s @ es @ fs" using es(1) fs(1) by simp
  moreover have "caches_grow s u"
    using assms by (auto simp: undoable_def intro: caches_grow_trans)
  ultimately show ?thesis unfolding undoable_def by blast
qed

interpretation journaled: action_invariant journaled_step
  by unfold_locales (auto simp: journaled_step_def undoable_refl intro: undoable_trans)

abbreviation journaled :: "('z, 'a) host \<Rightarrow> bool" where
  "journaled m \<equiv> keeps journaled_step m"

lemma undoable_entries:
  assumes "journal t = journal s @ es" and "balanced es"
    and "journal_restore_all (rev es) t = Inr ((), t')" and "same_world t' s"
    and "caches_grow s t"
  shows "undoable s t"
  unfolding undoable_def using assms by blast

lemma undoable_entry:
  assumes "journal t = journal s @ [e]"
    and "e \<noteq> JournalFrameCheckpointed" and "e \<noteq> JournalFrameCommitted"
    and "journal_restore e t = Inr ((), t')" and "same_world t' s" and "caches_grow s t"
  shows "undoable s t"
  by (rule undoable_entries [OF assms(1) balanced_single [OF assms(2,3)] _ assms(5,6)])
    (simp add: assms(4))

section \<open>Frames\<close>

text \<open>The reverted frame: the world and the journal are those before the checkpoint.\<close>

lemma revert_after_balanced:
  assumes j: "journal u = journal s @ JournalFrameCheckpointed # es" and b: "balanced es"
    and r: "journal_restore_all (rev es) u = Inr ((), u')"
  shows "state_journal_revert u = Inr ((), u'\<lparr>journal := journal s\<rparr>)"
proof -
  have scan: "open_checkpoint_scan (int (length (journal u)) - 1) (rev (journal u)) 0 =
      Some (int (length (journal s)))"
    unfolding j by (rule open_checkpoint_after_balanced [OF b])
  have "undo_frame u u'" using undo_frame_restore_all r by (rule keepsD)
  then have "journal u' = journal s @ JournalFrameCheckpointed # es"
    using j by (simp add: undo_frame_def)
  then have "py_del_from (journal u') (int (length (journal s))) = journal s"
    by (simp add: py_del_from_def slice_bound_def)
  moreover have "drop (nat (int (length (journal s))) + 1) (journal u) = es"
    by (simp add: j)
  ultimately show ?thesis
    using r by (simp add: state_journal_revert_def open_checkpoint_index_def scan action_simps)
qed

definition frame_reverted :: "('z, 'a) host \<Rightarrow> ('z, 'a) host" where
  "frame_reverted body =
     bind state_journal_checkpoint (\<lambda>_.
     bind body (\<lambda>x.
     bind state_journal_revert (\<lambda>_. ret x)))"

definition frame_committed :: "('z, 'a) host \<Rightarrow> ('z, 'a) host" where
  "frame_committed body =
     bind state_journal_checkpoint (\<lambda>_.
     bind body (\<lambda>x.
     bind state_journal_commit (\<lambda>_. ret x)))"

lemma checkpoint_run:
  "state_journal_checkpoint s = Inr ((), s\<lparr>journal := journal s @ [JournalFrameCheckpointed]\<rparr>)"
  by (simp add: state_journal_checkpoint_def journal_append_def)

lemma body_undoable:
  assumes "journaled body" and "world_ok s"
    and "body (s\<lparr>journal := journal s @ [JournalFrameCheckpointed]\<rparr>) = Inr (x, u)"
  obtains es u' where "journal u = journal s @ JournalFrameCheckpointed # es" and "balanced es"
    and "journal_restore_all (rev es) u = Inr ((), u')" and "same_world u' s"
    and "world_ok u" and "caches_grow s u"
proof -
  let ?s = "s\<lparr>journal := journal s @ [JournalFrameCheckpointed]\<rparr>"
  have "journaled_step ?s u" using assms(1,3) by (rule keepsD)
  then have "world_ok u" "undoable ?s u"
    using assms(2) by (simp_all add: journaled_step_def)
  then show thesis
    using that by (fastforce simp: undoable_def caches_grow_def blocks_grow_def)
qed

lemma frame_reverted_restores:
  assumes "journaled body" and "world_ok s"
    and "body (s\<lparr>journal := journal s @ [JournalFrameCheckpointed]\<rparr>) = Inr (x, u)"
  shows "\<exists>t. frame_reverted body s = Inr (x, t) \<and> same_world t s \<and> journal t = journal s \<and>
    world_ok t \<and> caches_grow s t"
proof -
  from body_undoable [OF assms] obtain es u' where
    u: "journal u = journal s @ JournalFrameCheckpointed # es" "balanced es"
      "journal_restore_all (rev es) u = Inr ((), u')" "same_world u' s" "caches_grow s u" by metis
  let ?t = "u'\<lparr>journal := journal s\<rparr>"
  have "frame_reverted body s = Inr (x, ?t)"
    using revert_after_balanced [OF u(1-3)] assms(3)
    by (simp add: frame_reverted_def checkpoint_run)
  moreover have "same_world ?t s" using u(4) by simp
  moreover have "undo_frame u u'" using undo_frame_restore_all u(3) by (rule keepsD)
  then have "caches_grow s u'" using u(5) by (rule undo_frame_caches)
  then have "caches_grow s ?t" by (simp add: caches_grow_def blocks_grow_def)
  moreover have "world_ok ?t"
    using world_ok_transfer [OF assms(2) u(4)] \<open>caches_grow s u'\<close> by simp
  ultimately show ?thesis by simp
qed

lemma frame_committed_runs:
  assumes "journaled body" and "world_ok s"
    and "body (s\<lparr>journal := journal s @ [JournalFrameCheckpointed]\<rparr>) = Inr (x, u)"
  shows "frame_committed body s = Inr (x, u\<lparr>journal := journal u @ [JournalFrameCommitted]\<rparr>)"
proof -
  from body_undoable [OF assms] obtain es where
    u: "journal u = journal s @ JournalFrameCheckpointed # es" "balanced es" by metis
  have "open_checkpoint_scan (int (length (journal u)) - 1) (rev (journal u)) 0 =
      Some (int (length (journal s)))"
    unfolding u(1) by (rule open_checkpoint_after_balanced [OF u(2)])
  then show ?thesis
    using assms(3)
    by (simp add: frame_committed_def checkpoint_run state_journal_commit_def journal_append_def
        open_checkpoint_index_def action_simps)
qed

lemma frame_reverted_body:
  assumes "frame_reverted body s = Inr (x, t)"
  shows "\<exists>u. body (s\<lparr>journal := journal s @ [JournalFrameCheckpointed]\<rparr>) = Inr (x, u)"
  using assms by (auto simp: frame_reverted_def checkpoint_run bind_returns_iff)

lemma frame_committed_body:
  assumes "frame_committed body s = Inr (x, t)"
  shows "\<exists>u. body (s\<lparr>journal := journal s @ [JournalFrameCheckpointed]\<rparr>) = Inr (x, u)"
  using assms by (auto simp: frame_committed_def checkpoint_run bind_returns_iff)

lemma journaled_frame_reverted:
  assumes "journaled body"
  shows "journaled (frame_reverted body)"
proof (rule keepsI)
  fix s x t
  assume run: "frame_reverted body s = Inr (x, t)"
  show "journaled_step s t" unfolding journaled_step_def
  proof
    assume ok: "world_ok s"
    from frame_reverted_body [OF run] obtain u where
      "body (s\<lparr>journal := journal s @ [JournalFrameCheckpointed]\<rparr>) = Inr (x, u)" by blast
    from frame_reverted_restores [OF assms ok this] run
    have t: "same_world t s" "journal t = journal s" "world_ok t" "caches_grow s t" by auto
    then have "undoable s t"
      by (intro undoable_entries [of t s "[]" t]) simp_all
    with t show "world_ok t \<and> undoable s t" by blast
  qed
qed

lemma journaled_frame_committed:
  assumes "journaled body"
  shows "journaled (frame_committed body)"
proof (rule keepsI)
  fix s x t
  assume run: "frame_committed body s = Inr (x, t)"
  show "journaled_step s t" unfolding journaled_step_def
  proof
    assume ok: "world_ok s"
    from frame_committed_body [OF run] obtain u where
      body: "body (s\<lparr>journal := journal s @ [JournalFrameCheckpointed]\<rparr>) = Inr (x, u)" by blast
    from body_undoable [OF assms ok body] obtain es u' where
      u: "journal u = journal s @ JournalFrameCheckpointed # es" "balanced es"
        "journal_restore_all (rev es) u = Inr ((), u')" "same_world u' s"
        "world_ok u" "caches_grow s u" by blast
    let ?t = "u\<lparr>journal := journal u @ [JournalFrameCommitted]\<rparr>"
    have t: "t = ?t" using frame_committed_runs [OF assms ok body] run by simp
    have "same_world u ?t" by simp
    from restore_all_same_world [OF this u(3)] obtain t' where
      t': "journal_restore_all (rev es) ?t = Inr ((), t')" "same_world u' t'" by blast
    have "undoable s ?t"
    proof (rule undoable_entries)
      show "journal ?t = journal s @ JournalFrameCheckpointed # es @ [JournalFrameCommitted]"
        using u(1) by simp
      show "balanced (JournalFrameCheckpointed # es @ [JournalFrameCommitted])"
        using u(2) by (rule balanced_frame)
      show "journal_restore_all (rev (JournalFrameCheckpointed # es @ [JournalFrameCommitted])) ?t =
          Inr ((), t')"
        using t'(1) by (simp add: restore_all_append)
      show "same_world t' s" using t'(2) u(4) by (blast intro: same_world_trans same_world_sym)
      show "caches_grow s ?t" using u(6) by (simp add: caches_grow_def blocks_grow_def)
    qed
    with u(5) t show "world_ok t \<and> undoable s t" by simp
  qed
qed

end
