(* ===== verification/Host_BAL.thy ===== *)
theory Host_BAL
  imports Host_Regions "HOL-Library.Product_Lexorder"
begin

text \<open>
  The block-access list of \<open>contract/HostContract.py\<close>: which accounts and slots a block touched,
  the values written at each transaction index, and the canonical event order in which
  \<open>bal_prepare_iter\<close> lists them (addresses, then slots and indices, each ascending).
\<close>

section \<open>Recording\<close>

definition bal_reset :: "('z, unit) host" where
  "bal_reset = modify (\<lambda>s.
     s\<lparr>bal_accounts := {}, bal_addresses := [], bal_storage_changes := [],
       bal_storage_reads := {}, bal_balance_changes := [], bal_nonce_changes := [],
       bal_code_changes := [], bal_iterator := []\<rparr>)"

definition bal_touch :: "address \<Rightarrow> ('z, bytes) host" where
  "bal_touch a =
     (let key = address_key a in
     bind (modify (\<lambda>s.
       s\<lparr>bal_accounts := insert key (bal_accounts s),
         bal_addresses := dict_set (bal_addresses s) key a\<rparr>)) (\<lambda>_.
     ret key))"

definition bal_account_touch :: "address \<Rightarrow> ('z, unit) host" where
  "bal_account_touch a = bind (bal_touch a) (\<lambda>_. ret ())"

text \<open>\<open>d.setdefault(key, {})[index] = value\<close>\<close>

definition set_change :: "('k, (int, 'v) dict) dict \<Rightarrow> 'k \<Rightarrow> int \<Rightarrow> 'v \<Rightarrow> ('k, (int, 'v) dict) dict"
  where
  "set_change d key index value =
     dict_set d key (dict_set (dict_get_default d key []) index value)"

definition bal_storage_change :: "int \<Rightarrow> address \<Rightarrow> int \<Rightarrow> int \<Rightarrow> ('z, unit) host" where
  "bal_storage_change index a slot value =
     bind (bal_touch a) (\<lambda>key.
     modify (\<lambda>s.
       s\<lparr>bal_storage_changes := set_change (bal_storage_changes s) (key, slot) index value\<rparr>))"

definition bal_storage_read :: "address \<Rightarrow> int \<Rightarrow> ('z, unit) host" where
  "bal_storage_read a slot =
     bind (bal_touch a) (\<lambda>key.
     modify (\<lambda>s. s\<lparr>bal_storage_reads := insert (key, slot) (bal_storage_reads s)\<rparr>))"

definition bal_balance_change :: "int \<Rightarrow> address \<Rightarrow> int \<Rightarrow> ('z, unit) host" where
  "bal_balance_change index a value =
     bind (bal_touch a) (\<lambda>key.
     modify (\<lambda>s. s\<lparr>bal_balance_changes := set_change (bal_balance_changes s) key index value\<rparr>))"

definition bal_nonce_change :: "int \<Rightarrow> address \<Rightarrow> int \<Rightarrow> ('z, unit) host" where
  "bal_nonce_change index a value =
     bind (bal_touch a) (\<lambda>key.
     modify (\<lambda>s. s\<lparr>bal_nonce_changes := set_change (bal_nonce_changes s) key index value\<rparr>))"

definition bal_code_change :: "int \<Rightarrow> address \<Rightarrow> hash \<Rightarrow> ('z, unit) host" where
  "bal_code_change index a value =
     bind (bal_touch a) (\<lambda>key.
     modify (\<lambda>s. s\<lparr>bal_code_changes := set_change (bal_code_changes s) key index value\<rparr>))"

section \<open>Iteration\<close>

definition changes_in_order :: "(int, 'v) dict \<Rightarrow> (int \<times> 'v) list" where
  "changes_in_order changes =
     map (\<lambda>index. (index, the (dict_get changes index))) (sort (map fst changes))"

text \<open>The events of one account; \<open>slot_changes\<close> is the dictionary comprehension.\<close>

definition slot_changes_of ::
    "bytes \<Rightarrow> (bytes \<times> int, (int, int) dict) dict \<Rightarrow> (int, (int, int) dict) dict" where
  "slot_changes_of key changes =
     map (\<lambda>(k, v). (snd k, v)) (filter (\<lambda>(k, v). fst k = key) changes)"

definition bal_account_events :: "'z host_state_scheme \<Rightarrow> bytes \<Rightarrow> bal_iter_entry list" where
  "bal_account_events s key =
     (let slot_changes = slot_changes_of key (bal_storage_changes s) in
      [BalAccount (the (dict_get (bal_addresses s) key))] @
      concat (map (\<lambda>slot. map (\<lambda>(index, value). BalStorageChange slot index value)
          (changes_in_order (the (dict_get slot_changes slot)))) (sort (map fst slot_changes))) @
      map (\<lambda>p. BalStorageRead (snd p))
        (filter (\<lambda>p. fst p = key \<and> snd p \<notin> set (map fst slot_changes))
          (sorted_list_of_set (bal_storage_reads s))) @
      map (\<lambda>(index, value). BalBalanceChange index value)
        (changes_in_order (dict_get_default (bal_balance_changes s) key [])) @
      map (\<lambda>(index, value). BalNonceChange index value)
        (changes_in_order (dict_get_default (bal_nonce_changes s) key [])) @
      map (\<lambda>(index, value). BalCodeChange index value)
        (changes_in_order (dict_get_default (bal_code_changes s) key [])) @
      [BalAccountEnd])"

definition bal_prepare_iter :: "('z, unit) host" where
  "bal_prepare_iter =
     bind (reads (\<lambda>s. s)) (\<lambda>s.
     let accounts = sorted_list_of_set (bal_accounts s) in
     bind (ensure (list_all (\<lambda>key. dict_get (bal_addresses s) key \<noteq> None) accounts) KeyError)
       (\<lambda>_.
     modify (\<lambda>s. s\<lparr>bal_iterator := concat (map (bal_account_events s) accounts)\<rparr>)))"

definition bal_iter_next :: "('z, bal_iter_entry) host" where
  "bal_iter_next =
     bind (reads bal_iterator) (\<lambda>events.
     case events of
       [] \<Rightarrow> ret BalEmpty
     | event # rest \<Rightarrow> bind (modify (\<lambda>s. s\<lparr>bal_iterator := rest\<rparr>)) (\<lambda>_. ret event))"

end
