(* ===== verification/Journal_Ops.thy ===== *)
theory Journal_Ops
  imports Journal Host_BAL
begin

text \<open>
  Every operation of the host that changes reversible state is journaled: the entries it
  appends undo exactly what it did. Operations outside the reversible state (memory, operand
  stack, scratch, block caches, access lists, code) are journaled because they leave the world
  and the journal alone.
\<close>

section \<open>Operations outside the world\<close>

definition world_kept :: "'z host_state_scheme \<Rightarrow> 'z host_state_scheme \<Rightarrow> bool" where
  "world_kept s t \<longleftrightarrow> same_world t s \<and> journal t = journal s \<and> caches_grow s t"

interpretation world_kept: action_invariant world_kept
  by unfold_locales
    (auto simp: world_kept_def intro: same_world_trans same_world_sym caches_grow_trans)

lemma world_kept_journaled: "world_kept s t \<Longrightarrow> journaled_step s t"
  unfolding world_kept_def journaled_step_def
  by (auto intro: world_ok_transfer undoable_entries [of t s "[]" t])

lemma journaled_if_world_kept: "keeps world_kept m \<Longrightarrow> journaled m"
  by (auto simp: keeps_def intro: world_kept_journaled)

lemmas world_kept_simps = world_kept_def same_world_def storage_generation_def caches_grow_def
  blocks_grow_def

lemma world_kept_memory [simp]: "world_kept s (s\<lparr>memory_bytes := b\<rparr>)"
  by (simp add: world_kept_simps)
lemma world_kept_stack [simp]: "world_kept s (s\<lparr>operand_stack := b\<rparr>)"
  by (simp add: world_kept_simps)
lemma world_kept_code_bytes [simp]: "world_kept s (s\<lparr>code_bytes := b\<rparr>)"
  by (simp add: world_kept_simps)
lemma world_kept_code_db [simp]: "world_kept s (s\<lparr>code_db := d\<rparr>)"
  by (simp add: world_kept_simps)
lemma world_kept_jumpdests [simp]: "world_kept s (s\<lparr>jumpdest_tables := d\<rparr>)"
  "world_kept s (s\<lparr>next_jumpdest_table := i, jumpdest_tables := d\<rparr>)"
  by (simp_all add: world_kept_simps)

lemma world_kept_bal [simp]:
  "world_kept s (s\<lparr>bal_accounts := x, bal_addresses := y\<rparr>)"
  "world_kept s (s\<lparr>bal_storage_reads := z\<rparr>)"
  by (simp_all add: world_kept_simps)

lemma world_kept_storage_block [simp]: "world_kept s (s\<lparr>storage_block := d\<rparr>)"
  by (simp add: world_kept_simps)

lemma bal_account_touch_kept: "keeps world_kept (bal_account_touch a)"
  by (auto simp: keeps_def bal_account_touch_def bal_touch_def Let_def action_simps)

lemma bal_storage_read_kept: "keeps world_kept (bal_storage_read a slot)"
  unfolding bal_storage_read_def bal_touch_def Let_def
  by (intro world_kept.keeps_bind keeps_modify world_kept.keeps_ret) simp_all

lemma acct_block_cache_kept: "keeps world_kept (acct_block_cache a h acc)"
  by (auto simp: keeps_def acct_block_cache_def Let_def world_kept_simps dict_get_set
      split: option.splits)

lemma storage_block_cache_kept: "keeps world_kept (storage_block_cache keccak key h v)"
  by (auto simp: keeps_def storage_block_cache_def Let_def world_kept.related_refl
      split: option.splits)

lemma append_code_kept: "keeps world_kept (append_code payload)"
  by (auto simp: keeps_def append_code_def action_simps region_slice_def split: if_splits)

lemma code_db_store_kept: "keeps world_kept (code_db_store keccak c)"
  by (auto simp: keeps_def code_db_store_def action_simps)

lemma jumpdest_table_alloc_kept: "keeps world_kept (jumpdest_table_alloc c)"
  by (auto simp: keeps_def jumpdest_table_alloc_def action_simps)

lemma jumpdest_table_mark_kept: "keeps world_kept (jumpdest_table_mark table n p)"
  by (auto simp: keeps_def jumpdest_table_mark_def action_simps world_kept.related_refl
      split: option.splits if_splits)

section \<open>Transient storage and warm sets\<close>

lemma world_ok_other [simp]:
  "world_ok (s\<lparr>transient := d\<rparr>) = world_ok s"
  "world_ok (s\<lparr>warm_addresses := w\<rparr>) = world_ok s"
  "world_ok (s\<lparr>warm_slots := v\<rparr>) = world_ok s"
  "world_ok (s\<lparr>logs := l\<rparr>) = world_ok s"
  "world_ok (s\<lparr>log_data := ld\<rparr>) = world_ok s"
  "world_ok (s\<lparr>current_log := c\<rparr>) = world_ok s"
  by (simp_all add: world_ok_def storage_generation_def current_account_def cong: option.case_cong)

lemma caches_grow_other [simp]:
  "caches_grow s (s\<lparr>journal := j, transient := d\<rparr>)"
  "caches_grow s (s\<lparr>journal := j, warm_addresses := w\<rparr>)"
  "caches_grow s (s\<lparr>journal := j, warm_slots := v\<rparr>)"
  by (simp_all add: caches_grow_def blocks_grow_def)

lemma transient_store_journaled: "journaled (transient_store a slot value)"
proof (rule keepsI)
  fix s x t
  assume run: "transient_store a slot value s = Inr (x, t)"
  let ?key = "address_slot_key a slot" and ?prior = "dict_get_default (transient s) (address_slot_key a slot) 0"
  let ?e = "JournalTransientChanged a slot ?prior"
  have t: "t = s\<lparr>journal := journal s @ [?e], transient := dict_set (transient s) ?key value\<rparr>"
    using run by (simp add: transient_store_def Let_def)
  have "undoable s t" unfolding t
    by (rule undoable_entry [of _ _ ?e])
      (auto simp: same_world_def storage_generation_def dict_get_default_set)
  then show "journaled_step s t" by (simp add: journaled_step_def t)
qed

lemma account_mark_warm_journaled: "journaled (account_mark_warm a)"
proof (rule keepsI)
  fix s x t
  assume run: "account_mark_warm a s = Inr (x, t)"
  let ?stamp = "dict_get_default (warm_addresses s) (address_key a) 0"
  let ?e = "JournalWarmAccountChanged a ?stamp"
  let ?t = "s\<lparr>journal := journal s @ [?e],
    warm_addresses := dict_set (warm_addresses s) (address_key a) (current_warm_epoch s)\<rparr>"
  have "t = (if ?stamp < current_warm_epoch s then ?t else s)"
    using run by (auto simp: account_mark_warm_def journal_append_def Let_def action_simps
        split: if_splits)
  moreover have "undoable s ?t"
    by (rule undoable_entry [of _ _ ?e])
      (auto simp: same_world_def storage_generation_def dict_get_default_set)
  ultimately show "journaled_step s t" by (simp add: journaled_step_def undoable_refl)
qed

lemma storage_mark_warm_journaled: "journaled (storage_mark_warm a slot)"
proof (rule keepsI)
  fix s x t
  assume run: "storage_mark_warm a slot s = Inr (x, t)"
  let ?stamp = "dict_get_default (warm_slots s) (address_slot_key a slot) 0"
  let ?e = "JournalWarmStorageChanged \<lparr>key_addr = a, key_slot = slot\<rparr> ?stamp"
  let ?t = "s\<lparr>journal := journal s @ [?e],
    warm_slots := dict_set (warm_slots s) (address_slot_key a slot) (current_warm_epoch s)\<rparr>"
  have "t = (if ?stamp < current_warm_epoch s then ?t else s)"
    using run by (auto simp: storage_mark_warm_def journal_append_def Let_def action_simps
        split: if_splits)
  moreover have "undoable s ?t"
    by (rule undoable_entry [of _ _ ?e])
      (auto simp: same_world_def storage_generation_def dict_get_default_set)
  ultimately show "journaled_step s t" by (simp add: journaled_step_def undoable_refl)
qed

section \<open>Logs\<close>

text \<open>What filling the open log record may change: that record and the end of the log data.\<close>

definition log_fill :: "'z host_state_scheme \<Rightarrow> 'z host_state_scheme \<Rightarrow> bool" where
  "log_fill s t \<longleftrightarrow>
     (logs s \<noteq> [] \<and> current_log s = Some (int (length (logs s)) - 1) \<longrightarrow>
        logs t \<noteq> [] \<and> current_log t = Some (int (length (logs t)) - 1) \<and>
        butlast (logs t) = butlast (logs s) \<and>
        rec_data_offset (last (logs t)) = rec_data_offset (last (logs s)) \<and>
        (\<exists>d. log_data t = log_data s @ d) \<and>
        same_world (t\<lparr>logs := logs s, log_data := log_data s\<rparr>) s \<and>
        journal t = journal s \<and> caches_grow s t)"

lemma same_world_logs:
  "same_world (t\<lparr>logs := l, log_data := d\<rparr>) s \<longleftrightarrow>
     l = logs s \<and> d = log_data s \<and> account_tx t = account_tx s \<and> storage_tx t = storage_tx s \<and>
     (\<forall>k. dict_get_default (transient t) k 0 = dict_get_default (transient s) k 0) \<and>
     (\<forall>k. dict_get_default (warm_addresses t) k 0 = dict_get_default (warm_addresses s) k 0) \<and>
     (\<forall>k. dict_get_default (warm_slots t) k 0 = dict_get_default (warm_slots s) k 0) \<and>
     (\<forall>k. storage_generation t k = storage_generation s k)"
  by (auto simp: same_world_def storage_generation_def)

interpretation log_fill: action_invariant log_fill
proof
  show "log_fill s s" for s :: "'a host_state_scheme"
    by (simp add: log_fill_def same_world_logs)
  show "log_fill s u" if "log_fill s t" "log_fill t u" for s t u :: "'a host_state_scheme"
    using that unfolding log_fill_def same_world_logs
    by (auto intro: caches_grow_trans)
qed

lemma list_update_last:
  "xs \<noteq> [] \<Longrightarrow> xs[length xs - Suc 0 := x] = butlast xs @ [x]"
  by (metis One_nat_def append_butlast_last_id length_butlast list_update_length)

lemma update_current_log_fill:
  assumes "\<And>r. rec_data_offset (f r) = rec_data_offset r"
  shows "keeps log_fill (update_current_log f)"
proof (rule keepsI)
  fix s x t
  assume run: "update_current_log f s = Inr (x, t)"
  show "log_fill s t"
  proof (cases "logs s \<noteq> [] \<and> current_log s = Some (int (length (logs s)) - 1)")
    case True
    then have "nat (int (length (logs s)) - 1) = length (logs s) - Suc 0"
      by linarith
    with True run have "t = s\<lparr>logs := butlast (logs s) @ [f (last (logs s))]\<rparr>"
      by (auto simp: update_current_log_def action_simps list_update_last last_conv_nth
          split: if_splits)
    with True assms show ?thesis
      by (simp add: log_fill_def same_world_logs caches_grow_def blocks_grow_def
          storage_generation_def)
  next
    case False
    then show ?thesis unfolding log_fill_def by blast
  qed
qed

lemma log_add_topic_fill: "keeps log_fill (log_add_topic v)"
  by (simp add: log_add_topic_def update_current_log_fill)

lemma append_log_data_fill: "keeps log_fill (append_log_data payload)"
  unfolding append_log_data_def
  by (rule log_fill.keeps_bind, rule update_current_log_fill, simp, rule keeps_modify)
    (simp add: log_fill_def same_world_logs caches_grow_def blocks_grow_def storage_generation_def)

lemma log_add_data_memory_fill: "keeps log_fill (log_add_data_memory v)"
  by (simp add: log_add_data_memory_def log_fill.keeps_bind log_fill.keeps_reads
      append_log_data_fill)

lemma log_add_data_word_fill: "keeps log_fill (log_add_data_word v)"
  by (simp add: log_add_data_word_def append_log_data_fill)

lemma log_begin_then_fill_journaled:
  assumes "keeps log_fill m"
  shows "journaled (bind (log_begin a) (\<lambda>_. m))"
proof (rule keepsI)
  fix s x t
  assume run: "bind (log_begin a) (\<lambda>_. m) s = Inr (x, t)"
  let ?r = "\<lparr>rec_address = a, rec_topics = [], rec_data_offset = int (length (log_data s)),
     rec_data_length = 0\<rparr>"
  let ?s = "s\<lparr>journal := journal s @ [JournalLogAppended], logs := logs s @ [?r],
     current_log := Some (int (length (logs s)))\<rparr>"
  have "m ?s = Inr (x, t)"
    using run by (simp add: log_begin_def journal_append_def)
  with assms have "log_fill ?s t" by (rule keepsD)
  then have t: "logs t \<noteq> []" "butlast (logs t) = logs s"
      "rec_data_offset (last (logs t)) = int (length (log_data s))"
      "journal t = journal s @ [JournalLogAppended]"
      "\<exists>d. log_data t = log_data s @ d" "caches_grow s t"
      "same_world (t\<lparr>logs := logs s, log_data := log_data s\<rparr>) s"
    by (auto simp: log_fill_def same_world_logs caches_grow_def blocks_grow_def
        storage_generation_def)
  let ?t = "t\<lparr>logs := logs s, log_data := log_data s, current_log := None\<rparr>"
  have "undoable s t"
  proof (rule undoable_entry [OF t(4) _ _ _ _ t(6)])
    from t(1-3,5) show "journal_restore JournalLogAppended t = Inr ((), ?t)"
      by (auto simp: action_simps py_del_from_def slice_bound_def)
    from t(7) show "same_world ?t s" by (simp add: same_world_def storage_generation_def)
  qed simp_all
  moreover have "world_ok t" if "world_ok s"
  proof -
    have "world_ok (t\<lparr>logs := logs s, log_data := log_data s\<rparr>)"
      using that t(7) by (rule world_ok_transfer) (use t(6) in \<open>simp add: caches_grow_def blocks_grow_def\<close>)
    then show ?thesis by simp
  qed
  ultimately show "journaled_step s t" by (simp add: journaled_step_def)
qed

section \<open>Storage\<close>

lemma world_ok_storage_row:
  assumes "world_ok s" and "dict_get (storage_tx s) k = Some row"
  shows "storage_key_of (str_key row) = k" "str_generation row \<le> storage_next_generation s"
    "dict_wf (storage_tx s)"
  using assms unfolding world_ok_def by blast+

lemma storage_value_same: "curr x = v \<Longrightarrow> x\<lparr>curr := v\<rparr> = x"
  by simp

lemma storage_row_same:
  "row\<lparr>str_value := str_value row, str_generation := g\<rparr> = row\<lparr>str_generation := g\<rparr>"
  "str_generation row = g \<Longrightarrow> row\<lparr>str_value := w, str_generation := g\<rparr> = row\<lparr>str_value := w\<rparr>"
  "str_generation row = g \<Longrightarrow> row\<lparr>str_generation := g\<rparr> = row"
  by simp_all

lemmas storage_same = storage_value_same storage_row_same

lemma world_ok_set_storage_row:
  assumes "world_ok s" and "storage_key_of (str_key row) = k"
    and "str_generation row \<le> storage_next_generation s"
  shows "world_ok (s\<lparr>journal := j, storage_tx := dict_set (storage_tx s) k row\<rparr>)"
  using assms
  by (auto simp: world_ok_def dict_get_set storage_generation_def current_account_def
      cong: option.case_cong)

lemma world_ok_generation: "world_ok s \<Longrightarrow> storage_generation s k \<le> storage_next_generation s"
  by (simp add: world_ok_def)

lemma last_storage_key_snoc [simp]:
  "last_storage_key (fst k) (d @ [(k, row)]) = Some k"
  by (simp add: last_storage_key_def)

lemma dict_del_snoc [simp]: "dict_get d k = None \<Longrightarrow> dict_del (d @ [(k, v)]) k = d"
  by (induction d) (auto simp: dict_del_def dict_get_def split: if_splits)

lemma storage_row_restored:
  assumes "dict_wf d" and "dict_get d k = Some row"
  shows "dict_set (dict_set d k row') k row = d"
  using assms by (simp add: dict_set_get_same)

lemma storage_tx_update_journaled: "journaled (storage_tx_update_host entry)"
proof (rule keepsI)
  fix s x t
  assume run: "storage_tx_update_host entry s = Inr (x, t)"
  let ?k = "storage_key_of (entry_key entry)"
  let ?g = "storage_generation s (fst ?k)"
  show "journaled_step s t"
  proof (cases "dict_get (storage_tx s) ?k")
    case None
    let ?row = "\<lparr>str_key = entry_key entry,
       str_value = \<lparr>curr = curr (entry_value entry), orig = orig (entry_value entry)\<rparr>,
       str_generation = ?g\<rparr>"
    let ?e = "JournalTransactionStorageListed (key_addr (entry_key entry))"
    have t: "t = s\<lparr>journal := journal s @ [?e], storage_tx := dict_set (storage_tx s) ?k ?row\<rparr>"
      using run None
      by (simp add: storage_tx_update_host_def journal_append_def Let_def action_simps)
    have "journal_restore ?e t = Inr ((), t\<lparr>storage_tx := storage_tx s\<rparr>)"
      using None last_storage_key_snoc [of ?k] by (simp add: t dict_set_new action_simps)
    then have "undoable s t"
      by (rule undoable_entry [rotated 3])
        (auto simp: t same_world_def storage_generation_def caches_grow_def blocks_grow_def)
    moreover have "world_ok s \<Longrightarrow> world_ok t"
      unfolding t by (rule world_ok_set_storage_row) (simp_all add: world_ok_generation)
    ultimately show ?thesis by (simp add: journaled_step_def)
  next
    case (Some row)
    show ?thesis unfolding journaled_step_def
    proof
      assume ok: "world_ok s"
      note row = world_ok_storage_row [OF ok Some]
      let ?v = "curr (entry_value entry)"
      let ?e1 = "JournalStorageValueChanged (str_key row) (curr (str_value row))"
      let ?e2 = "JournalStorageRowGenerationChanged (str_key row) (str_generation row)"
      let ?es = "(if curr (str_value row) \<noteq> ?v then [?e1] else []) @
        (if str_generation row \<noteq> ?g then [?e2] else [])"
      let ?row = "row\<lparr>str_value := (str_value row)\<lparr>curr := ?v\<rparr>, str_generation := ?g\<rparr>"
      have t: "t = s\<lparr>journal := journal s @ ?es, storage_tx := dict_set (storage_tx s) ?k ?row\<rparr>"
        using run Some dict_set_get_same [OF row(3) Some]
        by (auto simp: storage_tx_update_host_def journal_append_def set_storage_row_def Let_def
            action_simps dict_get_set storage_same)
      have undo: "journal_restore_all (rev ?es) t = Inr ((), t\<lparr>storage_tx := storage_tx s\<rparr>)"
        using row dict_set_get_same [OF row(3) Some]
        by (auto simp: t set_storage_row_def action_simps dict_get_set storage_same)
      have bal: "balanced ?es" by (auto intro: balanced_single balanced_Cons)
      have "undoable s t"
        by (rule undoable_entries [OF _ bal undo])
          (auto simp: t same_world_def storage_generation_def caches_grow_def blocks_grow_def)
      moreover have "world_ok t"
        unfolding t using ok
        by (rule world_ok_set_storage_row) (use row(1) ok in \<open>simp_all add: world_ok_generation\<close>)
      ultimately show "world_ok t \<and> undoable s t" by blast
    qed
  qed
qed

section \<open>Accounts\<close>

lemma world_ok_account_row:
  assumes "world_ok s" and "dict_get (account_tx s) k = Some row"
  shows "dict_wf (account_tx s)"
    "storage_cleared (atr_current row) \<longleftrightarrow>
       storage_cleared (atr_original row) \<or> storage_generation s k \<noteq> STORAGE_INITIAL_GENERATION"
  using assms unfolding world_ok_def by blast+

lemma world_ok_set_current:
  assumes ok: "world_ok s" and row: "dict_get (account_tx s) k = Some row"
    and same: "storage_cleared v = storage_cleared (atr_current row)"
  shows "world_ok (s\<lparr>journal := j,
    account_tx := dict_set (account_tx s) k (row\<lparr>atr_current := v\<rparr>)\<rparr>)"
proof -
  let ?t = "s\<lparr>journal := j, account_tx := dict_set (account_tx s) k (row\<lparr>atr_current := v\<rparr>)\<rparr>"
  have gen: "storage_generation ?t k' = storage_generation s k'" for k'
    by (simp add: storage_generation_def)
  have cur: "current_account ?t k' = (if k' = k then Some v else current_account s k')" for k'
    by (simp add: current_account_def dict_get_set cong: option.case_cong)
  have cur_k: "current_account s k = Some (atr_current row)"
    by (simp add: current_account_def row)
  show ?thesis
    using ok world_ok_account_row [OF ok row] same cur_k
    unfolding world_ok_def gen cur by (auto simp: dict_get_set)
qed

lemma world_ok_new_account:
  assumes ok: "world_ok s" and no_row: "dict_get (account_tx s) k = None"
    and block: "dict_get (account_block s) k = Some b"
    and row: "atr_original row = acct_curr (abr_value b)"
      "storage_cleared (atr_current row) = storage_cleared (atr_original row)"
  shows "world_ok (s\<lparr>journal := j, account_tx := dict_set (account_tx s) k row\<rparr>)"
proof -
  let ?t = "s\<lparr>journal := j, account_tx := dict_set (account_tx s) k row\<rparr>"
  have gen: "storage_generation ?t k' = storage_generation s k'" for k'
    by (simp add: storage_generation_def)
  have cur: "current_account ?t k' =
      (if k' = k then Some (atr_current row) else current_account s k')" for k'
    by (simp add: current_account_def dict_get_set cong: option.case_cong)
  have cur_k: "current_account s k = Some (atr_original row)"
    by (simp add: current_account_def no_row block row)
  show ?thesis
    using ok row cur_k unfolding world_ok_def gen cur by (auto simp: dict_get_set)
qed

lemma undo_listed:
  assumes "dict_get d k = None"
  shows "butlast (dict_set d k row) = d"
  using assms by (simp add: dict_set_new)

lemma account_tx_required_cases:
  assumes "account_tx_required a s = Inr (row, t)"
  obtains (old) "t = s" and "dict_get (account_tx s) (address_key a) = Some row"
  | (new) b where "dict_get (account_tx s) (address_key a) = None"
      and "dict_get (account_block s) (address_key a) = Some b"
      and "row = \<lparr>atr_current = acct_curr (abr_value b), atr_original = acct_curr (abr_value b)\<rparr>"
      and "t = s\<lparr>journal := journal s @ [JournalTransactionAccountListed],
                account_tx := dict_set (account_tx s) (address_key a) row\<rparr>"
  using assms
  by (auto simp: account_tx_required_def journal_append_def Let_def action_simps
      split: option.splits)

lemma new_account_undoable:
  assumes "dict_get (account_tx s) k = None"
  shows "undoable s (s\<lparr>journal := journal s @ [JournalTransactionAccountListed],
    account_tx := dict_set (account_tx s) k row\<rparr>)" (is "undoable s ?t")
proof (rule undoable_entry)
  show "journal_restore JournalTransactionAccountListed ?t = Inr ((), ?t\<lparr>account_tx := account_tx s\<rparr>)"
    using assms by (simp add: dict_set_new action_simps)
qed (simp_all add: same_world_def storage_generation_def caches_grow_def blocks_grow_def)

lemma account_tx_required_step:
  assumes "account_tx_required a s = Inr (row, t)"
  shows "journaled_step s t" "dict_get (account_tx t) (address_key a) = Some row"
proof -
  show "journaled_step s t"
    using assms
    by (cases rule: account_tx_required_cases)
      (auto simp: journaled_step_def undoable_refl new_account_undoable intro: world_ok_new_account)
  show "dict_get (account_tx t) (address_key a) = Some row"
    using assms by (cases rule: account_tx_required_cases) (auto simp: dict_get_set)
qed

text \<open>An entry that puts \<open>g\<close> of the current account back into the row of \<open>a\<close>.\<close>

definition restores_row :: "journal_entry \<Rightarrow> address \<Rightarrow> (account \<Rightarrow> account) \<Rightarrow> 'z itself \<Rightarrow> bool" where
  "restores_row e a g z \<longleftrightarrow>
     e \<noteq> JournalFrameCheckpointed \<and> e \<noteq> JournalFrameCommitted \<and>
     (\<forall>(t :: 'z host_state_scheme) r. dict_get (account_tx t) (address_key a) = Some r \<longrightarrow>
        journal_restore e t = Inr ((), t\<lparr>account_tx :=
          dict_set (account_tx t) (address_key a) (r\<lparr>atr_current := g (atr_current r)\<rparr>)\<rparr>))"

lemma restores_row_entries:
  "restores_row (JournalAccountBalanceChanged a b) a
     (\<lambda>c. c\<lparr>info := (info c)\<lparr>balance := b\<rparr>\<rparr>) z"
  "restores_row (JournalAccountNonceChanged a n) a (\<lambda>c. c\<lparr>info := (info c)\<lparr>nonce := n\<rparr>\<rparr>) z"
  "restores_row (JournalAccountCodeHashChanged a h) a
     (\<lambda>c. c\<lparr>info := (info c)\<lparr>code_hash := h\<rparr>\<rparr>) z"
  "restores_row (JournalAccountExistsChanged a p) a (\<lambda>c. c\<lparr>present := p\<rparr>) z"
  "restores_row (JournalAccountCreatedChanged a p) a (\<lambda>c. c\<lparr>created := p\<rparr>) z"
  "restores_row (JournalAccountSelfdestructedChanged a p) a (\<lambda>c. c\<lparr>selfdestructed := p\<rparr>) z"
  by (simp_all add: restores_row_def restore_defs action_simps)

lemma set_field_step:
  fixes s :: "'z host_state_scheme"
  assumes e: "restores_row e a g (TYPE('z))"
    and row: "dict_get (account_tx s) (address_key a) = Some row"
    and g: "g v = atr_current row" and same: "storage_cleared v = storage_cleared (atr_current row)"
  shows "journaled_step s (s\<lparr>journal := journal s @ [e], account_tx :=
    dict_set (account_tx s) (address_key a) (row\<lparr>atr_current := v\<rparr>)\<rparr>)" (is "journaled_step s ?t")
  unfolding journaled_step_def
proof
  assume ok: "world_ok s"
  have "journal_restore e ?t = Inr ((), ?t\<lparr>account_tx := account_tx s\<rparr>)"
    using e g dict_set_get_same [OF world_ok_account_row(1) [OF ok row] row]
    by (simp add: restores_row_def dict_get_set)
  then have "undoable s ?t"
    by (rule undoable_entry [rotated 3])
      (use e in \<open>simp_all add: restores_row_def same_world_def storage_generation_def
        caches_grow_def blocks_grow_def\<close>)
  with world_ok_set_current [OF ok row same] show "world_ok ?t \<and> undoable s ?t" by blast
qed

lemma set_info_journaled:
  fixes e :: "account_tx_row \<Rightarrow> journal_entry"
  assumes "\<And>row. restores_row (e row) a (g row) (TYPE('z))"
    and "\<And>row. g row ((atr_current row)\<lparr>info := f (info (atr_current row))\<rparr>) = atr_current row"
  shows "journaled (bind (account_tx_required a) (\<lambda>row. do_when (c row)
    (bind (journal_append (e row)) (\<lambda>_. set_info a row f))) :: ('z, unit) host)"
proof (rule keepsI)
  fix s x t
  assume "(bind (account_tx_required a) (\<lambda>row. do_when (c row)
    (bind (journal_append (e row)) (\<lambda>_. set_info a row f))) :: ('z, unit) host) s = Inr (x, t)"
  then obtain row u where u: "account_tx_required a s = Inr (row, u)"
    and t: "t = (if c row then u\<lparr>journal := journal u @ [e row], account_tx :=
      dict_set (account_tx u) (address_key a) (row\<lparr>atr_current := (atr_current row)\<lparr>info :=
        f (info (atr_current row))\<rparr>\<rparr>)\<rparr> else u)"
    by (auto simp: set_info_def set_current_def journal_append_def action_simps
        split: if_splits sum.splits)
  from account_tx_required_step [OF u]
  have "journaled_step s u" and row: "dict_get (account_tx u) (address_key a) = Some row" by blast+
  moreover have "journaled_step u t" unfolding t
    using set_field_step [OF assms(1) row assms(2)] by (simp add: journaled.related_refl)
  ultimately show "journaled_step s t" by (blast intro: journaled.related_trans)
qed

lemma acct_tx_set_balance_journaled: "journaled (acct_tx_set_balance a v)"
  unfolding acct_tx_set_balance_def
  by (rule set_info_journaled [OF restores_row_entries(1)]) simp

lemma acct_tx_set_nonce_journaled: "journaled (acct_tx_set_nonce a v)"
  unfolding acct_tx_set_nonce_def
  by (rule set_info_journaled [OF restores_row_entries(2)]) simp

lemma acct_tx_set_code_hash_journaled: "journaled (acct_tx_set_code_hash a v)"
  unfolding acct_tx_set_code_hash_def
  by (rule set_info_journaled [OF restores_row_entries(3)]) simp

subsection \<open>Updating a whole account\<close>

lemma undo_part:
  fixes t :: "'z host_state_scheme"
  assumes "restores_row e a g (TYPE('z))" and "dict_get (account_tx t) (address_key a) = Some r"
    and "dict_wf (account_tx t)" and "\<not> c \<Longrightarrow> g (atr_current r) = atr_current r"
  shows "journal_restore_all (if c then [e] else []) t = Inr ((), t\<lparr>account_tx :=
    dict_set (account_tx t) (address_key a) (r\<lparr>atr_current := g (atr_current r)\<rparr>)\<rparr>)"
  using assms dict_set_get_same [OF assms(3,2)] by (auto simp: restores_row_def)

definition update_entries :: "address \<Rightarrow> account \<Rightarrow> account \<Rightarrow> journal_entry list" where
  "update_entries a prior v =
     (if balance (info prior) \<noteq> balance (info v)
      then [JournalAccountBalanceChanged a (balance (info prior))] else []) @
     (if nonce (info prior) \<noteq> nonce (info v)
      then [JournalAccountNonceChanged a (nonce (info prior))] else []) @
     (if code_hash (info prior) \<noteq> code_hash (info v)
      then [JournalAccountCodeHashChanged a (code_hash (info prior))] else []) @
     (if present prior \<noteq> present v
      then [JournalAccountExistsChanged a (present prior)] else []) @
     (if created prior \<noteq> created v
      then [JournalAccountCreatedChanged a (created prior)] else []) @
     (if selfdestructed prior \<noteq> selfdestructed v
      then [JournalAccountSelfdestructedChanged a (selfdestructed prior)] else [])"

lemma balanced_update_entries: "balanced (update_entries a prior v)"
  unfolding update_entries_def
  by (intro balanced_append) (auto intro: balanced_single)

lemma do_when_append:
  "bind (do_when c (journal_append e)) (\<lambda>_. m) s =
     m (s\<lparr>journal := journal s @ (if c then [e] else [])\<rparr>)"
  by (simp add: do_when_def journal_append_def)

lemma acct_tx_update_old:
  assumes "dict_get (account_tx s) (address_key a) = Some r"
  shows "acct_tx_update a v s = Inr ((), s\<lparr>journal := journal s @ update_entries a (atr_current r) v,
    account_tx := dict_set (account_tx s) (address_key a) (r\<lparr>atr_current := v\<rparr>)\<rparr>)"
  using assms
  by (simp add: acct_tx_update_def do_when_append set_current_def update_entries_def Let_def
      split del: if_split)

lemma acct_tx_update_new:
  assumes "dict_get (account_tx s) (address_key a) = None"
    and "dict_get (account_block s) (address_key a) = Some b"
  shows "acct_tx_update a v s = Inr ((), s\<lparr>journal := journal s @ [JournalTransactionAccountListed],
    account_tx := dict_set (account_tx s) (address_key a)
      \<lparr>atr_current = v, atr_original = acct_curr (abr_value b)\<rparr>\<rparr>)"
  using assms by (simp add: acct_tx_update_def journal_append_def Let_def)

lemma update_entries_undone:
  fixes t :: "'z host_state_scheme"
  assumes row: "dict_get (account_tx t) (address_key a) = Some (r\<lparr>atr_current := v\<rparr>)"
    and wf: "dict_wf (account_tx t)"
    and root: "storage_root (info v) = storage_root (info (atr_current r))"
  shows "journal_restore_all (rev (update_entries a (atr_current r) v)) t =
    Inr ((), t\<lparr>account_tx := dict_set (account_tx t) (address_key a) (r\<lparr>atr_current :=
      (atr_current r)\<lparr>storage_cleared := storage_cleared v\<rparr>\<rparr>)\<rparr>)"
proof -
  let ?p = "atr_current r" and ?k = "address_key a"
  define T where "T acc = t\<lparr>account_tx := dict_set (account_tx t) ?k (r\<lparr>atr_current := acc\<rparr>)\<rparr>" for acc
  have start: "T v = t"
    using dict_set_get_same [OF wf row] by (simp add: T_def)
  have step: "journal_restore_all (if c then [e] else []) (T acc) = Inr ((), T (g acc))"
    if "restores_row e a g (TYPE('z))" and "\<not> c \<Longrightarrow> g acc = acc" for e g c acc
    using undo_part [of e a g "T acc" "r\<lparr>atr_current := acc\<rparr>" c] that wf
    by (simp add: T_def dict_get_set)
  define A1 where "A1 = v\<lparr>selfdestructed := selfdestructed ?p\<rparr>"
  define A2 where "A2 = A1\<lparr>created := created ?p\<rparr>"
  define A3 where "A3 = A2\<lparr>present := present ?p\<rparr>"
  define A4 where "A4 = A3\<lparr>info := (info A3)\<lparr>code_hash := code_hash (info ?p)\<rparr>\<rparr>"
  define A5 where "A5 = A4\<lparr>info := (info A4)\<lparr>nonce := nonce (info ?p)\<rparr>\<rparr>"
  define A6 where "A6 = A5\<lparr>info := (info A5)\<lparr>balance := balance (info ?p)\<rparr>\<rparr>"
  note A_defs = A1_def A2_def A3_def A4_def A5_def A6_def
  have s6: "journal_restore_all (if selfdestructed ?p \<noteq> selfdestructed v
      then [JournalAccountSelfdestructedChanged a (selfdestructed ?p)] else []) (T v) = Inr ((), T A1)"
    unfolding A1_def by (rule step [OF restores_row_entries(6)]) (simp add: A_defs)
  have s5: "journal_restore_all (if created ?p \<noteq> created v
      then [JournalAccountCreatedChanged a (created ?p)] else []) (T A1) = Inr ((), T A2)"
    unfolding A2_def by (rule step [OF restores_row_entries(5)]) (simp add: A_defs)
  have s4: "journal_restore_all (if present ?p \<noteq> present v
      then [JournalAccountExistsChanged a (present ?p)] else []) (T A2) = Inr ((), T A3)"
    unfolding A3_def by (rule step [OF restores_row_entries(4)]) (simp add: A_defs)
  have s3: "journal_restore_all (if code_hash (info ?p) \<noteq> code_hash (info v)
      then [JournalAccountCodeHashChanged a (code_hash (info ?p))] else []) (T A3) = Inr ((), T A4)"
    unfolding A4_def by (rule step [OF restores_row_entries(3)]) (simp add: A_defs)
  have s2: "journal_restore_all (if nonce (info ?p) \<noteq> nonce (info v)
      then [JournalAccountNonceChanged a (nonce (info ?p))] else []) (T A4) = Inr ((), T A5)"
    unfolding A5_def by (rule step [OF restores_row_entries(2)]) (simp add: A_defs)
  have s1: "journal_restore_all (if balance (info ?p) \<noteq> balance (info v)
      then [JournalAccountBalanceChanged a (balance (info ?p))] else []) (T A5) = Inr ((), T A6)"
    unfolding A6_def by (rule step [OF restores_row_entries(1)]) (simp add: A_defs)
  have rev_if: "rev (if c then [e] else []) = (if c then [e] else [])" for c and e :: journal_entry
    by simp
  have "journal_restore_all (rev (update_entries a ?p v)) (T v) = Inr ((), T A6)"
    by (simp only: update_entries_def rev_append rev_if restore_all_append append_assoc bind_run
        s1 s2 s3 s4 s5 s6 sum.case prod.case)
  moreover have "A6 = ?p\<lparr>storage_cleared := storage_cleared v\<rparr>"
    using root by (cases ?p, cases v, cases "info ?p", cases "info v") (simp add: A_defs)
  ultimately show ?thesis unfolding start by (simp only: T_def)
qed

text \<open>The states between an update and its undoing.\<close>

lemma current_account_cases:
  assumes "current_account s k = Some acc"
  obtains (row) r where "dict_get (account_tx s) k = Some r" and "acc = atr_current r"
  | (block) b where "dict_get (account_tx s) k = None" and "dict_get (account_block s) k = Some b"
      and "acc = acct_curr (abr_value b)"
  using assms by (auto simp: current_account_def split: option.splits)

lemma same_world_account_tx:
  "same_world (t\<lparr>account_tx := d\<rparr>) s \<longleftrightarrow>
     d = account_tx s \<and> same_world (t\<lparr>account_tx := account_tx s\<rparr>) s"
  by (auto simp: same_world_def storage_generation_def)

lemma acct_tx_update_step:
  assumes acc: "current_account s (address_key a) = Some acc"
    and cleared: "storage_cleared v = storage_cleared acc"
    and root: "storage_root (info v) = storage_root (info acc)"
    and run: "acct_tx_update a v s = Inr (x, t)"
  shows "journaled_step s t"
  using acc
proof (cases rule: current_account_cases)
  case (row r)
  let ?k = "address_key a" and ?es = "update_entries a (atr_current r) v"
  have t: "t = s\<lparr>journal := journal s @ ?es,
      account_tx := dict_set (account_tx s) ?k (r\<lparr>atr_current := v\<rparr>)\<rparr>"
    using run acct_tx_update_old [OF row(1)] by simp
  show ?thesis unfolding journaled_step_def
  proof
    assume ok: "world_ok s"
    note wf = world_ok_account_row(1) [OF ok row(1)]
    have "(atr_current r)\<lparr>storage_cleared := storage_cleared v\<rparr> = atr_current r"
      using cleared row(2) by simp
    then have undo: "journal_restore_all (rev ?es) t = Inr ((), t\<lparr>account_tx := account_tx s\<rparr>)"
      using update_entries_undone [where r = r and t = t and v = v and a = a] root row dict_set_get_same [OF wf row(1)] wf
      by (simp add: t dict_get_set)
    have "undoable s t"
      by (rule undoable_entries [OF _ balanced_update_entries undo])
        (simp_all add: t same_world_def storage_generation_def caches_grow_def blocks_grow_def)
    with world_ok_set_current [OF ok row(1)] cleared row(2) show "world_ok t \<and> undoable s t"
      by (simp add: t)
  qed
next
  case (block b)
  then show ?thesis
    using acct_tx_update_new [OF block(1,2), of v] run cleared
    by (auto simp: journaled_step_def new_account_undoable intro: world_ok_new_account)
qed

subsection \<open>Clearing the storage of an account\<close>

lemma storage_tx_clear_run:
  "storage_tx_clear a s = Inr ((), s\<lparr>journal := journal s @
       [JournalAccountStorageGenerationChanged a (storage_generation s (address_key a))],
     storage_next_generation := storage_next_generation s + 1,
     storage_generations := dict_set (storage_generations s) (address_key a)
       (storage_next_generation s + 1)\<rparr>)"
  by (simp add: storage_tx_clear_def journal_append_def Let_def)

lemma storage_generation_clear:
  "storage_generation (s\<lparr>storage_next_generation := n,
     storage_generations := dict_set (storage_generations s) k v\<rparr>) k' =
   (if k' = k then v else storage_generation s k')"
  by (simp add: storage_generation_def dict_get_default_set)

text \<open>
  The flag of the transaction row has to follow the generation, so a clear is journaled
  together with the update that sets the flag, or alone when the flag is set already.
\<close>

lemma world_ok_cleared:
  assumes ok: "world_ok s"
    and cur: "current_account t k = Some acc" "storage_cleared acc"
    and others: "\<And>k'. k' \<noteq> k \<Longrightarrow> current_account t k' = current_account s k'"
    and rows: "\<And>k' r. dict_get (account_tx t) k' = Some r \<Longrightarrow>
      (if k' = k then storage_cleared (atr_current r) else dict_get (account_tx s) k' = Some r)"
    and wf: "dict_wf (account_tx t)" and storage: "storage_tx t = storage_tx s"
    and next_gen: "storage_next_generation t = storage_next_generation s + 1"
    and gen: "\<And>k'. storage_generation t k' =
      (if k' = k then storage_next_generation s + 1 else storage_generation s k')"
  shows "world_ok t"
proof -
  have ne: "storage_next_generation s + 1 \<noteq> STORAGE_INITIAL_GENERATION"
    using ok by (simp add: world_ok_def)
  have acc_rows: "storage_cleared (atr_current r) =
      (storage_cleared (atr_original r) \<or> storage_generation t k' \<noteq> STORAGE_INITIAL_GENERATION)"
    if "dict_get (account_tx t) k' = Some r" for k' r
    using rows [OF that] ok ne unfolding gen world_ok_def by (metis (no_types, lifting))
  have cleared: "\<exists>acc. current_account t k' = Some acc \<and> storage_cleared acc"
    if "storage_generation t k' \<noteq> STORAGE_INITIAL_GENERATION" for k'
    using that ok cur others unfolding gen world_ok_def by (metis (no_types, lifting))
  have st: "storage_key_of (str_key row) = k' \<and> str_generation row \<le> storage_next_generation t"
    if "dict_get (storage_tx t) k' = Some row" for k' row
    using that world_ok_storage_row(1,2) [OF ok] unfolding storage next_gen by fastforce
  have bound: "storage_generation t k' \<le> storage_next_generation t" for k'
    using world_ok_generation [OF ok, of k'] unfolding gen next_gen by simp
  have "STORAGE_INITIAL_GENERATION \<le> storage_next_generation t" "dict_wf (storage_tx t)"
    using ok by (simp_all add: world_ok_def next_gen storage)
  with acc_rows cleared st bound wf show ?thesis unfolding world_ok_def by blast
qed

lemma storage_tx_clear_step:
  assumes acc: "current_account s (address_key a) = Some acc" "storage_cleared acc"
    and run: "storage_tx_clear a s = Inr (x, t)"
  shows "journaled_step s t"
  unfolding journaled_step_def
proof
  assume ok: "world_ok s"
  let ?k = "address_key a" and ?prior = "storage_generation s (address_key a)"
  let ?e = "JournalAccountStorageGenerationChanged a ?prior"
  have t: "t = s\<lparr>journal := journal s @ [?e],
      storage_next_generation := storage_next_generation s + 1,
      storage_generations := dict_set (storage_generations s) ?k (storage_next_generation s + 1)\<rparr>"
    using run by (simp add: storage_tx_clear_run)
  have cur: "current_account t k = current_account s k" for k
    by (simp add: t current_account_def cong: option.case_cong)
  have gen: "storage_generation t k' =
      (if k' = ?k then storage_next_generation s + 1 else storage_generation s k')" for k'
    by (simp add: t storage_generation_def dict_get_default_set)
  have fields: "account_tx t = account_tx s" "storage_tx t = storage_tx s"
      "storage_next_generation t = storage_next_generation s + 1"
    by (simp_all add: t)
  have wf: "dict_wf (account_tx s)" using ok by (simp add: world_ok_def)
  have flag: "storage_cleared (atr_current r)"
    if "dict_get (account_tx s) ?k = Some r" for r
    using that acc by (simp add: current_account_def)
  have flag_eq: "(atr_current r)\<lparr>storage_cleared := storage_cleared (atr_original r) \<or>
      ?prior \<noteq> STORAGE_INITIAL_GENERATION\<rparr> = atr_current r"
    if "dict_get (account_tx s) ?k = Some r" for r
    using world_ok_account_row(2) [OF ok that] by (cases "atr_current r") simp
  have "world_ok t"
    by (rule world_ok_cleared [OF ok, of t ?k acc])
      (use acc flag wf in \<open>auto simp: cur gen fields\<close>)
  moreover have "undoable s t"
  proof (rule undoable_entry)
    let ?t' = "t\<lparr>storage_generations := dict_set (storage_generations t) ?k ?prior\<rparr>"
    show "journal t = journal s @ [?e]" by (simp add: t)
    from wf show "journal_restore ?e t = Inr ((), ?t')"
      using flag_eq
      by (auto simp: t set_current_def action_simps dict_set_get_same split: option.splits)
    show "same_world ?t' s"
      by (auto simp: t same_world_def storage_generation_def dict_get_default_set)
    show "caches_grow s t" by (simp add: t caches_grow_def blocks_grow_def)
  qed simp_all
  ultimately show "world_ok t \<and> undoable s t" by blast
qed

lemma storage_tx_clear_update_step:
  assumes acc: "current_account s (address_key a) = Some acc"
    and cleared: "storage_cleared v" and root: "storage_root (info v) = storage_root (info acc)"
    and run: "bind (storage_tx_clear a) (\<lambda>_. acct_tx_update a v) s = Inr (x, t)"
  shows "journaled_step s t"
  unfolding journaled_step_def
proof
  assume ok: "world_ok s"
  let ?k = "address_key a" and ?prior = "storage_generation s (address_key a)"
  let ?e = "JournalAccountStorageGenerationChanged a ?prior"
  let ?s = "s\<lparr>journal := journal s @ [?e],
      storage_next_generation := storage_next_generation s + 1,
      storage_generations := dict_set (storage_generations s) ?k (storage_next_generation s + 1)\<rparr>"
  have run': "acct_tx_update a v ?s = Inr (x, t)"
    using run by (simp add: storage_tx_clear_run)
  have wf: "dict_wf (account_tx s)" using ok by (simp add: world_ok_def)
  from acc show "world_ok t \<and> undoable s t"
  proof (cases rule: current_account_cases)
    case (row r)
    let ?es = "update_entries a (atr_current r) v" and ?r = "r\<lparr>atr_current := v\<rparr>"
    have t: "t = ?s\<lparr>journal := journal ?s @ ?es, account_tx := dict_set (account_tx s) ?k ?r\<rparr>"
      using run' acct_tx_update_old [of ?s a r v] row(1) by simp
    have "world_ok t"
      by (rule world_ok_cleared [OF ok, of t ?k v])
        (use cleared wf in \<open>auto simp: t storage_generation_def dict_get_default_set current_account_def dict_get_set
          cong: option.case_cong split: if_splits\<close>)
    moreover have "undoable s t"
    proof (rule undoable_entries)
      let ?u = "t\<lparr>account_tx := account_tx s,
        storage_generations := dict_set (storage_generations t) ?k ?prior\<rparr>"
      show "journal t = journal s @ ?e # ?es" by (simp add: t)
      show "balanced (?e # ?es)"
        by (simp add: balanced_Cons balanced_update_entries)
      have "journal_restore_all (rev ?es) t = Inr ((), t\<lparr>account_tx :=
          dict_set (account_tx s) ?k (r\<lparr>atr_current :=
            (atr_current r)\<lparr>storage_cleared := storage_cleared v\<rparr>\<rparr>)\<rparr>)" (is "_ = Inr ((), ?v)")
        using update_entries_undone [where r = r and t = t and v = v and a = a] root row wf
        by (simp add: t dict_get_set)
      moreover have "journal_restore ?e ?v = Inr ((), ?u)"
      proof -
        have "(atr_current r)\<lparr>storage_cleared := storage_cleared (atr_original r) \<or>
            ?prior \<noteq> STORAGE_INITIAL_GENERATION\<rparr> = atr_current r"
          using world_ok_account_row(2) [OF ok row(1)] by (cases "atr_current r") simp
        then show ?thesis
          using wf row(1) by (simp add: t set_current_def action_simps dict_get_set dict_set_get_same)
      qed
      ultimately show "journal_restore_all (rev (?e # ?es)) t = Inr ((), ?u)"
        by (simp only: rev.simps restore_all_append bind_Inr journal_restore_all.simps) simp
      show "same_world ?u s"
        by (auto simp: t same_world_def storage_generation_def dict_get_default_set)
      show "caches_grow s t" by (simp add: t caches_grow_def blocks_grow_def)
    qed
    ultimately show ?thesis by blast
  next
    case (block b)
    let ?r = "\<lparr>atr_current = v, atr_original = acct_curr (abr_value b)\<rparr>"
    have t: "t = ?s\<lparr>journal := journal ?s @ [JournalTransactionAccountListed],
        account_tx := dict_set (account_tx s) ?k ?r\<rparr>"
      using run' acct_tx_update_new [of ?s a b v] block(1,2) by simp
    have "world_ok t"
      by (rule world_ok_cleared [OF ok, of t ?k v])
        (use cleared wf in \<open>auto simp: t storage_generation_def dict_get_default_set current_account_def dict_get_set
          cong: option.case_cong split: if_splits\<close>)
    moreover have "undoable s t"
    proof (rule undoable_entries)
      let ?u = "t\<lparr>account_tx := account_tx s,
        storage_generations := dict_set (storage_generations t) ?k ?prior\<rparr>"
      show "journal t = journal s @ [?e, JournalTransactionAccountListed]" by (simp add: t)
      show "balanced [?e, JournalTransactionAccountListed]"
        by (simp add: balanced_Cons)
      show "journal_restore_all (rev [?e, JournalTransactionAccountListed]) t = Inr ((), ?u)"
        using block(1) by (simp add: t dict_set_new action_simps)
      show "same_world ?u s"
        by (auto simp: t same_world_def storage_generation_def dict_get_default_set)
      show "caches_grow s t" by (simp add: t caches_grow_def blocks_grow_def)
    qed
    ultimately show ?thesis by blast
  qed
qed

end
