(* ===== verification/Kernel.thy ===== *)
theory Kernel
  imports Rlp_Encode Journal_Ops
begin

text \<open>
  The kernel: accounts (\<open>kernel/accounts.py\<close>), storage and the warm sets
  (\<open>kernel/storage.py\<close>), self-destruction (\<open>kernel/selfdestruct.py\<close>), code (\<open>kernel/code.py\<close>),
  logs and their bloom filter (\<open>kernel/logs.py\<close>) and the transaction life cycle
  (\<open>kernel/lifecycle.py\<close>), with the precompile identities of \<open>evm/precompiles.py\<close> that the
  warm set needs. The kernel reads the parent state through the trie lookup and writes the
  host caches; a copy the source makes before it changes an account is a record update here.
\<close>

section \<open>Precompile identities\<close>

datatype precompile_id = NotPrecompile | Ecrecover | Sha256 | Ripemd160 | Identity | Modexp
  | Bn254Add | Bn254Mul | Bn254Pairing | Blake2f | KzgPointEvaluation | BlsG1Add | BlsG1Msm
  | BlsG2Add | BlsG2Msm | BlsPairing | BlsMapFpToG1 | BlsMapFp2ToG2 | P256Verify

definition active_fork :: "('z, fork) kernel" where
  "active_fork = reads (\<lambda>s. pp_fork (protocol (k_execution_profile s)))"

definition precompile_active_at_fork :: "precompile_id \<Rightarrow> ('z, bool) kernel" where
  "precompile_active_at_fork n =
     bind active_fork (\<lambda>fork. ret (case n of
       NotPrecompile \<Rightarrow> False
     | Ecrecover \<Rightarrow> True
     | Sha256 \<Rightarrow> True
     | Ripemd160 \<Rightarrow> True
     | Identity \<Rightarrow> True
     | Modexp \<Rightarrow> fork \<ge> Byzantium
     | Bn254Add \<Rightarrow> fork \<ge> Byzantium
     | Bn254Mul \<Rightarrow> fork \<ge> Byzantium
     | Bn254Pairing \<Rightarrow> fork \<ge> Byzantium
     | Blake2f \<Rightarrow> fork \<ge> Istanbul
     | KzgPointEvaluation \<Rightarrow> fork \<ge> Cancun
     | BlsG1Add \<Rightarrow> fork \<ge> Prague
     | BlsG1Msm \<Rightarrow> fork \<ge> Prague
     | BlsG2Add \<Rightarrow> fork \<ge> Prague
     | BlsG2Msm \<Rightarrow> fork \<ge> Prague
     | BlsPairing \<Rightarrow> fork \<ge> Prague
     | BlsMapFpToG1 \<Rightarrow> fork \<ge> Prague
     | BlsMapFp2ToG2 \<Rightarrow> fork \<ge> Prague
     | P256Verify \<Rightarrow> fork \<ge> Osaka))"

definition precompile_id_if_active :: "precompile_id \<Rightarrow> ('z, precompile_id) kernel" where
  "precompile_id_if_active candidate =
     bind (precompile_active_at_fork candidate) (\<lambda>active.
     ret (if active then candidate else NotPrecompile))"

definition address_from_nat :: "int \<Rightarrow> address" where
  "address_from_nat value = word_to_address value"

text \<open>The match on the address, in the order of the source.\<close>

definition precompile_addresses :: "(int \<times> precompile_id) list" where
  "precompile_addresses = [(1, Ecrecover), (2, Sha256), (3, Ripemd160), (4, Identity), (5, Modexp),
     (6, Bn254Add), (7, Bn254Mul), (8, Bn254Pairing), (9, Blake2f), (10, KzgPointEvaluation),
     (11, BlsG1Add), (12, BlsG1Msm), (13, BlsG2Add), (14, BlsG2Msm), (15, BlsPairing),
     (16, BlsMapFpToG1), (17, BlsMapFp2ToG2), (256, P256Verify)]"

definition precompile_id_for_address :: "address \<Rightarrow> ('z, precompile_id) kernel" where
  "precompile_id_for_address a =
     (case find (\<lambda>(n, candidate). address_from_nat n = a) precompile_addresses of
        Some (n, candidate) \<Rightarrow> precompile_id_if_active candidate
      | None \<Rightarrow> ret NotPrecompile)"

section \<open>Logs\<close>

datatype log_topics = LogTopics0 | LogTopics1 int | LogTopics2 int int | LogTopics3 int int int
  | LogTopics4 int int int int

datatype log_payload = LogDataMemory region_slice | LogDataWord int

definition k_log_topics :: "log_topics \<Rightarrow> ('z, unit) host" where
  "k_log_topics topics =
     (case topics of
        LogTopics0 \<Rightarrow> ret ()
      | LogTopics1 t0 \<Rightarrow> log_add_topic t0
      | LogTopics2 t0 t1 \<Rightarrow> bind (log_add_topic t0) (\<lambda>_. log_add_topic t1)
      | LogTopics3 t0 t1 t2 \<Rightarrow>
          bind (log_add_topic t0) (\<lambda>_. bind (log_add_topic t1) (\<lambda>_. log_add_topic t2))
      | LogTopics4 t0 t1 t2 t3 \<Rightarrow>
          bind (log_add_topic t0) (\<lambda>_. bind (log_add_topic t1) (\<lambda>_.
          bind (log_add_topic t2) (\<lambda>_. log_add_topic t3))))"

definition k_log_data :: "log_payload \<Rightarrow> ('z, unit) host" where
  "k_log_data data =
     (case data of
        LogDataMemory sl \<Rightarrow> log_add_data_memory sl
      | LogDataWord value \<Rightarrow> log_add_data_word value)"

definition k_log :: "address \<Rightarrow> log_topics \<Rightarrow> log_payload \<Rightarrow> ('z, unit) host" where
  "k_log a topics data =
     bind (log_begin a) (\<lambda>_. bind (k_log_topics topics) (\<lambda>_. k_log_data data))"

definition EIP7708_SYSTEM_ADDRESS :: address where
  "EIP7708_SYSTEM_ADDRESS = address_from_bits 0xfffffffffffffffffffffffffffffffffffffffe"

definition EIP7708_TRANSFER_TOPIC :: int where
  "EIP7708_TRANSFER_TOPIC = 0xddf252ad1be2c89b69c2b068fc378daa952ba7f163c4a11628f55a4df523b3ef"

definition EIP7708_BURN_TOPIC :: int where
  "EIP7708_BURN_TOPIC = 0xcc16f5dbb4873280815c1ee09dbd06736cffcc184412cf7a71a0fdb75d397ca5"

definition k_emit_transfer_log :: "address \<Rightarrow> address \<Rightarrow> int \<Rightarrow> ('z, unit) kernel" where
  "k_emit_transfer_log src dst v =
     bind active_fork (\<lambda>fork.
     let value_is_zero = word_is_zero v in
     if fork < Amsterdam \<or> value_is_zero \<or> src = dst then ret ()
     else
       (let source = address_to_word src; destination = address_to_word dst;
            topics = LogTopics3 EIP7708_TRANSFER_TOPIC source destination;
            data = LogDataWord v
        in k_log EIP7708_SYSTEM_ADDRESS topics data))"

definition k_emit_burn_log :: "address \<Rightarrow> int \<Rightarrow> ('z, unit) kernel" where
  "k_emit_burn_log a v =
     bind active_fork (\<lambda>fork.
     let value_is_zero = word_is_zero v in
     if fork < Amsterdam \<or> value_is_zero then ret ()
     else
       (let topics = LogTopics2 EIP7708_BURN_TOPIC (address_to_word a); data = LogDataWord v
        in k_log EIP7708_SYSTEM_ADDRESS topics data))"

section \<open>Accounts\<close>

definition account_info_changed :: "account_info \<Rightarrow> account_info \<Rightarrow> bool" where
  "account_info_changed c old \<longleftrightarrow> nonce c \<noteq> nonce old \<or> balance c \<noteq> balance old \<or>
     code_hash c \<noteq> code_hash old \<or> storage_root c \<noteq> storage_root old"

definition account_info_empty :: "account_info \<Rightarrow> bool" where
  "account_info_empty i \<longleftrightarrow> code_hash i = KECCAK_EMPTY \<and> nonce i = 0 \<and> word_is_zero (balance i)"

definition account_changed :: "account \<Rightarrow> account \<Rightarrow> bool" where
  "account_changed c old \<longleftrightarrow> account_info_changed (info c) (info old) \<or>
     present c \<noteq> present old \<or> storage_cleared c \<noteq> storage_cleared old"

definition account_set_info :: "account \<Rightarrow> account_info \<Rightarrow> account" where
  "account_set_info acc i =
     (if account_info_empty i
      then acc\<lparr>info := EMPTY_ACCOUNT_INFO\<lparr>storage_root := storage_root (info acc)\<rparr>,
        present := False, storage_cleared := True\<rparr>
      else acc\<lparr>info := i, present := True\<rparr>)"

definition account_clear_storage :: "account \<Rightarrow> account" where
  "account_clear_storage acc = acc\<lparr>storage_cleared := True\<rparr>"

definition account_delete :: "account \<Rightarrow> account" where
  "account_delete acc = acc\<lparr>info := EMPTY_ACCOUNT_INFO\<lparr>storage_root := storage_root (info acc)\<rparr>,
     present := False, storage_cleared := True\<rparr>"

definition account_clear_preserving_balance :: "account \<Rightarrow> account" where
  "account_clear_preserving_balance acc =
     (let cleared_storage = account_clear_storage acc in
      account_set_info cleared_storage ((info acc)\<lparr>nonce := 0, code_hash := KECCAK_EMPTY\<rparr>))"

definition store_account :: "address \<Rightarrow> account \<Rightarrow> ('z, unit) host" where
  "store_account a v = acct_tx_update a v"

definition store_account_info :: "address \<Rightarrow> account \<Rightarrow> account_info \<Rightarrow> ('z, unit) host" where
  "store_account_info a acc i =
     bind (do_when (account_info_empty i) (storage_tx_clear a)) (\<lambda>_.
     let next = account_set_info acc i in
     if storage_root (info next) \<noteq> storage_root (info acc) \<or> present next \<noteq> present acc \<or>
        storage_cleared next \<noteq> storage_cleared acc
     then store_account a next
     else
       bind (do_when (balance (info next) \<noteq> balance (info acc))
         (acct_tx_set_balance a (balance (info next)))) (\<lambda>_.
       bind (do_when (nonce (info next) \<noteq> nonce (info acc))
         (acct_tx_set_nonce a (nonce (info next)))) (\<lambda>_.
       do_when (code_hash (info next) \<noteq> code_hash (info acc))
         (acct_tx_set_code_hash a (code_hash (info next))))))"

definition k_aload :: "hash_function \<Rightarrow> address \<Rightarrow> ('z, account) kernel" where
  "k_aload keccak a =
     bind (acct_tx_get a) (\<lambda>tx_account.
     if found tx_account then ret (row_account tx_account)
     else
       bind (bal_account_touch a) (\<lambda>_.
       bind (acct_block_get a) (\<lambda>block_account.
       if found block_account then ret (row_account block_account)
       else
         (let address_hash = keccak256_address keccak a in
          bind (reads k_parent_state_root) (\<lambda>root.
          bind (stateless_account_by_key root address_hash) (\<lambda>acc.
          bind (acct_block_cache a address_hash acc) (\<lambda>_. ret acc)))))))"

definition k_get_balance :: "hash_function \<Rightarrow> address \<Rightarrow> ('z, int) kernel" where
  "k_get_balance keccak a = bind (k_aload keccak a) (\<lambda>acc. ret (balance (info acc)))"

definition k_get_nonce :: "hash_function \<Rightarrow> address \<Rightarrow> ('z, int) kernel" where
  "k_get_nonce keccak a = bind (k_aload keccak a) (\<lambda>acc. ret (nonce (info acc)))"

definition k_account_exists :: "hash_function \<Rightarrow> address \<Rightarrow> ('z, bool) kernel" where
  "k_account_exists keccak a = bind (k_aload keccak a) (\<lambda>acc. ret (present acc))"

definition k_account_is_empty :: "hash_function \<Rightarrow> address \<Rightarrow> ('z, bool) kernel" where
  "k_account_is_empty keccak a =
     bind (k_aload keccak a) (\<lambda>acc. ret (account_info_empty (info acc)))"

definition k_account_occupied :: "hash_function \<Rightarrow> address \<Rightarrow> ('z, bool) kernel" where
  "k_account_occupied keccak a =
     bind (k_aload keccak a) (\<lambda>acc.
     let i = info acc;
         anchored_storage = (\<not> storage_cleared acc \<and> storage_root i \<noteq> EMPTY_TRIE_ROOT);
         has_code = (code_hash i \<noteq> KECCAK_EMPTY); has_nonce = (nonce i \<noteq> 0) in
     if has_code \<or> has_nonce \<or> anchored_storage then ret True else storage_has_writes a)"

definition k_transfer :: "hash_function \<Rightarrow> address \<Rightarrow> address \<Rightarrow> int \<Rightarrow> ('z, unit) kernel" where
  "k_transfer keccak src dst v =
     bind (k_aload keccak src) (\<lambda>src_acc.
     bind (k_aload keccak dst) (\<lambda>dst_acc.
     if word_is_zero v \<or> src = dst then ret ()
     else
       (let source_balance = alu_sub (balance (info src_acc)) v in
        bind (store_account_info src src_acc ((info src_acc)\<lparr>balance := source_balance\<rparr>)) (\<lambda>_.
        let destination_balance = alu_add (balance (info dst_acc)) v in
        bind (store_account_info dst dst_acc ((info dst_acc)\<lparr>balance := destination_balance\<rparr>)) (\<lambda>_.
        k_emit_transfer_log src dst v)))))"

definition k_bump_nonce :: "hash_function \<Rightarrow> address \<Rightarrow> ('z, unit) kernel" where
  "k_bump_nonce keccak a =
     bind (k_aload keccak a) (\<lambda>cur.
     if nonce (info cur) < 2 ^ 64 - 1
     then store_account_info a cur ((info cur)\<lparr>nonce := nonce (info cur) + 1\<rparr>)
     else fatal_error ExecutionInvalid)"

definition k_add_balance :: "hash_function \<Rightarrow> address \<Rightarrow> int \<Rightarrow> ('z, unit) kernel" where
  "k_add_balance keccak a v =
     bind (k_aload keccak a) (\<lambda>cur.
     if \<not> word_is_zero v
     then store_account_info a cur ((info cur)\<lparr>balance := alu_add (balance (info cur)) v\<rparr>)
     else ret ())"

definition k_sub_balance :: "hash_function \<Rightarrow> address \<Rightarrow> int \<Rightarrow> ('z, unit) kernel" where
  "k_sub_balance keccak a v =
     bind (k_aload keccak a) (\<lambda>cur.
     if \<not> word_is_zero v
     then store_account_info a cur ((info cur)\<lparr>balance := alu_sub (balance (info cur)) v\<rparr>)
     else ret ())"

definition k_clear_storage :: "hash_function \<Rightarrow> address \<Rightarrow> ('z, unit) kernel" where
  "k_clear_storage keccak a =
     bind (k_aload keccak a) (\<lambda>cur.
     bind (storage_tx_clear a) (\<lambda>_. store_account a (account_clear_storage cur)))"

section \<open>Storage and the warm sets\<close>

definition k_account_is_warm :: "address \<Rightarrow> ('z, bool) kernel" where
  "k_account_is_warm a =
     bind (precompile_id_for_address a) (\<lambda>id.
     if id \<noteq> NotPrecompile then ret True else account_is_warm a)"

definition k_account_mark_warm :: "address \<Rightarrow> ('z, unit) kernel" where
  "k_account_mark_warm a =
     bind (precompile_id_for_address a) (\<lambda>id.
     if id \<noteq> NotPrecompile then ret () else account_mark_warm a)"

definition k_slot_is_warm :: "address \<Rightarrow> int \<Rightarrow> ('z, bool) host" where
  "k_slot_is_warm a slot = storage_is_warm a slot"

definition k_slot_mark_warm :: "address \<Rightarrow> int \<Rightarrow> ('z, unit) host" where
  "k_slot_mark_warm a slot = storage_mark_warm a slot"

definition k_prewarm_slot :: "address \<Rightarrow> int \<Rightarrow> ('z, unit) host" where
  "k_prewarm_slot a slot = storage_mark_warm a slot"

definition k_sload :: "hash_function \<Rightarrow> address \<Rightarrow> int \<Rightarrow> ('z, storage_value) kernel" where
  "k_sload keccak a slot =
     (let key = \<lparr>key_addr = a, key_slot = slot\<rparr> in
     bind (storage_tx_get key) (\<lambda>tx_value.
     case tx_value of
       StorageTxHit value \<Rightarrow> ret value
     | StorageTxCleared \<Rightarrow>
         bind (bal_storage_read a slot) (\<lambda>_. ret \<lparr>curr = ZERO_WORD, orig = ZERO_WORD\<rparr>)
     | StorageTxMiss \<Rightarrow>
         bind (bal_storage_read a slot) (\<lambda>_.
         bind (storage_block_get key) (\<lambda>block.
         if block_found block
         then ret \<lparr>curr = curr (block_value block), orig = curr (block_value block)\<rparr>
         else
           bind (k_aload keccak a) (\<lambda>acc.
           let slot_hash = keccak256_word keccak slot in
           bind (if storage_cleared acc then ret ZERO_WORD
                 else stateless_storage_by_key (storage_root (info acc)) slot_hash) (\<lambda>value.
           bind (storage_block_cache keccak key slot_hash value) (\<lambda>_.
           ret \<lparr>curr = value, orig = value\<rparr>)))))))"

definition k_sstore :: "address \<Rightarrow> int \<Rightarrow> storage_value \<Rightarrow> ('z, unit) host" where
  "k_sstore a slot v =
     storage_tx_update_host \<lparr>entry_key = \<lparr>key_addr = a, key_slot = slot\<rparr>, entry_value = v\<rparr>"

definition k_tload :: "address \<Rightarrow> int \<Rightarrow> ('z, int) host" where
  "k_tload a slot = transient_load a slot"

definition k_tstore :: "address \<Rightarrow> int \<Rightarrow> int \<Rightarrow> ('z, unit) host" where
  "k_tstore a slot v = transient_store a slot v"

section \<open>Self-destruction\<close>

definition k_selfdestruct :: "hash_function \<Rightarrow> address \<Rightarrow> ('z, unit) kernel" where
  "k_selfdestruct keccak a =
     bind (k_aload keccak a) (\<lambda>cur.
     if \<not> selfdestructed cur then store_account a (cur\<lparr>selfdestructed := True\<rparr>) else ret ())"

definition k_is_selfdestructed :: "hash_function \<Rightarrow> address \<Rightarrow> ('z, bool) kernel" where
  "k_is_selfdestructed keccak a = bind (k_aload keccak a) (\<lambda>acc. ret (selfdestructed acc))"

definition k_mark_created :: "hash_function \<Rightarrow> address \<Rightarrow> ('z, unit) kernel" where
  "k_mark_created keccak a =
     bind (k_aload keccak a) (\<lambda>cur. store_account a (cur\<lparr>created := True\<rparr>))"

definition k_was_created :: "hash_function \<Rightarrow> address \<Rightarrow> ('z, bool) kernel" where
  "k_was_created keccak a = bind (k_aload keccak a) (\<lambda>acc. ret (created acc))"

definition k_zero_balance :: "hash_function \<Rightarrow> address \<Rightarrow> ('z, unit) kernel" where
  "k_zero_balance keccak a =
     bind (k_aload keccak a) (\<lambda>cur.
     if word_is_zero (balance (info cur)) then ret ()
     else store_account_info a cur ((info cur)\<lparr>balance := ZERO_WORD\<rparr>))"

section \<open>Code\<close>

definition k_code_key :: "hash_function \<Rightarrow> address \<Rightarrow> ('z, hash) kernel" where
  "k_code_key keccak a = bind (k_aload keccak a) (\<lambda>acc. ret (code_hash (info acc)))"

definition k_get_codehash :: "hash_function \<Rightarrow> address \<Rightarrow> ('z, hash) kernel" where
  "k_get_codehash keccak a =
     bind (k_aload keccak a) (\<lambda>acc.
     if \<not> present acc then ret ZERO_HASH else ret (code_hash (info acc)))"

definition k_deploy_code :: "hash_function \<Rightarrow> address \<Rightarrow> region_slice \<Rightarrow> ('z, unit) kernel" where
  "k_deploy_code keccak a code =
     bind active_fork (\<lambda>fork.
     bind (k_aload keccak a) (\<lambda>cur.
     bind (code_db_insert keccak code fork) (\<lambda>h.
     store_account_info a cur ((info cur)\<lparr>code_hash := h\<rparr>))))"

definition k_set_delegation :: "hash_function \<Rightarrow> address \<Rightarrow> address \<Rightarrow> ('z, unit) kernel" where
  "k_set_delegation keccak a target =
     bind (k_aload keccak a) (\<lambda>cur.
     bind active_fork (\<lambda>fork.
     bind (code_region_from_delegation target) (\<lambda>code_region.
     bind (validated_code_slice code_region) (\<lambda>code.
     bind (code_db_insert keccak code fork) (\<lambda>h.
     store_account_info a cur ((info cur)\<lparr>code_hash := h\<rparr>))))))"

definition k_clear_code :: "hash_function \<Rightarrow> address \<Rightarrow> ('z, unit) kernel" where
  "k_clear_code keccak a =
     bind (k_aload keccak a) (\<lambda>cur.
     store_account_info a cur ((info cur)\<lparr>code_hash := KECCAK_EMPTY\<rparr>))"

definition k_deleg_target :: "hash_function \<Rightarrow> address \<Rightarrow> ('z, bool \<times> address) kernel" where
  "k_deleg_target keccak a =
     bind (k_code_key keccak a) (\<lambda>h.
     bind (code_db_read_delegation h) (\<lambda>r. ret (success r, result_address r)))"

definition k_get_code_size :: "hash_function \<Rightarrow> address \<Rightarrow> ('z, int) kernel" where
  "k_get_code_size keccak a =
     bind (k_code_key keccak a) (\<lambda>code_key.
     bind (code_db_resolve code_key) (\<lambda>code. ret (code_len code)))"

definition k_code_copy ::
    "hash_function \<Rightarrow> address \<Rightarrow> int \<Rightarrow> int \<Rightarrow> int \<Rightarrow> ('z, unit) kernel" where
  "k_code_copy keccak a dst off len =
     bind (k_code_key keccak a) (\<lambda>code_key.
     bind (code_db_resolve code_key) (\<lambda>code.
     code_slice_copy_word_offset (code_slice_of code) dst off len))"

end
