(* ===== verification/Kernel_Journal.thy ===== *)
theory Kernel_Journal
  imports Kernel
begin

text \<open>
  The kernel operations are journaled: whatever they change, reverting the frame undoes. An
  operation that loads an account and stores it back is journaled because the account it
  stores is the current one; the state between load and store is followed by
  \<open>current_account\<close>.
\<close>

section \<open>Loading an account\<close>

lemma address_key_inj [simp]: "address_key a = address_key b \<longleftrightarrow> a = b"
  by (simp add: address_key_def fixed_wire_bytes_def)

lemma k_aload_kept: "keeps world_kept (k_aload keccak a)"
  unfolding k_aload_def acct_tx_get_def acct_block_get_def Let_def
  by (intro world_kept.keeps_rules keeps_if bal_account_touch_kept acct_block_cache_kept
      pure_keeps [OF pure_state_readers(1)] world_kept.related_refl)

lemma pure_same: "pure_action m \<Longrightarrow> m s = Inr (x, t) \<Longrightarrow> t = s"
  by (auto simp: pure_action_def keeps_def)

lemma touch_same_accounts:
  "bal_account_touch a s = Inr (x, t) \<Longrightarrow> account_tx t = account_tx s \<and> account_block t = account_block s"
  by (auto simp: bal_account_touch_def bal_touch_def Let_def)

lemma acct_tx_get_run: "acct_tx_get a s = Inr (case dict_get (account_tx s) (address_key a) of
    None \<Rightarrow> \<lparr>found = False, row_account = EMPTY_ACCOUNT\<rparr>
  | Some row \<Rightarrow> \<lparr>found = True, row_account = atr_current row\<rparr>, s)"
  by (simp add: acct_tx_get_def)

lemma acct_block_get_run: "acct_block_get a s = Inr (case dict_get (account_block s) (address_key a) of
    None \<Rightarrow> \<lparr>found = False, row_account = EMPTY_ACCOUNT\<rparr>
  | Some row \<Rightarrow> \<lparr>found = True, row_account = acct_curr (abr_value row)\<rparr>, s)"
  by (simp add: acct_block_get_def)

lemma k_aload_current:
  assumes run: "k_aload keccak a s = Inr (acc, t)"
  shows "current_account t (address_key a) = Some acc"
proof (cases "dict_get (account_tx s) (address_key a)")
  case (Some row)
  then show ?thesis using run by (auto simp: k_aload_def acct_tx_get_run current_account_def)
next
  case None
  from run None obtain x t1 where touch: "bal_account_touch a s = Inr (x, t1)"
    by (auto simp: k_aload_def acct_tx_get_run elim!: bind_returnsE)
  note same = touch_same_accounts [OF touch]
  show ?thesis
  proof (cases "dict_get (account_block s) (address_key a)")
    case (Some row)
    then show ?thesis
      using run None touch same
      by (auto simp: k_aload_def acct_tx_get_run acct_block_get_run current_account_def)
  next
    case blockNone: None
    from run None touch same blockNone obtain u where
      load: "stateless_account_by_key (k_parent_state_root t1) (keccak256_address keccak a) t1 =
        Inr (acc, u)" and cache: "acct_block_cache a (keccak256_address keccak a) acc u = Inr ((), t)"
      by (auto simp: k_aload_def acct_tx_get_run acct_block_get_run Let_def elim!: bind_returnsE)
    have "u = t1" using pure_same [OF pure_state_readers(1) load] .
    then show ?thesis
      using cache same None blockNone
      by (auto simp: acct_block_cache_def current_account_def Let_def dict_get_set)
  qed
qed

section \<open>Storing an account\<close>

text \<open>What storing to one account leaves alone: what every other account reads.\<close>

definition others_kept :: "bytes \<Rightarrow> 'z host_state_scheme \<Rightarrow> 'z host_state_scheme \<Rightarrow> bool" where
  "others_kept k s t \<longleftrightarrow> (\<forall>k'. k' \<noteq> k \<longrightarrow> current_account t k' = current_account s k')"

interpretation others_kept: action_invariant "others_kept k"
  by unfold_locales (simp_all add: others_kept_def)

lemma current_account_frame [simp]:
  "current_account (s\<lparr>storage_next_generation := g, storage_generations := d\<rparr>) k = current_account s k"
  by (simp add: current_account_def cong: option.case_cong)

lemma current_account_tx_set:
  "current_account (s\<lparr>account_tx := dict_set (account_tx s) k r\<rparr>) k' =
     (if k' = k then Some (atr_current r) else current_account s k')"
  by (simp add: current_account_def dict_get_set cong: option.case_cong)

lemma do_when_simps [simp]: "do_when True m = m" "do_when False m = ret ()"
  by (simp_all add: do_when_def)

lemma keeps_option:
  "(x = None \<Longrightarrow> keeps R m) \<Longrightarrow> (\<And>y. x = Some y \<Longrightarrow> keeps R (k y)) \<Longrightarrow>
   keeps R (case x of None \<Rightarrow> m | Some y \<Rightarrow> k y)"
  by (cases x) auto

lemma others_kept_append: "keeps (others_kept k) (journal_append e)"
  unfolding journal_append_def by (rule keeps_modify) (simp add: others_kept_def)

lemma others_kept_set: "keeps (others_kept (address_key a)) (set_current a row v)"
  unfolding set_current_def
  by (rule keeps_modify) (simp add: others_kept_def current_account_tx_set)

lemma others_kept_update: "keeps (others_kept (address_key a)) (acct_tx_update a v)"
  unfolding acct_tx_update_def Let_def
  by (intro others_kept.keeps_rules keeps_if keeps_option others_kept_append others_kept_set keeps_raise
      keeps_raise keeps_modify) (simp add: others_kept_def current_account_tx_set)

lemma others_kept_required: "keeps (others_kept (address_key a)) (account_tx_required a)"
  unfolding account_tx_required_def Let_def
  by (intro others_kept.keeps_rules keeps_if keeps_option others_kept_append others_kept_set keeps_raise
      keeps_raise keeps_modify) (simp add: others_kept_def current_account_tx_set)

lemma others_kept_fields:
  "keeps (others_kept (address_key a)) (acct_tx_set_balance a v)"
  "keeps (others_kept (address_key a)) (acct_tx_set_nonce a v)"
  "keeps (others_kept (address_key a)) (acct_tx_set_code_hash a h)"
  unfolding acct_tx_set_balance_def acct_tx_set_nonce_def acct_tx_set_code_hash_def set_info_def
  by (intro others_kept.keeps_rules others_kept_append others_kept_set others_kept_required)+

lemma others_kept_clear: "keeps (others_kept k) (storage_tx_clear a)"
  unfolding storage_tx_clear_def Let_def
  by (intro others_kept.keeps_rules others_kept_append keeps_modify) (simp add: others_kept_def)

lemma storage_tx_clear_current:
  "storage_tx_clear a s = Inr (x, t) \<Longrightarrow> current_account t k = current_account s k"
  by (auto simp: storage_tx_clear_def journal_append_def Let_def elim!: bind_returnsE)

lemma others_kept_store_info: "keeps (others_kept (address_key a)) (store_account_info a acc i)"
  unfolding store_account_info_def store_account_def Let_def
  by (intro others_kept.keeps_rules keeps_if others_kept_clear others_kept_update others_kept_fields)

lemma account_set_info_root:
  "storage_root i = storage_root (info acc) \<Longrightarrow>
   storage_root (info (account_set_info acc i)) = storage_root (info acc)"
  by (simp add: account_set_info_def)

lemma account_set_info_cleared:
  "storage_cleared (account_set_info acc i) = (if account_info_empty i then True else storage_cleared acc)"
  by (simp add: account_set_info_def)

lemma fields_journaled:
  "journaled (bind (do_when b1 (acct_tx_set_balance a v)) (\<lambda>_.
     bind (do_when b2 (acct_tx_set_nonce a n)) (\<lambda>_. do_when b3 (acct_tx_set_code_hash a h))))"
  by (intro journaled.keeps_rules acct_tx_set_balance_journaled acct_tx_set_nonce_journaled
      acct_tx_set_code_hash_journaled)

lemma store_account_info_step:
  assumes acc: "current_account s (address_key a) = Some acc"
    and root: "storage_root i = storage_root (info acc)"
    and run: "store_account_info a acc i s = Inr (x, t)"
  shows "journaled_step s t"
proof -
  let ?next = "account_set_info acc i"
  let ?changed = "present ?next \<noteq> present acc \<or> storage_cleared ?next \<noteq> storage_cleared acc"
  note next_root = account_set_info_root [OF root]
  show ?thesis
  proof (cases "account_info_empty i")
    case True
    then have cleared: "storage_cleared ?next" by (simp add: account_set_info_cleared)
    show ?thesis
    proof (cases ?changed)
      case changed: True
      then have "bind (storage_tx_clear a) (\<lambda>_. acct_tx_update a ?next) s = Inr (x, t)"
        using run True next_root
        by (simp add: store_account_info_def store_account_def Let_def)
      then show ?thesis by (rule storage_tx_clear_update_step [OF acc cleared next_root])
    next
      case False
      from run True obtain y u where clear: "storage_tx_clear a s = Inr (y, u)"
        by (auto simp: store_account_info_def elim!: bind_returnsE)
      have "storage_cleared acc" using False cleared by simp
      then have "journaled_step s u" using storage_tx_clear_step [OF acc _ clear] by simp
      moreover have "journaled_step u t"
        using run True False next_root clear
        by (auto simp: store_account_info_def Let_def intro: keepsD [OF fields_journaled])
      ultimately show ?thesis by (rule journaled.related_trans)
    qed
  next
    case False
    then have cleared: "storage_cleared ?next = storage_cleared acc"
      by (simp add: account_set_info_cleared)
    show ?thesis
    proof (cases ?changed)
      case True
      then have "acct_tx_update a ?next s = Inr (x, t)"
        using run False next_root
        by (simp add: store_account_info_def store_account_def Let_def)
      then show ?thesis by (rule acct_tx_update_step [OF acc cleared next_root])
    next
      case unchanged: False
      then show ?thesis
        using run False next_root
        by (auto simp: store_account_info_def Let_def intro: keepsD [OF fields_journaled])
    qed
  qed
qed

section \<open>The kernel operations\<close>

definition journaled_from :: "('z, 'a) host \<Rightarrow> 'z host_state_scheme \<Rightarrow> bool" where
  "journaled_from m s \<longleftrightarrow> (\<forall>x t. m s = Inr (x, t) \<longrightarrow> journaled_step s t)"

lemma journaled_fromI: "journaled m \<Longrightarrow> journaled_from m s"
  by (auto simp: journaled_from_def dest: keepsD)

lemma journaled_from_bind:
  assumes "\<And>x t. m s = Inr (x, t) \<Longrightarrow> journaled_step s t \<and> journaled_from (k x) t"
  shows "journaled_from (bind m k) s"
  unfolding journaled_from_def
proof (intro allI impI)
  fix x u
  assume "bind m k s = Inr (x, u)"
  then obtain y t where run: "m s = Inr (y, t)" "k y t = Inr (x, u)" by (rule bind_returnsE)
  with assms have "journaled_step s t" "journaled_step t u" by (auto simp: journaled_from_def)
  then show "journaled_step s u" by (rule journaled.related_trans)
qed

lemma journaled_if_from: "(\<And>s. journaled_from m s) \<Longrightarrow> journaled m"
  by (auto simp: journaled_from_def keeps_def)

lemma current_account_kept:
  "world_kept s t \<Longrightarrow> current_account s k = Some acc \<Longrightarrow> current_account t k = Some acc"
  by (rule current_account_transfer [of t s]) (auto simp: world_kept_def caches_grow_def)

lemma journaled_kept_bind:
  assumes "keeps world_kept m" and "current_account s k = Some acc"
    and "\<And>x t. current_account t k = Some acc \<Longrightarrow> journaled_from (f x) t"
  shows "journaled_from (bind m f) s"
proof (rule journaled_from_bind)
  fix x t
  assume "m s = Inr (x, t)"
  with assms(1) have "world_kept s t" by (rule keepsD)
  then show "journaled_step s t \<and> journaled_from (f x) t"
    using assms(2,3) by (blast intro: world_kept_journaled current_account_kept)
qed

lemma journaled_load:
  fixes k :: "account \<Rightarrow> ('z, 'a) kernel"
  assumes "\<And>acc s. current_account s (address_key a) = Some acc \<Longrightarrow> journaled_from (k acc) s"
  shows "journaled (bind (k_aload keccak a) k)"
proof (rule journaled_if_from, rule journaled_from_bind)
  fix s t :: "'z kernel_state_scheme" and x
  assume run: "k_aload keccak a s = Inr (x, t)"
  have "world_kept s t" using k_aload_kept run by (rule keepsD)
  then show "journaled_step s t \<and> journaled_from (k x) t"
    using assms [OF k_aload_current [OF run]] world_kept_journaled by blast
qed

lemma store_info_from:
  "current_account s (address_key a) = Some acc \<Longrightarrow> storage_root i = storage_root (info acc) \<Longrightarrow>
   journaled_from (store_account_info a acc i) s"
  by (auto simp: journaled_from_def intro: store_account_info_step)

lemma store_account_from:
  "current_account s (address_key a) = Some acc \<Longrightarrow> storage_cleared v = storage_cleared acc \<Longrightarrow>
   storage_root (info v) = storage_root (info acc) \<Longrightarrow> journaled_from (store_account a v) s"
  by (auto simp: journaled_from_def store_account_def intro: acct_tx_update_step)

lemma ret_from [simp]: "journaled_from (ret x) s"
  by (rule journaled_fromI) (rule journaled.keeps_ret)

lemma raise_from [simp]: "journaled_from (raise e) s" "journaled_from (fatal_error r) s"
  by (simp_all add: journaled_from_def fatal_error_def)

lemma active_fork_kept: "keeps world_kept active_fork"
  unfolding active_fork_def by (rule world_kept.keeps_reads)

lemma k_bump_nonce_journaled: "journaled (k_bump_nonce keccak a)"
  unfolding k_bump_nonce_def by (rule journaled_load) (simp add: store_info_from)

lemma k_add_balance_journaled: "journaled (k_add_balance keccak a v)"
  unfolding k_add_balance_def by (rule journaled_load) (simp add: store_info_from)

lemma k_sub_balance_journaled: "journaled (k_sub_balance keccak a v)"
  unfolding k_sub_balance_def by (rule journaled_load) (simp add: store_info_from)

lemma k_zero_balance_journaled: "journaled (k_zero_balance keccak a)"
  unfolding k_zero_balance_def by (rule journaled_load) (simp add: store_info_from)

lemma k_selfdestruct_journaled: "journaled (k_selfdestruct keccak a)"
  unfolding k_selfdestruct_def by (rule journaled_load) (simp add: store_account_from)

lemma k_mark_created_journaled: "journaled (k_mark_created keccak a)"
  unfolding k_mark_created_def by (rule journaled_load) (simp add: store_account_from)

lemma k_clear_code_journaled: "journaled (k_clear_code keccak a)"
  unfolding k_clear_code_def by (rule journaled_load) (simp add: store_info_from)

lemma k_clear_storage_journaled: "journaled (k_clear_storage keccak a)"
  unfolding k_clear_storage_def
proof (rule journaled_load)
  fix acc and s :: "'a kernel_state_scheme"
  assume acc: "current_account s (address_key a) = Some acc"
  show "journaled_from (bind (storage_tx_clear a)
      (\<lambda>_. store_account a (account_clear_storage acc))) s"
    unfolding journaled_from_def store_account_def
    by (intro allI impI, rule storage_tx_clear_update_step [OF acc])
      (simp_all add: account_clear_storage_def)
qed

lemma pure_code_byte: "pure_action (code_slice_byte c p)"
  unfolding code_slice_byte_def code_region_byte_at_def by (intro pure_intros)

lemma analyze_code_from_kept: "keeps world_kept (analyze_code_from code fork table position)"
proof (induction code fork table position rule: analyze_code_from.induct)
  case (1 code fork table position)
  then show ?case
    by (subst analyze_code_from.simps, unfold Let_def)
      (intro world_kept.keeps_rules keeps_if jumpdest_table_mark_kept pure_keeps [OF pure_code_byte]
        world_kept.related_refl; simp)
qed

lemma analyze_code_kept: "keeps world_kept (analyze_code code fork)"
  unfolding analyze_code_def
  by (intro world_kept.keeps_rules keeps_if jumpdest_table_alloc_kept analyze_code_from_kept)

lemma analyzed_code_kept: "keeps world_kept (analyzed_code code table)"
  unfolding analyzed_code_def by (intro world_kept.keeps_rules keeps_if keeps_raise)

lemma code_db_insert_kept: "keeps world_kept (code_db_insert keccak code fork)"
  unfolding code_db_insert_def
  by (intro world_kept.keeps_rules analyze_code_kept analyzed_code_kept code_db_store_kept)

lemma code_region_from_delegation_kept: "keeps world_kept (code_region_from_delegation a)"
  unfolding code_region_from_delegation_def by (rule append_code_kept)

lemma validated_code_slice_kept: "keeps world_kept (validated_code_slice c)"
  unfolding validated_code_slice_def by (intro world_kept.keeps_rules keeps_if keeps_raise)

lemma k_deploy_code_journaled: "journaled (k_deploy_code keccak a code)"
  unfolding k_deploy_code_def
proof (rule journaled.keeps_bind [OF journaled_if_world_kept [OF active_fork_kept]], rule journaled_load)
  fix fork acc and s :: "'a kernel_state_scheme"
  assume acc: "current_account s (address_key a) = Some acc"
  show "journaled_from (bind (code_db_insert keccak code fork)
      (\<lambda>h. store_account_info a acc ((info acc)\<lparr>code_hash := h\<rparr>))) s"
    by (rule journaled_kept_bind [OF code_db_insert_kept acc]) (simp add: store_info_from)
qed

lemma k_set_delegation_journaled: "journaled (k_set_delegation keccak a target)"
  unfolding k_set_delegation_def
proof (rule journaled_load)
  fix acc and s :: "'a kernel_state_scheme"
  assume acc: "current_account s (address_key a) = Some acc"
  show "journaled_from (bind active_fork (\<lambda>fork.
      bind (code_region_from_delegation target) (\<lambda>code_region.
      bind (validated_code_slice code_region) (\<lambda>code.
      bind (code_db_insert keccak code fork) (\<lambda>h.
      store_account_info a acc ((info acc)\<lparr>code_hash := h\<rparr>)))))) s"
    by (rule journaled_kept_bind [OF active_fork_kept acc],
        rule journaled_kept_bind [OF code_region_from_delegation_kept], assumption,
        rule journaled_kept_bind [OF validated_code_slice_kept], assumption,
        rule journaled_kept_bind [OF code_db_insert_kept], assumption)
      (simp add: store_info_from)
qed

section \<open>Logs\<close>

lemma k_log_topics_fill: "keeps log_fill (k_log_topics topics)"
  unfolding k_log_topics_def
  by (cases topics) (auto intro!: log_fill.keeps_rules log_add_topic_fill)

lemma k_log_data_fill: "keeps log_fill (k_log_data data)"
  unfolding k_log_data_def
  by (cases data) (auto intro: log_add_data_memory_fill log_add_data_word_fill)

lemma k_log_journaled: "journaled (k_log a topics data)"
  unfolding k_log_def
  by (intro log_begin_then_fill_journaled log_fill.keeps_bind k_log_topics_fill k_log_data_fill)

lemma k_emit_transfer_log_journaled: "journaled (k_emit_transfer_log src dst v)"
  unfolding k_emit_transfer_log_def Let_def
  by (intro journaled.keeps_rules keeps_if k_log_journaled
      journaled_if_world_kept [OF active_fork_kept])

lemma k_emit_burn_log_journaled: "journaled (k_emit_burn_log a v)"
  unfolding k_emit_burn_log_def Let_def
  by (intro journaled.keeps_rules keeps_if k_log_journaled
      journaled_if_world_kept [OF active_fork_kept])

section \<open>Transfers\<close>

lemma k_transfer_journaled: "journaled (k_transfer keccak src dst v)"
  unfolding k_transfer_def
proof (rule journaled_load)
  fix src_acc and s :: "'a kernel_state_scheme"
  assume src: "current_account s (address_key src) = Some src_acc"
  let ?send = "\<lambda>dst_acc. if word_is_zero v \<or> src = dst then ret ()
    else (let source_balance = alu_sub (balance (info src_acc)) v in
      bind (store_account_info src src_acc ((info src_acc)\<lparr>balance := source_balance\<rparr>)) (\<lambda>_.
      let destination_balance = alu_add (balance (info dst_acc)) v in
      bind (store_account_info dst dst_acc ((info dst_acc)\<lparr>balance := destination_balance\<rparr>)) (\<lambda>_.
      k_emit_transfer_log src dst v))) :: ('a, unit) kernel"
  show "journaled_from (bind (k_aload keccak dst) ?send) s"
  proof (rule journaled_from_bind)
    fix dst_acc and t :: "'a kernel_state_scheme"
    assume run: "k_aload keccak dst s = Inr (dst_acc, t)"
    have kept: "world_kept s t" using k_aload_kept run by (rule keepsD)
    have dst: "current_account t (address_key dst) = Some dst_acc" using run by (rule k_aload_current)
    have src': "current_account t (address_key src) = Some src_acc"
      using current_account_kept [OF kept src] .
    have "journaled_from (?send dst_acc) t"
    proof (cases "word_is_zero v \<or> src = dst")
      case True
      then show ?thesis by (simp del: disj_not1)
    next
      case False
      have "journaled_from (bind (store_account_info src src_acc
          ((info src_acc)\<lparr>balance := alu_sub (balance (info src_acc)) v\<rparr>)) (\<lambda>_.
        bind (store_account_info dst dst_acc
          ((info dst_acc)\<lparr>balance := alu_add (balance (info dst_acc)) v\<rparr>)) (\<lambda>_.
        k_emit_transfer_log src dst v))) t"
      proof (rule journaled_from_bind)
        fix x and u :: "'a kernel_state_scheme"
        assume store: "store_account_info src src_acc
          ((info src_acc)\<lparr>balance := alu_sub (balance (info src_acc)) v\<rparr>) t = Inr (x, u)"
        have "journaled_step t u" using store_account_info_step [OF src' _ store] by simp
        moreover have "others_kept (address_key src) t u"
          using others_kept_store_info store by (rule keepsD)
        then have "current_account u (address_key dst) = Some dst_acc"
          using dst False by (auto simp: others_kept_def)
        then have "journaled_from (bind (store_account_info dst dst_acc
            ((info dst_acc)\<lparr>balance := alu_add (balance (info dst_acc)) v\<rparr>)) (\<lambda>_.
          k_emit_transfer_log src dst v)) u"
          by (intro journaled_from_bind conjI store_account_info_step
              journaled_fromI [OF k_emit_transfer_log_journaled]) simp_all
        ultimately show "journaled_step t u \<and> journaled_from (bind (store_account_info dst dst_acc
            ((info dst_acc)\<lparr>balance := alu_add (balance (info dst_acc)) v\<rparr>)) (\<lambda>_.
          k_emit_transfer_log src dst v)) u" ..
      qed
      with False show ?thesis by (simp add: Let_def)
    qed
    with kept show "journaled_step s t \<and> journaled_from (?send dst_acc) t"
      by (blast intro: world_kept_journaled)
  qed
qed

section \<open>Storage\<close>

lemma keeps_lookup:
  "(\<And>v. keeps R (f v)) \<Longrightarrow> keeps R m \<Longrightarrow> keeps R n \<Longrightarrow>
   keeps R (case x of StorageTxHit v \<Rightarrow> f v | StorageTxCleared \<Rightarrow> m | StorageTxMiss \<Rightarrow> n)"
  by (cases x) auto

lemma k_sload_kept: "keeps world_kept (k_sload keccak a slot)"
  unfolding k_sload_def storage_tx_get_def storage_block_get_def Let_def
  by (intro world_kept.keeps_rules keeps_lookup keeps_if bal_storage_read_kept k_aload_kept
      storage_block_cache_kept pure_keeps [OF pure_state_readers(2)] world_kept.related_refl)

lemma k_sstore_journaled: "journaled (k_sstore a slot v)"
  unfolding k_sstore_def by (rule storage_tx_update_journaled)

lemma k_tstore_journaled: "journaled (k_tstore a slot v)"
  unfolding k_tstore_def by (rule transient_store_journaled)

lemma k_slot_mark_warm_journaled: "journaled (k_slot_mark_warm a slot)"
  unfolding k_slot_mark_warm_def by (rule storage_mark_warm_journaled)

lemma precompile_id_for_address_kept: "keeps world_kept (precompile_id_for_address a)"
  unfolding precompile_id_for_address_def
  by (intro keeps_option world_kept.keeps_ret)
    (auto simp: precompile_id_if_active_def precompile_active_at_fork_def
      intro!: world_kept.keeps_rules active_fork_kept)

lemma k_account_mark_warm_journaled: "journaled (k_account_mark_warm a)"
  unfolding k_account_mark_warm_def
  by (intro journaled.keeps_rules keeps_if account_mark_warm_journaled
      journaled_if_world_kept [OF precompile_id_for_address_kept])

section \<open>What storing an account info does to it\<close>

lemma current_account_row:
  "dict_get (account_tx s) k = Some r \<Longrightarrow> current_account s k = Some (atr_current r)"
  by (simp add: current_account_def)

lemma acct_tx_update_current:
  "acct_tx_update a v s = Inr (x, t) \<Longrightarrow> current_account t (address_key a) = Some v"
  by (auto simp: acct_tx_update_def set_current_def current_account_tx_set Let_def
      split: option.splits elim!: bind_returnsE)

lemma account_tx_required_current:
  "account_tx_required a s = Inr (row, t) \<Longrightarrow> current_account s (address_key a) = Some acc \<Longrightarrow>
   atr_current row = acc \<and> current_account t (address_key a) = Some acc"
  by (auto simp: account_tx_required_def journal_append_def current_account_tx_set Let_def
      split: option.splits elim!: bind_returnsE)
    (auto simp: current_account_row dict_get_set current_account_def)

lemma set_info_current:
  assumes "bind (account_tx_required a) (\<lambda>row. do_when (b row)
      (bind (journal_append (e row)) (\<lambda>_. set_info a row f))) s = Inr (x, t)"
    and "current_account s (address_key a) = Some acc"
    and "\<And>row. atr_current row = acc \<Longrightarrow> \<not> b row \<Longrightarrow> f (info acc) = info acc"
  shows "current_account t (address_key a) = Some (acc\<lparr>info := f (info acc)\<rparr>)"
proof -
  from assms(1) obtain row u where r: "account_tx_required a s = Inr (row, u)"
    and k: "do_when (b row) (bind (journal_append (e row)) (\<lambda>_. set_info a row f)) u = Inr (x, t)"
    by (rule bind_returnsE)
  note row = account_tx_required_current [OF r assms(2)]
  show ?thesis
    using k row assms(3) [of row]
    by (cases "b row")
      (auto simp: set_info_def set_current_def journal_append_def current_account_row dict_get_set)
qed

lemma set_fields_current:
  assumes "current_account s (address_key a) = Some acc"
  shows
    "acct_tx_set_balance a v s = Inr (x, t) \<Longrightarrow>
      current_account t (address_key a) = Some (acc\<lparr>info := (info acc)\<lparr>balance := v\<rparr>\<rparr>)"
    "acct_tx_set_nonce a n s = Inr (x, t) \<Longrightarrow>
      current_account t (address_key a) = Some (acc\<lparr>info := (info acc)\<lparr>nonce := n\<rparr>\<rparr>)"
    "acct_tx_set_code_hash a h s = Inr (x, t) \<Longrightarrow>
      current_account t (address_key a) = Some (acc\<lparr>info := (info acc)\<lparr>code_hash := h\<rparr>\<rparr>)"
  unfolding acct_tx_set_balance_def acct_tx_set_nonce_def acct_tx_set_code_hash_def
  by (rule set_info_current [OF _ assms], assumption, simp)+

lemma do_when_set:
  assumes "do_when b m s = Inr (x, t)" and "current_account s k = Some acc"
    and "\<And>y u. m s = Inr (y, u) \<Longrightarrow> current_account u k = Some (f acc)" and "\<not> b \<Longrightarrow> f acc = acc"
  shows "current_account t k = Some (f acc)"
  using assms by (cases b) auto

lemma set_fields_all_current:
  assumes "bind (do_when b1 (acct_tx_set_balance a v)) (\<lambda>_.
      bind (do_when b2 (acct_tx_set_nonce a n)) (\<lambda>_.
      do_when b3 (acct_tx_set_code_hash a h))) s = Inr (x, t)"
    and acc: "current_account s (address_key a) = Some acc"
    and "\<not> b1 \<Longrightarrow> balance (info acc) = v" and "\<not> b2 \<Longrightarrow> nonce (info acc) = n"
    and "\<not> b3 \<Longrightarrow> code_hash (info acc) = h"
  shows "current_account t (address_key a) =
    Some (acc\<lparr>info := (info acc)\<lparr>balance := v, nonce := n, code_hash := h\<rparr>\<rparr>)"
proof -
  from assms(1) obtain x1 s1 x2 s2 where run:
      "do_when b1 (acct_tx_set_balance a v) s = Inr (x1, s1)"
      "do_when b2 (acct_tx_set_nonce a n) s1 = Inr (x2, s2)"
      "do_when b3 (acct_tx_set_code_hash a h) s2 = Inr (x, t)"
    by (auto elim!: bind_returnsE)
  have "current_account s1 (address_key a) = Some (acc\<lparr>info := (info acc)\<lparr>balance := v\<rparr>\<rparr>)"
    by (rule do_when_set [OF run(1) acc]) (use assms(3) in \<open>auto dest: set_fields_current(1) [OF acc]\<close>)
  note s1 = this
  have "current_account s2 (address_key a) =
      Some (acc\<lparr>info := (info acc)\<lparr>balance := v, nonce := n\<rparr>\<rparr>)"
    by (rule do_when_set [OF run(2) s1, of "\<lambda>c. c\<lparr>info := (info c)\<lparr>nonce := n\<rparr>\<rparr>", simplified])
      (use assms(4) in \<open>auto dest: set_fields_current(2) [OF s1]\<close>)
  note s2 = this
  show ?thesis
    by (rule do_when_set [OF run(3) s2, of "\<lambda>c. c\<lparr>info := (info c)\<lparr>code_hash := h\<rparr>\<rparr>", simplified])
      (use assms(5) in \<open>auto dest: set_fields_current(3) [OF s2]\<close>)
qed

lemma store_account_info_current:
  assumes acc: "current_account s (address_key a) = Some acc"
    and run: "store_account_info a acc i s = Inr (x, t)"
  shows "current_account t (address_key a) = Some (account_set_info acc i)"
proof -
  let ?next = "account_set_info acc i"
  from run obtain y u where
    clear: "do_when (account_info_empty i) (storage_tx_clear a) s = Inr (y, u)"
    and rest: "(if storage_root (info ?next) \<noteq> storage_root (info acc) \<or> present ?next \<noteq> present acc \<or>
        storage_cleared ?next \<noteq> storage_cleared acc
      then store_account a ?next
      else bind (do_when (balance (info ?next) \<noteq> balance (info acc))
          (acct_tx_set_balance a (balance (info ?next)))) (\<lambda>_.
        bind (do_when (nonce (info ?next) \<noteq> nonce (info acc))
          (acct_tx_set_nonce a (nonce (info ?next)))) (\<lambda>_.
        do_when (code_hash (info ?next) \<noteq> code_hash (info acc))
          (acct_tx_set_code_hash a (code_hash (info ?next)))))) u = Inr (x, t)"
    by (auto simp: store_account_info_def Let_def elim!: bind_returnsE)
  have u: "current_account u (address_key a) = Some acc"
    using clear acc by (cases "account_info_empty i") (auto simp: storage_tx_clear_current)
  show ?thesis
  proof (cases "storage_root (info ?next) \<noteq> storage_root (info acc) \<or> present ?next \<noteq> present acc \<or>
        storage_cleared ?next \<noteq> storage_cleared acc")
    case True
    then show ?thesis using rest by (auto simp: store_account_def intro: acct_tx_update_current)
  next
    case False
    then have "current_account t (address_key a) = Some (acc\<lparr>info := (info acc)\<lparr>
        balance := balance (info ?next), nonce := nonce (info ?next),
        code_hash := code_hash (info ?next)\<rparr>\<rparr>)"
      using rest by (intro set_fields_all_current [OF _ u]) auto
    moreover have "acc\<lparr>info := (info acc)\<lparr>balance := balance (info ?next),
        nonce := nonce (info ?next), code_hash := code_hash (info ?next)\<rparr>\<rparr> = ?next"
      using False by (simp add: account_set_info_def split: if_splits)
    ultimately show ?thesis by simp
  qed
qed

lemma account_set_info_fields:
  "balance (info (account_set_info acc i)) = balance i"
  "nonce (info (account_set_info acc i)) = nonce i"
  "code_hash (info (account_set_info acc i)) = code_hash i"
  "created (account_set_info acc i) = created acc"
  "selfdestructed (account_set_info acc i) = selfdestructed acc"
  by (auto simp: account_set_info_def account_info_empty_def EMPTY_ACCOUNT_INFO_def word_is_zero_def
      word_constants)

section \<open>What a transfer does to the balances\<close>

definition accounts_kept :: "'z host_state_scheme \<Rightarrow> 'z host_state_scheme \<Rightarrow> bool" where
  "accounts_kept s t \<longleftrightarrow> account_tx t = account_tx s \<and> account_block t = account_block s"

interpretation accounts_kept: action_invariant accounts_kept
  by unfold_locales (simp_all add: accounts_kept_def)

lemma accounts_kept_current: "accounts_kept s t \<Longrightarrow> current_account t k = current_account s k"
  by (simp add: accounts_kept_def current_account_def cong: option.case_cong)

lemma accounts_kept_log: "keeps accounts_kept (k_log a topics data)"
proof -
  have update: "keeps accounts_kept (update_current_log f)" for f
    unfolding update_current_log_def
    by (intro accounts_kept.keeps_rules keeps_if keeps_option keeps_raise keeps_modify)
      (simp add: accounts_kept_def)
  have topic: "keeps accounts_kept (log_add_topic w)" for w
    unfolding log_add_topic_def by (rule update)
  have data: "keeps accounts_kept (append_log_data p)" for p
    unfolding append_log_data_def Let_def
    by (intro accounts_kept.keeps_rules keeps_if keeps_option keeps_raise keeps_modify update)
      (simp_all add: accounts_kept_def)
  have payload: "keeps accounts_kept (k_log_data data)"
    unfolding k_log_data_def log_add_data_memory_def log_add_data_word_def
    by (cases data) (auto intro!: accounts_kept.keeps_rules data)
  have topics: "keeps accounts_kept (k_log_topics topics)"
    unfolding k_log_topics_def by (cases topics) (auto intro!: accounts_kept.keeps_rules topic)
  show ?thesis
    unfolding k_log_def log_begin_def journal_append_def
    by (intro accounts_kept.keeps_rules keeps_modify topics payload) (simp_all add: accounts_kept_def)
qed

lemma accounts_kept_transfer_log: "keeps accounts_kept (k_emit_transfer_log src dst v)"
  unfolding k_emit_transfer_log_def Let_def active_fork_def
  by (intro accounts_kept.keeps_rules keeps_if accounts_kept_log)

text \<open>Storing an account touches no storage row, transient slot or log, and no storage generation but
  that of the account.\<close>

definition aside_kept :: "bytes \<Rightarrow> 'z host_state_scheme \<Rightarrow> 'z host_state_scheme \<Rightarrow> bool" where
  "aside_kept k s t \<longleftrightarrow> storage_tx t = storage_tx s \<and> transient t = transient s \<and> logs t = logs s \<and>
     log_data t = log_data s \<and> host_state.more t = host_state.more s \<and>
     (\<forall>k'. k' \<noteq> k \<longrightarrow> storage_generation t k' = storage_generation s k')"

interpretation aside_kept: action_invariant "aside_kept k"
  by unfold_locales (simp_all add: aside_kept_def)

lemma aside_kept_basic:
  "keeps (aside_kept k) (journal_append e)" "keeps (aside_kept k) (set_current a row v)"
  "keeps (aside_kept (address_key a)) (storage_tx_clear a)"
  unfolding journal_append_def set_current_def storage_tx_clear_def Let_def
  by (intro aside_kept.keeps_rules keeps_modify;
      simp add: aside_kept_def storage_generation_def dict_get_default_set)+

lemma aside_kept_rows:
  "keeps (aside_kept k) (acct_tx_update a v)" "keeps (aside_kept k) (account_tx_required a)"
  unfolding acct_tx_update_def account_tx_required_def Let_def
  by (intro aside_kept.keeps_rules keeps_if keeps_option aside_kept_basic keeps_raise keeps_modify;
      simp add: aside_kept_def storage_generation_def)+

lemma aside_kept_store_info: "keeps (aside_kept (address_key a)) (store_account_info a acc i)"
  unfolding store_account_info_def store_account_def acct_tx_set_balance_def acct_tx_set_nonce_def
    acct_tx_set_code_hash_def set_info_def Let_def
  by (intro aside_kept.keeps_rules keeps_if aside_kept_basic aside_kept_rows)

lemma k_aload_loaded:
  assumes "current_account s (address_key a) = Some acc"
  shows "\<exists>t. k_aload keccak a s = Inr (acc, t) \<and> accounts_kept s t \<and> aside_kept k s t"
  using assms
proof (cases rule: current_account_cases)
  case (row r)
  then show ?thesis
    by (simp add: k_aload_def acct_tx_get_run accounts_kept.related_refl aside_kept.related_refl)
next
  case (block b)
  obtain x t where touch: "bal_account_touch a s = Inr (x, t)"
    by (simp add: bal_account_touch_def bal_touch_def Let_def)
  moreover from this have "aside_kept k s t"
    by (auto simp: bal_account_touch_def bal_touch_def Let_def aside_kept_def storage_generation_def)
  ultimately show ?thesis
    using touch_same_accounts [OF touch] block touch
    by (auto simp: k_aload_def acct_tx_get_run acct_block_get_run accounts_kept_def)
qed

text \<open>The log of EIP-7708, with the system address, the topic of a transfer, the two addresses and
  the value.\<close>

definition transfer_logged ::
    "address \<Rightarrow> address \<Rightarrow> int \<Rightarrow> 'z kernel_state_scheme \<Rightarrow> 'z kernel_state_scheme \<Rightarrow> bool" where
  "transfer_logged src dst v s t \<longleftrightarrow>
     (if pp_fork (protocol (k_execution_profile s)) < 16
      then logs t = logs s \<and> log_data t = log_data s
      else log_data t = log_data s @ word_bytes v 32 \<and>
        logs t = logs s @ [\<lparr>rec_address = address_from_bits 0xfffffffffffffffffffffffffffffffffffffffe,
          rec_topics = [0xddf252ad1be2c89b69c2b068fc378daa952ba7f163c4a11628f55a4df523b3ef,
            address_to_word src, address_to_word dst],
          rec_data_offset = int (length (log_data s)), rec_data_length = 32\<rparr>])"

lemma length_word_bytes: "length (word_bytes v 32) = 32"
  by (simp add: word_bytes_def py_slice_from_def slice_bound_def)

lemma k_emit_transfer_log_run:
  assumes "k_emit_transfer_log src dst v s = Inr (x, t)" and "src \<noteq> dst" and "\<not> word_is_zero v"
  shows "transfer_logged src dst v s t \<and> storage_tx t = storage_tx s \<and> transient t = transient s \<and>
    storage_generation t k = storage_generation s k"
  using assms
  by (auto simp: k_emit_transfer_log_def active_fork_def Let_def k_log_def log_begin_def journal_append_def
      k_log_topics_def log_add_topic_def update_current_log_def k_log_data_def log_add_data_word_def
      append_log_data_def transfer_logged_def Amsterdam_def EIP7708_TRANSFER_TOPIC_def
      EIP7708_SYSTEM_ADDRESS_def storage_generation_def length_word_bytes action_simps nth_append split: if_splits)

lemma aside_kept_profile:
  fixes s t :: "'z kernel_state_scheme"
  assumes "aside_kept k s t"
  shows "k_execution_profile t = k_execution_profile s"
  using assms by (cases s, cases t) (simp add: aside_kept_def)

lemma k_transfer_effect:
  fixes s :: "'z kernel_state_scheme"
  assumes "src \<noteq> dst" and "\<not> word_is_zero v"
    and src: "current_account s (address_key src) = Some a"
    and dst: "current_account s (address_key dst) = Some b"
    and run: "k_transfer keccak src dst v s = Inr (x, t)"
  shows "current_account t (address_key src) =
      Some (account_set_info a ((info a)\<lparr>balance := alu_sub (balance (info a)) v\<rparr>)) \<and>
    current_account t (address_key dst) =
      Some (account_set_info b ((info b)\<lparr>balance := alu_add (balance (info b)) v\<rparr>)) \<and>
    (\<forall>k. k \<noteq> address_key src \<longrightarrow> k \<noteq> address_key dst \<longrightarrow>
      current_account t k = current_account s k \<and> storage_generation t k = storage_generation s k) \<and>
    storage_tx t = storage_tx s \<and> transient t = transient s \<and> transfer_logged src dst v s t"
proof -
  obtain s1 where s1: "k_aload keccak src s = Inr (a, s1)" "accounts_kept s s1" "aside_kept (address_key src) s s1"
    using k_aload_loaded [OF src] by blast
  note k1 = accounts_kept_current [OF s1(2)]
  obtain s2 where s2: "k_aload keccak dst s1 = Inr (b, s2)" "accounts_kept s1 s2" "aside_kept (address_key src) s1 s2"
    using k_aload_loaded [of s1 dst b keccak "address_key src"] dst k1 by auto
  note k2 = accounts_kept_current [OF s2(2)]
  from run s1(1) s2(1) assms(1,2) obtain y u z w where
    store: "store_account_info src a ((info a)\<lparr>balance := alu_sub (balance (info a)) v\<rparr>) s2 = Inr (y, u)"
      "store_account_info dst b ((info b)\<lparr>balance := alu_add (balance (info b)) v\<rparr>) u = Inr (z, w)"
    and log: "k_emit_transfer_log src dst v w = Inr (x, t)"
    by (auto simp: k_transfer_def Let_def elim!: bind_returnsE)
  have src2: "current_account s2 (address_key src) = Some a" using src k1 k2 by simp
  have others_src: "current_account u k = current_account s k" if "k \<noteq> address_key src" for k
    using keepsD [OF others_kept_store_info store(1)] that k1 k2 by (simp add: others_kept_def)
  have others_dst: "current_account w k = current_account u k" if "k \<noteq> address_key dst" for k
    using keepsD [OF others_kept_store_info store(2)] that by (simp add: others_kept_def)
  have keys: "address_key dst \<noteq> address_key src" using assms(1) by auto
  have "current_account u (address_key dst) = Some b" using others_src dst keys by simp
  note store_account_info_current [OF this store(2)]
  moreover note store_account_info_current [OF src2 store(1)]
  moreover note accounts_kept_current [OF keepsD [OF accounts_kept_transfer_log log]]
  moreover have u: "aside_kept (address_key src) s u"
    using s1(3) s2(3) keepsD [OF aside_kept_store_info store(1)] by (blast intro: aside_kept.related_trans)
  moreover have w: "aside_kept (address_key dst) u w" using keepsD [OF aside_kept_store_info store(2)] .
  moreover have "k_execution_profile w = k_execution_profile s"
    using aside_kept_profile [OF u] aside_kept_profile [OF w] by simp
  moreover note k_emit_transfer_log_run [OF log assms(1,2)]
  ultimately show ?thesis
    using others_src others_dst keys by (simp add: aside_kept_def transfer_logged_def)
qed

section \<open>Sequences of kernel operations with nested frames\<close>

text \<open>
  The operations of the kernel that change the reversible state, as the machine calls them
  between the checkpoint of a frame and its end. A \<open>Subframe\<close> is a nested call frame: its
  operations run between a checkpoint of their own and a commit (\<open>True\<close>) or a revert.
\<close>

datatype kernel_op =
    Transfer address address int
  | Bump_nonce address
  | Add_balance address int
  | Sub_balance address int
  | Zero_balance address
  | Clear_storage address
  | Clear_code address
  | Deploy_code address region_slice
  | Set_delegation address address
  | Self_destruct address
  | Mark_created address
  | Load_slot address int
  | Store_slot address int storage_value
  | Store_transient address int int
  | Warm_account address
  | Warm_slot address int
  | Emit_log address log_topics log_payload
  | Burn_log address int
  | Subframe bool "kernel_op list"

fun run_op :: "hash_function \<Rightarrow> kernel_op \<Rightarrow> ('z, unit) kernel"
  and run_ops :: "hash_function \<Rightarrow> kernel_op list \<Rightarrow> ('z, unit) kernel" where
  "run_op keccak (Transfer src dst v) = k_transfer keccak src dst v"
| "run_op keccak (Bump_nonce a) = k_bump_nonce keccak a"
| "run_op keccak (Add_balance a v) = k_add_balance keccak a v"
| "run_op keccak (Sub_balance a v) = k_sub_balance keccak a v"
| "run_op keccak (Zero_balance a) = k_zero_balance keccak a"
| "run_op keccak (Clear_storage a) = k_clear_storage keccak a"
| "run_op keccak (Clear_code a) = k_clear_code keccak a"
| "run_op keccak (Deploy_code a c) = k_deploy_code keccak a c"
| "run_op keccak (Set_delegation a target) = k_set_delegation keccak a target"
| "run_op keccak (Self_destruct a) = k_selfdestruct keccak a"
| "run_op keccak (Mark_created a) = k_mark_created keccak a"
| "run_op keccak (Load_slot a slot) = bind (k_sload keccak a slot) (\<lambda>_. ret ())"
| "run_op keccak (Store_slot a slot v) = k_sstore a slot v"
| "run_op keccak (Store_transient a slot v) = k_tstore a slot v"
| "run_op keccak (Warm_account a) = k_account_mark_warm a"
| "run_op keccak (Warm_slot a slot) = k_slot_mark_warm a slot"
| "run_op keccak (Emit_log a topics data) = k_log a topics data"
| "run_op keccak (Burn_log a v) = k_emit_burn_log a v"
| "run_op keccak (Subframe committed ops) =
     bind state_journal_checkpoint (\<lambda>_.
     bind (run_ops keccak ops) (\<lambda>x.
     bind (if committed then state_journal_commit else state_journal_revert) (\<lambda>_. ret x)))"
| "run_ops keccak [] = ret ()"
| "run_ops keccak (op # ops) = bind (run_op keccak op) (\<lambda>_. run_ops keccak ops)"

lemmas kernel_journaled = k_transfer_journaled k_bump_nonce_journaled k_add_balance_journaled
  k_sub_balance_journaled k_zero_balance_journaled k_clear_storage_journaled
  k_clear_code_journaled k_deploy_code_journaled k_set_delegation_journaled
  k_selfdestruct_journaled k_mark_created_journaled journaled_if_world_kept [OF k_sload_kept]
  k_sstore_journaled k_tstore_journaled k_account_mark_warm_journaled k_slot_mark_warm_journaled
  k_log_journaled k_emit_burn_log_journaled

lemma run_ops_journaled:
  fixes op :: kernel_op and ops :: "kernel_op list" and keccak :: hash_function
  shows "journaled (run_op keccak op :: ('z, unit) kernel)"
    and "journaled (run_ops keccak ops :: ('z, unit) kernel)"
proof (induction keccak op and keccak ops rule: run_op_run_ops.induct)
  case (19 keccak committed ops)
  then show ?case
    using journaled_frame_committed [OF 19] journaled_frame_reverted [OF 19]
    by (simp add: frame_committed_def frame_reverted_def)
next
  case (20 keccak)
  show ?case by (simp only: run_ops.simps journaled.keeps_ret)
qed (simp_all only: run_op.simps run_ops.simps journaled.keeps_bind journaled.keeps_ret
    kernel_journaled)

section \<open>Properties\<close>

text \<open>C4: Atomic frames: whatever kernel operations a call frame runs (transfers, nonce and balance
  changes, storage, transient storage, code deployment, delegation, self-destruction, logs, warm
  marks, and nested frames that commit or revert), reverting the frame succeeds and restores the
  accounts, storage, logs, transient slots, warm sets and generations from before the frame.\<close>

theorem kernel_frame_reverts:
  assumes "world_ok s"
    and "bind state_journal_checkpoint (\<lambda>_. run_ops keccak ops) s = Inr ((), u)"
  shows "\<exists>t. run_op keccak (Subframe False ops) s = Inr ((), t) \<and>
    same_world t s \<and> journal t = journal s \<and> world_ok t"
  using frame_reverted_restores [OF run_ops_journaled(2) assms(1)] assms(2)
  by (fastforce simp: frame_reverted_def checkpoint_run)

lemma world_ok_initial_kernel: "world_ok initial_kernel_state"
  using world_ok_initial
  by (simp add: world_ok_def current_account_def storage_generation_def initial_kernel_state_def
      host_state.defs cong: option.case_cong)

theorem kernel_frame_reverts_witness:
  "\<exists>t. run_op (\<lambda>_. replicate 32 0) (Subframe False [Store_transient (replicate 20 1) 3 7,
      Emit_log (replicate 20 1) (LogTopics1 5) (LogDataWord 6),
      Subframe True [Warm_slot (replicate 20 2) 9]]) initial_kernel_state = Inr ((), t) \<and>
    same_world t initial_kernel_state"
proof -
  let ?ops = "[Store_transient (replicate 20 1) 3 7,
      Emit_log (replicate 20 1) (LogTopics1 5) (LogDataWord 6),
      Subframe True [Warm_slot (replicate 20 2) 9]]"
  have "\<exists>u. bind state_journal_checkpoint (\<lambda>_. run_ops (\<lambda>_. replicate 32 0) ?ops) initial_kernel_state =
      Inr ((), u)"
    by (simp add: checkpoint_run k_tstore_def transient_store_def k_log_def log_begin_def
        k_log_topics_def k_log_data_def log_add_topic_def log_add_data_word_def append_log_data_def
        update_current_log_def k_slot_mark_warm_def storage_mark_warm_def journal_append_def
        state_journal_commit_def open_checkpoint_index_def Let_def action_simps dict_get_default_def
        dict_get_def do_when_def initial_kernel_state_def
        host_state.defs initial_host_state_def)
  then obtain u where run: "bind state_journal_checkpoint (\<lambda>_. run_ops (\<lambda>_. replicate 32 0) ?ops)
      initial_kernel_state = Inr ((), u)" by (elim exE)
  from kernel_frame_reverts [OF world_ok_initial_kernel run] show ?thesis
    by (elim exE conjE) (intro exI conjI, assumption)
qed

text \<open>C13: A transfer moves value: between two loaded accounts it takes the amount from the source and
  adds it to the destination, modulo 2^256, and leaves their nonces, code hashes and marks of creation
  and destruction alone; a source that is left with nothing at all is no longer present. Other accounts
  and the validity of their storage, all storage rows and the transient storage stay as they were. No
  log is written before Amsterdam, and one from then on, the EIP-7708 log with source, destination and
  value.\<close>

theorem transfer_moves_value:
  fixes s :: "'z kernel_state_scheme"
  assumes "src \<noteq> dst" and "v \<noteq> 0" and "0 \<le> v" and "v \<le> balance (info a)"
    and "balance (info a) < 2 ^ 256" and "0 \<le> balance (info b)" and "balance (info b) < 2 ^ 256"
    and "current_account s (address_key src) = Some a"
    and "current_account s (address_key dst) = Some b"
    and "k_transfer keccak src dst v s = Inr (x, t)"
  shows "\<exists>a' b'. current_account t (address_key src) = Some a' \<and>
    current_account t (address_key dst) = Some b' \<and>
    balance (info a') = balance (info a) - v \<and>
    balance (info b') = (balance (info b) + v) mod 2 ^ 256 \<and>
    nonce (info a') = nonce (info a) \<and> nonce (info b') = nonce (info b) \<and>
    code_hash (info a') = code_hash (info a) \<and> code_hash (info b') = code_hash (info b) \<and>
    present a' = (\<not> (balance (info a) = v \<and> nonce (info a) = 0 \<and> code_hash (info a) = KECCAK_EMPTY)) \<and>
    created a' = created a \<and> created b' = created b \<and>
    selfdestructed a' = selfdestructed a \<and> selfdestructed b' = selfdestructed b \<and>
    (\<forall>k. k \<noteq> address_key src \<longrightarrow> k \<noteq> address_key dst \<longrightarrow>
      current_account t k = current_account s k \<and> storage_generation t k = storage_generation s k) \<and>
    storage_tx t = storage_tx s \<and> transient t = transient s \<and> transfer_logged src dst v s t"
proof -
  have "\<not> word_is_zero v" using assms(2) by (simp add: word_is_zero_def word_constants)
  note effect = k_transfer_effect [OF assms(1) this assms(8-10)]
  have "alu_sub (balance (info a)) v = balance (info a) - v"
    using assms(4) by (simp add: alu_sub_def word_sub_word_def)
  moreover have "alu_add (balance (info b)) v = (balance (info b) + v) mod 2 ^ 256"
    using assms(3,6) by (simp add: alu_add_def word_add_word_def sail_tmod_int_nonneg)
  ultimately show ?thesis
    using effect assms(4)
    by (auto simp: account_set_info_fields)
      (auto simp: account_set_info_def account_info_empty_def word_is_zero_def word_constants)
qed

definition rich_account :: account where
  "rich_account = EMPTY_ACCOUNT\<lparr>info := EMPTY_ACCOUNT_INFO\<lparr>balance := 10\<rparr>, present := True\<rparr>"

definition two_account_state :: kernel_state where
  "two_account_state = initial_kernel_state\<lparr>account_tx :=
     [(replicate 20 1, \<lparr>atr_current = rich_account, atr_original = rich_account\<rparr>),
      (replicate 20 2, \<lparr>atr_current = rich_account, atr_original = rich_account\<rparr>)]\<rparr>"

theorem transfer_moves_value_witness:
  "\<exists>t a' b'. k_transfer (\<lambda>_. replicate 32 0) (replicate 20 1) (replicate 20 2) 3 two_account_state =
      Inr ((), t) \<and> current_account t (replicate 20 1) = Some a' \<and> balance (info a') = 7 \<and>
    current_account t (replicate 20 2) = Some b' \<and> balance (info b') = 13"
proof -
  have "\<exists>t. k_transfer (\<lambda>_. replicate 32 0) (replicate 20 1) (replicate 20 2) 3 two_account_state =
      Inr ((), t)"
    by (simp add: k_transfer_def k_aload_def acct_tx_get_def two_account_state_def
        initial_kernel_state_def host_state.defs initial_host_state_def dict_get_def
        address_key_def fixed_wire_bytes_def word_is_zero_def word_constants
        store_account_info_def account_info_empty_def rich_account_def EMPTY_ACCOUNT_def
        EMPTY_ACCOUNT_INFO_def account_set_info_def account_tx_required_def acct_tx_set_balance_def
        set_info_def set_current_def journal_append_def open_checkpoint_index_def
        k_emit_transfer_log_def active_fork_def default_execution_profile_def
        k_log_def log_begin_def k_log_topics_def k_log_data_def log_add_topic_def
        log_add_data_word_def append_log_data_def update_current_log_def dict_set_def
        alu_sub_def alu_add_def word_sub_word_def word_add_word_def sail_tmod_int_nonneg
        Let_def action_simps do_when_def cong: option.case_cong)
  then obtain t where run: "k_transfer (\<lambda>_. replicate 32 0) (replicate 20 1) (replicate 20 2) 3
      two_account_state = Inr ((), t)" by (elim exE)
  have accounts: "current_account two_account_state (address_key (replicate 20 1)) = Some rich_account"
    "current_account two_account_state (address_key (replicate 20 2)) = Some rich_account"
    by (simp_all add: two_account_state_def current_account_def dict_get_def address_key_def fixed_wire_bytes_def
        initial_kernel_state_def host_state.defs)
  have distinct: "(replicate 20 1 :: address) \<noteq> replicate 20 2" by simp
  have "balance (info rich_account) = 10" by (simp add: rich_account_def)
  with transfer_moves_value [OF distinct _ _ _ _ _ _ accounts run] run show ?thesis
    by (auto simp: address_key_def fixed_wire_bytes_def)
qed

end
