(* ===== verification/Kernel_Lifecycle.thy ===== *)
theory Kernel_Lifecycle
  imports Kernel_Journal
begin

text \<open>
  The end of a transaction (\<open>kernel/lifecycle.py\<close>). The two loops of \<open>k_tx_merge\<close> pop the rows
  of the transaction until none is left; they are recursive functions whose measure is the
  number of rows. \<open>transaction_merge_commits\<close> says what the block holds afterwards.
\<close>

section \<open>Transactions\<close>

definition k_journal_checkpoint :: "('z, unit) host" where
  "k_journal_checkpoint = state_journal_checkpoint"

definition k_journal_revert :: "('z, unit) host" where
  "k_journal_revert = state_journal_revert"

definition k_journal_commit :: "('z, unit) host" where
  "k_journal_commit = state_journal_commit"

definition k_set_header :: "block_header \<Rightarrow> ('z, unit) kernel" where
  "k_set_header h = modify (\<lambda>s. s\<lparr>k_header := h\<rparr>)"

definition k_set_tx :: "tx_env \<Rightarrow> ('z, unit) kernel" where
  "k_set_tx env = modify (\<lambda>s. s\<lparr>k_tx := env\<rparr>)"

definition k_tx_reset :: "('z, unit) kernel" where
  "k_tx_reset =
     bind storage_tx_reset (\<lambda>_.
     bind acct_tx_reset (\<lambda>_.
     bind (reads k_current_transaction_epoch) (\<lambda>epoch.
     bind (warm_reset epoch) (\<lambda>_.
     bind transient_reset (\<lambda>_.
     bind logs_tx_reset (\<lambda>_.
     state_journal_reset))))))"

record transaction_merge_semantics =
  delete_only_created :: bool
  preserve_selfdestruct_balance :: bool

definition transaction_merge_semantics_of :: "fork \<Rightarrow> transaction_merge_semantics" where
  "transaction_merge_semantics_of fork =
     (if fork \<ge> Amsterdam
      then \<lparr>delete_only_created = True, preserve_selfdestruct_balance = True\<rparr>
      else if fork \<ge> Cancun
      then \<lparr>delete_only_created = True, preserve_selfdestruct_balance = False\<rparr>
      else \<lparr>delete_only_created = False, preserve_selfdestruct_balance = False\<rparr>)"

definition account_deleted_at_tx_end :: "transaction_merge_semantics \<Rightarrow> account \<Rightarrow> bool" where
  "account_deleted_at_tx_end semantics acc \<longleftrightarrow>
     selfdestructed acc \<and> (\<not> delete_only_created semantics \<or> created acc)"

text \<open>The body of the first loop for one popped account.\<close>

definition merge_account ::
    "hash_function \<Rightarrow> transaction_merge_semantics \<Rightarrow> acct_entry \<Rightarrow> ('z, unit) kernel" where
  "merge_account keccak semantics e =
     (let acc = acct_curr (acct_val e); before = acct_orig (acct_val e);
          deleted = account_deleted_at_tx_end semantics acc;
          next = (if deleted then
                    if preserve_selfdestruct_balance semantics
                    then account_clear_preserving_balance acc else account_delete acc
                  else acc);
          original_storage_retained = (\<not> storage_cleared before) in
     bind (do_when deleted (storage_tx_clear (acct_addr e))) (\<lambda>_.
     bind (do_when (deleted \<or> storage_cleared next \<and> original_storage_retained)
       (storage_block_clear (acct_addr e))) (\<lambda>_.
     bind (reads k_current_transaction_epoch) (\<lambda>epoch.
     bind (do_when (nonce (info next) \<noteq> nonce (info before))
       (bal_nonce_change epoch (acct_addr e) (nonce (info next)))) (\<lambda>_.
     bind (do_when (balance (info next) \<noteq> balance (info before))
       (bal_balance_change epoch (acct_addr e) (balance (info next)))) (\<lambda>_.
     bind (do_when (code_hash (info next) \<noteq> code_hash (info before))
       (bal_code_change epoch (acct_addr e) (code_hash (info next)))) (\<lambda>_.
     let settled = next\<lparr>created := False, selfdestructed := False\<rparr>;
         changed = account_changed settled before in
     do_when changed
       (acct_block_write keccak \<lparr>acct_addr = acct_addr e,
          acct_val = \<lparr>acct_curr = settled, acct_orig = before\<rparr>\<rparr>))))))))"

text \<open>What a merge step does to the rows that are still to be popped: nothing.\<close>

definition rows_kept :: "'z host_state_scheme \<Rightarrow> 'z host_state_scheme \<Rightarrow> bool" where
  "rows_kept s t \<longleftrightarrow> account_tx t = account_tx s \<and> storage_tx t = storage_tx s"

interpretation rows: action_invariant rows_kept
  by unfold_locales (auto simp: rows_kept_def)

lemma rows_modify:
  "(\<And>s. account_tx (f s) = account_tx s \<and> storage_tx (f s) = storage_tx s) \<Longrightarrow>
    keeps rows_kept (modify f)"
  by (simp add: keeps_def rows_kept_def)

lemma bal_touch_rows: "keeps rows_kept (bal_touch a :: ('z, bytes) kernel)"
  unfolding bal_touch_def Let_def by (intro rows.keeps_rules rows_modify) simp

lemma bal_change_rows:
  "keeps rows_kept (bal_nonce_change i a v :: ('z, unit) kernel)"
  "keeps rows_kept (bal_balance_change i a v :: ('z, unit) kernel)"
  "keeps rows_kept (bal_code_change i a h :: ('z, unit) kernel)"
  "keeps rows_kept (bal_storage_change i a slot v :: ('z, unit) kernel)"
  unfolding bal_nonce_change_def bal_balance_change_def bal_code_change_def
    bal_storage_change_def
  by (intro rows.keeps_rules rows_modify bal_touch_rows; simp)+

lemma storage_tx_clear_rows: "keeps rows_kept (storage_tx_clear a :: ('z, unit) kernel)"
  unfolding storage_tx_clear_def journal_append_def Let_def
  by (intro rows.keeps_rules rows_modify) simp_all

lemma storage_block_clear_rows: "keeps rows_kept (storage_block_clear a :: ('z, unit) kernel)"
  unfolding storage_block_clear_def by (intro rows_modify) simp

lemma acct_block_write_rows: "keeps rows_kept (acct_block_write keccak e :: ('z, unit) kernel)"
  unfolding acct_block_write_def by (intro rows_modify) (simp add: Let_def)

lemma storage_block_put_rows: "keeps rows_kept (storage_block_put keccak e :: ('z, unit) kernel)"
  unfolding storage_block_put_def
  by (intro rows_modify) (simp add: Let_def split: option.splits)

lemma merge_account_rows: "keeps rows_kept (merge_account keccak semantics e :: ('z, unit) kernel)"
  unfolding merge_account_def Let_def
  by (intro rows.keeps_rules bal_change_rows storage_tx_clear_rows storage_block_clear_rows
      acct_block_write_rows)

lemma acct_tx_pop_row:
  "acct_tx_pop s = Inr (AcctTxPopRow e, t) \<Longrightarrow> length (account_tx t) < length (account_tx s)"
  by (auto simp: acct_tx_pop_def action_simps Let_def split: if_splits)

function merge_accounts ::
    "hash_function \<Rightarrow> transaction_merge_semantics \<Rightarrow> ('z, unit) kernel" where
  "merge_accounts keccak semantics s =
     (case acct_tx_pop s of
        Inl err \<Rightarrow> Inl err
      | Inr (AcctTxPopExhausted, t) \<Rightarrow> Inr ((), t)
      | Inr (AcctTxPopRow e, t) \<Rightarrow>
          (case merge_account keccak semantics e t of
             Inl err \<Rightarrow> Inl err
           | Inr (_, u) \<Rightarrow> merge_accounts keccak semantics u))"
  by pat_completeness auto
termination
  by (relation "measure (\<lambda>(_, _, s). length (account_tx s))")
    (auto dest!: acct_tx_pop_row keepsD [OF merge_account_rows] simp: rows_kept_def)

declare merge_accounts.simps [simp del]

text \<open>The body of the second loop for one popped slot.\<close>

definition merge_storage :: "hash_function \<Rightarrow> storage_entry \<Rightarrow> ('z, unit) kernel" where
  "merge_storage keccak e =
     bind (acct_block_get (key_addr (entry_key e))) (\<lambda>account.
     do_when (found account)
       (let acc = row_account account in
        do_when (present acc \<and> curr (entry_value e) \<noteq> orig (entry_value e))
          (bind (reads k_current_transaction_epoch) (\<lambda>epoch.
           bind (bal_storage_change epoch (key_addr (entry_key e)) (key_slot (entry_key e))
             (curr (entry_value e))) (\<lambda>_.
           storage_block_put keccak e)))))"

lemma merge_storage_rows: "keeps rows_kept (merge_storage keccak e :: ('z, unit) kernel)"
  unfolding merge_storage_def Let_def acct_block_get_def
  by (intro rows.keeps_rules bal_change_rows storage_block_put_rows)

lemma storage_tx_pop_loop_shorter:
  "fst (storage_tx_pop_loop gen rows) = StorageTxPopRow e \<Longrightarrow>
    length (snd (storage_tx_pop_loop gen rows)) < length rows"
proof (induction rows)
  case (Cons row rows)
  then show ?case
    by (cases row) (auto split: if_splits)
qed simp

lemma storage_tx_pop_row:
  "storage_tx_pop s = Inr (StorageTxPopRow e, t) \<Longrightarrow>
    length (storage_tx t) < length (storage_tx s)"
  using storage_tx_pop_loop_shorter [of "storage_generation s" "rev (storage_tx s)" e]
  by (auto simp: storage_tx_pop_def action_simps)

function merge_storages :: "hash_function \<Rightarrow> ('z, unit) kernel" where
  "merge_storages keccak s =
     (case storage_tx_pop s of
        Inl err \<Rightarrow> Inl err
      | Inr (StorageTxPopExhausted, t) \<Rightarrow> Inr ((), t)
      | Inr (StorageTxPopRow e, t) \<Rightarrow>
          (case merge_storage keccak e t of
             Inl err \<Rightarrow> Inl err
           | Inr (_, u) \<Rightarrow> merge_storages keccak u))"
  by pat_completeness auto
termination
  by (relation "measure (\<lambda>(_, s). length (storage_tx s))")
    (auto dest!: storage_tx_pop_row keepsD [OF merge_storage_rows] simp: rows_kept_def)

declare merge_storages.simps [simp del]

definition k_tx_merge :: "hash_function \<Rightarrow> ('z, unit) kernel" where
  "k_tx_merge keccak =
     bind active_fork (\<lambda>fork.
     let semantics = transaction_merge_semantics_of fork in
     bind (merge_accounts keccak semantics) (\<lambda>_.
     bind (merge_storages keccak) (\<lambda>_.
     bind storage_tx_reset (\<lambda>_. acct_tx_reset))))"

section \<open>What the account loop does\<close>

text \<open>
  The reference: an account ends with the transaction when it destroyed itself and, where that is
  required, was created in the transaction; then nonce, code and storage are gone, and the balance
  too unless it is kept. \<open>settle\<close> is the account a popped row leaves behind, \<open>drops\<close> says that the
  row also removes the cached slots of its account from the block. \<open>accounts_merged sem rows s t\<close>
  describes the state \<open>t\<close> after the rows were merged into \<open>s\<close>.
\<close>

definition ends_destroyed :: "transaction_merge_semantics \<Rightarrow> account \<Rightarrow> bool" where
  "ends_destroyed sem acc \<longleftrightarrow> selfdestructed acc \<and> (delete_only_created sem \<longrightarrow> created acc)"

definition emptied :: "bool \<Rightarrow> account \<Rightarrow> account" where
  "emptied keep_balance acc =
     (let kept = (if keep_balance then balance (info acc) else 0) in
      acc\<lparr>info := \<lparr>nonce = 0, balance = kept, code_hash = KECCAK_EMPTY,
        storage_root = storage_root (info acc)\<rparr>, present := (kept \<noteq> 0), storage_cleared := True\<rparr>)"

definition settle :: "transaction_merge_semantics \<Rightarrow> account \<Rightarrow> account" where
  "settle sem acc =
     (if ends_destroyed sem acc then emptied (preserve_selfdestruct_balance sem) acc
      else acc)\<lparr>created := False, selfdestructed := False\<rparr>"

lemma deleted_ends: "account_deleted_at_tx_end sem acc = ends_destroyed sem acc"
  by (auto simp: account_deleted_at_tx_end_def ends_destroyed_def)

lemma settle_code:
  "settle sem acc =
     (if ends_destroyed sem acc
      then if preserve_selfdestruct_balance sem then account_clear_preserving_balance acc
           else account_delete acc
      else acc)\<lparr>created := False, selfdestructed := False\<rparr>"
  by (auto simp: settle_def emptied_def Let_def account_delete_def EMPTY_ACCOUNT_INFO_def
      account_clear_preserving_balance_def account_clear_storage_def account_set_info_def
      account_info_empty_def word_is_zero_def word_constants)

definition drops :: "transaction_merge_semantics \<Rightarrow> account_tx_row \<Rightarrow> bool" where
  "drops sem row \<longleftrightarrow> ends_destroyed sem (atr_current row) \<or>
     storage_cleared (settle sem (atr_current row)) \<and> \<not> storage_cleared (atr_original row)"

definition block_account :: "'z host_state_scheme \<Rightarrow> bytes \<Rightarrow> account option" where
  "block_account s k = map_option (\<lambda>b. acct_curr (abr_value b)) (dict_get (account_block s) k)"

definition addresses_ok :: "'z host_state_scheme \<Rightarrow> bool" where
  "addresses_ok s \<longleftrightarrow>
     (\<forall>k b. dict_get (account_block s) k = Some b \<longrightarrow> address_key (abr_address b) = k)"

definition row_deletes ::
    "transaction_merge_semantics \<Rightarrow> (bytes, account_tx_row) dict \<Rightarrow> bytes \<Rightarrow> bool" where
  "row_deletes sem rows k = (case dict_get rows k of
     None \<Rightarrow> False | Some row \<Rightarrow> ends_destroyed sem (atr_current row))"

definition row_drops ::
    "transaction_merge_semantics \<Rightarrow> (bytes, account_tx_row) dict \<Rightarrow> bytes \<Rightarrow> bool" where
  "row_drops sem rows k = (case dict_get rows k of None \<Rightarrow> False | Some row \<Rightarrow> drops sem row)"

definition row_change ::
    "transaction_merge_semantics \<Rightarrow> (bytes, account_tx_row) dict \<Rightarrow> bytes \<Rightarrow> account option" where
  "row_change sem rows k = (case dict_get rows k of
     None \<Rightarrow> None
   | Some row \<Rightarrow> if account_changed (settle sem (atr_current row)) (atr_original row)
       then Some (settle sem (atr_current row)) else None)"

definition accounts_merged ::
    "transaction_merge_semantics \<Rightarrow> (bytes, account_tx_row) dict
      \<Rightarrow> 'z host_state_scheme \<Rightarrow> 'z host_state_scheme \<Rightarrow> bool" where
  "accounts_merged sem rows s t \<longleftrightarrow>
     storage_tx t = storage_tx s \<and> (addresses_ok s \<longrightarrow> addresses_ok t) \<and>
     (\<forall>k. block_account t k = (case row_change sem rows k of
        None \<Rightarrow> block_account s k | Some acc \<Rightarrow> Some acc)) \<and>
     (\<forall>k. dict_get (storage_block t) k =
        (if row_drops sem rows (fst k) then None else dict_get (storage_block s) k)) \<and>
     storage_next_generation s \<le> storage_next_generation t \<and>
     (\<forall>k. row_deletes sem rows k \<longrightarrow> storage_next_generation s < storage_generation t k) \<and>
     (\<forall>k. \<not> row_deletes sem rows k \<longrightarrow> storage_generation t k = storage_generation s k)"

lemmas row_readings = row_deletes_def row_drops_def row_change_def

lemma row_reading_Nil [simp]:
  "row_deletes sem [] k = False" "row_drops sem [] k = False" "row_change sem [] k = None"
  by (simp_all add: row_readings dict_get_def)

lemma dict_get_single: "dict_get [(k, v)] k' = (if k' = k then Some v else None)"
  by (simp add: dict_get_def)

lemma dict_get_snoc:
  "dict_get d key = None \<Longrightarrow> dict_get (d @ [(key, v)]) k = (if k = key then Some v else dict_get d k)"
  by (auto simp: dict_get_def map_add_def split: option.splits)

lemma row_reading_snoc:
  assumes "dict_get rows key = None"
  shows "row_deletes sem (rows @ [(key, row)]) k =
      (if k = key then row_deletes sem [(key, row)] key else row_deletes sem rows k)"
    and "row_drops sem (rows @ [(key, row)]) k =
      (if k = key then row_drops sem [(key, row)] key else row_drops sem rows k)"
    and "row_change sem (rows @ [(key, row)]) k =
      (if k = key then row_change sem [(key, row)] key else row_change sem rows k)"
  using assms by (simp_all add: row_readings dict_get_snoc) (simp_all add: dict_get_def)

lemma row_reading_single:
  "k \<noteq> key \<Longrightarrow> row_deletes sem [(key, row)] k = False"
  "k \<noteq> key \<Longrightarrow> row_drops sem [(key, row)] k = False"
  "k \<noteq> key \<Longrightarrow> row_change sem [(key, row)] k = None"
  by (simp_all add: row_readings dict_get_def)

lemma row_reading_none:
  assumes "dict_get rows key = None"
  shows "row_deletes sem rows key = False" "row_drops sem rows key = False"
    "row_change sem rows key = None"
  using assms by (simp_all add: row_readings)

lemma accounts_merged_Nil: "accounts_merged sem [] s s"
  by (simp add: accounts_merged_def)

lemma accounts_merged_snoc:
  assumes st: "accounts_merged sem [(key, row)] s t" and tu: "accounts_merged sem rows t u"
    and new: "dict_get rows key = None"
  shows "accounts_merged sem (rows @ [(key, row)]) s u"
  unfolding accounts_merged_def
proof (intro conjI allI impI)
  note st = st [unfolded accounts_merged_def] and tu = tu [unfolded accounts_merged_def]
  note snoc = row_reading_snoc [OF new] row_reading_none [OF new] row_reading_single
  show "storage_tx u = storage_tx s" "storage_next_generation s \<le> storage_next_generation u"
    using st tu by simp_all
  show "addresses_ok u" if "addresses_ok s" using st tu that by blast
  show "block_account u k = (case row_change sem (rows @ [(key, row)]) k of
      None \<Rightarrow> block_account s k | Some acc \<Rightarrow> Some acc)" for k
    using st tu snoc by (cases "k = key") (simp_all cong: option.case_cong)
  show "dict_get (storage_block u) k = (if row_drops sem (rows @ [(key, row)]) (fst k) then None
      else dict_get (storage_block s) k)" for k
    using st tu snoc by (cases k; cases "fst k = key") simp_all
  show "storage_generation u k = storage_generation s k"
    if "\<not> row_deletes sem (rows @ [(key, row)]) k" for k
    using st tu snoc that by (cases "k = key") simp_all
  show "storage_next_generation s < storage_generation u k"
    if "row_deletes sem (rows @ [(key, row)]) k" for k
  proof (cases "k = key")
    case True
    then show ?thesis using st tu snoc that by simp
  next
    case False
    then have "storage_next_generation t < storage_generation u k" using tu snoc that by simp
    then show ?thesis using st by linarith
  qed
qed

lemma dict_get_filter_address:
  "dict_get (filter (\<lambda>(storage_key, row). fst storage_key \<noteq> a) d) key =
    (if fst key = a then None else dict_get d key)"
  by (induction d) (auto simp: dict_get_def)

text \<open>The events of the access list leave accounts, slots and generations alone.\<close>

definition world_part_kept :: "'z host_state_scheme \<Rightarrow> 'z host_state_scheme \<Rightarrow> bool" where
  "world_part_kept s t \<longleftrightarrow> storage_tx t = storage_tx s \<and> account_tx t = account_tx s \<and>
     account_block t = account_block s \<and>
     storage_block t = storage_block s \<and> storage_next_generation t = storage_next_generation s \<and>
     storage_generations t = storage_generations s"

interpretation world_part: action_invariant world_part_kept
  by unfold_locales (auto simp: world_part_kept_def)

lemma bal_change_world:
  "keeps world_part_kept (bal_nonce_change i a v :: ('z, unit) kernel)"
  "keeps world_part_kept (bal_balance_change i a v :: ('z, unit) kernel)"
  "keeps world_part_kept (bal_code_change i a h :: ('z, unit) kernel)"
  "keeps world_part_kept (bal_storage_change i a slot v :: ('z, unit) kernel)"
  unfolding bal_nonce_change_def bal_balance_change_def bal_code_change_def
    bal_storage_change_def bal_touch_def Let_def
  by (intro world_part.keeps_rules keeps_modify; simp add: world_part_kept_def)+

text \<open>One popped account: the steps of the body one after the other.\<close>

lemma account_delete_flags:
  "account_changed (settle sem acc) before \<longleftrightarrow>
    account_changed ((if ends_destroyed sem acc
      then if preserve_selfdestruct_balance sem then account_clear_preserving_balance acc
           else account_delete acc
      else acc)\<lparr>created := False, selfdestructed := False\<rparr>) before"
  by (simp add: settle_code)

lemma storage_cleared_settle:
  "storage_cleared (settle sem acc) = storage_cleared (if ends_destroyed sem acc
      then if preserve_selfdestruct_balance sem then account_clear_preserving_balance acc
           else account_delete acc
      else acc)"
  by (simp add: settle_code)

lemma bal_changes_run:
  fixes s :: "'z kernel_state_scheme"
  shows "\<exists>t. do_when b1 (bal_nonce_change i a n) s = Inr ((), t) \<and> world_part_kept s t"
    and "\<exists>t. do_when b2 (bal_balance_change i a v) s = Inr ((), t) \<and> world_part_kept s t"
    and "\<exists>t. do_when b3 (bal_code_change i a h) s = Inr ((), t) \<and> world_part_kept s t"
  by (simp_all add: do_when_run bal_nonce_change_def bal_balance_change_def bal_code_change_def
      bal_touch_def Let_def action_simps world_part_kept_def)

lemma merge_account_run:
  fixes s :: "'z kernel_state_scheme"
  assumes a: "address_key a = key" and row: "row = \<lparr>atr_current = acc, atr_original = before\<rparr>"
  shows "\<exists>t. merge_account keccak sem \<lparr>acct_addr = a,
      acct_val = \<lparr>acct_curr = acc, acct_orig = before\<rparr>\<rparr> s = Inr ((), t) \<and>
    account_tx t = account_tx s \<and> accounts_merged sem [(key, row)] s t"
proof -
  let ?deleted = "ends_destroyed sem acc" and ?settled = "settle sem acc"
  let ?next = "if ?deleted then if preserve_selfdestruct_balance sem
    then account_clear_preserving_balance acc else account_delete acc else acc"
  let ?epoch = "k_current_transaction_epoch s"
  obtain s1 where s1: "do_when ?deleted (storage_tx_clear a) s = Inr ((), s1)"
    and kept1: "storage_tx s1 = storage_tx s" "account_tx s1 = account_tx s"
      "account_block s1 = account_block s" "storage_block s1 = storage_block s"
      "k_current_transaction_epoch s1 = ?epoch"
      "storage_next_generation s \<le> storage_next_generation s1"
    and gen1: "\<And>k. if k = key \<and> ?deleted then storage_next_generation s < storage_generation s1 k
      else storage_generation s1 k = storage_generation s k"
    by (cases ?deleted)
      (auto simp: do_when_run storage_tx_clear_def journal_append_def action_simps Let_def
        storage_generation_def dict_get_default_set a)
  define s2 where "s2 = (if drops sem row
    then s1\<lparr>storage_block := filter (\<lambda>(storage_key, row). fst storage_key \<noteq> key)
      (storage_block s1)\<rparr> else s1)"
  have s2: "do_when (?deleted \<or> storage_cleared ?next \<and> \<not> storage_cleared before)
      (storage_block_clear a) s1 = Inr ((), s2)"
    by (simp add: s2_def drops_def row storage_cleared_settle do_when_run storage_block_clear_def a)
  have kept2: "storage_tx s2 = storage_tx s1" "account_tx s2 = account_tx s1"
    "account_block s2 = account_block s1" "k_current_transaction_epoch s2 = ?epoch"
    "storage_next_generation s2 = storage_next_generation s1"
    "storage_generations s2 = storage_generations s1"
    using kept1 by (simp_all add: s2_def)
  obtain s3 where s3: "do_when (nonce (info ?next) \<noteq> nonce (info before))
      (bal_nonce_change ?epoch a (nonce (info ?next))) s2 = Inr ((), s3)" "world_part_kept s2 s3"
    using bal_changes_run(1) by blast
  obtain s4 where s4: "do_when (balance (info ?next) \<noteq> balance (info before))
      (bal_balance_change ?epoch a (balance (info ?next))) s3 = Inr ((), s4)" "world_part_kept s3 s4"
    using bal_changes_run(2) by blast
  obtain s5 where s5: "do_when (code_hash (info ?next) \<noteq> code_hash (info before))
      (bal_code_change ?epoch a (code_hash (info ?next))) s4 = Inr ((), s5)" "world_part_kept s4 s5"
    using bal_changes_run(3) by blast
  have kept5: "world_part_kept s2 s5"
    using s3(2) s4(2) s5(2) by (blast intro: world_part.related_trans)
  have run: "merge_account keccak sem \<lparr>acct_addr = a,
      acct_val = \<lparr>acct_curr = acc, acct_orig = before\<rparr>\<rparr> s =
    do_when (account_changed ?settled before) (acct_block_write keccak \<lparr>acct_addr = a,
      acct_val = \<lparr>acct_curr = ?settled, acct_orig = before\<rparr>\<rparr>) s5"
    unfolding merge_account_def Let_def settle_code deleted_ends
    by (simp add: s1 s2 s3(1) s4(1) s5(1) kept2 cong del: if_weak_cong)
  obtain t where t: "do_when (account_changed ?settled before) (acct_block_write keccak
      \<lparr>acct_addr = a, acct_val = \<lparr>acct_curr = ?settled, acct_orig = before\<rparr>\<rparr>) s5 = Inr ((), t)"
    and world: "storage_tx t = storage_tx s5" "account_tx t = account_tx s5"
      "storage_block t = storage_block s5" "storage_next_generation t = storage_next_generation s5"
      "storage_generations t = storage_generations s5" "addresses_ok s5 \<Longrightarrow> addresses_ok t"
      "\<And>k. block_account t k = (if k = key \<and> account_changed ?settled before
        then Some ?settled else block_account s5 k)"
    by (cases "account_changed ?settled before")
      (auto simp: do_when_run acct_block_write_def Let_def a block_account_def dict_get_set
        addresses_ok_def)
  have "accounts_merged sem [(key, row)] s t"
    unfolding accounts_merged_def
  proof (intro conjI allI impI)
    note k5 = kept5 [unfolded world_part_kept_def]
    show "storage_tx t = storage_tx s"
      "storage_next_generation s \<le> storage_next_generation t"
      using k5 kept1 kept2 world by simp_all
    show "addresses_ok t" if "addresses_ok s"
      using that k5 kept1 kept2 world(6) by (simp add: addresses_ok_def)
    show "block_account t k = (case row_change sem [(key, row)] k of
        None \<Rightarrow> block_account s k | Some acc \<Rightarrow> Some acc)" for k
    proof -
      have "block_account s5 k = block_account s k"
        using k5 kept1 kept2 by (simp add: block_account_def)
      then show ?thesis by (simp add: world(7) row row_change_def dict_get_single)
    qed
    show "dict_get (storage_block t) k = (if row_drops sem [(key, row)] (fst k) then None
        else dict_get (storage_block s) k)" for k
    proof -
      have "storage_block t = storage_block s2" using k5 world(3) by simp
      moreover have "storage_block s2 = (if drops sem row
          then filter (\<lambda>(storage_key, row). fst storage_key \<noteq> key) (storage_block s)
          else storage_block s)"
        by (simp add: s2_def kept1)
      ultimately show ?thesis by (simp add: row_drops_def dict_get_single dict_get_filter_address)
    qed
    have gen: "storage_generation t k = storage_generation s1 k" for k
      using k5 kept2 world(5) by (simp add: storage_generation_def)
    show "storage_next_generation s < storage_generation t k" if "row_deletes sem [(key, row)] k" for k
      using that gen1 [of k] by (auto simp: gen row_deletes_def dict_get_single row split: if_splits)
    show "storage_generation t k = storage_generation s k"
      if "\<not> row_deletes sem [(key, row)] k" for k
      using that gen1 [of k] by (auto simp: gen row_deletes_def dict_get_single row split: if_splits)
  qed
  then show ?thesis
    using run t world(2) kept1 kept2 kept5 by (simp add: world_part_kept_def)
qed

lemma merge_accounts_run:
  fixes s :: "'z kernel_state_scheme"
  assumes "account_tx s = rows" and "dict_wf rows" and "addresses_ok s"
  shows "\<exists>t. merge_accounts keccak sem s = Inr ((), t) \<and> account_tx t = [] \<and>
    accounts_merged sem rows s t"
  using assms
proof (induction rows arbitrary: s rule: rev_induct)
  case Nil
  then show ?case
    by (simp add: merge_accounts.simps acct_tx_pop_def action_simps accounts_merged_Nil)
next
  case (snoc x rows)
  obtain key row where x: "x = (key, row)" by (cases x)
  obtain acc before where row: "row = \<lparr>atr_current = acc, atr_original = before\<rparr>" by (cases row)
  have wf: "dict_wf rows" and new: "dict_get rows key = None"
    using snoc.prems(2) by (auto simp: dict_wf_def x dict_get_None_key)
  define a where "a = (case dict_get (account_block s) key of
      Some block \<Rightarrow> abr_address block | None \<Rightarrow> bytes20_from_wire key)"
  have a: "address_key a = key"
    using snoc.prems(3) by (auto simp: a_def addresses_ok_def address_key_def fixed_wire_bytes_def
        bytes20_from_wire_def split: option.splits)
  define s' where "s' = s\<lparr>account_tx := rows\<rparr>"
  have pop: "acct_tx_pop s = Inr (AcctTxPopRow \<lparr>acct_addr = a,
      acct_val = \<lparr>acct_curr = acc, acct_orig = before\<rparr>\<rparr>, s')"
    using snoc.prems(1) by (simp add: acct_tx_pop_def action_simps Let_def x row a_def s'_def)
  from merge_account_run [OF a row] obtain t where t: "merge_account keccak sem \<lparr>acct_addr = a,
      acct_val = \<lparr>acct_curr = acc, acct_orig = before\<rparr>\<rparr> s' = Inr ((), t)"
      "account_tx t = account_tx s'" "accounts_merged sem [(key, row)] s' t"
    by blast
  have s': "account_tx s' = rows" "addresses_ok s'" "storage_tx s' = storage_tx s"
    "block_account s' = block_account s" "storage_block s' = storage_block s"
    "storage_next_generation s' = storage_next_generation s"
    "storage_generation s' = storage_generation s"
    using snoc.prems(3)
    by (simp_all add: s'_def addresses_ok_def block_account_def storage_generation_def fun_eq_iff)
  have "addresses_ok t" using t(3) s'(2) by (simp add: accounts_merged_def)
  from snoc.IH [OF _ wf this] t(2) s'(1) obtain u where u: "merge_accounts keccak sem t = Inr ((), u)"
      "account_tx u = []" "accounts_merged sem rows t u"
    by auto
  have "accounts_merged sem (rows @ [(key, row)]) s' u"
    using accounts_merged_snoc [OF t(3) u(3) new] .
  then have "accounts_merged sem (rows @ [x]) s u"
    using s' snoc.prems(3) by (simp add: accounts_merged_def x cong: option.case_cong)
  then show ?case
    using u pop t(1) by (simp add: merge_accounts.simps [of keccak sem s])
qed

section \<open>What the storage loop does\<close>

definition block_slot :: "'z host_state_scheme \<Rightarrow> bytes \<times> int \<Rightarrow> int option" where
  "block_slot s k = map_option (\<lambda>row. curr (sbc_value row)) (dict_get (storage_block s) k)"

text \<open>The value a row of the transaction stores: its account is present in the block, the row is
  of the account's current generation and its value changed.\<close>

definition stored_value :: "'z host_state_scheme \<Rightarrow> bytes \<times> int \<Rightarrow> storage_tx_row \<Rightarrow> int option" where
  "stored_value s k row =
     (if str_generation row = storage_generation s (fst k) \<and>
         (\<exists>acc. block_account s (fst k) = Some acc \<and> present acc) \<and>
         curr (str_value row) \<noteq> orig (str_value row)
      then Some (curr (str_value row)) else None)"

definition slots_merged ::
    "(bytes \<times> int, storage_tx_row) dict \<Rightarrow> 'z host_state_scheme \<Rightarrow> 'z host_state_scheme \<Rightarrow> bool"
  where
  "slots_merged rows s t \<longleftrightarrow>
     account_block t = account_block s \<and> storage_generations t = storage_generations s \<and>
     (\<forall>k. block_slot t k = (case Option.bind (dict_get rows k) (stored_value s k) of
        Some v \<Rightarrow> Some v | None \<Rightarrow> block_slot s k))"

lemma slots_context:
  assumes "account_block t = account_block s" and "storage_generations t = storage_generations s"
  shows "block_account t = block_account s" "storage_generation t = storage_generation s"
    "stored_value t = stored_value s"
  using assms by (simp_all add: fun_eq_iff block_account_def storage_generation_def stored_value_def)

lemma storage_block_put_slot:
  "\<exists>t. storage_block_put keccak e s = Inr ((), t) \<and> account_block t = account_block s \<and>
    account_tx t = account_tx s \<and> storage_tx t = storage_tx s \<and>
    storage_generations t = storage_generations s \<and>
    (\<forall>k. block_slot t k = (if k = storage_key_of (entry_key e) then Some (curr (entry_value e))
      else block_slot s k))"
  by (simp add: storage_block_put_def Let_def block_slot_def dict_get_set split: option.split)

lemma merge_storage_run:
  fixes s :: "'z kernel_state_scheme"
  assumes live: "str_generation row = storage_generation s (fst k)"
    and key: "storage_key_of (str_key row) = k"
  shows "\<exists>t. merge_storage keccak \<lparr>entry_key = str_key row, entry_value = str_value row\<rparr> s =
      Inr ((), t) \<and> account_tx t = account_tx s \<and> storage_tx t = storage_tx s \<and>
    slots_merged [(k, row)] s t"
proof -
  let ?e = "\<lparr>entry_key = str_key row, entry_value = str_value row\<rparr>"
  have addr: "address_key (key_addr (str_key row)) = fst k"
    using key by (auto simp: storage_key_of_def address_slot_key_def)
  show ?thesis
  proof (cases "stored_value s k row")
    case None
    then have "merge_storage keccak ?e s = Inr ((), s)"
      using live
      by (auto simp: merge_storage_def acct_block_get_def action_simps Let_def addr
          stored_value_def block_account_def split: option.splits if_splits)
    then show ?thesis
      using None by (simp add: slots_merged_def dict_get_single)
  next
    case (Some v)
    then obtain acc where acc: "block_account s (fst k) = Some acc" "present acc"
      and changed: "curr (str_value row) \<noteq> orig (str_value row)" and v: "v = curr (str_value row)"
      by (auto simp: stored_value_def split: if_splits)
    let ?i = "k_current_transaction_epoch s" and ?a = "key_addr (str_key row)"
    let ?slot = "key_slot (str_key row)"
    obtain s1 where s1: "bal_storage_change ?i ?a ?slot v s = Inr ((), s1)"
      using v by (simp add: bal_storage_change_def bal_touch_def Let_def action_simps)
    have kept: "world_part_kept s s1"
      using keepsD [OF bal_change_world(4) s1] .
    obtain t where t: "storage_block_put keccak ?e s1 = Inr ((), t)"
      "account_block t = account_block s1" "account_tx t = account_tx s1"
      "storage_tx t = storage_tx s1" "storage_generations t = storage_generations s1"
      and slot: "\<And>k'. block_slot t k' = (if k' = k then Some v else block_slot s1 k')"
      using storage_block_put_slot [of keccak ?e s1] v key by auto
    have "merge_storage keccak ?e s = Inr ((), t)"
      using acc changed s1 t(1) v
      by (auto simp: merge_storage_def acct_block_get_def action_simps Let_def addr
          block_account_def split: option.splits)
    moreover have "slots_merged [(k, row)] s t"
      using Some t(2,5) slot kept
      by (simp add: slots_merged_def dict_get_single world_part_kept_def block_slot_def)
    ultimately show ?thesis using t(3,4) kept by (simp add: world_part_kept_def)
  qed
qed

lemma slots_merged_snoc:
  assumes st: "slots_merged [(k, row)] s t" and tu: "slots_merged rows t u"
    and new: "dict_get rows k = None"
  shows "slots_merged (rows @ [(k, row)]) s u"
proof -
  note same = slots_context [of t s]
  show ?thesis
    using st tu new unfolding slots_merged_def
    by (auto simp: same dict_get_snoc dict_get_single cong: option.case_cong)
qed

lemma merge_storages_run:
  fixes s :: "'z kernel_state_scheme"
  assumes "storage_tx s = rows" and "dict_wf rows"
    and "\<And>k row. dict_get rows k = Some row \<Longrightarrow> storage_key_of (str_key row) = k"
  shows "\<exists>t. merge_storages keccak s = Inr ((), t) \<and> storage_tx t = [] \<and>
    account_tx t = account_tx s \<and> slots_merged rows s t"
  using assms
proof (induction rows arbitrary: s rule: rev_induct)
  case Nil
  then show ?case
    by (simp add: merge_storages.simps storage_tx_pop_def action_simps slots_merged_def
        dict_get_def block_slot_def)
next
  case (snoc x rows)
  obtain k row where x: "x = (k, row)" by (cases x)
  have wf: "dict_wf rows" and new: "dict_get rows k = None"
    using snoc.prems(2) by (auto simp: dict_wf_def x dict_get_None_key)
  note get = dict_get_snoc [OF new, of row]
  have keys: "storage_key_of (str_key r) = k'" if "dict_get rows k' = Some r" for k' r
    using that new snoc.prems(3) [of k' r] by (cases "k' = k") (simp_all add: x get)
  have key: "storage_key_of (str_key row) = k"
    using snoc.prems(3) [of k row] by (simp add: x get)
  define s' where "s' = s\<lparr>storage_tx := rows\<rparr>"
  have s': "storage_tx s' = rows" "account_tx s' = account_tx s"
    "account_block s' = account_block s" "storage_generations s' = storage_generations s"
    "block_slot s' = block_slot s"
    by (simp_all add: s'_def block_slot_def fun_eq_iff)
  note ctx = slots_context [OF s'(3,4)]
  have shift: "slots_merged d s' u = slots_merged d s u" for d and u :: "'z kernel_state_scheme"
    by (simp add: slots_merged_def s' ctx cong: option.case_cong)
  show ?case
  proof (cases "str_generation row = storage_generation s (fst k)")
    case True
    then have pop: "storage_tx_pop s =
        Inr (StorageTxPopRow \<lparr>entry_key = str_key row, entry_value = str_value row\<rparr>, s')"
      using snoc.prems(1) by (simp add: storage_tx_pop_def action_simps x s'_def)
    have "str_generation row = storage_generation s' (fst k)" using True ctx by simp
    from merge_storage_run [OF this key] obtain t where t:
        "merge_storage keccak \<lparr>entry_key = str_key row, entry_value = str_value row\<rparr> s' = Inr ((), t)"
        "account_tx t = account_tx s'" "storage_tx t = storage_tx s'" "slots_merged [(k, row)] s' t"
      by blast
    from snoc.IH [OF _ wf keys] t(3) s'(1) obtain u where u: "merge_storages keccak t = Inr ((), u)"
        "storage_tx u = []" "account_tx u = account_tx t" "slots_merged rows t u"
      by auto
    have "slots_merged (rows @ [x]) s u"
      using slots_merged_snoc [OF t(4) u(4) new] shift by (simp add: x)
    then show ?thesis
      using pop t u s' by (simp add: merge_storages.simps [of keccak s])
  next
    case False
    then have "storage_tx_pop s = storage_tx_pop s'"
      using snoc.prems(1) ctx by (simp add: storage_tx_pop_def action_simps x s'_def)
    then have same: "merge_storages keccak s = merge_storages keccak s'"
      by (simp add: merge_storages.simps [of keccak s] merge_storages.simps [of keccak s'])
    from snoc.IH [OF _ wf keys] s'(1) obtain u where u: "merge_storages keccak s' = Inr ((), u)"
        "storage_tx u = []" "account_tx u = account_tx s'" "slots_merged rows s' u"
      by auto
    have "slots_merged (rows @ [x]) s u"
      using u(4) False new shift
      by (auto simp: slots_merged_def x get stored_value_def)
    then show ?thesis using u same s' by simp
  qed
qed

section \<open>Properties\<close>

text \<open>
  \<open>originals_ok\<close>: a row of the transaction starts from the account of the block, whose
  transaction flags are unset. \<open>committed_slot\<close> is the value a transaction leaves in a slot.
\<close>

definition originals_ok :: "'z host_state_scheme \<Rightarrow> bool" where
  "originals_ok s \<longleftrightarrow> (\<forall>k row. dict_get (account_tx s) k = Some row \<longrightarrow>
     block_account s k = Some (atr_original row) \<and>
     \<not> created (atr_original row) \<and> \<not> selfdestructed (atr_original row))"

definition committed_account ::
    "transaction_merge_semantics \<Rightarrow> 'z host_state_scheme \<Rightarrow> bytes \<Rightarrow> account option" where
  "committed_account sem s k = (case dict_get (account_tx s) k of
     None \<Rightarrow> block_account s k | Some row \<Rightarrow> Some (settle sem (atr_current row)))"

definition committed_slot ::
    "transaction_merge_semantics \<Rightarrow> 'z host_state_scheme \<Rightarrow> bytes \<times> int \<Rightarrow> int option" where
  "committed_slot sem s k =
     (let kept = (if row_drops sem (account_tx s) (fst k) then None else block_slot s k)
      in case dict_get (storage_tx s) k of
           None \<Rightarrow> kept
         | Some row \<Rightarrow>
             if str_generation row = storage_generation s (fst k) \<and>
                \<not> row_deletes sem (account_tx s) (fst k) \<and>
                (\<exists>acc. committed_account sem s (fst k) = Some acc \<and> present acc) \<and>
                curr (str_value row) \<noteq> orig (str_value row)
             then Some (curr (str_value row)) else kept)"

lemma unchanged_account_settled:
  assumes "\<not> account_changed (settle sem acc) before"
    and "\<not> created before" and "\<not> selfdestructed before"
  shows "settle sem acc = before"
proof -
  have flags: "\<not> created (settle sem acc)" "\<not> selfdestructed (settle sem acc)"
    by (simp_all add: settle_def)
  show ?thesis
    using assms flags
    by (cases before; cases "info before"; cases "settle sem acc"; cases "info (settle sem acc)")
      (auto simp: account_changed_def account_info_changed_def)
qed

lemma committed_accounts:
  assumes "accounts_merged sem (account_tx s) s t" and "originals_ok s"
  shows "block_account t = committed_account sem s"
proof
  fix k
  show "block_account t k = committed_account sem s k"
  proof (cases "dict_get (account_tx s) k")
    case (Some row)
    then show ?thesis
      using assms unchanged_account_settled [of sem "atr_current row" "atr_original row"]
      by (auto simp: accounts_merged_def committed_account_def row_change_def originals_ok_def)
  qed (use assms in \<open>simp add: accounts_merged_def committed_account_def row_change_def\<close>)
qed

lemma k_tx_merge_commits:
  fixes s :: "'z kernel_state_scheme"
  assumes "world_ok s" and "addresses_ok s" and "originals_ok s"
    and "sem = transaction_merge_semantics_of (pp_fork (protocol (k_execution_profile s)))"
  shows "\<exists>t. k_tx_merge keccak s = Inr ((), t) \<and> account_tx t = [] \<and> storage_tx t = [] \<and>
    block_account t = committed_account sem s \<and> block_slot t = committed_slot sem s"
proof -
  have wf: "dict_wf (account_tx s)" "dict_wf (storage_tx s)"
    and keys: "\<And>k row. dict_get (storage_tx s) k = Some row \<Longrightarrow> storage_key_of (str_key row) = k"
    and young: "\<And>k row. dict_get (storage_tx s) k = Some row \<Longrightarrow>
      str_generation row \<le> storage_next_generation s"
    using assms(1) unfolding world_ok_def by blast+
  from merge_accounts_run [OF refl wf(1) assms(2)] obtain t where t:
      "merge_accounts keccak sem s = Inr ((), t)" "accounts_merged sem (account_tx s) s t" by blast
  have same: "storage_tx t = storage_tx s" using t(2) by (simp add: accounts_merged_def)
  from merge_storages_run [OF same wf(2) keys] obtain u where u:
      "merge_storages keccak t = Inr ((), u)" "slots_merged (storage_tx s) t u" by blast
  obtain v where v: "bind storage_tx_reset (\<lambda>_. acct_tx_reset) u = Inr ((), v)"
    "account_tx v = []" "storage_tx v = []" "account_block v = account_block u"
    "storage_block v = storage_block u"
    by (simp add: storage_tx_reset_def acct_tx_reset_def action_simps)
  have accounts: "block_account t = committed_account sem s"
    by (rule committed_accounts [OF t(2) assms(3)])
  moreover have "block_account v = block_account t"
    using v(4) u(2) by (simp add: slots_merged_def block_account_def fun_eq_iff)
  moreover have "block_slot u k = committed_slot sem s k" for k
  proof -
    have kept: "block_slot t k = (if row_drops sem (account_tx s) (fst k) then None else block_slot s k)"
      using t(2) by (cases k) (simp add: accounts_merged_def block_slot_def)
    have deleted: "row_deletes sem (account_tx s) (fst k) \<Longrightarrow>
        storage_next_generation s < storage_generation t (fst k)"
      and retained: "\<not> row_deletes sem (account_tx s) (fst k) \<Longrightarrow>
        storage_generation t (fst k) = storage_generation s (fst k)"
      using t(2) by (simp_all add: accounts_merged_def)
    have "block_slot u k = (case Option.bind (dict_get (storage_tx s) k) (stored_value t k) of
        Some v \<Rightarrow> Some v | None \<Rightarrow> block_slot t k)"
      using u(2) unfolding slots_merged_def by blast
    then show ?thesis
      using kept deleted retained young [of k]
      by (cases "dict_get (storage_tx s) k"; cases "row_deletes sem (account_tx s) (fst k)")
        (auto simp: committed_slot_def Let_def stored_value_def accounts)
  qed
  then have "block_slot v = committed_slot sem s"
    using v(5) by (simp add: block_slot_def fun_eq_iff)
  moreover have "k_tx_merge keccak s = Inr ((), v)"
    using t(1) u(1) v(1) assms(4) by (simp add: k_tx_merge_def active_fork_def Let_def)
  ultimately show ?thesis using v by auto
qed

text \<open>C8: The end of a transaction: merging never fails, leaves no row behind, commits every account
  of the transaction (flags unset; an account that destroyed itself, from Cancun on only if it was
  created in the same transaction, is deleted, but keeps its balance from Amsterdam on), and
  commits exactly the changed slots of the current generation of accounts that are still
  present, after dropping the cached slots of destroyed and newly cleared accounts.\<close>

theorem transaction_merge_commits:
  fixes s :: "'z kernel_state_scheme"
  assumes "world_ok s" and "addresses_ok s" and "originals_ok s"
    and "fork = pp_fork (protocol (k_execution_profile s))"
    and "sem = \<lparr>delete_only_created = (11 \<le> fork), preserve_selfdestruct_balance = (16 \<le> fork)\<rparr>"
  shows "\<exists>t. k_tx_merge keccak s = Inr ((), t) \<and> account_tx t = [] \<and> storage_tx t = [] \<and>
    block_account t = committed_account sem s \<and> block_slot t = committed_slot sem s"
proof -
  have "sem = transaction_merge_semantics_of (pp_fork (protocol (k_execution_profile s)))"
    using assms(4,5) by (simp add: transaction_merge_semantics_of_def Amsterdam_def Cancun_def)
  with assms(1-3) show ?thesis by (rule k_tx_merge_commits)
qed

definition written_state :: kernel_state where
  "written_state = initial_kernel_state\<lparr>
     account_block := [(replicate 20 1, \<lparr>abr_address = replicate 20 1,
       abr_value = \<lparr>acct_curr = rich_account, acct_orig = rich_account\<rparr>, abr_address_hash = None\<rparr>)],
     account_tx := [(replicate 20 1, \<lparr>atr_current = rich_account\<lparr>created := True\<rparr>,
       atr_original = rich_account\<rparr>)],
     storage_tx := [((replicate 20 1, 5), \<lparr>str_key = \<lparr>key_addr = replicate 20 1, key_slot = 5\<rparr>,
       str_value = \<lparr>curr = 7, orig = 0\<rparr>, str_generation = 1\<rparr>)]\<rparr>"

theorem transaction_merge_commits_witness:
  "\<exists>t. k_tx_merge (\<lambda>_. replicate 32 0) written_state = Inr ((), t) \<and> storage_tx t = [] \<and>
    block_account t (replicate 20 1) = Some rich_account \<and>
    block_slot t (replicate 20 1, 5) = Some 7"
proof -
  have ok: "world_ok written_state" "addresses_ok written_state" "originals_ok written_state"
    by (auto simp: world_ok_def addresses_ok_def originals_ok_def written_state_def block_account_def
        initial_kernel_state_def initial_host_state_def host_state.defs dict_get_def dict_wf_def storage_generation_def
        dict_get_default_def STORAGE_INITIAL_GENERATION_def storage_key_of_def address_slot_key_def
        address_key_def fixed_wire_bytes_def rich_account_def EMPTY_ACCOUNT_def split: if_splits)
  define sem where "sem = \<lparr>delete_only_created = (11 \<le> (16 :: int)), preserve_selfdestruct_balance = (16 \<le> (16 :: int))\<rparr>"
  have "16 = pp_fork (protocol (k_execution_profile written_state))"
    by (simp add: Amsterdam_def written_state_def initial_kernel_state_def default_execution_profile_def
        host_state.defs)
  from transaction_merge_commits [OF ok this sem_def] obtain t where t:
      "k_tx_merge (\<lambda>_. replicate 32 0) written_state = Inr ((), t)" "storage_tx t = []"
      "block_account t = committed_account sem written_state"
      "block_slot t = committed_slot sem written_state"
    by blast
  have kept: "settle sem (rich_account\<lparr>created := True\<rparr>) = rich_account"
    by (simp add: settle_def ends_destroyed_def rich_account_def EMPTY_ACCOUNT_def)
  have account: "committed_account sem written_state (replicate 20 1) = Some rich_account"
    by (simp add: committed_account_def written_state_def dict_get_def kept)
  have "dict_get (storage_tx written_state) (replicate 20 1, 5) =
      Some \<lparr>str_key = \<lparr>key_addr = replicate 20 1, key_slot = 5\<rparr>,
        str_value = \<lparr>curr = 7, orig = 0\<rparr>, str_generation = 1\<rparr>"
    and "storage_generation written_state (replicate 20 1) = 1"
    and "\<not> row_deletes sem (account_tx written_state) (replicate 20 1)"
    by (simp_all add: written_state_def storage_generation_def dict_get_default_def dict_get_def
        initial_kernel_state_def initial_host_state_def host_state.defs
        STORAGE_INITIAL_GENERATION_def row_deletes_def ends_destroyed_def
        rich_account_def EMPTY_ACCOUNT_def)
  moreover have "present rich_account" by (simp add: rich_account_def)
  ultimately have "committed_slot sem written_state (replicate 20 1, 5) = Some 7"
    using account by (simp add: committed_slot_def)
  with account t show ?thesis by auto
qed

end
