(* ===== verification/Logs_Bloom.thy ===== *)
theory Logs_Bloom
  imports Kernel Byte_Words
begin

text \<open>
  The log readers and the 2048-bit log blooms of \<open>kernel/logs.py\<close>. A bloom is a Sail vector of
  256 bytes of decreasing order, read as the set of its bits; the loops over topics and over
  logs are recursive functions whose measure is what is left to visit.
\<close>

section \<open>Log series\<close>

record log_series_ref =
  series_start :: int
  series_count :: int

definition log_store_index_increment :: "int \<Rightarrow> ('s, int) action" where
  "log_store_index_increment value =
     (if value < 2 ^ 64 - 1 then natural (value + 1)
      else raise (SailError ''log store index overflow''))"

definition log_store_index_add :: "int \<Rightarrow> int \<Rightarrow> ('s, int) action" where
  "log_store_index_add left right =
     (if right \<le> 2 ^ 64 - 1 - left then natural (left + right)
      else raise (SailError ''log store index overflow''))"

definition read_logs :: "('z, log_series_ref) kernel" where
  "read_logs =
     bind logs_tx_start (\<lambda>start.
     bind logs_tx_count (\<lambda>count.
     bind (natural start) (\<lambda>start.
     bind (natural count) (\<lambda>count.
     ret \<lparr>series_start = start, series_count = count\<rparr>))))"

definition read_log_data :: "int \<Rightarrow> ('z, region_slice) kernel" where
  "read_log_data index =
     bind (log_data_offset index) (\<lambda>off.
     bind (log_data_length index) (\<lambda>len.
     if len \<le> 2 ^ 32 - 1 - off then region_slice off len
     else raise (SailError ''log data slice overflow'')))"

section \<open>Blooms\<close>

definition EMPTY_LOGS_BLOOM :: bytes where
  "EMPTY_LOGS_BLOOM = replicate 256 0"

definition bloom_bit_mask :: "nat \<Rightarrow> byte" where
  "bloom_bit_mask bit_to_set = push_bit bit_to_set 1"

definition bloom_set_bit :: "bytes \<Rightarrow> int \<Rightarrow> ('s, bytes) action" where
  "bloom_set_bit bloom bit_to_set =
     (let quotient = sail_ediv_int bit_to_set 8 in
     if quotient \<le> 255 then
       (let remainder = sail_tmod_int bit_to_set 8 in
        if remainder \<le> 7 then
          (let mask = bloom_bit_mask (nat remainder) in
           ret (vector_update bloom (nat quotient)
             (or (vector_access bloom (nat quotient)) mask)))
        else raise (SailError ''sail/kernel/logs.sail:83.24-83.25''))
     else raise (SailError ''sail/kernel/logs.sail:75.24-75.25''))"

text \<open>The low three bits of one byte of the hash, followed by the next byte.\<close>

definition bloom_index_at :: "hash \<Rightarrow> nat \<Rightarrow> int" where
  "bloom_index_at h i =
     256 * uint (take_bit 3 (vector_access h i)) + uint (vector_access h (i + 1))"

definition bloom_add_entry_hash :: "bytes \<Rightarrow> hash \<Rightarrow> ('s, bytes) action" where
  "bloom_add_entry_hash bloom h =
     bind (bloom_set_bit bloom (bloom_index_at h 0)) (\<lambda>out.
     bind (bloom_set_bit out (bloom_index_at h 2)) (\<lambda>out.
     bloom_set_bit out (bloom_index_at h 4)))"

function bloom_add_topics ::
    "hash_function \<Rightarrow> int \<Rightarrow> int \<Rightarrow> bytes \<Rightarrow> int \<Rightarrow> ('z, bytes) host" where
  "bloom_add_topics keccak index topic_count out topic =
     (if topic < topic_count then
        bind (log_topic index topic) (\<lambda>topic_value.
        let topic_hash = keccak256_word keccak topic_value in
        bind (bloom_add_entry_hash out topic_hash) (\<lambda>out.
        bind (log_store_index_increment topic) (\<lambda>_.
        bloom_add_topics keccak index topic_count out (topic + 1))))
      else ret out)"
  by pat_completeness auto
termination
  by (relation "measure (\<lambda>(_, _, topic_count, _, topic). nat (topic_count - topic))") auto

declare bloom_add_topics.simps [simp del]

definition bloom_add_log_at :: "hash_function \<Rightarrow> bytes \<Rightarrow> int \<Rightarrow> ('z, bytes) host" where
  "bloom_add_log_at keccak bloom index =
     bind (log_address index) (\<lambda>a.
     let address_hash = keccak256_address keccak a in
     bind (bloom_add_entry_hash bloom address_hash) (\<lambda>out.
     bind (log_topics_count index) (\<lambda>topic_count.
     bloom_add_topics keccak index topic_count out 0)))"

function bloom_add_logs_from ::
    "hash_function \<Rightarrow> log_series_ref \<Rightarrow> bytes \<Rightarrow> int \<Rightarrow> ('z, bytes) host" where
  "bloom_add_logs_from keccak series out offset =
     (if offset < series_count series then
        bind (log_store_index_add (series_start series) offset) (\<lambda>index.
        bind (bloom_add_log_at keccak out index) (\<lambda>out.
        bind (log_store_index_increment offset) (\<lambda>_.
        bloom_add_logs_from keccak series out (offset + 1))))
      else ret out)"
  by pat_completeness auto
termination
  by (relation "measure (\<lambda>(_, series, _, offset). nat (series_count series - offset))") auto

declare bloom_add_logs_from.simps [simp del]

definition bloom_add_logs ::
    "hash_function \<Rightarrow> bytes \<Rightarrow> log_series_ref \<Rightarrow> ('z, bytes) host" where
  "bloom_add_logs keccak bloom series = bloom_add_logs_from keccak series bloom 0"

definition logs_bloom_for_logs :: "hash_function \<Rightarrow> log_series_ref \<Rightarrow> ('z, bytes) host" where
  "logs_bloom_for_logs keccak series = bloom_add_logs keccak EMPTY_LOGS_BLOOM series"

definition logs_bloom_or :: "bytes \<Rightarrow> bytes \<Rightarrow> bytes" where
  "logs_bloom_or left right =
     foldl (\<lambda>out k. vector_update out k (or (vector_access out k) (vector_access right k)))
       left [0..<256]"


section \<open>A bloom as a set of bits\<close>

definition bloom_has :: "bytes \<Rightarrow> nat \<Rightarrow> bool" where
  "bloom_has bloom j = bit (vector_access bloom (j div 8)) (j mod 8)"

text \<open>The reference: each of the first three byte pairs of a hash, read as a big-endian number, selects
  the bit of its value modulo 2048.\<close>

definition entry_bits :: "hash \<Rightarrow> nat set" where
  "entry_bits h = (\<lambda>i. nat ((256 * uint (vector_access h i) + uint (vector_access h (i + 1))) mod 2048)) `
     {0, 2, 4}"

lemma pair_modulo:
  fixes a c :: int
  assumes "0 \<le> c" and "c < 256"
  shows "256 * (a mod 8) + c = (256 * a + c) mod 2048"
proof -
  have "256 * a + c = (256 * (a mod 8) + c) + 2048 * (a div 8)"
    using mult_div_mod_eq [of 8 a] by linarith
  then have "(256 * a + c) mod 2048 = (256 * (a mod 8) + c) mod 2048" by (simp only: mod_mult_self2)
  moreover have "0 \<le> 256 * (a mod 8) + c" "256 * (a mod 8) + c < 2048"
    using assms pos_mod_bound [of 8 a] pos_mod_sign [of 8 a] by linarith+
  ultimately show ?thesis by simp
qed

lemma bloom_index_pair:
  "bloom_index_at h i = (256 * uint (vector_access h i) + uint (vector_access h (i + 1))) mod 2048"
proof -
  have "uint (take_bit 3 (vector_access h i)) = uint (vector_access h i) mod 8"
    by (simp only: unsigned_take_bit_eq) (simp add: take_bit_eq_mod)
  moreover have "0 \<le> uint (vector_access h (i + 1))" "uint (vector_access h (i + 1)) < 256"
    using uint_lt2p [of "vector_access h (i + 1)"] by simp_all
  ultimately show ?thesis by (simp only: bloom_index_at_def pair_modulo)
qed

lemma entry_bits_indices:
  "entry_bits h = {nat (bloom_index_at h 0), nat (bloom_index_at h 2), nat (bloom_index_at h 4)}"
  by (simp add: entry_bits_def bloom_index_pair)

definition log_bits :: "hash_function \<Rightarrow> log_record \<Rightarrow> nat set" where
  "log_bits keccak r = entry_bits (keccak256_address keccak (rec_address r)) \<union>
     (\<Union>v\<in>set (rec_topics r). entry_bits (keccak256_word keccak v))"

text \<open>\<open>adds B bloom m\<close>: the computation returns a bloom with exactly the bits \<open>B\<close> added.\<close>

definition adds :: "nat set \<Rightarrow> bytes \<Rightarrow> ('s, bytes) action \<Rightarrow> 's \<Rightarrow> bool" where
  "adds B bloom m s \<longleftrightarrow> (\<exists>b. m s = Inr (b, s) \<and> length b = 256 \<and>
     (\<forall>j<2048. bloom_has b j \<longleftrightarrow> j \<in> B \<or> bloom_has bloom j))"

lemma adds_ret: "length bloom = 256 \<Longrightarrow> adds {} bloom (ret bloom) s"
  by (simp add: adds_def)

lemma adds_bind:
  assumes "adds B bloom m s" and "\<And>b. length b = 256 \<Longrightarrow> adds C b (f b) s"
  shows "adds (B \<union> C) bloom (bind m f) s"
proof -
  from assms(1) obtain b where b: "m s = Inr (b, s)" "length b = 256"
    "\<forall>j<2048. bloom_has b j \<longleftrightarrow> j \<in> B \<or> bloom_has bloom j"
    by (auto simp: adds_def)
  from assms(2) [OF b(2)] obtain c where "f b s = Inr (c, s)" "length c = 256"
    "\<forall>j<2048. bloom_has c j \<longleftrightarrow> j \<in> C \<or> bloom_has b j"
    by (auto simp: adds_def)
  with b show ?thesis by (auto simp: adds_def)
qed

lemma adds_set_bit:
  assumes "0 \<le> i" and "i < 2048" and len: "length bloom = 256"
  shows "adds {nat i} bloom (bloom_set_bit bloom i) s"
proof -
  let ?q = "nat (i div 8)" and ?r = "nat (i mod 8)"
  let ?b = "vector_update bloom ?q (or (vector_access bloom ?q) (bloom_bit_mask ?r))"
  have q: "?q < 256" "?r < 8" "i div 8 \<le> 255" "i mod 8 \<le> 7"
    using assms(1,2) by linarith+
  have run: "bloom_set_bit bloom i s = Inr (?b, s)"
    using assms(1) q by (simp add: bloom_set_bit_def Let_def)
  have mask: "bit (bloom_bit_mask r) n = (n = r)" if "r < 8" "n < 8" for r n
    using that by (auto simp: bloom_bit_mask_def bit_simps)
  have access: "vector_access ?b n = (if n = ?q
      then or (vector_access bloom ?q) (bloom_bit_mask ?r) else vector_access bloom n)" if "n < 256" for n
  proof -
    have "255 - ?q = 255 - n \<longleftrightarrow> n = ?q" using that q(1) by arith
    then show ?thesis
      using that q len by (auto simp: vector_access_def vector_update_def nth_list_update)
  qed
  have "bloom_has ?b j \<longleftrightarrow> j = nat i \<or> bloom_has bloom j" if "j < 2048" for j
  proof -
    have "j = nat i \<longleftrightarrow> j div 8 = ?q \<and> j mod 8 = ?r"
      using assms(1) by (metis div_mult_mod_eq nat_div_distrib nat_mod_distrib nat_numeral
          zero_le_numeral)
    then show ?thesis
      using that q by (auto simp: bloom_has_def access bit_or_iff mask)
  qed
  then show ?thesis using run len by (simp add: adds_def vector_update_def)
qed

lemma bloom_index_range: "0 \<le> bloom_index_at h i" "bloom_index_at h i < 2048"
proof -
  have "uint (take_bit 3 (vector_access h i)) < 8"
    by (simp add: unsigned_take_bit_eq take_bit_int_less_exp [of 3, simplified])
  moreover have "uint (vector_access h (i + 1)) < 256"
    using uint_lt2p [of "vector_access h (i + 1)"] by simp
  ultimately show "0 \<le> bloom_index_at h i" "bloom_index_at h i < 2048"
    by (simp_all add: bloom_index_at_def)
qed

lemma adds_entry_hash:
  assumes "length bloom = 256"
  shows "adds (entry_bits h) bloom (bloom_add_entry_hash bloom h) s"
proof -
  have "adds ({nat (bloom_index_at h 0)} \<union> ({nat (bloom_index_at h 2)} \<union>
      {nat (bloom_index_at h 4)})) bloom (bloom_add_entry_hash bloom h) s"
    unfolding bloom_add_entry_hash_def
    by (intro adds_bind adds_set_bit bloom_index_range assms)
  then show ?thesis by (simp add: entry_bits_indices insert_commute)
qed

lemma log_record_at_run:
  "0 \<le> i \<Longrightarrow> i < int (length (logs s)) \<Longrightarrow> log_record_at i s = Inr (logs s ! nat i, s)"
  by (simp add: log_record_at_def action_simps Let_def)

lemma adds_topics:
  assumes "0 \<le> i" and "i < int (length (logs s))" and "length (rec_topics (logs s ! nat i)) < 2 ^ 63"
    and "0 \<le> topic" and "topic \<le> count" and "count = int (length (rec_topics (logs s ! nat i)))"
    and "length bloom = 256"
  shows "adds (\<Union>v\<in>set (drop (nat topic) (rec_topics (logs s ! nat i))).
      entry_bits (keccak256_word keccak v)) bloom (bloom_add_topics keccak i count bloom topic) s"
  using assms
proof (induction keccak i count bloom topic rule: bloom_add_topics.induct)
  case (1 keccak i count bloom topic)
  let ?topics = "rec_topics (logs s ! nat i)"
  show ?case
  proof (cases "topic < count")
    case False
    with 1 show ?thesis by (simp add: bloom_add_topics.simps adds_ret [unfolded ret_def])
  next
    case True
    define v where "v = ?topics ! nat topic"
    have drop: "drop (nat topic) ?topics = v # drop (nat (topic + 1)) ?topics"
      using True 1(5,7) by (simp add: v_def nat_add_distrib Cons_nth_drop_Suc)
    have topic: "log_topic i topic s = Inr (v, s)"
      using True 1 by (simp add: log_topic_def log_record_at_run Let_def v_def)
    have inc: "log_store_index_increment topic = ret (topic + 1)"
      using True 1 by (simp add: log_store_index_increment_def)
    have "adds (entry_bits (keccak256_word keccak v) \<union>
        (\<Union>v\<in>set (drop (nat (topic + 1)) ?topics). entry_bits (keccak256_word keccak v))) bloom
      (bind (bloom_add_entry_hash bloom (keccak256_word keccak v)) (\<lambda>out.
        bloom_add_topics keccak i count out (topic + 1))) s"
      by (intro adds_bind adds_entry_hash "1.IH") (use 1 True in auto)
    moreover have "bloom_add_topics keccak i count bloom topic s =
        bind (bloom_add_entry_hash bloom (keccak256_word keccak v)) (\<lambda>out.
          bloom_add_topics keccak i count out (topic + 1)) s"
      using True by (simp add: bloom_add_topics.simps [of keccak i count bloom topic] topic inc Let_def)
    ultimately show ?thesis unfolding adds_def by (simp add: drop)
  qed
qed

lemma adds_log_at:
  assumes "0 \<le> i" and "i < int (length (logs s))" and "length (rec_topics (logs s ! nat i)) < 2 ^ 63"
    and "length bloom = 256"
  shows "adds (log_bits keccak (logs s ! nat i)) bloom (bloom_add_log_at keccak bloom i) s"
proof -
  let ?r = "logs s ! nat i"
  have "adds (entry_bits (keccak256_address keccak (rec_address ?r)) \<union>
      (\<Union>v\<in>set (drop (nat 0) (rec_topics ?r)). entry_bits (keccak256_word keccak v))) bloom
    (bind (bloom_add_entry_hash bloom (keccak256_address keccak (rec_address ?r)))
      (\<lambda>out. bloom_add_topics keccak i (int (length (rec_topics ?r))) out 0)) s"
    using assms by (intro adds_bind adds_entry_hash adds_topics) auto
  moreover have "bloom_add_log_at keccak bloom i s =
      bind (bloom_add_entry_hash bloom (keccak256_address keccak (rec_address ?r)))
        (\<lambda>out. bloom_add_topics keccak i (int (length (rec_topics ?r))) out 0) s"
    using assms(1,2)
    by (simp add: bloom_add_log_at_def log_address_def log_topics_count_def log_record_at_run Let_def
        bloom_add_entry_hash_def bloom_set_bit_def action_simps split: sum.splits)
  ultimately show ?thesis unfolding adds_def log_bits_def by simp
qed

lemma adds_logs_from:
  assumes "0 \<le> series_start series" and "0 \<le> offset" and "offset \<le> series_count series"
    and "series_start series + series_count series \<le> int (length (logs s))"
    and "length (logs s) < 2 ^ 63" and "\<And>r. r \<in> set (logs s) \<Longrightarrow> length (rec_topics r) < 2 ^ 63"
    and "length bloom = 256"
  shows "adds (\<Union>r\<in>set (take (nat (series_count series - offset))
      (drop (nat (series_start series + offset)) (logs s))). log_bits keccak r) bloom
    (bloom_add_logs_from keccak series bloom offset) s"
  using assms
proof (induction keccak series bloom offset rule: bloom_add_logs_from.induct)
  case (1 keccak series bloom offset)
  let ?i = "series_start series + offset" and ?n = "series_count series - offset"
  show ?case
  proof (cases "offset < series_count series")
    case False
    with 1 show ?thesis by (simp add: bloom_add_logs_from.simps adds_ret [unfolded ret_def])
  next
    case True
    have i: "0 \<le> ?i" "?i < int (length (logs s))" using True 1 by auto
    define r where "r = logs s ! nat ?i"
    have r: "length (rec_topics r) < 2 ^ 63" using 1(7) i by (simp add: r_def)
    have "nat ?n = Suc (nat (series_count series - (offset + 1)))"
      "drop (nat ?i) (logs s) = r # drop (nat (series_start series + (offset + 1))) (logs s)"
      using True 1 i by (simp_all add: r_def nat_add_distrib Cons_nth_drop_Suc)
    then have split: "set (take (nat ?n) (drop (nat ?i) (logs s))) = insert r (set (take
        (nat (series_count series - (offset + 1)))
        (drop (nat (series_start series + (offset + 1))) (logs s))))"
      by simp
    have steps: "log_store_index_add (series_start series) offset = ret ?i"
      "log_store_index_increment offset = ret (offset + 1)"
      using True 1 i by (simp_all add: log_store_index_add_def log_store_index_increment_def)
    have "adds (log_bits keccak r \<union> (\<Union>r\<in>set (take (nat (series_count series - (offset + 1)))
        (drop (nat (series_start series + (offset + 1))) (logs s))). log_bits keccak r)) bloom
      (bind (bloom_add_log_at keccak bloom ?i) (\<lambda>out.
        bloom_add_logs_from keccak series out (offset + 1))) s"
      unfolding r_def
      by (intro adds_bind adds_log_at "1.IH") (use 1 True i r [unfolded r_def] in auto)
    moreover have "bloom_add_logs_from keccak series bloom offset s =
        bind (bloom_add_log_at keccak bloom ?i) (\<lambda>out.
          bloom_add_logs_from keccak series out (offset + 1)) s"
      using True by (simp add: bloom_add_logs_from.simps [of keccak series bloom offset] steps)
    ultimately show ?thesis unfolding adds_def by (simp add: split)
  qed
qed

section \<open>Properties\<close>

text \<open>C14: Log blooms: the bloom of a series of logs has exactly the bits that the hashes of the logs'
  addresses and topics select, three for each hash, by its first three byte pairs modulo 2048, and
  computing it changes nothing. Keccak-256 is a parameter.\<close>

theorem logs_bloom_is_entry_bits:
  assumes "0 \<le> series_start series" and "0 \<le> series_count series"
    and "series_start series + series_count series \<le> int (length (logs s))"
    and "length (logs s) < 2 ^ 63" and "\<And>r. r \<in> set (logs s) \<Longrightarrow> length (rec_topics r) \<le> 4"
  shows "\<exists>b. logs_bloom_for_logs keccak series s = Inr (b, s) \<and> length b = 256 \<and>
    (\<forall>j<2048. bloom_has b j \<longleftrightarrow> (\<exists>r \<in> set (take (nat (series_count series))
      (drop (nat (series_start series)) (logs s))). j \<in> log_bits keccak r))"
proof -
  have none: "\<not> bloom_has EMPTY_LOGS_BLOOM j" if "j < 2048" for j
    using that by (simp add: bloom_has_def EMPTY_LOGS_BLOOM_def vector_access_def)
  have "length (rec_topics r) < 2 ^ 63" if "r \<in> set (logs s)" for r
    using assms(5) [OF that] by simp
  from adds_logs_from [OF assms(1) order_refl assms(2-4) this, of EMPTY_LOGS_BLOOM keccak]
  show ?thesis
    using none by (auto simp: adds_def logs_bloom_for_logs_def bloom_add_logs_def EMPTY_LOGS_BLOOM_def)
qed

definition one_log_state :: host_state where
  "one_log_state = initial_host_state\<lparr>logs := [\<lparr>rec_address = replicate 20 1, rec_topics = [5],
     rec_data_offset = 0, rec_data_length = 0\<rparr>]\<rparr>"

theorem logs_bloom_is_entry_bits_witness:
  "\<exists>b. logs_bloom_for_logs (\<lambda>_. replicate 32 1) \<lparr>series_start = 0, series_count = 1\<rparr> one_log_state =
      Inr (b, one_log_state) \<and> bloom_has b 257 \<and> \<not> bloom_has b 256"
proof -
  have logs: "logs one_log_state = [\<lparr>rec_address = replicate 20 1, rec_topics = [5],
      rec_data_offset = 0, rec_data_length = 0\<rparr>]"
    by (simp add: one_log_state_def)
  have index: "bloom_index_at (replicate 32 1) i = 257" if "i < 31" for i
    using that by (simp add: bloom_index_at_def vector_access_def take_bit_eq_mod)
  have bits: "log_bits (\<lambda>_. replicate 32 1) r = {257}" for r
    by (simp add: log_bits_def entry_bits_indices keccak256_address_def keccak256_word_def index
        bytes32_from_wire_def)
  from logs_bloom_is_entry_bits [of "\<lparr>series_start = 0, series_count = 1\<rparr>" one_log_state
      "\<lambda>_. replicate 32 1"]
  show ?thesis by (force simp: logs bits)
qed

end
