(* ===== verification/Machine.thy ===== *)
theory Machine
  imports Kernel_Lifecycle Logs_Bloom Region_Access
begin

text \<open>
  The machine registers of a call frame: \<open>evm/halt.py\<close>, \<open>evm/machine.py\<close> and the frame types of
  \<open>primitives/evm.py\<close>. Operand stack and memory live in the host; a frame holds cursors into
  them, its remaining gas, and the code and calldata it runs on.
\<close>

section \<open>Halting and exceptions\<close>

datatype exception_kind = StackUnderflow | StackOverflow | OutOfGas | InvalidOpcode | InvalidJump
  | StaticViolation | CallDepthExceeded | InsufficientBalance | WriteProtection
  | InitCodeTooLarge | NonceOverflow | AddressCollision

datatype halt_kind = HaltStop | HaltReturn region_slice | HaltRevert region_slice | HaltSelfDestruct

datatype frame_status = Running | Halted halt_kind | Exceptional exception_kind

section \<open>Frames\<close>

datatype call_kind = Call | CallCode | DelegateCall | StaticCall

datatype create_kind = CreateByNonce | CreateBySalt

record message =
  msg_caller :: address
  msg_code_address :: address
  msg_address :: address
  msg_value :: int
  msg_state_gas_reservoir :: int
  msg_is_static :: bool
  msg_depth :: int

record frame_transition =
  ft_pc :: int
  ft_gas_remaining :: int
  ft_state_gas_remaining :: int
  ft_state_gas_spilled :: int
  ft_refund :: int
  ft_status :: frame_status
  ft_stack_top :: stack_pointer
  ft_memory_base :: int
  ft_memory_height :: int
  ft_message :: message
  ft_code :: code
  ft_calldata :: calldata_slice
  ft_returndata :: region_slice

record exceptional_state_transition =
  es_state_gas_remaining :: int
  es_state_gas_spilled :: int
  es_status :: frame_status

datatype opcode_outcome = Continue | Failed exception_kind

record frame_checkpoint =
  cp_pc :: int
  cp_gas_remaining :: int
  cp_stack_top :: stack_pointer
  cp_state_gas_remaining :: int
  cp_state_gas_spilled :: int
  cp_refund :: int
  cp_status :: frame_status
  cp_message :: message
  cp_code :: code
  cp_calldata :: calldata_slice
  cp_memory_height :: int

record call_continuation =
  cc_checkpoint :: frame_checkpoint
  cc_return_offset :: int
  cc_return_length :: int
  cc_new_account_charged :: bool

record create_continuation =
  kc_checkpoint :: frame_checkpoint
  kc_address :: address
  kc_new_account_charged :: bool

datatype frame_continuation = Empty | ResumeCall call_continuation | ResumeCreate create_continuation

definition DEFAULT_MESSAGE :: message where
  "DEFAULT_MESSAGE = \<lparr>msg_caller = ZERO_ADDRESS, msg_code_address = ZERO_ADDRESS,
     msg_address = ZERO_ADDRESS, msg_value = ZERO_WORD, msg_state_gas_reservoir = 0,
     msg_is_static = False, msg_depth = 0\<rparr>"

section \<open>Bounded quantities\<close>

text \<open>\<open>gas\<close>, \<open>gas_cost\<close> and \<open>state_gas\<close> are \<open>U64\<close>; a spill and a gas constant have smaller bounds.\<close>

definition gas_u64 :: "int \<Rightarrow> ('s, int) action" where
  "gas_u64 v = ranged 0 (2 ^ 64 - 1) v"

definition state_gas_spill :: "int \<Rightarrow> ('s, int) action" where
  "state_gas_spill v = ranged 0 16777216 v"

definition gas_constant :: "int \<Rightarrow> ('s, int) action" where
  "gas_constant v = ranged 0 45000 v"

definition code_length :: "int \<Rightarrow> ('s, int) action" where
  "code_length v = natural v"

definition stack_slot_count :: "int \<Rightarrow> ('s, int) action" where
  "stack_slot_count v = ranged 0 1024 v"

definition GAS_REFUND_LIMIT :: int where
  "GAS_REFUND_LIMIT = 199 * (2 ^ 64 - 1)"

section \<open>Gas and refunds\<close>

definition validated_refund_add :: "int \<Rightarrow> int \<Rightarrow> ('s, int) action" where
  "validated_refund_add left right =
     (let total_refund = left + right in
      if - GAS_REFUND_LIMIT \<le> total_refund \<and> total_refund \<le> GAS_REFUND_LIMIT
      then ret total_refund else fatal_error ExecutionInvalid)"

definition record_refund :: "int \<Rightarrow> int \<Rightarrow> ('s, int) action" where
  "record_refund refund delta = validated_refund_add refund delta"

definition conserved_gas_add :: "int \<Rightarrow> int \<Rightarrow> ('s, int) action" where
  "conserved_gas_add available credit =
     (if credit \<le> 2 ^ 64 - 1 - available then gas_u64 (available + credit)
      else fatal_error ExecutionInvalid)"

definition frame_state_gas_used :: "int \<Rightarrow> int \<Rightarrow> int \<Rightarrow> int" where
  "frame_state_gas_used state_gas_reservoir state_gas_remaining state_gas_spilled =
     (state_gas_reservoir - state_gas_remaining) + state_gas_spilled"

definition exceptional_state ::
    "int \<Rightarrow> int \<Rightarrow> int \<Rightarrow> exception_kind \<Rightarrow> ('z, exceptional_state_transition) kernel" where
  "exceptional_state state_gas_remaining spilled state_gas_reservoir k =
     bind active_fork (\<lambda>fork.
     if fork \<ge> Amsterdam then
       bind (gas_u64 state_gas_reservoir) (\<lambda>remaining.
       ret \<lparr>es_state_gas_remaining = remaining, es_state_gas_spilled = 0,
            es_status = Exceptional k\<rparr>)
     else
       bind (gas_u64 state_gas_remaining) (\<lambda>remaining.
       bind (state_gas_spill spilled) (\<lambda>spilled.
       ret \<lparr>es_state_gas_remaining = remaining, es_state_gas_spilled = spilled,
            es_status = Exceptional k\<rparr>)))"

section \<open>Code\<close>

definition frame_code_len :: "code \<Rightarrow> ('s, int) action" where
  "frame_code_len frame_code = code_length (code_len frame_code)"

definition frame_jumpdest_valid :: "code \<Rightarrow> int \<Rightarrow> ('z, bool) host" where
  "frame_jumpdest_valid frame_code dest =
     jumpdest_ref_contains (code_jumpdests frame_code) (code_len frame_code) dest"

section \<open>The operand stack\<close>

definition STACK_LIMIT :: int where "STACK_LIMIT = 1024"

datatype stack_validation = StackValid | StackUnderflowFailure | StackOverflowFailure

definition stack_height :: "stack_pointer \<Rightarrow> ('s, int) action" where
  "stack_height cursor = stack_slot_count (stack_top_height cursor)"

definition validate_stack :: "stack_pointer \<Rightarrow> int \<Rightarrow> int \<Rightarrow> ('s, stack_validation) action" where
  "validate_stack cursor inputs outputs =
     bind (stack_height cursor) (\<lambda>height.
     if height < inputs then ret StackUnderflowFailure
     else if STACK_LIMIT < (height - inputs) + outputs then ret StackOverflowFailure
     else ret StackValid)"

definition read_stack_word :: "stack_pointer \<Rightarrow> ('z, int) host" where
  "read_stack_word sp = bind (stack_slot_read sp 0) as_word"

definition write_stack_word :: "stack_pointer \<Rightarrow> int \<Rightarrow> ('z, unit) host" where
  "write_stack_word sp value = stack_slot_write sp 0 value"

definition stack_set :: "stack_pointer \<Rightarrow> int \<Rightarrow> int \<Rightarrow> ('z, unit) host" where
  "stack_set cursor n w = stack_slot_write cursor n w"

fun is_running :: "frame_status \<Rightarrow> bool" where
  "is_running Running = True"
| "is_running _ = False"

section \<open>Return data\<close>

definition calldata_install :: "calldata_slice \<Rightarrow> calldata_slice" where
  "calldata_install data = data"

definition returndata_clear :: region_slice where
  "returndata_clear = EMPTY_SLICE"

definition returndata_size :: "region_slice \<Rightarrow> ('s, int) action" where
  "returndata_size returndata = code_length (slice_len returndata)"

definition returndata_copy :: "region_slice \<Rightarrow> int \<Rightarrow> int \<Rightarrow> int \<Rightarrow> ('z, unit) host" where
  "returndata_copy returndata dst off len = output_slice_copy returndata dst off len"

definition returndata_copy_prefix :: "region_slice \<Rightarrow> int \<Rightarrow> int \<Rightarrow> ('z, unit) host" where
  "returndata_copy_prefix returndata dst want =
     bind (returndata_size returndata) (\<lambda>available.
     let copy_length = (if want < available then want else available)
     in output_slice_copy returndata dst 0 copy_length)"

definition returndata_remaining :: "int \<Rightarrow> int \<Rightarrow> ('s, int) action" where
  "returndata_remaining available offset = natural (available - offset)"

section \<open>Memory\<close>

record memory_range =
  mr_off :: int
  mr_len :: int

definition memory_range :: "int \<Rightarrow> int \<Rightarrow> ('s, memory_range) action" where
  "memory_range off len =
     (if valid_range off len then ret \<lparr>mr_off = off, mr_len = len\<rparr>
      else raise (ValueError ''MemoryRangeFieldsValidity violates Sail constraint''))"

definition memory_high_water :: "int \<Rightarrow> ('s, int) action" where
  "memory_high_water height = code_length height"

definition memory_absolute :: "int \<Rightarrow> int \<Rightarrow> ('s, int) action" where
  "memory_absolute base relative =
     (if relative \<le> 2 ^ 32 - 1 - base then code_length (base + relative)
      else fatal_error ExecutionInvalid)"

definition memory_parent_base :: "int \<Rightarrow> int \<Rightarrow> ('s, int) action" where
  "memory_parent_base child_base parent_height =
     (if parent_height \<le> child_base then code_length (child_base - parent_height)
      else fatal_error ExecutionInvalid)"

definition expand_memory :: "int \<Rightarrow> int \<Rightarrow> int \<Rightarrow> ('z, int) host" where
  "expand_memory base height requested_height =
     (if requested_height \<le> 2 ^ 32 - 1 - base then
        if height < requested_height then
          bind (mem_expand base height requested_height) (\<lambda>_. code_length requested_height)
        else code_length height
      else fatal_error ExecutionInvalid)"

definition active_memory_slice :: "int \<Rightarrow> int \<Rightarrow> int \<Rightarrow> int \<Rightarrow> ('z, region_slice) host" where
  "active_memory_slice base mem off len =
     (if len = 0 then ret EMPTY_SLICE
      else if mem \<le> 2 ^ 32 - 1 - base \<and> off + len \<le> mem then
        bind (mem_view base mem (off + len)) (\<lambda>window. region_sub_slice window off len)
      else fatal_error ExecutionInvalid)"

definition memory_code_slice :: "int \<Rightarrow> int \<Rightarrow> int \<Rightarrow> int \<Rightarrow> ('z, region_slice) host" where
  "memory_code_slice base mem off len =
     (if len = 0 then ret EMPTY_SLICE
      else if mem \<le> 2 ^ 32 - 1 - base \<and> off + len \<le> mem then
        bind (mem_view base mem (off + len)) (\<lambda>window.
        bind (region_sub_slice window off len) (\<lambda>initcode.
        code_db_intern_memory initcode))
      else fatal_error ExecutionInvalid)"

definition mem_set_byte :: "int \<Rightarrow> int \<Rightarrow> int \<Rightarrow> ('z, unit) host" where
  "mem_set_byte base off v =
     bind (memory_absolute base off) (\<lambda>absolute_offset. mem_write_byte absolute_offset v)"

definition mem_load :: "int \<Rightarrow> int \<Rightarrow> ('z, int) host" where
  "mem_load base off =
     bind (memory_absolute base off) (\<lambda>absolute_offset.
     bind (mem_load_word absolute_offset) as_word)"

definition mem_store :: "int \<Rightarrow> int \<Rightarrow> int \<Rightarrow> ('z, unit) host" where
  "mem_store base off w =
     bind (memory_absolute base off) (\<lambda>absolute_offset. mem_store_word absolute_offset w)"

definition mem_store_byte :: "int \<Rightarrow> int \<Rightarrow> int \<Rightarrow> ('z, unit) host" where
  "mem_store_byte base off w = (let value = word_low_byte w in mem_set_byte base off value)"

definition mem_mcopy :: "int \<Rightarrow> int \<Rightarrow> int \<Rightarrow> int \<Rightarrow> ('z, unit) host" where
  "mem_mcopy base dst src len =
     (if len \<noteq> 0 then
        bind (memory_absolute base dst) (\<lambda>absolute_dst.
        bind (memory_absolute base src) (\<lambda>absolute_src.
        mem_move absolute_dst absolute_src len))
      else ret ())"

definition mem_keccak :: "hash_function \<Rightarrow> int \<Rightarrow> int \<Rightarrow> memory_range \<Rightarrow> ('z, int) host" where
  "mem_keccak keccak base mem extent =
     bind (active_memory_slice base mem (mr_off extent) (mr_len extent)) (\<lambda>bytes.
     bind (hash_region keccak MemoryRegion bytes) (\<lambda>digest.
     ret (hash_to_word digest)))"

section \<open>Suspending a frame\<close>

text \<open>The checkpoint, and the stack, memory base and memory height of the child.\<close>

definition suspend_frame ::
    "int \<Rightarrow> int \<Rightarrow> stack_pointer \<Rightarrow> int \<Rightarrow> int \<Rightarrow> int \<Rightarrow> int \<Rightarrow> int \<Rightarrow> frame_status \<Rightarrow> message
      \<Rightarrow> code \<Rightarrow> calldata_slice
      \<Rightarrow> ('z, frame_checkpoint \<times> stack_pointer \<times> int \<times> int) host" where
  "suspend_frame pc gas_remaining stack_top base height state_gas_remaining spilled
       frame_refund frame_status message frame_code calldata =
     bind k_journal_checkpoint (\<lambda>_.
     bind operand_stack_push_empty_frame (\<lambda>child_stack.
     bind (memory_absolute base height) (\<lambda>child_memory_base.
     bind (code_length pc) (\<lambda>pc.
     bind (gas_u64 gas_remaining) (\<lambda>gas_remaining.
     bind (gas_u64 state_gas_remaining) (\<lambda>state_gas_remaining.
     bind (state_gas_spill spilled) (\<lambda>spilled.
     bind (code_length height) (\<lambda>height.
     let checkpoint = \<lparr>cp_pc = pc, cp_gas_remaining = gas_remaining, cp_stack_top = stack_top,
           cp_state_gas_remaining = state_gas_remaining, cp_state_gas_spilled = spilled,
           cp_refund = frame_refund, cp_status = frame_status, cp_message = message,
           cp_code = frame_code, cp_calldata = calldata, cp_memory_height = height\<rparr>
     in if - GAS_REFUND_LIMIT \<le> frame_refund \<and> frame_refund \<le> GAS_REFUND_LIMIT
        then ret (checkpoint, child_stack, child_memory_base, 0)
        else raise (ValueError ''FrameCheckpoint.refund violates Sail type range'')))))))))"

end
