(* ===== verification/Gas.thy ===== *)
theory Gas
  imports Machine
begin

text \<open>
  Gas accounting (\<open>evm/gas.py\<close>, \<open>primitives/gas.py\<close>): the price constants, the blob base fee,
  the state-gas reservoir with its spill into regular gas, memory expansion, storage writes and
  the caps on forwarded gas. Costs that depend on the fork read it from the execution profile.
\<close>

section \<open>Constants\<close>

definition G_zero :: int where "G_zero = 0"
definition G_jumpdest :: int where "G_jumpdest = 1"
definition G_base :: int where "G_base = 2"
definition G_verylow :: int where "G_verylow = 3"
definition G_low :: int where "G_low = 5"
definition G_mid :: int where "G_mid = 8"
definition G_high :: int where "G_high = 10"
definition G_warm_access :: int where "G_warm_access = 100"
definition G_cold_sload :: int where "G_cold_sload = 2100"
definition G_cold_account :: int where "G_cold_account = 2600"
definition G_keccak :: int where "G_keccak = 30"
definition G_keccak_word :: int where "G_keccak_word = 6"
definition G_copy_word :: int where "G_copy_word = 3"
definition G_memory :: int where "G_memory = 3"
definition G_log :: int where "G_log = 375"
definition G_logtopic :: int where "G_logtopic = 375"
definition G_logdata :: int where "G_logdata = 8"
definition G_exp :: int where "G_exp = 10"
definition G_expbyte :: int where "G_expbyte = 50"
definition G_sset :: int where "G_sset = 20000"
definition G_sreset :: int where "G_sreset = 2900"
definition R_sclear_pre_london :: int where "R_sclear_pre_london = 15000"
definition R_sclear_london :: int where "R_sclear_london = 4800"
definition R_selfdestruct_pre_london :: int where "R_selfdestruct_pre_london = 24000"
definition G_create :: int where "G_create = 32000"
definition G_codedeposit :: int where "G_codedeposit = 200"
definition G_callvalue :: int where "G_callvalue = 9000"
definition G_callstipend :: int where "G_callstipend = 2300"
definition G_newaccount :: int where "G_newaccount = 25000"
definition G_selfdestruct :: int where "G_selfdestruct = 5000"
definition G_initcode_word :: int where "G_initcode_word = 2"
definition G_amsterdam_cold_account_access :: int where "G_amsterdam_cold_account_access = 3000"
definition G_amsterdam_cold_storage_access :: int where "G_amsterdam_cold_storage_access = 3000"
definition G_amsterdam_storage_write :: int where "G_amsterdam_storage_write = 10000"
definition G_amsterdam_account_write :: int where "G_amsterdam_account_write = 8000"
definition G_amsterdam_call_value :: int where "G_amsterdam_call_value = 10300"
definition G_amsterdam_create_access :: int where "G_amsterdam_create_access = 11000"
definition G_amsterdam_state_byte :: int where "G_amsterdam_state_byte = 1530"
definition G_amsterdam_state_storage_set :: int where "G_amsterdam_state_storage_set = 97920"
definition G_amsterdam_state_new_account :: int where "G_amsterdam_state_new_account = 183600"
definition G_amsterdam_state_auth_base :: int where "G_amsterdam_state_auth_base = 35190"
definition R_amsterdam_storage_clear :: int where "R_amsterdam_storage_clear = 12480"
definition G_sstore_sentry :: int where "G_sstore_sentry = 2301"

lemmas gas_constants =
  G_zero_def G_jumpdest_def G_base_def G_verylow_def G_low_def G_mid_def G_high_def
  G_warm_access_def G_cold_sload_def G_cold_account_def G_keccak_def G_keccak_word_def
  G_copy_word_def G_memory_def G_log_def G_logtopic_def G_logdata_def G_exp_def G_expbyte_def
  G_sset_def G_sreset_def R_sclear_pre_london_def R_sclear_london_def
  R_selfdestruct_pre_london_def G_create_def G_codedeposit_def G_callvalue_def
  G_callstipend_def G_newaccount_def G_selfdestruct_def G_initcode_word_def
  G_amsterdam_cold_account_access_def G_amsterdam_cold_storage_access_def
  G_amsterdam_storage_write_def G_amsterdam_account_write_def G_amsterdam_call_value_def
  G_amsterdam_create_access_def G_amsterdam_state_byte_def G_amsterdam_state_storage_set_def
  G_amsterdam_state_new_account_def G_amsterdam_state_auth_base_def
  R_amsterdam_storage_clear_def G_sstore_sentry_def

record gas_charge =
  affordable :: bool
  gc_cost :: int

definition gas_charge :: "int \<Rightarrow> ('s, gas_charge) action" where
  "gas_charge cost = bind (gas_u64 cost) (\<lambda>cost. ret \<lparr>affordable = True, gc_cost = cost\<rparr>)"

definition GAS_CHARGE_UNAFFORDABLE :: gas_charge where
  "GAS_CHARGE_UNAFFORDABLE = \<lparr>affordable = False, gc_cost = 0\<rparr>"

section \<open>The blob base fee\<close>

definition protocol_word :: "int \<Rightarrow> ('s, int) action" where
  "protocol_word v = as_word v"

text \<open>The loop of \<open>fake_exponential_word\<close>: every turn adds to the output, which stays below the
  scaled limit, so the distance to the limit shrinks.\<close>

function fake_exponential_loop :: "int \<Rightarrow> int \<Rightarrow> int \<Rightarrow> int \<Rightarrow> int \<Rightarrow> ('s, int) action" where
  "fake_exponential_loop denominator numerator term_index output accum =
     (let scaled_limit = denominator * 2 ^ 256 in
      if \<not> accum > 0 then ret output
      else if scaled_limit \<le> accum then fatal_error NumericOverflow
      else if scaled_limit \<le> output + accum then fatal_error NumericOverflow
      else if term_index < scaled_limit
      then fake_exponential_loop denominator numerator (term_index + 1) (output + accum)
        (sail_ediv_int (accum * numerator) (denominator * term_index))
      else fatal_error NumericOverflow)"
  by pat_completeness auto
termination
  by (relation "measure (\<lambda>(denominator, _, _, output, _). nat (denominator * 2 ^ 256 - output))")
    (auto simp: nat_less_eq_zless)

declare fake_exponential_loop.simps [simp del]

definition fake_exponential_word :: "blob_schedule_fields \<Rightarrow> int \<Rightarrow> ('s, int) action" where
  "fake_exponential_word schedule numerator =
     (let denominator = bs_fraction schedule in
      bind (fake_exponential_loop denominator numerator 1 0 denominator) (\<lambda>output.
      let price = sail_ediv_int output denominator in
      if price < 2 ^ 256 then protocol_word price else fatal_error NumericOverflow))"

definition blob_base_fee :: "fork \<Rightarrow> blob_schedule_fields \<Rightarrow> int \<Rightarrow> int \<Rightarrow> ('s, int) action" where
  "blob_base_fee fork schedule limit excess =
     (if fork \<ge> Cancun \<and> excess \<le> limit then fake_exponential_word schedule excess
      else fatal_error InvalidConfig)"

definition block_blob_gas_add :: "int \<Rightarrow> int \<Rightarrow> int \<Rightarrow> ('s, int) action" where
  "block_blob_gas_add maximum_count accumulated transaction =
     (let maximum = 2 ^ 17 * maximum_count in
      if accumulated \<le> maximum \<and> transaction \<le> maximum - accumulated
      then ret (accumulated + transaction) else fatal_error BlobGasLimitExceeded)"

definition excess_blob_gas :: "int \<Rightarrow> ('s, int) action" where
  "excess_blob_gas v = ranged 0 2994028288 v"

definition next_excess_blob_gas :: "protocol_profile \<Rightarrow> int \<Rightarrow> int \<Rightarrow> int \<Rightarrow> ('s, int) action" where
  "next_excess_blob_gas profile parent_excess parent_used parent_base_fee =
     (let parent_blob_gas = parent_excess + parent_used;
          target_blob_gas = 2 ^ 17 * bs_target (pp_blob_schedule profile);
          limit = excess_blob_gas_limit profile in
      if parent_blob_gas < target_blob_gas then excess_blob_gas 0
      else
        bind (blob_base_fee (pp_fork profile) (pp_blob_schedule profile) limit parent_excess)
          (\<lambda>parent_blob_base_fee.
        if pp_fork profile \<ge> Osaka \<and> 16 * parent_blob_base_fee < parent_base_fee then
          (let maximum = bs_max (pp_blob_schedule profile) in
           if maximum = 0 then fatal_error InvalidConfig
           else
             (let share = sail_ediv_int
                    (parent_used * (maximum - bs_target (pp_blob_schedule profile))) maximum;
                  next = parent_excess + share
              in if next \<le> limit then excess_blob_gas next else fatal_error InvalidConfig))
        else
          (let next = parent_blob_gas - target_blob_gas
           in if next \<le> limit then excess_blob_gas next else fatal_error InvalidConfig)))"

section \<open>Size limits\<close>

definition protocol_reads :: "(protocol_profile \<Rightarrow> 'a) \<Rightarrow> ('z, 'a) kernel" where
  "protocol_reads f = reads (\<lambda>s. f (protocol (k_execution_profile s)))"

definition deployed_code_size_allowed :: "int \<Rightarrow> ('z, bool) kernel" where
  "deployed_code_size_allowed bytes_size =
     bind (protocol_reads deployed_code_size_limit) (\<lambda>limit. ret (bytes_size \<le> limit))"

definition initcode_size_allowed :: "int \<Rightarrow> ('z, bool) kernel" where
  "initcode_size_allowed bytes_size =
     bind (protocol_reads initcode_size_limit) (\<lambda>limit. ret (limit = 0 \<or> bytes_size \<le> limit))"

definition sstore_clear_refund :: "('z, int) kernel" where
  "sstore_clear_refund =
     bind active_fork (\<lambda>fork.
     gas_constant (if fork \<ge> London then R_sclear_london else R_sclear_pre_london))"

section \<open>State gas\<close>

definition state_gas_spill_room :: "int \<Rightarrow> int" where
  "state_gas_spill_room left = 2 ^ 24 - left"

definition state_gas_spill_add :: "int \<Rightarrow> int \<Rightarrow> ('s, int) action" where
  "state_gas_spill_add left right =
     (let room = state_gas_spill_room left in
      if right \<le> room then ret (left + right) else fatal_error ExecutionInvalid)"

text \<open>Whether the charge failed, and the new regular gas, state gas and spill.\<close>

definition charge_state_gas ::
    "int \<Rightarrow> int \<Rightarrow> int \<Rightarrow> int \<Rightarrow> ('s, bool \<times> int \<times> int \<times> int) action" where
  "charge_state_gas g remaining spilled amount =
     (if amount = 0 then ret (False, g, remaining, spilled)
      else if amount \<le> remaining then ret (False, g, remaining - amount, spilled)
      else
        (let remainder = amount - remaining in
         if remainder \<le> g then
           bind (state_gas_spill_add spilled remainder) (\<lambda>spilled.
           ret (False, g - remainder, 0, spilled))
         else ret (True, g, remaining, spilled)))"

definition credit_state_gas_refund ::
    "int \<Rightarrow> int \<Rightarrow> int \<Rightarrow> int \<Rightarrow> ('s, int \<times> int \<times> int) action" where
  "credit_state_gas_refund g remaining spilled amount =
     (if amount \<le> spilled then
        if amount \<noteq> 0 then
          bind (conserved_gas_add g amount) (\<lambda>g. ret (g, remaining, spilled - amount))
        else ret (g, remaining, spilled)
      else
        bind (if spilled \<noteq> 0 then conserved_gas_add g spilled else ret g) (\<lambda>credited.
        let to_state = amount - spilled in
        bind (conserved_gas_add remaining to_state) (\<lambda>remaining. ret (credited, remaining, 0))))"

definition return_child_state_gas ::
    "int \<Rightarrow> int \<Rightarrow> int \<Rightarrow> int \<Rightarrow> ('s, int \<times> int) action" where
  "return_child_state_gas parent_remaining parent_spilled child_remaining child_spilled =
     (let state_room = 2 ^ 64 - 1 - parent_remaining in
      if child_remaining \<le> state_room then
        bind (state_gas_spill_add parent_spilled child_spilled) (\<lambda>spilled.
        ret (parent_remaining + child_remaining, spilled))
      else fatal_error ExecutionInvalid)"

definition refund_gas :: "int \<Rightarrow> int \<Rightarrow> ('s, int) action" where
  "refund_gas g amount = bind (conserved_gas_add g amount) gas_u64"

definition gas_sub :: "int \<Rightarrow> int \<Rightarrow> ('s, int) action" where
  "gas_sub left right = (if right \<le> left then gas_u64 (left - right) else gas_u64 0)"

section \<open>Memory\<close>

definition memory_word_count :: "int \<Rightarrow> int" where
  "memory_word_count byte_len =
     (let quotient = sail_tdiv_int byte_len 32; remainder = sail_tmod_int byte_len 32
      in if remainder = 0 then quotient else quotient + 1)"

definition memory_word_count_word :: "int \<Rightarrow> int" where
  "memory_word_count_word byte_len =
     (let word_bytes = 32; quotient = word_div_word byte_len word_bytes;
          remainder = word_mod_word byte_len word_bytes
      in if remainder = WORD_ZERO then quotient else word_add_word quotient WORD_ONE)"

definition mem_cost :: "int \<Rightarrow> int" where
  "mem_cost words =
     (let linear = G_memory * words; square = words * words; quadratic = sail_ediv_int square 512
      in linear + quadratic)"

definition memory_requested_height :: "int \<Rightarrow> int \<Rightarrow> ('s, int) action" where
  "memory_requested_height start extent =
     (if extent = 0 then natural 0
      else if start \<le> 2 ^ 32 - 1 then
        if extent \<le> 2 ^ 32 - 1 - start then natural (start + extent) else natural (2 ^ 32 - 1 + 1)
      else natural (2 ^ 32 - 1 + 1))"

record memory_access =
  ma_range :: memory_range
  ma_height :: int

definition EMPTY_MEMORY_ACCESS :: memory_access where
  "EMPTY_MEMORY_ACCESS = \<lparr>ma_range = \<lparr>mr_off = 0, mr_len = 0\<rparr>, ma_height = 0\<rparr>"

text \<open>\<open>MemoryAccessFieldsValidity\<close>\<close>

definition memory_access_relation :: "int \<Rightarrow> int \<Rightarrow> int \<Rightarrow> bool" where
  "memory_access_relation off len required \<longleftrightarrow> valid_range off len \<and> 0 \<le> required \<and>
     (len = 0 \<and> off = 0 \<and> required = 0 \<or> 0 < len \<and> required = off + len)"

definition memory_access :: "int \<Rightarrow> int \<Rightarrow> ('s, memory_access) action" where
  "memory_access start extent =
     (if extent = 0 then ret EMPTY_MEMORY_ACCESS
      else if start \<le> 2 ^ 32 - 1 then
        if extent \<le> 2 ^ 32 - 1 - start then
          bind (memory_range start extent) (\<lambda>window.
          if memory_access_relation start extent (start + extent)
          then ret \<lparr>ma_range = window, ma_height = start + extent\<rparr>
          else raise (ValueError ''MemoryAccessFieldsValidity violates Sail constraint''))
        else fatal_error ExecutionInvalid
      else fatal_error ExecutionInvalid)"

definition memory_expansion_gas_cost :: "int \<Rightarrow> int \<Rightarrow> int \<Rightarrow> ('s, gas_charge) action" where
  "memory_expansion_gas_cost mem requested_height available =
     (if requested_height \<le> 2 ^ 32 - 1 then
        (let new_words = memory_word_count requested_height in
         bind (memory_high_water mem) (\<lambda>old_size.
         let old_words = memory_word_count old_size in
         if new_words \<le> old_words then gas_charge 0
         else
           (let old_cost = mem_cost old_words; new_cost = mem_cost new_words in
            if old_cost \<le> new_cost then
              (let exact_cost = new_cost - old_cost in
               if exact_cost \<le> available then gas_charge exact_cost
               else ret GAS_CHARGE_UNAFFORDABLE)
            else gas_charge 0)))
      else ret GAS_CHARGE_UNAFFORDABLE)"

section \<open>Access costs\<close>

definition account_cost :: "bool \<Rightarrow> ('z, int) kernel" where
  "account_cost warm =
     bind active_fork (\<lambda>fork.
     if warm then gas_constant G_warm_access
     else if fork \<ge> Amsterdam then gas_constant G_amsterdam_cold_account_access
     else gas_constant G_cold_account)"

definition external_code_read_cost :: "('z, int) kernel" where
  "external_code_read_cost =
     bind active_fork (\<lambda>fork.
     if fork \<ge> Amsterdam then gas_constant G_warm_access else gas_constant G_zero)"

definition sload_cost :: "bool \<Rightarrow> ('z, int) kernel" where
  "sload_cost warm =
     bind active_fork (\<lambda>fork.
     if warm then gas_constant G_warm_access
     else if fork \<ge> Amsterdam then gas_constant G_amsterdam_cold_storage_access
     else gas_constant G_cold_sload)"

definition call_value_cost :: "('z, int) kernel" where
  "call_value_cost =
     bind active_fork (\<lambda>fork.
     if fork \<ge> Amsterdam then gas_constant G_amsterdam_call_value else gas_constant G_callvalue)"

definition create_access_cost :: "('z, int) kernel" where
  "create_access_cost =
     bind active_fork (\<lambda>fork.
     if fork \<ge> Amsterdam then gas_constant G_amsterdam_create_access else gas_constant G_create)"

definition code_deployment_execution_cost :: "int \<Rightarrow> int \<Rightarrow> ('z, gas_charge) kernel" where
  "code_deployment_execution_cost byte_len available =
     bind (protocol_reads (\<lambda>p. p)) (\<lambda>profile.
     if pp_fork profile \<ge> Amsterdam then
       if byte_len \<le> deployed_code_size_limit profile then
         (let words = memory_word_count byte_len in
          if words \<le> sail_ediv_int available G_keccak_word then gas_charge (G_keccak_word * words)
          else ret GAS_CHARGE_UNAFFORDABLE)
       else ret GAS_CHARGE_UNAFFORDABLE
     else if byte_len \<le> sail_ediv_int available G_codedeposit
       then gas_charge (G_codedeposit * byte_len)
       else ret GAS_CHARGE_UNAFFORDABLE)"

definition code_deployment_state_cost :: "int \<Rightarrow> ('z, int) kernel" where
  "code_deployment_state_cost byte_len =
     bind (protocol_reads (\<lambda>p. p)) (\<lambda>profile.
     if pp_fork profile \<ge> Amsterdam then
       if byte_len \<le> deployed_code_size_limit profile
       then gas_u64 (G_amsterdam_state_byte * byte_len) else fatal_error ExecutionInvalid
     else gas_u64 0)"

section \<open>Storage writes\<close>

record sstore_costs =
  sc_execution :: int
  sc_refund :: int
  sc_state_charge :: int
  sc_state_credit :: int

definition sstore_costs_of :: "int \<Rightarrow> int \<Rightarrow> int \<Rightarrow> int \<Rightarrow> ('s, sstore_costs) action" where
  "sstore_costs_of execution refund state_charge state_credit =
     bind (gas_u64 execution) (\<lambda>execution.
     bind (gas_u64 state_charge) (\<lambda>state_charge.
     bind (state_gas_spill state_credit) (\<lambda>state_credit.
     if - GAS_REFUND_LIMIT \<le> refund \<and> refund \<le> GAS_REFUND_LIMIT
     then ret \<lparr>sc_execution = execution, sc_refund = refund, sc_state_charge = state_charge,
               sc_state_credit = state_credit\<rparr>
     else raise (ValueError ''SstoreCosts.refund violates Sail type range''))))"

definition amsterdam_storage_access_cost :: "bool \<Rightarrow> ('s, int) action" where
  "amsterdam_storage_access_cost cold =
     gas_constant (if cold then G_amsterdam_cold_storage_access else G_warm_access)"

definition sstore_sentry_cost :: "bool \<Rightarrow> ('s, int) action" where
  "sstore_sentry_cost cold =
     bind (amsterdam_storage_access_cost cold) (\<lambda>access_cost.
     if access_cost < G_sstore_sentry then gas_u64 G_sstore_sentry else gas_u64 access_cost)"

definition legacy_sstore_costs :: "int \<Rightarrow> int \<Rightarrow> int \<Rightarrow> bool \<Rightarrow> ('z, sstore_costs) kernel" where
  "legacy_sstore_costs original current new_value cold =
     (let cold_cost = (if cold then G_cold_sload else 0) in
     bind sstore_clear_refund (\<lambda>clear_refund.
     let clean_change = (current \<noteq> new_value \<and> original = current);
         original_is_zero = word_is_zero original; current_is_zero = word_is_zero current;
         new_value_is_zero = word_is_zero new_value;
         base = (if clean_change then if original_is_zero then G_sset else G_sreset
                 else G_warm_access);
         refund =
           (if current = new_value then 0
            else if original = current
              then (if \<not> original_is_zero \<and> new_value_is_zero then clear_refund else 0)
            else
              (let clear_delta =
                     (if original_is_zero then 0
                      else (if current_is_zero then 0 - clear_refund else 0) +
                        (if new_value_is_zero then clear_refund else 0));
                   reset_delta =
                     (if original = new_value
                      then if original_is_zero then G_sset - G_warm_access
                           else G_sreset - G_warm_access
                      else 0)
               in clear_delta + reset_delta))
     in sstore_costs_of (base + cold_cost) refund 0 0))"

definition amsterdam_sstore_costs :: "int \<Rightarrow> int \<Rightarrow> int \<Rightarrow> bool \<Rightarrow> ('s, sstore_costs) action" where
  "amsterdam_sstore_costs original current new_value cold =
     (let changed = (current \<noteq> new_value); clean_change = (original = current \<and> changed) in
     bind (amsterdam_storage_access_cost cold) (\<lambda>access_cost.
     let original_is_zero = word_is_zero original; current_is_zero = word_is_zero current;
         new_value_is_zero = word_is_zero new_value;
         execution = (if clean_change then access_cost + G_amsterdam_storage_write
                      else access_cost);
         clear_delta =
           (if changed \<and> \<not> original_is_zero \<and> \<not> current_is_zero \<and> new_value_is_zero
            then R_amsterdam_storage_clear
            else if changed \<and> \<not> original_is_zero \<and> current_is_zero
            then 0 - R_amsterdam_storage_clear else 0);
         restore_delta = (if changed \<and> original = new_value then G_amsterdam_storage_write else 0);
         refund = clear_delta + restore_delta;
         state_charge = (if clean_change \<and> original_is_zero then G_amsterdam_state_storage_set
                         else 0);
         state_credit = (if changed \<and> original = new_value \<and> original_is_zero
                         then G_amsterdam_state_storage_set else 0)
     in sstore_costs_of execution refund state_charge state_credit))"

definition sstore_costs :: "int \<Rightarrow> int \<Rightarrow> int \<Rightarrow> bool \<Rightarrow> ('z, sstore_costs) kernel" where
  "sstore_costs original current new_value cold =
     bind active_fork (\<lambda>fork.
     if fork \<ge> Amsterdam then amsterdam_sstore_costs original current new_value cold
     else legacy_sstore_costs original current new_value cold)"

section \<open>Costs by size\<close>

definition word_scaled_gas_cost :: "int \<Rightarrow> int \<Rightarrow> int \<Rightarrow> ('s, gas_charge) action" where
  "word_scaled_gas_cost per_unit units available =
     (if per_unit = 0 \<or> units = 0 then gas_charge 0
      else if units \<le> available then
        (let exact_cost = per_unit * units in
         if exact_cost \<le> available then gas_charge exact_cost else ret GAS_CHARGE_UNAFFORDABLE)
      else ret GAS_CHARGE_UNAFFORDABLE)"

definition fixed_plus_variable :: "int \<Rightarrow> int \<Rightarrow> int \<Rightarrow> int \<Rightarrow> ('s, gas_charge) action" where
  "fixed_plus_variable fixed per_unit units available =
     (if fixed > available then ret GAS_CHARGE_UNAFFORDABLE
      else
        (let after_fixed = available - fixed in
         bind (word_scaled_gas_cost per_unit units after_fixed) (\<lambda>variable.
         if affordable variable then
           (let exact_cost = fixed + gc_cost variable in
            if exact_cost \<le> available then gas_charge exact_cost
            else ret GAS_CHARGE_UNAFFORDABLE)
         else ret GAS_CHARGE_UNAFFORDABLE)))"

definition memory_word_gas_cost :: "int \<Rightarrow> int \<Rightarrow> int \<Rightarrow> int \<Rightarrow> ('s, gas_charge) action" where
  "memory_word_gas_cost base per_word bytes_len available =
     fixed_plus_variable base per_word (memory_word_count_word bytes_len) available"

definition keccak_gas_cost :: "int \<Rightarrow> int \<Rightarrow> ('s, gas_charge) action" where
  "keccak_gas_cost bytes_len available = memory_word_gas_cost G_keccak G_keccak_word bytes_len available"

definition copy_gas_cost :: "int \<Rightarrow> int \<Rightarrow> ('s, gas_charge) action" where
  "copy_gas_cost bytes_len available = memory_word_gas_cost 0 G_copy_word bytes_len available"

definition log_gas_cost :: "int \<Rightarrow> int \<Rightarrow> int \<Rightarrow> ('s, gas_charge) action" where
  "log_gas_cost num_topics bytes_len available =
     (let topic_cost = G_logtopic * num_topics; fixed_cost = G_log + topic_cost
      in fixed_plus_variable fixed_cost G_logdata bytes_len available)"

definition exp_gas :: "int \<Rightarrow> ('s, int) action" where
  "exp_gas exponent =
     (let exponent_bytes = word_byte_length exponent
      in gas_u64 (G_expbyte * exponent_bytes + G_exp))"

definition transaction_initcode_gas :: "int \<Rightarrow> ('z, int) kernel" where
  "transaction_initcode_gas byte_len =
     bind active_fork (\<lambda>fork.
     if fork \<ge> Shanghai
     then (let words = memory_word_count byte_len in natural (words + words)) else natural 0)"

definition call_gas_cap_word :: "int \<Rightarrow> int \<Rightarrow> ('s, int) action" where
  "call_gas_cap_word available requested =
     (let retained = sail_ediv_int available 64 in
     bind (gas_sub available retained) (\<lambda>all_but_64th.
     if requested < all_but_64th then gas_u64 requested else gas_u64 all_but_64th))"

end
