(* ===== verification/Gas_Precompiles.thy ===== *)
theory Gas_Precompiles
  imports Gas
begin

text \<open>
  The prices of the precompiled contracts (\<open>evm/gas.py\<close>): the big-endian readers of their input,
  the MODEXP schedule before and after Osaka and the discounted multi-scalar multiplications.
\<close>

section \<open>Reading the input\<close>

text \<open>The loop over \<open>sail_range(0, 31)\<close>, over the list of its byte indices.\<close>

fun pc_word_loop :: "calldata_slice \<Rightarrow> int \<Rightarrow> int \<Rightarrow> int \<Rightarrow> int list \<Rightarrow> ('z, int) host" where
  "pc_word_loop input start_offset count v [] = ret v"
| "pc_word_loop input start_offset count v (offset # offsets) =
     (if offset < count then
        (let input_length = calldata_slice_length input in
         bind (if start_offset < input_length then
                 (let remaining = input_length - start_offset in
                  if offset < remaining
                  then (let cursor = start_offset + offset in calldata_slice_byte input cursor)
                  else ret 0)
               else ret 0) (\<lambda>next_byte.
         let shifted = word_shift_left v 8
         in bind (as_word (word_add_word shifted next_byte)) (\<lambda>v.
            pc_word_loop input start_offset count v offsets)))
      else pc_word_loop input start_offset count v offsets)"

definition pc_word :: "calldata_slice \<Rightarrow> int \<Rightarrow> int \<Rightarrow> ('z, int) host" where
  "pc_word input start byte_count = pc_word_loop input start byte_count ZERO_WORD [0..31]"

definition pc_word_after_declared_field ::
    "calldata_slice \<Rightarrow> int \<Rightarrow> int \<Rightarrow> int \<Rightarrow> ('z, int) host" where
  "pc_word_after_declared_field input prefix declared_length byte_count =
     (let input_length = calldata_slice_length input in
      if prefix < input_length then
        (let suffix_length = input_length - prefix in
         if declared_length < suffix_length then
           (let start = prefix + declared_length in pc_word input start byte_count)
         else ret ZERO_WORD)
      else ret ZERO_WORD)"

definition pc_blake2_rounds :: "calldata_slice \<Rightarrow> ('z, int) host" where
  "pc_blake2_rounds input =
     bind (pc_word input 0 4) (\<lambda>rounds_word.
     ranged 0 (2 ^ 32 - 1) (sail_tmod_int rounds_word (2 ^ 32)))"

section \<open>MODEXP\<close>

text \<open>
  \<open>modexp_gas\<close> returns early whenever a bound shows that the price exceeds the available gas:
  \<open>None\<close> of \<open>modexp_multiplier\<close> and \<open>modexp_iterations\<close> is such an early return.
\<close>

definition modexp_words :: "int \<Rightarrow> int" where
  "modexp_words maxlen =
     (let whole_words = sail_ediv_int maxlen 8; partial_word_bytes = sail_tmod_int maxlen 8;
          trailing_word = (if partial_word_bytes = 0 then 0 else 1)
      in whole_words + trailing_word)"

definition modexp_multiplier :: "bool \<Rightarrow> int \<Rightarrow> int \<Rightarrow> int \<Rightarrow> int option" where
  "modexp_multiplier osaka available product_limit maxlen =
     (let words = modexp_words maxlen in
      if product_limit < words then None
      else
        (let words_squared = words * words in
         if product_limit < words_squared then None
         else if osaka \<and> maxlen \<le> 32 then Some 16
         else if osaka then
           (let doubled_limit = sail_ediv_int available 2 in
            if words_squared > doubled_limit then None else Some (2 * words_squared))
         else Some words_squared))"

definition modexp_iterations ::
    "bool \<Rightarrow> int \<Rightarrow> calldata_slice \<Rightarrow> int \<Rightarrow> int \<Rightarrow> ('z, int option) host" where
  "modexp_iterations osaka available input bl el =
     (if el \<le> 32 then
        bind (pc_word_after_declared_field input 96 bl el) (\<lambda>exponent_head.
        let exponent_bits = word_bit_length exponent_head in
        ret (Some (if exponent_bits = 0 then 1
                   else (let count = exponent_bits - 1 in if count = 0 then 1 else count))))
      else
        bind (pc_word_after_declared_field input 96 bl 32) (\<lambda>exponent_head.
        let head_bits = word_bit_length exponent_head;
            high_bits = (if head_bits \<noteq> 0 then head_bits - 1 else 0); extra = el - 32 in
        if osaka then
          (let extra_limit = sail_ediv_int available 16;
               exceeds_maximum = word_greater_than_word extra 992;
               osaka_extra = (if exceeds_maximum then 992 else extra) in
           if osaka_extra > extra_limit then ret None
           else (let count = 16 * osaka_extra + high_bits
                 in ret (Some (if count = 0 then 1 else count))))
        else
          (let pre_osaka_limit = 3 * available + 2;
               extra_limit = sail_ediv_int pre_osaka_limit 8 in
           if extra > extra_limit then ret None
           else (let count = 8 * extra + high_bits
                 in ret (Some (if count = 0 then 1 else count))))))"

definition modexp_price :: "bool \<Rightarrow> int \<Rightarrow> int \<Rightarrow> int \<Rightarrow> int \<Rightarrow> int \<Rightarrow> ('s, gas_charge) action" where
  "modexp_price osaka available minimum product_limit mult iterations =
     (if iterations = 0 then ret GAS_CHARGE_UNAFFORDABLE
      else
        (let product = mult * iterations in
         if product_limit < product then ret GAS_CHARGE_UNAFFORDABLE
         else
           (let calculated = (if osaka then product else sail_ediv_int product 3);
                cost = (if calculated < minimum then minimum else calculated) in
            if cost \<le> available then gas_charge cost else ret GAS_CHARGE_UNAFFORDABLE)))"

definition modexp_gas :: "calldata_slice \<Rightarrow> int \<Rightarrow> ('z, gas_charge) kernel" where
  "modexp_gas input available =
     bind active_fork (\<lambda>fork.
     bind (pc_word input 0 32) (\<lambda>bl.
     bind (pc_word input 32 32) (\<lambda>el.
     bind (pc_word input 64 32) (\<lambda>ml.
     let osaka = (fork \<ge> Osaka) in
     if osaka \<and> (bl > 1024 \<or> el > 1024 \<or> ml > 1024) then ret GAS_CHARGE_UNAFFORDABLE
     else
       (let minimum = (if osaka then 500 else 200) in
        if available < minimum then ret GAS_CHARGE_UNAFFORDABLE
        else if \<not> osaka \<and> word_is_zero bl \<and> word_is_zero ml then gas_charge 200
        else
          (let maxlen = (if ml < bl then bl else ml);
               product_limit = (if osaka then available else 3 * available + 2) in
           case modexp_multiplier osaka available product_limit maxlen of
             None \<Rightarrow> ret GAS_CHARGE_UNAFFORDABLE
           | Some mult \<Rightarrow>
               if product_limit < mult then ret GAS_CHARGE_UNAFFORDABLE
               else
                 bind (modexp_iterations osaka available input bl el) (\<lambda>iterations.
                 case iterations of
                   None \<Rightarrow> ret GAS_CHARGE_UNAFFORDABLE
                 | Some iterations \<Rightarrow>
                     modexp_price osaka available minimum product_limit mult iterations)))))))"

section \<open>Multi-scalar multiplication\<close>

definition BLS_G1_DISCOUNT :: "int list" where
  "BLS_G1_DISCOUNT = [
     1000, 949, 848, 797, 764, 750, 738, 728, 719, 712, 705, 698, 692, 687, 682, 677, 673,
     669, 665, 661, 658, 654, 651, 648, 645, 642, 640, 637, 635, 632, 630, 627, 625, 623, 621,
     619, 617, 615, 613, 611, 609, 608, 606, 604, 603, 601, 599, 598, 596, 595, 593, 592, 591,
     589, 588, 586, 585, 584, 582, 581, 580, 579, 577, 576, 575, 574, 573, 572, 570, 569, 568,
     567, 566, 565, 564, 563, 562, 561, 560, 559, 558, 557, 556, 555, 554, 553, 552, 551, 550,
     549, 548, 547, 547, 546, 545, 544, 543, 542, 541, 540, 540, 539, 538, 537, 536, 536, 535,
     534, 533, 532, 532, 531, 530, 529, 528, 528, 527, 526, 525, 525, 524, 523, 522, 522, 521,
     520, 520, 519]"

definition BLS_G2_DISCOUNT :: "int list" where
  "BLS_G2_DISCOUNT = [
     1000, 1000, 923, 884, 855, 832, 812, 796, 782, 770, 759, 749, 740, 732, 724, 717, 711,
     704, 699, 693, 688, 683, 679, 674, 670, 666, 663, 659, 655, 652, 649, 646, 643, 640, 637,
     634, 632, 629, 627, 624, 622, 620, 618, 615, 613, 611, 609, 607, 606, 604, 602, 600, 598,
     597, 595, 593, 592, 590, 589, 587, 586, 584, 583, 582, 580, 579, 578, 576, 575, 574, 573,
     571, 570, 569, 568, 567, 566, 565, 563, 562, 561, 560, 559, 558, 557, 556, 555, 554, 553,
     552, 552, 551, 550, 549, 548, 547, 546, 545, 545, 544, 543, 542, 541, 541, 540, 539, 538,
     537, 537, 536, 535, 535, 534, 533, 532, 532, 531, 530, 530, 529, 528, 528, 527, 526, 526,
     525, 524, 524]"

definition bls_msm_gas ::
    "int list \<Rightarrow> int \<Rightarrow> int \<Rightarrow> int \<Rightarrow> int \<Rightarrow> ('s, gas_charge) action" where
  "bls_msm_gas table base maxd k available =
     (if k = 0 then gas_charge 0
      else
        (let discount = (if k < 128 then (let index = 128 - k in vector_access table (nat index))
                         else maxd);
             coefficient = base * discount; whole = sail_ediv_int k 1000;
             remainder = sail_tmod_int k 1000; whole_product = coefficient * whole in
         if whole_product > available then ret GAS_CHARGE_UNAFFORDABLE
         else
           (let tail_product = coefficient * remainder; tail_gas = sail_ediv_int tail_product 1000;
                total_gas = whole_product + tail_gas in
            if total_gas \<le> available then gas_charge total_gas
            else ret GAS_CHARGE_UNAFFORDABLE)))"

section \<open>The price of each precompile\<close>

definition linear_gas :: "int \<Rightarrow> int \<Rightarrow> int \<Rightarrow> int \<Rightarrow> ('s, gas_charge) action" where
  "linear_gas base per_unit units available =
     (let variable_cost = per_unit * units; exact_cost = variable_cost + base in
      if exact_cost > available then ret GAS_CHARGE_UNAFFORDABLE else gas_charge exact_cost)"

definition fixed_precompile_gas :: "int \<Rightarrow> int \<Rightarrow> ('s, gas_charge) action" where
  "fixed_precompile_gas cost available =
     (if cost \<le> available then gas_charge cost else ret GAS_CHARGE_UNAFFORDABLE)"

definition precompile_gas :: "precompile_id \<Rightarrow> calldata_slice \<Rightarrow> int \<Rightarrow> ('z, gas_charge) kernel" where
  "precompile_gas num input available =
     (let input_length = calldata_slice_length input; words = memory_word_count input_length in
      case num of
        NotPrecompile \<Rightarrow> ret GAS_CHARGE_UNAFFORDABLE
      | Ecrecover \<Rightarrow> fixed_precompile_gas 3000 available
      | Sha256 \<Rightarrow> linear_gas 60 12 words available
      | Ripemd160 \<Rightarrow> linear_gas 600 120 words available
      | Identity \<Rightarrow> linear_gas 15 3 words available
      | Modexp \<Rightarrow> modexp_gas input available
      | Bn254Add \<Rightarrow> fixed_precompile_gas 150 available
      | Bn254Mul \<Rightarrow> fixed_precompile_gas 6000 available
      | Bn254Pairing \<Rightarrow> linear_gas 45000 34000 (sail_ediv_int input_length 192) available
      | Blake2f \<Rightarrow> bind (pc_blake2_rounds input) (\<lambda>rounds. fixed_precompile_gas rounds available)
      | KzgPointEvaluation \<Rightarrow> fixed_precompile_gas 50000 available
      | BlsG1Add \<Rightarrow> fixed_precompile_gas 375 available
      | BlsG1Msm \<Rightarrow>
          bls_msm_gas BLS_G1_DISCOUNT 12000 519 (sail_ediv_int input_length 160) available
      | BlsG2Add \<Rightarrow> fixed_precompile_gas 600 available
      | BlsG2Msm \<Rightarrow>
          bls_msm_gas BLS_G2_DISCOUNT 22500 524 (sail_ediv_int input_length 288) available
      | BlsPairing \<Rightarrow> linear_gas 37700 32600 (sail_ediv_int input_length 384) available
      | BlsMapFpToG1 \<Rightarrow> fixed_precompile_gas 5500 available
      | BlsMapFp2ToG2 \<Rightarrow> fixed_precompile_gas 23800 available
      | P256Verify \<Rightarrow> fixed_precompile_gas 6900 available)"

end
