(* ===== verification/Gas_Laws.thy ===== *)
theory Gas_Laws
  imports Gas_Precompiles
begin

text \<open>
  What the gas accounting promises: charging and crediting state gas conserves the total, memory
  expansion costs the difference of a quadratic price, costs by size are exact, forwarded gas
  keeps one part in 64 back, storage refunds never turn negative along a run of writes, and the
  blob base fee is the integer Taylor sum of the exponential.
\<close>

section \<open>Charges\<close>

lemma gas_charge_run:
  "0 \<le> c \<Longrightarrow> c \<le> 2 ^ 64 - 1 \<Longrightarrow> gas_charge c s = Inr (\<lparr>affordable = True, gc_cost = c\<rparr>, s)"
  by (simp add: gas_charge_def gas_u64_def)

lemma fatal_error_run [simp]: "fatal_error r s = Inl SailExit"
  by (simp add: fatal_error_def)

lemma state_gas_spill_add_run:
  "state_gas_spill_add l r s = (if l + r \<le> 2 ^ 24 then Inr (l + r, s) else Inl SailExit)"
  by (simp add: state_gas_spill_add_def state_gas_spill_room_def)

lemma conserved_gas_add_run:
  "0 \<le> a \<Longrightarrow> 0 \<le> c \<Longrightarrow> conserved_gas_add a c s =
    (if a + c \<le> 2 ^ 64 - 1 then Inr (a + c, s) else Inl SailExit)"
  by (simp add: conserved_gas_add_def gas_u64_def)

section \<open>Memory\<close>

definition words_of :: "int \<Rightarrow> int" where
  "words_of n = (n + 31) div 32"

definition memory_price :: "int \<Rightarrow> int" where
  "memory_price w = 3 * w + w * w div 512"

lemma words_of_div_mod: "words_of n = (if n mod 32 = 0 then n div 32 else n div 32 + 1)"
proof -
  define q r where "q = n div 32" and "r = n mod 32"
  have n: "n = r + q * 32" and r: "0 \<le> r" "r < 32" by (simp_all add: q_def r_def)
  have "(n + 31) div 32 = ((r + 31) + q * 32) div 32" using n by simp
  also have "\<dots> = q + (r + 31) div 32" by simp
  also have "(r + 31) div 32 = (if r = 0 then 0 else 1)" using r by auto
  finally show ?thesis by (simp add: words_of_def q_def r_def)
qed

lemma memory_word_count_ceiling: "0 \<le> n \<Longrightarrow> memory_word_count n = words_of n"
  by (simp add: memory_word_count_def words_of_div_mod Let_def)

lemma memory_word_count_word_ceiling:
  assumes "0 \<le> n" and "n < 2 ^ 256"
  shows "memory_word_count_word n = words_of n"
proof -
  have q: "0 \<le> n div 32" "n div 32 + 1 < 2 ^ 256" using assms by simp_all
  have "word_add_word (n div 32) 1 = n div 32 + 1"
    using q by (simp add: word_add_word_def sail_tmod_int_nonneg)
  then show ?thesis
    using assms(1)
    by (simp add: memory_word_count_word_def words_of_div_mod word_div_word_def word_mod_word_def
        word_constants Let_def)
qed

lemma mem_cost_price: "mem_cost w = memory_price w"
  by (simp add: mem_cost_def memory_price_def gas_constants Let_def)

lemma memory_price_mono:
  assumes "0 \<le> v" and "v \<le> w"
  shows "memory_price v \<le> memory_price w"
proof -
  have "v * v \<le> w * w" using assms by (simp add: mult_mono)
  then have "v * v div 512 \<le> w * w div 512" by (simp add: zdiv_mono1)
  with assms show ?thesis by (simp add: memory_price_def)
qed

lemma memory_price_bound:
  assumes "0 \<le> w" and "w \<le> 2 ^ 27"
  shows "0 \<le> memory_price w" "memory_price w \<le> 2 ^ 46"
proof -
  have "0 \<le> w * w div 512" using assms by (intro pos_imp_zdiv_nonneg_iff [THEN iffD2]) simp_all
  then show "0 \<le> memory_price w" using assms by (simp add: memory_price_def)
  have "memory_price w \<le> memory_price (2 ^ 27)" using memory_price_mono assms by blast
  then show "memory_price w \<le> 2 ^ 46" by (simp add: memory_price_def)
qed

text \<open>C23: Memory expansion: growing memory from one height to another costs exactly the difference of
  the quadratic memory price of the two sizes in words, or is unaffordable; so expanding in
  steps costs what expanding at once costs.\<close>

theorem memory_expansion_is_price_difference:
  assumes "0 \<le> mem" and "mem \<le> req" and "req \<le> 2 ^ 32 - 1"
  shows "memory_expansion_gas_cost mem req available s =
    Inr (if memory_price (words_of req) - memory_price (words_of mem) \<le> available
           \<or> words_of req = words_of mem
         then \<lparr>affordable = True,
           gc_cost = memory_price (words_of req) - memory_price (words_of mem)\<rparr>
         else GAS_CHARGE_UNAFFORDABLE, s)"
proof -
  let ?new = "words_of req" and ?old = "words_of mem"
  have w: "0 \<le> ?old" "?old \<le> ?new" "?new \<le> 2 ^ 27"
    using assms by (simp_all add: words_of_def zdiv_mono1)
  have price: "memory_price ?old \<le> memory_price ?new" "0 \<le> memory_price ?old"
    "memory_price ?new \<le> 2 ^ 46"
    using memory_price_mono [of ?old ?new] memory_price_bound [of ?old] memory_price_bound [of ?new] w
    by auto
  have charge: "gas_charge (memory_price ?new - memory_price ?old) s =
      Inr (\<lparr>affordable = True, gc_cost = memory_price ?new - memory_price ?old\<rparr>, s)"
    using price by (intro gas_charge_run) simp_all
  show ?thesis
  proof (cases "?new = ?old")
    case True
    then show ?thesis
      using assms by (simp add: memory_expansion_gas_cost_def memory_word_count_ceiling
          memory_high_water_def code_length_def Let_def gas_charge_run)
  next
    case False
    then show ?thesis
      using assms w price charge
      by (simp add: memory_expansion_gas_cost_def memory_word_count_ceiling
          memory_high_water_def code_length_def Let_def mem_cost_price)
  qed
qed

theorem memory_expansion_is_price_difference_witness:
  "memory_expansion_gas_cost 0 1000 200 () = Inr (\<lparr>affordable = True, gc_cost = 98\<rparr>, ())"
  using memory_expansion_is_price_difference [of 0 1000 200 "()"]
  by (simp add: memory_price_def words_of_def)

section \<open>Costs by size\<close>

lemma word_scaled_gas_cost_run:
  assumes "0 \<le> k" and "0 \<le> units" and "0 \<le> available" and "available \<le> 2 ^ 64 - 1"
  shows "word_scaled_gas_cost k units available s =
    Inr (if k * units \<le> available then \<lparr>affordable = True, gc_cost = k * units\<rparr>
         else GAS_CHARGE_UNAFFORDABLE, s)"
proof (cases "k = 0 \<or> units = 0")
  case True
  then show ?thesis
    using assms by (auto simp: word_scaled_gas_cost_def gas_charge_run)
next
  case False
  then have "1 * units \<le> k * units"
    using assms by (intro mult_right_mono) simp_all
  then have "k * units \<le> available \<Longrightarrow> units \<le> available" "0 \<le> k * units"
    using assms by simp_all
  then show ?thesis
    using assms False
    by (auto simp: word_scaled_gas_cost_def Let_def intro!: gas_charge_run)
qed

lemma fixed_plus_variable_run:
  assumes "0 \<le> fixed" and "0 \<le> k" and "0 \<le> units" and "0 \<le> available"
    and "available \<le> 2 ^ 64 - 1"
  shows "fixed_plus_variable fixed k units available s =
    Inr (if fixed + k * units \<le> available
         then \<lparr>affordable = True, gc_cost = fixed + k * units\<rparr>
         else GAS_CHARGE_UNAFFORDABLE, s)"
proof -
  have nn: "0 \<le> k * units" using assms by simp
  show ?thesis
  proof (cases "fixed \<le> available")
    case True
    then have "word_scaled_gas_cost k units (available - fixed) s =
        Inr (if k * units \<le> available - fixed then \<lparr>affordable = True, gc_cost = k * units\<rparr>
         else GAS_CHARGE_UNAFFORDABLE, s)"
      using assms by (intro word_scaled_gas_cost_run) simp_all
    then show ?thesis
      using True nn assms
      by (auto simp: fixed_plus_variable_def Let_def GAS_CHARGE_UNAFFORDABLE_def
          intro!: gas_charge_run)
  qed (use nn in \<open>simp add: fixed_plus_variable_def\<close>)
qed

text \<open>C25: Costs by size: hashing, copying and logging are affordable exactly when the true price,
  computed without wrap-around, is available, and then cost that price; this holds up to the
  largest 256-bit size.\<close>

theorem size_costs_exact:
  assumes "0 \<le> n" and "n < 2 ^ 256" and "0 \<le> available" and "available \<le> 2 ^ 64 - 1"
    and "0 \<le> topics"
  shows "keccak_gas_cost n available s =
      Inr (if 30 + 6 * words_of n \<le> available
           then \<lparr>affordable = True, gc_cost = 30 + 6 * words_of n\<rparr>
           else GAS_CHARGE_UNAFFORDABLE, s) \<and>
    copy_gas_cost n available s =
      Inr (if 3 * words_of n \<le> available then \<lparr>affordable = True, gc_cost = 3 * words_of n\<rparr>
           else GAS_CHARGE_UNAFFORDABLE, s) \<and>
    log_gas_cost topics n available s =
      Inr (if 375 + 375 * topics + 8 * n \<le> available
           then \<lparr>affordable = True, gc_cost = 375 + 375 * topics + 8 * n\<rparr>
           else GAS_CHARGE_UNAFFORDABLE, s)"
proof -
  have w: "0 \<le> words_of n" using assms by (simp add: words_of_def)
  show ?thesis
    using assms w
    by (simp add: keccak_gas_cost_def copy_gas_cost_def log_gas_cost_def memory_word_gas_cost_def
        memory_word_count_word_ceiling gas_constants fixed_plus_variable_run Let_def)
qed

theorem size_costs_exact_witness:
  "keccak_gas_cost 33 100 () = Inr (\<lparr>affordable = True, gc_cost = 42\<rparr>, ()) \<and>
    copy_gas_cost (2 ^ 256 - 1) 100 () = Inr (GAS_CHARGE_UNAFFORDABLE, ())"
  using size_costs_exact [of 33 100 0 "()"] size_costs_exact [of "2 ^ 256 - 1" 100 0 "()"]
  by (simp add: words_of_def)

section \<open>Forwarded gas\<close>

text \<open>C26: Forwarded gas: a call gets what it requests, but at most all but one 64th of the gas that is
  available.\<close>

theorem call_gas_cap_keeps_a_64th:
  assumes "0 \<le> available" and "available \<le> 2 ^ 64 - 1" and "0 \<le> requested"
  shows "call_gas_cap_word available requested s =
    Inr (min requested (available - available div 64), s)"
proof -
  have "available div 64 \<le> available" using assms by simp
  then show ?thesis
    using assms by (simp add: call_gas_cap_word_def gas_sub_def gas_u64_def min_def Let_def)
qed

theorem call_gas_cap_keeps_a_64th_witness:
  "call_gas_cap_word 6400 (2 ^ 256 - 1) () = Inr (6300, ())"
  using call_gas_cap_keeps_a_64th [of 6400 "2 ^ 256 - 1" "()"] by simp

section \<open>State gas\<close>

text \<open>C24: State gas: a charge fails exactly when reservoir and regular gas together are too small, and
  then changes nothing; otherwise it takes exactly the amount from the two, the reservoir
  first, and the state gas the frame has used grows by the amount. Crediting the same amount
  back restores the total and the usage and never lowers the regular gas.\<close>

theorem state_gas_charge_and_credit:
  assumes "0 \<le> g" and "0 \<le> r" and "0 \<le> sp" and "0 \<le> amount"
    and "charge_state_gas g r sp amount s = Inr ((failed, g1, r1, sp1), t)"
  shows "t = s \<and> (failed \<longleftrightarrow> g + r < amount) \<and>
    (failed \<longrightarrow> (g1, r1, sp1) = (g, r, sp)) \<and>
    (\<not> failed \<longrightarrow> g1 + r1 = g + r - amount \<and> r1 = max 0 (r - amount) \<and>
      frame_state_gas_used e r1 sp1 = frame_state_gas_used e r sp + amount \<and>
      (\<forall>g2 r2 sp2 u. credit_state_gas_refund g1 r1 sp1 amount t = Inr ((g2, r2, sp2), u) \<longrightarrow>
         u = t \<and> g2 + r2 = g + r \<and> g \<le> g2 \<and> 0 \<le> sp2 \<and> sp2 \<le> sp \<and>
         frame_state_gas_used e r2 sp2 = frame_state_gas_used e r sp))"
proof -
  have c: "conserved_gas_add a b u = (if a + b \<le> 2 ^ 64 - 1 then Inr (a + b, u) else Inl SailExit)"
    if "0 \<le> a" "0 \<le> b" for a b and u :: 'a
    using that by (rule conserved_gas_add_run)
  from assms show ?thesis
    by (auto simp: charge_state_gas_def credit_state_gas_refund_def Let_def bind_run
        state_gas_spill_add_run c frame_state_gas_used_def split: if_splits sum.splits)
qed

theorem state_gas_charge_and_credit_witness:
  "charge_state_gas 100 30 0 50 () = Inr ((False, 80, 0, 20), ()) \<and>
    (\<exists>g2 r2 sp2. credit_state_gas_refund 80 0 20 50 () = Inr ((g2, r2, sp2), ()) \<and> g2 + r2 = 130)"
proof -
  have run: "charge_state_gas 100 30 0 50 () = Inr ((False, 80, 0, 20), ())"
    by (simp add: charge_state_gas_def Let_def state_gas_spill_add_run action_simps)
  have credit: "credit_state_gas_refund 80 0 20 50 () = Inr ((100, 30, 0), ())"
    by (simp add: credit_state_gas_refund_def Let_def conserved_gas_add_run action_simps)
  from state_gas_charge_and_credit [OF _ _ _ _ run] credit
  have "100 + 30 = (130 :: int)" by simp
  with run credit show ?thesis by blast
qed

section \<open>Storage refunds\<close>

lemma word_is_zero_iff: "word_is_zero v \<longleftrightarrow> v = 0"
  by (simp add: word_is_zero_def word_constants)

definition clear_refund_of :: "fork \<Rightarrow> int" where
  "clear_refund_of fork = (if fork \<ge> Amsterdam then R_amsterdam_storage_clear
     else if fork \<ge> London then R_sclear_london else R_sclear_pre_london)"

text \<open>What a slot with original value \<open>before\<close> and current value \<open>v\<close> holds in refunds and state gas.\<close>

definition refund_held :: "fork \<Rightarrow> int \<Rightarrow> int \<Rightarrow> int" where
  "refund_held fork before v = (if before \<noteq> 0 \<and> v = 0 then clear_refund_of fork else 0)"

definition state_gas_held :: "fork \<Rightarrow> int \<Rightarrow> int \<Rightarrow> int" where
  "state_gas_held fork before v =
     (if fork \<ge> Amsterdam \<and> before = 0 \<and> v \<noteq> 0 then G_amsterdam_state_storage_set else 0)"

lemma amsterdam_sstore_step:
  "\<exists>k. amsterdam_sstore_costs before c v cold s = Inr (k, s) \<and>
    R_amsterdam_storage_clear * (of_bool (before \<noteq> 0 \<and> v = 0) - of_bool (before \<noteq> 0 \<and> c = 0))
      \<le> sc_refund k \<and>
    sc_state_charge k - sc_state_credit k = G_amsterdam_state_storage_set *
      (of_bool (before = 0 \<and> v \<noteq> 0) - of_bool (before = 0 \<and> c \<noteq> 0))"
  by (cases cold; cases "before = 0"; cases "c = 0"; cases "v = 0"; cases "c = v"; cases "before = c";
      cases "before = v")
    (simp_all add: amsterdam_sstore_costs_def amsterdam_storage_access_cost_def sstore_costs_of_def
      gas_constant_def gas_u64_def state_gas_spill_def GAS_REFUND_LIMIT_def Let_def word_is_zero_iff
      gas_constants)

lemma legacy_sstore_step:
  fixes s :: "'z kernel_state_scheme"
  assumes "fork = pp_fork (protocol (k_execution_profile s))" and "fork < Amsterdam"
  shows "\<exists>k. legacy_sstore_costs before c v cold s = Inr (k, s) \<and>
    clear_refund_of fork * (of_bool (before \<noteq> 0 \<and> v = 0) - of_bool (before \<noteq> 0 \<and> c = 0))
      \<le> sc_refund k \<and>
    sc_state_charge k = 0 \<and> sc_state_credit k = 0"
proof -
  obtain r where r: "sstore_clear_refund s = Inr (r, s)" "r = clear_refund_of fork" "r = 4800 \<or> r = 15000"
    using assms by (simp add: sstore_clear_refund_def active_fork_def gas_constant_def gas_constants
        clear_refund_of_def)
  show ?thesis
    using r(3) unfolding r(2) [symmetric]
    by (cases cold; cases "before = 0"; cases "c = 0"; cases "v = 0"; cases "c = v"; cases "before = c";
      cases "before = v")
    (auto simp: legacy_sstore_costs_def r(1) sstore_costs_of_def
      gas_u64_def state_gas_spill_def GAS_REFUND_LIMIT_def Let_def word_is_zero_iff
      gas_constants)
qed

lemma sstore_step:
  fixes s :: "'z kernel_state_scheme"
  assumes "fork = pp_fork (protocol (k_execution_profile s))"
  shows "\<exists>k. sstore_costs before c v cold s = Inr (k, s) \<and>
    refund_held fork before v - refund_held fork before c \<le> sc_refund k \<and>
    sc_state_charge k - sc_state_credit k =
      state_gas_held fork before v - state_gas_held fork before c"
proof (cases "fork \<ge> Amsterdam")
  case True
  then show ?thesis
    using assms amsterdam_sstore_step [of before c v cold s]
    by (auto simp: sstore_costs_def active_fork_def refund_held_def state_gas_held_def
        clear_refund_of_def)
next
  case False
  then show ?thesis
    using assms legacy_sstore_step [of fork s before c v cold]
    by (auto simp: sstore_costs_def active_fork_def refund_held_def state_gas_held_def)
qed

text \<open>A run of writes to one slot, each with its own warmth: total refund and net state gas.\<close>

fun sstore_run :: "int \<Rightarrow> int \<Rightarrow> (int \<times> bool) list \<Rightarrow> ('z, int \<times> int) kernel" where
  "sstore_run before c [] = ret (0, 0)"
| "sstore_run before c ((v, cold) # writes) =
     bind (sstore_costs before c v cold) (\<lambda>k.
     bind (sstore_run before v writes) (\<lambda>(refund, state).
     ret (sc_refund k + refund, sc_state_charge k - sc_state_credit k + state)))"

lemma sstore_run_from:
  fixes s :: "'z kernel_state_scheme"
  assumes "fork = pp_fork (protocol (k_execution_profile s))"
  shows "\<exists>refund state. sstore_run before c writes s = Inr ((refund, state), s) \<and>
    refund_held fork before (last (c # map fst writes)) - refund_held fork before c \<le> refund \<and>
    state = state_gas_held fork before (last (c # map fst writes)) - state_gas_held fork before c"
proof (induction writes arbitrary: c)
  case Nil
  show ?case by simp
next
  case (Cons w writes)
  obtain v cold where w: "w = (v, cold)" by (cases w)
  obtain k where k: "sstore_costs before c v cold s = Inr (k, s)"
    "refund_held fork before v - refund_held fork before c \<le> sc_refund k"
    "sc_state_charge k - sc_state_credit k =
      state_gas_held fork before v - state_gas_held fork before c"
    using sstore_step [OF assms] by blast
  obtain refund state where "sstore_run before v writes s = Inr ((refund, state), s)"
    "refund_held fork before (last (v # map fst writes)) - refund_held fork before v \<le> refund"
    "state = state_gas_held fork before (last (v # map fst writes)) - state_gas_held fork before v"
    using Cons.IH by blast
  with k show ?case by (simp add: w)
qed

text \<open>C22: Storage refunds: however a transaction writes a slot, in every fork, the refunds it collects
  for the slot add up to at least nothing (a refund is only ever withdrawn after it was given),
  and the state gas it is charged net of credits is the price of a new slot when an empty slot
  ends up filled, and nothing otherwise.\<close>

theorem sstore_refunds_never_negative:
  fixes s :: "'z kernel_state_scheme"
  shows "\<exists>refund state. sstore_run before before writes s = Inr ((refund, state), s) \<and>
    0 \<le> refund \<and>
    state = (if pp_fork (protocol (k_execution_profile s)) \<ge> Amsterdam \<and> before = 0 \<and>
        last (before # map fst writes) \<noteq> 0 then G_amsterdam_state_storage_set else 0)"
proof -
  let ?fork = "pp_fork (protocol (k_execution_profile s))"
  have "refund_held ?fork before before = 0" "state_gas_held ?fork before before = 0"
    "0 \<le> refund_held ?fork before (last (before # map fst writes))"
    by (simp_all add: refund_held_def state_gas_held_def clear_refund_of_def gas_constants)
  then show ?thesis
    using sstore_run_from [OF refl, where s = s and before = before and c = before and writes = writes]
    by (auto simp: state_gas_held_def)
qed

section \<open>The blob base fee\<close>

text \<open>The terms of the integer Taylor series of \<open>denominator * exp (numerator / denominator)\<close>.\<close>

primrec taylor_term :: "int \<Rightarrow> int \<Rightarrow> nat \<Rightarrow> int" where
  "taylor_term d n 0 = d"
| "taylor_term d n (Suc i) = taylor_term d n i * n div (d * int (i + 1))"

lemma taylor_term_nonneg:
  assumes "0 < d" and "0 \<le> n"
  shows "0 \<le> taylor_term d n i"
proof (induction i)
  case (Suc i)
  then show ?case using assms by (simp add: pos_imp_zdiv_nonneg_iff)
qed (use assms in simp)

lemma fake_exponential_loop_sum:
  assumes "0 < d" and "0 \<le> n"
    and "fake_exponential_loop d n (int i + 1) (sum (taylor_term d n) {..<i}) (taylor_term d n i) s =
      Inr (out, t)"
  shows "t = s \<and> (\<exists>m\<ge>i. out = sum (taylor_term d n) {..<m} \<and> taylor_term d n m = 0 \<and>
    (\<forall>j\<in>{i..<m}. taylor_term d n j \<noteq> 0)) \<and> (out < d * 2 ^ 256 \<or> taylor_term d n i = 0)"
proof -
  define k so_far accum where "k = int i + 1" and "so_far = sum (taylor_term d n) {..<i}"
    and "accum = taylor_term d n i"
  show ?thesis
    using assms k_def so_far_def accum_def
  proof (induction d n k so_far accum arbitrary: i rule: fake_exponential_loop.induct)
    case (1 d n k so_far accum)
    note IH = "1.IH" and d = "1.prems"(1) and n = "1.prems"(2) and run = "1.prems"(3)
      and eqs = "1.prems"(4-6)
    show ?case
    proof (cases "accum > 0")
      case False
      then have zero: "taylor_term d n i = 0" using taylor_term_nonneg [OF d n, of i] eqs(3) by simp
      have "(out, t) = (so_far, s)"
        using run False unfolding eqs [symmetric] by (auto simp: fake_exponential_loop.simps)
      with zero eqs show ?thesis by (intro conjI exI [of _ i]) auto
    next
      case True
      let ?next = "sail_ediv_int (accum * n) (d * k)"
      have "0 < d * k" using d eqs(1) by simp
      then have "?next = accum * n div (d * k)" by (rule sail_ediv_int_pos)
      then have step: "?next = taylor_term d n (Suc i)"
        using eqs(1,3) by (simp add: algebra_simps)
      have ok: "\<not> d * 2 ^ 256 \<le> accum" "\<not> d * 2 ^ 256 \<le> so_far + accum" "k < d * 2 ^ 256"
        and rest: "fake_exponential_loop d n (k + 1) (so_far + accum) ?next s = Inr (out, t)"
        using run True unfolding eqs [symmetric]
        by (auto simp: fake_exponential_loop.simps [of d n k] Let_def split: if_splits)
      have sum: "so_far + accum = sum (taylor_term d n) {..<Suc i}" using eqs by simp
      have k: "k + 1 = int (Suc i) + 1" using eqs(1) by simp
      have IH: "t = s \<and> (\<exists>m\<ge>Suc i. out = sum (taylor_term d n) {..<m} \<and> taylor_term d n m = 0 \<and>
          (\<forall>j\<in>{Suc i..<m}. taylor_term d n j \<noteq> 0)) \<and>
          (out < d * 2 ^ 256 \<or> taylor_term d n (Suc i) = 0)"
        by (rule IH [OF refl _ ok(1,2,3) d n _ k sum step]) (use True rest k sum step in simp_all)
      then obtain m where m: "m \<ge> Suc i" "out = sum (taylor_term d n) {..<m}" "taylor_term d n m = 0"
        "\<forall>j\<in>{Suc i..<m}. taylor_term d n j \<noteq> 0" by blast
      have "taylor_term d n i \<noteq> 0" using True eqs(3) by simp
      then have "\<forall>j\<in>{i..<m}. taylor_term d n j \<noteq> 0"
        using m(4) by (metis atLeastLessThan_iff le_antisym not_less_eq_eq)
      moreover have "out < d * 2 ^ 256"
      proof (cases "taylor_term d n (Suc i) = 0")
        case True
        then have "m = Suc i" using m(1,4) by (metis atLeastLessThan_iff le_neq_implies_less order_refl)
        then show ?thesis using m(2) sum ok(2) by simp
      qed (use IH in blast)
      ultimately show ?thesis using IH m by (intro conjI exI [of _ m]) auto
    qed
  qed
qed

text \<open>C27: The blob base fee: when the computation returns, the price is the integer Taylor sum of
  denominator times exp(numerator / denominator), summed until a term is zero and divided by
  the denominator; it is at least 1 and fits a word, and nothing else changes.\<close>

theorem blob_base_fee_is_taylor_sum:
  assumes "0 < bs_fraction schedule" and "0 \<le> n"
    and "fake_exponential_word schedule n s = Inr (price, t)"
  shows "t = s \<and> 1 \<le> price \<and> price < 2 ^ 256 \<and>
    (\<exists>m. price = sum (taylor_term (bs_fraction schedule) n) {..<m} div bs_fraction schedule \<and>
      taylor_term (bs_fraction schedule) n m = 0 \<and>
      (\<forall>j<m. taylor_term (bs_fraction schedule) n j \<noteq> 0))"
proof -
  let ?d = "bs_fraction schedule"
  obtain out u where out: "fake_exponential_loop ?d n 1 0 ?d s = Inr (out, u)"
    using assms(3) by (auto simp: fake_exponential_word_def Let_def elim!: bind_returnsE)
  have "fake_exponential_loop ?d n (int 0 + 1) (sum (taylor_term ?d n) {..<0}) (taylor_term ?d n 0) s =
      Inr (out, u)"
    using out by simp
  from fake_exponential_loop_sum [OF assms(1,2) this]
  obtain m where m: "u = s" "out = sum (taylor_term ?d n) {..<m}" "taylor_term ?d n m = 0"
      "\<forall>j\<in>{0..<m}. taylor_term ?d n j \<noteq> 0" by blast
  have price: "t = s" "price = out div ?d" "price < 2 ^ 256"
    using assms(3) assms(1) out m(1)
    by (auto simp: fake_exponential_word_def Let_def protocol_word_def as_word_def ranged_def
        split: if_splits)
  have "m \<noteq> 0" using m(3) assms(1) by (metis less_irrefl taylor_term.simps(1))
  then have "?d \<le> out"
    using member_le_sum [of 0 "{..<m}" "taylor_term ?d n"] taylor_term_nonneg [OF assms(1,2)] m(2)
    by auto
  then have "?d div ?d \<le> out div ?d" using assms(1) by (intro zdiv_mono1) simp_all
  then have "1 \<le> price" using price(2) assms(1) by simp
  with price m show ?thesis by auto
qed

theorem blob_base_fee_is_taylor_sum_witness:
  "fake_exponential_word \<lparr>bs_target = 3, bs_max = 6, bs_fraction = 3338477\<rparr> 0 () = Inr (1, ()) \<and>
    (1 :: int) < 2 ^ 256"
proof -
  have run: "fake_exponential_word \<lparr>bs_target = 3, bs_max = 6, bs_fraction = 3338477\<rparr> 0 () = Inr (1, ())"
    by (simp add: fake_exponential_word_def fake_exponential_loop.simps protocol_word_def as_word_def
        Let_def)
  from blob_base_fee_is_taylor_sum [OF _ _ run] run show ?thesis by simp
qed

end
