(* ===== verification/Ssz.thy ===== *)
theory Ssz
  imports Rlp_Decode
begin

text \<open>
  SSZ readers (\<open>lib/ssz/ssz.py\<close>), the list references of \<open>primitives/ssz.py\<close>, and the list and
  container cursors of \<open>lib/ssz/stateless_input.py\<close>: fixed and variable lists inside a slice of
  the stateless input, whose offsets are checked as they are used.
\<close>

section \<open>Integers and fixed-size values\<close>

definition SSZ_OFF_BYTES :: int where "SSZ_OFF_BYTES = 4"
definition SSZ_UINT_BYTES :: int where "SSZ_UINT_BYTES = 8"

definition ssz_field_offset :: "int \<Rightarrow> int \<Rightarrow> int" where
  "ssz_field_offset base delta = base + delta"

definition scratch_field_offset :: "int \<Rightarrow> int \<Rightarrow> int" where
  "scratch_field_offset base delta = base + delta"

definition ssz_offset :: "int \<Rightarrow> ('s, int) action" where
  "ssz_offset = ranged 0 (2 ^ 32 - 1)"

definition ssz_uint :: "int \<Rightarrow> ('s, int) action" where
  "ssz_uint = ranged 0 (2 ^ 64 - 1)"

definition ssz_u32_at :: "region_slice \<Rightarrow> int \<Rightarrow> ('z, int) host" where
  "ssz_u32_at data offset =
     bind (stateless_input_slice_byte data offset) (\<lambda>byte0.
     bind (stateless_input_slice_byte data (ssz_field_offset offset 1)) (\<lambda>byte1.
     bind (stateless_input_slice_byte data (ssz_field_offset offset 2)) (\<lambda>byte2.
     bind (stateless_input_slice_byte data (ssz_field_offset offset 3)) (\<lambda>byte3.
     let shifted1 = bits 32 (push_bit 8 byte1);
         shifted2 = bits 32 (push_bit 16 byte2);
         shifted3 = bits 32 (push_bit 24 byte3);
         high = shifted2 OR shifted3;
         nonzero = shifted1 OR high;
         result = byte0 OR nonzero in
     ssz_offset result))))"

definition ssz_u32 :: "region_slice \<Rightarrow> int \<Rightarrow> ('z, int) host" where
  "ssz_u32 data offset = ssz_u32_at data offset"

definition ssz_u32_in_slice :: "region_slice \<Rightarrow> int \<Rightarrow> ('z, int) host" where
  "ssz_u32_in_slice data offset =
     (if offset \<le> slice_len data \<and> 4 \<le> slice_len data - offset then ssz_u32_at data offset
      else fatal_error InvalidConfig)"

definition ssz_offset_to_source_pointer :: "int \<Rightarrow> ('s, int) action" where
  "ssz_offset_to_source_pointer value = natural value"

text \<open>Eight bytes, the least significant first, from a reader of bytes.\<close>

definition load_uint64 ::
    "(int \<Rightarrow> int \<Rightarrow> int) \<Rightarrow> (int \<Rightarrow> ('s, int) action) \<Rightarrow> int \<Rightarrow> ('s, int) action" where
  "load_uint64 field_offset read_byte offset =
     bind (read_byte offset) (\<lambda>byte0.
     bind (read_byte (field_offset offset 1)) (\<lambda>byte1.
     bind (read_byte (field_offset offset 2)) (\<lambda>byte2.
     bind (read_byte (field_offset offset 3)) (\<lambda>byte3.
     bind (read_byte (field_offset offset 4)) (\<lambda>byte4.
     bind (read_byte (field_offset offset 5)) (\<lambda>byte5.
     bind (read_byte (field_offset offset 6)) (\<lambda>byte6.
     bind (read_byte (field_offset offset 7)) (\<lambda>byte7.
     ssz_uint (byte0 + byte1 * 2 ^ 8 + byte2 * 2 ^ 16 + byte3 * 2 ^ 24 + byte4 * 2 ^ 32 +
       byte5 * 2 ^ 40 + byte6 * 2 ^ 48 + byte7 * 2 ^ 56)))))))))"

definition decode_ssz_uint :: "region_slice \<Rightarrow> int \<Rightarrow> ('z, int) host" where
  "decode_ssz_uint data = load_uint64 ssz_field_offset (stateless_input_slice_byte data)"

definition decode_scratch_uint :: "region_slice \<Rightarrow> int \<Rightarrow> ('z, int) host" where
  "decode_scratch_uint data = load_uint64 scratch_field_offset (scratch_byte data)"

definition ssz_addr :: "region_slice \<Rightarrow> int \<Rightarrow> ('z, address) host" where
  "ssz_addr data offset =
     bind (stateless_input_slice_load_n data offset 20) (\<lambda>value. ret (word_to_address value))"

definition ssz_bytes32 :: "region_slice \<Rightarrow> int \<Rightarrow> ('z, hash) host" where
  "ssz_bytes32 data offset =
     bind (stateless_input_slice_load data offset) (\<lambda>value. ret (word_to_hash value))"

definition ssz_logs_bloom_index :: "int \<Rightarrow> int" where
  "ssz_logs_bloom_index index = 255 - index"

text \<open>The loops over 256 and 32 bytes; the argument is the number of bytes still to read.\<close>

fun ssz_logs_bloom_loop :: "region_slice \<Rightarrow> int \<Rightarrow> nat \<Rightarrow> bytes \<Rightarrow> ('z, bytes) host" where
  "ssz_logs_bloom_loop data offset 0 out = ret out"
| "ssz_logs_bloom_loop data offset (Suc remaining) out =
     (let k = 255 - int remaining in
      bind (stateless_input_slice_byte data (ssz_field_offset offset k)) (\<lambda>b.
      ssz_logs_bloom_loop data offset remaining
        (vector_update out (nat (ssz_logs_bloom_index k)) (word_of_int b))))"

definition ssz_logs_bloom :: "region_slice \<Rightarrow> int \<Rightarrow> ('z, bytes) host" where
  "ssz_logs_bloom data offset = ssz_logs_bloom_loop data offset 256 (replicate 256 0)"

definition ssz_u256_index :: "int \<Rightarrow> int" where
  "ssz_u256_index index = 31 - index"

fun ssz_u256_loop :: "region_slice \<Rightarrow> int \<Rightarrow> nat \<Rightarrow> int \<Rightarrow> ('z, int) host" where
  "ssz_u256_loop data offset 0 result = ret result"
| "ssz_u256_loop data offset (Suc remaining) result =
     (let source_index = ssz_u256_index (31 - int remaining) in
      bind (stateless_input_slice_byte data (ssz_field_offset offset source_index)) (\<lambda>source_byte.
      let shifted_result = word_mul_word result 256 in
      ssz_u256_loop data offset remaining (word_add_word shifted_result source_byte)))"

definition ssz_u256 :: "region_slice \<Rightarrow> int \<Rightarrow> ('z, int) host" where
  "ssz_u256 data offset = ssz_u256_loop data offset 32 WORD_ZERO"

section \<open>Lists\<close>

record bounded_ssz_list_ref =
  sl_maximum :: int
  sl_bytes :: region_slice
  sl_count :: int
  sl_max_item_length :: int

definition bounded_ssz_list_ref ::
    "int \<Rightarrow> region_slice \<Rightarrow> int \<Rightarrow> int \<Rightarrow> ('s, bounded_ssz_list_ref) action" where
  "bounded_ssz_list_ref maximum bytes count max_item_length =
     (if \<not> (0 \<le> maximum \<and> maximum \<le> 2 ^ 32 - 1) then
        raise (ValueError ''BoundedSszListRefValidity violates Sail constraint'')
      else
        bind (natural count) (\<lambda>count.
        bind (natural max_item_length) (\<lambda>max_item_length.
        if count \<le> maximum
        then ret \<lparr>sl_maximum = maximum, sl_bytes = bytes, sl_count = count,
          sl_max_item_length = max_item_length\<rparr>
        else raise (ValueError ''BoundedSszListRef.count violates Sail type''))))"

record bounded_ssz_list_cursor =
  sc_items :: bounded_ssz_list_ref
  sc_index :: int
  sc_current :: int

definition bounded_ssz_list_cursor ::
    "bounded_ssz_list_ref \<Rightarrow> int \<Rightarrow> int \<Rightarrow> ('s, bounded_ssz_list_cursor) action" where
  "bounded_ssz_list_cursor items index current =
     bind (natural index) (\<lambda>index.
     bind (natural current) (\<lambda>current.
     if index \<le> sl_maximum items
     then ret \<lparr>sc_items = items, sc_index = index, sc_current = current\<rparr>
     else raise (ValueError ''BoundedSszListCursor.index violates Sail type'')))"

definition ssz_offset_table_position :: "int \<Rightarrow> ('s, int) action" where
  "ssz_offset_table_position index = ssz_offset (index * 4)"

definition ssz_list_cursor ::
    "bounded_ssz_list_ref \<Rightarrow> ('z, bounded_ssz_list_cursor) host" where
  "ssz_list_cursor items =
     bind (if sl_count items \<noteq> 0
           then bind (ssz_u32 (sl_bytes items) 0) ssz_offset_to_source_pointer
           else ret (slice_len (sl_bytes items))) (\<lambda>current.
     bounded_ssz_list_cursor items 0 current)"

definition ssz_list_cursor_empty :: "bounded_ssz_list_cursor \<Rightarrow> bool" where
  "ssz_list_cursor_empty cursor \<longleftrightarrow> sl_count (sc_items cursor) \<le> sc_index cursor"

text \<open>The length of the item between two offsets, which the list may bound.\<close>

definition ssz_item_length :: "bounded_ssz_list_ref \<Rightarrow> int \<Rightarrow> int \<Rightarrow> ('s, int) action" where
  "ssz_item_length items start stop =
     (if start \<le> stop \<and> stop \<le> slice_len (sl_bytes items) then
        (let item_length = stop - start in
         if sl_max_item_length items \<noteq> 0 \<and> sl_max_item_length items < item_length
         then fatal_error InvalidConfig else ret item_length)
      else fatal_error InvalidConfig)"

definition ssz_list_pop ::
    "bounded_ssz_list_cursor \<Rightarrow> ('z, region_slice \<times> bounded_ssz_list_cursor) host" where
  "ssz_list_pop cursor =
     (let items = sc_items cursor; bytes = sl_bytes items; index = sc_index cursor in
      bind (if index < sl_count items then ret (index + 1) else fatal_error InvalidConfig)
        (\<lambda>next_index.
      bind (if next_index < sl_count items then
              bind (ssz_offset_table_position next_index) (\<lambda>table_position.
              bind (ssz_u32_in_slice bytes table_position) ssz_offset_to_source_pointer)
            else ret (slice_len bytes)) (\<lambda>next.
      bind (ssz_item_length items (sc_current cursor) next) (\<lambda>item_length.
      bind (region_sub_slice bytes (sc_current cursor) item_length) (\<lambda>item.
      bind (bounded_ssz_list_cursor items next_index next) (\<lambda>cursor.
      ret (item, cursor)))))))"

definition ssz_list_at :: "bounded_ssz_list_ref \<Rightarrow> int \<Rightarrow> ('z, region_slice) host" where
  "ssz_list_at items index =
     (let bytes = sl_bytes items in
      bind (if index < sl_count items then ret index else fatal_error InvalidConfig) (\<lambda>item_index.
      let next_index = item_index + 1 in
      bind (ssz_offset_table_position item_index) (\<lambda>start_position.
      bind (ssz_u32_in_slice bytes start_position) (\<lambda>start_offset.
      bind (ssz_offset_to_source_pointer start_offset) (\<lambda>start.
      bind (if next_index < sl_count items then
              bind (ssz_offset_table_position next_index) (\<lambda>stop_position.
              bind (ssz_u32_in_slice bytes stop_position) ssz_offset_to_source_pointer)
            else ret (slice_len bytes)) (\<lambda>stop.
      bind (ssz_item_length items start stop) (\<lambda>item_length.
      region_sub_slice bytes start item_length)))))))"

definition ssz_fixed_list_at ::
    "bounded_ssz_list_ref \<Rightarrow> int \<Rightarrow> int \<Rightarrow> ('s, region_slice) action" where
  "ssz_fixed_list_at items index item_size =
     (let bytes = sl_bytes items; offset_value = index * item_size in
      if index < sl_count items \<and> offset_value + item_size \<le> slice_len bytes
      then region_sub_slice bytes offset_value item_size
      else fatal_error InvalidConfig)"

definition ssz_fixed_list_pop ::
    "bounded_ssz_list_ref \<Rightarrow> int \<Rightarrow> ('s, region_slice \<times> bounded_ssz_list_ref) action" where
  "ssz_fixed_list_pop items item_size =
     (let bytes = sl_bytes items; count = sl_count items in
      if 0 < count \<and> item_size \<le> slice_len bytes then
        bind (region_sub_slice bytes 0 item_size) (\<lambda>item.
        bind (region_slice_suffix bytes item_size) (\<lambda>suffix.
        bind (bounded_ssz_list_ref (sl_maximum items) suffix (count - 1)
          (sl_max_item_length items)) (\<lambda>rest. ret (item, rest))))
      else fatal_error InvalidConfig)"

section \<open>Containers\<close>

definition ssz_container_bytes :: "region_slice \<Rightarrow> int \<Rightarrow> ('s, region_slice) action" where
  "ssz_container_bytes bytes minimum =
     (if minimum \<le> slice_len bytes then ret bytes else fatal_error InvalidConfig)"

record ssz_container_cursor =
  cont_bytes :: region_slice
  cont_current :: int

definition ssz_container_cursor_of :: "region_slice \<Rightarrow> int \<Rightarrow> ('s, ssz_container_cursor) action" where
  "ssz_container_cursor_of bytes fixed_length =
     bind (natural fixed_length) (\<lambda>current.
     ret \<lparr>cont_bytes = bytes, cont_current = current\<rparr>)"

definition ssz_take ::
    "ssz_container_cursor \<Rightarrow> int \<Rightarrow> ('s, region_slice \<times> ssz_container_cursor) action" where
  "ssz_take cursor stop =
     (let current = cont_current cursor; bytes = cont_bytes cursor in
      if current \<le> stop \<and> stop \<le> slice_len bytes then
        bind (region_sub_slice bytes current (stop - current)) (\<lambda>span.
        ret (span, \<lparr>cont_bytes = bytes, cont_current = stop\<rparr>))
      else fatal_error InvalidConfig)"

definition ssz_finish :: "ssz_container_cursor \<Rightarrow> ('s, region_slice) action" where
  "ssz_finish cursor =
     (let current = cont_current cursor; bytes = cont_bytes cursor in
      if current \<le> slice_len bytes
      then region_sub_slice bytes current (slice_len bytes - current)
      else fatal_error InvalidConfig)"

text \<open>The count of a variable list is read from its first offset.\<close>

definition ssz_bounded_variable_list_ref ::
    "region_slice \<Rightarrow> int \<Rightarrow> int \<Rightarrow> ('z, bounded_ssz_list_ref) host" where
  "ssz_bounded_variable_list_ref bytes maximum_count maximum_item_length =
     (let span = slice_len bytes in
      bind (if span = 0 then ret 0
            else if span < SSZ_OFF_BYTES then fatal_error InvalidConfig
            else
              bind (ssz_u32 bytes 0) (\<lambda>first_offset.
              let count = sail_tdiv_int first_offset 4;
                  offset_remainder = sail_tmod_int first_offset 4 in
              if offset_remainder \<noteq> 0 \<or> count = 0 \<or> first_offset > span
              then fatal_error InvalidConfig else ret count)) (\<lambda>raw_count.
      bind (if raw_count \<le> maximum_count then ret raw_count else fatal_error InvalidConfig)
        (\<lambda>count.
      bounded_ssz_list_ref maximum_count bytes count maximum_item_length)))"

definition ssz_bounded_fixed_list_ref ::
    "region_slice \<Rightarrow> int \<Rightarrow> int \<Rightarrow> ('s, bounded_ssz_list_ref) action" where
  "ssz_bounded_fixed_list_ref bytes item_size maximum_count =
     bind (if 0 < item_size then ret item_size else fatal_error InvalidConfig) (\<lambda>width.
     let span = slice_len bytes; raw_count = sail_ediv_int span width in
     if span \<noteq> raw_count * width then fatal_error InvalidConfig
     else
       bind (if raw_count \<le> maximum_count then ret raw_count else fatal_error InvalidConfig)
         (\<lambda>count.
       bounded_ssz_list_ref maximum_count bytes count item_size))"

section \<open>A pop makes progress\<close>

lemma ssz_list_pop_progress:
  assumes "ssz_list_pop cursor s = Inr ((item, rest), t)"
  shows "sc_items rest = sc_items cursor" and "sc_index rest = sc_index cursor + 1"
    and "sc_index cursor < sl_count (sc_items cursor)"
  using assms
  by (auto simp: ssz_list_pop_def bounded_ssz_list_cursor_def fatal_error_def natural_def Let_def
      elim!: bind_returnsE split: if_splits)

lemma ssz_fixed_list_pop_progress:
  assumes "ssz_fixed_list_pop items width s = Inr ((item, rest), t)"
  shows "sl_count rest = sl_count items - 1" and "0 < sl_count items" and "t = s"
  using assms
  by (auto simp: ssz_fixed_list_pop_def bounded_ssz_list_ref_def region_sub_slice_def
      region_slice_suffix_def region_slice_def fatal_error_def natural_def Let_def
      elim!: bind_returnsE split: if_splits)

lemma ssz_list_pop_shorter:
  assumes "ssz_list_pop cursor s = Inr ((item, rest), t)"
  shows "sl_count (sc_items rest) - sc_index rest < sl_count (sc_items cursor) - sc_index cursor"
    and "0 < sl_count (sc_items cursor) - sc_index cursor"
  using ssz_list_pop_progress [OF assms] by simp_all

end
