(* ===== verification/Accelerators.thy ===== *)
theory Accelerators
  imports Host_Regions
begin

text \<open>
  The accelerator adapters of \<open>HostContract.py\<close> (class \<open>AcceleratorContract\<close>) and its secp256k1
  public-key recovery. The native cryptographic library is not under \<open>src/\<close>: its functions, and
  Keccak-256 and SHA-256, are the fields of the record \<open>crypto\<close>. A native function returns
  nothing when its status is not \<open>ZKVM_EOK\<close>, and otherwise what it left in its result buffer.
  The adapters (which bytes are passed, what is checked, what is stored) are modelled, and so is
  the elliptic-curve arithmetic of the recovery, which the host writes in Python.
\<close>

section \<open>The native library\<close>

record crypto =
  keccak256 :: hash_function
  sha256 :: hash_function
  zkvm_ripemd160 :: "bytes \<Rightarrow> bytes option"
  zkvm_modexp :: "bytes \<Rightarrow> bytes \<Rightarrow> bytes \<Rightarrow> bytes option"
  zkvm_bn254_g1_add :: "bytes \<Rightarrow> bytes \<Rightarrow> bytes option"
  zkvm_bn254_g1_mul :: "bytes \<Rightarrow> bytes \<Rightarrow> bytes option"
  zkvm_bn254_pairing :: "bytes \<Rightarrow> int \<Rightarrow> bool option"
  zkvm_blake2f :: "int \<Rightarrow> bytes \<Rightarrow> bytes \<Rightarrow> bytes \<Rightarrow> int \<Rightarrow> bytes option"
  zkvm_kzg_point_eval :: "bytes \<Rightarrow> bytes \<Rightarrow> bytes \<Rightarrow> bytes \<Rightarrow> bool option"
  zkvm_bls12_g1_add :: "bytes \<Rightarrow> bytes \<Rightarrow> bytes option"
  zkvm_bls12_g2_add :: "bytes \<Rightarrow> bytes \<Rightarrow> bytes option"
  zkvm_bls12_g1_msm :: "bytes \<Rightarrow> int \<Rightarrow> bytes option"
  zkvm_bls12_g2_msm :: "bytes \<Rightarrow> int \<Rightarrow> bytes option"
  zkvm_bls12_pairing :: "bytes \<Rightarrow> int \<Rightarrow> bool option"
  zkvm_bls12_map_fp_to_g1 :: "bytes \<Rightarrow> bytes option"
  zkvm_bls12_map_fp2_to_g2 :: "bytes \<Rightarrow> bytes option"
  zkvm_secp256r1_verify :: "bytes \<Rightarrow> bytes \<Rightarrow> bytes \<Rightarrow> bool option"

text \<open>The result buffer has the given length whatever the native function writes.\<close>

definition out_buffer :: "int \<Rightarrow> bytes \<Rightarrow> bytes" where
  "out_buffer len out = ljust_zero (take (nat len) out) len"

definition calldata_bytes :: "calldata_slice \<Rightarrow> ('z, bytes) host" where
  "calldata_bytes data = reads (\<lambda>s.
     case data of InputCalldata inner \<Rightarrow> region_bytes InputRegion inner s
     | MemoryCalldata inner \<Rightarrow> region_bytes MemoryRegion inner s)"

definition buffer_read :: "bytes \<Rightarrow> int \<Rightarrow> int \<Rightarrow> bytes" where
  "buffer_read data start len = ljust_zero (py_slice data start (start + len)) len"

definition store_output :: "bytes \<Rightarrow> ('z, unit) host" where
  "store_output payload = modify (\<lambda>s. s\<lparr>output_bytes := payload\<rparr>)"

text \<open>Storing the result of an accelerator, after it is widened, or reporting the failure.\<close>

definition accelerated :: "int \<Rightarrow> (bytes \<Rightarrow> bytes) \<Rightarrow> bytes option \<Rightarrow> ('z, bool) host" where
  "accelerated len pad result =
     (case result of None \<Rightarrow> ret False
      | Some out \<Rightarrow> bind (store_output (pad (out_buffer len out))) (\<lambda>_. ret True))"

definition PAIRING_MALFORMED :: int where "PAIRING_MALFORMED = 0"
definition PAIRING_VALID_FALSE :: int where "PAIRING_VALID_FALSE = 2"
definition PAIRING_VALID_TRUE :: int where "PAIRING_VALID_TRUE = 3"

definition pairing_status :: "bool option \<Rightarrow> int" where
  "pairing_status result =
     (case result of None \<Rightarrow> PAIRING_MALFORMED
      | Some verified \<Rightarrow> if verified then PAIRING_VALID_TRUE else PAIRING_VALID_FALSE)"

section \<open>Field elements of BLS12-381\<close>

definition FP_WIRE :: int where "FP_WIRE = 64"
definition FP_COMPACT :: int where "FP_COMPACT = 48"
definition FP_PAD :: int where "FP_PAD = FP_WIRE - FP_COMPACT"

definition compact_fp :: "bytes \<Rightarrow> int \<Rightarrow> bytes" where
  "compact_fp raw off = buffer_read raw (off + FP_PAD) FP_COMPACT"

definition pad_fp :: "bytes \<Rightarrow> bytes" where
  "pad_fp compact = zeros (nat FP_PAD) @ compact"

definition compact_g1 :: "bytes \<Rightarrow> int \<Rightarrow> bytes" where
  "compact_g1 raw off = compact_fp raw off @ compact_fp raw (off + FP_WIRE)"

definition pad_g1 :: "bytes \<Rightarrow> bytes" where
  "pad_g1 compact =
     pad_fp (py_slice compact 0 FP_COMPACT) @ pad_fp (py_slice_from compact FP_COMPACT)"

definition compact_g2 :: "bytes \<Rightarrow> int \<Rightarrow> bytes" where
  "compact_g2 raw off =
     concat (map (\<lambda>index. compact_fp raw (off + int index * FP_WIRE)) [0..<4])"

definition pad_g2 :: "bytes \<Rightarrow> bytes" where
  "pad_g2 compact =
     concat (map (\<lambda>index. pad_fp
       (py_slice compact (int index * FP_COMPACT) ((int index + 1) * FP_COMPACT))) [0..<4])"

section \<open>The adapters\<close>

definition accelerator_ripemd160 :: "crypto \<Rightarrow> calldata_slice \<Rightarrow> ('z, bool) host" where
  "accelerator_ripemd160 lib data =
     bind (calldata_bytes data) (\<lambda>raw. accelerated 32 id (zkvm_ripemd160 lib raw))"

definition accelerator_modexp ::
    "crypto \<Rightarrow> calldata_slice \<Rightarrow> int \<Rightarrow> int \<Rightarrow> int \<Rightarrow> ('z, bool) host" where
  "accelerator_modexp lib data base_length exponent_length modulus_length =
     bind (calldata_bytes data) (\<lambda>payload.
     let raw = buffer_read payload 0 (96 + base_length + exponent_length + modulus_length);
         base = 96; exponent = base + base_length; modulus = exponent + exponent_length
     in accelerated modulus_length id
          (zkvm_modexp lib (py_slice raw base exponent) (py_slice raw exponent modulus)
            (py_slice_from raw modulus)))"

definition accelerator_bn254_add :: "crypto \<Rightarrow> calldata_slice \<Rightarrow> ('z, bool) host" where
  "accelerator_bn254_add lib data =
     bind (calldata_bytes data) (\<lambda>payload.
     let raw = buffer_read payload 0 128
     in accelerated 64 id (zkvm_bn254_g1_add lib (py_slice raw 0 64) (py_slice_from raw 64)))"

definition accelerator_bn254_mul :: "crypto \<Rightarrow> calldata_slice \<Rightarrow> ('z, bool) host" where
  "accelerator_bn254_mul lib data =
     bind (calldata_bytes data) (\<lambda>payload.
     let raw = buffer_read payload 0 96
     in accelerated 64 id (zkvm_bn254_g1_mul lib (py_slice raw 0 64) (py_slice_from raw 64)))"

definition accelerator_bn254_pairing :: "crypto \<Rightarrow> calldata_slice \<Rightarrow> ('z, int) host" where
  "accelerator_bn254_pairing lib data =
     bind (calldata_bytes data) (\<lambda>raw.
     ret (if int (length raw) mod 192 \<noteq> 0 then PAIRING_MALFORMED
          else pairing_status (zkvm_bn254_pairing lib raw (int (length raw) div 192))))"

definition accelerator_blake2f ::
    "crypto \<Rightarrow> calldata_slice \<Rightarrow> int \<Rightarrow> int \<Rightarrow> ('z, bool) host" where
  "accelerator_blake2f lib data rounds final =
     bind (calldata_bytes data) (\<lambda>raw.
     if length raw \<noteq> 213 \<or> rounds > 0xFFFFFFFF \<or> final > 1 then ret False
     else
       (let h = buffer_read raw 4 64; message = buffer_read raw 68 128;
            off = buffer_read raw 196 16
        in accelerated 64 id (zkvm_blake2f lib rounds h message off final)))"

definition accelerator_kzg_point_evaluation :: "crypto \<Rightarrow> calldata_slice \<Rightarrow> ('z, bool) host" where
  "accelerator_kzg_point_evaluation lib data =
     bind (calldata_bytes data) (\<lambda>raw.
     ret (if length raw \<noteq> 192 then False
          else zkvm_kzg_point_eval lib (buffer_read raw 96 48) (buffer_read raw 32 32)
                 (buffer_read raw 64 32) (buffer_read raw 144 48) = Some True))"

definition accelerator_bls_g1_add :: "crypto \<Rightarrow> calldata_slice \<Rightarrow> ('z, bool) host" where
  "accelerator_bls_g1_add lib data =
     bind (calldata_bytes data) (\<lambda>raw.
     if length raw \<noteq> 256 then ret False
     else accelerated 96 pad_g1 (zkvm_bls12_g1_add lib (compact_g1 raw 0) (compact_g1 raw 128)))"

definition accelerator_bls_g2_add :: "crypto \<Rightarrow> calldata_slice \<Rightarrow> ('z, bool) host" where
  "accelerator_bls_g2_add lib data =
     bind (calldata_bytes data) (\<lambda>raw.
     if length raw \<noteq> 512 then ret False
     else accelerated 192 pad_g2 (zkvm_bls12_g2_add lib (compact_g2 raw 0) (compact_g2 raw 256)))"

definition bls_msm ::
    "calldata_slice \<Rightarrow> int \<Rightarrow> int \<Rightarrow> int \<Rightarrow> (bytes \<Rightarrow> int \<Rightarrow> bytes) \<Rightarrow> (bytes \<Rightarrow> bytes)
      \<Rightarrow> (bytes \<Rightarrow> int \<Rightarrow> bytes option) \<Rightarrow> ('z, bool) host" where
  "bls_msm data wire_stride point_wire point_compact compact pad entry =
     bind (calldata_bytes data) (\<lambda>raw.
     if raw = [] \<or> int (length raw) mod wire_stride \<noteq> 0 then ret False
     else
       (let count = int (length raw) div wire_stride;
            pairs = concat (map (\<lambda>index.
              let base = int index * wire_stride
              in compact raw base @ buffer_read raw (base + point_wire) 32) [0..<nat count])
        in accelerated point_compact pad (entry pairs count)))"

definition accelerator_bls_g1_msm :: "crypto \<Rightarrow> calldata_slice \<Rightarrow> ('z, bool) host" where
  "accelerator_bls_g1_msm lib data =
     bls_msm data 160 128 96 compact_g1 pad_g1 (zkvm_bls12_g1_msm lib)"

definition accelerator_bls_g2_msm :: "crypto \<Rightarrow> calldata_slice \<Rightarrow> ('z, bool) host" where
  "accelerator_bls_g2_msm lib data =
     bls_msm data 288 256 192 compact_g2 pad_g2 (zkvm_bls12_g2_msm lib)"

definition accelerator_bls_pairing :: "crypto \<Rightarrow> calldata_slice \<Rightarrow> ('z, int) host" where
  "accelerator_bls_pairing lib data =
     bind (calldata_bytes data) (\<lambda>raw.
     if raw = [] \<or> int (length raw) mod 384 \<noteq> 0 then ret PAIRING_MALFORMED
     else
       (let count = int (length raw) div 384;
            pairs = concat (map (\<lambda>index.
              let base = int index * 384
              in compact_g1 raw base @ compact_g2 raw (base + 128)) [0..<nat count])
        in ret (pairing_status (zkvm_bls12_pairing lib pairs count))))"

definition accelerator_bls_map_fp_to_g1 :: "crypto \<Rightarrow> calldata_slice \<Rightarrow> ('z, bool) host" where
  "accelerator_bls_map_fp_to_g1 lib data =
     bind (calldata_bytes data) (\<lambda>raw.
     if length raw \<noteq> 64 then ret False
     else accelerated 96 pad_g1 (zkvm_bls12_map_fp_to_g1 lib (compact_fp raw 0)))"

definition accelerator_bls_map_fp2_to_g2 :: "crypto \<Rightarrow> calldata_slice \<Rightarrow> ('z, bool) host" where
  "accelerator_bls_map_fp2_to_g2 lib data =
     bind (calldata_bytes data) (\<lambda>raw.
     if length raw \<noteq> 128 then ret False
     else
       (let fp2 = compact_fp raw 0 @ compact_fp raw 64
        in accelerated 192 pad_g2 (zkvm_bls12_map_fp2_to_g2 lib fp2)))"

definition accelerator_p256_verify :: "crypto \<Rightarrow> calldata_slice \<Rightarrow> ('z, bool) host" where
  "accelerator_p256_verify lib data =
     bind (calldata_bytes data) (\<lambda>raw.
     ret (if length raw \<noteq> 160 then False
          else zkvm_secp256r1_verify lib (py_slice raw 0 32) (py_slice raw 32 96)
                 (py_slice raw 96 160) = Some True))"

section \<open>Public-key recovery on secp256k1\<close>

definition SECP256K1_FIELD :: int where
  "SECP256K1_FIELD = 0xFFFFFFFFFFFFFFFFFFFFFFFFFFFFFFFFFFFFFFFFFFFFFFFFFFFFFFFEFFFFFC2F"

definition SECP256K1_ORDER :: int where
  "SECP256K1_ORDER = 0xFFFFFFFFFFFFFFFFFFFFFFFFFFFFFFFEBAAEDCE6AF48A03BBFD25E8CD0364141"

text \<open>A point is a pair of coordinates; \<open>None\<close> is the point at infinity.\<close>

type_synonym secp_point = "(int \<times> int) option"

definition SECP256K1_GENERATOR :: secp_point where
  "SECP256K1_GENERATOR =
     Some (0x79BE667EF9DCBBAC55A06295CE870B07029BFCDB2DCE28D959F2815B16F81798,
           0x483ADA7726A3C4655DA4FBFC0E1108A8FD17B448A68554199C47D08FFB10D4B8)"

text \<open>
  Python's \<open>pow\<close> with three arguments: a power modulo the modulus, by repeated squaring, and for
  the exponent -1 an inverse, which raises \<open>ValueError\<close> when there is none.
\<close>

fun pow_mod :: "int \<Rightarrow> nat \<Rightarrow> int \<Rightarrow> int" where
  "pow_mod b e m =
     (if e = 0 then 1 mod m
      else
        (let h = pow_mod (b * b mod m) (e div 2) m
         in if odd e then b * h mod m else h))"

declare pow_mod.simps [simp del]

lemma pow_mod_eq: "pow_mod b e m = b ^ e mod m"
proof (induction b e m rule: pow_mod.induct)
  case (1 b e m)
  show ?case
  proof (cases "e = 0")
    case False
    have h: "pow_mod (b * b mod m) (e div 2) m = (b * b) ^ (e div 2) mod m"
      using 1 False by (simp add: power_mod)
    have sq: "(b * b) ^ (e div 2) = b ^ (2 * (e div 2))"
      by (simp add: power_mult power2_eq_square)
    show ?thesis
    proof (cases "odd e")
      case True
      then have "e = Suc (2 * (e div 2))" by simp
      then have "b ^ e = b * (b * b) ^ (e div 2)" using sq by (metis power_Suc)
      then show ?thesis using False True h
        by (subst pow_mod.simps) (simp add: Let_def mod_mult_right_eq)
    next
      case even: False
      then have "b ^ e = (b * b) ^ (e div 2)" using sq by simp
      then show ?thesis using False even h by (subst pow_mod.simps) (simp add: Let_def)
    qed
  qed (simp add: pow_mod.simps)
qed

definition py_inverse :: "int \<Rightarrow> int \<Rightarrow> ('s, int) action" where
  "py_inverse a m =
     (let x = nat (a mod m); n = nat m in
      if gcd x n = 1 then ret (fst (bezw x n) mod m)
      else raise (ValueError ''base is not invertible for the given modulus''))"

definition secp256k1_add :: "secp_point \<Rightarrow> secp_point \<Rightarrow> ('s, secp_point) action" where
  "secp256k1_add left right =
     (case left of None \<Rightarrow> ret right
      | Some (left_x, left_y) \<Rightarrow>
        (case right of None \<Rightarrow> ret left
         | Some (right_x, right_y) \<Rightarrow>
           if left_x = right_x \<and> (left_y + right_y) mod SECP256K1_FIELD = 0 then ret None
           else
             bind (if left_x = right_x
                   then bind (py_inverse (2 * left_y) SECP256K1_FIELD) (\<lambda>inverse.
                     ret ((3 * left_x * left_x) * inverse mod SECP256K1_FIELD))
                   else bind (py_inverse (right_x - left_x) SECP256K1_FIELD) (\<lambda>inverse.
                     ret ((right_y - left_y) * inverse mod SECP256K1_FIELD))) (\<lambda>slope.
             let result_x = (slope * slope - left_x - right_x) mod SECP256K1_FIELD;
                 result_y = (slope * (left_x - result_x) - left_y) mod SECP256K1_FIELD
             in ret (Some (result_x, result_y)))))"

text \<open>Double and add, over the bits of a scalar that is not negative.\<close>

function secp256k1_mul_loop ::
    "nat \<Rightarrow> secp_point \<Rightarrow> secp_point \<Rightarrow> ('s, secp_point) action" where
  "secp256k1_mul_loop scalar result addend =
     (if scalar = 0 then ret result
      else
        bind (if odd scalar then secp256k1_add result addend else ret result) (\<lambda>result.
        bind (secp256k1_add addend addend) (\<lambda>addend.
        secp256k1_mul_loop (scalar div 2) result addend)))"
  by pat_completeness auto
termination
  by (relation "measure (\<lambda>(scalar, _). scalar)") auto

declare secp256k1_mul_loop.simps [simp del]

definition secp256k1_mul :: "int \<Rightarrow> secp_point \<Rightarrow> ('s, secp_point) action" where
  "secp256k1_mul scalar point = secp256k1_mul_loop (nat scalar) None point"

definition secp256k1_recover_address ::
    "hash_function \<Rightarrow> bytes \<Rightarrow> int \<Rightarrow> int \<Rightarrow> int \<Rightarrow> ('s, bytes option) action" where
  "secp256k1_recover_address keccak digest y_parity r s =
     (if length digest \<noteq> 32 \<or> y_parity \<notin> {0, 1} \<or> \<not> (1 \<le> r \<and> r < SECP256K1_ORDER)
        \<or> \<not> (1 \<le> s \<and> s < SECP256K1_ORDER) \<or> r \<ge> SECP256K1_FIELD
      then ret None
      else
        (let alpha = (pow_mod r 3 SECP256K1_FIELD + 7) mod SECP256K1_FIELD;
             y = pow_mod alpha (nat ((SECP256K1_FIELD + 1) div 4)) SECP256K1_FIELD in
         if pow_mod y 2 SECP256K1_FIELD \<noteq> alpha then ret None
         else
           (let y = (if y AND 1 \<noteq> y_parity then SECP256K1_FIELD - y else y);
                recovered_r = Some (r, y) in
            bind (secp256k1_mul SECP256K1_ORDER recovered_r) (\<lambda>multiple.
            if multiple \<noteq> None then ret None
            else
              (let message = from_bytes_big digest mod SECP256K1_ORDER in
               bind (py_inverse r SECP256K1_ORDER) (\<lambda>inverse_r.
               bind (secp256k1_mul s recovered_r) (\<lambda>scaled_r.
               bind (secp256k1_mul ((- message) mod SECP256K1_ORDER) SECP256K1_GENERATOR)
                 (\<lambda>scaled_generator.
               bind (secp256k1_add scaled_r scaled_generator) (\<lambda>sum_point.
               bind (secp256k1_mul inverse_r sum_point) (\<lambda>public_key.
               case public_key of None \<Rightarrow> ret None
               | Some (public_x, public_y) \<Rightarrow>
                   let encoded = to_bytes_big public_x 32 @ to_bytes_big public_y 32
                   in ret (Some (drop 12 (keccak encoded)))))))))))))"

definition host_ecrecover ::
    "hash_function \<Rightarrow> hash \<Rightarrow> int \<Rightarrow> int \<Rightarrow> int \<Rightarrow> ('s, address_result) action" where
  "host_ecrecover keccak digest y_parity r s =
     bind (secp256k1_recover_address keccak (fixed_wire_bytes digest) y_parity r s) (\<lambda>recovered.
     ret (case recovered of
            None \<Rightarrow> \<lparr>success = False, result_address = bytes20_from_wire (zeros 20)\<rparr>
          | Some a \<Rightarrow> \<lparr>success = True, result_address = bytes20_from_wire a\<rparr>))"

end
