(* ===== verification/Tx_Codec.thy ===== *)
theory Tx_Codec
  imports Rlp_Encode Accelerators
begin

text \<open>
  Transactions as they arrive: the types of \<open>primitives/tx.py\<close>, the decoders of
  \<open>lib/rlp/codecs/transactions.py\<close>, the signing hashes of
  \<open>lib/rlp/codecs/transaction_signing.py\<close> and the signature checks of \<open>lib/tx.py\<close>. A decoder
  takes the fields of the list one by one and expects the list to end after the last; the
  recursions over a list of items end because every item is at least one byte long.
\<close>

section \<open>Transaction types\<close>

datatype tx_type = LegacyTx | AccessListTx | FeeMarketTx | BlobTx | SetCodeTx

fun tx_envelope_type :: "tx_type \<Rightarrow> byte" where
  "tx_envelope_type LegacyTx = 0"
| "tx_envelope_type AccessListTx = 1"
| "tx_envelope_type FeeMarketTx = 2"
| "tx_envelope_type BlobTx = 3"
| "tx_envelope_type SetCodeTx = 4"

datatype tx_signature_scheme = LegacySignature | TypedSignature

record tx_type_semantics =
  tts_minimum_fork :: fork
  tts_signature :: tx_signature_scheme
  tts_blob :: bool
  tts_set_code :: bool

definition tx_type_semantics_of :: "tx_type \<Rightarrow> tx_type_semantics" where
  "tx_type_semantics_of t =
     (let semantics = (\<lambda>minimum_fork signature blob set_code. \<lparr>tts_minimum_fork = minimum_fork,
            tts_signature = signature, tts_blob = blob, tts_set_code = set_code\<rparr>) in
      case t of
        LegacyTx \<Rightarrow> semantics Frontier LegacySignature False False
      | AccessListTx \<Rightarrow> semantics Berlin TypedSignature False False
      | FeeMarketTx \<Rightarrow> semantics London TypedSignature False False
      | BlobTx \<Rightarrow> semantics Cancun TypedSignature True False
      | SetCodeTx \<Rightarrow> semantics Prague TypedSignature False True)"

record authorization =
  auth_valid_sig :: bool
  auth_authority :: address
  auth_address :: address
  auth_nonce :: int
  auth_chain_id :: int

definition blob_limit_ok :: "int \<Rightarrow> bool" where
  "blob_limit_ok limit \<longleftrightarrow> limit = 0 \<or> limit = 6 \<or> limit = 9"

definition blob_hashes_fields :: "int \<Rightarrow> region_slice \<Rightarrow> int \<Rightarrow> ('s, blob_hashes_ref) action" where
  "blob_hashes_fields limit bytes count =
     (if \<not> blob_limit_ok limit then raise (ValueError ''BlobHashesFieldsValidity violates Sail constraint'')
      else if \<not> (0 \<le> count \<and> count \<le> limit) then raise (ValueError ''BlobHashesFields.count violates Sail type'')
      else ret \<lparr>blob_bytes = bytes, blob_count = count\<rparr>)"

definition transaction_item_count :: "int \<Rightarrow> ('s, int) action" where
  "transaction_item_count = ranged 0 (2 ^ 30)"

definition transaction_byte_length :: "int \<Rightarrow> ('s, int) action" where
  "transaction_byte_length = ranged 0 (2 ^ 30)"

text \<open>The authorizations of a transaction, decoded: at most the gas limit divided by their price.\<close>

record prepared_authorization_list =
  pal_entries :: "authorization list"
  pal_count :: int

definition PREPARED_AUTHORIZATION_LIMIT :: int where
  "PREPARED_AUTHORIZATION_LIMIT = 2 ^ 24 div 7816"

definition prepared_authorizations ::
    "authorization list \<Rightarrow> int \<Rightarrow> ('s, prepared_authorization_list) action" where
  "prepared_authorizations entries count =
     bind (natural count) (\<lambda>count.
     if count \<le> PREPARED_AUTHORIZATION_LIMIT
     then ret \<lparr>pal_entries = entries, pal_count = count\<rparr>
     else raise (ValueError ''PreparedAuthorizationList.count violates Sail type''))"

record access_list_ref =
  alr_encoded :: region_slice
  alr_address_count :: int
  alr_slot_count :: int

definition EMPTY_ACCESS_LIST_REF :: access_list_ref where
  "EMPTY_ACCESS_LIST_REF =
     \<lparr>alr_encoded = EMPTY_SLICE, alr_address_count = 0, alr_slot_count = 0\<rparr>"

record authorization_list_ref =
  aur_encoded :: region_slice
  aur_count :: int

definition authorization_list_ref_of ::
    "region_slice \<Rightarrow> int \<Rightarrow> ('s, authorization_list_ref) action" where
  "authorization_list_ref_of encoded count =
     (if 0 \<le> count \<and> count \<le> 2 ^ 30 then ret \<lparr>aur_encoded = encoded, aur_count = count\<rparr>
      else raise (ValueError ''AuthorizationListRefFieldsValidity violates Sail constraint''))"

definition EMPTY_AUTHORIZATION_LIST_REF :: authorization_list_ref where
  "EMPTY_AUTHORIZATION_LIST_REF = \<lparr>aur_encoded = EMPTY_SLICE, aur_count = 0\<rparr>"

record transaction =
  txn_type :: tx_type
  txn_sender :: address
  txn_nonce :: int
  txn_chain_id :: int
  txn_gas_limit :: int
  txn_is_create :: bool
  txn_recipient :: address
  txn_value :: int
  txn_raw :: region_slice
  txn_input :: region_slice
  txn_access_list :: access_list_ref
  txn_max_fee :: int
  txn_max_blob_fee :: int
  txn_max_priority_fee :: int
  txn_authorizations :: authorization_list_ref
  txn_blob_hashes :: blob_hashes_ref
  txn_pubkey :: region_slice
  txn_signing_hash :: hash
  txn_sig_v :: int
  txn_sig_r :: int
  txn_sig_s :: int

definition pack_transaction :: "transaction \<Rightarrow> transaction" where
  "pack_transaction tx = tx"

section \<open>Signing hashes\<close>

definition word_of_account_nonce :: "int \<Rightarrow> ('s, int) action" where
  "word_of_account_nonce value = natural value"

definition word_of_chain_identifier :: "int \<Rightarrow> ('s, int) action" where
  "word_of_chain_identifier value = natural value"

definition LEGACY_SIGNATURE_SUFFIX_LENGTH :: int where "LEGACY_SIGNATURE_SUFFIX_LENGTH = 2"
definition PUBLIC_KEY_BODY_LENGTH :: int where "PUBLIC_KEY_BODY_LENGTH = 64"

definition SECP_N_FULL :: int where
  "SECP_N_FULL = 0xFFFFFFFFFFFFFFFFFFFFFFFFFFFFFFFEBAAEDCE6AF48A03BBFD25E8CD0364141"

definition SECP_N_HALF :: int where
  "SECP_N_HALF = 0x7FFFFFFFFFFFFFFFFFFFFFFFFFFFFFFF5D576E7357A4501DDFE92F46681B20A0"

definition legacy_sig_chain_id :: "int \<Rightarrow> int" where
  "legacy_sig_chain_id v = (let adjusted_v = word_sub_word v 35 in word_div_word adjusted_v 2)"

text \<open>
  The preimage is the span of the fields that were signed, as they arrived, in a list of its own,
  with the type byte of a typed transaction, or with the chain id of a replay-protected legacy
  transaction and two empty strings.
\<close>

definition tx_signing_hash ::
    "hash_function \<Rightarrow> tx_type \<Rightarrow> region_slice \<Rightarrow> int \<Rightarrow> ('z, hash) kernel" where
  "tx_signing_hash keccak t content_src v =
     (let tb = tx_envelope_type t;
          eip155 = (tb = 0 \<and> word_ule 35 v);
          chain_id = (if eip155 then legacy_sig_chain_id v else ZERO_WORD) in
      bind (if eip155
            then bind (rlp_uint_word_size chain_id) (\<lambda>chain_id_length.
              ret (chain_id_length + LEGACY_SIGNATURE_SUFFIX_LENGTH))
            else ret 0) (\<lambda>suffix_len.
      bind (if slice_len content_src \<le> 2 ^ 30 then ret (slice_len content_src)
            else fatal_error RlpDecode) (\<lambda>content_length.
      let content_len = content_length + suffix_len in
      bind (rlp_length_prefix_len content_len) (\<lambda>prefix_len.
      let type_len = (if tb = 0 then 0 else 1);
          preimage_len = type_len + prefix_len + content_len in
      bind (rlp_encoder_begin preimage_len) (\<lambda>encoder.
      bind (do_when (tb \<noteq> 0) (scratch_push_byte tb)) (\<lambda>_.
      bind (rlp_write_list_prefix content_len) (\<lambda>_.
      bind (stateless_input_scratch_push_slice content_src) (\<lambda>_.
      bind (do_when eip155
        (bind (rlp_write_uint_word chain_id) (\<lambda>_.
         bind (scratch_push_byte 0x80) (\<lambda>_. scratch_push_byte 0x80)))) (\<lambda>_.
      bind (rlp_encoder_finish encoder) (\<lambda>preimage.
      bind (hash_region keccak ScratchRegion preimage) (\<lambda>signing_hash.
      bind (rlp_encoder_rewind encoder) (\<lambda>_. ret signing_hash))))))))))))"

definition auth_signing_hash ::
    "hash_function \<Rightarrow> int \<Rightarrow> address \<Rightarrow> int \<Rightarrow> ('z, hash) kernel" where
  "auth_signing_hash keccak chain_id addr n =
     bind (rlp_uint_word_size chain_id) (\<lambda>chain_id_length.
     let address_length = rlp_addr_size in
     bind (rlp_uint_word_size n) (\<lambda>nonce_length.
     let content_len = chain_id_length + address_length + nonce_length in
     bind (rlp_list_size content_len) (\<lambda>list_size.
     let preimage_len = 1 + list_size in
     bind (rlp_encoder_begin preimage_len) (\<lambda>encoder.
     bind (scratch_push_byte 5) (\<lambda>_.
     bind (rlp_write_list_prefix content_len) (\<lambda>_.
     bind (rlp_write_uint_word chain_id) (\<lambda>_.
     bind (rlp_write_addr addr) (\<lambda>_.
     bind (rlp_write_uint_word n) (\<lambda>_.
     bind (rlp_encoder_finish encoder) (\<lambda>encoded.
     bind (hash_region keccak ScratchRegion encoded) (\<lambda>signing_hash.
     bind (rlp_encoder_rewind encoder) (\<lambda>_. ret signing_hash))))))))))))"

definition ecrecover_addr ::
    "hash_function \<Rightarrow> hash \<Rightarrow> int \<Rightarrow> int \<Rightarrow> int \<Rightarrow> ('s, address_result) action" where
  "ecrecover_addr keccak h yparity r s = host_ecrecover keccak h yparity r s"

text \<open>The parity that \<open>v\<close> encodes; a bad \<open>v\<close> is fatal.\<close>

fun tx_signature_parity :: "int \<Rightarrow> tx_signature_scheme \<Rightarrow> int \<Rightarrow> ('s, int) action" where
  "tx_signature_parity chain_id LegacySignature v =
     (let eip155_v = word_ule 35 v; signature_chain_id = legacy_sig_chain_id v in
      bind (word_of_chain_identifier chain_id) (\<lambda>expected_chain_id.
      if v = 27 \<or> v = 28 \<or> (eip155_v \<and> signature_chain_id = expected_chain_id) then
        (let parity_bit = word_and v WORD_ONE in
         if parity_bit = WORD_ONE then ret 0 else ret 1)
      else fatal_error InvalidSignature))"
| "tx_signature_parity chain_id TypedSignature v =
     (if v = WORD_ZERO then ret 0 else if v = WORD_ONE then ret 1
      else fatal_error InvalidSignature)"

definition tx_auth_valid ::
    "hash_function \<Rightarrow> address \<Rightarrow> hash \<Rightarrow> int \<Rightarrow> int \<Rightarrow> int \<Rightarrow> ('s, bool) action" where
  "tx_auth_valid keccak sender h parity r s =
     (let high_s = word_ult SECP_N_HALF s in
      if high_s then ret False
      else
        bind (ecrecover_addr keccak h parity r s) (\<lambda>recovered.
        ret (success recovered \<and> result_address recovered = sender)))"

section \<open>Access lists, blob hashes and authorizations\<close>

definition transaction_rlp_content :: "rlp_field_ref \<Rightarrow> ('s, region_slice) action" where
  "transaction_rlp_content f =
     bind (rlp_item_content f) (\<lambda>content. region_slice (slice_bytes content) (slice_len content))"

text \<open>The counts of an access list carry the bounds that the source's validator checks them against.\<close>

record access_list_decode =
  ald_address_bound :: int
  ald_slot_bound :: int
  ald_address_count :: int
  ald_slot_count :: int

definition access_list_decode_of :: "int \<Rightarrow> int \<Rightarrow> int \<Rightarrow> int \<Rightarrow> ('s, access_list_decode) action" where
  "access_list_decode_of address_bound slot_bound address_count slot_count =
     (if 0 \<le> address_bound \<and> address_bound \<le> 2 ^ 32 - 1 \<and> 0 \<le> slot_bound \<and> slot_bound \<le> 2 ^ 32 - 1 \<and>
         0 \<le> address_count \<and> address_count \<le> address_bound \<and>
         0 \<le> slot_count \<and> slot_count \<le> slot_bound
      then ret \<lparr>ald_address_bound = address_bound, ald_slot_bound = slot_bound,
        ald_address_count = address_count, ald_slot_count = slot_count\<rparr>
      else raise (ValueError ''AccessListDecode violates Sail type''))"

definition EMPTY_ACCESS_LIST_DECODE :: access_list_decode where
  "EMPTY_ACCESS_LIST_DECODE = \<lparr>ald_address_bound = 0, ald_slot_bound = 0,
     ald_address_count = 0, ald_slot_count = 0\<rparr>"

function decode_access_list_keys ::
    "region_slice \<Rightarrow> address \<Rightarrow> access_list_decode \<Rightarrow> 'z host_state_scheme
      \<Rightarrow> py_error + (access_list_decode \<times> 'z host_state_scheme)" where
  "decode_access_list_keys cursor addr tail s =
     (let checked = access_list_decode_of (ald_address_bound tail)
            (ald_slot_bound tail + slice_len cursor) in
      if slice_len cursor = 0 then checked (ald_address_count tail) (ald_slot_count tail)
      else
        bind (rlp_next cursor) (\<lambda>(key, next).
        bind (rlp_decode_word key) (\<lambda>slot.
        bind (decode_access_list_keys next addr tail) (\<lambda>result.
        checked (ald_address_count result) (ald_slot_count result + 1))))) s"
  by auto
termination
  by (relation "measure (\<lambda>(cursor, _). nat (slice_len cursor))") (auto dest: rlp_next_shorter)

declare decode_access_list_keys.simps [simp del]

text \<open>An entry: an address and the list of its keys.\<close>

definition access_list_entry ::
    "rlp_field_ref \<Rightarrow> ('z, rlp_field_ref \<times> rlp_field_ref) host" where
  "access_list_entry entry =
     bind (rlp_decode_list entry) (\<lambda>entry_fields.
     bind (rlp_next entry_fields) (\<lambda>(addr_f, entry_fields).
     bind (rlp_next entry_fields) (\<lambda>(keys_f, entry_fields).
     bind (rlp_cursor_expect_end entry_fields) (\<lambda>_. ret (addr_f, keys_f)))))"

function decode_access_list_entries ::
    "region_slice \<Rightarrow> 'z host_state_scheme
      \<Rightarrow> py_error + (access_list_decode \<times> 'z host_state_scheme)" where
  "decode_access_list_entries cursor s =
     (if slice_len cursor = 0 then ret EMPTY_ACCESS_LIST_DECODE
      else
        bind (rlp_next cursor) (\<lambda>(entry, next).
        bind (access_list_entry entry) (\<lambda>(addr_f, keys_f).
        bind (rlp_decode_word addr_f) (\<lambda>address_word.
        let addr = word_to_address address_word in
        bind (decode_access_list_entries next) (\<lambda>tail.
        bind (rlp_decode_list keys_f) (\<lambda>keys.
        bind (decode_access_list_keys keys addr tail) (\<lambda>result.
        access_list_decode_of (slice_len cursor) (slice_len cursor)
          (ald_address_count result + 1) (ald_slot_count result)))))))) s"
  by auto
termination
  by (relation "measure (\<lambda>(cursor, _). nat (slice_len cursor))") (auto dest: rlp_next_shorter)

declare decode_access_list_entries.simps [simp del]

definition decode_access_list :: "rlp_field_ref \<Rightarrow> ('z, access_list_ref) host" where
  "decode_access_list f =
     (if slice_len (rf_source f) \<le> 2 ^ 30 then
        bind (rlp_decode_list f) (\<lambda>entries.
        bind (decode_access_list_entries entries) (\<lambda>decoded.
        bind (transaction_rlp_content f) (\<lambda>encoded.
        bind (transaction_item_count (ald_address_count decoded)) (\<lambda>address_count.
        bind (transaction_item_count (ald_slot_count decoded)) (\<lambda>slot_count.
        ret \<lparr>alr_encoded = encoded, alr_address_count = address_count,
          alr_slot_count = slot_count\<rparr>)))))
      else fatal_error RlpDecode)"

definition BLOB_HASH_LENGTH :: int where "BLOB_HASH_LENGTH = 32"
definition BLOB_HASH_RLP_LENGTH :: int where "BLOB_HASH_RLP_LENGTH = 33"

function decode_blob_hash_items ::
    "region_slice \<Rightarrow> int \<Rightarrow> int \<Rightarrow> 'z host_state_scheme
      \<Rightarrow> py_error + (int \<times> 'z host_state_scheme)" where
  "decode_blob_hash_items cursor limit count s =
     (if slice_len cursor = 0 then ret count
      else
        bind (rlp_next cursor) (\<lambda>(item, next).
        bind (stateless_input_slice_byte (rf_source item) 0) (\<lambda>item_prefix.
        if rf_is_list item \<or> slice_len (rf_source item) \<noteq> BLOB_HASH_RLP_LENGTH \<or>
           rf_content_len item \<noteq> BLOB_HASH_LENGTH \<or> item_prefix \<noteq> 0b10100000
        then fatal_error RlpDecode
        else
          bind (stateless_input_slice_byte (rf_source item) 1) (\<lambda>version.
          if version \<noteq> 1 then fatal_error ExecutionInvalid
          else if count < limit then decode_blob_hash_items next limit (count + 1)
          else fatal_error RlpDecode)))) s"
  by auto
termination
  by (relation "measure (\<lambda>(cursor, _). nat (slice_len cursor))") (auto dest: rlp_next_shorter)

declare decode_blob_hash_items.simps [simp del]

definition decode_blob_hashes :: "rlp_field_ref \<Rightarrow> int \<Rightarrow> ('z, blob_hashes_ref) host" where
  "decode_blob_hashes f limit =
     bind (transaction_rlp_content f) (\<lambda>bytes.
     bind (rlp_decode_list f) (\<lambda>items.
     bind (decode_blob_hash_items items limit 0) (\<lambda>count.
     blob_hashes_fields limit bytes count)))"

function validate_auth_tuples ::
    "region_slice \<Rightarrow> int \<Rightarrow> 'z host_state_scheme \<Rightarrow> py_error + (int \<times> 'z host_state_scheme)" where
  "validate_auth_tuples cursor count s =
     (if slice_len cursor = 0 then transaction_byte_length count
      else
        bind (rlp_next cursor) (\<lambda>(entry, next).
        bind (rlp_decode_list entry) (\<lambda>_.
        if count < 2 ^ 30 then validate_auth_tuples next (count + 1)
        else fatal_error RlpDecode))) s"
  by auto
termination
  by (relation "measure (\<lambda>(cursor, _). nat (slice_len cursor))") (auto dest: rlp_next_shorter)

declare validate_auth_tuples.simps [simp del]

definition decode_auth_list :: "rlp_field_ref \<Rightarrow> ('z, authorization_list_ref) host" where
  "decode_auth_list f =
     (if slice_len (rf_source f) \<le> 2 ^ 30 then
        bind (transaction_rlp_content f) (\<lambda>content.
        bind (rlp_decode_list f) (\<lambda>tuples.
        bind (validate_auth_tuples tuples 0) (\<lambda>count.
        authorization_list_ref_of content count)))
      else fatal_error RlpDecode)"

definition decode_authorization ::
    "hash_function \<Rightarrow> rlp_field_ref \<Rightarrow> ('z, authorization) kernel" where
  "decode_authorization keccak entry =
     bind (rlp_decode_list entry) (\<lambda>fields.
     bind (rlp_next fields) (\<lambda>(chain_f, fields).
     bind (rlp_next fields) (\<lambda>(addr_f, fields).
     bind (rlp_next fields) (\<lambda>(nonce_f, fields).
     bind (rlp_next fields) (\<lambda>(y_f, fields).
     bind (rlp_decode_bool y_f) (\<lambda>y.
     bind (rlp_next fields) (\<lambda>(r_f, fields).
     bind (rlp_next fields) (\<lambda>(s_f, fields).
     bind (rlp_cursor_expect_end fields) (\<lambda>_.
     bind (rlp_decode_u256 chain_f) (\<lambda>chain_id.
     bind (rlp_decode_uint64 nonce_f) (\<lambda>n.
     bind (rlp_decode_u256 r_f) (\<lambda>r.
     bind (rlp_decode_u256 s_f) (\<lambda>s.
     bind (rlp_decode_word addr_f) (\<lambda>address_word.
     let auth_addr = word_to_address address_word in
     bind (auth_signing_hash keccak chain_id auth_addr n) (\<lambda>signing_hash.
     bind (case y of
             RlpOk False \<Rightarrow> ecrecover_addr keccak signing_hash 0 r s
           | RlpOk True \<Rightarrow> ecrecover_addr keccak signing_hash 1 r s
           | RlpInvalidValue \<Rightarrow> ret \<lparr>success = False, result_address = ZERO_ADDRESS\<rparr>)
       (\<lambda>recovered.
     ret \<lparr>auth_valid_sig = (success recovered \<and> word_ult ZERO_WORD r \<and> word_ult r SECP_N_FULL \<and>
            word_ult ZERO_WORD s \<and> word_ule s SECP_N_HALF \<and> n \<noteq> 2 ^ 64 - 1),
          auth_authority = result_address recovered, auth_address = auth_addr,
          auth_nonce = n, auth_chain_id = chain_id\<rparr>))))))))))))))))"

fun prepare_authorization_entries ::
    "hash_function \<Rightarrow> region_slice \<Rightarrow> nat \<Rightarrow> ('z, authorization list) kernel" where
  "prepare_authorization_entries keccak cursor 0 =
     (if slice_len cursor \<noteq> 0 then fatal_error RlpDecode else ret [])"
| "prepare_authorization_entries keccak cursor (Suc count) =
     (if slice_len cursor = 0 then fatal_error RlpDecode
      else
        bind (rlp_next cursor) (\<lambda>(entry, next).
        bind (decode_authorization keccak entry) (\<lambda>authorization.
        bind (prepare_authorization_entries keccak next count) (\<lambda>rest.
        ret (authorization # rest)))))"

definition prepare_authorizations ::
    "hash_function \<Rightarrow> authorization_list_ref \<Rightarrow> ('z, prepared_authorization_list) kernel" where
  "prepare_authorizations keccak auths =
     (if aur_count auths \<le> sail_ediv_int (2 ^ 24) 7816 then
        bind (prepare_authorization_entries keccak (aur_encoded auths)
          (nat (aur_count auths))) (\<lambda>entries.
        prepared_authorizations entries (aur_count auths))
      else fatal_error ExecutionInvalid)"

definition prepared_authorization_head ::
    "prepared_authorization_list \<Rightarrow> ('s, authorization) action" where
  "prepared_authorization_head auths =
     (case pal_entries auths of
        authorization # _ \<Rightarrow> ret authorization
      | [] \<Rightarrow> fatal_error ExecutionInvalid)"

definition prepared_authorization_tail ::
    "prepared_authorization_list \<Rightarrow> int \<Rightarrow> ('s, prepared_authorization_list) action" where
  "prepared_authorization_tail auths count =
     (case pal_entries auths of
        _ # entries \<Rightarrow> prepared_authorizations entries (count - 1)
      | [] \<Rightarrow> fatal_error ExecutionInvalid)"

section \<open>Transactions\<close>

definition tx_input_span :: "rlp_field_ref \<Rightarrow> ('s, region_slice) action" where
  "tx_input_span data =
     bind (transaction_rlp_content data) (\<lambda>content.
     if slice_len content \<le> 2 ^ 30 then ret content else fatal_error RlpDecode)"

definition tx_sig_span :: "rlp_field_ref \<Rightarrow> rlp_field_ref \<Rightarrow> ('s, region_slice) action" where
  "tx_sig_span first signature =
     (let start_offset = slice_bytes (rf_source first);
          stop_offset = slice_bytes (rf_source signature) in
      if stop_offset < start_offset then fatal_error RlpDecode
      else region_slice start_offset (stop_offset - start_offset))"

definition rlp_decode_gas :: "rlp_field_ref \<Rightarrow> ('z, int) host" where
  "rlp_decode_gas f = rlp_decode_uint64 f"

text \<open>
  The record is built last, its fields read in the order in which the source lists them; \<open>v\<close>, the
  access list, the recipient and the signing hash are read before. \<open>transaction_fields\<close> is that
  last step, which the five decoders share.
\<close>

definition transaction_fields ::
    "tx_type \<Rightarrow> region_slice \<Rightarrow> region_slice \<Rightarrow> address \<Rightarrow> ('z, int) kernel \<Rightarrow> ('z, int) kernel
      \<Rightarrow> rlp_field_ref \<Rightarrow> rlp_field_ref \<Rightarrow> rlp_field_ref \<Rightarrow> rlp_field_ref \<Rightarrow> access_list_ref
      \<Rightarrow> ('z, int) kernel \<Rightarrow> ('z, int) kernel \<Rightarrow> ('z, int) kernel \<Rightarrow> authorization_list_ref
      \<Rightarrow> blob_hashes_ref \<Rightarrow> address \<Rightarrow> hash \<Rightarrow> int \<Rightarrow> rlp_field_ref \<Rightarrow> rlp_field_ref
      \<Rightarrow> ('z, transaction) kernel" where
  "transaction_fields t tx pubkey sender read_nonce read_chain gas_f to_f value_f data_f access_list
       read_max_fee read_max_blob_fee read_max_priority_fee auths blob_hashes recipient
       signing_hash v r_f s_f =
     bind read_nonce (\<lambda>n.
     bind read_chain (\<lambda>chain_id.
     bind (rlp_decode_gas gas_f) (\<lambda>gas_limit.
     bind (rlp_decode_u256 value_f) (\<lambda>value.
     bind (tx_input_span data_f) (\<lambda>input_src.
     bind read_max_fee (\<lambda>max_fee.
     bind read_max_blob_fee (\<lambda>max_blob_fee.
     bind read_max_priority_fee (\<lambda>max_priority_fee.
     bind (rlp_decode_u256 r_f) (\<lambda>sig_r.
     bind (rlp_decode_u256 s_f) (\<lambda>sig_s.
     ret \<lparr>txn_type = t, txn_sender = sender, txn_nonce = n, txn_chain_id = chain_id,
       txn_gas_limit = gas_limit, txn_is_create = (rf_content_len to_f = 0),
       txn_recipient = recipient, txn_value = value, txn_raw = tx, txn_input = input_src,
       txn_access_list = access_list, txn_max_fee = max_fee, txn_max_blob_fee = max_blob_fee,
       txn_max_priority_fee = max_priority_fee, txn_authorizations = auths,
       txn_blob_hashes = blob_hashes, txn_pubkey = pubkey, txn_signing_hash = signing_hash,
       txn_sig_v = v, txn_sig_r = sig_r, txn_sig_s = sig_s\<rparr>))))))))))"

definition decode_legacy_tx ::
    "hash_function \<Rightarrow> region_slice \<Rightarrow> region_slice \<Rightarrow> address \<Rightarrow> region_slice
      \<Rightarrow> ('z, transaction) kernel" where
  "decode_legacy_tx keccak tx pubkey sender cursor =
     bind (rlp_next cursor) (\<lambda>(nonce_f, cursor).
     bind (rlp_next cursor) (\<lambda>(gp_f, cursor).
     bind (rlp_next cursor) (\<lambda>(gas_f, cursor).
     bind (rlp_next cursor) (\<lambda>(to_f, cursor).
     bind (rlp_next cursor) (\<lambda>(value_f, cursor).
     bind (rlp_next cursor) (\<lambda>(data_f, cursor).
     bind (rlp_next cursor) (\<lambda>(v_f, cursor).
     bind (rlp_next cursor) (\<lambda>(r_f, cursor).
     bind (rlp_next cursor) (\<lambda>(s_f, cursor).
     bind (rlp_cursor_expect_end cursor) (\<lambda>_.
     bind (rlp_decode_word v_f) (\<lambda>v.
     bind (rlp_decode_u256 gp_f) (\<lambda>gp.
     bind (rlp_decode_word to_f) (\<lambda>recipient_word.
     let recipient = word_to_address recipient_word in
     bind (tx_sig_span nonce_f v_f) (\<lambda>signing_span.
     bind (tx_signing_hash keccak LegacyTx signing_span v) (\<lambda>signing_hash.
     transaction_fields LegacyTx tx pubkey sender (rlp_decode_u256 nonce_f) (ret 0) gas_f to_f value_f data_f
       EMPTY_ACCESS_LIST_REF (ret gp) (ret ZERO_WORD) (ret gp) EMPTY_AUTHORIZATION_LIST_REF EMPTY_BLOB_HASHES recipient signing_hash v r_f s_f)))))))))))))))"

definition decode_access_list_tx ::
    "hash_function \<Rightarrow> region_slice \<Rightarrow> region_slice \<Rightarrow> address \<Rightarrow> region_slice
      \<Rightarrow> ('z, transaction) kernel" where
  "decode_access_list_tx keccak tx pubkey sender cursor =
     bind (rlp_next cursor) (\<lambda>(chain_f, cursor).
     bind (rlp_next cursor) (\<lambda>(nonce_f, cursor).
     bind (rlp_next cursor) (\<lambda>(gp_f, cursor).
     bind (rlp_next cursor) (\<lambda>(gas_f, cursor).
     bind (rlp_next cursor) (\<lambda>(to_f, cursor).
     bind (rlp_next cursor) (\<lambda>(value_f, cursor).
     bind (rlp_next cursor) (\<lambda>(data_f, cursor).
     bind (rlp_next cursor) (\<lambda>(al_f, cursor).
     bind (rlp_next cursor) (\<lambda>(v_f, cursor).
     bind (rlp_next cursor) (\<lambda>(r_f, cursor).
     bind (rlp_next cursor) (\<lambda>(s_f, cursor).
     bind (rlp_cursor_expect_end cursor) (\<lambda>_.
     bind (rlp_decode_word v_f) (\<lambda>v.
     bind (rlp_decode_u256 gp_f) (\<lambda>gp.
     bind (decode_access_list al_f) (\<lambda>access_list.
     bind (rlp_decode_word to_f) (\<lambda>recipient_word.
     let recipient = word_to_address recipient_word in
     bind (tx_sig_span chain_f v_f) (\<lambda>signing_span.
     bind (tx_signing_hash keccak AccessListTx signing_span v) (\<lambda>signing_hash.
     transaction_fields AccessListTx tx pubkey sender (rlp_decode_u256 nonce_f) (rlp_decode_uint64 chain_f) gas_f to_f value_f data_f
       access_list (ret gp) (ret ZERO_WORD) (ret gp) EMPTY_AUTHORIZATION_LIST_REF EMPTY_BLOB_HASHES recipient signing_hash v r_f s_f))))))))))))))))))"

definition decode_fee_market_tx ::
    "hash_function \<Rightarrow> region_slice \<Rightarrow> region_slice \<Rightarrow> address \<Rightarrow> region_slice
      \<Rightarrow> ('z, transaction) kernel" where
  "decode_fee_market_tx keccak tx pubkey sender cursor =
     bind (rlp_next cursor) (\<lambda>(chain_f, cursor).
     bind (rlp_next cursor) (\<lambda>(nonce_f, cursor).
     bind (rlp_next cursor) (\<lambda>(mp_f, cursor).
     bind (rlp_next cursor) (\<lambda>(mf_f, cursor).
     bind (rlp_next cursor) (\<lambda>(gas_f, cursor).
     bind (rlp_next cursor) (\<lambda>(to_f, cursor).
     bind (rlp_next cursor) (\<lambda>(value_f, cursor).
     bind (rlp_next cursor) (\<lambda>(data_f, cursor).
     bind (rlp_next cursor) (\<lambda>(al_f, cursor).
     bind (rlp_next cursor) (\<lambda>(v_f, cursor).
     bind (rlp_next cursor) (\<lambda>(r_f, cursor).
     bind (rlp_next cursor) (\<lambda>(s_f, cursor).
     bind (rlp_cursor_expect_end cursor) (\<lambda>_.
     bind (rlp_decode_word v_f) (\<lambda>v.
     bind (decode_access_list al_f) (\<lambda>access_list.
     bind (rlp_decode_word to_f) (\<lambda>recipient_word.
     let recipient = word_to_address recipient_word in
     bind (tx_sig_span chain_f v_f) (\<lambda>signing_span.
     bind (tx_signing_hash keccak FeeMarketTx signing_span v) (\<lambda>signing_hash.
     transaction_fields FeeMarketTx tx pubkey sender (rlp_decode_u256 nonce_f) (rlp_decode_uint64 chain_f) gas_f to_f value_f data_f
       access_list (rlp_decode_u256 mf_f) (ret ZERO_WORD) (rlp_decode_u256 mp_f) EMPTY_AUTHORIZATION_LIST_REF EMPTY_BLOB_HASHES recipient signing_hash v r_f s_f))))))))))))))))))"

definition decode_blob_tx ::
    "hash_function \<Rightarrow> region_slice \<Rightarrow> region_slice \<Rightarrow> int \<Rightarrow> address \<Rightarrow> region_slice
      \<Rightarrow> ('z, transaction) kernel" where
  "decode_blob_tx keccak tx pubkey blob_limit sender cursor =
     bind (rlp_next cursor) (\<lambda>(chain_f, cursor).
     bind (rlp_next cursor) (\<lambda>(nonce_f, cursor).
     bind (rlp_next cursor) (\<lambda>(mp_f, cursor).
     bind (rlp_next cursor) (\<lambda>(mf_f, cursor).
     bind (rlp_next cursor) (\<lambda>(gas_f, cursor).
     bind (rlp_next cursor) (\<lambda>(to_f, cursor).
     bind (rlp_next cursor) (\<lambda>(value_f, cursor).
     bind (rlp_next cursor) (\<lambda>(data_f, cursor).
     bind (rlp_next cursor) (\<lambda>(al_f, cursor).
     bind (rlp_next cursor) (\<lambda>(mbf_f, cursor).
     bind (rlp_next cursor) (\<lambda>(bh_f, cursor).
     bind (rlp_next cursor) (\<lambda>(v_f, cursor).
     bind (rlp_next cursor) (\<lambda>(r_f, cursor).
     bind (rlp_next cursor) (\<lambda>(s_f, cursor).
     bind (rlp_cursor_expect_end cursor) (\<lambda>_.
     bind (rlp_decode_word v_f) (\<lambda>v.
     bind (decode_access_list al_f) (\<lambda>access_list.
     bind (decode_blob_hashes bh_f blob_limit) (\<lambda>blob_hashes.
     bind (rlp_decode_word to_f) (\<lambda>recipient_word.
     let recipient = word_to_address recipient_word in
     bind (tx_sig_span chain_f v_f) (\<lambda>signing_span.
     bind (tx_signing_hash keccak BlobTx signing_span v) (\<lambda>signing_hash.
     transaction_fields BlobTx tx pubkey sender (rlp_decode_u256 nonce_f) (rlp_decode_uint64 chain_f) gas_f to_f value_f data_f
       access_list (rlp_decode_u256 mf_f) (rlp_decode_u256 mbf_f) (rlp_decode_u256 mp_f) EMPTY_AUTHORIZATION_LIST_REF blob_hashes recipient signing_hash v r_f s_f)))))))))))))))))))))"

definition decode_set_code_tx ::
    "hash_function \<Rightarrow> region_slice \<Rightarrow> region_slice \<Rightarrow> address \<Rightarrow> region_slice
      \<Rightarrow> ('z, transaction) kernel" where
  "decode_set_code_tx keccak tx pubkey sender cursor =
     bind (rlp_next cursor) (\<lambda>(chain_f, cursor).
     bind (rlp_next cursor) (\<lambda>(nonce_f, cursor).
     bind (rlp_next cursor) (\<lambda>(mp_f, cursor).
     bind (rlp_next cursor) (\<lambda>(mf_f, cursor).
     bind (rlp_next cursor) (\<lambda>(gas_f, cursor).
     bind (rlp_next cursor) (\<lambda>(to_f, cursor).
     bind (rlp_next cursor) (\<lambda>(value_f, cursor).
     bind (rlp_next cursor) (\<lambda>(data_f, cursor).
     bind (rlp_next cursor) (\<lambda>(al_f, cursor).
     bind (rlp_next cursor) (\<lambda>(auth_f, cursor).
     bind (rlp_next cursor) (\<lambda>(v_f, cursor).
     bind (rlp_next cursor) (\<lambda>(r_f, cursor).
     bind (rlp_next cursor) (\<lambda>(s_f, cursor).
     bind (rlp_cursor_expect_end cursor) (\<lambda>_.
     bind (rlp_decode_word v_f) (\<lambda>v.
     bind (decode_access_list al_f) (\<lambda>access_list.
     bind (decode_auth_list auth_f) (\<lambda>auths.
     bind (rlp_decode_uint64 nonce_f) (\<lambda>decoded_nonce.
     bind (word_of_account_nonce decoded_nonce) (\<lambda>n.
     bind (rlp_decode_word to_f) (\<lambda>recipient_word.
     let recipient = word_to_address recipient_word in
     bind (tx_sig_span chain_f v_f) (\<lambda>signing_span.
     bind (tx_signing_hash keccak SetCodeTx signing_span v) (\<lambda>signing_hash.
     transaction_fields SetCodeTx tx pubkey sender (ret n) (rlp_decode_uint64 chain_f) gas_f to_f value_f data_f
       access_list (rlp_decode_u256 mf_f) (ret ZERO_WORD) (rlp_decode_u256 mp_f) auths EMPTY_BLOB_HASHES recipient signing_hash v r_f s_f))))))))))))))))))))))"

text \<open>The type byte; an envelope that starts with a list is a legacy transaction.\<close>

definition tx_type_of_byte :: "int \<Rightarrow> ('s, tx_type) action" where
  "tx_type_of_byte ttype =
     (if ttype = 0 then ret LegacyTx
      else if ttype = 1 then ret AccessListTx
      else if ttype = 2 then ret FeeMarketTx
      else if ttype = 3 then ret BlobTx
      else if ttype = 4 then ret SetCodeTx
      else fatal_error RlpDecode)"

definition rlp_decode_tx ::
    "hash_function \<Rightarrow> region_slice \<Rightarrow> region_slice \<Rightarrow> int \<Rightarrow> ('z, transaction) kernel" where
  "rlp_decode_tx keccak tx pubkey blob_limit =
     bind (region_sub_slice pubkey 1 PUBLIC_KEY_BODY_LENGTH) (\<lambda>public_key_body.
     bind (hash_region keccak InputRegion public_key_body) (\<lambda>public_key_hash.
     let public_key_word = hash_to_word public_key_hash;
         sender = word_to_address public_key_word;
         tx_length = slice_len tx in
     bind (if tx_length = 0 then fatal_error RlpDecode else stateless_input_slice_byte tx 0) (\<lambda>b0.
     let ttype = (if b0 div 64 = 0b11 then 0 else b0); typed = (ttype \<noteq> 0) in
     bind (if typed
           then (if 1 \<le> tx_length then region_sub_slice tx 1 (tx_length - 1)
                 else fatal_error RlpDecode)
           else ret tx) (\<lambda>payload.
     bind (rlp_node_cursor payload) (\<lambda>cursor.
     bind (tx_type_of_byte ttype) (\<lambda>t.
     bind (case t of
             LegacyTx \<Rightarrow> decode_legacy_tx keccak tx pubkey sender cursor
           | AccessListTx \<Rightarrow> decode_access_list_tx keccak tx pubkey sender cursor
           | FeeMarketTx \<Rightarrow> decode_fee_market_tx keccak tx pubkey sender cursor
           | BlobTx \<Rightarrow> decode_blob_tx keccak tx pubkey blob_limit sender cursor
           | SetCodeTx \<Rightarrow> decode_set_code_tx keccak tx pubkey sender cursor) (\<lambda>decoded.
     ret (pack_transaction decoded))))))))"

end
