(* ===== verification/Instructions.thy ===== *)
theory Instructions
  imports Gas_Precompiles
begin

text \<open>
  The instructions, their availability by fork and the decoding of their immediates:
  \<open>evm/instructions.py\<close> and the decoder of \<open>evm/interpreter.py\<close>. The constructors are those of the
  class \<open>ast\<close>; an immediate byte and a word are integers.
\<close>

section \<open>Immediates of the deep stack operations\<close>

definition deep_stack_index :: "int \<Rightarrow> ('s, int) action" where
  "deep_stack_index value = ranged 17 235 value"

definition decode_single_stack_index :: "int \<Rightarrow> ('s, int) action" where
  "decode_single_stack_index immediate =
     (let valid = deep_stack_immediate_valid immediate in
      if \<not> valid then raise (SailError ''sail/evm/instructions.sail:73.16-73.17'')
      else if immediate \<le> 90 then deep_stack_index (immediate + 145)
      else if \<not> 128 \<le> immediate
        then raise (SailError ''sail/evm/instructions.sail:78.27-78.28'')
      else deep_stack_index (immediate - 111))"

definition decode_exchange_stack_indices :: "int \<Rightarrow> ('s, int \<times> int) action" where
  "decode_exchange_stack_indices immediate =
     (let valid = exchange_immediate_valid immediate in
      if \<not> valid then raise (SailError ''sail/evm/instructions.sail:87.16-87.17'')
      else
        (let shifted = immediate XOR 0b10001111; quotient = shifted div 16;
             remainder = shifted mod 16 in
         if quotient < remainder then ret (quotient + 1, remainder + 1)
         else ret (remainder + 1, 29 - quotient)))"

definition word_of_source_byte_count :: "int \<Rightarrow> ('s, int) action" where
  "word_of_source_byte_count value = word_of_nat_byte_count value"

section \<open>The instruction set\<close>

text \<open>
  The bitwise instructions \<open>AND\<close>, \<open>OR\<close>, \<open>XOR\<close> and \<open>NOT\<close> have the suffix \<open>WORDS\<close>, the plain
  names being the library's operators, and \<open>CREATE\<close> is \<open>opcode_CREATE\<close>.
\<close>

datatype (plugins only: size) instruction = STOP | ADD | MUL | SUB | DIV | SDIV | MOD | SMOD | ADDMOD | MULMOD | EXP
  | SIGNEXTEND | LT | GT | SLT | SGT | EQ | ISZERO | AND_WORDS | OR_WORDS | XOR_WORDS | NOT_WORDS | BYTE | SHL | SHR
  | SAR | CLZ | KECCAK256 | ADDRESS | BALANCE | ORIGIN | CALLER | CALLVALUE | CALLDATALOAD
  | CALLDATASIZE | CALLDATACOPY | CODESIZE | CODECOPY | GASPRICE | EXTCODESIZE | EXTCODECOPY
  | RETURNDATASIZE | RETURNDATACOPY | EXTCODEHASH | BLOCKHASH | COINBASE | TIMESTAMP | NUMBER
  | PREVRANDAO | GASLIMIT | CHAINID | SELFBALANCE | BASEFEE | BLOBHASH | BLOBBASEFEE | SLOTNUM
  | POP | MLOAD | MSTORE | MSTORE8 | SLOAD | SSTORE | JUMP | JUMPI | PC | MSIZE | GAS
  | JUMPDEST | TLOAD | TSTORE | MCOPY | PUSH int int | DUP int | SWAP int | LOG int | DUPN int
  | SWAPN int | EXCHANGE int | opcode_CREATE | CALL | CALLCODE | RETURN | DELEGATECALL
  | CREATE2 | STATICCALL | REVERT | INVALID | SELFDESTRUCT

end
