(* ===== verification/Execute.thy ===== *)
theory Execute
  imports Instructions
begin

text \<open>
  The opcode handlers of \<open>evm/execute.py\<close>, one definition for each function, with the source's
  names. A handler takes the registers it changes and returns them with the outcome: the gas,
  the stack cursor, and for some the memory height, the program counter or the state gas; the
  operand stack and memory themselves are in the host. The parts the handlers share (checking
  the stack, paying, popping and pushing, growing memory) are the combinators of the first
  sections; each keeps the order in which the code checks, charges and acts.
\<close>

section \<open>Outcomes and guards\<close>

fun opcode_frame_status :: "opcode_outcome \<Rightarrow> frame_status" where
  "opcode_frame_status Continue = Running"
| "opcode_frame_status (Failed kind) = Exceptional kind"

definition self_addr :: "message \<Rightarrow> address" where
  "self_addr m = msg_address m"

definition guard_static :: "int \<Rightarrow> bool \<Rightarrow> int \<times> opcode_outcome" where
  "guard_static g is_static = (if is_static then (0, Failed WriteProtection) else (g, Continue))"

definition do_jump :: "int \<Rightarrow> int \<Rightarrow> code \<Rightarrow> int \<Rightarrow> ('z, int \<times> int \<times> opcode_outcome) host" where
  "do_jump pc_in g frame_code destination =
     bind (frame_code_len frame_code) (\<lambda>code_length.
     if destination < code_length then
       bind (frame_jumpdest_valid frame_code destination) (\<lambda>valid_destination.
       if valid_destination then ret (destination, g, Continue)
       else ret (pc_in, 0, Failed InvalidJump))
     else ret (pc_in, 0, Failed InvalidJump))"

definition guard_stack :: "stack_pointer \<Rightarrow> int \<Rightarrow> int \<Rightarrow> ('s, opcode_outcome) action" where
  "guard_stack carried_sp inputs outputs =
     bind (validate_stack carried_sp inputs outputs) (\<lambda>stack_validation.
     ret (case stack_validation of
            StackValid \<Rightarrow> Continue
          | StackUnderflowFailure \<Rightarrow> Failed StackUnderflow
          | StackOverflowFailure \<Rightarrow> Failed StackOverflow))"

fun is_failed :: "opcode_outcome \<Rightarrow> bool" where
  "is_failed Continue = False"
| "is_failed (Failed kind) = True"

text \<open>The first lines of a handler: return when the stack has too few words, or no room.\<close>

definition stack_guarded ::
    "stack_pointer \<Rightarrow> int \<Rightarrow> int \<Rightarrow> (opcode_outcome \<Rightarrow> 'r) \<Rightarrow> ('s, 'r) action \<Rightarrow> ('s, 'r) action" where
  "stack_guarded sp inputs outputs failed body =
     bind (guard_stack sp inputs outputs) (\<lambda>stack_status.
     if is_failed stack_status then ret (failed stack_status) else body)"

text \<open>
  Paying a known cost (the handlers subtract directly, or with \<open>gas_sub\<close>), and paying a computed
  charge; \<open>out\<close> is returned when the gas does not suffice.
\<close>

definition pay :: "int \<Rightarrow> int \<Rightarrow> 'r \<Rightarrow> (int \<Rightarrow> ('s, 'r) action) \<Rightarrow> ('s, 'r) action" where
  "pay gas cost out body = (if gas < cost then ret out else body (gas - cost))"

definition pay_sub :: "int \<Rightarrow> int \<Rightarrow> 'r \<Rightarrow> (int \<Rightarrow> ('s, 'r) action) \<Rightarrow> ('s, 'r) action" where
  "pay_sub gas cost out body = (if gas < cost then ret out else bind (gas_sub gas cost) body)"

definition pay_charge ::
    "int \<Rightarrow> ('s, gas_charge) action \<Rightarrow> 'r \<Rightarrow> (int \<Rightarrow> ('s, 'r) action) \<Rightarrow> ('s, 'r) action" where
  "pay_charge gas charge out body =
     bind charge (\<lambda>cost.
     if \<not> affordable cost then ret out else bind (gas_sub gas (gc_cost cost)) body)"

section \<open>Popping, pushing and growing memory\<close>

definition pop_word :: "stack_pointer \<Rightarrow> (int \<Rightarrow> stack_pointer \<Rightarrow> ('z, 'r) host) \<Rightarrow> ('z, 'r) host" where
  "pop_word sp body =
     bind (read_stack_word sp) (\<lambda>w. bind (stack_top_retreat sp 1) (\<lambda>sp. body w sp))"

definition push_word :: "stack_pointer \<Rightarrow> int \<Rightarrow> ('z, stack_pointer) host" where
  "push_word sp w =
     bind (stack_top_advance sp 1) (\<lambda>sp. bind (write_stack_word sp w) (\<lambda>_. ret sp))"

text \<open>Charging for the memory that \<open>requested_height\<close> needs, and using it.\<close>

definition access_memory ::
    "int \<Rightarrow> int \<Rightarrow> int \<Rightarrow> int \<Rightarrow> (int \<Rightarrow> memory_range \<Rightarrow> ('z, 'r) host) \<Rightarrow> ('z, 'r) host" where
  "access_memory base mem off len body =
     bind (memory_access off len) (\<lambda>access.
     bind (expand_memory base mem (ma_height access)) (\<lambda>mem. body mem (ma_range access)))"

definition pay_memory ::
    "int \<Rightarrow> int \<Rightarrow> int \<Rightarrow> int \<Rightarrow> int \<Rightarrow> 'r
      \<Rightarrow> (int \<Rightarrow> int \<Rightarrow> memory_range \<Rightarrow> ('z, 'r) host) \<Rightarrow> ('z, 'r) host" where
  "pay_memory gas base mem off len out body =
     bind (memory_requested_height off len) (\<lambda>requested_height.
     pay_charge gas (memory_expansion_gas_cost mem requested_height gas) out (\<lambda>gas.
     access_memory base mem off len (\<lambda>mem extent. body gas mem extent)))"

definition pop_log_topics :: "int \<Rightarrow> stack_pointer \<Rightarrow> ('z, log_topics \<times> stack_pointer) host" where
  "pop_log_topics count sp =
     (if count = 1 then
        pop_word sp (\<lambda>t0 sp. ret (LogTopics1 t0, sp))
      else if count = 2 then
        pop_word sp (\<lambda>t0 sp. pop_word sp (\<lambda>t1 sp. ret (LogTopics2 t0 t1, sp)))
      else if count = 3 then
        pop_word sp (\<lambda>t0 sp. pop_word sp (\<lambda>t1 sp. pop_word sp (\<lambda>t2 sp.
        ret (LogTopics3 t0 t1 t2, sp))))
      else if count = 4 then
        pop_word sp (\<lambda>t0 sp. pop_word sp (\<lambda>t1 sp. pop_word sp (\<lambda>t2 sp. pop_word sp (\<lambda>t3 sp.
        ret (LogTopics4 t0 t1 t2 t3, sp)))))
      else ret (LogTopics0, sp))"

section \<open>Shapes of handlers\<close>

type_synonym stack_result = "int \<times> stack_pointer \<times> opcode_outcome"
type_synonym memory_result = "int \<times> stack_pointer \<times> int \<times> opcode_outcome"

text \<open>Handlers that combine the two or three topmost words, or change the topmost one.\<close>

definition binary_op ::
    "int \<Rightarrow> (int \<Rightarrow> int \<Rightarrow> int) \<Rightarrow> int \<Rightarrow> stack_pointer \<Rightarrow> ('z, stack_result) host" where
  "binary_op cost f gas sp =
     stack_guarded sp 2 1 (\<lambda>stack_status. (0, sp, stack_status))
     (pay gas cost (0, sp, Failed OutOfGas) (\<lambda>gas.
      pop_word sp (\<lambda>a sp.
      bind (read_stack_word sp) (\<lambda>b.
      bind (write_stack_word sp (f a b)) (\<lambda>_. ret (gas, sp, Continue))))))"

definition ternary_op ::
    "int \<Rightarrow> (int \<Rightarrow> int \<Rightarrow> int \<Rightarrow> int) \<Rightarrow> int \<Rightarrow> stack_pointer \<Rightarrow> ('z, stack_result) host" where
  "ternary_op cost f gas sp =
     stack_guarded sp 3 1 (\<lambda>stack_status. (0, sp, stack_status))
     (pay gas cost (0, sp, Failed OutOfGas) (\<lambda>gas.
      pop_word sp (\<lambda>a sp. pop_word sp (\<lambda>b sp.
      bind (read_stack_word sp) (\<lambda>n.
      bind (write_stack_word sp (f a b n)) (\<lambda>_. ret (gas, sp, Continue)))))))"

definition unary_op :: "int \<Rightarrow> (int \<Rightarrow> int) \<Rightarrow> int \<Rightarrow> stack_pointer \<Rightarrow> ('z, stack_result) host" where
  "unary_op cost f gas sp =
     stack_guarded sp 1 1 (\<lambda>stack_status. (0, sp, stack_status))
     (pay gas cost (0, sp, Failed OutOfGas) (\<lambda>gas.
      bind (read_stack_word sp) (\<lambda>a.
      bind (write_stack_word sp (f a)) (\<lambda>_. ret (gas, sp, Continue)))))"

text \<open>Handlers that push a word they read, and that replace the topmost word by one they read.\<close>

definition push_op :: "int \<Rightarrow> ('z, int) kernel \<Rightarrow> int \<Rightarrow> stack_pointer \<Rightarrow> ('z, stack_result) kernel" where
  "push_op cost source gas sp =
     stack_guarded sp 0 1 (\<lambda>stack_status. (0, sp, stack_status))
     (pay gas cost (0, sp, Failed OutOfGas) (\<lambda>gas.
      bind source (\<lambda>w. bind (push_word sp w) (\<lambda>sp. ret (gas, sp, Continue)))))"

definition replace_op ::
    "int \<Rightarrow> (int \<Rightarrow> ('z, int) kernel) \<Rightarrow> int \<Rightarrow> stack_pointer \<Rightarrow> ('z, stack_result) kernel" where
  "replace_op cost source gas sp =
     stack_guarded sp 1 1 (\<lambda>stack_status. (0, sp, stack_status))
     (pay gas cost (0, sp, Failed OutOfGas) (\<lambda>gas.
      pop_word sp (\<lambda>a sp.
      bind (source a) (\<lambda>w. bind (push_word sp w) (\<lambda>sp. ret (gas, sp, Continue))))))"

section \<open>Arithmetic, comparison and bitwise handlers\<close>

definition execute_add :: "int \<Rightarrow> stack_pointer \<Rightarrow> ('z, stack_result) host" where
  "execute_add = binary_op G_verylow alu_add"

definition execute_mul :: "int \<Rightarrow> stack_pointer \<Rightarrow> ('z, stack_result) host" where
  "execute_mul = binary_op G_low alu_mul"

definition execute_sub :: "int \<Rightarrow> stack_pointer \<Rightarrow> ('z, stack_result) host" where
  "execute_sub = binary_op G_verylow alu_sub"

definition execute_div :: "int \<Rightarrow> stack_pointer \<Rightarrow> ('z, stack_result) host" where
  "execute_div = binary_op G_low alu_div"

definition execute_sdiv :: "int \<Rightarrow> stack_pointer \<Rightarrow> ('z, stack_result) host" where
  "execute_sdiv = binary_op G_low alu_sdiv"

definition execute_mod :: "int \<Rightarrow> stack_pointer \<Rightarrow> ('z, stack_result) host" where
  "execute_mod = binary_op G_low alu_mod"

definition execute_smod :: "int \<Rightarrow> stack_pointer \<Rightarrow> ('z, stack_result) host" where
  "execute_smod = binary_op G_low alu_smod"

definition execute_addmod :: "int \<Rightarrow> stack_pointer \<Rightarrow> ('z, stack_result) host" where
  "execute_addmod = ternary_op G_mid alu_addmod"

definition execute_mulmod :: "int \<Rightarrow> stack_pointer \<Rightarrow> ('z, stack_result) host" where
  "execute_mulmod = ternary_op G_mid alu_mulmod"

text \<open>The price of \<open>EXP\<close> depends on the exponent, so the operands are read before it is paid.\<close>

definition execute_exp :: "int \<Rightarrow> stack_pointer \<Rightarrow> ('z, stack_result) host" where
  "execute_exp gas sp =
     stack_guarded sp 2 1 (\<lambda>stack_status. (0, sp, stack_status))
     (pop_word sp (\<lambda>a sp.
      bind (read_stack_word sp) (\<lambda>e.
      bind (exp_gas e) (\<lambda>gas_cost.
      pay gas gas_cost (0, sp, Failed OutOfGas) (\<lambda>gas.
      bind (write_stack_word sp (alu_exp a e)) (\<lambda>_. ret (gas, sp, Continue)))))))"

definition execute_signextend :: "int \<Rightarrow> stack_pointer \<Rightarrow> ('z, stack_result) host" where
  "execute_signextend = binary_op G_low alu_signextend"

definition execute_lt :: "int \<Rightarrow> stack_pointer \<Rightarrow> ('z, stack_result) host" where
  "execute_lt = binary_op G_verylow alu_lt"

definition execute_gt :: "int \<Rightarrow> stack_pointer \<Rightarrow> ('z, stack_result) host" where
  "execute_gt = binary_op G_verylow alu_gt"

definition execute_slt :: "int \<Rightarrow> stack_pointer \<Rightarrow> ('z, stack_result) host" where
  "execute_slt = binary_op G_verylow alu_slt"

definition execute_sgt :: "int \<Rightarrow> stack_pointer \<Rightarrow> ('z, stack_result) host" where
  "execute_sgt = binary_op G_verylow alu_sgt"

definition execute_eq :: "int \<Rightarrow> stack_pointer \<Rightarrow> ('z, stack_result) host" where
  "execute_eq = binary_op G_verylow alu_eq"

definition execute_iszero :: "int \<Rightarrow> stack_pointer \<Rightarrow> ('z, stack_result) host" where
  "execute_iszero = unary_op G_verylow alu_iszero"

definition execute_and :: "int \<Rightarrow> stack_pointer \<Rightarrow> ('z, stack_result) host" where
  "execute_and = binary_op G_verylow alu_and"

definition execute_or :: "int \<Rightarrow> stack_pointer \<Rightarrow> ('z, stack_result) host" where
  "execute_or = binary_op G_verylow alu_or"

definition execute_xor :: "int \<Rightarrow> stack_pointer \<Rightarrow> ('z, stack_result) host" where
  "execute_xor = binary_op G_verylow alu_xor"

definition execute_not :: "int \<Rightarrow> stack_pointer \<Rightarrow> ('z, stack_result) host" where
  "execute_not = unary_op G_verylow alu_not"

definition execute_byte :: "int \<Rightarrow> stack_pointer \<Rightarrow> ('z, stack_result) host" where
  "execute_byte = binary_op G_verylow alu_byte"

definition execute_shl :: "int \<Rightarrow> stack_pointer \<Rightarrow> ('z, stack_result) host" where
  "execute_shl = binary_op G_verylow alu_shl"

definition execute_shr :: "int \<Rightarrow> stack_pointer \<Rightarrow> ('z, stack_result) host" where
  "execute_shr = binary_op G_verylow alu_shr"

definition execute_sar :: "int \<Rightarrow> stack_pointer \<Rightarrow> ('z, stack_result) host" where
  "execute_sar = binary_op G_verylow alu_sar"

definition execute_clz :: "int \<Rightarrow> stack_pointer \<Rightarrow> ('z, stack_result) host" where
  "execute_clz = unary_op G_low alu_clz"

text \<open>\<open>KECCAK256\<close>: the digest of a memory range.\<close>

definition execute_keccak256 ::
    "hash_function \<Rightarrow> int \<Rightarrow> int \<Rightarrow> stack_pointer \<Rightarrow> int \<Rightarrow> ('z, memory_result) host" where
  "execute_keccak256 keccak base gas sp mem =
     stack_guarded sp 2 1 (\<lambda>stack_status. (0, sp, mem, stack_status))
     (pop_word sp (\<lambda>off sp. pop_word sp (\<lambda>len sp.
      pay_charge gas (keccak_gas_cost len gas) (0, sp, mem, Failed OutOfGas) (\<lambda>gas.
      pay_memory gas base mem off len (0, sp, mem, Failed OutOfGas) (\<lambda>gas mem extent.
      bind (mem_keccak keccak base mem extent) (\<lambda>digest.
      bind (push_word sp digest) (\<lambda>sp. ret (gas, sp, mem, Continue))))))))"

section \<open>Environment\<close>

definition execute_address :: "address \<Rightarrow> int \<Rightarrow> stack_pointer \<Rightarrow> ('z, stack_result) kernel" where
  "execute_address a = push_op G_base (ret (address_to_word a))"

definition execute_origin :: "int \<Rightarrow> stack_pointer \<Rightarrow> ('z, stack_result) kernel" where
  "execute_origin = push_op G_base (k_env F_Origin)"

definition execute_caller :: "address \<Rightarrow> int \<Rightarrow> stack_pointer \<Rightarrow> ('z, stack_result) kernel" where
  "execute_caller caller = push_op G_base (ret (address_to_word caller))"

definition execute_callvalue :: "int \<Rightarrow> int \<Rightarrow> stack_pointer \<Rightarrow> ('z, stack_result) kernel" where
  "execute_callvalue carried_value = push_op G_base (ret carried_value)"

definition execute_gasprice :: "int \<Rightarrow> stack_pointer \<Rightarrow> ('z, stack_result) kernel" where
  "execute_gasprice = push_op G_base (k_env F_GasPrice)"

definition execute_calldatasize ::
    "calldata_slice \<Rightarrow> int \<Rightarrow> stack_pointer \<Rightarrow> ('z, stack_result) kernel" where
  "execute_calldatasize calldata =
     push_op G_base (word_of_source_byte_count (calldata_slice_length calldata))"

definition execute_calldataload ::
    "calldata_slice \<Rightarrow> int \<Rightarrow> stack_pointer \<Rightarrow> ('z, stack_result) kernel" where
  "execute_calldataload calldata =
     replace_op G_verylow (calldata_slice_load_word_offset calldata)"

text \<open>
  The shared body of the copying handlers: pop destination, source and length, charge for the
  words and the memory, then copy to the absolute destination.
\<close>

definition copy_op ::
    "(int \<Rightarrow> int \<Rightarrow> int \<Rightarrow> ('z, unit) host) \<Rightarrow> int \<Rightarrow> int \<Rightarrow> stack_pointer \<Rightarrow> int
      \<Rightarrow> ('z, memory_result) host" where
  "copy_op copy base gas sp mem =
     stack_guarded sp 3 0 (\<lambda>stack_status. (0, sp, mem, stack_status))
     (pay_sub gas G_verylow (0, sp, mem, Failed OutOfGas) (\<lambda>gas.
      pop_word sp (\<lambda>dst sp. pop_word sp (\<lambda>src sp. pop_word sp (\<lambda>len sp.
      pay_charge gas (copy_gas_cost len gas) (0, sp, mem, Failed OutOfGas) (\<lambda>gas.
      pay_memory gas base mem dst len (0, sp, mem, Failed OutOfGas) (\<lambda>gas mem extent.
      bind (memory_absolute base (mr_off extent)) (\<lambda>destination.
      bind (copy destination src (mr_len extent)) (\<lambda>_. ret (gas, sp, mem, Continue))))))))))"

definition execute_calldatacopy ::
    "calldata_slice \<Rightarrow> int \<Rightarrow> int \<Rightarrow> stack_pointer \<Rightarrow> int \<Rightarrow> ('z, memory_result) host" where
  "execute_calldatacopy calldata = copy_op (calldata_slice_copy_word_offset calldata)"

definition execute_codesize :: "code \<Rightarrow> int \<Rightarrow> stack_pointer \<Rightarrow> ('z, stack_result) kernel" where
  "execute_codesize code =
     push_op G_base (bind (frame_code_len code) word_of_source_byte_count)"

definition execute_codecopy ::
    "code \<Rightarrow> int \<Rightarrow> int \<Rightarrow> stack_pointer \<Rightarrow> int \<Rightarrow> ('z, memory_result) host" where
  "execute_codecopy code = copy_op (code_slice_copy_word_offset (code_slice_of code))"

section \<open>Accounts\<close>

definition execute_balance ::
    "hash_function \<Rightarrow> int \<Rightarrow> stack_pointer \<Rightarrow> ('z, stack_result) kernel" where
  "execute_balance keccak gas sp =
     stack_guarded sp 1 1 (\<lambda>stack_status. (0, sp, stack_status))
     (pop_word sp (\<lambda>address_word sp.
      let a = word_to_address address_word in
      bind (k_account_is_warm a) (\<lambda>warm.
      bind (account_cost warm) (\<lambda>gas_cost.
      pay gas gas_cost (0, sp, Failed OutOfGas) (\<lambda>gas.
      bind (k_account_mark_warm a) (\<lambda>_.
      bind (k_get_balance keccak a) (\<lambda>bal.
      bind (push_word sp bal) (\<lambda>sp. ret (gas, sp, Continue)))))))))"

definition execute_selfbalance ::
    "hash_function \<Rightarrow> address \<Rightarrow> int \<Rightarrow> stack_pointer \<Rightarrow> ('z, stack_result) kernel" where
  "execute_selfbalance keccak a = push_op G_low (k_get_balance keccak a)"

definition execute_extcodesize ::
    "hash_function \<Rightarrow> int \<Rightarrow> stack_pointer \<Rightarrow> ('z, stack_result) kernel" where
  "execute_extcodesize keccak gas sp =
     stack_guarded sp 1 1 (\<lambda>stack_status. (0, sp, stack_status))
     (pop_word sp (\<lambda>address_word sp.
      let a = word_to_address address_word in
      bind (k_account_is_warm a) (\<lambda>warm.
      bind (account_cost warm) (\<lambda>access_cost.
      bind external_code_read_cost (\<lambda>read_cost.
      pay_sub gas (access_cost + read_cost) (0, sp, Failed OutOfGas) (\<lambda>gas.
      bind (k_account_mark_warm a) (\<lambda>_.
      bind (k_get_code_size keccak a) (\<lambda>code_size.
      bind (word_of_source_byte_count code_size) (\<lambda>size_word.
      bind (push_word sp size_word) (\<lambda>sp. ret (gas, sp, Continue)))))))))))"

definition execute_extcodecopy ::
    "hash_function \<Rightarrow> int \<Rightarrow> int \<Rightarrow> stack_pointer \<Rightarrow> int \<Rightarrow> ('z, memory_result) kernel" where
  "execute_extcodecopy keccak base gas sp mem =
     stack_guarded sp 4 0 (\<lambda>stack_status. (0, sp, mem, stack_status))
     (pop_word sp (\<lambda>address_word sp.
      let a = word_to_address address_word in
      pop_word sp (\<lambda>dst sp. pop_word sp (\<lambda>src sp. pop_word sp (\<lambda>len sp.
      bind (k_account_is_warm a) (\<lambda>warm.
      bind (account_cost warm) (\<lambda>access_cost.
      bind external_code_read_cost (\<lambda>read_cost.
      pay_sub gas (access_cost + read_cost) (0, sp, mem, Failed OutOfGas) (\<lambda>gas.
      pay_charge gas (copy_gas_cost len gas) (0, sp, mem, Failed OutOfGas) (\<lambda>gas.
      pay_memory gas base mem dst len (0, sp, mem, Failed OutOfGas) (\<lambda>gas mem extent.
      bind (k_account_mark_warm a) (\<lambda>_.
      bind (memory_absolute base (mr_off extent)) (\<lambda>destination.
      bind (k_code_copy keccak a destination src (mr_len extent)) (\<lambda>_.
      ret (gas, sp, mem, Continue)))))))))))))))"

definition execute_extcodehash ::
    "hash_function \<Rightarrow> int \<Rightarrow> stack_pointer \<Rightarrow> ('z, stack_result) kernel" where
  "execute_extcodehash keccak gas sp =
     stack_guarded sp 1 1 (\<lambda>stack_status. (0, sp, stack_status))
     (pop_word sp (\<lambda>address_word sp.
      let a = word_to_address address_word in
      bind (k_account_is_warm a) (\<lambda>warm.
      bind (account_cost warm) (\<lambda>gas_cost.
      pay gas gas_cost (0, sp, Failed OutOfGas) (\<lambda>gas.
      bind (k_account_mark_warm a) (\<lambda>_.
      bind (k_get_codehash keccak a) (\<lambda>code_hash.
      bind (push_word sp (hash_to_word code_hash)) (\<lambda>sp. ret (gas, sp, Continue)))))))))"

section \<open>Return data\<close>

definition execute_returndatasize ::
    "region_slice \<Rightarrow> int \<Rightarrow> stack_pointer \<Rightarrow> ('z, stack_result) kernel" where
  "execute_returndatasize returndata =
     push_op G_base (bind (returndata_size returndata) word_of_source_byte_count)"

definition execute_returndatacopy ::
    "region_slice \<Rightarrow> int \<Rightarrow> int \<Rightarrow> stack_pointer \<Rightarrow> int \<Rightarrow> ('z, memory_result) host" where
  "execute_returndatacopy returndata base gas sp mem =
     stack_guarded sp 3 0 (\<lambda>stack_status. (0, sp, mem, stack_status))
     (pay_sub gas G_verylow (0, sp, mem, Failed OutOfGas) (\<lambda>gas.
      pop_word sp (\<lambda>dst sp. pop_word sp (\<lambda>src sp. pop_word sp (\<lambda>len sp.
      bind (returndata_size returndata) (\<lambda>available.
      if src \<le> available then
        bind (returndata_remaining available src) (\<lambda>remaining.
        if len \<le> remaining then
          pay_charge gas (copy_gas_cost len gas) (0, sp, mem, Failed OutOfGas) (\<lambda>gas.
          pay_memory gas base mem dst len (0, sp, mem, Failed OutOfGas) (\<lambda>gas mem extent.
          bind (memory_absolute base (mr_off extent)) (\<lambda>destination.
          bind (returndata_copy returndata destination src len) (\<lambda>_.
          ret (gas, sp, mem, Continue)))))
        else ret (0, sp, mem, Failed InvalidOpcode))
      else ret (0, sp, mem, Failed InvalidOpcode)))))))"

section \<open>The block\<close>

definition execute_blockhash :: "int \<Rightarrow> stack_pointer \<Rightarrow> ('z, stack_result) kernel" where
  "execute_blockhash =
     replace_op 20 (\<lambda>block_number.
       bind (k_blockhash block_number) (\<lambda>block_hash. ret (hash_to_word block_hash)))"

definition execute_coinbase :: "int \<Rightarrow> stack_pointer \<Rightarrow> ('z, stack_result) kernel" where
  "execute_coinbase = push_op G_base (k_env F_Coinbase)"

definition execute_timestamp :: "int \<Rightarrow> stack_pointer \<Rightarrow> ('z, stack_result) kernel" where
  "execute_timestamp = push_op G_base (k_env F_Timestamp)"

definition execute_number :: "int \<Rightarrow> stack_pointer \<Rightarrow> ('z, stack_result) kernel" where
  "execute_number = push_op G_base (k_env F_Number)"

definition execute_slotnum :: "int \<Rightarrow> stack_pointer \<Rightarrow> ('z, stack_result) kernel" where
  "execute_slotnum = push_op G_base (k_env F_SlotNumber)"

definition execute_prevrandao :: "int \<Rightarrow> stack_pointer \<Rightarrow> ('z, stack_result) kernel" where
  "execute_prevrandao = push_op G_base (k_env F_PrevRandao)"

definition execute_gaslimit :: "int \<Rightarrow> stack_pointer \<Rightarrow> ('z, stack_result) kernel" where
  "execute_gaslimit = push_op G_base (k_env F_GasLimit)"

definition execute_chainid :: "int \<Rightarrow> stack_pointer \<Rightarrow> ('z, stack_result) kernel" where
  "execute_chainid = push_op G_base (k_env F_ChainId)"

definition execute_basefee :: "int \<Rightarrow> stack_pointer \<Rightarrow> ('z, stack_result) kernel" where
  "execute_basefee = push_op G_base (k_env F_BaseFee)"

definition execute_blobbasefee :: "int \<Rightarrow> int \<Rightarrow> stack_pointer \<Rightarrow> ('z, stack_result) kernel" where
  "execute_blobbasefee blob_fee = push_op G_base (ret blob_fee)"

definition execute_blobhash :: "int \<Rightarrow> stack_pointer \<Rightarrow> ('z, stack_result) kernel" where
  "execute_blobhash = replace_op G_verylow k_blobhash"

section \<open>Stack and memory\<close>

definition execute_pop :: "int \<Rightarrow> stack_pointer \<Rightarrow> ('z, stack_result) host" where
  "execute_pop gas sp =
     stack_guarded sp 1 0 (\<lambda>stack_status. (0, sp, stack_status))
     (pay gas G_base (0, sp, Failed OutOfGas) (\<lambda>gas.
      pop_word sp (\<lambda>_ sp. ret (gas, sp, Continue))))"

definition execute_mload ::
    "int \<Rightarrow> int \<Rightarrow> stack_pointer \<Rightarrow> int \<Rightarrow> ('z, memory_result) host" where
  "execute_mload base gas sp mem =
     stack_guarded sp 1 1 (\<lambda>stack_status. (0, sp, mem, stack_status))
     (pay_sub gas G_verylow (0, sp, mem, Failed OutOfGas) (\<lambda>gas.
      pop_word sp (\<lambda>off sp.
      pay_memory gas base mem off 32 (0, sp, mem, Failed OutOfGas) (\<lambda>gas mem extent.
      bind (mem_load base (mr_off extent)) (\<lambda>w.
      bind (push_word sp w) (\<lambda>sp. ret (gas, sp, mem, Continue)))))))"

definition execute_mstore ::
    "int \<Rightarrow> int \<Rightarrow> stack_pointer \<Rightarrow> int \<Rightarrow> ('z, memory_result) host" where
  "execute_mstore base gas sp mem =
     stack_guarded sp 2 0 (\<lambda>stack_status. (0, sp, mem, stack_status))
     (pay_sub gas G_verylow (0, sp, mem, Failed OutOfGas) (\<lambda>gas.
      pop_word sp (\<lambda>off sp. pop_word sp (\<lambda>v sp.
      pay_memory gas base mem off 32 (0, sp, mem, Failed OutOfGas) (\<lambda>gas mem extent.
      bind (mem_store base (mr_off extent) v) (\<lambda>_. ret (gas, sp, mem, Continue)))))))"

definition execute_mstore8 ::
    "int \<Rightarrow> int \<Rightarrow> stack_pointer \<Rightarrow> int \<Rightarrow> ('z, memory_result) host" where
  "execute_mstore8 base gas sp mem =
     stack_guarded sp 2 0 (\<lambda>stack_status. (0, sp, mem, stack_status))
     (pay_sub gas G_verylow (0, sp, mem, Failed OutOfGas) (\<lambda>gas.
      pop_word sp (\<lambda>off sp. pop_word sp (\<lambda>v sp.
      pay_memory gas base mem off 1 (0, sp, mem, Failed OutOfGas) (\<lambda>gas mem extent.
      bind (mem_store_byte base (mr_off extent) v) (\<lambda>_. ret (gas, sp, mem, Continue)))))))"

definition execute_msize :: "int \<Rightarrow> stack_pointer \<Rightarrow> int \<Rightarrow> ('z, memory_result) host" where
  "execute_msize gas sp mem =
     stack_guarded sp 0 1 (\<lambda>stack_status. (0, sp, mem, stack_status))
     (pay gas G_base (0, sp, mem, Failed OutOfGas) (\<lambda>gas.
      bind (memory_high_water mem) (\<lambda>high_water.
      let words = memory_word_count high_water in
      bind (word_of_nat_byte_count (words * 32)) (\<lambda>msize.
      bind (push_word sp msize) (\<lambda>sp. ret (gas, sp, mem, Continue))))))"

definition execute_mcopy ::
    "int \<Rightarrow> int \<Rightarrow> stack_pointer \<Rightarrow> int \<Rightarrow> ('z, memory_result) host" where
  "execute_mcopy base gas sp mem =
     stack_guarded sp 3 0 (\<lambda>stack_status. (0, sp, mem, stack_status))
     (pay_sub gas G_verylow (0, sp, mem, Failed OutOfGas) (\<lambda>gas.
      pop_word sp (\<lambda>dst sp. pop_word sp (\<lambda>src sp. pop_word sp (\<lambda>len sp.
      pay_charge gas (copy_gas_cost len gas) (0, sp, mem, Failed OutOfGas) (\<lambda>gas.
      bind (memory_requested_height dst len) (\<lambda>destination_requested_height.
      bind (memory_requested_height src len) (\<lambda>source_requested_height.
      let requested_height =
            (if destination_requested_height < source_requested_height
             then source_requested_height else destination_requested_height) in
      pay_charge gas (memory_expansion_gas_cost mem requested_height gas)
        (0, sp, mem, Failed OutOfGas) (\<lambda>gas.
      bind (memory_access dst len) (\<lambda>destination.
      bind (memory_access src len) (\<lambda>source.
      let materialized_required_size =
            (if ma_height destination < ma_height source then ma_height source
             else ma_height destination) in
      bind (expand_memory base mem materialized_required_size) (\<lambda>mem.
      bind (mem_mcopy base (mr_off (ma_range destination)) (mr_off (ma_range source))
        (mr_len (ma_range destination))) (\<lambda>_.
      ret (gas, sp, mem, Continue))))))))))))))"

section \<open>Storage\<close>

record account_execution_context =
  aec_address :: address

definition account_execution_context :: "address \<Rightarrow> account_execution_context" where
  "account_execution_context a = \<lparr>aec_address = a\<rparr>"

definition refresh_account_execution_context ::
    "account_execution_context \<Rightarrow> address \<Rightarrow> address \<Rightarrow> account_execution_context" where
  "refresh_account_execution_context ctx previous_address next_address =
     (if previous_address = next_address then ctx else account_execution_context next_address)"

definition execute_sload ::
    "hash_function \<Rightarrow> account_execution_context \<Rightarrow> int \<Rightarrow> stack_pointer \<Rightarrow> ('z, stack_result) kernel" where
  "execute_sload keccak ctx gas sp =
     stack_guarded sp 1 1 (\<lambda>stack_status. (0, sp, stack_status))
     (pop_word sp (\<lambda>slot sp.
      bind (k_slot_is_warm (aec_address ctx) slot) (\<lambda>warm.
      bind (sload_cost warm) (\<lambda>gas_cost.
      pay gas gas_cost (0, sp, Failed OutOfGas) (\<lambda>gas.
      bind (k_slot_mark_warm (aec_address ctx) slot) (\<lambda>_.
      bind (k_sload keccak (aec_address ctx) slot) (\<lambda>entry.
      bind (push_word sp (curr entry)) (\<lambda>sp. ret (gas, sp, Continue)))))))))"

text \<open>Gas, state gas, spilled state gas, refund, stack and outcome.\<close>

type_synonym sstore_result = "int \<times> int \<times> int \<times> int \<times> stack_pointer \<times> opcode_outcome"

definition execute_sstore ::
    "hash_function \<Rightarrow> account_execution_context \<Rightarrow> fork \<Rightarrow> bool \<Rightarrow> int \<Rightarrow> int \<Rightarrow> int \<Rightarrow> int
      \<Rightarrow> stack_pointer \<Rightarrow> ('z, sstore_result) kernel" where
  "execute_sstore keccak ctx fork is_static gas state_gas spill refund sp =
     stack_guarded sp 2 0 (\<lambda>stack_status. (0, state_gas, spill, refund, sp, stack_status))
     (let (gas, status) = guard_static gas is_static in
      if is_failed status then ret (gas, state_gas, spill, refund, sp, status)
      else if fork < Amsterdam \<and> gas \<le> G_callstipend
        then ret (gas, state_gas, spill, refund, sp, Failed OutOfGas)
      else
        pop_word sp (\<lambda>slot sp. pop_word sp (\<lambda>v sp.
        bind (k_slot_is_warm (aec_address ctx) slot) (\<lambda>warm.
        let cold = (\<not> warm) in
        bind (if fork \<ge> Amsterdam
              then bind (sstore_sentry_cost cold) (\<lambda>sentry_cost. ret (gas < sentry_cost))
              else ret False) (\<lambda>below_sentry.
        if below_sentry then ret (0, state_gas, spill, refund, sp, Failed OutOfGas)
        else
          bind (k_slot_mark_warm (aec_address ctx) slot) (\<lambda>_.
          bind (k_sload keccak (aec_address ctx) slot) (\<lambda>entry.
          bind (sstore_costs (orig entry) (curr entry) v cold) (\<lambda>costs.
          bind (if sc_state_credit costs \<noteq> 0
                then credit_state_gas_refund gas state_gas spill (sc_state_credit costs)
                else ret (gas, state_gas, spill)) (\<lambda>(gas, state_gas, spill).
          pay_sub gas (sc_execution costs) (0, state_gas, spill, refund, sp, Failed OutOfGas) (\<lambda>gas.
          bind (charge_state_gas gas state_gas spill (sc_state_charge costs))
            (\<lambda>(halt, gas, state_gas, spill).
          if halt then ret (gas, state_gas, spill, refund, sp, Failed OutOfGas)
          else
            bind (if sc_refund costs \<noteq> 0 then record_refund refund (sc_refund costs)
                  else ret refund) (\<lambda>refund.
            bind (do_when (curr entry \<noteq> v)
              (k_sstore (aec_address ctx) slot \<lparr>curr = v, orig = orig entry\<rparr>)) (\<lambda>_.
            ret (gas, state_gas, spill, refund, sp, Continue))))))))))))))"

definition execute_tload :: "address \<Rightarrow> int \<Rightarrow> stack_pointer \<Rightarrow> ('z, stack_result) kernel" where
  "execute_tload a = replace_op G_warm_access (k_tload a)"

definition execute_tstore ::
    "address \<Rightarrow> bool \<Rightarrow> int \<Rightarrow> stack_pointer \<Rightarrow> ('z, stack_result) host" where
  "execute_tstore a is_static gas sp =
     stack_guarded sp 2 0 (\<lambda>stack_status. (0, sp, stack_status))
     (let (gas, status) = guard_static gas is_static in
      if is_failed status then ret (gas, sp, status)
      else
        pay_sub gas G_warm_access (0, sp, Failed OutOfGas) (\<lambda>gas.
        pop_word sp (\<lambda>slot sp. pop_word sp (\<lambda>v sp.
        bind (k_tstore a slot v) (\<lambda>_. ret (gas, sp, Continue))))))"

section \<open>Control flow\<close>

type_synonym jump_result = "int \<times> int \<times> stack_pointer \<times> opcode_outcome"

definition execute_jump ::
    "code \<Rightarrow> int \<Rightarrow> int \<Rightarrow> stack_pointer \<Rightarrow> ('z, jump_result) host" where
  "execute_jump code pc gas sp =
     stack_guarded sp 1 0 (\<lambda>stack_status. (pc, 0, sp, stack_status))
     (pay_sub gas G_mid (pc, 0, sp, Failed OutOfGas) (\<lambda>gas.
      pop_word sp (\<lambda>dest sp.
      bind (do_jump pc gas code dest) (\<lambda>(pc, gas, status). ret (pc, gas, sp, status)))))"

definition execute_jumpi ::
    "code \<Rightarrow> int \<Rightarrow> int \<Rightarrow> stack_pointer \<Rightarrow> ('z, jump_result) host" where
  "execute_jumpi code pc gas sp =
     stack_guarded sp 2 0 (\<lambda>stack_status. (pc, 0, sp, stack_status))
     (pay_sub gas G_high (pc, 0, sp, Failed OutOfGas) (\<lambda>gas.
      pop_word sp (\<lambda>dest sp. pop_word sp (\<lambda>cond sp.
      if word_is_zero cond then ret (pc, gas, sp, Continue)
      else bind (do_jump pc gas code dest) (\<lambda>(pc, gas, status). ret (pc, gas, sp, status))))))"

definition execute_pc :: "int \<Rightarrow> int \<Rightarrow> stack_pointer \<Rightarrow> ('z, jump_result) host" where
  "execute_pc pc gas sp =
     stack_guarded sp 0 1 (\<lambda>stack_status. (pc, 0, sp, stack_status))
     (pay gas G_base (pc, 0, sp, Failed OutOfGas) (\<lambda>gas.
      bind (word_of_source_byte_count pc) (\<lambda>next_pc.
      bind (push_word sp (alu_sub next_pc 1)) (\<lambda>sp. ret (pc, gas, sp, Continue)))))"

definition execute_gas :: "int \<Rightarrow> stack_pointer \<Rightarrow> ('z, stack_result) host" where
  "execute_gas gas sp =
     stack_guarded sp 0 1 (\<lambda>stack_status. (0, sp, stack_status))
     (pay gas G_base (0, sp, Failed OutOfGas) (\<lambda>gas.
      bind (word_of_nat_byte_count gas) (\<lambda>gas_word.
      bind (push_word sp gas_word) (\<lambda>sp. ret (gas, sp, Continue)))))"

definition execute_jumpdest :: "int \<Rightarrow> ('s, int \<times> opcode_outcome) action" where
  "execute_jumpdest gas =
     pay gas G_jumpdest (0, Failed OutOfGas) (\<lambda>gas. ret (gas, Continue))"

section \<open>Push, duplicate and swap\<close>

definition execute_push ::
    "int \<Rightarrow> stack_pointer \<Rightarrow> int \<Rightarrow> int \<Rightarrow> ('z, stack_result) host" where
  "execute_push gas sp n v =
     stack_guarded sp 0 1 (\<lambda>stack_status. (0, sp, stack_status))
     (pay gas (if n = 0 then G_base else G_verylow) (0, sp, Failed OutOfGas) (\<lambda>gas.
      bind (push_word sp v) (\<lambda>sp. ret (gas, sp, Continue))))"

text \<open>\<open>DUP\<close> and \<open>SWAP\<close> after their immediate is decoded, which the deep variants share.\<close>

definition execute_dup :: "int \<Rightarrow> stack_pointer \<Rightarrow> int \<Rightarrow> ('z, stack_result) host" where
  "execute_dup gas sp n =
     stack_guarded sp n (n + 1) (\<lambda>stack_status. (0, sp, stack_status))
     (pay gas G_verylow (0, sp, Failed OutOfGas) (\<lambda>gas.
      bind (stack_slot_read sp (n - 1)) (\<lambda>w.
      bind (push_word sp w) (\<lambda>sp. ret (gas, sp, Continue)))))"

definition execute_swap :: "int \<Rightarrow> stack_pointer \<Rightarrow> int \<Rightarrow> ('z, stack_result) host" where
  "execute_swap gas sp n =
     stack_guarded sp (n + 1) (n + 1) (\<lambda>stack_status. (0, sp, stack_status))
     (pay gas G_verylow (0, sp, Failed OutOfGas) (\<lambda>gas.
      bind (read_stack_word sp) (\<lambda>top_value.
      bind (stack_slot_read sp n) (\<lambda>other.
      bind (stack_set sp 0 other) (\<lambda>_.
      bind (stack_set sp n top_value) (\<lambda>_. ret (gas, sp, Continue)))))))"

definition execute_dupn :: "int \<Rightarrow> stack_pointer \<Rightarrow> int \<Rightarrow> ('z, stack_result) host" where
  "execute_dupn gas sp immediate =
     (if \<not> deep_stack_immediate_valid immediate then ret (gas, sp, Failed InvalidOpcode)
      else bind (decode_single_stack_index immediate) (\<lambda>n. execute_dup gas sp n))"

definition execute_swapn :: "int \<Rightarrow> stack_pointer \<Rightarrow> int \<Rightarrow> ('z, stack_result) host" where
  "execute_swapn gas sp immediate =
     (if \<not> deep_stack_immediate_valid immediate then ret (gas, sp, Failed InvalidOpcode)
      else bind (decode_single_stack_index immediate) (\<lambda>n. execute_swap gas sp n))"

definition execute_exchange :: "int \<Rightarrow> stack_pointer \<Rightarrow> int \<Rightarrow> ('z, stack_result) host" where
  "execute_exchange gas sp immediate =
     (if \<not> exchange_immediate_valid immediate then ret (gas, sp, Failed InvalidOpcode)
      else
        bind (decode_exchange_stack_indices immediate) (\<lambda>(n, m).
        stack_guarded sp (m + 1) (m + 1) (\<lambda>stack_status. (0, sp, stack_status))
        (pay gas G_verylow (0, sp, Failed OutOfGas) (\<lambda>gas.
         bind (stack_slot_read sp n) (\<lambda>first.
         bind (stack_slot_read sp m) (\<lambda>second.
         bind (stack_set sp n second) (\<lambda>_.
         bind (stack_set sp m first) (\<lambda>_. ret (gas, sp, Continue)))))))))"

section \<open>Logs\<close>

definition execute_log ::
    "address \<Rightarrow> bool \<Rightarrow> int \<Rightarrow> int \<Rightarrow> int \<Rightarrow> stack_pointer \<Rightarrow> int \<Rightarrow> ('z, memory_result) host" where
  "execute_log a is_static base n gas sp mem =
     stack_guarded sp (n + 2) 0 (\<lambda>stack_status. (0, sp, mem, stack_status))
     (let (gas, status) = guard_static gas is_static in
      if is_failed status then ret (gas, sp, mem, status)
      else
        pop_word sp (\<lambda>off sp. pop_word sp (\<lambda>len sp.
        bind (pop_log_topics n sp) (\<lambda>(topics, sp).
        pay_charge gas (log_gas_cost n len gas) (0, sp, mem, Failed OutOfGas) (\<lambda>gas.
        pay_memory gas base mem off len (0, sp, mem, Failed OutOfGas) (\<lambda>gas mem extent.
        bind (active_memory_slice base mem (mr_off extent) (mr_len extent)) (\<lambda>data.
        bind (region_slice (slice_bytes data) (slice_len data)) (\<lambda>memory_slice.
        bind (k_log a topics (LogDataMemory memory_slice)) (\<lambda>_.
        ret (gas, sp, mem, Continue))))))))))"

section \<open>Halting\<close>

definition execute_stop :: frame_status where
  "execute_stop = Halted HaltStop"

type_synonym halt_result = "int \<times> stack_pointer \<times> int \<times> frame_status"

definition execute_return ::
    "int \<Rightarrow> int \<Rightarrow> stack_pointer \<Rightarrow> int \<Rightarrow> ('z, halt_result) host" where
  "execute_return base gas sp mem =
     stack_guarded sp 2 0 (\<lambda>stack_status. (0, sp, mem, opcode_frame_status stack_status))
     (pop_word sp (\<lambda>off sp. pop_word sp (\<lambda>len sp.
      pay_memory gas base mem off len (0, sp, mem, Exceptional OutOfGas) (\<lambda>gas mem extent.
      bind (active_memory_slice base mem (mr_off extent) (mr_len extent)) (\<lambda>data.
      bind (freeze_memory_output data) (\<lambda>frozen.
      ret (gas, sp, mem, Halted (HaltReturn frozen))))))))"

type_synonym revert_result = "int \<times> int \<times> int \<times> stack_pointer \<times> int \<times> frame_status"

definition execute_revert ::
    "int \<Rightarrow> int \<Rightarrow> int \<Rightarrow> int \<Rightarrow> int \<Rightarrow> stack_pointer \<Rightarrow> int \<Rightarrow> ('z, revert_result) kernel" where
  "execute_revert reservoir base gas state_gas spill sp mem =
     stack_guarded sp 2 0
       (\<lambda>stack_status. (0, state_gas, spill, sp, mem, opcode_frame_status stack_status))
     (pop_word sp (\<lambda>off sp. pop_word sp (\<lambda>len sp.
      pay_memory gas base mem off len (0, state_gas, spill, sp, mem, Exceptional OutOfGas)
        (\<lambda>gas mem extent.
      bind active_fork (\<lambda>fork.
      bind (if fork \<ge> Amsterdam
            then bind (conserved_gas_add gas spill) (\<lambda>gas. ret (gas, reservoir, 0))
            else ret (gas, state_gas, spill)) (\<lambda>(gas, state_gas, spill).
      bind (active_memory_slice base mem (mr_off extent) (mr_len extent)) (\<lambda>data.
      bind (freeze_memory_output data) (\<lambda>frozen.
      ret (gas, state_gas, spill, sp, mem, Halted (HaltRevert frozen))))))))))"

definition execute_invalid :: "int \<Rightarrow> int \<times> opcode_outcome" where
  "execute_invalid gas = (gas, Failed InvalidOpcode)"

section \<open>Self-destruction\<close>

type_synonym selfdestruct_result = "int \<times> int \<times> int \<times> int \<times> stack_pointer \<times> frame_status"

text \<open>From Amsterdam on: the branch on the fork in \<open>execute_selfdestruct\<close>.\<close>

definition amsterdam_selfdestruct ::
    "hash_function \<Rightarrow> address \<Rightarrow> address \<Rightarrow> int \<Rightarrow> int \<Rightarrow> int \<Rightarrow> int \<Rightarrow> stack_pointer
      \<Rightarrow> ('z, selfdestruct_result) kernel" where
  "amsterdam_selfdestruct keccak a beneficiary gas state_gas spill refund sp =
     bind (k_account_is_warm beneficiary) (\<lambda>warm.
     let cold_access_cost = (if warm then G_zero else G_amsterdam_cold_account_access);
         access_cost = G_selfdestruct + cold_access_cost in
     if gas < access_cost
     then ret (0, state_gas, spill, refund, sp, Exceptional OutOfGas)
     else
       bind (k_account_mark_warm beneficiary) (\<lambda>_.
       bind (k_get_balance keccak a) (\<lambda>bal.
       bind (k_account_is_empty keccak beneficiary) (\<lambda>beneficiary_empty.
       let creates_account = (word_nonzero bal \<and> beneficiary_empty);
           execution_cost = (if creates_account then access_cost + G_amsterdam_account_write
                             else access_cost) in
       pay_sub gas execution_cost (0, state_gas, spill, refund, sp, Exceptional OutOfGas) (\<lambda>gas.
       bind (if creates_account
             then charge_state_gas gas state_gas spill G_amsterdam_state_new_account
             else ret (False, gas, state_gas, spill)) (\<lambda>(halt, gas, state_gas, spill).
       if halt then ret (gas, state_gas, spill, refund, sp, Exceptional OutOfGas)
       else
         bind (k_transfer keccak a beneficiary bal) (\<lambda>_.
         bind (k_was_created keccak a) (\<lambda>created.
         bind (do_when created (k_selfdestruct keccak a)) (\<lambda>_.
         ret (gas, state_gas, spill, refund, sp, Halted HaltSelfDestruct))))))))))"

text \<open>Before Amsterdam.\<close>

definition legacy_selfdestruct ::
    "hash_function \<Rightarrow> address \<Rightarrow> fork \<Rightarrow> address \<Rightarrow> int \<Rightarrow> int \<Rightarrow> int \<Rightarrow> int \<Rightarrow> stack_pointer
      \<Rightarrow> ('z, selfdestruct_result) kernel" where
  "legacy_selfdestruct keccak a fork beneficiary gas state_gas spill refund sp =
     (let out_of_gas = (0, state_gas, spill, refund, sp, Exceptional OutOfGas) in
     bind (k_get_balance keccak a) (\<lambda>bal.
     bind (k_account_is_warm beneficiary) (\<lambda>warm.
     pay_sub gas G_selfdestruct out_of_gas (\<lambda>gas.
     (if warm then (\<lambda>body. body gas) else pay_sub gas G_cold_account out_of_gas) (\<lambda>gas.
     bind (k_account_mark_warm beneficiary) (\<lambda>_.
     bind (k_account_is_empty keccak beneficiary) (\<lambda>beneficiary_empty.
     (if word_nonzero bal \<and> beneficiary_empty then pay_sub gas G_newaccount out_of_gas
      else (\<lambda>body. body gas)) (\<lambda>gas.
     bind (k_is_selfdestructed keccak a) (\<lambda>is_selfdestructed.
     bind (if fork < London \<and> \<not> is_selfdestructed
           then record_refund refund R_selfdestruct_pre_london else ret refund) (\<lambda>refund.
     bind (k_transfer keccak a beneficiary bal) (\<lambda>_.
     bind (if fork < Cancun
           then bind (k_zero_balance keccak a) (\<lambda>_. k_selfdestruct keccak a)
           else
             bind (k_was_created keccak a) (\<lambda>created.
             do_when created
               (bind (k_zero_balance keccak a) (\<lambda>_. k_selfdestruct keccak a)))) (\<lambda>_.
     ret (gas, state_gas, spill, refund, sp, Halted HaltSelfDestruct)))))))))))))"

definition execute_selfdestruct ::
    "hash_function \<Rightarrow> address \<Rightarrow> fork \<Rightarrow> bool \<Rightarrow> int \<Rightarrow> int \<Rightarrow> int \<Rightarrow> int \<Rightarrow> stack_pointer
      \<Rightarrow> ('z, selfdestruct_result) kernel" where
  "execute_selfdestruct keccak a fork is_static gas state_gas spill refund sp =
     stack_guarded sp 1 0
       (\<lambda>stack_status. (0, state_gas, spill, refund, sp, opcode_frame_status stack_status))
     (let (gas, status) = guard_static gas is_static in
      if is_failed status
      then ret (gas, state_gas, spill, refund, sp, opcode_frame_status status)
      else
        pop_word sp (\<lambda>beneficiary_word sp.
        let beneficiary = word_to_address beneficiary_word in
        if fork \<ge> Amsterdam
        then amsterdam_selfdestruct keccak a beneficiary gas state_gas spill refund sp
        else legacy_selfdestruct keccak a fork beneficiary gas state_gas spill refund sp))"

end
