(* ===== verification/Decode.thy ===== *)
theory Decode
  imports Execute
begin

text \<open>
  Decoding, the first part of \<open>evm/interpreter.py\<close>: which opcodes a fork has, the immediates of
  \<open>PUSH\<close> and of the deep stack operations, fetching, and the handlers that take the encoded opcode.
\<close>

section \<open>Availability\<close>

text \<open>The forks that introduce an opcode; every other opcode is available.\<close>

definition opcode_forks :: "(int \<times> fork) list" where
  "opcode_forks =
    [(30, Osaka), (72, London), (73, Cancun), (74, Cancun), (75, Amsterdam), (92, Cancun),
     (93, Cancun), (94, Cancun), (95, Shanghai), (230, Amsterdam), (231, Amsterdam), (232, Amsterdam)]"

definition opcode_available :: "int \<Rightarrow> fork \<Rightarrow> bool" where
  "opcode_available opcode fork =
     (case map_of opcode_forks opcode of None \<Rightarrow> True | Some introduced \<Rightarrow> fork \<ge> introduced)"

section \<open>Immediates\<close>

definition read_push :: "region_slice \<Rightarrow> int \<Rightarrow> int \<Rightarrow> ('z, int) host" where
  "read_push code offset n = code_slice_load_n code offset n"

definition decode_push_immediate :: "code \<Rightarrow> int \<Rightarrow> int \<Rightarrow> ('z, int \<times> int) host" where
  "decode_push_immediate frame_code immediate_offset width =
     bind (read_push (code_slice_of frame_code) immediate_offset width) (\<lambda>v.
     ret (immediate_offset + width, v))"

definition decode_deep_immediate :: "code \<Rightarrow> int \<Rightarrow> deep_stack_op \<Rightarrow> ('z, int \<times> int) host" where
  "decode_deep_immediate frame_code immediate_offset operation =
     bind (code_slice_byte (code_slice_of frame_code) immediate_offset) (\<lambda>immediate.
     let next_pc = (if deep_stack_operation_immediate_valid operation immediate
                    then immediate_offset + 1 else immediate_offset)
     in ret (next_pc, immediate))"

section \<open>Handlers of encoded instructions\<close>

definition execute_push_encoded ::
    "code \<Rightarrow> int \<Rightarrow> int \<Rightarrow> int \<Rightarrow> stack_pointer \<Rightarrow> ('z, jump_result) host" where
  "execute_push_encoded frame_code opcode immediate_offset gas sp =
     (if 95 \<le> opcode \<and> opcode \<le> 127 then
        (let width = opcode - 95 in
         bind (decode_push_immediate frame_code immediate_offset width) (\<lambda>(next_pc, v).
         bind (execute_push gas sp width v) (\<lambda>(gas_after, sp_after, status_after).
         ret (next_pc, gas_after, sp_after, status_after))))
      else
        (let (gas_after, status_after) = execute_invalid gas
         in ret (immediate_offset, gas_after, sp, status_after)))"

definition execute_dup_encoded :: "int \<Rightarrow> int \<Rightarrow> stack_pointer \<Rightarrow> ('z, stack_result) host" where
  "execute_dup_encoded opcode gas sp =
     (if 128 \<le> opcode \<and> opcode \<le> 143 then execute_dup gas sp (opcode - 127)
      else (let (gas_after, status_after) = execute_invalid gas in ret (gas_after, sp, status_after)))"

definition execute_swap_encoded :: "int \<Rightarrow> int \<Rightarrow> stack_pointer \<Rightarrow> ('z, stack_result) host" where
  "execute_swap_encoded opcode gas sp =
     (if 144 \<le> opcode \<and> opcode \<le> 159 then execute_swap gas sp (opcode - 143)
      else (let (gas_after, status_after) = execute_invalid gas in ret (gas_after, sp, status_after)))"

definition execute_log_encoded ::
    "address \<Rightarrow> bool \<Rightarrow> int \<Rightarrow> int \<Rightarrow> int \<Rightarrow> stack_pointer \<Rightarrow> int \<Rightarrow> ('z, memory_result) host" where
  "execute_log_encoded a is_static base opcode gas sp mem =
     (if 160 \<le> opcode \<and> opcode \<le> 164 then execute_log a is_static base (opcode - 160) gas sp mem
      else (let (gas_after, status_after) = execute_invalid gas
            in ret (gas_after, sp, mem, status_after)))"

definition execute_deep_stack_encoded ::
    "code \<Rightarrow> int \<Rightarrow> int \<Rightarrow> int \<Rightarrow> stack_pointer \<Rightarrow> ('z, jump_result) host" where
  "execute_deep_stack_encoded frame_code opcode immediate_offset gas sp =
     (let operation = deep_stack_operation opcode in
      bind (decode_deep_immediate frame_code immediate_offset operation) (\<lambda>(next_pc, immediate).
      bind (case operation of
              DeepStackDuplicate \<Rightarrow> execute_dupn gas sp immediate
            | DeepStackSwap \<Rightarrow> execute_swapn gas sp immediate
            | DeepStackExchange \<Rightarrow> execute_exchange gas sp immediate
            | NotDeepStackOperation \<Rightarrow>
                (let (gas_after, status_after) = execute_invalid gas
                 in ret (gas_after, sp, status_after)))
        (\<lambda>(gas_after, sp_after, status_after).
      ret (next_pc, gas_after, sp_after, status_after))))"

section \<open>Fetching\<close>

text \<open>The opcodes without immediates or operands in the opcode.\<close>

definition simple_opcodes :: "(int \<times> instruction) list" where
  "simple_opcodes =
    [(0, STOP), (1, ADD), (2, MUL), (3, SUB), (4, DIV), (5, SDIV), (6, MOD), (7, SMOD),
     (8, ADDMOD), (9, MULMOD), (10, EXP), (11, SIGNEXTEND), (16, LT), (17, GT), (18, SLT),
     (19, SGT), (20, EQ), (21, ISZERO), (22, AND_WORDS), (23, OR_WORDS), (24, XOR_WORDS), (25, NOT_WORDS), (26, BYTE),
     (27, SHL), (28, SHR), (29, SAR), (30, CLZ), (32, KECCAK256), (48, ADDRESS), (49, BALANCE),
     (50, ORIGIN), (51, CALLER), (52, CALLVALUE), (53, CALLDATALOAD), (54, CALLDATASIZE),
     (55, CALLDATACOPY), (56, CODESIZE), (57, CODECOPY), (58, GASPRICE), (59, EXTCODESIZE),
     (60, EXTCODECOPY), (61, RETURNDATASIZE), (62, RETURNDATACOPY), (63, EXTCODEHASH),
     (64, BLOCKHASH), (65, COINBASE), (66, TIMESTAMP), (67, NUMBER), (68, PREVRANDAO),
     (69, GASLIMIT), (70, CHAINID), (71, SELFBALANCE), (72, BASEFEE), (73, BLOBHASH),
     (74, BLOBBASEFEE), (75, SLOTNUM), (80, POP), (81, MLOAD), (82, MSTORE), (83, MSTORE8),
     (84, SLOAD), (85, SSTORE), (86, JUMP), (87, JUMPI), (88, PC), (89, MSIZE), (90, GAS),
     (91, JUMPDEST), (92, TLOAD), (93, TSTORE), (94, MCOPY), (240, opcode_CREATE), (241, CALL),
     (242, CALLCODE), (243, RETURN), (244, DELEGATECALL), (245, CREATE2), (250, STATICCALL),
     (253, REVERT), (255, SELFDESTRUCT)]"

definition decode_simple :: "int \<Rightarrow> fork \<Rightarrow> instruction" where
  "decode_simple opcode fork =
     (if \<not> opcode_available opcode fork then INVALID
      else if 128 \<le> opcode \<and> opcode \<le> 143 then DUP (opcode - 127)
      else if 144 \<le> opcode \<and> opcode \<le> 159 then SWAP (opcode - 143)
      else if 160 \<le> opcode \<and> opcode \<le> 164 then LOG (opcode - 160)
      else (case map_of simple_opcodes opcode of None \<Rightarrow> INVALID | Some i \<Rightarrow> i))"

definition fetch :: "code \<Rightarrow> int \<Rightarrow> fork \<Rightarrow> ('z, int \<times> instruction) host" where
  "fetch frame_code current fork =
     (if \<not> current < code_len frame_code then ret (current, STOP)
      else
        bind (code_slice_byte (code_slice_of frame_code) current) (\<lambda>opcode.
        let immediate_offset = current + 1 in
        if \<not> opcode_available opcode fork then ret (immediate_offset, INVALID)
        else if 95 \<le> opcode \<and> opcode \<le> 127 then
          (let width = opcode - 95 in
           bind (decode_push_immediate frame_code immediate_offset width) (\<lambda>(after_immediate, v).
           ret (after_immediate, PUSH width v)))
        else
          (let operation = deep_stack_operation opcode in
           if operation = NotDeepStackOperation
           then ret (immediate_offset, decode_simple opcode fork)
           else
             bind (decode_deep_immediate frame_code immediate_offset operation)
               (\<lambda>(after_instruction, immediate).
             ret (after_instruction,
               case operation of
                 DeepStackDuplicate \<Rightarrow> DUPN immediate
               | DeepStackSwap \<Rightarrow> SWAPN immediate
               | DeepStackExchange \<Rightarrow> EXCHANGE immediate
               | NotDeepStackOperation \<Rightarrow> decode_simple opcode fork)))))"

end
