(* ===== verification/Precompiles.thy ===== *)
theory Precompiles
  imports Accelerators Instructions
begin

text \<open>
  Running the precompiled contracts: \<open>evm/precompiles.py\<close>. Which precompile an address selects in
  a fork is in \<open>Kernel\<close>, their prices are in \<open>Gas_Precompiles\<close>; here are the checks on the input
  and the encoding of the results around the accelerators.
\<close>

record precompile_result =
  pr_success :: bool
  pr_output :: region_slice

definition precompile_success :: "region_slice \<Rightarrow> precompile_result" where
  "precompile_success result = \<lparr>pr_success = True, pr_output = result\<rparr>"

definition precompile_failure :: precompile_result where
  "precompile_failure = \<lparr>pr_success = False, pr_output = EMPTY_SLICE\<rparr>"

definition accelerator_result :: "bool \<Rightarrow> int \<Rightarrow> ('s, precompile_result) action" where
  "accelerator_result succeeded output_len =
     (if succeeded then bind (output_buffer_slice output_len) (\<lambda>result. ret (precompile_success result))
      else ret precompile_failure)"

definition copied_result :: "calldata_slice \<Rightarrow> ('z, precompile_result) host" where
  "copied_result data =
     bind (freeze_calldata_output data) (\<lambda>result.
     ret (if slice_len result = calldata_slice_length data then precompile_success result
          else precompile_failure))"

definition word_result :: "int \<Rightarrow> ('z, precompile_result) host" where
  "word_result w = bind (output_buffer_word w) (\<lambda>result. ret (precompile_success result))"

definition boolean_result :: "bool \<Rightarrow> ('z, precompile_result) host" where
  "boolean_result b = word_result (if b then 1 else 0)"

section \<open>Constants\<close>

definition ACCELERATOR_INPUT_MAX :: int where "ACCELERATOR_INPUT_MAX = 2097152"
definition FIELD_ELEMENTS_PER_BLOB :: int where "FIELD_ELEMENTS_PER_BLOB = 4096"
definition BLS_MODULUS :: int where
  "BLS_MODULUS = 0x73eda753299d7d483339d80809a1d80553bda402fffe5bfeffffffff00000001"
definition BLAKE2F_INPUT_LENGTH :: int where "BLAKE2F_INPUT_LENGTH = 213"
definition BLAKE2F_FINAL_BLOCK_OFFSET :: int where "BLAKE2F_FINAL_BLOCK_OFFSET = 212"
definition BLAKE2F_OUTPUT_LENGTH :: int where "BLAKE2F_OUTPUT_LENGTH = 64"
definition KZG_INPUT_LENGTH :: int where "KZG_INPUT_LENGTH = 192"
definition KZG_COMMITMENT_OFFSET :: int where "KZG_COMMITMENT_OFFSET = 96"
definition KZG_COMMITMENT_LENGTH :: int where "KZG_COMMITMENT_LENGTH = 48"
definition BLS_FIELD_PADDING_LENGTH :: int where "BLS_FIELD_PADDING_LENGTH = 16"
definition BLS_PADDED_FIELD_LENGTH :: int where "BLS_PADDED_FIELD_LENGTH = 64"
definition BLS_G1_POINT_LENGTH :: int where "BLS_G1_POINT_LENGTH = 128"
definition BLS_G2_POINT_LENGTH :: int where "BLS_G2_POINT_LENGTH = 256"
definition BLS_G2_FINAL_FIELD_OFFSET :: int where "BLS_G2_FINAL_FIELD_OFFSET = 192"
definition BLS_G1_ADD_INPUT_LENGTH :: int where "BLS_G1_ADD_INPUT_LENGTH = 256"
definition BLS_G1_MSM_ITEM_LENGTH :: int where "BLS_G1_MSM_ITEM_LENGTH = 160"
definition BLS_G2_ADD_INPUT_LENGTH :: int where "BLS_G2_ADD_INPUT_LENGTH = 512"
definition BLS_G2_MSM_ITEM_LENGTH :: int where "BLS_G2_MSM_ITEM_LENGTH = 288"
definition BLS_PAIRING_ITEM_LENGTH :: int where "BLS_PAIRING_ITEM_LENGTH = 384"
definition P256_INPUT_LENGTH :: int where "P256_INPUT_LENGTH = 160"
definition BN254_PAIRING_ITEM_LENGTH :: int where "BN254_PAIRING_ITEM_LENGTH = 192"
definition PRECOMPILE_WORD_LENGTH :: int where "PRECOMPILE_WORD_LENGTH = 32"
definition PRECOMPILE_DOUBLE_WORD_LENGTH :: int where "PRECOMPILE_DOUBLE_WORD_LENGTH = 64"
definition PRECOMPILE_WORD_OFFSET :: int where "PRECOMPILE_WORD_OFFSET = 32"
definition PRECOMPILE_DOUBLE_WORD_OFFSET :: int where "PRECOMPILE_DOUBLE_WORD_OFFSET = 64"
definition ECRECOVER_S_OFFSET :: int where "ECRECOVER_S_OFFSET = 96"
definition TWO_COMPONENTS :: int where "TWO_COMPONENTS = 2"
definition BLS_G2_POINT_OFFSET :: int where "BLS_G2_POINT_OFFSET = 128"

section \<open>Digests and recovery\<close>

definition calldata_sha256 :: "crypto \<Rightarrow> calldata_slice \<Rightarrow> ('z, hash) host" where
  "calldata_sha256 lib data =
     (case data of
        InputCalldata inner \<Rightarrow> hash_region (sha256 lib) InputRegion inner
      | MemoryCalldata inner \<Rightarrow> hash_region (sha256 lib) MemoryRegion inner)"

definition ecrecover_addr ::
    "crypto \<Rightarrow> hash \<Rightarrow> int \<Rightarrow> int \<Rightarrow> int \<Rightarrow> ('s, address_result) action" where
  "ecrecover_addr lib h yparity r s = host_ecrecover (keccak256 lib) h yparity r s"

definition run_ecrecover :: "crypto \<Rightarrow> calldata_slice \<Rightarrow> ('z, precompile_result) host" where
  "run_ecrecover lib input =
     bind (calldata_slice_load input PRECOMPILE_WORD_OFFSET) (\<lambda>v.
     if v = 27 \<or> v = 28 then
       (let parity = (if v = 27 then 0 else 1) in
        bind (calldata_slice_load input 0) (\<lambda>message_word.
        let message_hash = word_to_hash message_word in
        bind (calldata_slice_load input PRECOMPILE_DOUBLE_WORD_OFFSET) (\<lambda>r.
        bind (calldata_slice_load input ECRECOVER_S_OFFSET) (\<lambda>s.
        bind (ecrecover_addr lib message_hash parity r s) (\<lambda>recovered.
        if success recovered then word_result (address_to_word (result_address recovered))
        else ret (precompile_success EMPTY_SLICE))))))
     else ret (precompile_success EMPTY_SLICE))"

definition run_sha256 :: "crypto \<Rightarrow> calldata_slice \<Rightarrow> ('z, precompile_result) host" where
  "run_sha256 lib input =
     bind (calldata_sha256 lib input) (\<lambda>digest. word_result (hash_to_word digest))"

definition run_ripemd160 :: "crypto \<Rightarrow> calldata_slice \<Rightarrow> ('z, precompile_result) host" where
  "run_ripemd160 lib input =
     bind (accelerator_ripemd160 lib input) (\<lambda>succeeded.
     accelerator_result succeeded PRECOMPILE_WORD_LENGTH)"

section \<open>Modular exponentiation, pairings, BLAKE2 and KZG\<close>

definition run_modexp :: "crypto \<Rightarrow> calldata_slice \<Rightarrow> ('z, precompile_result) host" where
  "run_modexp lib input =
     bind (pc_word input 0 32) (\<lambda>base_len.
     bind (pc_word input 32 32) (\<lambda>exponent_len.
     bind (pc_word input 64 32) (\<lambda>modulus_len.
     if modulus_len = 0 then ret (precompile_success EMPTY_SLICE)
     else if ACCELERATOR_INPUT_MAX < base_len \<or> ACCELERATOR_INPUT_MAX < exponent_len
       \<or> ACCELERATOR_INPUT_MAX < modulus_len then ret precompile_failure
     else
       (let exponent_end = 96 + base_len + exponent_len; input_end = exponent_end + modulus_len in
        if ACCELERATOR_INPUT_MAX < input_end then ret precompile_failure
        else
          bind (accelerator_modexp lib input base_len exponent_len modulus_len) (\<lambda>succeeded.
          accelerator_result succeeded modulus_len)))))"

definition pairing_result :: "int \<Rightarrow> ('z, precompile_result) host" where
  "pairing_result status =
     (if status < 2 then ret precompile_failure
      else (let parity = sail_tmod_int status 2 in boolean_result (parity = 1)))"

definition run_blake2f :: "crypto \<Rightarrow> calldata_slice \<Rightarrow> ('z, precompile_result) host" where
  "run_blake2f lib input =
     bind (calldata_slice_byte input BLAKE2F_FINAL_BLOCK_OFFSET) (\<lambda>final_byte.
     if calldata_slice_length input \<noteq> BLAKE2F_INPUT_LENGTH \<or> (final_byte \<noteq> 0 \<and> final_byte \<noteq> 1)
     then ret precompile_failure
     else
       (let final_block = (if final_byte = 0 then 0 else 1) in
        bind (pc_blake2_rounds input) (\<lambda>rounds.
        bind (accelerator_blake2f lib input rounds final_block) (\<lambda>succeeded.
        accelerator_result succeeded BLAKE2F_OUTPUT_LENGTH))))"

definition kzg_versioned_hash_matches :: "crypto \<Rightarrow> calldata_slice \<Rightarrow> ('z, bool) host" where
  "kzg_versioned_hash_matches lib input =
     bind (calldata_sub_slice input KZG_COMMITMENT_OFFSET KZG_COMMITMENT_LENGTH) (\<lambda>commitment.
     bind (calldata_sha256 lib commitment) (\<lambda>commitment_hash.
     let expected = vector_update commitment_hash 0 1 in
     bind (calldata_slice_load input 0) (\<lambda>claimed_word.
     let claimed_hash = word_to_hash claimed_word in ret (claimed_hash = expected))))"

definition run_kzg_point_evaluation :: "crypto \<Rightarrow> calldata_slice \<Rightarrow> ('z, precompile_result) host" where
  "run_kzg_point_evaluation lib input =
     (if calldata_slice_length input \<noteq> KZG_INPUT_LENGTH then ret precompile_failure
      else
        bind (kzg_versioned_hash_matches lib input) (\<lambda>versioned_hash_matches.
        if \<not> versioned_hash_matches then ret precompile_failure
        else
          bind (accelerator_kzg_point_evaluation lib input) (\<lambda>valid_proof.
          if valid_proof then
            bind (output_buffer_words FIELD_ELEMENTS_PER_BLOB BLS_MODULUS) (\<lambda>result.
            ret (precompile_success result))
          else ret precompile_failure)))"

section \<open>BLS12-381\<close>

definition bls_g1_padding :: "calldata_slice \<Rightarrow> int \<Rightarrow> int \<Rightarrow> int \<Rightarrow> ('z, bool) host" where
  "bls_g1_padding input base stride count =
     bind (slice_strided_zero input base stride BLS_FIELD_PADDING_LENGTH count) (\<lambda>first.
     bind (slice_strided_zero input (base + BLS_PADDED_FIELD_LENGTH) stride
       BLS_FIELD_PADDING_LENGTH count) (\<lambda>second.
     ret (first \<and> second)))"

definition bls_g2_padding :: "calldata_slice \<Rightarrow> int \<Rightarrow> int \<Rightarrow> int \<Rightarrow> ('z, bool) host" where
  "bls_g2_padding input base stride count =
     bind (slice_strided_zero input base stride BLS_FIELD_PADDING_LENGTH count) (\<lambda>first.
     bind (slice_strided_zero input (base + BLS_PADDED_FIELD_LENGTH) stride
       BLS_FIELD_PADDING_LENGTH count) (\<lambda>second.
     bind (slice_strided_zero input (base + BLS_G1_POINT_LENGTH) stride
       BLS_FIELD_PADDING_LENGTH count) (\<lambda>third.
     bind (slice_strided_zero input (base + BLS_G2_FINAL_FIELD_OFFSET) stride
       BLS_FIELD_PADDING_LENGTH count) (\<lambda>fourth.
     ret (first \<and> second \<and> third \<and> fourth)))))"

text \<open>The shared shape: check the padding, run the accelerator, return its result.\<close>

definition padded_operation ::
    "('z, bool) host \<Rightarrow> ('z, bool) host \<Rightarrow> int \<Rightarrow> ('z, precompile_result) host" where
  "padded_operation padding operation output_len =
     bind padding (\<lambda>valid_padding.
     if \<not> valid_padding then ret precompile_failure
     else bind operation (\<lambda>succeeded. accelerator_result succeeded output_len))"

definition run_bls_g1_add :: "crypto \<Rightarrow> calldata_slice \<Rightarrow> ('z, precompile_result) host" where
  "run_bls_g1_add lib input =
     (if calldata_slice_length input \<noteq> BLS_G1_ADD_INPUT_LENGTH then ret precompile_failure
      else padded_operation (bls_g1_padding input 0 BLS_G1_POINT_LENGTH TWO_COMPONENTS)
             (accelerator_bls_g1_add lib input) BLS_G1_POINT_LENGTH)"

definition run_bls_g1_msm :: "crypto \<Rightarrow> calldata_slice \<Rightarrow> ('z, precompile_result) host" where
  "run_bls_g1_msm lib input =
     (let len = calldata_slice_length input; item_length = BLS_G1_MSM_ITEM_LENGTH;
          pairs = sail_ediv_int len item_length in
      if len = 0 \<or> len \<noteq> pairs * item_length then ret precompile_failure
      else padded_operation (bls_g1_padding input 0 BLS_G1_MSM_ITEM_LENGTH pairs)
             (accelerator_bls_g1_msm lib input) BLS_G1_POINT_LENGTH)"

definition run_bls_g2_add :: "crypto \<Rightarrow> calldata_slice \<Rightarrow> ('z, precompile_result) host" where
  "run_bls_g2_add lib input =
     (if calldata_slice_length input \<noteq> BLS_G2_ADD_INPUT_LENGTH then ret precompile_failure
      else padded_operation (bls_g2_padding input 0 BLS_G2_POINT_LENGTH TWO_COMPONENTS)
             (accelerator_bls_g2_add lib input) BLS_G2_POINT_LENGTH)"

definition run_bls_g2_msm :: "crypto \<Rightarrow> calldata_slice \<Rightarrow> ('z, precompile_result) host" where
  "run_bls_g2_msm lib input =
     (let len = calldata_slice_length input; item_length = BLS_G2_MSM_ITEM_LENGTH;
          pairs = sail_ediv_int len item_length in
      if len = 0 \<or> len \<noteq> pairs * item_length then ret precompile_failure
      else padded_operation (bls_g2_padding input 0 BLS_G2_MSM_ITEM_LENGTH pairs)
             (accelerator_bls_g2_msm lib input) BLS_G2_POINT_LENGTH)"

definition run_bls_pairing :: "crypto \<Rightarrow> calldata_slice \<Rightarrow> ('z, precompile_result) host" where
  "run_bls_pairing lib input =
     (let len = calldata_slice_length input; item_length = BLS_PAIRING_ITEM_LENGTH;
          pairs = sail_ediv_int len item_length in
      if len = 0 \<or> len \<noteq> pairs * item_length then ret precompile_failure
      else
        bind (bls_g1_padding input 0 BLS_PAIRING_ITEM_LENGTH pairs) (\<lambda>valid_g1_padding.
        bind (bls_g2_padding input BLS_G2_POINT_OFFSET BLS_PAIRING_ITEM_LENGTH pairs)
          (\<lambda>valid_g2_padding.
        if valid_g1_padding \<and> valid_g2_padding
        then bind (accelerator_bls_pairing lib input) pairing_result
        else ret precompile_failure)))"

definition run_bls_map_fp_to_g1 :: "crypto \<Rightarrow> calldata_slice \<Rightarrow> ('z, precompile_result) host" where
  "run_bls_map_fp_to_g1 lib input =
     (if calldata_slice_length input \<noteq> BLS_PADDED_FIELD_LENGTH then ret precompile_failure
      else padded_operation
             (slice_strided_zero input 0 BLS_PADDED_FIELD_LENGTH BLS_FIELD_PADDING_LENGTH 1)
             (accelerator_bls_map_fp_to_g1 lib input) BLS_G1_POINT_LENGTH)"

definition run_bls_map_fp2_to_g2 :: "crypto \<Rightarrow> calldata_slice \<Rightarrow> ('z, precompile_result) host" where
  "run_bls_map_fp2_to_g2 lib input =
     (if calldata_slice_length input \<noteq> BLS_G1_POINT_LENGTH then ret precompile_failure
      else padded_operation
             (slice_strided_zero input 0 BLS_PADDED_FIELD_LENGTH BLS_FIELD_PADDING_LENGTH
               TWO_COMPONENTS)
             (accelerator_bls_map_fp2_to_g2 lib input) BLS_G2_POINT_LENGTH)"

definition run_p256_verify :: "crypto \<Rightarrow> calldata_slice \<Rightarrow> ('z, precompile_result) host" where
  "run_p256_verify lib input =
     bind (if calldata_slice_length input = P256_INPUT_LENGTH
           then accelerator_p256_verify lib input else ret False) (\<lambda>verified.
     if verified then word_result 1 else ret (precompile_success EMPTY_SLICE))"

section \<open>The dispatch\<close>

definition run_precompile_slice ::
    "crypto \<Rightarrow> precompile_id \<Rightarrow> calldata_slice \<Rightarrow> ('z, precompile_result) host" where
  "run_precompile_slice lib num input =
     (case num of
        NotPrecompile \<Rightarrow> ret precompile_failure
      | Ecrecover \<Rightarrow> run_ecrecover lib input
      | Sha256 \<Rightarrow> run_sha256 lib input
      | Ripemd160 \<Rightarrow> run_ripemd160 lib input
      | Identity \<Rightarrow> copied_result input
      | Modexp \<Rightarrow> run_modexp lib input
      | Bn254Add \<Rightarrow>
          bind (accelerator_bn254_add lib input) (\<lambda>succeeded.
          accelerator_result succeeded PRECOMPILE_DOUBLE_WORD_LENGTH)
      | Bn254Mul \<Rightarrow>
          bind (accelerator_bn254_mul lib input) (\<lambda>succeeded.
          accelerator_result succeeded PRECOMPILE_DOUBLE_WORD_LENGTH)
      | Bn254Pairing \<Rightarrow>
          (let input_length = calldata_slice_length input;
               item_length = BN254_PAIRING_ITEM_LENGTH in
           if input_length = sail_ediv_int input_length item_length * item_length
           then bind (accelerator_bn254_pairing lib input) pairing_result
           else ret precompile_failure)
      | Blake2f \<Rightarrow> run_blake2f lib input
      | KzgPointEvaluation \<Rightarrow> run_kzg_point_evaluation lib input
      | BlsG1Add \<Rightarrow> run_bls_g1_add lib input
      | BlsG1Msm \<Rightarrow> run_bls_g1_msm lib input
      | BlsG2Add \<Rightarrow> run_bls_g2_add lib input
      | BlsG2Msm \<Rightarrow> run_bls_g2_msm lib input
      | BlsPairing \<Rightarrow> run_bls_pairing lib input
      | BlsMapFpToG1 \<Rightarrow> run_bls_map_fp_to_g1 lib input
      | BlsMapFp2ToG2 \<Rightarrow> run_bls_map_fp2_to_g2 lib input
      | P256Verify \<Rightarrow> run_p256_verify lib input)"

end
