(* ===== verification/Interpreter.thy ===== *)
theory Interpreter
  imports Decode Precompiles
begin

text \<open>
  Calls, creations and the interpreter loop of \<open>evm/interpreter.py\<close>. The registers that the source
  carries in local variables from one step to the next are a \<open>frame_transition\<close>, the record the
  source returns from a call or creation; suspended frames are continuations on the stack that
  the host keeps.
\<close>


section \<open>The host's stack of suspended frames\<close>

record machine_state = kernel_state +
  continuation_frames :: "frame_continuation list"

type_synonym ('z, 'a) machine = "('z machine_state_scheme, 'a) action"

definition frame_stack_reset :: "('z, unit) machine" where
  "frame_stack_reset = modify (\<lambda>s. s\<lparr>continuation_frames := []\<rparr>)"

definition frame_stack_push :: "frame_continuation \<Rightarrow> ('z, unit) machine" where
  "frame_stack_push continuation =
     modify (\<lambda>s. s\<lparr>continuation_frames := continuation_frames s @ [continuation]\<rparr>)"

definition frame_stack_pop :: "('z, frame_continuation) machine" where
  "frame_stack_pop =
     bind (reads continuation_frames) (\<lambda>frames.
     if frames = [] then ret Empty
     else bind (modify (\<lambda>s. s\<lparr>continuation_frames := butlast frames\<rparr>)) (\<lambda>_. ret (last frames)))"

section \<open>Building transitions\<close>

fun frame_output :: "frame_status \<Rightarrow> region_slice" where
  "frame_output (Halted (HaltReturn result)) = result"
| "frame_output (Halted (HaltRevert result)) = result"
| "frame_output _ = EMPTY_SLICE"

fun frame_succeeded :: "frame_status \<Rightarrow> bool" where
  "frame_succeeded (Halted (HaltRevert _)) = False"
| "frame_succeeded (Halted _) = True"
| "frame_succeeded Running = True"
| "frame_succeeded (Exceptional _) = False"

text \<open>The bounded fields of \<open>Message\<close> and \<open>FrameTransition\<close> are checked when they are built.\<close>

definition message_ok :: "message \<Rightarrow> bool" where
  "message_ok m \<longleftrightarrow> 0 \<le> msg_value m \<and> msg_value m < 2 ^ 256 \<and>
     0 \<le> msg_state_gas_reservoir m \<and> msg_state_gas_reservoir m \<le> 2 ^ 64 - 1 \<and>
     0 \<le> msg_depth m \<and> msg_depth m \<le> 1024"

definition checked_message :: "message \<Rightarrow> ('s, message) action" where
  "checked_message m = (if message_ok m then ret m else raise OverflowError)"

definition registers_ok :: "frame_transition \<Rightarrow> bool" where
  "registers_ok fr \<longleftrightarrow> 0 \<le> ft_pc fr \<and> 0 \<le> ft_gas_remaining fr \<and> ft_gas_remaining fr \<le> 2 ^ 64 - 1 \<and>
     0 \<le> ft_state_gas_remaining fr \<and> ft_state_gas_remaining fr \<le> 2 ^ 64 - 1 \<and>
     0 \<le> ft_state_gas_spilled fr \<and> ft_state_gas_spilled fr \<le> 16777216 \<and>
     0 \<le> ft_memory_base fr \<and> 0 \<le> ft_memory_height fr"

definition frame_transition :: "frame_transition \<Rightarrow> ('s, frame_transition) action" where
  "frame_transition fr =
     (if registers_ok fr \<and> message_ok (ft_message fr) then
        if - GAS_REFUND_LIMIT \<le> ft_refund fr \<and> ft_refund fr \<le> GAS_REFUND_LIMIT then ret fr
        else raise (ValueError ''FrameTransition.refund violates Sail type range'')
      else raise OverflowError)"

definition exceptional_transition ::
    "frame_transition \<Rightarrow> exception_kind \<Rightarrow> ('z, frame_transition) kernel" where
  "exceptional_transition fr kind =
     bind (exceptional_state (ft_state_gas_remaining fr) (ft_state_gas_spilled fr)
       (msg_state_gas_reservoir (ft_message fr)) kind) (\<lambda>exceptional.
     frame_transition (fr\<lparr>ft_gas_remaining := 0,
       ft_state_gas_remaining := es_state_gas_remaining exceptional,
       ft_state_gas_spilled := es_state_gas_spilled exceptional,
       ft_status := es_status exceptional\<rparr>))"

text \<open>Paying from the gas of a frame; a frame that cannot pay ends exceptionally.\<close>

definition frame_pay ::
    "frame_transition \<Rightarrow> int \<Rightarrow> (frame_transition \<Rightarrow> ('z, frame_transition) kernel)
      \<Rightarrow> ('z, frame_transition) kernel" where
  "frame_pay fr cost body =
     (if ft_gas_remaining fr < cost then exceptional_transition fr OutOfGas
      else bind (gas_sub (ft_gas_remaining fr) cost) (\<lambda>gas. body (fr\<lparr>ft_gas_remaining := gas\<rparr>)))"

definition frame_pay_charge ::
    "frame_transition \<Rightarrow> ('z, gas_charge) kernel
      \<Rightarrow> (frame_transition \<Rightarrow> ('z, frame_transition) kernel) \<Rightarrow> ('z, frame_transition) kernel" where
  "frame_pay_charge fr charge body =
     bind charge (\<lambda>cost.
     if \<not> affordable cost then exceptional_transition fr OutOfGas
     else bind (gas_sub (ft_gas_remaining fr) (gc_cost cost)) (\<lambda>gas.
       body (fr\<lparr>ft_gas_remaining := gas\<rparr>)))"

text \<open>The state gas of an account that a call or creation makes: charging it, and giving it back.\<close>

definition charge_new_account ::
    "frame_transition \<Rightarrow> bool \<Rightarrow> (frame_transition \<Rightarrow> ('z, frame_transition) kernel)
      \<Rightarrow> ('z, frame_transition) kernel" where
  "charge_new_account fr charged body =
     (if charged then
        bind (charge_state_gas (ft_gas_remaining fr) (ft_state_gas_remaining fr)
          (ft_state_gas_spilled fr) G_amsterdam_state_new_account)
          (\<lambda>(state_gas_halt, next_gas, next_state_gas, next_state_spill).
        let fr = fr\<lparr>ft_gas_remaining := next_gas, ft_state_gas_remaining := next_state_gas,
          ft_state_gas_spilled := next_state_spill\<rparr>
        in if state_gas_halt then exceptional_transition fr OutOfGas else body fr)
      else body fr)"

definition credit_new_account ::
    "frame_transition \<Rightarrow> bool \<Rightarrow> ('s, frame_transition) action" where
  "credit_new_account fr charged =
     (if charged then
        bind (credit_state_gas_refund (ft_gas_remaining fr) (ft_state_gas_remaining fr)
          (ft_state_gas_spilled fr) G_amsterdam_state_new_account) (\<lambda>(gas, state_gas, spill).
        ret (fr\<lparr>ft_gas_remaining := gas, ft_state_gas_remaining := state_gas,
          ft_state_gas_spilled := spill\<rparr>))
      else ret fr)"

definition frame_refund_gas :: "frame_transition \<Rightarrow> int \<Rightarrow> ('s, frame_transition) action" where
  "frame_refund_gas fr unused =
     bind (refund_gas (ft_gas_remaining fr) unused) (\<lambda>gas. ret (fr\<lparr>ft_gas_remaining := gas\<rparr>))"

text \<open>Pushing the result of a call or creation, and returning the registers.\<close>

definition push_transition :: "frame_transition \<Rightarrow> int \<Rightarrow> ('z, frame_transition) host" where
  "push_transition fr w =
     bind (push_word (ft_stack_top fr) w) (\<lambda>sp. frame_transition (fr\<lparr>ft_stack_top := sp\<rparr>))"

definition executable_code :: "crypto \<Rightarrow> address \<Rightarrow> bool \<Rightarrow> address \<Rightarrow> ('z, code) kernel" where
  "executable_code lib target dele dtgt =
     (if dele then
        bind (k_code_key (keccak256 lib) dtgt) (\<lambda>delegate_key.
        bind (code_db_resolve delegate_key) (\<lambda>delegate_code.
        bind (precompile_id_for_address dtgt) (\<lambda>delegate_precompile.
        ret (if delegate_precompile \<noteq> NotPrecompile then EMPTY_CODE else delegate_code))))
      else bind (k_code_key (keccak256 lib) target) code_db_resolve)"

definition EMPTY_CALLDATA :: calldata_slice where
  "EMPTY_CALLDATA = InputCalldata EMPTY_SLICE"

section \<open>Calls\<close>

record call_semantics =
  takes_value :: bool
  transfers_value :: bool
  uses_target_address :: bool
  inherits_caller_and_value :: bool
  enters_static_context :: bool

definition call_semantics :: "call_kind \<Rightarrow> call_semantics" where
  "call_semantics kind =
     (case kind of
        Call \<Rightarrow> \<lparr>takes_value = True, transfers_value = True, uses_target_address = True,
          inherits_caller_and_value = False, enters_static_context = False\<rparr>
      | CallCode \<Rightarrow> \<lparr>takes_value = True, transfers_value = False, uses_target_address = False,
          inherits_caller_and_value = False, enters_static_context = False\<rparr>
      | DelegateCall \<Rightarrow> \<lparr>takes_value = False, transfers_value = False, uses_target_address = False,
          inherits_caller_and_value = True, enters_static_context = False\<rparr>
      | StaticCall \<Rightarrow> \<lparr>takes_value = False, transfers_value = False, uses_target_address = True,
          inherits_caller_and_value = False, enters_static_context = True\<rparr>)"

fun call_stack_inputs :: "call_kind \<Rightarrow> int" where
  "call_stack_inputs Call = 7"
| "call_stack_inputs CallCode = 7"
| "call_stack_inputs DelegateCall = 6"
| "call_stack_inputs StaticCall = 6"

text \<open>The operands of a call, in the order they are popped.\<close>

record call_operands =
  co_gas_request :: int
  co_target :: address
  co_value :: int
  co_args_off :: int
  co_args_len :: int
  co_ret_off :: int
  co_ret_len :: int

definition pop_call_operands ::
    "call_semantics \<Rightarrow> stack_pointer \<Rightarrow> (call_operands \<Rightarrow> stack_pointer \<Rightarrow> ('z, 'r) host) \<Rightarrow> ('z, 'r) host" where
  "pop_call_operands semantics sp body =
     pop_word sp (\<lambda>gas_request sp.
     pop_word sp (\<lambda>target_word sp.
     (if takes_value semantics then pop_word sp else (\<lambda>rest. rest 0 sp)) (\<lambda>v sp.
     pop_word sp (\<lambda>args_off sp.
     pop_word sp (\<lambda>args_len sp.
     pop_word sp (\<lambda>ret_off sp.
     pop_word sp (\<lambda>ret_len sp.
     body \<lparr>co_gas_request = gas_request, co_target = word_to_address target_word, co_value = v,
       co_args_off = args_off, co_args_len = args_len, co_ret_off = ret_off,
       co_ret_len = ret_len\<rparr> sp)))))))"

text \<open>
  Charging for a call: memory, access and value, the delegation and the new account, and the gas
  of the callee. The continuation gets the registers after the charges, the delegation, whether
  a new account was charged, and the gas that the callee is given.
\<close>

definition charge_call ::
    "crypto \<Rightarrow> frame_transition \<Rightarrow> call_semantics \<Rightarrow> call_operands
      \<Rightarrow> (frame_transition \<Rightarrow> bool \<Rightarrow> address \<Rightarrow> bool \<Rightarrow> int \<Rightarrow> ('z, frame_transition) kernel)
      \<Rightarrow> ('z, frame_transition) kernel" where
  "charge_call lib fr semantics operands body =
     (let target = co_target operands; value_nonzero = word_nonzero (co_value operands) in
     bind active_fork (\<lambda>fork.
     bind (k_account_is_warm target) (\<lambda>warm.
     bind (account_cost warm) (\<lambda>target_cost.
     bind (if value_nonzero then call_value_cost else ret 0) (\<lambda>transfer_cost.
     bind (memory_requested_height (co_args_off operands) (co_args_len operands))
       (\<lambda>args_requested_height.
     bind (memory_requested_height (co_ret_off operands) (co_ret_len operands))
       (\<lambda>ret_requested_height.
     let requested_height = (if args_requested_height < ret_requested_height
                             then ret_requested_height else args_requested_height) in
     frame_pay_charge fr
       (memory_expansion_gas_cost (ft_memory_height fr) requested_height (ft_gas_remaining fr)) (\<lambda>fr.
     frame_pay fr (target_cost + transfer_cost) (\<lambda>fr.
     bind (k_account_mark_warm target) (\<lambda>_.
     bind (k_deleg_target (keccak256 lib) target) (\<lambda>(tg_deleg, tg_target).
     bind (if tg_deleg then bind (k_account_is_warm tg_target) account_cost else ret 0)
       (\<lambda>delegation_cost.
     bind (k_account_is_empty (keccak256 lib) target) (\<lambda>target_empty.
     let makes_account = (value_nonzero \<and> transfers_value semantics \<and> target_empty);
         new_account_charged = (fork \<ge> Amsterdam \<and> makes_account);
         create_cost = (if fork < Amsterdam \<and> makes_account then G_newaccount else 0) in
     frame_pay fr (delegation_cost + create_cost) (\<lambda>fr.
     charge_new_account fr new_account_charged (\<lambda>fr.
     bind (call_gas_cap_word (ft_gas_remaining fr) (co_gas_request operands)) (\<lambda>base_child.
     frame_pay fr base_child (\<lambda>fr.
     body fr tg_deleg tg_target new_account_charged base_child)))))))))))))))))"

text \<open>Running a precompiled contract in place of a callee.\<close>

definition call_precompile ::
    "crypto \<Rightarrow> frame_transition \<Rightarrow> call_semantics \<Rightarrow> call_operands \<Rightarrow> memory_range \<Rightarrow> memory_range
      \<Rightarrow> bool \<Rightarrow> int \<Rightarrow> precompile_id \<Rightarrow> ('z, frame_transition) kernel" where
  "call_precompile lib fr semantics operands args dest new_account_charged child_gas selected =
     (let fails = bind (credit_new_account (fr\<lparr>ft_returndata := returndata_clear\<rparr>) new_account_charged)
                    (\<lambda>fr. push_transition fr 0) in
     bind (active_memory_slice (ft_memory_base fr) (ft_memory_height fr) (mr_off args) (mr_len args))
       (\<lambda>input_memory.
     bind (precompile_gas selected (MemoryCalldata input_memory) child_gas) (\<lambda>precompile_charge.
     if affordable precompile_charge then
       bind (run_precompile_slice lib selected (MemoryCalldata input_memory)) (\<lambda>result.
       if pr_success result then
         (let fr = fr\<lparr>ft_returndata := pr_output result\<rparr> in
         bind (do_when (transfers_value semantics \<and> word_nonzero (co_value operands))
           (k_transfer (keccak256 lib) (msg_address (ft_message fr)) (co_target operands)
             (co_value operands))) (\<lambda>_.
         bind (memory_absolute (ft_memory_base fr) (mr_off dest)) (\<lambda>return_destination.
         bind (returndata_copy_prefix (ft_returndata fr) return_destination (mr_len dest)) (\<lambda>_.
         bind (gas_sub child_gas (gc_cost precompile_charge)) (\<lambda>unused.
         bind (frame_refund_gas fr unused) (\<lambda>fr. push_transition fr 1))))))
       else fails)
     else fails)))"

text \<open>Suspending the caller and entering the callee.\<close>

definition enter_call ::
    "crypto \<Rightarrow> frame_transition \<Rightarrow> call_semantics \<Rightarrow> call_operands \<Rightarrow> memory_range \<Rightarrow> memory_range
      \<Rightarrow> bool \<Rightarrow> address \<Rightarrow> bool \<Rightarrow> int \<Rightarrow> ('z, frame_transition) machine" where
  "enter_call lib fr semantics operands args dest tg_deleg tg_target new_account_charged child_gas =
     (let m = ft_message fr; caller = msg_address m; target = co_target operands in
     bind (executable_code lib target tg_deleg tg_target) (\<lambda>child_code.
     let child_addr = (if uses_target_address semantics then target else caller);
         child_caller = (if inherits_caller_and_value semantics then msg_caller m else caller);
         child_value = (if inherits_caller_and_value semantics then msg_value m
                        else co_value operands);
         child_static = (enters_static_context semantics \<or> msg_is_static m) in
     bind (active_memory_slice (ft_memory_base fr) (ft_memory_height fr) (mr_off args) (mr_len args))
       (\<lambda>data.
     bind (region_slice (slice_bytes data) (slice_len data)) (\<lambda>child_memory.
     let child_state_gas = ft_state_gas_remaining fr in
     bind (suspend_frame (ft_pc fr) (ft_gas_remaining fr) (ft_stack_top fr) (ft_memory_base fr)
       (ft_memory_height fr) 0 (ft_state_gas_spilled fr) (ft_refund fr) Running m (ft_code fr)
       (ft_calldata fr)) (\<lambda>(checkpoint, child_stack, child_memory_base, child_memory_height).
     bind (frame_stack_push (ResumeCall \<lparr>cc_checkpoint = checkpoint,
       cc_return_offset = mr_off dest, cc_return_length = mr_len dest,
       cc_new_account_charged = new_account_charged\<rparr>)) (\<lambda>_.
     bind (do_when (transfers_value semantics \<and> word_nonzero (co_value operands))
       (k_transfer (keccak256 lib) caller target (co_value operands))) (\<lambda>_.
     frame_transition \<lparr>ft_pc = 0, ft_gas_remaining = child_gas,
       ft_state_gas_remaining = child_state_gas, ft_state_gas_spilled = 0, ft_refund = 0,
       ft_status = Running, ft_stack_top = child_stack, ft_memory_base = child_memory_base,
       ft_memory_height = child_memory_height,
       ft_message = \<lparr>msg_caller = child_caller, msg_code_address = target,
         msg_address = child_addr, msg_value = child_value,
         msg_state_gas_reservoir = child_state_gas, msg_is_static = child_static,
         msg_depth = msg_depth m + 1\<rparr>,
       ft_code = child_code, ft_calldata = MemoryCalldata child_memory,
       ft_returndata = returndata_clear\<rparr>)))))))"

text \<open>After the charges: use the memory, and fail, run a precompile, or enter the callee.\<close>

definition dispatch_call ::
    "crypto \<Rightarrow> frame_transition \<Rightarrow> call_semantics \<Rightarrow> call_operands \<Rightarrow> bool \<Rightarrow> address \<Rightarrow> bool
      \<Rightarrow> int \<Rightarrow> ('z, frame_transition) machine" where
  "dispatch_call lib fr semantics operands tg_deleg tg_target new_account_charged base_child =
     (let m = ft_message fr; target = co_target operands;
          value_nonzero = word_nonzero (co_value operands);
          stipend = (if value_nonzero then G_callstipend else 0) in
     bind (do_when tg_deleg (k_account_mark_warm tg_target)) (\<lambda>_.
     bind (do_when tg_deleg
       (bind (k_code_key (keccak256 lib) tg_target) (\<lambda>delegate_key.
        bind (code_db_resolve delegate_key) (\<lambda>_.
        bind (k_aload (keccak256 lib) tg_target) (\<lambda>_. ret ()))))) (\<lambda>_.
     bind (memory_access (co_args_off operands) (co_args_len operands)) (\<lambda>args_access.
     bind (memory_access (co_ret_off operands) (co_ret_len operands)) (\<lambda>ret_access.
     let materialized_required_size =
           (if ma_height args_access < ma_height ret_access then ma_height ret_access
            else ma_height args_access) in
     bind (expand_memory (ft_memory_base fr) (ft_memory_height fr) materialized_required_size)
       (\<lambda>mem1.
     let fr = fr\<lparr>ft_memory_height := mem1\<rparr>; args = ma_range args_access;
         dest = ma_range ret_access in
     bind (conserved_gas_add base_child stipend) (\<lambda>child_gas.
     bind (k_aload (keccak256 lib) target) (\<lambda>_.
     bind (if takes_value semantics \<and> value_nonzero
           then bind (k_get_balance (keccak256 lib) (msg_address m)) (\<lambda>caller_balance.
             ret (\<not> word_ule (co_value operands) caller_balance))
           else ret False) (\<lambda>insufficient_balance.
     if insufficient_balance \<or> msg_depth m = 1024 then
       bind (frame_refund_gas (fr\<lparr>ft_returndata := returndata_clear\<rparr>) child_gas) (\<lambda>fr.
       bind (credit_new_account fr new_account_charged) (\<lambda>fr. push_transition fr 0))
     else
       bind (precompile_id_for_address target) (\<lambda>selected_precompile.
       if selected_precompile \<noteq> NotPrecompile
       then call_precompile lib fr semantics operands args dest new_account_charged child_gas
              selected_precompile
       else enter_call lib fr semantics operands args dest tg_deleg tg_target
              new_account_charged child_gas))))))))))"

definition run_call ::
    "crypto \<Rightarrow> frame_transition \<Rightarrow> call_kind \<Rightarrow> ('z, frame_transition) machine" where
  "run_call lib fr kind =
     bind (guard_stack (ft_stack_top fr) (call_stack_inputs kind) 1) (\<lambda>stack_status.
     case stack_status of
       Failed k \<Rightarrow> exceptional_transition fr k
     | Continue \<Rightarrow>
         bind (checked_message (ft_message fr)) (\<lambda>parent_message.
         let semantics = call_semantics kind in
         pop_call_operands semantics (ft_stack_top fr) (\<lambda>operands sp.
         let fr = fr\<lparr>ft_status := Running, ft_stack_top := sp\<rparr> in
         if transfers_value semantics \<and> word_nonzero (co_value operands)
           \<and> msg_is_static parent_message
         then exceptional_transition fr WriteProtection
         else
           charge_call lib fr semantics operands
             (\<lambda>fr tg_deleg tg_target new_account_charged base_child.
           dispatch_call lib fr semantics operands tg_deleg tg_target new_account_charged
             base_child))))"

section \<open>Creations\<close>

record create_semantics =
  uses_salt :: bool

definition create_semantics :: "create_kind \<Rightarrow> create_semantics" where
  "create_semantics kind =
     (case kind of CreateByNonce \<Rightarrow> \<lparr>uses_salt = False\<rparr> | CreateBySalt \<Rightarrow> \<lparr>uses_salt = True\<rparr>)"

fun create_stack_inputs :: "create_kind \<Rightarrow> int" where
  "create_stack_inputs CreateByNonce = 3"
| "create_stack_inputs CreateBySalt = 4"

text \<open>Charging for a creation: memory, access, and the words of the initcode.\<close>

definition charge_create ::
    "frame_transition \<Rightarrow> create_semantics \<Rightarrow> int \<Rightarrow> int
      \<Rightarrow> (frame_transition \<Rightarrow> memory_range \<Rightarrow> ('z, frame_transition) kernel)
      \<Rightarrow> ('z, frame_transition) kernel" where
  "charge_create fr semantics off_word len_word body =
     bind active_fork (\<lambda>fork.
     bind (memory_requested_height off_word len_word) (\<lambda>requested_height.
     frame_pay_charge fr
       (memory_expansion_gas_cost (ft_memory_height fr) requested_height (ft_gas_remaining fr)) (\<lambda>fr.
     bind (memory_access off_word len_word) (\<lambda>initcode_access.
     bind (expand_memory (ft_memory_base fr) (ft_memory_height fr) (ma_height initcode_access))
       (\<lambda>mem1.
     let fr = fr\<lparr>ft_memory_height := mem1\<rparr>; initcode = ma_range initcode_access in
     bind create_access_cost (\<lambda>access_cost.
     frame_pay fr access_cost (\<lambda>fr.
     let initcode_word_count = memory_word_count_word len_word in
     (if fork \<ge> Shanghai
      then frame_pay_charge fr
             (word_scaled_gas_cost G_initcode_word initcode_word_count (ft_gas_remaining fr))
      else (\<lambda>rest. rest fr)) (\<lambda>fr.
     (if uses_salt semantics
      then frame_pay_charge fr
             (word_scaled_gas_cost G_keccak_word initcode_word_count (ft_gas_remaining fr))
      else (\<lambda>rest. rest fr)) (\<lambda>fr.
     body fr initcode)))))))))"

text \<open>The gas of the initcode is all but one 64th of what remains.\<close>

definition split_create_gas :: "frame_transition \<Rightarrow> ('s, frame_transition \<times> int) action" where
  "split_create_gas fr =
     (let avail = ft_gas_remaining fr; retained_gas = sail_ediv_int avail 64 in
     bind (gas_sub avail retained_gas) (\<lambda>child_gas.
     ret (fr\<lparr>ft_gas_remaining := retained_gas\<rparr>, child_gas)))"

definition new_contract_address ::
    "crypto \<Rightarrow> frame_transition \<Rightarrow> create_semantics \<Rightarrow> int \<Rightarrow> memory_range \<Rightarrow> int
      \<Rightarrow> ('z, address) kernel" where
  "new_contract_address lib fr semantics salt initcode account_nonce =
     (let creator = msg_address (ft_message fr) in
      if uses_salt semantics then
        bind (mem_keccak (keccak256 lib) (ft_memory_base fr) (ft_memory_height fr) initcode)
          (\<lambda>initcode_digest_word.
        k_create2_addr (keccak256 lib) creator salt (word_to_hash initcode_digest_word))
      else k_create_addr (keccak256 lib) creator account_nonce)"

text \<open>Suspending the creator and entering the initcode.\<close>

definition enter_create ::
    "crypto \<Rightarrow> frame_transition \<Rightarrow> memory_range \<Rightarrow> address \<Rightarrow> int \<Rightarrow> bool \<Rightarrow> int
      \<Rightarrow> ('z, frame_transition) machine" where
  "enter_create lib fr initcode new_addr endowment new_account_charged child_gas =
     (let m = ft_message fr; creator = msg_address m in
     bind (memory_code_slice (ft_memory_base fr) (ft_memory_height fr) (mr_off initcode)
       (mr_len initcode)) (\<lambda>initcode_bytes.
     bind active_fork (\<lambda>fork.
     bind (code_db_insert (keccak256 lib) initcode_bytes fork) (\<lambda>child_code_id.
     bind (code_db_resolve child_code_id) (\<lambda>child_code.
     let child_state_gas = ft_state_gas_remaining fr in
     bind (suspend_frame (ft_pc fr) (ft_gas_remaining fr) (ft_stack_top fr) (ft_memory_base fr)
       (ft_memory_height fr) 0 (ft_state_gas_spilled fr) (ft_refund fr) Running m (ft_code fr)
       (ft_calldata fr)) (\<lambda>(checkpoint, child_stack, child_memory_base, child_memory_height).
     bind (frame_stack_push (ResumeCreate \<lparr>kc_checkpoint = checkpoint, kc_address = new_addr,
       kc_new_account_charged = new_account_charged\<rparr>)) (\<lambda>_.
     bind (k_mark_created (keccak256 lib) new_addr) (\<lambda>_.
     bind (k_clear_storage (keccak256 lib) new_addr) (\<lambda>_.
     bind (k_bump_nonce (keccak256 lib) new_addr) (\<lambda>_.
     bind (k_transfer (keccak256 lib) creator new_addr endowment) (\<lambda>_.
     frame_transition \<lparr>ft_pc = 0, ft_gas_remaining = child_gas,
       ft_state_gas_remaining = child_state_gas, ft_state_gas_spilled = 0, ft_refund = 0,
       ft_status = Running, ft_stack_top = child_stack, ft_memory_base = child_memory_base,
       ft_memory_height = child_memory_height,
       ft_message = \<lparr>msg_caller = creator, msg_code_address = new_addr,
         msg_address = new_addr, msg_value = endowment,
         msg_state_gas_reservoir = child_state_gas, msg_is_static = msg_is_static m,
         msg_depth = msg_depth m + 1\<rparr>,
       ft_code = child_code, ft_calldata = EMPTY_CALLDATA,
       ft_returndata = returndata_clear\<rparr>)))))))))))"

text \<open>After the charges: check size, funds, nonce and depth, charge the account, and enter.\<close>

definition dispatch_create ::
    "crypto \<Rightarrow> frame_transition \<Rightarrow> create_semantics \<Rightarrow> int \<Rightarrow> int \<Rightarrow> memory_range
      \<Rightarrow> ('z, frame_transition) machine" where
  "dispatch_create lib fr semantics endowment salt initcode =
     (let m = ft_message fr; creator = msg_address m in
     bind active_fork (\<lambda>fork.
     bind (initcode_size_allowed (mr_len initcode)) (\<lambda>valid_initcode_size.
     if \<not> valid_initcode_size then exceptional_transition fr InitCodeTooLarge
     else
       bind (k_get_nonce (keccak256 lib) creator) (\<lambda>account_nonce.
       bind (new_contract_address lib fr semantics salt initcode account_nonce) (\<lambda>new_addr.
       bind (if fork < Amsterdam then split_create_gas fr else ret (fr, 0)) (\<lambda>(fr, child_gas).
       bind (k_get_balance (keccak256 lib) creator) (\<lambda>creator_balance.
       let insufficient_balance = (\<not> word_ule endowment creator_balance) in
       if insufficient_balance \<or> account_nonce = 2 ^ 64 - 1 \<or> msg_depth m = 1024 then
         bind (if fork < Amsterdam then frame_refund_gas fr child_gas else ret fr) (\<lambda>fr.
         push_transition (fr\<lparr>ft_returndata := returndata_clear\<rparr>) 0)
       else
         bind (k_account_mark_warm new_addr) (\<lambda>_.
         bind (if fork \<ge> Amsterdam then k_account_is_empty (keccak256 lib) new_addr
               else ret False) (\<lambda>new_account_charged.
         charge_new_account fr new_account_charged (\<lambda>fr.
         bind (if fork \<ge> Amsterdam then split_create_gas fr else ret (fr, child_gas))
           (\<lambda>(fr, child_gas).
         bind (k_account_occupied (keccak256 lib) new_addr) (\<lambda>occupied.
         let fr = fr\<lparr>ft_returndata := returndata_clear\<rparr> in
         bind (k_bump_nonce (keccak256 lib) creator) (\<lambda>_.
         if occupied then
           bind (credit_new_account fr new_account_charged) (\<lambda>fr. push_transition fr 0)
         else enter_create lib fr initcode new_addr endowment new_account_charged
                child_gas)))))))))))))"

definition run_create ::
    "crypto \<Rightarrow> frame_transition \<Rightarrow> create_kind \<Rightarrow> ('z, frame_transition) machine" where
  "run_create lib fr kind =
     bind (guard_stack (ft_stack_top fr) (create_stack_inputs kind) 1) (\<lambda>stack_status.
     case stack_status of
       Failed k \<Rightarrow> exceptional_transition fr k
     | Continue \<Rightarrow>
         bind (checked_message (ft_message fr)) (\<lambda>parent_message.
         let semantics = create_semantics kind in
         pop_word (ft_stack_top fr) (\<lambda>endowment sp.
         pop_word sp (\<lambda>off_word sp.
         pop_word sp (\<lambda>len_word sp.
         (if uses_salt semantics then pop_word sp else (\<lambda>rest. rest 0 sp)) (\<lambda>salt sp.
         let fr = fr\<lparr>ft_status := Running, ft_stack_top := sp\<rparr> in
         if msg_is_static parent_message then exceptional_transition fr WriteProtection
         else
           charge_create fr semantics off_word len_word (\<lambda>fr initcode.
           dispatch_create lib fr semantics endowment salt initcode)))))))"

section \<open>Resuming the caller\<close>

text \<open>The registers of the caller, from its checkpoint and what the callee gave back.\<close>

definition parent_frame ::
    "frame_checkpoint \<Rightarrow> int \<Rightarrow> int \<Rightarrow> int \<Rightarrow> int \<Rightarrow> region_slice \<Rightarrow> frame_transition" where
  "parent_frame checkpoint base gas state_gas spill returndata =
     \<lparr>ft_pc = cp_pc checkpoint, ft_gas_remaining = gas, ft_state_gas_remaining = state_gas,
      ft_state_gas_spilled = spill, ft_refund = cp_refund checkpoint,
      ft_status = cp_status checkpoint, ft_stack_top = cp_stack_top checkpoint,
      ft_memory_base = base, ft_memory_height = cp_memory_height checkpoint,
      ft_message = cp_message checkpoint, ft_code = cp_code checkpoint,
      ft_calldata = cp_calldata checkpoint, ft_returndata = returndata\<rparr>"

definition resume_parent ::
    "frame_checkpoint \<Rightarrow> frame_transition \<Rightarrow> region_slice \<Rightarrow> ('z, frame_transition) host" where
  "resume_parent checkpoint child returndata =
     bind operand_stack_pop_frame (\<lambda>_.
     bind (memory_parent_base (ft_memory_base child) (cp_memory_height checkpoint))
       (\<lambda>parent_memory_base.
     bind (refund_gas (cp_gas_remaining checkpoint) (ft_gas_remaining child)) (\<lambda>parent_gas.
     bind (return_child_state_gas (cp_state_gas_remaining checkpoint)
       (cp_state_gas_spilled checkpoint) (ft_state_gas_remaining child)
       (ft_state_gas_spilled child)) (\<lambda>(parent_state_gas, parent_state_spill).
     ret (parent_frame checkpoint parent_memory_base parent_gas parent_state_gas
       parent_state_spill returndata)))))"

text \<open>Keeping the refunds and effects of the callee, or reverting them.\<close>

definition resume_success ::
    "frame_transition \<Rightarrow> int \<Rightarrow> ('z, unit) kernel \<Rightarrow> int \<Rightarrow> ('z, frame_transition) kernel" where
  "resume_success fr child_refund effect w =
     bind (record_refund (ft_refund fr) child_refund) (\<lambda>refund.
     bind effect (\<lambda>_.
     bind k_journal_commit (\<lambda>_. push_transition (fr\<lparr>ft_refund := refund\<rparr>) w)))"

definition resume_failure :: "frame_transition \<Rightarrow> bool \<Rightarrow> ('z, frame_transition) kernel" where
  "resume_failure fr new_account_charged =
     bind k_journal_revert (\<lambda>_.
     bind (credit_new_account fr new_account_charged) (\<lambda>fr. push_transition fr 0))"

definition resume_call ::
    "call_continuation \<Rightarrow> region_slice \<Rightarrow> frame_transition \<Rightarrow> ('z, frame_transition) kernel" where
  "resume_call continuation result child =
     bind (resume_parent (cc_checkpoint continuation) child result) (\<lambda>fr.
     bind (memory_absolute (ft_memory_base fr) (cc_return_offset continuation))
       (\<lambda>return_destination.
     bind (returndata_copy_prefix result return_destination (cc_return_length continuation)) (\<lambda>_.
     if frame_succeeded (ft_status child)
     then resume_success fr (ft_refund child) (ret ()) 1
     else resume_failure fr (cc_new_account_charged continuation))))"

text \<open>
  The end of a creation: the size and first byte of the deployed code, and its deposit. A frame
  that cannot pay the deposit ends exceptionally, or before Homestead keeps no code.
\<close>

definition exceptional_settlement ::
    "frame_transition \<Rightarrow> exception_kind \<Rightarrow> ('z, frame_transition) kernel" where
  "exceptional_settlement child k =
     bind (exceptional_state (ft_state_gas_remaining child) (ft_state_gas_spilled child)
       (msg_state_gas_reservoir (ft_message child)) k) (\<lambda>exceptional.
     ret (child\<lparr>ft_gas_remaining := 0,
       ft_state_gas_remaining := es_state_gas_remaining exceptional,
       ft_state_gas_spilled := es_state_gas_spilled exceptional,
       ft_status := es_status exceptional\<rparr>))"

definition settle_deployment ::
    "frame_transition \<Rightarrow> region_slice \<Rightarrow> int \<Rightarrow> ('z, frame_transition \<times> bool) kernel" where
  "settle_deployment child result deployed_length =
     (let fails = bind (exceptional_settlement child OutOfGas) (\<lambda>child. ret (child, False)) in
     bind active_fork (\<lambda>fork.
     bind (deployed_code_size_allowed deployed_length) (\<lambda>deployed_size_allowed.
     bind (if deployed_length \<noteq> 0
           then bind (output_byte result 0) (\<lambda>first_byte. ret (first_byte = 0b11101111))
           else ret False) (\<lambda>prohibited_prefix.
     if \<not> deployed_size_allowed \<or> (fork \<ge> London \<and> prohibited_prefix) then fails
     else
       bind (code_deployment_execution_cost deployed_length (ft_gas_remaining child))
         (\<lambda>deployment_charge.
       if affordable deployment_charge then
         bind (gas_sub (ft_gas_remaining child) (gc_cost deployment_charge)) (\<lambda>gas.
         bind (code_deployment_state_cost deployed_length) (\<lambda>state_deposit.
         bind (charge_state_gas gas (ft_state_gas_remaining child) (ft_state_gas_spilled child)
           state_deposit) (\<lambda>(deployment_halt, gas, state_gas, spill).
         let child = child\<lparr>ft_gas_remaining := gas, ft_state_gas_remaining := state_gas,
           ft_state_gas_spilled := spill\<rparr>
         in if deployment_halt
            then bind (exceptional_settlement child OutOfGas) (\<lambda>child. ret (child, False))
            else ret (child, False))))
       else if fork < Homestead then ret (child\<lparr>ft_gas_remaining := 0\<rparr>, True)
       else fails)))))"

definition resume_create ::
    "crypto \<Rightarrow> create_continuation \<Rightarrow> region_slice \<Rightarrow> frame_transition
      \<Rightarrow> ('z, frame_transition) kernel" where
  "resume_create lib continuation result child =
     (let initcode_succeeded = frame_succeeded (ft_status child) in
     bind (returndata_size result) (\<lambda>deployed_length.
     bind (if initcode_succeeded then settle_deployment child result deployed_length
           else ret (child, False)) (\<lambda>(settled, frontier_empty_deposit).
     let deploy_succeeds = (initcode_succeeded \<and> frame_succeeded (ft_status settled));
         parent_returndata = (if initcode_succeeded then returndata_clear else result) in
     bind (resume_parent (kc_checkpoint continuation) settled parent_returndata) (\<lambda>fr.
     if deploy_succeeds then
       resume_success fr (ft_refund child)
         (bind (code_db_intern_output (if frontier_empty_deposit then EMPTY_SLICE else result))
           (\<lambda>deployed_code. k_deploy_code (keccak256 lib) (kc_address continuation) deployed_code))
         (address_to_word (kc_address continuation))
     else resume_failure fr (kc_new_account_charged continuation)))))"

definition resume_frame ::
    "crypto \<Rightarrow> frame_continuation \<Rightarrow> region_slice \<Rightarrow> frame_transition
      \<Rightarrow> ('z, frame_transition) kernel" where
  "resume_frame lib continuation result child =
     (case continuation of
        Empty \<Rightarrow> fatal_error ExecutionInvalid
      | ResumeCall call \<Rightarrow> resume_call call result child
      | ResumeCreate create \<Rightarrow> resume_create lib create result child)"

text \<open>The entry with an encoded opcode.\<close>

definition run_frame_entry_encoded ::
    "crypto \<Rightarrow> frame_transition \<Rightarrow> int \<Rightarrow> ('z, frame_transition) machine" where
  "run_frame_entry_encoded lib fr opcode =
     (if opcode = 240 then run_create lib fr CreateByNonce
      else if opcode = 241 then run_call lib fr Call
      else if opcode = 242 then run_call lib fr CallCode
      else if opcode = 244 then run_call lib fr DelegateCall
      else if opcode = 245 then run_create lib fr CreateBySalt
      else if opcode = 250 then run_call lib fr StaticCall
      else exceptional_transition fr InvalidOpcode)"

section \<open>Executing an instruction\<close>

text \<open>Putting the results of a handler into the registers.\<close>

definition after_stack ::
    "frame_transition \<Rightarrow> ('s, stack_result) action \<Rightarrow> ('s, frame_transition) action" where
  "after_stack fr handler = bind handler (\<lambda>(gas, sp, outcome).
     ret (fr\<lparr>ft_gas_remaining := gas, ft_stack_top := sp, ft_status := opcode_frame_status outcome\<rparr>))"

definition after_gas ::
    "frame_transition \<Rightarrow> ('s, int \<times> opcode_outcome) action \<Rightarrow> ('s, frame_transition) action" where
  "after_gas fr handler = bind handler (\<lambda>(gas, outcome).
     ret (fr\<lparr>ft_gas_remaining := gas, ft_status := opcode_frame_status outcome\<rparr>))"

definition after_halt ::
    "frame_transition \<Rightarrow> ('s, halt_result) action \<Rightarrow> ('s, frame_transition) action" where
  "after_halt fr handler = bind handler (\<lambda>(gas, sp, mem, status).
     ret (fr\<lparr>ft_gas_remaining := gas, ft_stack_top := sp, ft_memory_height := mem,
       ft_status := status\<rparr>))"

definition after_memory ::
    "frame_transition \<Rightarrow> ('s, memory_result) action \<Rightarrow> ('s, frame_transition) action" where
  "after_memory fr handler = after_halt fr (bind handler (\<lambda>(gas, sp, mem, outcome).
     ret (gas, sp, mem, opcode_frame_status outcome)))"

definition after_jump ::
    "frame_transition \<Rightarrow> ('s, jump_result) action \<Rightarrow> ('s, frame_transition) action" where
  "after_jump fr handler = bind handler (\<lambda>(pc, gas, sp, outcome).
     ret (fr\<lparr>ft_pc := pc, ft_gas_remaining := gas, ft_stack_top := sp,
       ft_status := opcode_frame_status outcome\<rparr>))"

definition after_destruct ::
    "frame_transition \<Rightarrow> ('s, selfdestruct_result) action \<Rightarrow> ('s, frame_transition) action" where
  "after_destruct fr handler = bind handler (\<lambda>(gas, state_gas, spill, refund, sp, status).
     ret (fr\<lparr>ft_gas_remaining := gas, ft_state_gas_remaining := state_gas,
       ft_state_gas_spilled := spill, ft_refund := refund, ft_stack_top := sp,
       ft_status := status\<rparr>))"

definition after_state ::
    "frame_transition \<Rightarrow> ('s, sstore_result) action \<Rightarrow> ('s, frame_transition) action" where
  "after_state fr handler =
     after_destruct fr (bind handler (\<lambda>(gas, state_gas, spill, refund, sp, outcome).
       ret (gas, state_gas, spill, refund, sp, opcode_frame_status outcome)))"

definition after_revert ::
    "frame_transition \<Rightarrow> ('s, revert_result) action \<Rightarrow> ('s, frame_transition) action" where
  "after_revert fr handler = bind handler (\<lambda>(gas, state_gas, spill, sp, mem, status).
     ret (fr\<lparr>ft_gas_remaining := gas, ft_state_gas_remaining := state_gas,
       ft_state_gas_spilled := spill, ft_stack_top := sp, ft_memory_height := mem,
       ft_status := status\<rparr>))"

text \<open>The instructions other than calls and creations.\<close>

definition execute_instruction ::
    "crypto \<Rightarrow> fork \<Rightarrow> int \<Rightarrow> account_execution_context \<Rightarrow> frame_transition \<Rightarrow> instruction
      \<Rightarrow> ('z, frame_transition) kernel" where
  "execute_instruction lib fork blob_fee ctx fr instruction =
     (let m = ft_message fr; gas = ft_gas_remaining fr; sp = ft_stack_top fr;
          base = ft_memory_base fr; mem = ft_memory_height fr;
          state_gas = ft_state_gas_remaining fr; spill = ft_state_gas_spilled fr;
          refund = ft_refund fr in
      case instruction of
        STOP \<Rightarrow> ret (fr\<lparr>ft_status := execute_stop\<rparr>)
      | ADD \<Rightarrow> after_stack fr (execute_add gas sp)
      | MUL \<Rightarrow> after_stack fr (execute_mul gas sp)
      | SUB \<Rightarrow> after_stack fr (execute_sub gas sp)
      | DIV \<Rightarrow> after_stack fr (execute_div gas sp)
      | SDIV \<Rightarrow> after_stack fr (execute_sdiv gas sp)
      | MOD \<Rightarrow> after_stack fr (execute_mod gas sp)
      | SMOD \<Rightarrow> after_stack fr (execute_smod gas sp)
      | ADDMOD \<Rightarrow> after_stack fr (execute_addmod gas sp)
      | MULMOD \<Rightarrow> after_stack fr (execute_mulmod gas sp)
      | EXP \<Rightarrow> after_stack fr (execute_exp gas sp)
      | SIGNEXTEND \<Rightarrow> after_stack fr (execute_signextend gas sp)
      | LT \<Rightarrow> after_stack fr (execute_lt gas sp)
      | GT \<Rightarrow> after_stack fr (execute_gt gas sp)
      | SLT \<Rightarrow> after_stack fr (execute_slt gas sp)
      | SGT \<Rightarrow> after_stack fr (execute_sgt gas sp)
      | EQ \<Rightarrow> after_stack fr (execute_eq gas sp)
      | ISZERO \<Rightarrow> after_stack fr (execute_iszero gas sp)
      | AND_WORDS \<Rightarrow> after_stack fr (execute_and gas sp)
      | OR_WORDS \<Rightarrow> after_stack fr (execute_or gas sp)
      | XOR_WORDS \<Rightarrow> after_stack fr (execute_xor gas sp)
      | NOT_WORDS \<Rightarrow> after_stack fr (execute_not gas sp)
      | BYTE \<Rightarrow> after_stack fr (execute_byte gas sp)
      | SHL \<Rightarrow> after_stack fr (execute_shl gas sp)
      | SHR \<Rightarrow> after_stack fr (execute_shr gas sp)
      | SAR \<Rightarrow> after_stack fr (execute_sar gas sp)
      | CLZ \<Rightarrow> after_stack fr (execute_clz gas sp)
      | KECCAK256 \<Rightarrow> after_memory fr (execute_keccak256 (keccak256 lib) base gas sp mem)
      | ADDRESS \<Rightarrow> after_stack fr (execute_address (msg_address m) gas sp)
      | BALANCE \<Rightarrow> after_stack fr (execute_balance (keccak256 lib) gas sp)
      | ORIGIN \<Rightarrow> after_stack fr (execute_origin gas sp)
      | CALLER \<Rightarrow> after_stack fr (execute_caller (msg_caller m) gas sp)
      | CALLVALUE \<Rightarrow> after_stack fr (execute_callvalue (msg_value m) gas sp)
      | CALLDATALOAD \<Rightarrow> after_stack fr (execute_calldataload (ft_calldata fr) gas sp)
      | CALLDATASIZE \<Rightarrow> after_stack fr (execute_calldatasize (ft_calldata fr) gas sp)
      | CALLDATACOPY \<Rightarrow> after_memory fr (execute_calldatacopy (ft_calldata fr) base gas sp mem)
      | CODESIZE \<Rightarrow> after_stack fr (execute_codesize (ft_code fr) gas sp)
      | CODECOPY \<Rightarrow> after_memory fr (execute_codecopy (ft_code fr) base gas sp mem)
      | GASPRICE \<Rightarrow> after_stack fr (execute_gasprice gas sp)
      | EXTCODESIZE \<Rightarrow> after_stack fr (execute_extcodesize (keccak256 lib) gas sp)
      | EXTCODECOPY \<Rightarrow> after_memory fr (execute_extcodecopy (keccak256 lib) base gas sp mem)
      | RETURNDATASIZE \<Rightarrow> after_stack fr (execute_returndatasize (ft_returndata fr) gas sp)
      | RETURNDATACOPY \<Rightarrow> after_memory fr (execute_returndatacopy (ft_returndata fr) base gas sp mem)
      | EXTCODEHASH \<Rightarrow> after_stack fr (execute_extcodehash (keccak256 lib) gas sp)
      | BLOCKHASH \<Rightarrow> after_stack fr (execute_blockhash gas sp)
      | COINBASE \<Rightarrow> after_stack fr (execute_coinbase gas sp)
      | TIMESTAMP \<Rightarrow> after_stack fr (execute_timestamp gas sp)
      | NUMBER \<Rightarrow> after_stack fr (execute_number gas sp)
      | SLOTNUM \<Rightarrow> after_stack fr (execute_slotnum gas sp)
      | PREVRANDAO \<Rightarrow> after_stack fr (execute_prevrandao gas sp)
      | GASLIMIT \<Rightarrow> after_stack fr (execute_gaslimit gas sp)
      | CHAINID \<Rightarrow> after_stack fr (execute_chainid gas sp)
      | SELFBALANCE \<Rightarrow> after_stack fr (execute_selfbalance (keccak256 lib) (msg_address m) gas sp)
      | BASEFEE \<Rightarrow> after_stack fr (execute_basefee gas sp)
      | BLOBHASH \<Rightarrow> after_stack fr (execute_blobhash gas sp)
      | BLOBBASEFEE \<Rightarrow> after_stack fr (execute_blobbasefee blob_fee gas sp)
      | POP \<Rightarrow> after_stack fr (execute_pop gas sp)
      | MLOAD \<Rightarrow> after_memory fr (execute_mload base gas sp mem)
      | MSTORE \<Rightarrow> after_memory fr (execute_mstore base gas sp mem)
      | MSTORE8 \<Rightarrow> after_memory fr (execute_mstore8 base gas sp mem)
      | SLOAD \<Rightarrow> after_stack fr (execute_sload (keccak256 lib) ctx gas sp)
      | SSTORE \<Rightarrow> after_state fr (execute_sstore (keccak256 lib) ctx fork (msg_is_static m) gas state_gas spill refund sp)
      | JUMP \<Rightarrow> after_jump fr (execute_jump (ft_code fr) (ft_pc fr) gas sp)
      | JUMPI \<Rightarrow> after_jump fr (execute_jumpi (ft_code fr) (ft_pc fr) gas sp)
      | PC \<Rightarrow> after_jump fr (execute_pc (ft_pc fr) gas sp)
      | MSIZE \<Rightarrow> after_memory fr (execute_msize gas sp mem)
      | GAS \<Rightarrow> after_stack fr (execute_gas gas sp)
      | JUMPDEST \<Rightarrow> after_gas fr (execute_jumpdest gas)
      | TLOAD \<Rightarrow> after_stack fr (execute_tload (msg_address m) gas sp)
      | TSTORE \<Rightarrow> after_stack fr (execute_tstore (msg_address m) (msg_is_static m) gas sp)
      | MCOPY \<Rightarrow> after_memory fr (execute_mcopy base gas sp mem)
      | PUSH n v \<Rightarrow> after_stack fr (execute_push gas sp n v)
      | DUP n \<Rightarrow> after_stack fr (execute_dup gas sp n)
      | SWAP n \<Rightarrow> after_stack fr (execute_swap gas sp n)
      | DUPN immediate \<Rightarrow> after_stack fr (execute_dupn gas sp immediate)
      | SWAPN immediate \<Rightarrow> after_stack fr (execute_swapn gas sp immediate)
      | EXCHANGE immediate \<Rightarrow> after_stack fr (execute_exchange gas sp immediate)
      | LOG n \<Rightarrow> after_memory fr (execute_log (msg_address m) (msg_is_static m) base n gas sp mem)
      | opcode_CREATE \<Rightarrow> fatal_error ExecutionInvalid
      | CREATE2 \<Rightarrow> fatal_error ExecutionInvalid
      | CALL \<Rightarrow> fatal_error ExecutionInvalid
      | CALLCODE \<Rightarrow> fatal_error ExecutionInvalid
      | DELEGATECALL \<Rightarrow> fatal_error ExecutionInvalid
      | STATICCALL \<Rightarrow> fatal_error ExecutionInvalid
      | RETURN \<Rightarrow> after_halt fr (execute_return base gas sp mem)
      | REVERT \<Rightarrow> after_revert fr (execute_revert (msg_state_gas_reservoir m) base gas state_gas spill sp mem)
      | INVALID \<Rightarrow> after_gas fr (ret (execute_invalid gas))
      | SELFDESTRUCT \<Rightarrow> after_destruct fr (execute_selfdestruct (keccak256 lib) (msg_address m) fork (msg_is_static m) gas state_gas spill refund sp))"

text \<open>An exceptional outcome consumes the gas and resets the state gas.\<close>

definition settle_outcome :: "frame_transition \<Rightarrow> ('z, frame_transition) kernel" where
  "settle_outcome fr =
     (case ft_status fr of
        Exceptional k \<Rightarrow> exceptional_settlement fr k
      | _ \<Rightarrow> ret fr)"

section \<open>The loop\<close>

text \<open>
  One iteration. A running frame executes its next instruction; a frame that has ended resumes
  its caller, or, with no caller left, ends the loop with its output.
\<close>

type_synonym interpreter_state = "frame_transition \<times> account_execution_context"

definition refresh_context ::
    "account_execution_context \<Rightarrow> frame_transition \<Rightarrow> frame_transition \<Rightarrow> account_execution_context" where
  "refresh_context ctx previous fr =
     refresh_account_execution_context ctx (msg_address (ft_message previous))
       (msg_address (ft_message fr))"

definition interpret_running ::
    "crypto \<Rightarrow> fork \<Rightarrow> int \<Rightarrow> interpreter_state \<Rightarrow> ('z, interpreter_state) machine" where
  "interpret_running lib fork blob_fee = (\<lambda>(fr, ctx).
     bind (fetch (ft_code fr) (ft_pc fr) fork) (\<lambda>(fetched_pc, instruction).
     let fr = fr\<lparr>ft_pc := fetched_pc\<rparr>;
         enter = (\<lambda>transition. bind transition (\<lambda>next. ret (next, refresh_context ctx fr next))) in
     case instruction of
       opcode_CREATE \<Rightarrow> enter (run_create lib fr CreateByNonce)
     | CREATE2 \<Rightarrow> enter (run_create lib fr CreateBySalt)
     | CALL \<Rightarrow> enter (run_call lib fr Call)
     | CALLCODE \<Rightarrow> enter (run_call lib fr CallCode)
     | DELEGATECALL \<Rightarrow> enter (run_call lib fr DelegateCall)
     | STATICCALL \<Rightarrow> enter (run_call lib fr StaticCall)
     | _ \<Rightarrow>
         bind (execute_instruction lib fork blob_fee ctx fr instruction) (\<lambda>fr.
         bind (settle_outcome fr) (\<lambda>fr. ret (fr, ctx)))))"

definition interpret_ended ::
    "crypto \<Rightarrow> interpreter_state \<Rightarrow> ('z, region_slice + interpreter_state) machine" where
  "interpret_ended lib = (\<lambda>(fr, ctx).
     let result = frame_output (ft_status fr) in
     bind frame_stack_pop (\<lambda>continuation.
     if continuation = Empty then ret (Inl result)
     else
       bind (resume_frame lib continuation result fr) (\<lambda>next.
       ret (Inr (next, refresh_context ctx fr next)))))"

definition interpret_step ::
    "crypto \<Rightarrow> fork \<Rightarrow> int \<Rightarrow> interpreter_state
      \<Rightarrow> ('z, region_slice + interpreter_state) machine" where
  "interpret_step lib fork blob_fee st =
     (if is_running (ft_status (fst st))
      then bind (interpret_running lib fork blob_fee st) (\<lambda>st. ret (Inr st))
      else interpret_ended lib st)"

text \<open>
  The loop with at most the given number of iterations. The source has no such limit; it counts
  \<open>call_tree_steps_remaining\<close> down from three times the gas and the state gas plus two, stays at 0
  when it gets there, and reads it nowhere else; the model leaves it out.
\<close>

fun interpret_loop ::
    "nat \<Rightarrow> crypto \<Rightarrow> fork \<Rightarrow> int \<Rightarrow> interpreter_state
      \<Rightarrow> ('z, frame_transition \<times> region_slice) machine" where
  "interpret_loop 0 lib fork blob_fee st = raise OutOfFuel"
| "interpret_loop (Suc n) lib fork blob_fee st =
     bind (interpret_step lib fork blob_fee st) (\<lambda>r.
     case r of
       Inl result \<Rightarrow> ret (fst st, result)
     | Inr st \<Rightarrow> interpret_loop n lib fork blob_fee st)"

text \<open>The function \<open>interpret\<close> of the source. The result: gas, state gas, spilled state gas, refund, status and output.\<close>

type_synonym interpret_result = "int \<times> int \<times> int \<times> int \<times> frame_status \<times> region_slice"

definition evm_interpret ::
    "nat \<Rightarrow> crypto \<Rightarrow> int \<Rightarrow> int \<Rightarrow> int \<Rightarrow> int \<Rightarrow> stack_pointer \<Rightarrow> int \<Rightarrow> int \<Rightarrow> message \<Rightarrow> code
      \<Rightarrow> calldata_slice \<Rightarrow> ('z, interpret_result) machine" where
  "evm_interpret fuel lib initial_gas initial_state_gas initial_state_spill initial_refund initial_sp
       initial_memory_base initial_memory_height initial_message initial_code initial_calldata =
     bind (reads (\<lambda>s. protocol (k_execution_profile s))) (\<lambda>profile.
     let fork = pp_fork profile in
     bind (reads (\<lambda>s. hdr_excess_blob_gas (k_header s))) (\<lambda>excess.
     bind (blob_base_fee fork (pp_blob_schedule profile) (excess_blob_gas_limit profile) excess)
       (\<lambda>blob_fee.
     bind frame_stack_reset (\<lambda>_.
     let fr = \<lparr>ft_pc = 0, ft_gas_remaining = initial_gas,
           ft_state_gas_remaining = initial_state_gas,
           ft_state_gas_spilled = initial_state_spill, ft_refund = initial_refund,
           ft_status = Running, ft_stack_top = initial_sp,
           ft_memory_base = initial_memory_base, ft_memory_height = initial_memory_height,
           ft_message = initial_message, ft_code = initial_code,
           ft_calldata = initial_calldata, ft_returndata = EMPTY_SLICE\<rparr> in
     bind (interpret_loop fuel lib fork blob_fee
       (fr, account_execution_context (msg_address initial_message))) (\<lambda>(fr, result).
     ret (ft_gas_remaining fr, ft_state_gas_remaining fr, ft_state_gas_spilled fr, ft_refund fr,
       ft_status fr, result))))))"

end
