(* ===== verification/Stateless_Input.thy ===== *)
theory Stateless_Input
  imports Ssz Tx_Codec Kernel_Lifecycle Interpreter
begin

text \<open>
  The stateless input (\<open>lib/ssz/stateless_input.py\<close>): the references into the SSZ containers of
  the request, the block header and body, the chain configuration, and the indexing of the
  witness (trie nodes, code and the chain of parent headers).

  The source keeps the defaults of \<open>decode_parent_header_fields\<close> in a module constant,
  \<open>EMPTY_PARENT_HEADER_FIELDS\<close>, and assigns the fields it decodes to that object. The constant is
  therefore a register here, \<open>empty_parent_fields\<close>, that every decoding of a header changes.
\<close>

section \<open>Positions and limits\<close>

definition SSZ_BODY :: int where "SSZ_BODY = 2"
definition IN_NPR_OFF :: int where "IN_NPR_OFF = 0"
definition IN_WITNESS_OFF :: int where "IN_WITNESS_OFF = 4"
definition IN_CHAIN_CONFIG_OFF :: int where "IN_CHAIN_CONFIG_OFF = 8"
definition IN_PUBLIC_KEYS_OFF :: int where "IN_PUBLIC_KEYS_OFF = 12"
definition NPR_PAYLOAD_OFF :: int where "NPR_PAYLOAD_OFF = 0"
definition NPR_VHASHES_OFF :: int where "NPR_VHASHES_OFF = 4"
definition NPR_BEACON_ROOT :: int where "NPR_BEACON_ROOT = 8"
definition NPR_REQUESTS_OFF :: int where "NPR_REQUESTS_OFF = 40"
definition REQ_DEPOSITS_OFF :: int where "REQ_DEPOSITS_OFF = 0"
definition REQ_WITHDRAWALS_OFF :: int where "REQ_WITHDRAWALS_OFF = 4"
definition REQ_CONSOLIDATIONS_OFF :: int where "REQ_CONSOLIDATIONS_OFF = 8"
definition REQ_BUILDER_DEPOSITS_OFF :: int where "REQ_BUILDER_DEPOSITS_OFF = 12"
definition REQ_BUILDER_EXITS_OFF :: int where "REQ_BUILDER_EXITS_OFF = 16"
definition PL_FEE_RECIPIENT :: int where "PL_FEE_RECIPIENT = 32"
definition PL_STATE_ROOT :: int where "PL_STATE_ROOT = 52"
definition PL_RECEIPTS_ROOT :: int where "PL_RECEIPTS_ROOT = 84"
definition PL_LOGS_BLOOM :: int where "PL_LOGS_BLOOM = 116"
definition PL_PREV_RANDAO :: int where "PL_PREV_RANDAO = 372"
definition PL_BLOCK_NUMBER :: int where "PL_BLOCK_NUMBER = 404"
definition PL_GAS_LIMIT :: int where "PL_GAS_LIMIT = 412"
definition PL_GAS_USED :: int where "PL_GAS_USED = 420"
definition PL_TIMESTAMP :: int where "PL_TIMESTAMP = 428"
definition PL_EXTRA_OFF :: int where "PL_EXTRA_OFF = 436"
definition PL_BASE_FEE :: int where "PL_BASE_FEE = 440"
definition PL_BLOCK_HASH :: int where "PL_BLOCK_HASH = 472"
definition PL_TXS_OFF :: int where "PL_TXS_OFF = 504"
definition PL_WDS_OFF :: int where "PL_WDS_OFF = 508"
definition PL_BLOB_GAS_USED :: int where "PL_BLOB_GAS_USED = 512"
definition PL_EXCESS_BLOB_GAS :: int where "PL_EXCESS_BLOB_GAS = 520"
definition PL_BAL_OFF :: int where "PL_BAL_OFF = 528"
definition PL_SLOT_NUMBER :: int where "PL_SLOT_NUMBER = 532"
definition WD_SIZE :: int where "WD_SIZE = 44"
definition WD_INDEX :: int where "WD_INDEX = 0"
definition WD_VALIDATOR_INDEX :: int where "WD_VALIDATOR_INDEX = 8"
definition WD_ADDRESS :: int where "WD_ADDRESS = 16"
definition WD_AMOUNT :: int where "WD_AMOUNT = 36"
definition CC_CHAIN_ID :: int where "CC_CHAIN_ID = 0"
definition CC_ACTIVE_FORK_OFF :: int where "CC_ACTIVE_FORK_OFF = 8"
definition FC_ACTIVATION_OFF :: int where "FC_ACTIVATION_OFF = 0"
definition FA_BLOCK_NUMBER_OFF :: int where "FA_BLOCK_NUMBER_OFF = 0"
definition FA_TIMESTAMP_OFF :: int where "FA_TIMESTAMP_OFF = 4"
definition WIT_STATE_OFF :: int where "WIT_STATE_OFF = 0"
definition WIT_CODES_OFF :: int where "WIT_CODES_OFF = 4"
definition WIT_HEADERS_OFF :: int where "WIT_HEADERS_OFF = 8"
definition STATELESS_INPUT_FIXED_LENGTH :: int where "STATELESS_INPUT_FIXED_LENGTH = 18"
definition STATELESS_INPUT_BODY_FIXED_LENGTH :: int where
  "STATELESS_INPUT_BODY_FIXED_LENGTH = 16"
definition NEW_PAYLOAD_REQUEST_FIXED_LENGTH :: int where
  "NEW_PAYLOAD_REQUEST_FIXED_LENGTH = 44"
definition EXECUTION_PAYLOAD_FIXED_LENGTH :: int where "EXECUTION_PAYLOAD_FIXED_LENGTH = 540"
definition EXECUTION_REQUESTS_FIXED_LENGTH :: int where "EXECUTION_REQUESTS_FIXED_LENGTH = 20"
definition EXECUTION_WITNESS_FIXED_LENGTH :: int where "EXECUTION_WITNESS_FIXED_LENGTH = 12"
definition PUBLIC_KEY_LENGTH :: int where "PUBLIC_KEY_LENGTH = 65"
definition CHAIN_CONFIG_HEADER_LENGTH :: int where "CHAIN_CONFIG_HEADER_LENGTH = 12"
definition CHAIN_CONFIG_MIN_LENGTH :: int where "CHAIN_CONFIG_MIN_LENGTH = 24"
definition MAX_EXTRA_DATA_LENGTH :: int where "MAX_EXTRA_DATA_LENGTH = 2 ^ 5"
definition MAX_TRANSACTION_LENGTH :: int where "MAX_TRANSACTION_LENGTH = 2 ^ 30"
definition MAX_TRANSACTIONS_PER_PAYLOAD :: int where "MAX_TRANSACTIONS_PER_PAYLOAD = 2 ^ 20"
definition MAX_WITHDRAWALS_PER_PAYLOAD :: int where "MAX_WITHDRAWALS_PER_PAYLOAD = 2 ^ 4"
definition MAX_BLOCK_ACCESS_LIST_LENGTH :: int where "MAX_BLOCK_ACCESS_LIST_LENGTH = 2 ^ 30"
definition MAX_BLOB_COMMITMENTS_PER_BLOCK :: int where "MAX_BLOB_COMMITMENTS_PER_BLOCK = 2 ^ 12"
definition MAX_WITNESS_NODES :: int where "MAX_WITNESS_NODES = 2 ^ 22"
definition MAX_WITNESS_NODE_LENGTH :: int where "MAX_WITNESS_NODE_LENGTH = 2 ^ 10"
definition MAX_WITNESS_CODES :: int where "MAX_WITNESS_CODES = 2 ^ 18"
definition MAX_WITNESS_CODE_LENGTH :: int where "MAX_WITNESS_CODE_LENGTH = 2 ^ 16"
definition MAX_WITNESS_HEADERS :: int where "MAX_WITNESS_HEADERS = 2 ^ 8"
definition MAX_WITNESS_HEADER_LENGTH :: int where "MAX_WITNESS_HEADER_LENGTH = 2 ^ 10"
definition MAX_PUBLIC_KEYS :: int where "MAX_PUBLIC_KEYS = 2 ^ 15"

section \<open>References into the input\<close>

record stateless_input_ref =
  in_protocol :: protocol_profile
  in_new_payload_request :: region_slice
  in_execution_payload :: region_slice
  in_versioned_hashes :: region_slice
  in_deposits :: region_slice
  in_withdrawal_requests :: region_slice
  in_consolidation_requests :: region_slice
  in_builder_deposit_requests :: region_slice
  in_builder_exit_requests :: region_slice
  in_extra_data :: region_slice
  in_transactions :: bounded_ssz_list_ref
  in_withdrawals :: bounded_ssz_list_ref
  in_block_access_list :: region_slice
  in_witness_state :: bounded_ssz_list_ref
  in_witness_codes :: bounded_ssz_list_ref
  in_witness_headers :: bounded_ssz_list_ref
  in_chain_config :: region_slice
  in_public_keys :: region_slice

text \<open>The offset at a position of a container; the first one must be the length of its fixed part.\<close>

definition container_offset :: "region_slice \<Rightarrow> int \<Rightarrow> ('z, int) host" where
  "container_offset container position = ssz_u32 container (ssz_field_offset 0 position)"

definition first_offset_is :: "int \<Rightarrow> int \<Rightarrow> ('s, unit) action" where
  "first_offset_is offset fixed_length =
     do_when (offset \<noteq> fixed_length) (fatal_error InvalidConfig)"

definition at_most :: "region_slice \<Rightarrow> int \<Rightarrow> ('s, region_slice) action" where
  "at_most bytes limit = (if slice_len bytes \<le> limit then ret bytes else fatal_error InvalidConfig)"

definition decode_stateless_input_ref :: "region_slice \<Rightarrow> ('z, stateless_input_ref) host" where
  "decode_stateless_input_ref data =
     bind (if STATELESS_INPUT_FIXED_LENGTH \<le> slice_len data then ret data
           else fatal_error InvalidConfig) (\<lambda>input_fields.
     bind (stateless_input_slice_byte input_fields 1) (\<lambda>schema_version.
     bind (do_when (schema_version \<noteq> 1) (fatal_error InvalidConfig)) (\<lambda>_.
     bind (stateless_input_slice_byte input_fields 0) (\<lambda>schema_fork.
     bind (do_when (\<not> schema_protocol_profile_forwards_matches schema_fork)
       (fatal_error InvalidConfig)) (\<lambda>_.
     bind (schema_protocol_profile schema_fork) (\<lambda>profile.
     bind (region_slice_suffix input_fields SSZ_BODY) (\<lambda>body_bytes.
     bind (ssz_container_bytes body_bytes STATELESS_INPUT_BODY_FIXED_LENGTH) (\<lambda>body.
     bind (container_offset body IN_NPR_OFF) (\<lambda>npr_offset.
     bind (container_offset body IN_WITNESS_OFF) (\<lambda>witness_offset.
     bind (container_offset body IN_CHAIN_CONFIG_OFF) (\<lambda>chain_config_offset.
     bind (container_offset body IN_PUBLIC_KEYS_OFF) (\<lambda>public_keys_offset.
     bind (first_offset_is npr_offset STATELESS_INPUT_BODY_FIXED_LENGTH) (\<lambda>_.
     bind (ssz_container_cursor_of body STATELESS_INPUT_BODY_FIXED_LENGTH) (\<lambda>body_cursor.
     bind (ssz_take body_cursor witness_offset) (\<lambda>(npr_bytes, after_payload_request).
     bind (ssz_container_bytes npr_bytes NEW_PAYLOAD_REQUEST_FIXED_LENGTH) (\<lambda>new_payload_request.
     bind (ssz_take after_payload_request chain_config_offset) (\<lambda>(witness_bytes, after_witness).
     bind (ssz_container_bytes witness_bytes EXECUTION_WITNESS_FIXED_LENGTH) (\<lambda>execution_witness.
     bind (ssz_take after_witness public_keys_offset) (\<lambda>(chain_config, after_chain_config).
     bind (ssz_finish after_chain_config) (\<lambda>public_keys.
     bind (container_offset new_payload_request NPR_PAYLOAD_OFF) (\<lambda>payload_offset.
     bind (container_offset new_payload_request NPR_VHASHES_OFF) (\<lambda>versioned_hashes_offset.
     bind (container_offset new_payload_request NPR_REQUESTS_OFF) (\<lambda>requests_offset.
     bind (first_offset_is payload_offset NEW_PAYLOAD_REQUEST_FIXED_LENGTH) (\<lambda>_.
     bind (ssz_container_cursor_of new_payload_request NEW_PAYLOAD_REQUEST_FIXED_LENGTH)
       (\<lambda>npr_cursor.
     bind (ssz_take npr_cursor versioned_hashes_offset) (\<lambda>(payload_bytes, npr_after_payload).
     bind (ssz_take npr_after_payload requests_offset) (\<lambda>(versioned_hashes, npr_after_hashes).
     bind (ssz_finish npr_after_hashes) (\<lambda>requests_bytes.
     bind (ssz_container_bytes requests_bytes EXECUTION_REQUESTS_FIXED_LENGTH) (\<lambda>requests.
     bind (ssz_container_bytes payload_bytes EXECUTION_PAYLOAD_FIXED_LENGTH) (\<lambda>payload.
     bind (container_offset payload PL_EXTRA_OFF) (\<lambda>extra_data_offset.
     bind (container_offset payload PL_TXS_OFF) (\<lambda>transactions_offset.
     bind (container_offset payload PL_WDS_OFF) (\<lambda>withdrawals_offset.
     bind (container_offset payload PL_BAL_OFF) (\<lambda>block_access_list_offset.
     bind (first_offset_is extra_data_offset EXECUTION_PAYLOAD_FIXED_LENGTH) (\<lambda>_.
     bind (ssz_container_cursor_of payload EXECUTION_PAYLOAD_FIXED_LENGTH) (\<lambda>payload_cursor.
     bind (ssz_take payload_cursor transactions_offset) (\<lambda>(extra_data_bytes, after_extra_data).
     bind (ssz_take after_extra_data withdrawals_offset) (\<lambda>(transaction_bytes, after_transactions).
     bind (ssz_bounded_variable_list_ref transaction_bytes MAX_TRANSACTIONS_PER_PAYLOAD
       MAX_TRANSACTION_LENGTH) (\<lambda>transactions.
     bind (ssz_take after_transactions block_access_list_offset)
       (\<lambda>(withdrawal_bytes, after_withdrawals).
     bind (ssz_bounded_fixed_list_ref withdrawal_bytes WD_SIZE MAX_WITHDRAWALS_PER_PAYLOAD)
       (\<lambda>withdrawals.
     bind (ssz_finish after_withdrawals) (\<lambda>block_access_list_bytes.
     bind (at_most extra_data_bytes MAX_EXTRA_DATA_LENGTH) (\<lambda>extra_data.
     bind (at_most block_access_list_bytes MAX_BLOCK_ACCESS_LIST_LENGTH) (\<lambda>block_access_list.
     bind (container_offset requests REQ_DEPOSITS_OFF) (\<lambda>deposits_offset.
     bind (container_offset requests REQ_WITHDRAWALS_OFF) (\<lambda>withdrawal_requests_offset.
     bind (container_offset requests REQ_CONSOLIDATIONS_OFF) (\<lambda>consolidation_requests_offset.
     bind (container_offset requests REQ_BUILDER_DEPOSITS_OFF) (\<lambda>builder_deposits_offset.
     bind (container_offset requests REQ_BUILDER_EXITS_OFF) (\<lambda>builder_exits_offset.
     bind (first_offset_is deposits_offset EXECUTION_REQUESTS_FIXED_LENGTH) (\<lambda>_.
     bind (ssz_container_cursor_of requests EXECUTION_REQUESTS_FIXED_LENGTH) (\<lambda>requests_cursor.
     bind (ssz_take requests_cursor withdrawal_requests_offset) (\<lambda>(deposits, after_deposits).
     bind (ssz_take after_deposits consolidation_requests_offset)
       (\<lambda>(withdrawal_requests, after_withdrawal_requests).
     bind (ssz_take after_withdrawal_requests builder_deposits_offset)
       (\<lambda>(consolidation_requests, after_consolidations).
     bind (ssz_take after_consolidations builder_exits_offset)
       (\<lambda>(builder_deposit_requests, after_builder_deposits).
     bind (ssz_finish after_builder_deposits) (\<lambda>builder_exit_requests.
     bind (container_offset execution_witness WIT_STATE_OFF) (\<lambda>witness_state_offset.
     bind (container_offset execution_witness WIT_CODES_OFF) (\<lambda>witness_codes_offset.
     bind (container_offset execution_witness WIT_HEADERS_OFF) (\<lambda>witness_headers_offset.
     bind (first_offset_is witness_state_offset EXECUTION_WITNESS_FIXED_LENGTH) (\<lambda>_.
     bind (ssz_container_cursor_of execution_witness EXECUTION_WITNESS_FIXED_LENGTH)
       (\<lambda>witness_cursor.
     bind (ssz_take witness_cursor witness_codes_offset) (\<lambda>(witness_state_bytes, after_state).
     bind (ssz_bounded_variable_list_ref witness_state_bytes MAX_WITNESS_NODES
       MAX_WITNESS_NODE_LENGTH) (\<lambda>witness_state.
     bind (ssz_take after_state witness_headers_offset) (\<lambda>(witness_code_bytes, after_codes).
     bind (ssz_bounded_variable_list_ref witness_code_bytes MAX_WITNESS_CODES
       MAX_WITNESS_CODE_LENGTH) (\<lambda>witness_codes.
     bind (ssz_finish after_codes) (\<lambda>witness_header_bytes.
     bind (ssz_bounded_variable_list_ref witness_header_bytes MAX_WITNESS_HEADERS
       MAX_WITNESS_HEADER_LENGTH) (\<lambda>witness_headers.
     let public_key_count = sail_ediv_int (slice_len public_keys) PUBLIC_KEY_LENGTH in
     bind (do_when (slice_len public_keys \<noteq> public_key_count * PUBLIC_KEY_LENGTH)
       (fatal_error InvalidConfig)) (\<lambda>_.
     bind (do_when (MAX_PUBLIC_KEYS < public_key_count) (fatal_error InvalidConfig)) (\<lambda>_.
     bind (ssz_bounded_fixed_list_ref versioned_hashes 32 MAX_BLOB_COMMITMENTS_PER_BLOCK) (\<lambda>_.
     ret \<lparr>in_protocol = profile, in_new_payload_request = new_payload_request,
       in_execution_payload = payload, in_versioned_hashes = versioned_hashes,
       in_deposits = deposits, in_withdrawal_requests = withdrawal_requests,
       in_consolidation_requests = consolidation_requests,
       in_builder_deposit_requests = builder_deposit_requests,
       in_builder_exit_requests = builder_exit_requests, in_extra_data = extra_data,
       in_transactions = transactions, in_withdrawals = withdrawals,
       in_block_access_list = block_access_list, in_witness_state = witness_state,
       in_witness_codes = witness_codes, in_witness_headers = witness_headers,
       in_chain_config = chain_config, in_public_keys = public_keys\<rparr>))))))))))))))))))))))))))))))))))))))))))))))))))))))))))))))))))))))"

section \<open>Header, withdrawals and chain configuration\<close>

record withdrawal =
  wd_index :: int
  wd_validator_index :: int
  wd_address :: address
  wd_amount :: int

record block_body =
  body_transactions :: bounded_ssz_list_ref
  body_withdrawals :: bounded_ssz_list_ref
  body_block_access_list :: region_slice

record block =
  block_header_of :: block_header
  block_body_of :: block_body

record execution_payload =
  expected_block_hash :: hash
  payload_block :: block

record chain_config =
  config_chain_id :: int

record stateless_input_fields =
  si_payload :: execution_payload
  si_chain_config :: chain_config

definition excess_blob_gas :: "int \<Rightarrow> ('s, int) action" where
  "excess_blob_gas = ranged 0 2994028288"

definition decode_payload_blob_gas_used ::
    "region_slice \<Rightarrow> protocol_profile \<Rightarrow> ('z, int) host" where
  "decode_payload_blob_gas_used payload profile =
     bind (decode_ssz_uint payload PL_BLOB_GAS_USED) (\<lambda>value.
     let count = sail_ediv_int value (2 ^ 17) in
     if count \<le> bs_max (pp_blob_schedule profile) \<and> value = 2 ^ 17 * count then ret (2 ^ 17 * count)
     else fatal_error InvalidBlobGasUsed)"

definition decode_payload_excess_blob_gas ::
    "region_slice \<Rightarrow> protocol_profile \<Rightarrow> ('z, int) host" where
  "decode_payload_excess_blob_gas payload profile =
     bind (decode_ssz_uint payload PL_EXCESS_BLOB_GAS) (\<lambda>value.
     if value \<le> excess_blob_gas_limit profile then excess_blob_gas value
     else fatal_error InvalidExcessBlobGas)"

definition decode_block_header_ssz :: "stateless_input_ref \<Rightarrow> ('z, block_header) host" where
  "decode_block_header_ssz input_ref =
     (let payload = in_execution_payload input_ref; profile = in_protocol input_ref in
      bind (decode_ssz_uint payload PL_GAS_LIMIT) (\<lambda>gas_limit.
      bind (decode_ssz_uint payload PL_GAS_USED) (\<lambda>gas_used.
      bind (ssz_bytes32 payload PL_PREV_RANDAO) (\<lambda>prev_randao_hash.
      let prev_randao = hash_to_word prev_randao_hash in
      bind (decode_ssz_uint payload PL_BLOCK_NUMBER) (\<lambda>number.
      bind (decode_ssz_uint payload PL_TIMESTAMP) (\<lambda>timestamp.
      bind (ssz_u256 payload PL_BASE_FEE) (\<lambda>base_fee.
      bind (decode_payload_blob_gas_used payload profile) (\<lambda>blob_gas_used.
      bind (decode_payload_excess_blob_gas payload profile) (\<lambda>excess.
      bind (ssz_bytes32 payload PL_STATE_ROOT) (\<lambda>state_root.
      bind (ssz_bytes32 payload PL_RECEIPTS_ROOT) (\<lambda>receipts_root.
      bind (region_sub_slice payload PL_LOGS_BLOOM 256) (\<lambda>logs_bloom.
      bind (ssz_addr payload PL_FEE_RECIPIENT) (\<lambda>fee_recipient.
      bind (ssz_bytes32 payload 0) (\<lambda>parent_hash.
      bind (ssz_bytes32 (in_new_payload_request input_ref) NPR_BEACON_ROOT) (\<lambda>beacon_root.
      bind (decode_ssz_uint payload PL_SLOT_NUMBER) (\<lambda>slot_number.
      ret \<lparr>hdr_number = number, hdr_timestamp = timestamp, hdr_gas_limit = gas_limit,
        hdr_gas_used = gas_used, hdr_prev_randao = prev_randao, hdr_base_fee = base_fee,
        hdr_blob_gas_used = blob_gas_used, hdr_excess_blob_gas = excess,
        hdr_state_root = state_root, hdr_receipts_root = receipts_root,
        hdr_logs_bloom = logs_bloom, hdr_fee_recipient = fee_recipient,
        hdr_parent_hash = parent_hash, hdr_parent_beacon_block_root = beacon_root,
        hdr_slot_number = slot_number, hdr_extra_data = in_extra_data input_ref\<rparr>))))))))))))))))"

definition decode_withdrawal :: "region_slice \<Rightarrow> ('z, withdrawal) host" where
  "decode_withdrawal data =
     bind (decode_ssz_uint data WD_INDEX) (\<lambda>index.
     bind (decode_ssz_uint data WD_VALIDATOR_INDEX) (\<lambda>validator_index.
     bind (ssz_addr data WD_ADDRESS) (\<lambda>address.
     bind (decode_ssz_uint data WD_AMOUNT) (\<lambda>amount.
     ret \<lparr>wd_index = index, wd_validator_index = validator_index, wd_address = address,
       wd_amount = amount\<rparr>))))"

text \<open>
  The chain configuration holds one optional activation block and one optional activation time,
  at least one of them present; the block must not be before either.
\<close>

definition decode_chain_config :: "region_slice \<Rightarrow> int \<Rightarrow> int \<Rightarrow> ('z, chain_config) host" where
  "decode_chain_config cc number timestamp =
     (let cc_length = slice_len cc; bad = (\<lambda>b. do_when b (fatal_error InvalidConfig));
          activation_start = 16; activation_fixed_end = 24 in
      bind (bad (cc_length < CHAIN_CONFIG_HEADER_LENGTH)) (\<lambda>_.
      bind (ssz_u32 cc CC_ACTIVE_FORK_OFF) (\<lambda>f_offset.
      bind (bad (f_offset \<noteq> 12 \<or> cc_length < CHAIN_CONFIG_MIN_LENGTH)) (\<lambda>_.
      bind (ssz_u32 cc (ssz_field_offset 12 FC_ACTIVATION_OFF)) (\<lambda>activation_offset.
      bind (bad (activation_offset \<noteq> 4)) (\<lambda>_.
      bind (ssz_u32 cc (ssz_field_offset 16 FA_BLOCK_NUMBER_OFF)) (\<lambda>block_number_offset.
      bind (ssz_u32 cc (ssz_field_offset 16 FA_TIMESTAMP_OFF)) (\<lambda>timestamp_offset.
      bind (if block_number_offset \<le> cc_length - activation_start
            then ret (activation_start + block_number_offset) else fatal_error InvalidConfig)
        (\<lambda>block_number_start.
      bind (if timestamp_offset \<le> cc_length - activation_start
            then ret (activation_start + timestamp_offset) else fatal_error InvalidConfig)
        (\<lambda>timestamp_start.
      bind (bad (activation_fixed_end \<noteq> block_number_start)) (\<lambda>_.
      bind (bad (timestamp_start < block_number_start)) (\<lambda>_.
      bind (bad (cc_length < timestamp_start)) (\<lambda>_.
      let bn_length = timestamp_start - block_number_start; ts_length = cc_length - timestamp_start in
      bind (bad ((bn_length \<noteq> 0 \<and> bn_length \<noteq> SSZ_UINT_BYTES) \<or>
        (ts_length \<noteq> 0 \<and> ts_length \<noteq> SSZ_UINT_BYTES))) (\<lambda>_.
      bind (bad (bn_length = 0 \<and> ts_length = 0)) (\<lambda>_.
      bind (do_when (bn_length = SSZ_UINT_BYTES)
        (bind (decode_ssz_uint cc block_number_start) (\<lambda>activation_block.
         bad (number < activation_block)))) (\<lambda>_.
      bind (do_when (ts_length = SSZ_UINT_BYTES)
        (bind (decode_ssz_uint cc timestamp_start) (\<lambda>activation_timestamp.
         bad (timestamp < activation_timestamp)))) (\<lambda>_.
      bind (decode_ssz_uint cc CC_CHAIN_ID) (\<lambda>chain_id.
      ret \<lparr>config_chain_id = chain_id\<rparr>))))))))))))))))))"

definition decode_stateless_input ::
    "stateless_input_ref \<Rightarrow> ('z, stateless_input_fields) kernel" where
  "decode_stateless_input input_ref =
     bind (decode_block_header_ssz input_ref) (\<lambda>header.
     bind (decode_chain_config (in_chain_config input_ref) (hdr_number header)
       (hdr_timestamp header)) (\<lambda>config.
     bind (k_set_header header) (\<lambda>_.
     bind (modify (\<lambda>s. s\<lparr>k_chain_id := config_chain_id config\<rparr>)) (\<lambda>_.
     bind (execution_profile_for (in_protocol input_ref) (hdr_gas_limit header)) (\<lambda>profile.
     bind (modify (\<lambda>s. s\<lparr>k_execution_profile := profile\<rparr>)) (\<lambda>_.
     bind (ssz_bytes32 (in_execution_payload input_ref) PL_BLOCK_HASH) (\<lambda>block_hash.
     ret \<lparr>si_payload = \<lparr>expected_block_hash = block_hash,
            payload_block = \<lparr>block_header_of = header,
              block_body_of = \<lparr>body_transactions = in_transactions input_ref,
                body_withdrawals = in_withdrawals input_ref,
                body_block_access_list = in_block_access_list input_ref\<rparr>\<rparr>\<rparr>,
          si_chain_config = config\<rparr>)))))))"

definition decode_transaction ::
    "hash_function \<Rightarrow> region_slice \<Rightarrow> region_slice \<Rightarrow> ('z, transaction) kernel" where
  "decode_transaction keccak data public_key =
     bind (reads (\<lambda>s. protocol (k_execution_profile s))) (\<lambda>profile.
     if slice_len data \<le> 2 ^ 30
     then rlp_decode_tx keccak data public_key (transaction_blob_limit profile)
     else fatal_error InvalidConfig)"

definition sha256_request_digest ::
    "hash_function \<Rightarrow> byte \<Rightarrow> region_slice \<Rightarrow> ('z, hash) kernel" where
  "sha256_request_digest sha request_type data =
     bind (scratch_length_add 1 (slice_len data)) (\<lambda>digest_length.
     bind (scratch_reserve digest_length) (\<lambda>mark.
     bind (scratch_push_byte request_type) (\<lambda>_.
     bind (stateless_input_scratch_push_slice data) (\<lambda>_.
     bind (scratch_finish mark) (\<lambda>preimage.
     bind (hash_region sha ScratchRegion preimage) (\<lambda>digest.
     bind (scratch_rewind mark) (\<lambda>_. ret digest)))))))"

section \<open>The witness\<close>

text \<open>Trie nodes are stored under their hash, and codes are interned and analysed.\<close>

function index_witness_nodes_cursor ::
    "hash_function \<Rightarrow> bounded_ssz_list_cursor \<Rightarrow> 'z host_state_scheme
      \<Rightarrow> py_error + (unit \<times> 'z host_state_scheme)" where
  "index_witness_nodes_cursor keccak cursor s =
     (if ssz_list_cursor_empty cursor then ret ()
      else
        bind (ssz_list_pop cursor) (\<lambda>(node, next).
        bind (hash_region keccak InputRegion node) (\<lambda>node_hash.
        bind (nodedb_insert node_hash (slice_bytes node) (slice_len node)) (\<lambda>_.
        index_witness_nodes_cursor keccak next)))) s"
  by auto
termination
  by (relation "measure (\<lambda>(_, cursor, _). nat (sl_count (sc_items cursor) - sc_index cursor))")
    (auto dest: ssz_list_pop_shorter)

declare index_witness_nodes_cursor.simps [simp del]

definition index_witness_nodes ::
    "hash_function \<Rightarrow> bounded_ssz_list_ref \<Rightarrow> ('z, unit) host" where
  "index_witness_nodes keccak nodes =
     bind (ssz_list_cursor nodes) (index_witness_nodes_cursor keccak)"

function index_witness_codes_cursor ::
    "hash_function \<Rightarrow> bounded_ssz_list_cursor \<Rightarrow> 'z kernel_state_scheme
      \<Rightarrow> py_error + (unit \<times> 'z kernel_state_scheme)" where
  "index_witness_codes_cursor keccak cursor s =
     (if ssz_list_cursor_empty cursor then ret ()
      else
        bind active_fork (\<lambda>fork.
        bind (ssz_list_pop cursor) (\<lambda>(code, next).
        if MAX_WITNESS_CODE_LENGTH < slice_len code then fatal_error InvalidConfig
        else
          bind (code_db_intern_input code) (\<lambda>executable.
          bind (code_db_insert keccak executable fork) (\<lambda>_.
          index_witness_codes_cursor keccak next))))) s"
  by auto
termination
  by (relation "measure (\<lambda>(_, cursor, _). nat (sl_count (sc_items cursor) - sc_index cursor))")
    (auto dest: ssz_list_pop_shorter)

declare index_witness_codes_cursor.simps [simp del]

definition index_witness_codes ::
    "hash_function \<Rightarrow> bounded_ssz_list_ref \<Rightarrow> ('z, unit) kernel" where
  "index_witness_codes keccak codes =
     bind (ssz_list_cursor codes) (index_witness_codes_cursor keccak)"

subsection \<open>Parent headers\<close>

record parent_header_fields =
  ph_parent_hash :: hash
  ph_state_root :: hash
  ph_base_fee :: int
  ph_blob_gas_used :: int
  ph_excess_blob_gas :: int
  have_parent :: bool
  have_state :: bool
  have_base_fee :: bool
  have_blob_gas :: bool
  have_excess_blob_gas :: bool

definition EMPTY_PARENT_HEADER_FIELDS :: parent_header_fields where
  "EMPTY_PARENT_HEADER_FIELDS = \<lparr>ph_parent_hash = ZERO_HASH, ph_state_root = ZERO_HASH,
     ph_base_fee = ZERO_WORD, ph_blob_gas_used = 0, ph_excess_blob_gas = 0, have_parent = False,
     have_state = False, have_base_fee = False, have_blob_gas = False,
     have_excess_blob_gas = False\<rparr>"

record program_state = machine_state +
  empty_parent_fields :: parent_header_fields

type_synonym ('z, 'a) program = "('z program_state_scheme, 'a) action"

record witness_context =
  wc_parent_hash :: hash
  wc_parent_state_root :: hash
  wc_parent_base_fee_per_gas :: int
  wc_parent_blob_gas_used :: int
  wc_parent_excess_blob_gas :: int

definition next_parent_header_field :: "int \<Rightarrow> int" where
  "next_parent_header_field index = (if index < 19 then index + 1 else 19)"

definition set_parent_fields ::
    "(parent_header_fields \<Rightarrow> parent_header_fields) \<Rightarrow> ('z, unit) program" where
  "set_parent_fields f = modify (\<lambda>s. s\<lparr>empty_parent_fields := f (empty_parent_fields s)\<rparr>)"

text \<open>One field of a header, assigned to the shared object.\<close>

definition decode_parent_header_field :: "rlp_field_ref \<Rightarrow> int \<Rightarrow> ('z, unit) program" where
  "decode_parent_header_field field field_index =
     (if field_index = 0 then
        bind (rlp_decode_word field) (\<lambda>parent_hash_word.
        set_parent_fields (\<lambda>d. d\<lparr>ph_parent_hash := word_to_hash parent_hash_word,
          have_parent := True\<rparr>))
      else if field_index = 3 then
        bind (rlp_decode_word field) (\<lambda>state_root_word.
        set_parent_fields (\<lambda>d. d\<lparr>ph_state_root := word_to_hash state_root_word,
          have_state := True\<rparr>))
      else if field_index = 15 then
        bind (rlp_decode_u256 field) (\<lambda>base_fee.
        set_parent_fields (\<lambda>d. d\<lparr>ph_base_fee := base_fee, have_base_fee := True\<rparr>))
      else if field_index = 17 then
        bind (rlp_decode_uint64 field) (\<lambda>value.
        let count = sail_ediv_int value (2 ^ 17) in
        bind (reads (\<lambda>s. protocol (k_execution_profile s))) (\<lambda>profile.
        if count \<le> bs_max (pp_blob_schedule profile) \<and> value = 2 ^ 17 * count then
          set_parent_fields (\<lambda>d. d\<lparr>ph_blob_gas_used := 2 ^ 17 * count, have_blob_gas := True\<rparr>)
        else fatal_error RlpDecode))
      else if field_index = 18 then
        bind (rlp_decode_uint64 field) (\<lambda>value.
        bind (reads (\<lambda>s. protocol (k_execution_profile s))) (\<lambda>profile.
        if value \<le> excess_blob_gas_limit profile then
          bind (excess_blob_gas value) (\<lambda>value.
          set_parent_fields (\<lambda>d. d\<lparr>ph_excess_blob_gas := value, have_excess_blob_gas := True\<rparr>))
        else fatal_error RlpDecode))
      else ret ())"

function decode_parent_header_fields ::
    "region_slice \<Rightarrow> int \<Rightarrow> 'z program_state_scheme
      \<Rightarrow> py_error + (parent_header_fields \<times> 'z program_state_scheme)" where
  "decode_parent_header_fields cursor field_index s =
     (if slice_len cursor = 0 then reads empty_parent_fields
      else
        bind (rlp_next cursor) (\<lambda>(field, next).
        bind (decode_parent_header_field field field_index) (\<lambda>_.
        let next_field = next_parent_header_field field_index in
        decode_parent_header_fields next next_field))) s"
  by auto
termination
  by (relation "measure (\<lambda>(cursor, _). nat (slice_len cursor))") (auto dest: rlp_next_shorter)

declare decode_parent_header_fields.simps [simp del]

record witness_header_index =
  whi_cursor :: bounded_ssz_list_cursor
  whi_previous_hash :: hash
  whi_valid :: bool
  whi_parent_state_root :: hash
  whi_parent_base_fee_per_gas :: int
  whi_parent_blob_gas_used :: int
  whi_parent_excess_blob_gas :: int
  whi_parent_fields_valid :: bool

text \<open>What a decoded header contributes: the link to its parent, and the fields of the last one.\<close>

definition link_witness_header ::
    "fork \<Rightarrow> int \<Rightarrow> bool \<Rightarrow> parent_header_fields \<Rightarrow> witness_header_index \<Rightarrow> witness_header_index" where
  "link_witness_header fork index is_last decoded state =
     (let linked = (if index \<noteq> 0 \<and> (\<not> have_parent decoded \<or>
            ph_parent_hash decoded \<noteq> whi_previous_hash state)
            then state\<lparr>whi_valid := False\<rparr> else state) in
      if is_last then
        linked\<lparr>whi_parent_state_root := ph_state_root decoded,
          whi_parent_base_fee_per_gas := ph_base_fee decoded,
          whi_parent_blob_gas_used := ph_blob_gas_used decoded,
          whi_parent_excess_blob_gas := ph_excess_blob_gas decoded,
          whi_parent_fields_valid := (have_state decoded \<and>
            (fork \<ge> Cancun \<longrightarrow> have_base_fee decoded \<and>
              have_blob_gas decoded = have_excess_blob_gas decoded))\<rparr>
      else linked)"

function index_witness_header_cursor ::
    "hash_function \<Rightarrow> witness_header_index \<Rightarrow> 'z program_state_scheme
      \<Rightarrow> py_error + (witness_header_index \<times> 'z program_state_scheme)" where
  "index_witness_header_cursor keccak state s =
     (if ssz_list_cursor_empty (whi_cursor state) then ret state
      else
        bind active_fork (\<lambda>fork.
        let index = sc_index (whi_cursor state); count = sl_count (sc_items (whi_cursor state)) in
        bind (ssz_list_pop (whi_cursor state)) (\<lambda>(header, next).
        let is_last = (sc_index next = count) in
        bind (if index \<noteq> 0 \<or> is_last then
                bind (rlp_node_cursor header) (\<lambda>cursor.
                bind (decode_parent_header_fields cursor 0) (\<lambda>decoded.
                ret (link_witness_header fork index is_last decoded state)))
              else ret state) (\<lambda>linked.
        bind (hash_region keccak InputRegion header) (\<lambda>current_hash.
        bind (if sc_index next \<le> count then ret (count - sc_index next)
              else fatal_error WitnessDeficient) (\<lambda>distance.
        bind (do_when (distance < 256) (ancestor_hash_write distance current_hash)) (\<lambda>_.
        index_witness_header_cursor keccak
          (linked\<lparr>whi_cursor := next, whi_previous_hash := current_hash\<rparr>)))))))) s"
  by auto
termination
  by (relation "measure (\<lambda>(_, state, _). nat (sl_count (sc_items (whi_cursor state)) -
      sc_index (whi_cursor state)))") (auto dest: ssz_list_pop_shorter)

declare index_witness_header_cursor.simps [simp del]

definition index_witness_headers ::
    "hash_function \<Rightarrow> bounded_ssz_list_ref \<Rightarrow> ('z, witness_context) program" where
  "index_witness_headers keccak headers =
     bind (ssz_list_cursor headers) (\<lambda>cursor.
     bind (index_witness_header_cursor keccak \<lparr>whi_cursor = cursor, whi_previous_hash = ZERO_HASH,
       whi_valid = (sl_count headers \<noteq> 0), whi_parent_state_root = ZERO_HASH,
       whi_parent_base_fee_per_gas = ZERO_WORD, whi_parent_blob_gas_used = 0,
       whi_parent_excess_blob_gas = 0, whi_parent_fields_valid = False\<rparr>) (\<lambda>indexed.
     bind (ranged 0 256 (sl_count headers)) (\<lambda>count.
     bind (modify (\<lambda>s. s\<lparr>k_n_headers := count\<rparr>)) (\<lambda>_.
     bind (do_when (\<not> whi_valid indexed) (fatal_error WitnessDeficient)) (\<lambda>_.
     bind (do_when (\<not> whi_parent_fields_valid indexed) (fatal_error RlpDecode)) (\<lambda>_.
     ret \<lparr>wc_parent_hash = whi_previous_hash indexed,
       wc_parent_state_root = whi_parent_state_root indexed,
       wc_parent_base_fee_per_gas = whi_parent_base_fee_per_gas indexed,
       wc_parent_blob_gas_used = whi_parent_blob_gas_used indexed,
       wc_parent_excess_blob_gas = whi_parent_excess_blob_gas indexed\<rparr>))))))"

definition index_execution_witness ::
    "hash_function \<Rightarrow> stateless_input_ref \<Rightarrow> ('z, witness_context) program" where
  "index_execution_witness keccak input_ref =
     bind nodedb_reset (\<lambda>_.
     bind (index_witness_nodes keccak (in_witness_state input_ref)) (\<lambda>_.
     bind (index_witness_codes keccak (in_witness_codes input_ref)) (\<lambda>_.
     bind (index_witness_headers keccak (in_witness_headers input_ref)) (\<lambda>witness.
     bind (modify (\<lambda>s. s\<lparr>k_parent_state_root := wc_parent_state_root witness\<rparr>)) (\<lambda>_.
     ret witness)))))"

end
