(* ===== verification/Tx_Gas.thy ===== *)
theory Tx_Gas
  imports Tx_Codec Gas_Precompiles Logs_Bloom
begin

text \<open>
  The gas of a transaction: the records of \<open>primitives/evm.py\<close> that carry it, whose validators
  state how their fields are related, and the part of \<open>evm/transaction.py\<close> that computes it: the
  intrinsic costs, the upfront cost, the allowance that a block leaves, the gas a frame starts
  with, and the snapshot it ends with.
\<close>

section \<open>Records\<close>

record transaction_gas_allowance_fields =
  tga_total :: int
  tga_regular :: int

record transaction_initial_gas_fields =
  tig_admitted_limit :: int
  tig_regular_limit :: int
  tig_intrinsic_execution :: int
  tig_intrinsic_state :: int
  tig_calldata_floor :: int
  tig_execution_remaining :: int
  tig_state_remaining :: int

text \<open>\<open>transaction_initial_gas_relation\<close>.\<close>

definition transaction_initial_gas_relation :: "transaction_initial_gas_fields \<Rightarrow> bool" where
  "transaction_initial_gas_relation g \<longleftrightarrow>
     0 \<le> tig_intrinsic_execution g \<and> 0 \<le> tig_intrinsic_state g \<and> 0 \<le> tig_calldata_floor g \<and>
     tig_intrinsic_execution g \<le> tig_regular_limit g \<and>
     tig_calldata_floor g \<le> tig_regular_limit g \<and>
     tig_regular_limit g \<le> tig_admitted_limit g \<and> tig_admitted_limit g \<le> 2 ^ 64 - 1 \<and>
     0 \<le> tig_execution_remaining g \<and> 0 \<le> tig_state_remaining g \<and>
     tig_execution_remaining g + tig_state_remaining g + tig_intrinsic_execution g +
       tig_intrinsic_state g = tig_admitted_limit g \<and>
     tig_execution_remaining g \<le> tig_regular_limit g - tig_intrinsic_execution g"

definition checked_initial_gas ::
    "transaction_initial_gas_fields \<Rightarrow> ('s, transaction_initial_gas_fields) action" where
  "checked_initial_gas g =
     (if transaction_initial_gas_relation g then ret g
      else raise (ValueError ''TransactionInitialGasFieldsValidity violates Sail constraint''))"

record tx_validity_fields =
  txv_sender :: address
  txv_nonce_before :: int
  txv_gas :: transaction_initial_gas_fields
  txv_blob_fee :: int
  txv_gas_price :: int
  txv_priority_fee :: int

record tx_frame_gas_snapshot_fields =
  tgs_admitted_limit :: int
  tgs_regular_limit :: int
  tgs_calldata_floor :: int
  tgs_remaining :: int
  tgs_state_used :: int

text \<open>\<open>tx_frame_gas_snapshot_relation\<close>.\<close>

definition tx_frame_gas_snapshot_relation :: "tx_frame_gas_snapshot_fields \<Rightarrow> bool" where
  "tx_frame_gas_snapshot_relation g \<longleftrightarrow>
     0 \<le> tgs_regular_limit g \<and> tgs_regular_limit g \<le> tgs_admitted_limit g \<and>
     tgs_admitted_limit g \<le> 2 ^ 64 - 1 \<and>
     0 \<le> tgs_calldata_floor g \<and> tgs_calldata_floor g \<le> tgs_regular_limit g \<and>
     0 \<le> tgs_remaining g \<and> 0 \<le> tgs_state_used g \<and> tgs_state_used g \<le> tgs_admitted_limit g \<and>
     tgs_remaining g + tgs_state_used g \<le> tgs_admitted_limit g \<and>
     tgs_admitted_limit g - tgs_remaining g - tgs_state_used g \<le> tgs_regular_limit g"

definition tx_frame_gas_snapshot_fields ::
    "int \<Rightarrow> int \<Rightarrow> int \<Rightarrow> int \<Rightarrow> int \<Rightarrow> ('s, tx_frame_gas_snapshot_fields) action" where
  "tx_frame_gas_snapshot_fields limit regular calldata_floor remaining state_used =
     (let g = \<lparr>tgs_admitted_limit = limit, tgs_regular_limit = regular,
            tgs_calldata_floor = calldata_floor, tgs_remaining = remaining,
            tgs_state_used = state_used\<rparr> in
      if tx_frame_gas_snapshot_relation g then ret g
      else raise (ValueError ''TxFrameGasSnapshotFieldsValidity violates Sail constraint''))"

record tx_frame_result_fields =
  tfr_success :: bool
  tfr_gas :: tx_frame_gas_snapshot_fields
  tfr_refund :: int

definition tx_frame_result ::
    "int \<Rightarrow> int \<Rightarrow> bool \<Rightarrow> tx_frame_gas_snapshot_fields \<Rightarrow> int \<Rightarrow> ('s, tx_frame_result_fields) action" where
  "tx_frame_result limit regular succeeded g refund =
     (if \<not> (0 \<le> regular \<and> regular \<le> limit \<and> limit \<le> 2 ^ 64 - 1) then
        raise (ValueError ''TxFrameResultFieldsValidity violates Sail constraint'')
      else if \<not> (- GAS_REFUND_LIMIT \<le> refund \<and> refund \<le> GAS_REFUND_LIMIT) then
        raise (ValueError ''TxFrameResultFields.refund violates Sail type range'')
      else ret \<lparr>tfr_success = succeeded, tfr_gas = g, tfr_refund = refund\<rparr>)"

record intrinsic_gas_cost =
  igc_execution :: int
  igc_state :: int
  igc_calldata_floor :: int

record transaction_costs =
  tc_intrinsic_execution :: int
  tc_intrinsic_state :: int
  tc_calldata_floor :: int
  tc_blob_gas :: int
  tc_blob_fee :: int
  tc_upfront :: int

section \<open>Prices\<close>

definition G_transaction :: int where "G_transaction = 21000"
definition G_txcreate :: int where "G_txcreate = 32000"
definition G_txdatazero :: int where "G_txdatazero = 4"
definition G_txdatanonzero :: int where "G_txdatanonzero = 16"
definition G_access_list_address :: int where "G_access_list_address = 2400"
definition G_access_list_storage_key :: int where "G_access_list_storage_key = 1900"
definition PER_AUTH_BASE :: int where "PER_AUTH_BASE = 12500"
definition PER_EMPTY_ACCOUNT :: int where "PER_EMPTY_ACCOUNT = 25000"
definition AMSTERDAM_TX_BASE :: int where "AMSTERDAM_TX_BASE = 12000"
definition AMSTERDAM_CREATE_ACCESS :: int where "AMSTERDAM_CREATE_ACCESS = 11000"
definition AMSTERDAM_COLD_ACCOUNT_ACCESS :: int where "AMSTERDAM_COLD_ACCOUNT_ACCESS = 3000"
definition AMSTERDAM_TX_VALUE_COST :: int where "AMSTERDAM_TX_VALUE_COST = 4244"
definition AMSTERDAM_TRANSFER_LOG_COST :: int where "AMSTERDAM_TRANSFER_LOG_COST = 1756"
definition AMSTERDAM_ACCESS_LIST_ADDRESS :: int where "AMSTERDAM_ACCESS_LIST_ADDRESS = 3000"
definition AMSTERDAM_ACCESS_LIST_SLOT :: int where "AMSTERDAM_ACCESS_LIST_SLOT = 3000"
definition AMSTERDAM_ACCESS_LIST_ADDRESS_FLOOR :: int where
  "AMSTERDAM_ACCESS_LIST_ADDRESS_FLOOR = 1280"
definition AMSTERDAM_ACCESS_LIST_SLOT_FLOOR :: int where
  "AMSTERDAM_ACCESS_LIST_SLOT_FLOOR = 2048"
definition AMSTERDAM_AUTH_BASE :: int where "AMSTERDAM_AUTH_BASE = 7816"
definition AMSTERDAM_CALLDATA_FLOOR_BYTE :: int where "AMSTERDAM_CALLDATA_FLOOR_BYTE = 64"

section \<open>Intrinsic costs\<close>

definition transaction_calldata_cost :: "int \<Rightarrow> ('s, int) action" where
  "transaction_calldata_cost = ranged 0 17179869184"

definition transaction_calldata_floor_cost :: "int \<Rightarrow> ('s, int) action" where
  "transaction_calldata_floor_cost = ranged 0 42949693960"

text \<open>The zero and the nonzero bytes of the calldata.\<close>

definition calldata_counts ::
    "region_slice \<Rightarrow> (int \<Rightarrow> int \<Rightarrow> ('z, int) host) \<Rightarrow> ('z, int) host" where
  "calldata_counts data price =
     bind (slice_count_nonzero data) (\<lambda>nonzeroes.
     let input_len = slice_len data in
     if nonzeroes \<le> input_len then price (input_len - nonzeroes) nonzeroes
     else fatal_error ExecutionInvalid)"

definition calldata_cost :: "region_slice \<Rightarrow> ('z, int) host" where
  "calldata_cost data = calldata_counts data (\<lambda>zeroes nonzeroes.
     transaction_calldata_cost (G_txdatazero * zeroes + G_txdatanonzero * nonzeroes))"

definition legacy_calldata_floor :: "region_slice \<Rightarrow> ('z, int) host" where
  "legacy_calldata_floor data = calldata_counts data (\<lambda>zeroes nonzeroes.
     transaction_calldata_floor_cost (10 * zeroes + 40 * nonzeroes + G_transaction))"

definition legacy_intrinsic_gas :: "transaction \<Rightarrow> ('z, int) kernel" where
  "legacy_intrinsic_gas tx =
     bind (calldata_cost (txn_input tx)) (\<lambda>data_cost.
     let input_len = slice_len (txn_input tx);
         address_cost = G_access_list_address * alr_address_count (txn_access_list tx);
         slot_cost = G_access_list_storage_key * alr_slot_count (txn_access_list tx);
         auth_cost = PER_EMPTY_ACCOUNT * aur_count (txn_authorizations tx);
         common = data_cost + G_transaction + address_cost + slot_cost + auth_cost in
     if txn_is_create tx
     then bind (transaction_initcode_gas input_len) (\<lambda>initcode.
       gas_u64 (common + G_txcreate + initcode))
     else gas_u64 common)"

definition amsterdam_recipient_cost :: "int \<Rightarrow> ('s, int) action" where
  "amsterdam_recipient_cost = ranged 0 12756"

definition amsterdam_recipient_execution_cost :: "transaction \<Rightarrow> ('s, int) action" where
  "amsterdam_recipient_execution_cost tx =
     (let transfers_value = word_nonzero (txn_value tx) in
      if txn_is_create tx then
        if transfers_value
        then amsterdam_recipient_cost (AMSTERDAM_CREATE_ACCESS + AMSTERDAM_TRANSFER_LOG_COST)
        else amsterdam_recipient_cost AMSTERDAM_CREATE_ACCESS
      else if txn_recipient tx \<noteq> txn_sender tx then
        if transfers_value
        then amsterdam_recipient_cost
          (AMSTERDAM_COLD_ACCOUNT_ACCESS + AMSTERDAM_TX_VALUE_COST + AMSTERDAM_TRANSFER_LOG_COST)
        else amsterdam_recipient_cost AMSTERDAM_COLD_ACCOUNT_ACCESS
      else amsterdam_recipient_cost 0)"

definition intrinsic_gas :: "transaction \<Rightarrow> ('z, intrinsic_gas_cost) kernel" where
  "intrinsic_gas tx =
     bind active_fork (\<lambda>fork.
     if fork < Amsterdam then
       bind (legacy_intrinsic_gas tx) (\<lambda>execution.
       bind (legacy_calldata_floor (txn_input tx)) (\<lambda>calldata_floor.
       ret \<lparr>igc_execution = execution, igc_state = 0, igc_calldata_floor = calldata_floor\<rparr>))
     else
       bind (amsterdam_recipient_execution_cost tx) (\<lambda>recipient.
       let input_length = slice_len (txn_input tx);
           address_count = alr_address_count (txn_access_list tx);
           slot_count = alr_slot_count (txn_access_list tx);
           access_execution = AMSTERDAM_ACCESS_LIST_ADDRESS * address_count +
             AMSTERDAM_ACCESS_LIST_SLOT * slot_count +
             AMSTERDAM_ACCESS_LIST_ADDRESS_FLOOR * address_count +
             AMSTERDAM_ACCESS_LIST_SLOT_FLOOR * slot_count;
           authorization_execution = AMSTERDAM_AUTH_BASE * aur_count (txn_authorizations tx) in
       bind (if txn_is_create tx then transaction_initcode_gas input_length else ret 0)
         (\<lambda>create_execution.
       bind (calldata_cost (txn_input tx)) (\<lambda>data_cost.
       let execution = data_cost + AMSTERDAM_TX_BASE + recipient + access_execution +
             authorization_execution + create_execution;
           floor_cost = AMSTERDAM_CALLDATA_FLOOR_BYTE * input_length + AMSTERDAM_TX_BASE + recipient +
             AMSTERDAM_ACCESS_LIST_ADDRESS_FLOOR * address_count +
             AMSTERDAM_ACCESS_LIST_SLOT_FLOOR * slot_count in
       bind (gas_u64 execution) (\<lambda>execution.
       bind (gas_u64 floor_cost) (\<lambda>calldata_floor.
       ret \<lparr>igc_execution = execution, igc_state = 0,
         igc_calldata_floor = calldata_floor\<rparr>)))))) "

section \<open>Upfront costs\<close>

definition transaction_blob_fee :: "int \<Rightarrow> int \<Rightarrow> int" where
  "transaction_blob_fee blob_price blob_gas = blob_price * blob_gas"

definition transaction_upfront_cost :: "int \<Rightarrow> int \<Rightarrow> int \<Rightarrow> int \<Rightarrow> int \<Rightarrow> int" where
  "transaction_upfront_cost max_fee gas_limit value max_blob_fee blob_gas =
     max_fee * gas_limit + value + max_blob_fee * blob_gas"

definition transaction_costs ::
    "protocol_profile \<Rightarrow> transaction \<Rightarrow> int \<Rightarrow> int \<Rightarrow> ('z, transaction_costs) kernel" where
  "transaction_costs profile tx gas_limit excess =
     bind (intrinsic_gas tx) (\<lambda>intrinsic.
     let blob_gas = 2 ^ 17 * blob_count (txn_blob_hashes tx) in
     bind (if blob_gas = 0 then ret 0
           else
             bind (blob_base_fee (pp_fork profile) (pp_blob_schedule profile)
               (excess_blob_gas_limit profile) excess) (\<lambda>blob_price.
             if blob_price \<le> txn_max_blob_fee tx then ret (transaction_blob_fee blob_price blob_gas)
             else fatal_error ExecutionInvalid)) (\<lambda>blob_fee_value.
     let upfront_value = transaction_upfront_cost (txn_max_fee tx) gas_limit (txn_value tx)
           (txn_max_blob_fee tx) blob_gas in
     if blob_fee_value < 2 ^ 256 \<and> upfront_value < 2 ^ 256 then
       bind (protocol_word blob_fee_value) (\<lambda>blob_fee.
       bind (protocol_word upfront_value) (\<lambda>upfront.
       ret \<lparr>tc_intrinsic_execution = igc_execution intrinsic,
         tc_intrinsic_state = igc_state intrinsic,
         tc_calldata_floor = igc_calldata_floor intrinsic, tc_blob_gas = blob_gas,
         tc_blob_fee = blob_fee, tc_upfront = upfront\<rparr>))
     else fatal_error ExecutionInvalid))"

definition validated_word_product :: "int \<Rightarrow> int \<Rightarrow> ('s, int) action" where
  "validated_word_product value factor =
     (let product = value * factor in
      if product < 2 ^ 256 then protocol_word product else fatal_error ExecutionInvalid)"

section \<open>The gas of the frame\<close>

text \<open>What the frame leaves: remaining gas, and the state gas used, at least zero.\<close>

definition tx_frame_gas_snapshot ::
    "transaction_initial_gas_fields \<Rightarrow> int \<Rightarrow> int \<Rightarrow> int
      \<Rightarrow> ('s, tx_frame_gas_snapshot_fields) action" where
  "tx_frame_gas_snapshot initial execution state state_delta =
     (let limit = tig_admitted_limit initial; regular = tig_regular_limit initial;
          snapshot = tx_frame_gas_snapshot_fields limit regular (tig_calldata_floor initial) in
      if execution \<le> limit then
        (let room = limit - execution in
         if state \<le> room then
           (let remaining = execution + state; spent = limit - remaining;
                raw_state_used = tig_intrinsic_state initial + state_delta in
            if raw_state_used \<le> 0 then
              if spent \<le> regular then snapshot remaining 0 else fatal_error ExecutionInvalid
            else if raw_state_used \<le> spent then
              if spent - raw_state_used \<le> regular then snapshot remaining raw_state_used
              else fatal_error ExecutionInvalid
            else fatal_error ExecutionInvalid)
         else fatal_error ExecutionInvalid)
      else fatal_error ExecutionInvalid)"

definition transaction_gas_allowance_fields ::
    "int \<Rightarrow> int \<Rightarrow> int \<Rightarrow> ('s, transaction_gas_allowance_fields) action" where
  "transaction_gas_allowance_fields value total_limit regular_limit =
     (let regular = (if value < regular_limit then value else regular_limit) in
      if 0 \<le> regular \<and> regular \<le> value \<and> value \<le> 2 ^ 64 - 1
      then ret \<lparr>tga_total = value, tga_regular = regular\<rparr>
      else raise (ValueError ''TransactionGasAllowanceFieldsValidity violates Sail constraint''))"

definition transaction_gas_allowance ::
    "int \<Rightarrow> int \<Rightarrow> int \<Rightarrow> ('s, transaction_gas_allowance_fields) action" where
  "transaction_gas_allowance value total_limit regular_limit =
     (if total_limit < value then fatal_error ExecutionInvalid
      else transaction_gas_allowance_fields value total_limit regular_limit)"

text \<open>Intrinsic costs are paid first; what the regular limit leaves over is the state reservoir.\<close>

definition transaction_initial_gas ::
    "transaction_gas_allowance_fields \<Rightarrow> int \<Rightarrow> int \<Rightarrow> int
      \<Rightarrow> ('s, transaction_initial_gas_fields) action" where
  "transaction_initial_gas allowance intrinsic_execution intrinsic_state calldata_floor =
     (let initial = (\<lambda>execution state. checked_initial_gas
            \<lparr>tig_admitted_limit = tga_total allowance, tig_regular_limit = tga_regular allowance,
             tig_intrinsic_execution = intrinsic_execution, tig_intrinsic_state = intrinsic_state,
             tig_calldata_floor = calldata_floor, tig_execution_remaining = execution,
             tig_state_remaining = state\<rparr>) in
      if tga_total allowance < intrinsic_execution then fatal_error ExecutionInvalid
      else
        (let after_execution = tga_total allowance - intrinsic_execution in
         if after_execution < intrinsic_state then fatal_error ExecutionInvalid
         else if tga_regular allowance < intrinsic_execution \<or>
                 tga_regular allowance < calldata_floor
         then fatal_error ExecutionInvalid
         else
           (let available = after_execution - intrinsic_state;
                regular_budget = tga_regular allowance - intrinsic_execution in
            if available < regular_budget then initial available 0
            else initial regular_budget (available - regular_budget))))"

section \<open>Fees and refunds\<close>

text \<open>The effective gas price and the part of it above the base fee.\<close>

definition eff_gas_price_for :: "int \<Rightarrow> int \<Rightarrow> int \<Rightarrow> int \<times> int" where
  "eff_gas_price_for base_fee max_fee max_priority_fee =
     (let price =
            (if word_ule max_fee base_fee then max_fee
             else
               (let available_priority = word_sub_word max_fee base_fee in
                if word_ule max_priority_fee available_priority
                then word_add_word base_fee max_priority_fee else max_fee));
          priority = (if word_ule base_fee price then word_sub_word price base_fee else ZERO_WORD)
      in (price, priority))"

definition remaining_gas_after_refund :: "int \<Rightarrow> int \<Rightarrow> int \<Rightarrow> int \<Rightarrow> int" where
  "remaining_gas_after_refund limit refund_total remaining cap =
     (let refund = (if refund_total \<le> 0 then 0 else if refund_total \<le> cap then refund_total else cap)
      in remaining + refund)"

record receipt =
  rcpt_tx_type :: tx_type
  rcpt_success :: bool
  rcpt_gas_used :: int
  rcpt_execution_gas :: int
  rcpt_state_gas :: int
  rcpt_logs :: log_series_ref

text \<open>\<open>receipt_gas_relation\<close>.\<close>

definition receipt_gas_relation :: "int \<Rightarrow> int \<Rightarrow> int \<Rightarrow> int \<Rightarrow> int \<Rightarrow> bool" where
  "receipt_gas_relation limit regular_limit gas_used execution_gas state_gas \<longleftrightarrow>
     0 \<le> limit \<and> limit \<le> 2 ^ 64 - 1 \<and> 0 \<le> regular_limit \<and> regular_limit \<le> limit \<and>
     0 \<le> gas_used \<and> gas_used \<le> limit \<and> 0 \<le> execution_gas \<and> execution_gas \<le> regular_limit \<and>
     0 \<le> state_gas \<and> state_gas \<le> limit \<and> gas_used \<le> execution_gas + state_gas"

definition receipt_fields ::
    "int \<Rightarrow> int \<Rightarrow> tx_type \<Rightarrow> bool \<Rightarrow> int \<Rightarrow> int \<Rightarrow> int \<Rightarrow> log_series_ref \<Rightarrow> ('s, receipt) action" where
  "receipt_fields limit regular_limit t succeeded gas_used execution_gas state_gas series =
     (if receipt_gas_relation limit regular_limit gas_used execution_gas state_gas
      then ret \<lparr>rcpt_tx_type = t, rcpt_success = succeeded, rcpt_gas_used = gas_used,
        rcpt_execution_gas = execution_gas, rcpt_state_gas = state_gas, rcpt_logs = series\<rparr>
      else raise (ValueError ''ReceiptFieldsValidity violates Sail constraint''))"

definition receipt_within ::
    "int \<Rightarrow> int \<Rightarrow> tx_type \<Rightarrow> bool \<Rightarrow> int \<Rightarrow> int \<Rightarrow> int \<Rightarrow> log_series_ref \<Rightarrow> ('s, receipt) action" where
  "receipt_within = receipt_fields"

end
