(* ===== verification/Receipts.thy ===== *)
theory Receipts
  imports Tx_Gas Ssz
begin

text \<open>
  Receipts: the RLP codec of \<open>lib/rlp/codecs/receipts.py\<close>, which first computes the length of
  every part and then writes it, and the store of encoded receipts in the scratch arena of
  \<open>executor/receipts.py\<close>, where every record is preceded by its length in eight bytes, the least
  significant first. The blooms of \<open>primitives/block.py\<close> that read a reference are here too.
\<close>

section \<open>Logs\<close>

definition LOGS_BLOOM_BYTE_LENGTH :: int where "LOGS_BLOOM_BYTE_LENGTH = 256"
definition EIGHT_BYTE_LENGTH :: int where "EIGHT_BYTE_LENGTH = 8"

function topics_size_from :: "int \<Rightarrow> int \<Rightarrow> int \<Rightarrow> int \<Rightarrow> ('s, int) action" where
  "topics_size_from topic_count encoded_word_length enc_size topic =
     (if topic < topic_count then
        bind (rlp_scratch_length_add enc_size encoded_word_length) (\<lambda>enc_size.
        bind (log_store_index_increment topic) (\<lambda>_.
        topics_size_from topic_count encoded_word_length enc_size (topic + 1)))
      else ret enc_size)"
  by pat_completeness auto
termination
  by (relation "measure (\<lambda>(topic_count, _, _, topic). nat (topic_count - topic))") auto

declare topics_size_from.simps [simp del]

definition topics_rlp_content_size :: "int \<Rightarrow> ('z, int) kernel" where
  "topics_rlp_content_size index =
     bind (log_topics_count index) (\<lambda>topic_count.
     bind (rlp_scratch_small_length rlp_word_size) (\<lambda>encoded_word_length.
     topics_size_from topic_count encoded_word_length 0 0))"

definition topics_rlp_size :: "int \<Rightarrow> ('z, int) kernel" where
  "topics_rlp_size index = bind (topics_rlp_content_size index) rlp_scratch_list_size"

definition log_entry_rlp_content_size :: "int \<Rightarrow> ('z, int) kernel" where
  "log_entry_rlp_content_size index =
     bind (rlp_scratch_small_length rlp_addr_size) (\<lambda>address_length.
     bind (topics_rlp_size index) (\<lambda>topics_length.
     bind (read_log_data index) (\<lambda>data.
     bind (rlp_log_scratch_slice_size data) (\<lambda>data_length.
     bind (rlp_scratch_length_add address_length topics_length) (\<lambda>address_and_topics_length.
     rlp_scratch_length_add address_and_topics_length data_length)))))"

definition log_entry_rlp_size :: "int \<Rightarrow> ('z, int) kernel" where
  "log_entry_rlp_size index = bind (log_entry_rlp_content_size index) rlp_scratch_list_size"

function logs_size_from :: "log_series_ref \<Rightarrow> int \<Rightarrow> int \<Rightarrow> ('z, int) kernel" where
  "logs_size_from series enc_size offset =
     (if offset < series_count series then
        bind (log_store_index_add (series_start series) offset) (\<lambda>index.
        bind (log_entry_rlp_size index) (\<lambda>entry_size.
        bind (rlp_scratch_length_add enc_size entry_size) (\<lambda>enc_size.
        bind (log_store_index_increment offset) (\<lambda>_.
        logs_size_from series enc_size (offset + 1)))))
      else ret enc_size)"
  by pat_completeness auto
termination
  by (relation "measure (\<lambda>(series, _, offset). nat (series_count series - offset))") auto

declare logs_size_from.simps [simp del]

definition logs_rlp_content_size :: "log_series_ref \<Rightarrow> ('z, int) kernel" where
  "logs_rlp_content_size series = logs_size_from series 0 0"

definition logs_rlp_size :: "log_series_ref \<Rightarrow> ('z, int) kernel" where
  "logs_rlp_size series = bind (logs_rlp_content_size series) rlp_scratch_list_size"

function write_topics_from :: "int \<Rightarrow> int \<Rightarrow> int \<Rightarrow> ('z, unit) kernel" where
  "write_topics_from index topic_count topic =
     (if topic < topic_count then
        bind (log_topic index topic) (\<lambda>value.
        bind (rlp_write_word value) (\<lambda>_.
        bind (log_store_index_increment topic) (\<lambda>_.
        write_topics_from index topic_count (topic + 1))))
      else ret ())"
  by pat_completeness auto
termination
  by (relation "measure (\<lambda>(_, topic_count, topic). nat (topic_count - topic))") auto

declare write_topics_from.simps [simp del]

definition rlp_write_topics :: "int \<Rightarrow> ('z, unit) kernel" where
  "rlp_write_topics index =
     bind (topics_rlp_content_size index) (\<lambda>content_size.
     bind (rlp_write_list_prefix content_size) (\<lambda>_.
     bind (log_topics_count index) (\<lambda>topic_count.
     write_topics_from index topic_count 0)))"

definition rlp_write_log_entry :: "int \<Rightarrow> ('z, unit) kernel" where
  "rlp_write_log_entry index =
     bind (log_entry_rlp_content_size index) (\<lambda>content_size.
     bind (rlp_write_list_prefix content_size) (\<lambda>_.
     bind (log_address index) (\<lambda>a.
     bind (rlp_write_addr a) (\<lambda>_.
     bind (rlp_write_topics index) (\<lambda>_.
     bind (read_log_data index) rlp_write_log_data_slice)))))"

function write_logs_from :: "log_series_ref \<Rightarrow> int \<Rightarrow> ('z, unit) kernel" where
  "write_logs_from series offset =
     (if offset < series_count series then
        bind (log_store_index_add (series_start series) offset) (\<lambda>index.
        bind (rlp_write_log_entry index) (\<lambda>_.
        bind (log_store_index_increment offset) (\<lambda>_.
        write_logs_from series (offset + 1))))
      else ret ())"
  by pat_completeness auto
termination
  by (relation "measure (\<lambda>(series, offset). nat (series_count series - offset))") auto

declare write_logs_from.simps [simp del]

definition rlp_write_logs :: "log_series_ref \<Rightarrow> ('z, unit) kernel" where
  "rlp_write_logs series =
     bind (logs_rlp_content_size series) (\<lambda>content_size.
     bind (rlp_write_list_prefix content_size) (\<lambda>_. write_logs_from series 0))"

section \<open>Receipts\<close>

definition rlp_write_logs_bloom :: "bytes \<Rightarrow> ('z, unit) kernel" where
  "rlp_write_logs_bloom bloom =
     bind (rlp_write_string_prefix LOGS_BLOOM_BYTE_LENGTH 0) (\<lambda>_.
     scratch_push_fixed_bytes_256 bloom)"

definition receipt_write_logs_bloom :: "hash_function \<Rightarrow> receipt \<Rightarrow> ('z, unit) kernel" where
  "receipt_write_logs_bloom keccak r =
     bind (logs_bloom_for_logs keccak (rcpt_logs r)) rlp_write_logs_bloom"

definition receipt_status :: "receipt \<Rightarrow> int" where
  "receipt_status r = (if rcpt_success r then 1 else 0)"

definition receipt_payload_content_size :: "receipt \<Rightarrow> int \<Rightarrow> ('z, int) kernel" where
  "receipt_payload_content_size r cumulative_gas_used =
     bind (rlp_uint_word_size (receipt_status r)) (\<lambda>status_size.
     bind (rlp_scratch_small_length status_size) (\<lambda>status_length.
     bind (word_of_nat_byte_count cumulative_gas_used) (\<lambda>gas_word.
     bind (rlp_uint_word_size gas_word) (\<lambda>gas_size.
     bind (rlp_scratch_small_length gas_size) (\<lambda>gas_length.
     bind (rlp_length_prefix_len LOGS_BLOOM_BYTE_LENGTH) (\<lambda>bloom_prefix_size.
     bind (rlp_scratch_small_length bloom_prefix_size) (\<lambda>bloom_prefix_length.
     bind (rlp_scratch_length_add LOGS_BLOOM_BYTE_LENGTH bloom_prefix_length) (\<lambda>bloom_length.
     bind (logs_rlp_size (rcpt_logs r)) (\<lambda>logs_length.
     bind (rlp_scratch_length_add status_length gas_length) (\<lambda>fixed_length.
     bind (rlp_scratch_length_add fixed_length bloom_length) (\<lambda>fixed_and_bloom_length.
     rlp_scratch_length_add fixed_and_bloom_length logs_length)))))))))))"

definition receipt_encoded_length :: "receipt \<Rightarrow> int \<Rightarrow> ('z, int) kernel" where
  "receipt_encoded_length r cumulative_gas_used =
     bind (receipt_payload_content_size r cumulative_gas_used) (\<lambda>content_len.
     let typed = (tx_envelope_type (rcpt_tx_type r) \<noteq> 0) in
     bind (rlp_scratch_list_size content_len) (\<lambda>payload_len.
     if typed then rlp_scratch_length_add payload_len 1 else ret payload_len))"

definition receipt_write_encoded :: "hash_function \<Rightarrow> receipt \<Rightarrow> int \<Rightarrow> ('z, unit) kernel" where
  "receipt_write_encoded keccak r cumulative_gas_used =
     bind (receipt_payload_content_size r cumulative_gas_used) (\<lambda>content_len.
     let envelope_type = tx_envelope_type (rcpt_tx_type r); typed = (envelope_type \<noteq> 0) in
     bind (do_when typed (scratch_push_byte envelope_type)) (\<lambda>_.
     bind (rlp_write_list_prefix content_len) (\<lambda>_.
     bind (rlp_write_uint_word (receipt_status r)) (\<lambda>_.
     bind (rlp_write_uint_word cumulative_gas_used) (\<lambda>_.
     bind (receipt_write_logs_bloom keccak r) (\<lambda>_.
     rlp_write_logs (rcpt_logs r)))))))"

definition receipt_encoded :: "hash_function \<Rightarrow> receipt \<Rightarrow> int \<Rightarrow> ('z, region_slice) kernel" where
  "receipt_encoded keccak r cumulative_gas_used =
     bind (receipt_encoded_length r cumulative_gas_used) (\<lambda>encoded_len.
     bind (rlp_encoder_begin encoded_len) (\<lambda>encoder.
     bind (receipt_write_encoded keccak r cumulative_gas_used) (\<lambda>_.
     rlp_encoder_finish encoder)))"

fun write_length_bytes :: "int \<Rightarrow> nat list \<Rightarrow> ('z, unit) kernel" where
  "write_length_bytes value [] = ret ()"
| "write_length_bytes value (i # is) =
     bind (scratch_push_byte (word_of_int (drop_bit (8 * i) value))) (\<lambda>_.
     write_length_bytes value is)"

definition receipt_record_write_length :: "int \<Rightarrow> ('z, unit) kernel" where
  "receipt_record_write_length value = write_length_bytes value [0, 1, 2, 3, 4, 5, 6, 7]"

definition receipt_record_append :: "hash_function \<Rightarrow> receipt \<Rightarrow> int \<Rightarrow> ('z, unit) kernel" where
  "receipt_record_append keccak r cumulative_gas_used =
     bind (receipt_encoded_length r cumulative_gas_used) (\<lambda>encoded_len.
     bind (do_when (2 ^ 64 - 1 < encoded_len) (fatal_error RlpDecode)) (\<lambda>_.
     bind (scratch_length_add EIGHT_BYTE_LENGTH encoded_len) (\<lambda>record_len.
     bind (scratch_reserve record_len) (\<lambda>_.
     bind (receipt_record_write_length encoded_len) (\<lambda>_.
     bind (rlp_encoder_begin encoded_len) (\<lambda>encoder.
     bind (receipt_write_encoded keccak r cumulative_gas_used) (\<lambda>_.
     bind (rlp_encoder_finish encoder) (\<lambda>_. ret ()))))))))"

section \<open>The receipt store\<close>

record receipt_records_ref =
  rr_bytes :: region_slice
  rr_count :: int

definition receipt_store_begin :: "('z, int) kernel" where
  "receipt_store_begin = scratch_begin"

definition receipt_store_append ::
    "hash_function \<Rightarrow> receipt \<Rightarrow> int \<Rightarrow> int \<Rightarrow> ('z, unit) kernel" where
  "receipt_store_append keccak r cumulative_gas_used index =
     receipt_record_append keccak r cumulative_gas_used"

definition receipt_record_pop :: "region_slice \<Rightarrow> ('z, region_slice \<times> region_slice) host" where
  "receipt_record_pop records =
     bind (if EIGHT_BYTE_LENGTH \<le> slice_len records then ret records
           else fatal_error WitnessDeficient) (\<lambda>records.
     bind (decode_scratch_uint records 0) (\<lambda>value_length.
     bind (region_slice_suffix records EIGHT_BYTE_LENGTH) (\<lambda>payload.
     if value_length \<le> slice_len payload then
       bind (region_sub_slice payload 0 value_length) (\<lambda>value.
       bind (region_slice_suffix payload value_length) (\<lambda>rest. ret (value, rest)))
     else fatal_error WitnessDeficient)))"

section \<open>Blooms of references\<close>

definition logs_bloom_equal :: "bytes \<Rightarrow> bytes \<Rightarrow> bool" where
  "logs_bloom_equal a b \<longleftrightarrow> list_all (\<lambda>i. vector_access a i = vector_access b i) [0..<256]"

fun logs_bloom_from_ref_loop :: "region_slice \<Rightarrow> nat list \<Rightarrow> bytes \<Rightarrow> ('z, bytes) host" where
  "logs_bloom_from_ref_loop ref [] out = ret out"
| "logs_bloom_from_ref_loop ref (i # is) out =
     bind (stateless_input_slice_byte ref (int i)) (\<lambda>b.
     logs_bloom_from_ref_loop ref is (vector_update out (255 - i) (word_of_int b)))"

definition logs_bloom_from_ref :: "region_slice \<Rightarrow> ('z, bytes) host" where
  "logs_bloom_from_ref ref = logs_bloom_from_ref_loop ref [0..<256] EMPTY_LOGS_BLOOM"

definition logs_bloom_matches_ref :: "bytes \<Rightarrow> region_slice \<Rightarrow> ('z, bool) host" where
  "logs_bloom_matches_ref computed ref =
     bind (logs_bloom_from_ref ref) (\<lambda>expected. ret (logs_bloom_equal computed expected))"

definition block_logs_bloom_matches ::
    "hash_function \<Rightarrow> log_series_ref \<Rightarrow> region_slice \<Rightarrow> ('z, bool) host" where
  "block_logs_bloom_matches keccak series ref =
     bind (bloom_add_logs keccak EMPTY_LOGS_BLOOM series) (\<lambda>bloom.
     logs_bloom_matches_ref bloom ref)"

end
