(* ===== verification/Htr.thy ===== *)
theory Htr
  imports Stateless_Input Receipts
begin

text \<open>
  SSZ hash tree roots (\<open>lib/htr.py\<close>): Merkle trees over SHA-256 padded with zero subtrees, the
  roots of the basic values, lists and containers, and the root of a new-payload request. SHA-256
  is a parameter. Depths are natural numbers at most 25 (\<open>htr_depth\<close>).
\<close>

section \<open>Layout constants and zero subtrees\<close>

definition WORD_BYTE_LENGTH :: int where "WORD_BYTE_LENGTH = 32"
definition HTR_BYTE_LIST_LIMIT :: int where "HTR_BYTE_LIST_LIMIT = 1073741824"
definition HTR_DEPOSIT_LENGTH :: int where "HTR_DEPOSIT_LENGTH = 192"
definition HTR_DEPOSIT_PUBKEY :: int where "HTR_DEPOSIT_PUBKEY = 0"
definition HTR_DEPOSIT_PUBKEY_LENGTH :: int where "HTR_DEPOSIT_PUBKEY_LENGTH = 48"
definition HTR_DEPOSIT_WITHDRAWAL_CREDENTIALS :: int where "HTR_DEPOSIT_WITHDRAWAL_CREDENTIALS = 48"
definition HTR_DEPOSIT_AMOUNT :: int where "HTR_DEPOSIT_AMOUNT = 80"
definition HTR_DEPOSIT_SIGNATURE :: int where "HTR_DEPOSIT_SIGNATURE = 88"
definition HTR_DEPOSIT_SIGNATURE_LENGTH :: int where "HTR_DEPOSIT_SIGNATURE_LENGTH = 96"
definition HTR_DEPOSIT_INDEX :: int where "HTR_DEPOSIT_INDEX = 184"
definition HTR_WITHDRAWAL_REQUEST_LENGTH :: int where "HTR_WITHDRAWAL_REQUEST_LENGTH = 76"
definition HTR_REQUEST_SOURCE_ADDRESS :: int where "HTR_REQUEST_SOURCE_ADDRESS = 0"
definition HTR_REQUEST_SOURCE_PUBKEY :: int where "HTR_REQUEST_SOURCE_PUBKEY = 20"
definition HTR_REQUEST_PUBKEY_LENGTH :: int where "HTR_REQUEST_PUBKEY_LENGTH = 48"
definition HTR_WITHDRAWAL_REQUEST_AMOUNT :: int where "HTR_WITHDRAWAL_REQUEST_AMOUNT = 68"
definition HTR_CONSOLIDATION_REQUEST_LENGTH :: int where "HTR_CONSOLIDATION_REQUEST_LENGTH = 116"
definition HTR_CONSOLIDATION_REQUEST_TARGET_PUBKEY :: int where "HTR_CONSOLIDATION_REQUEST_TARGET_PUBKEY = 68"
definition HTR_BUILDER_DEPOSIT_LENGTH :: int where "HTR_BUILDER_DEPOSIT_LENGTH = 184"
definition HTR_BUILDER_DEPOSIT_PUBKEY :: int where "HTR_BUILDER_DEPOSIT_PUBKEY = 0"
definition HTR_BUILDER_DEPOSIT_WITHDRAWAL_CREDENTIALS :: int where "HTR_BUILDER_DEPOSIT_WITHDRAWAL_CREDENTIALS = 48"
definition HTR_BUILDER_DEPOSIT_AMOUNT :: int where "HTR_BUILDER_DEPOSIT_AMOUNT = 80"
definition HTR_BUILDER_DEPOSIT_SIGNATURE :: int where "HTR_BUILDER_DEPOSIT_SIGNATURE = 88"
definition HTR_BUILDER_EXIT_LENGTH :: int where "HTR_BUILDER_EXIT_LENGTH = 68"
definition HTR_BUILDER_EXIT_SOURCE_ADDRESS :: int where "HTR_BUILDER_EXIT_SOURCE_ADDRESS = 0"
definition HTR_BUILDER_EXIT_PUBKEY :: int where "HTR_BUILDER_EXIT_PUBKEY = 20"

definition SSZ_ZERO_HASH_01 :: hash where
  "SSZ_ZERO_HASH_01 = hash_from_bits
     0xf5a5fd42d16a20302798ef6ed309979b43003d2320d9f0e8ea9831a92759fb4b"

definition SSZ_ZERO_HASH_02 :: hash where
  "SSZ_ZERO_HASH_02 = hash_from_bits
     0xdb56114e00fdd4c1f85c892bf35ac9a89289aaecb1ebd0a96cde606a748b5d71"

definition SSZ_ZERO_HASH_03 :: hash where
  "SSZ_ZERO_HASH_03 = hash_from_bits
     0xc78009fdf07fc56a11f122370658a353aaa542ed63e44c4bc15ff4cd105ab33c"

definition SSZ_ZERO_HASH_04 :: hash where
  "SSZ_ZERO_HASH_04 = hash_from_bits
     0x536d98837f2dd165a55d5eeae91485954472d56f246df256bf3cae19352a123c"

definition SSZ_ZERO_HASH_05 :: hash where
  "SSZ_ZERO_HASH_05 = hash_from_bits
     0x9efde052aa15429fae05bad4d0b1d7c64da64d03d7a1854a588c2cb8430c0d30"

definition SSZ_ZERO_HASH_06 :: hash where
  "SSZ_ZERO_HASH_06 = hash_from_bits
     0xd88ddfeed400a8755596b21942c1497e114c302e6118290f91e6772976041fa1"

definition SSZ_ZERO_HASH_07 :: hash where
  "SSZ_ZERO_HASH_07 = hash_from_bits
     0x87eb0ddba57e35f6d286673802a4af5975e22506c7cf4c64bb6be5ee11527f2c"

definition SSZ_ZERO_HASH_08 :: hash where
  "SSZ_ZERO_HASH_08 = hash_from_bits
     0x26846476fd5fc54a5d43385167c95144f2643f533cc85bb9d16b782f8d7db193"

definition SSZ_ZERO_HASH_09 :: hash where
  "SSZ_ZERO_HASH_09 = hash_from_bits
     0x506d86582d252405b840018792cad2bf1259f1ef5aa5f887e13cb2f0094f51e1"

definition SSZ_ZERO_HASH_10 :: hash where
  "SSZ_ZERO_HASH_10 = hash_from_bits
     0xffff0ad7e659772f9534c195c815efc4014ef1e1daed4404c06385d11192e92b"

definition SSZ_ZERO_HASH_11 :: hash where
  "SSZ_ZERO_HASH_11 = hash_from_bits
     0x6cf04127db05441cd833107a52be852868890e4317e6a02ab47683aa75964220"

definition SSZ_ZERO_HASH_12 :: hash where
  "SSZ_ZERO_HASH_12 = hash_from_bits
     0xb7d05f875f140027ef5118a2247bbb84ce8f2f0f1123623085daf7960c329f5f"

definition SSZ_ZERO_HASH_13 :: hash where
  "SSZ_ZERO_HASH_13 = hash_from_bits
     0xdf6af5f5bbdb6be9ef8aa618e4bf8073960867171e29676f8b284dea6a08a85e"

definition SSZ_ZERO_HASH_14 :: hash where
  "SSZ_ZERO_HASH_14 = hash_from_bits
     0xb58d900f5e182e3c50ef74969ea16c7726c549757cc23523c369587da7293784"

definition SSZ_ZERO_HASH_15 :: hash where
  "SSZ_ZERO_HASH_15 = hash_from_bits
     0xd49a7502ffcfb0340b1d7885688500ca308161a7f96b62df9d083b71fcc8f2bb"

definition SSZ_ZERO_HASH_16 :: hash where
  "SSZ_ZERO_HASH_16 = hash_from_bits
     0x8fe6b1689256c0d385f42f5bbe2027a22c1996e110ba97c171d3e5948de92beb"

definition SSZ_ZERO_HASH_17 :: hash where
  "SSZ_ZERO_HASH_17 = hash_from_bits
     0x8d0d63c39ebade8509e0ae3c9c3876fb5fa112be18f905ecacfecb92057603ab"

definition SSZ_ZERO_HASH_18 :: hash where
  "SSZ_ZERO_HASH_18 = hash_from_bits
     0x95eec8b2e541cad4e91de38385f2e046619f54496c2382cb6cacd5b98c26f5a4"

definition SSZ_ZERO_HASH_19 :: hash where
  "SSZ_ZERO_HASH_19 = hash_from_bits
     0xf893e908917775b62bff23294dbbe3a1cd8e6cc1c35b4801887b646a6f81f17f"

definition SSZ_ZERO_HASH_20 :: hash where
  "SSZ_ZERO_HASH_20 = hash_from_bits
     0xcddba7b592e3133393c16194fac7431abf2f5485ed711db282183c819e08ebaa"

definition SSZ_ZERO_HASH_21 :: hash where
  "SSZ_ZERO_HASH_21 = hash_from_bits
     0x8a8d7fe3af8caa085a7639a832001457dfb9128a8061142ad0335629ff23ff9c"

definition SSZ_ZERO_HASH_22 :: hash where
  "SSZ_ZERO_HASH_22 = hash_from_bits
     0xfeb3c337d7a51a6fbf00b9e34c52e1c9195c969bd4e7a0bfd51d5c5bed9c1167"

definition SSZ_ZERO_HASH_23 :: hash where
  "SSZ_ZERO_HASH_23 = hash_from_bits
     0xe71f0aa83cc32edfbefa9f4d3e0174ca85182eec9f3a09f6a6c0df6377a510d7"

definition SSZ_ZERO_HASH_24 :: hash where
  "SSZ_ZERO_HASH_24 = hash_from_bits
     0x31206fa80a50bb6abe29085058f16212212a60eec8f049fecb92d8c8e0a84bc0"

definition SSZ_ZERO_HASH_25 :: hash where
  "SSZ_ZERO_HASH_25 = hash_from_bits
     0x21352bfecbeddde993839f614c3dac0a3ee37543f9b412b16199dc158e23b544"

text \<open>Depths are at most 25 (\<open>htr_depth\<close>); the default branch of both tables is depth 25.\<close>

definition ssz_zero_hash :: "nat \<Rightarrow> hash" where
  "ssz_zero_hash level =
     (if level < 25 then [ZERO_HASH, SSZ_ZERO_HASH_01, SSZ_ZERO_HASH_02, SSZ_ZERO_HASH_03, SSZ_ZERO_HASH_04,
       SSZ_ZERO_HASH_05, SSZ_ZERO_HASH_06, SSZ_ZERO_HASH_07, SSZ_ZERO_HASH_08,
       SSZ_ZERO_HASH_09, SSZ_ZERO_HASH_10, SSZ_ZERO_HASH_11, SSZ_ZERO_HASH_12,
       SSZ_ZERO_HASH_13, SSZ_ZERO_HASH_14, SSZ_ZERO_HASH_15, SSZ_ZERO_HASH_16,
       SSZ_ZERO_HASH_17, SSZ_ZERO_HASH_18, SSZ_ZERO_HASH_19, SSZ_ZERO_HASH_20,
       SSZ_ZERO_HASH_21, SSZ_ZERO_HASH_22, SSZ_ZERO_HASH_23, SSZ_ZERO_HASH_24] ! level
      else SSZ_ZERO_HASH_25)"

definition htr_leaf_capacity :: "nat \<Rightarrow> int" where
  "htr_leaf_capacity depth = (if depth < 25 then 2 ^ depth else 33554432)"

section \<open>Merkle trees\<close>

text \<open>
  The recursion that \<open>merkleize_vector_subtree\<close>, \<open>htr_bytes_subtree\<close>, \<open>htr_transactions_subtree\<close>,
  \<open>htr_withdrawals_subtree\<close>, \<open>htr_versioned_hashes_subtree\<close> and \<open>htr_requests_subtree\<close> repeat; \<open>leaf\<close>
  is the body of the depth-zero branch for one item.
\<close>

fun htr_subtree ::
    "hash_function \<Rightarrow> (int \<Rightarrow> ('s, hash) action) \<Rightarrow> int \<Rightarrow> int \<Rightarrow> nat \<Rightarrow> ('s, hash) action" where
  "htr_subtree sha leaf start count 0 =
     (if count = 0 then ret (ssz_zero_hash 0)
      else if count = 1 then leaf start else fatal_error WitnessDeficient)"
| "htr_subtree sha leaf start count (Suc child_depth) =
     (if count = 0 then ret (ssz_zero_hash (Suc child_depth))
      else
        (let half = htr_leaf_capacity child_depth;
             left_count = (if count < half then count else half);
             right_count = (if count < half then 0 else count - half) in
         bind (htr_subtree sha leaf start left_count child_depth) (\<lambda>left_root.
         bind (htr_subtree sha leaf (start + half) right_count child_depth) (\<lambda>right_root.
         ret (sha256_pair sha left_root right_root)))))"

definition merkleize_vector_subtree ::
    "hash_function \<Rightarrow> hash list \<Rightarrow> int \<Rightarrow> int \<Rightarrow> nat \<Rightarrow> ('s, hash) action" where
  "merkleize_vector_subtree sha leaves =
     htr_subtree sha (\<lambda>start.
       if start < int (length leaves)
       then ret (vector_access leaves (nat (int (length leaves) - 1 - start)))
       else fatal_error WitnessDeficient)"

definition merkleize :: "hash_function \<Rightarrow> hash list \<Rightarrow> nat \<Rightarrow> ('s, hash) action" where
  "merkleize sha leaves depth =
     (let count = int (length leaves); capacity = htr_leaf_capacity depth in
      if count \<le> capacity then merkleize_vector_subtree sha leaves 0 count depth
      else fatal_error WitnessDeficient)"

section \<open>Basic values\<close>

text \<open>The first \<open>n\<close> bytes of a chunk, the least significant byte of the value first.\<close>

definition little_endian_chunk :: "nat \<Rightarrow> int \<Rightarrow> hash" where
  "little_endian_chunk n v =
     foldl (\<lambda>bytes i. vector_update bytes i (word_of_int (drop_bit (8 * i) v))) ZERO_HASH [0..<n]"

definition htr_uint :: "int \<Rightarrow> hash" where
  "htr_uint v = little_endian_chunk 8 v"

definition htr_u256 :: "int \<Rightarrow> hash" where
  "htr_u256 value = little_endian_chunk 32 value"

definition htr_bytes32 :: "hash \<Rightarrow> hash" where
  "htr_bytes32 b = b"

definition htr_addr :: "address \<Rightarrow> hash" where
  "htr_addr address_bytes =
     foldl (\<lambda>bytes i. vector_update bytes i (vector_access address_bytes i)) ZERO_HASH [0..<20]"

definition htr_length_chunk :: "int \<Rightarrow> ('s, hash) action" where
  "htr_length_chunk sail_len =
     bind (word_of_source_byte_count sail_len) (\<lambda>length_word. ret (htr_u256 length_word))"

definition mix_in_length :: "hash_function \<Rightarrow> hash \<Rightarrow> int \<Rightarrow> ('s, hash) action" where
  "mix_in_length sha root sail_len =
     bind (htr_length_chunk sail_len) (\<lambda>length_chunk. ret (sha256_pair sha root length_chunk))"

text \<open>The loop of \<open>clog2\<close>; the first argument is the number of passes still to make.\<close>

fun clog2_loop :: "nat \<Rightarrow> int \<Rightarrow> nat \<Rightarrow> ('s, nat) action" where
  "clog2_loop 0 remaining depth = ret depth"
| "clog2_loop (Suc passes) remaining depth =
     (if remaining \<noteq> 0 then
        bind (if depth < 25 then ret (depth + 1) else fatal_error WitnessDeficient) (\<lambda>depth.
        clog2_loop passes (sail_tdiv_int remaining 2) depth)
      else clog2_loop passes remaining depth)"

definition clog2 :: "int \<Rightarrow> ('s, nat) action" where
  "clog2 n = clog2_loop 25 (if n = 0 then 0 else n - 1) 0"

section \<open>Byte vectors and byte lists\<close>

definition htr_chunk :: "region_slice \<Rightarrow> int \<Rightarrow> ('z, hash) host" where
  "htr_chunk bytes chunk_index =
     (if chunk_index \<le> 33554432 then
        let offset = chunk_index * WORD_BYTE_LENGTH in
        bind (stateless_input_slice_load bytes offset) (\<lambda>chunk_word.
        ret (word_to_hash chunk_word))
      else fatal_error WitnessDeficient)"

definition htr_leaf_count :: "int \<Rightarrow> ('s, int) action" where
  "htr_leaf_count = ranged 0 33554432"

definition htr_chunk_count :: "int \<Rightarrow> ('s, int) action" where
  "htr_chunk_count byte_len =
     (if byte_len \<le> HTR_BYTE_LIST_LIMIT then htr_leaf_count (sail_ediv_int (byte_len + 31) 32)
      else fatal_error WitnessDeficient)"

definition htr_bytes_subtree ::
    "hash_function \<Rightarrow> region_slice \<Rightarrow> int \<Rightarrow> int \<Rightarrow> nat \<Rightarrow> ('z, hash) host" where
  "htr_bytes_subtree sha bytes = htr_subtree sha (htr_chunk bytes)"

definition htr_bytes_root :: "hash_function \<Rightarrow> region_slice \<Rightarrow> nat \<Rightarrow> ('z, hash) host" where
  "htr_bytes_root sha bytes depth =
     bind (htr_chunk_count (slice_len bytes)) (\<lambda>count.
     let capacity = htr_leaf_capacity depth in
     if count \<le> capacity then htr_bytes_subtree sha bytes 0 count depth
     else fatal_error WitnessDeficient)"

definition htr_bytevector :: "hash_function \<Rightarrow> region_slice \<Rightarrow> ('z, hash) host" where
  "htr_bytevector sha bytes =
     bind (htr_chunk_count (slice_len bytes)) (\<lambda>chunks.
     bind (clog2 chunks) (\<lambda>depth.
     htr_bytes_root sha bytes depth))"

definition htr_ssz_uint :: "region_slice \<Rightarrow> int \<Rightarrow> ('z, hash) host" where
  "htr_ssz_uint bytes offset = bind (decode_ssz_uint bytes offset) (\<lambda>value. ret (htr_uint value))"

definition htr_ssz_u256 :: "region_slice \<Rightarrow> int \<Rightarrow> ('z, hash) host" where
  "htr_ssz_u256 bytes offset = bind (ssz_u256 bytes offset) (\<lambda>value. ret (htr_u256 value))"

definition htr_ssz_bytes32 :: "region_slice \<Rightarrow> int \<Rightarrow> ('z, hash) host" where
  "htr_ssz_bytes32 bytes offset =
     bind (ssz_bytes32 bytes offset) (\<lambda>value. ret (htr_bytes32 value))"

definition htr_ssz_addr :: "region_slice \<Rightarrow> int \<Rightarrow> ('z, hash) host" where
  "htr_ssz_addr bytes offset = bind (ssz_addr bytes offset) (\<lambda>value. ret (htr_addr value))"

definition htr_ssz_bytevector ::
    "hash_function \<Rightarrow> region_slice \<Rightarrow> int \<Rightarrow> int \<Rightarrow> ('z, hash) host" where
  "htr_ssz_bytevector sha bytes offset sail_len =
     (if offset + sail_len \<le> slice_len bytes then
        bind (region_sub_slice bytes offset sail_len) (\<lambda>field. htr_bytevector sha field)
      else fatal_error InvalidConfig)"

definition htr_bytelist :: "hash_function \<Rightarrow> region_slice \<Rightarrow> int \<Rightarrow> ('z, hash) host" where
  "htr_bytelist sha bytes limit_bytes =
     bind (htr_chunk_count limit_bytes) (\<lambda>capacity.
     bind (clog2 capacity) (\<lambda>depth.
     bind (htr_bytes_root sha bytes depth) (\<lambda>root.
     mix_in_length sha root (slice_len bytes))))"

section \<open>The execution payload\<close>

definition htr_withdrawal :: "hash_function \<Rightarrow> region_slice \<Rightarrow> ('z, hash) host" where
  "htr_withdrawal sha wd =
     bind (htr_ssz_uint wd WD_INDEX) (\<lambda>index_root.
     bind (htr_ssz_uint wd WD_VALIDATOR_INDEX) (\<lambda>validator_root.
     bind (htr_ssz_addr wd WD_ADDRESS) (\<lambda>address_root.
     bind (htr_ssz_uint wd WD_AMOUNT) (\<lambda>amount_root.
     merkleize sha [index_root, validator_root, address_root, amount_root] 2))))"

definition htr_transactions_subtree ::
    "hash_function \<Rightarrow> bounded_ssz_list_ref \<Rightarrow> int \<Rightarrow> int \<Rightarrow> nat \<Rightarrow> ('z, hash) host" where
  "htr_transactions_subtree sha transactions =
     htr_subtree sha (\<lambda>start.
       bind (ssz_list_at transactions start) (\<lambda>transaction.
       htr_bytelist sha transaction HTR_BYTE_LIST_LIMIT))"

definition htr_transactions ::
    "hash_function \<Rightarrow> bounded_ssz_list_ref \<Rightarrow> ('z, hash) host" where
  "htr_transactions sha transactions =
     bind (htr_transactions_subtree sha transactions 0 (sl_count transactions) 20) (\<lambda>root.
     mix_in_length sha root (sl_count transactions))"

definition htr_withdrawals_subtree ::
    "hash_function \<Rightarrow> bounded_ssz_list_ref \<Rightarrow> int \<Rightarrow> int \<Rightarrow> nat \<Rightarrow> ('z, hash) host" where
  "htr_withdrawals_subtree sha withdrawals =
     htr_subtree sha (\<lambda>start.
       bind (ssz_fixed_list_at withdrawals start WD_SIZE) (\<lambda>wd. htr_withdrawal sha wd))"

definition htr_withdrawals ::
    "hash_function \<Rightarrow> bounded_ssz_list_ref \<Rightarrow> ('z, hash) host" where
  "htr_withdrawals sha withdrawals =
     bind (htr_withdrawals_subtree sha withdrawals 0 (sl_count withdrawals) 4) (\<lambda>root.
     mix_in_length sha root (sl_count withdrawals))"

definition htr_execution_payload ::
    "hash_function \<Rightarrow> stateless_input_ref \<Rightarrow> ('z, hash) host" where
  "htr_execution_payload sha input_ref =
     (let payload = in_execution_payload input_ref in
      bind (htr_ssz_bytes32 payload 0) (\<lambda>parent_hash_root.
      bind (htr_ssz_addr payload PL_FEE_RECIPIENT) (\<lambda>fee_recipient_root.
      bind (htr_ssz_bytes32 payload PL_STATE_ROOT) (\<lambda>state_root.
      bind (htr_ssz_bytes32 payload PL_RECEIPTS_ROOT) (\<lambda>receipts_root.
      bind (htr_ssz_bytevector sha payload PL_LOGS_BLOOM LOGS_BLOOM_BYTE_LENGTH)
        (\<lambda>logs_bloom_root.
      bind (htr_ssz_bytes32 payload PL_PREV_RANDAO) (\<lambda>prev_randao_root.
      bind (htr_ssz_uint payload PL_BLOCK_NUMBER) (\<lambda>block_number_root.
      bind (htr_ssz_uint payload PL_GAS_LIMIT) (\<lambda>gas_limit_root.
      bind (htr_ssz_uint payload PL_GAS_USED) (\<lambda>gas_used_root.
      bind (htr_ssz_uint payload PL_TIMESTAMP) (\<lambda>timestamp_root.
      bind (htr_bytelist sha (in_extra_data input_ref) WORD_BYTE_LENGTH) (\<lambda>extra_data_root.
      bind (htr_ssz_u256 payload PL_BASE_FEE) (\<lambda>base_fee_root.
      bind (htr_ssz_bytes32 payload PL_BLOCK_HASH) (\<lambda>block_hash_root.
      bind (htr_transactions sha (in_transactions input_ref)) (\<lambda>transactions_root.
      bind (htr_withdrawals sha (in_withdrawals input_ref)) (\<lambda>withdrawals_root.
      bind (htr_ssz_uint payload PL_BLOB_GAS_USED) (\<lambda>blob_gas_used_root.
      bind (htr_ssz_uint payload PL_EXCESS_BLOB_GAS) (\<lambda>excess_blob_gas_root.
      bind (htr_bytelist sha (in_block_access_list input_ref) HTR_BYTE_LIST_LIMIT)
        (\<lambda>block_access_list_root.
      bind (htr_ssz_uint payload PL_SLOT_NUMBER) (\<lambda>slot_number_root.
      merkleize sha
        [parent_hash_root, fee_recipient_root, state_root, receipts_root, logs_bloom_root,
         prev_randao_root, block_number_root, gas_limit_root, gas_used_root, timestamp_root,
         extra_data_root, base_fee_root, block_hash_root, transactions_root, withdrawals_root,
         blob_gas_used_root, excess_blob_gas_root, block_access_list_root, slot_number_root] 5))))))))))))))))))))"

section \<open>Versioned hashes and execution requests\<close>

definition htr_versioned_hashes_subtree ::
    "hash_function \<Rightarrow> region_slice \<Rightarrow> int \<Rightarrow> int \<Rightarrow> nat \<Rightarrow> ('z, hash) host" where
  "htr_versioned_hashes_subtree sha versioned_hashes = htr_subtree sha (htr_chunk versioned_hashes)"

definition htr_versioned_hashes :: "hash_function \<Rightarrow> region_slice \<Rightarrow> ('z, hash) host" where
  "htr_versioned_hashes sha versioned_hashes =
     bind (ssz_bounded_fixed_list_ref versioned_hashes WORD_BYTE_LENGTH (2 ^ 12)) (\<lambda>items.
     bind (htr_versioned_hashes_subtree sha versioned_hashes 0 (sl_count items) 12) (\<lambda>root.
     mix_in_length sha root (sl_count items)))"

definition htr_deposit :: "hash_function \<Rightarrow> region_slice \<Rightarrow> ('z, hash) host" where
  "htr_deposit sha deposit =
     bind (htr_ssz_bytevector sha deposit HTR_DEPOSIT_PUBKEY HTR_DEPOSIT_PUBKEY_LENGTH) (\<lambda>pubkey.
     bind (htr_ssz_bytes32 deposit HTR_DEPOSIT_WITHDRAWAL_CREDENTIALS)
       (\<lambda>withdrawal_credentials.
     bind (htr_ssz_uint deposit HTR_DEPOSIT_AMOUNT) (\<lambda>amount.
     bind (htr_ssz_bytevector sha deposit HTR_DEPOSIT_SIGNATURE HTR_DEPOSIT_SIGNATURE_LENGTH)
       (\<lambda>signature.
     bind (htr_ssz_uint deposit HTR_DEPOSIT_INDEX) (\<lambda>index.
     merkleize sha [pubkey, withdrawal_credentials, amount, signature, index] 3)))))"

definition htr_withdrawal_request :: "hash_function \<Rightarrow> region_slice \<Rightarrow> ('z, hash) host" where
  "htr_withdrawal_request sha request =
     bind (htr_ssz_addr request HTR_REQUEST_SOURCE_ADDRESS) (\<lambda>source_address.
     bind (htr_ssz_bytevector sha request HTR_REQUEST_SOURCE_PUBKEY HTR_REQUEST_PUBKEY_LENGTH)
       (\<lambda>source_pubkey.
     bind (htr_ssz_uint request HTR_WITHDRAWAL_REQUEST_AMOUNT) (\<lambda>amount.
     merkleize sha [source_address, source_pubkey, amount] 2)))"

definition htr_consolidation_request :: "hash_function \<Rightarrow> region_slice \<Rightarrow> ('z, hash) host" where
  "htr_consolidation_request sha request =
     bind (htr_ssz_addr request HTR_REQUEST_SOURCE_ADDRESS) (\<lambda>source_address.
     bind (htr_ssz_bytevector sha request HTR_REQUEST_SOURCE_PUBKEY HTR_REQUEST_PUBKEY_LENGTH)
       (\<lambda>source_pubkey.
     bind (htr_ssz_bytevector sha request HTR_CONSOLIDATION_REQUEST_TARGET_PUBKEY
         HTR_REQUEST_PUBKEY_LENGTH) (\<lambda>target_pubkey.
     merkleize sha [source_address, source_pubkey, target_pubkey] 2)))"

definition htr_builder_deposit_request ::
    "hash_function \<Rightarrow> region_slice \<Rightarrow> ('z, hash) host" where
  "htr_builder_deposit_request sha request =
     bind (htr_ssz_bytevector sha request HTR_BUILDER_DEPOSIT_PUBKEY HTR_REQUEST_PUBKEY_LENGTH)
       (\<lambda>pubkey.
     bind (htr_ssz_bytes32 request HTR_BUILDER_DEPOSIT_WITHDRAWAL_CREDENTIALS)
       (\<lambda>withdrawal_credentials.
     bind (htr_ssz_uint request HTR_BUILDER_DEPOSIT_AMOUNT) (\<lambda>amount.
     bind (htr_ssz_bytevector sha request HTR_BUILDER_DEPOSIT_SIGNATURE
         HTR_DEPOSIT_SIGNATURE_LENGTH) (\<lambda>signature.
     merkleize sha [pubkey, withdrawal_credentials, amount, signature] 2))))"

definition htr_builder_exit_request :: "hash_function \<Rightarrow> region_slice \<Rightarrow> ('z, hash) host" where
  "htr_builder_exit_request sha request =
     bind (htr_ssz_addr request HTR_BUILDER_EXIT_SOURCE_ADDRESS) (\<lambda>source_address.
     bind (htr_ssz_bytevector sha request HTR_BUILDER_EXIT_PUBKEY HTR_REQUEST_PUBKEY_LENGTH)
       (\<lambda>pubkey.
     merkleize sha [source_address, pubkey] 1))"

datatype htr_request_kind =
    HtrDeposit | HtrWithdrawalRequest | HtrConsolidationRequest | HtrBuilderDepositRequest
  | HtrBuilderExitRequest

text \<open>The body of every clause of \<open>htr_request_leaf\<close>: the item's bytes, checked to be inside.\<close>

definition htr_request_item ::
    "region_slice \<Rightarrow> int \<Rightarrow> int \<Rightarrow> (region_slice \<Rightarrow> ('z, hash) host) \<Rightarrow> ('z, hash) host" where
  "htr_request_item requests index item_length item_root =
     (let offset = index * item_length in
      if offset + item_length \<le> slice_len requests then
        bind (region_sub_slice requests offset item_length) item_root
      else fatal_error InvalidConfig)"

fun htr_request_leaf ::
    "hash_function \<Rightarrow> region_slice \<Rightarrow> int \<Rightarrow> htr_request_kind \<Rightarrow> ('z, hash) host" where
  "htr_request_leaf sha requests index HtrDeposit =
     htr_request_item requests index HTR_DEPOSIT_LENGTH (htr_deposit sha)"
| "htr_request_leaf sha requests index HtrWithdrawalRequest =
     htr_request_item requests index HTR_WITHDRAWAL_REQUEST_LENGTH (htr_withdrawal_request sha)"
| "htr_request_leaf sha requests index HtrConsolidationRequest =
     htr_request_item requests index HTR_CONSOLIDATION_REQUEST_LENGTH
       (htr_consolidation_request sha)"
| "htr_request_leaf sha requests index HtrBuilderDepositRequest =
     htr_request_item requests index HTR_BUILDER_DEPOSIT_LENGTH (htr_builder_deposit_request sha)"
| "htr_request_leaf sha requests index HtrBuilderExitRequest =
     htr_request_item requests index HTR_BUILDER_EXIT_LENGTH (htr_builder_exit_request sha)"

definition htr_requests_subtree ::
    "hash_function \<Rightarrow> region_slice \<Rightarrow> htr_request_kind \<Rightarrow> int \<Rightarrow> int \<Rightarrow> nat \<Rightarrow> ('z, hash) host" where
  "htr_requests_subtree sha requests kind =
     htr_subtree sha (\<lambda>start. htr_request_leaf sha requests start kind)"

definition htr_deposits :: "hash_function \<Rightarrow> region_slice \<Rightarrow> ('z, hash) host" where
  "htr_deposits sha deposits =
     bind (ssz_bounded_fixed_list_ref deposits HTR_DEPOSIT_LENGTH (2 ^ 13)) (\<lambda>items.
     bind (htr_requests_subtree sha deposits HtrDeposit 0 (sl_count items) 13) (\<lambda>root.
     mix_in_length sha root (sl_count items)))"

definition htr_withdrawal_requests :: "hash_function \<Rightarrow> region_slice \<Rightarrow> ('z, hash) host" where
  "htr_withdrawal_requests sha requests =
     bind (ssz_bounded_fixed_list_ref requests HTR_WITHDRAWAL_REQUEST_LENGTH (2 ^ 4)) (\<lambda>items.
     bind (htr_requests_subtree sha requests HtrWithdrawalRequest 0 (sl_count items) 4) (\<lambda>root.
     mix_in_length sha root (sl_count items)))"

definition htr_consolidation_requests :: "hash_function \<Rightarrow> region_slice \<Rightarrow> ('z, hash) host" where
  "htr_consolidation_requests sha requests =
     bind (ssz_bounded_fixed_list_ref requests HTR_CONSOLIDATION_REQUEST_LENGTH (2 ^ 1)) (\<lambda>items.
     bind (htr_requests_subtree sha requests HtrConsolidationRequest 0 (sl_count items) 1)
       (\<lambda>root.
     mix_in_length sha root (sl_count items)))"

definition htr_builder_deposit_requests ::
    "hash_function \<Rightarrow> region_slice \<Rightarrow> ('z, hash) host" where
  "htr_builder_deposit_requests sha requests =
     bind (ssz_bounded_fixed_list_ref requests HTR_BUILDER_DEPOSIT_LENGTH (2 ^ 6)) (\<lambda>items.
     bind (htr_requests_subtree sha requests HtrBuilderDepositRequest 0 (sl_count items) 6)
       (\<lambda>root.
     mix_in_length sha root (sl_count items)))"

definition htr_builder_exit_requests :: "hash_function \<Rightarrow> region_slice \<Rightarrow> ('z, hash) host" where
  "htr_builder_exit_requests sha requests =
     bind (ssz_bounded_fixed_list_ref requests HTR_BUILDER_EXIT_LENGTH (2 ^ 4)) (\<lambda>items.
     bind (htr_requests_subtree sha requests HtrBuilderExitRequest 0 (sl_count items) 4) (\<lambda>root.
     mix_in_length sha root (sl_count items)))"

definition htr_execution_requests ::
    "hash_function \<Rightarrow> stateless_input_ref \<Rightarrow> ('z, hash) host" where
  "htr_execution_requests sha input_ref =
     bind (htr_deposits sha (in_deposits input_ref)) (\<lambda>deposits.
     bind (htr_withdrawal_requests sha (in_withdrawal_requests input_ref)) (\<lambda>withdrawal_requests.
     bind (htr_consolidation_requests sha (in_consolidation_requests input_ref))
       (\<lambda>consolidation_requests.
     bind (htr_builder_deposit_requests sha (in_builder_deposit_requests input_ref))
       (\<lambda>builder_deposit_requests.
     bind (htr_builder_exit_requests sha (in_builder_exit_requests input_ref))
       (\<lambda>builder_exit_requests.
     merkleize sha
       [deposits, withdrawal_requests, consolidation_requests, builder_deposit_requests,
        builder_exit_requests] 3)))))"

definition htr_new_payload_request ::
    "hash_function \<Rightarrow> stateless_input_ref \<Rightarrow> ('z, hash) host" where
  "htr_new_payload_request sha input_ref =
     bind (htr_execution_payload sha input_ref) (\<lambda>payload_root.
     bind (htr_versioned_hashes sha (in_versioned_hashes input_ref)) (\<lambda>versioned_hashes_root.
     bind (htr_ssz_bytes32 (in_new_payload_request input_ref) NPR_BEACON_ROOT) (\<lambda>beacon_root.
     bind (htr_execution_requests sha input_ref) (\<lambda>requests_root.
     merkleize sha [payload_root, versioned_hashes_root, beacon_root, requests_root] 2))))"

end
