(* ===== verification/Htr_Laws.thy ===== *)
theory Htr_Laws
  imports Htr
begin

text \<open>
  What the hash tree roots are: \<open>merkleize\<close> and the roots of byte lists against Merkle trees
  written without the shortcut through the table of zero subtrees.
\<close>

section \<open>The reference tree\<close>

text \<open>
  The Merkle tree of \<open>2 ^ d\<close> chunks, without any shortcut, and the leaves of a list padded with zero
  chunks.
\<close>

fun merkle_tree :: "hash_function \<Rightarrow> nat \<Rightarrow> hash list \<Rightarrow> hash" where
  "merkle_tree sha 0 chunks = chunks ! 0"
| "merkle_tree sha (Suc d) chunks =
     sha256_pair sha (merkle_tree sha d (take (2 ^ d) chunks)) (merkle_tree sha d (drop (2 ^ d) chunks))"

definition padded :: "nat \<Rightarrow> hash list \<Rightarrow> hash list" where
  "padded d chunks = chunks @ replicate (2 ^ d - length chunks) ZERO_HASH"

text \<open>What the table of zero subtrees promises about SHA-256, up to a depth.\<close>

definition zero_subtrees :: "hash_function \<Rightarrow> nat \<Rightarrow> bool" where
  "zero_subtrees sha d \<longleftrightarrow>
     (\<forall>i < d. sha256_pair sha (ssz_zero_hash i) (ssz_zero_hash i) = ssz_zero_hash (Suc i))"

lemma ssz_zero_hash_0 [simp]: "ssz_zero_hash 0 = ZERO_HASH"
  by (simp add: ssz_zero_hash_def)

lemma htr_leaf_capacity_power: "d \<le> 25 \<Longrightarrow> htr_leaf_capacity d = 2 ^ d"
  by (cases "d = 25") (auto simp: htr_leaf_capacity_def)

lemma zero_subtrees_Suc:
  "zero_subtrees sha (Suc d) \<longleftrightarrow>
     zero_subtrees sha d \<and> sha256_pair sha (ssz_zero_hash d) (ssz_zero_hash d) = ssz_zero_hash (Suc d)"
  by (auto simp: zero_subtrees_def less_Suc_eq)

lemma merkle_tree_zeros:
  "zero_subtrees sha d \<Longrightarrow> merkle_tree sha d (replicate (2 ^ d) ZERO_HASH) = ssz_zero_hash d"
  by (induction d) (auto simp: zero_subtrees_Suc)

text \<open>A tree whose leaves are read without effect is the reference tree of those leaves.\<close>

lemma padded_halves:
  assumes "length chunks \<le> 2 ^ Suc d"
  shows "take (2 ^ d) (padded (Suc d) chunks) = padded d (take (2 ^ d) chunks)"
    and "drop (2 ^ d) (padded (Suc d) chunks) = padded d (drop (2 ^ d) chunks)"
  using assms by (auto simp: padded_def min_def replicate_append_same[symmetric] take_replicate drop_replicate
    intro!: arg_cong2 [where f = replicate])

lemma htr_subtree_is_merkle_tree:
  assumes "d \<le> 25" and "zero_subtrees sha d" and "length chunks \<le> 2 ^ d"
    and "\<And>i. i < length chunks \<Longrightarrow> leaf (start + int i) s = Inr (chunks ! i, s)"
  shows "htr_subtree sha leaf start (int (length chunks)) d s =
    Inr (merkle_tree sha d (padded d chunks), s)"
  using assms
proof (induction d arbitrary: start chunks)
  case 0
  then show ?case
    using "0.prems"(4) [of 0] by (cases chunks) (auto simp: padded_def ret_def)
next
  case (Suc d)
  let ?half = "2 ^ d :: nat"
  have cap: "htr_leaf_capacity d = int ?half"
    using Suc.prems(1) by (simp add: htr_leaf_capacity_power)
  have left: "htr_subtree sha leaf start (int (length (take ?half chunks))) d s =
      Inr (merkle_tree sha d (padded d (take ?half chunks)), s)"
    using Suc.prems by (intro Suc.IH) (auto simp: zero_subtrees_Suc)
  have right: "htr_subtree sha leaf (start + int ?half) (int (length (drop ?half chunks))) d s =
      Inr (merkle_tree sha d (padded d (drop ?half chunks)), s)"
    using Suc.prems Suc.prems(4) [of "?half + _"]
    by (intro Suc.IH) (auto simp: zero_subtrees_Suc add.assoc)
  have counts: "int (length (take ?half chunks)) =
        (if int (length chunks) < int ?half then int (length chunks) else int ?half)"
    "int (length (drop ?half chunks)) =
        (if int (length chunks) < int ?half then 0 else int (length chunks) - int ?half)"
    by (auto simp: of_nat_diff)
  show ?case
  proof (cases "chunks = []")
    case True
    then show ?thesis
      using merkle_tree_zeros [OF Suc.prems(2)] by (simp add: padded_def ret_def)
  next
    case False
    then show ?thesis
      using left right padded_halves [OF Suc.prems(3)] unfolding counts
      by (cases "length chunks < ?half") (simp_all add: bind_def ret_def cap Let_def)
  qed
qed

text \<open>C0: \<open>merkleize\<close>, which stops at empty subtrees and looks their roots up in the table of
  zero hashes, gives the root of the whole Merkle tree of its leaves padded with zero chunks to
  \<open>2 ^ depth\<close>, for every depth and number of leaves that fits, whenever the table agrees with
  SHA-256; more leaves than fit are a fatal error.\<close>

theorem merkleize_is_padded_merkle_tree:
  assumes "depth \<le> 25" and "zero_subtrees sha depth"
  shows "merkleize sha leaves depth s =
    (if length leaves \<le> 2 ^ depth then Inr (merkle_tree sha depth (padded depth leaves), s)
     else Inl SailExit)"
proof -
  have "int (length leaves) \<le> htr_leaf_capacity depth \<longleftrightarrow> length leaves \<le> 2 ^ depth"
    using assms(1) by (simp add: htr_leaf_capacity_power flip: of_nat_le_iff)
  moreover have "merkleize_vector_subtree sha leaves 0 (int (length leaves)) depth s =
      Inr (merkle_tree sha depth (padded depth leaves), s)" if "length leaves \<le> 2 ^ depth"
    unfolding merkleize_vector_subtree_def using assms that
    by (intro htr_subtree_is_merkle_tree) (auto simp: ret_def vector_access_def nat_diff_distrib)
  ultimately show ?thesis
    by (simp add: merkleize_def Let_def fatal_error_def raise_def)
qed

lemma merkleize_is_padded_merkle_tree_witness:
  "\<exists>sha. zero_subtrees sha 1 \<and>
    merkleize sha [replicate 32 1] 1 () =
      Inr (merkle_tree sha 1 [replicate 32 1, ZERO_HASH], ())"
proof -
  define sha :: hash_function where "sha = (\<lambda>b. rev (ssz_zero_hash 1))"
  have zero: "zero_subtrees sha 1"
    by (simp add: zero_subtrees_def sha_def sha256_pair_def bytes32_from_wire_def)
  have "merkleize sha [replicate 32 1] 1 () =
      Inr (merkle_tree sha 1 [replicate 32 1, ZERO_HASH], ())"
    using merkleize_is_padded_merkle_tree [OF _ zero, of "[replicate 32 1]" "()"]
    by (simp add: padded_def)
  with zero show ?thesis by blast
qed

section \<open>Byte lists\<close>

text \<open>The 32-byte chunks of a byte string, the last one padded with zeros, in the reversed order hashes have.\<close>

definition byte_chunks :: "bytes \<Rightarrow> hash list" where
  "byte_chunks data =
     map (\<lambda>i. rev (ljust_zero (take 32 (drop (32 * i) data)) 32)) [0..<(length data + 31) div 32]"

lemma clog2_loop_spec:
  assumes "0 \<le> r" and "r < 2 ^ p" and "depth + p \<le> 25"
  shows "\<exists>k \<le> p. clog2_loop p r depth s = Inr (depth + k, s) \<and> r < 2 ^ k \<and> (\<forall>e < k. 2 ^ e \<le> r)"
  using assms
proof (induction p arbitrary: r depth)
  case 0
  then show ?case by simp
next
  case (Suc p)
  show ?case
  proof (cases "r = 0")
    case True
    have "clog2_loop q 0 depth s = Inr (depth, s)" for q
      by (induction q) auto
    then show ?thesis using True by (intro exI [of _ 0]) auto
  next
    case False
    have half: "sail_tdiv_int r 2 = r div 2"
      using Suc.prems(1) by (simp add: sail_tdiv_int_def)
    have "0 \<le> r div 2" "r div 2 < 2 ^ p" "depth + 1 + p \<le> 25"
      using Suc.prems by auto
    from Suc.IH [OF this] obtain k where
      k: "k \<le> p" "clog2_loop p (r div 2) (depth + 1) s = Inr (depth + 1 + k, s)" "r div 2 < 2 ^ k"
        "\<forall>e < k. 2 ^ e \<le> r div 2"
      by blast
    have "2 ^ e \<le> r" if "e < Suc k" for e
      using that k(4) False Suc.prems(1) by (cases e) (auto simp: zdiv_zmult2_eq dest!: spec)
    with k False half Suc.prems show ?thesis
      by (intro exI [of _ "Suc k"]) (auto simp: bind_def)
  qed
qed

definition ceiling_log :: "int \<Rightarrow> nat \<Rightarrow> bool" where
  "ceiling_log n d \<longleftrightarrow> n \<le> 2 ^ d \<and> (\<forall>e < d. 2 ^ e < n)"

lemma ceiling_log_unique: "ceiling_log n d \<Longrightarrow> ceiling_log n k \<Longrightarrow> d = k"
  unfolding ceiling_log_def by (metis linorder_neqE_nat not_less)

lemma clog2_is_ceiling_log:
  assumes "0 \<le> n" and "n \<le> 2 ^ 25"
  shows "\<exists>d \<le> 25. clog2 n s = Inr (d, s) \<and> ceiling_log n d"
proof -
  define r where "r = (if n = 0 then 0 else n - 1)"
  have r: "0 \<le> r" "r < 2 ^ 25"
    using assms by (auto simp: r_def)
  from clog2_loop_spec [OF r, of 0 s] obtain k where
    k: "k \<le> 25" "clog2_loop 25 r 0 s = Inr (k, s)" "r < 2 ^ k" "\<forall>e < k. 2 ^ e \<le> r"
    by auto
  have "2 ^ e < n" if "2 ^ e \<le> r" for e
    using that zero_less_power [of "2 :: int" e] by (auto simp: r_def split: if_splits)
  with k have "ceiling_log n k"
    by (auto simp: ceiling_log_def r_def split: if_splits)
  with k show ?thesis
    unfolding clog2_def by (fold r_def) auto
qed

lemma htr_chunk_of_region:
  assumes "int (length (region_bytes InputRegion sl s)) = slice_len sl"
    and "i < length (byte_chunks (region_bytes InputRegion sl s))" and "i \<le> 33554432"
  shows "htr_chunk sl (int i) s = Inr (byte_chunks (region_bytes InputRegion sl s) ! i, s)"
proof -
  let ?data = "region_bytes InputRegion sl s"
  let ?payload = "py_slice ?data (int i * 32) (int i * 32 + 32)"
  have inside: "32 * i < length ?data"
    using assms(2) by (auto simp: byte_chunks_def)
  have slice: "?payload = take 32 (drop (32 * i) ?data)"
    by (simp add: py_slice_nonneg nat_add_distrib nat_mult_distrib mult.commute)
  have "length (ljust_zero ?payload 32) = 32"
    by (simp add: slice)
  then have "word_to_hash (from_bytes_big (ljust_zero ?payload 32)) = rev (ljust_zero ?payload 32)"
    by (simp add: word_to_hash_def word_to_bytes_big to_from_bytes_big)
  with assms inside show ?thesis
    by (simp add: htr_chunk_def WORD_BYTE_LENGTH_def stateless_input_slice_load_def bind_def
      stateless_input_load_word_def load_word_def Let_def byte_chunks_def slice)
qed

lemma chunk_count_of_length:
  assumes "0 \<le> n" and "n \<le> HTR_BYTE_LIST_LIMIT"
  shows "htr_chunk_count n s = Inr ((n + 31) div 32, s)"
proof -
  have "sail_ediv_int (n + 31) 32 = (n + 31) div 32"
    by (simp add: sail_ediv_int_def sail_emod_int_def minus_mod_eq_mult_div)
  with assms show ?thesis
    by (simp add: htr_chunk_count_def HTR_BYTE_LIST_LIMIT_def htr_leaf_count_def)
qed

lemma htr_bytes_root_of_region:
  assumes "int (length (region_bytes InputRegion sl s)) = slice_len sl"
    and "slice_len sl \<le> HTR_BYTE_LIST_LIMIT" and "depth \<le> 25" and "zero_subtrees sha depth"
    and "length (byte_chunks (region_bytes InputRegion sl s)) \<le> 2 ^ depth"
  shows "htr_bytes_root sha sl depth s =
    Inr (merkle_tree sha depth (padded depth (byte_chunks (region_bytes InputRegion sl s))), s)"
proof -
  let ?chunks = "byte_chunks (region_bytes InputRegion sl s)"
  have count: "htr_chunk_count (slice_len sl) s = Inr (int (length ?chunks), s)"
    using assms(2) by (simp add: chunk_count_of_length byte_chunks_def flip: assms(1))
  have "(2 :: nat) ^ depth \<le> 2 ^ 25"
    using assms(3) by (intro power_increasing) auto
  then have "htr_subtree sha (htr_chunk sl) 0 (int (length ?chunks)) depth s =
      Inr (merkle_tree sha depth (padded depth ?chunks), s)"
    using assms by (intro htr_subtree_is_merkle_tree) (auto intro!: htr_chunk_of_region)
  with assms(3,5) count show ?thesis
    by (simp add: htr_bytes_root_def bind_def htr_bytes_subtree_def htr_leaf_capacity_power Let_def)
qed

lemma mix_in_small_length:
  "0 \<le> n \<Longrightarrow> n < 2 ^ 256 \<Longrightarrow> mix_in_length sha root n s = Inr (sha256_pair sha root (htr_u256 n), s)"
  by (simp add: mix_in_length_def htr_length_chunk_def bind_def word_of_source_byte_count_def
    word_of_nat_byte_count_def as_word_def)

text \<open>C29: the hash tree root of a byte list in the input is the Merkle root of its zero-padded
  32-byte chunks in the smallest tree that holds the longest list allowed, mixed with the length
  in bytes.\<close>

theorem byte_list_root_is_padded_merkle_tree:
  assumes "int (length (region_bytes InputRegion sl s)) = slice_len sl"
    and "slice_len sl \<le> limit" and "limit \<le> HTR_BYTE_LIST_LIMIT"
    and "ceiling_log ((limit + 31) div 32) depth" and "zero_subtrees sha depth"
  shows "htr_bytelist sha sl limit s =
      Inr (sha256_pair sha
             (merkle_tree sha depth (padded depth (byte_chunks (region_bytes InputRegion sl s))))
             (htr_u256 (slice_len sl)), s)"
proof -
  let ?chunks = "byte_chunks (region_bytes InputRegion sl s)"
  have len: "0 \<le> slice_len sl" "0 \<le> limit" "limit \<le> 2 ^ 30"
    using assms(1-3) by (auto simp: HTR_BYTE_LIST_LIMIT_def)
  have chunks: "int (length ?chunks) = (slice_len sl + 31) div 32"
    by (simp add: byte_chunks_def zdiv_int flip: assms(1))
  from len have "0 \<le> (limit + 31) div 32" "(limit + 31) div 32 \<le> 2 ^ 25"
    by auto
  from clog2_is_ceiling_log [OF this, of s] assms(4) have
    depth: "depth \<le> 25" "clog2 ((limit + 31) div 32) s = Inr (depth, s)"
    by (auto dest: ceiling_log_unique)
  have "(slice_len sl + 31) div 32 \<le> (limit + 31) div 32"
    using assms(2) by (simp add: zdiv_mono1)
  then have "int (length ?chunks) \<le> 2 ^ depth"
    using chunks assms(4) by (simp add: ceiling_log_def)
  then have "length ?chunks \<le> 2 ^ depth"
    by (simp flip: of_nat_le_iff)
  with assms depth(1) have
    "htr_bytes_root sha sl depth s = Inr (merkle_tree sha depth (padded depth ?chunks), s)"
    by (intro htr_bytes_root_of_region) auto
  then show ?thesis
    using len assms(2,3) depth(2)
    by (simp add: htr_bytelist_def chunk_count_of_length mix_in_small_length bind_def)
qed

lemma byte_list_root_is_padded_merkle_tree_witness:
  "\<exists>sha s. zero_subtrees sha 1 \<and>
    htr_bytelist sha \<lparr>slice_bytes = 0, slice_len = 40\<rparr> 64 (s :: unit host_state_scheme) =
      Inr (sha256_pair sha
        (merkle_tree sha 1 [replicate 32 7, replicate 24 0 @ replicate 8 7]) (htr_u256 40), s)"
proof -
  define sha :: hash_function where "sha = (\<lambda>b. rev (ssz_zero_hash 1))"
  have zero: "zero_subtrees sha 1"
    by (simp add: zero_subtrees_def sha_def sha256_pair_def bytes32_from_wire_def)
  have log: "ceiling_log ((64 + 31) div 32) 1"
    by (simp add: ceiling_log_def)
  let ?sl = "\<lparr>slice_bytes = 0, slice_len = 40\<rparr>"
  fix s0 :: "unit host_state_scheme"
  let ?s = "s0\<lparr>stateless_input_bytes := replicate 40 7\<rparr>"
  have data: "region_bytes InputRegion ?sl ?s = replicate 40 7"
    by (simp add: region_bytes_def slice_of_def py_slice_nonneg)
  have chunks: "byte_chunks (replicate 40 7) = [replicate 32 7, replicate 24 0 @ replicate 8 7]"
    by (simp add: byte_chunks_def ljust_zero_def zeros_def upt_rec)
  have "htr_bytelist sha ?sl 64 ?s =
      Inr (sha256_pair sha
        (merkle_tree sha 1 [replicate 32 7, replicate 24 0 @ replicate 8 7]) (htr_u256 40), ?s)"
    using byte_list_root_is_padded_merkle_tree [OF _ _ _ log zero, of ?sl ?s] data chunks
    by (simp add: HTR_BYTE_LIST_LIMIT_def padded_def)
  with zero show ?thesis by blast
qed

end
