(* ===== verification/Trie_Codec.thy ===== *)
theory Trie_Codec
  imports Trie_Lookup Rlp_Encode
begin

text \<open>
  The writing side of the tries: building and comparing nibble paths (\<open>lib/mpt/primitives.py\<close>),
  inline nodes (\<open>lib/mpt/nodes.py\<close>), the encoding of nodes and the references to them, and the
  merging of a path into the node below it (\<open>lib/mpt/codec.py\<close>). The readers of RLP and nodes in
  the scratch region mirror those of the input region.
\<close>

section \<open>RLP in the scratch region\<close>

fun scratch_rlp_uint64_width :: "region_slice \<Rightarrow> nat \<Rightarrow> ('z, int) host" where
  "scratch_rlp_uint64_width content 0 = ret 0"
| "scratch_rlp_uint64_width content (Suc width) =
     bind (scratch_rlp_uint64_width content width) (\<lambda>prefix.
     bind (scratch_byte content (int width)) (\<lambda>next_byte.
     ret (rlp_uint64_append prefix next_byte)))"

definition scratch_rlp_ref_hdr :: "region_slice \<Rightarrow> ('z, bool \<times> int \<times> int) host" where
  "scratch_rlp_ref_hdr b =
     (let source_len = slice_len b in
      if source_len = 0 then fatal_error RlpDecode
      else
        bind (scratch_byte b 0) (\<lambda>h.
        if h < 128 then ret (False, 0, 1)
        else if h < 184 then ret (False, 1, h - 128)
        else if h < 192 then
          (let length_width = h - 183 in
           if length_width \<le> source_len - 1 then
             bind (region_sub_slice b 1 length_width) (\<lambda>length_bytes.
             bind (scratch_rlp_uint64_width length_bytes (nat length_width)) (\<lambda>len.
             ret (False, 1 + length_width, len)))
           else fatal_error RlpDecode)
        else if h < 248 then ret (True, 1, h - 192)
        else
          (let length_width = h - 247 in
           if length_width \<le> source_len - 1 then
             bind (region_sub_slice b 1 length_width) (\<lambda>length_bytes.
             bind (scratch_rlp_uint64_width length_bytes (nat length_width)) (\<lambda>len.
             ret (True, 1 + length_width, len)))
           else fatal_error RlpDecode)))"

definition scratch_rlp_item_content :: "rlp_field_ref \<Rightarrow> ('s, region_slice) action" where
  "scratch_rlp_item_content f =
     region_sub_slice (rf_source f) (slice_len (rf_source f) - rf_content_len f) (rf_content_len f)"

definition scratch_rlp_decode_list :: "rlp_field_ref \<Rightarrow> ('s, region_slice) action" where
  "scratch_rlp_decode_list f =
     (if rf_is_list f then
        region_sub_slice (rf_source f) (slice_len (rf_source f) - rf_content_len f)
          (rf_content_len f)
      else fatal_error RlpDecode)"

definition scratch_rlp_decode_item :: "region_slice \<Rightarrow> ('z, rlp_field_ref) host" where
  "scratch_rlp_decode_item cursor =
     (if slice_len cursor = 0 then fatal_error RlpDecode
      else
        bind (scratch_rlp_ref_hdr cursor) (\<lambda>(is_list, content_off, content_len).
        if slice_len cursor < content_off then fatal_error RlpDecode
        else if slice_len cursor - content_off < content_len then fatal_error RlpDecode
        else
          (let full_len = content_off + content_len in
           if 0 < full_len \<and> full_len \<le> slice_len cursor then
             bind (region_sub_slice cursor 0 full_len) (\<lambda>field_source.
             rlp_field_ref field_source is_list content_len)
           else fatal_error RlpDecode)))"

definition scratch_rlp_cursor_advance :: "region_slice \<Rightarrow> int \<Rightarrow> ('s, region_slice) action" where
  "scratch_rlp_cursor_advance cursor consumed = region_slice_suffix cursor consumed"

definition scratch_rlp_cursor_expect_end :: "region_slice \<Rightarrow> ('s, unit) action" where
  "scratch_rlp_cursor_expect_end cursor =
     (if slice_len cursor = 0 then ret () else fatal_error RlpDecode)"

definition scratch_rlp_single_ref :: "region_slice \<Rightarrow> ('z, rlp_field_ref) host" where
  "scratch_rlp_single_ref item =
     (let item_length = slice_len item in
      if item_length = 0 then fatal_error RlpDecode
      else
        bind (scratch_rlp_ref_hdr item) (\<lambda>(is_list, content_off, content_len).
        if content_off \<le> item_length \<and> content_len = item_length - content_off
        then rlp_field_ref item is_list content_len
        else fatal_error RlpDecode))"

definition scratch_rlp_node_cursor :: "region_slice \<Rightarrow> ('z, region_slice) host" where
  "scratch_rlp_node_cursor node = bind (scratch_rlp_single_ref node) scratch_rlp_decode_list"

definition scratch_rlp_decode_word :: "rlp_field_ref \<Rightarrow> ('z, int) host" where
  "scratch_rlp_decode_word f =
     (let n = rf_content_len f in
      if rf_is_list f \<or> RLP_WORD_LENGTH_LIMIT < n then fatal_error RlpDecode
      else scratch_slice_load_n (rf_source f) (slice_len (rf_source f) - n) n)"

definition scratch_rlp_next :: "region_slice \<Rightarrow> ('z, rlp_field_ref \<times> region_slice) host" where
  "scratch_rlp_next cursor =
     bind (scratch_rlp_decode_item cursor) (\<lambda>field.
     bind (scratch_rlp_cursor_advance cursor (slice_len (rf_source field))) (\<lambda>cursor.
     ret (field, cursor)))"

section \<open>Building paths\<close>

definition path_byte_index :: "nat \<Rightarrow> ('s, nat) action" where
  "path_byte_index i =
     (if i div 2 \<le> 31 then ret (i div 2)
      else raise (SailError ''sail/lib/mpt/primitives.sail:45.24-45.25''))"

definition path_append_nibble :: "trie_path \<Rightarrow> int \<Rightarrow> ('s, trie_path) action" where
  "path_append_nibble path value =
     (let len = path_len path; data = path_data path in
      if len < 64 then
        bind (path_byte_index len) (\<lambda>byte_index.
        let data =
              (if len mod 2 = 0 then vector_update data byte_index (word_of_int (value * 16))
               else vector_update data byte_index
                 (word_of_int (high_nibble (vector_access data byte_index) * 16 + value))) in
        path_new data (len + 1))
      else fatal_error WitnessDeficient)"

definition path_append_byte :: "trie_path \<Rightarrow> byte \<Rightarrow> ('s, trie_path) action" where
  "path_append_byte path value =
     bind (path_append_nibble path (high_nibble value)) (\<lambda>path.
     path_append_nibble path (low_nibble value))"

definition path_single :: "int \<Rightarrow> ('s, trie_path) action" where
  "path_single n = bind path_empty (\<lambda>empty_path. path_append_nibble empty_path n)"

definition next_nibble :: "nat \<Rightarrow> ('s, nat) action" where
  "next_nibble index = (if index < 64 then ret (index + 1) else fatal_error WitnessDeficient)"

function path_concat_from :: "trie_path \<Rightarrow> trie_path \<Rightarrow> nat \<Rightarrow> ('s, trie_path) action" where
  "path_concat_from b result index =
     (if index < path_len b then
        bind (path_append_nibble result (path_nibble b index)) (\<lambda>result.
        bind (next_nibble index) (\<lambda>_. path_concat_from b result (index + 1)))
      else ret result)"
  by auto
termination
  by (relation "measure (\<lambda>(b, _, index). path_len b - index)") auto

declare path_concat_from.simps [simp del]

definition path_concat :: "trie_path \<Rightarrow> trie_path \<Rightarrow> ('s, trie_path) action" where
  "path_concat a b =
     (if path_len a + path_len b \<le> 64 then path_concat_from b a 0
      else fatal_error WitnessDeficient)"

function path_drop_from ::
    "trie_path \<Rightarrow> nat \<Rightarrow> trie_path \<Rightarrow> nat \<Rightarrow> ('s, trie_path) action" where
  "path_drop_from path n result offset =
     (if offset < path_len path - n then
        (let candidate = n + offset in
         bind (if candidate \<le> 64 then ret candidate
               else raise (SailError ''sail/lib/mpt/primitives.sail:141.32-141.33''))
           (\<lambda>source_index.
         bind (path_append_nibble result (path_nibble path source_index)) (\<lambda>result.
         bind (next_nibble offset) (\<lambda>_. path_drop_from path n result (offset + 1)))))
      else ret result)"
  by auto
termination
  by (relation "measure (\<lambda>(path, n, _, offset). path_len path - n - offset)") auto

declare path_drop_from.simps [simp del]

definition path_drop :: "trie_path \<Rightarrow> nat \<Rightarrow> ('s, trie_path) action" where
  "path_drop path n =
     (if path_len path \<le> n then path_empty
      else if n = 0 then ret path
      else bind path_empty (\<lambda>result. path_drop_from path n result 0))"

definition path_eq :: "trie_path \<Rightarrow> trie_path \<Rightarrow> bool" where
  "path_eq a b \<longleftrightarrow> path_length a = path_length b \<and> path_data a = path_data b"

definition path_prefix_of :: "trie_path \<Rightarrow> trie_path \<Rightarrow> ('s, bool) action" where
  "path_prefix_of prefix path = path_matches path 0 prefix"

function common_prefix_length_from :: "trie_path \<Rightarrow> trie_path \<Rightarrow> nat \<Rightarrow> nat \<Rightarrow> ('s, nat) action" where
  "common_prefix_length_from a b stop_at len =
     (if len < stop_at then
        (if path_nibble a len = path_nibble b len
         then bind (next_nibble len) (\<lambda>_. common_prefix_length_from a b stop_at (len + 1))
         else ret len)
      else ret len)"
  by auto
termination
  by (relation "measure (\<lambda>(_, _, stop_at, len). stop_at - len)") auto

declare common_prefix_length_from.simps [simp del]

definition common_prefix_length :: "trie_path \<Rightarrow> trie_path \<Rightarrow> ('s, nat) action" where
  "common_prefix_length a b =
     (let stop_at = (if path_len a < path_len b then path_len a else path_len b) in
      common_prefix_length_from a b stop_at 0)"

definition hex_prefix_encoded_length :: "trie_path \<Rightarrow> int" where
  "hex_prefix_encoded_length path = 1 + int (path_len path div 2)"

definition hex_prefix_first_byte :: "trie_path \<Rightarrow> bool \<Rightarrow> byte" where
  "hex_prefix_first_byte path is_leaf =
     (let flag = (if is_leaf then 2 else 0) in
      if odd (path_len path) then word_of_int ((flag + 1) * 16 + path_nibble path 0)
      else word_of_int (flag * 16))"

definition scratch_hex_prefix_decode_ref :: "rlp_field_ref \<Rightarrow> ('z, bool \<times> trie_path) host" where
  "scratch_hex_prefix_decode_ref f =
     (let n = rf_content_len f in
      if rf_is_list f then fatal_error RlpDecode
      else if n = 0 then bind path_empty (\<lambda>path. ret (False, path))
      else if HEX_PREFIX_MAX_LENGTH < n then fatal_error RlpDecode
      else
        bind (region_sub_slice (rf_source f) (slice_len (rf_source f) - n) n) (\<lambda>content.
        bind (scratch_byte content 0) (\<lambda>fb.
        let flag = fb div 16; is_leaf = odd (flag div 2); odd_path = odd flag;
            tail_length = n - 1 in
        bind (region_slice_suffix content 1) (\<lambda>tail.
        bind (scratch_slice_load tail 0) (\<lambda>packed.
        let paired_nibbles = tail_length * 2 in
        if odd_path then
          (if paired_nibbles < 64 then
             (let shifted = word_to_hash (word_shift_right packed 4);
                  data = vector_update shifted 0
                    (word_of_int (fb mod 16 * 16 + low_nibble (vector_access shifted 0))) in
              bind (path_new data (nat paired_nibbles + 1)) (\<lambda>path. ret (is_leaf, path)))
           else fatal_error WitnessDeficient)
        else
          bind (path_new (word_to_hash packed) (nat paired_nibbles)) (\<lambda>path.
          ret (is_leaf, path)))))))"

section \<open>Inline nodes\<close>

record inline_node =
  in_data :: bytes
  in_len :: int

definition inline_node_from_scratch_slice :: "region_slice \<Rightarrow> ('z, inline_node) host" where
  "inline_node_from_scratch_slice source =
     (if slice_len source < MPT_HASH_LENGTH then
        bind (scratch_slice_load source 0) (\<lambda>encoded.
        ret \<lparr>in_data = word_to_hash encoded, in_len = slice_len source\<rparr>)
      else fatal_error WitnessDeficient)"

definition inline_node_from_input_slice :: "region_slice \<Rightarrow> ('z, inline_node) host" where
  "inline_node_from_input_slice source =
     (if slice_len source < MPT_HASH_LENGTH then
        bind (stateless_input_slice_load source 0) (\<lambda>encoded.
        ret \<lparr>in_data = word_to_hash encoded, in_len = slice_len source\<rparr>)
      else fatal_error WitnessDeficient)"

definition inline_node_slice :: "inline_node \<Rightarrow> ('z, region_slice) kernel" where
  "inline_node_slice node =
     bind (scratch_reserve (in_len node)) (\<lambda>start.
     bind (scratch_push_b256 (in_data node) (in_len node)) (\<lambda>_. scratch_finish start))"

definition inline_node_hash :: "hash_function \<Rightarrow> inline_node \<Rightarrow> ('z, hash) kernel" where
  "inline_node_hash keccak node =
     bind scratch_begin (\<lambda>mark.
     bind (inline_node_slice node) (\<lambda>encoded.
     bind (hash_region keccak ScratchRegion encoded) (\<lambda>digest.
     bind (scratch_rewind mark) (\<lambda>_. ret digest))))"

definition branch_content_length_add :: "int \<Rightarrow> int \<Rightarrow> ('s, int) action" where
  "branch_content_length_add current addition =
     (if addition \<le> 529 - current then ranged 0 529 (current + addition)
      else fatal_error RlpDecode)"

section \<open>Encoding nodes\<close>

datatype trie_leaf_value = InputTrieLeaf region_slice | ScratchTrieLeaf region_slice

definition node_ref_size :: "node_ref \<Rightarrow> ('s, int) action" where
  "node_ref_size r =
     (case r of
        EmptyRef \<Rightarrow> ret 1
      | InputInlineRef node \<Rightarrow> ranged 0 33 (slice_len node)
      | ScratchInlineRef data len \<Rightarrow> ranged 0 33 len
      | HashRef h \<Rightarrow> ranged 0 33 rlp_word_size)"

definition rlp_write_node_ref :: "node_ref \<Rightarrow> ('z, unit) kernel" where
  "rlp_write_node_ref r =
     (case r of
        EmptyRef \<Rightarrow> scratch_push_byte 0x80
      | InputInlineRef node \<Rightarrow> stateless_input_scratch_push_slice node
      | ScratchInlineRef data len \<Rightarrow> scratch_push_b256 data len
      | HashRef h \<Rightarrow> rlp_write_word (hash_to_word h))"

definition rlp_hex_prefix_size :: "trie_path \<Rightarrow> bool \<Rightarrow> int" where
  "rlp_hex_prefix_size path is_leaf =
     (let encoded_length = hex_prefix_encoded_length path;
          first = hex_prefix_first_byte path is_leaf in
      if encoded_length = 1 \<and> \<not> bit first 7 then 1 else encoded_length + 1)"

text \<open>A path is never longer than 64 (\<open>trie_path_len\<close> refuses it), so the remainders by 65 do not wrap.\<close>

function write_path_bytes :: "trie_path \<Rightarrow> nat \<Rightarrow> ('z, unit) kernel" where
  "write_path_bytes path index =
     (if index < path_len path then
        (let current = index mod 65; following = (current + 1) mod 65;
             high = path_nibble path current; low = path_nibble path following in
         bind (scratch_push_byte (word_of_int (high * 16 + low))) (\<lambda>_.
         if path_len path \<le> 64 then write_path_bytes path (following + 1)
         else raise OverflowError))
      else ret ())"
  by auto
termination
  by (relation "measure (\<lambda>(path, index). path_len path - index)") auto

declare write_path_bytes.simps [simp del]

definition rlp_write_hex_prefix :: "trie_path \<Rightarrow> bool \<Rightarrow> ('z, unit) kernel" where
  "rlp_write_hex_prefix path is_leaf =
     (let encoded_length = hex_prefix_encoded_length path;
          first = hex_prefix_first_byte path is_leaf in
      bind (rlp_write_string_prefix encoded_length first) (\<lambda>_.
      bind (scratch_push_byte first) (\<lambda>_.
      write_path_bytes path (if odd (path_len path) then 1 else 0))))"

definition scratch_inline_ref :: "inline_node \<Rightarrow> node_ref" where
  "scratch_inline_ref node = ScratchInlineRef (in_data node) (in_len node)"

definition child_ref :: "hash_function \<Rightarrow> region_slice \<Rightarrow> ('z, node_ref) host" where
  "child_ref keccak encoded =
     (if slice_len encoded < MPT_HASH_LENGTH then
        bind (inline_node_from_scratch_slice encoded) (\<lambda>node. ret (scratch_inline_ref node))
      else bind (hash_region keccak ScratchRegion encoded) (\<lambda>node_hash. ret (HashRef node_hash)))"

text \<open>Encoding a node in the scratch region, referring to it and giving the space back.\<close>

definition encoded_child_ref ::
    "hash_function \<Rightarrow> int \<Rightarrow> int \<Rightarrow> ('z, unit) kernel \<Rightarrow> ('z, node_ref) kernel" where
  "encoded_child_ref keccak encoded_size content_len write_content =
     bind (rlp_encoder_begin encoded_size) (\<lambda>encoder.
     bind (rlp_write_list_prefix content_len) (\<lambda>_.
     bind write_content (\<lambda>_.
     bind (rlp_encoder_finish encoder) (\<lambda>encoded.
     bind (child_ref keccak encoded) (\<lambda>result.
     bind (rlp_encoder_rewind encoder) (\<lambda>_. ret result))))))"

definition input_leaf_child_ref ::
    "hash_function \<Rightarrow> trie_path \<Rightarrow> region_slice \<Rightarrow> ('z, node_ref) kernel" where
  "input_leaf_child_ref keccak key value =
     (let path_size = rlp_hex_prefix_size key True in
      bind (rlp_input_scratch_slice_size value) (\<lambda>value_size.
      bind (rlp_scratch_length_add path_size value_size) (\<lambda>content_len.
      bind (rlp_scratch_list_size content_len) (\<lambda>encoded_size.
      encoded_child_ref keccak encoded_size content_len
        (bind (rlp_write_hex_prefix key True) (\<lambda>_. rlp_write_input_slice value))))))"

definition scratch_leaf_child_ref ::
    "hash_function \<Rightarrow> trie_path \<Rightarrow> region_slice \<Rightarrow> ('z, node_ref) kernel" where
  "scratch_leaf_child_ref keccak key value =
     (let path_size = rlp_hex_prefix_size key True in
      bind (rlp_scratch_scratch_slice_size value) (\<lambda>value_size.
      bind (rlp_scratch_length_add path_size value_size) (\<lambda>content_len.
      bind (rlp_scratch_list_size content_len) (\<lambda>encoded_size.
      encoded_child_ref keccak encoded_size content_len
        (bind (rlp_write_hex_prefix key True) (\<lambda>_. rlp_write_scratch_slice value))))))"

definition leaf_child_ref ::
    "hash_function \<Rightarrow> trie_path \<Rightarrow> trie_leaf_value \<Rightarrow> ('z, node_ref) kernel" where
  "leaf_child_ref keccak key value =
     (case value of
        InputTrieLeaf bytes \<Rightarrow> input_leaf_child_ref keccak key bytes
      | ScratchTrieLeaf bytes \<Rightarrow> scratch_leaf_child_ref keccak key bytes)"

definition extension_child_ref ::
    "hash_function \<Rightarrow> trie_path \<Rightarrow> node_ref \<Rightarrow> ('z, node_ref) kernel" where
  "extension_child_ref keccak key childref =
     (let path_length = rlp_hex_prefix_size key False in
      bind (node_ref_size childref) (\<lambda>child_length.
      let content_len = path_length + child_length in
      bind (rlp_list_size content_len) (\<lambda>encoded_size.
      encoded_child_ref keccak encoded_size content_len
        (bind (rlp_write_hex_prefix key False) (\<lambda>_. rlp_write_node_ref childref)))))"

text \<open>A mask has one bit per child; the loops look at its bits from 0 to 15.\<close>

definition branch_mask_for :: "int \<Rightarrow> 16 word" where
  "branch_mask_for index = push_bit (nat index) 1"

definition branch_mask_has :: "16 word \<Rightarrow> int \<Rightarrow> bool" where
  "branch_mask_has child_mask index = (and child_mask (branch_mask_for index) \<noteq> 0)"

definition branch_mask_set :: "16 word \<Rightarrow> int \<Rightarrow> 16 word" where
  "branch_mask_set child_mask index = or child_mask (branch_mask_for index)"

fun branch_content_size ::
    "16 word \<Rightarrow> node_ref list \<Rightarrow> nat list \<Rightarrow> int \<Rightarrow> ('s, int) action" where
  "branch_content_size child_mask children [] content_length = ret content_length"
| "branch_content_size child_mask children (i # rest) content_length =
     bind (if branch_mask_has child_mask (int i) then node_ref_size (vector_access children i)
           else ret 1) (\<lambda>child_length.
     bind (branch_content_length_add content_length child_length) (\<lambda>content_length.
     branch_content_size child_mask children rest content_length))"

fun write_branch_children :: "16 word \<Rightarrow> node_ref list \<Rightarrow> nat list \<Rightarrow> ('z, unit) kernel" where
  "write_branch_children child_mask children [] = ret ()"
| "write_branch_children child_mask children (i # rest) =
     bind (if branch_mask_has child_mask (int i) then rlp_write_node_ref (vector_access children i)
           else scratch_push_byte 0x80) (\<lambda>_.
     write_branch_children child_mask children rest)"

definition branch_child_ref ::
    "hash_function \<Rightarrow> 16 word \<Rightarrow> node_ref list \<Rightarrow> ('z, node_ref) kernel" where
  "branch_child_ref keccak child_mask children =
     bind (branch_content_size child_mask children [0..<16] 1) (\<lambda>content_length.
     bind (rlp_scratch_length_add content_length 0) (\<lambda>scratch_content_length.
     bind (rlp_scratch_list_size scratch_content_length) (\<lambda>encoded_size.
     encoded_child_ref keccak encoded_size content_length
       (bind (write_branch_children child_mask children [0..<16]) (\<lambda>_. scratch_push_byte 0x80)))))"

definition trie_ref_to_root :: "hash_function \<Rightarrow> node_ref \<Rightarrow> ('z, hash) kernel" where
  "trie_ref_to_root keccak r =
     (case r of
        EmptyRef \<Rightarrow> ret EMPTY_TRIE_ROOT
      | InputInlineRef node \<Rightarrow> hash_region keccak InputRegion node
      | ScratchInlineRef data len \<Rightarrow> inline_node_hash keccak \<lparr>in_data = data, in_len = len\<rparr>
      | HashRef h \<Rightarrow> ret h)"

definition input_node_to_ref :: "hash_function \<Rightarrow> region_slice \<Rightarrow> ('z, node_ref) host" where
  "input_node_to_ref keccak node =
     (if slice_len node = 0 then ret EmptyRef
      else if slice_len node < MPT_HASH_LENGTH then ret (InputInlineRef node)
      else bind (hash_region keccak InputRegion node) (\<lambda>node_hash. ret (HashRef node_hash)))"

definition scratch_node_to_ref :: "hash_function \<Rightarrow> region_slice \<Rightarrow> ('z, node_ref) host" where
  "scratch_node_to_ref keccak node =
     (if slice_len node = 0 then ret EmptyRef else child_ref keccak node)"

section \<open>Decoding nodes of the scratch region\<close>

datatype scratch_trie_node =
    ScratchLeafNode trie_path region_slice
  | ScratchExtensionNode trie_path node_ref
  | ScratchBranchNode "node_ref list" region_slice

definition scratch_field_to_ref :: "rlp_field_ref \<Rightarrow> ('z, node_ref) host" where
  "scratch_field_to_ref f =
     (if rf_is_list f then
        bind (inline_node_from_scratch_slice (rf_source f)) (\<lambda>node. ret (scratch_inline_ref node))
      else if rf_content_len f = MPT_HASH_LENGTH then
        bind (scratch_rlp_decode_word f) (\<lambda>word. ret (HashRef (word_to_hash word)))
      else ret EmptyRef)"

function decode_scratch_branch_node ::
    "region_slice \<Rightarrow> nat \<Rightarrow> node_ref list \<Rightarrow> ('z, scratch_trie_node) host" where
  "decode_scratch_branch_node cursor index children =
     (if index < 16 then
        bind (scratch_rlp_next cursor) (\<lambda>(child, following).
        bind (scratch_field_to_ref child) (\<lambda>decoded_child.
        decode_scratch_branch_node following (index + 1)
          (vector_update children index decoded_child)))
      else
        bind (scratch_rlp_next cursor) (\<lambda>(value, following).
        bind (scratch_rlp_cursor_expect_end following) (\<lambda>_.
        bind (scratch_rlp_item_content value) (\<lambda>content.
        ret (ScratchBranchNode children content)))))"
  by auto
termination
  by (relation "measure (\<lambda>(cursor, index, children). 16 - index)") auto

declare decode_scratch_branch_node.simps [simp del]

definition decode_scratch_trie_node :: "region_slice \<Rightarrow> ('z, scratch_trie_node) host" where
  "decode_scratch_trie_node node =
     bind (scratch_rlp_node_cursor node) (\<lambda>cursor.
     bind (scratch_rlp_next cursor) (\<lambda>(first, cursor).
     bind (scratch_rlp_next cursor) (\<lambda>(second, cursor).
     if slice_len cursor = 0 then
       bind (scratch_hex_prefix_decode_ref first) (\<lambda>(is_leaf, path).
       if is_leaf then
         bind (scratch_rlp_item_content second) (\<lambda>value. ret (ScratchLeafNode path value))
       else if path_len path = 0 then fatal_error RlpDecode
       else bind (scratch_field_to_ref second) (\<lambda>child. ret (ScratchExtensionNode path child)))
     else
       bind (scratch_field_to_ref first) (\<lambda>first_child.
       bind (scratch_field_to_ref second) (\<lambda>second_child.
       let children = replicate 16 EmptyRef;
           children = vector_update children 0 first_child;
           children = vector_update children 1 second_child in
       decode_scratch_branch_node cursor 2 children)))))"

section \<open>Merging a path into the node below it\<close>

definition merge_ext_node ::
    "hash_function \<Rightarrow> trie_path \<Rightarrow> region_slice \<Rightarrow> ('z, node_ref) kernel" where
  "merge_ext_node keccak prefix childnode =
     (if path_len prefix = 0 then input_node_to_ref keccak childnode
      else if slice_len childnode = 0 then ret EmptyRef
      else
        bind (decode_input_trie_node childnode) (\<lambda>decoded.
        case decoded of
          InputLeafNode path value \<Rightarrow>
            bind (path_concat prefix path) (\<lambda>merged_path.
            input_leaf_child_ref keccak merged_path value)
        | InputExtensionNode path child \<Rightarrow>
            bind (path_concat prefix path) (\<lambda>merged_path.
            extension_child_ref keccak merged_path child)
        | InputBranchNode _ _ \<Rightarrow>
            bind (input_node_to_ref keccak childnode) (\<lambda>childref.
            extension_child_ref keccak prefix childref)))"

definition merge_ext_ref ::
    "hash_function \<Rightarrow> trie_path \<Rightarrow> node_ref \<Rightarrow> ('z, node_ref) kernel" where
  "merge_ext_ref keccak prefix childref =
     (if path_len prefix = 0 then ret childref
      else
        (case childref of
           EmptyRef \<Rightarrow> ret EmptyRef
         | HashRef _ \<Rightarrow> extension_child_ref keccak prefix childref
         | InputInlineRef node \<Rightarrow>
             bind (decode_input_trie_node node) (\<lambda>decoded.
             case decoded of
               InputLeafNode path value \<Rightarrow>
                 bind (path_concat prefix path) (\<lambda>merged_path.
                 input_leaf_child_ref keccak merged_path value)
             | InputExtensionNode path child \<Rightarrow>
                 bind (path_concat prefix path) (\<lambda>merged_path.
                 extension_child_ref keccak merged_path child)
             | InputBranchNode _ _ \<Rightarrow> extension_child_ref keccak prefix childref)
         | ScratchInlineRef data len \<Rightarrow>
             bind (inline_node_slice \<lparr>in_data = data, in_len = len\<rparr>) (\<lambda>node_slice.
             bind (decode_scratch_trie_node node_slice) (\<lambda>decoded.
             case decoded of
               ScratchLeafNode path value \<Rightarrow>
                 bind (path_concat prefix path) (\<lambda>merged_path.
                 scratch_leaf_child_ref keccak merged_path value)
             | ScratchExtensionNode path child \<Rightarrow>
                 bind (path_concat prefix path) (\<lambda>merged_path.
                 extension_child_ref keccak merged_path child)
             | ScratchBranchNode _ _ \<Rightarrow> extension_child_ref keccak prefix childref))))"

end
