(* ===== verification/Trie_Update.thy ===== *)
theory Trie_Update
  imports Trie_Codec
begin

text \<open>
  Rebuilding a trie from its witness and a stream of updates in key order (\<open>lib/mpt/updates.py\<close>
  and the building half of \<open>lib/mpt/trie.py\<close>). A cursor holds the next update and how its key
  relates to the prefix being built; \<open>fetch\<close> is the action that produces the following update of
  the cursor's source. The walk goes down the trie and the stream together, and fails when the
  stream is not in order or the witness lacks a node.
\<close>

section \<open>Updates\<close>

datatype trie_change = TriePut region_slice | TrieDelete

record trie_update =
  tu_key :: trie_path
  tu_change :: trie_change

datatype trie_update_source = StorageTrieUpdates address | ChangedAccountTrieUpdates

record trie_update_fetch =
  tuf_available :: bool
  tuf_update :: trie_update

datatype trie_update_relation =
    UpdateUnderPrefix trie_path
  | UpdateBeyondPrefix nat
  | UpdateSourceExhausted

record trie_update_cursor =
  uc_current :: trie_update
  uc_relation :: trie_update_relation

definition EMPTY_TRIE_UPDATE :: trie_update where
  "EMPTY_TRIE_UPDATE = \<lparr>tu_key = \<lparr>path_data = word_to_hash 0, path_length = 0\<rparr>,
     tu_change = TrieDelete\<rparr>"

definition trie_updates_begin ::
    "('z, trie_update_fetch) kernel \<Rightarrow> ('z, trie_update_cursor) kernel" where
  "trie_updates_begin fetch =
     bind fetch (\<lambda>first.
     ret \<lparr>uc_current = tuf_update first,
       uc_relation = (if tuf_available first then UpdateUnderPrefix (tu_key (tuf_update first))
         else UpdateSourceExhausted)\<rparr>)"

definition updates_empty :: "trie_update_cursor \<Rightarrow> bool" where
  "updates_empty updates \<longleftrightarrow> uc_relation updates = UpdateSourceExhausted"

definition trie_updates_pop ::
    "('z, trie_update_fetch) kernel \<Rightarrow> trie_update_cursor
      \<Rightarrow> ('z, trie_update \<times> trie_update_cursor) kernel" where
  "trie_updates_pop fetch updates =
     (if updates_empty updates then fatal_error WitnessDeficient
      else
        (let current = uc_current updates in
         bind fetch (\<lambda>successor.
         if tuf_available successor then
           bind (common_prefix_length (tu_key current) (tu_key (tuf_update successor)))
             (\<lambda>common_prefix_len.
           ret (current, \<lparr>uc_current = tuf_update successor,
             uc_relation = UpdateBeyondPrefix common_prefix_len\<rparr>))
         else ret (current, \<lparr>uc_current = EMPTY_TRIE_UPDATE,
           uc_relation = UpdateSourceExhausted\<rparr>))))"

definition trie_updates_rebase ::
    "trie_update_cursor \<Rightarrow> trie_path \<Rightarrow> ('s, trie_update_cursor) action" where
  "trie_updates_rebase updates prefix =
     (case uc_relation updates of
        UpdateSourceExhausted \<Rightarrow> ret updates
      | UpdateUnderPrefix _ \<Rightarrow> ret updates
      | UpdateBeyondPrefix common_prefix_len \<Rightarrow>
          if path_len prefix \<le> common_prefix_len then
            bind (path_drop (tu_key (uc_current updates)) (path_len prefix)) (\<lambda>path_postfix.
            ret \<lparr>uc_current = uc_current updates, uc_relation = UpdateUnderPrefix path_postfix\<rparr>)
          else ret updates)"

definition trie_updates_descend :: "trie_update_cursor \<Rightarrow> ('s, trie_update_cursor) action" where
  "trie_updates_descend updates =
     (case uc_relation updates of
        UpdateUnderPrefix path_postfix \<Rightarrow>
          if path_len path_postfix = 0 then fatal_error WitnessDeficient
          else
            bind (path_drop path_postfix 1) (\<lambda>child_postfix.
            ret (updates\<lparr>uc_relation := UpdateUnderPrefix child_postfix\<rparr>))
      | _ \<Rightarrow> fatal_error WitnessDeficient)"

definition update_under_current_prefix :: "trie_update_cursor \<Rightarrow> bool" where
  "update_under_current_prefix updates =
     (case uc_relation updates of UpdateUnderPrefix _ \<Rightarrow> True | _ \<Rightarrow> False)"

definition update_child_nibble :: "trie_update_cursor \<Rightarrow> ('s, int) action" where
  "update_child_nibble updates =
     (case uc_relation updates of
        UpdateUnderPrefix path_postfix \<Rightarrow>
          if path_len path_postfix = 0 then fatal_error WitnessDeficient
          else ret (path_nibble path_postfix 0)
      | _ \<Rightarrow> fatal_error WitnessDeficient)"

definition update_child_ranges_remaining :: "trie_update_cursor \<Rightarrow> ('s, int) action" where
  "update_child_ranges_remaining updates =
     (if update_under_current_prefix updates
      then bind (update_child_nibble updates) (\<lambda>child_index. ranged 0 16 (16 - child_index))
      else ret 0)"

definition overlay_child_ranges_remaining ::
    "trie_update_cursor \<Rightarrow> bool \<Rightarrow> int \<Rightarrow> ('s, int) action" where
  "overlay_child_ranges_remaining updates existing_pending existing_nibble =
     bind (if update_under_current_prefix updates then update_child_nibble updates else ret 16)
       (\<lambda>update_position.
     let existing_position = (if existing_pending then existing_nibble else 16);
         next_position =
           (if update_position < existing_position then update_position else existing_position) in
     ranged 1 17 (17 - next_position))"

section \<open>Items\<close>

datatype trie_item_value =
    EmptySubtree
  | LeafItem trie_leaf_value
  | BranchItem node_ref
  | SubtreeItem node_ref

record trie_item =
  ti_path :: trie_path
  ti_value :: trie_item_value

definition trie_empty_subtree :: "('s, trie_item) action" where
  "trie_empty_subtree = bind path_empty (\<lambda>path. ret \<lparr>ti_path = path, ti_value = EmptySubtree\<rparr>)"

definition trie_leaf :: "trie_path \<Rightarrow> trie_leaf_value \<Rightarrow> trie_item" where
  "trie_leaf path value = \<lparr>ti_path = path, ti_value = LeafItem value\<rparr>"

definition trie_input_leaf :: "trie_path \<Rightarrow> region_slice \<Rightarrow> trie_item" where
  "trie_input_leaf path value = trie_leaf path (InputTrieLeaf value)"

definition trie_scratch_leaf :: "trie_path \<Rightarrow> region_slice \<Rightarrow> trie_item" where
  "trie_scratch_leaf path value = trie_leaf path (ScratchTrieLeaf value)"

definition trie_branch :: "trie_path \<Rightarrow> node_ref \<Rightarrow> trie_item" where
  "trie_branch path childref = \<lparr>ti_path = path, ti_value = BranchItem childref\<rparr>"

definition trie_subtree :: "trie_path \<Rightarrow> node_ref \<Rightarrow> trie_item" where
  "trie_subtree path childref = \<lparr>ti_path = path, ti_value = SubtreeItem childref\<rparr>"

definition trie_child_ref ::
    "hash_function \<Rightarrow> trie_item \<Rightarrow> nat \<Rightarrow> ('z, node_ref) kernel" where
  "trie_child_ref keccak it depth =
     bind (path_drop (ti_path it) depth) (\<lambda>suffix.
     case ti_value it of
       EmptySubtree \<Rightarrow> ret EmptyRef
     | LeafItem value \<Rightarrow> leaf_child_ref keccak suffix value
     | BranchItem subref \<Rightarrow>
         if path_len suffix = 0 then ret subref else merge_ext_ref keccak suffix subref
     | SubtreeItem subref \<Rightarrow>
         if path_len suffix = 0 then ret subref
         else
           (case subref of
              HashRef h \<Rightarrow>
                bind (nodedb_lookup h) (\<lambda>node.
                if slice_len node = 0 then fatal_error WitnessDeficient
                else merge_ext_node keccak suffix node)
            | _ \<Rightarrow> merge_ext_ref keccak suffix subref))"

record trie_children =
  tc_mask :: "16 word"
  tc_children :: "node_ref list"
  tc_only :: trie_item
  tc_count :: int

definition trie_children_empty :: "('s, trie_children) action" where
  "trie_children_empty =
     bind trie_empty_subtree (\<lambda>empty_subtree.
     ret \<lparr>tc_mask = 0, tc_children = replicate 16 EmptyRef, tc_only = empty_subtree,
       tc_count = 0\<rparr>)"

definition trie_children_add ::
    "hash_function \<Rightarrow> trie_children \<Rightarrow> trie_path \<Rightarrow> int \<Rightarrow> trie_item
      \<Rightarrow> ('z, trie_children) kernel" where
  "trie_children_add keccak children prefix index child =
     (if ti_value child = EmptySubtree then ret children
      else
        (let depth = path_len prefix; child_count = tc_count children in
         bind (if depth < 64 then ret (depth + 1) else fatal_error WitnessDeficient) (\<lambda>child_depth.
         bind (if child_count < 16 then ret (child_count + 1) else fatal_error WitnessDeficient)
           (\<lambda>next_child_count.
         bind (path_single index) (\<lambda>child_segment.
         bind (path_concat prefix child_segment) (\<lambda>child_prefix.
         bind (path_prefix_of child_prefix (ti_path child)) (\<lambda>path_below_child.
         bind (do_when (\<not> path_below_child) (fatal_error WitnessDeficient)) (\<lambda>_.
         bind (do_when (branch_mask_has (tc_mask children) index) (fatal_error WitnessDeficient))
           (\<lambda>_.
         bind (trie_child_ref keccak child child_depth) (\<lambda>childref.
         ret \<lparr>tc_mask = branch_mask_set (tc_mask children) index,
           tc_children = vector_update (tc_children children) (nat index) childref,
           tc_only = child, tc_count = next_child_count\<rparr>))))))))))"

definition trie_children_finish ::
    "hash_function \<Rightarrow> trie_path \<Rightarrow> trie_children \<Rightarrow> ('z, trie_item) kernel" where
  "trie_children_finish keccak prefix children =
     (if tc_count children = 0 then ret \<lparr>ti_path = prefix, ti_value = EmptySubtree\<rparr>
      else if tc_count children = 1 then ret (tc_only children)
      else
        bind (branch_child_ref keccak (tc_mask children) (tc_children children)) (\<lambda>branch_ref.
        ret (trie_branch prefix branch_ref)))"

definition trie_subtree_root :: "hash_function \<Rightarrow> trie_item \<Rightarrow> ('z, hash) kernel" where
  "trie_subtree_root keccak subtree =
     (if ti_value subtree = EmptySubtree then ret EMPTY_TRIE_ROOT
      else bind (trie_child_ref keccak subtree 0) (trie_ref_to_root keccak))"

section \<open>How far the paths and the stream move\<close>

lemma path_empty_len: "path_empty s = Inr (path, t) \<Longrightarrow> path_len path = 0"
  by (auto simp: path_empty_def path_new_def path_len_def ret_def)

lemma path_append_nibble_len:
  assumes "path_append_nibble path value s = Inr (q, t)"
  shows "path_len q = path_len path + 1" and "path_len path < 64"
  using assms
  by (auto simp: path_append_nibble_def path_byte_index_def path_new_def path_len_def fatal_error_def
      Let_def ret_def raise_def elim!: bind_returnsE split: if_splits)

lemma path_single_len:
  assumes "path_single n s = Inr (path, t)"
  shows "path_len path = 1"
proof -
  from assms obtain e u where "path_empty s = Inr (e, u)" "path_append_nibble e n u = Inr (path, t)"
    by (auto simp: path_single_def elim!: bind_returnsE)
  then show ?thesis using path_empty_len [of s e u] path_append_nibble_len(1) [of e n u] by simp
qed

lemma path_concat_from_len:
  "path_concat_from b result index s = Inr (c, t) \<Longrightarrow>
     path_len c = path_len result + (path_len b - index)"
proof (induction b result index arbitrary: s rule: path_concat_from.induct)
  case (1 b result index)
  show ?case
  proof (cases "index < path_len b")
    case True
    with "1.prems" obtain r u v where
      "path_append_nibble result (path_nibble b index) s = Inr (r, u)"
      "path_concat_from b r (index + 1) v = Inr (c, t)"
      by (subst (asm) path_concat_from.simps) (auto elim!: bind_returnsE)
    with "1.IH" [OF True, of r v] path_append_nibble_len True show ?thesis by fastforce
  next
    case False
    with "1.prems" show ?thesis by (subst (asm) path_concat_from.simps) (simp add: ret_def)
  qed
qed

lemma path_concat_len:
  assumes "path_concat a b s = Inr (c, t)"
  shows "path_len c = path_len a + path_len b" and "path_len a + path_len b \<le> 64"
  using assms
  by (auto simp: path_concat_def fatal_error_def raise_def dest: path_concat_from_len split: if_splits)

text \<open>The prefix of a child is one nibble longer and still a path.\<close>

definition child_path_of :: "trie_path \<Rightarrow> int \<Rightarrow> ('s, trie_path) action" where
  "child_path_of prefix nib = bind (path_single nib) (path_concat prefix)"

lemma child_path_of_len:
  assumes "child_path_of prefix nib s = Inr (child, t)"
  shows "path_len child = path_len prefix + 1" and "path_len prefix < 64"
proof -
  from assms obtain p u where "path_single nib s = Inr (p, u)" "path_concat prefix p u = Inr (child, t)"
    by (auto simp: child_path_of_def elim!: bind_returnsE)
  with path_single_len [of nib s p u] path_concat_len [of prefix p u child t]
  show "path_len child = path_len prefix + 1" "path_len prefix < 64" by simp_all
qed

lemma child_path_of_shrinks:
  "child_path_of prefix nib s = Inr (child, t) \<Longrightarrow> 64 - path_len child < 64 - path_len prefix"
  using child_path_of_len [of prefix nib s child t] by simp

definition child_ranges :: "trie_update_cursor \<Rightarrow> nat" where
  "child_ranges updates =
     (case uc_relation updates of
        UpdateUnderPrefix path_postfix \<Rightarrow> nat (16 - path_nibble path_postfix 0)
      | _ \<Rightarrow> 0)"

text \<open>The next update of the stream must lie under a later child.\<close>

definition later_child :: "int \<Rightarrow> trie_update_cursor \<Rightarrow> ('s, unit) action" where
  "later_child previous_index rebased =
     (if update_under_current_prefix rebased then
        bind (update_child_nibble rebased) (\<lambda>rebased_index.
        do_when (rebased_index \<le> previous_index) (fatal_error WitnessDeficient))
      else ret ())"

lemma path_nibble_range: "0 \<le> path_nibble path i" "path_nibble path i < 16"
proof -
  have "uint (take_bit 4 b) < 16" for b :: byte
    unfolding unsigned_take_bit_eq by (simp add: take_bit_eq_mod)
  moreover have "uint (drop_bit 4 b) < 16" for b :: byte
  proof -
    have "uint b < 256" using unsigned_less [where 'a = int, of b] by simp
    then have "uint (drop_bit 4 b) = uint b div 16"
      unfolding unsigned_drop_bit_eq by (simp add: drop_bit_eq_div take_bit_eq_mod)
    with \<open>uint b < 256\<close> show ?thesis by simp
  qed
  ultimately show "0 \<le> path_nibble path i" "path_nibble path i < 16"
    by (auto simp: path_nibble_def high_nibble_def low_nibble_def)
qed

lemma later_child_shrinks:
  assumes "later_child nib rebased s = Inr (x, t)" and "update_child_nibble updates u = Inr (nib, v)"
  shows "child_ranges rebased < child_ranges updates"
proof -
  from assms(2) obtain p where p: "uc_relation updates = UpdateUnderPrefix p" "nib = path_nibble p 0"
    by (auto simp: update_child_nibble_def fatal_error_def raise_def ret_def
        split: trie_update_relation.splits if_splits)
  with assms(1) path_nibble_range [of p 0] show ?thesis
    by (auto simp: later_child_def child_ranges_def update_child_nibble_def fatal_error_def
        update_under_current_prefix_def do_when_def raise_def ret_def
        elim!: bind_returnsE split: trie_update_relation.splits if_splits)
qed

section \<open>Subtrees made of updates only\<close>

text \<open>The update for a full key: its path ends here, and its key is the one expected.\<close>

definition full_key_reached :: "trie_update_cursor \<Rightarrow> ('s, unit) action" where
  "full_key_reached updates =
     (case uc_relation updates of
        UpdateUnderPrefix path_postfix \<Rightarrow>
          do_when (path_len path_postfix \<noteq> 0) (fatal_error WitnessDeficient)
      | _ \<Rightarrow> fatal_error WitnessDeficient)"

definition take_update_at ::
    "('z, trie_update_fetch) kernel \<Rightarrow> trie_update_cursor \<Rightarrow> trie_path
      \<Rightarrow> ('z, trie_item \<times> trie_update_cursor) kernel" where
  "take_update_at fetch updates key =
     bind (full_key_reached updates) (\<lambda>_.
     bind (trie_updates_pop fetch updates) (\<lambda>(update, next).
     bind (do_when (\<not> path_eq (tu_key update) key) (fatal_error WitnessDeficient)) (\<lambda>_.
     case tu_change update of
       TrieDelete \<Rightarrow> bind trie_empty_subtree (\<lambda>item. ret (item, next))
     | TriePut value \<Rightarrow> ret (trie_scratch_leaf (tu_key update) value, next))))"

text \<open>
  The loop over the children that have updates; each must be later than the one before. Building
  goes one nibble down (at most 64 deep), and the loop sees at most 16 children.
\<close>

function updates_subtree ::
    "('z, trie_update_fetch) kernel \<Rightarrow> hash_function \<Rightarrow> trie_update_cursor \<Rightarrow> trie_path \<Rightarrow> nat
      \<Rightarrow> 'z kernel_state_scheme
      \<Rightarrow> py_error + ((trie_item \<times> trie_update_cursor) \<times> 'z kernel_state_scheme)"
and updates_children ::
    "('z, trie_update_fetch) kernel \<Rightarrow> hash_function \<Rightarrow> trie_path \<Rightarrow> nat \<Rightarrow> trie_children
      \<Rightarrow> trie_update_cursor \<Rightarrow> 'z kernel_state_scheme
      \<Rightarrow> py_error + ((trie_children \<times> trie_update_cursor) \<times> 'z kernel_state_scheme)" where
  "updates_subtree fetch keccak updates prefix cursor s =
     bind (do_when (path_len prefix \<noteq> cursor) (fatal_error WitnessDeficient)) (\<lambda>_.
     if \<not> update_under_current_prefix updates
     then bind trie_empty_subtree (\<lambda>item. ret (item, updates))
     else if cursor = 64 then take_update_at fetch updates prefix
     else
       bind trie_children_empty (\<lambda>children.
       bind (updates_children fetch keccak prefix cursor children updates)
         (\<lambda>(children, remaining).
       bind (trie_children_finish keccak prefix children) (\<lambda>item. ret (item, remaining))))) s"
| "updates_children fetch keccak prefix cursor children remaining s =
     (if \<not> update_under_current_prefix remaining then ret (children, remaining)
      else
        bind (update_child_nibble remaining) (\<lambda>nib.
        bind (child_path_of prefix nib) (\<lambda>child_prefix.
        bind (trie_updates_descend remaining) (\<lambda>descended.
        bind (updates_subtree fetch keccak descended child_prefix (cursor + 1)) (\<lambda>(child, next).
        bind (trie_children_add keccak children prefix nib child) (\<lambda>children.
        bind (trie_updates_rebase next prefix) (\<lambda>rebased.
        bind (later_child nib rebased) (\<lambda>_.
        updates_children fetch keccak prefix cursor children rebased)))))))) s"
  by pat_completeness auto

termination
  by (relation "inv_image (less_than <*lex*> less_than <*lex*> less_than)
      (\<lambda>x. case x of
         Inl (fetch, keccak, updates, prefix, cursor, s) \<Rightarrow> (64 - path_len prefix, 1 :: nat, 0)
       | Inr (fetch, keccak, prefix, cursor, children, remaining, s) \<Rightarrow>
           (64 - path_len prefix, 0, child_ranges remaining))")
    (auto dest: child_path_of_shrinks later_child_shrinks)

declare updates_subtree.simps [simp del] updates_children.simps [simp del]

section \<open>A witnessed leaf and the updates around it\<close>

text \<open>
  Both loops of the source that lay updates over one witnessed node share this step: the node is
  added in front of a later update, otherwise the update's child is built, over the node when they
  share the nibble.
\<close>

definition node_before_update :: "bool \<Rightarrow> int \<Rightarrow> int \<Rightarrow> bool" where
  "node_before_update node_pending node_index update_index \<longleftrightarrow>
     node_pending \<and> node_index < update_index"

function overlay_leaf_subtree ::
    "('z, trie_update_fetch) kernel \<Rightarrow> hash_function \<Rightarrow> trie_update_cursor \<Rightarrow> trie_path \<Rightarrow> trie_path
      \<Rightarrow> region_slice \<Rightarrow> nat \<Rightarrow> 'z kernel_state_scheme
      \<Rightarrow> py_error + ((trie_item \<times> trie_update_cursor) \<times> 'z kernel_state_scheme)"
and overlay_leaf_children ::
    "('z, trie_update_fetch) kernel \<Rightarrow> hash_function \<Rightarrow> trie_path \<Rightarrow> trie_path \<Rightarrow> region_slice \<Rightarrow> nat
      \<Rightarrow> trie_children \<Rightarrow> trie_update_cursor \<Rightarrow> bool \<Rightarrow> 'z kernel_state_scheme
      \<Rightarrow> py_error + ((trie_children \<times> trie_update_cursor) \<times> 'z kernel_state_scheme)" where
  "overlay_leaf_subtree fetch keccak updates prefix key value cursor s =
     bind (path_prefix_of prefix key) (\<lambda>key_below_prefix.
     bind (do_when (path_len prefix \<noteq> cursor \<or> \<not> key_below_prefix) (fatal_error WitnessDeficient))
       (\<lambda>_.
     if cursor = 64 then
       bind (do_when (\<not> path_eq prefix key) (fatal_error WitnessDeficient)) (\<lambda>_.
       if update_under_current_prefix updates then take_update_at fetch updates key
       else ret (trie_input_leaf key value, updates))
     else
       bind trie_children_empty (\<lambda>children.
       bind (overlay_leaf_children fetch keccak prefix key value cursor children updates True)
         (\<lambda>(children, remaining).
       bind (trie_children_finish keccak prefix children) (\<lambda>item. ret (item, remaining)))))) s"
| "overlay_leaf_children fetch keccak prefix key value cursor children remaining leaf_pending s =
     (let leaf_nibble = path_nibble key cursor in
      if update_under_current_prefix remaining then
        bind (update_child_nibble remaining) (\<lambda>update_nibble.
        if node_before_update leaf_pending leaf_nibble update_nibble then
          bind (trie_children_add keccak children prefix leaf_nibble (trie_input_leaf key value))
            (\<lambda>children.
          overlay_leaf_children fetch keccak prefix key value cursor children remaining False)
        else
          bind (child_path_of prefix update_nibble) (\<lambda>child_prefix.
          bind (trie_updates_descend remaining) (\<lambda>descended.
          let consumes_leaf = (leaf_pending \<and> update_nibble = leaf_nibble) in
          bind (if consumes_leaf
                then overlay_leaf_subtree fetch keccak descended child_prefix key value (cursor + 1)
                else updates_subtree fetch keccak descended child_prefix (cursor + 1))
            (\<lambda>(child, next).
          bind (trie_children_add keccak children prefix update_nibble child) (\<lambda>children.
          bind (trie_updates_rebase next prefix) (\<lambda>rebased.
          bind (later_child update_nibble rebased) (\<lambda>_.
          overlay_leaf_children fetch keccak prefix key value cursor children rebased
            (leaf_pending \<and> \<not> consumes_leaf))))))))
      else if leaf_pending then
        bind (trie_children_add keccak children prefix leaf_nibble (trie_input_leaf key value))
          (\<lambda>children.
        overlay_leaf_children fetch keccak prefix key value cursor children remaining False)
      else ret (children, remaining)) s"
  by pat_completeness auto

termination
  by (relation "inv_image (less_than <*lex*> less_than <*lex*> less_than <*lex*> less_than)
      (\<lambda>x. case x of
         Inl (fetch, keccak, updates, prefix, key, value, cursor, s) \<Rightarrow>
           (64 - path_len prefix, 1 :: nat, 0, 0)
       | Inr (fetch, keccak, prefix, key, value, cursor, children, remaining, leaf_pending, s) \<Rightarrow>
           (64 - path_len prefix, 0, child_ranges remaining, if leaf_pending then 1 else 0))")
    (auto simp: node_before_update_def dest: child_path_of_shrinks later_child_shrinks)

declare overlay_leaf_subtree.simps [simp del] overlay_leaf_children.simps [simp del]

section \<open>Witnessed nodes and the updates around them\<close>

lemma input_trie_node_state_cong [fundef_cong]:
  assumes "node = node'" and "s = s'"
    and "\<And>path value. node' = InputLeafNode path value \<Longrightarrow> f path value s' = f' path value s'"
    and "\<And>path child. node' = InputExtensionNode path child \<Longrightarrow> g path child s' = g' path child s'"
    and "\<And>children value. node' = InputBranchNode children value \<Longrightarrow>
      h children value s' = h' children value s'"
  shows "(case node of InputLeafNode path value \<Rightarrow> f path value
      | InputExtensionNode path child \<Rightarrow> g path child
      | InputBranchNode children value \<Rightarrow> h children value) s =
    (case node' of InputLeafNode path value \<Rightarrow> f' path value
      | InputExtensionNode path child \<Rightarrow> g' path child
      | InputBranchNode children value \<Rightarrow> h' children value) s'"
  using assms by (cases node') simp_all

text \<open>Whether the next update lies under the child at an index; it may not lie before it.\<close>

definition update_at_child :: "int \<Rightarrow> trie_update_cursor \<Rightarrow> ('s, bool) action" where
  "update_at_child child_index remaining =
     (if update_under_current_prefix remaining then
        bind (update_child_nibble remaining) (\<lambda>update_index.
        bind (do_when (update_index < child_index) (fatal_error WitnessDeficient)) (\<lambda>_.
        ret (update_index = child_index)))
      else ret False)"

lemma path_eq_len: "path_eq a b \<Longrightarrow> path_len a = path_len b"
  by (simp add: path_eq_def path_len_def)

lemma path_concat_not_eq:
  "path_concat prefix path s = Inr (q, t) \<Longrightarrow> path_len path \<noteq> 0 \<Longrightarrow> \<not> path_eq prefix q"
  using path_concat_len [of prefix path s q t] path_eq_len [of prefix q] by auto

function witness_subtree ::
    "('z, trie_update_fetch) kernel \<Rightarrow> hash_function \<Rightarrow> region_slice \<Rightarrow> trie_path
      \<Rightarrow> trie_update_cursor \<Rightarrow> nat \<Rightarrow> 'z kernel_state_scheme
      \<Rightarrow> py_error + ((trie_item \<times> trie_update_cursor) \<times> 'z kernel_state_scheme)"
and witness_branch_children ::
    "('z, trie_update_fetch) kernel \<Rightarrow> hash_function \<Rightarrow> node_ref list \<Rightarrow> trie_path \<Rightarrow> nat
      \<Rightarrow> trie_children \<Rightarrow> trie_update_cursor \<Rightarrow> nat list \<Rightarrow> 'z kernel_state_scheme
      \<Rightarrow> py_error + ((trie_children \<times> trie_update_cursor) \<times> 'z kernel_state_scheme)"
and overlay_extension_subtree ::
    "('z, trie_update_fetch) kernel \<Rightarrow> hash_function \<Rightarrow> node_ref \<Rightarrow> trie_path
      \<Rightarrow> trie_update_cursor \<Rightarrow> trie_path \<Rightarrow> nat \<Rightarrow> 'z kernel_state_scheme
      \<Rightarrow> py_error + ((trie_item \<times> trie_update_cursor) \<times> 'z kernel_state_scheme)"
and overlay_extension_children ::
    "('z, trie_update_fetch) kernel \<Rightarrow> hash_function \<Rightarrow> node_ref \<Rightarrow> trie_path \<Rightarrow> trie_path \<Rightarrow> nat
      \<Rightarrow> trie_children \<Rightarrow> trie_update_cursor \<Rightarrow> bool \<Rightarrow> 'z kernel_state_scheme
      \<Rightarrow> py_error + ((trie_children \<times> trie_update_cursor) \<times> 'z kernel_state_scheme)" where
  "witness_subtree fetch keccak node prefix updates cursor s =
     bind (do_when (path_len prefix \<noteq> cursor) (fatal_error WitnessDeficient)) (\<lambda>_.
     if slice_len node = 0 then updates_subtree fetch keccak updates prefix cursor
     else
       bind (decode_input_trie_node node) (\<lambda>decoded.
       case decoded of
         InputLeafNode path value \<Rightarrow>
           bind (path_concat prefix path) (\<lambda>key.
           overlay_leaf_subtree fetch keccak updates prefix key value cursor)
       | InputExtensionNode path childref \<Rightarrow>
           (if path_len path = 0 \<or> 64 < cursor + path_len path then fatal_error WitnessDeficient
            else
              bind (path_concat prefix path) (\<lambda>child_prefix.
              overlay_extension_subtree fetch keccak childref child_prefix updates prefix cursor))
       | InputBranchNode children value \<Rightarrow>
           (if slice_len value \<noteq> 0 \<or> 64 \<le> cursor then fatal_error WitnessDeficient
            else
              bind trie_children_empty (\<lambda>built.
              bind (witness_branch_children fetch keccak children prefix cursor built updates [0..<16])
                (\<lambda>(built, remaining).
              bind (do_when (update_under_current_prefix remaining) (fatal_error WitnessDeficient))
                (\<lambda>_.
              bind (trie_children_finish keccak prefix built) (\<lambda>item. ret (item, remaining)))))))) s"
| "witness_branch_children fetch keccak children prefix cursor built remaining [] s =
     ret (built, remaining) s"
| "witness_branch_children fetch keccak children prefix cursor built remaining (i # rest) s =
     bind (child_path_of prefix (int i)) (\<lambda>child_prefix.
     let childref = vector_access children i; child_present = (childref \<noteq> EmptyRef) in
     bind (update_at_child (int i) remaining) (\<lambda>update_here.
     bind (if update_here then
             bind (trie_updates_descend remaining) (\<lambda>descended.
             if child_present then
               bind (resolve_witness_ref childref) (\<lambda>child.
               witness_subtree fetch keccak child child_prefix descended (cursor + 1))
             else updates_subtree fetch keccak descended child_prefix (cursor + 1))
           else if child_present then ret (trie_subtree child_prefix childref, remaining)
           else bind trie_empty_subtree (\<lambda>item. ret (item, remaining)))
       (\<lambda>(child, next_updates).
     bind (trie_children_add keccak built prefix (int i) child) (\<lambda>built.
     bind (if update_here then trie_updates_rebase next_updates prefix else ret next_updates)
       (\<lambda>remaining.
     witness_branch_children fetch keccak children prefix cursor built remaining rest))))) s"
| "overlay_extension_subtree fetch keccak childref child_prefix updates prefix cursor s =
     bind (path_prefix_of prefix child_prefix) (\<lambda>child_below_prefix.
     bind (do_when (path_len prefix \<noteq> cursor \<or> \<not> child_below_prefix)
       (fatal_error WitnessDeficient)) (\<lambda>_.
     if path_eq prefix child_prefix then
       (if update_under_current_prefix updates then
          bind (resolve_witness_ref childref) (\<lambda>child.
          witness_subtree fetch keccak child child_prefix updates cursor)
        else ret (trie_branch child_prefix childref, updates))
     else if cursor = 64 then fatal_error WitnessDeficient
     else
       bind trie_children_empty (\<lambda>children.
       bind (overlay_extension_children fetch keccak childref child_prefix prefix cursor children
         updates True) (\<lambda>(children, remaining).
       bind (trie_children_finish keccak prefix children) (\<lambda>item. ret (item, remaining)))))) s"
| "overlay_extension_children fetch keccak childref child_prefix prefix cursor children remaining
       extension_pending s =
     (let extension_nibble = path_nibble child_prefix cursor in
      if update_under_current_prefix remaining then
        bind (update_child_nibble remaining) (\<lambda>update_nibble.
        if node_before_update extension_pending extension_nibble update_nibble then
          bind (trie_children_add keccak children prefix extension_nibble
            (trie_branch child_prefix childref)) (\<lambda>children.
          overlay_extension_children fetch keccak childref child_prefix prefix cursor children
            remaining False)
        else
          bind (child_path_of prefix update_nibble) (\<lambda>next_prefix.
          bind (trie_updates_descend remaining) (\<lambda>descended.
          let consumes_extension = (extension_pending \<and> update_nibble = extension_nibble) in
          bind (if consumes_extension
                then overlay_extension_subtree fetch keccak childref child_prefix descended
                  next_prefix (cursor + 1)
                else updates_subtree fetch keccak descended next_prefix (cursor + 1))
            (\<lambda>(child, next).
          bind (trie_children_add keccak children prefix update_nibble child) (\<lambda>children.
          bind (trie_updates_rebase next prefix) (\<lambda>rebased.
          bind (later_child update_nibble rebased) (\<lambda>_.
          overlay_extension_children fetch keccak childref child_prefix prefix cursor children
            rebased (extension_pending \<and> \<not> consumes_extension))))))))
      else if extension_pending then
        bind (trie_children_add keccak children prefix extension_nibble
          (trie_branch child_prefix childref)) (\<lambda>children.
        overlay_extension_children fetch keccak childref child_prefix prefix cursor children
          remaining False)
      else ret (children, remaining)) s"
  by pat_completeness auto

termination
  by (relation "inv_image (less_than <*lex*> less_than <*lex*> less_than <*lex*> less_than)
      (\<lambda>x. case x of
         Inl (Inl (fetch, keccak, node, prefix, updates, cursor, s)) \<Rightarrow>
           (64 - path_len prefix, 2 :: nat, 0, 0)
       | Inl (Inr (fetch, keccak, children, prefix, cursor, built, remaining, indices, s)) \<Rightarrow>
           (64 - path_len prefix, 0, length indices, 0)
       | Inr (Inl (fetch, keccak, childref, child_prefix, updates, prefix, cursor, s)) \<Rightarrow>
           (64 - path_len prefix, if path_eq prefix child_prefix then 3 else 1, 0, 0)
       | Inr (Inr (fetch, keccak, childref, child_prefix, prefix, cursor, children, remaining,
             extension_pending, s)) \<Rightarrow>
           (64 - path_len prefix, 0, child_ranges remaining, if extension_pending then 1 else 0))")
    (auto simp: node_before_update_def path_concat_not_eq path_eq_len
      dest: child_path_of_shrinks later_child_shrinks)

declare witness_subtree.simps [simp del] witness_branch_children.simps [simp del]
  overlay_extension_subtree.simps [simp del] overlay_extension_children.simps [simp del]

section \<open>Roots\<close>

record trie_root_result =
  trr_root :: hash
  trr_changed :: bool

definition trie_root_cursor ::
    "('z, trie_update_fetch) kernel \<Rightarrow> hash_function \<Rightarrow> hash \<Rightarrow> trie_update_cursor
      \<Rightarrow> ('z, trie_root_result) kernel" where
  "trie_root_cursor fetch keccak base_root updates =
     (if updates_empty updates then ret \<lparr>trr_root = base_root, trr_changed = False\<rparr>
      else
        bind path_empty (\<lambda>empty_prefix.
        bind (if base_root = EMPTY_TRIE_ROOT
              then updates_subtree fetch keccak updates empty_prefix 0
              else
                bind (nodedb_lookup base_root) (\<lambda>node.
                if slice_len node = 0 then fatal_error WitnessDeficient
                else witness_subtree fetch keccak node empty_prefix updates 0))
          (\<lambda>(subtree, remaining).
        if updates_empty remaining then
          bind (trie_subtree_root keccak subtree) (\<lambda>root.
          ret \<lparr>trr_root = root, trr_changed = True\<rparr>)
        else fatal_error WitnessDeficient)))"

definition trie_root ::
    "('z, trie_update_fetch) kernel \<Rightarrow> hash_function \<Rightarrow> hash \<Rightarrow> ('z, trie_root_result) kernel" where
  "trie_root fetch keccak base_root =
     bind (trie_updates_begin fetch) (trie_root_cursor fetch keccak base_root)"

end
