(* ===== verification/Trie_Frame.thy ===== *)
theory Trie_Frame
  imports Trie_Update
begin

text \<open>
  What rebuilding a trie leaves alone: the codecs change the scratch arena only, and the builder
  whatever its source of updates changes besides. The locale \<open>update_stream\<close> states what a source
  promises; the state root interprets it for the storage of an account and for the accounts.
\<close>

section \<open>Composition rules for the case distinctions of the source\<close>

named_theorems frame_intros "what keeps a relation between states"

lemma keeps_case_prod [frame_intros]:
  "(\<And>x y. p = (x, y) \<Longrightarrow> keeps R (f x y)) \<Longrightarrow> keeps R (case p of (x, y) \<Rightarrow> f x y)"
  by (cases p) simp

lemma keeps_Let [frame_intros]: "keeps R (f v) \<Longrightarrow> keeps R (Let v f)"
  by simp

lemma keeps_case_node_ref [frame_intros]:
  "keeps R a \<Longrightarrow> (\<And>x. keeps R (b x)) \<Longrightarrow> (\<And>x y. keeps R (c x y)) \<Longrightarrow> (\<And>x. keeps R (d x)) \<Longrightarrow>
     keeps R (case r of EmptyRef \<Rightarrow> a | InputInlineRef x \<Rightarrow> b x | ScratchInlineRef x y \<Rightarrow> c x y
       | HashRef x \<Rightarrow> d x)"
  by (cases r) simp_all

lemma keeps_case_input_node [frame_intros]:
  "(\<And>x y. keeps R (a x y)) \<Longrightarrow> (\<And>x y. keeps R (b x y)) \<Longrightarrow> (\<And>x y. keeps R (c x y)) \<Longrightarrow>
     keeps R (case n of InputLeafNode x y \<Rightarrow> a x y | InputExtensionNode x y \<Rightarrow> b x y
       | InputBranchNode x y \<Rightarrow> c x y)"
  by (cases n) simp_all

lemma keeps_case_scratch_node [frame_intros]:
  "(\<And>x y. keeps R (a x y)) \<Longrightarrow> (\<And>x y. keeps R (b x y)) \<Longrightarrow> (\<And>x y. keeps R (c x y)) \<Longrightarrow>
     keeps R (case n of ScratchLeafNode x y \<Rightarrow> a x y | ScratchExtensionNode x y \<Rightarrow> b x y
       | ScratchBranchNode x y \<Rightarrow> c x y)"
  by (cases n) simp_all

lemma keeps_case_leaf_value [frame_intros]:
  "(\<And>x. keeps R (a x)) \<Longrightarrow> (\<And>x. keeps R (b x)) \<Longrightarrow>
     keeps R (case v of InputTrieLeaf x \<Rightarrow> a x | ScratchTrieLeaf x \<Rightarrow> b x)"
  by (cases v) simp_all

lemma keeps_case_item_value [frame_intros]:
  "keeps R a \<Longrightarrow> (\<And>x. keeps R (b x)) \<Longrightarrow> (\<And>x. keeps R (c x)) \<Longrightarrow> (\<And>x. keeps R (d x)) \<Longrightarrow>
     keeps R (case v of EmptySubtree \<Rightarrow> a | LeafItem x \<Rightarrow> b x | BranchItem x \<Rightarrow> c x
       | SubtreeItem x \<Rightarrow> d x)"
  by (cases v) simp_all

lemma keeps_case_relation [frame_intros]:
  "(\<And>x. keeps R (a x)) \<Longrightarrow> (\<And>x. keeps R (b x)) \<Longrightarrow> keeps R c \<Longrightarrow>
     keeps R (case v of UpdateUnderPrefix x \<Rightarrow> a x | UpdateBeyondPrefix x \<Rightarrow> b x
       | UpdateSourceExhausted \<Rightarrow> c)"
  by (cases v) simp_all

lemma keeps_case_change [frame_intros]:
  "(\<And>x. keeps R (a x)) \<Longrightarrow> keeps R b \<Longrightarrow>
     keeps R (case v of TriePut x \<Rightarrow> a x | TrieDelete \<Rightarrow> b)"
  by (cases v) simp_all

section \<open>Writing to the scratch arena\<close>

interpretation arena: action_invariant arena_only
  by unfold_locales (auto intro: arena_only_trans)

lemma keeps_fatal [frame_intros]: "keeps R (fatal_error r)"
  by (simp add: fatal_error_def keeps_raise)

lemmas arena_rules = arena.keeps_rules keeps_if keeps_raise frame_intros

named_theorems arena_intros "what changes the scratch arena only"

lemma pure_arena: "pure_action m \<Longrightarrow> keeps arena_only m"
  by (rule pure_keeps) auto

lemma arena_modify [arena_intros]:
  "keeps arena_only (modify (scratch_bytes_update f))" "keeps arena_only (set_scratch_arena a)"
  unfolding set_scratch_arena_def by (rule keeps_modify, simp add: arena_only_def)+

lemmas arena_pure [arena_intros] =
  pure_arena [OF pure_ranged] pure_arena [OF pure_as_word] pure_arena [OF pure_region_slice]
  pure_arena [OF pure_region_sub_slice] pure_arena [OF pure_region_slice_suffix]
  pure_arena [OF pure_region_byte] pure_arena [OF pure_load_word] pure_arena [OF pure_input_byte]
  pure_arena [OF pure_input_load] pure_arena [OF pure_input_load_n]
  pure_arena [OF pure_rlp_field_ref] pure_arena [OF pure_rlp_item_content]
  pure_arena [OF pure_rlp_length_word] pure_arena [OF pure_path_new(1)]
  pure_arena [OF pure_path_new(2)] pure_arena [OF pure_path_matches]
  pure_arena [OF pure_decode_node] pure_arena [OF pure_nodedb_lookup] pure_arena [OF pure_resolve]

lemma arena_natural [arena_intros]: "keeps arena_only (natural v)"
  unfolding natural_def by (intro arena_rules)

lemma arena_hash [arena_intros]: "keeps arena_only (hash_region keccak k sl)"
  unfolding hash_region_def by (intro arena_rules)

lemma arena_scratch_reads [arena_intros]:
  "keeps arena_only (scratch_byte sl i)" "keeps arena_only (scratch_slice_load sl i)"
  "keeps arena_only (scratch_slice_load_n sl i n)"
  unfolding scratch_byte_def scratch_slice_load_def scratch_slice_load_n_def scratch_slice_byte_at_def
    scratch_slice_load_word_def scratch_slice_load_n_word_def
  by (intro arena_rules arena_intros)+

lemma arena_store [arena_intros]:
  "keeps arena_only (scratch_store_at offset payload)" "keeps arena_only (host_scratch_reserve a b)"
  "keeps arena_only (host_scratch_truncate a)"
  unfolding scratch_store_at_def host_scratch_reserve_def host_scratch_truncate_def
  by (intro arena_rules arena_intros keeps_modify; simp add: arena_only_def)+

lemma arena_store_region [arena_intros]: "keeps arena_only (host_scratch_store_region k offset value)"
  unfolding host_scratch_store_region_def by (intro arena_rules arena_intros)

lemma arena_push [arena_intros]:
  "(\<And>cursor. keeps arena_only (store cursor)) \<Longrightarrow> keeps arena_only (scratch_push store)"
  unfolding scratch_push_def by (intro arena_rules arena_intros)

lemma arena_pushes [arena_intros]:
  "keeps arena_only (scratch_push_byte b)" "keeps arena_only (scratch_push_b256 h n)"
  "keeps arena_only (scratch_push_word_be w n)" "keeps arena_only (scratch_push_address a)"
  "keeps arena_only (stateless_input_scratch_push_slice sl)"
  "keeps arena_only (scratch_scratch_push_slice sl)"
  unfolding scratch_push_byte_def scratch_push_b256_def scratch_push_word_be_def
    scratch_push_address_def stateless_input_scratch_push_slice_def scratch_scratch_push_slice_def
    host_scratch_store_byte_def host_scratch_store_b256_def host_scratch_store_word_def
    host_scratch_store_address_def host_scratch_store_stateless_input_def
    host_scratch_store_scratch_def
  by (intro arena_rules arena_intros)+

lemma arena_marks [arena_intros]:
  "keeps arena_only scratch_begin" "keeps arena_only (scratch_reserve n)"
  "keeps arena_only (scratch_finish n)" "keeps arena_only (scratch_rewind n)"
  unfolding scratch_begin_def scratch_reserve_def scratch_finish_def scratch_rewind_def
  by (intro arena_rules arena_intros)+

section \<open>RLP\<close>

lemma arena_rlp_sizes [arena_intros]:
  "keeps arena_only (rlp_scratch_length_add a b)" "keeps arena_only (rlp_length_prefix_len n)"
  "keeps arena_only (first_input_byte sl)" "keeps arena_only (first_scratch_byte sl)"
  unfolding rlp_scratch_length_add_def rlp_length_prefix_len_def first_input_byte_def
    first_scratch_byte_def
  by (intro arena_rules arena_intros)+

lemma arena_rlp_slice_sizes [arena_intros]:
  "keeps arena_only (rlp_list_size n)" "keeps arena_only (rlp_scratch_list_size n)"
  "keeps arena_only (rlp_materialized_slice_size n f)" "keeps arena_only (rlp_uint_word_size w)"
  unfolding rlp_list_size_def rlp_scratch_list_size_def rlp_materialized_slice_size_def
    rlp_uint_word_size_def rlp_scratch_small_length_def
  by (intro arena_rules arena_intros)+

lemma arena_rlp_region_sizes [arena_intros]:
  "keeps arena_only (rlp_input_scratch_slice_size sl)"
  "keeps arena_only (rlp_scratch_scratch_slice_size sl)"
  unfolding rlp_input_scratch_slice_size_def rlp_scratch_scratch_slice_size_def
    rlp_scratch_region_size_def
  by (intro arena_rules arena_intros)+

lemma arena_rlp_prefixes [arena_intros]:
  "keeps arena_only (rlp_write_string_prefix n f)" "keeps arena_only (rlp_write_list_prefix n)"
  unfolding rlp_write_string_prefix_def rlp_write_list_prefix_def
  by (intro arena_rules arena_intros)+

lemma arena_rlp_writers [arena_intros]:
  "keeps arena_only (rlp_write_input_slice sl)" "keeps arena_only (rlp_write_scratch_slice sl)"
  "keeps arena_only (rlp_write_uint_word w)" "keeps arena_only (rlp_write_word w)"
  "keeps arena_only (rlp_encoder_begin n)" "keeps arena_only (rlp_encoder_finish e)"
  "keeps arena_only (rlp_encoder_rewind e)"
  unfolding rlp_write_input_slice_def rlp_write_scratch_slice_def rlp_write_uint_word_def
    rlp_write_word_def rlp_encoder_begin_def rlp_encoder_finish_def rlp_encoder_rewind_def
  by (intro arena_rules arena_intros)+

lemma arena_scratch_width [arena_intros]: "keeps arena_only (scratch_rlp_uint64_width sl n)"
proof (induction n)
  case 0
  show ?case unfolding scratch_rlp_uint64_width.simps by (intro arena_rules)
next
  case (Suc n)
  then show ?case unfolding scratch_rlp_uint64_width.simps by (intro arena_rules arena_intros)
qed

lemma arena_scratch_hdr [arena_intros]: "keeps arena_only (scratch_rlp_ref_hdr sl)"
  unfolding scratch_rlp_ref_hdr_def by (intro arena_rules arena_intros)

lemma arena_scratch_rlp [arena_intros]:
  "keeps arena_only (scratch_rlp_item_content f)" "keeps arena_only (scratch_rlp_decode_list f)"
  "keeps arena_only (scratch_rlp_decode_item sl)" "keeps arena_only (scratch_rlp_cursor_advance sl n)"
  "keeps arena_only (scratch_rlp_cursor_expect_end sl)" "keeps arena_only (scratch_rlp_single_ref sl)"
  "keeps arena_only (scratch_rlp_decode_word f)"
  unfolding scratch_rlp_item_content_def scratch_rlp_decode_list_def scratch_rlp_decode_item_def
    scratch_rlp_cursor_advance_def scratch_rlp_cursor_expect_end_def scratch_rlp_single_ref_def
    scratch_rlp_decode_word_def
  by (intro arena_rules arena_intros)+

lemma arena_scratch_next [arena_intros]:
  "keeps arena_only (scratch_rlp_next sl)" "keeps arena_only (scratch_rlp_node_cursor sl)"
  unfolding scratch_rlp_next_def scratch_rlp_node_cursor_def by (intro arena_rules arena_intros)+

section \<open>Paths and nodes\<close>

lemma arena_path_steps [arena_intros]:
  "keeps arena_only (path_byte_index i)" "keeps arena_only (next_nibble i)"
  unfolding path_byte_index_def next_nibble_def by (intro arena_rules)+

lemma arena_path_append [arena_intros]: "keeps arena_only (path_append_nibble path v)"
  unfolding path_append_nibble_def by (intro arena_rules arena_intros)

lemma arena_concat_loop [arena_intros]: "keeps arena_only (path_concat_from b r i)"
proof (induction b r i rule: path_concat_from.induct)
  case (1 b r i)
  then show ?case by (subst path_concat_from.simps) (intro arena_rules arena_intros; simp)
qed

lemma arena_drop_loop [arena_intros]: "keeps arena_only (path_drop_from path n r i)"
proof (induction path n r i rule: path_drop_from.induct)
  case (1 path n r i)
  then show ?case by (subst path_drop_from.simps) (intro arena_rules arena_intros; simp)
qed

lemma arena_prefix_loop [arena_intros]: "keeps arena_only (common_prefix_length_from a b n i)"
proof (induction a b n i rule: common_prefix_length_from.induct)
  case (1 a b n i)
  then show ?case by (subst common_prefix_length_from.simps) (intro arena_rules arena_intros; simp)
qed

lemma arena_paths [arena_intros]:
  "keeps arena_only (path_single n)" "keeps arena_only (path_concat a b)"
  "keeps arena_only (path_drop a i)" "keeps arena_only (path_prefix_of a b)"
  "keeps arena_only (common_prefix_length a b)"
  unfolding path_single_def path_concat_def path_drop_def path_prefix_of_def common_prefix_length_def
  by (intro arena_rules arena_intros)+

lemma arena_hex_prefix [arena_intros]: "keeps arena_only (scratch_hex_prefix_decode_ref f)"
  unfolding scratch_hex_prefix_decode_ref_def by (intro arena_rules arena_intros)

lemma arena_inline [arena_intros]:
  "keeps arena_only (inline_node_from_scratch_slice sl)" "keeps arena_only (inline_node_slice n)"
  "keeps arena_only (node_ref_size r)" "keeps arena_only (rlp_write_node_ref r)"
  unfolding inline_node_from_scratch_slice_def inline_node_slice_def node_ref_size_def
    rlp_write_node_ref_def
  by (intro arena_rules arena_intros)+

lemma arena_inline_hash [arena_intros]: "keeps arena_only (inline_node_hash keccak n)"
  unfolding inline_node_hash_def by (intro arena_rules arena_intros)

lemma arena_path_bytes [arena_intros]: "keeps arena_only (write_path_bytes path i)"
proof (induction path i rule: write_path_bytes.induct)
  case (1 path i)
  then show ?case by (subst write_path_bytes.simps) (intro arena_rules arena_intros; simp add: Let_def)
qed

lemma arena_write_hex_prefix [arena_intros]: "keeps arena_only (rlp_write_hex_prefix path l)"
  unfolding rlp_write_hex_prefix_def by (intro arena_rules arena_intros)

lemma arena_child_ref [arena_intros]: "keeps arena_only (child_ref keccak sl)"
  unfolding child_ref_def by (intro arena_rules arena_intros)

lemma arena_encoded_child [arena_intros]:
  "keeps arena_only w \<Longrightarrow> keeps arena_only (encoded_child_ref keccak a b w)"
  unfolding encoded_child_ref_def by (intro arena_rules arena_intros)

lemma arena_leaf_refs [arena_intros]:
  "keeps arena_only (input_leaf_child_ref keccak key sl)"
  "keeps arena_only (scratch_leaf_child_ref keccak key sl)"
  "keeps arena_only (extension_child_ref keccak key r)"
  unfolding input_leaf_child_ref_def scratch_leaf_child_ref_def extension_child_ref_def
  by (intro arena_rules arena_intros)+

lemma arena_branch_loops [arena_intros]:
  "keeps arena_only (branch_content_size m children is n)"
  "keeps arena_only (write_branch_children m children is)"
  by (induction "is" arbitrary: n)
    (auto simp: branch_content_length_add_def intro!: arena_rules arena_intros)

lemma arena_node_refs [arena_intros]:
  "keeps arena_only (leaf_child_ref keccak key v)" "keeps arena_only (branch_child_ref keccak m children)"
  "keeps arena_only (trie_ref_to_root keccak r)" "keeps arena_only (input_node_to_ref keccak sl)"
  "keeps arena_only (scratch_field_to_ref f)"
  unfolding leaf_child_ref_def branch_child_ref_def trie_ref_to_root_def input_node_to_ref_def
    scratch_field_to_ref_def
  by (intro arena_rules arena_intros)+

lemma arena_scratch_branch [arena_intros]: "keeps arena_only (decode_scratch_branch_node c i children)"
proof (induction c i children rule: decode_scratch_branch_node.induct)
  case (1 c i children)
  then show ?case
    by (subst decode_scratch_branch_node.simps) (intro arena_rules arena_intros; simp)
qed

lemma arena_scratch_node [arena_intros]: "keeps arena_only (decode_scratch_trie_node sl)"
  unfolding decode_scratch_trie_node_def by (intro arena_rules arena_intros)

lemma arena_merge [arena_intros]:
  "keeps arena_only (merge_ext_node keccak path sl)" "keeps arena_only (merge_ext_ref keccak path r)"
  unfolding merge_ext_node_def merge_ext_ref_def by (intro arena_rules arena_intros)+

section \<open>Items\<close>

lemma arena_items [arena_intros]:
  "keeps arena_only trie_empty_subtree" "keeps arena_only trie_children_empty"
  "keeps arena_only (trie_child_ref keccak it n)"
  unfolding trie_empty_subtree_def trie_children_empty_def trie_child_ref_def
  by (intro arena_rules arena_intros)+

lemma arena_children [arena_intros]:
  "keeps arena_only (trie_children_add keccak c p i it)"
  "keeps arena_only (trie_children_finish keccak p c)" "keeps arena_only (trie_subtree_root keccak it)"
  unfolding trie_children_add_def trie_children_finish_def trie_subtree_root_def
  by (intro arena_rules arena_intros)+

lemma arena_cursor [arena_intros]:
  "keeps arena_only (trie_updates_rebase u p)" "keeps arena_only (trie_updates_descend u)"
  "keeps arena_only (update_child_nibble u)" "keeps arena_only (full_key_reached u)"
  "keeps arena_only (child_path_of p n)"
  unfolding trie_updates_rebase_def trie_updates_descend_def update_child_nibble_def
    full_key_reached_def child_path_of_def
  by (intro arena_rules arena_intros)+

lemma arena_child_checks [arena_intros]:
  "keeps arena_only (later_child n u)" "keeps arena_only (update_at_child n u)"
  unfolding later_child_def update_at_child_def by (intro arena_rules arena_intros)+

section \<open>Relations along one run\<close>

text \<open>For the recursions that carry the state along, the relation is followed from one state on.\<close>

definition keeps_at :: "('s \<Rightarrow> 's \<Rightarrow> bool) \<Rightarrow> ('s, 'a) action \<Rightarrow> 's \<Rightarrow> bool" where
  "keeps_at R m s \<longleftrightarrow> (\<forall>x t. m s = Inr (x, t) \<longrightarrow> R s t)"

lemma keeps_at_iff: "keeps R m \<longleftrightarrow> (\<forall>s. keeps_at R m s)"
  by (auto simp: keeps_def keeps_at_def)

lemma keeps_at: "keeps R m \<Longrightarrow> keeps_at R m s"
  by (simp add: keeps_at_iff)

lemma keeps_at_unfold:
  "m s = bind a f s \<Longrightarrow> keeps_at R (bind a f) s \<Longrightarrow> keeps_at R m s"
  "m s = (if b then x else y) s \<Longrightarrow> keeps_at R (if b then x else y) s \<Longrightarrow> keeps_at R m s"
  "m s = Let v g s \<Longrightarrow> keeps_at R (Let v g) s \<Longrightarrow> keeps_at R m s"
  "m s = ret z s \<Longrightarrow> keeps_at R (ret z) s \<Longrightarrow> keeps_at R m s"
  by (simp_all add: keeps_at_def)

lemma keeps_at_if:
  "(b \<Longrightarrow> keeps_at R m s) \<Longrightarrow> (\<not> b \<Longrightarrow> keeps_at R n s) \<Longrightarrow> keeps_at R (if b then m else n) s"
  by simp

lemma keeps_at_case_prod:
  "(\<And>x y. p = (x, y) \<Longrightarrow> keeps_at R (f x y) s) \<Longrightarrow> keeps_at R (case p of (x, y) \<Rightarrow> f x y) s"
  by (cases p) simp

lemma keeps_at_Let: "(\<And>x. x = v \<Longrightarrow> keeps_at R (f x) s) \<Longrightarrow> keeps_at R (Let v f) s"
  by simp

lemma keeps_at_case_input_node:
  "(\<And>x y. n = InputLeafNode x y \<Longrightarrow> keeps_at R (a x y) s)
    \<Longrightarrow> (\<And>x y. n = InputExtensionNode x y \<Longrightarrow> keeps_at R (b x y) s)
    \<Longrightarrow> (\<And>x y. n = InputBranchNode x y \<Longrightarrow> keeps_at R (c x y) s) \<Longrightarrow>
     keeps_at R (case n of InputLeafNode x y \<Rightarrow> a x y | InputExtensionNode x y \<Rightarrow> b x y
       | InputBranchNode x y \<Rightarrow> c x y) s"
  by (cases n) simp_all

context action_invariant begin

lemma keeps_at_bind:
  "keeps_at R m s \<Longrightarrow> (\<And>x t. m s = Inr (x, t) \<Longrightarrow> keeps_at R (f x) t) \<Longrightarrow> keeps_at R (bind m f) s"
  unfolding keeps_at_def by (auto elim!: bind_returnsE intro: related_trans)

lemma keeps_at_ret: "keeps_at R (ret x) s"
  by (rule keeps_at [OF keeps_ret])

lemma keeps_at_do_when: "(b \<Longrightarrow> keeps_at R m s) \<Longrightarrow> keeps_at R (do_when b m) s"
  by (simp add: do_when_def keeps_at_ret)

lemmas keeps_at_rules = keeps_at_bind keeps_at_if keeps_at_case_prod keeps_at_Let
  keeps_at_case_input_node keeps_at_ret keeps_at_do_when keeps_at [OF keeps_fatal]

end

section \<open>The builder over any source of updates\<close>

locale update_stream = action_invariant R
  for R :: "'z kernel_state_scheme \<Rightarrow> 'z kernel_state_scheme \<Rightarrow> bool" +
  fixes fetch :: "('z, trie_update_fetch) kernel"
  assumes arena_related: "arena_only s t \<Longrightarrow> R s t"
    and fetch_keeps: "keeps R fetch"
begin

lemma from_arena: "keeps arena_only m \<Longrightarrow> keeps R m"
  by (auto simp: keeps_def intro: arena_related)

lemmas stream_arena = arena_intros [THEN from_arena]

lemmas stream_rules = keeps_rules keeps_if keeps_raise frame_intros fetch_keeps

lemma begin_keeps: "keeps R (trie_updates_begin fetch)"
  unfolding trie_updates_begin_def by (intro stream_rules)

lemma pop_keeps: "keeps R (trie_updates_pop fetch u)"
  unfolding trie_updates_pop_def by (intro stream_rules from_arena arena_intros)

lemma take_keeps: "keeps R (take_update_at fetch u key)"
  unfolding take_update_at_def by (intro stream_rules pop_keeps from_arena arena_intros)

lemmas stream_at = keeps_at_rules stream_arena [THEN keeps_at]

lemma updates_keep_at:
  "fetch' = fetch \<Longrightarrow> keeps_at R (updates_subtree fetch' keccak u p c) s"
  "fetch' = fetch \<Longrightarrow> keeps_at R (updates_children fetch' keccak p c ch u) s"
proof (induction fetch' keccak u p c s and fetch' keccak p c ch u s
    rule: updates_subtree_updates_children.induct)
  case (1 fetch' keccak u p c s)
  note take = keeps_at [OF take_keeps, folded "1.prems"]
  show ?case
    by (rule keeps_at_unfold(1) [of "updates_subtree fetch' keccak u p c" s, OF updates_subtree.simps])
      (intro stream_at take "1.IH"; (assumption | rule "1.prems"))
next
  case (2 fetch' keccak p c ch u s)
  show ?case
    by (rule keeps_at_unfold(2) [of "updates_children fetch' keccak p c ch u" s, OF updates_children.simps])
      (intro stream_at "2.IH"; (assumption | rule "2.prems"))
qed

lemma overlay_leaf_keep_at:
  "fetch' = fetch \<Longrightarrow> keeps_at R (overlay_leaf_subtree fetch' keccak u p k v c) s"
  "fetch' = fetch \<Longrightarrow> keeps_at R (overlay_leaf_children fetch' keccak p k v c ch u b) s"
proof (induction fetch' keccak u p k v c s and fetch' keccak p k v c ch u b s
    rule: overlay_leaf_subtree_overlay_leaf_children.induct)
  case (1 fetch' keccak u p k v c s)
  note take = keeps_at [OF take_keeps, folded "1.prems"]
  show ?case
    by (rule keeps_at_unfold(1) [of "overlay_leaf_subtree fetch' keccak u p k v c" s, OF overlay_leaf_subtree.simps])
      (intro stream_at take; (rule "1.prems" | (rule "1.IH"; (assumption | rule "1.prems"))))
next
  case (2 fetch' keccak p k v c ch u b s)
  show ?case
    by (rule keeps_at_unfold(3) [of "overlay_leaf_children fetch' keccak p k v c ch u b" s, OF overlay_leaf_children.simps])
      (intro stream_at updates_keep_at; (rule "2.prems" | (rule "2.IH"; (assumption | rule "2.prems"))))
qed

lemma witness_keep_at:
  "fetch' = fetch \<Longrightarrow> keeps_at R (witness_subtree fetch' keccak node p u c) s"
  "fetch' = fetch \<Longrightarrow> keeps_at R (witness_branch_children fetch' keccak ns p c ch u is) s"
  "fetch' = fetch \<Longrightarrow> keeps_at R (overlay_extension_subtree fetch' keccak r q u p c) s"
  "fetch' = fetch \<Longrightarrow> keeps_at R (overlay_extension_children fetch' keccak r q p c ch u b) s"
proof (induction fetch' keccak node p u c s and fetch' keccak ns p c ch u "is" s
    and fetch' keccak r q u p c s and fetch' keccak r q p c ch u b s
    rule: witness_subtree_witness_branch_children_overlay_extension_subtree_overlay_extension_children.induct)
  case (1 fetch' keccak node p u c s)
  show ?case
    by (rule keeps_at_unfold(1) [of "witness_subtree fetch' keccak node p u c" s, OF witness_subtree.simps])
      (intro stream_at updates_keep_at overlay_leaf_keep_at; (rule "1.prems" | (rule "1.IH"; (assumption | rule "1.prems"))))
next
  case (2 fetch' keccak ns p c ch u s)
  show ?case by (rule keeps_at_unfold(4) [of "witness_branch_children fetch' keccak ns p c ch u []" s,
      OF witness_branch_children.simps(1)]) (intro stream_at)
next
  case (3 fetch' keccak ns p c ch u i rest s)
  show ?case
    by (rule keeps_at_unfold(1) [of "witness_branch_children fetch' keccak ns p c ch u (i # rest)" s,
      OF witness_branch_children.simps(2)])
      (intro stream_at updates_keep_at; (rule "3.prems" | (rule "3.IH"; (assumption | rule "3.prems"))))
next
  case (4 fetch' keccak r q u p c s)
  show ?case
    by (rule keeps_at_unfold(1) [of "overlay_extension_subtree fetch' keccak r q u p c" s, OF overlay_extension_subtree.simps])
      (intro stream_at; (rule "4.prems" | (rule "4.IH"; (assumption | rule "4.prems"))))
next
  case (5 fetch' keccak r q p c ch u b s)
  show ?case
    by (rule keeps_at_unfold(3) [of "overlay_extension_children fetch' keccak r q p c ch u b" s, OF overlay_extension_children.simps])
      (intro stream_at updates_keep_at; (rule "5.prems" | (rule "5.IH"; (assumption | rule "5.prems"))))
qed

lemma root_cursor_keeps: "keeps R (trie_root_cursor fetch keccak base u)"
  unfolding trie_root_cursor_def keeps_at_iff
  by (intro allI stream_at updates_keep_at witness_keep_at; (rule refl)?)

lemma root_keeps: "keeps R (trie_root fetch keccak base)"
  unfolding trie_root_def by (intro stream_rules begin_keeps root_cursor_keeps)

end

end
