(* ===== verification/State_Root.thy ===== *)
theory State_Root
  imports Trie_Frame Kernel
begin

text \<open>
  The state root (\<open>lib/state_trie.py\<close>, with the encoders of \<open>lib/rlp/codecs/state.py\<close>): the
  changed slots of each account and the changed accounts, in the order of their hashed keys, are
  the streams of updates from which the storage tries and the state trie are rebuilt. An account's
  update is found by rebuilding its storage trie, so the two streams nest.
\<close>

section \<open>State values\<close>

definition encode_storage_value :: "int \<Rightarrow> ('z, region_slice) kernel" where
  "encode_storage_value value =
     bind (rlp_uint_word_size value) (\<lambda>encoded_len.
     bind (rlp_encoder_begin encoded_len) (\<lambda>encoder.
     bind (rlp_write_uint_word value) (\<lambda>_. rlp_encoder_finish encoder)))"

definition encode_state_account :: "account_info \<Rightarrow> hash \<Rightarrow> ('z, region_slice) kernel" where
  "encode_state_account i root =
     bind (rlp_uint_word_size (nonce i)) (\<lambda>nonce_length.
     bind (rlp_uint_word_size (balance i)) (\<lambda>balance_length.
     let content_len = nonce_length + balance_length + rlp_word_size + rlp_word_size in
     bind (rlp_list_size content_len) (\<lambda>encoded_length.
     bind (rlp_encoder_begin encoded_length) (\<lambda>encoder.
     bind (rlp_write_list_prefix content_len) (\<lambda>_.
     bind (rlp_write_uint_word (nonce i)) (\<lambda>_.
     bind (rlp_write_uint_word (balance i)) (\<lambda>_.
     bind (rlp_write_word (hash_to_word root)) (\<lambda>_.
     bind (rlp_write_word (hash_to_word (code_hash i))) (\<lambda>_.
     rlp_encoder_finish encoder)))))))))"

section \<open>What changed\<close>

definition storage_value_changed :: "storage_value \<Rightarrow> bool" where
  "storage_value_changed value \<longleftrightarrow> curr value \<noteq> orig value"

definition account_value_changed :: "acct_value \<Rightarrow> bool" where
  "account_value_changed value \<longleftrightarrow>
     (let new = acct_curr value; old = acct_orig value in
      nonce (info new) \<noteq> nonce (info old) \<or> balance (info new) \<noteq> balance (info old) \<or>
      storage_root (info new) \<noteq> storage_root (info old) \<or>
      code_hash (info new) \<noteq> code_hash (info old) \<or> present new \<noteq> present old \<or>
      storage_cleared new \<noteq> storage_cleared old)"

definition storage_update :: "storage_trie_entry \<Rightarrow> ('z, trie_update) kernel" where
  "storage_update trie_entry =
     (let value = curr (entry_value (ste_entry trie_entry)) in
      bind (path_new (ste_slot_hash trie_entry) 64) (\<lambda>key.
      bind (if word_is_zero value then ret TrieDelete
            else bind (encode_storage_value value) (\<lambda>encoded. ret (TriePut encoded))) (\<lambda>change.
      ret \<lparr>tu_key = key, tu_change = change\<rparr>)))"

definition account_update :: "acct_trie_entry \<Rightarrow> hash \<Rightarrow> ('z, trie_update) kernel" where
  "account_update trie_entry root =
     (let current = acct_curr (acct_val (ate_entry trie_entry)) in
      bind (path_new (ate_address_hash trie_entry) 64) (\<lambda>key.
      if \<not> present current \<or> account_info_empty (info current)
      then ret \<lparr>tu_key = key, tu_change = TrieDelete\<rparr>
      else
        bind (encode_state_account (info current) root) (\<lambda>encoded_account.
        ret \<lparr>tu_key = key, tu_change = TriePut encoded_account\<rparr>)))"

section \<open>The stream of storage updates\<close>

text \<open>The iterator of the host gets shorter with every row, so the search for a changed one ends.\<close>

lemma storage_iter_loop_shorter:
  "storage_block_iter_loop key rows = (StorageBlockIterRow e, rest) \<Longrightarrow> length rest < length rows"
  by (induction key rows rule: storage_block_iter_loop.induct) (auto split: if_splits)

lemma storage_iter_next_shorter:
  assumes "storage_block_iter_next a s = Inr (StorageBlockIterRow e, t)"
  shows "length (storage_iterator t) < length (storage_iterator s)"
  using assms storage_iter_loop_shorter [of "address_key a" "storage_iterator s" e]
  by (auto simp: storage_block_iter_next_def action_simps
      elim!: bind_returnsE) (metis prod.collapse)

definition NO_TRIE_UPDATE :: trie_update_fetch where
  "NO_TRIE_UPDATE = \<lparr>tuf_available = False, tuf_update = EMPTY_TRIE_UPDATE\<rparr>"

lemma storage_iter_result_state_cong [fundef_cong]:
  assumes "r = r'" and "s = s'" and "\<And>e. r' = StorageBlockIterRow e \<Longrightarrow> f e s' = f' e s'"
    and "r' = StorageBlockIterExhausted \<Longrightarrow> g s' = g' s'"
  shows "(case r of StorageBlockIterRow e \<Rightarrow> f e | StorageBlockIterExhausted \<Rightarrow> g) s =
    (case r' of StorageBlockIterRow e \<Rightarrow> f' e | StorageBlockIterExhausted \<Rightarrow> g') s'"
  using assms by (cases r') simp_all

function next_storage_trie_update ::
    "address \<Rightarrow> 'z kernel_state_scheme \<Rightarrow> py_error + (trie_update_fetch \<times> 'z kernel_state_scheme)"
    where
  "next_storage_trie_update addr s =
     bind (storage_block_iter_next addr) (\<lambda>iterator_item.
     case iterator_item of
       StorageBlockIterRow trie_entry \<Rightarrow>
         (if storage_value_changed (entry_value (ste_entry trie_entry)) then
            bind (storage_update trie_entry) (\<lambda>update.
            ret \<lparr>tuf_available = True, tuf_update = update\<rparr>)
          else next_storage_trie_update addr)
     | StorageBlockIterExhausted \<Rightarrow> ret NO_TRIE_UPDATE) s"
  by auto

termination
  by (relation "measure (\<lambda>(addr, s). length (storage_iterator s))")
    (auto dest: storage_iter_next_shorter)

declare next_storage_trie_update.simps [simp del]

section \<open>What the streams change\<close>

definition storage_scan :: "'z kernel_state_scheme \<Rightarrow> 'z kernel_state_scheme \<Rightarrow> bool" where
  "storage_scan s t \<longleftrightarrow> t = s\<lparr>scratch_bytes := scratch_bytes t, scratch_arena := scratch_arena t,
     storage_iterator := storage_iterator t\<rparr>"

definition state_scan :: "'z kernel_state_scheme \<Rightarrow> 'z kernel_state_scheme \<Rightarrow> bool" where
  "state_scan s t \<longleftrightarrow> t = s\<lparr>scratch_bytes := scratch_bytes t, scratch_arena := scratch_arena t,
     storage_iterator := storage_iterator t, account_iterator := account_iterator t\<rparr>"

lemma storage_scan_trans: "storage_scan s t \<Longrightarrow> storage_scan t u \<Longrightarrow> storage_scan s u"
  unfolding storage_scan_def by (cases s, cases t, cases u) simp

lemma state_scan_trans: "state_scan s t \<Longrightarrow> state_scan t u \<Longrightarrow> state_scan s u"
  unfolding state_scan_def by (cases s, cases t, cases u) simp

interpretation storage_scan: action_invariant storage_scan
  by unfold_locales (auto simp: storage_scan_def intro: storage_scan_trans [unfolded storage_scan_def])

interpretation state_scan: action_invariant state_scan
  by unfold_locales (auto simp: state_scan_def intro: state_scan_trans [unfolded state_scan_def])

lemma arena_storage_scan: "arena_only s t \<Longrightarrow> storage_scan s t"
  unfolding arena_only_def storage_scan_def by (cases s, cases t) simp

lemma storage_state_scan: "storage_scan s t \<Longrightarrow> state_scan s t"
  unfolding storage_scan_def state_scan_def by (cases s, cases t) simp

lemma storage_scan_arena: "keeps arena_only m \<Longrightarrow> keeps storage_scan m"
  by (auto simp: keeps_def intro: arena_storage_scan)

lemma state_scan_storage: "keeps storage_scan m \<Longrightarrow> keeps state_scan m"
  by (auto simp: keeps_def intro: storage_state_scan)

lemma arena_state_values [arena_intros]:
  "keeps arena_only (encode_storage_value v)" "keeps arena_only (encode_state_account i h)"
  unfolding encode_storage_value_def encode_state_account_def by (intro arena_rules arena_intros)+

lemma arena_updates [arena_intros]:
  "keeps arena_only (storage_update e)" "keeps arena_only (account_update a h)"
  unfolding storage_update_def account_update_def by (intro arena_rules arena_intros)+

lemma storage_iter_scan:
  "keeps storage_scan (storage_block_iter_next a)" "keeps storage_scan (storage_block_iter_begin a)"
  unfolding storage_block_iter_next_def storage_block_iter_begin_def
  by (intro storage_scan.keeps_rules keeps_modify; simp add: storage_scan_def)+

lemma storage_fetch_at: "keeps_at storage_scan (next_storage_trie_update addr) s"
proof (induction addr s rule: next_storage_trie_update.induct)
  case (1 addr s)
  show ?case
  proof (rule keeps_at_unfold(1) [of "next_storage_trie_update addr" s,
        OF next_storage_trie_update.simps], rule storage_scan.keeps_at_bind)
    fix r t assume r: "storage_block_iter_next addr s = Inr (r, t)"
    show "keeps_at storage_scan (case r of
         StorageBlockIterRow trie_entry \<Rightarrow>
           (if storage_value_changed (entry_value (ste_entry trie_entry)) then
              bind (storage_update trie_entry) (\<lambda>update.
              ret \<lparr>tuf_available = True, tuf_update = update\<rparr>)
            else next_storage_trie_update addr)
       | StorageBlockIterExhausted \<Rightarrow> ret NO_TRIE_UPDATE) t"
    proof (cases r)
      case (StorageBlockIterRow e)
      then show ?thesis
        using "1.IH" [OF r StorageBlockIterRow]
        by (auto intro!: storage_scan.keeps_at_rules
            keeps_at [OF storage_scan_arena [OF arena_updates(1)]])
    next
      case StorageBlockIterExhausted
      then show ?thesis by (auto intro: storage_scan.keeps_at_ret)
    qed
  qed (rule keeps_at [OF storage_iter_scan(1)])
qed

interpretation storage_stream: update_stream storage_scan "next_storage_trie_update addr" for addr
  by unfold_locales (auto simp: keeps_at_iff storage_fetch_at intro: arena_storage_scan)

section \<open>The stream of account updates\<close>

definition account_trie_update ::
    "hash_function \<Rightarrow> acct_trie_entry \<Rightarrow> ('z, trie_update \<times> bool) kernel" where
  "account_trie_update keccak trie_entry =
     (let entry = ate_entry trie_entry; current = acct_curr (acct_val entry);
          fetch = next_storage_trie_update (acct_addr entry) in
      bind (storage_block_iter_begin (acct_addr entry)) (\<lambda>_.
      bind (trie_updates_begin fetch) (\<lambda>storage_updates.
      let storage_changed = (\<not> updates_empty storage_updates);
          base_storage_root = (if storage_cleared current then EMPTY_TRIE_ROOT
            else storage_root (info current)) in
      bind (if present current \<and> \<not> account_info_empty (info current) \<and> storage_changed
            then bind (trie_root_cursor fetch keccak base_storage_root storage_updates) (\<lambda>result.
              ret (trr_root result))
            else ret base_storage_root) (\<lambda>root.
      bind (account_update trie_entry root) (\<lambda>update.
      ret (update, account_value_changed (acct_val entry) \<or> storage_changed))))))"

lemma account_trie_update_scan: "keeps storage_scan (account_trie_update keccak e)"
  unfolding account_trie_update_def
  by (intro storage_scan.keeps_rules frame_intros keeps_if storage_iter_scan
      storage_stream.begin_keeps storage_stream.root_cursor_keeps storage_scan_arena arena_intros)

lemma acct_iter_next_shorter:
  "acct_block_iter_next s = Inr (AcctBlockIterRow e, t)
     \<Longrightarrow> length (account_iterator t) < length (account_iterator s)"
  by (auto simp: acct_block_iter_next_def action_simps elim!: bind_returnsE split: list.splits)

lemma account_trie_update_rows:
  assumes "account_trie_update keccak e s = Inr (x, t)"
  shows "account_iterator t = account_iterator s"
  using keepsD [OF account_trie_update_scan assms] by (cases s, cases t) (simp add: storage_scan_def)

lemma acct_iter_result_state_cong [fundef_cong]:
  assumes "r = r'" and "s = s'" and "\<And>e. r' = AcctBlockIterRow e \<Longrightarrow> f e s' = f' e s'"
    and "r' = AcctBlockIterExhausted \<Longrightarrow> g s' = g' s'"
  shows "(case r of AcctBlockIterRow e \<Rightarrow> f e | AcctBlockIterExhausted \<Rightarrow> g) s =
    (case r' of AcctBlockIterRow e \<Rightarrow> f' e | AcctBlockIterExhausted \<Rightarrow> g') s'"
  using assms by (cases r') simp_all

function next_changed_account_trie_update ::
    "hash_function \<Rightarrow> 'z kernel_state_scheme
      \<Rightarrow> py_error + (trie_update_fetch \<times> 'z kernel_state_scheme)" where
  "next_changed_account_trie_update keccak s =
     bind acct_block_iter_next (\<lambda>iterator_item.
     case iterator_item of
       AcctBlockIterRow entry \<Rightarrow>
         bind (account_trie_update keccak entry) (\<lambda>(update, changed).
         if changed then ret \<lparr>tuf_available = True, tuf_update = update\<rparr>
         else next_changed_account_trie_update keccak)
     | AcctBlockIterExhausted \<Rightarrow> ret NO_TRIE_UPDATE) s"
  by auto

termination
  by (relation "measure (\<lambda>(keccak, s). length (account_iterator s))")
    (auto dest!: account_trie_update_rows dest: acct_iter_next_shorter)

declare next_changed_account_trie_update.simps [simp del]

definition trie_update_source_next ::
    "hash_function \<Rightarrow> trie_update_source \<Rightarrow> ('z, trie_update_fetch) kernel" where
  "trie_update_source_next keccak source =
     (case source of
        StorageTrieUpdates addr \<Rightarrow> next_storage_trie_update addr
      | ChangedAccountTrieUpdates \<Rightarrow> next_changed_account_trie_update keccak)"

definition compute_state_root :: "hash_function \<Rightarrow> ('z, hash) kernel" where
  "compute_state_root keccak =
     bind acct_block_iter_begin (\<lambda>_.
     bind (reads k_parent_state_root) (\<lambda>base_root.
     bind (trie_root (trie_update_source_next keccak ChangedAccountTrieUpdates) keccak base_root)
       (\<lambda>result. ret (trr_root result))))"

section \<open>Computing the root leaves the state alone\<close>

lemma acct_iter_scan:
  "keeps state_scan acct_block_iter_next" "keeps state_scan acct_block_iter_begin"
proof -
  show "keeps state_scan acct_block_iter_next"
    by (rule keepsI) (auto simp: acct_block_iter_next_def action_simps state_scan_def
        elim!: bind_returnsE split: list.splits)
  show "keeps state_scan acct_block_iter_begin"
    unfolding acct_block_iter_begin_def
    by (intro state_scan.keeps_rules frame_intros keeps_modify; simp add: state_scan_def)
qed

lemma account_fetch_at: "keeps_at state_scan (next_changed_account_trie_update keccak) s"
proof (induction keccak s rule: next_changed_account_trie_update.induct)
  case (1 keccak s)
  show ?case
  proof (rule keeps_at_unfold(1) [of "next_changed_account_trie_update keccak" s,
        OF next_changed_account_trie_update.simps], rule state_scan.keeps_at_bind)
    fix r t assume r: "acct_block_iter_next s = Inr (r, t)"
    show "keeps_at state_scan (case r of
       AcctBlockIterRow entry \<Rightarrow>
         bind (account_trie_update keccak entry) (\<lambda>(update, changed).
         if changed then ret \<lparr>tuf_available = True, tuf_update = update\<rparr>
         else next_changed_account_trie_update keccak)
     | AcctBlockIterExhausted \<Rightarrow> ret NO_TRIE_UPDATE) t"
    proof (cases r)
      case (AcctBlockIterRow e)
      then show ?thesis
        using "1.IH" [OF r AcctBlockIterRow]
        by (auto intro!: state_scan.keeps_at_rules
            keeps_at [OF state_scan_storage [OF account_trie_update_scan]])
    next
      case AcctBlockIterExhausted
      then show ?thesis by (auto intro: state_scan.keeps_at_ret)
    qed
  qed (rule keeps_at [OF acct_iter_scan(1)])
qed

interpretation account_stream: update_stream state_scan
    "trie_update_source_next keccak ChangedAccountTrieUpdates" for keccak
  by unfold_locales (auto simp: trie_update_source_next_def keeps_at_iff account_fetch_at
      intro: arena_storage_scan storage_state_scan)

lemma compute_state_root_scan: "keeps state_scan (compute_state_root keccak)"
  unfolding compute_state_root_def
  by (intro state_scan.keeps_rules acct_iter_scan account_stream.root_keeps)

end
