(* ===== verification/Block_Codec.thy ===== *)
theory Block_Codec
  imports Receipts Stateless_Input
begin

text \<open>
  The hash of a block header (\<open>lib/rlp/codecs/block_header.py\<close>), the encoding of withdrawals
  (\<open>lib/rlp/codecs/withdrawals.py\<close>), and the canonical readers of a block access list
  (\<open>lib/rlp/codecs/block_access_list.py\<close>).
\<close>

section \<open>Withdrawals\<close>

definition withdrawal_rlp :: "region_slice \<Rightarrow> ('z, region_slice) kernel" where
  "withdrawal_rlp data =
     bind (decode_ssz_uint data WD_INDEX) (\<lambda>index.
     bind (decode_ssz_uint data WD_VALIDATOR_INDEX) (\<lambda>validator_index.
     bind (region_sub_slice data WD_ADDRESS 20) (\<lambda>addr.
     bind (decode_ssz_uint data WD_AMOUNT) (\<lambda>amount.
     bind (rlp_uint_word_size index) (\<lambda>index_length.
     bind (rlp_uint_word_size validator_index) (\<lambda>validator_index_length.
     bind (rlp_input_slice_size addr) (\<lambda>address_length.
     bind (rlp_uint_word_size amount) (\<lambda>amount_length.
     let content_length = index_length + validator_index_length + address_length + amount_length in
     bind (do_when (48 < content_length) (fatal_error RlpDecode)) (\<lambda>_.
     let content_len = sail_tmod_int content_length 49 in
     bind (rlp_list_size content_len) (\<lambda>encoded_length.
     bind (rlp_encoder_begin encoded_length) (\<lambda>encoder.
     bind (rlp_write_list_prefix content_len) (\<lambda>_.
     bind (rlp_write_uint_word index) (\<lambda>_.
     bind (rlp_write_uint_word validator_index) (\<lambda>_.
     bind (rlp_write_input_slice addr) (\<lambda>_.
     bind (rlp_write_uint_word amount) (\<lambda>_. rlp_encoder_finish encoder))))))))))))))))"

section \<open>Block headers\<close>

definition EMPTY_OMMER_HASH :: hash where
  "EMPTY_OMMER_HASH = bytes32_from_wire (to_bytes_big
     0x1dcc4de8dec75d7aab85b567b6ccd41ad312451b948a7413f0a142fd40d49347 32)"

text \<open>Adding to a length that must stay below 2^32, and adding only when a field is present.\<close>

definition add_when :: "bool \<Rightarrow> int \<Rightarrow> int \<Rightarrow> ('s, int) action" where
  "add_when b extra len = (if b then rlp_scratch_length_add len extra else ret len)"

definition word_size_when :: "bool \<Rightarrow> int \<Rightarrow> ('s, int) action" where
  "word_size_when b w = (if b then rlp_uint_word_size w else ret 0)"

definition block_header_content_length :: "fork \<Rightarrow> block_header \<Rightarrow> ('z, int) host" where
  "block_header_content_length fork header =
     (let word_length = rlp_word_size; address_length = rlp_addr_size;
          bloom_length = 3 + LOGS_BLOOM_BYTE_LENGTH; nonce_length = 1 + EIGHT_BYTE_LENGTH in
      bind (rlp_uint_word_size 0) (\<lambda>difficulty_length.
      bind (rlp_uint_word_size (hdr_number header)) (\<lambda>number_length.
      bind (rlp_uint_word_size (hdr_gas_limit header)) (\<lambda>gas_limit_length.
      bind (rlp_uint_word_size (hdr_gas_used header)) (\<lambda>gas_used_length.
      bind (rlp_uint_word_size (hdr_timestamp header)) (\<lambda>timestamp_length.
      bind (rlp_input_scratch_slice_size (hdr_extra_data header)) (\<lambda>extra_data_length.
      bind (rlp_scratch_length_add (6 * word_length) address_length) (\<lambda>len.
      bind (rlp_scratch_length_add len bloom_length) (\<lambda>len.
      bind (rlp_scratch_length_add len difficulty_length) (\<lambda>len.
      bind (rlp_scratch_length_add len number_length) (\<lambda>len.
      bind (rlp_scratch_length_add len gas_limit_length) (\<lambda>len.
      bind (rlp_scratch_length_add len gas_used_length) (\<lambda>len.
      bind (rlp_scratch_length_add len timestamp_length) (\<lambda>len.
      bind (rlp_scratch_length_add len extra_data_length) (\<lambda>len.
      bind (rlp_scratch_length_add len nonce_length) (\<lambda>len.
      bind (word_size_when (fork \<ge> London) (hdr_base_fee header)) (\<lambda>field_length.
      bind (add_when (fork \<ge> London) field_length len) (\<lambda>len.
      bind (add_when (fork \<ge> Shanghai) word_length len) (\<lambda>len.
      bind (word_size_when (fork \<ge> Cancun) (hdr_blob_gas_used header)) (\<lambda>blob_gas_used_length.
      bind (word_size_when (fork \<ge> Cancun) (hdr_excess_blob_gas header)) (\<lambda>excess_length.
      bind (add_when (fork \<ge> Cancun) blob_gas_used_length len) (\<lambda>len.
      bind (add_when (fork \<ge> Cancun) excess_length len) (\<lambda>len.
      bind (add_when (fork \<ge> Cancun) word_length len) (\<lambda>len.
      bind (add_when (fork \<ge> Prague) word_length len) (\<lambda>len.
      bind (word_size_when (fork \<ge> Amsterdam) (hdr_slot_number header)) (\<lambda>slot_number_length.
      bind (add_when (fork \<ge> Amsterdam) word_length len) (\<lambda>len.
      add_when (fork \<ge> Amsterdam) slot_number_length len)))))))))))))))))))))))))))"

definition write_block_header ::
    "fork \<Rightarrow> block_header \<Rightarrow> hash \<Rightarrow> hash \<Rightarrow> hash \<Rightarrow> hash \<Rightarrow> ('z, unit) kernel" where
  "write_block_header fork header transactions_root withdrawals_root requests_hash
       block_access_list_hash =
     bind (rlp_write_word (hash_to_word (hdr_parent_hash header))) (\<lambda>_.
     bind (rlp_write_word (hash_to_word EMPTY_OMMER_HASH)) (\<lambda>_.
     bind (rlp_write_addr (hdr_fee_recipient header)) (\<lambda>_.
     bind (rlp_write_word (hash_to_word (hdr_state_root header))) (\<lambda>_.
     bind (rlp_write_word (hash_to_word transactions_root)) (\<lambda>_.
     bind (rlp_write_word (hash_to_word (hdr_receipts_root header))) (\<lambda>_.
     bind (logs_bloom_from_ref (hdr_logs_bloom header)) (\<lambda>bloom.
     bind (rlp_write_logs_bloom bloom) (\<lambda>_.
     bind (rlp_write_uint_word 0) (\<lambda>_.
     bind (rlp_write_uint_word (hdr_number header)) (\<lambda>_.
     bind (rlp_write_uint_word (hdr_gas_limit header)) (\<lambda>_.
     bind (rlp_write_uint_word (hdr_gas_used header)) (\<lambda>_.
     bind (rlp_write_uint_word (hdr_timestamp header)) (\<lambda>_.
     bind (rlp_write_input_slice (hdr_extra_data header)) (\<lambda>_.
     bind (rlp_write_word (hdr_prev_randao header)) (\<lambda>_.
     bind (rlp_write_string_prefix EIGHT_BYTE_LENGTH 0) (\<lambda>_.
     bind (scratch_push_word_be ZERO_WORD EIGHT_BYTE_LENGTH) (\<lambda>_.
     bind (do_when (fork \<ge> London) (rlp_write_uint_word (hdr_base_fee header))) (\<lambda>_.
     bind (do_when (fork \<ge> Shanghai) (rlp_write_word (hash_to_word withdrawals_root))) (\<lambda>_.
     bind (do_when (fork \<ge> Cancun)
       (bind (rlp_write_uint_word (hdr_blob_gas_used header)) (\<lambda>_.
        bind (rlp_write_uint_word (hdr_excess_blob_gas header)) (\<lambda>_.
        rlp_write_word (hash_to_word (hdr_parent_beacon_block_root header)))))) (\<lambda>_.
     bind (do_when (fork \<ge> Prague) (rlp_write_word (hash_to_word requests_hash))) (\<lambda>_.
     do_when (fork \<ge> Amsterdam)
       (bind (rlp_write_word (hash_to_word block_access_list_hash)) (\<lambda>_.
        rlp_write_uint_word (hdr_slot_number header))))))))))))))))))))))))"

definition block_header_hash ::
    "hash_function \<Rightarrow> block_header \<Rightarrow> hash \<Rightarrow> hash \<Rightarrow> hash \<Rightarrow> hash \<Rightarrow> ('z, hash) kernel" where
  "block_header_hash keccak header transactions_root withdrawals_root requests_hash
       block_access_list_hash =
     bind active_fork (\<lambda>fork.
     bind (block_header_content_length fork header) (\<lambda>content_length.
     bind (do_when (749 < content_length) (fatal_error RlpDecode)) (\<lambda>_.
     let content_len = sail_tmod_int content_length 750 in
     bind (rlp_list_size content_len) (\<lambda>encoded_length.
     bind (rlp_encoder_begin encoded_length) (\<lambda>encoder.
     bind (rlp_write_list_prefix content_len) (\<lambda>_.
     bind (write_block_header fork header transactions_root withdrawals_root requests_hash
       block_access_list_hash) (\<lambda>_.
     bind (rlp_encoder_finish encoder) (\<lambda>encoded.
     bind (hash_region keccak ScratchRegion encoded) (\<lambda>block_hash.
     bind (rlp_encoder_rewind encoder) (\<lambda>_. ret block_hash))))))))))"

section \<open>Block access lists\<close>

definition bal_ref_cursor :: "rlp_field_ref \<Rightarrow> ('z, region_slice) host" where
  "bal_ref_cursor f =
     bind (rlp_ref_framing_canonical f) (\<lambda>framing_canonical.
     if rf_is_list f \<and> framing_canonical then rlp_decode_list f
     else fatal_error InvalidBlockAccessList)"

definition bal_ref_bytes :: "rlp_field_ref \<Rightarrow> ('z, region_slice) host" where
  "bal_ref_bytes f =
     bind (rlp_ref_bytes_canonical f) (\<lambda>canonical.
     if canonical then rlp_item_content f else fatal_error InvalidBlockAccessList)"

definition bal_ref_word :: "rlp_field_ref \<Rightarrow> ('z, int) host" where
  "bal_ref_word f =
     bind (rlp_item_uint_canonical f) (\<lambda>canonical.
     if canonical \<and> rf_content_len f \<le> 32 then rlp_decode_word f
     else fatal_error InvalidBlockAccessList)"

definition bal_ref_uint64 :: "rlp_field_ref \<Rightarrow> ('z, int) host" where
  "bal_ref_uint64 f =
     bind (rlp_item_uint_canonical f) (\<lambda>canonical.
     if canonical \<and> rf_content_len f \<le> 8 then rlp_decode_uint64 f
     else fatal_error InvalidBlockAccessList)"

definition bal_expect_end :: "region_slice \<Rightarrow> ('s, unit) action" where
  "bal_expect_end cursor =
     (if slice_len cursor = 0 then ret () else fatal_error InvalidBlockAccessList)"

end
