(* ===== verification/Block_Access_List.thy ===== *)
theory Block_Access_List
  imports Block_Codec
begin

text \<open>
  \<open>executor/block_access_list.py\<close>: the block access list of an Amsterdam block, an RLP list
  taken from the payload, is compared entry by entry with the events the host recorded during
  execution (\<open>bal_iter_next\<close>). Every reader stops with \<open>InvalidBlockAccessList\<close> at the first
  difference, so acceptance means the two lists are the same.
\<close>

section \<open>Comparing one change\<close>

text \<open>Every change is a pair; both fields are read before either is looked at.\<close>

definition bal_pair_fields ::
    "rlp_field_ref \<Rightarrow> ('z, rlp_field_ref \<times> rlp_field_ref) host" where
  "bal_pair_fields pair =
     bind (bal_ref_cursor pair) (\<lambda>cursor.
     bind (rlp_next cursor) (\<lambda>(index_field, cursor).
     bind (rlp_next cursor) (\<lambda>(value_field, cursor).
     bind (bal_expect_end cursor) (\<lambda>_. ret (index_field, value_field)))))"

definition bal_compare_index_word :: "rlp_field_ref \<Rightarrow> int \<Rightarrow> int \<Rightarrow> ('z, unit) host" where
  "bal_compare_index_word pair index value =
     bind (bal_pair_fields pair) (\<lambda>(index_field, value_field).
     bind (bal_ref_uint64 index_field) (\<lambda>decoded_index.
     bind (bal_ref_word value_field) (\<lambda>decoded_value.
     if decoded_index \<noteq> index \<or> decoded_value \<noteq> value then fatal_error InvalidBlockAccessList
     else ret ())))"

definition bal_compare_index_nonce :: "rlp_field_ref \<Rightarrow> int \<Rightarrow> int \<Rightarrow> ('z, unit) host" where
  "bal_compare_index_nonce pair index value =
     bind (bal_pair_fields pair) (\<lambda>(index_field, value_field).
     bind (bal_ref_uint64 index_field) (\<lambda>decoded_index.
     bind (bal_ref_uint64 value_field) (\<lambda>decoded_value.
     if decoded_index \<noteq> index \<or> decoded_value \<noteq> value then fatal_error InvalidBlockAccessList
     else ret ())))"

definition bal_compare_index_code :: "rlp_field_ref \<Rightarrow> int \<Rightarrow> hash \<Rightarrow> ('z, unit) host" where
  "bal_compare_index_code pair index code_key =
     bind (bal_pair_fields pair) (\<lambda>(index_field, code_field).
     bind (code_db_resolve code_key) (\<lambda>code.
     bind (bal_ref_uint64 index_field) (\<lambda>decoded_index.
     bind (bal_ref_bytes code_field) (\<lambda>encoded_code.
     let expected_code = code_slice_of code in
     bind (input_code_slices_equal encoded_code expected_code) (\<lambda>code_matches.
     if decoded_index \<noteq> index \<or> \<not> code_matches then fatal_error InvalidBlockAccessList
     else ret ())))))"

section \<open>Storage\<close>

function bal_validate_storage_change_values ::
    "region_slice \<Rightarrow> int \<Rightarrow> 'z host_state_scheme \<Rightarrow> py_error + (unit \<times> 'z host_state_scheme)" where
  "bal_validate_storage_change_values cursor slot s =
     (if slice_len cursor = 0 then ret ()
      else
        bind (rlp_next cursor) (\<lambda>(pair, next).
        bind bal_iter_next (\<lambda>event.
        bind (case event of
                BalStorageChange changed_slot index value \<Rightarrow>
                  bind (do_when (changed_slot \<noteq> slot) (fatal_error InvalidBlockAccessList)) (\<lambda>_.
                  bal_compare_index_word pair index value)
              | _ \<Rightarrow> fatal_error InvalidBlockAccessList) (\<lambda>_.
        bal_validate_storage_change_values next slot)))) s"
  by auto
termination
  by (relation "measure (\<lambda>(cursor, _). nat (slice_len cursor))") (auto dest: rlp_next_shorter)

declare bal_validate_storage_change_values.simps [simp del]

function bal_validate_storage_changes ::
    "region_slice \<Rightarrow> 'z host_state_scheme \<Rightarrow> py_error + (int \<times> 'z host_state_scheme)" where
  "bal_validate_storage_changes cursor s =
     (if slice_len cursor = 0 then ret 0
      else
        bind (rlp_next cursor) (\<lambda>(slot_field, next).
        bind (bal_ref_cursor slot_field) (\<lambda>slot_items.
        bind (rlp_next slot_items) (\<lambda>(slot_value, slot_items).
        bind (rlp_next slot_items) (\<lambda>(changes_value, slot_items).
        bind (bal_expect_end slot_items) (\<lambda>_.
        bind (bal_ref_cursor changes_value) (\<lambda>changes.
        bind (do_when (slice_len changes = 0) (fatal_error InvalidBlockAccessList)) (\<lambda>_.
        bind (bal_ref_word slot_value) (\<lambda>slot.
        bind (bal_validate_storage_change_values changes slot) (\<lambda>_.
        bind (bal_validate_storage_changes next) (\<lambda>rest. ret (1 + rest)))))))))))) s"
  by auto
termination
  by (relation "measure (\<lambda>(cursor, _). nat (slice_len cursor))") (auto dest: rlp_next_shorter)

declare bal_validate_storage_changes.simps [simp del]

function bal_validate_storage_reads ::
    "region_slice \<Rightarrow> 'z host_state_scheme \<Rightarrow> py_error + (int \<times> 'z host_state_scheme)" where
  "bal_validate_storage_reads cursor s =
     (if slice_len cursor = 0 then ret 0
      else
        bind (rlp_next cursor) (\<lambda>(slot_field, next).
        bind (bal_ref_word slot_field) (\<lambda>slot.
        bind bal_iter_next (\<lambda>event.
        bind (case event of
                BalStorageRead recorded \<Rightarrow>
                  do_when (recorded \<noteq> slot) (fatal_error InvalidBlockAccessList)
              | _ \<Rightarrow> fatal_error InvalidBlockAccessList) (\<lambda>_.
        bind (bal_validate_storage_reads next) (\<lambda>rest. ret (1 + rest))))))) s"
  by auto
termination
  by (relation "measure (\<lambda>(cursor, _). nat (slice_len cursor))") (auto dest: rlp_next_shorter)

declare bal_validate_storage_reads.simps [simp del]

section \<open>Balances, nonces and code\<close>

function bal_validate_balance_changes ::
    "region_slice \<Rightarrow> 'z host_state_scheme \<Rightarrow> py_error + (unit \<times> 'z host_state_scheme)" where
  "bal_validate_balance_changes cursor s =
     (if slice_len cursor = 0 then ret ()
      else
        bind (rlp_next cursor) (\<lambda>(pair, next).
        bind bal_iter_next (\<lambda>event.
        bind (case event of
                BalBalanceChange index value \<Rightarrow> bal_compare_index_word pair index value
              | _ \<Rightarrow> fatal_error InvalidBlockAccessList) (\<lambda>_.
        bal_validate_balance_changes next)))) s"
  by auto
termination
  by (relation "measure (\<lambda>(cursor, _). nat (slice_len cursor))") (auto dest: rlp_next_shorter)

declare bal_validate_balance_changes.simps [simp del]

function bal_validate_nonce_changes ::
    "region_slice \<Rightarrow> 'z host_state_scheme \<Rightarrow> py_error + (unit \<times> 'z host_state_scheme)" where
  "bal_validate_nonce_changes cursor s =
     (if slice_len cursor = 0 then ret ()
      else
        bind (rlp_next cursor) (\<lambda>(pair, next).
        bind bal_iter_next (\<lambda>event.
        bind (case event of
                BalNonceChange index value \<Rightarrow> bal_compare_index_nonce pair index value
              | _ \<Rightarrow> fatal_error InvalidBlockAccessList) (\<lambda>_.
        bal_validate_nonce_changes next)))) s"
  by auto
termination
  by (relation "measure (\<lambda>(cursor, _). nat (slice_len cursor))") (auto dest: rlp_next_shorter)

declare bal_validate_nonce_changes.simps [simp del]

function bal_validate_code_changes ::
    "region_slice \<Rightarrow> 'z host_state_scheme \<Rightarrow> py_error + (unit \<times> 'z host_state_scheme)" where
  "bal_validate_code_changes cursor s =
     (if slice_len cursor = 0 then ret ()
      else
        bind (rlp_next cursor) (\<lambda>(pair, next).
        bind bal_iter_next (\<lambda>event.
        bind (case event of
                BalCodeChange index code_key \<Rightarrow> bal_compare_index_code pair index code_key
              | _ \<Rightarrow> fatal_error InvalidBlockAccessList) (\<lambda>_.
        bal_validate_code_changes next)))) s"
  by auto
termination
  by (relation "measure (\<lambda>(cursor, _). nat (slice_len cursor))") (auto dest: rlp_next_shorter)

declare bal_validate_code_changes.simps [simp del]

section \<open>Accounts and the whole list\<close>

text \<open>One account: its six fields, then the events of each field in turn.\<close>

definition bal_validate_account :: "rlp_field_ref \<Rightarrow> ('z, int) host" where
  "bal_validate_account account_field =
     bind (bal_ref_cursor account_field) (\<lambda>items.
     bind (rlp_next items) (\<lambda>(address_field, items).
     bind (rlp_next items) (\<lambda>(storage_changes_field, items).
     bind (rlp_next items) (\<lambda>(storage_reads_field, items).
     bind (rlp_next items) (\<lambda>(balance_changes_field, items).
     bind (rlp_next items) (\<lambda>(nonce_changes_field, items).
     bind (rlp_next items) (\<lambda>(code_changes_field, items).
     bind (bal_expect_end items) (\<lambda>_.
     bind (bal_ref_bytes address_field) (\<lambda>address_bytes.
     bind (rlp_decode_word address_field) (\<lambda>address_word.
     let account = word_to_address address_word in
     bind (do_when (slice_len address_bytes \<noteq> 20) (fatal_error InvalidBlockAccessList)) (\<lambda>_.
     bind bal_iter_next (\<lambda>account_event.
     bind (case account_event of
             BalAccount recorded \<Rightarrow>
               do_when (recorded \<noteq> account) (fatal_error InvalidBlockAccessList)
           | _ \<Rightarrow> fatal_error InvalidBlockAccessList) (\<lambda>_.
     bind (bal_ref_cursor storage_changes_field) (\<lambda>storage_changes_cursor.
     bind (bal_validate_storage_changes storage_changes_cursor) (\<lambda>storage_changes.
     bind (bal_ref_cursor storage_reads_field) (\<lambda>storage_reads_cursor.
     bind (bal_validate_storage_reads storage_reads_cursor) (\<lambda>storage_reads.
     bind (bal_ref_cursor balance_changes_field) (\<lambda>balance_changes_cursor.
     bind (bal_validate_balance_changes balance_changes_cursor) (\<lambda>_.
     bind (bal_ref_cursor nonce_changes_field) (\<lambda>nonce_changes_cursor.
     bind (bal_validate_nonce_changes nonce_changes_cursor) (\<lambda>_.
     bind (bal_ref_cursor code_changes_field) (\<lambda>code_changes_cursor.
     bind (bal_validate_code_changes code_changes_cursor) (\<lambda>_.
     bind bal_iter_next (\<lambda>account_end_event.
     bind (case account_end_event of
             BalAccountEnd \<Rightarrow> ret ()
           | _ \<Rightarrow> fatal_error InvalidBlockAccessList) (\<lambda>_.
     ret (1 + storage_changes + storage_reads))))))))))))))))))))))))))"

function bal_validate_accounts ::
    "region_slice \<Rightarrow> 'z host_state_scheme \<Rightarrow> py_error + (int \<times> 'z host_state_scheme)" where
  "bal_validate_accounts cursor s =
     (if slice_len cursor = 0 then ret 0
      else
        bind (rlp_next cursor) (\<lambda>(account_field, next).
        bind (bal_validate_account account_field) (\<lambda>items.
        bind (bal_validate_accounts next) (\<lambda>rest. ret (items + rest))))) s"
  by auto
termination
  by (relation "measure (\<lambda>(cursor, _). nat (slice_len cursor))") (auto dest: rlp_next_shorter)

declare bal_validate_accounts.simps [simp del]

definition BLOCK_ACCESS_LIST_ITEM_GAS :: int where
  "BLOCK_ACCESS_LIST_ITEM_GAS = 2000"

definition validate_block_access_list :: "region_slice \<Rightarrow> int \<Rightarrow> ('z, unit) host" where
  "validate_block_access_list payload block_gas_limit =
     bind bal_prepare_iter (\<lambda>_.
     bind (rlp_single_ref payload) (\<lambda>root.
     bind (bal_ref_cursor root) (\<lambda>accounts_cursor.
     bind (bal_validate_accounts accounts_cursor) (\<lambda>bal_items.
     bind bal_iter_next (\<lambda>remaining_event.
     bind (case remaining_event of
             BalEmpty \<Rightarrow> ret ()
           | _ \<Rightarrow> fatal_error InvalidBlockAccessList) (\<lambda>_.
     if block_gas_limit < BLOCK_ACCESS_LIST_ITEM_GAS * bal_items
     then fatal_error BlockAccessListTooLarge else ret ()))))))"

end
