(* ===== verification/Tx_Processing.thy ===== *)
theory Tx_Processing
  imports Tx_Gas Interpreter Kernel_Lifecycle
begin

text \<open>
  The processing of a transaction (\<open>evm/transaction.py\<close>): validation against the sender and the
  block, upfront effects, the two treatments of authorizations, the frame that the transaction
  runs, before and from Amsterdam on, and the settlement that refunds gas, pays the coinbase and
  merges the state. The number of interpreter steps is passed down to \<open>evm_interpret\<close>.
\<close>

section \<open>Authorizations\<close>

definition authorization_item_refund :: "int \<Rightarrow> ('s, int) action" where
  "authorization_item_refund = ranged 0 12500"

definition authorization_refund :: "int \<Rightarrow> ('s, int) action" where
  "authorization_refund = ranged 0 13421772800000"

text \<open>An authorization counts when it is signed, for this chain, by an account without code or with a
  delegation, whose nonce it names.\<close>

definition authorization_for_chain :: "authorization \<Rightarrow> ('z, bool) kernel" where
  "authorization_for_chain au =
     bind (reads k_chain_id) (\<lambda>chain_id.
     bind (word_of_chain_identifier chain_id) (\<lambda>expected_chain_id.
     ret (auth_valid_sig au \<and>
       (word_is_zero (auth_chain_id au) \<or> auth_chain_id au = expected_chain_id))))"

definition process_auth :: "hash_function \<Rightarrow> authorization \<Rightarrow> ('z, int) kernel" where
  "process_auth keccak au =
     (let authority = auth_authority au in
      bind (authorization_for_chain au) (\<lambda>applies.
      if applies then
        bind (k_account_mark_warm authority) (\<lambda>_.
        bind (k_deleg_target keccak authority) (\<lambda>(is_deleg, _).
        bind (k_code_key keccak authority) (\<lambda>code_key.
        bind (k_get_nonce keccak authority) (\<lambda>n.
        if (code_key = KECCAK_EMPTY \<or> is_deleg) \<and> n = auth_nonce au then
          bind (k_account_exists keccak authority) (\<lambda>existed.
          bind (if auth_address au = ZERO_ADDRESS then k_clear_code keccak authority
                else k_set_delegation keccak authority (auth_address au)) (\<lambda>_.
          bind (k_bump_nonce keccak authority) (\<lambda>_.
          authorization_item_refund (if existed then PER_EMPTY_ACCOUNT - PER_AUTH_BASE else 0))))
        else authorization_item_refund 0))))
      else authorization_item_refund 0))"

definition authorization_refund_add :: "int \<Rightarrow> int \<Rightarrow> ('s, int) action" where
  "authorization_refund_add item accumulated =
     (let bound = 12500 * 2 ^ 30 in
      if accumulated \<le> bound - item then authorization_refund (item + accumulated)
      else fatal_error ExecutionInvalid)"

fun process_auth_cursor ::
    "hash_function \<Rightarrow> prepared_authorization_list \<Rightarrow> nat \<Rightarrow> ('z, int) kernel" where
  "process_auth_cursor keccak auths 0 = ret 0"
| "process_auth_cursor keccak auths (Suc count) =
     bind (prepared_authorization_head auths) (\<lambda>authorization.
     bind (prepared_authorization_tail auths (int (Suc count))) (\<lambda>remaining.
     bind (process_auth keccak authorization) (\<lambda>item_refund.
     bind (process_auth_cursor keccak remaining count) (\<lambda>remaining_refund.
     authorization_refund_add item_refund remaining_refund))))"

definition process_auth_list ::
    "hash_function \<Rightarrow> prepared_authorization_list \<Rightarrow> ('z, int) kernel" where
  "process_auth_list keccak auths = process_auth_cursor keccak auths (nat (pal_count auths))"

text \<open>
  From Amsterdam on an authorization is charged: state gas for a new account, gas for the write
  of an account not written yet, and state gas for the first delegation of an account that had
  none. Running out of either ends the processing, with the gas left.
\<close>

type_synonym auth_result = "bool \<times> int \<times> int \<times> int"

definition charge_auth_account_write ::
    "bool \<Rightarrow> int \<Rightarrow> int \<Rightarrow> int \<Rightarrow> (int \<Rightarrow> ('s, auth_result) action) \<Rightarrow> ('s, auth_result) action" where
  "charge_auth_account_write required gas state_gas spill body =
     (if \<not> required then body gas
      else if gas < G_amsterdam_account_write then ret (False, 0, state_gas, spill)
      else bind (gas_sub gas G_amsterdam_account_write) body)"

definition charge_auth_state ::
    "bool \<Rightarrow> int \<Rightarrow> int \<Rightarrow> int \<Rightarrow> int \<Rightarrow> (int \<Rightarrow> int \<Rightarrow> int \<Rightarrow> ('s, auth_result) action)
      \<Rightarrow> ('s, auth_result) action" where
  "charge_auth_state required amount gas state_gas spill body =
     (if \<not> required then body gas state_gas spill
      else
        bind (charge_state_gas gas state_gas spill amount) (\<lambda>(halt, gas, state_gas, spill).
        if halt then ret (False, gas, state_gas, spill) else body gas state_gas spill))"

definition process_amsterdam_auth ::
    "hash_function \<Rightarrow> authorization \<Rightarrow> address \<Rightarrow> address \<Rightarrow> bool \<Rightarrow> int \<Rightarrow> int \<Rightarrow> int
      \<Rightarrow> ('z, auth_result) kernel" where
  "process_amsterdam_auth keccak au sender current_target moves_value gas state_gas spill =
     (let authority = auth_authority au; done_with = ret (True, gas, state_gas, spill) in
      bind (authorization_for_chain au) (\<lambda>applies.
      if applies then
        bind (k_account_mark_warm authority) (\<lambda>_.
        bind (k_deleg_target keccak authority) (\<lambda>(currently_delegated, _).
        bind (k_code_key keccak authority) (\<lambda>code_key.
        bind (k_get_nonce keccak authority) (\<lambda>n.
        if (code_key = KECCAK_EMPTY \<or> currently_delegated) \<and> n = auth_nonce au then
          bind (authorization_tracker_seen authority) (\<lambda>already_seen.
          bind (if already_seen then authorization_tracker_originally_delegated authority
                else ret currently_delegated) (\<lambda>delegated_before_tx.
          let already_written = (already_seen \<or> authority = sender \<or>
                (moves_value \<and> authority = current_target)) in
          bind (k_account_exists keccak authority) (\<lambda>account_exists.
          charge_auth_state (\<not> account_exists) G_amsterdam_state_new_account gas state_gas spill
            (\<lambda>gas state_gas spill.
          charge_auth_account_write (\<not> already_written) gas state_gas spill (\<lambda>gas.
          bind (authorization_tracker_delegation_set authority) (\<lambda>was_set.
          let creates_delegation = (auth_address au \<noteq> ZERO_ADDRESS) in
          charge_auth_state (creates_delegation \<and> \<not> delegated_before_tx \<and> \<not> was_set)
            G_amsterdam_state_auth_base gas state_gas spill (\<lambda>gas state_gas spill.
          bind (if auth_address au = ZERO_ADDRESS then k_clear_code keccak authority
                else k_set_delegation keccak authority (auth_address au)) (\<lambda>_.
          bind (k_bump_nonce keccak authority) (\<lambda>_.
          let originally = (\<not> already_seen \<and> currently_delegated) in
          bind (authorization_tracker_commit authority originally creates_delegation) (\<lambda>_.
          ret (True, gas, state_gas, spill)))))))))))
        else done_with))))
      else done_with))"

fun process_amsterdam_auth_cursor ::
    "hash_function \<Rightarrow> prepared_authorization_list \<Rightarrow> nat \<Rightarrow> address \<Rightarrow> address \<Rightarrow> bool
      \<Rightarrow> int \<Rightarrow> int \<Rightarrow> int \<Rightarrow> ('z, auth_result) kernel" where
  "process_amsterdam_auth_cursor keccak auths 0 sender current_target moves_value gas
       state_gas spill = ret (True, gas, state_gas, spill)"
| "process_amsterdam_auth_cursor keccak auths (Suc count) sender current_target moves_value
       gas state_gas spill =
     bind (prepared_authorization_head auths) (\<lambda>authorization.
     bind (prepared_authorization_tail auths (int (Suc count))) (\<lambda>remaining.
     bind (process_amsterdam_auth keccak authorization sender current_target moves_value gas
       state_gas spill) (\<lambda>(processed, gas, state_gas, spill).
     if processed then
       process_amsterdam_auth_cursor keccak remaining count sender current_target moves_value
         gas state_gas spill
     else ret (False, gas, state_gas, spill))))"

section \<open>Access lists\<close>

function warm_access_list_keys ::
    "region_slice \<Rightarrow> address \<Rightarrow> 'z host_state_scheme \<Rightarrow> py_error + (unit \<times> 'z host_state_scheme)" where
  "warm_access_list_keys cursor addr s =
     (if slice_len cursor = 0 then ret ()
      else
        bind (rlp_next cursor) (\<lambda>(key, next).
        bind (rlp_decode_word key) (\<lambda>slot.
        bind (k_prewarm_slot addr slot) (\<lambda>_. warm_access_list_keys next addr)))) s"
  by auto
termination
  by (relation "measure (\<lambda>(cursor, _). nat (slice_len cursor))") (auto dest: rlp_next_shorter)

declare warm_access_list_keys.simps [simp del]

function warm_access_list ::
    "region_slice \<Rightarrow> 'z kernel_state_scheme \<Rightarrow> py_error + (unit \<times> 'z kernel_state_scheme)" where
  "warm_access_list cursor s =
     (if slice_len cursor = 0 then ret ()
      else
        bind (rlp_next cursor) (\<lambda>(entry, next).
        bind (access_list_entry entry) (\<lambda>(addr_f, keys_f).
        bind (rlp_decode_word addr_f) (\<lambda>addr_word.
        let addr = word_to_address addr_word in
        bind (k_account_mark_warm addr) (\<lambda>_.
        bind (rlp_decode_list keys_f) (\<lambda>keys.
        bind (warm_access_list_keys keys addr) (\<lambda>_. warm_access_list next))))))) s"
  by auto
termination
  by (relation "measure (\<lambda>(cursor, _). nat (slice_len cursor))") (auto dest: rlp_next_shorter)

declare warm_access_list.simps [simp del]

definition prewarm :: "transaction \<Rightarrow> ('z, unit) kernel" where
  "prewarm tx =
     bind active_fork (\<lambda>fork.
     bind (k_account_mark_warm (txn_sender tx)) (\<lambda>_.
     bind (do_when (\<not> txn_is_create tx) (k_account_mark_warm (txn_recipient tx))) (\<lambda>_.
     bind (do_when (fork \<ge> Shanghai) (bind k_coinbase k_account_mark_warm)) (\<lambda>_.
     warm_access_list (alr_encoded (txn_access_list tx))))))"

section \<open>Validation\<close>

definition fatal_when :: "bool \<Rightarrow> fatal_reason \<Rightarrow> ('s, unit) action" where
  "fatal_when bad reason = do_when bad (fatal_error reason)"

definition check_transaction_validity ::
    "hash_function \<Rightarrow> transaction \<Rightarrow> transaction_gas_allowance_fields
      \<Rightarrow> ('z, tx_validity_fields) kernel" where
  "check_transaction_validity keccak tx allowance =
     bind (reads (\<lambda>s. protocol (k_execution_profile s))) (\<lambda>profile.
     bind (reads k_header) (\<lambda>header.
     bind (reads k_chain_id) (\<lambda>chain_id.
     let fork = pp_fork profile; semantics = tx_type_semantics_of (txn_type tx);
         base_fee = hdr_base_fee header in
     bind (tx_signature_parity chain_id (tts_signature semantics) (txn_sig_v tx)) (\<lambda>parity.
     bind (tx_auth_valid keccak (txn_sender tx) (txn_signing_hash tx) parity (txn_sig_r tx)
       (txn_sig_s tx)) (\<lambda>authenticated.
     bind (fatal_when (\<not> authenticated) InvalidSignature) (\<lambda>_.
     let gas_limit = tga_total allowance;
         (eff_gas_price, eff_priority_fee) =
           eff_gas_price_for base_fee (txn_max_fee tx) (txn_max_priority_fee tx);
         sender = txn_sender tx; input_len = slice_len (txn_input tx) in
     bind (k_get_nonce keccak sender) (\<lambda>nonce_before.
     bind (transaction_costs profile tx gas_limit (hdr_excess_blob_gas header)) (\<lambda>costs.
     bind (word_of_account_nonce nonce_before) (\<lambda>expected_nonce.
     bind (fatal_when (txn_nonce tx \<noteq> expected_nonce) ExecutionInvalid) (\<lambda>_.
     bind (k_deleg_target keccak sender) (\<lambda>(sender_deleg, _).
     bind (fatal_when (tts_blob semantics \<and>
       (fork < Cancun \<or> blob_count (txn_blob_hashes tx) = 0 \<or> txn_is_create tx))
       ExecutionInvalid) (\<lambda>_.
     bind (fatal_when (fork \<ge> Prague \<and> gas_limit < tc_calldata_floor costs) ExecutionInvalid) (\<lambda>_.
     bind (k_get_balance keccak sender) (\<lambda>sender_balance.
     bind (fatal_when (\<not> word_ule (tc_upfront costs) sender_balance) ExecutionInvalid) (\<lambda>_.
     bind (k_code_key keccak sender) (\<lambda>sender_code_key.
     bind (fatal_when (\<not> (sender_code_key = KECCAK_EMPTY \<or> sender_deleg)) ExecutionInvalid) (\<lambda>_.
     bind (fatal_when (tga_regular allowance < tc_calldata_floor costs) ExecutionInvalid) (\<lambda>_.
     bind (fatal_when (\<not> word_ule base_fee (txn_max_fee tx)) ExecutionInvalid) (\<lambda>_.
     bind (initcode_size_allowed input_len) (\<lambda>valid_initcode_size.
     bind (fatal_when (txn_is_create tx \<and> \<not> valid_initcode_size) ExecutionInvalid) (\<lambda>_.
     bind (fatal_when (\<not> word_ule (txn_max_priority_fee tx) (txn_max_fee tx)) ExecutionInvalid) (\<lambda>_.
     bind (fatal_when (fork < tts_minimum_fork semantics) ExecutionInvalid) (\<lambda>_.
     bind (fatal_when (tts_set_code semantics \<and> txn_is_create tx) ExecutionInvalid) (\<lambda>_.
     bind (fatal_when (tts_set_code semantics \<and> aur_count (txn_authorizations tx) = 0)
       ExecutionInvalid) (\<lambda>_.
     bind (fatal_when (tts_signature semantics = TypedSignature \<and> txn_chain_id tx \<noteq> chain_id)
       ExecutionInvalid) (\<lambda>_.
     bind (fatal_when (nonce_before = 2 ^ 64 - 1) ExecutionInvalid) (\<lambda>_.
     bind (transaction_initial_gas allowance (tc_intrinsic_execution costs)
       (tc_intrinsic_state costs) (tc_calldata_floor costs)) (\<lambda>initial_gas.
     ret \<lparr>txv_sender = sender, txv_nonce_before = nonce_before, txv_gas = initial_gas,
       txv_blob_fee = tc_blob_fee costs, txv_gas_price = eff_gas_price,
       txv_priority_fee = eff_priority_fee\<rparr>))))))))))))))))))))))))))))"

section \<open>Upfront effects\<close>

record tx_upfront_result =
  tur_authorization_refund :: int
  tur_create_target_prestate_empty :: bool

text \<open>The sender pays for the whole gas limit and the blobs, and its nonce is bumped.\<close>

definition apply_transaction_upfront_effects ::
    "hash_function \<Rightarrow> transaction \<Rightarrow> tx_validity_fields \<Rightarrow> prepared_authorization_list
      \<Rightarrow> ('z, tx_upfront_result) kernel" where
  "apply_transaction_upfront_effects keccak tx v auths =
     bind active_fork (\<lambda>fork.
     let sender = txv_sender v in
     bind (if fork \<ge> Amsterdam \<and> txn_is_create tx
           then
             bind (k_create_addr keccak sender (txv_nonce_before v)) (\<lambda>create_target.
             bind (k_account_exists keccak create_target) (\<lambda>target_exists. ret (\<not> target_exists)))
           else ret False) (\<lambda>create_target_prestate_empty.
     bind (validated_word_product (txv_gas_price v) (tig_admitted_limit (txv_gas v))) (\<lambda>gas_debit.
     bind (k_sub_balance keccak sender gas_debit) (\<lambda>_.
     bind (do_when (word_nonzero (txv_blob_fee v)) (k_sub_balance keccak sender (txv_blob_fee v))) (\<lambda>_.
     bind (k_bump_nonce keccak sender) (\<lambda>_.
     bind (prewarm tx) (\<lambda>_.
     bind (if fork < Amsterdam then process_auth_list keccak auths else ret 0) (\<lambda>refund.
     bind (authorization_refund refund) (\<lambda>refund.
     ret \<lparr>tur_authorization_refund = refund,
       tur_create_target_prestate_empty = create_target_prestate_empty\<rparr>)))))))))"

section \<open>Frames\<close>

text \<open>What a frame has when it starts and what it leaves.\<close>

record tx_frame =
  tf_gas :: int
  tf_state_gas :: int
  tf_state_spill :: int
  tf_refund :: int
  tf_status :: frame_status
  tf_output :: region_slice

record tx_entry =
  te_stack :: stack_pointer
  te_memory_base :: int
  te_memory_height :: int
  te_code :: code
  te_calldata :: calldata_slice

definition enter_transaction_frame ::
    "tx_validity_fields \<Rightarrow> ('z, tx_frame \<times> tx_entry) host" where
  "enter_transaction_frame v =
     (let initial_gas = txv_gas v in
      bind stack_reset (\<lambda>stack.
      ret (\<lparr>tf_gas = tig_execution_remaining initial_gas,
             tf_state_gas = tig_state_remaining initial_gas, tf_state_spill = 0, tf_refund = 0,
             tf_status = Running, tf_output = EMPTY_SLICE\<rparr>,
           \<lparr>te_stack = stack, te_memory_base = 0, te_memory_height = 0, te_code = EMPTY_CODE,
             te_calldata = EMPTY_CALLDATA\<rparr>)))"

definition tx_frame_exceptional ::
    "tx_frame \<Rightarrow> int \<Rightarrow> exception_kind \<Rightarrow> ('z, tx_frame) kernel" where
  "tx_frame_exceptional f reservoir kind =
     bind (exceptional_state (tf_state_gas f) (tf_state_spill f) reservoir kind) (\<lambda>exceptional.
     ret (f\<lparr>tf_gas := 0, tf_state_gas := es_state_gas_remaining exceptional,
       tf_state_spill := es_state_gas_spilled exceptional,
       tf_status := es_status exceptional\<rparr>))"

text \<open>Running the interpreter on the frame of a transaction: not static, at depth zero.\<close>

definition tx_frame_interpret ::
    "nat \<Rightarrow> crypto \<Rightarrow> tx_frame \<Rightarrow> tx_entry \<Rightarrow> address \<Rightarrow> address \<Rightarrow> address \<Rightarrow> int \<Rightarrow> int
      \<Rightarrow> ('z, tx_frame) machine" where
  "tx_frame_interpret steps lib f entry caller target code_address value reservoir =
     bind (evm_interpret steps lib (tf_gas f) (tf_state_gas f) (tf_state_spill f) (tf_refund f)
       (te_stack entry) (te_memory_base entry) (te_memory_height entry)
       \<lparr>msg_caller = caller, msg_code_address = code_address, msg_address = target,
        msg_value = value, msg_state_gas_reservoir = reservoir, msg_is_static = False,
        msg_depth = 0\<rparr>
       (te_code entry) (te_calldata entry))
       (\<lambda>(gas, state_gas, spill, refund, status, result).
     ret \<lparr>tf_gas = gas, tf_state_gas = state_gas, tf_state_spill = spill, tf_refund = refund,
       tf_status = status, tf_output = result\<rparr>)"

definition transaction_initcode_slice :: "region_slice \<Rightarrow> ('z, region_slice) host" where
  "transaction_initcode_slice data =
     bind (region_slice (slice_bytes data) (slice_len data)) code_db_intern_input"

definition transaction_initcode :: "hash_function \<Rightarrow> transaction \<Rightarrow> ('z, code) kernel" where
  "transaction_initcode keccak tx =
     bind active_fork (\<lambda>fork.
     bind (transaction_initcode_slice (txn_input tx)) (\<lambda>initcode.
     bind (code_db_insert keccak initcode fork) code_db_resolve))"

text \<open>Deploying what the initcode returned; the conditions and charges are those of a creation.\<close>

definition deploy_transaction_code ::
    "crypto \<Rightarrow> tx_frame \<Rightarrow> address \<Rightarrow> int \<Rightarrow> ('z, tx_frame) kernel" where
  "deploy_transaction_code lib f new_addr reservoir =
     (let deployed_output = tf_output f; dep_len = slice_len deployed_output;
          fails = (\<lambda>f. tx_frame_exceptional f reservoir OutOfGas) in
      bind active_fork (\<lambda>fork.
      bind (deployed_code_size_allowed dep_len) (\<lambda>valid_deployed_size.
      bind (if fork < London \<or> dep_len = 0 then ret True
            else bind (output_byte deployed_output 0) (\<lambda>first_byte. ret (first_byte \<noteq> 0b11101111)))
        (\<lambda>valid_prefix.
      if valid_deployed_size \<and> valid_prefix then
        bind (code_deployment_execution_cost dep_len (tf_gas f)) (\<lambda>deployment_charge.
        if affordable deployment_charge then
          bind (gas_sub (tf_gas f) (gc_cost deployment_charge)) (\<lambda>gas.
          bind (code_deployment_state_cost dep_len) (\<lambda>state_deposit.
          bind (charge_state_gas gas (tf_state_gas f) (tf_state_spill f) state_deposit)
            (\<lambda>(deployment_halt, gas, state_gas, spill).
          let f = f\<lparr>tf_gas := gas, tf_state_gas := state_gas, tf_state_spill := spill\<rparr> in
          bind (if deployment_halt then fails f else ret f) (\<lambda>f.
          bind (do_when (frame_succeeded (tf_status f))
            (bind (code_db_intern_output deployed_output) (\<lambda>stored_code.
             k_deploy_code (keccak256 lib) new_addr stored_code))) (\<lambda>_. ret f)))))
        else if fork < Homestead then
          bind (k_deploy_code (keccak256 lib) new_addr EMPTY_SLICE) (\<lambda>_. ret (f\<lparr>tf_gas := 0\<rparr>))
        else fails f)
      else fails f))))"

definition run_create_transaction_frame ::
    "nat \<Rightarrow> crypto \<Rightarrow> transaction \<Rightarrow> address \<Rightarrow> int \<Rightarrow> tx_frame \<Rightarrow> tx_entry \<Rightarrow> int
      \<Rightarrow> ('z, tx_frame) machine" where
  "run_create_transaction_frame steps lib tx sender nonce_before f entry reservoir =
     (let keccak = keccak256 lib in
      bind active_fork (\<lambda>fork.
      bind (k_create_addr keccak sender nonce_before) (\<lambda>new_addr.
      let f = f\<lparr>tf_status := Running, tf_output := EMPTY_SLICE\<rparr> in
      bind (k_account_mark_warm new_addr) (\<lambda>_.
      bind (k_account_occupied keccak new_addr) (\<lambda>occupied.
      if occupied then tx_frame_exceptional f reservoir AddressCollision
      else
        bind (k_mark_created keccak new_addr) (\<lambda>_.
        bind (k_clear_storage keccak new_addr) (\<lambda>_.
        bind (k_bump_nonce keccak new_addr) (\<lambda>_.
        bind (do_when (word_nonzero (txn_value tx))
          (k_transfer keccak sender new_addr (txn_value tx))) (\<lambda>_.
        bind (if fork < Amsterdam
              then bind (transaction_initcode keccak tx) (\<lambda>code.
                ret (entry\<lparr>te_code := code, te_calldata := EMPTY_CALLDATA\<rparr>))
              else ret entry) (\<lambda>entry.
        bind (tx_frame_interpret steps lib f entry sender new_addr new_addr (txn_value tx)
          reservoir) (\<lambda>f.
        if frame_succeeded (tf_status f) then deploy_transaction_code lib f new_addr reservoir
        else ret f)))))))))))"

text \<open>A call runs a precompile directly, unless the recipient was found to be delegated.\<close>

definition run_transaction_precompile ::
    "crypto \<Rightarrow> precompile_id \<Rightarrow> transaction \<Rightarrow> tx_frame \<Rightarrow> int \<Rightarrow> ('z, tx_frame) kernel" where
  "run_transaction_precompile lib precompile tx f reservoir =
     (let data = InputCalldata (txn_input tx) in
      bind (precompile_gas precompile data (tf_gas f)) (\<lambda>charge.
      if affordable charge then
        bind (run_precompile_slice lib precompile data) (\<lambda>result.
        if pr_success result then
          bind (gas_sub (tf_gas f) (gc_cost charge)) (\<lambda>gas.
          ret (f\<lparr>tf_gas := gas, tf_output := pr_output result,
            tf_status := Halted (HaltReturn (pr_output result))\<rparr>))
        else tx_frame_exceptional f reservoir OutOfGas)
      else tx_frame_exceptional f reservoir OutOfGas))"

definition run_call_transaction_frame ::
    "nat \<Rightarrow> crypto \<Rightarrow> transaction \<Rightarrow> address \<Rightarrow> bool \<Rightarrow> tx_frame \<Rightarrow> tx_entry \<Rightarrow> address \<Rightarrow> int
      \<Rightarrow> ('z, tx_frame) machine" where
  "run_call_transaction_frame steps lib tx sender delegated f entry code_address reservoir =
     (let keccak = keccak256 lib; recipient = txn_recipient tx;
          f = f\<lparr>tf_status := Running, tf_output := EMPTY_SLICE\<rparr> in
      bind active_fork (\<lambda>fork.
      bind (k_aload keccak recipient) (\<lambda>_.
      bind (do_when (word_nonzero (txn_value tx))
        (k_transfer keccak sender recipient (txn_value tx))) (\<lambda>_.
      bind (precompile_id_for_address recipient) (\<lambda>precompile.
      if \<not> delegated \<and> precompile \<noteq> NotPrecompile then
        run_transaction_precompile lib precompile tx f reservoir
      else
        bind (if fork < Amsterdam then
                bind (k_deleg_target keccak recipient) (\<lambda>(tx_deleg, tx_dtgt).
                bind (do_when tx_deleg
                  (bind (k_account_mark_warm tx_dtgt) (\<lambda>_.
                   bind (k_aload keccak tx_dtgt) (\<lambda>_. ret ())))) (\<lambda>_.
                bind (executable_code lib recipient tx_deleg tx_dtgt) (\<lambda>code.
                ret (if tx_deleg then tx_dtgt else recipient,
                  entry\<lparr>te_code := code, te_calldata := InputCalldata (txn_input tx)\<rparr>))))
              else ret (code_address, entry)) (\<lambda>(code_address, entry).
        tx_frame_interpret steps lib f entry sender recipient code_address (txn_value tx)
          reservoir))))))"

text \<open>Before Amsterdam: one checkpoint around the frame.\<close>

definition finish_transaction_frame ::
    "tx_validity_fields \<Rightarrow> tx_frame \<Rightarrow> int \<Rightarrow> ('s, tx_frame_result_fields) action" where
  "finish_transaction_frame v f state_delta =
     (let initial_gas = txv_gas v; succeeded = frame_succeeded (tf_status f);
          retained_refund = (if succeeded then tf_refund f else 0) in
      bind (tx_frame_gas_snapshot initial_gas (tf_gas f) (tf_state_gas f) state_delta) (\<lambda>snapshot.
      tx_frame_result (tig_admitted_limit initial_gas) (tig_regular_limit initial_gas) succeeded
        snapshot retained_refund))"

definition run_legacy_transaction_frame ::
    "nat \<Rightarrow> crypto \<Rightarrow> transaction \<Rightarrow> tx_validity_fields \<Rightarrow> ('z, tx_frame_result_fields) machine" where
  "run_legacy_transaction_frame steps lib tx v =
     bind k_journal_checkpoint (\<lambda>_.
     bind (enter_transaction_frame v) (\<lambda>(f, entry).
     let reservoir = tf_state_gas f in
     bind (if txn_is_create tx
           then run_create_transaction_frame steps lib tx (txv_sender v) (txv_nonce_before v) f
             entry reservoir
           else run_call_transaction_frame steps lib tx (txv_sender v) False f entry
             (txn_recipient tx) reservoir) (\<lambda>f.
     bind (if frame_succeeded (tf_status f) then k_journal_commit else k_journal_revert) (\<lambda>_.
     let state_delta = frame_state_gas_used reservoir (tf_state_gas f) (tf_state_spill f) in
     finish_transaction_frame v f state_delta))))"

text \<open>
  From Amsterdam on: the authorizations and the preparation run in an outer checkpoint, the frame
  in an inner one. The preparation charges for the account that a creation or a transfer makes,
  and for reaching the delegate of the recipient.
\<close>

record transaction_preparation =
  tp_ready :: bool
  tp_delegated :: bool

record transaction_dispatch =
  td_preparation :: transaction_preparation
  td_gas :: int
  td_state_gas :: int
  td_spill :: int
  td_code_address :: address
  td_code :: code
  td_calldata :: calldata_slice

definition charge_dispatch_account ::
    "bool \<Rightarrow> int \<Rightarrow> int \<Rightarrow> int
      \<Rightarrow> (int \<Rightarrow> int \<Rightarrow> int \<Rightarrow> ('s, transaction_dispatch) action)
      \<Rightarrow> (int \<Rightarrow> int \<Rightarrow> int \<Rightarrow> ('s, transaction_dispatch) action)
      \<Rightarrow> ('s, transaction_dispatch) action" where
  "charge_dispatch_account required gas state_gas spill fails body =
     (if \<not> required then body gas state_gas spill
      else
        bind (charge_state_gas gas state_gas spill G_amsterdam_state_new_account)
          (\<lambda>(halt, gas, state_gas, spill).
        if halt then fails gas state_gas spill else body gas state_gas spill))"

definition prepare_amsterdam_transaction_dispatch ::
    "crypto \<Rightarrow> transaction \<Rightarrow> tx_validity_fields \<Rightarrow> tx_upfront_result \<Rightarrow> int \<Rightarrow> int \<Rightarrow> int
      \<Rightarrow> ('z, transaction_dispatch) kernel" where
  "prepare_amsterdam_transaction_dispatch lib tx v upfront gas state_gas spill =
     (let keccak = keccak256 lib in
      bind (if txn_is_create tx then k_create_addr keccak (txv_sender v) (txv_nonce_before v)
            else ret (txn_recipient tx)) (\<lambda>current_target.
      let dispatch = (\<lambda>ready delegated code_address code calldata gas state_gas spill.
            ret \<lparr>td_preparation = \<lparr>tp_ready = ready, tp_delegated = delegated\<rparr>, td_gas = gas,
              td_state_gas = state_gas, td_spill = spill, td_code_address = code_address,
              td_code = code, td_calldata = calldata\<rparr>) in
      if txn_is_create tx then
        charge_dispatch_account (tur_create_target_prestate_empty upfront) gas state_gas spill
          (dispatch False False current_target EMPTY_CODE EMPTY_CALLDATA)
          (\<lambda>gas state_gas spill.
        bind (transaction_initcode keccak tx) (\<lambda>code.
        dispatch True False current_target code EMPTY_CALLDATA gas state_gas spill))
      else
        (let calldata = InputCalldata (txn_input tx); recipient = txn_recipient tx;
             moves_value = word_nonzero (txn_value tx);
             fails = dispatch False False current_target EMPTY_CODE calldata in
         bind (k_account_is_empty keccak recipient) (\<lambda>recipient_empty.
         charge_dispatch_account (moves_value \<and> recipient_empty) gas state_gas spill fails
           (\<lambda>gas state_gas spill.
         bind (k_deleg_target keccak recipient) (\<lambda>(delegated, delegate).
         let proceed = (\<lambda>gas.
               bind (executable_code lib recipient delegated delegate) (\<lambda>code.
               dispatch True delegated (if delegated then delegate else current_target) code
                 calldata gas state_gas spill)) in
         if delegated then
           bind (k_account_is_warm delegate) (\<lambda>warm.
           bind (account_cost warm) (\<lambda>access_cost.
           if gas < access_cost then fails 0 state_gas spill
           else
             bind (gas_sub gas access_cost) (\<lambda>gas.
             bind (k_account_mark_warm delegate) (\<lambda>_. proceed gas))))
         else proceed gas))))))"

definition run_amsterdam_transaction_frame ::
    "nat \<Rightarrow> crypto \<Rightarrow> transaction \<Rightarrow> tx_validity_fields \<Rightarrow> tx_upfront_result
      \<Rightarrow> prepared_authorization_list \<Rightarrow> ('z, tx_frame_result_fields) machine" where
  "run_amsterdam_transaction_frame steps lib tx v upfront auths =
     (let keccak = keccak256 lib; initial_gas = txv_gas v in
      bind (enter_transaction_frame v) (\<lambda>(f, entry).
      bind k_journal_checkpoint (\<lambda>_.
      let preparation_reservoir = tf_state_gas f in
      bind (if txn_is_create tx then k_create_addr keccak (txv_sender v) (txv_nonce_before v)
            else ret (txn_recipient tx)) (\<lambda>current_target.
      bind (authorization_tracker_reset (pal_count auths)) (\<lambda>_.
      bind (process_amsterdam_auth_cursor keccak auths (nat (pal_count auths)) (txv_sender v)
        current_target (word_nonzero (txn_value tx)) (tf_gas f) (tf_state_gas f)
        (tf_state_spill f)) (\<lambda>(authorized, gas, state_gas, spill).
      let unprepared =
            bind k_journal_revert (\<lambda>_.
            bind (tx_frame_gas_snapshot initial_gas 0 0 0) (\<lambda>snapshot.
            tx_frame_result (tig_admitted_limit initial_gas) (tig_regular_limit initial_gas) False
              snapshot 0)) in
      if \<not> authorized then unprepared
      else
        (let authorization_state_gas = frame_state_gas_used preparation_reservoir state_gas spill;
             execution_reservoir = state_gas in
         bind (prepare_amsterdam_transaction_dispatch lib tx v upfront gas state_gas 0)
           (\<lambda>dispatch.
         if \<not> tp_ready (td_preparation dispatch) then unprepared
         else
           (let f = f\<lparr>tf_gas := td_gas dispatch, tf_state_gas := td_state_gas dispatch,
                  tf_state_spill := td_spill dispatch\<rparr>;
                entry = entry\<lparr>te_code := td_code dispatch, te_calldata := td_calldata dispatch\<rparr> in
            bind k_journal_checkpoint (\<lambda>_.
            bind (if txn_is_create tx
                  then run_create_transaction_frame steps lib tx (txv_sender v)
                    (txv_nonce_before v) f entry execution_reservoir
                  else run_call_transaction_frame steps lib tx (txv_sender v)
                    (tp_delegated (td_preparation dispatch)) f entry (td_code_address dispatch)
                    execution_reservoir) (\<lambda>f.
            bind (if frame_succeeded (tf_status f) then k_journal_commit else k_journal_revert) (\<lambda>_.
            bind k_journal_commit (\<lambda>_.
            let execution_state_delta =
                  frame_state_gas_used execution_reservoir (tf_state_gas f) (tf_state_spill f);
                state_delta = authorization_state_gas + execution_state_delta in
            finish_transaction_frame v f state_delta)))))))))))))"

definition run_transaction_frame ::
    "nat \<Rightarrow> crypto \<Rightarrow> transaction \<Rightarrow> tx_validity_fields \<Rightarrow> tx_upfront_result
      \<Rightarrow> prepared_authorization_list \<Rightarrow> ('z, tx_frame_result_fields) machine" where
  "run_transaction_frame steps lib tx v upfront auths =
     bind active_fork (\<lambda>fork.
     if fork \<ge> Amsterdam then run_amsterdam_transaction_frame steps lib tx v upfront auths
     else run_legacy_transaction_frame steps lib tx v)"

section \<open>Settlement\<close>

definition settle_transaction ::
    "hash_function \<Rightarrow> transaction \<Rightarrow> tx_validity_fields \<Rightarrow> int \<Rightarrow> tx_frame_result_fields
      \<Rightarrow> ('z, receipt) kernel" where
  "settle_transaction keccak tx v auth_refund fr =
     bind (reads (\<lambda>s. protocol (k_execution_profile s))) (\<lambda>profile.
     let g = tfr_gas fr; gas_limit = tgs_admitted_limit g;
         gas_used0 = gas_limit - tgs_remaining g;
         refund_cap = sail_ediv_int gas_used0 (refund_divisor profile);
         total_refund = auth_refund + tfr_refund fr;
         gas_left = remaining_gas_after_refund gas_limit total_refund (tgs_remaining g) refund_cap;
         gas_used1 = gas_limit - gas_left;
         floor_gas = (if pp_fork profile \<ge> Prague then tgs_calldata_floor g else 0);
         gas_used = (if gas_used1 < floor_gas then floor_gas else gas_used1);
         gas_left = gas_limit - gas_used;
         tx_state_gas = tgs_state_used g;
         unrefunded_execution_gas = gas_limit - tgs_remaining g - tx_state_gas;
         execution_gas = (if unrefunded_execution_gas < floor_gas then floor_gas
           else unrefunded_execution_gas) in
     bind (validated_word_product (txv_gas_price v) gas_left) (\<lambda>sender_refund.
     bind (k_add_balance keccak (txv_sender v) sender_refund) (\<lambda>_.
     bind k_coinbase (\<lambda>coinbase.
     bind (validated_word_product (txv_priority_fee v) gas_used) (\<lambda>priority_payment.
     bind (k_add_balance keccak coinbase priority_payment) (\<lambda>_.
     bind (k_tx_merge keccak) (\<lambda>_.
     bind read_logs (\<lambda>log_series.
     if gas_used \<le> execution_gas + tx_state_gas then
       receipt_within gas_limit (tgs_regular_limit g) (txn_type tx) (tfr_success fr) gas_used
         execution_gas tx_state_gas log_series
     else fatal_error ExecutionInvalid))))))))"

definition process_transaction ::
    "nat \<Rightarrow> crypto \<Rightarrow> transaction \<Rightarrow> transaction_gas_allowance_fields \<Rightarrow> ('z, receipt) machine" where
  "process_transaction steps lib tx allowance =
     (let keccak = keccak256 lib in
      bind k_tx_reset (\<lambda>_.
      bind (check_transaction_validity keccak tx allowance) (\<lambda>validity.
      bind (prepare_authorizations keccak (txn_authorizations tx)) (\<lambda>auths.
      bind (k_set_tx \<lparr>tx_origin = txn_sender tx, tx_gas_price = txv_gas_price validity,
        tx_blob_hashes = txn_blob_hashes tx\<rparr>) (\<lambda>_.
      bind (apply_transaction_upfront_effects keccak tx validity auths) (\<lambda>upfront.
      bind (run_transaction_frame steps lib tx validity upfront auths) (\<lambda>frame_result.
      settle_transaction keccak tx validity (tur_authorization_refund upfront) frame_result)))))))"

end
