(* ===== verification/System_Calls.thy ===== *)
theory System_Calls
  imports Tx_Processing Receipts Stateless_Input
begin

text \<open>
  \<open>executor/system_calls.py\<close>: the calls made to the system contracts at the start and the end of a
  block, and the execution requests they and the deposit logs must produce. A system call runs
  the interpreter (\<open>steps\<close> bounds its steps) with 30 million gas outside any transaction; a missing
  contract is skipped by \<open>system_call\<close> and fatal in \<open>system_call_checked\<close>.
\<close>

section \<open>System addresses\<close>

definition SYSTEM_ADDRESS :: address where
  "SYSTEM_ADDRESS = address_from_bits 0xfffffffffffffffffffffffffffffffffffffffe"

definition BEACON_ROOTS_ADDR :: address where
  "BEACON_ROOTS_ADDR = address_from_bits 0xf3df6d732807ef1319fb7b8bb8522d0beac02"

definition HISTORY_STORAGE_ADDR :: address where
  "HISTORY_STORAGE_ADDR = address_from_bits 0xf90827f1c53a10cb7a02335b175320002935"

definition WITHDRAWAL_REQUEST_ADDR :: address where
  "WITHDRAWAL_REQUEST_ADDR = address_from_bits 0x961ef480eb55e80d19ad83579a64c007002"

definition CONSOLIDATION_REQUEST_ADDR :: address where
  "CONSOLIDATION_REQUEST_ADDR = address_from_bits 0xbbddc7ce488642fb579f8b00f3a590007251"

definition BUILDER_DEPOSIT_REQUEST_ADDR :: address where
  "BUILDER_DEPOSIT_REQUEST_ADDR = address_from_bits 0xbff46984e3725691fa540a8c7589300d8282"

definition BUILDER_EXIT_REQUEST_ADDR :: address where
  "BUILDER_EXIT_REQUEST_ADDR = address_from_bits 0x64d678505ad48f8ccb093bc65613800e8282"

definition DEPOSIT_CONTRACT_ADDR :: address where
  "DEPOSIT_CONTRACT_ADDR = address_from_bits 0x219ab540356cbb839cbe05303d7705fa"

definition DEPOSIT_EVENT_TOPIC :: int where
  "DEPOSIT_EVENT_TOPIC =
     0x649bbc62d0e31342afea4e5cd82d4049e7e1ee912fc0889aa790803be39038c5"

definition SYSTEM_CALL_GAS_LIMIT :: int where
  "SYSTEM_CALL_GAS_LIMIT = 30000000"

definition SYSTEM_CALL_INPUT_LENGTH :: int where
  "SYSTEM_CALL_INPUT_LENGTH = 32"

section \<open>Positions in a deposit event and in a deposit request\<close>

definition DEPOSIT_EVENT_DATA_LENGTH :: int where "DEPOSIT_EVENT_DATA_LENGTH = 576"
definition DEPOSIT_PUBKEY_HEAD :: int where "DEPOSIT_PUBKEY_HEAD = 0"
definition DEPOSIT_WITHDRAWAL_CREDENTIALS_HEAD :: int where
  "DEPOSIT_WITHDRAWAL_CREDENTIALS_HEAD = 32"
definition DEPOSIT_AMOUNT_HEAD :: int where "DEPOSIT_AMOUNT_HEAD = 64"
definition DEPOSIT_SIGNATURE_HEAD :: int where "DEPOSIT_SIGNATURE_HEAD = 96"
definition DEPOSIT_INDEX_HEAD :: int where "DEPOSIT_INDEX_HEAD = 128"
definition DEPOSIT_PUBKEY_LENGTH_WORD :: int where "DEPOSIT_PUBKEY_LENGTH_WORD = 160"
definition DEPOSIT_PUBKEY_DATA :: int where "DEPOSIT_PUBKEY_DATA = 192"
definition DEPOSIT_PUBKEY_LENGTH :: int where "DEPOSIT_PUBKEY_LENGTH = 48"
definition DEPOSIT_WITHDRAWAL_CREDENTIALS_LENGTH_WORD :: int where
  "DEPOSIT_WITHDRAWAL_CREDENTIALS_LENGTH_WORD = 256"
definition DEPOSIT_WITHDRAWAL_CREDENTIALS_DATA :: int where
  "DEPOSIT_WITHDRAWAL_CREDENTIALS_DATA = 288"
definition DEPOSIT_WITHDRAWAL_CREDENTIALS_LENGTH :: int where
  "DEPOSIT_WITHDRAWAL_CREDENTIALS_LENGTH = 32"
definition DEPOSIT_AMOUNT_LENGTH_WORD :: int where "DEPOSIT_AMOUNT_LENGTH_WORD = 320"
definition DEPOSIT_AMOUNT_DATA :: int where "DEPOSIT_AMOUNT_DATA = 352"
definition DEPOSIT_AMOUNT_LENGTH :: int where "DEPOSIT_AMOUNT_LENGTH = 8"
definition DEPOSIT_SIGNATURE_LENGTH_WORD :: int where "DEPOSIT_SIGNATURE_LENGTH_WORD = 384"
definition DEPOSIT_SIGNATURE_DATA :: int where "DEPOSIT_SIGNATURE_DATA = 416"
definition DEPOSIT_SIGNATURE_LENGTH :: int where "DEPOSIT_SIGNATURE_LENGTH = 96"
definition DEPOSIT_INDEX_LENGTH_WORD :: int where "DEPOSIT_INDEX_LENGTH_WORD = 512"
definition DEPOSIT_INDEX_DATA :: int where "DEPOSIT_INDEX_DATA = 544"
definition DEPOSIT_INDEX_LENGTH :: int where "DEPOSIT_INDEX_LENGTH = 8"
definition DEPOSIT_REQUEST_LENGTH :: int where "DEPOSIT_REQUEST_LENGTH = 192"
definition DEPOSIT_REQUEST_PUBKEY :: int where "DEPOSIT_REQUEST_PUBKEY = 0"
definition DEPOSIT_REQUEST_WITHDRAWAL_CREDENTIALS :: int where
  "DEPOSIT_REQUEST_WITHDRAWAL_CREDENTIALS = 48"
definition DEPOSIT_REQUEST_AMOUNT :: int where "DEPOSIT_REQUEST_AMOUNT = 80"
definition DEPOSIT_REQUEST_SIGNATURE :: int where "DEPOSIT_REQUEST_SIGNATURE = 88"
definition DEPOSIT_REQUEST_INDEX :: int where "DEPOSIT_REQUEST_INDEX = 184"

section \<open>Calling a system contract\<close>

definition run_system_call_frame ::
    "nat \<Rightarrow> crypto \<Rightarrow> address \<Rightarrow> code \<Rightarrow> calldata_slice \<Rightarrow> int \<Rightarrow> ('z, interpret_result) machine" where
  "run_system_call_frame steps lib tgt code calldata memory_base =
     bind k_journal_checkpoint (\<lambda>_.
     bind stack_reset (\<lambda>stack_top.
     evm_interpret steps lib SYSTEM_CALL_GAS_LIMIT 0 0 0 stack_top memory_base 0
       \<lparr>msg_caller = SYSTEM_ADDRESS, msg_code_address = tgt, msg_address = tgt,
        msg_value = ZERO_WORD, msg_state_gas_reservoir = 0, msg_is_static = False, msg_depth = 0\<rparr>
       code calldata))"

definition system_call :: "nat \<Rightarrow> crypto \<Rightarrow> address \<Rightarrow> hash \<Rightarrow> ('z, unit) machine" where
  "system_call steps lib tgt input_hash =
     bind (k_code_key (keccak256 lib) tgt) (\<lambda>key.
     if key = KECCAK_EMPTY then ret ()
     else
       bind (code_db_resolve key) (\<lambda>code.
       bind (expand_memory 0 0 SYSTEM_CALL_INPUT_LENGTH) (\<lambda>expanded_memory.
       bind (mem_store 0 0 (hash_to_word input_hash)) (\<lambda>_.
       bind (active_memory_slice 0 expanded_memory 0 SYSTEM_CALL_INPUT_LENGTH) (\<lambda>input_slice.
       bind (memory_absolute 0 expanded_memory) (\<lambda>child_memory_base.
       bind (run_system_call_frame steps lib tgt code (MemoryCalldata input_slice)
         child_memory_base) (\<lambda>(_, _, _, _, status, _).
       bind (if frame_succeeded status then k_journal_commit else k_journal_revert) (\<lambda>_.
       k_tx_merge (keccak256 lib)))))))))"

definition system_call_checked :: "nat \<Rightarrow> crypto \<Rightarrow> address \<Rightarrow> ('z, region_slice) machine" where
  "system_call_checked steps lib tgt =
     bind (k_code_key (keccak256 lib) tgt) (\<lambda>key.
     if key = KECCAK_EMPTY then fatal_error ExecutionInvalid
     else
       bind (code_db_resolve key) (\<lambda>code.
       bind (run_system_call_frame steps lib tgt code EMPTY_CALLDATA 0)
         (\<lambda>(_, _, _, _, status, returned).
       if frame_succeeded status then
         bind (scratch_reserve (slice_len returned)) (\<lambda>start.
         bind (output_scratch_push_slice returned) (\<lambda>_.
         bind (scratch_finish start) (\<lambda>result.
         bind k_journal_commit (\<lambda>_.
         bind (k_tx_merge (keccak256 lib)) (\<lambda>_. ret result)))))
       else
         bind k_journal_revert (\<lambda>_.
         bind (k_tx_merge (keccak256 lib)) (\<lambda>_. fatal_error ExecutionInvalid)))))"

section \<open>Deposit requests\<close>

definition deposit_log_matches :: "int \<Rightarrow> ('z, bool) host" where
  "deposit_log_matches index =
     bind (log_address index) (\<lambda>emitter.
     if emitter \<noteq> DEPOSIT_CONTRACT_ADDR then ret False
     else
       bind (log_topics_count index) (\<lambda>topic_count.
       if topic_count = 0 then ret False
       else bind (log_topic index 0) (\<lambda>first_topic. ret (first_topic = DEPOSIT_EVENT_TOPIC))))"

text \<open>The ABI words of the event data: where each of the five byte strings starts and its length.\<close>

definition deposit_layout :: "(int \<times> int) list" where
  "deposit_layout =
     [(DEPOSIT_PUBKEY_HEAD, 160), (DEPOSIT_WITHDRAWAL_CREDENTIALS_HEAD, 256),
      (DEPOSIT_AMOUNT_HEAD, 320), (DEPOSIT_SIGNATURE_HEAD, 384), (DEPOSIT_INDEX_HEAD, 512),
      (DEPOSIT_PUBKEY_LENGTH_WORD, 48), (DEPOSIT_WITHDRAWAL_CREDENTIALS_LENGTH_WORD, 32),
      (DEPOSIT_AMOUNT_LENGTH_WORD, 8), (DEPOSIT_SIGNATURE_LENGTH_WORD, 96),
      (DEPOSIT_INDEX_LENGTH_WORD, 8)]"

text \<open>Position in the log, position in the request, length of each of the five byte strings.\<close>

definition deposit_fields :: "(int \<times> int \<times> int) list" where
  "deposit_fields =
     [(DEPOSIT_PUBKEY_DATA, DEPOSIT_REQUEST_PUBKEY, DEPOSIT_PUBKEY_LENGTH),
      (DEPOSIT_WITHDRAWAL_CREDENTIALS_DATA, DEPOSIT_REQUEST_WITHDRAWAL_CREDENTIALS,
       DEPOSIT_WITHDRAWAL_CREDENTIALS_LENGTH),
      (DEPOSIT_AMOUNT_DATA, DEPOSIT_REQUEST_AMOUNT, DEPOSIT_AMOUNT_LENGTH),
      (DEPOSIT_SIGNATURE_DATA, DEPOSIT_REQUEST_SIGNATURE, DEPOSIT_SIGNATURE_LENGTH),
      (DEPOSIT_INDEX_DATA, DEPOSIT_REQUEST_INDEX, DEPOSIT_INDEX_LENGTH)]"

fun deposit_words :: "region_slice \<Rightarrow> (int \<times> int) list \<Rightarrow> ('z, (int \<times> int) list) host" where
  "deposit_words data [] = ret []"
| "deposit_words data ((position, expected) # rest) =
     bind (log_data_slice_load data position) (\<lambda>found.
     bind (deposit_words data rest) (\<lambda>words. ret ((found, expected) # words)))"

fun deposit_fields_match ::
    "region_slice \<Rightarrow> region_slice \<Rightarrow> (int \<times> int \<times> int) list \<Rightarrow> ('z, bool) host" where
  "deposit_fields_match data expected [] = ret True"
| "deposit_fields_match data expected ((log_offset, request_offset, len) # rest) =
     bind (region_sub_slice data log_offset len) (\<lambda>log_field.
     bind (region_sub_slice expected request_offset len) (\<lambda>expected_field.
     bind (log_input_slices_equal log_field expected_field) (\<lambda>same.
     bind (deposit_fields_match data expected rest) (\<lambda>others. ret (same \<and> others)))))"

definition authenticate_deposit_request ::
    "region_slice \<Rightarrow> region_slice \<Rightarrow> ('z, region_slice) host" where
  "authenticate_deposit_request data expected =
     bind (do_when (slice_len data \<noteq> DEPOSIT_EVENT_DATA_LENGTH)
       (fatal_error InvalidExecutionRequests)) (\<lambda>_.
     bind (deposit_words data deposit_layout) (\<lambda>words.
     bind (do_when (list_ex (\<lambda>(found, wanted). found \<noteq> wanted) words)
       (fatal_error InvalidExecutionRequests)) (\<lambda>_.
     if DEPOSIT_REQUEST_LENGTH \<le> slice_len expected then
       bind (deposit_fields_match data expected deposit_fields) (\<lambda>same.
       bind (do_when (\<not> same) (fatal_error InvalidExecutionRequests)) (\<lambda>_.
       region_slice_suffix expected DEPOSIT_REQUEST_LENGTH))
     else fatal_error InvalidExecutionRequests)))"

function authenticate_deposit_logs_from ::
    "log_series_ref \<Rightarrow> int \<Rightarrow> region_slice \<Rightarrow> ('z, region_slice) kernel" where
  "authenticate_deposit_logs_from series offset remaining =
     (if offset < series_count series then
        bind (log_store_index_add (series_start series) offset) (\<lambda>index.
        bind (deposit_log_matches index) (\<lambda>matches.
        bind (if matches then
                bind (read_log_data index) (\<lambda>data. authenticate_deposit_request data remaining)
              else ret remaining) (\<lambda>remaining.
        bind (log_store_index_increment offset) (\<lambda>_.
        authenticate_deposit_logs_from series (offset + 1) remaining))))
      else ret remaining)"
  by pat_completeness auto
termination
  by (relation "measure (\<lambda>(series, offset, _). nat (series_count series - offset))") auto

declare authenticate_deposit_logs_from.simps [simp del]

definition authenticate_deposit_logs ::
    "log_series_ref \<Rightarrow> region_slice \<Rightarrow> ('z, region_slice) kernel" where
  "authenticate_deposit_logs series expected = authenticate_deposit_logs_from series 0 expected"

section \<open>Execution requests\<close>

definition validate_request_stream ::
    "nat \<Rightarrow> crypto \<Rightarrow> address \<Rightarrow> region_slice \<Rightarrow> ('z, unit) machine" where
  "validate_request_stream steps lib tgt expected =
     bind (system_call_checked steps lib tgt) (\<lambda>dequeued.
     bind (scratch_input_slices_equal dequeued expected) (\<lambda>matches.
     if \<not> matches then fatal_error InvalidExecutionRequests else ret ()))"

definition validate_execution_requests ::
    "nat \<Rightarrow> crypto \<Rightarrow> stateless_input_ref \<Rightarrow> ('z, unit) machine" where
  "validate_execution_requests steps lib input_ref =
     bind active_fork (\<lambda>fork.
     bind (validate_request_stream steps lib WITHDRAWAL_REQUEST_ADDR
       (in_withdrawal_requests input_ref)) (\<lambda>_.
     bind (validate_request_stream steps lib CONSOLIDATION_REQUEST_ADDR
       (in_consolidation_requests input_ref)) (\<lambda>_.
     if fork \<ge> Amsterdam then
       bind (validate_request_stream steps lib BUILDER_DEPOSIT_REQUEST_ADDR
         (in_builder_deposit_requests input_ref)) (\<lambda>_.
       validate_request_stream steps lib BUILDER_EXIT_REQUEST_ADDR
         (in_builder_exit_requests input_ref))
     else if slice_len (in_builder_deposit_requests input_ref) \<noteq> 0 \<or>
             slice_len (in_builder_exit_requests input_ref) \<noteq> 0
     then fatal_error InvalidExecutionRequests else ret ())))"

end
