(* ===== verification/Payload.thy ===== *)
theory Payload
  imports State_Root Block_Codec
begin

text \<open>
  The tries over a list of indexed items (\<open>lib/mpt/indexed.py\<close>, \<open>executor/payload.py\<close>) and the
  validation of the execution payload. The items of a list are keyed by the RLP encoding of their
  index, and the cursor visits the indices in the order of these keys: 1 to 127, then 0, then the
  rest. The trie is built by descending along the keys; receipts come from one stream of records,
  the record of index 0 being set aside.
\<close>

section \<open>Index keys\<close>

record rlp_index_item =
  rii_index :: int
  rii_key :: trie_path

record rlp_index_cursor =
  ric_count :: int
  ric_position :: int
  ric_current :: rlp_index_item

definition RLP_INDEX_MAXIMUM :: int where
  "RLP_INDEX_MAXIMUM = 2 ^ 20"

definition rlp_index_item :: "int \<Rightarrow> trie_path \<Rightarrow> ('s, rlp_index_item) action" where
  "rlp_index_item index key =
     (if 0 \<le> index \<and> index \<le> RLP_INDEX_MAXIMUM - 1
      then ret \<lparr>rii_index = index, rii_key = key\<rparr>
      else raise (ValueError ''RlpIndexItem.index violates Sail type''))"

definition rlp_index_cursor_fields ::
    "int \<Rightarrow> int \<Rightarrow> rlp_index_item \<Rightarrow> ('s, rlp_index_cursor) action" where
  "rlp_index_cursor_fields count position current =
     (if 0 \<le> count \<and> count \<le> RLP_INDEX_MAXIMUM \<and> 0 \<le> position \<and> position \<le> RLP_INDEX_MAXIMUM
      then ret \<lparr>ric_count = count, ric_position = position, ric_current = current\<rparr>
      else raise (ValueError ''RlpIndexCursor violates Sail type''))"

definition rlp_index_encoded_width :: "int \<Rightarrow> nat" where
  "rlp_index_encoded_width value =
     (if value < 256 then 1 else if value < 65536 then 2 else if value < 16777216 then 3
      else if value < 4294967296 then 4 else if value < 1099511627776 then 5
      else if value < 281474976710656 then 6 else if value < 72057594037927936 then 7 else 8)"

text \<open>The bytes of an index from the most significant one down.\<close>

fun path_append_index_bytes :: "int \<Rightarrow> nat \<Rightarrow> trie_path \<Rightarrow> ('s, trie_path) action" where
  "path_append_index_bytes index 0 path = ret path"
| "path_append_index_bytes index (Suc byte_offset) path =
     bind (path_append_byte path (word_of_int (drop_bit (8 * byte_offset) index))) (\<lambda>path.
     path_append_index_bytes index byte_offset path)"

definition trie_index_key :: "int \<Rightarrow> ('s, trie_path) action" where
  "trie_index_key index =
     bind path_empty (\<lambda>empty_path.
     if index = 0 then path_append_byte empty_path 0x80
     else if index \<le> 127 then path_append_byte empty_path (word_of_int index)
     else
       (let width = rlp_index_encoded_width index in
        bind (path_append_byte empty_path (word_of_int (128 + int width))) (\<lambda>path.
        path_append_index_bytes index width path)))"

definition rlp_index_at_position :: "rlp_index_cursor \<Rightarrow> ('s, int) action" where
  "rlp_index_at_position cursor =
     (let count = ric_count cursor; position = ric_position cursor in
      if position < count then
        (let rest = count - 1; single_count = (if rest < 127 then rest else 127) in
         if position < single_count then natural (position + 1)
         else if position = single_count then ret 0
         else natural position)
      else fatal_error WitnessDeficient)"

text \<open>A cursor at a position: the item it stands on, unless it is at the end.\<close>

definition rlp_index_cursor_at :: "int \<Rightarrow> int \<Rightarrow> bool \<Rightarrow> ('s, rlp_index_cursor) action" where
  "rlp_index_cursor_at count position has_item =
     bind path_empty (\<lambda>empty_path.
     bind (rlp_index_item 0 empty_path) (\<lambda>no_item.
     bind (rlp_index_cursor_fields count position no_item) (\<lambda>cursor.
     if has_item then
       bind (rlp_index_at_position cursor) (\<lambda>index.
       bind (trie_index_key index) (\<lambda>key.
       bind (rlp_index_item index key) (\<lambda>current. ret (cursor\<lparr>ric_current := current\<rparr>))))
     else ret cursor)))"

definition rlp_index_cursor :: "int \<Rightarrow> ('s, rlp_index_cursor) action" where
  "rlp_index_cursor count = rlp_index_cursor_at count 0 (count \<noteq> 0)"

definition rlp_index_cursor_empty :: "rlp_index_cursor \<Rightarrow> bool" where
  "rlp_index_cursor_empty cursor \<longleftrightarrow> ric_position cursor = ric_count cursor"

definition rlp_index_cursor_peek :: "rlp_index_cursor \<Rightarrow> ('s, rlp_index_item) action" where
  "rlp_index_cursor_peek cursor =
     (if ric_position cursor < ric_count cursor then ret (ric_current cursor)
      else fatal_error WitnessDeficient)"

definition rlp_index_cursor_advance :: "rlp_index_cursor \<Rightarrow> ('s, rlp_index_cursor) action" where
  "rlp_index_cursor_advance cursor =
     (let count = ric_count cursor; position = ric_position cursor in
      if position < count then rlp_index_cursor_at count (position + 1) (position + 1 < count)
      else fatal_error WitnessDeficient)"

definition rlp_index_cursor_pop ::
    "rlp_index_cursor \<Rightarrow> ('s, rlp_index_item \<times> rlp_index_cursor) action" where
  "rlp_index_cursor_pop cursor =
     bind (rlp_index_cursor_peek cursor) (\<lambda>item.
     bind (rlp_index_cursor_advance cursor) (\<lambda>next. ret (item, next)))"

section \<open>Sources of indexed items\<close>

record receipt_records_ref =
  rr_bytes :: region_slice
  rr_count :: int

datatype indexed_trie_source =
    IndexedTransactions bounded_ssz_list_ref
  | IndexedWithdrawals bounded_ssz_list_ref
  | IndexedReceipts receipt_records_ref

record indexed_trie_cursor =
  itc_keys :: rlp_index_cursor
  itc_receipt_zero :: region_slice
  itc_receipt_remaining :: region_slice

definition indexed_receipt_parts ::
    "indexed_trie_source \<Rightarrow> ('z, region_slice \<times> region_slice) host" where
  "indexed_receipt_parts source =
     (case source of
        IndexedReceipts receipts \<Rightarrow>
          if rr_count receipts = 0 then ret (EMPTY_SLICE, rr_bytes receipts)
          else receipt_record_pop (rr_bytes receipts)
      | _ \<Rightarrow> ret (EMPTY_SLICE, EMPTY_SLICE))"

definition indexed_trie_begin :: "indexed_trie_source \<Rightarrow> ('z, indexed_trie_cursor) host" where
  "indexed_trie_begin source =
     (let count = (case source of
            IndexedTransactions txs \<Rightarrow> sl_count txs
          | IndexedWithdrawals wds \<Rightarrow> sl_count wds
          | IndexedReceipts receipts \<Rightarrow> rr_count receipts) in
      bind (indexed_receipt_parts source) (\<lambda>(zero, remaining).
      bind (rlp_index_cursor count) (\<lambda>keys.
      ret \<lparr>itc_keys = keys, itc_receipt_zero = zero, itc_receipt_remaining = remaining\<rparr>)))"

definition indexed_trie_cursor_empty :: "indexed_trie_cursor \<Rightarrow> bool" where
  "indexed_trie_cursor_empty cursor = rlp_index_cursor_empty (itc_keys cursor)"

definition indexed_trie_cursor_key :: "indexed_trie_cursor \<Rightarrow> ('s, trie_path) action" where
  "indexed_trie_cursor_key cursor =
     bind (rlp_index_cursor_peek (itc_keys cursor)) (\<lambda>item. ret (rii_key item))"

definition indexed_trie_next_under ::
    "indexed_trie_cursor \<Rightarrow> trie_path \<Rightarrow> ('s, bool) action" where
  "indexed_trie_next_under cursor prefix =
     (if indexed_trie_cursor_empty cursor then ret False
      else bind (indexed_trie_cursor_key cursor) (path_prefix_of prefix))"

definition indexed_trie_pop ::
    "indexed_trie_source \<Rightarrow> indexed_trie_cursor
      \<Rightarrow> ('z, trie_item \<times> indexed_trie_cursor) kernel" where
  "indexed_trie_pop source cursor =
     bind (rlp_index_cursor_pop (itc_keys cursor)) (\<lambda>(index_item, next_keys).
     let remaining = itc_receipt_remaining cursor in
     bind (case source of
             IndexedTransactions txs \<Rightarrow>
               bind (ssz_list_at txs (rii_index index_item)) (\<lambda>transaction.
               ret (InputTrieLeaf transaction, remaining))
           | IndexedWithdrawals wds \<Rightarrow>
               bind (ssz_fixed_list_at wds (rii_index index_item) WD_SIZE) (\<lambda>withdrawal.
               bind (withdrawal_rlp withdrawal) (\<lambda>encoded_withdrawal.
               ret (ScratchTrieLeaf encoded_withdrawal, remaining)))
           | IndexedReceipts _ \<Rightarrow>
               if rii_index index_item = 0
               then ret (ScratchTrieLeaf (itc_receipt_zero cursor), remaining)
               else
                 bind (receipt_record_pop remaining) (\<lambda>(receipt, rest).
                 ret (ScratchTrieLeaf receipt, rest)))
       (\<lambda>(value, remaining).
     ret (trie_leaf (rii_key index_item) value,
       \<lparr>itc_keys = next_keys, itc_receipt_zero = itc_receipt_zero cursor,
        itc_receipt_remaining = remaining\<rparr>)))"

section \<open>The trie over the items\<close>

text \<open>
  The loop of the source goes on while the next key is under the prefix. A round that leaves the
  cursor where it was would repeat for ever, which \<open>OutOfFuel\<close> stands for; the keys of a cursor
  are distinct and none is a prefix of another, so that a round always moves on.
\<close>

definition indexed_items_left :: "indexed_trie_cursor \<Rightarrow> nat" where
  "indexed_items_left cursor = nat (ric_count (itc_keys cursor) - ric_position (itc_keys cursor))"

function indexed_trie_subtree ::
    "hash_function \<Rightarrow> indexed_trie_source \<Rightarrow> indexed_trie_cursor \<Rightarrow> trie_path
      \<Rightarrow> 'z kernel_state_scheme
      \<Rightarrow> py_error + ((trie_item \<times> indexed_trie_cursor) \<times> 'z kernel_state_scheme)"
and indexed_trie_children ::
    "hash_function \<Rightarrow> indexed_trie_source \<Rightarrow> trie_path \<Rightarrow> trie_children \<Rightarrow> indexed_trie_cursor
      \<Rightarrow> 'z kernel_state_scheme
      \<Rightarrow> py_error + ((trie_children \<times> indexed_trie_cursor) \<times> 'z kernel_state_scheme)" where
  "indexed_trie_subtree keccak source cursor prefix s =
     bind (indexed_trie_next_under cursor prefix) (\<lambda>cursor_under_prefix.
     if \<not> cursor_under_prefix then bind trie_empty_subtree (\<lambda>item. ret (item, cursor))
     else
       bind (indexed_trie_cursor_key cursor) (\<lambda>key.
       if path_eq key prefix then indexed_trie_pop source cursor
       else
         bind (do_when (64 \<le> path_len prefix) (fatal_error WitnessDeficient)) (\<lambda>_.
         bind trie_children_empty (\<lambda>children.
         bind (indexed_trie_children keccak source prefix children cursor)
           (\<lambda>(children, remaining).
         bind (trie_children_finish keccak prefix children) (\<lambda>item.
         ret (item, remaining))))))) s"
| "indexed_trie_children keccak source prefix children remaining s =
     bind (indexed_trie_next_under remaining prefix) (\<lambda>remaining_under_prefix.
     if \<not> remaining_under_prefix then ret (children, remaining)
     else
       bind (indexed_trie_cursor_key remaining) (\<lambda>next_key.
       let nib = path_nibble next_key (path_len prefix) in
       bind (child_path_of prefix nib) (\<lambda>child_prefix.
       bind (indexed_trie_subtree keccak source remaining child_prefix) (\<lambda>(child, next).
       bind (trie_children_add keccak children prefix nib child) (\<lambda>children.
       if indexed_items_left next < indexed_items_left remaining
       then indexed_trie_children keccak source prefix children next
       else raise OutOfFuel))))) s"
  by pat_completeness auto

termination
  by (relation "inv_image (less_than <*lex*> less_than <*lex*> less_than)
      (\<lambda>x. case x of
         Inl (keccak, source, cursor, prefix, s) \<Rightarrow> (64 - path_len prefix, 1 :: nat, 0)
       | Inr (keccak, source, prefix, children, remaining, s) \<Rightarrow>
           (64 - path_len prefix, 0, indexed_items_left remaining))")
    (auto dest: child_path_of_shrinks)

declare indexed_trie_subtree.simps [simp del] indexed_trie_children.simps [simp del]

definition indexed_trie_root ::
    "hash_function \<Rightarrow> indexed_trie_source \<Rightarrow> ('z, hash) kernel" where
  "indexed_trie_root keccak source =
     bind scratch_begin (\<lambda>mark.
     bind (indexed_trie_begin source) (\<lambda>initial.
     bind path_empty (\<lambda>root_path.
     bind (indexed_trie_subtree keccak source initial root_path) (\<lambda>(subtree, remaining).
     bind (do_when (\<not> indexed_trie_cursor_empty remaining \<or>
         slice_len (itc_receipt_remaining remaining) \<noteq> 0) (fatal_error WitnessDeficient)) (\<lambda>_.
     bind (trie_subtree_root keccak subtree) (\<lambda>root.
     bind (scratch_rewind mark) (\<lambda>_. ret root)))))))"

definition transaction_trie_root ::
    "hash_function \<Rightarrow> bounded_ssz_list_ref \<Rightarrow> ('z, hash) kernel" where
  "transaction_trie_root keccak txs = indexed_trie_root keccak (IndexedTransactions txs)"

definition withdrawals_trie_root ::
    "hash_function \<Rightarrow> bounded_ssz_list_ref \<Rightarrow> ('z, hash) kernel" where
  "withdrawals_trie_root keccak wds = indexed_trie_root keccak (IndexedWithdrawals wds)"

definition indexed_receipt_trie_root ::
    "hash_function \<Rightarrow> receipt_records_ref \<Rightarrow> ('z, hash) kernel" where
  "indexed_receipt_trie_root keccak receipts = indexed_trie_root keccak (IndexedReceipts receipts)"

definition receipt_store_root :: "hash_function \<Rightarrow> int \<Rightarrow> int \<Rightarrow> ('z, hash) kernel" where
  "receipt_store_root keccak records_start count =
     bind (scratch_finish records_start) (\<lambda>records.
     bind (ranged 0 (2 ^ 20) count) (\<lambda>count.
     bind (indexed_receipt_trie_root keccak \<lparr>rr_bytes = records, rr_count = count\<rparr>) (\<lambda>root.
     bind (scratch_rewind records_start) (\<lambda>_. ret root))))"

section \<open>Validating the payload\<close>

definition expected_payload_excess_blob_gas :: "witness_context \<Rightarrow> ('z, int) kernel" where
  "expected_payload_excess_blob_gas witness =
     bind (reads (\<lambda>s. protocol (k_execution_profile s))) (\<lambda>profile.
     bind (next_excess_blob_gas profile (wc_parent_excess_blob_gas witness)
       (wc_parent_blob_gas_used witness) (wc_parent_base_fee_per_gas witness)) excess_blob_gas)"

text \<open>The requests of each type that has any, in the order of their type bytes.\<close>

definition typed_requests :: "stateless_input_ref \<Rightarrow> (byte \<times> region_slice) list" where
  "typed_requests input_ref =
     [(0, in_deposits input_ref), (1, in_withdrawal_requests input_ref),
      (2, in_consolidation_requests input_ref), (3, in_builder_deposit_requests input_ref),
      (4, in_builder_exit_requests input_ref)]"

fun request_digests ::
    "hash_function \<Rightarrow> (byte \<times> region_slice) list \<Rightarrow> ('z, hash option list) kernel" where
  "request_digests sha [] = ret []"
| "request_digests sha ((request_type, requests) # rest) =
     bind (if slice_len requests \<noteq> 0
           then bind (sha256_request_digest sha request_type requests) (\<lambda>digest. ret (Some digest))
           else ret None) (\<lambda>digest.
     bind (request_digests sha rest) (\<lambda>digests. ret (digest # digests)))"

fun push_request_digests :: "hash option list \<Rightarrow> ('z, unit) kernel" where
  "push_request_digests [] = ret ()"
| "push_request_digests (digest # rest) =
     bind (case digest of Some d \<Rightarrow> scratch_push_b256 d 32 | None \<Rightarrow> ret ()) (\<lambda>_.
     push_request_digests rest)"

definition execution_requests_hash ::
    "hash_function \<Rightarrow> stateless_input_ref \<Rightarrow> ('z, hash) kernel" where
  "execution_requests_hash sha input_ref =
     bind (request_digests sha (typed_requests input_ref)) (\<lambda>digests.
     bind (scratch_reserve (5 * 32)) (\<lambda>mark.
     bind (push_request_digests digests) (\<lambda>_.
     bind (scratch_finish mark) (\<lambda>request_bytes.
     bind (hash_region sha ScratchRegion request_bytes) (\<lambda>digest.
     bind (scratch_rewind mark) (\<lambda>_. ret digest))))))"

definition validate_execution_payload ::
    "crypto \<Rightarrow> stateless_input_fields \<Rightarrow> stateless_input_ref \<Rightarrow> witness_context
      \<Rightarrow> ('z, unit) kernel" where
  "validate_execution_payload lib decoded_input input_ref witness =
     (let keccak = keccak256 lib; payload = si_payload decoded_input;
          header = block_header_of (payload_block payload);
          body = block_body_of (payload_block payload) in
      bind active_fork (\<lambda>fork.
      bind (do_when (hdr_gas_limit header < hdr_gas_used header) (fatal_error InvalidGasUsed)) (\<lambda>_.
      bind (do_when (wc_parent_hash witness \<noteq> hdr_parent_hash header)
        (fatal_error InvalidParentHash)) (\<lambda>_.
      bind (expected_payload_excess_blob_gas witness) (\<lambda>expected_excess.
      bind (do_when (fork \<ge> Cancun \<and> hdr_excess_blob_gas header \<noteq> expected_excess)
        (fatal_error InvalidExcessBlobGas)) (\<lambda>_.
      if fork \<ge> Paris then
        bind (transaction_trie_root keccak (body_transactions body)) (\<lambda>transactions_root.
        bind (if fork \<ge> Shanghai then withdrawals_trie_root keccak (body_withdrawals body)
              else ret EMPTY_TRIE_ROOT) (\<lambda>withdrawals_root.
        bind (if fork \<ge> Prague then execution_requests_hash (sha256 lib) input_ref
              else ret ZERO_HASH) (\<lambda>requests_hash.
        bind (if fork \<ge> Amsterdam
              then hash_region keccak InputRegion (body_block_access_list body)
              else ret ZERO_HASH) (\<lambda>access_list_hash.
        bind (block_header_hash keccak header transactions_root withdrawals_root requests_hash
          access_list_hash) (\<lambda>computed_block_hash.
        if computed_block_hash \<noteq> expected_block_hash payload then fatal_error InvalidBlockHash
        else ret ())))))
      else ret ()))))))"

end
