(* ===== verification/Block_Execution.thy ===== *)
theory Block_Execution
  imports System_Calls Payload
begin

text \<open>
  \<open>executor/block.py\<close>: the gas used by a block and its limits, the system calls at the start, the
  transactions in turn (each decoded with its public key, checked against the gas left, processed
  and its receipt recorded), the withdrawals and rewards at the end.
\<close>

section \<open>Gas used by a block\<close>

record block_gas_usage =
  bgu_limit :: int
  bgu_execution :: int
  bgu_state :: int
  bgu_receipts :: int

definition block_gas_usage_relation :: "int \<Rightarrow> int \<Rightarrow> int \<Rightarrow> int \<Rightarrow> bool" where
  "block_gas_usage_relation limit execution state receipts \<longleftrightarrow>
     0 \<le> limit \<and> limit \<le> 2 ^ 64 - 1 \<and> 0 \<le> execution \<and> execution \<le> limit \<and>
     0 \<le> state \<and> state \<le> limit \<and> 0 \<le> receipts \<and> receipts \<le> execution + state"

definition block_gas_usage_within :: "int \<Rightarrow> int \<Rightarrow> int \<Rightarrow> int \<Rightarrow> ('s, block_gas_usage) action" where
  "block_gas_usage_within limit execution state receipts =
     (if block_gas_usage_relation limit execution state receipts
      then ret \<lparr>bgu_limit = limit, bgu_execution = execution, bgu_state = state,
        bgu_receipts = receipts\<rparr>
      else raise (ValueError ''BlockGasUsageFieldsValidity violates Sail constraint''))"

definition block_gas_usage_empty :: "int \<Rightarrow> ('s, block_gas_usage) action" where
  "block_gas_usage_empty limit = block_gas_usage_within limit 0 0 0"

definition block_gas_usage_add ::
    "block_gas_usage \<Rightarrow> int \<Rightarrow> int \<Rightarrow> int \<Rightarrow> ('s, block_gas_usage) action" where
  "block_gas_usage_add usage add_execution add_state add_receipt =
     block_gas_usage_within (bgu_limit usage) (bgu_execution usage + add_execution)
       (bgu_state usage + add_state) (bgu_receipts usage + add_receipt)"

section \<open>The start and the end of a block\<close>

definition run_block_start_system_calls :: "nat \<Rightarrow> crypto \<Rightarrow> ('z, unit) machine" where
  "run_block_start_system_calls steps lib =
     bind active_fork (\<lambda>fork.
     bind (do_when (fork \<ge> Cancun)
       (bind (reads (\<lambda>s. hdr_parent_beacon_block_root (k_header s)))
         (system_call steps lib BEACON_ROOTS_ADDR))) (\<lambda>_.
     if fork \<ge> Prague then
       bind (reads (\<lambda>s. hdr_parent_hash (k_header s))) (system_call steps lib HISTORY_STORAGE_ADDR)
     else ret ()))"

definition PRE_MERGE_BLOCK_REWARD :: int where
  "PRE_MERGE_BLOCK_REWARD = 0x1bc16d674ec80000"

function apply_withdrawals_from ::
    "hash_function \<Rightarrow> bounded_ssz_list_ref \<Rightarrow> 'z kernel_state_scheme
      \<Rightarrow> py_error + (unit \<times> 'z kernel_state_scheme)" where
  "apply_withdrawals_from keccak rest s =
     (if sl_count rest = 0 then ret ()
      else
        bind (ssz_fixed_list_pop rest WD_SIZE) (\<lambda>(withdrawal_ref, tail).
        bind (decode_withdrawal withdrawal_ref) (\<lambda>withdrawal.
        let amount_in_wei = wd_amount withdrawal * 1000000000 in
        bind (k_add_balance keccak (wd_address withdrawal) amount_in_wei) (\<lambda>_.
        apply_withdrawals_from keccak tail)))) s"
  by auto
termination
  by (relation "measure (\<lambda>(_, rest, _). nat (sl_count rest))")
    (auto dest: ssz_fixed_list_pop_progress)

declare apply_withdrawals_from.simps [simp del]

definition apply_withdrawals :: "hash_function \<Rightarrow> bounded_ssz_list_ref \<Rightarrow> ('z, unit) kernel" where
  "apply_withdrawals keccak withdrawals = apply_withdrawals_from keccak withdrawals"

definition apply_block_end_state :: "hash_function \<Rightarrow> block_body \<Rightarrow> ('z, unit) kernel" where
  "apply_block_end_state keccak body =
     bind active_fork (\<lambda>fork.
     bind (do_when (fork \<ge> Shanghai) (apply_withdrawals keccak (body_withdrawals body))) (\<lambda>_.
     bind (do_when (fork < Paris)
       (bind k_coinbase (\<lambda>coinbase. k_add_balance keccak coinbase PRE_MERGE_BLOCK_REWARD))) (\<lambda>_.
     k_tx_merge keccak)))"

section \<open>The transactions of a block\<close>

record block_execution_result =
  ber_header_gas_used :: int
  ber_execution_gas_used :: int
  ber_state_gas_used :: int
  ber_blob_gas_used :: int
  ber_first_tx_recipient :: address
  ber_receipts_root :: hash
  ber_logs :: log_series_ref

record block_loop =
  bl_cursor :: bounded_ssz_list_cursor
  bl_keys :: region_slice
  bl_usage :: block_gas_usage
  bl_blob_gas :: int
  bl_first_recipient :: address
  bl_deposits :: region_slice

text \<open>Deposits are authenticated from Prague on.\<close>

definition consume_deposits ::
    "fork \<Rightarrow> receipt \<Rightarrow> region_slice \<Rightarrow> ('z, region_slice) kernel" where
  "consume_deposits fork receipt remaining_deposits =
     (if fork \<ge> Prague then authenticate_deposit_logs (rcpt_logs receipt) remaining_deposits
      else ret remaining_deposits)"

text \<open>
  What a decoded transaction does to the block: it must fit into the gas left (two dimensions from
  Amsterdam on) and into the blob gas of the block.
\<close>

definition execute_transaction ::
    "nat \<Rightarrow> crypto \<Rightarrow> transaction \<Rightarrow> int \<Rightarrow> block_gas_usage \<Rightarrow> int \<Rightarrow> region_slice
      \<Rightarrow> ('z, block_gas_usage \<times> int \<times> region_slice) machine" where
  "execute_transaction steps lib tx index usage blob_gas_acc remaining_deposits =
     bind (reads k_execution_profile) (\<lambda>execution_profile.
     let profile = protocol execution_profile; limits = profile_gas execution_profile;
         gas_limit = block_limit limits;
         available_execution_gas = gas_limit - bgu_execution usage;
         available_state_gas = gas_limit - bgu_state usage;
         tx_blob_gas = 2 ^ 17 * blob_count (txn_blob_hashes tx);
         blob_maximum = bs_max (pp_blob_schedule profile) in
     bind (transaction_gas_allowance (txn_gas_limit tx) (transaction_total_limit limits)
       (transaction_regular_limit limits)) (\<lambda>allowance.
     if pp_fork profile \<ge> Amsterdam then
       (if available_execution_gas < tga_regular allowance \<or>
           available_state_gas < tga_total allowance
        then fatal_error GasUsedExceedsLimit
        else
          bind (block_blob_gas_add blob_maximum blob_gas_acc tx_blob_gas) (\<lambda>next_blob_gas.
          bind (process_transaction steps lib tx allowance) (\<lambda>receipt.
          bind (block_gas_usage_add usage (rcpt_execution_gas receipt) (rcpt_state_gas receipt)
            (rcpt_gas_used receipt)) (\<lambda>next_usage.
          bind (receipt_store_append (keccak256 lib) receipt (bgu_receipts next_usage) index) (\<lambda>_.
          bind (consume_deposits (pp_fork profile) receipt remaining_deposits) (\<lambda>deposits.
          ret (next_usage, next_blob_gas, deposits)))))))
     else if available_execution_gas < tga_total allowance then fatal_error GasUsedExceedsLimit
     else
       bind (if pp_fork profile < Cancun then ret blob_gas_acc
             else block_blob_gas_add blob_maximum blob_gas_acc tx_blob_gas) (\<lambda>next_blob_gas.
       bind (process_transaction steps lib tx allowance) (\<lambda>receipt.
       bind (block_gas_usage_add usage (rcpt_gas_used receipt) 0 (rcpt_gas_used receipt))
         (\<lambda>next_usage.
       bind (receipt_store_append (keccak256 lib) receipt (bgu_receipts next_usage) index) (\<lambda>_.
       bind (consume_deposits (pp_fork profile) receipt remaining_deposits) (\<lambda>deposits.
       ret (next_usage, next_blob_gas, deposits))))))))"

function execute_transactions_loop ::
    "nat \<Rightarrow> crypto \<Rightarrow> block_loop \<Rightarrow> 'z machine_state_scheme
      \<Rightarrow> py_error + (block_loop \<times> 'z machine_state_scheme)" where
  "execute_transactions_loop steps lib bl s =
     (if ssz_list_cursor_empty (bl_cursor bl) then ret bl
      else
        (let i = sc_index (bl_cursor bl) in
         bind (ssz_list_pop (bl_cursor bl)) (\<lambda>(transaction, next).
         bind (do_when (slice_len (bl_keys bl) < PUBLIC_KEY_LENGTH) (fatal_error WitnessDeficient))
           (\<lambda>_.
         bind (region_sub_slice (bl_keys bl) 0 PUBLIC_KEY_LENGTH) (\<lambda>public_key.
         bind (region_slice_suffix (bl_keys bl) PUBLIC_KEY_LENGTH) (\<lambda>keys.
         bind (decode_transaction (keccak256 lib) transaction public_key) (\<lambda>tx.
         bind (modify (\<lambda>s. s\<lparr>k_current_transaction_epoch := i + 1\<rparr>)) (\<lambda>_.
         bind (execute_transaction steps lib tx i (bl_usage bl) (bl_blob_gas bl) (bl_deposits bl))
           (\<lambda>(usage, blob_gas, deposits).
         execute_transactions_loop steps lib
           \<lparr>bl_cursor = next, bl_keys = keys, bl_usage = usage, bl_blob_gas = blob_gas,
            bl_first_recipient = (if i = 0 then txn_recipient tx else bl_first_recipient bl),
            bl_deposits = deposits\<rparr>))))))))) s"
  by auto

termination
  by (relation "measure (\<lambda>(_, _, bl, _). nat (sl_count (sc_items (bl_cursor bl)) -
      sc_index (bl_cursor bl)))") (auto dest: ssz_list_pop_shorter)

declare execute_transactions_loop.simps [simp del]

definition execute_block_transactions ::
    "nat \<Rightarrow> crypto \<Rightarrow> bounded_ssz_list_ref \<Rightarrow> region_slice \<Rightarrow> region_slice
      \<Rightarrow> ('z, block_execution_result) machine" where
  "execute_block_transactions steps lib transactions public_keys expected_deposits =
     bind (reads k_execution_profile) (\<lambda>execution_profile.
     let fork = pp_fork (protocol execution_profile);
         public_key_count = sail_ediv_int (slice_len public_keys) PUBLIC_KEY_LENGTH in
     bind (do_when (public_key_count \<noteq> sl_count transactions \<or>
         slice_len public_keys \<noteq> public_key_count * PUBLIC_KEY_LENGTH)
       (fatal_error WitnessDeficient)) (\<lambda>_.
     bind (block_gas_usage_empty (block_limit (profile_gas execution_profile))) (\<lambda>usage.
     bind receipt_store_begin (\<lambda>records_start.
     bind logs_tx_start (\<lambda>transaction_logs_start.
     bind logs_tx_count (\<lambda>transaction_logs_count.
     bind (log_store_index_add transaction_logs_start transaction_logs_count) (\<lambda>logs_start.
     bind (ssz_list_cursor transactions) (\<lambda>cursor.
     bind (execute_transactions_loop steps lib
       \<lparr>bl_cursor = cursor, bl_keys = public_keys, bl_usage = usage, bl_blob_gas = 0,
        bl_first_recipient = ZERO_ADDRESS, bl_deposits = expected_deposits\<rparr>) (\<lambda>final.
     bind (do_when (fork \<ge> Prague \<and> slice_len (bl_deposits final) \<noteq> 0)
       (fatal_error InvalidExecutionRequests)) (\<lambda>_.
     let final_usage = bl_usage final;
         header_gas_used =
           (if fork \<ge> Amsterdam \<and> bgu_execution final_usage < bgu_state final_usage
            then bgu_state final_usage else bgu_execution final_usage) in
     bind (receipt_store_root (keccak256 lib) records_start (sl_count transactions))
       (\<lambda>receipts_root.
     bind logs_tx_start (\<lambda>retained_logs_start.
     bind logs_tx_count (\<lambda>retained_logs_count.
     bind (log_store_index_add retained_logs_start retained_logs_count) (\<lambda>retained.
     ret \<lparr>ber_header_gas_used = header_gas_used,
       ber_execution_gas_used = bgu_execution final_usage,
       ber_state_gas_used = bgu_state final_usage, ber_blob_gas_used = bl_blob_gas final,
       ber_first_tx_recipient = bl_first_recipient final, ber_receipts_root = receipts_root,
       ber_logs = \<lparr>series_start = logs_start,
         series_count = (if logs_start \<le> retained then retained - logs_start else 0)\<rparr>\<rparr>
     ))))))))))))))"

section \<open>The whole block\<close>

definition set_epoch :: "int \<Rightarrow> ('z, unit) kernel" where
  "set_epoch epoch =
     bind (modify (\<lambda>s. s\<lparr>k_current_transaction_epoch := epoch\<rparr>)) (\<lambda>_. warm_reset epoch)"

definition execute_block_body ::
    "nat \<Rightarrow> crypto \<Rightarrow> block_body \<Rightarrow> stateless_input_ref \<Rightarrow> ('z, block_execution_result) machine" where
  "execute_block_body steps lib body input_ref =
     bind active_fork (\<lambda>fork.
     bind bal_reset (\<lambda>_.
     bind (set_epoch 0) (\<lambda>_.
     bind (run_block_start_system_calls steps lib) (\<lambda>_.
     bind (execute_block_transactions steps lib (body_transactions body)
       (in_public_keys input_ref) (in_deposits input_ref)) (\<lambda>result.
     bind (set_epoch (sl_count (body_transactions body) + 1)) (\<lambda>_.
     bind (apply_block_end_state (keccak256 lib) body) (\<lambda>_.
     bind (do_when (fork \<ge> Prague) (validate_execution_requests steps lib input_ref)) (\<lambda>_.
     ret result))))))))"

end
