(* ===== verification/Stateless.thy ===== *)
theory Stateless
  imports Htr State_Root Block_Access_List Block_Execution
begin

text \<open>
  The stateless driver: the public output of \<open>executor/result.py\<close>, the validation of an executed
  block and of a whole request in \<open>executor/stateless.py\<close>, and \<open>main.py\<close>. The hooks of
  \<open>host/debug_disabled.py\<close> and \<open>fatal_error_set_input\<close> do nothing and are left out.
\<close>

section \<open>The result\<close>

definition RESULT_METADATA_LENGTH :: int where "RESULT_METADATA_LENGTH = 5"

definition write_prefix :: "hash \<Rightarrow> bool \<Rightarrow> ('z, unit) kernel" where
  "write_prefix root valid =
     bind (scratch_push_b256 root WORD_BYTE_LENGTH) (\<lambda>_.
     let success_byte = (if valid then 1 else 0) in
     bind (scratch_push_byte success_byte) (\<lambda>_.
     bind (scratch_push_byte 0x25) (\<lambda>_.
     bind (scratch_push_byte 0) (\<lambda>_.
     bind (scratch_push_byte 0) (\<lambda>_.
     scratch_push_byte 0)))))"

text \<open>The end of both writers: the finished bytes go to the public output.\<close>

definition write_public_output :: "int \<Rightarrow> ('z, unit) kernel" where
  "write_public_output start =
     bind (scratch_finish start) (\<lambda>output_bytes.
     bind (public_output_write output_bytes) (\<lambda>written.
     do_when (\<not> written) (raise (SailError ''public output write''))))"

definition commit_validation_result ::
    "hash \<Rightarrow> bool \<Rightarrow> region_slice \<Rightarrow> ('z, unit) kernel" where
  "commit_validation_result root valid chain_config_bytes =
     (let fixed_length = WORD_BYTE_LENGTH + RESULT_METADATA_LENGTH in
      bind (scratch_length_add fixed_length (slice_len chain_config_bytes)) (\<lambda>output_length.
      bind (scratch_reserve output_length) (\<lambda>start.
      bind (write_prefix root valid) (\<lambda>_.
      bind (stateless_input_scratch_push_slice chain_config_bytes) (\<lambda>_.
      write_public_output start)))))"

definition write_validation_result ::
    "hash_function \<Rightarrow> stateless_input_ref \<Rightarrow> bool \<Rightarrow> ('z, unit) kernel" where
  "write_validation_result sha input_ref valid =
     bind (htr_new_payload_request sha input_ref) (\<lambda>root.
     commit_validation_result root valid (in_chain_config input_ref))"

definition default_chain_config :: hash where
  "default_chain_config =
     vector_update (vector_update (vector_update (vector_update ZERO_HASH 8 12) 12 4) 16 8) 20 8"

definition write_invalid_result :: "('z, unit) kernel" where
  "write_invalid_result =
     bind (scratch_reserve 24) (\<lambda>start.
     bind (scratch_push_b256 default_chain_config 24) (\<lambda>_.
     bind (scratch_finish start) (\<lambda>config_bytes.
     let fixed_length = WORD_BYTE_LENGTH + RESULT_METADATA_LENGTH in
     bind (scratch_length_add fixed_length (slice_len config_bytes)) (\<lambda>output_length.
     bind (scratch_reserve output_length) (\<lambda>output_start.
     bind (write_prefix ZERO_HASH False) (\<lambda>_.
     bind (scratch_scratch_push_slice config_bytes) (\<lambda>_.
     write_public_output output_start)))))))"

section \<open>Validation of a request\<close>

definition validate_executed_block ::
    "hash_function \<Rightarrow> block \<Rightarrow> block_execution_result \<Rightarrow> ('z, unit) kernel" where
  "validate_executed_block keccak block result =
     bind (reads k_execution_profile) (\<lambda>execution_profile.
     let profile = protocol execution_profile; header = block_header_of block in
     bind (do_when (ber_header_gas_used result \<noteq> hdr_gas_used header) (fatal_error InvalidGasUsed))
       (\<lambda>_.
     bind (do_when (pp_fork profile \<ge> Cancun \<and>
         ber_blob_gas_used result \<noteq> hdr_blob_gas_used header) (fatal_error InvalidBlobGasUsed))
       (\<lambda>_.
     bind (compute_state_root keccak) (\<lambda>poststate.
     bind (do_when (poststate \<noteq> hdr_state_root header) (fatal_error InvalidStateRoot)) (\<lambda>_.
     bind (do_when (ber_receipts_root result \<noteq> hdr_receipts_root header)
       (fatal_error InvalidReceiptsRoot)) (\<lambda>_.
     bind (block_logs_bloom_matches keccak (ber_logs result) (hdr_logs_bloom header))
       (\<lambda>logs_bloom_matches.
     let logs_bloom_mismatch = (\<not> logs_bloom_matches) in
     bind (do_when logs_bloom_mismatch (fatal_error InvalidLogsBloom)) (\<lambda>_.
     if pp_fork profile \<ge> Amsterdam
     then validate_block_access_list (body_block_access_list (block_body_of block))
       (block_limit (profile_gas execution_profile))
     else ret ()))))))))"

definition verify_stateless_payload ::
    "nat \<Rightarrow> crypto \<Rightarrow> stateless_input_ref \<Rightarrow> ('z, unit) program" where
  "verify_stateless_payload steps lib input_ref =
     bind scratch_reset (\<lambda>_.
     bind (decode_stateless_input input_ref) (\<lambda>decoded_input.
     bind (index_execution_witness (keccak256 lib) input_ref) (\<lambda>witness.
     bind (validate_execution_payload lib decoded_input input_ref witness) (\<lambda>_.
     let block = payload_block (si_payload decoded_input) in
     bind (execute_block_body steps lib (block_body_of block) input_ref) (\<lambda>result.
     validate_executed_block (keccak256 lib) block result)))))"

definition main :: "nat \<Rightarrow> crypto \<Rightarrow> ('z, unit) program" where
  "main steps lib =
     bind scratch_reset (\<lambda>_.
     bind stateless_input (\<lambda>input_bytes.
     bind (decode_stateless_input_ref input_bytes) (\<lambda>input_ref.
     bind (verify_stateless_payload steps lib input_ref) (\<lambda>_.
     write_validation_result (sha256 lib) input_ref True))))"

end
