(* ===== verification/Stateless_Laws.thy ===== *)
theory Stateless_Laws
  imports Stateless
begin

text \<open>
  What the driver writes: the public output of a valid and of an invalid request, byte by byte.
\<close>

section \<open>Pushing slices\<close>

lemma arena_only_fields:
  assumes "arena_only s t"
  shows "stateless_input_bytes t = stateless_input_bytes s" and "public_output t = public_output s"
  using assms [unfolded arena_only_def, THEN arg_cong [where f = stateless_input_bytes]]
    assms [unfolded arena_only_def, THEN arg_cong [where f = public_output]] by simp_all

lemma arena_only_input:
  "arena_only s t \<Longrightarrow> region_bytes InputRegion sl t = region_bytes InputRegion sl s"
  by (simp add: region_bytes_def arena_only_fields)

lemma push_input_run:
  assumes "room s (length payload)" and "region_bytes InputRegion sl s = payload"
    and "slice_len sl = int (length payload)"
  shows "\<exists>t. stateless_input_scratch_push_slice sl s = Inr ((), t) \<and> arena_ok t \<and> arena_only s t \<and>
    arena_bytes t = arena_bytes s @ payload"
proof (cases "payload = []")
  case True
  with assms show ?thesis
    by (simp add: stateless_input_scratch_push_slice_def room_def)
next
  case False
  with assms have "stateless_input_scratch_push_slice sl s =
      scratch_push (\<lambda>cursor. scratch_store_at cursor payload) s"
    by (simp add: stateless_input_scratch_push_slice_def host_scratch_store_stateless_input_def
      host_scratch_store_region_def scratch_push_def action_simps)
  with appends_store [of payload] assms(1) show ?thesis
    by (auto elim: appendsD)
qed

lemma push_scratch_run:
  assumes "room s (length payload)" and "region_bytes ScratchRegion sl s = payload"
    and "slice_len sl = int (length payload)"
  shows "\<exists>t. scratch_scratch_push_slice sl s = Inr ((), t) \<and> arena_ok t \<and> arena_only s t \<and>
    arena_bytes t = arena_bytes s @ payload"
proof (cases "payload = []")
  case True
  with assms show ?thesis
    by (simp add: scratch_scratch_push_slice_def room_def)
next
  case False
  with assms have "scratch_scratch_push_slice sl s =
      scratch_push (\<lambda>cursor. scratch_store_at cursor payload) s"
    by (simp add: scratch_scratch_push_slice_def host_scratch_store_scratch_def
      host_scratch_store_region_def scratch_push_def action_simps)
  with appends_store [of payload] assms(1) show ?thesis
    by (auto elim: appendsD)
qed

lemma push_room:
  assumes "room s (length xs + n)" and "arena_ok t" and "arena_bytes t = arena_bytes s @ xs"
  shows "room t n"
  using assms length_arena_bytes [of s] length_arena_bytes [of t] by (auto simp: room_def)

section \<open>The two outputs\<close>

text \<open>
  The result container: the root, whether the request is valid, the offset of the chain
  configuration (37) and the configuration.
\<close>

definition result_bytes :: "hash \<Rightarrow> bool \<Rightarrow> bytes \<Rightarrow> bytes" where
  "result_bytes root valid config =
     rev root @ [if valid then 1 else 0] @ [37, 0, 0, 0] @ config"

definition invalid_chain_config :: bytes where
  "invalid_chain_config = replicate 8 0 @ [12, 0, 0, 0] @ [4, 0, 0, 0] @ [8, 0, 0, 0] @ [8, 0, 0, 0]"

lemma appends_prefix:
  assumes "length root = 32"
  shows "appends (result_bytes root valid []) (write_prefix root valid)"
proof -
  have "appends (rev root @ [if valid then 1 else 0] @ [0x25] @ [0] @ [0] @ [0]) (write_prefix root valid)"
    unfolding write_prefix_def Let_def WORD_BYTE_LENGTH_def
    by (intro appends_bind appends_push_hash appends_push_byte assms)
  then show ?thesis
    by (simp add: result_bytes_def)
qed

lemma write_public_output_run:
  assumes "arena_ok t" and "arena_bytes t = before @ payload" and "start = int (length before)"
  shows "write_public_output start t =
    Inr ((), t\<lparr>public_output := public_output t @ payload\<rparr>)"
proof -
  from scratch_finish_run [OF assms(1,2)] obtain sl where
    "scratch_finish start t = Inr (sl, t)" "region_bytes ScratchRegion sl t = payload"
    unfolding assms(3) by blast
  then show ?thesis
    by (simp add: write_public_output_def public_output_write_def action_simps)
qed

lemma scratch_finish_slice:
  assumes "arena_ok t" and "0 \<le> start" and "start \<le> slice_len (scratch_arena t)"
  shows "scratch_finish start t =
    Inr (\<lparr>slice_bytes = start, slice_len = slice_len (scratch_arena t) - start\<rparr>, t)"
  using assms by (simp add: scratch_finish_def region_sub_slice_def region_slice_def valid_range_def
    action_simps Let_def arena_ok_def)

lemma region_of_arena:
  assumes "arena_ok t" and "arena_bytes t = before @ payload @ rest"
  shows "region_bytes ScratchRegion
    \<lparr>slice_bytes = int (length before), slice_len = int (length payload)\<rparr> t = payload"
proof -
  have "scratch_bytes t = arena_bytes t @ drop (nat (slice_len (scratch_arena t))) (scratch_bytes t)"
    by (simp add: arena_bytes_def)
  then have "scratch_bytes t =
      before @ payload @ rest @ drop (nat (slice_len (scratch_arena t))) (scratch_bytes t)"
    using assms(2) by simp
  then have "take (length payload) (drop (length before) (scratch_bytes t)) = payload"
    by (metis append_eq_conv_conj)
  then show ?thesis
    by (simp add: region_bytes_def slice_of_def Let_def py_slice_span)
qed

text \<open>What both writers do once the configuration can be pushed.\<close>

lemma write_result_run:
  assumes root: "length root = 32" and len: "n = 37 + int (length config)"
    and r: "room s (37 + length config)"
    and push: "\<And>t. arena_only s t \<Longrightarrow> room t (length config) \<Longrightarrow>
        arena_bytes t = arena_bytes s @ result_bytes root valid [] \<Longrightarrow>
      \<exists>u. push t = Inr ((), u) \<and> arena_ok u \<and> arena_only t u \<and>
        arena_bytes u = arena_bytes t @ config"
  shows "\<exists>t. bind (scratch_reserve n) (\<lambda>start.
      bind (write_prefix root valid) (\<lambda>_.
      bind push (\<lambda>_. write_public_output start))) s = Inr ((), t) \<and>
    public_output t = public_output s @ result_bytes root valid config"
proof -
  have ok: "arena_ok s" using r by (simp add: room_def)
  from scratch_reserve_run [OF ok, of n] len obtain t where
    t: "scratch_reserve n s = Inr (slice_len (scratch_arena s), t)" "arena_ok t" "arena_only s t"
      "arena_bytes t = arena_bytes s" "scratch_arena t = scratch_arena s"
    by auto
  have size: "length (result_bytes root valid []) = 37"
    using root by (simp add: result_bytes_def)
  with t r have "room t (length (result_bytes root valid []))"
    by (simp add: room_def)
  with appends_prefix [OF root] obtain u where
    u: "write_prefix root valid t = Inr ((), u)" "arena_ok u" "arena_only t u"
      "arena_bytes u = arena_bytes t @ result_bytes root valid []"
    by (rule appendsD)
  have su: "arena_only s u" using t(3) u(3) by (rule arena_only_trans)
  have "room u (length config)"
    by (rule push_room [of s "result_bytes root valid []"]) (simp_all only: size r u(2,4) t(4))
  moreover have u_bytes: "arena_bytes u = arena_bytes s @ result_bytes root valid []"
    using u(4) t(4) by (simp only:)
  ultimately obtain v where
    v: "push u = Inr ((), v)" "arena_ok v" "arena_only u v" "arena_bytes v = arena_bytes u @ config"
    using push [OF su] by blast
  have bytes: "arena_bytes v = arena_bytes s @ result_bytes root valid config"
    unfolding v(4) u_bytes by (simp add: result_bytes_def)
  have mark: "slice_len (scratch_arena s) = int (length (arena_bytes s))"
    using length_arena_bytes [OF ok] by simp
  have out: "public_output v = public_output s"
    using arena_only_trans [OF su v(3)] by (rule arena_only_fields)
  have "bind (scratch_reserve n) (\<lambda>start. bind (write_prefix root valid) (\<lambda>_.
      bind push (\<lambda>_. write_public_output start))) s =
    Inr ((), v\<lparr>public_output := public_output v @ result_bytes root valid config\<rparr>)"
    by (simp only: bind_run t(1) u(1) v(1) sum.case prod.case write_public_output_run [OF v(2) bytes mark])
  with out show ?thesis by simp
qed

text \<open>C32: when the arena has room for it, committing a result succeeds and the public output grows
  by the SSZ container of the result and by nothing else: the 32 bytes of the root in wire order,
  the validity byte, the little-endian offset 37 and the bytes of the chain configuration.\<close>

theorem committed_result_is_ssz_container:
  assumes "length root = 32" and "slice_len config = int (length (region_bytes InputRegion config s))"
    and "room s (37 + length (region_bytes InputRegion config s))"
  shows "\<exists>t. commit_validation_result root valid config s = Inr ((), t) \<and>
    public_output t =
      public_output s @ result_bytes root valid (region_bytes InputRegion config s)"
proof -
  let ?data = "region_bytes InputRegion config s"
  have "slice_len config \<le> 2 ^ 32 - 1 - 37" "0 \<le> slice_len config"
    using assms(2,3) by (auto simp: room_def arena_ok_def)
  then have add: "scratch_length_add (WORD_BYTE_LENGTH + RESULT_METADATA_LENGTH) (slice_len config) s =
      Inr (37 + int (length ?data), s)"
    using assms(2) by (simp add: scratch_length_add_def WORD_BYTE_LENGTH_def RESULT_METADATA_LENGTH_def)
  have "commit_validation_result root valid config s =
      bind (scratch_reserve (37 + int (length ?data))) (\<lambda>start. bind (write_prefix root valid) (\<lambda>_.
        bind (stateless_input_scratch_push_slice config) (\<lambda>_. write_public_output start))) s"
    unfolding commit_validation_result_def Let_def by (simp only: bind_run [of _ _ s] add sum.case prod.case)
  also have "\<exists>t. \<dots> = Inr ((), t) \<and>
      public_output t = public_output s @ result_bytes root valid ?data"
    using assms by (intro write_result_run push_input_run) (auto simp: arena_only_input)
  finally show ?thesis .
qed

lemma committed_result_is_ssz_container_witness:
  "\<exists>t. commit_validation_result (replicate 32 5) True \<lparr>slice_bytes = 0, slice_len = 2\<rparr>
      (initial_kernel_state\<lparr>stateless_input_bytes := [9, 8]\<rparr>) = Inr ((), t) \<and>
    public_output t = replicate 32 5 @ [1, 37, 0, 0, 0, 9, 8]"
proof -
  let ?sl = "\<lparr>slice_bytes = 0, slice_len = 2\<rparr>"
  let ?s = "initial_kernel_state\<lparr>stateless_input_bytes := [9, 8]\<rparr>"
  have "region_bytes InputRegion ?sl ?s = [9, 8]"
    by (simp add: region_bytes_def slice_of_def py_slice_nonneg)
  moreover have "room ?s 39" "public_output ?s = []"
    by (simp_all add: room_def arena_ok_def EMPTY_SLICE_def initial_kernel_state_def host_state.defs
      initial_host_state_def)
  ultimately show ?thesis
    using committed_result_is_ssz_container [of "replicate 32 5" ?sl ?s True]
    by (simp add: result_bytes_def)
qed

text \<open>C33: the output for a request that could not be decoded is the same container with a zero root,
  the validity byte 0 and a fixed chain configuration.\<close>

theorem invalid_result_is_ssz_container:
  assumes "room s 85"
  shows "\<exists>t. write_invalid_result s = Inr ((), t) \<and>
    public_output t = public_output s @ result_bytes ZERO_HASH False invalid_chain_config"
proof -
  let ?c = "invalid_chain_config"
  have ok: "arena_ok s" using assms by (simp add: room_def)
  from scratch_reserve_run [OF ok, of 24] obtain t where
    t: "scratch_reserve 24 s = Inr (slice_len (scratch_arena s), t)" "arena_ok t" "arena_only s t"
      "arena_bytes t = arena_bytes s" "scratch_arena t = scratch_arena s"
    by auto
  have "appends ?c (scratch_push_b256 default_chain_config 24)"
    using appends_store [of ?c]
    by (simp add: scratch_push_b256_def host_scratch_store_b256_def fixed_wire_bytes_def py_slice_nonneg
      default_chain_config_def vector_update_def ZERO_HASH_def invalid_chain_config_def numeral_nat)
  moreover have len: "length ?c = 24"
    by (simp add: invalid_chain_config_def)
  moreover have "room t 24" using t assms by (simp add: room_def)
  ultimately obtain u where
    u: "scratch_push_b256 default_chain_config 24 t = Inr ((), u)" "arena_ok u" "arena_only t u"
      "arena_bytes u = arena_bytes t @ ?c"
    by (metis appendsD)
  let ?sl = "\<lparr>slice_bytes = int (length (arena_bytes s)), slice_len = int (length ?c)\<rparr>"
  have arena: "slice_len (scratch_arena u) = slice_len (scratch_arena s) + 24"
      "slice_len (scratch_arena s) = int (length (arena_bytes s))"
    using length_arena_bytes [OF u(2)] length_arena_bytes [OF ok] u(4) t(4) len by simp_all
  have sl: "scratch_finish (slice_len (scratch_arena s)) u = Inr (?sl, u)"
    using scratch_finish_slice [OF u(2), of "slice_len (scratch_arena s)"] arena len by simp
  have add: "scratch_length_add (WORD_BYTE_LENGTH + RESULT_METADATA_LENGTH) (slice_len ?sl) u =
      Inr (37 + int (length ?c), u)"
    using len by (simp add: scratch_length_add_def WORD_BYTE_LENGTH_def RESULT_METADATA_LENGTH_def)
  have "write_invalid_result s =
      bind (scratch_reserve (37 + int (length ?c))) (\<lambda>start. bind (write_prefix ZERO_HASH False) (\<lambda>_.
        bind (scratch_scratch_push_slice ?sl) (\<lambda>_. write_public_output start))) u"
    unfolding write_invalid_result_def Let_def
    by (simp only: bind_run [of _ _ s] bind_run [of "scratch_push_b256 _ _"]
      bind_run [of "scratch_finish _"] bind_run [of "scratch_length_add _ _"] t(1) u(1) sl add
      sum.case prod.case)
  also have "\<exists>v. \<dots> = Inr ((), v) \<and> public_output v = public_output u @ result_bytes ZERO_HASH False ?c"
  proof (rule write_result_run)
    show "length ZERO_HASH = 32" by (simp add: ZERO_HASH_def)
    show "room u (37 + length ?c)" using assms u(2) arena len by (simp add: room_def)
    fix v :: "'a kernel_state_scheme"
    assume v: "arena_only u v" "room v (length ?c)"
      "arena_bytes v = arena_bytes u @ result_bytes ZERO_HASH False []"
    have "arena_bytes v = arena_bytes s @ ?c @ result_bytes ZERO_HASH False []"
      using v(3) u(4) t(4) by simp
    with v(2) have "region_bytes ScratchRegion ?sl v = ?c"
      by (intro region_of_arena) (auto simp: room_def)
    with v(2) show "\<exists>w. scratch_scratch_push_slice ?sl v = Inr ((), w) \<and> arena_ok w \<and> arena_only v w \<and>
        arena_bytes w = arena_bytes v @ ?c"
      by (intro push_scratch_run) simp_all
  qed simp
  finally show ?thesis
    using arena_only_fields(2) [OF arena_only_trans [OF t(3) u(3)]] by simp
qed

lemma invalid_result_is_ssz_container_witness:
  "\<exists>t. write_invalid_result initial_kernel_state = Inr ((), t) \<and>
    public_output t = replicate 32 0 @ [0, 37, 0, 0, 0] @ invalid_chain_config"
proof -
  have "room initial_kernel_state 85" "public_output initial_kernel_state = []"
    by (simp_all add: room_def arena_ok_def EMPTY_SLICE_def initial_kernel_state_def host_state.defs
      initial_host_state_def)
  then show ?thesis
    using invalid_result_is_ssz_container [of initial_kernel_state]
    by (simp add: result_bytes_def ZERO_HASH_def)
qed

end
