(* ===== verification/Steady.thy ===== *)
theory Steady
  imports Interpreter
begin

text \<open>
  What the operations of the interpreter may change. \<open>steady R m\<close>: the computation \<open>m\<close> never runs
  out of fuel, and whenever it returns, the states before and after are related by \<open>R\<close>. Two
  relations are used: \<open>calm\<close>, for what leaves accounts, storage, logs and transient storage alone
  and journals nothing but warm entries, and \<open>inner\<close>, for what leaves the suspended frames,
  the request, the output and the registers of the block alone.
\<close>

section \<open>Computations that change what a relation allows\<close>

definition steady :: "('s \<Rightarrow> 's \<Rightarrow> bool) \<Rightarrow> ('s, 'a) action \<Rightarrow> bool" where
  "steady R m \<longleftrightarrow> (\<forall>s. case m s of Inl e \<Rightarrow> e \<noteq> OutOfFuel | Inr (x, t) \<Rightarrow> R s t)"

lemma steadyD: "steady R m \<Longrightarrow> m s = Inr (x, t) \<Longrightarrow> R s t"
  by (auto simp: steady_def dest: spec [of _ s])

lemma steady_fuel: "steady R m \<Longrightarrow> m s \<noteq> Inl OutOfFuel"
  by (auto simp: steady_def dest: spec [of _ s])

lemma steady_mono: "steady R m \<Longrightarrow> (\<And>s t. R s t \<Longrightarrow> R' s t) \<Longrightarrow> steady R' m"
  by (auto simp: steady_def split: sum.splits)

lemma steady_raise: "e \<noteq> OutOfFuel \<Longrightarrow> steady R (raise e)"
  by (simp add: steady_def)

lemma steady_fatal: "steady R (fatal_error r)"
  by (simp add: fatal_error_def steady_raise)

lemma steady_modify: "(\<And>s. R s (f s)) \<Longrightarrow> steady R (modify f)"
  by (simp add: steady_def)

lemma steady_if: "(b \<Longrightarrow> steady R m) \<Longrightarrow> (\<not> b \<Longrightarrow> steady R n) \<Longrightarrow> steady R (if b then m else n)"
  by simp

lemma steady_if_applied:
  "(b \<Longrightarrow> steady R (f x)) \<Longrightarrow> (\<not> b \<Longrightarrow> steady R (g x)) \<Longrightarrow> steady R ((if b then f else g) x)"
  by simp

lemma steady_let: "(\<And>x. x = v \<Longrightarrow> steady R (f x)) \<Longrightarrow> steady R (Let v f)"
  by simp

lemma steady_case_prod: "(\<And>x y. p = (x, y) \<Longrightarrow> steady R (f x y)) \<Longrightarrow> steady R (case_prod f p)"
  by (cases p) simp

lemma steady_case_option:
  "steady R m \<Longrightarrow> (\<And>x. steady R (f x)) \<Longrightarrow> steady R (case_option m f v)"
  by (cases v) simp_all

lemma steady_case_node_ref:
  "steady R a \<Longrightarrow> (\<And>x. steady R (b x)) \<Longrightarrow> (\<And>x y. steady R (c x y)) \<Longrightarrow> (\<And>x. steady R (d x)) \<Longrightarrow>
     steady R (case r of EmptyRef \<Rightarrow> a | InputInlineRef x \<Rightarrow> b x | ScratchInlineRef x y \<Rightarrow> c x y
       | HashRef x \<Rightarrow> d x)"
  by (cases r) simp_all

lemma steady_case_input_node:
  "(\<And>x y. steady R (a x y)) \<Longrightarrow> (\<And>x y. steady R (b x y)) \<Longrightarrow> (\<And>x y. steady R (c x y)) \<Longrightarrow>
     steady R (case n of InputLeafNode x y \<Rightarrow> a x y | InputExtensionNode x y \<Rightarrow> b x y
       | InputBranchNode x y \<Rightarrow> c x y)"
  by (cases n) simp_all

lemma steady_case_calldata:
  "(\<And>x. steady R (a x)) \<Longrightarrow> (\<And>x. steady R (b x)) \<Longrightarrow>
     steady R (case d of InputCalldata x \<Rightarrow> a x | MemoryCalldata x \<Rightarrow> b x)"
  by (cases d) simp_all

lemma steady_case_storage_lookup:
  "(\<And>x. steady R (a x)) \<Longrightarrow> steady R b \<Longrightarrow> steady R c \<Longrightarrow>
     steady R (case d of StorageTxHit x \<Rightarrow> a x | StorageTxCleared \<Rightarrow> b | StorageTxMiss \<Rightarrow> c)"
  by (cases d) simp_all

lemmas steady_control = steady_if steady_if_applied steady_let steady_case_prod steady_case_option steady_fatal
  steady_modify steady_raise steady_case_node_ref steady_case_input_node steady_case_calldata
  steady_case_storage_lookup

context action_invariant begin

lemma steady_ret: "steady R (ret x)"
  by (simp add: steady_def related_refl)

lemma steady_reads: "steady R (reads f)"
  by (simp add: steady_def related_refl)

lemma steady_bind: "steady R m \<Longrightarrow> (\<And>x. steady R (f x)) \<Longrightarrow> steady R (bind m f)"
  unfolding steady_def bind_run by (fastforce intro: related_trans split: sum.splits prod.splits)

lemma steady_do_when: "(b \<Longrightarrow> steady R m) \<Longrightarrow> steady R (do_when b m)"
  by (simp add: do_when_def steady_ret)

lemma steady_ensure: "e \<noteq> OutOfFuel \<Longrightarrow> steady R (ensure b e)"
  by (simp add: ensure_def steady_ret steady_raise)

lemma steady_ranged: "steady R (ranged a b v)"
  by (simp add: ranged_def steady_ret steady_raise)

lemma steady_natural: "steady R (natural v)"
  by (simp add: natural_def steady_ret steady_raise)

lemmas steady_rules = steady_bind steady_ret steady_reads steady_do_when steady_ensure
  steady_ranged steady_natural steady_control

end

section \<open>Calm operations\<close>

definition warm_entry :: "journal_entry \<Rightarrow> bool" where
  "warm_entry e \<longleftrightarrow> (case e of JournalWarmAccountChanged _ _ \<Rightarrow> True
     | JournalWarmStorageChanged _ _ \<Rightarrow> True | _ \<Rightarrow> False)"

definition registers_kept :: "'z kernel_state_scheme \<Rightarrow> 'z kernel_state_scheme \<Rightarrow> bool" where
  "registers_kept s t \<longleftrightarrow> kernel_state.more t = kernel_state.more s \<and>
     stateless_input_bytes t = stateless_input_bytes s \<and> public_output t = public_output s \<and>
     k_execution_profile t = k_execution_profile s \<and> k_header t = k_header s \<and> k_tx t = k_tx s"

definition rows_extend :: "('k, 'v) dict \<Rightarrow> ('k, 'v) dict \<Rightarrow> bool" where
  "rows_extend d e \<longleftrightarrow> (\<forall>k v. dict_get d k = Some v \<longrightarrow> dict_get e k = Some v)"

definition world_unwritten :: "'z host_state_scheme \<Rightarrow> 'z host_state_scheme \<Rightarrow> bool" where
  "world_unwritten s t \<longleftrightarrow> account_tx t = account_tx s \<and> storage_tx t = storage_tx s \<and>
     logs t = logs s \<and> log_data t = log_data s \<and> transient t = transient s \<and>
     storage_generations t = storage_generations s \<and>
     rows_extend (account_block s) (account_block t) \<and>
     rows_extend (storage_block s) (storage_block t)"

definition calm :: "'z kernel_state_scheme \<Rightarrow> 'z kernel_state_scheme \<Rightarrow> bool" where
  "calm s t \<longleftrightarrow> registers_kept s t \<and> world_unwritten s t \<and>
     (\<exists>es. journal t = journal s @ es \<and> list_all warm_entry es)"

lemma rows_extend_refl [simp]: "rows_extend d d"
  by (simp add: rows_extend_def)

lemma rows_extend_trans: "rows_extend d e \<Longrightarrow> rows_extend e f \<Longrightarrow> rows_extend d f"
  by (simp add: rows_extend_def)

lemma rows_extend_new: "dict_get d k = None \<Longrightarrow> rows_extend d (dict_set d k v)"
  by (auto simp: rows_extend_def dict_get_set)

interpretation inner: action_invariant registers_kept
  by unfold_locales (auto simp: registers_kept_def)

lemma calmI: "registers_kept s t \<Longrightarrow> world_unwritten s t \<Longrightarrow> journal t = journal s \<Longrightarrow> calm s t"
  unfolding calm_def by (auto intro: exI [of _ "[]"])

interpretation calm: action_invariant calm
proof unfold_locales
  show "calm s s" for s :: "'a kernel_state_scheme"
    by (rule calmI) (simp_all add: registers_kept_def world_unwritten_def)
  show "calm s t \<Longrightarrow> calm t u \<Longrightarrow> calm s u" for s t u :: "'a kernel_state_scheme"
    by (fastforce simp: calm_def registers_kept_def world_unwritten_def intro: rows_extend_trans)
qed

lemmas calm_simps = registers_kept_def world_unwritten_def

lemma calm_update:
  "registers_kept s (f s) \<Longrightarrow> world_unwritten s (f s) \<Longrightarrow> journal (f s) = journal s \<Longrightarrow> calm s (f s)"
  by (rule calmI)

named_theorems calm_intros "operations that are calm"

end
