(* ===== verification/Steady_Host.thy ===== *)
theory Steady_Host
  imports Steady
begin

text \<open>
  Everything below the opcode handlers that neither opens a frame of the journal nor writes to
  the world is calm: the regions, operand stack, memory, scratch and output buffers, code
  database, the readers of the tries and of the kernel, gas schedule, and precompiles. The lemmas
  follow the order in which the definitions call one another; those with a number bundle the
  definitions of one component that call only earlier ones.
\<close>

lemmas calm_rules = calm.steady_rules

lemma calm_region_slice [calm_intros]:
  "steady calm (region_slice a0 a1)"
  unfolding region_slice_def
  by (intro calm_rules calm_intros calmI; simp add: calm_simps Let_def)

lemma calm_of_host_regions_1 [calm_intros]:
  "steady calm (py_item a0 a1)" "steady calm (load_word b0 b1 b2 b3)"
  "steady calm (stack_slot_read_host c0 c1)" "steady calm (mem_expand d0 d1 d2)"
  "steady calm (nodedb_lookup e0)" "steady calm (hash_region f0 f1 f2)"
  "steady calm (host_scratch_reserve g0 g1)" "steady calm (host_scratch_truncate h0)"
  "steady calm (stack_slot_write_host i0 i1 i2)" "steady calm (jumpdest_table_alloc j0)"
  unfolding py_item_def load_word_def stack_slot_read_host_def mem_expand_def nodedb_lookup_def
    hash_region_def host_scratch_reserve_def host_scratch_truncate_def stack_slot_write_host_def
    jumpdest_table_alloc_def
  by (intro calm_rules calm_intros calmI; simp add: calm_simps Let_def)+

lemma calm_of_host_regions_2 [calm_intros]:
  "steady calm (code_db_store a0 a1)" "steady calm (code_db_lookup b0)"
  "steady calm (operand_stack_push_empty_frame_host)" "steady calm (code_db_read_delegation d0)"
  "steady calm (output_buffer_store_word e0)" "steady calm (output_buffer_store_input f0)"
  "steady calm (output_buffer_store_memory g0)" "steady calm (output_buffer_store_words h0 h1)"
  "steady calm (strided_zero i0 i1 i2 i3 i4 i5)" "steady calm (copy_to_memory j0 j1 j2 j3 j4)"
  unfolding code_db_store_def code_db_lookup_def operand_stack_push_empty_frame_host_def
    code_db_read_delegation_def output_buffer_store_word_def output_buffer_store_input_def
    output_buffer_store_memory_def output_buffer_store_words_def strided_zero_def
    copy_to_memory_def
  by (intro calm_rules calm_intros calmI; simp add: calm_simps Let_def)+

lemma calm_of_host_regions_3 [calm_intros]:
  "steady calm (ancestor_hash_read a0)" "steady calm (mem_load_word b0)"
  "steady calm (mem_store_word c0 c1)" "steady calm (mem_write_byte d0 d1)"
  "steady calm (mem_move e0 e1 e2)" "steady calm (operand_stack_pop_frame)"
  unfolding ancestor_hash_read_def mem_load_word_def mem_store_word_def mem_write_byte_def
    mem_move_def operand_stack_pop_frame_def
  by (intro calm_rules calm_intros calmI; simp add: calm_simps Let_def)+

lemma calm_of_region_access_1 [calm_intros]:
  "steady calm (as_word a0)" "steady calm (operand_stack_height b0)"
  unfolding as_word_def operand_stack_height_def
  by (intro calm_rules calm_intros calmI; simp add: calm_simps Let_def)+

lemma calm_of_instructions_1 [calm_intros]:
  "steady calm (deep_stack_index a0)" "steady calm (decode_exchange_stack_indices b0)"
  unfolding deep_stack_index_def decode_exchange_stack_indices_def
  by (intro calm_rules calm_intros calmI; simp add: calm_simps Let_def)+

lemma calm_of_rlp_decode_1 [calm_intros]:
  "steady calm (rlp_field_ref a0 a1 a2)" "steady calm (rlp_cursor_expect_end b0)"
  unfolding rlp_field_ref_def rlp_cursor_expect_end_def
  by (intro calm_rules calm_intros calmI; simp add: calm_simps Let_def)+

lemma calm_path_matches_from [calm_intros]:
  "steady calm (path_matches_from key pos seg offset :: ('z kernel_state_scheme, bool) action)"
proof (induction key pos seg offset rule: path_matches_from.induct)
  case (1 key pos seg offset)
  then show ?case
    by (subst path_matches_from.simps, intro calm_rules calm_intros) simp
qed

lemma calm_path_new [calm_intros]:
  "steady calm (path_new a0 a1)"
  unfolding path_new_def
  by (intro calm_rules calm_intros calmI; simp add: calm_simps Let_def)

lemma calm_journal_warm [calm_intros]: "warm_entry e \<Longrightarrow> steady calm (journal_append e)"
  unfolding journal_append_def
  by (rule steady_modify) (auto simp: calm_def calm_simps)

lemma calm_acct_block_cache [calm_intros]: "steady calm (acct_block_cache a0 a1 a2)"
  unfolding acct_block_cache_def by (intro calm_rules calmI; auto simp: calm_simps Let_def rows_extend_new split: option.splits)

lemma calm_storage_block_cache [calm_intros]: "steady calm (storage_block_cache a0 a1 a2 a3)"
  unfolding storage_block_cache_def by (intro calm_rules calmI; auto simp: calm_simps Let_def rows_extend_new split: option.splits)

lemma calm_of_host_world_1 [calm_intros]:
  "steady calm (acct_tx_get a0)" "steady calm (acct_block_get b0)"
  "steady calm (storage_has_writes c0)" "steady calm (account_is_warm d0)"
  "steady calm (storage_is_warm e0 e1)" "steady calm (storage_tx_get f0)"
  "steady calm (storage_block_get g0)" "steady calm (transient_load h0 h1)"
  "steady calm (open_checkpoint_index)" "steady calm (journal_account_row j0)"
  unfolding acct_tx_get_def acct_block_get_def storage_has_writes_def account_is_warm_def
    storage_is_warm_def storage_tx_get_def storage_block_get_def transient_load_def
    open_checkpoint_index_def journal_account_row_def
  by (intro calm_rules calm_intros calmI; simp add: calm_simps Let_def)+

lemma calm_bal_touch [calm_intros]:
  "steady calm (bal_touch a0)"
  unfolding bal_touch_def
  by (intro calm_rules calm_intros calmI; simp add: calm_simps Let_def)

lemma calm_of_kernel_state_1 [calm_intros]:
  "steady calm (set_scratch_arena a0)" "steady calm (blockhash_word_distance b0 b1)"
  unfolding set_scratch_arena_def blockhash_word_distance_def
  by (intro calm_rules calm_intros calmI; simp add: calm_simps Let_def)+

lemma calm_rlp_uint_word_size [calm_intros]:
  "steady calm (rlp_uint_word_size a0)"
  unfolding rlp_uint_word_size_def
  by (intro calm_rules calm_intros calmI; simp add: calm_simps Let_def)

lemma calm_of_code_analysis_1 [calm_intros]:
  "steady calm (validated_code_slice a0)" "steady calm (analyzed_code b0 b1)"
  unfolding validated_code_slice_def analyzed_code_def
  by (intro calm_rules calm_intros calmI; simp add: calm_simps Let_def)+

lemma calm_active_fork [calm_intros]:
  "steady calm (active_fork)"
  unfolding active_fork_def
  by (intro calm_rules calm_intros calmI; simp add: calm_simps Let_def)

lemma calm_of_machine_1 [calm_intros]:
  "steady calm (stack_slot_count a0)" "steady calm (gas_u64 b0)" "steady calm (state_gas_spill c0)"
  "steady calm (code_length d0)" "steady calm (memory_range e0 e1)" "steady calm (gas_constant f0)"
  "steady calm (returndata_remaining g0 g1)" "steady calm (validated_refund_add h0 h1)"
  unfolding stack_slot_count_def gas_u64_def state_gas_spill_def code_length_def memory_range_def
    gas_constant_def returndata_remaining_def validated_refund_add_def
  by (intro calm_rules calm_intros calmI; simp add: calm_simps Let_def)+

lemma calm_of_gas_1 [calm_intros]:
  "steady calm (memory_requested_height a0 a1)" "steady calm (protocol_reads b0)"
  "steady calm (state_gas_spill_add c0 c1)"
  unfolding memory_requested_height_def protocol_reads_def state_gas_spill_add_def
  by (intro calm_rules calm_intros calmI; simp add: calm_simps Let_def)+

lemma calm_of_accelerators_1 [calm_intros]:
  "steady calm (py_inverse a0 a1)" "steady calm (calldata_bytes b0)" "steady calm (store_output c0)"
  unfolding py_inverse_def calldata_bytes_def store_output_def
  by (intro calm_rules calm_intros calmI; simp add: calm_simps Let_def)+

lemma calm_of_interpreter_1 [calm_intros]:
  "steady calm (frame_transition a0)" "steady calm (checked_message b0)"
  unfolding frame_transition_def checked_message_def
  by (intro calm_rules calm_intros calmI; simp add: calm_simps Let_def)+

lemma calm_region_sub_slice [calm_intros]:
  "steady calm (region_sub_slice a0 a1 a2)"
  unfolding region_sub_slice_def
  by (intro calm_rules calm_intros calmI; simp add: calm_simps Let_def)

lemma calm_of_host_regions_4 [calm_intros]:
  "steady calm (region_byte a0 a1 a2)" "steady calm (code_region_load_n_word b0 b1 b2)"
  "steady calm (stateless_input_load_word c0 c1)"
  "steady calm (stateless_input_load_n_word d0 d1 d2)" "steady calm (mem_view e0 e1 e2)"
  "steady calm (scratch_store_at f0 f1)" "steady calm (append_code g0)"
  "steady calm (jumpdest_table_mark h0 h1 h2)" "steady calm (memory_slice_load_word i0 i1)"
  "steady calm (stateless_input_strided_zero j0 j1 j2 j3 j4)"
  unfolding region_byte_def code_region_load_n_word_def stateless_input_load_word_def
    stateless_input_load_n_word_def mem_view_def scratch_store_at_def append_code_def
    jumpdest_table_mark_def memory_slice_load_word_def stateless_input_strided_zero_def
  by (intro calm_rules calm_intros calmI; simp add: calm_simps Let_def)+

lemma calm_of_host_regions_5 [calm_intros]:
  "steady calm (memory_slice_strided_zero a0 a1 a2 a3 a4)"
  "steady calm (output_slice_copy_to_memory b0 b1 b2 b3)"
  "steady calm (stateless_input_copy_to_memory c0 c1 c2 c3)"
  "steady calm (memory_slice_copy_to_memory d0 d1 d2 d3)"
  "steady calm (code_region_copy_to_memory e0 e1 e2 e3)"
  "steady calm (jumpdest_ref_contains f0 f1 f2)"
  unfolding memory_slice_strided_zero_def output_slice_copy_to_memory_def
    stateless_input_copy_to_memory_def memory_slice_copy_to_memory_def
    code_region_copy_to_memory_def jumpdest_ref_contains_def
  by (intro calm_rules calm_intros calmI; simp add: calm_simps Let_def)+

lemma calm_of_region_access_2 [calm_intros]:
  "steady calm (stack_slot_read a0 a1)" "steady calm (stack_top_retreat b0 b1)"
  "steady calm (region_slice_suffix c0 c1)" "steady calm (stack_top_advance d0 d1)"
  "steady calm (stack_slot_write e0 e1 e2)" "steady calm (operand_stack_push_empty_frame)"
  "steady calm (output_buffer_slice g0)"
  unfolding stack_slot_read_def stack_top_retreat_def region_slice_suffix_def
    stack_top_advance_def stack_slot_write_def operand_stack_push_empty_frame_def
    output_buffer_slice_def
  by (intro calm_rules calm_intros calmI; simp add: calm_simps Let_def)+

lemma calm_decode_single_stack_index [calm_intros]:
  "steady calm (decode_single_stack_index a0)"
  unfolding decode_single_stack_index_def
  by (intro calm_rules calm_intros calmI; simp add: calm_simps Let_def)

lemma calm_word_of_nat_byte_count [calm_intros]:
  "steady calm (word_of_nat_byte_count a0)"
  unfolding word_of_nat_byte_count_def
  by (intro calm_rules calm_intros calmI; simp add: calm_simps Let_def)

lemma calm_of_trie_lookup_2 [calm_intros]:
  "steady calm (path_empty)" "steady calm (path_matches b0 b1 b2)"
  "steady calm (resolve_witness_ref c0)"
  unfolding path_empty_def path_matches_def resolve_witness_ref_def
  by (intro calm_rules calm_intros calmI; simp add: calm_simps Let_def)+

lemma calm_account_mark_warm [calm_intros]: "steady calm (account_mark_warm a0)"
  unfolding account_mark_warm_def by (intro calm_rules calm_intros calmI; simp add: calm_simps Let_def warm_entry_def)

lemma calm_storage_mark_warm [calm_intros]: "steady calm (storage_mark_warm a0 a1)"
  unfolding storage_mark_warm_def by (intro calm_rules calm_intros calmI; simp add: calm_simps Let_def warm_entry_def)

lemma calm_of_host_bal_2 [calm_intros]:
  "steady calm (bal_account_touch a0)" "steady calm (bal_storage_read b0 b1)"
  unfolding bal_account_touch_def bal_storage_read_def
  by (intro calm_rules calm_intros calmI; simp add: calm_simps Let_def)+

lemma calm_scratch_push [calm_intros]: "(\<And>c. steady calm (st c)) \<Longrightarrow> steady calm (scratch_push st)"
  unfolding scratch_push_def by (intro calm_rules calm_intros; assumption)

lemma calm_k_env [calm_intros]: "steady calm (k_env a0)"
  by (cases a0; simp only: k_env_def env_field.case; intro calm_rules calm_intros)

lemma calm_of_kernel_state_2 [calm_intros]:
  "steady calm (scratch_reserve a0)" "steady calm (k_blockhash b0)"
  unfolding scratch_reserve_def k_blockhash_def
  by (intro calm_rules calm_intros calmI; simp add: calm_simps Let_def)+

lemma calm_code_db_resolve [calm_intros]:
  "steady calm (code_db_resolve a0)"
  unfolding code_db_resolve_def
  by (intro calm_rules calm_intros calmI; simp add: calm_simps Let_def)

lemma calm_of_kernel_2 [calm_intros]:
  "steady calm (precompile_active_at_fork a0)" "steady calm (k_slot_is_warm b0 b1)"
  "steady calm (k_tload c0 c1)"
  unfolding precompile_active_at_fork_def k_slot_is_warm_def k_tload_def
  by (intro calm_rules calm_intros calmI; simp add: calm_simps Let_def)+

lemma calm_of_machine_2 [calm_intros]:
  "steady calm (stack_height a0)" "steady calm (exceptional_state b0 b1 b2 b3)"
  "steady calm (memory_high_water c0)" "steady calm (expand_memory d0 d1 d2)"
  "steady calm (conserved_gas_add e0 e1)" "steady calm (memory_absolute f0 f1)"
  "steady calm (returndata_size g0)" "steady calm (frame_code_len h0)"
  "steady calm (record_refund i0 i1)" "steady calm (memory_parent_base j0 j1)"
  unfolding stack_height_def exceptional_state_def memory_high_water_def expand_memory_def
    conserved_gas_add_def memory_absolute_def returndata_size_def frame_code_len_def
    record_refund_def memory_parent_base_def
  by (intro calm_rules calm_intros calmI; simp add: calm_simps Let_def)+

lemma calm_of_gas_2 [calm_intros]:
  "steady calm (gas_sub a0 a1)" "steady calm (gas_charge b0)" "steady calm (memory_access c0 c1)"
  "steady calm (create_access_cost)" "steady calm (initcode_size_allowed e0)"
  "steady calm (charge_state_gas f0 f1 f2 f3)" "steady calm (account_cost g0)"
  "steady calm (call_value_cost)" "steady calm (exp_gas i0)" "steady calm (external_code_read_cost)"
  unfolding gas_sub_def gas_charge_def memory_access_def create_access_cost_def
    initcode_size_allowed_def charge_state_gas_def account_cost_def call_value_cost_def
    exp_gas_def external_code_read_cost_def
  by (intro calm_rules calm_intros calmI; simp add: calm_simps Let_def)+

lemma calm_of_gas_3 [calm_intros]:
  "steady calm (sload_cost a0)" "steady calm (amsterdam_storage_access_cost b0)"
  "steady calm (sstore_costs_of c0 c1 c2 c3)" "steady calm (sstore_clear_refund)"
  "steady calm (return_child_state_gas e0 e1 e2 e3)" "steady calm (deployed_code_size_allowed f0)"
  "steady calm (code_deployment_state_cost g0)"
  unfolding sload_cost_def amsterdam_storage_access_cost_def sstore_costs_of_def
    sstore_clear_refund_def return_child_state_gas_def deployed_code_size_allowed_def
    code_deployment_state_cost_def
  by (intro calm_rules calm_intros calmI; simp add: calm_simps Let_def)+

lemma calm_of_accelerators_2 [calm_intros]:
  "steady calm (secp256k1_add a0 a1)" "steady calm (accelerated b0 b1 b2)"
  "steady calm (accelerator_bn254_pairing c0 c1)"
  "steady calm (accelerator_kzg_point_evaluation d0 d1)"
  "steady calm (accelerator_bls_pairing e0 e1)" "steady calm (accelerator_p256_verify f0 f1)"
  unfolding secp256k1_add_def accelerated_def accelerator_bn254_pairing_def
    accelerator_kzg_point_evaluation_def accelerator_bls_pairing_def accelerator_p256_verify_def
  by (intro calm_rules calm_intros calmI; simp add: calm_simps Let_def)+

lemma calm_calldata_sha256 [calm_intros]:
  "steady calm (calldata_sha256 a0 a1)"
  unfolding calldata_sha256_def
  by (intro calm_rules calm_intros calmI; simp add: calm_simps Let_def)

lemma calm_of_host_regions_6 [calm_intros]:
  "steady calm (code_region_byte_at a0 a1)" "steady calm (stateless_input_byte_at b0 b1)"
  "steady calm (host_scratch_store_byte c0 c1)" "steady calm (host_scratch_store_address d0 d1)"
  "steady calm (host_scratch_store_b256 e0 e1 e2)" "steady calm (host_scratch_store_word f0 f1 f2)"
  "steady calm (code_region_from_memory g0)" "steady calm (memory_slice_byte_at h0 h1)"
  "steady calm (output_slice_byte_at i0 i1)" "steady calm (code_region_from_output j0)"
  unfolding code_region_byte_at_def stateless_input_byte_at_def host_scratch_store_byte_def
    host_scratch_store_address_def host_scratch_store_b256_def host_scratch_store_word_def
    code_region_from_memory_def memory_slice_byte_at_def output_slice_byte_at_def
    code_region_from_output_def
  by (intro calm_rules calm_intros calmI; simp add: calm_simps Let_def)+

lemma calm_calldata_sub_slice [calm_intros]: "steady calm (calldata_sub_slice a0 a1 a2)"
  by (cases a0; simp only: calldata_sub_slice.simps; intro calm_rules calm_intros; simp)

lemma calm_of_region_access_3 [calm_intros]:
  "steady calm (code_slice_load_n a0 a1 a2)" "steady calm (stateless_input_slice_load b0 b1)"
  "steady calm (stateless_input_slice_load_n c0 c1 c2)" "steady calm (memory_slice_load d0 d1)"
  "steady calm (output_buffer_word e0)" "steady calm (freeze_input_output f0)"
  "steady calm (freeze_memory_output g0)" "steady calm (output_buffer_words h0 h1)"
  "steady calm (stateless_input_slice_strided_zero i0 i1 i2 i3 i4)"
  "steady calm (memory_slice_strided_zero_value j0 j1 j2 j3 j4)"
  unfolding code_slice_load_n_def stateless_input_slice_load_def stateless_input_slice_load_n_def
    memory_slice_load_def output_buffer_word_def freeze_input_output_def freeze_memory_output_def
    output_buffer_words_def stateless_input_slice_strided_zero_def
    memory_slice_strided_zero_value_def
  by (intro calm_rules calm_intros calmI; simp add: calm_simps Let_def)+

lemma calm_of_region_access_4 [calm_intros]:
  "steady calm (output_slice_copy a0 a1 a2 a3)"
  "steady calm (stateless_input_slice_copy b0 b1 b2 b3)"
  "steady calm (memory_slice_copy c0 c1 c2 c3)" "steady calm (code_slice_copy d0 d1 d2 d3)"
  unfolding output_slice_copy_def stateless_input_slice_copy_def memory_slice_copy_def
    code_slice_copy_def
  by (intro calm_rules calm_intros calmI; simp add: calm_simps Let_def)+

lemma calm_word_of_source_byte_count [calm_intros]:
  "steady calm (word_of_source_byte_count a0)"
  unfolding word_of_source_byte_count_def
  by (intro calm_rules calm_intros calmI; simp add: calm_simps Let_def)

lemma calm_of_rlp_decode_3 [calm_intros]:
  "steady calm (rlp_item_content a0)" "steady calm (rlp_cursor_advance b0 b1)"
  "steady calm (rlp_length_word c0)"
  unfolding rlp_item_content_def rlp_cursor_advance_def rlp_length_word_def
  by (intro calm_rules calm_intros calmI; simp add: calm_simps Let_def)+

lemma calm_of_kernel_state_3 [calm_intros]:
  "steady calm (scratch_finish a0)" "steady calm (scratch_rewind b0)"
  unfolding scratch_finish_def scratch_rewind_def
  by (intro calm_rules calm_intros calmI; simp add: calm_simps Let_def)+

lemma calm_rlp_encoder_begin [calm_intros]:
  "steady calm (rlp_encoder_begin a0)"
  unfolding rlp_encoder_begin_def
  by (intro calm_rules calm_intros calmI; simp add: calm_simps Let_def)

lemma calm_of_kernel_3 [calm_intros]:
  "steady calm (precompile_id_if_active a0)" "steady calm (k_slot_mark_warm b0 b1)"
  unfolding precompile_id_if_active_def k_slot_mark_warm_def
  by (intro calm_rules calm_intros calmI; simp add: calm_simps Let_def)+

lemma calm_of_machine_3 [calm_intros]:
  "steady calm (validate_stack a0 a1 a2)" "steady calm (read_stack_word b0)"
  "steady calm (active_memory_slice c0 c1 c2 c3)" "steady calm (write_stack_word d0 d1)"
  "steady calm (mem_load e0 e1)" "steady calm (mem_store f0 f1 f2)"
  "steady calm (mem_set_byte g0 g1 g2)" "steady calm (frame_jumpdest_valid h0 h1)"
  "steady calm (mem_mcopy i0 i1 i2 i3)" "steady calm (stack_set j0 j1 j2)"
  unfolding validate_stack_def read_stack_word_def active_memory_slice_def write_stack_word_def
    mem_load_def mem_store_def mem_set_byte_def frame_jumpdest_valid_def mem_mcopy_def
    stack_set_def
  by (intro calm_rules calm_intros calmI; simp add: calm_simps Let_def)+

lemma calm_of_gas_4 [calm_intros]:
  "steady calm (memory_expansion_gas_cost a0 a1 a2)" "steady calm (word_scaled_gas_cost b0 b1 b2)"
  "steady calm (refund_gas c0 c1)" "steady calm (credit_state_gas_refund d0 d1 d2 d3)"
  "steady calm (call_gas_cap_word e0 e1)" "steady calm (sstore_sentry_cost f0)"
  "steady calm (amsterdam_sstore_costs g0 g1 g2 g3)" "steady calm (legacy_sstore_costs h0 h1 h2 h3)"
  "steady calm (code_deployment_execution_cost i0 i1)"
  unfolding memory_expansion_gas_cost_def word_scaled_gas_cost_def refund_gas_def
    credit_state_gas_refund_def call_gas_cap_word_def sstore_sentry_cost_def
    amsterdam_sstore_costs_def legacy_sstore_costs_def code_deployment_execution_cost_def
  by (intro calm_rules calm_intros calmI; simp add: calm_simps Let_def)+

lemma calm_of_gas_precompiles_1 [calm_intros]:
  "steady calm (fixed_precompile_gas a0 a1)" "steady calm (linear_gas b0 b1 b2 b3)"
  "steady calm (modexp_price c0 c1 c2 c3 c4 c5)" "steady calm (bls_msm_gas d0 d1 d2 d3 d4)"
  unfolding fixed_precompile_gas_def linear_gas_def modexp_price_def bls_msm_gas_def
  by (intro calm_rules calm_intros calmI; simp add: calm_simps Let_def)+

lemma calm_secp256k1_mul_loop [calm_intros]:
  "steady calm (secp256k1_mul_loop scalar point addend :: ('z kernel_state_scheme, secp_point) action)"
proof (induction scalar point addend rule: secp256k1_mul_loop.induct)
  case (1 scalar point addend)
  then show ?case
    by (subst secp256k1_mul_loop.simps, intro calm_rules calm_intros) simp
qed

lemma calm_of_accelerators_3 [calm_intros]:
  "steady calm (accelerator_ripemd160 a0 a1)" "steady calm (accelerator_modexp b0 b1 b2 b3 b4)"
  "steady calm (accelerator_bn254_add c0 c1)" "steady calm (accelerator_bn254_mul d0 d1)"
  "steady calm (accelerator_blake2f e0 e1 e2 e3)" "steady calm (accelerator_bls_g1_add f0 f1)"
  "steady calm (bls_msm g0 g1 g2 g3 g4 g5 g6)" "steady calm (accelerator_bls_g2_add h0 h1)"
  "steady calm (accelerator_bls_map_fp_to_g1 i0 i1)"
  "steady calm (accelerator_bls_map_fp2_to_g2 j0 j1)"
  unfolding accelerator_ripemd160_def accelerator_modexp_def accelerator_bn254_add_def
    accelerator_bn254_mul_def accelerator_blake2f_def accelerator_bls_g1_add_def bls_msm_def
    accelerator_bls_g2_add_def accelerator_bls_map_fp_to_g1_def accelerator_bls_map_fp2_to_g2_def
  by (intro calm_rules calm_intros calmI; simp add: calm_simps Let_def)+

lemma calm_accelerator_result [calm_intros]:
  "steady calm (accelerator_result a0 a1)"
  unfolding accelerator_result_def
  by (intro calm_rules calm_intros calmI; simp add: calm_simps Let_def)

lemma calm_of_interpreter_2 [calm_intros]:
  "steady calm (exceptional_transition a0 a1)" "steady calm (split_create_gas b0)"
  "steady calm (exceptional_settlement c0 c1)"
  unfolding exceptional_transition_def split_create_gas_def exceptional_settlement_def
  by (intro calm_rules calm_intros calmI; simp add: calm_simps Let_def)+

lemma calm_calldata_slice_load [calm_intros]: "steady calm (calldata_slice_load a0 a1)"
  by (cases a0; simp only: calldata_slice_load.simps; intro calm_rules calm_intros; simp)

lemma calm_freeze_calldata_output [calm_intros]: "steady calm (freeze_calldata_output a0)"
  by (cases a0; simp only: freeze_calldata_output.simps; intro calm_rules calm_intros; simp)

lemma calm_slice_strided_zero [calm_intros]: "steady calm (slice_strided_zero a0 a1 a2 a3 a4)"
  by (cases a0; simp only: slice_strided_zero.simps; intro calm_rules calm_intros; simp)

lemma calm_of_region_access_5 [calm_intros]:
  "steady calm (code_slice_byte a0 a1)" "steady calm (stateless_input_slice_byte b0 b1)"
  "steady calm (memory_slice_byte c0 c1)"
  "steady calm (stateless_input_slice_load_word_offset d0 d1)"
  "steady calm (memory_slice_load_word_offset e0 e1)"
  "steady calm (stateless_input_slice_copy_word_offset f0 f1 f2 f3)"
  "steady calm (memory_slice_copy_word_offset g0 g1 g2 g3)"
  "steady calm (code_slice_copy_word_offset h0 h1 h2 h3)" "steady calm (output_byte i0 i1)"
  unfolding code_slice_byte_def stateless_input_slice_byte_def memory_slice_byte_def
    stateless_input_slice_load_word_offset_def memory_slice_load_word_offset_def
    stateless_input_slice_copy_word_offset_def memory_slice_copy_word_offset_def
    code_slice_copy_word_offset_def output_byte_def
  by (intro calm_rules calm_intros calmI; simp add: calm_simps Let_def)+

lemma calm_read_push [calm_intros]:
  "steady calm (read_push a0 a1 a2)"
  unfolding read_push_def
  by (intro calm_rules calm_intros calmI; simp add: calm_simps Let_def)

lemma calm_of_rlp_decode_4 [calm_intros]:
  "steady calm (rlp_decode_list a0)" "steady calm (rlp_decode_word b0)"
  unfolding rlp_decode_list_def rlp_decode_word_def
  by (intro calm_rules calm_intros calmI; simp add: calm_simps Let_def)+

lemma calm_of_kernel_state_4 [calm_intros]:
  "steady calm (scratch_push_byte a0)" "steady calm (scratch_push_address b0)"
  "steady calm (scratch_push_b256 c0 c1)" "steady calm (scratch_push_word_be d0 d1)"
  "steady calm (k_blobhash e0)"
  unfolding scratch_push_byte_def scratch_push_address_def scratch_push_b256_def
    scratch_push_word_be_def k_blobhash_def
  by (intro calm_rules calm_intros calmI; simp add: calm_simps Let_def)+

lemma calm_of_rlp_encode_3 [calm_intros]:
  "steady calm (rlp_length_prefix_len a0)" "steady calm (rlp_encoder_finish b0)"
  "steady calm (rlp_encoder_rewind c0)"
  unfolding rlp_length_prefix_len_def rlp_encoder_finish_def rlp_encoder_rewind_def
  by (intro calm_rules calm_intros calmI; simp add: calm_simps Let_def)+

lemma calm_of_code_analysis_3 [calm_intros]:
  "steady calm (code_db_intern_memory a0)" "steady calm (code_db_intern_output b0)"
  unfolding code_db_intern_memory_def code_db_intern_output_def
  by (intro calm_rules calm_intros calmI; simp add: calm_simps Let_def)+

lemma calm_precompile_id_for_address [calm_intros]:
  "steady calm (precompile_id_for_address a0)"
  unfolding precompile_id_for_address_def
  by (intro calm_rules calm_intros calmI; simp add: calm_simps Let_def)

lemma calm_of_machine_4 [calm_intros]:
  "steady calm (mem_keccak a0 a1 a2 a3)" "steady calm (returndata_copy_prefix b0 b1 b2)"
  "steady calm (returndata_copy c0 c1 c2 c3)" "steady calm (mem_store_byte d0 d1 d2)"
  unfolding mem_keccak_def returndata_copy_prefix_def returndata_copy_def mem_store_byte_def
  by (intro calm_rules calm_intros calmI; simp add: calm_simps Let_def)+

lemma calm_of_gas_5 [calm_intros]:
  "steady calm (fixed_plus_variable a0 a1 a2 a3)" "steady calm (sstore_costs b0 b1 b2 b3)"
  unfolding fixed_plus_variable_def sstore_costs_def
  by (intro calm_rules calm_intros calmI; simp add: calm_simps Let_def)+

lemma calm_of_accelerators_4 [calm_intros]:
  "steady calm (secp256k1_mul a0 a1)" "steady calm (accelerator_bls_g1_msm b0 b1)"
  "steady calm (accelerator_bls_g2_msm c0 c1)"
  unfolding secp256k1_mul_def accelerator_bls_g1_msm_def accelerator_bls_g2_msm_def
  by (intro calm_rules calm_intros calmI; simp add: calm_simps Let_def)+

lemma calm_padded_operation [calm_intros]:
  "steady calm a0 \<Longrightarrow> steady calm a1 \<Longrightarrow> steady calm (padded_operation a0 a1 a2)"
  unfolding padded_operation_def by (intro calm_rules calm_intros; assumption?)

lemma calm_of_precompiles_3 [calm_intros]:
  "steady calm (word_result a0)" "steady calm (run_ripemd160 b0 b1)"
  unfolding word_result_def run_ripemd160_def
  by (intro calm_rules calm_intros calmI; simp add: calm_simps Let_def)+

lemma calm_of_execute_1 [calm_intros]:
  "steady calm (guard_stack a0 a1 a2)" "steady calm (push_word b0 b1)"
  "steady calm (do_jump c0 c1 c2 c3)"
  unfolding guard_stack_def push_word_def do_jump_def
  by (intro calm_rules calm_intros calmI; simp add: calm_simps Let_def)+

lemma calm_settle_outcome [calm_intros]: "steady calm (settle_outcome a0)"
  by (cases "ft_status a0"; simp only: settle_outcome_def frame_status.case; intro calm_rules calm_intros)

lemma calm_of_interpreter_3 [calm_intros]:
  "steady calm (frame_refund_gas a0 a1)" "steady calm (credit_new_account b0 b1)"
  "steady calm (resume_parent c0 c1 c2)"
  unfolding frame_refund_gas_def credit_new_account_def resume_parent_def
  by (intro calm_rules calm_intros calmI; simp add: calm_simps Let_def)+

lemma calm_calldata_slice_byte [calm_intros]: "steady calm (calldata_slice_byte a0 a1)"
  by (cases a0; simp only: calldata_slice_byte.simps; intro calm_rules calm_intros; simp)

lemma calm_calldata_slice_load_word_offset [calm_intros]: "steady calm (calldata_slice_load_word_offset a0 a1)"
  by (cases a0; simp only: calldata_slice_load_word_offset.simps; intro calm_rules calm_intros; simp)

lemma calm_calldata_slice_copy_word_offset [calm_intros]: "steady calm (calldata_slice_copy_word_offset a0 a1 a2 a3)"
  by (cases a0; simp only: calldata_slice_copy_word_offset.simps; intro calm_rules calm_intros; simp)

lemma calm_of_decode_2 [calm_intros]:
  "steady calm (decode_push_immediate a0 a1 a2)" "steady calm (decode_deep_immediate b0 b1 b2)"
  unfolding decode_push_immediate_def decode_deep_immediate_def
  by (intro calm_rules calm_intros calmI; simp add: calm_simps Let_def)+

lemma calm_rlp_uint64_width [calm_intros]: "steady calm (rlp_uint64_width a0 a1)"
  by (induction a1) (simp_all only: rlp_uint64_width.simps, intro calm_rules calm_intros, (intro calm_rules calm_intros; assumption))

lemma calm_rlp_ref_framing_canonical [calm_intros]:
  "steady calm (rlp_ref_framing_canonical a0)"
  unfolding rlp_ref_framing_canonical_def
  by (intro calm_rules calm_intros calmI; simp add: calm_simps Let_def)

lemma calm_of_trie_lookup_3 [calm_intros]:
  "steady calm (hex_prefix_decode_ref a0)" "steady calm (input_field_to_ref b0)"
  unfolding hex_prefix_decode_ref_def input_field_to_ref_def
  by (intro calm_rules calm_intros calmI; simp add: calm_simps Let_def)+

lemma calm_of_rlp_encode_4 [calm_intros]:
  "steady calm (create2_address a0 a1 a2 a3)" "steady calm (rlp_list_size b0)"
  "steady calm (rlp_write_list_prefix c0)" "steady calm (rlp_write_string_prefix d0 d1)"
  unfolding create2_address_def rlp_list_size_def rlp_write_list_prefix_def
    rlp_write_string_prefix_def
  by (intro calm_rules calm_intros calmI; simp add: calm_simps Let_def)+

lemma calm_analyze_code_from [calm_intros]:
  "steady calm (analyze_code_from code fork table position :: ('z kernel_state_scheme, unit) action)"
proof (induction code fork table position rule: analyze_code_from.induct)
  case (1 code fork table position)
  then show ?case
    by (subst analyze_code_from.simps, intro calm_rules calm_intros; simp)
qed

lemma calm_of_kernel_5 [calm_intros]:
  "steady calm (k_account_mark_warm a0)" "steady calm (k_account_is_warm b0)"
  unfolding k_account_mark_warm_def k_account_is_warm_def
  by (intro calm_rules calm_intros calmI; simp add: calm_simps Let_def)+

lemma calm_memory_code_slice [calm_intros]:
  "steady calm (memory_code_slice a0 a1 a2 a3)"
  unfolding memory_code_slice_def
  by (intro calm_rules calm_intros calmI; simp add: calm_simps Let_def)

lemma calm_of_gas_6 [calm_intros]:
  "steady calm (memory_word_gas_cost a0 a1 a2 a3)" "steady calm (log_gas_cost b0 b1 b2)"
  unfolding memory_word_gas_cost_def log_gas_cost_def
  by (intro calm_rules calm_intros calmI; simp add: calm_simps Let_def)+

lemma calm_secp256k1_recover_address [calm_intros]:
  "steady calm (secp256k1_recover_address a0 a1 a2 a3 a4)"
  unfolding secp256k1_recover_address_def
  by (intro calm_rules calm_intros calmI; simp add: calm_simps Let_def)

lemma calm_of_precompiles_4 [calm_intros]:
  "steady calm (run_sha256 a0 a1)" "steady calm (copied_result b0)"
  "steady calm (boolean_result c0)" "steady calm (kzg_versioned_hash_matches d0 d1)"
  "steady calm (bls_g1_padding e0 e1 e2 e3)" "steady calm (bls_g2_padding f0 f1 f2 f3)"
  "steady calm (run_bls_map_fp_to_g1 g0 g1)" "steady calm (run_bls_map_fp2_to_g2 h0 h1)"
  "steady calm (run_p256_verify i0 i1)"
  unfolding run_sha256_def copied_result_def boolean_result_def kzg_versioned_hash_matches_def
    bls_g1_padding_def bls_g2_padding_def run_bls_map_fp_to_g1_def run_bls_map_fp2_to_g2_def
    run_p256_verify_def
  by (intro calm_rules calm_intros calmI; simp add: calm_simps Let_def)+

lemma calm_settle_deployment [calm_intros]: "steady calm (settle_deployment a0 a1 a2)"
  unfolding settle_deployment_def Let_def by (intro calm_rules calm_intros)

lemma calm_push_transition [calm_intros]:
  "steady calm (push_transition a0 a1)"
  unfolding push_transition_def
  by (intro calm_rules calm_intros calmI; simp add: calm_simps Let_def)

lemma calm_fetch [calm_intros]:
  "steady calm (fetch a0 a1 a2)"
  unfolding fetch_def
  by (intro calm_rules calm_intros calmI; simp add: calm_simps Let_def)

lemma calm_of_rlp_decode_6 [calm_intros]:
  "steady calm (rlp_ref_hdr a0)" "steady calm (rlp_ref_bytes_canonical b0)"
  unfolding rlp_ref_hdr_def rlp_ref_bytes_canonical_def
  by (intro calm_rules calm_intros calmI; simp add: calm_simps Let_def)+

lemma calm_of_rlp_encode_5 [calm_intros]:
  "steady calm (k_create2_addr a0 a1 a2 a3)" "steady calm (rlp_write_addr b0)"
  "steady calm (rlp_write_uint_word c0)"
  unfolding k_create2_addr_def rlp_write_addr_def rlp_write_uint_word_def
  by (intro calm_rules calm_intros calmI; simp add: calm_simps Let_def)+

lemma calm_analyze_code [calm_intros]:
  "steady calm (analyze_code a0 a1)"
  unfolding analyze_code_def
  by (intro calm_rules calm_intros calmI; simp add: calm_simps Let_def)

lemma calm_of_gas_7 [calm_intros]:
  "steady calm (keccak_gas_cost a0 a1)" "steady calm (copy_gas_cost b0 b1)"
  unfolding keccak_gas_cost_def copy_gas_cost_def
  by (intro calm_rules calm_intros calmI; simp add: calm_simps Let_def)+

lemma calm_pc_word_loop [calm_intros]: "steady calm (pc_word_loop a0 a1 a2 a3 a4)"
  by (induction a4 arbitrary: a3)
    (simp_all only: pc_word_loop.simps, (intro calm_rules calm_intros; assumption)+)

lemma calm_host_ecrecover [calm_intros]:
  "steady calm (host_ecrecover a0 a1 a2 a3 a4)"
  unfolding host_ecrecover_def
  by (intro calm_rules calm_intros calmI; simp add: calm_simps Let_def)

lemma calm_of_precompiles_5 [calm_intros]:
  "steady calm (pairing_result a0)" "steady calm (run_kzg_point_evaluation b0 b1)"
  "steady calm (run_bls_g1_add c0 c1)" "steady calm (run_bls_g1_msm d0 d1)"
  "steady calm (run_bls_g2_add e0 e1)" "steady calm (run_bls_g2_msm f0 f1)"
  unfolding pairing_result_def run_kzg_point_evaluation_def run_bls_g1_add_def run_bls_g1_msm_def
    run_bls_g2_add_def run_bls_g2_msm_def
  by (intro calm_rules calm_intros calmI; simp add: calm_simps Let_def)+

lemma calm_of_rlp_decode_7 [calm_intros]:
  "steady calm (rlp_single_ref a0)" "steady calm (rlp_decode_item b0)"
  "steady calm (rlp_item_uint_canonical c0)"
  unfolding rlp_single_ref_def rlp_decode_item_def rlp_item_uint_canonical_def
  by (intro calm_rules calm_intros calmI; simp add: calm_simps Let_def)+

lemma calm_create_address [calm_intros]:
  "steady calm (create_address a0 a1 a2)"
  unfolding create_address_def
  by (intro calm_rules calm_intros calmI; simp add: calm_simps Let_def)

lemma calm_code_db_insert [calm_intros]:
  "steady calm (code_db_insert a0 a1 a2)"
  unfolding code_db_insert_def
  by (intro calm_rules calm_intros calmI; simp add: calm_simps Let_def)

lemma calm_pc_word [calm_intros]:
  "steady calm (pc_word a0 a1 a2)"
  unfolding pc_word_def
  by (intro calm_rules calm_intros calmI; simp add: calm_simps Let_def)

lemma calm_of_precompiles_6 [calm_intros]:
  "steady calm (ecrecover_addr a0 a1 a2 a3 a4)" "steady calm (run_bls_pairing b0 b1)"
  unfolding ecrecover_addr_def run_bls_pairing_def
  by (intro calm_rules calm_intros calmI; simp add: calm_simps Let_def)+

lemma calm_of_rlp_decode_8 [calm_intros]:
  "steady calm (rlp_node_cursor a0)" "steady calm (rlp_decode_uint64 b0)"
  "steady calm (rlp_decode_u256 c0)"
  unfolding rlp_node_cursor_def rlp_decode_uint64_def rlp_decode_u256_def
  by (intro calm_rules calm_intros calmI; simp add: calm_simps Let_def)+

lemma calm_decode_branch [calm_intros]:
  "steady calm (decode_input_branch_node cursor index children :: ('z kernel_state_scheme, input_trie_node) action)"
proof (induction cursor index children rule: decode_input_branch_node.induct)
  case (1 cursor index children)
  then show ?case
    by (subst decode_input_branch_node.simps, intro calm_rules calm_intros) simp
qed

lemma calm_k_create_addr [calm_intros]:
  "steady calm (k_create_addr a0 a1 a2)"
  unfolding k_create_addr_def
  by (intro calm_rules calm_intros calmI; simp add: calm_simps Let_def)

lemma calm_of_gas_precompiles_3 [calm_intros]:
  "steady calm (pc_word_after_declared_field a0 a1 a2 a3)" "steady calm (pc_blake2_rounds b0)"
  unfolding pc_word_after_declared_field_def pc_blake2_rounds_def
  by (intro calm_rules calm_intros calmI; simp add: calm_simps Let_def)+

lemma calm_of_precompiles_7 [calm_intros]:
  "steady calm (run_ecrecover a0 a1)" "steady calm (run_modexp b0 b1)"
  unfolding run_ecrecover_def run_modexp_def
  by (intro calm_rules calm_intros calmI; simp add: calm_simps Let_def)+

lemma calm_of_trie_lookup_4 [calm_intros]:
  "steady calm (decode_input_trie_node a0)" "steady calm (decode_state_account b0)"
  unfolding decode_input_trie_node_def decode_state_account_def
  by (intro calm_rules calm_intros calmI; simp add: calm_simps Let_def)+

lemma calm_modexp_iterations [calm_intros]:
  "steady calm (modexp_iterations a0 a1 a2 a3 a4)"
  unfolding modexp_iterations_def
  by (intro calm_rules calm_intros calmI; simp add: calm_simps Let_def)

lemma calm_run_blake2f [calm_intros]:
  "steady calm (run_blake2f a0 a1)"
  unfolding run_blake2f_def
  by (intro calm_rules calm_intros calmI; simp add: calm_simps Let_def)

lemma calm_new_contract_address [calm_intros]:
  "steady calm (new_contract_address a0 a1 a2 a3 a4 a5)"
  unfolding new_contract_address_def
  by (intro calm_rules calm_intros calmI; simp add: calm_simps Let_def)

lemma calm_trie_walk [calm_intros]:
  "steady calm (trie_walk node key pos :: ('z kernel_state_scheme, region_slice) action)"
proof (induction node key pos rule: trie_walk.induct)
  case (1 node key pos)
  show ?case
  proof (subst trie_walk.simps, intro steady_if calm.steady_ret calm.steady_bind calm_intros)
    fix decoded
    assume start: "slice_len node \<noteq> 0"
    show "steady calm ((case decoded of
          InputLeafNode path value \<Rightarrow>
            bind (path_matches key pos path) (\<lambda>matches.
            if \<not> matches then ret EMPTY_SLICE
            else if pos + path_len path = path_len key then ret value
            else ret EMPTY_SLICE)
        | InputExtensionNode path childref \<Rightarrow>
            (let extension_len = path_len path in
             if extension_len = 0 then ret EMPTY_SLICE
             else
               bind (path_matches key pos path) (\<lambda>matches.
               if \<not> matches then ret EMPTY_SLICE
               else
                 (let next_pos = pos + extension_len in
                  if next_pos \<le> 64 then
                    bind (resolve_witness_ref childref) (\<lambda>child. trie_walk child key next_pos)
                  else ret EMPTY_SLICE)))
        | InputBranchNode children value \<Rightarrow>
            (if pos = path_len key then ret value
             else if pos < path_len key then
               bind (resolve_witness_ref (branch_refs_get children (path_nibble key pos)))
                 (\<lambda>child. trie_walk child key (pos + 1))
             else ret EMPTY_SLICE)) :: ('z kernel_state_scheme, region_slice) action)"
    proof (cases decoded)
      case (InputLeafNode path v)
      then show ?thesis by (auto intro!: calm_rules calm_intros)
    next
      case (InputExtensionNode path childref)
      have "steady calm (trie_walk child key (pos + path_len path) :: ('z kernel_state_scheme, region_slice) action)"
        if "path_len path \<noteq> 0" "pos + path_len path \<le> 64" for child :: region_slice
        using "1.IH"(1)[OF start refl that(1) _ refl that(2), of True] by simp
      then show ?thesis
        unfolding Let_def using InputExtensionNode by (auto intro!: calm_rules calm_intros)
    next
      case (InputBranchNode children v)
      have "steady calm (trie_walk child key (pos + 1) :: ('z kernel_state_scheme, region_slice) action)"
        if "pos < path_len key" for child :: region_slice
        using "1.IH"(2)[OF start _ that] that by simp
      then show ?thesis
        using InputBranchNode by (auto intro!: calm_rules calm_intros)
    qed
  qed
qed

lemma calm_modexp_gas [calm_intros]:
  "steady calm (modexp_gas a0 a1)"
  unfolding modexp_gas_def
  by (intro calm_rules calm_intros calmI; simp add: calm_simps Let_def)

lemma calm_run_precompile_slice [calm_intros]: "steady calm (run_precompile_slice a0 a1 a2)"
  by (cases a1; simp only: run_precompile_slice_def precompile_id.case Let_def; intro calm_rules calm_intros)

lemma calm_trie_lookup [calm_intros]:
  "steady calm (trie_lookup a0 a1)"
  unfolding trie_lookup_def
  by (intro calm_rules calm_intros calmI; simp add: calm_simps Let_def)

lemma calm_precompile_gas [calm_intros]: "steady calm (precompile_gas a0 a1 a2)"
  by (cases a0; simp only: precompile_gas_def precompile_id.case Let_def; intro calm_rules calm_intros)

lemma calm_of_trie_lookup_6 [calm_intros]:
  "steady calm (stateless_account_by_key a0 a1)" "steady calm (stateless_storage_by_key b0 b1)"
  unfolding stateless_account_by_key_def stateless_storage_by_key_def
  by (intro calm_rules calm_intros calmI; simp add: calm_simps Let_def)+

lemma calm_k_aload [calm_intros]:
  "steady calm (k_aload a0 a1)"
  unfolding k_aload_def
  by (intro calm_rules calm_intros calmI; simp add: calm_simps Let_def)

lemma calm_of_kernel_7 [calm_intros]:
  "steady calm (k_get_nonce a0 a1)" "steady calm (k_get_balance b0 b1)"
  "steady calm (k_account_is_empty c0 c1)" "steady calm (k_account_occupied d0 d1)"
  "steady calm (k_code_key e0 e1)" "steady calm (k_get_codehash f0 f1)"
  "steady calm (k_sload g0 g1 g2)" "steady calm (k_was_created h0 h1)"
  "steady calm (k_is_selfdestructed i0 i1)"
  unfolding k_get_nonce_def k_get_balance_def k_account_is_empty_def k_account_occupied_def
    k_code_key_def k_get_codehash_def k_sload_def k_was_created_def k_is_selfdestructed_def
  by (intro calm_rules calm_intros calmI; simp add: calm_simps Let_def)+

lemma calm_of_kernel_8 [calm_intros]:
  "steady calm (k_deleg_target a0 a1)" "steady calm (k_get_code_size b0 b1)"
  "steady calm (k_code_copy c0 c1 c2 c3 c4)"
  unfolding k_deleg_target_def k_get_code_size_def k_code_copy_def
  by (intro calm_rules calm_intros calmI; simp add: calm_simps Let_def)+

lemma calm_executable_code [calm_intros]:
  "steady calm (executable_code a0 a1 a2 a3)"
  unfolding executable_code_def
  by (intro calm_rules calm_intros calmI; simp add: calm_simps Let_def)

end
