(* ===== verification/Steady_Handlers.thy ===== *)
theory Steady_Handlers
  imports Steady_Host
begin

text \<open>
  The combinators that the opcode handlers are built from pass on whatever relation their
  continuations keep, as long as it allows calm operations: the locale \<open>tolerant\<close>. It is interpreted
  for \<open>calm\<close> itself and for \<open>registers_kept\<close>; the handlers that only read the world are calm.
\<close>

locale tolerant = action_invariant R
  for R :: "'z kernel_state_scheme \<Rightarrow> 'z kernel_state_scheme \<Rightarrow> bool" +
  assumes calm_related: "calm s t \<Longrightarrow> R s t"
begin

lemma tolerated: "steady calm m \<Longrightarrow> steady R m"
  by (erule steady_mono) (rule calm_related)

lemmas tolerated_intros = calm_intros [THEN tolerated]

lemma shapes_1:
  "(\<And>x0 x1. steady R (a1 x0 x1)) \<Longrightarrow> steady R (pop_word a0 a1)"
  "steady R b1 \<Longrightarrow> (\<And>x0. steady R (b2 x0)) \<Longrightarrow> steady R (frame_pay_charge b0 b1 b2)"
  "(\<And>x0. steady R (c2 x0)) \<Longrightarrow> steady R (frame_pay c0 c1 c2)"
  "(\<And>x0. steady R (d2 x0)) \<Longrightarrow> steady R (charge_new_account d0 d1 d2)"
  "steady R e1 \<Longrightarrow> steady R (after_stack e0 e1)"
  "steady R f4 \<Longrightarrow> steady R (stack_guarded f0 f1 f2 f3 f4)"
  "(\<And>x0. steady R (g3 x0)) \<Longrightarrow> steady R (pay g0 g1 g2 g3)"
  "steady R h1 \<Longrightarrow> steady R (after_halt h0 h1)"
  "steady R i1 \<Longrightarrow> (\<And>x0. steady R (i3 x0)) \<Longrightarrow> steady R (pay_charge i0 i1 i2 i3)"
  "(\<And>x0 x1. steady R (j4 x0 x1)) \<Longrightarrow> steady R (access_memory j0 j1 j2 j3 j4)"
  "(\<And>x0. steady R (k3 x0)) \<Longrightarrow> steady R (pay_sub k0 k1 k2 k3)"
  "steady R l1 \<Longrightarrow> steady R (after_destruct l0 l1)"
  "steady R m1 \<Longrightarrow> steady R (after_jump m0 m1)"
  "steady R n1 \<Longrightarrow> steady R (after_gas n0 n1)"
  "steady R p1 \<Longrightarrow> steady R (after_revert p0 p1)"
  unfolding pop_word_def frame_pay_charge_def frame_pay_def charge_new_account_def
    after_stack_def stack_guarded_def pay_def after_halt_def pay_charge_def access_memory_def
    pay_sub_def after_destruct_def after_jump_def after_gas_def after_revert_def Let_def
  by (intro steady_rules tolerated_intros; assumption?)+

lemma shapes_2:
  "(\<And>x0 x1. steady R (a4 x0 x1)) \<Longrightarrow> steady R (charge_create a0 a1 a2 a3 a4)"
  "(\<And>x0 x1. steady R (b2 x0 x1)) \<Longrightarrow> steady R (pop_call_operands b0 b1 b2)"
  "(\<And>x0 x1 x2 x3 x4. steady R (c4 x0 x1 x2 x3 x4)) \<Longrightarrow> steady R (charge_call c0 c1 c2 c3 c4)"
  "steady R d1 \<Longrightarrow> steady R (after_memory d0 d1)"
  "(\<And>x0 x1 x2. steady R (e6 x0 x1 x2)) \<Longrightarrow> steady R (pay_memory e0 e1 e2 e3 e4 e5 e6)"
  "steady R f1 \<Longrightarrow> steady R (push_op f0 f1 f2 f3)"
  "(\<And>x0. steady R (g1 x0)) \<Longrightarrow> steady R (replace_op g0 g1 g2 g3)"
  "steady R h1 \<Longrightarrow> steady R (after_state h0 h1)"
  unfolding charge_create_def pop_call_operands_def charge_call_def after_memory_def
    pay_memory_def push_op_def replace_op_def after_state_def Let_def
  by (intro steady_rules tolerated_intros shapes_1; assumption?)+

lemma shapes_3:
  "(\<And>x0 x1 x2. steady R (a0 x0 x1 x2)) \<Longrightarrow> steady R (copy_op a0 a1 a2 a3 a4)"
  unfolding copy_op_def Let_def
  by (intro steady_rules tolerated_intros shapes_1 shapes_2; assumption?)+

lemmas shapes = shapes_1 shapes_2 shapes_3

end

interpretation calm: tolerant calm
  by unfold_locales

interpretation inner: tolerant registers_kept
  by unfold_locales (simp add: calm_def)

lemma calm_execute_jumpdest [calm_intros]:
  "steady calm (execute_jumpdest a0)"
  unfolding execute_jumpdest_def Let_def
  by (intro calm_rules calm.shapes calm_intros; simp?)

lemma calm_pop_log_topics [calm_intros]:
  "steady calm (pop_log_topics a0 a1)"
  unfolding pop_log_topics_def Let_def
  by (intro calm_rules calm.shapes calm_intros; simp?)

lemma calm_of_execute_3 [calm_intros]:
  "steady calm (binary_op a0 a1 a2 a3)" "steady calm (ternary_op b0 b1 b2 b3)"
  "steady calm (execute_exp c0 c1)" "steady calm (unary_op d0 d1 d2 d3)"
  "steady calm (execute_pop e0 e1)" "steady calm (execute_mload f0 f1 f2 f3)"
  "steady calm (execute_mstore g0 g1 g2 g3)" "steady calm (execute_mstore8 h0 h1 h2 h3)"
  "steady calm (execute_jump i0 i1 i2 i3)" "steady calm (execute_jumpi j0 j1 j2 j3)"
  unfolding binary_op_def ternary_op_def execute_exp_def unary_op_def execute_pop_def
    execute_mload_def execute_mstore_def execute_mstore8_def execute_jump_def execute_jumpi_def Let_def
  by (intro calm_rules calm.shapes calm_intros; simp?)+

lemma calm_of_execute_4 [calm_intros]:
  "steady calm (execute_pc a0 a1 a2)" "steady calm (execute_msize b0 b1 b2)"
  "steady calm (execute_gas c0 c1)" "steady calm (execute_push d0 d1 d2 d3)"
  "steady calm (execute_dup e0 e1 e2)" "steady calm (execute_swap f0 f1 f2)"
  "steady calm (execute_exchange g0 g1 g2)" "steady calm (execute_return h0 h1 h2 h3)"
  "steady calm (execute_revert i0 i1 i2 i3 i4 i5 i6)"
  unfolding execute_pc_def execute_msize_def execute_gas_def execute_push_def execute_dup_def
    execute_swap_def execute_exchange_def execute_return_def execute_revert_def Let_def
  by (intro calm_rules calm.shapes calm_intros; simp?)+

lemma calm_of_execute_5 [calm_intros]:
  "steady calm (execute_add a0 a1)" "steady calm (execute_mul b0 b1)"
  "steady calm (execute_sub c0 c1)" "steady calm (execute_div d0 d1)"
  "steady calm (execute_sdiv e0 e1)" "steady calm (execute_mod f0 f1)"
  "steady calm (execute_smod g0 g1)" "steady calm (execute_addmod h0 h1)"
  "steady calm (execute_mulmod i0 i1)" "steady calm (execute_signextend j0 j1)"
  unfolding execute_add_def execute_mul_def execute_sub_def execute_div_def execute_sdiv_def
    execute_mod_def execute_smod_def execute_addmod_def execute_mulmod_def execute_signextend_def Let_def
  by (intro calm_rules calm.shapes calm_intros; simp?)+

lemma calm_of_execute_6 [calm_intros]:
  "steady calm (execute_lt a0 a1)" "steady calm (execute_gt b0 b1)"
  "steady calm (execute_slt c0 c1)" "steady calm (execute_sgt d0 d1)"
  "steady calm (execute_eq e0 e1)" "steady calm (execute_iszero f0 f1)"
  "steady calm (execute_and g0 g1)" "steady calm (execute_or h0 h1)"
  "steady calm (execute_xor i0 i1)" "steady calm (execute_not j0 j1)"
  unfolding execute_lt_def execute_gt_def execute_slt_def execute_sgt_def execute_eq_def
    execute_iszero_def execute_and_def execute_or_def execute_xor_def execute_not_def Let_def
  by (intro calm_rules calm.shapes calm_intros; simp?)+

lemma calm_of_execute_7 [calm_intros]:
  "steady calm (execute_byte a0 a1)" "steady calm (execute_shl b0 b1)"
  "steady calm (execute_shr c0 c1)" "steady calm (execute_sar d0 d1)"
  "steady calm (execute_clz e0 e1)" "steady calm (execute_keccak256 f0 f1 f2 f3 f4)"
  "steady calm (execute_address g0 g1 g2)" "steady calm (execute_origin h0 h1)"
  "steady calm (execute_caller i0 i1 i2)" "steady calm (execute_callvalue j0 j1 j2)"
  unfolding execute_byte_def execute_shl_def execute_shr_def execute_sar_def execute_clz_def
    execute_keccak256_def execute_address_def execute_origin_def execute_caller_def
    execute_callvalue_def Let_def
  by (intro calm_rules calm.shapes calm_intros; simp?)+

lemma calm_of_execute_8 [calm_intros]:
  "steady calm (execute_calldataload a0 a1 a2)" "steady calm (execute_calldatasize b0 b1 b2)"
  "steady calm (execute_codesize c0 c1 c2)" "steady calm (execute_gasprice d0 d1)"
  "steady calm (execute_returndatasize e0 e1 e2)"
  "steady calm (execute_returndatacopy f0 f1 f2 f3 f4)" "steady calm (execute_blockhash g0 g1)"
  "steady calm (execute_coinbase h0 h1)" "steady calm (execute_timestamp i0 i1)"
  "steady calm (execute_number j0 j1)"
  unfolding execute_calldataload_def execute_calldatasize_def execute_codesize_def
    execute_gasprice_def execute_returndatasize_def execute_returndatacopy_def
    execute_blockhash_def execute_coinbase_def execute_timestamp_def execute_number_def Let_def
  by (intro calm_rules calm.shapes calm_intros; simp?)+

lemma calm_of_execute_9 [calm_intros]:
  "steady calm (execute_slotnum a0 a1)" "steady calm (execute_prevrandao b0 b1)"
  "steady calm (execute_gaslimit c0 c1)" "steady calm (execute_chainid d0 d1)"
  "steady calm (execute_basefee e0 e1)" "steady calm (execute_blobhash f0 f1)"
  "steady calm (execute_blobbasefee g0 g1 g2)" "steady calm (execute_tload h0 h1 h2)"
  "steady calm (execute_mcopy i0 i1 i2 i3)" "steady calm (execute_dupn j0 j1 j2)"
  unfolding execute_slotnum_def execute_prevrandao_def execute_gaslimit_def execute_chainid_def
    execute_basefee_def execute_blobhash_def execute_blobbasefee_def execute_tload_def
    execute_mcopy_def execute_dupn_def Let_def
  by (intro calm_rules calm.shapes calm_intros; simp?)+

lemma calm_execute_swapn [calm_intros]:
  "steady calm (execute_swapn a0 a1 a2)"
  unfolding execute_swapn_def Let_def
  by (intro calm_rules calm.shapes calm_intros; simp?)

lemma calm_of_execute_11 [calm_intros]:
  "steady calm (execute_calldatacopy a0 a1 a2 a3 a4)"
  "steady calm (execute_codecopy b0 b1 b2 b3 b4)"
  unfolding execute_calldatacopy_def execute_codecopy_def Let_def
  by (intro calm_rules calm.shapes calm_intros; simp?)+

lemma calm_of_execute_12 [calm_intros]:
  "steady calm (execute_balance a0 a1 a2)" "steady calm (execute_extcodehash b0 b1 b2)"
  "steady calm (execute_selfbalance c0 c1 c2 c3)" "steady calm (execute_sload d0 d1 d2 d3)"
  unfolding execute_balance_def execute_extcodehash_def execute_selfbalance_def execute_sload_def Let_def
  by (intro calm_rules calm.shapes calm_intros; simp?)+

lemma calm_of_execute_13 [calm_intros]:
  "steady calm (execute_extcodesize a0 a1 a2)" "steady calm (execute_extcodecopy b0 b1 b2 b3 b4)"
  unfolding execute_extcodesize_def execute_extcodecopy_def Let_def
  by (intro calm_rules calm.shapes calm_intros; simp?)+

end
