(* ===== verification/Steady_Writers.thy ===== *)
theory Steady_Writers
  imports Steady_Handlers
begin

text \<open>
  The operations that write to the world, to the journal or to the logs, and the handlers and
  continuations that use them, keep the registers of the machine: no operation of the kernel
  touches the suspended frames, the request, the public output, the header or the profile.
\<close>

named_theorems inner_intros "operations that keep the registers"

lemmas inner_calm = calm_intros [THEN inner.tolerated]

lemmas inner_rules = inner.steady_rules inner.shapes

lemma inner_of_host_world_1 [inner_intros]:
  "steady registers_kept (journal_append a0)" "steady registers_kept (set_current b0 b1 b2)"
  "steady registers_kept (update_current_log c0)" "steady registers_kept (set_storage_row d0 d1)"
  "steady registers_kept (transient_store e0 e1 e2)"
  unfolding journal_append_def set_current_def update_current_log_def set_storage_row_def
    transient_store_def Let_def
  by (intro inner_rules inner_calm inner_intros; simp add: calm_simps)+

lemma inner_of_host_world_2 [inner_intros]:
  "steady registers_kept (storage_tx_clear a0)" "steady registers_kept (acct_tx_update b0 b1)"
  "steady registers_kept (account_tx_required c0)" "steady registers_kept (set_info d0 d1 d2)"
  "steady registers_kept (state_journal_checkpoint)" "steady registers_kept (log_begin f0)"
  "steady registers_kept (log_add_topic g0)" "steady registers_kept (append_log_data h0)"
  "steady registers_kept (storage_tx_update_host i0)" "steady registers_kept (state_journal_commit)"
  unfolding storage_tx_clear_def acct_tx_update_def account_tx_required_def set_info_def
    state_journal_checkpoint_def log_begin_def log_add_topic_def append_log_data_def
    storage_tx_update_host_def state_journal_commit_def Let_def
  by (intro inner_rules inner_calm inner_intros; simp add: calm_simps)+

lemma inner_k_tstore [inner_intros]:
  "steady registers_kept (k_tstore a0 a1 a2)"
  unfolding k_tstore_def Let_def
  by (intro inner_rules inner_calm inner_intros; simp add: calm_simps)

lemma inner_journal_restore [inner_intros]: "steady registers_kept (journal_restore a0)"
  by (cases a0; simp only: journal_restore.simps; intro inner_rules inner_calm inner_intros; simp add: calm_simps)

lemma inner_of_host_world_3 [inner_intros]:
  "steady registers_kept (acct_tx_set_balance a0 a1)"
  "steady registers_kept (acct_tx_set_nonce b0 b1)"
  "steady registers_kept (acct_tx_set_code_hash c0 c1)"
  "steady registers_kept (log_add_data_memory d0)" "steady registers_kept (log_add_data_word e0)"
  unfolding acct_tx_set_balance_def acct_tx_set_nonce_def acct_tx_set_code_hash_def
    log_add_data_memory_def log_add_data_word_def Let_def
  by (intro inner_rules inner_calm inner_intros; simp add: calm_simps)+

lemma inner_k_log_topics [inner_intros]: "steady registers_kept (k_log_topics a0)"
  by (cases a0; simp only: k_log_topics_def log_topics.case log_payload.case; intro inner_rules inner_calm inner_intros)

lemma inner_of_kernel_2 [inner_intros]:
  "steady registers_kept (store_account a0 a1)" "steady registers_kept (k_sstore b0 b1 b2)"
  unfolding store_account_def k_sstore_def Let_def
  by (intro inner_rules inner_calm inner_intros; simp add: calm_simps)+

lemma inner_of_kernel_lifecycle_1 [inner_intros]:
  "steady registers_kept (k_journal_checkpoint)" "steady registers_kept (k_journal_commit)"
  unfolding k_journal_checkpoint_def k_journal_commit_def Let_def
  by (intro inner_rules inner_calm inner_intros; simp add: calm_simps)+

lemma inner_journal_restore_all [inner_intros]: "steady registers_kept (journal_restore_all a0)"
  by (induction a0) (simp_all only: journal_restore_all.simps, (intro inner_rules inner_intros; assumption)+)

lemma inner_k_log_data [inner_intros]: "steady registers_kept (k_log_data a0)"
  by (cases a0; simp only: k_log_data_def log_topics.case log_payload.case; intro inner_rules inner_calm inner_intros)

lemma inner_store_account_info [inner_intros]:
  "steady registers_kept (store_account_info a0 a1 a2)"
  unfolding store_account_info_def Let_def
  by (intro inner_rules inner_calm inner_intros; simp add: calm_simps)

lemma inner_suspend_frame [inner_intros]:
  "steady registers_kept (suspend_frame a0 a1 a2 a3 a4 a5 a6 a7 a8 a9 a10 a11)"
  unfolding suspend_frame_def Let_def
  by (intro inner_rules inner_calm inner_intros; simp add: calm_simps)

lemma inner_state_journal_revert [inner_intros]:
  "steady registers_kept (state_journal_revert)"
  unfolding state_journal_revert_def Let_def
  by (intro inner_rules inner_calm inner_intros; simp add: calm_simps)

lemma inner_k_log [inner_intros]:
  "steady registers_kept (k_log a0 a1 a2)"
  unfolding k_log_def Let_def
  by (intro inner_rules inner_calm inner_intros; simp add: calm_simps)

lemma inner_k_emit_transfer_log [inner_intros]:
  "steady registers_kept (k_emit_transfer_log a0 a1 a2)"
  unfolding k_emit_transfer_log_def Let_def
  by (intro inner_rules inner_calm inner_intros; simp add: calm_simps)

lemma inner_k_journal_revert [inner_intros]:
  "steady registers_kept (k_journal_revert)"
  unfolding k_journal_revert_def Let_def
  by (intro inner_rules inner_calm inner_intros; simp add: calm_simps)

lemma inner_of_execute_1 [inner_intros]:
  "steady registers_kept (execute_tstore a0 a1 a2 a3)"
  "steady registers_kept (execute_log b0 b1 b2 b3 b4 b5 b6)"
  unfolding execute_tstore_def execute_log_def Let_def
  by (intro inner_rules inner_calm inner_intros; simp add: calm_simps)+

lemma inner_resume_success [inner_intros]: "steady registers_kept a2 \<Longrightarrow> steady registers_kept (resume_success a0 a1 a2 a3)"
  unfolding resume_success_def Let_def by (intro inner_rules inner_calm inner_intros; assumption?)

lemma inner_resume_failure [inner_intros]:
  "steady registers_kept (resume_failure a0 a1)"
  unfolding resume_failure_def Let_def
  by (intro inner_rules inner_calm inner_intros; simp add: calm_simps)

lemma inner_resume_call [inner_intros]:
  "steady registers_kept (resume_call a0 a1 a2)"
  unfolding resume_call_def Let_def
  by (intro inner_rules inner_calm inner_intros; simp add: calm_simps)

lemma inner_of_kernel_6 [inner_intros]:
  "steady registers_kept (k_bump_nonce a0 a1)" "steady registers_kept (k_mark_created b0 b1)"
  "steady registers_kept (k_clear_storage c0 c1)" "steady registers_kept (k_transfer d0 d1 d2 d3)"
  "steady registers_kept (k_selfdestruct e0 e1)" "steady registers_kept (k_zero_balance f0 f1)"
  "steady registers_kept (k_deploy_code g0 g1 g2)"
  unfolding k_bump_nonce_def k_mark_created_def k_clear_storage_def k_transfer_def
    k_selfdestruct_def k_zero_balance_def k_deploy_code_def Let_def
  by (intro inner_rules inner_calm inner_intros; simp add: calm_simps)+

lemma inner_of_execute_2 [inner_intros]:
  "steady registers_kept (execute_sstore a0 a1 a2 a3 a4 a5 a6 a7 a8)"
  "steady registers_kept (amsterdam_selfdestruct b0 b1 b2 b3 b4 b5 b6 b7)"
  "steady registers_kept (legacy_selfdestruct c0 c1 c2 c3 c4 c5 c6 c7 c8)"
  unfolding execute_sstore_def amsterdam_selfdestruct_def legacy_selfdestruct_def Let_def
  by (intro inner_rules inner_calm inner_intros; simp add: calm_simps)+

lemma inner_of_interpreter_3 [inner_intros]:
  "steady registers_kept (call_precompile a0 a1 a2 a3 a4 a5 a6 a7 a8)"
  "steady registers_kept (resume_create b0 b1 b2 b3)"
  unfolding call_precompile_def resume_create_def Let_def
  by (intro inner_rules inner_calm inner_intros; simp add: calm_simps)+

lemma inner_execute_selfdestruct [inner_intros]:
  "steady registers_kept (execute_selfdestruct a0 a1 a2 a3 a4 a5 a6 a7 a8)"
  unfolding execute_selfdestruct_def Let_def
  by (intro inner_rules inner_calm inner_intros; simp add: calm_simps)

lemma inner_resume_frame [inner_intros]: "steady registers_kept (resume_frame a0 a1 a2 a3)"
  by (cases a1; simp only: resume_frame_def frame_continuation.case; intro inner_rules inner_intros)

lemma inner_execute_instruction [inner_intros]: "steady registers_kept (execute_instruction a0 a1 a2 a3 a4 a5)"
  by (cases a5; simp only: execute_instruction_def instruction.case Let_def;
      intro inner_rules inner_calm inner_intros)

end
