(* ===== verification/Gas_Flow.thy ===== *)
theory Gas_Flow
  imports Steady_Writers
begin

text \<open>
  How gas flows through the opcode handlers. \<open>yields P m\<close>: whatever \<open>m\<close> returns satisfies \<open>P\<close>.
  A handler \<open>spends\<close> gas: it never returns more than it was given, and strictly less when the
  frame goes on running; gas that spilled into the state reservoir counts with the regular gas,
  because a later credit turns it back.
\<close>

section \<open>What a computation returns\<close>

definition yields :: "('a \<Rightarrow> bool) \<Rightarrow> ('s, 'a) action \<Rightarrow> bool" where
  "yields P m \<longleftrightarrow> (\<forall>s x t. m s = Inr (x, t) \<longrightarrow> P x)"

lemma yieldsD: "yields P m \<Longrightarrow> m s = Inr (x, t) \<Longrightarrow> P x"
  by (auto simp: yields_def)

lemma yields_mono: "yields Q m \<Longrightarrow> (\<And>x. Q x \<Longrightarrow> P x) \<Longrightarrow> yields P m"
  by (auto simp: yields_def)

lemma yields_any: "(\<And>x. P x) \<Longrightarrow> yields P m"
  by (simp add: yields_def)

lemma yields_ret: "P x \<Longrightarrow> yields P (ret x)"
  by (simp add: yields_def)

lemma yields_raise: "yields P (raise e)"
  by (simp add: yields_def)

lemma yields_fatal: "yields P (fatal_error r)"
  by (simp add: fatal_error_def yields_raise)

lemma yields_bind: "(\<And>x. yields P (f x)) \<Longrightarrow> yields P (bind m f)"
  by (auto simp: yields_def elim!: bind_returnsE)

lemma yields_then: "yields Q m \<Longrightarrow> (\<And>x. Q x \<Longrightarrow> yields P (f x)) \<Longrightarrow> yields P (bind m f)"
  by (fastforce simp: yields_def elim!: bind_returnsE)

lemma yields_if: "(b \<Longrightarrow> yields P m) \<Longrightarrow> (\<not> b \<Longrightarrow> yields P n) \<Longrightarrow> yields P (if b then m else n)"
  by simp

lemma yields_let: "(\<And>x. x = v \<Longrightarrow> yields P (f x)) \<Longrightarrow> yields P (Let v f)"
  by simp

lemma yields_case_prod: "(\<And>x y. p = (x, y) \<Longrightarrow> yields P (f x y)) \<Longrightarrow> yields P (case_prod f p)"
  by (cases p) simp

lemmas yields_rules = yields_ret yields_raise yields_fatal yields_if yields_let yields_case_prod

lemma yields_ranged: "yields (\<lambda>x. x = v \<and> a \<le> v \<and> v \<le> b) (ranged a b v)"
  by (simp add: ranged_def yields_def)

lemma yields_gas_u64: "yields (\<lambda>x. x = v \<and> 0 \<le> v \<and> v \<le> 2 ^ 64 - 1) (gas_u64 v)"
  unfolding gas_u64_def by (rule yields_ranged)

lemma yields_gas_constant: "yields (\<lambda>x. x = v \<and> 0 \<le> v \<and> v \<le> 45000) (gas_constant v)"
  unfolding gas_constant_def by (rule yields_ranged)

lemma yields_gas_sub: "yields (\<lambda>x. 0 \<le> x \<and> (b \<le> a \<longrightarrow> x = a - b) \<and> (a < b \<longrightarrow> x = 0)) (gas_sub a b)"
  unfolding gas_sub_def by (intro yields_rules yields_mono [OF yields_gas_u64]) auto

section \<open>Paying\<close>

text \<open>A charge that can be afforded lies between the given bound and the gas there is.\<close>

definition charges :: "int \<Rightarrow> int \<Rightarrow> ('s, gas_charge) action \<Rightarrow> bool" where
  "charges least gas m \<longleftrightarrow>
     yields (\<lambda>c. affordable c \<longrightarrow> least \<le> gc_cost c \<and> gc_cost c \<le> gas) m"

lemma charges_gas_charge:
  "least \<le> 0 \<or> least \<le> cost \<Longrightarrow> cost \<le> gas \<Longrightarrow> charges least gas (gas_charge cost)"
  unfolding charges_def gas_charge_def
  by (rule yields_then [OF yields_gas_u64], rule yields_ret) auto

lemma charges_unaffordable: "charges least gas (ret GAS_CHARGE_UNAFFORDABLE)"
  by (simp add: charges_def yields_def GAS_CHARGE_UNAFFORDABLE_def)

lemma charges_if: "(b \<Longrightarrow> charges l g m) \<Longrightarrow> (\<not> b \<Longrightarrow> charges l g n) \<Longrightarrow> charges l g (if b then m else n)"
  by simp

lemma charges_let: "(\<And>x. x = v \<Longrightarrow> charges l g (f x)) \<Longrightarrow> charges l g (Let v f)"
  by simp

lemma charges_bind: "(\<And>x. charges l g (f x)) \<Longrightarrow> charges l g (bind m f)"
  unfolding charges_def by (rule yields_bind)

lemmas charges_rules = charges_gas_charge charges_unaffordable charges_if charges_let charges_bind

lemma charges_memory: "0 \<le> gas \<Longrightarrow> charges 0 gas (memory_expansion_gas_cost mem requested gas)"
  unfolding memory_expansion_gas_cost_def by (intro charges_rules; simp)

lemma charges_word_scaled: "0 \<le> gas \<Longrightarrow> charges 0 gas (word_scaled_gas_cost per_unit units gas)"
  unfolding word_scaled_gas_cost_def by (intro charges_rules; simp)

lemma charges_fixed_plus_variable:
  assumes "0 \<le> gas"
  shows "charges fixed gas (fixed_plus_variable fixed per_unit units gas)"
proof -
  have "yields (\<lambda>c. affordable c \<longrightarrow> 0 \<le> gc_cost c) (word_scaled_gas_cost per_unit units g)"
    for g :: int
    unfolding word_scaled_gas_cost_def gas_charge_def Let_def
    by (intro yields_rules yields_then [OF yields_gas_u64]) (auto simp: GAS_CHARGE_UNAFFORDABLE_def)
  note variable = this
  show ?thesis
    unfolding charges_def fixed_plus_variable_def Let_def gas_charge_def
    by (intro yields_rules yields_then [OF variable] yields_then [OF yields_gas_u64])
      (auto simp: GAS_CHARGE_UNAFFORDABLE_def)
qed

lemma charges_sizes:
  assumes "0 \<le> gas"
  shows "charges G_keccak gas (keccak_gas_cost len gas)" "charges 0 gas (copy_gas_cost len gas)"
    "charges (G_log + G_logtopic * n) gas (log_gas_cost n len gas)"
  unfolding keccak_gas_cost_def copy_gas_cost_def log_gas_cost_def memory_word_gas_cost_def Let_def
  by (rule charges_fixed_plus_variable [OF assms])+

text \<open>Paying, in the three ways the handlers do.\<close>

lemma yields_pay:
  "(gas < cost \<Longrightarrow> P out) \<Longrightarrow> (cost \<le> gas \<Longrightarrow> yields P (body (gas - cost))) \<Longrightarrow> yields P (pay gas cost out body)"
  unfolding pay_def by (intro yields_rules) auto

lemma yields_pay_sub:
  "(gas < cost \<Longrightarrow> P out) \<Longrightarrow> (cost \<le> gas \<Longrightarrow> yields P (body (gas - cost)))
    \<Longrightarrow> yields P (pay_sub gas cost out body)"
  unfolding pay_sub_def by (intro yields_rules yields_then [OF yields_gas_sub]) auto

lemma yields_pay_charge:
  assumes "charges least gas charge" and "P out"
    and "\<And>g. 0 \<le> g \<Longrightarrow> g \<le> gas - least \<Longrightarrow> yields P (body g)"
  shows "yields P (pay_charge gas charge out body)"
  unfolding pay_charge_def
  by (rule yields_then [OF assms(1) [unfolded charges_def]])
    (auto intro!: yields_rules yields_then [OF yields_gas_sub] assms(2,3))

lemma yields_guarded:
  "(\<And>k. P (failed (Failed k))) \<Longrightarrow> yields P body \<Longrightarrow> yields P (stack_guarded sp inputs outputs failed body)"
  unfolding stack_guarded_def
  by (intro yields_bind yields_if yields_ret) (auto elim: is_failed.elims)

lemma yields_pop_word: "(\<And>w sp. yields P (body w sp)) \<Longrightarrow> yields P (pop_word sp body)"
  unfolding pop_word_def by (intro yields_bind)

lemma yields_access_memory:
  "(\<And>mem extent. yields P (body mem extent)) \<Longrightarrow> yields P (access_memory base mem off len body)"
  unfolding access_memory_def by (intro yields_bind)

lemma yields_pay_memory:
  assumes "0 \<le> gas" and "P out"
    and "\<And>g mem extent. 0 \<le> g \<Longrightarrow> g \<le> gas \<Longrightarrow> yields P (body g mem extent)"
  shows "yields P (pay_memory gas base mem off len out body)"
  unfolding pay_memory_def
  by (intro yields_bind yields_pay_charge [OF charges_memory [OF assms(1)]] yields_access_memory)
    (auto intro: assms)

section \<open>Handlers\<close>

definition spends :: "int \<Rightarrow> int \<Rightarrow> bool \<Rightarrow> bool" where
  "spends gas left continues \<longleftrightarrow> 0 \<le> left \<and> left \<le> gas \<and> (continues \<longrightarrow> left < gas)"

abbreviation spends_stack :: "int \<Rightarrow> ('s, stack_result) action \<Rightarrow> bool" where
  "spends_stack gas \<equiv> yields (\<lambda>(left, sp, outcome). spends gas left (outcome = Continue))"

abbreviation spends_memory :: "int \<Rightarrow> ('s, memory_result) action \<Rightarrow> bool" where
  "spends_memory gas \<equiv> yields (\<lambda>(left, sp, mem, outcome). spends gas left (outcome = Continue))"

lemmas handler_rules = yields_guarded yields_pop_word yields_pay yields_pay_sub yields_rules

lemma spends_shapes:
  assumes "0 \<le> gas" and "0 < cost"
  shows "spends_stack gas (binary_op cost f gas sp)" "spends_stack gas (ternary_op cost g gas sp)"
    "spends_stack gas (unary_op cost h gas sp)" "spends_stack gas (push_op cost source gas sp)"
    "spends_stack gas (replace_op cost reader gas sp)"
  unfolding binary_op_def ternary_op_def unary_op_def push_op_def replace_op_def
  by (intro handler_rules yields_bind; use assms in \<open>simp add: spends_def\<close>)+

lemmas prices = G_base_def G_verylow_def G_low_def G_mid_def G_high_def G_jumpdest_def G_warm_access_def

lemma word_byte_length_nonneg: "0 \<le> word_byte_length v"
proof -
  have "0 \<le> word_bit_length v"
    by (simp add: word_bit_length_def u64_bit_length_def bit_length_nonneg Let_def)
  then show ?thesis by (simp add: word_byte_length_def Let_def pos_imp_zdiv_nonneg_iff)
qed

lemma yields_exp_gas: "yields (\<lambda>cost. 0 < cost) (exp_gas e)"
  unfolding exp_gas_def Let_def
  by (rule yields_mono [OF yields_gas_u64])
    (use word_byte_length_nonneg [of e] in \<open>simp add: G_expbyte_def G_exp_def\<close>)

lemma yields_access_costs:
  "yields (\<lambda>cost. 0 < cost) (account_cost warm)" "yields (\<lambda>cost. 0 < cost) (sload_cost warm)"
  "yields (\<lambda>cost. 0 \<le> cost) external_code_read_cost"
  "yields (\<lambda>cost. G_callstipend \<le> cost) call_value_cost" "yields (\<lambda>cost. 0 < cost) create_access_cost"
  unfolding account_cost_def sload_cost_def external_code_read_cost_def call_value_cost_def
    create_access_cost_def
  by (intro yields_rules yields_bind yields_mono [OF yields_gas_constant]; simp add: gas_constants)+


lemma spends_arithmetic:
  assumes "0 \<le> gas"
  shows "spends_stack gas (execute_add gas sp)" "spends_stack gas (execute_mul gas sp)"
    "spends_stack gas (execute_sub gas sp)" "spends_stack gas (execute_div gas sp)"
    "spends_stack gas (execute_sdiv gas sp)" "spends_stack gas (execute_mod gas sp)"
    "spends_stack gas (execute_smod gas sp)" "spends_stack gas (execute_addmod gas sp)"
    "spends_stack gas (execute_mulmod gas sp)" "spends_stack gas (execute_signextend gas sp)"
    "spends_stack gas (execute_lt gas sp)" "spends_stack gas (execute_gt gas sp)"
    "spends_stack gas (execute_slt gas sp)" "spends_stack gas (execute_sgt gas sp)"
    "spends_stack gas (execute_eq gas sp)" "spends_stack gas (execute_iszero gas sp)"
    "spends_stack gas (execute_and gas sp)" "spends_stack gas (execute_or gas sp)"
    "spends_stack gas (execute_xor gas sp)" "spends_stack gas (execute_not gas sp)"
    "spends_stack gas (execute_byte gas sp)" "spends_stack gas (execute_shl gas sp)"
    "spends_stack gas (execute_shr gas sp)" "spends_stack gas (execute_sar gas sp)"
    "spends_stack gas (execute_clz gas sp)"
  unfolding execute_add_def execute_mul_def execute_sub_def execute_div_def execute_sdiv_def
    execute_mod_def execute_smod_def execute_addmod_def execute_mulmod_def execute_signextend_def
    execute_lt_def execute_gt_def execute_slt_def execute_sgt_def execute_eq_def
    execute_iszero_def execute_and_def execute_or_def execute_xor_def execute_not_def
    execute_byte_def execute_shl_def execute_shr_def execute_sar_def execute_clz_def
  by (intro spends_shapes assms; simp add: prices)+

lemma spends_environment:
  assumes "0 \<le> gas"
  shows "spends_stack gas (execute_address a gas sp)" "spends_stack gas (execute_origin gas sp)"
    "spends_stack gas (execute_caller a gas sp)" "spends_stack gas (execute_callvalue v gas sp)"
    "spends_stack gas (execute_gasprice gas sp)" "spends_stack gas (execute_calldatasize d gas sp)"
    "spends_stack gas (execute_calldataload d gas sp)" "spends_stack gas (execute_codesize c gas sp)"
    "spends_stack gas (execute_selfbalance keccak a gas sp)"
    "spends_stack gas (execute_returndatasize rd gas sp)" "spends_stack gas (execute_blockhash gas sp)"
    "spends_stack gas (execute_coinbase gas sp)" "spends_stack gas (execute_timestamp gas sp)"
    "spends_stack gas (execute_number gas sp)" "spends_stack gas (execute_slotnum gas sp)"
    "spends_stack gas (execute_prevrandao gas sp)" "spends_stack gas (execute_gaslimit gas sp)"
    "spends_stack gas (execute_chainid gas sp)" "spends_stack gas (execute_basefee gas sp)"
    "spends_stack gas (execute_blobbasefee fee gas sp)" "spends_stack gas (execute_blobhash gas sp)"
    "spends_stack gas (execute_tload a gas sp)"
  unfolding execute_address_def execute_origin_def execute_caller_def execute_callvalue_def
    execute_gasprice_def execute_calldatasize_def execute_calldataload_def execute_codesize_def
    execute_selfbalance_def execute_returndatasize_def execute_blockhash_def execute_coinbase_def
    execute_timestamp_def execute_number_def execute_slotnum_def execute_prevrandao_def
    execute_gaslimit_def execute_chainid_def execute_basefee_def execute_blobbasefee_def
    execute_blobhash_def execute_tload_def
  by (intro spends_shapes assms; simp add: prices)+

lemma spends_accounts:
  assumes "0 \<le> gas"
  shows "spends_stack gas (execute_exp gas sp)" "spends_stack gas (execute_balance keccak gas sp)"
    "spends_stack gas (execute_extcodesize keccak gas sp)"
    "spends_stack gas (execute_extcodehash keccak gas sp)"
    "spends_stack gas (execute_sload keccak ctx gas sp)"
    "spends_stack gas (execute_tstore a is_static gas sp)"
  unfolding execute_exp_def execute_balance_def execute_extcodesize_def execute_extcodehash_def
    execute_sload_def execute_tstore_def guard_static_def
  by (intro handler_rules yields_then [OF yields_exp_gas] yields_then [OF yields_access_costs(1)]
      yields_then [OF yields_access_costs(2)] yields_then [OF yields_access_costs(3)] yields_bind;
    use assms in \<open>simp add: spends_def prices split: if_splits\<close>)+

lemma spends_stack_words:
  assumes "0 \<le> gas"
  shows "spends_stack gas (execute_pop gas sp)" "spends_stack gas (execute_gas gas sp)"
    "spends_stack gas (execute_push gas sp n v)" "spends_stack gas (execute_dup gas sp n)"
    "spends_stack gas (execute_swap gas sp n)"
  unfolding execute_pop_def execute_gas_def execute_push_def execute_dup_def execute_swap_def
  by (intro handler_rules yields_bind; use assms in \<open>simp add: spends_def prices split: if_splits\<close>)+

lemma spends_deep_stack:
  assumes "0 \<le> gas"
  shows "spends_stack gas (execute_dupn gas sp i)" "spends_stack gas (execute_swapn gas sp i)"
    "spends_stack gas (execute_exchange gas sp i)"
  unfolding execute_dupn_def execute_swapn_def execute_exchange_def
  by (intro handler_rules yields_bind spends_stack_words [OF assms];
    use assms in \<open>simp add: spends_def prices\<close>)+


text \<open>The handlers that charge by size and for memory pay a fixed part first.\<close>

lemmas memory_rules = handler_rules yields_pay_memory

lemma yields_copy_charge:
  assumes "0 \<le> gas" and "P out" and "\<And>g. 0 \<le> g \<Longrightarrow> g \<le> gas \<Longrightarrow> yields P (body g)"
  shows "yields P (pay_charge gas (copy_gas_cost len gas) out body)"
  by (rule yields_pay_charge [OF charges_sizes(2)]) (auto intro: assms)

lemma yields_keccak_charge:
  assumes "0 \<le> gas" and "P out" and "\<And>g. 0 \<le> g \<Longrightarrow> g < gas \<Longrightarrow> yields P (body g)"
  shows "yields P (pay_charge gas (keccak_gas_cost len gas) out body)"
  by (rule yields_pay_charge [OF charges_sizes(1)]) (auto intro: assms simp: G_keccak_def)

lemma yields_log_charge:
  assumes "0 \<le> gas" and "0 \<le> n" and "P out" and "\<And>g. 0 \<le> g \<Longrightarrow> g < gas \<Longrightarrow> yields P (body g)"
  shows "yields P (pay_charge gas (log_gas_cost n len gas) out body)"
  by (rule yields_pay_charge [OF charges_sizes(3)])
    (use assms(2) in \<open>auto intro!: assms simp: G_log_def G_logtopic_def\<close>)

lemma yields_expansion_charge:
  assumes "0 \<le> gas" and "P out" and "\<And>g. 0 \<le> g \<Longrightarrow> g \<le> gas \<Longrightarrow> yields P (body g)"
  shows "yields P (pay_charge gas (memory_expansion_gas_cost mem requested gas) out body)"
  by (rule yields_pay_charge [OF charges_memory]) (auto intro: assms)

lemmas size_rules = memory_rules yields_copy_charge yields_keccak_charge yields_log_charge
  yields_expansion_charge

lemma spends_copies:
  assumes "0 \<le> gas"
  shows "spends_memory gas (copy_op copy base gas sp mem)"
    "spends_memory gas (execute_extcodecopy keccak base gas sp mem)"
    "spends_memory gas (execute_returndatacopy rd base gas sp mem)"
    "spends_memory gas (execute_mcopy base gas sp mem)"
  unfolding copy_op_def execute_extcodecopy_def execute_returndatacopy_def execute_mcopy_def
  by (intro size_rules yields_then [OF yields_access_costs(1)] yields_then [OF yields_access_costs(3)]
      yields_bind; use assms in \<open>simp add: spends_def prices\<close>)+

lemma spends_memory_words:
  assumes "0 \<le> gas"
  shows "spends_memory gas (execute_calldatacopy d base gas sp mem)"
    "spends_memory gas (execute_codecopy c base gas sp mem)"
    "spends_memory gas (execute_keccak256 keccak base gas sp mem)"
    "spends_memory gas (execute_mload base gas sp mem)"
    "spends_memory gas (execute_mstore base gas sp mem)"
    "spends_memory gas (execute_mstore8 base gas sp mem)"
    "spends_memory gas (execute_msize gas sp mem)"
  unfolding execute_calldatacopy_def execute_codecopy_def execute_keccak256_def execute_mload_def
    execute_mstore_def execute_mstore8_def execute_msize_def
  by (intro spends_copies assms size_rules yields_bind; use assms in \<open>simp add: spends_def prices\<close>)+

lemma spends_log:
  assumes "0 \<le> gas" and "0 \<le> n"
  shows "spends_memory gas (execute_log a is_static base n gas sp mem)"
  unfolding execute_log_def guard_static_def
  by (intro size_rules yields_bind; use assms in \<open>simp add: spends_def split: if_splits\<close>)

abbreviation spends_jump :: "int \<Rightarrow> ('s, jump_result) action \<Rightarrow> bool" where
  "spends_jump gas \<equiv> yields (\<lambda>(pc, left, sp, outcome). spends gas left (outcome = Continue))"

lemma yields_do_jump:
  "0 \<le> gas \<Longrightarrow> yields (\<lambda>(pc, left, outcome). 0 \<le> left \<and> left \<le> gas) (do_jump pc gas c destination)"
  unfolding do_jump_def by (intro yields_bind yields_rules; simp)

lemma spends_jumps:
  assumes "0 \<le> gas"
  shows "spends_jump gas (execute_jump c pc gas sp)" "spends_jump gas (execute_jumpi c pc gas sp)"
    "spends_jump gas (execute_pc pc gas sp)"
    "yields (\<lambda>(left, outcome). spends gas left (outcome = Continue)) (execute_jumpdest gas)"
  unfolding execute_jump_def execute_jumpi_def execute_pc_def execute_jumpdest_def
  by (intro handler_rules yields_then [OF yields_do_jump] yields_bind;
    use assms in \<open>auto simp: spends_def prices\<close>)+

lemma spends_return:
  assumes "0 \<le> gas"
  shows "yields (\<lambda>(left, sp, mem, status). spends gas left (status = Running))
    (execute_return base gas sp mem)"
  unfolding execute_return_def
  by (intro memory_rules yields_bind; use assms in \<open>simp add: spends_def\<close>)

text \<open>Gas that the state reservoir holds for the frame counts together with the regular gas.\<close>

definition spends_both :: "int \<Rightarrow> int \<Rightarrow> int \<Rightarrow> int \<Rightarrow> bool \<Rightarrow> bool" where
  "spends_both gas spill gas' spill' continues \<longleftrightarrow> 0 \<le> gas' \<and> 0 \<le> spill' \<and>
     gas' + spill' \<le> gas + spill \<and> (continues \<longrightarrow> gas' + spill' < gas + spill)"

lemma yields_conserved_gas_add:
  "yields (\<lambda>x. x = a + b \<and> 0 \<le> x) (conserved_gas_add a b)"
  unfolding conserved_gas_add_def
  by (intro yields_rules yields_mono [OF yields_gas_u64]) auto

lemma yields_charge_state_gas:
  assumes "0 \<le> gas" and "0 \<le> spill" and "0 \<le> amount"
  shows "yields (\<lambda>(halt, gas', state_gas', spill'). 0 \<le> gas' \<and> 0 \<le> spill' \<and>
    gas' + spill' = gas + spill) (charge_state_gas gas remaining spill amount)"
  unfolding charge_state_gas_def state_gas_spill_add_def Let_def
  by (intro yields_rules yields_then [where Q = "\<lambda>x. x = spill + (amount - remaining)"])
    (use assms in auto)

lemma yields_credit_state_gas:
  assumes "0 \<le> gas" and "0 \<le> spill" and "0 \<le> amount"
  shows "yields (\<lambda>(gas', state_gas', spill'). 0 \<le> gas' \<and> 0 \<le> spill' \<and>
    gas' + spill' = gas + spill) (credit_state_gas_refund gas remaining spill amount)"
  unfolding credit_state_gas_refund_def Let_def
  by (intro yields_rules yields_then [where Q = "\<lambda>x. x = gas + spill"] yields_then [OF yields_conserved_gas_add]
      yields_bind yields_mono [OF yields_conserved_gas_add]) (use assms in auto)


lemma yields_sstore_costs:
  "yields (\<lambda>costs. 0 < sc_execution costs \<and> 0 \<le> sc_state_charge costs \<and> 0 \<le> sc_state_credit costs)
    (sstore_costs original current new_value cold)"
proof -
  have of: "yields (\<lambda>costs. 0 < sc_execution costs \<and> 0 \<le> sc_state_charge costs \<and> 0 \<le> sc_state_credit costs)
      (sstore_costs_of execution refund state_charge state_credit)"
    if "0 < execution" for execution refund state_charge state_credit
    unfolding sstore_costs_of_def state_gas_spill_def
    by (intro yields_rules yields_then [OF yields_gas_u64] yields_then [OF yields_ranged])
      (use that in auto)
  show ?thesis
    unfolding sstore_costs_def legacy_sstore_costs_def amsterdam_sstore_costs_def
      amsterdam_storage_access_cost_def Let_def
    by (intro yields_rules yields_then [OF yields_gas_constant] yields_bind of;
      simp add: gas_constants split: if_splits)
qed

abbreviation spends_state :: "int \<Rightarrow> int \<Rightarrow> ('s, sstore_result) action \<Rightarrow> bool" where
  "spends_state gas spill \<equiv> yields (\<lambda>(gas', state_gas', spill', refund', sp', outcome).
     spends_both gas spill gas' spill' (outcome = Continue))"

lemma spends_sstore:
  assumes "0 \<le> gas" and "0 \<le> spill"
  shows "spends_state gas spill (execute_sstore keccak ctx fork is_static gas state_gas spill refund sp)"
proof -
  have charge: "yields (\<lambda>(halt, gas', state_gas', spill'). 0 \<le> gas' \<and> 0 \<le> spill' \<and>
      gas' + spill' < gas + spill) (charge_state_gas g st sl (sc_state_charge costs))"
    if "0 \<le> g" "0 \<le> sl" "g + sl < gas + spill" "0 \<le> sc_state_charge costs" for g st sl costs
    by (rule yields_mono [OF yields_charge_state_gas]) (use that in auto)
  have credit: "yields (\<lambda>(gas', state_gas', spill'). 0 \<le> gas' \<and> 0 \<le> spill' \<and> gas' + spill' \<le> gas + spill)
      (if sc_state_credit costs \<noteq> 0 then credit_state_gas_refund g st spill (sc_state_credit costs)
       else ret (g, st, spill))" if "0 \<le> g" "g \<le> gas" "0 \<le> sc_state_credit costs" for g st costs
    by (intro yields_if yields_mono [OF yields_credit_state_gas] yields_ret) (use assms that in auto)
  show ?thesis
    unfolding execute_sstore_def guard_static_def Let_def
    by (intro handler_rules yields_then [OF yields_sstore_costs] yields_then [OF charge]
        yields_then [OF credit] yields_bind;
      use assms in \<open>auto simp: spends_both_def split: if_splits\<close>)
qed

lemma spends_revert:
  assumes "0 \<le> gas" and "0 \<le> spill"
  shows "yields (\<lambda>(gas', state_gas', spill', sp', mem', status).
    spends_both gas spill gas' spill' (status = Running))
    (execute_revert reservoir base gas state_gas spill sp mem)"
proof -
  have give_back: "yields (\<lambda>(gas', state_gas', spill'). 0 \<le> gas' \<and> 0 \<le> spill' \<and> gas' + spill' \<le> gas + spill)
      (if fork \<ge> Amsterdam then bind (conserved_gas_add g spill) (\<lambda>gas. ret (gas, reservoir, 0))
       else ret (g, state_gas, spill))" if "0 \<le> g" "g \<le> gas" for g and fork :: fork
    by (intro yields_rules yields_then [OF yields_conserved_gas_add]) (use assms that in auto)
  show ?thesis
    unfolding execute_revert_def
    by (intro memory_rules yields_then [OF give_back] yields_bind;
      use assms in \<open>auto simp: spends_both_def\<close>)
qed

lemma spends_selfdestruct:
  assumes "0 \<le> gas" and "0 \<le> spill"
  shows "yields (\<lambda>(gas', state_gas', spill', refund', sp', status).
    spends_both gas spill gas' spill' (status = Running))
    (execute_selfdestruct keccak a fork is_static gas state_gas spill refund sp)"
proof -
  have charge: "yields (\<lambda>(halt, gas', state_gas', spill'). 0 \<le> gas' \<and> 0 \<le> spill' \<and> gas' + spill' \<le> gas + spill)
      (if creates then charge_state_gas g state_gas spill G_amsterdam_state_new_account
       else ret (False, g, state_gas, spill))" if "0 \<le> g" "g \<le> gas" for g creates
    by (intro yields_if yields_mono [OF yields_charge_state_gas] yields_ret)
      (use assms that in \<open>auto simp: G_amsterdam_state_new_account_def\<close>)
  have choose: "yields P ((if b then (\<lambda>body. body g) else pay_sub g cost out) k)"
    if "b \<Longrightarrow> yields P (k g)" "\<not> b \<Longrightarrow> yields P (pay_sub g cost out k)" for P b g cost out k
    using that by simp
  have choose': "yields P ((if b then pay_sub g cost out else (\<lambda>body. body g)) k)"
    if "\<not> b \<Longrightarrow> yields P (k g)" "b \<Longrightarrow> yields P (pay_sub g cost out k)" for P b g cost out k
    using that by simp
  show ?thesis
    unfolding execute_selfdestruct_def amsterdam_selfdestruct_def legacy_selfdestruct_def
      guard_static_def Let_def
    by (intro handler_rules choose choose' yields_then [OF charge] yields_bind;
      use assms in \<open>auto simp: spends_both_def gas_constants split: if_splits\<close>)
qed

end
