(* ===== verification/Request_Laws.thy ===== *)
theory Request_Laws
  imports Stateless Gas_Flow
begin

text \<open>
  How requests fail: the object of default header fields that all the headers of a witness share, and
  requests for the forks before Cancun, which are followed from the input through the decoding and the
  indexing of the witness to the validation of the payload.
\<close>

section \<open>The shared header fields\<close>

text \<open>What is known of a header stays known of the headers after it.\<close>

definition fields_kept :: "'z program_state_scheme \<Rightarrow> 'z program_state_scheme \<Rightarrow> bool" where
  "fields_kept s t \<longleftrightarrow>
     (let before = empty_parent_fields s; after = empty_parent_fields t in
      (have_parent before \<longrightarrow> have_parent after) \<and> (have_state before \<longrightarrow> have_state after) \<and>
      (have_base_fee before \<longrightarrow> have_base_fee after) \<and> (have_blob_gas before \<longrightarrow> have_blob_gas after) \<and>
      (have_excess_blob_gas before \<longrightarrow> have_excess_blob_gas after))"

interpretation fields_kept: action_invariant fields_kept
  by unfold_locales (auto simp: fields_kept_def Let_def)

lemma set_fields_keeps:
  assumes "\<And>d. (have_parent d \<longrightarrow> have_parent (f d)) \<and> (have_state d \<longrightarrow> have_state (f d)) \<and>
      (have_base_fee d \<longrightarrow> have_base_fee (f d)) \<and> (have_blob_gas d \<longrightarrow> have_blob_gas (f d)) \<and>
      (have_excess_blob_gas d \<longrightarrow> have_excess_blob_gas (f d))"
  shows "keeps fields_kept (set_parent_fields f)"
  unfolding set_parent_fields_def using assms by (auto intro!: keeps_modify simp: fields_kept_def Let_def)

lemma pure_fields: "pure_action m \<Longrightarrow> keeps fields_kept m"
  by (rule pure_keeps) (auto intro: fields_kept.related_refl)

lemma pure_next: "pure_action (rlp_next cursor)"
  unfolding rlp_next_def by (intro pure_intros)

lemma field_keeps: "keeps fields_kept (decode_parent_header_field f i)"
  unfolding decode_parent_header_field_def fatal_error_def Let_def excess_blob_gas_def ranged_def
  by (intro keeps_if fields_kept.keeps_rules pure_fields [OF pure_rlp_decode(1)]
    pure_fields [OF pure_rlp_decode(2)] pure_fields [OF pure_rlp_decode(3)] set_fields_keeps keeps_raise; simp)

lemma header_fields_kept: "keeps_at fields_kept (decode_parent_header_fields cursor i) s"
proof (induction cursor i s rule: decode_parent_header_fields.induct)
  case (1 cursor i s)
  show ?case
    by (rule keeps_at_unfold(2) [of "decode_parent_header_fields cursor i" s,
        OF decode_parent_header_fields.simps])
      (intro fields_kept.keeps_at_rules keeps_at [OF fields_kept.keeps_reads]
        keeps_at [OF pure_fields [OF pure_next]] keeps_at [OF field_keeps] "1.IH"; assumption)
qed

lemma header_fields_are_shared:
  "decode_parent_header_fields cursor i s = Inr (d, t) \<Longrightarrow> d = empty_parent_fields t"
proof (induction cursor i s rule: decode_parent_header_fields.induct)
  case (1 cursor i s)
  then show ?case
    by (subst (asm) decode_parent_header_fields.simps) (auto elim!: bind_returnsE split: if_splits)
qed

text \<open>C35: the decoder of a witness header writes into one shared object of default fields: every
  field a header has counts as present in all the headers decoded after it, and a header without
  any field decodes to exactly the fields of the header before it.\<close>

theorem header_fields_leak_into_later_headers:
  assumes "decode_parent_header_fields cursor 0 s = Inr (d, t)"
    and "decode_parent_header_fields later 0 t = Inr (e, u)"
  shows "(have_parent d \<longrightarrow> have_parent e) \<and> (have_state d \<longrightarrow> have_state e) \<and>
    (have_base_fee d \<longrightarrow> have_base_fee e) \<and> (have_blob_gas d \<longrightarrow> have_blob_gas e) \<and>
    (have_excess_blob_gas d \<longrightarrow> have_excess_blob_gas e) \<and> (slice_len later = 0 \<longrightarrow> e = d)"
proof -
  have fields: "d = empty_parent_fields t" "e = empty_parent_fields u"
    using assms by (auto dest: header_fields_are_shared)
  have "fields_kept t u"
    using header_fields_kept [of later 0 t] assms(2) by (auto simp: keeps_at_def)
  moreover have "e = d" if "slice_len later = 0"
    using assms(2) that fields(1) by (subst (asm) decode_parent_header_fields.simps) auto
  ultimately show ?thesis
    by (simp add: fields [symmetric] fields_kept_def Let_def)
qed

text \<open>A first header with a parent hash only, and a second one without fields.\<close>

lemma header_fields_leak_into_later_headers_witness:
  "\<exists>s t u d e. decode_parent_header_fields \<lparr>slice_bytes = 0, slice_len = 33\<rparr> 0 s = Inr (d, t) \<and>
    decode_parent_header_fields EMPTY_SLICE 0 (t :: unit program_state_scheme) = Inr (e, u) \<and>
    have_parent e \<and> ph_parent_hash e = replicate 32 7"
proof -
  fix s0 :: "unit program_state_scheme"
  let ?s = "s0\<lparr>stateless_input_bytes := 0xa0 # replicate 32 7\<rparr>"
  let ?d = "(empty_parent_fields s0)\<lparr>ph_parent_hash := replicate 32 7, have_parent := True\<rparr>"
  let ?t = "?s\<lparr>empty_parent_fields := ?d\<rparr>"
  let ?item = "\<lparr>rf_source = \<lparr>slice_bytes = 0, slice_len = 33\<rparr>, rf_is_list = False, rf_content_len = 32\<rparr>"
  have bytes: "region_bytes InputRegion \<lparr>slice_bytes = 0, slice_len = 33\<rparr> ?s = 0xa0 # replicate 32 7"
    by (simp add: region_bytes_def slice_of_def py_slice_nonneg)
  have item: "rlp_next \<lparr>slice_bytes = 0, slice_len = 33\<rparr> ?s =
      Inr ((?item, \<lparr>slice_bytes = 33, slice_len = 0\<rparr>), ?s)"
    by (simp add: rlp_next_def rlp_decode_item_def rlp_ref_hdr_def rlp_cursor_advance_def Let_def
      action_simps stateless_input_slice_byte_def stateless_input_byte_at_def region_byte_def bytes
      py_item_def region_sub_slice_def region_slice_suffix_def region_slice_def valid_range_def
      rlp_field_ref_def)
  have "word_to_hash (from_bytes_big (replicate 32 7)) = replicate 32 7"
    by (simp add: word_to_hash_def word_to_bytes_big to_from_bytes_big)
  moreover have "from_bytes_big (replicate 32 7) < 2 ^ 256"
    using from_bytes_big_bound [of "replicate 32 7"] by simp
  moreover have "stateless_input_load_n_word (rf_source ?item) 1 32 ?s = Inr (from_bytes_big (replicate 32 7), ?s)"
    by (simp add: stateless_input_load_n_word_def load_word_def Let_def bytes py_slice_nonneg
      ljust_zero_def)
  ultimately have field: "decode_parent_header_field ?item 0 ?s = Inr ((), ?t)"
    by (simp add: decode_parent_header_field_def rlp_decode_word_def RLP_WORD_LENGTH_LIMIT_def
      stateless_input_slice_load_n_def as_word_def bind_run set_parent_fields_def)
  have first: "decode_parent_header_fields \<lparr>slice_bytes = 0, slice_len = 33\<rparr> 0 ?s = Inr (?d, ?t)"
    by (subst decode_parent_header_fields.simps)
      (simp add: bind_run item field Let_def next_parent_header_field_def
        decode_parent_header_fields.simps [of "\<lparr>slice_bytes = 33, slice_len = 0\<rparr>"])
  have second: "decode_parent_header_fields EMPTY_SLICE 0 ?t = Inr (?d, ?t)"
    by (subst decode_parent_header_fields.simps) (simp add: EMPTY_SLICE_def)
  have "have_parent ?d" by simp
  with header_fields_leak_into_later_headers [OF first second] first second show ?thesis
    by (intro exI conjI) (assumption | simp)+
qed

section \<open>Forks before Cancun\<close>

text \<open>What the host does leaves the registers of the kernel alone, and indexing the witness keeps the
  profile and header fields whose blob gas is not negative.\<close>

definition beyond_host :: "'z host_state_scheme \<Rightarrow> 'z host_state_scheme \<Rightarrow> bool" where
  "beyond_host s t \<longleftrightarrow> host_state.more t = host_state.more s"

interpretation beyond_host: action_invariant beyond_host
  by unfold_locales (auto simp: beyond_host_def)

definition sane_fields :: "parent_header_fields \<Rightarrow> bool" where
  "sane_fields d \<longleftrightarrow> 0 \<le> ph_blob_gas_used d \<and> 0 \<le> ph_excess_blob_gas d"

definition request_kept :: "'z program_state_scheme \<Rightarrow> 'z program_state_scheme \<Rightarrow> bool" where
  "request_kept s t \<longleftrightarrow> k_execution_profile t = k_execution_profile s \<and>
     (sane_fields (empty_parent_fields s) \<longrightarrow> sane_fields (empty_parent_fields t))"

interpretation request_kept: action_invariant request_kept
  by unfold_locales (auto simp: request_kept_def)

lemma pure_related: "pure_action m \<Longrightarrow> keeps beyond_host m" "pure_action n \<Longrightarrow> keeps request_kept n"
  by (rule pure_keeps; simp add: beyond_host.related_refl request_kept.related_refl)+

lemma host_request:
  fixes m :: "('z program_state_scheme, 'a) action"
  assumes "keeps beyond_host m"
  shows "keeps request_kept m"
  unfolding keeps_def
proof (intro allI impI)
  fix s x and t :: "'z program_state_scheme"
  assume "m s = Inr (x, t)"
  with assms have "beyond_host s t" by (rule keepsD)
  then show "request_kept s t" by (cases s, cases t) (simp add: beyond_host_def request_kept_def)
qed

lemma pure_ssz_readers:
  "pure_action (ssz_u32_at data i)" "pure_action (ssz_u32 data i)" "pure_action (ssz_u32_in_slice data i)"
  "pure_action (ssz_offset_to_source_pointer v)" "pure_action (ssz_offset_table_position v)"
  "pure_action (bounded_ssz_list_cursor items i v)"
  unfolding ssz_u32_def ssz_u32_in_slice_def ssz_u32_at_def ssz_offset_to_source_pointer_def
    ssz_offset_table_position_def ssz_offset_def bounded_ssz_list_cursor_def natural_def Let_def
  by (intro pure_intros; assumption?)+

lemma pure_ssz_lists [pure_intros]:
  "pure_action (ssz_list_cursor items)" "pure_action (ssz_list_pop cursor)"
  "pure_action (hash_region hash kind value)"
  unfolding ssz_list_cursor_def ssz_list_pop_def ssz_item_length_def hash_region_def Let_def
  by (intro pure_intros pure_ssz_readers pure_reads)+

lemma beyond_modify: "(\<And>s. host_state.more (f s) = host_state.more s) \<Longrightarrow> keeps beyond_host (modify f)"
  by (intro keeps_modify) (simp add: beyond_host_def)

lemma beyond_writers:
  "keeps beyond_host nodedb_reset" "keeps beyond_host (nodedb_insert h offset len)"
  "keeps beyond_host (append_code payload)" "keeps beyond_host (code_db_store keccak c)"
  "keeps beyond_host (jumpdest_table_alloc sl)" "keeps beyond_host (ancestor_hash_write i h)"
  unfolding nodedb_reset_def nodedb_insert_def append_code_def code_db_store_def jumpdest_table_alloc_def
    ancestor_hash_write_def
  by (intro beyond_host.keeps_rules pure_related pure_region_slice beyond_modify; simp)+

lemma beyond_mark: "keeps beyond_host (jumpdest_table_mark table n p)"
  unfolding jumpdest_table_mark_def
  by (intro beyond_host.keeps_rules keeps_option keeps_if beyond_modify; simp)

lemma beyond_analysis: "keeps beyond_host (analyze_code_from code fork table position)"
proof (induction code fork table position rule: analyze_code_from.induct)
  case (1 code fork table position)
  then show ?case
    by (subst analyze_code_from.simps, unfold Let_def)
      (intro beyond_host.keeps_rules keeps_if beyond_mark pure_related(1) [OF pure_code_byte]; simp)
qed

lemma beyond_codes:
  "keeps beyond_host (code_db_intern_input b)" "keeps beyond_host (code_db_insert keccak code fork)"
  unfolding code_db_intern_input_def code_region_from_input_def validated_code_slice_def
    code_db_insert_def analyze_code_def analyzed_code_def
  by (intro beyond_host.keeps_rules keeps_if keeps_raise beyond_writers beyond_analysis)+

text \<open>Indexing the witness.\<close>

lemmas request_rules = request_kept.keeps_rules keeps_if keeps_raise

lemma fatal_request: "keeps request_kept (fatal_error r)"
  unfolding fatal_error_def by (rule keeps_raise)

lemma request_modify:
  "(\<And>s. k_execution_profile (f s) = k_execution_profile s \<and> empty_parent_fields (f s) = empty_parent_fields s)
    \<Longrightarrow> keeps request_kept (modify f)"
  by (intro keeps_modify) (simp add: request_kept_def)

lemma request_set_fields:
  "(\<And>d. sane_fields d \<Longrightarrow> sane_fields (f d)) \<Longrightarrow> keeps request_kept (set_parent_fields f)"
  unfolding set_parent_fields_def by (intro keeps_modify) (simp add: request_kept_def)

lemma keeps_yielded:
  "yields Q m \<Longrightarrow> keeps request_kept m \<Longrightarrow> (\<And>x. Q x \<Longrightarrow> keeps request_kept (f x)) \<Longrightarrow>
   keeps request_kept (bind m f)"
  unfolding keeps_def yields_def by (blast elim!: bind_returnsE intro: request_kept.related_trans)

lemma uint64_nonneg: "yields (\<lambda>v. 0 \<le> v) (rlp_decode_uint64 f)"
  unfolding rlp_decode_uint64_def
  by (intro yields_rules yields_bind yields_mono [OF yields_ranged]) simp

lemma field_request: "keeps request_kept (decode_parent_header_field f i)"
proof -
  have word: "keeps request_kept (bind m (\<lambda>v. set_parent_fields (g v)))"
    if "pure_action m" "\<And>v d. sane_fields d \<Longrightarrow> sane_fields (g v d)" for m :: "('a, int) program" and g
    using that by (intro request_rules pure_related request_set_fields)
  have blob: "keeps request_kept (bind (excess_blob_gas v) (\<lambda>v. set_parent_fields (\<lambda>d.
      d\<lparr>ph_excess_blob_gas := v, have_excess_blob_gas := True\<rparr>)) :: ('a, unit) program)" for v
    unfolding excess_blob_gas_def
    by (rule keeps_yielded [OF yields_ranged pure_related(2) [OF pure_ranged] request_set_fields])
      (simp add: sane_fields_def)
  have used: "sane_fields (d\<lparr>ph_blob_gas_used := 2 ^ 17 * count, have_blob_gas := True\<rparr>)"
    if "0 \<le> v" "v = 2 ^ 17 * count" "sane_fields d" for d v count
    using that by (simp add: sane_fields_def)
  note pure = pure_related(2) [OF pure_rlp_decode(3)]
  show ?thesis
    unfolding decode_parent_header_field_def Let_def
  proof (intro keeps_if, goal_cases)
    case 1 show ?case by (rule word) (simp_all add: pure_rlp_decode sane_fields_def)
  next
    case 2 show ?case by (rule word) (simp_all add: pure_rlp_decode sane_fields_def)
  next
    case 3 show ?case by (rule word) (simp_all add: pure_rlp_decode sane_fields_def)
  next
    case 4 show ?case
      by (rule keeps_yielded [OF uint64_nonneg pure])
        (intro request_kept.keeps_bind request_kept.keeps_reads keeps_if fatal_request request_set_fields;
          blast intro: used)
  next
    case 5 show ?case
      by (rule keeps_yielded [OF uint64_nonneg pure])
        (intro request_kept.keeps_bind request_kept.keeps_reads keeps_if fatal_request blob)
  qed (rule request_kept.keeps_ret)
qed

lemma request_at: "keeps request_kept m \<Longrightarrow> keeps_at request_kept m s"
  by (rule keeps_at)

lemma header_fields_request: "keeps_at request_kept (decode_parent_header_fields cursor i) s"
proof (induction cursor i s rule: decode_parent_header_fields.induct)
  case (1 cursor i s)
  show ?case
    by (rule keeps_at_unfold(2) [of "decode_parent_header_fields cursor i" s,
        OF decode_parent_header_fields.simps])
      (intro request_kept.keeps_at_rules request_at request_kept.keeps_reads pure_related(2) pure_next
        field_request "1.IH"; assumption)
qed

lemma nodes_request: "keeps_at request_kept (index_witness_nodes_cursor keccak cursor) s"
proof (induction keccak cursor s rule: index_witness_nodes_cursor.induct)
  case (1 keccak cursor s)
  show ?case
    by (rule keeps_at_unfold(2) [of "index_witness_nodes_cursor keccak cursor" s,
        OF index_witness_nodes_cursor.simps])
      (intro request_kept.keeps_at_rules request_at pure_related(2) pure_ssz_lists
        host_request [OF beyond_writers(2)] "1.IH"; assumption)
qed

lemma codes_request: "keeps_at request_kept (index_witness_codes_cursor keccak cursor) s"
proof (induction keccak cursor s rule: index_witness_codes_cursor.induct)
  case (1 keccak cursor s)
  show ?case
    by (rule keeps_at_unfold(2) [of "index_witness_codes_cursor keccak cursor" s,
        OF index_witness_codes_cursor.simps])
      (intro request_kept.keeps_at_rules request_at pure_related(2) pure_ssz_lists fatal_request
        host_request [OF beyond_codes(1)] host_request [OF beyond_codes(2)] "1.IH"; (assumption | simp add: active_fork_def)?)
qed

text \<open>\<open>sound Q m s\<close>: from a state whose header fields are sane, a run keeps the request and returns a
  result with \<open>Q\<close>.\<close>

definition sound :: "('a \<Rightarrow> bool) \<Rightarrow> ('z, 'a) program \<Rightarrow> 'z program_state_scheme \<Rightarrow> bool" where
  "sound Q m s \<longleftrightarrow> (sane_fields (empty_parent_fields s) \<longrightarrow>
     (\<forall>x t. m s = Inr (x, t) \<longrightarrow> request_kept s t \<and> Q x))"

lemma sound_bind:
  assumes "sound P m s" and "\<And>x t. m s = Inr (x, t) \<Longrightarrow> P x \<Longrightarrow> sound Q (f x) t"
  shows "sound Q (bind m f) s"
  unfolding sound_def
proof (intro impI allI)
  fix y u
  assume sane: "sane_fields (empty_parent_fields s)" and "bind m f s = Inr (y, u)"
  then obtain x t where x: "m s = Inr (x, t)" "f x t = Inr (y, u)" by (auto elim: bind_returnsE)
  have t: "request_kept s t" "P x" using assms(1) sane x(1) by (auto simp: sound_def)
  have "sane_fields (empty_parent_fields t)" using t(1) sane by (simp add: request_kept_def)
  with assms(2) [OF x(1) t(2)] x(2) have "request_kept t u" "Q y" by (auto simp: sound_def)
  with t(1) show "request_kept s u \<and> Q y" by (blast intro: request_kept.related_trans)
qed

lemma sound_keeps: "keeps request_kept m \<Longrightarrow> sound (\<lambda>_. True) m s"
  by (auto simp: sound_def keeps_def)

lemma sound_ret: "Q x \<Longrightarrow> sound Q (ret x) s"
  by (simp add: sound_def request_kept.related_refl)

lemma sound_if:
  "(b \<Longrightarrow> sound Q m s) \<Longrightarrow> (\<not> b \<Longrightarrow> sound Q n s) \<Longrightarrow> sound Q (if b then m else n) s"
  by simp

lemma sound_case_prod:
  "(\<And>x y. p = (x, y) \<Longrightarrow> sound Q (f x y) s) \<Longrightarrow> sound Q (case p of (x, y) \<Rightarrow> f x y) s"
  by (cases p) simp

lemma sound_Let: "(\<And>x. x = v \<Longrightarrow> sound Q (f x) s) \<Longrightarrow> sound Q (Let v f) s"
  by simp

lemma sound_unfold:
  "m s = (if b then x else y) s \<Longrightarrow> sound Q (if b then x else y) s \<Longrightarrow> sound Q m s"
  by (simp add: sound_def)

lemma sound_header_fields: "sound sane_fields (decode_parent_header_fields cursor i) s"
  unfolding sound_def
proof (intro impI allI)
  fix d t
  assume "sane_fields (empty_parent_fields s)" and run: "decode_parent_header_fields cursor i s = Inr (d, t)"
  moreover have "request_kept s t"
    using header_fields_request [of cursor i s] run by (auto simp: keeps_at_def)
  ultimately show "request_kept s t \<and> sane_fields d"
    using header_fields_are_shared [OF run] by (simp add: request_kept_def)
qed

definition sane_index :: "witness_header_index \<Rightarrow> bool" where
  "sane_index st \<longleftrightarrow> 0 \<le> whi_parent_blob_gas_used st \<and> 0 \<le> whi_parent_excess_blob_gas st"

lemma sound_header_cursor: "sane_index state \<Longrightarrow> sound sane_index (index_witness_header_cursor keccak state) s"
proof (induction keccak state s rule: index_witness_header_cursor.induct)
  case (1 keccak state s)
  have link: "sound sane_index (bind (rlp_node_cursor header) (\<lambda>cursor.
      bind (decode_parent_header_fields cursor 0) (\<lambda>decoded.
      ret (link_witness_header fork index is_last decoded state)))) u" for header fork index is_last u
    by (rule sound_bind [OF sound_keeps [OF pure_related(2) [OF pure_rlp_node_cursor]]],
        rule sound_bind [OF sound_header_fields], rule sound_ret)
      (use "1.prems" in \<open>simp add: sane_index_def sane_fields_def link_witness_header_def Let_def\<close>)
  show ?case
    apply (rule sound_unfold [of "index_witness_header_cursor keccak state" s, OF index_witness_header_cursor.simps])
    apply (rule sound_if)
     apply (rule sound_ret, rule "1.prems")
    apply (rule sound_bind [OF sound_keeps], simp add: active_fork_def request_kept.keeps_reads)
    apply (intro sound_Let)
    apply (rule sound_bind [OF sound_keeps [OF pure_related(2) [OF pure_ssz_lists(2)]]])
    apply (intro sound_case_prod sound_Let)
    apply (rule sound_bind [where P = sane_index])
     apply (intro sound_if link sound_ret "1.prems")
    apply (rule sound_bind [OF sound_keeps [OF pure_related(2) [OF pure_ssz_lists(3)]]])
    apply (rule sound_bind [OF sound_keeps])
     apply (intro request_rules fatal_request)
    apply (rule sound_bind [OF sound_keeps])
     apply (intro request_rules host_request beyond_writers)
    apply (rule "1.IH"; assumption?)
    apply (auto simp: sane_index_def)
    done
qed

lemma sound_after:
  "keeps request_kept m \<Longrightarrow> (\<And>x t. sound Q (f x) t) \<Longrightarrow> sound Q (bind m f) s"
  by (rule sound_bind [OF sound_keeps])

lemma sound_execution_witness:
  "sound (\<lambda>w. 0 \<le> wc_parent_blob_gas_used w \<and> 0 \<le> wc_parent_excess_blob_gas w)
     (index_execution_witness keccak input_ref) s"
proof -
  have nodes: "keeps request_kept (index_witness_nodes keccak items :: ('z, unit) program)" for items
    unfolding index_witness_nodes_def
    by (intro request_kept.keeps_bind pure_related(2) [OF pure_ssz_lists(1)]) (simp add: keeps_at_iff nodes_request)
  have codes: "keeps request_kept (index_witness_codes keccak items :: ('z, unit) program)" for items
    unfolding index_witness_codes_def
    by (intro request_kept.keeps_bind pure_related(2) [OF pure_ssz_lists(1)]) (simp add: keeps_at_iff codes_request)
  have set_register: "keeps request_kept (modify (\<lambda>s. s\<lparr>k_n_headers := n\<rparr>) :: ('z, unit) program)"
    "keeps request_kept (modify (\<lambda>s. s\<lparr>k_parent_state_root := h\<rparr>) :: ('z, unit) program)" for n h
    by (rule request_modify, simp)+
  have headers: "sound (\<lambda>w. 0 \<le> wc_parent_blob_gas_used w \<and> 0 \<le> wc_parent_excess_blob_gas w)
      (index_witness_headers keccak items) t" for items and t :: "'z program_state_scheme"
    unfolding index_witness_headers_def
    by (rule sound_after [OF pure_related(2) [OF pure_ssz_lists(1)]],
        rule sound_bind [OF sound_header_cursor], simp add: sane_index_def)
      (intro sound_after sound_ret set_register request_rules fatal_request pure_related(2) pure_ranged;
        simp add: sane_index_def)
  show ?thesis
    unfolding index_execution_witness_def
    by (rule sound_after [OF host_request [OF beyond_writers(1)]], rule sound_after [OF nodes],
        rule sound_after [OF codes], rule sound_bind [OF headers])
      (intro sound_after sound_ret set_register; simp)
qed

text \<open>Decoding the request installs the profile that its first byte selects.\<close>

lemma pure_do_when [pure_intros]: "(b \<Longrightarrow> pure_action m) \<Longrightarrow> pure_action (do_when b m)"
  by (simp add: do_when_def pure_ret)

lemma pure_u256_loop: "pure_action (ssz_u256_loop data offset n result)"
proof (induction n arbitrary: result)
  case (Suc n)
  then show ?case by (simp add: Let_def pure_intros)
qed (simp add: pure_ret)

lemma pure_ssz_fields [pure_intros]:
  "pure_action (decode_ssz_uint data i)" "pure_action (ssz_bytes32 data i)" "pure_action (ssz_u256 data i)"
  "pure_action (ssz_addr data i)"
  unfolding decode_ssz_uint_def load_uint64_def ssz_uint_def ssz_bytes32_def ssz_u256_def ssz_addr_def
  by (intro pure_intros pure_u256_loop)+

lemma pure_payload_fields [pure_intros]:
  "pure_action (decode_payload_blob_gas_used payload p)" "pure_action (decode_payload_excess_blob_gas payload p)"
  "pure_action (decode_block_header_ssz input_ref)" "pure_action (decode_chain_config cc number timestamp)"
  unfolding decode_payload_blob_gas_used_def decode_payload_excess_blob_gas_def decode_block_header_ssz_def
    decode_chain_config_def excess_blob_gas_def Let_def
  by (intro pure_intros pure_ssz_readers)+

lemma decode_stateless_input_profile:
  fixes s t :: "'z program_state_scheme"
  assumes "decode_stateless_input input_ref s = Inr (decoded, t)"
  shows "protocol (k_execution_profile t) = in_protocol input_ref \<and> empty_parent_fields t = empty_parent_fields s"
  using assms
  by (auto simp: decode_stateless_input_def k_set_header_def execution_profile_for_def gas_limits_for_def Let_def
      elim!: bind_returnsE split: if_splits
      dest!: pure_same [OF pure_payload_fields(3)] pure_same [OF pure_payload_fields(4)]
        pure_same [OF pure_ssz_fields(2)])

lemma pure_schema: "pure_action (schema_protocol_profile n)"
  by (simp add: pure_action_def keeps_def schema_numbers)

lemma pure_ssz_parts [pure_intros]:
  "pure_action (ssz_container_bytes bs n)" "pure_action (ssz_container_cursor_of bs n)"
  "pure_action (ssz_take cursor stop)" "pure_action (ssz_finish cursor)"
  "pure_action (ssz_bounded_variable_list_ref bs n k)" "pure_action (ssz_bounded_fixed_list_ref bs k n)"
  "pure_action (container_offset bs i)" "pure_action (first_offset_is offset n)" "pure_action (at_most bs n)"
  unfolding ssz_container_bytes_def ssz_container_cursor_of_def ssz_take_def ssz_finish_def
    ssz_bounded_variable_list_ref_def ssz_bounded_fixed_list_ref_def container_offset_def first_offset_is_def
    at_most_def bounded_ssz_list_ref_def natural_def Let_def
  by (intro pure_intros pure_ssz_readers)+

lemma pure_decode_ref: "pure_action (decode_stateless_input_ref data)"
  unfolding decode_stateless_input_ref_def Let_def by (intro pure_intros pure_schema)

lemma decode_ref_profile:
  assumes "stateless_input_bytes s = b # rest" and "data = \<lparr>slice_bytes = 0, slice_len = int (length (b # rest))\<rparr>"
    and "decode_stateless_input_ref data s = Inr (r, t)"
  shows "schema_protocol_profile (uint b) s = Inr (in_protocol r, s)"
proof -
  have byte: "stateless_input_slice_byte data 0 s = Inr (uint b, s)"
    using assms(1,2) by (simp add: stateless_input_slice_byte_def stateless_input_byte_at_def region_byte_def
        region_bytes_def slice_of_def py_slice_nonneg py_item_def Let_def action_simps)
  from assms(3) show ?thesis
    unfolding decode_stateless_input_ref_def
    apply -
    apply (erule bind_returnsE, erule bind_returnsE, erule bind_returnsE, erule bind_returnsE,
        erule bind_returnsE, erule bind_returnsE)
    subgoal premises prems for sl s0 v s1 u s2 n s3 w s4 p s5
    proof -
      have sl: "sl = data" "s0 = s" using prems(1) by (simp_all add: fatal_error_def split: if_splits)
      have "s1 = s" using pure_same [OF pure_input_byte prems(2)] sl by simp
      then have "s2 = s" using prems(3) by (simp add: do_when_run fatal_error_def split: if_splits)
      then have n: "n = uint b" "s3 = s"
        using prems(4) pure_same [OF pure_input_byte prems(4)] byte sl by simp_all
      then have "s4 = s" using prems(5) by (simp add: do_when_run fatal_error_def split: if_splits)
      moreover have "in_protocol r = p"
        using prems(7) by (rule yieldsD [where P = "\<lambda>r. in_protocol r = p", rotated])
          (intro yields_rules yields_bind; simp)
      ultimately show ?thesis using prems(6) n by (simp add: schema_numbers)
    qed
    done
qed

text \<open>The validation of the payload computes an excess blob gas, which needs a blob base fee.\<close>

lemma blob_base_fee_before_cancun: "fork < Cancun \<Longrightarrow> blob_base_fee fork schedule limit excess s = Inl SailExit"
  by (simp add: blob_base_fee_def fatal_error_def)

lemma payload_before_cancun:
  assumes "pp_fork (protocol (k_execution_profile s)) < Cancun"
    and "bs_target (pp_blob_schedule (protocol (k_execution_profile s))) = 0"
    and "0 \<le> wc_parent_blob_gas_used witness" and "0 \<le> wc_parent_excess_blob_gas witness"
  shows "validate_execution_payload lib decoded input_ref witness s = Inl SailExit"
  using assms
  by (simp add: validate_execution_payload_def expected_payload_excess_blob_gas_def Let_def
      next_excess_blob_gas_def blob_base_fee_before_cancun active_fork_def bind_run do_when_run fatal_error_def)

lemma old_profile:
  assumes "10 \<le> n" and "n \<le> 15"
  shows "pp_fork (profile_numbers (n - 5)) < Cancun \<and> bs_target (pp_blob_schedule (profile_numbers (n - 5))) = 0"
  using assms by (simp add: profile_numbers_def blob_schedule_numbers_def Let_def Cancun_def)

text \<open>C34: A request for a fork from Berlin to Shanghai, which the schema accepts under the numbers 10 to
  15, is never validated: from any state in which the shared header fields hold no negative blob gas,
  \<open>main\<close> ends in an error for every input with such a first byte. When the request can be decoded and
  its witness indexed, the validation of the payload ends in a fatal error, whatever the block holds.\<close>

theorem blocks_before_cancun_are_rejected:
  fixes s :: "'z program_state_scheme"
  assumes "sane_fields (empty_parent_fields s)"
    and "stateless_input_bytes s = b # rest" and "10 \<le> uint b" and "uint b \<le> 15"
    and "input = \<lparr>slice_bytes = 0, slice_len = int (length (b # rest))\<rparr>"
  shows "(\<exists>e. main steps lib s = Inl e) \<and>
    (\<forall>input_ref decoded witness t u v. decode_stateless_input_ref input s = Inr (input_ref, t) \<longrightarrow>
       decode_stateless_input input_ref t = Inr (decoded, u) \<longrightarrow>
       index_execution_witness keccak input_ref u = Inr (witness, v) \<longrightarrow>
       validate_execution_payload lib decoded input_ref witness v = Inl SailExit)"
proof -
  have rejected: "validate_execution_payload lib decoded input_ref witness v = Inl SailExit"
    if sane: "sane_fields (empty_parent_fields s')" and bytes: "stateless_input_bytes s' = b # rest"
      and ref: "decode_stateless_input_ref input s' = Inr (input_ref, t)"
      and profile: "empty_parent_fields t' = empty_parent_fields t"
      and decode: "decode_stateless_input input_ref t' = Inr (decoded, u)"
      and index: "index_execution_witness keccak input_ref u = Inr (witness, v)"
    for s' t t' u v :: "'z program_state_scheme" and keccak input_ref decoded witness
  proof -
    have in_protocol: "in_protocol input_ref = profile_numbers (uint b - 5)"
      using decode_ref_profile [OF bytes assms(5) ref] assms(3,4) by (simp add: schema_numbers)
    have "t = s'" using pure_same [OF pure_decode_ref ref] .
    note u = decode_stateless_input_profile [OF decode]
    have "sane_fields (empty_parent_fields u)" using u profile sane \<open>t = s'\<close> by simp
    then have v: "request_kept u v" "0 \<le> wc_parent_blob_gas_used witness" "0 \<le> wc_parent_excess_blob_gas witness"
      using sound_execution_witness [of keccak input_ref u] index by (auto simp: sound_def)
    have "protocol (k_execution_profile v) = profile_numbers (uint b - 5)"
      using v(1) u in_protocol by (simp add: request_kept_def)
    with v(2,3) old_profile [OF assms(3,4)] show ?thesis by (intro payload_before_cancun) simp_all
  qed
  have "\<exists>e. main steps lib s = Inl e"
  proof (rule ccontr)
    assume "\<not> ?thesis"
    then obtain x w where "main steps lib s = Inr (x, w)" by (cases "main steps lib s") auto
    then obtain s1 ref t t1 decoded u witness v y z where
      reset: "scratch_reset s = Inr ((), s1)" and ref: "decode_stateless_input_ref input s1 = Inr (ref, t)"
      and reset': "scratch_reset t = Inr ((), t1)" and decode: "decode_stateless_input ref t1 = Inr (decoded, u)"
      and index: "index_execution_witness (keccak256 lib) ref u = Inr (witness, v)"
      and valid: "validate_execution_payload lib decoded ref witness v = Inr (y, z)"
      using assms(2,5)
      by (auto simp: main_def verify_stateless_payload_def stateless_input_def scratch_reset_def set_scratch_arena_def host_scratch_truncate_def
        region_slice_def Let_def elim!: bind_returnsE split: if_splits)
    have "empty_parent_fields s1 = empty_parent_fields s" "stateless_input_bytes s1 = stateless_input_bytes s"
      "empty_parent_fields t1 = empty_parent_fields t"
      using reset reset' by (auto simp: scratch_reset_def set_scratch_arena_def host_scratch_truncate_def)
    with rejected [OF _ _ ref _ decode index] assms(1,2) valid show False by simp
  qed
  moreover have "validate_execution_payload lib decoded input_ref witness v = Inl SailExit"
    if "decode_stateless_input_ref input s = Inr (input_ref, t)"
      "decode_stateless_input input_ref t = Inr (decoded, u)"
      "index_execution_witness keccak input_ref u = Inr (witness, v)"
    for input_ref decoded witness t u v
    using rejected [OF assms(1,2) that(1) refl that(2,3)] .
  ultimately show ?thesis by blast
qed

text \<open>Shanghai (15), from the header fields the program starts with, whatever the rest of the input.\<close>

theorem blocks_before_cancun_are_rejected_witness:
  "\<forall>(s :: unit program_state_scheme) rest steps lib. \<exists>e. main steps lib
     (s\<lparr>stateless_input_bytes := 15 # rest, empty_parent_fields := EMPTY_PARENT_HEADER_FIELDS\<rparr>) = Inl e"
proof (intro allI)
  fix s :: "unit program_state_scheme" and rest :: bytes and steps lib
  let ?s = "s\<lparr>stateless_input_bytes := 15 # rest, empty_parent_fields := EMPTY_PARENT_HEADER_FIELDS\<rparr>"
  have "sane_fields (empty_parent_fields ?s)" by (simp add: sane_fields_def EMPTY_PARENT_HEADER_FIELDS_def)
  from blocks_before_cancun_are_rejected [OF this, of 15 rest] show "\<exists>e. main steps lib ?s = Inl e" by simp
qed

end
