(* ===== verification/Trie_Path.thy ===== *)
theory Trie_Path
  imports Trie_Update
begin

text \<open>
  What the path operations of \<open>lib/mpt/primitives.py\<close> do: a path stands for its list of nibbles, and
  appending, joining, dropping, comparing and measuring common prefixes are the operations of
  lists. The invariant is that the bytes behind the last nibble are zero, which is what makes the
  comparison of the packed bytes the comparison of paths.
\<close>

section \<open>Paths as lists of nibbles\<close>

definition raw_nibble :: "bytes \<Rightarrow> nat \<Rightarrow> int" where
  "raw_nibble data i =
     (if even i then high_nibble (vector_access data (i div 2))
      else low_nibble (vector_access data (i div 2)))"

definition path_nibbles :: "trie_path \<Rightarrow> int list" where
  "path_nibbles p = map (raw_nibble (path_data p)) [0..<path_len p]"

definition path_ok :: "trie_path \<Rightarrow> bool" where
  "path_ok p \<longleftrightarrow> length (path_data p) = 32 \<and> path_len p \<le> 64 \<and>
     (\<forall>i < 64. path_len p \<le> i \<longrightarrow> raw_nibble (path_data p) i = 0)"

lemma length_path_nibbles [simp]: "length (path_nibbles p) = path_len p"
  by (simp add: path_nibbles_def)

lemma nth_path_nibbles: "i < path_len p \<Longrightarrow> path_nibbles p ! i = raw_nibble (path_data p) i"
  by (simp add: path_nibbles_def)

lemma path_nibble_nth: "i < path_len p \<Longrightarrow> path_nibble p i = path_nibbles p ! i"
  by (simp add: nth_path_nibbles path_nibble_def raw_nibble_def even_iff_mod_2_eq_zero)

lemma nibble_bytes:
  "high_nibble (b :: byte) = uint b div 16" "low_nibble b = uint b mod 16"
proof -
  show "low_nibble b = uint b mod 16"
    unfolding low_nibble_def unsigned_take_bit_eq by (simp add: take_bit_eq_mod)
  have "uint b < 256" using unsigned_less [where 'a = int, of b] by simp
  then show "high_nibble b = uint b div 16"
    unfolding high_nibble_def unsigned_drop_bit_eq by (simp add: drop_bit_eq_div take_bit_eq_mod)
qed

lemma nibble_range:
  "0 \<le> high_nibble (b :: byte)" "high_nibble b < 16" "0 \<le> low_nibble b" "low_nibble b < 16"
proof -
  have "uint b < 256" using unsigned_less [where 'a = int, of b] by simp
  moreover have "0 \<le> uint b" by simp
  ultimately show "0 \<le> high_nibble b" "high_nibble b < 16" "0 \<le> low_nibble b" "low_nibble b < 16"
    unfolding nibble_bytes by presburger+
qed

lemma nibbles_of_pair:
  assumes "0 \<le> h" "h < 16" "0 \<le> l" "l < 16"
  shows "high_nibble (word_of_int (h * 16 + l) :: byte) = h"
    and "low_nibble (word_of_int (h * 16 + l) :: byte) = l"
proof -
  have "uint (word_of_int (h * 16 + l) :: byte) = h * 16 + l"
    using assms by (simp only: uint_word_of_int) simp
  then show "high_nibble (word_of_int (h * 16 + l) :: byte) = h"
    "low_nibble (word_of_int (h * 16 + l) :: byte) = l"
    using assms by (simp_all add: nibble_bytes)
qed

lemma raw_nibble_range: "0 \<le> raw_nibble data i" "raw_nibble data i < 16"
  using nibble_range [of "vector_access data (i div 2)"] by (auto simp: raw_nibble_def)

lemma raw_nibble_update:
  assumes "length data = 32" "i < 64" "k < 32"
  shows "raw_nibble (vector_update data k b) i =
    (if i div 2 = k then (if even i then high_nibble b else low_nibble b) else raw_nibble data i)"
  using assms by (auto simp: raw_nibble_def vector_access_def vector_update_def nth_list_update)

text \<open>Two paths that keep the invariant are equal exactly when their nibbles are.\<close>

lemma bytes_of_nibbles:
  fixes a b :: byte
  assumes "high_nibble a = high_nibble b" and "low_nibble a = low_nibble b"
  shows "a = b"
proof -
  have "uint a = uint b"
    using assms unfolding nibble_bytes by (metis div_mult_mod_eq)
  then show ?thesis by (rule unsigned_word_eqI)
qed

lemma path_ok_raw:
  assumes "path_ok p" and "i < 64"
  shows "raw_nibble (path_data p) i = (if i < path_len p then path_nibbles p ! i else 0)"
  using assms by (auto simp: path_ok_def nth_path_nibbles)

lemma path_nibbles_inject:
  assumes "path_ok p" "path_ok q" "path_nibbles p = path_nibbles q"
  shows "p = q"
proof -
  have len: "path_len p = path_len q"
    using assms(3) by (metis length_path_nibbles)
  have raw: "raw_nibble (path_data p) i = raw_nibble (path_data q) i" if "i < 64" for i
    using that assms len by (simp add: path_ok_raw)
  have "path_data p ! k = path_data q ! k" if "k < 32" for k
  proof (rule bytes_of_nibbles)
    have "raw_nibble (path_data p) (2 * (31 - k)) = raw_nibble (path_data q) (2 * (31 - k))"
      "raw_nibble (path_data p) (2 * (31 - k) + 1) = raw_nibble (path_data q) (2 * (31 - k) + 1)"
      using that by (auto intro!: raw)
    then show "high_nibble (path_data p ! k) = high_nibble (path_data q ! k)"
      "low_nibble (path_data p ! k) = low_nibble (path_data q ! k)"
      using assms(1,2) that by (simp_all add: raw_nibble_def vector_access_def path_ok_def)
  qed
  then have "path_data p = path_data q"
    using assms(1,2) by (intro nth_equalityI) (auto simp: path_ok_def)
  with len show ?thesis by (simp add: path_len_def)
qed

lemma path_eq_iff: "path_ok p \<Longrightarrow> path_ok q \<Longrightarrow> path_eq p q \<longleftrightarrow> path_nibbles p = path_nibbles q"
  by (auto simp: path_eq_def path_nibbles_def path_len_def
    intro!: arg_cong [where f = path_length] arg_cong [where f = path_data] path_nibbles_inject)

section \<open>The operations\<close>

text \<open>What it means for an action to give a path, whatever the state.\<close>

definition gives_path :: "('s, trie_path) action \<Rightarrow> int list \<Rightarrow> bool" where
  "gives_path m ns \<longleftrightarrow> (\<exists>q. (\<forall>s. m s = Inr (q, s)) \<and> path_ok q \<and> path_nibbles q = ns)"

lemma gives_pathI: "(\<And>s. m s = Inr (q, s)) \<Longrightarrow> path_ok q \<Longrightarrow> path_nibbles q = ns \<Longrightarrow> gives_path m ns"
  unfolding gives_path_def by blast

lemma gives_empty: "gives_path path_empty []"
proof -
  have "word_to_hash 0 = replicate 32 0"
    by (simp add: word_to_hash_def word_to_bytes_big numeral_eq_Suc)
  then have "path_ok \<lparr>path_data = word_to_hash 0, path_length = 0\<rparr>"
    by (auto simp: path_ok_def raw_nibble_def vector_access_def nibble_bytes path_len_def)
  then show ?thesis
    by (intro gives_pathI [of _ "\<lparr>path_data = word_to_hash 0, path_length = 0\<rparr>"])
      (auto simp: path_empty_def path_new_def path_nibbles_def path_len_def)
qed

lemma gives_append:
  assumes "path_ok p" and "path_len p < 64" and "0 \<le> v" "v < 16"
  shows "gives_path (path_append_nibble p v :: ('s, trie_path) action) (path_nibbles p @ [v])"
proof -
  let ?k = "path_len p div 2"
  let ?b = "if even (path_len p) then word_of_int (v * 16)
    else word_of_int (high_nibble (vector_access (path_data p) ?k) * 16 + v)"
  let ?q = "\<lparr>path_data = vector_update (path_data p) ?k ?b, path_length = path_len p + 1\<rparr>"
  have k: "?k < 32" "?k \<le> 31" using assms(2) by auto
  have run: "path_append_nibble p v s = Inr (?q, s)" for s :: 's
    using assms(2) k by (simp add: path_append_nibble_def path_byte_index_def path_new_def Let_def
      even_iff_mod_2_eq_zero)
  have raw: "raw_nibble (path_data ?q) i =
      (if i < path_len p then raw_nibble (path_data p) i else if i = path_len p then v else 0)"
    if "i < 64" for i
  proof (cases "i div 2 = ?k")
    case False
    then have "i < path_len p \<or> path_len p < i" by (auto simp: not_less)
    with False show ?thesis
      using assms(1) that k(1) by (auto simp: path_ok_def raw_nibble_update)
  next
    case True
    then have upd: "raw_nibble (path_data ?q) i = (if even i then high_nibble ?b else low_nibble ?b)"
      using assms(1) that k(1) by (simp add: path_ok_def raw_nibble_update)
    show ?thesis
    proof (cases "even (path_len p)")
      case even: True
      with True have "i = path_len p \<and> even i \<or> i = path_len p + 1 \<and> odd i" by presburger
      with upd even show ?thesis
        using nibbles_of_pair [of v 0] assms(3,4) by auto
    next
      case odd: False
      with True have "i = path_len p \<and> odd i \<or> i + 1 = path_len p \<and> even i" by presburger
      moreover have "raw_nibble (path_data p) i = high_nibble (vector_access (path_data p) ?k)" if "even i"
        using that True by (simp add: raw_nibble_def)
      ultimately show ?thesis
        unfolding upd using odd nibbles_of_pair [OF nibble_range(1,2) assms(3,4)] by auto
    qed
  qed
  define q where "q = ?q"
  have q: "path_len q = path_len p + 1" "length (path_data q) = 32"
    using assms(1) by (simp_all add: q_def path_len_def path_ok_def vector_update_def)
  have raw_q: "i < 64 \<Longrightarrow> raw_nibble (path_data q) i =
      (if i < path_len p then raw_nibble (path_data p) i else if i = path_len p then v else 0)" for i
    unfolding q_def by (rule raw)
  have "path_ok q"
    using assms(2) q raw_q by (auto simp: path_ok_def)
  moreover have "path_nibbles q = path_nibbles p @ [v]"
    using assms(2) q raw_q by (intro nth_equalityI)
      (auto simp: nth_append nth_path_nibbles less_Suc_eq)
  ultimately show ?thesis
    unfolding q_def by (rule gives_pathI [OF run])
qed

lemma gives_path_ret: "path_ok q \<Longrightarrow> gives_path (ret q) (path_nibbles q)"
  by (rule gives_pathI) auto

lemma gives_path_bind:
  assumes "gives_path m ns" and "\<And>q. path_ok q \<Longrightarrow> path_nibbles q = ns \<Longrightarrow> gives_path (f q) ms"
  shows "gives_path (bind m f) ms"
proof -
  from assms(1) obtain q where q: "\<And>s. m s = Inr (q, s)" "path_ok q" "path_nibbles q = ns"
    unfolding gives_path_def by blast
  have "bind m f = f q" using q(1) by (intro ext) (simp add: bind_def)
  with assms(2) q show ?thesis by simp
qed

lemma gives_path_unique:
  "gives_path m (path_nibbles q) \<Longrightarrow> path_ok q \<Longrightarrow> m s = Inr (q, s)"
  unfolding gives_path_def by (metis path_nibbles_inject)

lemma gives_single: "0 \<le> v \<Longrightarrow> v < 16 \<Longrightarrow> gives_path (path_single v) [v]"
  unfolding path_single_def
  by (rule gives_path_bind [OF gives_empty]) (metis append_Nil gives_append length_path_nibbles
    list.size(3) zero_less_numeral)

lemma bind_next_nibble: "i < 64 \<Longrightarrow> bind (next_nibble i) (\<lambda>_. m) = m"
  by (simp add: next_nibble_def)

lemma path_nibbles_range: "v \<in> set (path_nibbles p) \<Longrightarrow> 0 \<le> v \<and> v < 16"
  by (auto simp: path_nibbles_def raw_nibble_range)

lemma path_nibble_snoc:
  "i < path_len p \<Longrightarrow> path_nibble p i # drop (Suc i) (path_nibbles p) = drop i (path_nibbles p)"
  by (simp add: path_nibble_nth Cons_nth_drop_Suc)

lemma gives_concat_from:
  assumes "path_ok b" and "path_ok r" and "path_len r + (path_len b - i) \<le> 64"
  shows "gives_path (path_concat_from b r i :: ('s, trie_path) action) (path_nibbles r @ drop i (path_nibbles b))"
  using assms
proof (induction b r i rule: path_concat_from.induct)
  case (1 b r i)
  show ?case
  proof (cases "i < path_len b")
    case False
    then show ?thesis
      using gives_path_ret [OF "1.prems"(2)] by (subst path_concat_from.simps) simp
  next
    case True
    have "i < 64" using True "1.prems"(1) by (simp add: path_ok_def)
    have step: "gives_path (path_concat_from b q (i + 1) :: ('s, trie_path) action) (path_nibbles r @ drop i (path_nibbles b))"
      if q: "path_ok q" "path_nibbles q = path_nibbles r @ [path_nibble b i]" for q
    proof -
      have "path_len q = path_len r + 1"
        using arg_cong [OF q(2), of length] by simp
      then have "gives_path (path_concat_from b q (i + 1) :: ('s, trie_path) action) (path_nibbles q @ drop (i + 1) (path_nibbles b))"
        using "1.prems" q(1) True by (intro "1.IH" [OF True]) (assumption | linarith)+
      then show ?thesis
        using path_nibble_snoc [OF True] by (simp add: q(2))
    qed
    show ?thesis
      using True "1.prems" \<open>i < 64\<close> step
      by (subst path_concat_from.simps)
        (auto simp: bind_next_nibble path_nibble_range intro!: gives_path_bind [OF gives_append])
  qed
qed

lemma gives_concat:
  assumes "path_ok a" "path_ok b" "path_len a + path_len b \<le> 64"
  shows "gives_path (path_concat a b) (path_nibbles a @ path_nibbles b)"
  using gives_concat_from [OF assms(2,1), of 0] assms(3) by (simp add: path_concat_def)

lemma gives_drop_from:
  assumes "path_ok p" and "path_ok r" and "path_len r + (path_len p - n - i) \<le> 64"
  shows "gives_path (path_drop_from p n r i :: ('s, trie_path) action) (path_nibbles r @ drop (n + i) (path_nibbles p))"
  using assms
proof (induction p n r i rule: path_drop_from.induct)
  case (1 p n r i)
  show ?case
  proof (cases "i < path_len p - n")
    case False
    then show ?thesis
      using gives_path_ret [OF "1.prems"(2)] by (subst path_drop_from.simps) simp
  next
    case True
    have len: "n + i < path_len p" "n + i \<le> 64" "i < 64"
      using True "1.prems"(1) by (auto simp: path_ok_def)
    have step: "gives_path (path_drop_from p n q (i + 1) :: ('s, trie_path) action) (path_nibbles r @ drop (n + i) (path_nibbles p))"
      if q: "path_ok q" "path_nibbles q = path_nibbles r @ [path_nibble p (n + i)]" for q
    proof -
      have "path_len q = path_len r + 1"
        using arg_cong [OF q(2), of length] by simp
      then have "gives_path (path_drop_from p n q (i + 1) :: ('s, trie_path) action)
          (path_nibbles q @ drop (n + (i + 1)) (path_nibbles p))"
        using "1.prems" q(1) True by (intro "1.IH" [OF True refl]) (assumption | linarith)+
      then show ?thesis
        using path_nibble_snoc [OF len(1)] by (simp add: q(2))
    qed
    show ?thesis
      using True "1.prems" len step
      by (subst path_drop_from.simps)
        (auto simp: Let_def bind_next_nibble path_nibble_range intro!: gives_path_bind [OF gives_append])
  qed
qed

lemma gives_drop:
  assumes "path_ok p"
  shows "gives_path (path_drop p n) (drop n (path_nibbles p))"
proof -
  have "gives_path (path_drop_from p n r 0) (drop n (path_nibbles p))"
    if "path_ok r" "path_nibbles r = []" for r
  proof -
    have "path_len r = 0" using arg_cong [OF that(2), of length] by simp
    then have "path_len r + (path_len p - n - 0) \<le> 64"
      using assms unfolding path_ok_def by linarith
    from gives_drop_from [OF assms that(1) this] that(2) show ?thesis by simp
  qed
  then have "gives_path (bind path_empty (\<lambda>r. path_drop_from p n r 0)) (drop n (path_nibbles p))"
    by (rule gives_path_bind [OF gives_empty])
  then show ?thesis
    using gives_empty gives_path_ret [OF assms] by (auto simp: path_drop_def)
qed

section \<open>Comparing paths\<close>

lemma path_matches_from_run:
  assumes "path_len key \<le> 64" and "pos + path_len seg \<le> path_len key"
  shows "path_matches_from key pos seg i s =
    Inr (drop i (path_nibbles seg) = drop i (take (path_len seg) (drop pos (path_nibbles key))), s)"
  using assms
proof (induction key pos seg i rule: path_matches_from.induct)
  case (1 key pos seg i)
  let ?segment = "take (path_len seg) (drop pos (path_nibbles key))"
  show ?case
  proof (cases "i < path_len seg")
    case False
    with "1.prems" show ?thesis by (subst path_matches_from.simps) simp
  next
    case True
    have nth: "path_nibble seg i = path_nibbles seg ! i" "path_nibble key (pos + i) = ?segment ! i"
      using True "1.prems" by (simp_all add: path_nibble_nth)
    have "drop i (path_nibbles seg) = drop i ?segment \<longleftrightarrow>
        path_nibbles seg ! i = ?segment ! i \<and> drop (i + 1) (path_nibbles seg) = drop (i + 1) ?segment"
      using True "1.prems" by (subst (1 2) Cons_nth_drop_Suc [symmetric]) auto
    with True "1.prems" nth "1.IH" show ?thesis
      by (subst path_matches_from.simps) auto
  qed
qed

lemma path_prefix_of_run:
  assumes "path_ok q"
  shows "path_prefix_of p q s = Inr (take (path_len p) (path_nibbles q) = path_nibbles p, s)"
proof (cases "path_len q < path_len p")
  case True
  then have "take (path_len p) (path_nibbles q) \<noteq> path_nibbles p"
    by (metis length_path_nibbles length_take min.strict_order_iff min_def not_less)
  with True show ?thesis by (simp add: path_prefix_of_def path_matches_def)
next
  case False
  with assms show ?thesis
    using path_matches_from_run [of q 0 p 0 s]
    by (auto simp: path_prefix_of_def path_matches_def path_ok_def)
qed

fun common_prefix :: "'a list \<Rightarrow> 'a list \<Rightarrow> 'a list" where
  "common_prefix (x # xs) (y # ys) = (if x = y then x # common_prefix xs ys else [])"
| "common_prefix _ _ = []"

lemma common_prefix_from_run:
  assumes "path_len a \<le> 64" and "stop_at = min (path_len a) (path_len b)"
  shows "common_prefix_length_from a b stop_at i s =
    Inr (i + length (common_prefix (drop i (path_nibbles a)) (drop i (path_nibbles b))), s)"
  using assms
proof (induction a b stop_at i rule: common_prefix_length_from.induct)
  case (1 a b stop_at i)
  show ?case
  proof (cases "i < stop_at")
    case False
    then have "drop i (path_nibbles a) = [] \<or> drop i (path_nibbles b) = []"
      using "1.prems" by auto
    then have "common_prefix (drop i (path_nibbles a)) (drop i (path_nibbles b)) = []"
      by (auto elim: common_prefix.elims)
    with False show ?thesis by (subst common_prefix_length_from.simps) simp
  next
    case True
    then have "i < path_len a" "i < path_len b" "i < 64"
      using "1.prems" by auto
    with True "1.prems" "1.IH" show ?thesis
      by (subst common_prefix_length_from.simps)
        (auto simp: bind_next_nibble path_nibble_nth simp flip: Cons_nth_drop_Suc)
  qed
qed

lemma common_prefix_length_run:
  assumes "path_ok a"
  shows "common_prefix_length a b s =
    Inr (length (common_prefix (path_nibbles a) (path_nibbles b)), s)"
proof -
  have "(if path_len a < path_len b then path_len a else path_len b) = min (path_len a) (path_len b)"
    by simp
  then show ?thesis
    using common_prefix_from_run [of a "min (path_len a) (path_len b)" b 0 s] assms
    by (simp add: common_prefix_length_def path_ok_def del: if_split)
qed

text \<open>C30: the packed paths of the tries are lists of at most 64 nibbles: joining two paths appends
  their nibbles, dropping drops them, the prefix test is the prefix of lists, the length of the
  common prefix is that of the longest common prefix, and the comparison of the packed bytes is
  equality, the joined and dropped paths keeping the invariant; two paths too long to join are a
  fatal error.\<close>

theorem path_operations_are_list_operations:
  assumes "path_ok p" and "path_ok q"
  shows "(if path_len p + path_len q \<le> 64
      then gives_path (path_concat p q) (path_nibbles p @ path_nibbles q)
      else path_concat p q s = Inl SailExit) \<and>
    gives_path (path_drop p n) (drop n (path_nibbles p)) \<and>
    path_prefix_of p q s = Inr (take (path_len p) (path_nibbles q) = path_nibbles p, s) \<and>
    common_prefix_length p q s =
      Inr (length (common_prefix (path_nibbles p) (path_nibbles q)), s) \<and>
    (path_eq p q \<longleftrightarrow> path_nibbles p = path_nibbles q)"
  by (intro conjI gives_drop path_prefix_of_run common_prefix_length_run path_eq_iff assms)
    (simp add: gives_concat [OF assms], simp add: path_concat_def fatal_error_def)

lemma path_operations_are_list_operations_witness:
  "common_prefix_length \<lparr>path_data = replicate 31 0 @ [0x12], path_length = 2\<rparr>
      \<lparr>path_data = replicate 31 0 @ [0x1f], path_length = 2\<rparr> () = Inr (1, ())"
proof -
  let ?p = "\<lparr>path_data = replicate 31 0 @ [0x12], path_length = 2\<rparr>"
  let ?q = "\<lparr>path_data = replicate 31 0 @ [0x1f], path_length = 2\<rparr>"
  have raw: "raw_nibble (replicate 31 0 @ [b]) i =
      (if i = 0 then uint b div 16 else if i = 1 then uint b mod 16 else 0)" if "i < 64" for i b
    using that by (auto simp: raw_nibble_def vector_access_def nth_append nibble_bytes)
  then have ok: "path_ok ?p" "path_ok ?q"
    by (auto simp: path_ok_def path_len_def)
  have "path_nibbles ?p = [1, 2]" "path_nibbles ?q = [1, 15]"
    by (simp_all add: path_nibbles_def path_len_def upt_rec raw)
  then show ?thesis
    using path_operations_are_list_operations [OF ok, of "()" 0, THEN conjunct2, THEN conjunct2,
      THEN conjunct2, THEN conjunct1] by simp
qed

end
