(* ===== verification/Trie_Hex.thy ===== *)
theory Trie_Hex
  imports Trie_Path
begin

text \<open>
  Hex-prefix coding: what \<open>rlp_write_hex_prefix\<close> writes for a path, and that reading the item back
  gives the path and its leaf flag.
\<close>

section \<open>The coding\<close>

fun pack :: "int list \<Rightarrow> bytes" where
  "pack (a # b # rest) = word_of_int (a * 16 + b) # pack rest"
| "pack _ = []"

definition hex_prefix :: "int list \<Rightarrow> bool \<Rightarrow> bytes" where
  "hex_prefix ns is_leaf =
     (let flag = (if is_leaf then 2 else 0) in
      if odd (length ns) then word_of_int ((flag + 1) * 16 + hd ns) # pack (tl ns)
      else word_of_int (flag * 16) # pack ns)"

lemma length_pack: "length (pack ns) = length ns div 2"
  by (induction ns rule: pack.induct) auto

lemma length_hex_prefix: "length (hex_prefix ns is_leaf) = 1 + length ns div 2"
  by (cases ns) (auto simp: hex_prefix_def length_pack Let_def)

definition byte_nibble :: "byte \<Rightarrow> nat \<Rightarrow> int" where
  "byte_nibble b i = (if even i then high_nibble b else low_nibble b)"

lemma nth_pack:
  assumes "even (length ns)" and "\<forall>v \<in> set ns. 0 \<le> v \<and> v < 16" and "i < length ns"
  shows "byte_nibble (pack ns ! (i div 2)) i = ns ! i"
  using assms
proof (induction ns arbitrary: i rule: pack.induct)
  case (1 a b rest)
  then have ab: "high_nibble (word_of_int (a * 16 + b) :: byte) = a"
      "low_nibble (word_of_int (a * 16 + b) :: byte) = b"
    by (intro nibbles_of_pair; simp)+
  consider "i = 0" | "i = 1" | j where "i = Suc (Suc j)"
    by (metis One_nat_def not0_implies_Suc)
  then show ?case
  proof cases
    case 3
    then show ?thesis using "1.IH" [of j] "1.prems" by (simp add: byte_nibble_def)
  qed (use ab in \<open>simp_all add: byte_nibble_def del: of_int_add of_int_mult\<close>)
qed auto

section \<open>Writing\<close>

lemma appends_path_bytes:
  assumes "path_ok p" and "even (path_len p - i)" and "i \<le> path_len p"
  shows "appends (pack (drop i (path_nibbles p))) (write_path_bytes p i :: ('z, unit) kernel)"
  using assms
proof (induction p i rule: write_path_bytes.induct)
  case (1 p i)
  show ?case
  proof (cases "i < path_len p")
    case False
    then show ?thesis by (subst write_path_bytes.simps) auto
  next
    case True
    with "1.prems"(2) have next_in: "i + 1 < path_len p"
      by presburger
    have len: "path_len p \<le> 64" using "1.prems"(1) by (simp add: path_ok_def)
    have index: "i mod 65 = i" "(i + 1) mod 65 = i + 1"
      using next_in len by auto
    have "drop i (path_nibbles p) = path_nibble p i # path_nibble p (i + 1) # drop (i + 2) (path_nibbles p)"
      using path_nibble_snoc [OF True] path_nibble_snoc [OF next_in] by simp
    moreover have "appends (pack (drop (i + 2) (path_nibbles p))) (write_path_bytes p (i + 2) :: ('z, unit) kernel)"
      using "1.IH" [OF True refl refl refl refl len] "1.prems" next_in index by simp
    ultimately show ?thesis
      using True index len
        appends_bind [OF appends_push_byte [of "word_of_int (path_nibble p i * 16 + path_nibble p (i + 1))"]]
      by (subst write_path_bytes.simps) (simp add: Let_def)
  qed
qed

lemma hex_prefix_first:
  assumes "path_ok p"
  shows "hex_prefix_first_byte p is_leaf = hd (hex_prefix (path_nibbles p) is_leaf)"
    and "\<not> bit (hex_prefix_first_byte p is_leaf) 7"
proof -
  have hd_eq: "hd (path_nibbles p) = path_nibble p 0" if "odd (path_len p)"
    using that by (simp add: hd_conv_nth path_nibble_nth odd_pos flip: length_greater_0_conv)
  show "hex_prefix_first_byte p is_leaf = hd (hex_prefix (path_nibbles p) is_leaf)"
    by (auto simp: hex_prefix_first_byte_def hex_prefix_def Let_def hd_eq)
  obtain h l where b: "hex_prefix_first_byte p is_leaf = word_of_int (h * 16 + l)"
    "0 \<le> h" "h < 4" "0 \<le> l" "l < 16"
  proof (cases "odd (path_len p)")
    case True
    then show ?thesis
      using that [of "(if is_leaf then 2 else 0) + 1" "path_nibble p 0"] path_nibble_range [of p 0]
      by (simp add: hex_prefix_first_byte_def)
  next
    case False
    then show ?thesis
      using that [of "if is_leaf then 2 else 0" 0] by (simp add: hex_prefix_first_byte_def)
  qed
  then have "uint (hex_prefix_first_byte p is_leaf) = h * 16 + l"
    by (simp only: uint_word_of_int) simp
  with b have "uint (hex_prefix_first_byte p is_leaf) div 2 ^ 7 = 0"
    by (simp del: of_int_add of_int_mult)
  then have "\<not> bit (uint (hex_prefix_first_byte p is_leaf)) 7"
    by (simp only: bit_iff_odd) simp
  then show "\<not> bit (hex_prefix_first_byte p is_leaf) 7"
    unfolding bit_uint_iff by simp
qed

lemma appends_hex_prefix:
  assumes "path_ok p"
  shows "appends (rlp_string (hex_prefix (path_nibbles p) is_leaf))
    (rlp_write_hex_prefix p is_leaf :: ('z, unit) kernel)"
proof -
  let ?hp = "hex_prefix (path_nibbles p) is_leaf" and ?first = "hex_prefix_first_byte p is_leaf"
  let ?n = "hex_prefix_encoded_length p"
  have n: "?n = int (length ?hp)"
    by (simp add: hex_prefix_encoded_length_def length_hex_prefix)
  have "path_len p \<le> 64" using assms by (simp add: path_ok_def)
  then have range: "word_range ?n"
    by (simp add: word_range_def hex_prefix_encoded_length_def)
  have hp: "?hp = [?first] @ pack (drop (if odd (path_len p) then 1 else 0) (path_nibbles p))"
    using hex_prefix_first(1) [OF assms, of is_leaf]
    by (auto simp: hex_prefix_def Let_def drop_Suc)
  have "appends ((if ?n = 1 \<and> \<not> bit ?first 7 then [] else rlp_prefix 0x80 0xb7 ?n) @ ?hp)
      (rlp_write_hex_prefix p is_leaf :: ('z, unit) kernel)"
    unfolding rlp_write_hex_prefix_def Let_def hp
    by (intro appends_bind appends_string_prefix appends_push_byte appends_path_bytes range assms)
      (auto intro: Suc_leI odd_pos)
  then show ?thesis
    using n hex_prefix_first [OF assms, of is_leaf] by (auto simp: rlp_string_def)
qed

section \<open>Reading back\<close>

lemma region_bytes_sub:
  assumes "0 \<le> slice_bytes sl" "0 \<le> a" "0 \<le> n" "a + n \<le> slice_len sl"
  shows "region_bytes kind \<lparr>slice_bytes = slice_bytes sl + a, slice_len = n\<rparr> s =
    take (nat n) (drop (nat a) (region_bytes kind sl s))"
proof -
  let ?xs = "region_content kind s"
  have "py_slice ?xs (slice_bytes sl + a) (slice_bytes sl + a + n) =
      take (nat n) (drop (nat a + nat (slice_bytes sl)) ?xs)"
    using assms by (subst py_slice_span) (simp_all add: nat_add_distrib add.commute)
  moreover have "py_slice ?xs (slice_bytes sl) (slice_bytes sl + slice_len sl) =
      take (nat (slice_len sl)) (drop (nat (slice_bytes sl)) ?xs)"
    using assms by (simp add: py_slice_span)
  moreover have "nat n \<le> nat (slice_len sl) - nat a"
    using assms by linarith
  ultimately show ?thesis
    by (simp add: region_bytes_def slice_of_def Let_def drop_take)
qed

lemma scratch_byte_run:
  assumes "int (length (region_bytes ScratchRegion sl s)) = slice_len sl" and "0 \<le> i" "i < slice_len sl"
  shows "scratch_byte sl i s = Inr (uint (region_bytes ScratchRegion sl s ! nat i), s)"
  using assms by (simp add: scratch_byte_def scratch_slice_byte_at_def region_byte_def py_item_def
    action_simps Let_def)

text \<open>The nibbles of a word's 32 bytes, and of a byte string loaded into a word.\<close>

lemma div_power_Suc:
  fixes v :: int
  shows "v div 16 ^ Suc n = v div 16 ^ n div 16" and "v div 16 ^ Suc n = v div 16 div 16 ^ n"
proof -
  show "v div 16 ^ Suc n = v div 16 ^ n div 16"
    unfolding power_Suc2 by (simp add: zdiv_zmult2_eq)
  show "v div 16 ^ Suc n = v div 16 div 16 ^ n"
    unfolding power_Suc by (simp add: zdiv_zmult2_eq)
qed

lemma raw_nibble_word:
  assumes "i < 64"
  shows "raw_nibble (word_to_hash v) i = v div 16 ^ (63 - i) mod 16"
proof -
  let ?k = "i div 2"
  have k: "?k < 32" using assms by auto
  have "vector_access (word_to_hash v) ?k = to_bytes_big v 32 ! ?k"
    using assms by (simp add: word_to_hash_def word_to_bytes_big vector_access_def rev_nth)
  also have "\<dots> = word_of_int (v div 256 ^ (31 - ?k))"
    using k by (simp add: to_bytes_big_map drop_bit_eq_div power_mult)
  finally have u: "uint (vector_access (word_to_hash v) ?k) = v div 256 ^ (31 - ?k) mod 256"
    by (simp add: uint_word_of_int)
  have "62 - 2 * ?k = 2 * (31 - ?k)" by simp
  then have p: "(256 :: int) ^ (31 - ?k) = 16 ^ (62 - 2 * ?k)"
    by (simp only: power_mult) simp
  show ?thesis
  proof (cases "even i")
    case True
    then have e: "63 - i = Suc (62 - 2 * ?k)" using assms by (elim evenE) simp
    have "w mod 256 div 16 = w div 16 mod 16" for w :: int
      using zmod_zmult2_eq [of 16 w 16] by simp
    with True show ?thesis
      by (simp only: raw_nibble_def nibble_bytes u p e div_power_Suc(1) if_True simp_thms)
  next
    case False
    then have e: "63 - i = 62 - 2 * ?k" by (elim oddE) simp
    have "w mod 256 mod 16 = w mod 16" for w :: int
      by (simp add: mod_mod_cancel)
    with False show ?thesis
      by (simp only: raw_nibble_def nibble_bytes u p e if_False)
  qed
qed

lemma raw_nibble_bytes:
  assumes "length bs = 32" "i < 64"
  shows "raw_nibble (word_to_hash (from_bytes_big bs)) i = byte_nibble (bs ! (i div 2)) i"
  using assms by (simp add: raw_nibble_def byte_nibble_def word_to_hash_def word_to_bytes_big
    to_from_bytes_big vector_access_def rev_nth)

lemma packed_nibbles:
  assumes "even (length ns)" "length ns \<le> 64" "\<forall>v \<in> set ns. 0 \<le> v \<and> v < 16" "i < 64"
  shows "raw_nibble (word_to_hash (from_bytes_big (ljust_zero (pack ns) 32))) i =
    (if i < length ns then ns ! i else 0)"
proof -
  let ?bs = "ljust_zero (pack ns) 32"
  have "length ?bs = 32"
    using assms(2) by (simp add: length_pack)
  then have "raw_nibble (word_to_hash (from_bytes_big ?bs)) i = byte_nibble (?bs ! (i div 2)) i"
    using assms(4) by (rule raw_nibble_bytes)
  also have "\<dots> = (if i < length ns then ns ! i else 0)"
  proof (cases "i < length ns")
    case True
    then have "i div 2 < length (pack ns)"
      using assms(1) by (auto simp: length_pack)
    with True nth_pack [OF assms(1,3) True] show ?thesis
      by (simp add: ljust_zero_def nth_append)
  next
    case False
    then have "\<not> i div 2 < length (pack ns)"
      by (auto simp: length_pack div_le_mono not_less)
    with False assms(4) show ?thesis
      by (simp add: ljust_zero_def nth_append zeros_def byte_nibble_def nibble_bytes length_pack)
  qed
  finally show ?thesis .
qed

lemma path_of_nibbles:
  assumes "path_ok p" and "length data = 32" and "n = path_len p"
    and "\<And>i. i < 64 \<Longrightarrow> raw_nibble data i = (if i < n then path_nibbles p ! i else 0)"
  shows "path_new data n s = Inr (p, s)"
proof -
  let ?q = "\<lparr>path_data = data, path_length = n\<rparr>"
  have len: "n \<le> 64" using assms(1,3) by (simp add: path_ok_def)
  have "path_ok ?q"
    using assms(2,4) len by (auto simp: path_ok_def path_len_def)
  moreover have "path_nibbles ?q = path_nibbles p"
    using assms(3,4) len by (intro nth_equalityI) (auto simp: nth_path_nibbles path_len_def)
  ultimately have "?q = p"
    using assms(1) by (intro path_nibbles_inject)
  with len show ?thesis by (simp add: path_new_def)
qed

text \<open>The value loaded from the packed part, which may be empty.\<close>

lemma scratch_load_run:
  assumes "int (length (region_bytes ScratchRegion sl s)) = slice_len sl" and "slice_len sl \<le> 32"
  shows "scratch_slice_load sl 0 s = Inr (from_bytes_big (ljust_zero (region_bytes ScratchRegion sl s) 32), s)"
proof (cases "slice_len sl = 0")
  case True
  with assms(1) have "region_bytes ScratchRegion sl s = []" by simp
  then show ?thesis
    using True by (simp add: scratch_slice_load_def ljust_zero_def ZERO_WORD_def)
next
  case False
  with assms show ?thesis
    by (simp add: scratch_slice_load_def scratch_slice_load_word_def load_word_def py_slice_nonneg Let_def)
qed

lemma hex_prefix_decode_run:
  assumes "\<not> rf_is_list f" and "rf_content_len f = n" and "1 \<le> n" "n \<le> 33"
    and "region_sub_slice (rf_source f) (slice_len (rf_source f) - n) n s = Inr (content, s)"
    and "scratch_byte content 0 s = Inr (fb, s)"
    and "region_slice_suffix content 1 s = Inr (tail, s)"
    and "scratch_slice_load tail 0 s = Inr (packed, s)"
    and "path_new data len s = Inr (p, s)"
    and "if odd (fb div 16)
      then (n - 1) * 2 < 64 \<and> len = nat ((n - 1) * 2) + 1 \<and>
        data = vector_update (word_to_hash (word_shift_right packed 4)) 0
          (word_of_int (fb mod 16 * 16 +
            low_nibble (vector_access (word_to_hash (word_shift_right packed 4)) 0)))
      else len = nat ((n - 1) * 2) \<and> data = word_to_hash packed"
  shows "scratch_hex_prefix_decode_ref f s = Inr ((odd (fb div 16 div 2), p), s)"
proof -
  have "\<not> 33 < n" "n \<noteq> 0" using assms(3,4) by simp_all
  then show ?thesis
    using assms(1,2,9,10)
    by (cases "odd (fb div 16)")
      (auto simp: scratch_hex_prefix_decode_ref_def Let_def bind_run assms(5-8)
        HEX_PREFIX_MAX_LENGTH_def)
qed

lemma region_slice_inside:
  "valid_range off len \<Longrightarrow> region_slice off len s = Inr (\<lparr>slice_bytes = off, slice_len = len\<rparr>, s)"
  by (simp add: region_slice_def)

lemma shifted_nibbles:
  assumes "odd (length ns)" "length ns \<le> 64" "\<forall>v \<in> set ns. 0 \<le> v \<and> v < 16" "i < 64"
  defines "v \<equiv> from_bytes_big (ljust_zero (pack (tl ns)) 32)"
  shows "raw_nibble (vector_update (word_to_hash (word_shift_right v 4)) 0
      (word_of_int (hd ns * 16 + low_nibble (vector_access (word_to_hash (word_shift_right v 4)) 0)))) i =
    (if i < length ns then ns ! i else 0)"
proof -
  have ns: "ns = hd ns # tl ns" "0 \<le> hd ns" "hd ns < 16"
    using assms(1,3) by (cases ns; simp)+
  have v: "0 \<le> v" "v < 256 ^ 32"
    using from_bytes_big_bound [of "ljust_zero (pack (tl ns)) 32"] assms(2)
    by (simp_all add: length_pack v_def)
  then have "bits 256 v = v" "bits 256 (v div 16) = v div 16"
    by (intro bits_id; simp)+
  then have shift: "word_shift_right v 4 = v div 16"
    by (simp add: word_shift_right_def drop_bit_eq_div)
  have nib: "raw_nibble (word_to_hash (v div 16)) (Suc j) = raw_nibble (word_to_hash v) j" if "j < 63" for j
  proof -
    have "63 - j = Suc (63 - Suc j)" using that by simp
    then have "v div 16 ^ (63 - j) = v div 16 div 16 ^ (63 - Suc j)"
      by (simp only: div_power_Suc(2))
    with that show ?thesis by (simp add: raw_nibble_word)
  qed
  have rest: "raw_nibble (word_to_hash v) j = (if j < length (tl ns) then tl ns ! j else 0)" if "j < 64" for j
    unfolding v_def
  proof (rule packed_nibbles)
    show "\<forall>w \<in> set (tl ns). 0 \<le> w \<and> w < 16"
      using assms(3) ns(1) by (metis list.set_intros(2))
  qed (use assms(1,2) that in \<open>simp_all add: even_diff_nat\<close>)
  have low: "low_nibble (vector_access (word_to_hash (v div 16)) 0) = raw_nibble (word_to_hash (v div 16)) (Suc 0)"
    by (simp add: raw_nibble_def)
  show ?thesis
  proof (cases i)
    case 0
    then show ?thesis
      using assms(1) ns(2,3) nibbles_of_pair(1) [OF ns(2,3) nibble_range(3,4)]
      by (simp add: raw_nibble_update shift hd_conv_nth del: of_int_add of_int_mult) (metis odd_pos hd_conv_nth length_greater_0_conv)
  next
    case (Suc j)
    have "raw_nibble (vector_update (word_to_hash (v div 16)) 0
        (word_of_int (hd ns * 16 + low_nibble (vector_access (word_to_hash (v div 16)) 0)))) i =
      raw_nibble (word_to_hash (v div 16)) i"
      using Suc assms(4) nibbles_of_pair(2) [OF ns(2,3) nibble_range(3,4)]
      by (cases "j = 0") (auto simp: raw_nibble_update simp flip: low simp del: of_int_add of_int_mult)
    also have "\<dots> = (if i < length ns then ns ! i else 0)"
      using Suc assms(4) nib [of j] rest [of j] by (auto simp: nth_tl)
    finally show ?thesis by (simp add: shift)
  qed
qed

section \<open>The round trip\<close>

lemma nibble_split:
  fixes x :: int
  shows "0 \<le> x \<Longrightarrow> x < 16 \<Longrightarrow> (a * 16 + x) div 16 = a \<and> (a * 16 + x) mod 16 = x"
  by simp

lemma hex_prefix_decoded:
  assumes p: "path_ok p" and f: "\<not> rf_is_list f" "rf_content_len f = int (length hp)"
    and hp: "hp = hex_prefix (path_nibbles p) is_leaf"
    and src: "region_bytes ScratchRegion (rf_source f) s = before @ hp"
      "slice_len (rf_source f) = int (length (before @ hp))"
      "valid_range (slice_bytes (rf_source f)) (slice_len (rf_source f))"
  shows "scratch_hex_prefix_decode_ref f s = Inr ((is_leaf, p), s)"
proof -
  let ?ns = "path_nibbles p" and ?off = "slice_bytes (rf_source f) + int (length before)"
  let ?flag = "if is_leaf then 2 else 0 :: int"
  let ?packed = "from_bytes_big (ljust_zero (tl hp) 32)"
  define content where "content = \<lparr>slice_bytes = ?off, slice_len = int (length hp)\<rparr>"
  define tail where "tail = \<lparr>slice_bytes = ?off + 1, slice_len = int (length hp) - 1\<rparr>"
  have len: "length hp = 1 + path_len p div 2" "path_len p \<le> 64" "length hp \<le> 33" "length ?ns \<le> 64"
    using p by (auto simp: hp length_hex_prefix path_ok_def)
  have range: "\<forall>v \<in> set ?ns. 0 \<le> v \<and> v < 16"
    using path_nibbles_range by auto
  have off: "0 \<le> slice_bytes (rf_source f)"
    using src(3) by (simp add: valid_range_def)
  have content_bytes: "region_bytes ScratchRegion content s = hp"
    unfolding content_def using off src(1,2) by (subst region_bytes_sub) simp_all
  have tail_bytes: "region_bytes ScratchRegion tail s = tl hp"
    using off content_bytes len(1) region_bytes_sub [of content 1 "int (length hp) - 1" ScratchRegion s]
    by (simp add: drop_Suc nat_diff_distrib content_def tail_def)
  have "hp \<noteq> []" using len(1) by auto
  then have first: "scratch_byte content 0 s = Inr (uint (hd hp), s)"
    using scratch_byte_run [of content s 0] content_bytes
    by (simp add: content_def hd_conv_nth)
  have packed: "scratch_slice_load tail 0 s = Inr (?packed, s)"
    using scratch_load_run [of tail s] tail_bytes len(1,3) by (simp add: tail_def)
  have slices: "region_sub_slice (rf_source f) (slice_len (rf_source f) - int (length hp)) (int (length hp)) s =
      Inr (content, s)" "region_slice_suffix content 1 s = Inr (tail, s)"
    using src(2,3) len(1)
    by (simp_all add: region_sub_slice_def region_slice_suffix_def region_slice_def valid_range_def
      content_def tail_def)
  have hd_range: "0 \<le> hd ?ns \<and> hd ?ns < 16" if "odd (path_len p)"
  proof -
    have "?ns \<noteq> []" using that by (metis length_path_nibbles list.size(3) even_zero)
    with range show ?thesis by simp
  qed
  have fb: "uint (hd hp) = (if odd (path_len p) then (?flag + 1) * 16 + hd ?ns else ?flag * 16)"
  proof (cases "odd (path_len p)")
    case True
    then have "0 \<le> hd ?ns" "hd ?ns < 16" using hd_range by auto
    moreover have "hd hp = word_of_int ((?flag + 1) * 16 + hd ?ns)"
      using True by (simp add: hp hex_prefix_def Let_def)
    ultimately show ?thesis
      using True by (simp only: uint_word_of_int) auto
  qed (simp add: hp hex_prefix_def)
  have flag: "odd (uint (hd hp) div 16) = odd (path_len p)" "odd (uint (hd hp) div 16 div 2) = is_leaf"
    and low: "odd (path_len p) \<Longrightarrow> uint (hd hp) mod 16 = hd ?ns"
    using hd_range nibble_split [of "hd ?ns" "?flag + 1"] by (cases is_leaf; auto simp: fb)+
  define data where "data = (if odd (path_len p)
    then vector_update (word_to_hash (word_shift_right ?packed 4)) 0
      (word_of_int (hd ?ns * 16 + low_nibble (vector_access (word_to_hash (word_shift_right ?packed 4)) 0)))
    else word_to_hash ?packed)"
  have "raw_nibble data i = (if i < path_len p then ?ns ! i else 0)" if "i < 64" for i
    using that shifted_nibbles [of ?ns i] packed_nibbles [of ?ns i] range len(4)
    by (auto simp: data_def hp hex_prefix_def Let_def)
  then have path: "path_new data (path_len p) s = Inr (p, s)"
    using p by (intro path_of_nibbles) (auto simp: data_def vector_update_def)
  have size: "1 \<le> int (length hp)" "int (length hp) \<le> 33"
    using len(1,3) by simp_all
  have shape: "if odd (uint (hd hp) div 16)
      then (int (length hp) - 1) * 2 < 64 \<and> path_len p = nat ((int (length hp) - 1) * 2) + 1 \<and>
        data = vector_update (word_to_hash (word_shift_right ?packed 4)) 0
          (word_of_int (uint (hd hp) mod 16 * 16 +
            low_nibble (vector_access (word_to_hash (word_shift_right ?packed 4)) 0)))
      else path_len p = nat ((int (length hp) - 1) * 2) \<and> data = word_to_hash ?packed"
    using len(1,2) low by (auto simp: flag(1) data_def nat_mult_distrib elim!: oddE)
  show ?thesis
    using hex_prefix_decode_run [OF f size slices(1) first slices(2) packed path shape]
    by (simp add: flag(2))
qed

lemma short_string_header:
  assumes bytes: "region_bytes ScratchRegion sl s = rlp_string bs" and len: "slice_len sl = int (length (rlp_string bs))"
    and sl: "valid_range (slice_bytes sl) (slice_len sl)" and bs: "bs \<noteq> []" "length bs \<le> 55"
  shows "\<exists>before. rlp_string bs = before @ bs \<and>
    scratch_rlp_single_ref sl s =
      Inr (\<lparr>rf_source = sl, rf_is_list = False, rf_content_len = int (length bs)\<rparr>, s)"
proof (cases "length bs = 1 \<and> \<not> bit (hd bs) 7")
  case True
  then obtain b where b: "bs = [b]" "\<not> bit b 7"
    by (cases bs) auto
  have "\<not> bit (uint b) 7" unfolding bit_uint_iff using b(2) by simp
  then have "even (uint b div 128)" by (simp add: bit_iff_odd)
  moreover have "uint b div 128 \<le> 1"
    using unsigned_less [where 'a = int, of b] zdiv_mono1 [of "uint b" 255 128] by simp
  moreover have "even k \<Longrightarrow> k \<le> 1 \<Longrightarrow> \<not> 1 \<le> k" for k :: int
    by presburger
  ultimately have "\<not> 1 \<le> uint b div 128" by blast
  then have "uint b < 128" using zdiv_mono1 [of 128 "uint b" 128] by (auto simp: not_less)
  with b bytes len sl show ?thesis
    by (intro exI [of _ "[]"]) (simp add: rlp_string_def scratch_rlp_single_ref_def scratch_rlp_ref_hdr_def
      Let_def action_simps scratch_byte_run rlp_field_ref_def)
next
  case False
  let ?h = "0x80 + word_of_int (int (length bs)) :: byte"
  have s: "rlp_string bs = [?h] @ bs"
    using False bs(2) by (auto simp: rlp_string_def rlp_prefix_def)
  have "?h = word_of_int (128 + int (length bs))" by simp
  then have "uint ?h = 128 + int (length bs)"
    using bs(2) by (simp only: uint_word_of_int) simp
  moreover have "0 < length bs" using bs(1) by simp
  ultimately show ?thesis
    using bs(2) bytes len sl s
    by (intro exI [of _ "[?h]"]) (simp add: scratch_rlp_single_ref_def scratch_rlp_ref_hdr_def
      Let_def action_simps scratch_byte_run rlp_field_ref_def del: of_int_of_nat_eq)
qed

text \<open>C0: the hex-prefix coding of a path with its leaf flag, as \<open>rlp_write_hex_prefix\<close> puts it
  into the scratch region, is the RLP string of the coding of the specification, and the readers
  of the scratch region give the same path and flag back, for every path of at most 64 nibbles.\<close>

theorem hex_prefix_round_trip:
  assumes "path_ok p" and "room s 34"
  shows "\<exists>sl t. bind scratch_begin (\<lambda>mark.
      bind (rlp_write_hex_prefix p is_leaf) (\<lambda>_. scratch_finish mark)) s = Inr (sl, t) \<and>
    region_bytes ScratchRegion sl t = rlp_string (hex_prefix (path_nibbles p) is_leaf) \<and>
    bind (scratch_rlp_single_ref sl) scratch_hex_prefix_decode_ref t = Inr ((is_leaf, p), t)"
proof -
  define hp where "hp = hex_prefix (path_nibbles p) is_leaf"
  have len: "length hp \<le> 33" "hp \<noteq> []"
    using assms(1) by (auto simp: hp_def length_hex_prefix path_ok_def simp flip: length_greater_0_conv)
  then have size: "length (rlp_string hp) \<le> 34"
    by (auto simp: rlp_string_def rlp_prefix_def)
  have ok: "arena_ok s" using assms(2) by (simp add: room_def)
  have "room s (length (rlp_string hp))"
    using assms(2) size by (simp add: room_def)
  with appends_hex_prefix [OF assms(1), of is_leaf, folded hp_def] obtain t where
    t: "rlp_write_hex_prefix p is_leaf s = Inr ((), t)" "arena_ok t" "arena_only s t"
      "arena_bytes t = arena_bytes s @ rlp_string hp"
    by (rule appendsD)
  let ?sl = "\<lparr>slice_bytes = int (length (arena_bytes s)), slice_len = int (length (rlp_string hp))\<rparr>"
  have mark: "slice_len (scratch_arena s) = int (length (arena_bytes s))"
    using length_arena_bytes [OF ok] by simp
  have arena: "slice_len (scratch_arena t) = int (length (arena_bytes s)) + int (length (rlp_string hp))"
    using length_arena_bytes [OF t(2)] t(4) by simp
  have finish: "scratch_finish (slice_len (scratch_arena s)) t = Inr (?sl, t)"
    using t(2) arena mark by (simp add: scratch_finish_def region_sub_slice_def region_slice_def
      valid_range_def action_simps Let_def arena_ok_def)
  have bytes: "region_bytes ScratchRegion ?sl t = rlp_string hp"
    using scratch_finish_run [OF t(2,4)] finish mark by auto
  have valid: "valid_range (slice_bytes ?sl) (slice_len ?sl)"
    using t(2) arena by (simp add: valid_range_def arena_ok_def)
  obtain before where before: "rlp_string hp = before @ hp"
    "scratch_rlp_single_ref ?sl t =
      Inr (\<lparr>rf_source = ?sl, rf_is_list = False, rf_content_len = int (length hp)\<rparr>, t)"
    using short_string_header [OF bytes _ valid] len by auto
  have "scratch_hex_prefix_decode_ref
      \<lparr>rf_source = ?sl, rf_is_list = False, rf_content_len = int (length hp)\<rparr> t = Inr ((is_leaf, p), t)"
    using bytes valid before(1) by (intro hex_prefix_decoded assms(1)) (simp_all add: hp_def)
  with before(2) finish t(1) bytes show ?thesis
    by (intro exI [of _ ?sl] exI [of _ t]) (simp add: bind_run scratch_begin_def hp_def)
qed

lemma hex_prefix_round_trip_witness:
  "\<exists>p sl t. path_nibbles p = [1, 2, 3] \<and> bind scratch_begin (\<lambda>mark.
      bind (rlp_write_hex_prefix p True) (\<lambda>_. scratch_finish mark)) initial_kernel_state = Inr (sl, t) \<and>
    region_bytes ScratchRegion sl t = [0x82, 0x31, 0x23] \<and>
    bind (scratch_rlp_single_ref sl) scratch_hex_prefix_decode_ref t = Inr ((True, p), t)"
proof -
  let ?p = "\<lparr>path_data = replicate 30 0 @ [0x30, 0x12], path_length = 3\<rparr>"
  have raw: "raw_nibble (replicate 30 0 @ [0x30, 0x12]) i =
      (if i = 0 then 1 else if i = 1 then 2 else if i = 2 then 3 else 0)" if "i < 64" for i
  proof -
    consider "i = 0" | "i = 1" | "i = 2" | "i = 3" | "3 < i" by linarith
    then show ?thesis
      using that by cases (simp_all add: raw_nibble_def vector_access_def nth_append nibble_bytes)
  qed
  then have ok: "path_ok ?p"
    by (simp add: path_ok_def path_len_def)
  have nibbles: "path_nibbles ?p = [1, 2, 3]"
    by (simp add: path_nibbles_def path_len_def upt_rec raw)
  have "room initial_kernel_state 34"
    by (simp add: room_def arena_ok_def EMPTY_SLICE_def initial_kernel_state_def host_state.defs
      initial_host_state_def)
  from hex_prefix_round_trip [OF ok this, of True] nibbles show ?thesis
    by (intro exI [of _ ?p]) (simp add: hex_prefix_def rlp_string_def rlp_prefix_def)
qed

end
