(* ===== verification/Index_Laws.thy ===== *)
theory Index_Laws
  imports Payload Trie_Hex
begin

text \<open>
  The keys of the index tries: the key of an index is the RLP string of the number, and a cursor
  visits every index exactly once, in the order of the keys.
\<close>

section \<open>Keys\<close>

definition byte_nibbles :: "bytes \<Rightarrow> int list" where
  "byte_nibbles bs = concat (map (\<lambda>b. [high_nibble b, low_nibble b]) bs)"

definition index_key_bytes :: "int \<Rightarrow> bytes" where
  "index_key_bytes i = rlp_string (be_bytes i)"

lemma byte_nibbles_simps [simp]:
  "byte_nibbles [] = []" "byte_nibbles (b # bs) = high_nibble b # low_nibble b # byte_nibbles bs"
  "byte_nibbles (xs @ ys) = byte_nibbles xs @ byte_nibbles ys"
  by (simp_all add: byte_nibbles_def)

lemma length_byte_nibbles [simp]: "length (byte_nibbles bs) = 2 * length bs"
  by (induction bs) auto

lemma gives_append_byte:
  assumes "path_ok p" and "path_len p \<le> 62"
  shows "gives_path (path_append_byte p b) (path_nibbles p @ byte_nibbles [b])"
proof -
  have "gives_path (path_append_nibble q (low_nibble b)) (path_nibbles p @ byte_nibbles [b])"
    if q: "path_ok q" "path_nibbles q = path_nibbles p @ [high_nibble b]" for q
  proof -
    have "path_len q = path_len p + 1"
      using arg_cong [OF q(2), of length] by simp
    then show ?thesis
      using gives_append [of q "low_nibble b"] q assms(2) nibble_range [of b] by simp
  qed
  then show ?thesis
    unfolding path_append_byte_def using assms nibble_range [of b]
    by (intro gives_path_bind [OF gives_append]) auto
qed

lemma gives_index_bytes:
  assumes "path_ok p" and "path_len p + 2 * n \<le> 64"
  shows "gives_path (path_append_index_bytes index n p :: ('s, trie_path) action) (path_nibbles p @ byte_nibbles (to_bytes_big index n))"
  using assms
proof (induction n arbitrary: p)
  case 0
  then show ?case
    unfolding path_append_index_bytes.simps to_bytes_big.simps byte_nibbles_simps append_Nil2
    by (intro gives_path_ret)
next
  case (Suc n)
  let ?b = "word_of_int (drop_bit (8 * n) index) :: byte"
  have split: "to_bytes_big index (Suc n) = ?b # to_bytes_big index n"
    by (simp add: to_bytes_big_map map_upt_Suc del: to_bytes_big.simps upt_Suc)
  have "gives_path (path_append_index_bytes index n q :: ('s, trie_path) action) (path_nibbles p @ byte_nibbles (?b # to_bytes_big index n))"
    if q: "path_ok q" "path_nibbles q = path_nibbles p @ byte_nibbles [?b]" for q
  proof -
    have "path_len q = path_len p + 2"
      using arg_cong [OF q(2), of length] by simp
    then show ?thesis
      using Suc.IH [of q] q Suc.prems(2) by simp
  qed
  then show ?case
    unfolding split path_append_index_bytes.simps using Suc.prems
    by (intro gives_path_bind [OF gives_append_byte]) auto
qed

text \<open>The bytes of a number without leading zeros, by its width.\<close>

lemma be_bytes_width:
  assumes "0 < v" and "v < 256 ^ n" and "256 ^ n \<le> v * 256"
  shows "be_bytes v = to_bytes_big v n"
  using assms
proof (induction n arbitrary: v)
  case 0
  then show ?case by simp
next
  case (Suc n)
  show ?case
  proof (cases "n = 0")
    case True
    with Suc.prems show ?thesis by (simp add: be_bytes.simps [of v])
  next
    case False
    then have "256 \<le> v"
      using Suc.prems(3) power_increasing [of 2 "Suc n" "256 :: int"] by simp
    then have pos: "0 < v div 256" by (simp add: pos_imp_zdiv_pos_iff)
    moreover have "v div 256 < 256 ^ n"
      using Suc.prems(2) by (simp add: div_less_iff_less_mult mult.commute)
    moreover have "256 ^ n \<le> v div 256 * 256"
    proof -
      have "256 ^ n \<le> v" using Suc.prems(3) by simp
      moreover obtain m where "n = Suc m" using False by (cases n) auto
      ultimately have "256 ^ m \<le> v div 256"
        using zdiv_mono1 [of "256 ^ m * 256" v 256] by simp
      then show ?thesis using \<open>n = Suc m\<close> by simp
    qed
    ultimately have "be_bytes (v div 256) = to_bytes_big (v div 256) n" by (rule Suc.IH)
    then show ?thesis using Suc.prems(1) by (simp add: be_bytes.simps [of v])
  qed
qed

lemma index_key_cases:
  assumes "0 \<le> i" and "i < 2 ^ 20"
  shows "index_key_bytes i =
    (if i = 0 then [0x80] else if i \<le> 127 then [word_of_int i]
     else word_of_int (128 + int (rlp_index_encoded_width i)) # to_bytes_big i (rlp_index_encoded_width i))"
proof -
  consider "i = 0" | "1 \<le> i" "i \<le> 127" | "128 \<le> i" using assms(1) by linarith
  then show ?thesis
  proof cases
    case 2
    have be: "be_bytes i = [word_of_int i]"
      using be_bytes_width [of i 1] 2 by simp
    have "uint (word_of_int i :: byte) = i"
      using 2 by (simp add: uint_word_of_int)
    then have "\<not> bit (uint (word_of_int i :: byte)) 7"
      using 2 by (simp only: bit_iff_odd) simp
    then have "\<not> bit (word_of_int i :: byte) 7"
      unfolding bit_uint_iff by simp
    with 2 be show ?thesis by (simp add: index_key_bytes_def rlp_string_def)
  next
    case 3
    let ?w = "rlp_index_encoded_width i"
    have w: "?w \<in> {1, 2, 3}" "i < 256 ^ ?w" "256 ^ ?w \<le> i * 256"
      using 3 assms(2) by (auto simp: rlp_index_encoded_width_def)
    then have be: "be_bytes i = to_bytes_big i ?w"
      using 3 by (intro be_bytes_width) auto
    have "bit (hd (to_bytes_big i ?w)) 7" if "?w = 1"
    proof -
      have small: "i < 256" using w(2) that by simp
      then have "uint (word_of_int i :: byte) = i" using 3 by (simp add: uint_word_of_int)
      moreover have "i div 128 = 1" using 3 small by linarith
      ultimately have "bit (uint (word_of_int i :: byte)) 7" by (simp only: bit_iff_odd) simp
      then have "bit (word_of_int i :: byte) 7" unfolding bit_uint_iff by simp
      with that show ?thesis by simp
    qed
    with 3 w(1) be show ?thesis
      by (auto simp: index_key_bytes_def rlp_string_def rlp_prefix_def)
  qed (simp add: index_key_bytes_def rlp_string_def rlp_prefix_def)
qed

lemma gives_index_key:
  assumes "0 \<le> i" and "i < 2 ^ 20"
  shows "gives_path (trie_index_key i) (byte_nibbles (index_key_bytes i))"
proof -
  let ?w = "rlp_index_encoded_width i"
  have w: "?w \<le> 8" by (simp add: rlp_index_encoded_width_def)
  have byte: "gives_path (path_append_byte e b) (byte_nibbles [b])" if "path_ok e" "path_nibbles e = []" for e b
  proof -
    have "path_len e = 0" using arg_cong [OF that(2), of length] by simp
    then show ?thesis using gives_append_byte [of e b] that by simp
  qed
  have bytes: "gives_path (path_append_index_bytes i ?w q) (byte_nibbles (b # to_bytes_big i ?w))"
    if "path_ok q" "path_nibbles q = byte_nibbles [b]" for q b
  proof -
    have "path_len q = 2" using arg_cong [OF that(2), of length] by simp
    then show ?thesis using gives_index_bytes [of q ?w i] that w by simp
  qed
  show ?thesis
    unfolding trie_index_key_def index_key_cases [OF assms] Let_def
    by (rule gives_path_bind [OF gives_empty])
      (simp only: split: if_split, auto intro!: byte bytes gives_path_bind [OF byte] simp del: byte_nibbles_simps)
qed

section \<open>The order of the keys\<close>

definition byte_order :: "(byte \<times> byte) set" where
  "byte_order = {(a, b). uint a < uint b}"

lemma big_endian_order:
  assumes "0 \<le> i" and "i < j" and "j < 256 ^ n"
  shows "(to_bytes_big i n, to_bytes_big j n) \<in> lexord byte_order"
  using assms
proof (induction n arbitrary: i j)
  case 0
  then show ?case by simp
next
  case (Suc n)
  have range: "j div 256 < 256 ^ n"
    using Suc.prems(3) by (simp add: div_less_iff_less_mult mult.commute)
  have "i div 256 \<le> j div 256" using Suc.prems(2) by (simp add: zdiv_mono1)
  then consider "i div 256 < j div 256" | "i div 256 = j div 256" by linarith
  then show ?case
  proof cases
    case 1
    then have "(to_bytes_big (i div 256) n, to_bytes_big (j div 256) n) \<in> lexord byte_order"
      using Suc.prems(1) range by (intro Suc.IH) (simp_all add: pos_imp_zdiv_nonneg_iff)
    then show ?thesis by (simp add: lexord_sufI)
  next
    case 2
    then have "i mod 256 < j mod 256"
      using Suc.prems(2) div_mult_mod_eq [of i 256] div_mult_mod_eq [of j 256] by linarith
    then have "([word_of_int i], [word_of_int j]) \<in> lexord byte_order"
      by (simp add: byte_order_def uint_word_of_int)
    with 2 show ?thesis by (simp add: lexord_append_leftI)
  qed
qed

lemma index_key_order:
  assumes "a < 2 ^ 20" "b < 2 ^ 20"
    and "1 \<le> a \<and> a < b \<and> b \<le> 127 \<or> 1 \<le> a \<and> a \<le> 127 \<and> (b = 0 \<or> 128 \<le> b) \<or>
      a = 0 \<and> 128 \<le> b \<or> 128 \<le> a \<and> a < b"
  shows "(index_key_bytes a, index_key_bytes b) \<in> lexord byte_order"
proof -
  have small: "uint (word_of_int v :: byte) = v" if "0 \<le> v" "v < 256" for v
    using that by (simp add: uint_word_of_int)
  have width: "rlp_index_encoded_width v \<in> {1, 2, 3}" if "v < 2 ^ 20" for v
    using that by (auto simp: rlp_index_encoded_width_def)
  have head: "128 < uint (hd (index_key_bytes v))" "index_key_bytes v \<noteq> []" if "128 \<le> v" "v < 2 ^ 20" for v
    using that width [of v] index_key_cases [of v] by auto
  consider "1 \<le> a" "a < b" "b \<le> 127" | "1 \<le> a" "a \<le> 127" "b = 0" | "0 \<le> a" "a \<le> 127" "128 \<le> b"
    | "128 \<le> a" "a < b"
    using assms(3) by linarith
  then show ?thesis
  proof cases
    case 3
    have "\<exists>x. index_key_bytes a = [x] \<and> uint x \<le> 128"
      using 3 index_key_cases [of a] small [of a] by auto
    then obtain x where "index_key_bytes a = [x]" "uint x \<le> 128" by blast
    with head [OF 3(3) assms(2)] show ?thesis
      by (cases "index_key_bytes b") (auto simp: byte_order_def)
  next
    case 4
    let ?v = "rlp_index_encoded_width a" and ?w = "rlp_index_encoded_width b"
    have keys: "index_key_bytes a = word_of_int (128 + int ?v) # to_bytes_big a ?v"
      "index_key_bytes b = word_of_int (128 + int ?w) # to_bytes_big b ?w"
      using 4 assms(1,2) index_key_cases [of a] index_key_cases [of b] by auto
    have le: "?v \<le> ?w" using 4 by (simp add: rlp_index_encoded_width_def)
    show ?thesis
    proof (cases "?v = ?w")
      case True
      have "b < 256 ^ ?w"
        using assms(2) by (auto simp: rlp_index_encoded_width_def)
      with 4 True keys show ?thesis
        using big_endian_order [of a b ?w] by simp
    next
      case False
      with le width [OF assms(1)] width [OF assms(2)] show ?thesis
        unfolding keys by (auto simp: byte_order_def)
    qed
  qed (use small [of a] small [of b] assms index_key_cases [of a] index_key_cases [of b] in
    \<open>auto simp: byte_order_def\<close>)
qed

section \<open>The cursor\<close>

definition index_at :: "int \<Rightarrow> int \<Rightarrow> int" where
  "index_at count position =
     (let single = min (count - 1) 127 in
      if position < single then position + 1 else if position = single then 0 else position)"

text \<open>Items popped one after the other, and the cursor that is left.\<close>

fun index_pops :: "nat \<Rightarrow> rlp_index_cursor \<Rightarrow> ('s, rlp_index_item list \<times> rlp_index_cursor) action" where
  "index_pops 0 cursor = ret ([], cursor)"
| "index_pops (Suc n) cursor =
     bind (rlp_index_cursor_pop cursor) (\<lambda>(item, next).
     bind (index_pops n next) (\<lambda>(items, final). ret (item # items, final)))"

definition item_ok :: "rlp_index_item \<Rightarrow> bool" where
  "item_ok item \<longleftrightarrow> path_ok (rii_key item) \<and>
     path_nibbles (rii_key item) = byte_nibbles (index_key_bytes (rii_index item))"

definition stands_at :: "int \<Rightarrow> int \<Rightarrow> rlp_index_cursor \<Rightarrow> bool" where
  "stands_at count position cursor \<longleftrightarrow> ric_count cursor = count \<and> ric_position cursor = position \<and>
     (position < count \<longrightarrow> rii_index (ric_current cursor) = index_at count position \<and>
       item_ok (ric_current cursor))"

lemma index_at_range:
  "0 \<le> p \<Longrightarrow> p < count \<Longrightarrow> 0 \<le> index_at count p \<and> index_at count p < count"
  by (auto simp: index_at_def Let_def min_def)

lemma cursor_at_run:
  assumes "0 \<le> p" and "p \<le> count" and "count \<le> 2 ^ 20"
  shows "\<exists>cursor. rlp_index_cursor_at count p (p < count) s = Inr (cursor, s) \<and> stands_at count p cursor"
proof -
  obtain e where e: "\<And>s :: 'a. path_empty s = Inr (e, s)"
    using gives_empty unfolding gives_path_def by blast
  let ?no = "\<lparr>rii_index = 0, rii_key = e\<rparr>"
  let ?cursor = "\<lparr>ric_count = count, ric_position = p, ric_current = ?no\<rparr>"
  have base: "rlp_index_item 0 e s = Inr (?no, s)" "rlp_index_cursor_fields count p ?no s = Inr (?cursor, s)"
    using assms by (simp_all add: rlp_index_item_def rlp_index_cursor_fields_def RLP_INDEX_MAXIMUM_def)
  show ?thesis
  proof (cases "p < count")
    case False
    then show ?thesis
      using base e by (simp add: rlp_index_cursor_at_def bind_run stands_at_def)
  next
    case True
    let ?i = "index_at count p"
    have i: "0 \<le> ?i" "?i < 2 ^ 20" using index_at_range [OF assms(1) True] assms(3) by auto
    have at: "rlp_index_at_position ?cursor s = Inr (?i, s)"
      using True assms(1) by (auto simp: rlp_index_at_position_def index_at_def Let_def min_def)
    obtain k where k: "\<And>s :: 'a. trie_index_key ?i s = Inr (k, s)" "path_ok k"
      "path_nibbles k = byte_nibbles (index_key_bytes ?i)"
      using gives_index_key [OF i] unfolding gives_path_def by blast
    have "rlp_index_item ?i k s = Inr (\<lparr>rii_index = ?i, rii_key = k\<rparr>, s)"
      using i by (simp add: rlp_index_item_def RLP_INDEX_MAXIMUM_def)
    with True base at e k show ?thesis
      by (simp add: rlp_index_cursor_at_def bind_run stands_at_def item_ok_def)
  qed
qed

lemma index_pops_run:
  assumes "stands_at count p cursor" and "0 \<le> p" and "p + int n = count" and "count \<le> 2 ^ 20"
  shows "\<exists>items final. index_pops n cursor s = Inr ((items, final), s) \<and>
    map rii_index items = map (index_at count) (map int [nat p..<nat count]) \<and>
    list_all item_ok items \<and> rlp_index_cursor_empty final"
  using assms
proof (induction n arbitrary: p cursor)
  case 0
  then show ?case by (simp add: stands_at_def rlp_index_cursor_empty_def)
next
  case (Suc n)
  have inside: "p < count" using Suc.prems(3) by simp
  from cursor_at_run [of "p + 1" count s] Suc.prems inside obtain following where
    following: "rlp_index_cursor_at count (p + 1) (p + 1 < count) s = Inr (following, s)" "stands_at count (p + 1) following"
    by auto
  have pop: "rlp_index_cursor_pop cursor s = Inr ((ric_current cursor, following), s)"
    using Suc.prems(1) inside following(1)
    by (simp add: rlp_index_cursor_pop_def rlp_index_cursor_peek_def rlp_index_cursor_advance_def
      stands_at_def bind_run Let_def)
  from Suc.IH [OF following(2)] Suc.prems obtain items final where
    rest: "index_pops n following s = Inr ((items, final), s)"
      "map rii_index items = map (index_at count) (map int [nat (p + 1)..<nat count])"
      "list_all item_ok items" "rlp_index_cursor_empty final"
    by auto
  have "[nat p..<nat count] = nat p # [nat (p + 1)..<nat count]"
    using inside Suc.prems(2) by (simp add: upt_conv_Cons nat_add_distrib)
  with rest pop Suc.prems(1,2) inside show ?case
    by (simp add: bind_run stands_at_def)
qed

text \<open>C0: popping the cursor over \<open>count\<close> items gives every index below \<open>count\<close> exactly once, in the
  strict lexicographic order of the RLP encodings of the indices, each with the nibbles of its
  encoding as key, and leaves the cursor empty: the order in which the trie builder needs the
  keys.\<close>

theorem index_cursor_visits_keys_in_order:
  assumes "0 \<le> count" and "count \<le> 2 ^ 20"
  shows "\<exists>items final. bind (rlp_index_cursor count) (index_pops (nat count)) s = Inr ((items, final), s) \<and>
    set (map rii_index items) = {0..<count} \<and> length items = nat count \<and>
    sorted_wrt (\<lambda>i j. (index_key_bytes i, index_key_bytes j) \<in> lexord byte_order) (map rii_index items) \<and>
    list_all item_ok items \<and> rlp_index_cursor_empty final"
proof -
  obtain cursor where c: "rlp_index_cursor count s = Inr (cursor, s)" "stands_at count 0 cursor"
    using cursor_at_run [of 0 count s] assms by (auto simp: rlp_index_cursor_def less_le)
  from index_pops_run [OF c(2), of "nat count" s] assms obtain items final where
    run: "index_pops (nat count) cursor s = Inr ((items, final), s)"
      "map rii_index items = map (index_at count) (map int [0..<nat count])"
      "list_all item_ok items" "rlp_index_cursor_empty final"
    by auto
  have "index_at count ` {0..<count} = {0..<count}"
  proof
    show "index_at count ` {0..<count} \<subseteq> {0..<count}" using index_at_range by auto
    show "{0..<count} \<subseteq> index_at count ` {0..<count}"
    proof
      fix j assume j: "j \<in> {0..<count}"
      have "j = index_at count (if j = 0 then min (count - 1) 127 else if j \<le> 127 then j - 1 else j)"
        using j by (auto simp: index_at_def Let_def min_def)
      then show "j \<in> index_at count ` {0..<count}"
        by (rule image_eqI) (use j in auto)
    qed
  qed
  moreover have "int ` {0..<nat count} = {0..<count}"
    using assms(1) by (simp add: image_int_atLeastLessThan)
  ultimately have all: "set (map rii_index items) = {0..<count}"
    unfolding run(2) by (simp only: set_map set_upt)
  have "sorted_wrt (\<lambda>i j. (index_key_bytes i, index_key_bytes j) \<in> lexord byte_order) (map rii_index items)"
    unfolding run(2)
  proof (simp add: sorted_wrt_iff_nth_less, intro allI impI)
    fix p q :: nat
    assume "p < q" "q < nat count"
    then have pq: "0 \<le> int p" "int p < int q" "int q < count" by auto
    have "index_at count (int p) < 2 ^ 20" "index_at count (int q) < 2 ^ 20"
      using index_at_range [of "int p" count] index_at_range [of "int q" count] pq assms(2) by auto
    then show "(index_key_bytes (index_at count (int p)), index_key_bytes (index_at count (int q)))
        \<in> lexord byte_order"
      using pq by (intro index_key_order) (auto simp: index_at_def Let_def min_def)
  qed
  moreover have "length items = nat count"
    using arg_cong [OF run(2), of length] by simp
  moreover have "bind (rlp_index_cursor count) (index_pops (nat count)) s = Inr ((items, final), s)"
    using c(1) run(1) by (simp add: bind_run)
  ultimately show ?thesis
    using all run(3,4) by blast
qed

lemma index_cursor_visits_keys_in_order_witness:
  "\<exists>items final. bind (rlp_index_cursor 200) (index_pops 200) () = Inr ((items, final), ()) \<and>
    set (map rii_index items) = {0..<200} \<and> length items = 200 \<and> rlp_index_cursor_empty final"
  using index_cursor_visits_keys_in_order [of 200 "()"] by auto

end
