(* ===== verification/Call_Flow.thy ===== *)
theory Call_Flow
  imports Gas_Flow
begin

text \<open>
  How gas flows through instructions, calls and creations. An instruction that goes on running
  has spent gas; a call or creation either does not enter a callee, and has spent gas, or suspends
  the caller with strictly less gas, its own and that of the callee, than the caller had; a caller
  that is resumed holds no more than it kept and its callee left.
\<close>

section \<open>One instruction\<close>

definition flow :: "frame_transition \<Rightarrow> int" where
  "flow fr = ft_gas_remaining fr + ft_state_gas_spilled fr"

definition solvent :: "frame_transition \<Rightarrow> bool" where
  "solvent fr \<longleftrightarrow> 0 \<le> ft_gas_remaining fr \<and> 0 \<le> ft_state_gas_spilled fr"

definition flows :: "frame_transition \<Rightarrow> frame_transition \<Rightarrow> bool" where
  "flows fr fr' \<longleftrightarrow> solvent fr' \<and> flow fr' \<le> flow fr \<and>
     (is_running (ft_status fr') \<longrightarrow> flow fr' < flow fr) \<and> ft_message fr' = ft_message fr \<and>
     ft_code fr' = ft_code fr"

lemmas flow_simps = flows_def flow_def solvent_def spends_def spends_both_def

lemma running_outcome [simp]: "is_running (opcode_frame_status outcome) \<longleftrightarrow> outcome = Continue"
  by (cases outcome) simp_all

lemma running_outcome_status [simp]: "opcode_frame_status outcome = Running \<longleftrightarrow> outcome = Continue"
  by (cases outcome) simp_all

lemma running_status: "is_running status \<longleftrightarrow> status = Running"
  by (cases status) simp_all

lemma after_flows:
  assumes "solvent fr"
  shows "spends_stack (ft_gas_remaining fr) h1 \<Longrightarrow> yields (flows fr) (after_stack fr h1)"
    "spends_memory (ft_gas_remaining fr) h2 \<Longrightarrow> yields (flows fr) (after_memory fr h2)"
    "spends_jump (ft_gas_remaining fr) h3 \<Longrightarrow> yields (flows fr) (after_jump fr h3)"
    "yields (\<lambda>(left, outcome). spends (ft_gas_remaining fr) left (outcome = Continue)) h4 \<Longrightarrow>
       yields (flows fr) (after_gas fr h4)"
    "yields (\<lambda>(left, sp, mem, status). spends (ft_gas_remaining fr) left (status = Running)) h5 \<Longrightarrow>
       yields (flows fr) (after_halt fr h5)"
  unfolding after_stack_def after_memory_def after_halt_def after_jump_def after_gas_def bind_assoc
  by (erule yields_then; use assms in \<open>auto simp: yields_def flow_simps running_status\<close>)+

lemma after_state_flows:
  assumes "solvent fr"
  shows "spends_state (ft_gas_remaining fr) (ft_state_gas_spilled fr) h1 \<Longrightarrow>
      yields (flows fr) (after_state fr h1)"
    "yields (\<lambda>(gas', state_gas', spill', refund', sp', status).
       spends_both (ft_gas_remaining fr) (ft_state_gas_spilled fr) gas' spill' (status = Running)) h2 \<Longrightarrow>
      yields (flows fr) (after_destruct fr h2)"
    "yields (\<lambda>(gas', state_gas', spill', sp', mem', status).
       spends_both (ft_gas_remaining fr) (ft_state_gas_spilled fr) gas' spill' (status = Running)) h3 \<Longrightarrow>
      yields (flows fr) (after_revert fr h3)"
  unfolding after_state_def after_destruct_def after_revert_def bind_assoc
  by (erule yields_then; use assms in \<open>auto simp: yields_def flow_simps running_status\<close>)+

lemma instruction_flows:
  assumes "solvent fr" and "\<And>n. i = LOG n \<Longrightarrow> 0 \<le> n"
  shows "yields (flows fr) (execute_instruction lib fork fee ctx fr i)"
proof -
  have gas: "0 \<le> ft_gas_remaining fr" "0 \<le> ft_state_gas_spilled fr"
    using assms(1) by (simp_all add: solvent_def)
  note handlers = spends_arithmetic spends_environment spends_accounts spends_stack_words
    spends_deep_stack spends_copies spends_memory_words spends_jumps spends_return
  show ?thesis
    by (cases i; simp only: execute_instruction_def instruction.case Let_def;
      (intro after_flows after_state_flows handlers spends_log spends_sstore spends_selfdestruct
        spends_revert yields_fatal yields_ret gas assms; (simp add: assms)?)?)
      (use gas in \<open>auto simp: flow_simps execute_stop_def execute_invalid_def after_gas_def
        intro!: yields_rules\<close>)
qed

lemma decode_simple_log: "decode_simple opcode fork = LOG n \<Longrightarrow> 0 \<le> n"
  by (auto simp: decode_simple_def simple_opcodes_def dest!: map_of_SomeD split: if_splits option.splits)

lemma fetch_instruction: "yields (\<lambda>(pc, i). \<forall>n. i = LOG n \<longrightarrow> 0 \<le> n) (fetch c pc fork)"
  unfolding fetch_def Let_def
  by (intro yields_rules yields_bind; simp add: decode_simple_log split: deep_stack_op.split)

lemma yields_exceptional_state:
  "yields (\<lambda>e. 0 \<le> es_state_gas_spilled e \<and> (0 \<le> spill \<longrightarrow> es_state_gas_spilled e \<le> spill) \<and>
     es_status e = Exceptional k) (exceptional_state state_gas spill reservoir k)"
  unfolding exceptional_state_def state_gas_spill_def
  by (intro yields_rules yields_then [OF yields_ranged] yields_bind) auto

lemma settlement_flows:
  assumes "solvent fr"
  shows "yields (flows fr) (exceptional_settlement fr k)"
  unfolding exceptional_settlement_def
  by (rule yields_then [OF yields_exceptional_state], rule yields_ret)
    (use assms in \<open>auto simp: flow_simps\<close>)

lemma flows_trans: "flows fr fr' \<Longrightarrow> flows fr' fr'' \<Longrightarrow> flows fr fr''"
  by (auto simp: flows_def)

lemma settle_flows:
  assumes "flows fr fr'"
  shows "yields (flows fr) (settle_outcome fr')"
proof -
  have "solvent fr'" using assms by (simp add: flows_def)
  then show ?thesis
    unfolding settle_outcome_def using assms
    by (cases "ft_status fr'")
      (auto intro!: yields_ret yields_mono [OF settlement_flows] intro: flows_trans)
qed

lemma yields_frame_transition:
  "yields (\<lambda>x. x = fr \<and> message_ok (ft_message fr)) (frame_transition fr)"
  unfolding frame_transition_def by (intro yields_rules) auto

definition stays :: "frame_transition \<Rightarrow> frame_transition \<Rightarrow> bool" where
  "stays fr fr' \<longleftrightarrow> flows fr fr' \<and> ft_pc fr' = ft_pc fr"

lemma exceptional_flows:
  assumes "solvent fr"
  shows "yields (stays fr) (exceptional_transition fr k)"
  unfolding exceptional_transition_def
  by (rule yields_then [OF yields_exceptional_state], rule yields_mono [OF yields_frame_transition])
    (use assms in \<open>auto simp: stays_def flow_simps\<close>)

section \<open>Calls and creations\<close>

text \<open>\<open>moves P m\<close>: when \<open>m\<close> returns \<open>x\<close>, it has suspended frames \<open>ks\<close> with \<open>P ks x\<close> and left the
  frames suspended before alone.\<close>

definition moves :: "(frame_continuation list \<Rightarrow> 'a \<Rightarrow> bool) \<Rightarrow> ('z, 'a) machine \<Rightarrow> bool" where
  "moves P m \<longleftrightarrow> (\<forall>s x t. m s = Inr (x, t) \<longrightarrow>
     (\<exists>ks. continuation_frames t = continuation_frames s @ ks \<and> P ks x))"

lemma frames_kept:
  fixes s t :: "'z machine_state_scheme"
  assumes "registers_kept s t"
  shows "continuation_frames t = continuation_frames s"
  using assms by (cases s, cases t) (simp add: registers_kept_def)

lemma moves_yields:
  fixes m :: "('z, 'a) machine"
  assumes "steady registers_kept m" and "yields (P []) m"
  shows "moves P m"
  unfolding moves_def
  using assms frames_kept by (metis append_Nil2 steadyD yieldsD)

lemma moves_then:
  fixes m :: "('z, 'a) machine"
  assumes "yields Q m" and "steady registers_kept m" and "\<And>x. Q x \<Longrightarrow> moves P (f x)"
  shows "moves P (bind m f)"
  unfolding moves_def
  using assms frames_kept by (fastforce simp: moves_def elim!: bind_returnsE dest: steadyD yieldsD)

lemma moves_bind:
  fixes m :: "('z, 'a) machine"
  assumes "steady registers_kept m" and "\<And>x. moves P (f x)"
  shows "moves P (bind m f)"
  by (rule moves_then [where Q = "\<lambda>_. True"]) (auto intro: assms yields_any)

lemma moves_then_pair:
  fixes m :: "('z, 'a \<times> 'b) machine"
  assumes "yields (\<lambda>(x, y). Q x y) m" and "steady registers_kept m"
    and "\<And>x y. Q x y \<Longrightarrow> moves P (f x y)"
  shows "moves P (bind m (\<lambda>(x, y). f x y))"
  by (rule moves_then [OF assms(1,2)]) (use assms(3) in auto)

lemma moves_push:
  assumes "moves (\<lambda>ks. P (k # ks)) (f ())"
  shows "moves P (bind (frame_stack_push k) f)"
  unfolding moves_def
proof (intro allI impI)
  fix s x t
  assume "bind (frame_stack_push k) f s = Inr (x, t)"
  then have "f () (s\<lparr>continuation_frames := continuation_frames s @ [k]\<rparr>) = Inr (x, t)"
    by (simp add: frame_stack_push_def bind_run)
  with assms show "\<exists>ks. continuation_frames t = continuation_frames s @ ks \<and> P ks x"
    by (fastforce simp: moves_def)
qed

lemma moves_control:
  "(b \<Longrightarrow> moves P m) \<Longrightarrow> (\<not> b \<Longrightarrow> moves P n) \<Longrightarrow> moves P (if b then m else n)"
  "(\<And>x. x = v \<Longrightarrow> moves P (g x)) \<Longrightarrow> moves P (Let v g)"
  "(\<And>x y. p = (x, y) \<Longrightarrow> moves P (h x y)) \<Longrightarrow> moves P (case_prod h p)"
  by (simp_all split: prod.splits)

lemma charges_case_option:
  "charges l g m \<Longrightarrow> (\<And>x. charges l g (f x)) \<Longrightarrow> charges l g (case_option m f v)"
  by (cases v) simp_all

lemma charges_fixed: "charges 0 gas (fixed_precompile_gas cost gas)"
  unfolding fixed_precompile_gas_def by (intro charges_rules) simp_all

lemma charges_linear: "charges 0 gas (linear_gas base per_unit units gas)"
  unfolding linear_gas_def Let_def by (intro charges_rules) simp_all

lemma charges_msm: "0 \<le> gas \<Longrightarrow> charges 0 gas (bls_msm_gas table base maxd k gas)"
  unfolding bls_msm_gas_def Let_def by (intro charges_rules) simp_all

lemma charges_modexp: "0 \<le> gas \<Longrightarrow> charges 0 gas (modexp_gas input gas)"
  unfolding modexp_gas_def modexp_price_def
  by (intro charges_rules charges_case_option) simp_all

lemma charges_precompile: "0 \<le> gas \<Longrightarrow> charges 0 gas (precompile_gas selected input gas)"
  by (cases selected; simp only: precompile_gas_def precompile_id.case Let_def;
    intro charges_unaffordable charges_fixed charges_linear charges_msm charges_modexp charges_bind)

text \<open>The registers of a frame after charges of at least the given amount.\<close>

definition paid :: "int \<Rightarrow> frame_transition \<Rightarrow> frame_transition \<Rightarrow> bool" where
  "paid cost fr fr' \<longleftrightarrow> solvent fr' \<and> flow fr' \<le> flow fr - cost \<and> ft_message fr' = ft_message fr \<and>
     ft_pc fr' = ft_pc fr \<and> ft_code fr' = ft_code fr"

lemma paid_self: "solvent fr \<Longrightarrow> paid 0 fr fr"
  by (simp add: paid_def)

lemma paid_registers [simp]:
  "paid cost fr (fr'\<lparr>ft_memory_height := h\<rparr>) = paid cost fr fr'"
  "paid cost fr (fr'\<lparr>ft_returndata := r\<rparr>) = paid cost fr fr'"
  "paid cost fr (fr'\<lparr>ft_stack_top := sp\<rparr>) = paid cost fr fr'"
  "paid cost fr (fr'\<lparr>ft_status := st\<rparr>) = paid cost fr fr'"
  by (simp_all add: paid_def flow_def solvent_def)

lemma paid_flows: "paid cost fr fr' \<Longrightarrow> 0 < cost \<Longrightarrow> stays fr fr'"
  by (auto simp: paid_def stays_def flows_def)

lemma paid_exceptional:
  assumes "paid cost fr fr'" and "0 \<le> cost"
  shows "yields (stays fr) (exceptional_transition fr' k)"
  by (rule yields_mono [OF exceptional_flows]) (use assms in \<open>auto simp: paid_def stays_def flows_def\<close>)

fun cont_checkpoint :: "frame_continuation \<Rightarrow> frame_checkpoint option" where
  "cont_checkpoint Empty = None"
| "cont_checkpoint (ResumeCall c) = Some (cc_checkpoint c)"
| "cont_checkpoint (ResumeCreate c) = Some (kc_checkpoint c)"

text \<open>A frame that was suspended for the registers \<open>fr'\<close> of a callee.\<close>

definition suspends :: "frame_transition \<Rightarrow> frame_continuation \<Rightarrow> frame_transition \<Rightarrow> bool" where
  "suspends fr k fr' \<longleftrightarrow> (\<exists>c. cont_checkpoint k = Some c \<and>
     0 \<le> cp_gas_remaining c \<and> 0 \<le> cp_state_gas_spilled c \<and>
     cp_gas_remaining c + cp_state_gas_spilled c + flow fr' < flow fr \<and>
     cp_message c = ft_message fr) \<and>
     solvent fr' \<and> ft_status fr' = Running \<and>
     msg_depth (ft_message fr') = msg_depth (ft_message fr) + 1 \<and>
     msg_depth (ft_message fr') \<le> 1024 \<and>
     (msg_is_static (ft_message fr) \<longrightarrow> msg_is_static (ft_message fr'))"

text \<open>The frame that was suspended goes on at its program counter in its code.\<close>

definition suspended_at :: "frame_transition \<Rightarrow> frame_continuation \<Rightarrow> bool" where
  "suspended_at fr k \<longleftrightarrow> (\<exists>c. cont_checkpoint k = Some c \<and> cp_pc c = ft_pc fr \<and> cp_code c = ft_code fr)"

definition enters :: "frame_transition \<Rightarrow> frame_continuation list \<Rightarrow> frame_transition \<Rightarrow> bool" where
  "enters fr ks fr' \<longleftrightarrow> ks = [] \<and> flows fr fr' \<or> (\<exists>k. ks = [k] \<and> suspends fr k fr')"

text \<open>What a call or creation does, which unlike a jump leaves the caller where it is.\<close>

definition calls :: "frame_transition \<Rightarrow> frame_continuation list \<Rightarrow> frame_transition \<Rightarrow> bool" where
  "calls fr ks fr' \<longleftrightarrow> ks = [] \<and> stays fr fr' \<or>
     (\<exists>k. ks = [k] \<and> suspends fr k fr' \<and> suspended_at fr k \<and> ft_pc fr' = 0)"

lemma calls_enters: "calls fr ks fr' \<Longrightarrow> enters fr ks fr'"
  by (auto simp: calls_def enters_def stays_def)

lemma enters_flows: "yields (stays fr) m \<Longrightarrow> steady registers_kept m \<Longrightarrow> moves (calls fr) m"
  for m :: "('z, frame_transition) machine"
  by (rule moves_yields) (auto simp: calls_def suspended_at_def elim: yields_mono)

lemmas keeps_registers = inner_rules inner_calm inner_intros

lemma enters_exceptional:
  "paid cost fr fr' \<Longrightarrow> 0 \<le> cost \<Longrightarrow>
    moves (calls fr) (exceptional_transition fr' k :: ('z, frame_transition) machine)"
  by (intro enters_flows paid_exceptional keeps_registers)

text \<open>The charges of calls and creations.\<close>

lemma enters_frame_pay:
  fixes body :: "frame_transition \<Rightarrow> ('z, frame_transition) machine"
  assumes "paid c fr fr'"
    and "\<And>fr''. paid (c + cost) fr fr'' \<Longrightarrow> moves (calls fr) (body fr'')"
    and "0 \<le> c" and "0 \<le> cost"
  shows "moves (calls fr) (frame_pay fr' cost body)"
  unfolding frame_pay_def
  by (intro moves_control enters_exceptional [OF assms(1,3)]
      moves_then [OF yields_gas_sub] keeps_registers assms(2))
    (use assms(1,4) in \<open>auto simp: paid_def flow_def solvent_def\<close>)

lemma enters_frame_pay_charge:
  fixes body :: "frame_transition \<Rightarrow> ('z, frame_transition) machine"
  assumes "paid c fr fr'"
    and "\<And>fr''. paid c fr fr'' \<Longrightarrow> moves (calls fr) (body fr'')"
    and "0 \<le> c" and "charges 0 (ft_gas_remaining fr') charge" and "steady registers_kept charge"
  shows "moves (calls fr) (frame_pay_charge fr' charge body)"
  unfolding frame_pay_charge_def
  by (intro moves_then [OF assms(4) [unfolded charges_def] assms(5)] moves_control
      enters_exceptional [OF assms(1,3)] moves_then [OF yields_gas_sub] keeps_registers assms(2))
    (use assms(1) in \<open>auto simp: paid_def flow_def solvent_def\<close>)

lemma paid_gas: "paid c fr fr' \<Longrightarrow> 0 \<le> ft_gas_remaining fr'"
  by (simp add: paid_def solvent_def)

lemma enters_size_charges:
  fixes body :: "frame_transition \<Rightarrow> ('z, frame_transition) machine"
  assumes "paid c fr fr'"
    and "\<And>fr''. paid c fr fr'' \<Longrightarrow> moves (calls fr) (body fr'')"
    and "0 \<le> c"
  shows "moves (calls fr)
      (frame_pay_charge fr' (memory_expansion_gas_cost mem requested (ft_gas_remaining fr')) body)"
    "moves (calls fr)
      (frame_pay_charge fr' (word_scaled_gas_cost per_unit units (ft_gas_remaining fr')) body)"
  by (rule enters_frame_pay_charge [OF assms], assumption,
      (intro charges_memory charges_word_scaled paid_gas [OF assms(1)] keeps_registers)+)+

lemma enters_charge_new_account:
  fixes body :: "frame_transition \<Rightarrow> ('z, frame_transition) machine"
  assumes "paid c fr fr'"
    and "\<And>fr''. paid c fr fr'' \<Longrightarrow> moves (calls fr) (body fr'')"
    and "0 \<le> c"
  shows "moves (calls fr) (charge_new_account fr' charged body)"
proof -
  have solvent: "0 \<le> ft_gas_remaining fr'" "0 \<le> ft_state_gas_spilled fr'"
    using assms(1) by (simp_all add: paid_def solvent_def)
  have paid: "paid c fr (fr'\<lparr>ft_gas_remaining := g, ft_state_gas_remaining := st,
      ft_state_gas_spilled := sl\<rparr>)"
    if "0 \<le> g" "0 \<le> sl" "g + sl = ft_gas_remaining fr' + ft_state_gas_spilled fr'" for g st sl
    using assms(1) that by (simp add: paid_def flow_def solvent_def)
  show ?thesis
    unfolding charge_new_account_def Let_def
    by (intro moves_control moves_then [OF yields_charge_state_gas [OF solvent]] keeps_registers
        enters_exceptional [OF paid assms(3)] assms(2) paid)
      (use assms(1) in \<open>auto simp: G_amsterdam_state_new_account_def\<close>)
qed

text \<open>Ending a call without a callee: pushing the result, with the gas given back.\<close>

lemma yields_push_transition:
  "yields (\<lambda>fr'. \<exists>sp. fr' = fr\<lparr>ft_stack_top := sp\<rparr>) (push_transition fr w)"
  unfolding push_transition_def
  by (rule yields_bind, rule yields_mono [OF yields_frame_transition]) blast

lemma pushed_flows:
  assumes "paid cost fr fr'" and "0 < cost"
  shows "yields (stays fr) (push_transition fr' w)"
  by (rule yields_mono [OF yields_push_transition]) (auto intro!: paid_flows [OF _ assms(2)] simp: assms(1))

lemma yields_frame_refund:
  assumes "paid cost fr fr'"
  shows "yields (\<lambda>fr''. paid (cost - amount) fr fr'') (frame_refund_gas fr' amount)"
  unfolding frame_refund_gas_def refund_gas_def bind_assoc
  by (rule yields_then [OF yields_conserved_gas_add], rule yields_then [OF yields_gas_u64],
      rule yields_ret) (use assms in \<open>auto simp: paid_def flow_def solvent_def\<close>)

lemma yields_credit_new_account:
  assumes "paid cost fr fr'"
  shows "yields (paid cost fr) (credit_new_account fr' charged)"
  unfolding credit_new_account_def
  by (intro yields_if yields_ret assms yields_then [OF yields_credit_state_gas] yields_case_prod)
    (use assms in \<open>auto simp: paid_def flow_def solvent_def G_amsterdam_state_new_account_def\<close>)

lemma call_precompile_flows:
  assumes "paid cost fr fr'" and "child_gas < cost" and "0 \<le> child_gas"
  shows "yields (stays fr)
    (call_precompile lib fr' semantics operands args dest charged child_gas selected)"
proof -
  have cost: "0 < cost" using assms(2,3) by simp
  have fails: "yields (stays fr) (bind (credit_new_account (fr'\<lparr>ft_returndata := r\<rparr>) charged)
      (\<lambda>fr. push_transition fr 0))" for r
    by (rule yields_then [where Q = "paid cost fr", OF yields_credit_new_account pushed_flows [OF _ cost]])
      (simp_all add: assms(1))
  have refund: "yields (stays fr) (bind (frame_refund_gas (fr'\<lparr>ft_returndata := r\<rparr>) unused)
      (\<lambda>fr. push_transition fr 1))" if "unused < cost" for r unused
    by (rule yields_then [where Q = "paid (cost - unused) fr", OF yields_frame_refund pushed_flows])
      (use assms(1) that in auto)
  show ?thesis
    unfolding call_precompile_def Let_def
    by (intro yields_bind yields_then [OF charges_precompile [OF assms(3), unfolded charges_def]]
        yields_if fails yields_then [OF yields_gas_sub] refund)
      (use assms in auto)
qed

lemma yields_natural: "yields (\<lambda>x. x = v) (natural v)"
  by (simp add: natural_def yields_def)

lemma yields_suspend:
  "yields (\<lambda>(c, sp, base, height). cp_gas_remaining c = gas \<and> cp_state_gas_spilled c = spill \<and>
     cp_message c = m \<and> cp_pc c = pc \<and> cp_code c = code)
    (suspend_frame pc gas top_slot mb mh sg spill refund status m code d)"
  unfolding suspend_frame_def state_gas_spill_def code_length_def Let_def
  by (intro yields_rules yields_then [OF yields_gas_u64] yields_then [OF yields_ranged]
      yields_then [OF yields_natural] yields_bind) auto

lemma yields_transition_depth:
  "yields (\<lambda>x. x = fr \<and> msg_depth (ft_message fr) \<le> 1024) (frame_transition fr)"
  by (rule yields_mono [OF yields_frame_transition]) (auto simp: message_ok_def)

lemma enter_call_enters:
  assumes "paid cost fr fr'" and "child_gas < cost" and "0 \<le> child_gas"
  shows "moves (calls fr)
    (enter_call lib fr' semantics operands args dest tg_deleg tg_target charged child_gas :: ('z, frame_transition) machine)"
  unfolding enter_call_def Let_def
  by (intro moves_bind moves_then [OF yields_suspend] moves_control moves_push keeps_registers
      moves_yields yields_mono [OF yields_transition_depth])
    (use assms in \<open>auto simp: calls_def suspended_at_def suspends_def paid_def flow_def solvent_def\<close>)

lemma paid_less: "paid c fr fr' \<Longrightarrow> c' \<le> c \<Longrightarrow> paid c' fr fr'"
  by (simp add: paid_def)

lemma yields_call_costs:
  "yields (\<lambda>cost. (if v then G_callstipend else 0) \<le> cost) (if v then call_value_cost else ret 0)"
  "yields (\<lambda>cost. 0 \<le> cost) (if d then bind (k_account_is_warm a) account_cost else ret 0)"
  by (intro yields_if yields_ret yields_mono [OF yields_access_costs(4)] yields_bind
      yields_mono [OF yields_access_costs(1)]; simp)+

lemma yields_call_gas_cap: "yields (\<lambda>child_gas. 0 \<le> child_gas) (call_gas_cap_word available requested)"
  unfolding call_gas_cap_word_def Let_def
  by (intro yields_bind yields_if yields_mono [OF yields_gas_u64]) simp_all

abbreviation stipend :: "call_operands \<Rightarrow> int" where
  "stipend operands \<equiv> (if word_nonzero (co_value operands) then G_callstipend else 0)"

lemma enters_charge_call:
  fixes body :: "frame_transition \<Rightarrow> bool \<Rightarrow> address \<Rightarrow> bool \<Rightarrow> int \<Rightarrow> ('z, frame_transition) machine"
  assumes "paid 0 fr fr'"
    and body: "\<And>fr'' d t n base. paid (base + stipend operands + 1) fr fr'' \<Longrightarrow> 0 \<le> base \<Longrightarrow>
      moves (calls fr) (body fr'' d t n base)"
  shows "moves (calls fr) (charge_call lib fr' semantics operands body)"
  unfolding charge_call_def Let_def
  by (insert assms(1), (erule enters_frame_pay enters_size_charges enters_charge_new_account | rule moves_control
      | (rule moves_then [OF yields_access_costs(1)] moves_then [OF yields_call_costs(1)]
          moves_then [OF yields_call_costs(2)] moves_then [OF yields_call_gas_cap] moves_bind,
        (intro keeps_registers)[1]))+, rule body, erule paid_less)
    (auto simp: gas_constants split: if_splits)

text \<open>A call that does not enter a callee gives the gas of the callee back.\<close>

lemma enters_refund:
  assumes "paid cost fr fr'" and "amount < cost"
  shows "moves (calls fr) (bind (frame_refund_gas fr' amount) (\<lambda>fr.
    bind (credit_new_account fr charged) (\<lambda>fr. push_transition fr w)) :: ('z, frame_transition) machine)"
  by (rule enters_flows, rule yields_then [OF yields_frame_refund [OF assms(1)]],
      rule yields_then [OF yields_credit_new_account], assumption, rule pushed_flows, assumption)
    (use assms(2) in simp, intro keeps_registers)

lemma enters_dispatch_call:
  assumes "paid cost fr fr'" and "base + stipend operands < cost" and "0 \<le> base"
  shows "moves (calls fr)
    (dispatch_call lib fr' semantics operands d target charged base :: ('z, frame_transition) machine)"
proof -
  have room: "0 \<le> base + stipend operands" using assms(3) by (simp add: G_callstipend_def)
  show ?thesis
    unfolding dispatch_call_def Let_def
    by (intro moves_control moves_then [OF yields_conserved_gas_add] moves_bind
        enters_refund [where cost = cost] enter_call_enters [where cost = cost]
        enters_flows call_precompile_flows [where cost = cost] keeps_registers)
      (use assms room in auto)
qed

lemma moves_pop_word:
  fixes body :: "int \<Rightarrow> stack_pointer \<Rightarrow> ('z, 'a) machine"
  shows "(\<And>w sp. moves P (body w sp)) \<Longrightarrow> moves P (pop_word sp body)"
  unfolding pop_word_def by (intro moves_bind keeps_registers)

lemma moves_pop_operands:
  fixes body :: "call_operands \<Rightarrow> stack_pointer \<Rightarrow> ('z, 'a) machine"
  assumes "\<And>operands sp. moves P (body operands sp)"
  shows "moves P (pop_call_operands semantics sp body)"
proof -
  have "moves P ((if b then pop_word sp else (\<lambda>rest. rest 0 sp)) k)"
    if "\<And>w sp. moves P (k w sp)" for b sp and k :: "int \<Rightarrow> stack_pointer \<Rightarrow> ('z, 'a) machine"
    using that by (simp add: moves_pop_word)
  note choice = this
  show ?thesis
    unfolding pop_call_operands_def by (intro moves_pop_word choice assms)
qed

lemma enters_guarded:
  fixes body :: "('z, frame_transition) machine"
  assumes "solvent fr" and "moves (calls fr) body"
  shows "moves (calls fr) (bind (guard_stack sp inputs outputs) (\<lambda>status.
    case status of Failed k \<Rightarrow> exceptional_transition fr k | Continue \<Rightarrow> body))"
proof (rule moves_bind)
  show "steady registers_kept (guard_stack sp inputs outputs :: ('z, opcode_outcome) machine)"
    by (intro keeps_registers)
  show "moves (calls fr) (case status of Failed k \<Rightarrow> exceptional_transition fr k | Continue \<Rightarrow> body)"
    for status
    using enters_exceptional [OF paid_self [OF assms(1)]] assms(2)
    by (cases status) simp_all
qed

lemma enters_run_call:
  assumes "solvent fr"
  shows "moves (calls fr) (run_call lib fr kind :: ('z, frame_transition) machine)"
  unfolding run_call_def Let_def
  by (intro enters_guarded assms moves_bind moves_pop_operands moves_control
      enters_exceptional [where cost = 0] enters_charge_call keeps_registers;
    (erule enters_dispatch_call)?; use assms in \<open>auto simp: paid_self\<close>)

lemma yields_split_create_gas:
  assumes "paid cost fr fr'"
  shows "yields (\<lambda>(fr'', child_gas). 0 \<le> child_gas \<and> paid (cost + child_gas) fr fr'') (split_create_gas fr')"
proof -
  have "0 \<le> ft_gas_remaining fr' div 64" "ft_gas_remaining fr' div 64 \<le> ft_gas_remaining fr'"
    using paid_gas [OF assms] by (simp_all add: pos_imp_zdiv_nonneg_iff int_div_less_self)
  then show ?thesis
    unfolding split_create_gas_def Let_def
    by (intro yields_then [OF yields_gas_sub] yields_ret)
      (use assms paid_gas [OF assms] in \<open>auto simp: paid_def flow_def solvent_def\<close>)
qed

lemma enter_create_enters:
  assumes "paid cost fr fr'" and "child_gas < cost" and "0 \<le> child_gas"
  shows "moves (calls fr)
    (enter_create lib fr' initcode new_addr endowment charged child_gas :: ('z, frame_transition) machine)"
  unfolding enter_create_def Let_def
  by (intro moves_bind moves_then [OF yields_suspend] moves_control moves_push keeps_registers
      moves_yields yields_mono [OF yields_transition_depth])
    (use assms in \<open>auto simp: calls_def suspended_at_def suspends_def paid_def flow_def solvent_def\<close>)

lemma enters_charge_create:
  fixes body :: "frame_transition \<Rightarrow> memory_range \<Rightarrow> ('z, frame_transition) machine"
  assumes "paid 0 fr fr'"
    and body: "\<And>fr'' initcode. paid 1 fr fr'' \<Longrightarrow> moves (calls fr) (body fr'' initcode)"
  shows "moves (calls fr) (charge_create fr' semantics off_word len_word body)"
proof -
  have choice: "moves (calls fr) ((if b then frame_pay_charge f (word_scaled_gas_cost per_unit units
      (ft_gas_remaining f)) else (\<lambda>rest. rest f)) k)"
    if "paid c fr f" "\<And>f'. paid c fr f' \<Longrightarrow> moves (calls fr) (k f')" "0 \<le> c"
    for c f b per_unit units and k :: "frame_transition \<Rightarrow> ('z, frame_transition) machine"
    using enters_size_charges(2) [OF that] that(1,2) by simp
  show ?thesis
    unfolding charge_create_def Let_def
    by (insert assms(1), (erule enters_frame_pay enters_frame_pay [OF paid_registers(1) [THEN iffD2]]
          enters_size_charges choice | (rule moves_then [OF yields_access_costs(5)] moves_bind, (intro keeps_registers)[1]))+,
        rule body, erule paid_less) auto
qed

lemma enters_dispatch_create:
  assumes "paid 1 fr fr'"
  shows "moves (calls fr)
    (dispatch_create lib fr' semantics endowment salt initcode :: ('z, frame_transition) machine)"
proof -
  have first: "yields (\<lambda>(f, child). 0 \<le> child \<and> paid (1 + child) fr f \<and> (\<not> b \<longrightarrow> child = 0))
      (if b then split_create_gas fr' else ret (fr', 0))" for b
    by (intro yields_if yields_mono [OF yields_split_create_gas [OF assms]] yields_ret)
      (use assms in auto)
  have second: "moves (calls fr) (bind (if b then split_create_gas f else ret (f, child))
      (\<lambda>(f, child). k f child))"
    if "paid (1 + child) fr f" and "\<And>f' child'. 0 \<le> child' \<Longrightarrow> paid (1 + child') fr f' \<Longrightarrow>
      moves (calls fr) (k f' child')" and "0 \<le> child" "b \<longrightarrow> child = 0"
    for b f child and k :: "frame_transition \<Rightarrow> int \<Rightarrow> ('z, frame_transition) machine"
  proof (rule moves_then_pair [where Q = "\<lambda>f' child'. 0 \<le> child' \<and> paid (1 + child') fr f'"])
    show "yields (\<lambda>(f', child'). 0 \<le> child' \<and> paid (1 + child') fr f')
        (if b then split_create_gas f else ret (f, child))"
      by (intro yields_if yields_mono [OF yields_split_create_gas [OF that(1)]] yields_ret)
        (use that in auto)
  qed (intro keeps_registers, use that(2) in auto)
  have refund: "moves (calls fr) (bind (if b then frame_refund_gas f child else ret f)
      (\<lambda>f. push_transition (f\<lparr>ft_returndata := r\<rparr>) w) :: ('z, frame_transition) machine)"
    if "paid (1 + child) fr f" "0 \<le> child" for b f child r w
    by (rule enters_flows, rule yields_then [where Q = "paid 1 fr"],
        intro yields_if yields_mono [OF yields_frame_refund [OF that(1)]] yields_ret,
        simp, rule paid_less [OF that(1)], use that in simp, rule pushed_flows [where cost = 1], simp, simp,
        intro keeps_registers)
  have give_up: "moves (calls fr) (bind (credit_new_account (f\<lparr>ft_returndata := r\<rparr>) charged)
      (\<lambda>f. push_transition f w) :: ('z, frame_transition) machine)"
    if "paid (1 + child) fr f" "0 \<le> child" for f child r w charged
    by (rule enters_flows, rule yields_then [where Q = "paid (1 + child) fr"],
        rule yields_credit_new_account, simp add: that, rule pushed_flows, assumption,
        use that in simp, intro keeps_registers)
  show ?thesis
    unfolding dispatch_create_def Let_def
    by (insert assms, (rule moves_control refund
        | erule conjE second enters_charge_new_account give_up enters_exceptional
            enter_create_enters [OF paid_registers(2) [THEN iffD2]]
        | (rule moves_then_pair [OF first] moves_bind, (intro keeps_registers)[1])
        | assumption | (simp; fail))+)
qed

lemma enters_run_create:
  assumes "solvent fr"
  shows "moves (calls fr) (run_create lib fr kind :: ('z, frame_transition) machine)"
proof -
  have choice: "moves P ((if b then pop_word sp else (\<lambda>rest. rest 0 sp)) k)"
    if "\<And>w sp. moves P (k w sp)" for P b sp and k :: "int \<Rightarrow> stack_pointer \<Rightarrow> ('z, frame_transition) machine"
    using that by (simp add: moves_pop_word)
  show ?thesis
    unfolding run_create_def Let_def
    by (intro enters_guarded assms moves_bind moves_pop_word choice moves_control
        enters_exceptional [where cost = 0] enters_charge_create keeps_registers;
      (erule enters_dispatch_create)?; use assms in \<open>auto simp: paid_self\<close>)
qed

section \<open>Resuming a caller\<close>

text \<open>The caller goes on where it was, with no more gas than the callee and it held together.\<close>

definition resumes :: "frame_checkpoint \<Rightarrow> frame_transition \<Rightarrow> frame_transition \<Rightarrow> bool" where
  "resumes c child fr \<longleftrightarrow> solvent fr \<and> ft_message fr = cp_message c \<and> ft_pc fr = cp_pc c \<and>
     ft_code fr = cp_code c \<and> ft_calldata fr = cp_calldata c \<and>
     flow fr \<le> cp_gas_remaining c + cp_state_gas_spilled c + flow child"

lemma yields_resume_parent:
  assumes "solvent child" and "0 \<le> cp_state_gas_spilled c"
  shows "yields (resumes c child) (resume_parent c child returndata)"
proof -
  have state: "yields (\<lambda>(st, sl). sl = cp_state_gas_spilled c + ft_state_gas_spilled child)
      (return_child_state_gas (cp_state_gas_remaining c) (cp_state_gas_spilled c)
        (ft_state_gas_remaining child) (ft_state_gas_spilled child))"
    unfolding return_child_state_gas_def state_gas_spill_add_def Let_def
    by (intro yields_rules yields_then [where Q = "\<lambda>x. x = cp_state_gas_spilled c + ft_state_gas_spilled child"]) auto
  show ?thesis
    unfolding resume_parent_def refund_gas_def bind_assoc
    by (rule yields_bind, rule yields_bind, rule yields_then [OF yields_conserved_gas_add],
        rule yields_then [OF yields_gas_u64], rule yields_then [OF state], intro yields_rules)
      (use assms in \<open>auto simp: resumes_def solvent_def flow_def parent_frame_def\<close>)
qed

lemma resumes_registers [simp]:
  "resumes c child (fr\<lparr>ft_stack_top := sp\<rparr>) = resumes c child fr"
  "resumes c child (fr\<lparr>ft_refund := r\<rparr>) = resumes c child fr"
  by (simp_all add: resumes_def flow_def solvent_def)

lemma resumes_pushed:
  "resumes c child fr \<Longrightarrow> yields (resumes c child) (push_transition fr w)"
  by (rule yields_mono [OF yields_push_transition]) auto

lemma yields_resume_success:
  "resumes c child fr \<Longrightarrow> yields (resumes c child) (resume_success fr refund effect w)"
  unfolding resume_success_def by (intro yields_bind resumes_pushed) simp

lemma yields_resume_failure:
  assumes "resumes c child fr"
  shows "yields (resumes c child) (resume_failure fr charged)"
proof -
  have "yields (resumes c child) (credit_new_account fr charged)"
    unfolding credit_new_account_def
    by (intro yields_if yields_ret assms yields_then [OF yields_credit_state_gas] yields_case_prod)
      (use assms in \<open>auto simp: resumes_def flow_def solvent_def G_amsterdam_state_new_account_def\<close>)
  then show ?thesis
    unfolding resume_failure_def by (intro yields_bind yields_then [OF _ resumes_pushed])
qed

lemma yields_resume_call:
  assumes "solvent child" and "0 \<le> cp_state_gas_spilled (cc_checkpoint k)"
  shows "yields (resumes (cc_checkpoint k) child) (resume_call k result child)"
  unfolding resume_call_def
  by (intro yields_then [OF yields_resume_parent [OF assms]] yields_bind yields_if
      yields_resume_success yields_resume_failure)

definition settles :: "frame_transition \<Rightarrow> frame_transition \<Rightarrow> bool" where
  "settles child settled \<longleftrightarrow> solvent settled \<and> flow settled \<le> flow child"

lemma yields_deployment_costs:
  "yields (\<lambda>c. 0 \<le> gc_cost c) (code_deployment_execution_cost len gas)"
  "yields (\<lambda>cost. 0 \<le> cost) (code_deployment_state_cost len)"
  unfolding code_deployment_execution_cost_def code_deployment_state_cost_def gas_charge_def Let_def
  by (intro yields_rules yields_then [OF yields_gas_u64] yields_mono [OF yields_gas_u64] yields_bind;
    simp add: GAS_CHARGE_UNAFFORDABLE_def)+

lemma yields_settle_deployment:
  assumes "solvent child"
  shows "yields (\<lambda>(settled, b). settles child settled) (settle_deployment child result len)"
proof -
  have fails: "yields (\<lambda>(settled, b). settles child settled)
      (bind (exceptional_settlement f k) (\<lambda>child. ret (child, False)))" if "settles child f" for f k
    using that by (intro yields_then [OF settlement_flows] yields_ret) (auto simp: settles_def flows_def)
  have self: "settles child child" using assms by (simp add: settles_def)
  have charge: "yields (\<lambda>(h, g, st, sl). 0 \<le> g \<and> 0 \<le> sl \<and> g + sl \<le> flow child)
      (charge_state_gas g0 st0 (ft_state_gas_spilled child) amount)"
    if "0 \<le> g0" "g0 \<le> ft_gas_remaining child" "0 \<le> amount" for g0 st0 amount
    by (rule yields_mono [OF yields_charge_state_gas])
      (use assms that in \<open>auto simp: flow_def solvent_def\<close>)
  show ?thesis
    unfolding settle_deployment_def Let_def
    by (intro yields_if fails self yields_then [OF yields_deployment_costs(1)]
        yields_then [OF yields_gas_sub] yields_then [OF yields_deployment_costs(2)]
        yields_then [OF charge] yields_case_prod yields_ret yields_bind)
      (use assms in \<open>auto simp: settles_def flow_def solvent_def\<close>)
qed

lemma yields_resume_create:
  assumes "solvent child" and "0 \<le> cp_state_gas_spilled (kc_checkpoint k)"
  shows "yields (resumes (kc_checkpoint k) child) (resume_create lib k result child)"
proof -
  have settle: "yields (\<lambda>(settled, b). settles child settled)
      (if c then settle_deployment child result len else ret (child, False))" for c len
    by (intro yields_if yields_settle_deployment yields_ret) (use assms(1) in \<open>simp_all add: settles_def\<close>)
  have parent: "yields (resumes (kc_checkpoint k) child) (resume_parent (kc_checkpoint k) f r)"
    if "settles child f" for f r
    by (rule yields_mono [OF yields_resume_parent])
      (use assms(2) that in \<open>auto simp: resumes_def settles_def\<close>)
  show ?thesis
    unfolding resume_create_def Let_def
    by (intro yields_bind [where m = "returndata_size result"] yields_then [OF settle] yields_case_prod
        yields_then [OF parent] yields_if yields_resume_success yields_resume_failure) auto
qed

lemma yields_resume_frame:
  assumes "cont_checkpoint k = Some c" and "solvent child" and "0 \<le> cp_state_gas_spilled c"
  shows "yields (resumes c child) (resume_frame lib k result child)"
  using assms
  by (cases k) (auto simp: resume_frame_def yields_resume_call yields_resume_create)

end
