(* ===== verification/Interpreter_Laws.thy ===== *)
theory Interpreter_Laws
  imports Call_Flow
begin

text \<open>
  The interpreter as a whole. Every iteration of the loop decreases
  \<open>3 * (gas of all frames) + 2 * (suspended frames) + (1 if the frame is running)\<close>, where the gas of
  a frame includes the state gas it has spilled, so it ends within three times the gas and the spilled
  state gas at the start, plus two, iterations. The counter of the source starts from the gas and the
  state gas instead; it is not this bound.
\<close>

section \<open>Errors of one iteration\<close>

interpretation anything: tolerant "\<lambda>_ _. True"
  by unfold_locales auto

lemma any_state: "steady R m \<Longrightarrow> steady (\<lambda>_ _. True) m"
  by (erule steady_mono) simp

lemmas no_fuel_rules = anything.steady_rules anything.shapes

lemmas no_fuel_kernel = inner_calm [THEN any_state] inner_intros [THEN any_state]

lemma no_fuel_frames:
  "steady (\<lambda>_ _. True) (frame_stack_push k :: ('z, unit) machine)"
  "steady (\<lambda>_ _. True) (frame_stack_pop :: ('z, frame_continuation) machine)"
  unfolding frame_stack_push_def frame_stack_pop_def by (intro no_fuel_rules TrueI)+

lemma no_fuel_enter:
  "steady (\<lambda>_ _. True)
    (enter_call lib fr semantics operands args dest d target charged gas :: ('z, frame_transition) machine)"
  "steady (\<lambda>_ _. True)
    (enter_create lib fr initcode addr endowment charged gas :: ('z, frame_transition) machine)"
  unfolding enter_call_def enter_create_def Let_def
  by (intro no_fuel_rules no_fuel_kernel no_fuel_frames)+

lemma no_fuel_guarded:
  assumes "steady (\<lambda>_ _. True) body"
  shows "steady (\<lambda>_ _. True) (case status of Failed k \<Rightarrow> exceptional_transition fr k | Continue \<Rightarrow> body)"
  by (cases status; simp only: opcode_outcome.case; intro assms no_fuel_kernel)

lemma no_fuel_run:
  "steady (\<lambda>_ _. True) (run_call lib fr call_kind :: ('z, frame_transition) machine)"
  "steady (\<lambda>_ _. True) (run_create lib fr create_kind :: ('z, frame_transition) machine)"
  unfolding run_call_def run_create_def dispatch_call_def dispatch_create_def Let_def
  by (intro no_fuel_rules no_fuel_guarded no_fuel_enter no_fuel_kernel no_fuel_frames)+

lemma no_fuel_step:
  "steady (\<lambda>_ _. True)
    (interpret_step lib fork fee st :: ('z, region_slice + interpreter_state) machine)"
proof -
  have running: "steady (\<lambda>_ _. True) (interpret_running lib fork fee st :: ('z, interpreter_state) machine)"
  proof -
    have "steady (\<lambda>_ _. True) (case i of
         opcode_CREATE \<Rightarrow> bind (run_create lib fr CreateByNonce) k
       | CREATE2 \<Rightarrow> bind (run_create lib fr CreateBySalt) k
       | CALL \<Rightarrow> bind (run_call lib fr Call) k
       | CALLCODE \<Rightarrow> bind (run_call lib fr CallCode) k
       | DELEGATECALL \<Rightarrow> bind (run_call lib fr DelegateCall) k
       | STATICCALL \<Rightarrow> bind (run_call lib fr StaticCall) k
       | _ \<Rightarrow> m)"
      if "steady (\<lambda>_ _. True) m" "\<And>x. steady (\<lambda>_ _. True) (k x)"
      for i fr m and k :: "frame_transition \<Rightarrow> ('z, interpreter_state) machine"
      by (cases i; simp only: instruction.case; intro no_fuel_rules no_fuel_run that)
    note cases = this
    show ?thesis
      unfolding interpret_running_def Let_def
      by (intro no_fuel_rules cases no_fuel_kernel)
  qed
  show ?thesis
    unfolding interpret_step_def interpret_ended_def Let_def
    by (intro no_fuel_rules running no_fuel_kernel no_fuel_frames)
qed

section \<open>The invariant of the call tree\<close>

text \<open>
  A machine is the registers of the running frame with the state, whose \<open>continuation_frames\<close>
  are its suspended callers. Callers hold gas, lie one level higher than their callee, and if a
  caller is static so is its callee.
\<close>

type_synonym 'z machine_config = "interpreter_state \<times> 'z machine_state_scheme"

fun callers_ok :: "int \<Rightarrow> message \<Rightarrow> frame_continuation list \<Rightarrow> bool" where
  "callers_ok d m [] \<longleftrightarrow> msg_depth m = d"
| "callers_ok d m (k # ks) \<longleftrightarrow>
     (case cont_checkpoint k of
        None \<Rightarrow> False
      | Some c \<Rightarrow> 0 \<le> cp_gas_remaining c \<and> 0 \<le> cp_state_gas_spilled c \<and>
          msg_depth m = msg_depth (cp_message c) + 1 \<and>
          (msg_is_static (cp_message c) \<longrightarrow> msg_is_static m) \<and> callers_ok d (cp_message c) ks)"

definition machine_ok :: "int \<Rightarrow> 'z machine_config \<Rightarrow> bool" where
  "machine_ok d = (\<lambda>((fr, ctx), s). solvent fr \<and> msg_depth (ft_message fr) \<le> 1024 \<and>
     callers_ok d (ft_message fr) (rev (continuation_frames s)))"

fun cont_gas :: "frame_continuation \<Rightarrow> int" where
  "cont_gas k = (case cont_checkpoint k of
     None \<Rightarrow> 0 | Some c \<Rightarrow> cp_gas_remaining c + cp_state_gas_spilled c)"

definition machine_gas :: "'z machine_config \<Rightarrow> int" where
  "machine_gas = (\<lambda>((fr, ctx), s). flow fr + sum_list (map cont_gas (continuation_frames s)))"

definition call_measure :: "'z machine_config \<Rightarrow> int" where
  "call_measure = (\<lambda>((fr, ctx), s). 3 * machine_gas ((fr, ctx), s) +
     2 * int (length (continuation_frames s)) + (if is_running (ft_status fr) then 1 else 0))"

text \<open>One iteration that does not end the loop, as a relation.\<close>

inductive machine_step :: "crypto \<Rightarrow> fork \<Rightarrow> int \<Rightarrow> 'z machine_config \<Rightarrow> 'z machine_config \<Rightarrow> bool"
  for lib fork fee where
  iteration: "interpret_step lib fork fee st s = Inr (Inr st', t) \<Longrightarrow>
     machine_step lib fork fee (st, s) (st', t)"

inductive_cases machine_stepE: "machine_step lib fork fee c c'"

text \<open>What an iteration does to the invariant and the measure.\<close>

definition progresses :: "int \<Rightarrow> 'z machine_config \<Rightarrow> 'z machine_config \<Rightarrow> bool" where
  "progresses d c c' \<longleftrightarrow> machine_ok d c' \<and> machine_gas c' \<le> machine_gas c \<and>
     call_measure c' < call_measure c"

lemmas machine_simps = progresses_def machine_ok_def machine_gas_def call_measure_def

lemma flows_progress:
  assumes "machine_ok d ((fr, ctx), s)" and "is_running (ft_status fr)" and "flows fr fr'"
    and "continuation_frames t = continuation_frames s"
  shows "progresses d ((fr, ctx), s) ((fr', ctx'), t)"
  using assms by (auto simp: machine_simps flows_def)

lemma suspends_progress:
  assumes "machine_ok d ((fr, ctx), s)" and "is_running (ft_status fr)" and "suspends fr k fr'"
    and "continuation_frames t = continuation_frames s @ [k]"
  shows "progresses d ((fr, ctx), s) ((fr', ctx'), t)"
  using assms by (auto simp: machine_simps suspends_def)

lemma enters_progress:
  assumes "machine_ok d ((fr, ctx), s)" and "is_running (ft_status fr)" and "enters fr ks fr'"
    and "continuation_frames t = continuation_frames s @ ks"
  shows "progresses d ((fr, ctx), s) ((fr', ctx'), t)"
  using assms flows_progress suspends_progress by (fastforce simp: enters_def)

lemma resumes_progress:
  assumes "machine_ok d ((fr, ctx), s)" and "\<not> is_running (ft_status fr)"
    and "continuation_frames s = ks @ [k]" and "cont_checkpoint k = Some c" and "resumes c fr fr'"
    and "continuation_frames t = ks"
  shows "progresses d ((fr, ctx), s) ((fr', ctx'), t)"
proof -
  have "msg_depth (cp_message c) \<le> 1024"
    using assms(1,3,4) by (auto simp: machine_ok_def)
  then show ?thesis
    using assms by (auto simp: machine_simps resumes_def)
qed

text \<open>A running frame executes an instruction, makes a call or makes a creation.\<close>

lemma enters_instruction:
  assumes "solvent fr" and "\<And>n. i = LOG n \<Longrightarrow> 0 \<le> n"
  shows "moves (\<lambda>ks (fr', ctx'). enters fr ks fr')
    (bind (execute_instruction lib fork fee ctx fr i) (\<lambda>fr. bind (settle_outcome fr)
      (\<lambda>fr. ret (fr, ctx))) :: ('z, interpreter_state) machine)"
  by (rule moves_yields, intro keeps_registers,
      rule yields_then [OF instruction_flows [OF assms]], assumption,
      rule yields_then [OF settle_flows], assumption, rule yields_ret)
    (simp add: enters_def)

lemma moves_mono: "moves P m \<Longrightarrow> (\<And>ks x. P ks x \<Longrightarrow> Q ks x) \<Longrightarrow> moves Q m"
  unfolding moves_def by blast

lemma moves_map:
  fixes m :: "('z, 'a) machine"
  assumes "moves P m" and "\<And>ks x. P ks x \<Longrightarrow> Q ks (f x)"
  shows "moves Q (bind m (\<lambda>x. ret (f x)))"
  unfolding moves_def using assms by (fastforce simp: moves_def elim!: bind_returnsE)

lemma enters_running:
  assumes "solvent fr"
  shows "moves (\<lambda>ks (fr', ctx'). enters fr ks fr')
    (interpret_running lib fork fee (fr, ctx) :: ('z, interpreter_state) machine)"
proof -
  have pc: "enters (fr\<lparr>ft_pc := pc\<rparr>) = enters fr" for pc
    by (simp add: fun_eq_iff enters_def suspends_def flows_def flow_def)
  have solvent: "solvent (fr\<lparr>ft_pc := pc\<rparr>)" for pc
    using assms by (simp add: solvent_def)
  have calls: "moves (enters fr) (run_call lib (fr\<lparr>ft_pc := pc\<rparr>) kind :: ('z, frame_transition) machine)"
    "moves (enters fr) (run_create lib (fr\<lparr>ft_pc := pc\<rparr>) kind' :: ('z, frame_transition) machine)"
    for pc kind kind'
    by (rule moves_mono [OF enters_run_call [OF solvent]] moves_mono [OF enters_run_create [OF solvent]],
        drule calls_enters, simp add: pc)+
  note runs = calls enters_instruction [OF solvent, unfolded pc]
  show ?thesis
    unfolding interpret_running_def Let_def case_prod_conv
    by (rule moves_then_pair [OF fetch_instruction], intro keeps_registers, rename_tac pc i,
        case_tac i; simp only: instruction.case; (rule runs(3) | rule moves_map, rule runs(1,2)); auto)
qed

text \<open>An iteration of a running frame keeps the callers and may add some; an iteration of a frame
  that has ended takes the last caller off and resumes it.\<close>

lemma running_frames:
  assumes "machine_ok d ((fr, ctx), s)" and "interpret_running lib fork fee (fr, ctx) s = Inr ((fr', ctx'), t)"
  shows "\<exists>ks. continuation_frames t = continuation_frames s @ ks \<and> enters fr ks fr'"
  using enters_running [of fr lib fork fee ctx] assms unfolding moves_def machine_ok_def by fast

lemma ended_frames:
  fixes s t :: "'z machine_state_scheme"
  assumes ok: "machine_ok d ((fr, ctx), s)"
    and returns: "interpret_ended lib (fr, ctx) s = Inr (Inr (fr', ctx'), t)"
  shows "\<exists>k c. continuation_frames s = continuation_frames t @ [k] \<and> cont_checkpoint k = Some c \<and>
    resumes c fr fr'"
proof -
  obtain ks k where frames: "continuation_frames s = ks @ [k]"
    using returns by (cases "continuation_frames s" rule: rev_cases)
      (auto simp: interpret_ended_def frame_stack_pop_def bind_run Let_def)
  let ?s = "s\<lparr>continuation_frames := ks\<rparr>"
  obtain c where c: "cont_checkpoint k = Some c" "0 \<le> cp_state_gas_spilled c" "solvent fr"
    using ok frames by (auto simp: machine_ok_def split: option.splits)
  then have "k \<noteq> Empty" by auto
  with returns frames have fr': "resume_frame lib k (frame_output (ft_status fr)) fr ?s = Inr (fr', t)"
    by (auto simp: interpret_ended_def frame_stack_pop_def bind_run Let_def split: sum.splits)
  have "steady registers_kept (resume_frame lib k (frame_output (ft_status fr)) fr ::
      ('z, frame_transition) machine)"
    by (intro keeps_registers)
  from this fr' have "registers_kept ?s t" by (rule steadyD)
  then have "continuation_frames t = ks" using frames_kept by fastforce
  moreover have "resumes c fr fr'"
    using yields_resume_frame [OF c(1,3,2)] fr' by (rule yieldsD)
  ultimately show ?thesis using frames c(1) by blast
qed

lemma step_frames:
  assumes "machine_ok d ((fr, ctx), s)"
    and "interpret_step lib fork fee (fr, ctx) s = Inr (Inr (fr', ctx'), t)"
  shows
    "is_running (ft_status fr) \<Longrightarrow>
      \<exists>ks. continuation_frames t = continuation_frames s @ ks \<and> enters fr ks fr'"
    "\<not> is_running (ft_status fr) \<Longrightarrow>
      \<exists>k c. continuation_frames s = continuation_frames t @ [k] \<and> cont_checkpoint k = Some c \<and>
        resumes c fr fr'"
  using assms running_frames [OF assms(1)] ended_frames [OF assms(1)]
  by (auto simp: interpret_step_def elim!: bind_returnsE)

lemma step_progress:
  assumes "machine_ok d (st, s)" and "interpret_step lib fork fee st s = Inr (Inr st', t)"
  shows "progresses d (st, s) (st', t)"
proof -
  obtain fr ctx fr' ctx' where st: "st = (fr, ctx)" "st' = (fr', ctx')" by (cases st, cases st')
  note frames = step_frames [OF assms [unfolded st]]
  show ?thesis
    using frames enters_progress resumes_progress assms(1) unfolding st
    by (cases "is_running (ft_status fr)") (simp, blast, blast)
qed

lemma machine_step_progress: "machine_step lib fork fee c c' \<Longrightarrow> machine_ok d c \<Longrightarrow> progresses d c c'"
  by (auto elim!: machine_stepE intro: step_progress)

lemma machine_steps_ok:
  assumes "(machine_step lib fork fee)\<^sup>*\<^sup>* c c'" and "machine_ok d c"
  shows "machine_ok d c' \<and> machine_gas c' \<le> machine_gas c"
  using assms
  by (induction rule: rtranclp_induct) (auto dest!: machine_step_progress simp: progresses_def)

section \<open>The loop\<close>

lemma callers_gas_nonneg: "callers_ok d m (rev ks) \<Longrightarrow> 0 \<le> sum_list (map cont_gas ks)"
  by (induction ks arbitrary: m rule: rev_induct) (auto split: option.splits)

lemma gas_nonneg: "machine_ok d ((fr, ctx), s) \<Longrightarrow> 0 \<le> flow fr \<and> flow fr \<le> machine_gas ((fr, ctx), s)"
  by (auto simp: machine_ok_def machine_gas_def solvent_def flow_def dest: callers_gas_nonneg)

lemma measure_nonneg: "machine_ok d c \<Longrightarrow> 0 \<le> call_measure c"
  using gas_nonneg by (cases c) (fastforce simp: call_measure_def)

text \<open>With fuel above the measure the loop ends, and more fuel makes no difference.\<close>

lemma loop_returns:
  assumes "machine_ok d (st, s)" and "call_measure (st, s) < int fuel"
  shows "interpret_loop fuel lib fork fee st s \<noteq> Inl OutOfFuel \<and>
    interpret_loop (fuel + spare) lib fork fee st s = interpret_loop fuel lib fork fee st s"
  using assms
proof (induction fuel arbitrary: st s)
  case 0
  then show ?case using measure_nonneg by fastforce
next
  case (Suc fuel)
  show ?case
  proof (cases "interpret_step lib fork fee st s")
    case (Inl e)
    then show ?thesis
      using steady_fuel [OF no_fuel_step, of lib fork fee st s] by (simp add: bind_run)
  next
    case (Inr r)
    obtain x t where r: "r = (x, t)" by (cases r)
    show ?thesis
    proof (cases x)
      case (Inl result)
      then show ?thesis using Inr r by (simp add: bind_run)
    next
      case step: (Inr st')
      then have run: "interpret_step lib fork fee st s = Inr (Inr st', t)" using Inr r by simp
      from step_progress [OF Suc.prems(1) run] Suc.prems(2)
      have "machine_ok d (st', t)" "call_measure (st', t) < int fuel"
        by (auto simp: progresses_def)
      from Suc.IH [OF this] run show ?thesis by (simp add: bind_run)
    qed
  qed
qed

text \<open>A loop that returns has gone through machine steps, and its last frame had no caller.\<close>

lemma loop_steps:
  assumes "interpret_loop fuel lib fork fee st s = Inr ((fr, result), t)"
  shows "\<exists>ctx u. (machine_step lib fork fee)\<^sup>*\<^sup>* (st, s) ((fr, ctx), u) \<and>
    interpret_step lib fork fee (fr, ctx) u = Inr (Inl result, t)"
  using assms
proof (induction fuel arbitrary: st s)
  case 0
  then show ?case by simp
next
  case (Suc fuel)
  from Suc.prems obtain x u where step: "interpret_step lib fork fee st s = Inr (x, u)"
    and rest: "(case x of Inl result \<Rightarrow> ret (fst st, result)
      | Inr st \<Rightarrow> interpret_loop fuel lib fork fee st) u = Inr ((fr, result), t)"
    by (auto elim!: bind_returnsE)
  show ?case
  proof (cases x)
    case (Inl r)
    with rest have "r = result" "fst st = fr" "u = t" by auto
    with step Inl show ?thesis by (metis prod.collapse rtranclp.rtrancl_refl)
  next
    case (Inr st')
    with rest Suc.IH obtain ctx v where
      "(machine_step lib fork fee)\<^sup>*\<^sup>* (st', u) ((fr, ctx), v)"
      "interpret_step lib fork fee (fr, ctx) v = Inr (Inl result, t)" by fastforce
    moreover have "machine_step lib fork fee (st, s) (st', u)"
      using step Inr by (auto intro: iteration)
    ultimately show ?thesis by (meson converse_rtranclp_into_rtranclp)
  qed
qed

lemma no_fuel_blob_base_fee:
  "steady (\<lambda>_ _. True) (blob_base_fee fork schedule limit excess :: ('z, int) kernel)"
proof -
  have loop: "fake_exponential_loop d n i out accum s \<noteq> Inl OutOfFuel"
    for d n i out accum and s :: "'z kernel_state_scheme"
    by (induction d n i out accum rule: fake_exponential_loop.induct)
      (subst fake_exponential_loop.simps, auto simp: Let_def bind_run fatal_error_def)
  then have "steady (\<lambda>_ _. True) (fake_exponential_loop d n i out accum :: ('z, int) kernel)"
    for d n i out accum
    unfolding steady_def by (auto split: sum.splits dest: sym)
  note loop = this
  show ?thesis
    unfolding blob_base_fee_def fake_exponential_word_def protocol_word_def as_word_def Let_def
    by (intro no_fuel_rules loop)
qed

lemma last_step:
  assumes "machine_ok d ((fr, ctx), s)" and "interpret_step lib fork fee (fr, ctx) s = Inr (Inl result, t)"
  shows "\<not> is_running (ft_status fr) \<and> result = frame_output (ft_status fr) \<and>
    continuation_frames s = [] \<and> t = s"
proof (cases "is_running (ft_status fr)")
  case True
  then show ?thesis using assms(2) by (auto simp: interpret_step_def elim!: bind_returnsE)
next
  case False
  then have ended: "interpret_ended lib (fr, ctx) s = Inr (Inl result, t)"
    using assms(2) by (simp add: interpret_step_def)
  show ?thesis
  proof (cases "continuation_frames s" rule: rev_cases)
    case Nil
    then show ?thesis
      using ended False by (simp add: interpret_ended_def frame_stack_pop_def bind_run Let_def)
  next
    case (snoc ks k)
    then have "k \<noteq> Empty" using assms(1) by (auto simp: machine_ok_def)
    then show ?thesis
      using ended snoc
      by (auto simp: interpret_ended_def frame_stack_pop_def Let_def elim!: bind_returnsE)
  qed
qed

section \<open>The interpreter\<close>

abbreviation first_frame :: "int \<Rightarrow> int \<Rightarrow> int \<Rightarrow> int \<Rightarrow> stack_pointer \<Rightarrow> int \<Rightarrow> int \<Rightarrow> message \<Rightarrow> code
    \<Rightarrow> calldata_slice \<Rightarrow> frame_transition" where
  "first_frame gas state_gas spill refund sp base height m c data \<equiv>
     \<lparr>ft_pc = 0, ft_gas_remaining = gas, ft_state_gas_remaining = state_gas,
      ft_state_gas_spilled = spill, ft_refund = refund, ft_status = Running, ft_stack_top = sp,
      ft_memory_base = base, ft_memory_height = height, ft_message = m, ft_code = c,
      ft_calldata = data, ft_returndata = EMPTY_SLICE\<rparr>"

lemma first_frame_ok:
  assumes "0 \<le> gas" and "0 \<le> spill" and "msg_depth m \<le> 1024" and "continuation_frames s = []"
  shows "machine_ok (msg_depth m) ((first_frame gas state_gas spill refund sp base height m c data, ctx), s)"
  using assms by (simp add: machine_ok_def solvent_def)

lemma frame_stack_reset_run:
  "frame_stack_reset s = Inr ((), s\<lparr>continuation_frames := []\<rparr>)"
  by (simp add: frame_stack_reset_def)

text \<open>With enough fuel for the measure of the first frame the interpreter returns.\<close>

lemma evm_interpret_returns:
  fixes s :: "'z machine_state_scheme"
  assumes "0 \<le> gas" and "0 \<le> spill" and "msg_depth m \<le> 1024"
    and "3 * (gas + spill) + 2 \<le> int fuel"
  shows "evm_interpret fuel lib gas state_gas spill refund sp base height m c data s \<noteq> Inl OutOfFuel \<and>
    evm_interpret (fuel + spare) lib gas state_gas spill refund sp base height m c data s =
      evm_interpret fuel lib gas state_gas spill refund sp base height m c data s"
proof -
  note loop = loop_returns [OF first_frame_ok [OF assms(1-3)]]
  have measure: "call_measure ((first_frame gas state_gas spill refund sp base height m c data,
      account_execution_context (msg_address m)), u\<lparr>continuation_frames := []\<rparr>) < int fuel"
    for u :: "'z machine_state_scheme"
    using assms(4) by (simp add: call_measure_def machine_gas_def flow_def)
  show ?thesis
    unfolding evm_interpret_def Let_def bind_run
    using loop [OF _ measure] steady_fuel [OF no_fuel_blob_base_fee [where 'z = "'z machine_state_ext"]]
    by (auto simp: frame_stack_reset_run split: sum.splits)
qed

text \<open>The machine of the witnesses: its code is a JUMPDEST, then a STOP.\<close>

definition jumpdest_machine :: "unit machine_state_scheme" where
  "jumpdest_machine = kernel_state.extend (initial_kernel_state\<lparr>code_bytes := [0x5b, 0x00]\<rparr>)
     \<lparr>continuation_frames = []\<rparr>"

definition jumpdest_code :: code where
  "jumpdest_code = \<lparr>code_off = 0, code_len = 2, code_jumpdests = 0\<rparr>"

definition top_message :: message where
  "top_message = \<lparr>msg_caller = ZERO_ADDRESS, msg_code_address = ZERO_ADDRESS,
     msg_address = ZERO_ADDRESS, msg_value = 0, msg_state_gas_reservoir = 0,
     msg_is_static = False, msg_depth = 0\<rparr>"

definition empty_stack :: stack_pointer where
  "empty_stack = \<lparr>sp_storage = 0, sp_height = 0\<rparr>"

lemma jumpdest_machine_fields:
  "code_bytes jumpdest_machine = [0x5b, 0x00]" "continuation_frames jumpdest_machine = []"
  "k_execution_profile jumpdest_machine = default_execution_profile"
  "hdr_excess_blob_gas (k_header jumpdest_machine) = 0"
  "jumpdest_machine\<lparr>continuation_frames := []\<rparr> = jumpdest_machine"
  by (simp_all add: jumpdest_machine_def initial_kernel_state_def initial_host_state_def
      kernel_state.defs host_state.defs initial_header_def)

lemma jumpdest_fetch:
  "fetch jumpdest_code 0 Amsterdam jumpdest_machine = Inr ((1, JUMPDEST), jumpdest_machine)"
  "fetch jumpdest_code 1 Amsterdam jumpdest_machine = Inr ((2, STOP), jumpdest_machine)"
  by (simp_all add: fetch_def jumpdest_code_def code_slice_byte_def code_region_byte_at_def
      region_byte_def region_bytes_def code_slice_of_def slice_of_def py_slice_nonneg py_item_def bind_run
      jumpdest_machine_fields Let_def opcode_available_def opcode_forks_def deep_stack_operation_def
      decode_simple_def simple_opcodes_def)

abbreviation jumpdest_frame :: "message \<Rightarrow> int \<Rightarrow> frame_transition" where
  "jumpdest_frame m gas \<equiv>
    first_frame gas 0 0 0 empty_stack 0 0 m jumpdest_code (InputCalldata EMPTY_SLICE)"

lemma jumpdest_steps:
  "interpret_step lib Amsterdam 1 (jumpdest_frame m 1, ctx) jumpdest_machine =
    Inr (Inr ((jumpdest_frame m 0)\<lparr>ft_pc := 1\<rparr>, ctx), jumpdest_machine)"
  "interpret_step lib Amsterdam 1 ((jumpdest_frame m 0)\<lparr>ft_pc := 1\<rparr>, ctx) jumpdest_machine =
    Inr (Inr ((jumpdest_frame m 0)\<lparr>ft_pc := 2, ft_status := Halted HaltStop\<rparr>, ctx), jumpdest_machine)"
  "interpret_step lib Amsterdam 1
      ((jumpdest_frame m 0)\<lparr>ft_pc := 2, ft_status := Halted HaltStop\<rparr>, ctx) jumpdest_machine =
    Inr (Inl EMPTY_SLICE, jumpdest_machine)"
  by (simp_all add: interpret_step_def interpret_running_def bind_run jumpdest_fetch Let_def
      execute_instruction_def after_gas_def execute_jumpdest_def pay_def gas_sub_def gas_u64_def ranged_def
      G_jumpdest_def settle_outcome_def execute_stop_def interpret_ended_def frame_stack_pop_def
      jumpdest_machine_fields)

lemma no_excess_fee:
  "blob_base_fee Amsterdam \<lparr>bs_target = 14, bs_max = 21, bs_fraction = 11684671\<rparr> 2992193280 0 s = Inr (1, s)"
  by (simp add: Cancun_def Amsterdam_def blob_base_fee_def fake_exponential_word_def fake_exponential_loop.simps
      protocol_word_def as_word_def Let_def fatal_error_def)

lemma jumpdest_loop:
  "interpret_loop 5 lib Amsterdam 1 (jumpdest_frame top_message 1, ctx) jumpdest_machine =
    Inr (((jumpdest_frame top_message 0)\<lparr>ft_pc := 2, ft_status := Halted HaltStop\<rparr>, EMPTY_SLICE), jumpdest_machine)"
proof -
  have "(5 :: nat) = Suc (Suc (Suc (Suc (Suc 0))))" by simp
  then show ?thesis by (simp only: interpret_loop.simps) (simp add: bind_run jumpdest_steps [simplified])
qed

lemma jumpdest_run:
  "evm_interpret 5 lib 1 0 0 0 empty_stack 0 0 top_message jumpdest_code (InputCalldata EMPTY_SLICE)
      jumpdest_machine = Inr ((0, 0, 0, 0, Halted HaltStop, EMPTY_SLICE), jumpdest_machine)"
  by (simp add: evm_interpret_def bind_run jumpdest_machine_fields default_execution_profile_def
      frame_stack_reset_run no_excess_fee Let_def jumpdest_loop)

lemma top_depth: "msg_depth top_message = 0"
  by (simp add: top_message_def)

text \<open>C2: The interpreter always returns: with three times the gas and the spilled state gas it is given,
  plus two, iterations it never runs out of fuel, whatever the code does, and more fuel gives the same
  result, error or not. State gas that was spilled counts because a refund hands it back as gas. The
  counter of the source, three times the gas and the state gas plus two, is another number, which
  bounds the iterations by this theorem only where no more is spilled than there is state gas.\<close>

theorem interpretation_terminates:
  assumes "0 \<le> gas" and "0 \<le> spill" and "msg_depth m \<le> 1024"
    and "3 * (gas + spill) + 2 \<le> int fuel"
  shows "evm_interpret fuel lib gas state_gas spill refund sp base height m c data s \<noteq> Inl OutOfFuel \<and>
    evm_interpret (fuel + spare) lib gas state_gas spill refund sp base height m c data s =
      evm_interpret fuel lib gas state_gas spill refund sp base height m c data s"
  using evm_interpret_returns [OF assms] by blast

theorem interpretation_terminates_witness:
  "\<forall>lib. evm_interpret (5 + 1) lib 1 0 0 0 empty_stack 0 0 top_message jumpdest_code
      (InputCalldata EMPTY_SLICE) jumpdest_machine =
    Inr ((0, 0, 0, 0, Halted HaltStop, EMPTY_SLICE), jumpdest_machine)"
  by (simp only: interpretation_terminates [of 1 0 top_message 5, simplified top_depth, simplified]
      jumpdest_run simp_thms)

text \<open>C5: The interpreter makes no gas: what it returns, with the gas spilled for state, is at
  most what it was given, none of it is negative, the first frame has ended and no caller is
  left suspended.\<close>

theorem interpretation_conserves_gas:
  assumes "0 \<le> gas" and "0 \<le> spill" and "msg_depth m \<le> 1024"
    and "evm_interpret fuel lib gas state_gas spill refund sp base height m c data s =
      Inr ((gas', state_gas', spill', refund', status, result), t)"
  shows "0 \<le> gas' \<and> 0 \<le> spill' \<and> gas' + spill' \<le> gas + spill \<and> status \<noteq> Running \<and>
    continuation_frames t = []"
proof -
  let ?fr = "first_frame gas state_gas spill refund sp base height m c data"
  let ?ctx = "account_execution_context (msg_address m)"
  from assms(4) obtain fork fee u fr where
    run: "interpret_loop fuel lib fork fee (?fr, ?ctx) (u\<lparr>continuation_frames := []\<rparr>) = Inr ((fr, result), t)"
    and fr: "ft_gas_remaining fr = gas'" "ft_state_gas_spilled fr = spill'" "ft_status fr = status"
    by (auto simp: evm_interpret_def Let_def frame_stack_reset_run elim!: bind_returnsE)
  from loop_steps [OF run] obtain ctx v where
    steps: "(machine_step lib fork fee)\<^sup>*\<^sup>* ((?fr, ?ctx), u\<lparr>continuation_frames := []\<rparr>) ((fr, ctx), v)"
    and last: "interpret_step lib fork fee (fr, ctx) v = Inr (Inl result, t)" by blast
  have ok: "machine_ok (msg_depth m) ((?fr, ?ctx), u\<lparr>continuation_frames := []\<rparr>)"
    by (rule first_frame_ok [OF assms(1-3)]) simp
  from machine_steps_ok [OF steps this] have reached: "machine_ok (msg_depth m) ((fr, ctx), v)"
    "machine_gas ((fr, ctx), v) \<le> gas + spill"
    by (auto simp: machine_gas_def flow_def)
  moreover from gas_nonneg [OF reached(1)] have "flow fr \<le> machine_gas ((fr, ctx), v)" by simp
  moreover from last_step [OF reached(1) last] have "\<not> is_running (ft_status fr)" "continuation_frames t = []"
    by auto
  ultimately show ?thesis using fr by (auto simp: machine_ok_def solvent_def flow_def)
qed

theorem interpretation_conserves_gas_witness:
  "\<forall>lib. evm_interpret 5 lib 1 0 0 0 empty_stack 0 0 top_message jumpdest_code
      (InputCalldata EMPTY_SLICE) jumpdest_machine =
      Inr ((0, 0, 0, 0, Halted HaltStop, EMPTY_SLICE), jumpdest_machine) \<and>
    (0 :: int) + 0 \<le> 1 + 0 \<and> continuation_frames jumpdest_machine = []"
  using interpretation_conserves_gas [OF _ _ _ jumpdest_run] jumpdest_run by (simp add: top_depth)

text \<open>A callee ends: its last caller resumes with its own message, unless an iteration fails.\<close>

definition resumed_at :: "frame_checkpoint \<Rightarrow> frame_transition \<Rightarrow> bool" where
  "resumed_at c fr \<longleftrightarrow> ft_message fr = cp_message c \<and> ft_pc fr = cp_pc c \<and> ft_code fr = cp_code c \<and>
     ft_calldata fr = cp_calldata c \<and> solvent fr"

lemma frames_return:
  fixes s :: "'z machine_state_scheme"
  assumes "machine_ok d ((fr, ctx), s)" and "continuation_frames s = ks @ k # rest"
    and "cont_checkpoint k = Some c"
  shows "\<exists>fr' ctx' t. (machine_step lib fork fee)\<^sup>*\<^sup>* ((fr, ctx), s) ((fr', ctx'), t) \<and>
    (continuation_frames t = ks \<and> resumed_at c fr' \<or>
     (\<exists>e. interpret_step lib fork fee (fr', ctx') t = Inl e \<and> e \<noteq> OutOfFuel))"
  using assms
proof (induction "nat (call_measure ((fr, ctx), s))" arbitrary: fr ctx s rest rule: less_induct)
  case less
  note ok = less.prems(1) and frames = less.prems(2)
  show ?case
  proof (cases "interpret_step lib fork fee (fr, ctx) s")
    case (Inl e)
    then show ?thesis using steady_fuel [OF no_fuel_step, of lib fork fee "(fr, ctx)" s] by blast
  next
    case (Inr r)
    obtain x t where r: "r = (x, t)" by (cases r)
    show ?thesis
    proof (cases x)
      case result: (Inl result)
      then have "continuation_frames s = []" using last_step [OF ok] Inr r by blast
      then show ?thesis using frames by simp
    next
      case next_state: (Inr st')
      obtain fr1 ctx1 where st': "st' = (fr1, ctx1)" by (cases st')
      have run: "interpret_step lib fork fee (fr, ctx) s = Inr (Inr (fr1, ctx1), t)"
        using Inr r next_state st' by simp
      then have step: "machine_step lib fork fee ((fr, ctx), s) ((fr1, ctx1), t)" by (rule iteration)
      have ok1: "machine_ok d ((fr1, ctx1), t)"
        and down: "nat (call_measure ((fr1, ctx1), t)) < nat (call_measure ((fr, ctx), s))"
        using step_progress [OF ok run] measure_nonneg [of d "((fr1, ctx1), t)"]
        by (auto simp: progresses_def)
      have onward: ?thesis if "continuation_frames t = ks @ k # rest'" for rest'
      proof -
        from less.hyps [OF down ok1 that less.prems(3)] obtain fr2 ctx2 u where
          onward: "(machine_step lib fork fee)\<^sup>*\<^sup>* ((fr1, ctx1), t) ((fr2, ctx2), u)"
            "continuation_frames u = ks \<and> resumed_at c fr2 \<or>
              (\<exists>e. interpret_step lib fork fee (fr2, ctx2) u = Inl e \<and> e \<noteq> OutOfFuel)" by blast
        show ?thesis
          using converse_rtranclp_into_rtranclp [where r = "machine_step lib fork fee", OF step onward(1)]
            onward(2) by blast
      qed
      show ?thesis
      proof (cases "is_running (ft_status fr)")
        case True
        with step_frames(1) [OF ok run] frames onward show ?thesis by auto
      next
        case False
        with step_frames(2) [OF ok run] obtain k' c' where
          last: "continuation_frames s = continuation_frames t @ [k']" "cont_checkpoint k' = Some c'"
            "resumes c' fr fr1" by blast
        show ?thesis
        proof (cases rest rule: rev_cases)
          case Nil
          then show ?thesis
            using frames last less.prems(3) step by (auto simp: resumes_def resumed_at_def intro!: r_into_rtranclp)
        qed (use frames last(1) onward in auto)
      qed
    qed
  qed
qed

text \<open>C6: In every machine that the first frame of an execution can reach, the number of
  suspended callers is the difference of the depths, the depth is at most 1024, no caller or
  callee owes gas, and all of them together hold no more than the first frame was given.\<close>

theorem call_depth_bounded:
  assumes "(machine_step lib fork fee)\<^sup>*\<^sup>* ((fr, ctx), s) ((fr', ctx'), s')"
    and "continuation_frames s = []" and "solvent fr" and "msg_depth (ft_message fr) \<le> 1024"
  shows "msg_depth (ft_message fr') = msg_depth (ft_message fr) + int (length (continuation_frames s')) \<and>
    msg_depth (ft_message fr') \<le> 1024 \<and> solvent fr' \<and>
    flow fr' + sum_list (map cont_gas (continuation_frames s')) \<le> flow fr"
proof -
  have depth: "callers_ok d m ks \<Longrightarrow> msg_depth m = d + int (length ks)" for d m ks
    by (induction ks arbitrary: m) (auto split: option.splits)
  have "machine_ok (msg_depth (ft_message fr)) ((fr, ctx), s)"
    using assms(2-4) by (simp add: machine_ok_def)
  from machine_steps_ok [OF assms(1) this] show ?thesis
    using assms(2) by (auto simp: machine_ok_def machine_gas_def dest: depth)
qed

theorem call_depth_bounded_witness:
  "\<forall>lib ctx. machine_step lib Amsterdam 1 ((jumpdest_frame top_message 1, ctx), jumpdest_machine)
      (((jumpdest_frame top_message 0)\<lparr>ft_pc := 1\<rparr>, ctx), jumpdest_machine) \<and>
    flow ((jumpdest_frame top_message 0)\<lparr>ft_pc := 1\<rparr>) \<le> flow (jumpdest_frame top_message 1)"
proof (intro allI conjI)
  fix lib ctx
  show step: "machine_step lib Amsterdam 1 ((jumpdest_frame top_message 1, ctx), jumpdest_machine)
      (((jumpdest_frame top_message 0)\<lparr>ft_pc := 1\<rparr>, ctx), jumpdest_machine)"
    by (rule iteration [OF jumpdest_steps(1)])
  then have "(machine_step lib Amsterdam 1)\<^sup>*\<^sup>* ((jumpdest_frame top_message 1, ctx), jumpdest_machine)
      (((jumpdest_frame top_message 0)\<lparr>ft_pc := 1\<rparr>, ctx), jumpdest_machine)" by (rule r_into_rtranclp)
  from call_depth_bounded [OF this]
  show "flow ((jumpdest_frame top_message 0)\<lparr>ft_pc := 1\<rparr>) \<le> flow (jumpdest_frame top_message 1)"
    by (simp add: top_depth solvent_def jumpdest_machine_fields)
qed

text \<open>C10: Every suspended caller is resumed: from a machine that satisfies the invariant of the call
  tree, the iterations lead, after its callees have ended, back to each caller on the stack, at the
  program counter, code, calldata and message it was suspended with, with exactly the callers
  below it still suspended and no more gas in the machine than before, unless an iteration fails
  with an error of the source.\<close>

theorem callers_are_resumed:
  assumes "machine_ok d ((fr, ctx), s)" and "continuation_frames s = ks @ k # rest"
  shows "\<exists>c fr' ctx' t. cont_checkpoint k = Some c \<and>
    (machine_step lib fork fee)\<^sup>*\<^sup>* ((fr, ctx), s) ((fr', ctx'), t) \<and>
    machine_gas ((fr', ctx'), t) \<le> machine_gas ((fr, ctx), s) \<and>
    (continuation_frames t = ks \<and> resumed_at c fr' \<or>
     (\<exists>e. interpret_step lib fork fee (fr', ctx') t = Inl e \<and> e \<noteq> OutOfFuel))"
proof -
  have suspended: "callers_ok d m (ks' @ k # ks) \<Longrightarrow> \<exists>c. cont_checkpoint k = Some c" for m ks ks'
    by (induction ks' arbitrary: m) (auto split: option.splits)
  from assms have "callers_ok d (ft_message fr) (rev rest @ k # rev ks)" by (simp add: machine_ok_def)
  from suspended [OF this] obtain c where "cont_checkpoint k = Some c" by blast
  with frames_return [OF assms] machine_steps_ok [OF _ assms(1)] show ?thesis by meson
qed

text \<open>A running callee and its suspended caller.\<close>

definition suspended_caller :: frame_continuation where
  "suspended_caller = ResumeCall \<lparr>cc_checkpoint = \<lparr>cp_pc = 1, cp_gas_remaining = 5,
     cp_stack_top = empty_stack, cp_state_gas_remaining = 0, cp_state_gas_spilled = 0,
     cp_refund = 0, cp_status = Running, cp_message = top_message, cp_code = jumpdest_code,
     cp_calldata = InputCalldata EMPTY_SLICE, cp_memory_height = 0\<rparr>,
     cc_return_offset = 0, cc_return_length = 0, cc_new_account_charged = False\<rparr>"

theorem callers_are_resumed_witness:
  "\<forall>lib ctx. \<exists>c fr' ctx' t. cont_checkpoint suspended_caller = Some c \<and>
    (machine_step lib Amsterdam 1)\<^sup>*\<^sup>*
      ((jumpdest_frame (top_message\<lparr>msg_depth := 1\<rparr>) 3, ctx),
       jumpdest_machine\<lparr>continuation_frames := [suspended_caller]\<rparr>) ((fr', ctx'), t) \<and>
    (continuation_frames t = [] \<and> resumed_at c fr' \<or>
     (\<exists>e. interpret_step lib Amsterdam 1 (fr', ctx') t = Inl e \<and> e \<noteq> OutOfFuel))"
proof (intro allI)
  fix lib ctx
  let ?s = "jumpdest_machine\<lparr>continuation_frames := [suspended_caller]\<rparr>"
  have ok: "machine_ok 0 ((jumpdest_frame (top_message\<lparr>msg_depth := 1\<rparr>) 3, ctx), ?s)"
    by (simp add: machine_ok_def solvent_def suspended_caller_def top_message_def)
  have frames: "continuation_frames ?s = [] @ suspended_caller # []" by simp
  from callers_are_resumed [OF ok frames, of lib Amsterdam 1]
  show "\<exists>c fr' ctx' t. cont_checkpoint suspended_caller = Some c \<and>
    (machine_step lib Amsterdam 1)\<^sup>*\<^sup>*
      ((jumpdest_frame (top_message\<lparr>msg_depth := 1\<rparr>) 3, ctx), ?s) ((fr', ctx'), t) \<and>
    (continuation_frames t = [] \<and> resumed_at c fr' \<or>
     (\<exists>e. interpret_step lib Amsterdam 1 (fr', ctx') t = Inl e \<and> e \<noteq> OutOfFuel))" by blast
qed

end
