(* ===== verification/Static_Laws.thy ===== *)
theory Static_Laws
  imports Interpreter_Laws Kernel_Journal
begin

text \<open>
  Static calls. An instruction of a static frame is calm: it writes no account, no storage, no
  transient storage and no log. The callees of a static frame are static, their frames open
  journal frames that hold warm entries only, and so neither committing nor reverting them writes
  to the world: nothing that runs inside a static call does.
\<close>

section \<open>Instructions of a static frame\<close>

lemma guard_static_fails [simp]: "guard_static gas True = (0, Failed WriteProtection)"
  by (simp add: guard_static_def)

lemma calm_static_handlers:
  "steady calm (execute_sstore keccak ctx fork True gas state_gas spill refund sp)"
  "steady calm (execute_tstore a True gas sp)"
  "steady calm (execute_log a True base n gas sp mem)"
  "steady calm (execute_selfdestruct keccak a fork True gas state_gas spill refund sp)"
  unfolding execute_sstore_def execute_tstore_def execute_log_def execute_selfdestruct_def
    guard_static_fails Let_def prod.case is_failed.simps if_True
  by (intro calm_rules calm.shapes calm_intros)+

lemma calm_static_instruction:
  assumes "msg_is_static (ft_message fr)"
  shows "steady calm (execute_instruction lib fork fee ctx fr i)"
  by (cases i; simp only: execute_instruction_def instruction.case Let_def assms;
      intro calm_rules calm.shapes calm_intros calm_static_handlers)

section \<open>Calls from a static frame\<close>

definition quiet_entry :: "journal_entry \<Rightarrow> bool" where
  "quiet_entry e \<longleftrightarrow> warm_entry e \<or> e = JournalFrameCheckpointed \<or> e = JournalFrameCommitted"

text \<open>Entries of the journal with the given number of frames open, all of them quiet.\<close>

inductive open_frames :: "nat \<Rightarrow> journal_entry list \<Rightarrow> bool" where
  all_closed: "balanced es \<Longrightarrow> list_all quiet_entry es \<Longrightarrow> open_frames 0 es"
| one_open: "open_frames n es \<Longrightarrow> balanced fs \<Longrightarrow> list_all quiet_entry fs \<Longrightarrow>
    open_frames (Suc n) (es @ JournalFrameCheckpointed # fs)"

inductive_cases open_frames_SucE: "open_frames (Suc n) es"

lemma warm_balanced: "list_all warm_entry es \<Longrightarrow> balanced es \<and> list_all quiet_entry es"
  by (induction es) (auto intro!: balanced_Cons simp: quiet_entry_def warm_entry_def)

lemma open_frames_append:
  assumes "open_frames n es" and "balanced fs" and "list_all quiet_entry fs"
  shows "open_frames n (es @ fs)"
  using assms by cases (auto intro!: open_frames.intros balanced_append)

lemma open_frames_join: "open_frames m fs \<Longrightarrow> open_frames n es \<Longrightarrow> open_frames (n + m) (es @ fs)"
proof (induction rule: open_frames.induct)
  case (all_closed fs)
  then show ?case using open_frames_append by simp
next
  case (one_open m fs gs)
  then show ?case using open_frames.one_open [of "n + m" "es @ fs" gs] by simp
qed

fun is_call_frame :: "frame_continuation \<Rightarrow> bool" where
  "is_call_frame (ResumeCall _) = True"
| "is_call_frame _ = False"

text \<open>What a static frame may do: suspend itself for calls, each with an open journal frame.\<close>

definition hushed :: "'z machine_state_scheme \<Rightarrow> 'z machine_state_scheme \<Rightarrow> bool" where
  "hushed s t \<longleftrightarrow> world_unwritten s t \<and>
     (\<exists>ks es. continuation_frames t = continuation_frames s @ ks \<and> list_all is_call_frame ks \<and>
        journal t = journal s @ es \<and> open_frames (length ks) es)"

lemma hushedI:
  "world_unwritten s t \<Longrightarrow> continuation_frames t = continuation_frames s @ ks \<Longrightarrow>
    list_all is_call_frame ks \<Longrightarrow> journal t = journal s @ es \<Longrightarrow> open_frames (length ks) es \<Longrightarrow> hushed s t"
  by (auto simp: hushed_def)

lemma world_unwritten_trans:
  "world_unwritten s t \<Longrightarrow> world_unwritten t u \<Longrightarrow> world_unwritten s u"
  by (auto simp: world_unwritten_def intro: rows_extend_trans)

lemma calm_hushed:
  fixes s t :: "'z machine_state_scheme"
  assumes "calm s t"
  shows "hushed s t"
proof -
  from assms obtain es where "journal t = journal s @ es" "list_all warm_entry es"
    by (auto simp: calm_def)
  moreover have "continuation_frames t = continuation_frames s"
    using assms frames_kept by (auto simp: calm_def)
  ultimately show ?thesis
    using assms warm_balanced [of es]
    by (auto simp: calm_def intro!: hushedI [where ks = "[]" and es = es] all_closed)
qed

lemma hushed_trans:
  assumes "hushed s t" and "hushed t u"
  shows "hushed s u"
proof -
  obtain ks es where 1: "continuation_frames t = continuation_frames s @ ks" "list_all is_call_frame ks"
    "journal t = journal s @ es" "open_frames (length ks) es" "world_unwritten s t"
    using assms(1) by (auto simp: hushed_def)
  obtain ls fs where 2: "continuation_frames u = continuation_frames t @ ls" "list_all is_call_frame ls"
    "journal u = journal t @ fs" "open_frames (length ls) fs" "world_unwritten t u"
    using assms(2) by (auto simp: hushed_def)
  show ?thesis
    by (rule hushedI [where ks = "ks @ ls" and es = "es @ fs"])
      (use 1 2 open_frames_join world_unwritten_trans in auto)
qed

interpretation hushed: tolerant "hushed :: 'z machine_state_scheme \<Rightarrow> 'z machine_state_scheme \<Rightarrow> bool"
proof unfold_locales
  show "hushed s s" for s :: "'z machine_state_scheme"
    by (rule calm_hushed) (rule calm.related_refl)
qed (auto intro: calm_hushed hushed_trans)

lemmas hushed_rules = hushed.steady_rules hushed.shapes hushed.tolerated_intros

text \<open>Suspending a frame for a call opens a journal frame and pushes the continuation.\<close>

lemma opened_checkpoint_run:
  "k_journal_checkpoint s = Inr ((), s\<lparr>journal := journal s @ [JournalFrameCheckpointed]\<rparr>)"
  by (simp add: k_journal_checkpoint_def state_journal_checkpoint_def journal_append_def)

lemma suspend_frame_calm:
  "\<exists>m. suspend_frame pc gas sp mb mh sg spill refund status msg c d = bind k_journal_checkpoint (\<lambda>_. m) \<and>
     steady calm m"
  unfolding suspend_frame_def Let_def
  by (intro exI conjI, rule refl, intro calm_rules calm_intros; simp)

lemma push_suspended:
  fixes s t :: "'z machine_state_scheme"
  assumes "calm (s\<lparr>journal := journal s @ [JournalFrameCheckpointed]\<rparr>) t" and "is_call_frame k"
  shows "hushed s (t\<lparr>continuation_frames := continuation_frames t @ [k]\<rparr>)"
proof -
  from assms(1) obtain es where es: "journal t = journal s @ JournalFrameCheckpointed # es"
      "list_all warm_entry es"
    by (auto simp: calm_def)
  have "continuation_frames t = continuation_frames s"
    using assms(1) frames_kept by (fastforce simp: calm_def)
  moreover have "open_frames (Suc 0) ([] @ JournalFrameCheckpointed # es)"
    using warm_balanced [OF es(2)] by (intro open_frames.intros) simp_all
  ultimately show ?thesis
    using assms es
    by (intro hushedI [where ks = "[k]" and es = "JournalFrameCheckpointed # es"])
      (auto simp: calm_def world_unwritten_def)
qed

lemma hushed_suspend:
  fixes f :: "frame_checkpoint \<Rightarrow> stack_pointer \<Rightarrow> int \<Rightarrow> int \<Rightarrow> ('z, 'a) machine"
  assumes f: "\<And>c sp b h. steady hushed (f c sp b h)" and k: "\<And>c. is_call_frame (k c)"
  shows "steady hushed (bind (suspend_frame pc gas sp mb mh sg spill refund status msg code d)
    (\<lambda>(c, sp, b, h). bind (frame_stack_push (k c)) (\<lambda>_. f c sp b h)))"
proof -
  obtain m where m: "suspend_frame pc gas sp mb mh sg spill refund status msg code d =
      bind k_journal_checkpoint (\<lambda>_. m :: ('z, frame_checkpoint \<times> stack_pointer \<times> int \<times> int) machine)"
      "steady calm m"
    using suspend_frame_calm by blast
  show ?thesis
    unfolding steady_def
  proof (intro allI)
    fix s :: "'z machine_state_scheme"
    let ?s = "s\<lparr>journal := journal s @ [JournalFrameCheckpointed]\<rparr>"
    show "case bind (suspend_frame pc gas sp mb mh sg spill refund status msg code d)
        (\<lambda>(c, sp, b, h). bind (frame_stack_push (k c)) (\<lambda>_. f c sp b h)) s of
        Inl e \<Rightarrow> e \<noteq> OutOfFuel | Inr (x, t) \<Rightarrow> hushed s t"
    proof (cases "m ?s")
      case (Inl e)
      then show ?thesis using steady_fuel [OF m(2), of ?s] by (auto simp: m(1) bind_run opened_checkpoint_run)
    next
      case (Inr r)
      obtain c sp b h t where r: "r = ((c, sp, b, h), t)" by (cases r) auto
      let ?t = "t\<lparr>continuation_frames := continuation_frames t @ [k c]\<rparr>"
      have "hushed s ?t" using steadyD [OF m(2) Inr [unfolded r]] k by (rule push_suspended)
      then show ?thesis
        using f [of c sp b h, unfolded steady_def, rule_format, of ?t]
        by (auto simp: m(1) bind_run opened_checkpoint_run Inr r frame_stack_push_def split: sum.splits
            intro: hushed_trans)
    qed
  qed
qed

section \<open>A static frame making a call\<close>

text \<open>A call without a value, the only call that a static frame can make, transfers nothing.\<close>

definition without_value :: "call_semantics \<Rightarrow> call_operands \<Rightarrow> bool" where
  "without_value semantics operands \<longleftrightarrow>
     \<not> (transfers_value semantics \<and> word_nonzero (co_value operands))"

lemma calm_no_transfer:
  "without_value semantics operands \<Longrightarrow>
    steady calm (do_when (transfers_value semantics \<and> word_nonzero (co_value operands)) m)"
  by (auto simp: without_value_def do_when_def calm.steady_ret)

lemma hushed_enter_call:
  assumes "without_value semantics operands"
  shows "steady hushed (enter_call lib fr semantics operands args dest d t charged gas :: ('z, frame_transition) machine)"
  unfolding enter_call_def Let_def
  by (intro hushed_suspend hushed_rules calm_no_transfer [THEN hushed.tolerated] assms) simp

lemma calm_call_precompile:
  assumes "without_value semantics operands"
  shows "steady calm (call_precompile lib fr semantics operands args dest charged gas selected)"
  unfolding call_precompile_def Let_def
  by (intro calm_rules calm.shapes calm_intros calm_no_transfer assms)

lemma hushed_dispatch_call:
  assumes "without_value semantics operands"
  shows "steady hushed (dispatch_call lib fr semantics operands d t charged base :: ('z, frame_transition) machine)"
  unfolding dispatch_call_def Let_def
  by (intro hushed_rules hushed_enter_call calm_call_precompile [THEN hushed.tolerated] assms)

lemma hushed_guarded:
  "steady hushed m \<Longrightarrow>
    steady hushed (case status of Failed k \<Rightarrow> exceptional_transition fr k | Continue \<Rightarrow> m)"
  for m :: "('z, frame_transition) machine"
  by (cases status; simp only: opcode_outcome.case; intro hushed_rules)

lemma hushed_checked_message:
  "steady hushed (k m) \<Longrightarrow> steady hushed (bind (checked_message m) k)" for k :: "message \<Rightarrow> ('z, 'a) machine"
  by (simp add: checked_message_def steady_def bind_run)

lemma hushed_run_call:
  assumes "msg_is_static (ft_message fr)"
  shows "steady hushed (run_call lib fr kind :: ('z, frame_transition) machine)"
  unfolding run_call_def Let_def
  by (rule hushed.steady_bind, intro hushed_rules, rule hushed_guarded, rule hushed_checked_message,
      intro hushed_rules hushed_dispatch_call) (use assms in \<open>simp add: without_value_def\<close>)

lemma hushed_run_create:
  assumes "msg_is_static (ft_message fr)"
  shows "steady hushed (run_create lib fr kind :: ('z, frame_transition) machine)"
proof -
  have salt: "steady hushed ((if b then pop_word sp else (\<lambda>rest. rest 0 sp)) k)"
    if "\<And>w sp. steady hushed (k w sp)" for b sp and k :: "int \<Rightarrow> stack_pointer \<Rightarrow> ('z, frame_transition) machine"
    using that by (auto intro: hushed_rules)
  show ?thesis
    unfolding run_create_def Let_def
    by (rule hushed.steady_bind, intro hushed_rules, rule hushed_guarded, rule hushed_checked_message,
        simp only: assms if_True, intro hushed.shapes salt hushed.tolerated_intros)
qed

text \<open>One instruction of a static frame, whatever it is.\<close>

lemma hushed_running:
  assumes "msg_is_static (ft_message fr)"
  shows "steady hushed (interpret_running lib fork fee (fr, ctx) :: ('z, interpreter_state) machine)"
proof -
  have static: "msg_is_static (ft_message (fr\<lparr>ft_pc := pc\<rparr>))" for pc using assms by simp
  have other: "steady hushed (bind (execute_instruction lib fork fee ctx (fr\<lparr>ft_pc := pc\<rparr>) i)
      (\<lambda>fr. bind (settle_outcome fr) (\<lambda>fr. ret (fr, ctx))) :: ('z, interpreter_state) machine)" for pc i
    by (intro hushed_rules calm_static_instruction [OF static, THEN hushed.tolerated])
  show ?thesis
    unfolding interpret_running_def Let_def case_prod_conv
    by (rule hushed.steady_bind, intro hushed_rules, rule steady_case_prod, rename_tac fetched pc i,
        case_tac i; simp only: instruction.case;
        (rule other | intro hushed_rules hushed_run_call hushed_run_create static))
qed

section \<open>Resuming a static frame\<close>

definition open_at :: "journal_entry list \<Rightarrow> 'z host_state_scheme \<Rightarrow> bool" where
  "open_at j s \<longleftrightarrow> (\<exists>fs. journal s = j @ JournalFrameCheckpointed # fs \<and> balanced fs \<and>
     list_all quiet_entry fs)"

definition closed_at :: "journal_entry list \<Rightarrow> 'z host_state_scheme \<Rightarrow> bool" where
  "closed_at j s \<longleftrightarrow> (\<exists>fs. journal s = j @ fs \<and> balanced fs \<and> list_all quiet_entry fs)"

text \<open>Closing the frame that is open, by a commit or by a revert.\<close>

definition closes :: "'z kernel_state_scheme \<Rightarrow> 'z kernel_state_scheme \<Rightarrow> bool" where
  "closes s t \<longleftrightarrow> (\<forall>j. open_at j s \<longrightarrow> world_unwritten s t \<and> closed_at j t)"

lemma calm_open_at: "calm s t \<Longrightarrow> open_at j s \<Longrightarrow> open_at j t"
  by (auto simp: calm_def open_at_def dest!: warm_balanced intro: balanced_append)

lemma calm_closed_at: "calm s t \<Longrightarrow> closed_at j s \<Longrightarrow> closed_at j t"
  by (auto simp: calm_def closed_at_def dest!: warm_balanced intro: balanced_append)

lemma closes_after_calm:
  assumes "steady calm m" and "\<And>x. steady closes (f x)"
  shows "steady closes (bind m f)"
proof -
  have "closes s u" if "calm s t" "closes t u" for s t u :: "'a kernel_state_scheme"
    using that calm_open_at
    by (fastforce simp: closes_def calm_def intro: world_unwritten_trans)
  then show ?thesis
    using assms unfolding steady_def bind_run by (fastforce split: sum.splits prod.splits)
qed

lemma calm_after_closes:
  assumes "steady closes m" and "\<And>x. steady calm (f x)"
  shows "steady closes (bind m f)"
proof -
  have "closes s u" if "closes s t" "calm t u" for s t u :: "'a kernel_state_scheme"
    using that calm_closed_at
    by (fastforce simp: closes_def calm_def intro: world_unwritten_trans)
  then show ?thesis
    using assms unfolding steady_def bind_run by (fastforce split: sum.splits prod.splits)
qed

lemma closes_commit: "steady closes k_journal_commit"
  unfolding steady_def
proof (intro allI)
  fix s :: "'a kernel_state_scheme"
  have "closes s (s\<lparr>journal := journal s @ [JournalFrameCommitted]\<rparr>)"
    unfolding closes_def
  proof (intro allI impI conjI)
    fix j assume "open_at j s"
    then obtain fs where "journal s = j @ JournalFrameCheckpointed # fs" "balanced fs"
        "list_all quiet_entry fs" by (auto simp: open_at_def)
    then show "closed_at j (s\<lparr>journal := journal s @ [JournalFrameCommitted]\<rparr>)"
      using balanced_frame [of fs]
      by (auto simp: closed_at_def quiet_entry_def
          intro!: exI [of _ "JournalFrameCheckpointed # fs @ [JournalFrameCommitted]"])
  qed (simp add: world_unwritten_def)
  then show "case k_journal_commit s of Inl e \<Rightarrow> e \<noteq> OutOfFuel | Inr (x, t) \<Rightarrow> closes s t"
    by (simp add: k_journal_commit_def state_journal_commit_def open_checkpoint_index_def
        journal_append_def bind_run split: option.splits)
qed

lemma restore_quiet:
  assumes "list_all quiet_entry es"
  shows "\<exists>t. journal_restore_all es s = Inr ((), t) \<and> world_unwritten s t \<and> journal t = journal s"
  using assms
proof (induction es arbitrary: s)
  case Nil
  then show ?case by (simp add: world_unwritten_def)
next
  case (Cons e es)
  have "\<exists>t. journal_restore e s = Inr ((), t) \<and> world_unwritten s t \<and> journal t = journal s"
    using Cons.prems by (cases e) (auto simp: quiet_entry_def warm_entry_def world_unwritten_def)
  then obtain t where t: "journal_restore e s = Inr ((), t)" "world_unwritten s t" "journal t = journal s"
    by blast
  from Cons.IH [of t] Cons.prems obtain u where
    "journal_restore_all es t = Inr ((), u)" "world_unwritten t u" "journal u = journal t" by auto
  with t show ?case using world_unwritten_trans [OF t(2)] by (auto simp: bind_run)
qed

lemma closes_revert: "steady closes k_journal_revert"
  unfolding steady_def
proof (intro allI)
  fix s :: "'a kernel_state_scheme"
  have fuel: "k_journal_revert s \<noteq> Inl OutOfFuel"
    using steady_fuel [OF inner_k_journal_revert] by blast
  have "closes s t" if run: "k_journal_revert s = Inr ((), t)" for t
    unfolding closes_def
  proof (intro allI impI)
    fix j assume "open_at j s"
    then obtain fs where fs: "journal s = j @ JournalFrameCheckpointed # fs" "balanced fs"
        "list_all quiet_entry fs" by (auto simp: open_at_def)
    from restore_quiet [of "rev fs" s] fs(3) obtain u where
      u: "journal_restore_all (rev fs) s = Inr ((), u)" "world_unwritten s u" "journal u = journal s"
      by auto
    have drop: "drop (Suc (length j)) (journal s) = fs" by (simp add: fs(1))
    have "t = u\<lparr>journal := py_del_from (journal u) (int (length j))\<rparr>"
      using run open_checkpoint_after_balanced [OF fs(2), of j]
      by (simp add: k_journal_revert_def state_journal_revert_def open_checkpoint_index_def bind_run
          fs(1) [symmetric] drop u(1))
    then show "world_unwritten s t \<and> closed_at j t"
      using u fs(1) by (auto simp: world_unwritten_def closed_at_def py_del_from_def)
  qed
  then show "case k_journal_revert s of Inl e \<Rightarrow> e \<noteq> OutOfFuel | Inr (x, t) \<Rightarrow> closes s t"
    using fuel by (cases "k_journal_revert s") auto
qed

lemma closes_resume_call: "steady closes (resume_call k result child)"
proof -
  have unit: "steady calm (ret () :: ('a kernel_state_scheme, unit) action)" by (rule calm.steady_ret)
  have success: "steady closes (resume_success fr refund (ret ()) w :: ('a, frame_transition) kernel)" for fr refund w
    unfolding resume_success_def
    by (rule closes_after_calm, intro calm_rules calm_intros, rule closes_after_calm, rule unit,
        rule calm_after_closes, rule closes_commit, intro calm_intros)
  have failure: "steady closes (resume_failure fr charged :: ('a, frame_transition) kernel)" for fr charged
    unfolding resume_failure_def
    by (rule calm_after_closes, rule closes_revert, intro calm_rules calm_intros)
  show ?thesis
    unfolding resume_call_def
    by (rule closes_after_calm, intro calm_intros)+ (auto intro: success failure)
qed

section \<open>The call tree below a static frame\<close>

text \<open>The iterations from a frame on until it has ended, with \<open>n\<close> callers suspended below it.\<close>

inductive subtree_step ::
    "crypto \<Rightarrow> fork \<Rightarrow> int \<Rightarrow> nat \<Rightarrow> 'z machine_config \<Rightarrow> 'z machine_config \<Rightarrow> bool"
  for lib fork fee n where
  inside: "machine_step lib fork fee ((fr, ctx), s) c \<Longrightarrow>
     is_running (ft_status fr) \<or> n < length (continuation_frames s) \<Longrightarrow>
     subtree_step lib fork fee n ((fr, ctx), s) c"

inductive_cases subtree_stepE: "subtree_step lib fork fee n c c'"

fun static_call_frame :: "frame_continuation \<Rightarrow> bool" where
  "static_call_frame (ResumeCall call) = msg_is_static (cp_message (cc_checkpoint call))"
| "static_call_frame _ = False"

definition static_tree :: "'z machine_state_scheme \<Rightarrow> 'z machine_config \<Rightarrow> bool" where
  "static_tree s = (\<lambda>((fr, ctx), t). msg_is_static (ft_message fr) \<and> world_unwritten s t \<and>
     (\<exists>ks es. continuation_frames t = continuation_frames s @ ks \<and> list_all static_call_frame ks \<and>
        journal t = journal s @ es \<and> open_frames (length ks) es))"

lemma static_tree_start: "msg_is_static (ft_message fr) \<Longrightarrow> static_tree s ((fr, ctx), s)"
  by (auto simp: static_tree_def world_unwritten_def intro!: all_closed)

lemma static_treeI:
  "msg_is_static (ft_message fr) \<Longrightarrow> world_unwritten s t \<Longrightarrow>
    continuation_frames t = continuation_frames s @ ks \<Longrightarrow> list_all static_call_frame ks \<Longrightarrow>
    journal t = journal s @ es \<Longrightarrow> open_frames (length ks) es \<Longrightarrow> static_tree s ((fr, ctx), t)"
  by (auto simp: static_tree_def)

lemma enters_static:
  assumes "enters fr ks fr'" and "msg_is_static (ft_message fr)" and "list_all is_call_frame ks"
  shows "msg_is_static (ft_message fr') \<and> list_all static_call_frame ks"
proof -
  have "static_call_frame k" if "suspends fr k fr'" "is_call_frame k" for k
    using that assms(2) by (cases k) (auto simp: suspends_def)
  then show ?thesis
    using assms by (auto simp: enters_def flows_def suspends_def)
qed

lemma static_running:
  fixes s t u :: "'z machine_state_scheme"
  assumes tree: "static_tree s ((fr, ctx), t)" and "solvent fr"
    and run: "interpret_running lib fork fee (fr, ctx) t = Inr ((fr', ctx'), u)"
  shows "static_tree s ((fr', ctx'), u)"
proof -
  have static: "msg_is_static (ft_message fr)" using tree by (simp add: static_tree_def)
  from steadyD [OF hushed_running [OF static] run] obtain ls fs where
    more: "continuation_frames u = continuation_frames t @ ls" "list_all is_call_frame ls"
      "journal u = journal t @ fs" "open_frames (length ls) fs" "world_unwritten t u"
    by (auto simp: hushed_def)
  from enters_running [OF assms(2)] run obtain ls' where
    "continuation_frames u = continuation_frames t @ ls'" "enters fr ls' fr'"
    unfolding moves_def by fast
  with more(1,2) static have "msg_is_static (ft_message fr')" "list_all static_call_frame ls"
    using enters_static by auto
  moreover from tree obtain ks es where
    "continuation_frames t = continuation_frames s @ ks" "list_all static_call_frame ks"
    "journal t = journal s @ es" "open_frames (length ks) es" "world_unwritten s t"
    by (auto simp: static_tree_def)
  ultimately show ?thesis
    using more open_frames_join [of "length ls" fs "length ks" es] world_unwritten_trans [of s t u]
    by (intro static_treeI [where ks = "ks @ ls" and es = "es @ fs"]) auto
qed

lemma static_ended:
  fixes s t u :: "'z machine_state_scheme"
  assumes tree: "static_tree s ((fr, ctx), t)" and ok: "machine_ok d ((fr, ctx), t)"
    and inside: "length (continuation_frames s) < length (continuation_frames t)"
    and run: "interpret_ended lib (fr, ctx) t = Inr (Inr (fr', ctx'), u)"
  shows "static_tree s ((fr', ctx'), u)"
proof -
  from tree obtain ks es where ks: "continuation_frames t = continuation_frames s @ ks"
    "list_all static_call_frame ks" "journal t = journal s @ es" "open_frames (length ks) es"
    "world_unwritten s t" by (auto simp: static_tree_def)
  with inside obtain ls k where ls: "ks = ls @ [k]" by (cases ks rule: rev_cases) auto
  obtain call where call: "k = ResumeCall call" "msg_is_static (cp_message (cc_checkpoint call))"
    using ks(2) ls by (cases k) auto
  let ?t = "t\<lparr>continuation_frames := continuation_frames s @ ls\<rparr>"
  have resumed: "resume_call call (frame_output (ft_status fr)) fr ?t = Inr (fr', u)"
    using run ks(1) ls call(1)
    by (auto simp: interpret_ended_def frame_stack_pop_def resume_frame_def butlast_append Let_def
        elim!: bind_returnsE)
  from ks(4) ls obtain es0 fs where es: "es = es0 @ JournalFrameCheckpointed # fs"
      "open_frames (length ls) es0" "balanced fs" "list_all quiet_entry fs"
    by (auto elim: open_frames_SucE)
  then have "open_at (journal s @ es0) ?t"
    using ks(3) by (auto simp: open_at_def)
  with steadyD [OF closes_resume_call resumed] have
    "world_unwritten ?t u" "closed_at (journal s @ es0) u" by (auto simp: closes_def)
  then obtain gs where gs: "journal u = journal s @ es0 @ gs" "balanced gs" "list_all quiet_entry gs"
      "world_unwritten t u"
    by (auto simp: closed_at_def world_unwritten_def)
  have "registers_kept ?t u" using steadyD [OF inner_resume_call resumed] .
  then have frames: "continuation_frames u = continuation_frames s @ ls"
    using frames_kept [of ?t u] by simp
  have "solvent fr" "0 \<le> cp_state_gas_spilled (cc_checkpoint call)"
    using ok ks(1) ls call(1) by (auto simp: machine_ok_def)
  then have "ft_message fr' = cp_message (cc_checkpoint call)"
    using yieldsD [OF yields_resume_call resumed] by (simp add: resumes_def)
  then show ?thesis
    using call(2) frames gs ks(2,5) ls open_frames_append [OF es(2) gs(2,3)] world_unwritten_trans [of s t u]
    by (intro static_treeI [where ks = ls and es = "es0 @ gs"]) auto
qed

lemma static_step:
  assumes "subtree_step lib fork fee (length (continuation_frames s)) c c'"
    and "static_tree s c" and "machine_ok d c"
  shows "static_tree s c'"
proof -
  from assms(1) obtain fr ctx t where c: "c = ((fr, ctx), t)"
    "machine_step lib fork fee ((fr, ctx), t) c'"
    "is_running (ft_status fr) \<or> length (continuation_frames s) < length (continuation_frames t)"
    by (rule subtree_stepE)
  from c(2) obtain st u where step: "interpret_step lib fork fee (fr, ctx) t = Inr (Inr st, u)"
      "c' = (st, u)" by (auto elim: machine_stepE)
  obtain fr' ctx' where st: "st = (fr', ctx')" by (cases st)
  show ?thesis
  proof (cases "is_running (ft_status fr)")
    case True
    with step have "interpret_running lib fork fee (fr, ctx) t = Inr ((fr', ctx'), u)"
      by (auto simp: interpret_step_def st elim!: bind_returnsE)
    then show ?thesis using static_running assms(2,3) c(1) step(2) st by (auto simp: machine_ok_def)
  next
    case False
    with step have "interpret_ended lib (fr, ctx) t = Inr (Inr (fr', ctx'), u)"
      by (simp add: interpret_step_def st)
    then show ?thesis using static_ended assms(2,3) c(1,3) step(2) st False by blast
  qed
qed

definition static_message :: message where
  "static_message = top_message\<lparr>msg_is_static := True\<rparr>"

text \<open>C3: Nothing that runs inside a static call writes: from a static frame on, whatever the code
  of it and of its callees does, until the frame has ended, every frame that runs is static, and
  accounts, storage, transient storage, storage generations and logs stay as they are; rows are
  only loaded.\<close>

theorem static_calls_write_nothing:
  assumes "(subtree_step lib fork fee (length (continuation_frames s)))\<^sup>*\<^sup>* ((fr, ctx), s) ((fr', ctx'), t)"
    and "machine_ok d ((fr, ctx), s)" and "msg_is_static (ft_message fr)"
  shows "world_unwritten s t \<and> msg_is_static (ft_message fr')"
proof -
  have "static_tree s ((fr', ctx'), t) \<and> machine_ok d ((fr', ctx'), t)"
    using assms(1)
  proof (induction rule: rtranclp_induct)
    case base
    show ?case using static_tree_start assms(2,3) by blast
  next
    case (step c c')
    then have ok: "static_tree s c" "machine_ok d c" by simp_all
    from step(2) have "machine_step lib fork fee c c'" by (auto elim: subtree_stepE)
    from machine_step_progress [OF this ok(2)] have "machine_ok d c'" by (simp add: progresses_def)
    then show ?case using static_step [OF step(2) ok] by simp
  qed
  then show ?thesis by (simp add: static_tree_def)
qed

theorem static_calls_write_nothing_witness:
  "\<forall>lib ctx. subtree_step lib Amsterdam 1 0
      ((jumpdest_frame static_message 1, ctx), jumpdest_machine)
      (((jumpdest_frame static_message 0)\<lparr>ft_pc := 1\<rparr>, ctx), jumpdest_machine) \<and>
    world_unwritten jumpdest_machine jumpdest_machine"
proof (intro allI conjI)
  fix lib ctx
  show step: "subtree_step lib Amsterdam 1 0 ((jumpdest_frame static_message 1, ctx), jumpdest_machine)
      (((jumpdest_frame static_message 0)\<lparr>ft_pc := 1\<rparr>, ctx), jumpdest_machine)"
    by (rule inside [OF iteration [OF jumpdest_steps(1)]]) simp
  then have "(subtree_step lib Amsterdam 1 (length (continuation_frames jumpdest_machine)))\<^sup>*\<^sup>*
      ((jumpdest_frame static_message 1, ctx), jumpdest_machine)
      (((jumpdest_frame static_message 0)\<lparr>ft_pc := 1\<rparr>, ctx), jumpdest_machine)"
    by (simp add: jumpdest_machine_fields r_into_rtranclp)
  from static_calls_write_nothing [OF this, of 0]
  show "world_unwritten jumpdest_machine jumpdest_machine"
    by (simp add: machine_ok_def solvent_def jumpdest_machine_fields static_message_def top_message_def)
qed

end
