(* ===== verification/Fuel_Laws.thy ===== *)
theory Fuel_Laws
  imports Interpreter_Laws Stateless
begin

text \<open>
  The number of iterations that the model passes down to the interpreter does not matter. The gas
  of a transaction and of a system call is below \<open>2 ^ 64\<close>, so with \<open>3 * 2 ^ 64\<close> iterations no
  interpretation is cut short, and every function above the interpreter is the same function for
  all numbers from there on.
\<close>

section \<open>Frames\<close>

definition affords :: "int \<Rightarrow> int \<Rightarrow> bool" where
  "affords gas spill \<longleftrightarrow> 0 \<le> gas \<and> 0 \<le> spill \<and> gas + spill < 2 ^ 64"

definition ample :: "nat \<Rightarrow> bool" where
  "ample steps \<longleftrightarrow> 3 * 2 ^ 64 \<le> int steps"

lemma interpret_any_fuel:
  fixes steps :: nat
  assumes "ample steps" and "affords gas spill" and "msg_depth m = 0"
  shows "evm_interpret (steps + k) lib gas state_gas spill refund sp base height m c data =
    evm_interpret steps lib gas state_gas spill refund sp base height m c data"
proof (rule ext)
  have "0 \<le> gas" "0 \<le> spill" "msg_depth m \<le> 1024" "3 * (gas + spill) + 2 \<le> int steps"
    using assms by (simp_all add: affords_def ample_def)
  from evm_interpret_returns [OF this]
  show "evm_interpret (steps + k) lib gas state_gas spill refund sp base height m c data s =
      evm_interpret steps lib gas state_gas spill refund sp base height m c data s"
    for s :: "'a machine_state_scheme" by blast
qed

text \<open>Two computations are equal when they start alike and go on alike.\<close>

lemma bind_eqI:
  assumes "yields Q m" and "\<And>x. Q x \<Longrightarrow> f x = g x"
  shows "bind m f = bind m g"
proof (rule ext)
  fix s
  show "bind m f s = bind m g s"
  proof (cases "m s")
    case (Inr r)
    obtain x t where r: "r = (x, t)" by (cases r)
    with assms(1) Inr have "Q x" by (simp add: yieldsD)
    then show ?thesis using assms(2) Inr r by (simp add: bind_run)
  qed (simp add: bind_run)
qed

lemma same_parts:
  "(\<And>x. f x = g x) \<Longrightarrow> bind m f = bind m g"
  "(b \<Longrightarrow> m = m') \<Longrightarrow> (\<not> b \<Longrightarrow> n = n') \<Longrightarrow> (if b then m else n) = (if b then m' else n')"
  "(\<And>x y. p = (x, y) \<Longrightarrow> h x y = h' x y) \<Longrightarrow> case_prod h p = case_prod h' p"
  by (presburger, simp, simp split: prod.splits)

lemma tx_frame_any_fuel:
  assumes "ample steps" and "affords (tf_gas f) (tf_state_spill f)"
  shows "tx_frame_interpret (steps + k) lib f = tx_frame_interpret steps lib f"
  unfolding tx_frame_interpret_def
  by (intro ext, subst interpret_any_fuel [OF assms]) simp_all

lemma tx_frame_registers [simp]:
  "tx_frame_interpret steps lib (f\<lparr>tf_status := status, tf_output := result\<rparr>) =
    tx_frame_interpret steps lib f"
  by (intro ext) (simp add: tx_frame_interpret_def)

lemma transaction_frames_any_fuel:
  assumes "ample steps" and "affords (tf_gas f) (tf_state_spill f)"
  shows "run_create_transaction_frame (steps + k) lib tx sender nonce_before f entry reservoir =
      run_create_transaction_frame steps lib tx sender nonce_before f entry reservoir"
    "run_call_transaction_frame (steps + k) lib tx sender delegated f entry code_address reservoir =
      run_call_transaction_frame steps lib tx sender delegated f entry code_address reservoir"
  unfolding run_create_transaction_frame_def run_call_transaction_frame_def Let_def
  by (simp_all only: tx_frame_registers tx_frame_any_fuel [OF assms])

section \<open>The gas of a transaction\<close>

definition initial_gas_ok :: "tx_validity_fields \<Rightarrow> bool" where
  "initial_gas_ok v \<longleftrightarrow> transaction_initial_gas_relation (txv_gas v)"

lemma yields_initial_gas:
  "yields transaction_initial_gas_relation (transaction_initial_gas allowance execution state floor)"
  unfolding transaction_initial_gas_def checked_initial_gas_def Let_def
  by (intro yields_rules) auto

lemma yields_validity: "yields initial_gas_ok (check_transaction_validity keccak tx allowance)"
  unfolding check_transaction_validity_def Let_def
  by (intro yields_bind yields_case_prod yields_then [OF yields_initial_gas] yields_ret)
    (simp add: initial_gas_ok_def)

lemma yields_enter_frame:
  assumes "initial_gas_ok v"
  shows "yields (\<lambda>(f, entry). affords (tf_gas f) (tf_state_spill f)) (enter_transaction_frame v)"
  unfolding enter_transaction_frame_def Let_def
  by (intro yields_bind yields_ret)
    (use assms in \<open>auto simp: initial_gas_ok_def transaction_initial_gas_relation_def affords_def\<close>)

lemma yields_auth:
  assumes "affords gas spill"
  shows "yields (\<lambda>(processed, gas', state_gas', spill'). affords gas' spill')
    (process_amsterdam_auth keccak au sender current_target moves_value gas state_gas spill)"
proof -
  have state: "yields (\<lambda>(processed, g', st', sl'). affords g' sl') (charge_auth_state r amount g st sl body)"
    if "affords g sl" "0 \<le> amount" "\<And>g st sl. affords g sl \<Longrightarrow>
      yields (\<lambda>(processed, g', st', sl'). affords g' sl') (body g st sl)" for r amount g st sl body
    unfolding charge_auth_state_def
    by (intro yields_if that(3) yields_then [OF yields_charge_state_gas] yields_case_prod yields_ret)
      (use that(1,2) in \<open>auto simp: affords_def\<close>)
  have account_write: "yields (\<lambda>(processed, g', st', sl'). affords g' sl') (charge_auth_account_write r g st sl body)"
    if "affords g sl" "\<And>g'. affords g' sl \<Longrightarrow> yields (\<lambda>(processed, g', st', sl'). affords g' sl') (body g')"
    for r g st sl body
    unfolding charge_auth_account_write_def
    by (intro yields_if that(2) yields_then [OF yields_gas_sub] yields_ret)
      (use that(1) in \<open>auto simp: affords_def G_amsterdam_account_write_def\<close>)
  show ?thesis
    unfolding process_amsterdam_auth_def Let_def
    by (intro yields_bind yields_if yields_case_prod state account_write assms yields_ret)
      (use assms in \<open>auto simp: G_amsterdam_state_new_account_def G_amsterdam_state_auth_base_def\<close>)
qed

lemma yields_auths:
  assumes "affords gas spill"
  shows "yields (\<lambda>(processed, gas', state_gas', spill'). affords gas' spill')
    (process_amsterdam_auth_cursor keccak auths count sender current_target moves_value gas state_gas spill)"
  using assms
proof (induction count arbitrary: auths gas state_gas spill)
  case 0
  then show ?case by (simp add: yields_def)
next
  case (Suc count)
  show ?case
    unfolding process_amsterdam_auth_cursor.simps
    by (rule yields_bind, rule yields_bind, rule yields_then [OF yields_auth [OF Suc.prems]])
      (auto intro!: Suc.IH yields_ret)
qed

lemma yields_dispatch:
  assumes "affords gas spill"
  shows "yields (\<lambda>d. affords (td_gas d) (td_spill d))
    (prepare_amsterdam_transaction_dispatch lib tx v upfront gas state_gas spill)"
proof -
  have account: "yields (\<lambda>d. affords (td_gas d) (td_spill d)) (charge_dispatch_account r g st sl fails body)"
    if "affords g sl" "\<And>g st sl. affords g sl \<Longrightarrow> yields (\<lambda>d. affords (td_gas d) (td_spill d)) (fails g st sl)"
      "\<And>g st sl. affords g sl \<Longrightarrow> yields (\<lambda>d. affords (td_gas d) (td_spill d)) (body g st sl)"
    for r g st sl fails body
    unfolding charge_dispatch_account_def
    by (intro yields_if that(2,3) yields_then [OF yields_charge_state_gas] yields_case_prod)
      (use that(1) in \<open>auto simp: affords_def G_amsterdam_state_new_account_def\<close>)
  show ?thesis
    unfolding prepare_amsterdam_transaction_dispatch_def Let_def
    by (intro yields_bind yields_if account assms yields_case_prod yields_ret
        yields_then [OF yields_access_costs(1)] yields_then [OF yields_gas_sub])
      (auto simp: affords_def)
qed

section \<open>Transactions\<close>

lemma legacy_frame_any_fuel:
  assumes "ample steps" and "initial_gas_ok v"
  shows "run_legacy_transaction_frame (steps + k) lib tx v = run_legacy_transaction_frame steps lib tx v"
  unfolding run_legacy_transaction_frame_def Let_def
  by (rule same_parts(1), rule bind_eqI [OF yields_enter_frame [OF assms(2)]], rule same_parts(3))
    (simp add: transaction_frames_any_fuel [OF assms(1)])

lemma amsterdam_frame_any_fuel:
  assumes "ample steps" and "initial_gas_ok v"
  shows "run_amsterdam_transaction_frame (steps + k) lib tx v upfront auths =
    run_amsterdam_transaction_frame steps lib tx v upfront auths"
proof -
  have inner: "bind (prepare_amsterdam_transaction_dispatch lib tx v upfront gas state_gas 0) f =
      bind (prepare_amsterdam_transaction_dispatch lib tx v upfront gas state_gas 0) g"
    if "affords gas spill" "\<And>d. affords (td_gas d) (td_spill d) \<Longrightarrow> f d = g d"
    for gas state_gas spill and f g :: "transaction_dispatch \<Rightarrow> ('z, tx_frame_result_fields) machine"
    by (rule bind_eqI [OF yields_dispatch])
      (use that in \<open>auto simp: affords_def\<close>)
  show ?thesis
    unfolding run_amsterdam_transaction_frame_def Let_def
    by (rule bind_eqI [OF yields_enter_frame [OF assms(2)]], rule same_parts(3), rule same_parts(1),
      rule same_parts(1), rule same_parts(1), rule bind_eqI [OF yields_auths], simp, (rule same_parts(3))+,
      rule same_parts(2), rule refl, rule inner, simp)
      (simp add: transaction_frames_any_fuel [OF assms(1)])
qed

lemma transaction_any_fuel:
  assumes "ample steps"
  shows "process_transaction (steps + k) lib tx allowance = process_transaction steps lib tx allowance"
proof -
  have frame: "run_transaction_frame (steps + k) lib tx v upfront auths =
      run_transaction_frame steps lib tx v upfront auths" if "initial_gas_ok v" for v upfront auths
    unfolding run_transaction_frame_def
    by (simp only: legacy_frame_any_fuel [OF assms that] amsterdam_frame_any_fuel [OF assms that])
  show ?thesis
    unfolding process_transaction_def Let_def
    by (rule same_parts(1), rule bind_eqI [OF yields_validity]) (simp add: frame)
qed

section \<open>System calls, blocks and requests\<close>

lemma system_call_frame_any_fuel:
  assumes "ample steps"
  shows "run_system_call_frame (steps + k) lib tgt code data base =
    run_system_call_frame steps lib tgt code data base"
  unfolding run_system_call_frame_def
  by (subst interpret_any_fuel [OF assms]) (simp_all add: affords_def SYSTEM_CALL_GAS_LIMIT_def)

lemma system_calls_any_fuel:
  assumes "ample steps"
  shows "system_call (steps + k) lib = system_call steps lib"
    "system_call_checked (steps + k) lib = system_call_checked steps lib"
  unfolding system_call_def system_call_checked_def
  by (intro ext, simp only: system_call_frame_any_fuel [OF assms])+

lemma requests_any_fuel:
  assumes "ample steps"
  shows "validate_execution_requests (steps + k) lib input_ref =
      validate_execution_requests steps lib input_ref"
    "run_block_start_system_calls (steps + k) lib = run_block_start_system_calls steps lib"
  unfolding validate_execution_requests_def validate_request_stream_def run_block_start_system_calls_def
  by (simp_all only: system_calls_any_fuel [OF assms])

lemma execute_transaction_any_fuel:
  assumes "ample steps"
  shows "execute_transaction (steps + k) lib = execute_transaction steps lib"
  unfolding execute_transaction_def
  by (intro ext) (simp only: transaction_any_fuel [OF assms])

lemma transactions_loop_any_fuel:
  assumes "ample steps"
  shows "execute_transactions_loop (steps + k) lib bl s = execute_transactions_loop steps lib bl s"
  using assms
proof (induction steps lib bl s rule: execute_transactions_loop.induct)
  case (1 steps lib bl s)
  note same = execute_transaction_any_fuel [OF 1(2)]
  show ?case
    by (subst (1 2) execute_transactions_loop.simps, unfold same Let_def,
        intro if_state_cong bind_state_cong prod_state_cong refl, rule 1(1))
      (simp_all add: 1(2))
qed

lemma block_any_fuel:
  assumes "ample steps"
  shows "execute_block_body (steps + k) lib body input_ref = execute_block_body steps lib body input_ref"
proof -
  have loop: "execute_transactions_loop (steps + k) lib bl = execute_transactions_loop steps lib bl" for bl
    by (rule ext) (rule transactions_loop_any_fuel [OF assms])
  have transactions: "execute_block_transactions (steps + k) lib = execute_block_transactions steps lib"
    unfolding execute_block_transactions_def by (simp only: loop)
  show ?thesis
    unfolding execute_block_body_def by (simp only: transactions requests_any_fuel [OF assms])
qed

text \<open>C0: The number of interpreter iterations that the model passes down is immaterial: from
  \<open>3 * 2 ^ 64\<close> on, \<open>main\<close> does the same for every request, in every state, with any number.
  No interpretation of a transaction or of a system call, with less than \<open>2 ^ 64\<close> of gas, is ever
  cut short.\<close>

theorem validation_needs_no_fuel:
  assumes "3 * 2 ^ 64 \<le> int steps"
  shows "main (steps + k) lib s = main steps lib s"
proof -
  have "ample steps" using assms by (simp add: ample_def)
  then show ?thesis
    unfolding main_def verify_stateless_payload_def by (simp only: block_any_fuel)
qed

theorem validation_needs_no_fuel_witness:
  "\<forall>lib s. main (3 * 2 ^ 64 + 1) lib s = main (3 * 2 ^ 64) lib s"
  by (intro allI, rule validation_needs_no_fuel) simp

end
