(* ===== verification/Settlement_Laws.thy ===== *)
theory Settlement_Laws
  imports Steady_Writers Tx_Processing
begin

text \<open>
  What settling a transaction does: the gas it charges after refunds and the calldata floor, and
  the balances of sender and fee recipient that it commits.
\<close>

section \<open>The account a row started from\<close>

text \<open>An operation on balances may open a row of the transaction for an account of the block, and
  may change the current value of a row, but not what the account was before the transaction.\<close>

definition started_as ::
    "(bytes, account_tx_row) dict \<Rightarrow> (bytes, account_block_row) dict \<Rightarrow> bytes \<Rightarrow> account option" where
  "started_as rows block k = (case dict_get rows k of
     Some row \<Rightarrow> Some (atr_original row)
   | None \<Rightarrow> map_option (\<lambda>b. acct_curr (abr_value b)) (dict_get block k))"

definition anchored :: "'z host_state_scheme \<Rightarrow> 'z host_state_scheme \<Rightarrow> bool" where
  "anchored s t \<longleftrightarrow> account_block t = account_block s \<and>
     started_as (account_tx t) (account_block s) = started_as (account_tx s) (account_block s)"

lemma started_as_set [simp]:
  "started_as rows block k = Some (atr_original row) \<Longrightarrow>
    started_as (dict_set rows k row) block = started_as rows block"
  by (auto simp: started_as_def fun_eq_iff dict_get_set)

interpretation anchored: action_invariant anchored
  by unfold_locales (simp_all add: anchored_def)

lemma anchored_if_kept: "accounts_kept s t \<Longrightarrow> anchored s t"
  by (simp add: accounts_kept_def anchored_def)

lemma accounts_kept_append: "keeps accounts_kept (journal_append e)"
  unfolding journal_append_def by (rule keeps_modify) (simp add: accounts_kept_def)

lemma accounts_kept_clear: "keeps accounts_kept (storage_tx_clear a)"
  unfolding storage_tx_clear_def Let_def
  by (intro accounts_kept.keeps_rules accounts_kept_append keeps_modify) (simp add: accounts_kept_def)

lemma anchored_set_current:
  assumes "accounts_kept s u" and "dict_get (account_tx s) (address_key a) = Some row"
    and "set_current a row v u = Inr (x, t)"
  shows "anchored s t"
  using assms
  by (auto simp: accounts_kept_def anchored_def set_current_def) (simp add: started_as_def)

lemma anchored_acct_tx_update:
  assumes "acct_tx_update a v s = Inr (x, t)"
  shows "anchored s t"
proof (cases "dict_get (account_tx s) (address_key a)")
  case None
  with assms show ?thesis
    by (auto simp: acct_tx_update_def journal_append_def anchored_def Let_def
        split: option.splits elim!: bind_returnsE) (simp add: started_as_def)
next
  case (Some row)
  have "keeps accounts_kept (do_when b (journal_append e) :: ('a, unit) host)" for b e
    by (intro accounts_kept.keeps_rules accounts_kept_append)
  note kept = keepsD [OF this]
  from assms Some show ?thesis
    unfolding acct_tx_update_def Let_def
    by (auto elim!: bind_returnsE dest!: kept
        intro!: anchored_set_current [OF _ Some, rotated] simp: accounts_kept_def)
qed

lemma account_tx_required_row:
  assumes "account_tx_required a s = Inr (row, u)"
  shows "anchored s u \<and> dict_get (account_tx u) (address_key a) = Some row"
  using assms
  by (auto simp: account_tx_required_def journal_append_def anchored_def dict_get_set Let_def
      split: option.splits elim!: bind_returnsE) (simp add: started_as_def)

lemma anchored_set_info:
  fixes e :: "account_tx_row \<Rightarrow> journal_entry"
  shows "keeps anchored (bind (account_tx_required a) (\<lambda>row. do_when (b row)
    (bind (journal_append (e row)) (\<lambda>_. set_info a row f))))"
proof (rule keepsI)
  fix s :: "'a host_state_scheme" and x t
  assume "bind (account_tx_required a) (\<lambda>row. do_when (b row)
    (bind (journal_append (e row)) (\<lambda>_. set_info a row f))) s = Inr (x, t)"
  then obtain row u where u: "account_tx_required a s = Inr (row, u)"
    and rest: "do_when (b row) (bind (journal_append (e row)) (\<lambda>_. set_info a row f)) u = Inr (x, t)"
    by (rule bind_returnsE)
  note row = account_tx_required_row [OF u]
  have "anchored u t"
  proof (cases "b row")
    case True
    with rest obtain y w where "journal_append (e row) u = Inr (y, w)" "set_info a row f w = Inr (x, t)"
      by (auto elim!: bind_returnsE)
    then show ?thesis
      using row anchored_set_current keepsD [OF accounts_kept_append] unfolding set_info_def by blast
  qed (use rest in \<open>simp add: anchored.related_refl\<close>)
  with row show "anchored s t" using anchored.related_trans by blast
qed

lemma anchored_store_account_info: "keeps anchored (store_account_info a acc i)"
proof -
  have "keeps anchored (storage_tx_clear a)" "keeps anchored (acct_tx_update a v)" for v
    using keepsD [OF accounts_kept_clear] anchored_if_kept anchored_acct_tx_update
    by (blast intro: keepsI)+
  then show ?thesis
    unfolding store_account_info_def store_account_def Let_def acct_tx_set_balance_def
      acct_tx_set_nonce_def acct_tx_set_code_hash_def
    by (intro anchored.keeps_rules keeps_if anchored_set_info)
qed

section \<open>The ledger between transactions\<close>

text \<open>The invariant of the accounts that holds from the start of a transaction to its merge: the
  rows are well formed, and every row started from the account that the block has, whose flags
  are unset.\<close>

definition ledger_ok :: "'z host_state_scheme \<Rightarrow> bool" where
  "ledger_ok s \<longleftrightarrow> world_ok s \<and> addresses_ok s \<and>
     started_as (account_tx s) (account_block s) = block_account s \<and>
     (\<forall>k acc. block_account s k = Some acc \<longrightarrow> \<not> created acc \<and> \<not> selfdestructed acc)"

lemma ledger_ok_originals:
  assumes "ledger_ok s"
  shows "originals_ok s"
  unfolding originals_ok_def
proof (intro allI impI)
  fix k row
  assume row: "dict_get (account_tx s) k = Some row"
  have "started_as (account_tx s) (account_block s) k = block_account s k"
    using assms by (simp add: ledger_ok_def)
  then have "block_account s k = Some (atr_original row)" using row by (simp add: started_as_def)
  then show "block_account s k = Some (atr_original row) \<and> \<not> created (atr_original row) \<and>
      \<not> selfdestructed (atr_original row)"
    using assms unfolding ledger_ok_def by blast
qed

lemma ledger_ok_anchored: "ledger_ok s \<Longrightarrow> world_ok t \<Longrightarrow> anchored s t \<Longrightarrow> ledger_ok t"
  by (simp add: ledger_ok_def anchored_def addresses_ok_def block_account_def [abs_def])

lemma ledger_ok_load:
  assumes "ledger_ok s" and "current_account s (address_key a) = Some acc"
  shows "\<exists>t. k_aload keccak a s = Inr (acc, t) \<and> accounts_kept s t \<and> ledger_ok t"
proof -
  from k_aload_loaded [OF assms(2)] obtain t where
    t: "k_aload keccak a s = Inr (acc, t)" "accounts_kept s t" by blast
  have "journaled_step s t"
    using journaled_if_world_kept [OF k_aload_kept] t(1) by (rule keepsD)
  then have "world_ok t" using assms(1) by (simp add: ledger_ok_def journaled_step_def)
  then show ?thesis using t ledger_ok_anchored [OF assms(1) _ anchored_if_kept] by blast
qed

text \<open>Crediting an account that has been loaded.\<close>

definition credited :: "int \<Rightarrow> account \<Rightarrow> account \<Rightarrow> bool" where
  "credited v a b \<longleftrightarrow> balance (info b) = (balance (info a) + v) mod 2 ^ 256 \<and>
     nonce (info b) = nonce (info a) \<and> code_hash (info b) = code_hash (info a) \<and>
     created b = created a \<and> selfdestructed b = selfdestructed a"

lemma add_balance_credits:
  fixes s :: "'z kernel_state_scheme"
  assumes ok: "ledger_ok s" and acc: "current_account s (address_key a) = Some acc"
    and range: "0 \<le> balance (info acc)" "balance (info acc) < 2 ^ 256" "0 \<le> v" "v < 2 ^ 256"
    and run: "k_add_balance keccak a v s = Inr (x, t)"
  shows "ledger_ok t \<and> (\<exists>b. current_account t (address_key a) = Some b \<and> credited v acc b) \<and>
    (\<forall>k. k \<noteq> address_key a \<longrightarrow> current_account t k = current_account s k) \<and> anchored s t"
proof -
  from ledger_ok_load [OF ok acc] obtain u where
    u: "k_aload keccak a s = Inr (acc, u)" "accounts_kept s u" "ledger_ok u" by blast
  note same = accounts_kept_current [OF u(2)]
  show ?thesis
  proof (cases "word_is_zero v")
    case True
    with run u(1) have "t = u" by (simp add: k_add_balance_def)
    with True u same acc range show ?thesis
      by (auto simp: credited_def word_is_zero_def word_constants intro: anchored_if_kept)
  next
    case False
    let ?i = "(info acc)\<lparr>balance := alu_add (balance (info acc)) v\<rparr>"
    from run u(1) False have store: "store_account_info a acc ?i u = Inr (x, t)"
      by (simp add: k_add_balance_def)
    have loaded: "current_account u (address_key a) = Some acc" using acc same by simp
    have "world_ok t"
      using store_account_info_step [OF loaded _ store] u(3)
      by (simp add: journaled_step_def ledger_ok_def)
    moreover have "anchored u t" using anchored_store_account_info store by (rule keepsD)
    ultimately have "ledger_ok t \<and> anchored s t"
      using ledger_ok_anchored [OF u(3)] anchored_if_kept [OF u(2)] anchored.related_trans by blast
    moreover have "credited v acc (account_set_info acc ?i)"
      using range by (simp add: credited_def account_set_info_fields alu_add_def word_add_word_def
          sail_tmod_int_nonneg)
    ultimately show ?thesis
      using store_account_info_current [OF loaded store] keepsD [OF others_kept_store_info store] same
      by (simp add: others_kept_def)
  qed
qed

section \<open>What is charged\<close>

text \<open>The gas a transaction is charged: what it has spent less the capped refund, and since Prague
  at least the floor of its calldata.\<close>

definition charged_gas :: "protocol_profile \<Rightarrow> tx_frame_gas_snapshot_fields \<Rightarrow> int \<Rightarrow> int" where
  "charged_gas p g refund =
     (let spent = tgs_admitted_limit g - tgs_remaining g in
      max (if pp_fork p \<ge> Prague then tgs_calldata_floor g else 0)
        (spent - min (spent div refund_divisor p) (max 0 refund)))"

lemma ledger_committed:
  assumes "ledger_ok s"
  shows "committed_account sem s k = map_option (settle sem) (current_account s k)"
proof (cases "dict_get (account_tx s) k")
  case None
  have current: "current_account s k = block_account s k"
    using None by (simp add: current_account_def block_account_def)
  have "settle sem acc = acc" if "block_account s k = Some acc" for acc
    using assms that by (simp add: ledger_ok_def settle_def ends_destroyed_def)
  then show ?thesis
    using None by (cases "block_account s k") (simp_all add: committed_account_def current)
qed (simp add: committed_account_def current_account_def)

lemma settle_kept: "\<not> selfdestructed acc \<Longrightarrow> info (settle sem acc) = info acc"
  by (simp add: settle_def ends_destroyed_def)

lemma inner_k_add_balance [inner_intros]: "steady registers_kept (k_add_balance keccak a v)"
  unfolding k_add_balance_def by (intro inner_rules inner_calm inner_intros calm_intros)

lemma settlement_steps:
  "validated_word_product p f s = Inr (x, t) \<Longrightarrow>
    x = p * f \<and> t = s \<and> 0 \<le> p * f \<and> p * f < 2 ^ 256"
  "receipt_within limit regular kind ok used execution state_gas series s = Inr (r, t) \<Longrightarrow>
    t = s \<and> rcpt_gas_used r = used \<and> 0 \<le> used \<and> used \<le> limit"
  "read_logs s = Inr (y, t) \<Longrightarrow> t = s"
  "fatal_error reason s = Inr (z, t) \<Longrightarrow> False"
  by (auto simp: validated_word_product_def protocol_word_def as_word_def ranged_def fatal_error_def
      receipt_within_def receipt_fields_def receipt_gas_relation_def read_logs_def natural_def
      logs_tx_start_def logs_tx_count_def Let_def split: if_splits elim!: bind_returnsE)

lemma settle_transaction_runs:
  fixes s :: "'z kernel_state_scheme"
  assumes run: "settle_transaction keccak tx v auth_refund fr s = Inr (r, t)"
    and gas: "tx_frame_gas_snapshot_relation (tfr_gas fr)"
    and divisor: "0 < refund_divisor (protocol (k_execution_profile s))"
    and used: "used = charged_gas (protocol (k_execution_profile s)) (tfr_gas fr)
      (auth_refund + tfr_refund fr)"
  shows "\<exists>s1 s2 s3. let left = tgs_admitted_limit (tfr_gas fr) - used in
    0 \<le> txv_gas_price v * left \<and> txv_gas_price v * left < 2 ^ 256 \<and>
    0 \<le> txv_priority_fee v * used \<and> txv_priority_fee v * used < 2 ^ 256 \<and>
    k_add_balance keccak (txv_sender v) (txv_gas_price v * left) s = Inr ((), s1) \<and>
    k_add_balance keccak (hdr_fee_recipient (k_header s1)) (txv_priority_fee v * used) s1 =
      Inr ((), s2) \<and>
    k_tx_merge keccak s2 = Inr ((), s3) \<and> t = s3 \<and> rcpt_gas_used r = used \<and> 0 \<le> used \<and>
    used \<le> tgs_admitted_limit (tfr_gas fr)"
proof -
  let ?g = "tfr_gas fr" and ?p = "protocol (k_execution_profile s)"
  let ?spent = "tgs_admitted_limit ?g - tgs_remaining ?g"
  let ?floor = "if pp_fork ?p \<ge> Prague then tgs_calldata_floor ?g else 0"
  have left: "remaining_gas_after_refund (tgs_admitted_limit ?g) (auth_refund + tfr_refund fr)
      (tgs_remaining ?g) (sail_ediv_int ?spent (refund_divisor ?p)) =
      tgs_remaining ?g + min (?spent div refund_divisor ?p) (max 0 (auth_refund + tfr_refund fr))"
    using divisor gas
    by (auto simp: remaining_gas_after_refund_def tx_frame_gas_snapshot_relation_def
        pos_imp_zdiv_nonneg_iff)
  have charged: "(if tgs_admitted_limit ?g - remaining_gas_after_refund (tgs_admitted_limit ?g)
        (auth_refund + tfr_refund fr) (tgs_remaining ?g)
        (sail_ediv_int ?spent (refund_divisor ?p)) < ?floor then ?floor
      else tgs_admitted_limit ?g - remaining_gas_after_refund (tgs_admitted_limit ?g)
        (auth_refund + tfr_refund fr) (tgs_remaining ?g)
        (sail_ediv_int ?spent (refund_divisor ?p))) = used"
    unfolding left used charged_gas_def Let_def by simp
  have start: "bind (reads f) m s = m (f s) s" for f :: "'z kernel_state_scheme \<Rightarrow> 'b" and m
    by simp
  show ?thesis
    using run
    unfolding settle_transaction_def Let_def start charged k_coinbase_def
    by (auto split: if_splits elim!: bind_returnsE dest!: settlement_steps)
qed

text \<open>C9: Settling a transaction charges what it has spent less the capped refund, but at least the
  calldata floor, and never more than its limit. When the accounts of the transaction are merged,
  the sender has been paid back the price of the gas left, the fee recipient has received the
  priority fee for the gas charged, and every other account is committed as it was.\<close>

theorem settlement_pays_fees:
  fixes s :: "'z kernel_state_scheme"
  assumes "ledger_ok s" and "tx_frame_gas_snapshot_relation (tfr_gas fr)"
    and "0 < refund_divisor (protocol (k_execution_profile s))"
    and "txv_sender v \<noteq> hdr_fee_recipient (k_header s)"
    and "current_account s (address_key (txv_sender v)) = Some a" and "\<not> selfdestructed a"
    and "current_account s (address_key (hdr_fee_recipient (k_header s))) = Some b"
    and "\<not> selfdestructed b"
    and "0 \<le> balance (info a)" and "balance (info a) < 2 ^ 256"
    and "0 \<le> balance (info b)" and "balance (info b) < 2 ^ 256"
    and "settle_transaction keccak tx v auth_refund fr s = Inr (r, t)"
    and "used = charged_gas (protocol (k_execution_profile s)) (tfr_gas fr)
      (auth_refund + tfr_refund fr)"
  shows "rcpt_gas_used r = used \<and> 0 \<le> used \<and> used \<le> tgs_admitted_limit (tfr_gas fr) \<and>
    (\<exists>a' b'. block_account t (address_key (txv_sender v)) = Some a' \<and>
      balance (info a') = (balance (info a) + txv_gas_price v *
        (tgs_admitted_limit (tfr_gas fr) - used)) mod 2 ^ 256 \<and>
      block_account t (address_key (hdr_fee_recipient (k_header s))) = Some b' \<and>
      balance (info b') = (balance (info b) + txv_priority_fee v * used) mod 2 ^ 256) \<and>
    (\<forall>k. k \<noteq> address_key (txv_sender v) \<longrightarrow> k \<noteq> address_key (hdr_fee_recipient (k_header s)) \<longrightarrow>
      block_account t k = committed_account (transaction_merge_semantics_of
        (pp_fork (protocol (k_execution_profile s)))) s k)"
proof -
  let ?left = "tgs_admitted_limit (tfr_gas fr) - used" and ?from = "address_key (txv_sender v)"
  let ?to = "address_key (hdr_fee_recipient (k_header s))"
  from settle_transaction_runs [OF assms(13,2,3,14)] obtain u w where
    fees: "0 \<le> txv_gas_price v * ?left" "txv_gas_price v * ?left < 2 ^ 256"
      "0 \<le> txv_priority_fee v * used" "txv_priority_fee v * used < 2 ^ 256"
    and runs: "k_add_balance keccak (txv_sender v) (txv_gas_price v * ?left) s = Inr ((), u)"
      "k_add_balance keccak (hdr_fee_recipient (k_header u)) (txv_priority_fee v * used) u = Inr ((), w)"
      "k_tx_merge keccak w = Inr ((), t)"
    and charged: "rcpt_gas_used r = used" "0 \<le> used" "used \<le> tgs_admitted_limit (tfr_gas fr)"
    unfolding Let_def by blast
  from add_balance_credits [OF assms(1,5,9,10) fees(1,2) runs(1)] obtain a' where
    paid: "ledger_ok u" "current_account u ?from = Some a'" "credited (txv_gas_price v * ?left) a a'"
      "\<forall>k. k \<noteq> ?from \<longrightarrow> current_account u k = current_account s k" "anchored s u" by blast
  have registers: "k_header u = k_header s" "k_execution_profile w = k_execution_profile s"
    using steadyD [OF inner_k_add_balance runs(1)] steadyD [OF inner_k_add_balance runs(2)]
    by (simp_all add: registers_kept_def)
  have keys: "?to \<noteq> ?from" using assms(4) by auto
  then have "current_account u ?to = Some b" using assms(7) paid(4) by simp
  from add_balance_credits [OF paid(1) _ assms(11,12) fees(3,4) runs(2), unfolded registers, OF this]
  obtain b' where
    earned: "ledger_ok w" "current_account w ?to = Some b'" "credited (txv_priority_fee v * used) b b'"
      "\<forall>k. k \<noteq> ?to \<longrightarrow> current_account w k = current_account u k" "anchored u w" by blast
  have "block_account t = committed_account (transaction_merge_semantics_of
      (pp_fork (protocol (k_execution_profile s)))) w"
    using k_tx_merge_commits [OF _ _ ledger_ok_originals [OF earned(1)] refl, of keccak]
      earned(1) runs(3) registers(2) by (auto simp: ledger_ok_def)
  then have committed: "block_account t k = map_option (settle (transaction_merge_semantics_of
      (pp_fork (protocol (k_execution_profile s))))) (current_account w k)" for k
    by (simp add: ledger_committed [OF earned(1)])
  have "current_account w ?from = Some a'" using earned(4) paid(2) keys by simp
  then show ?thesis
    using charged earned(2,3,4) paid(3,4) assms(6,8)
    by (simp add: committed ledger_committed [OF assms(1)] credited_def settle_kept)
qed

definition fee_state :: kernel_state where
  "fee_state = initial_kernel_state\<lparr>
     account_block := [(replicate 20 0, \<lparr>abr_address = replicate 20 0,
         abr_value = \<lparr>acct_curr = rich_account, acct_orig = rich_account\<rparr>, abr_address_hash = None\<rparr>),
       (replicate 20 1, \<lparr>abr_address = replicate 20 1,
         abr_value = \<lparr>acct_curr = rich_account, acct_orig = rich_account\<rparr>, abr_address_hash = None\<rparr>)],
     account_tx := [(replicate 20 1, \<lparr>atr_current = rich_account, atr_original = rich_account\<rparr>)]\<rparr>"

definition fee_result :: tx_frame_result_fields where
  "fee_result = \<lparr>tfr_success = True, tfr_gas = \<lparr>tgs_admitted_limit = 100, tgs_regular_limit = 100,
     tgs_calldata_floor = 30, tgs_remaining = 40, tgs_state_used = 0\<rparr>, tfr_refund = 20\<rparr>"

definition fee_terms :: tx_validity_fields where
  "fee_terms = \<lparr>txv_sender = replicate 20 1, txv_nonce_before = 0,
     txv_gas = \<lparr>tig_admitted_limit = 100, tig_regular_limit = 100, tig_intrinsic_execution = 30,
       tig_intrinsic_state = 0, tig_calldata_floor = 30, tig_execution_remaining = 70,
       tig_state_remaining = 0\<rparr>,
     txv_blob_fee = 0, txv_gas_price = 3, txv_priority_fee = 2\<rparr>"

lemma fee_settles: "\<not> Sum_Type.isl (settle_transaction (\<lambda>_. replicate 32 0) tx fee_terms 0 fee_result fee_state)"
  by code_simp

lemma fee_state_ok: "ledger_ok fee_state"
  by (auto simp: ledger_ok_def world_ok_def addresses_ok_def fee_state_def block_account_def
      started_as_def fun_eq_iff initial_kernel_state_def initial_host_state_def host_state.defs
      dict_get_def dict_wf_def storage_generation_def dict_get_default_def
      STORAGE_INITIAL_GENERATION_def address_key_def fixed_wire_bytes_def rich_account_def
      EMPTY_ACCOUNT_def split: if_splits)

theorem settlement_pays_fees_witness:
  "\<forall>tx. \<exists>r t a' b'. settle_transaction (\<lambda>_. replicate 32 0) tx fee_terms 0 fee_result fee_state =
      Inr (r, t) \<and> rcpt_gas_used r = 48 \<and>
    block_account t (replicate 20 1) = Some a' \<and> balance (info a') = 166 \<and>
    block_account t (replicate 20 0) = Some b' \<and> balance (info b') = 106"
proof
  fix tx
  obtain r t where run: "settle_transaction (\<lambda>_. replicate 32 0) tx fee_terms 0 fee_result fee_state =
      Inr (r, t)"
    using fee_settles [of tx] by (metis isl_def old.sum.exhaust surj_pair)
  have terms: "txv_sender fee_terms = replicate 20 1" "txv_gas_price fee_terms = 3"
    "txv_priority_fee fee_terms = 2" "hdr_fee_recipient (k_header fee_state) = replicate 20 0"
    "refund_divisor (protocol (k_execution_profile fee_state)) = 5"
    "tx_frame_gas_snapshot_relation (tfr_gas fee_result)"
    by (simp_all add: fee_terms_def fee_state_def fee_result_def tx_frame_gas_snapshot_relation_def
        initial_kernel_state_def host_state.defs initial_header_def default_execution_profile_def
        ZERO_ADDRESS_def)
  have rich: "balance (info rich_account) = 10" "\<not> selfdestructed rich_account"
    by (simp_all add: rich_account_def EMPTY_ACCOUNT_def)
  have fork: "pp_fork (protocol (k_execution_profile fee_state)) = Amsterdam"
    by (simp add: fee_state_def initial_kernel_state_def host_state.defs default_execution_profile_def)
  have used: "48 = charged_gas (protocol (k_execution_profile fee_state)) (tfr_gas fee_result)
      (0 + tfr_refund fee_result)"
    by (simp add: charged_gas_def terms fork) (simp add: fee_result_def)
  have loaded: "current_account fee_state (replicate 20 1) = Some rich_account"
    "current_account fee_state (replicate 20 0) = Some rich_account"
    by (simp_all add: fee_state_def current_account_def dict_get_def)
  have keys: "address_key (replicate 20 x) = replicate 20 x" for x
    by (simp add: address_key_def fixed_wire_bytes_def)
  from settlement_pays_fees [OF fee_state_ok terms(6) _ _ _ rich(2) _ rich(2) _ _ _ _ run used]
  show "\<exists>r t a' b'. settle_transaction (\<lambda>_. replicate 32 0) tx fee_terms 0 fee_result fee_state =
      Inr (r, t) \<and> rcpt_gas_used r = 48 \<and>
    block_account t (replicate 20 1) = Some a' \<and> balance (info a') = 166 \<and>
    block_account t (replicate 20 0) = Some b' \<and> balance (info b') = 106"
    using run by (auto simp: terms keys loaded rich fee_result_def)
qed

end
