(* ===== verification/Alu_Laws.thy ===== *)
theory Alu_Laws
  imports Words
begin

text \<open>
  The rest of the ALU: the unsigned operations are those of the 256-bit words.
\<close>

unbundle bit_operations_syntax

section \<open>Unsigned operations\<close>

lemma uint_positive: "n \<noteq> 0 \<Longrightarrow> 0 < uint (n :: 256 word)"
  by (metis uint_0_iff uint_ge_0 order_le_less)

lemma alu_mod_model: "alu_mod (uint a) (uint b) = uint (if b = 0 then 0 else a mod b :: 256 word)"
  by (simp add: alu_mod_def word_model)

lemma alu_modular_models:
  fixes a b n :: "256 word"
  shows "alu_addmod (uint a) (uint b) (uint n) = (if n = 0 then 0 else (uint a + uint b) mod uint n)"
    and "alu_mulmod (uint a) (uint b) (uint n) = (if n = 0 then 0 else (uint a * uint b) mod uint n)"
  by (simp_all add: alu_addmod_def alu_mulmod_def word_constants uint_0_iff uint_positive)

lemma alu_compare_models:
  fixes a b :: "256 word"
  shows "alu_lt (uint a) (uint b) = (if a < b then 1 else 0)"
    and "alu_gt (uint a) (uint b) = (if b < a then 1 else 0)"
    and "alu_eq (uint a) (uint b) = (if a = b then 1 else 0)"
    and "alu_iszero (uint a) = (if a = 0 then 1 else 0)"
  by (simp_all add: alu_lt_def alu_gt_def alu_eq_def alu_iszero_def word_ult_def word_less_def
      word_of_bool_def word_is_zero_def word_constants uint_0_iff word_uint_eq_iff [symmetric])

lemma alu_bit_models:
  fixes a b :: "256 word"
  shows "alu_and (uint a) (uint b) = uint (a AND b)" and "alu_or (uint a) (uint b) = uint (a OR b)"
    and "alu_xor (uint a) (uint b) = uint (a XOR b)" and "alu_not (uint a) = uint (NOT a)"
  by (simp_all only: alu_and_def alu_or_def alu_xor_def alu_not_def word_model)

lemma alu_byte_word:
  fixes i x :: "256 word"
  shows "alu_byte (uint i) (uint x) =
    (if uint i < 32 then uint x div 256 ^ nat (31 - uint i) mod 256 else 0)"
proof (cases "uint i < 32")
  case True
  then show ?thesis by (simp add: alu_byte_model)
qed (simp add: alu_byte_def word_constants)

section \<open>Properties\<close>

text \<open>C37: The unsigned operations of the ALU are those of 256-bit words: wrapping addition,
  subtraction and multiplication, division and remainder with zero for a zero divisor, ADDMOD and
  MULMOD without an intermediate overflow, the comparisons, the bitwise operations, BYTE counted
  from the most significant end, the shifts, which are zero from 256 on, and the count of leading
  zeros.\<close>

theorem alu_unsigned_operations:
  fixes a b n :: "256 word"
  shows "alu_add (uint a) (uint b) = uint (a + b) \<and> alu_sub (uint a) (uint b) = uint (a - b) \<and>
    alu_mul (uint a) (uint b) = uint (a * b) \<and>
    alu_div (uint a) (uint b) = uint (if b = 0 then 0 else a div b) \<and>
    alu_mod (uint a) (uint b) = uint (if b = 0 then 0 else a mod b) \<and>
    alu_addmod (uint a) (uint b) (uint n) = (if n = 0 then 0 else (uint a + uint b) mod uint n) \<and>
    alu_mulmod (uint a) (uint b) (uint n) = (if n = 0 then 0 else (uint a * uint b) mod uint n) \<and>
    alu_lt (uint a) (uint b) = (if a < b then 1 else 0) \<and>
    alu_gt (uint a) (uint b) = (if b < a then 1 else 0) \<and>
    alu_eq (uint a) (uint b) = (if a = b then 1 else 0) \<and>
    alu_iszero (uint a) = (if a = 0 then 1 else 0) \<and>
    alu_and (uint a) (uint b) = uint (a AND b) \<and> alu_or (uint a) (uint b) = uint (a OR b) \<and>
    alu_xor (uint a) (uint b) = uint (a XOR b) \<and> alu_not (uint a) = uint (NOT a) \<and>
    alu_byte (uint a) (uint b) = (if uint a < 32 then uint b div 256 ^ nat (31 - uint a) mod 256 else 0) \<and>
    alu_shl (uint a) (uint b) = uint (push_bit (unat a) b) \<and>
    alu_shr (uint a) (uint b) = uint (drop_bit (unat a) b) \<and>
    alu_clz (uint a) = 256 - bit_length (uint a)"
proof -
  have zero: "alu_div (uint a) 0 = 0" for a :: "256 word"
    by (simp add: alu_div_def word_div_word_def word_constants)
  show ?thesis
    by (intro conjI alu_add_model alu_sub_model alu_mul_model alu_modular_models alu_compare_models
        alu_bit_models alu_byte_word alu_shl_model alu_shr_model alu_clz_model)
      (simp_all add: alu_div_model alu_mod_model zero)
qed

end
