(* ===== verification/Fuel_Rules.thy ===== *)
theory Fuel_Rules
  imports Fuel_Laws Index_Laws Settlement_Laws
begin

text \<open>
  Computations that never end with \<open>OutOfFuel\<close>, the outcome that stands for a loop of the source
  that does not end: the rules of their composition, one for each datatype the code branches on.
\<close>

abbreviation fuel_free :: "('z kernel_state_scheme, 'a) action \<Rightarrow> bool" where
  "fuel_free m \<equiv> steady (\<lambda>_ _. True) m"

definition ends :: "('s, 'a) action \<Rightarrow> 's \<Rightarrow> bool" where
  "ends m s \<longleftrightarrow> m s \<noteq> Inl OutOfFuel"

lemma fuel_freeI: "(\<And>s. ends m s) \<Longrightarrow> steady (\<lambda>_ _. True) m"
  by (auto simp: ends_def steady_def split: sum.splits)

lemma ends_fuel_free: "steady (\<lambda>_ _. True) m \<Longrightarrow> ends m s"
  unfolding ends_def by (rule steady_fuel)

lemma ends_bind: "ends m s \<Longrightarrow> (\<And>x t. m s = Inr (x, t) \<Longrightarrow> ends (f x) t) \<Longrightarrow> ends (bind m f) s"
  by (auto simp: ends_def bind_run split: sum.splits)

lemma ends_if: "(b \<Longrightarrow> ends m s) \<Longrightarrow> (\<not> b \<Longrightarrow> ends n s) \<Longrightarrow> ends (if b then m else n) s"
  by simp

lemma ends_case_prod: "(\<And>x y. p = (x, y) \<Longrightarrow> ends (f x y) s) \<Longrightarrow> ends (case_prod f p) s"
  by (cases p) simp

lemma ends_let: "(\<And>x. x = v \<Longrightarrow> ends (f x) s) \<Longrightarrow> ends (Let v f) s"
  by simp

lemma steady_case_rlp_result:
  "(\<And>x. steady R (a x)) \<Longrightarrow> steady R b \<Longrightarrow> steady R (case v of RlpOk x \<Rightarrow> a x
    | RlpInvalidValue \<Rightarrow> b)"
  by (cases v) simp_all

lemma steady_case_bal_iter_entry:
  "(\<And>x. steady R (a x)) \<Longrightarrow> (\<And>x y z. steady R (b x y z)) \<Longrightarrow> (\<And>x. steady R (c x)) \<Longrightarrow>
    (\<And>x y. steady R (d x y)) \<Longrightarrow> (\<And>x y. steady R (e x y)) \<Longrightarrow> (\<And>x y. steady R (f x y)) \<Longrightarrow>
    steady R g \<Longrightarrow> steady R h \<Longrightarrow> steady R (case v of BalAccount x \<Rightarrow> a x
    | BalStorageChange x y z \<Rightarrow> b x y z | BalStorageRead x \<Rightarrow> c x
    | BalBalanceChange x y \<Rightarrow> d x y | BalNonceChange x y \<Rightarrow> e x y | BalCodeChange x y \<Rightarrow> f x y
    | BalAccountEnd \<Rightarrow> g | BalEmpty \<Rightarrow> h)"
  by (cases v) simp_all

lemma steady_case_storage_block_iter_result:
  "(\<And>x. steady R (a x)) \<Longrightarrow> steady R b \<Longrightarrow> steady R (case v of StorageBlockIterRow x \<Rightarrow> a x
    | StorageBlockIterExhausted \<Rightarrow> b)"
  by (cases v) simp_all

lemma steady_case_acct_block_iter_result:
  "(\<And>x. steady R (a x)) \<Longrightarrow> steady R b \<Longrightarrow> steady R (case v of AcctBlockIterRow x \<Rightarrow> a x
    | AcctBlockIterExhausted \<Rightarrow> b)"
  by (cases v) simp_all

lemma steady_case_storage_tx_pop_result:
  "(\<And>x. steady R (a x)) \<Longrightarrow> steady R b \<Longrightarrow> steady R (case v of StorageTxPopRow x \<Rightarrow> a x
    | StorageTxPopExhausted \<Rightarrow> b)"
  by (cases v) simp_all

lemma steady_case_acct_tx_pop_result:
  "(\<And>x. steady R (a x)) \<Longrightarrow> steady R b \<Longrightarrow> steady R (case v of AcctTxPopRow x \<Rightarrow> a x
    | AcctTxPopExhausted \<Rightarrow> b)"
  by (cases v) simp_all

lemma steady_case_trie_leaf_value:
  "(\<And>x. steady R (a x)) \<Longrightarrow> (\<And>x. steady R (b x)) \<Longrightarrow> steady R (case v of InputTrieLeaf x \<Rightarrow> a x
    | ScratchTrieLeaf x \<Rightarrow> b x)"
  by (cases v) simp_all

lemma steady_case_scratch_trie_node:
  "(\<And>x y. steady R (a x y)) \<Longrightarrow> (\<And>x y. steady R (b x y)) \<Longrightarrow> (\<And>x y. steady R (c x y)) \<Longrightarrow>
    steady R (case v of ScratchLeafNode x y \<Rightarrow> a x y | ScratchExtensionNode x y \<Rightarrow> b x y
    | ScratchBranchNode x y \<Rightarrow> c x y)"
  by (cases v) simp_all

lemma steady_case_trie_item_value:
  "steady R a \<Longrightarrow> (\<And>x. steady R (b x)) \<Longrightarrow> (\<And>x. steady R (c x)) \<Longrightarrow> (\<And>x. steady R (d x)) \<Longrightarrow>
    steady R (case v of EmptySubtree \<Rightarrow> a | LeafItem x \<Rightarrow> b x | BranchItem x \<Rightarrow> c x
    | SubtreeItem x \<Rightarrow> d x)"
  by (cases v) simp_all

lemma steady_case_trie_update_source:
  "(\<And>x. steady R (a x)) \<Longrightarrow> steady R b \<Longrightarrow> steady R (case v of StorageTrieUpdates x \<Rightarrow> a x
    | ChangedAccountTrieUpdates \<Rightarrow> b)"
  by (cases v) simp_all

lemma steady_case_trie_change:
  "(\<And>x. steady R (a x)) \<Longrightarrow> steady R b \<Longrightarrow> steady R (case v of TriePut x \<Rightarrow> a x
    | TrieDelete \<Rightarrow> b)"
  by (cases v) simp_all

lemma steady_case_trie_update_relation:
  "(\<And>x. steady R (a x)) \<Longrightarrow> (\<And>x. steady R (b x)) \<Longrightarrow> steady R c \<Longrightarrow>
    steady R (case v of UpdateUnderPrefix x \<Rightarrow> a x | UpdateBeyondPrefix x \<Rightarrow> b x
    | UpdateSourceExhausted \<Rightarrow> c)"
  by (cases v) simp_all

lemma steady_case_indexed_trie_source:
  "(\<And>x. steady R (a x)) \<Longrightarrow> (\<And>x. steady R (b x)) \<Longrightarrow> (\<And>x. steady R (c x)) \<Longrightarrow>
    steady R (case v of IndexedTransactions x \<Rightarrow> a x | IndexedWithdrawals x \<Rightarrow> b x
    | IndexedReceipts x \<Rightarrow> c x)"
  by (cases v) simp_all

lemma steady_case_tx_type:
  "steady R a \<Longrightarrow> steady R b \<Longrightarrow> steady R c \<Longrightarrow> steady R d \<Longrightarrow> steady R e \<Longrightarrow>
    steady R (case v of LegacyTx \<Rightarrow> a | AccessListTx \<Rightarrow> b | FeeMarketTx \<Rightarrow> c | BlobTx \<Rightarrow> d
    | SetCodeTx \<Rightarrow> e)"
  by (cases v) simp_all

lemma steady_case_tx_signature_scheme:
  "steady R a \<Longrightarrow> steady R b \<Longrightarrow> steady R (case v of LegacySignature \<Rightarrow> a | TypedSignature \<Rightarrow> b)"
  by (cases v) simp_all

lemma steady_case_htr_request_kind:
  "steady R a \<Longrightarrow> steady R b \<Longrightarrow> steady R c \<Longrightarrow> steady R d \<Longrightarrow> steady R e \<Longrightarrow>
    steady R (case v of HtrDeposit \<Rightarrow> a | HtrWithdrawalRequest \<Rightarrow> b
    | HtrConsolidationRequest \<Rightarrow> c | HtrBuilderDepositRequest \<Rightarrow> d | HtrBuilderExitRequest \<Rightarrow> e)"
  by (cases v) simp_all

lemma steady_case_log_topics:
  "steady R a \<Longrightarrow> (\<And>x. steady R (b x)) \<Longrightarrow> (\<And>x y. steady R (c x y)) \<Longrightarrow>
    (\<And>x y z. steady R (d x y z)) \<Longrightarrow> (\<And>x y z w. steady R (e x y z w)) \<Longrightarrow>
    steady R (case v of LogTopics0 \<Rightarrow> a | LogTopics1 x \<Rightarrow> b x | LogTopics2 x y \<Rightarrow> c x y
    | LogTopics3 x y z \<Rightarrow> d x y z | LogTopics4 x y z w \<Rightarrow> e x y z w)"
  by (cases v) simp_all

lemma steady_case_log_payload:
  "(\<And>x. steady R (a x)) \<Longrightarrow> (\<And>x. steady R (b x)) \<Longrightarrow> steady R (case v of LogDataMemory x \<Rightarrow> a x
    | LogDataWord x \<Rightarrow> b x)"
  by (cases v) simp_all

lemma steady_case_list:
  "steady R a \<Longrightarrow> (\<And>x xs. steady R (b x xs)) \<Longrightarrow> steady R (case v of [] \<Rightarrow> a | x # xs \<Rightarrow> b x xs)"
  by (cases v) simp_all

lemma steady_case_bool:
  "steady R a \<Longrightarrow> steady R b \<Longrightarrow> steady R (case v of True \<Rightarrow> a | False \<Rightarrow> b)"
  by (cases v) simp_all

lemma ends_case_input_trie_node:
  "(\<And>x y. v = InputLeafNode x y \<Longrightarrow> ends (a x y) s) \<Longrightarrow>
    (\<And>x y. v = InputExtensionNode x y \<Longrightarrow> ends (b x y) s) \<Longrightarrow>
    (\<And>x y. v = InputBranchNode x y \<Longrightarrow> ends (c x y) s) \<Longrightarrow>
    ends (case v of InputLeafNode x y \<Rightarrow> a x y | InputExtensionNode x y \<Rightarrow> b x y
    | InputBranchNode x y \<Rightarrow> c x y) s"
  by (cases v) simp_all

lemma ends_case_storage_block_iter_result:
  "(\<And>x. v = StorageBlockIterRow x \<Longrightarrow> ends (a x) s) \<Longrightarrow>
    (v = StorageBlockIterExhausted \<Longrightarrow> ends b s) \<Longrightarrow>
    ends (case v of StorageBlockIterRow x \<Rightarrow> a x | StorageBlockIterExhausted \<Rightarrow> b) s"
  by (cases v) simp_all

lemma ends_case_acct_block_iter_result:
  "(\<And>x. v = AcctBlockIterRow x \<Longrightarrow> ends (a x) s) \<Longrightarrow>
    (v = AcctBlockIterExhausted \<Longrightarrow> ends b s) \<Longrightarrow> ends (case v of AcctBlockIterRow x \<Rightarrow> a x
    | AcctBlockIterExhausted \<Rightarrow> b) s"
  by (cases v) simp_all

lemmas steady_cases = steady_case_rlp_result steady_case_bal_iter_entry
  steady_case_storage_block_iter_result steady_case_acct_block_iter_result
  steady_case_storage_tx_pop_result steady_case_acct_tx_pop_result steady_case_trie_leaf_value
  steady_case_scratch_trie_node steady_case_trie_item_value steady_case_trie_update_source
  steady_case_trie_change steady_case_trie_update_relation steady_case_indexed_trie_source
  steady_case_tx_type steady_case_tx_signature_scheme steady_case_htr_request_kind
  steady_case_log_topics steady_case_log_payload steady_case_list steady_case_bool

lemmas ends_cases = ends_case_input_trie_node ends_case_storage_block_iter_result
  ends_case_acct_block_iter_result

lemma ends_step: "steady (\<lambda>_ _. True) m \<Longrightarrow> (\<And>x t. m s = Inr (x,
  t) \<Longrightarrow> ends (f x) t) \<Longrightarrow> ends (bind m f) s"
  by (rule ends_bind [OF ends_fuel_free])

lemma ends_ret: "ends (ret x) s"
  by (simp add: ends_def)

lemmas tail_rules = ends_ret ends_step ends_if ends_case_prod ends_let ends_cases

lemmas ends_rules = ends_bind ends_if ends_case_prod ends_let ends_cases

named_theorems fuel_intros "computations that never run out of fuel"

lemmas fuel_rules = anything.steady_rules anything.shapes no_fuel_kernel steady_cases
  inner_k_add_balance [THEN any_state]

lemma ends_host_rules [fuel_intros]:
  "fuel_free (Tx_Codec.ecrecover_addr keccak h yparity r s)"
  "fuel_free (Gas.excess_blob_gas v)"
  unfolding Tx_Codec.ecrecover_addr_def Gas.excess_blob_gas_def
  by (intro fuel_rules)+

lemmas ends_blob_base_fee [fuel_intros] = no_fuel_blob_base_fee

end
