(* ===== verification/Fuel_Codecs.thy ===== *)
theory Fuel_Codecs
  imports Fuel_Rules
begin

text \<open>
  No loop runs for ever, and no computation ends with \<open>OutOfFuel\<close>, in
  the regions, the journalled state, the decoders of transactions and of the
  stateless input.
\<close>

section \<open>\<open>Host_Regions\<close>\<close>

lemma ends_of_host_regions_1 [fuel_intros]:
  "fuel_free stateless_input" "fuel_free (scratch_slice_byte_at b0 b1)"
  "fuel_free (log_data_slice_byte_at c0 c1)" "fuel_free (stateless_input_count_nonzero d0)"
  "fuel_free (scratch_slice_load_word e0 e1)" "fuel_free (log_data_slice_load_word f0 f1)"
  "fuel_free (scratch_slice_load_n_word g0 g1 g2)" "fuel_free (scratch_input_slices_equal h0 h1)"
  "fuel_free (log_input_slices_equal i0 i1)" "fuel_free (input_code_slices_equal j0 j1)"
  "fuel_free stack_reset_host" "fuel_free (host_scratch_store_region l0 l1 l2)"
  unfolding stateless_input_def scratch_slice_byte_at_def log_data_slice_byte_at_def
    stateless_input_count_nonzero_def scratch_slice_load_word_def log_data_slice_load_word_def
    scratch_slice_load_n_word_def scratch_input_slices_equal_def log_input_slices_equal_def
    input_code_slices_equal_def stack_reset_host_def host_scratch_store_region_def Let_def
  by (intro fuel_rules fuel_intros; (assumption | simp)?)+

lemma ends_of_host_regions_2 [fuel_intros]:
  "fuel_free (host_scratch_store_stateless_input a0 a1)"
  "fuel_free (host_scratch_store_scratch b0 b1)" "fuel_free (host_scratch_store_log_data c0 c1)"
  "fuel_free (host_scratch_store_output d0 d1)"
  "fuel_free (host_scratch_store_fixed_bytes_256 e0 e1)" "fuel_free (public_output_write f0)"
  "fuel_free (code_region_from_input g0)" "fuel_free (code_region_from_delegation h0)"
  "fuel_free nodedb_reset" "fuel_free (nodedb_insert j0 j1 j2)"
  "fuel_free (ancestor_hash_write k0 k1)"
  unfolding host_scratch_store_stateless_input_def host_scratch_store_scratch_def
    host_scratch_store_log_data_def host_scratch_store_output_def
    host_scratch_store_fixed_bytes_256_def public_output_write_def code_region_from_input_def
    code_region_from_delegation_def nodedb_reset_def nodedb_insert_def ancestor_hash_write_def
    Let_def
  by (intro fuel_rules fuel_intros; (assumption | simp)?)+

section \<open>\<open>Region_Access\<close>\<close>

lemma ends_of_region_access_1 [fuel_intros]:
  "fuel_free (scratch_byte a0 a1)" "fuel_free (log_data_byte b0 b1)"
  "fuel_free (slice_count_nonzero c0)" "fuel_free (scratch_slice_load d0 d1)"
  "fuel_free (log_data_slice_load e0 e1)" "fuel_free (scratch_slice_load_n f0 f1 f2)"
  "fuel_free stack_reset"
  unfolding scratch_byte_def log_data_byte_def slice_count_nonzero_def scratch_slice_load_def
    log_data_slice_load_def scratch_slice_load_n_def stack_reset_def Let_def
  by (intro fuel_rules fuel_intros; (assumption | simp)?)+

section \<open>\<open>Code_Analysis\<close>\<close>

lemma ends_code_db_intern_input [fuel_intros]: "fuel_free (code_db_intern_input a0)"
  unfolding code_db_intern_input_def Let_def
  by (intro fuel_rules fuel_intros; (assumption | simp)?)

section \<open>\<open>Profile\<close>\<close>

lemma ends_of_profile_1 [fuel_intros]:
  "fuel_free (blob_schedule a0 a1 a2)"
  "fuel_free (protocol_profile_of b0 b1 b2 b3 b4 b5 b6 b7 b8 b9)"
  "fuel_free (schema_protocol_profile c0)" "fuel_free (gas_limits_for d0 d1)"
  "fuel_free (execution_profile_for e0 e1)"
  unfolding blob_schedule_def protocol_profile_of_def schema_protocol_profile_def
    gas_limits_for_def execution_profile_for_def Let_def
  by (intro fuel_rules fuel_intros; (assumption | simp)?)+

section \<open>\<open>Rlp_Decode\<close>\<close>

lemma ends_of_rlp_decode_1 [fuel_intros]:
  "fuel_free (rlp_next a0)" "fuel_free (rlp_decode_bool b0)"
  unfolding rlp_next_def rlp_decode_bool_def Let_def
  by (intro fuel_rules fuel_intros; (assumption | simp)?)+

section \<open>\<open>Host_World\<close>\<close>

lemma ends_of_host_world_1 [fuel_intros]:
  "fuel_free transient_reset" "fuel_free state_journal_reset" "fuel_free storage_tx_pop"
  "fuel_free storage_tx_reset" "fuel_free (storage_block_put e0 e1)"
  "fuel_free (storage_block_clear f0)" "fuel_free (storage_block_iter_begin g0)"
  "fuel_free (storage_block_iter_next h0)" "fuel_free acct_tx_pop" "fuel_free acct_tx_reset"
  "fuel_free (acct_block_write k0 k1)" "fuel_free acct_block_iter_begin"
  unfolding transient_reset_def state_journal_reset_def storage_tx_pop_def storage_tx_reset_def
    storage_block_put_def storage_block_clear_def storage_block_iter_begin_def
    storage_block_iter_next_def acct_tx_pop_def acct_tx_reset_def acct_block_write_def
    acct_block_iter_begin_def Let_def
  by (intro fuel_rules fuel_intros; (assumption | simp)?)+

lemma ends_of_host_world_2 [fuel_intros]:
  "fuel_free acct_block_iter_next" "fuel_free (warm_reset b0)"
  "fuel_free (authorization_tracker_reset c0)" "fuel_free (authorization_flag d0 d1)"
  "fuel_free (authorization_tracker_seen e0)"
  "fuel_free (authorization_tracker_originally_delegated f0)"
  "fuel_free (authorization_tracker_delegation_set g0)"
  "fuel_free (authorization_tracker_commit h0 h1 h2)" "fuel_free logs_tx_reset"
  "fuel_free logs_tx_start" "fuel_free logs_tx_count" "fuel_free (log_record_at l0)"
  unfolding acct_block_iter_next_def warm_reset_def authorization_tracker_reset_def
    authorization_flag_def authorization_tracker_seen_def
    authorization_tracker_originally_delegated_def authorization_tracker_delegation_set_def
    authorization_tracker_commit_def logs_tx_reset_def logs_tx_start_def logs_tx_count_def
    log_record_at_def Let_def
  by (intro fuel_rules fuel_intros; (assumption | simp)?)+

lemma ends_of_host_world_3 [fuel_intros]:
  "fuel_free (log_address a0)" "fuel_free (log_topics_count b0)" "fuel_free (log_topic c0 c1)"
  "fuel_free (log_data_offset d0)" "fuel_free (log_data_length e0)"
  unfolding log_address_def log_topics_count_def log_topic_def log_data_offset_def
    log_data_length_def Let_def
  by (intro fuel_rules fuel_intros; (assumption | simp)?)+

section \<open>\<open>Kernel_State\<close>\<close>

lemma ends_of_kernel_state_1 [fuel_intros]:
  "fuel_free (scratch_length_add a0 a1)" "fuel_free scratch_begin"
  "fuel_free (stateless_input_scratch_push_slice c0)" "fuel_free (scratch_scratch_push_slice d0)"
  "fuel_free (log_data_scratch_push_slice e0)" "fuel_free (output_scratch_push_slice f0)"
  "fuel_free (scratch_push_fixed_bytes_256 g0)" "fuel_free scratch_reset" "fuel_free k_coinbase"
  unfolding scratch_length_add_def scratch_begin_def stateless_input_scratch_push_slice_def
    scratch_push_def scratch_scratch_push_slice_def log_data_scratch_push_slice_def
    output_scratch_push_slice_def scratch_push_fixed_bytes_256_def scratch_reset_def
    k_coinbase_def Let_def
  by (intro fuel_rules fuel_intros; (assumption | simp)?)+

section \<open>\<open>Rlp_Encode\<close>\<close>

lemma ends_of_rlp_encode_1 [fuel_intros]:
  "fuel_free (rlp_scratch_small_length a0)" "fuel_free (rlp_scratch_length_add b0 b1)"
  "fuel_free (rlp_string_size c0 c1)" "fuel_free (first_input_byte d0)"
  "fuel_free (first_scratch_byte e0)" "fuel_free (first_log_byte f0)"
  "fuel_free (rlp_input_slice_size g0)" "fuel_free (rlp_materialized_slice_size h0 h1)"
  "fuel_free (rlp_scratch_region_size i0)" "fuel_free (rlp_log_data_size j0)"
  "fuel_free (rlp_scratch_list_size k0)" "fuel_free (rlp_input_scratch_slice_size l0)"
  unfolding rlp_scratch_small_length_def rlp_scratch_length_add_def rlp_string_size_def
    first_input_byte_def first_scratch_byte_def first_log_byte_def rlp_input_slice_size_def
    rlp_materialized_slice_size_def rlp_scratch_region_size_def rlp_log_data_size_def
    rlp_scratch_list_size_def rlp_input_scratch_slice_size_def Let_def
  by (intro fuel_rules fuel_intros; (assumption | simp)?)+

lemma ends_of_rlp_encode_2 [fuel_intros]:
  "fuel_free (rlp_scratch_scratch_slice_size a0)" "fuel_free (rlp_log_scratch_slice_size b0)"
  "fuel_free (rlp_write_input_slice c0)" "fuel_free (rlp_write_scratch_slice d0)"
  "fuel_free (rlp_write_log_data_slice e0)" "fuel_free (rlp_write_word f0)"
  unfolding rlp_scratch_scratch_slice_size_def rlp_log_scratch_slice_size_def
    rlp_write_input_slice_def rlp_write_scratch_slice_def rlp_write_log_data_slice_def
    rlp_write_word_def Let_def
  by (intro fuel_rules fuel_intros; (assumption | simp)?)+

section \<open>\<open>Host_BAL\<close>\<close>

lemma ends_of_host_bal_1 [fuel_intros]:
  "fuel_free bal_reset" "fuel_free (bal_storage_change b0 b1 b2 b3)"
  "fuel_free (bal_balance_change c0 c1 c2)" "fuel_free (bal_nonce_change d0 d1 d2)"
  "fuel_free (bal_code_change e0 e1 e2)" "fuel_free bal_prepare_iter" "fuel_free bal_iter_next"
  unfolding bal_reset_def bal_storage_change_def bal_balance_change_def bal_nonce_change_def
    bal_code_change_def bal_prepare_iter_def bal_iter_next_def Let_def
  by (intro fuel_rules fuel_intros; (assumption | simp)?)+

section \<open>\<open>Kernel\<close>\<close>

lemma ends_of_kernel_1 [fuel_intros]:
  "fuel_free (k_account_exists a0 a1)" "fuel_free (k_sub_balance b0 b1 b2)"
  "fuel_free (k_prewarm_slot c0 c1)" "fuel_free (k_set_delegation d0 d1 d2)"
  "fuel_free (k_clear_code e0 e1)"
  unfolding k_account_exists_def k_sub_balance_def k_prewarm_slot_def k_set_delegation_def
    k_clear_code_def Let_def
  by (intro fuel_rules fuel_intros; (assumption | simp)?)+

section \<open>\<open>Kernel_Lifecycle\<close>\<close>

lemma ends_of_kernel_lifecycle_1 [fuel_intros]:
  "fuel_free (k_set_header a0)" "fuel_free (k_set_tx b0)" "fuel_free k_tx_reset"
  "fuel_free (merge_account d0 d1 d2)"
  unfolding k_set_header_def k_set_tx_def k_tx_reset_def merge_account_def Let_def
  by (intro fuel_rules fuel_intros; (assumption | simp)?)+

lemma ends_merge_accounts [fuel_intros]: "fuel_free (merge_accounts keccak semantics :: ('z,
  unit) kernel)"
proof -
  have parts: "fuel_free (acct_tx_pop :: ('z,
    acct_tx_pop_result) kernel)" "fuel_free (merge_account keccak semantics e :: ('z,
    unit) kernel)" for keccak semantics e
    by ((intro fuel_rules fuel_intros; simp?)+)
  show ?thesis
    apply (rule fuel_freeI)
    subgoal for s
    proof (induction keccak semantics s rule: merge_accounts.induct)
      case 1
      then show ?case
        unfolding ends_def using parts [THEN steady_fuel]
        by (subst merge_accounts.simps) (auto split: sum.splits acct_tx_pop_result.splits)
    qed
    done
qed

lemma ends_merge_storage [fuel_intros]: "fuel_free (merge_storage a0 a1)"
  unfolding merge_storage_def Let_def
  by (intro fuel_rules fuel_intros; (assumption | simp)?)

lemma ends_merge_storages [fuel_intros]: "fuel_free (merge_storages keccak :: ('z, unit) kernel)"
proof -
  have parts: "fuel_free (storage_tx_pop :: ('z,
    storage_tx_pop_result) kernel)" "fuel_free (merge_storage keccak e :: ('z,
    unit) kernel)" for keccak semantics e
    by ((intro fuel_rules fuel_intros; simp?)+)
  show ?thesis
    apply (rule fuel_freeI)
    subgoal for s
    proof (induction keccak s rule: merge_storages.induct)
      case 1
      then show ?case
        unfolding ends_def using parts [THEN steady_fuel]
        by (subst merge_storages.simps) (auto split: sum.splits storage_tx_pop_result.splits)
    qed
    done
qed

lemma ends_k_tx_merge [fuel_intros]: "fuel_free (k_tx_merge a0)"
  unfolding k_tx_merge_def Let_def
  by (intro fuel_rules fuel_intros; (assumption | simp)?)

section \<open>\<open>Logs_Bloom\<close>\<close>

lemma ends_of_logs_bloom_1 [fuel_intros]:
  "fuel_free (log_store_index_increment a0)" "fuel_free (log_store_index_add b0 b1)"
  "fuel_free read_logs" "fuel_free (read_log_data d0)" "fuel_free (bloom_set_bit e0 e1)"
  "fuel_free (bloom_add_entry_hash f0 f1)"
  unfolding log_store_index_increment_def log_store_index_add_def read_logs_def read_log_data_def
    bloom_set_bit_def bloom_add_entry_hash_def Let_def
  by (intro fuel_rules fuel_intros; (assumption | simp)?)+

lemma ends_bloom_add_topics [fuel_intros]: "fuel_free (bloom_add_topics a0 a1 a2 a3 a4)"
  by (induction a0 a1 a2 a3 a4 rule: bloom_add_topics.induct)
    (subst bloom_add_topics.simps, intro fuel_rules fuel_intros; (assumption | blast | simp)?)

lemma ends_bloom_add_log_at [fuel_intros]: "fuel_free (bloom_add_log_at a0 a1 a2)"
  unfolding bloom_add_log_at_def Let_def
  by (intro fuel_rules fuel_intros; (assumption | simp)?)

lemma ends_bloom_add_logs_from [fuel_intros]: "fuel_free (bloom_add_logs_from a0 a1 a2 a3)"
  by (induction a0 a1 a2 a3 rule: bloom_add_logs_from.induct)
    (subst bloom_add_logs_from.simps, intro fuel_rules fuel_intros; (assumption | blast | simp)?)

lemma ends_of_logs_bloom_2 [fuel_intros]:
  "fuel_free (bloom_add_logs a0 a1 a2)" "fuel_free (logs_bloom_for_logs b0 b1)"
  unfolding bloom_add_logs_def logs_bloom_for_logs_def Let_def
  by (intro fuel_rules fuel_intros; (assumption | simp)?)+

section \<open>\<open>Gas\<close>\<close>

lemma ends_of_gas_1 [fuel_intros]:
  "fuel_free (protocol_word a0)" "fuel_free (block_blob_gas_add b0 b1 b2)"
  "fuel_free (excess_blob_gas c0)" "fuel_free (next_excess_blob_gas d0 d1 d2 d3)"
  "fuel_free (transaction_initcode_gas e0)"
  unfolding protocol_word_def block_blob_gas_add_def excess_blob_gas_def next_excess_blob_gas_def
    transaction_initcode_gas_def Let_def
  by (intro fuel_rules fuel_intros; (assumption | simp)?)+

section \<open>\<open>Ssz\<close>\<close>

lemma ends_of_ssz_1 [fuel_intros]:
  "fuel_free (ssz_offset a0)" "fuel_free (ssz_uint b0)" "fuel_free (ssz_u32_at c0 c1)"
  "fuel_free (ssz_u32 d0 d1)" "fuel_free (ssz_u32_in_slice e0 e1)"
  "fuel_free (ssz_offset_to_source_pointer f0)"
  "(\<And>x0. fuel_free (g1 x0)) \<Longrightarrow> fuel_free (load_uint64 g0 g1 g2)"
  "fuel_free (decode_ssz_uint h0 h1)" "fuel_free (decode_scratch_uint i0 i1)"
  "fuel_free (ssz_addr j0 j1)" "fuel_free (ssz_bytes32 k0 k1)"
  unfolding ssz_offset_def ssz_uint_def ssz_u32_at_def ssz_u32_def ssz_u32_in_slice_def
    ssz_offset_to_source_pointer_def load_uint64_def decode_ssz_uint_def decode_scratch_uint_def
    ssz_addr_def ssz_bytes32_def Let_def
  by (intro fuel_rules fuel_intros; (assumption | simp)?)+

lemma ends_ssz_u256_loop [fuel_intros]: "fuel_free (ssz_u256_loop a0 a1 a2 a3)"
  by (induction a0 a1 a2 a3 rule: ssz_u256_loop.induct)
    (simp_all only: ssz_u256_loop.simps, (intro fuel_rules fuel_intros;
    (assumption | blast | simp)?)+)

lemma ends_of_ssz_2 [fuel_intros]:
  "fuel_free (ssz_u256 a0 a1)" "fuel_free (bounded_ssz_list_ref b0 b1 b2 b3)"
  "fuel_free (bounded_ssz_list_cursor c0 c1 c2)" "fuel_free (ssz_offset_table_position d0)"
  "fuel_free (ssz_list_cursor e0)" "fuel_free (ssz_item_length f0 f1 f2)"
  "fuel_free (ssz_list_pop g0)" "fuel_free (ssz_list_at h0 h1)"
  "fuel_free (ssz_fixed_list_at i0 i1 i2)" "fuel_free (ssz_fixed_list_pop j0 j1)"
  "fuel_free (ssz_container_bytes k0 k1)" "fuel_free (ssz_container_cursor_of l0 l1)"
  unfolding ssz_u256_def bounded_ssz_list_ref_def bounded_ssz_list_cursor_def
    ssz_offset_table_position_def ssz_list_cursor_def ssz_item_length_def ssz_list_pop_def
    ssz_list_at_def ssz_fixed_list_at_def ssz_fixed_list_pop_def ssz_container_bytes_def
    ssz_container_cursor_of_def Let_def
  by (intro fuel_rules fuel_intros; (assumption | simp)?)+

lemma ends_of_ssz_3 [fuel_intros]:
  "fuel_free (ssz_take a0 a1)" "fuel_free (ssz_finish b0)"
  "fuel_free (ssz_bounded_variable_list_ref c0 c1 c2)"
  "fuel_free (ssz_bounded_fixed_list_ref d0 d1 d2)"
  unfolding ssz_take_def ssz_finish_def ssz_bounded_variable_list_ref_def
    ssz_bounded_fixed_list_ref_def Let_def
  by (intro fuel_rules fuel_intros; (assumption | simp)?)+

section \<open>\<open>Tx_Codec\<close>\<close>

lemma ends_of_tx_codec_1 [fuel_intros]:
  "fuel_free (blob_hashes_fields a0 a1 a2)" "fuel_free (transaction_item_count b0)"
  "fuel_free (transaction_byte_length c0)" "fuel_free (prepared_authorizations d0 d1)"
  "fuel_free (authorization_list_ref_of e0 e1)" "fuel_free (word_of_account_nonce f0)"
  "fuel_free (word_of_chain_identifier g0)" "fuel_free (tx_signing_hash h0 h1 h2 h3)"
  "fuel_free (auth_signing_hash i0 i1 i2 i3)"
  unfolding blob_hashes_fields_def transaction_item_count_def transaction_byte_length_def
    prepared_authorizations_def authorization_list_ref_of_def word_of_account_nonce_def
    word_of_chain_identifier_def tx_signing_hash_def auth_signing_hash_def Let_def
  by (intro fuel_rules fuel_intros; (assumption | simp)?)+

lemma ends_tx_signature_parity [fuel_intros]: "fuel_free (tx_signature_parity a0 a1 a2)"
  by (induction a0 a1 a2 rule: tx_signature_parity.induct)
    (simp_all only: tx_signature_parity.simps, (intro fuel_rules fuel_intros;
    (assumption | blast | simp)?)+)

lemma ends_of_tx_codec_2 [fuel_intros]:
  "fuel_free (tx_auth_valid a0 a1 a2 a3 a4 a5)" "fuel_free (transaction_rlp_content b0)"
  "fuel_free (access_list_decode_of c0 c1 c2 c3)"
  unfolding tx_auth_valid_def transaction_rlp_content_def access_list_decode_of_def Let_def
  by (intro fuel_rules fuel_intros; (assumption | simp)?)+

lemma ends_decode_access_list_keys [fuel_intros]: "fuel_free (decode_access_list_keys a0 a1 a2)"
  apply (rule fuel_freeI)
  subgoal for s
  proof (induction a0 a1 a2 s rule: decode_access_list_keys.induct)
    case 1
    show ?case
      by (subst decode_access_list_keys.simps, (unfold Let_def)?, intro ends_ret ends_rules;
        ((rule 1, (assumption | rule refl)+)
          | (intro fuel_rules fuel_intros; (assumption | simp)?)
          | (rule ends_fuel_free, intro fuel_rules fuel_intros; (assumption | simp)?))?)
  qed
  done

lemma ends_access_list_entry [fuel_intros]: "fuel_free (access_list_entry a0)"
  unfolding access_list_entry_def Let_def
  by (intro fuel_rules fuel_intros; (assumption | simp)?)

lemma ends_decode_access_list_entries [fuel_intros]: "fuel_free (decode_access_list_entries a0)"
  apply (rule fuel_freeI)
  subgoal for s
  proof (induction a0 s rule: decode_access_list_entries.induct)
    case 1
    show ?case
      by (subst decode_access_list_entries.simps, (unfold Let_def)?, intro ends_ret ends_rules;
        ((rule 1, (assumption | rule refl)+)
          | (intro fuel_rules fuel_intros; (assumption | simp)?)
          | (rule ends_fuel_free, intro fuel_rules fuel_intros; (assumption | simp)?))?)
  qed
  done

lemma ends_decode_access_list [fuel_intros]: "fuel_free (decode_access_list a0)"
  unfolding decode_access_list_def Let_def
  by (intro fuel_rules fuel_intros; (assumption | simp)?)

lemma ends_decode_blob_hash_items [fuel_intros]: "fuel_free (decode_blob_hash_items a0 a1 a2)"
  apply (rule fuel_freeI)
  subgoal for s
    by (induction a0 a1 a2 s rule: decode_blob_hash_items.induct)
      (subst decode_blob_hash_items.simps, intro tail_rules;
      ((intro fuel_rules fuel_intros; (assumption | simp)?)
        | (rule ends_fuel_free, intro fuel_rules fuel_intros; (assumption | simp)?)
        | (clarify?, blast))?)
  done

lemma ends_decode_blob_hashes [fuel_intros]: "fuel_free (decode_blob_hashes a0 a1)"
  unfolding decode_blob_hashes_def Let_def
  by (intro fuel_rules fuel_intros; (assumption | simp)?)

lemma ends_validate_auth_tuples [fuel_intros]: "fuel_free (validate_auth_tuples a0 a1)"
  apply (rule fuel_freeI)
  subgoal for s
    by (induction a0 a1 s rule: validate_auth_tuples.induct)
      (subst validate_auth_tuples.simps, intro tail_rules;
      ((intro fuel_rules fuel_intros; (assumption | simp)?)
        | (rule ends_fuel_free, intro fuel_rules fuel_intros; (assumption | simp)?)
        | (clarify?, blast))?)
  done

lemma ends_of_tx_codec_3 [fuel_intros]:
  "fuel_free (decode_auth_list a0)" "fuel_free (decode_authorization b0 b1)"
  unfolding decode_auth_list_def decode_authorization_def Let_def
  by (intro fuel_rules fuel_intros; (assumption | simp)?)+

lemma ends_prepare_authorization_entries [fuel_intros]:
  "fuel_free (prepare_authorization_entries a0 a1 a2)"
  by (induction a0 a1 a2 rule: prepare_authorization_entries.induct)
    (simp_all only: prepare_authorization_entries.simps, (intro fuel_rules fuel_intros;
    (assumption | blast | simp)?)+)

lemma ends_of_tx_codec_4 [fuel_intros]:
  "fuel_free (prepare_authorizations a0 a1)" "fuel_free (prepared_authorization_head b0)"
  "fuel_free (prepared_authorization_tail c0 c1)" "fuel_free (tx_input_span d0)"
  "fuel_free (tx_sig_span e0 e1)" "fuel_free (rlp_decode_gas f0)"
  "fuel_free g4 \<Longrightarrow> fuel_free g5 \<Longrightarrow> fuel_free g11 \<Longrightarrow> fuel_free g12 \<Longrightarrow> fuel_free g13 \<Longrightarrow> fuel_free
    (transaction_fields g0 g1 g2 g3 g4 g5 g6 g7 g8 g9 g10 g11 g12 g13 g14 g15 g16 g17 g18 g19
    g20)"
  "fuel_free (decode_legacy_tx h0 h1 h2 h3 h4)" "fuel_free (decode_access_list_tx i0 i1 i2 i3 i4)"
  "fuel_free (decode_fee_market_tx j0 j1 j2 j3 j4)" "fuel_free (decode_blob_tx k0 k1 k2 k3 k4 k5)"
  "fuel_free (decode_set_code_tx l0 l1 l2 l3 l4)"
  unfolding prepare_authorizations_def prepared_authorization_head_def
    prepared_authorization_tail_def tx_input_span_def tx_sig_span_def rlp_decode_gas_def
    transaction_fields_def decode_legacy_tx_def decode_access_list_tx_def decode_fee_market_tx_def
    decode_blob_tx_def decode_set_code_tx_def Let_def
  by (intro fuel_rules fuel_intros; (assumption | simp)?)+

lemma ends_of_tx_codec_5 [fuel_intros]:
  "fuel_free (tx_type_of_byte a0)" "fuel_free (rlp_decode_tx b0 b1 b2 b3)"
  unfolding tx_type_of_byte_def rlp_decode_tx_def Let_def
  by (intro fuel_rules fuel_intros; (assumption | simp)?)+

section \<open>\<open>Stateless_Input\<close>\<close>

lemma ends_of_stateless_input_1 [fuel_intros]:
  "fuel_free (container_offset a0 a1)" "fuel_free (first_offset_is b0 b1)"
  "fuel_free (at_most c0 c1)" "fuel_free (decode_stateless_input_ref d0)"
  "fuel_free (decode_payload_blob_gas_used e0 e1)"
  "fuel_free (decode_payload_excess_blob_gas f0 f1)" "fuel_free (decode_block_header_ssz g0)"
  "fuel_free (decode_withdrawal h0)" "fuel_free (decode_chain_config i0 i1 i2)"
  "fuel_free (decode_stateless_input j0)" "fuel_free (decode_transaction k0 k1 k2)"
  "fuel_free (sha256_request_digest l0 l1 l2)"
  unfolding container_offset_def first_offset_is_def at_most_def decode_stateless_input_ref_def
    decode_payload_blob_gas_used_def decode_payload_excess_blob_gas_def
    decode_block_header_ssz_def decode_withdrawal_def decode_chain_config_def
    decode_stateless_input_def decode_transaction_def sha256_request_digest_def Let_def
  by (intro fuel_rules fuel_intros; (assumption | simp)?)+

lemma ends_index_witness_nodes_cursor [fuel_intros]:
  "fuel_free (index_witness_nodes_cursor a0 a1)"
  apply (rule fuel_freeI)
  subgoal for s
    by (induction a0 a1 s rule: index_witness_nodes_cursor.induct)
      (subst index_witness_nodes_cursor.simps, intro tail_rules;
      ((intro fuel_rules fuel_intros; (assumption | simp)?)
        | (rule ends_fuel_free, intro fuel_rules fuel_intros; (assumption | simp)?)
        | (clarify?, blast))?)
  done

lemma ends_index_witness_nodes [fuel_intros]: "fuel_free (index_witness_nodes a0 a1)"
  unfolding index_witness_nodes_def Let_def
  by (intro fuel_rules fuel_intros; (assumption | simp)?)

lemma ends_index_witness_codes_cursor [fuel_intros]:
  "fuel_free (index_witness_codes_cursor a0 a1)"
  apply (rule fuel_freeI)
  subgoal for s
    by (induction a0 a1 s rule: index_witness_codes_cursor.induct)
      (subst index_witness_codes_cursor.simps, intro tail_rules;
      ((intro fuel_rules fuel_intros; (assumption | simp)?)
        | (rule ends_fuel_free, intro fuel_rules fuel_intros; (assumption | simp)?)
        | (clarify?, blast))?)
  done

lemma ends_of_stateless_input_2 [fuel_intros]:
  "fuel_free (index_witness_codes a0 a1)" "fuel_free (set_parent_fields b0)"
  "fuel_free (decode_parent_header_field c0 c1)"
  unfolding index_witness_codes_def set_parent_fields_def decode_parent_header_field_def Let_def
  by (intro fuel_rules fuel_intros; (assumption | simp)?)+

lemma ends_decode_parent_header_fields [fuel_intros]:
  "fuel_free (decode_parent_header_fields a0 a1)"
  apply (rule fuel_freeI)
  subgoal for s
    by (induction a0 a1 s rule: decode_parent_header_fields.induct)
      (subst decode_parent_header_fields.simps, intro tail_rules;
      ((intro fuel_rules fuel_intros; (assumption | simp)?)
        | (rule ends_fuel_free, intro fuel_rules fuel_intros; (assumption | simp)?)
        | (clarify?, blast))?)
  done

lemma ends_index_witness_header_cursor [fuel_intros]:
  "fuel_free (index_witness_header_cursor a0 a1)"
  apply (rule fuel_freeI)
  subgoal for s
    by (induction a0 a1 s rule: index_witness_header_cursor.induct)
      (subst index_witness_header_cursor.simps, intro tail_rules;
      ((intro fuel_rules fuel_intros; (assumption | simp)?)
        | (rule ends_fuel_free, intro fuel_rules fuel_intros; (assumption | simp)?)
        | (clarify?, blast))?)
  done

lemma ends_of_stateless_input_3 [fuel_intros]:
  "fuel_free (index_witness_headers a0 a1)" "fuel_free (index_execution_witness b0 b1)"
  unfolding index_witness_headers_def index_execution_witness_def Let_def
  by (intro fuel_rules fuel_intros; (assumption | simp)?)+

end
