(* ===== verification/Fuel_Roots.thy ===== *)
theory Fuel_Roots
  imports Fuel_Codecs
begin

text \<open>
  No loop runs for ever, and no computation ends with \<open>OutOfFuel\<close>, in
  receipts, logs, the SSZ tree hashes, and the updates of the state trie.
\<close>

section \<open>\<open>Tx_Gas\<close>\<close>

lemma ends_of_tx_gas_1 [fuel_intros]:
  "fuel_free (checked_initial_gas a0)" "fuel_free (tx_frame_gas_snapshot_fields b0 b1 b2 b3 b4)"
  "fuel_free (tx_frame_result c0 c1 c2 c3 c4)" "fuel_free (transaction_calldata_cost d0)"
  "fuel_free (transaction_calldata_floor_cost e0)"
  "(\<And>x0 x1. fuel_free (f1 x0 x1)) \<Longrightarrow> fuel_free (calldata_counts f0 f1)"
  "fuel_free (calldata_cost g0)" "fuel_free (legacy_calldata_floor h0)"
  "fuel_free (legacy_intrinsic_gas i0)" "fuel_free (amsterdam_recipient_cost j0)"
  "fuel_free (amsterdam_recipient_execution_cost k0)" "fuel_free (intrinsic_gas l0)"
  unfolding checked_initial_gas_def tx_frame_gas_snapshot_fields_def tx_frame_result_def
    transaction_calldata_cost_def transaction_calldata_floor_cost_def calldata_counts_def
    calldata_cost_def legacy_calldata_floor_def legacy_intrinsic_gas_def
    amsterdam_recipient_cost_def amsterdam_recipient_execution_cost_def intrinsic_gas_def Let_def
  by (intro fuel_rules fuel_intros; (assumption | simp)?)+

lemma ends_of_tx_gas_2 [fuel_intros]:
  "fuel_free (transaction_costs a0 a1 a2 a3)" "fuel_free (validated_word_product b0 b1)"
  "fuel_free (tx_frame_gas_snapshot c0 c1 c2 c3)"
  "fuel_free (transaction_gas_allowance_fields d0 d1 d2)"
  "fuel_free (transaction_gas_allowance e0 e1 e2)"
  "fuel_free (transaction_initial_gas f0 f1 f2 f3)"
  "fuel_free (receipt_fields g0 g1 g2 g3 g4 g5 g6 g7)"
  "fuel_free (receipt_within h0 h1 h2 h3 h4 h5 h6 h7)"
  unfolding transaction_costs_def validated_word_product_def tx_frame_gas_snapshot_def
    transaction_gas_allowance_fields_def transaction_gas_allowance_def transaction_initial_gas_def
    receipt_fields_def receipt_within_def Let_def
  by (intro fuel_rules fuel_intros; (assumption | simp)?)+

section \<open>\<open>Receipts\<close>\<close>

lemma ends_topics_size_from [fuel_intros]: "fuel_free (topics_size_from a0 a1 a2 a3)"
  by (induction a0 a1 a2 a3 rule: topics_size_from.induct)
    (subst topics_size_from.simps, intro fuel_rules fuel_intros; (assumption | blast | simp)?)

lemma ends_of_receipts_1 [fuel_intros]:
  "fuel_free (topics_rlp_content_size a0)" "fuel_free (topics_rlp_size b0)"
  "fuel_free (log_entry_rlp_content_size c0)" "fuel_free (log_entry_rlp_size d0)"
  unfolding topics_rlp_content_size_def topics_rlp_size_def log_entry_rlp_content_size_def
    log_entry_rlp_size_def Let_def
  by (intro fuel_rules fuel_intros; (assumption | simp)?)+

lemma ends_logs_size_from [fuel_intros]: "fuel_free (logs_size_from a0 a1 a2)"
  by (induction a0 a1 a2 rule: logs_size_from.induct)
    (subst logs_size_from.simps, intro fuel_rules fuel_intros; (assumption | blast | simp)?)

lemma ends_of_receipts_2 [fuel_intros]:
  "fuel_free (logs_rlp_content_size a0)" "fuel_free (logs_rlp_size b0)"
  unfolding logs_rlp_content_size_def logs_rlp_size_def Let_def
  by (intro fuel_rules fuel_intros; (assumption | simp)?)+

lemma ends_write_topics_from [fuel_intros]: "fuel_free (write_topics_from a0 a1 a2)"
  by (induction a0 a1 a2 rule: write_topics_from.induct)
    (subst write_topics_from.simps, intro fuel_rules fuel_intros; (assumption | blast | simp)?)

lemma ends_of_receipts_3 [fuel_intros]:
  "fuel_free (rlp_write_topics a0)" "fuel_free (rlp_write_log_entry b0)"
  unfolding rlp_write_topics_def rlp_write_log_entry_def Let_def
  by (intro fuel_rules fuel_intros; (assumption | simp)?)+

lemma ends_write_logs_from [fuel_intros]: "fuel_free (write_logs_from a0 a1)"
  by (induction a0 a1 rule: write_logs_from.induct)
    (subst write_logs_from.simps, intro fuel_rules fuel_intros; (assumption | blast | simp)?)

lemma ends_of_receipts_4 [fuel_intros]:
  "fuel_free (rlp_write_logs a0)" "fuel_free (rlp_write_logs_bloom b0)"
  "fuel_free (receipt_write_logs_bloom c0 c1)" "fuel_free (receipt_payload_content_size d0 d1)"
  "fuel_free (receipt_encoded_length e0 e1)" "fuel_free (receipt_write_encoded f0 f1 f2)"
  unfolding rlp_write_logs_def rlp_write_logs_bloom_def receipt_write_logs_bloom_def
    receipt_payload_content_size_def receipt_encoded_length_def receipt_write_encoded_def Let_def
  by (intro fuel_rules fuel_intros; (assumption | simp)?)+

lemma ends_write_length_bytes [fuel_intros]: "fuel_free (write_length_bytes a0 a1)"
  by (induction a0 a1 rule: write_length_bytes.induct)
    (simp_all only: write_length_bytes.simps, (intro fuel_rules fuel_intros;
    (assumption | blast | simp)?)+)

lemma ends_of_receipts_5 [fuel_intros]:
  "fuel_free (receipt_record_write_length a0)" "fuel_free (receipt_record_append b0 b1 b2)"
  "fuel_free receipt_store_begin" "fuel_free (receipt_store_append d0 d1 d2 d3)"
  "fuel_free (receipt_record_pop e0)"
  unfolding receipt_record_write_length_def receipt_record_append_def receipt_store_begin_def
    receipt_store_append_def receipt_record_pop_def Let_def
  by (intro fuel_rules fuel_intros; (assumption | simp)?)+

lemma ends_logs_bloom_from_ref_loop [fuel_intros]: "fuel_free (logs_bloom_from_ref_loop a0 a1 a2)"
  by (induction a0 a1 a2 rule: logs_bloom_from_ref_loop.induct)
    (simp_all only: logs_bloom_from_ref_loop.simps, (intro fuel_rules fuel_intros;
    (assumption | blast | simp)?)+)

lemma ends_of_receipts_6 [fuel_intros]:
  "fuel_free (logs_bloom_from_ref a0)" "fuel_free (logs_bloom_matches_ref b0 b1)"
  "fuel_free (block_logs_bloom_matches c0 c1 c2)"
  unfolding logs_bloom_from_ref_def logs_bloom_matches_ref_def block_logs_bloom_matches_def
    Let_def
  by (intro fuel_rules fuel_intros; (assumption | simp)?)+

section \<open>\<open>Htr\<close>\<close>

lemma ends_htr_subtree [fuel_intros]: "(\<And>x0. fuel_free (a1 x0)) \<Longrightarrow> fuel_free (htr_subtree a0 a1 a2
  a3 a4)"
  by (induction a0 a1 a2 a3 a4 rule: htr_subtree.induct) (simp_all only: htr_subtree.simps,
    (intro fuel_rules fuel_intros; (assumption | blast | simp)?)+)

lemma ends_of_htr_1 [fuel_intros]:
  "fuel_free (merkleize_vector_subtree a0 a1 a2 a3 a4)" "fuel_free (merkleize b0 b1 b2)"
  "fuel_free (htr_length_chunk c0)" "fuel_free (mix_in_length d0 d1 d2)"
  unfolding merkleize_vector_subtree_def merkleize_def htr_length_chunk_def mix_in_length_def
    Let_def
  by (intro fuel_rules fuel_intros; (assumption | simp)?)+

lemma ends_clog2_loop [fuel_intros]: "fuel_free (clog2_loop a0 a1 a2)"
  by (induction a0 a1 a2 rule: clog2_loop.induct) (simp_all only: clog2_loop.simps,
    (intro fuel_rules fuel_intros; (assumption | blast | simp)?)+)

lemma ends_of_htr_2 [fuel_intros]:
  "fuel_free (clog2 a0)" "fuel_free (htr_chunk b0 b1)" "fuel_free (htr_leaf_count c0)"
  "fuel_free (htr_chunk_count d0)" "fuel_free (htr_bytes_subtree e0 e1 e2 e3 e4)"
  "fuel_free (htr_bytes_root f0 f1 f2)" "fuel_free (htr_bytevector g0 g1)"
  "fuel_free (htr_ssz_uint h0 h1)" "fuel_free (htr_ssz_u256 i0 i1)"
  "fuel_free (htr_ssz_bytes32 j0 j1)" "fuel_free (htr_ssz_addr k0 k1)"
  "fuel_free (htr_ssz_bytevector l0 l1 l2 l3)"
  unfolding clog2_def htr_chunk_def htr_leaf_count_def htr_chunk_count_def htr_bytes_subtree_def
    htr_bytes_root_def htr_bytevector_def htr_ssz_uint_def htr_ssz_u256_def htr_ssz_bytes32_def
    htr_ssz_addr_def htr_ssz_bytevector_def Let_def
  by (intro fuel_rules fuel_intros; (assumption | simp)?)+

lemma ends_of_htr_3 [fuel_intros]:
  "fuel_free (htr_bytelist a0 a1 a2)" "fuel_free (htr_withdrawal b0 b1)"
  "fuel_free (htr_transactions_subtree c0 c1 c2 c3 c4)" "fuel_free (htr_transactions d0 d1)"
  "fuel_free (htr_withdrawals_subtree e0 e1 e2 e3 e4)" "fuel_free (htr_withdrawals f0 f1)"
  "fuel_free (htr_execution_payload g0 g1)"
  "fuel_free (htr_versioned_hashes_subtree h0 h1 h2 h3 h4)"
  "fuel_free (htr_versioned_hashes i0 i1)" "fuel_free (htr_deposit j0 j1)"
  "fuel_free (htr_withdrawal_request k0 k1)" "fuel_free (htr_consolidation_request l0 l1)"
  unfolding htr_bytelist_def htr_withdrawal_def htr_transactions_subtree_def htr_transactions_def
    htr_withdrawals_subtree_def htr_withdrawals_def htr_execution_payload_def
    htr_versioned_hashes_subtree_def htr_versioned_hashes_def htr_deposit_def
    htr_withdrawal_request_def htr_consolidation_request_def Let_def
  by (intro fuel_rules fuel_intros; (assumption | simp)?)+

lemma ends_of_htr_4 [fuel_intros]:
  "fuel_free (htr_builder_deposit_request a0 a1)" "fuel_free (htr_builder_exit_request b0 b1)"
  "(\<And>x0. fuel_free (c3 x0)) \<Longrightarrow> fuel_free (htr_request_item c0 c1 c2 c3)"
  unfolding htr_builder_deposit_request_def htr_builder_exit_request_def htr_request_item_def
    Let_def
  by (intro fuel_rules fuel_intros; (assumption | simp)?)+

lemma ends_htr_request_leaf [fuel_intros]: "fuel_free (htr_request_leaf a0 a1 a2 a3)"
  by (induction a0 a1 a2 a3 rule: htr_request_leaf.induct)
    (simp_all only: htr_request_leaf.simps, (intro fuel_rules fuel_intros;
    (assumption | blast | simp)?)+)

lemma ends_of_htr_5 [fuel_intros]:
  "fuel_free (htr_requests_subtree a0 a1 a2 a3 a4 a5)" "fuel_free (htr_deposits b0 b1)"
  "fuel_free (htr_withdrawal_requests c0 c1)" "fuel_free (htr_consolidation_requests d0 d1)"
  "fuel_free (htr_builder_deposit_requests e0 e1)" "fuel_free (htr_builder_exit_requests f0 f1)"
  "fuel_free (htr_execution_requests g0 g1)" "fuel_free (htr_new_payload_request h0 h1)"
  unfolding htr_requests_subtree_def htr_deposits_def htr_withdrawal_requests_def
    htr_consolidation_requests_def htr_builder_deposit_requests_def htr_builder_exit_requests_def
    htr_execution_requests_def htr_new_payload_request_def Let_def
  by (intro fuel_rules fuel_intros; (assumption | simp)?)+

section \<open>\<open>Trie_Codec\<close>\<close>

lemma ends_scratch_rlp_uint64_width [fuel_intros]: "fuel_free (scratch_rlp_uint64_width a0 a1)"
  by (induction a0 a1 rule: scratch_rlp_uint64_width.induct)
    (simp_all only: scratch_rlp_uint64_width.simps, (intro fuel_rules fuel_intros;
    (assumption | blast | simp)?)+)

lemma ends_of_trie_codec_1 [fuel_intros]:
  "fuel_free (scratch_rlp_ref_hdr a0)" "fuel_free (scratch_rlp_item_content b0)"
  "fuel_free (scratch_rlp_decode_list c0)" "fuel_free (scratch_rlp_decode_item d0)"
  "fuel_free (scratch_rlp_cursor_advance e0 e1)" "fuel_free (scratch_rlp_cursor_expect_end f0)"
  "fuel_free (scratch_rlp_single_ref g0)" "fuel_free (scratch_rlp_node_cursor h0)"
  "fuel_free (scratch_rlp_decode_word i0)" "fuel_free (scratch_rlp_next j0)"
  "fuel_free (path_byte_index k0)" "fuel_free (path_append_nibble l0 l1)"
  unfolding scratch_rlp_ref_hdr_def scratch_rlp_item_content_def scratch_rlp_decode_list_def
    scratch_rlp_decode_item_def scratch_rlp_cursor_advance_def scratch_rlp_cursor_expect_end_def
    scratch_rlp_single_ref_def scratch_rlp_node_cursor_def scratch_rlp_decode_word_def
    scratch_rlp_next_def path_byte_index_def path_append_nibble_def Let_def
  by (intro fuel_rules fuel_intros; (assumption | simp)?)+

lemma ends_of_trie_codec_2 [fuel_intros]:
  "fuel_free (path_append_byte a0 a1)" "fuel_free (path_single b0)" "fuel_free (next_nibble c0)"
  unfolding path_append_byte_def path_single_def next_nibble_def Let_def
  by (intro fuel_rules fuel_intros; (assumption | simp)?)+

lemma ends_path_concat_from [fuel_intros]: "fuel_free (path_concat_from a0 a1 a2)"
  by (induction a0 a1 a2 rule: path_concat_from.induct)
    (subst path_concat_from.simps, intro fuel_rules fuel_intros; (assumption | blast | simp)?)

lemma ends_path_concat [fuel_intros]: "fuel_free (path_concat a0 a1)"
  unfolding path_concat_def Let_def
  by (intro fuel_rules fuel_intros; (assumption | simp)?)

lemma ends_path_drop_from [fuel_intros]: "fuel_free (path_drop_from a0 a1 a2 a3)"
  by (induction a0 a1 a2 a3 rule: path_drop_from.induct)
    (subst path_drop_from.simps, intro fuel_rules fuel_intros; (assumption | blast | simp)?)

lemma ends_of_trie_codec_3 [fuel_intros]:
  "fuel_free (path_drop a0 a1)" "fuel_free (path_prefix_of b0 b1)"
  unfolding path_drop_def path_prefix_of_def Let_def
  by (intro fuel_rules fuel_intros; (assumption | simp)?)+

lemma ends_common_prefix_length_from [fuel_intros]:
  "fuel_free (common_prefix_length_from a0 a1 a2 a3)"
  by (induction a0 a1 a2 a3 rule: common_prefix_length_from.induct)
    (subst common_prefix_length_from.simps, intro fuel_rules fuel_intros;
    (assumption | blast | simp)?)

lemma ends_of_trie_codec_4 [fuel_intros]:
  "fuel_free (common_prefix_length a0 a1)" "fuel_free (scratch_hex_prefix_decode_ref b0)"
  "fuel_free (inline_node_from_scratch_slice c0)" "fuel_free (inline_node_slice d0)"
  "fuel_free (inline_node_hash e0 e1)" "fuel_free (branch_content_length_add f0 f1)"
  "fuel_free (node_ref_size g0)" "fuel_free (rlp_write_node_ref h0)"
  unfolding common_prefix_length_def scratch_hex_prefix_decode_ref_def
    inline_node_from_scratch_slice_def inline_node_slice_def inline_node_hash_def
    branch_content_length_add_def node_ref_size_def rlp_write_node_ref_def Let_def
  by (intro fuel_rules fuel_intros; (assumption | simp)?)+

lemma ends_write_path_bytes [fuel_intros]: "fuel_free (write_path_bytes a0 a1)"
  by (induction a0 a1 rule: write_path_bytes.induct)
    (subst write_path_bytes.simps, intro fuel_rules fuel_intros; (assumption | blast | simp)?)

lemma ends_of_trie_codec_5 [fuel_intros]:
  "fuel_free (rlp_write_hex_prefix a0 a1)" "fuel_free (child_ref b0 b1)"
  "fuel_free c3 \<Longrightarrow> fuel_free (encoded_child_ref c0 c1 c2 c3)"
  "fuel_free (input_leaf_child_ref d0 d1 d2)" "fuel_free (scratch_leaf_child_ref e0 e1 e2)"
  "fuel_free (leaf_child_ref f0 f1 f2)" "fuel_free (extension_child_ref g0 g1 g2)"
  unfolding rlp_write_hex_prefix_def child_ref_def encoded_child_ref_def input_leaf_child_ref_def
    scratch_leaf_child_ref_def leaf_child_ref_def extension_child_ref_def Let_def
  by (intro fuel_rules fuel_intros; (assumption | simp)?)+

lemma ends_branch_content_size [fuel_intros]: "fuel_free (branch_content_size a0 a1 a2 a3)"
  by (induction a0 a1 a2 a3 rule: branch_content_size.induct)
    (simp_all only: branch_content_size.simps, (intro fuel_rules fuel_intros;
    (assumption | blast | simp)?)+)

lemma ends_write_branch_children [fuel_intros]: "fuel_free (write_branch_children a0 a1 a2)"
  by (induction a0 a1 a2 rule: write_branch_children.induct)
    (simp_all only: write_branch_children.simps, (intro fuel_rules fuel_intros;
    (assumption | blast | simp)?)+)

lemma ends_of_trie_codec_6 [fuel_intros]:
  "fuel_free (branch_child_ref a0 a1 a2)" "fuel_free (trie_ref_to_root b0 b1)"
  "fuel_free (input_node_to_ref c0 c1)" "fuel_free (scratch_field_to_ref d0)"
  unfolding branch_child_ref_def trie_ref_to_root_def input_node_to_ref_def
    scratch_field_to_ref_def Let_def
  by (intro fuel_rules fuel_intros; (assumption | simp)?)+

lemma ends_decode_scratch_branch_node [fuel_intros]:
  "fuel_free (decode_scratch_branch_node a0 a1 a2)"
  by (induction a0 a1 a2 rule: decode_scratch_branch_node.induct)
    (subst decode_scratch_branch_node.simps, intro fuel_rules fuel_intros;
    (assumption | blast | simp)?)

lemma ends_of_trie_codec_7 [fuel_intros]:
  "fuel_free (decode_scratch_trie_node a0)" "fuel_free (merge_ext_node b0 b1 b2)"
  "fuel_free (merge_ext_ref c0 c1 c2)"
  unfolding decode_scratch_trie_node_def merge_ext_node_def merge_ext_ref_def Let_def
  by (intro fuel_rules fuel_intros; (assumption | simp)?)+

section \<open>\<open>Trie_Update\<close>\<close>

lemma ends_of_trie_update_1 [fuel_intros]:
  "fuel_free a0 \<Longrightarrow> fuel_free (trie_updates_begin a0)"
  "fuel_free b0 \<Longrightarrow> fuel_free (trie_updates_pop b0 b1)"
  "fuel_free (trie_updates_rebase c0 c1)" "fuel_free (trie_updates_descend d0)"
  "fuel_free (update_child_nibble e0)" "fuel_free trie_empty_subtree"
  "fuel_free (trie_child_ref g0 g1 g2)" "fuel_free trie_children_empty"
  "fuel_free (trie_children_add i0 i1 i2 i3 i4)" "fuel_free (trie_children_finish j0 j1 j2)"
  "fuel_free (trie_subtree_root k0 k1)" "fuel_free (child_path_of l0 l1)"
  unfolding trie_updates_begin_def trie_updates_pop_def trie_updates_rebase_def
    trie_updates_descend_def update_child_nibble_def trie_empty_subtree_def trie_child_ref_def
    trie_children_empty_def trie_children_add_def trie_children_finish_def trie_subtree_root_def
    child_path_of_def Let_def
  by (intro fuel_rules fuel_intros; (assumption | simp)?)+

lemma ends_of_trie_update_2 [fuel_intros]:
  "fuel_free (later_child a0 a1)" "fuel_free (full_key_reached b0)"
  "fuel_free c0 \<Longrightarrow> fuel_free (take_update_at c0 c1 c2)"
  unfolding later_child_def full_key_reached_def take_update_at_def Let_def
  by (intro fuel_rules fuel_intros; (assumption | simp)?)+

lemma ends_updates:
  assumes "fuel_free reader"
  shows "ends (updates_subtree reader keccak updates prefix cursor) s"
    and "ends (updates_children reader keccak prefix cursor children remaining) s"
  using assms
proof (induction reader keccak updates prefix cursor s
  and reader keccak prefix cursor children remaining s
    rule: updates_subtree_updates_children.induct)
  case 1
  show ?case
    by (subst updates_subtree.simps, (unfold Let_def)?, intro ends_ret ends_rules;
      ((rule "1.IH", (assumption | rule refl | rule "1.prems")+)
        | (intro fuel_rules fuel_intros; (assumption | rule "1.prems" | simp)?)
        | (rule ends_fuel_free, intro fuel_rules fuel_intros;
        (assumption | rule "1.prems" | simp)?))?)
next
  case 2
  show ?case
    by (subst updates_children.simps, (unfold Let_def)?, intro ends_ret ends_rules;
      ((rule "2.IH", (assumption | rule refl | rule "2.prems")+)
        | (intro fuel_rules fuel_intros; (assumption | rule "2.prems" | simp)?)
        | (rule ends_fuel_free, intro fuel_rules fuel_intros;
        (assumption | rule "2.prems" | simp)?))?)
qed

lemma ends_updates_fuel_free [fuel_intros]:
  "fuel_free reader \<Longrightarrow> fuel_free (updates_subtree reader keccak updates prefix cursor)"
  by (rule fuel_freeI, rule ends_updates, assumption)+

lemma ends_overlay_leaf:
  assumes "fuel_free reader"
  shows "ends (overlay_leaf_subtree reader keccak updates prefix key leaf cursor) s"
    and "ends (overlay_leaf_children reader keccak prefix key leaf cursor children remaining
      leaf_pending) s"
  using assms
proof (induction reader keccak updates prefix key leaf cursor s
  and reader keccak prefix key leaf cursor children remaining leaf_pending s
    rule: overlay_leaf_subtree_overlay_leaf_children.induct)
  case 1
  show ?case
    by (subst overlay_leaf_subtree.simps, (unfold Let_def)?, intro ends_ret ends_rules;
      ((rule "1.IH", (assumption | rule refl | rule "1.prems")+)
        | (intro fuel_rules fuel_intros; (assumption | rule "1.prems" | simp)?)
        | (rule ends_fuel_free, intro fuel_rules fuel_intros;
        (assumption | rule "1.prems" | simp)?))?)
next
  case 2
  show ?case
    by (subst overlay_leaf_children.simps, (unfold Let_def)?, intro ends_ret ends_rules;
      ((rule "2.IH", (assumption | rule refl | rule "2.prems")+)
        | (intro fuel_rules fuel_intros; (assumption | rule "2.prems" | simp)?)
        | (rule ends_fuel_free, intro fuel_rules fuel_intros;
        (assumption | rule "2.prems" | simp)?))?)
qed

lemma ends_overlay_leaf_fuel_free [fuel_intros]:
  "fuel_free reader \<Longrightarrow> fuel_free (overlay_leaf_subtree reader keccak updates prefix key leaf
    cursor)"
  by (rule fuel_freeI, rule ends_overlay_leaf, assumption)+

lemma ends_update_at_child [fuel_intros]: "fuel_free (update_at_child a0 a1)"
  unfolding update_at_child_def Let_def
  by (intro fuel_rules fuel_intros; (assumption | simp)?)

lemma ends_witness:
  assumes "fuel_free reader"
  shows "ends (witness_subtree reader keccak node prefix updates cursor) s"
    and "ends (witness_branch_children reader keccak branches prefix cursor built remaining
      indices) s"
    and "ends (overlay_extension_subtree reader keccak childref child_prefix updates prefix
      cursor) s"
    and "ends (overlay_extension_children reader keccak childref child_prefix prefix cursor
      children remaining extension_pending) s"
  using assms
proof (induction reader keccak node prefix updates cursor s
  and reader keccak branches prefix cursor built remaining indices s
    and reader keccak childref child_prefix updates prefix cursor s
    and reader keccak childref child_prefix prefix cursor children remaining extension_pending s
    rule: witness_subtree_witness_branch_children_overlay_extension_subtree_overlay_extension_children.induct)
  case 1
  show ?case
    by (subst witness_subtree.simps, (unfold Let_def)?, intro ends_ret ends_rules;
      ((rule "1.IH", (assumption | rule refl | rule "1.prems")+)
        | (intro fuel_rules fuel_intros; (assumption | rule "1.prems" | simp)?)
        | (rule ends_fuel_free, intro fuel_rules fuel_intros;
        (assumption | rule "1.prems" | simp)?))?)
next
  case 2
  show ?case
    by (subst witness_branch_children.simps, (unfold Let_def)?, intro ends_ret ends_rules;
      ((rule "2.prems", (assumption | rule refl | rule "2.prems")+)
        | (intro fuel_rules fuel_intros; (assumption | rule "2.prems" | simp)?)
        | (rule ends_fuel_free, intro fuel_rules fuel_intros;
        (assumption | rule "2.prems" | simp)?))?)
next
  case 3
  show ?case
    by (subst witness_branch_children.simps, (unfold Let_def)?, intro ends_ret ends_rules;
      ((rule "3.IH", (assumption | rule refl | rule "3.prems")+)
        | (intro fuel_rules fuel_intros; (assumption | rule "3.prems" | simp)?)
        | (rule ends_fuel_free, intro fuel_rules fuel_intros;
        (assumption | rule "3.prems" | simp)?))?)
next
  case 4
  show ?case
    by (subst overlay_extension_subtree.simps, (unfold Let_def)?, intro ends_ret ends_rules;
      ((rule "4.IH", (assumption | rule refl | rule "4.prems")+)
        | (intro fuel_rules fuel_intros; (assumption | rule "4.prems" | simp)?)
        | (rule ends_fuel_free, intro fuel_rules fuel_intros;
        (assumption | rule "4.prems" | simp)?))?)
next
  case 5
  show ?case
    by (subst overlay_extension_children.simps, (unfold Let_def)?, intro ends_ret ends_rules;
      ((rule "5.IH", (assumption | rule refl | rule "5.prems")+)
        | (intro fuel_rules fuel_intros; (assumption | rule "5.prems" | simp)?)
        | (rule ends_fuel_free, intro fuel_rules fuel_intros;
        (assumption | rule "5.prems" | simp)?))?)
qed

lemma ends_witness_fuel_free [fuel_intros]:
  "fuel_free reader \<Longrightarrow> fuel_free (witness_subtree reader keccak node prefix updates cursor)"
  "fuel_free reader \<Longrightarrow> fuel_free (overlay_extension_subtree reader keccak childref child_prefix
    updates prefix cursor)"
  by (rule fuel_freeI, rule ends_witness, assumption)+

lemma ends_of_trie_update_3 [fuel_intros]:
  "fuel_free a0 \<Longrightarrow> fuel_free (trie_root_cursor a0 a1 a2 a3)"
  "fuel_free b0 \<Longrightarrow> fuel_free (trie_root b0 b1 b2)"
  unfolding trie_root_cursor_def trie_root_def Let_def
  by (intro fuel_rules fuel_intros; (assumption | simp)?)+

section \<open>\<open>State_Root\<close>\<close>

lemma ends_of_state_root_1 [fuel_intros]:
  "fuel_free (encode_storage_value a0)" "fuel_free (encode_state_account b0 b1)"
  "fuel_free (storage_update c0)" "fuel_free (account_update d0 d1)"
  unfolding encode_storage_value_def encode_state_account_def storage_update_def
    account_update_def Let_def
  by (intro fuel_rules fuel_intros; (assumption | simp)?)+

lemma ends_next_storage_trie_update [fuel_intros]: "fuel_free (next_storage_trie_update a0)"
  apply (rule fuel_freeI)
  subgoal for s
    by (induction a0 s rule: next_storage_trie_update.induct)
      (subst next_storage_trie_update.simps, intro tail_rules;
      ((intro fuel_rules fuel_intros; (assumption | simp)?)
        | (rule ends_fuel_free, intro fuel_rules fuel_intros; (assumption | simp)?)
        | (clarify?, blast))?)
  done

lemma ends_account_trie_update [fuel_intros]: "fuel_free (account_trie_update a0 a1)"
  unfolding account_trie_update_def Let_def
  by (intro fuel_rules fuel_intros; (assumption | simp)?)

lemma ends_next_changed_account_trie_update [fuel_intros]:
  "fuel_free (next_changed_account_trie_update a0)"
  apply (rule fuel_freeI)
  subgoal for s
    by (induction a0 s rule: next_changed_account_trie_update.induct)
      (subst next_changed_account_trie_update.simps, intro tail_rules;
      ((intro fuel_rules fuel_intros; (assumption | simp)?)
        | (rule ends_fuel_free, intro fuel_rules fuel_intros; (assumption | simp)?)
        | (clarify?, blast))?)
  done

lemma ends_of_state_root_2 [fuel_intros]:
  "fuel_free (trie_update_source_next a0 a1)" "fuel_free (compute_state_root b0)"
  unfolding trie_update_source_next_def compute_state_root_def Let_def
  by (intro fuel_rules fuel_intros; (assumption | simp)?)+

end
