(* ===== verification/Fuel_Blocks.thy ===== *)
theory Fuel_Blocks
  imports Fuel_Roots
begin

text \<open>
  No loop runs for ever, and no computation ends with \<open>OutOfFuel\<close>, in
  the codecs of a block, its access list, the processing of transactions up to
  their frames, system calls, and the checks of the payload.
\<close>

section \<open>\<open>Block_Codec\<close>\<close>

lemma ends_of_block_codec_1 [fuel_intros]:
  "fuel_free (withdrawal_rlp a0)" "fuel_free (add_when b0 b1 b2)"
  "fuel_free (word_size_when c0 c1)" "fuel_free (block_header_content_length d0 d1)"
  "fuel_free (write_block_header e0 e1 e2 e3 e4 e5)"
  "fuel_free (block_header_hash f0 f1 f2 f3 f4 f5)" "fuel_free (bal_ref_cursor g0)"
  "fuel_free (bal_ref_bytes h0)" "fuel_free (bal_ref_word i0)" "fuel_free (bal_ref_uint64 j0)"
  "fuel_free (bal_expect_end k0)"
  unfolding withdrawal_rlp_def add_when_def word_size_when_def block_header_content_length_def
    write_block_header_def block_header_hash_def bal_ref_cursor_def bal_ref_bytes_def
    bal_ref_word_def bal_ref_uint64_def bal_expect_end_def Let_def
  by (intro fuel_rules fuel_intros; (assumption | simp)?)+

section \<open>\<open>Block_Access_List\<close>\<close>

lemma ends_of_block_access_list_1 [fuel_intros]:
  "fuel_free (bal_pair_fields a0)" "fuel_free (bal_compare_index_word b0 b1 b2)"
  "fuel_free (bal_compare_index_nonce c0 c1 c2)" "fuel_free (bal_compare_index_code d0 d1 d2)"
  unfolding bal_pair_fields_def bal_compare_index_word_def bal_compare_index_nonce_def
    bal_compare_index_code_def Let_def
  by (intro fuel_rules fuel_intros; (assumption | simp)?)+

lemma ends_bal_validate_storage_change_values [fuel_intros]:
  "fuel_free (bal_validate_storage_change_values a0 a1)"
  apply (rule fuel_freeI)
  subgoal for s
    by (induction a0 a1 s rule: bal_validate_storage_change_values.induct)
      (subst bal_validate_storage_change_values.simps, intro tail_rules;
      ((intro fuel_rules fuel_intros; (assumption | simp)?)
        | (rule ends_fuel_free, intro fuel_rules fuel_intros; (assumption | simp)?)
        | (clarify?, blast))?)
  done

lemma ends_bal_validate_storage_changes [fuel_intros]:
  "fuel_free (bal_validate_storage_changes a0)"
  apply (rule fuel_freeI)
  subgoal for s
  proof (induction a0 s rule: bal_validate_storage_changes.induct)
    case 1
    show ?case
      by (subst bal_validate_storage_changes.simps, (unfold Let_def)?, intro ends_ret ends_rules;
        ((rule 1, (assumption | rule refl)+)
          | (intro fuel_rules fuel_intros; (assumption | simp)?)
          | (rule ends_fuel_free, intro fuel_rules fuel_intros; (assumption | simp)?))?)
  qed
  done

lemma ends_bal_validate_storage_reads [fuel_intros]: "fuel_free (bal_validate_storage_reads a0)"
  apply (rule fuel_freeI)
  subgoal for s
  proof (induction a0 s rule: bal_validate_storage_reads.induct)
    case 1
    show ?case
      by (subst bal_validate_storage_reads.simps, (unfold Let_def)?, intro ends_ret ends_rules;
        ((rule 1, (assumption | rule refl)+)
          | (intro fuel_rules fuel_intros; (assumption | simp)?)
          | (rule ends_fuel_free, intro fuel_rules fuel_intros; (assumption | simp)?))?)
  qed
  done

lemma ends_bal_validate_balance_changes [fuel_intros]:
  "fuel_free (bal_validate_balance_changes a0)"
  apply (rule fuel_freeI)
  subgoal for s
    by (induction a0 s rule: bal_validate_balance_changes.induct)
      (subst bal_validate_balance_changes.simps, intro tail_rules;
      ((intro fuel_rules fuel_intros; (assumption | simp)?)
        | (rule ends_fuel_free, intro fuel_rules fuel_intros; (assumption | simp)?)
        | (clarify?, blast))?)
  done

lemma ends_bal_validate_nonce_changes [fuel_intros]: "fuel_free (bal_validate_nonce_changes a0)"
  apply (rule fuel_freeI)
  subgoal for s
    by (induction a0 s rule: bal_validate_nonce_changes.induct)
      (subst bal_validate_nonce_changes.simps, intro tail_rules;
      ((intro fuel_rules fuel_intros; (assumption | simp)?)
        | (rule ends_fuel_free, intro fuel_rules fuel_intros; (assumption | simp)?)
        | (clarify?, blast))?)
  done

lemma ends_bal_validate_code_changes [fuel_intros]: "fuel_free (bal_validate_code_changes a0)"
  apply (rule fuel_freeI)
  subgoal for s
    by (induction a0 s rule: bal_validate_code_changes.induct)
      (subst bal_validate_code_changes.simps, intro tail_rules;
      ((intro fuel_rules fuel_intros; (assumption | simp)?)
        | (rule ends_fuel_free, intro fuel_rules fuel_intros; (assumption | simp)?)
        | (clarify?, blast))?)
  done

lemma ends_bal_validate_account [fuel_intros]: "fuel_free (bal_validate_account a0)"
  unfolding bal_validate_account_def Let_def
  by (intro fuel_rules fuel_intros; (assumption | simp)?)

lemma ends_bal_validate_accounts [fuel_intros]: "fuel_free (bal_validate_accounts a0)"
  apply (rule fuel_freeI)
  subgoal for s
  proof (induction a0 s rule: bal_validate_accounts.induct)
    case 1
    show ?case
      by (subst bal_validate_accounts.simps, (unfold Let_def)?, intro ends_ret ends_rules;
        ((rule 1, (assumption | rule refl)+)
          | (intro fuel_rules fuel_intros; (assumption | simp)?)
          | (rule ends_fuel_free, intro fuel_rules fuel_intros; (assumption | simp)?))?)
  qed
  done

lemma ends_validate_block_access_list [fuel_intros]:
  "fuel_free (validate_block_access_list a0 a1)"
  unfolding validate_block_access_list_def Let_def
  by (intro fuel_rules fuel_intros; (assumption | simp)?)

section \<open>\<open>Tx_Processing\<close>\<close>

lemma ends_of_tx_processing_1 [fuel_intros]:
  "fuel_free (authorization_item_refund a0)" "fuel_free (authorization_refund b0)"
  "fuel_free (authorization_for_chain c0)" "fuel_free (process_auth d0 d1)"
  "fuel_free (authorization_refund_add e0 e1)"
  unfolding authorization_item_refund_def authorization_refund_def authorization_for_chain_def
    process_auth_def authorization_refund_add_def Let_def
  by (intro fuel_rules fuel_intros; (assumption | simp)?)+

lemma ends_process_auth_cursor [fuel_intros]: "fuel_free (process_auth_cursor a0 a1 a2)"
  by (induction a0 a1 a2 rule: process_auth_cursor.induct)
    (simp_all only: process_auth_cursor.simps, (intro fuel_rules fuel_intros;
    (assumption | blast | simp)?)+)

lemma ends_of_tx_processing_2 [fuel_intros]:
  "fuel_free (process_auth_list a0 a1)"
  "(\<And>x0. fuel_free (b4 x0)) \<Longrightarrow> fuel_free (charge_auth_account_write b0 b1 b2 b3 b4)"
  "(\<And>x0 x1 x2. fuel_free (c5 x0 x1 x2)) \<Longrightarrow> fuel_free (charge_auth_state c0 c1 c2 c3 c4 c5)"
  "fuel_free (process_amsterdam_auth d0 d1 d2 d3 d4 d5 d6 d7)"
  unfolding process_auth_list_def charge_auth_account_write_def charge_auth_state_def
    process_amsterdam_auth_def Let_def
  by (intro fuel_rules fuel_intros; (assumption | simp)?)+

lemma ends_process_amsterdam_auth_cursor [fuel_intros]:
  "fuel_free (process_amsterdam_auth_cursor a0 a1 a2 a3 a4 a5 a6 a7 a8)"
  by (induction a0 a1 a2 a3 a4 a5 a6 a7 a8 rule: process_amsterdam_auth_cursor.induct)
    (simp_all only: process_amsterdam_auth_cursor.simps, (intro fuel_rules fuel_intros;
    (assumption | blast | simp)?)+)

lemma ends_warm_access_list_keys [fuel_intros]: "fuel_free (warm_access_list_keys a0 a1)"
  apply (rule fuel_freeI)
  subgoal for s
    by (induction a0 a1 s rule: warm_access_list_keys.induct)
      (subst warm_access_list_keys.simps, intro tail_rules;
      ((intro fuel_rules fuel_intros; (assumption | simp)?)
        | (rule ends_fuel_free, intro fuel_rules fuel_intros; (assumption | simp)?)
        | (clarify?, blast))?)
  done

lemma ends_warm_access_list [fuel_intros]: "fuel_free (warm_access_list a0)"
  apply (rule fuel_freeI)
  subgoal for s
    by (induction a0 s rule: warm_access_list.induct)
      (subst warm_access_list.simps, intro tail_rules;
      ((intro fuel_rules fuel_intros; (assumption | simp)?)
        | (rule ends_fuel_free, intro fuel_rules fuel_intros; (assumption | simp)?)
        | (clarify?, blast))?)
  done

lemma ends_of_tx_processing_3 [fuel_intros]:
  "fuel_free (prewarm a0)" "fuel_free (fatal_when b0 b1)"
  "fuel_free (check_transaction_validity c0 c1 c2)"
  "fuel_free (apply_transaction_upfront_effects d0 d1 d2 d3)"
  "fuel_free (enter_transaction_frame e0)" "fuel_free (tx_frame_exceptional f0 f1 f2)"
  "fuel_free (transaction_initcode_slice g0)" "fuel_free (transaction_initcode h0 h1)"
  "fuel_free (deploy_transaction_code i0 i1 i2 i3)"
  "fuel_free (run_transaction_precompile j0 j1 j2 j3 j4)"
  "fuel_free (finish_transaction_frame k0 k1 k2)"
  "(\<And>x0 x1 x2. fuel_free (l4 x0 x1 x2)) \<Longrightarrow> (\<And>x0 x1 x2. fuel_free (l5 x0 x1 x2)) \<Longrightarrow> fuel_free
    (charge_dispatch_account l0 l1 l2 l3 l4 l5)"
  unfolding prewarm_def fatal_when_def check_transaction_validity_def
    apply_transaction_upfront_effects_def enter_transaction_frame_def tx_frame_exceptional_def
    transaction_initcode_slice_def transaction_initcode_def deploy_transaction_code_def
    run_transaction_precompile_def finish_transaction_frame_def charge_dispatch_account_def
    Let_def
  by (intro fuel_rules fuel_intros; (assumption | simp)?)+

lemma ends_of_tx_processing_4 [fuel_intros]:
  "fuel_free (prepare_amsterdam_transaction_dispatch a0 a1 a2 a3 a4 a5 a6)"
  "fuel_free (settle_transaction b0 b1 b2 b3 b4)"
  unfolding prepare_amsterdam_transaction_dispatch_def settle_transaction_def Let_def
  by (intro fuel_rules fuel_intros; (assumption | simp)?)+

section \<open>\<open>System_Calls\<close>\<close>

lemma ends_deposit_log_matches [fuel_intros]: "fuel_free (deposit_log_matches a0)"
  unfolding deposit_log_matches_def Let_def
  by (intro fuel_rules fuel_intros; (assumption | simp)?)

lemma ends_deposit_words [fuel_intros]: "fuel_free (deposit_words a0 a1)"
  by (induction a0 a1 rule: deposit_words.induct) (simp_all only: deposit_words.simps,
    (intro fuel_rules fuel_intros; (assumption | blast | simp)?)+)

lemma ends_deposit_fields_match [fuel_intros]: "fuel_free (deposit_fields_match a0 a1 a2)"
  by (induction a0 a1 a2 rule: deposit_fields_match.induct)
    (simp_all only: deposit_fields_match.simps, (intro fuel_rules fuel_intros;
    (assumption | blast | simp)?)+)

lemma ends_authenticate_deposit_request [fuel_intros]:
  "fuel_free (authenticate_deposit_request a0 a1)"
  unfolding authenticate_deposit_request_def Let_def
  by (intro fuel_rules fuel_intros; (assumption | simp)?)

lemma ends_authenticate_deposit_logs_from [fuel_intros]:
  "fuel_free (authenticate_deposit_logs_from a0 a1 a2)"
  by (induction a0 a1 a2 rule: authenticate_deposit_logs_from.induct)
    (subst authenticate_deposit_logs_from.simps, intro fuel_rules fuel_intros;
    (assumption | blast | simp)?)

lemma ends_authenticate_deposit_logs [fuel_intros]: "fuel_free (authenticate_deposit_logs a0 a1)"
  unfolding authenticate_deposit_logs_def Let_def
  by (intro fuel_rules fuel_intros; (assumption | simp)?)

section \<open>\<open>Payload\<close>\<close>

lemma ends_of_payload_1 [fuel_intros]:
  "fuel_free (rlp_index_item a0 a1)" "fuel_free (rlp_index_cursor_fields b0 b1 b2)"
  unfolding rlp_index_item_def rlp_index_cursor_fields_def Let_def
  by (intro fuel_rules fuel_intros; (assumption | simp)?)+

lemma ends_path_append_index_bytes [fuel_intros]: "fuel_free (path_append_index_bytes a0 a1 a2)"
  by (induction a0 a1 a2 rule: path_append_index_bytes.induct)
    (simp_all only: path_append_index_bytes.simps, (intro fuel_rules fuel_intros;
    (assumption | blast | simp)?)+)

lemma ends_of_payload_2 [fuel_intros]:
  "fuel_free (trie_index_key a0)" "fuel_free (rlp_index_at_position b0)"
  "fuel_free (rlp_index_cursor_at c0 c1 c2)" "fuel_free (rlp_index_cursor d0)"
  "fuel_free (rlp_index_cursor_peek e0)" "fuel_free (rlp_index_cursor_advance f0)"
  "fuel_free (rlp_index_cursor_pop g0)" "fuel_free (indexed_receipt_parts h0)"
  "fuel_free (indexed_trie_begin i0)" "fuel_free (indexed_trie_cursor_key j0)"
  "fuel_free (indexed_trie_next_under k0 k1)" "fuel_free (indexed_trie_pop l0 l1)"
  unfolding trie_index_key_def rlp_index_at_position_def rlp_index_cursor_at_def
    rlp_index_cursor_def rlp_index_cursor_peek_def rlp_index_cursor_advance_def
    rlp_index_cursor_pop_def indexed_receipt_parts_def indexed_trie_begin_def
    indexed_trie_cursor_key_def indexed_trie_next_under_def indexed_trie_pop_def Let_def
  by (intro fuel_rules fuel_intros; (assumption | simp)?)+

lemma ends_expected_payload_excess_blob_gas [fuel_intros]:
  "fuel_free (expected_payload_excess_blob_gas a0)"
  unfolding expected_payload_excess_blob_gas_def Let_def
  by (intro fuel_rules fuel_intros; (assumption | simp)?)

lemma ends_request_digests [fuel_intros]: "fuel_free (request_digests a0 a1)"
  by (induction a0 a1 rule: request_digests.induct) (simp_all only: request_digests.simps,
    (intro fuel_rules fuel_intros; (assumption | blast | simp)?)+)

lemma ends_push_request_digests [fuel_intros]: "fuel_free (push_request_digests a0)"
  by (induction a0 rule: push_request_digests.induct)
    (simp_all only: push_request_digests.simps, (intro fuel_rules fuel_intros;
    (assumption | blast | simp)?)+)

lemma ends_execution_requests_hash [fuel_intros]: "fuel_free (execution_requests_hash a0 a1)"
  unfolding execution_requests_hash_def Let_def
  by (intro fuel_rules fuel_intros; (assumption | simp)?)

section \<open>\<open>Block_Execution\<close>\<close>

lemma ends_of_block_execution_1 [fuel_intros]:
  "fuel_free (block_gas_usage_within a0 a1 a2 a3)" "fuel_free (block_gas_usage_empty b0)"
  "fuel_free (block_gas_usage_add c0 c1 c2 c3)"
  unfolding block_gas_usage_within_def block_gas_usage_empty_def block_gas_usage_add_def Let_def
  by (intro fuel_rules fuel_intros; (assumption | simp)?)+

lemma ends_apply_withdrawals_from [fuel_intros]: "fuel_free (apply_withdrawals_from a0 a1)"
  apply (rule fuel_freeI)
  subgoal for s
    by (induction a0 a1 s rule: apply_withdrawals_from.induct)
      (subst apply_withdrawals_from.simps, intro tail_rules;
      ((intro fuel_rules fuel_intros; (assumption | simp)?)
        | (rule ends_fuel_free, intro fuel_rules fuel_intros; (assumption | simp)?)
        | (clarify?, blast))?)
  done

lemma ends_of_block_execution_2 [fuel_intros]:
  "fuel_free (apply_withdrawals a0 a1)" "fuel_free (apply_block_end_state b0 b1)"
  "fuel_free (consume_deposits c0 c1 c2)" "fuel_free (set_epoch d0)"
  unfolding apply_withdrawals_def apply_block_end_state_def consume_deposits_def set_epoch_def
    Let_def
  by (intro fuel_rules fuel_intros; (assumption | simp)?)+

section \<open>\<open>Stateless\<close>\<close>

lemma ends_of_stateless_1 [fuel_intros]:
  "fuel_free (write_prefix a0 a1)" "fuel_free (write_public_output b0)"
  "fuel_free (commit_validation_result c0 c1 c2)" "fuel_free (write_validation_result d0 d1 d2)"
  "fuel_free (validate_executed_block e0 e1 e2)"
  unfolding write_prefix_def write_public_output_def commit_validation_result_def
    write_validation_result_def validate_executed_block_def Let_def
  by (intro fuel_rules fuel_intros; (assumption | simp)?)+

end
