(* ===== verification/Index_Trie.thy ===== *)
theory Index_Trie
  imports Fuel_Blocks
begin

text \<open>
  The trie over indexed items: the keys of a cursor are prefix-free, so every round of the loop
  that descends along them moves the cursor on, and the case that stands for endless repetition in
  \<open>indexed_trie_children\<close> never occurs.
\<close>

section \<open>No key is a prefix of another\<close>

lemma byte_nibbles_prefix:
  "take (2 * length xs) (byte_nibbles ys) = byte_nibbles xs \<Longrightarrow> take (length xs) ys = xs"
proof (induction xs arbitrary: ys)
  case (Cons x xs)
  then show ?case
    by (cases ys) (auto intro: bytes_of_nibbles)
qed simp

lemma index_key_prefix_free:
  assumes i: "0 \<le> i" "i < 2 ^ 20" and j: "0 \<le> j" "j < 2 ^ 20"
    and pre: "take (length (index_key_bytes i)) (index_key_bytes j) = index_key_bytes i"
  shows "i = j"
proof -
  let ?w = rlp_index_encoded_width
  have width: "?w v \<in> {1, 2, 3}" if "v < 2 ^ 20" for v
    using that by (auto simp: rlp_index_encoded_width_def)
  have byte: "uint (word_of_int v :: byte) = v" if "0 \<le> v" "v < 256" for v
    using that by (simp add: uint_word_of_int)
  have same_length: "length (index_key_bytes i) = length (index_key_bytes j)"
  proof -
    have "index_key_bytes v \<noteq> []" if "0 \<le> v" "v < 2 ^ 20" for v
      using index_key_cases [OF that] by simp
    from this [OF i] this [OF j] have head: "hd (index_key_bytes i) = hd (index_key_bytes j)"
      using pre by (cases "index_key_bytes j"; cases "index_key_bytes i") auto
    have "length (index_key_bytes v) = (if uint (hd (index_key_bytes v)) \<le> 128 then 1
        else nat (uint (hd (index_key_bytes v)) - 127))" if "0 \<le> v" "v < 2 ^ 20" for v
      using index_key_cases [OF that] width [OF that(2)] byte [of v] byte [of "128 + int (?w v)"] that
      by auto
    from this [OF i] this [OF j] head show ?thesis by simp
  qed
  then have "index_key_bytes i = index_key_bytes j" using pre by simp
  moreover have "(index_key_bytes v, index_key_bytes v) \<notin> lexord byte_order" for v
    by (rule lexord_irreflexive) (simp add: byte_order_def)
  moreover have "(index_key_bytes i, index_key_bytes j) \<in> lexord byte_order \<or>
      (index_key_bytes j, index_key_bytes i) \<in> lexord byte_order" if "i \<noteq> j"
    using that i j index_key_order [OF i(2) j(2)] index_key_order [OF j(2) i(2)] by linarith
  ultimately show ?thesis by metis
qed

lemma index_at_inject:
  assumes "0 \<le> p" "p < count" "0 \<le> q" "q < count" and "index_at count p = index_at count q"
  shows "p = q"
  using assms by (auto simp: index_at_def Let_def min_def split: if_splits)

definition cursor_key :: "int \<Rightarrow> int \<Rightarrow> int list" where
  "cursor_key count p = byte_nibbles (index_key_bytes (index_at count p))"

lemma cursor_keys_prefix_free:
  assumes "0 \<le> p" "p < count" "0 \<le> q" "q < count" "count \<le> 2 ^ 20"
    and "take (length (cursor_key count p)) (cursor_key count q) = cursor_key count p"
  shows "p = q"
proof -
  have "index_at count p = index_at count q"
    using assms index_at_range [of p count] index_at_range [of q count]
    by (intro index_key_prefix_free byte_nibbles_prefix) (auto simp: cursor_key_def)
  with assms(1-4) show ?thesis by (rule index_at_inject)
qed

section \<open>The cursor of the trie\<close>

abbreviation trie_position :: "indexed_trie_cursor \<Rightarrow> int" where
  "trie_position c \<equiv> ric_position (itc_keys c)"

definition cursor_ok :: "int \<Rightarrow> indexed_trie_cursor \<Rightarrow> bool" where
  "cursor_ok count c \<longleftrightarrow> 0 \<le> trie_position c \<and> trie_position c \<le> count \<and> count \<le> 2 ^ 20 \<and>
     stands_at count (trie_position c) (itc_keys c)"

definition under :: "int \<Rightarrow> indexed_trie_cursor \<Rightarrow> trie_path \<Rightarrow> bool" where
  "under count c prefix \<longleftrightarrow> trie_position c < count \<and>
     take (path_len prefix) (cursor_key count (trie_position c)) = path_nibbles prefix"

lemma cursor_key_run:
  assumes "cursor_ok count c" and "trie_position c < count"
  shows "\<exists>k. (\<forall>s. indexed_trie_cursor_key c s = Inr (k, s)) \<and> path_ok k \<and>
    path_nibbles k = cursor_key count (trie_position c)"
  using assms
  by (auto simp: indexed_trie_cursor_key_def rlp_index_cursor_peek_def cursor_ok_def stands_at_def
      item_ok_def cursor_key_def)

lemma next_under_run:
  fixes s :: 's
  assumes "cursor_ok count c"
  shows "indexed_trie_next_under c prefix s = Inr (under count c prefix, s)"
proof (cases "trie_position c < count")
  case True
  with cursor_key_run [OF assms True] obtain k where
    k: "\<And>s :: 's. indexed_trie_cursor_key c s = Inr (k, s)" "path_ok k"
    "path_nibbles k = cursor_key count (trie_position c)" by blast
  have "\<not> indexed_trie_cursor_empty c"
    using True assms
    by (simp add: indexed_trie_cursor_empty_def rlp_index_cursor_empty_def cursor_ok_def stands_at_def)
  then show ?thesis
    using True by (simp add: indexed_trie_next_under_def bind_run k path_prefix_of_run [OF k(2)] under_def)
next
  case False
  with assms show ?thesis
    by (auto simp: indexed_trie_next_under_def indexed_trie_cursor_empty_def rlp_index_cursor_empty_def
        under_def cursor_ok_def stands_at_def)
qed

lemma trie_pop_moves:
  assumes "cursor_ok count c" and "trie_position c < count"
    and "indexed_trie_pop source c s = Inr ((item, c'), t)"
  shows "cursor_ok count c' \<and> trie_position c' = trie_position c + 1"
proof -
  let ?p = "trie_position c"
  have inside: "0 \<le> ?p" "count \<le> 2 ^ 20" "ric_count (itc_keys c) = count"
    using assms(1) by (auto simp: cursor_ok_def stands_at_def)
  from assms(3) obtain i next_keys u where
    pop: "rlp_index_cursor_pop (itc_keys c) s = Inr ((i, next_keys), u)" "itc_keys c' = next_keys"
    by (auto simp: indexed_trie_pop_def Let_def elim!: bind_returnsE)
  then have "rlp_index_cursor_at count (?p + 1) (?p + 1 < count) s = Inr (next_keys, u)"
    using assms(2) inside
    by (auto simp: rlp_index_cursor_pop_def rlp_index_cursor_peek_def rlp_index_cursor_advance_def
        Let_def elim!: bind_returnsE)
  with cursor_at_run [of "?p + 1" count s] inside assms(2) have "stands_at count (?p + 1) next_keys"
    by auto
  then show ?thesis
    using pop(2) inside assms(2) by (simp add: cursor_ok_def stands_at_def)
qed

section \<open>The trie\<close>

definition ends_with :: "('a \<Rightarrow> bool) \<Rightarrow> ('s, 'a) action \<Rightarrow> 's \<Rightarrow> bool" where
  "ends_with Q m s \<longleftrightarrow> m s \<noteq> Inl OutOfFuel \<and> (\<forall>x t. m s = Inr (x, t) \<longrightarrow> Q x)"

lemma ends_with_bind:
  "ends_with P m s \<Longrightarrow> (\<And>x t. m s = Inr (x, t) \<Longrightarrow> P x \<Longrightarrow> ends_with Q (f x) t) \<Longrightarrow>
    ends_with Q (bind m f) s"
  by (auto simp: ends_with_def bind_run split: sum.splits)

lemma ends_with_free: "fuel_free m \<Longrightarrow> ends_with (\<lambda>_. True) m s"
  by (simp add: ends_with_def steady_fuel)

lemma ends_with_weaken: "ends_with P m s \<Longrightarrow> (\<And>x. P x \<Longrightarrow> Q x) \<Longrightarrow> ends_with Q m s"
  by (simp add: ends_with_def)

lemma ends_with_ret: "Q x \<Longrightarrow> ends_with Q (ret x) s"
  by (simp add: ends_with_def)

lemmas ends_with_then = ends_with_bind [OF ends_with_free]

definition moves_on :: "int \<Rightarrow> trie_path \<Rightarrow> indexed_trie_cursor \<Rightarrow> indexed_trie_cursor \<Rightarrow> bool" where
  "moves_on count prefix c c' \<longleftrightarrow> cursor_ok count c' \<and> trie_position c \<le> trie_position c' \<and>
     (under count c prefix \<longrightarrow> trie_position c < trie_position c')"

definition no_key_at :: "int \<Rightarrow> trie_path \<Rightarrow> bool" where
  "no_key_at count prefix \<longleftrightarrow> (\<forall>p. 0 \<le> p \<longrightarrow> p < count \<longrightarrow> cursor_key count p \<noteq> path_nibbles prefix)"

lemma child_path_run:
  fixes s :: 's
  assumes "path_ok prefix" and "path_len prefix < 64" and "0 \<le> nib" "nib < 16"
  shows "\<exists>q. child_path_of prefix nib s = Inr (q, s) \<and> path_ok q \<and>
    path_nibbles q = path_nibbles prefix @ [nib]"
proof -
  have "gives_path (child_path_of prefix nib :: ('s, trie_path) action) (path_nibbles prefix @ [nib])"
    unfolding child_path_of_def
  proof (rule gives_path_bind [OF gives_single [OF assms(3,4)]])
    fix q
    assume q: "path_ok q" "path_nibbles q = [nib]"
    then have "path_len q = 1" using length_path_nibbles [of q] by simp
    then show "gives_path (path_concat prefix q :: ('s, trie_path) action) (path_nibbles prefix @ [nib])"
      using gives_concat [OF assms(1) q(1)] assms(2) q(2) by simp
  qed
  then show ?thesis unfolding gives_path_def by blast
qed

text \<open>Under a prefix that is no key, the key goes on with a nibble.\<close>

lemma under_child:
  assumes "cursor_ok count c" and "under count c prefix" and "no_key_at count prefix"
    and "path_nibbles k = cursor_key count (trie_position c)" and "path_ok k"
  shows "path_len prefix < 64" "0 \<le> path_nibble k (path_len prefix)"
    "path_nibble k (path_len prefix) < 16"
    "path_nibbles q = path_nibbles prefix @ [path_nibble k (path_len prefix)] \<Longrightarrow> under count c q"
proof -
  let ?n = "path_len prefix" and ?key = "cursor_key count (trie_position c)"
  have key: "take ?n ?key = path_nibbles prefix" "trie_position c < count" "0 \<le> trie_position c"
    using assms(1,2) by (auto simp: under_def cursor_ok_def)
  have "length ?key \<noteq> ?n"
    using key assms(3) by (auto simp: no_key_at_def)
  moreover have "?n \<le> length ?key" using arg_cong [OF key(1), of length] by simp
  moreover have len: "length ?key = path_len k" using assms(4) length_path_nibbles [of k] by simp
  ultimately have inside: "?n < path_len k" by simp
  then have nib: "path_nibble k ?n = ?key ! ?n" using assms(4) by (simp add: path_nibble_nth)
  have "path_nibble k ?n \<in> set (path_nibbles k)"
    using inside by (simp add: path_nibble_nth)
  moreover have "path_len k \<le> 64" using assms(5) by (simp add: path_ok_def)
  ultimately show "?n < 64" "0 \<le> path_nibble k ?n" "path_nibble k ?n < 16"
    using inside path_nibbles_range by auto
  assume q: "path_nibbles q = path_nibbles prefix @ [path_nibble k ?n]"
  have "path_len q = Suc ?n" using arg_cong [OF q, of length] by simp
  then have "take (path_len q) ?key = path_nibbles q"
    using inside len key(1) q nib by (simp add: take_Suc_conv_app_nth)
  then show "under count c q" using key(2) by (simp add: under_def)
qed

lemma bind_at: "m s = Inr (x, t) \<Longrightarrow> bind m f s = f x t"
  by (simp add: bind_run)

lemma trie_parts_end:
  "fuel_free trie_children_empty" "fuel_free (trie_children_finish keccak prefix children)"
  "fuel_free (trie_children_add keccak children prefix nib child)"
  "fuel_free (indexed_trie_pop source c)"
  by (intro fuel_intros)+

lemma pop_ends:
  assumes "cursor_ok count c" and "trie_position c < count"
  shows "ends_with (\<lambda>(item, c'). moves_on count prefix c c') (indexed_trie_pop source c) s"
  unfolding ends_with_def
  by (auto simp: moves_on_def steady_fuel [OF trie_parts_end(4)] dest!: trie_pop_moves [OF assms])

lemma cursor_index_trie:
  fixes s :: "'z kernel_state_scheme"
  shows "cursor_ok count c \<Longrightarrow> path_ok prefix \<Longrightarrow>
      ends_with (\<lambda>(item, c'). moves_on count prefix c c') (indexed_trie_subtree keccak source c prefix) s"
    and "cursor_ok count c \<Longrightarrow> path_ok prefix \<Longrightarrow> no_key_at count prefix \<Longrightarrow>
      ends_with (\<lambda>(children', c'). moves_on count prefix c c')
        (indexed_trie_children keccak source prefix children c) s"
proof (induction keccak source c prefix s and keccak source prefix children c s
    rule: indexed_trie_subtree_indexed_trie_children.induct)
  case (1 keccak source c prefix s)
  note under = next_under_run [OF 1(2), of prefix s]
  show ?case
  proof (cases "under count c prefix")
    case False
    have "ends_with (\<lambda>(item, c'). moves_on count prefix c c')
        (bind trie_empty_subtree (\<lambda>item. ret (item, c))) s"
      using False 1(2)
      by (intro ends_with_then ends_with_ret fuel_intros) (simp add: moves_on_def)
    then show ?thesis
      using False under by (simp add: ends_with_def indexed_trie_subtree.simps bind_run)
  next
    case True
    then have inside: "trie_position c < count" by (simp add: under_def)
    from cursor_key_run [OF 1(2) inside] obtain k where
      k: "\<And>s :: 'z kernel_state_scheme. indexed_trie_cursor_key c s = Inr (k, s)" "path_ok k"
      "path_nibbles k = cursor_key count (trie_position c)" by blast
    show ?thesis
    proof (cases "path_eq k prefix")
      case at: True
      show ?thesis
        using True at under k pop_ends [OF 1(2) inside, of prefix source s]
        by (simp add: ends_with_def indexed_trie_subtree.simps bind_run)
    next
      case below: False
      have none: "no_key_at count prefix"
        unfolding no_key_at_def
      proof (intro allI impI notI)
        fix p
        assume p: "0 \<le> p" "p < count" "cursor_key count p = path_nibbles prefix"
        have "take (length (cursor_key count p)) (cursor_key count (trie_position c)) = cursor_key count p"
          using True p(3) by (simp add: under_def)
        with p(1,2) inside 1(2) have "p = trie_position c"
          by (intro cursor_keys_prefix_free [of p count]) (auto simp: cursor_ok_def)
        with p(3) k(3) below path_eq_iff [OF k(2) 1(3)] show False by simp
      qed
      have "ends_with (\<lambda>(item, c'). moves_on count prefix c c')
        (bind (do_when (64 \<le> path_len prefix) (fatal_error WitnessDeficient)) (\<lambda>_.
         bind trie_children_empty (\<lambda>children.
         bind (indexed_trie_children keccak source prefix children c)
           (\<lambda>(children, remaining).
         bind (trie_children_finish keccak prefix children) (\<lambda>item.
         ret (item, remaining)))))) s"
      proof (rule ends_with_then)
        show "fuel_free (do_when (64 \<le> path_len prefix) (fatal_error WitnessDeficient))"
          by (intro fuel_rules fuel_intros)
      next
        fix x t
        assume room: "do_when (64 \<le> path_len prefix) (fatal_error WitnessDeficient) s = Inr (x, t)"
        show "ends_with (\<lambda>(item, c'). moves_on count prefix c c')
          (bind trie_children_empty (\<lambda>children.
           bind (indexed_trie_children keccak source prefix children c) (\<lambda>(children, remaining).
           bind (trie_children_finish keccak prefix children) (\<lambda>item.
           ret (item, remaining))))) t"
        proof (rule ends_with_then [OF trie_parts_end(1)])
          fix children t'
          assume none_yet: "trie_children_empty t = Inr (children, t')"
          show "ends_with (\<lambda>(item, c'). moves_on count prefix c c')
            (bind (indexed_trie_children keccak source prefix children c) (\<lambda>(children, remaining).
             bind (trie_children_finish keccak prefix children) (\<lambda>item.
             ret (item, remaining)))) t'"
          proof (rule ends_with_bind)
            show "ends_with (\<lambda>(children', c'). moves_on count prefix c c')
                (indexed_trie_children keccak source prefix children c) t'"
              by (rule "1.IH" [OF under _ k(1) below room none_yet 1(2,3) none]) (use True in simp)
          qed (auto intro!: ends_with_then [OF trie_parts_end(2)] ends_with_ret)
        qed
      qed
      then show ?thesis
        using True below under k
        by (simp add: ends_with_def indexed_trie_subtree.simps bind_run)
    qed
  qed
next
  case (2 keccak source prefix children c s)
  note under = next_under_run [OF 2(3), of prefix s]
  show ?case
  proof (cases "under count c prefix")
    case False
    then show ?thesis
      using under 2(3) by (simp add: ends_with_def indexed_trie_children.simps bind_run moves_on_def)
  next
    case True
    then have inside: "trie_position c < count" by (simp add: under_def)
    from cursor_key_run [OF 2(3) inside] obtain k where
      k: "\<And>s :: 'z kernel_state_scheme. indexed_trie_cursor_key c s = Inr (k, s)" "path_ok k"
      "path_nibbles k = cursor_key count (trie_position c)" by blast
    let ?nib = "path_nibble k (path_len prefix)"
    note nib = under_child [OF 2(3) True 2(5) k(3,2)]
    from child_path_run [OF 2(4) nib(1-3), of s] obtain q where
      q: "child_path_of prefix ?nib s = Inr (q, s)" "path_ok q"
      "path_nibbles q = path_nibbles prefix @ [?nib]" by blast
    have "ends_with (\<lambda>(children', c'). moves_on count prefix c c')
       (bind (indexed_trie_subtree keccak source c q) (\<lambda>(child, next).
       bind (trie_children_add keccak children prefix ?nib child) (\<lambda>children.
       if indexed_items_left next < indexed_items_left c
       then indexed_trie_children keccak source prefix children next
       else raise OutOfFuel))) s"
    proof (rule ends_with_bind)
      show "ends_with (\<lambda>(item, c'). moves_on count q c c') (indexed_trie_subtree keccak source c q) s"
        by (rule "2.IH"(1) [OF under _ k(1) refl q(1) 2(3) q(2)]) (use True in simp)
    next
      fix r t
      assume sub: "indexed_trie_subtree keccak source c q s = Inr (r, t)"
        and moved: "case r of (item, c') \<Rightarrow> moves_on count q c c'"
      obtain child c' where r: "r = (child, c')" by (cases r)
      have on: "cursor_ok count c'" "trie_position c < trie_position c'"
        using moved r nib(4) [OF q(3)] by (auto simp: moves_on_def)
      then have shorter: "indexed_items_left c' < indexed_items_left c"
        using 2(3) inside by (simp add: indexed_items_left_def cursor_ok_def stands_at_def)
      have "ends_with (\<lambda>(children', d). moves_on count prefix c d)
         (indexed_trie_children keccak source prefix children' c') u"
        if add: "trie_children_add keccak children prefix ?nib child t = Inr (children', u)" for children' u
        by (rule ends_with_weaken [OF "2.IH"(2) [OF under _ k(1) refl q(1) sub r add shorter on(1) 2(4,5)]])
          (use True on(2) in \<open>auto simp: moves_on_def\<close>)
      then show "ends_with (\<lambda>(children', c'). moves_on count prefix c c') (case r of (child, next) \<Rightarrow>
         bind (trie_children_add keccak children prefix ?nib child) (\<lambda>children.
         if indexed_items_left next < indexed_items_left c
         then indexed_trie_children keccak source prefix children next
         else raise OutOfFuel)) t"
        using shorter r by (auto intro!: ends_with_then [OF trie_parts_end(3)])
    qed
    moreover have "indexed_trie_children keccak source prefix children c s =
       bind (indexed_trie_subtree keccak source c q) (\<lambda>(child, next).
       bind (trie_children_add keccak children prefix ?nib child) (\<lambda>children.
       if indexed_items_left next < indexed_items_left c
       then indexed_trie_children keccak source prefix children next
       else raise OutOfFuel)) s"
      by (subst indexed_trie_children.simps, subst bind_run, subst under, simp only: sum.case prod.case)
        (subst bind_run, simp add: True k(1) Let_def bind_at [where m = "child_path_of prefix ?nib", OF q(1)], simp only: bind_run)
    ultimately show ?thesis unfolding ends_with_def by (rule ssubst [rotated])
  qed
qed


section \<open>The root\<close>

lemma begin_cursor:
  fixes s :: "'z host_state_scheme"
  assumes "indexed_trie_begin source s = Inr (c, t)"
  shows "\<exists>count. cursor_ok count c"
proof -
  from assms obtain count and u v :: "'z host_state_scheme" where run: "rlp_index_cursor count u = Inr (itc_keys c, v)"
    by (auto simp: indexed_trie_begin_def Let_def elim!: bind_returnsE)
  then have "0 \<le> count" "count \<le> 2 ^ 20"
    by (auto simp: rlp_index_cursor_def rlp_index_cursor_at_def rlp_index_cursor_fields_def
        RLP_INDEX_MAXIMUM_def elim!: bind_returnsE split: if_splits)
  with cursor_at_run [of 0 count u] run have "cursor_ok count c"
    by (auto simp: rlp_index_cursor_def cursor_ok_def less_le stands_at_def)
  then show ?thesis ..
qed

lemma ends_indexed_trie_root [fuel_intros]:
  "fuel_free (indexed_trie_root keccak source :: ('z, hash) kernel)"
proof (rule fuel_freeI)
  fix s :: "'z kernel_state_scheme"
  note rest = ends_fuel_free
  show "ends (indexed_trie_root keccak source) s"
    unfolding indexed_trie_root_def
  proof (intro ends_bind)
    show "ends scratch_begin s" by (intro ends_fuel_free fuel_intros)
  next
    fix mark and t :: "'z kernel_state_scheme"
    show "ends (indexed_trie_begin source) t" by (intro ends_fuel_free fuel_intros)
  next
    fix t' :: "'z kernel_state_scheme"
    show "ends path_empty t'" by (intro ends_fuel_free fuel_rules fuel_intros)
  next
    fix c root and t t' u :: "'z kernel_state_scheme"
    assume c: "indexed_trie_begin source t = Inr (c, t')" and r: "path_empty t' = Inr (root, u)"
    from begin_cursor [OF c] obtain count where "cursor_ok count c" by blast
    moreover obtain e where e: "\<And>s :: 'z kernel_state_scheme. path_empty s = Inr (e, s)" "path_ok e"
      using gives_empty unfolding gives_path_def by blast
    ultimately show "ends (indexed_trie_subtree keccak source c root) u"
      using r cursor_index_trie(1) [of count c e keccak source u] by (auto simp: ends_def ends_with_def)
  qed ((intro ends_case_prod)?, intro ends_fuel_free fuel_rules fuel_intros; (assumption | simp)?)
qed

end
