(* ===== verification/Validation_Ends.thy ===== *)
theory Validation_Ends
  imports Index_Trie
begin

text \<open>
  The program as a whole: from \<open>3 * 2 ^ 64\<close> interpreter iterations on, no computation of
  \<open>main\<close> ends for want of iterations, and the loop over an indexed trie, which the model writes
  as a recursion with a guard, does not repeat for ever.
\<close>

section \<open>The payload\<close>

lemma ends_transaction_trie_root [fuel_intros]: "fuel_free (transaction_trie_root a0 a1)"
  unfolding transaction_trie_root_def  Let_def by (intro fuel_rules fuel_intros; (assumption | simp)?)

lemma ends_withdrawals_trie_root [fuel_intros]: "fuel_free (withdrawals_trie_root a0 a1)"
  unfolding withdrawals_trie_root_def  Let_def by (intro fuel_rules fuel_intros; (assumption | simp)?)

lemma ends_indexed_receipt_trie_root [fuel_intros]: "fuel_free (indexed_receipt_trie_root a0 a1)"
  unfolding indexed_receipt_trie_root_def  Let_def by (intro fuel_rules fuel_intros; (assumption | simp)?)

lemma ends_validate_execution_payload [fuel_intros]: "fuel_free (validate_execution_payload a0 a1 a2 a3)"
  unfolding validate_execution_payload_def  Let_def by (intro fuel_rules fuel_intros; (assumption | simp)?)

lemma ends_receipt_store_root [fuel_intros]: "fuel_free (receipt_store_root a0 a1 a2)"
  unfolding receipt_store_root_def  Let_def by (intro fuel_rules fuel_intros; (assumption | simp)?)

section \<open>Frames\<close>

lemma ends_given:
  assumes "yields Q m" and "fuel_free m" and "\<And>x. Q x \<Longrightarrow> fuel_free (f x)"
  shows "fuel_free (bind m f)"
  using assms by (intro fuel_freeI ends_bind) (auto dest: yieldsD intro: ends_fuel_free)

lemma ends_interpret:
  assumes "ample steps" and "affords gas spill" and "msg_depth m = 0"
  shows "fuel_free (evm_interpret steps lib gas state_gas spill refund sp base height m c data)"
proof (rule fuel_freeI)
  have "0 \<le> gas" "0 \<le> spill" "msg_depth m \<le> 1024" "3 * (gas + spill) + 2 \<le> int steps"
    using assms by (simp_all add: affords_def ample_def)
  from evm_interpret_returns [OF this]
  show "ends (evm_interpret steps lib gas state_gas spill refund sp base height m c data) s"
    for s :: "'a machine_state_scheme" unfolding ends_def by blast
qed

lemma ends_tx_frame_interpret:
  assumes "ample steps" and "affords (tf_gas f) (tf_state_spill f)"
  shows "fuel_free (tx_frame_interpret steps lib f entry caller tgt code_address val reservoir)"
  unfolding tx_frame_interpret_def
  by (intro fuel_rules ends_interpret assms) simp

lemma ends_transaction_frames:
  assumes "ample steps" and "affords (tf_gas f) (tf_state_spill f)"
  shows "fuel_free (run_create_transaction_frame steps lib tx sender nonce_before f entry reservoir)"
    "fuel_free (run_call_transaction_frame steps lib tx sender delegated f entry code_address reservoir)"
  unfolding run_create_transaction_frame_def run_call_transaction_frame_def Let_def
  by (intro fuel_rules fuel_intros ends_tx_frame_interpret assms; simp add: assms)+

section \<open>Transactions\<close>

lemma ends_legacy_frame:
  assumes "ample steps" and "initial_gas_ok v"
  shows "fuel_free (run_legacy_transaction_frame steps lib tx v)"
  unfolding run_legacy_transaction_frame_def Let_def
  by (intro anything.steady_rules ends_given [OF yields_enter_frame [OF assms(2)]] fuel_intros fuel_rules
      ends_transaction_frames assms(1)) auto

lemma ends_amsterdam_frame:
  assumes "ample steps" and "initial_gas_ok v"
  shows "fuel_free (run_amsterdam_transaction_frame steps lib tx v upfront auths)"
proof -
  have dispatch: "fuel_free (bind (prepare_amsterdam_transaction_dispatch lib tx v upfront gas state_gas 0) f)"
    if "affords gas spill" "\<And>d. affords (td_gas d) (td_spill d) \<Longrightarrow> fuel_free (f d)" 
    for gas state_gas spill and f :: "transaction_dispatch \<Rightarrow> ('z, tx_frame_result_fields) machine"
    by (rule ends_given [OF yields_dispatch])
      (use that in \<open>auto simp: affords_def intro: fuel_intros\<close>)
  have auths: "fuel_free (bind (process_amsterdam_auth_cursor keccak auths n sender current_target
      moves_value gas state_gas spill) f)"
    if "affords gas spill"
      "\<And>done gas state_gas spill. affords gas spill \<Longrightarrow> fuel_free (f (done, gas, state_gas, spill))"
    for keccak auths n sender current_target moves_value gas state_gas spill
      and f :: "bool \<times> int \<times> int \<times> int \<Rightarrow> ('z, tx_frame_result_fields) machine"
    by (rule ends_given [OF yields_auths [OF that(1)]])
      (use that(2) in \<open>auto intro: fuel_intros\<close>)
  have enter: "fuel_free (bind (enter_transaction_frame v) f)"
    if "\<And>g entry. affords (tf_gas g) (tf_state_spill g) \<Longrightarrow> fuel_free (f (g, entry))"
    for f :: "tx_frame \<times> tx_entry \<Rightarrow> ('z, tx_frame_result_fields) machine"
    by (rule ends_given [OF yields_enter_frame [OF assms(2)]])
      (use that in \<open>auto intro: fuel_intros\<close>)
  show ?thesis
    unfolding run_amsterdam_transaction_frame_def Let_def
    by (rule enter, simp only: prod.case)
      (intro auths dispatch fuel_rules fuel_intros ends_transaction_frames assms(1);
        (assumption | simp))
qed

lemma ends_process_transaction:
  assumes "ample steps"
  shows "fuel_free (process_transaction steps lib tx allowance)"
proof -
  have frame: "fuel_free (run_transaction_frame steps lib tx v upfront auths)" if "initial_gas_ok v"
    for v upfront auths
    unfolding run_transaction_frame_def
    by (intro fuel_rules fuel_intros ends_legacy_frame ends_amsterdam_frame assms that)
  show ?thesis
    unfolding process_transaction_def Let_def
    by (intro anything.steady_bind ends_given [OF yields_validity] frame fuel_intros)
qed

lemma ends_execute_transaction:
  assumes "ample steps"
  shows "fuel_free (execute_transaction steps lib tx index usage blob_gas deposits)"
  unfolding execute_transaction_def Let_def
  by (intro fuel_rules fuel_intros ends_process_transaction assms)

lemma ends_transactions_loop:
  assumes "ample steps"
  shows "ends (execute_transactions_loop steps lib bl) s"
  using assms
proof (induction steps lib bl s rule: execute_transactions_loop.induct)
  case (1 steps lib bl s)
  show ?case
    by (subst execute_transactions_loop.simps, unfold Let_def)
      (intro ends_if ends_bind ends_case_prod 1(1) 1(2)
        ends_execute_transaction [THEN ends_fuel_free] ends_fuel_free [OF anything.steady_rules(1)];
        (assumption | rule refl TrueI | (intro ends_fuel_free fuel_rules fuel_intros TrueI))?)
qed

section \<open>System calls, blocks and requests\<close>

lemma ends_system_call_frame:
  assumes "ample steps"
  shows "fuel_free (run_system_call_frame steps lib tgt code data base)"
  unfolding run_system_call_frame_def
  by (intro fuel_rules fuel_intros ends_interpret assms) (simp_all add: affords_def SYSTEM_CALL_GAS_LIMIT_def)

lemma ends_system_calls:
  assumes "ample steps"
  shows "fuel_free (system_call steps lib tgt h)" "fuel_free (system_call_checked steps lib tgt)"
    "fuel_free (run_block_start_system_calls steps lib)"
  unfolding run_block_start_system_calls_def system_call_def system_call_checked_def
  by (intro fuel_rules fuel_intros ends_system_call_frame assms)+

lemma ends_requests:
  assumes "ample steps"
  shows "fuel_free (validate_execution_requests steps lib input_ref)"
  unfolding validate_execution_requests_def validate_request_stream_def
  by (intro fuel_rules fuel_intros ends_system_calls assms)

lemma ends_block_body:
  assumes "ample steps"
  shows "fuel_free (execute_block_body steps lib body input_ref)"
proof -
  have loop: "fuel_free (execute_transactions_loop steps lib bl)" for bl
    by (intro fuel_freeI ends_transactions_loop assms)
  show ?thesis
    unfolding execute_block_body_def execute_block_transactions_def Let_def
    by (intro fuel_rules fuel_intros loop ends_system_calls ends_requests assms)
qed

text \<open>C0: Validation ends: from \<open>3 * 2 ^ 64\<close> interpreter iterations on, \<open>main\<close> decides every
  request in every state. Neither the interpreter nor any loop of the source runs for ever, with
  any library of hash and curve functions.\<close>

theorem validation_ends:
  assumes "3 * 2 ^ 64 \<le> int steps"
  shows "main steps lib s \<noteq> Inl OutOfFuel"
proof -
  have "ample steps" using assms by (simp add: ample_def)
  then have "fuel_free (main steps lib)"
    unfolding main_def verify_stateless_payload_def Let_def
    by (intro fuel_rules fuel_intros ends_block_body)
  then show ?thesis by (rule steady_fuel)
qed

theorem validation_ends_witness: "\<forall>lib s. main (3 * 2 ^ 64) lib s \<noteq> Inl OutOfFuel"
  by (intro allI, rule validation_ends) simp

end
