(* ===== verification/Jump_Laws.thy ===== *)
theory Jump_Laws
  imports Interpreter_Laws
begin

text \<open>
  Where the program counter stands. The analysis of a code marks the \<open>JUMPDEST\<close> opcodes that start
  an instruction; fetching advances by whole instructions, so that a frame whose code was analysed
  executes instructions only, never the immediate bytes of one.
\<close>

section \<open>Fetching\<close>

text \<open>The table of a code holds what \<open>analyze_code_marks_jumpdests\<close> shows of the analysis.\<close>

definition code_analysed :: "fork \<Rightarrow> code \<Rightarrow> 'z host_state_scheme \<Rightarrow> bool" where
  "code_analysed fork c s \<longleftrightarrow> code_in_region (code_slice_of c) s \<and>
     (\<forall>d. jumpdest_ref_contains (code_jumpdests c) (code_len c) d s =
       Inr (valid_jumpdest (code_slice_bytes (code_slice_of c) s) fork d, s))"

text \<open>At the start of an instruction, or past the end, where execution stops.\<close>

definition aligned :: "fork \<Rightarrow> bytes \<Rightarrow> int \<Rightarrow> bool" where
  "aligned fork c p \<longleftrightarrow> instruction_start c fork p \<or> int (length c) \<le> p"

lemma reaches_step:
  "reaches c fork p q \<Longrightarrow> q + step_at c fork q < int (length c) \<Longrightarrow> reaches c fork p (q + step_at c fork q)"
proof (induction rule: reaches.induct)
  case (here p)
  then show ?case
    using step_at_pos [of c fork p]
    by (auto intro!: reaches.further [OF _ _ reaches.here] simp del: step_at_pos)
qed (auto intro: reaches.further)

lemma aligned_step:
  assumes "aligned fork c p" and "p < int (length c)"
  shows "aligned fork c (p + step_at c fork p)"
  using assms reaches_step [of c fork 0 p] by (auto simp: aligned_def instruction_start_def not_le)

lemma aligned_start: "aligned fork c 0"
  by (cases c) (auto simp: aligned_def instruction_start_def intro: reaches.here)

lemma aligned_nonneg: "aligned fork c p \<Longrightarrow> 0 \<le> p"
  using reaches_bounds [of c fork 0 p] by (auto simp: aligned_def instruction_start_def)

lemma pure_returns: "pure_action m \<Longrightarrow> m s = Inr (x, t) \<Longrightarrow> t = s"
  by (auto simp: pure_action_def keeps_def)

lemma pure_load_n: "pure_action (code_slice_load_n c p n)"
  unfolding code_slice_load_n_def code_region_load_n_word_def by (intro pure_intros pure_reads)

text \<open>An opcode that the fork lacks has no immediate, and the deep stack opcodes came last.\<close>

lemma unavailable_opcode:
  "\<not> opcode_available opcode fork \<Longrightarrow> fork < Amsterdam \<and> \<not> (96 \<le> opcode \<and> opcode \<le> 127)"
  by (auto simp: opcode_available_def opcode_forks_def fork_defs split: if_splits option.splits)

lemma deep_opcode: "deep_stack_operation_immediate_valid (deep_stack_operation opcode) v \<Longrightarrow> 230 \<le> opcode"
  by (auto simp: deep_stack_operation_def split: if_splits)

lemma available_deep:
  "opcode_available opcode fork \<Longrightarrow> deep_stack_operation opcode \<noteq> NotDeepStackOperation \<Longrightarrow> Amsterdam \<le> fork"
  by (auto simp: deep_stack_operation_def opcode_available_def opcode_forks_def split: if_splits)

lemma step_at_code: "step_at c fork p = instruction_step fork (code_at c p) (code_at c (p + 1))"
  by (simp add: step_at_def instruction_step_length)

lemma fetch_aligned:
  assumes "code_in_region (code_slice_of c) s" and "aligned fork (code_slice_bytes (code_slice_of c) s) p"
    and "fetch c p fork s = Inr ((p', i), t)"
  shows "t = s \<and> aligned fork (code_slice_bytes (code_slice_of c) s) p'"
proof -
  let ?c = "code_slice_bytes (code_slice_of c) s"
  have len: "int (length ?c) = code_len c"
    using length_code_slice_bytes [OF assms(1)] by (simp add: code_slice_of_def)
  have p: "0 \<le> p" using aligned_nonneg [OF assms(2)] .
  note read = code_slice_byte_run [OF assms(1)]
  show ?thesis
  proof (cases "p < code_len c")
    case False
    then show ?thesis using assms(2,3) by (auto simp: fetch_def)
  next
    case True
    with assms(3) have "t = s \<and> p' = p + step_at ?c fork p"
      using p
      by (auto simp: fetch_def read Let_def bind_run read_push_def decode_push_immediate_def decode_deep_immediate_def
          step_at_code instruction_step_def dest!: pure_returns [OF pure_load_n]
          dest: unavailable_opcode available_deep deep_opcode split: sum.splits if_splits)
    then show ?thesis using aligned_step [OF assms(2)] True len by simp
  qed
qed

section \<open>Instructions\<close>

definition keeps_place :: "frame_transition \<Rightarrow> frame_transition \<Rightarrow> bool" where
  "keeps_place fr fr' \<longleftrightarrow> ft_pc fr' = ft_pc fr \<and> ft_code fr' = ft_code fr"

lemma after_places:
  "yields (keeps_place fr) (after_stack fr h1)" "yields (keeps_place fr) (after_memory fr h2)"
  "yields (keeps_place fr) (after_gas fr h3)" "yields (keeps_place fr) (after_halt fr h4)"
  "yields (keeps_place fr) (after_state fr h5)" "yields (keeps_place fr) (after_destruct fr h6)"
  "yields (keeps_place fr) (after_revert fr h7)"
  unfolding after_stack_def after_memory_def after_gas_def after_halt_def after_state_def
    after_destruct_def after_revert_def
  by (intro yields_bind yields_case_prod yields_ret; simp add: keeps_place_def)+

lemma instruction_place:
  assumes "i \<noteq> JUMP" and "i \<noteq> JUMPI"
  shows "yields (keeps_place fr) (execute_instruction lib fork fee ctx fr i)"
proof -
  have "yields (\<lambda>(pc', gas', sp', outcome). pc' = pc) (execute_pc pc gas sp)" for pc gas sp
    unfolding execute_pc_def by (intro handler_rules yields_bind yields_ret) simp_all
  then have "yields (keeps_place fr) (after_jump fr (execute_pc (ft_pc fr) gas sp))" for gas sp
    unfolding after_jump_def by (rule yields_then) (auto simp: keeps_place_def yields_def)
  then show ?thesis
    using assms
    by (cases i; simp only: execute_instruction_def instruction.case Let_def;
      (intro after_places yields_fatal yields_ret)?) (simp_all add: keeps_place_def)
qed

lemma settle_place: "yields (keeps_place fr) (settle_outcome fr)"
  unfolding settle_outcome_def exceptional_settlement_def
  by (cases "ft_status fr") (auto intro!: yields_ret yields_bind simp: keeps_place_def)

text \<open>A jump goes to a valid destination, or stays where it is.\<close>

definition lands :: "(int \<Rightarrow> bool) \<Rightarrow> 's \<Rightarrow> ('s, int \<times> 'r) action \<Rightarrow> bool" where
  "lands P s m \<longleftrightarrow> (\<forall>p r t. m s = Inr ((p, r), t) \<longrightarrow> P p)"

lemma landsD: "lands P s m \<Longrightarrow> m s = Inr ((p, r), t) \<Longrightarrow> P p"
  by (simp add: lands_def)

lemma lands_bind:
  "pure_action m \<Longrightarrow> (\<And>x. lands P s (f x)) \<Longrightarrow> lands P s (bind m f)"
  unfolding lands_def by (fastforce elim!: bind_returnsE dest: pure_returns)

lemma lands_control:
  "(b \<Longrightarrow> lands P s m) \<Longrightarrow> (\<not> b \<Longrightarrow> lands P s n) \<Longrightarrow> lands P s (if b then m else n)"
  "P p \<Longrightarrow> lands P s (ret (p, r))"
  by (simp_all add: lands_def)

lemma pure_pop:
  "pure_action (read_stack_word sp)" "pure_action (stack_top_retreat sp n)"
  "pure_action (guard_stack sp inputs outputs)" "pure_action (gas_sub left right)"
  unfolding read_stack_word_def stack_slot_read_def stack_slot_read_host_def stack_top_retreat_def
    operand_stack_height_def guard_stack_def validate_stack_def stack_height_def stack_slot_count_def
    gas_sub_def gas_u64_def natural_def Let_def
  by (intro pure_intros pure_reads)+

lemma lands_jump:
  assumes "code_analysed fork c s" and "P pc"
    and "\<And>d. valid_jumpdest (code_slice_bytes (code_slice_of c) s) fork d \<Longrightarrow> P d"
  shows "lands P s (bind (do_jump pc gas c d) (\<lambda>(pc, gas, status). ret (pc, gas, sp, status)))"
  using assms
  by (auto simp: lands_def do_jump_def frame_jumpdest_valid_def code_analysed_def bind_run frame_code_len_def
      code_length_def natural_def split: if_splits)

lemma jumps_land:
  assumes "code_analysed fork c s" and "P pc"
    and "\<And>d. valid_jumpdest (code_slice_bytes (code_slice_of c) s) fork d \<Longrightarrow> P d"
  shows "lands P s (execute_jump c pc gas sp)" "lands P s (execute_jumpi c pc gas sp)"
  unfolding execute_jump_def execute_jumpi_def stack_guarded_def pay_sub_def pop_word_def
  by (intro lands_jump [where P = P, OF assms] lands_bind lands_control pure_pop assms(2); assumption)+

section \<open>An iteration\<close>

text \<open>C11: The program counter stays on instructions: when a running frame whose code was analysed (its
  table accepts the valid jump destinations) stands at the start of an instruction or past the end,
  then after an iteration the same holds of that frame, with the same code: of the frame itself, also
  after a jump, or, when the iteration was a call or a creation, of the frame suspended for it, while
  the callee starts at 0. Immediate bytes are never executed.\<close>

theorem counter_stays_on_instructions:
  fixes s t :: "'z machine_state_scheme"
  assumes "machine_step lib fork fee ((fr, ctx), s) ((fr', ctx'), t)"
    and "is_running (ft_status fr)" and "solvent fr"
    and "code_analysed fork (ft_code fr) s"
    and "aligned fork (code_slice_bytes (code_slice_of (ft_code fr)) s) (ft_pc fr)"
  shows "(\<exists>pc. aligned fork (code_slice_bytes (code_slice_of (ft_code fr)) s) pc \<and>
    (continuation_frames t = continuation_frames s \<and> ft_code fr' = ft_code fr \<and> ft_pc fr' = pc \<or>
     (\<exists>k c. continuation_frames t = continuation_frames s @ [k] \<and> cont_checkpoint k = Some c \<and>
       cp_code c = ft_code fr \<and> cp_pc c = pc \<and> ft_pc fr' = 0)))"
proof -
  let ?c = "code_slice_bytes (code_slice_of (ft_code fr)) s"
  from assms(1,2) have run: "interpret_running lib fork fee (fr, ctx) s = Inr ((fr', ctx'), t)"
    by (auto simp: interpret_step_def elim!: machine_stepE bind_returnsE)
  then obtain pc i u where fetched: "fetch (ft_code fr) (ft_pc fr) fork s = Inr ((pc, i), u)"
    by (auto simp: interpret_running_def elim!: bind_returnsE)
  have in_region: "code_in_region (code_slice_of (ft_code fr)) s"
    using assms(4) by (simp add: code_analysed_def)
  from fetch_aligned [OF in_region assms(5) fetched] have u: "u = s" and pc: "aligned fork ?c pc" by simp_all
  let ?fr = "fr\<lparr>ft_pc := pc\<rparr>"
  have solvent: "solvent ?fr" using assms(3) by (simp add: solvent_def)
  have call: ?thesis
    if "moves (calls ?fr) m" and "bind m (\<lambda>next. ret (next, refresh_context ctx ?fr next)) s =
      Inr ((fr', ctx'), t)" for m :: "('z, frame_transition) machine"
  proof -
    from that(2) have "m s = Inr (fr', t)" by (auto elim!: bind_returnsE)
    with that(1) obtain ks where "continuation_frames t = continuation_frames s @ ks" "calls ?fr ks fr'"
      unfolding moves_def by blast
    then show ?thesis using pc by (auto simp: calls_def stays_def flows_def suspended_at_def)
  qed
  have plain: ?thesis
    if "bind (execute_instruction lib fork fee ctx ?fr i) (\<lambda>fr. bind (settle_outcome fr)
      (\<lambda>fr. ret (fr, ctx))) s = Inr ((fr', ctx'), t)"
  proof -
    from that obtain g v where g: "execute_instruction lib fork fee ctx ?fr i s = Inr (g, v)"
      and settled: "settle_outcome g v = Inr (fr', t)"
      by (auto elim!: bind_returnsE)
    have after: "keeps_place g fr'" using settle_place settled by (rule yieldsD)
    have "ft_code g = ft_code fr \<and> aligned fork ?c (ft_pc g)"
    proof (cases "i = JUMP \<or> i = JUMPI")
      case True
      have valid: "aligned fork ?c d" if "valid_jumpdest ?c fork d" for d
        using that by (simp add: aligned_def valid_jumpdest_def)
      note lands = jumps_land [where P = "aligned fork ?c", OF assms(4) pc valid]
      from g True obtain gas sp r where "ft_code g = ft_code fr"
        "execute_jump (ft_code fr) pc gas sp s = Inr ((ft_pc g, r), v) \<or>
          execute_jumpi (ft_code fr) pc gas sp s = Inr ((ft_pc g, r), v)"
        by (fastforce simp: execute_instruction_def after_jump_def Let_def elim!: bind_returnsE)
      then show ?thesis using landsD [OF lands(1)] landsD [OF lands(2)] by blast
    next
      case False
      then have "keeps_place ?fr g" using instruction_place g by (blast dest: yieldsD)
      then show ?thesis using pc by (simp add: keeps_place_def)
    qed
    moreover have "continuation_frames t = continuation_frames s"
    proof -
      have "steady registers_kept (bind (execute_instruction lib fork fee ctx ?fr i) (\<lambda>fr.
          bind (settle_outcome fr) (\<lambda>fr. ret (fr, ctx))) :: ('z, interpreter_state) machine)"
        by (intro keeps_registers)
      from this that have "registers_kept s t" by (rule steadyD)
      then show ?thesis by (rule frames_kept)
    qed
    ultimately show ?thesis using after by (auto simp: keeps_place_def)
  qed
  show ?thesis
    using run fetched u call [OF enters_run_call [OF solvent]] call [OF enters_run_create [OF solvent]] plain
    by (cases i; simp add: interpret_running_def bind_run Let_def)
qed

text \<open>A PUSH1 whose immediate is the opcode of JUMPDEST.\<close>

definition push_machine :: "unit machine_state_scheme" where
  "push_machine = jumpdest_machine\<lparr>code_bytes := [0x60, 0x5b]\<rparr>"

abbreviation push_frame :: frame_transition where
  "push_frame \<equiv> first_frame 3 0 0 0 empty_stack 0 0 top_message jumpdest_code (InputCalldata EMPTY_SLICE)"

lemma push_machine_fields:
  "code_bytes push_machine = [0x60, 0x5b]" "continuation_frames push_machine = []"
  "code_slice_bytes (code_slice_of jumpdest_code) push_machine = [0x60, 0x5b]"
  "jumpdest_tables push_machine = []"
  by (simp_all add: push_machine_def jumpdest_machine_fields code_slice_bytes_def region_bytes_def slice_of_def
      code_slice_of_def jumpdest_code_def py_slice_nonneg Let_def jumpdest_machine_def initial_kernel_state_def
      initial_host_state_def kernel_state.defs host_state.defs)

lemma push_stack: "operand_stack_frames push_machine = []" "operand_stack push_machine = []"
  by (simp_all add: push_machine_def jumpdest_machine_def initial_kernel_state_def
      initial_host_state_def kernel_state.defs host_state.defs)

lemma push_analysed: "code_analysed Amsterdam jumpdest_code push_machine"
proof -
  let ?c = "[0x60, 0x5b] :: bytes"
  have "step_at ?c Amsterdam 0 = 2" by (simp add: step_at_def immediate_length_def code_at_def)
  then have "reaches ?c Amsterdam 0 d \<longleftrightarrow> d = 0" for d
    using reaches_iff [of ?c Amsterdam 0 d] no_reach_beyond [of ?c 2 Amsterdam d] by auto
  then have "\<not> valid_jumpdest ?c Amsterdam d" for d
    by (auto simp: valid_jumpdest_def instruction_start_def code_at_def)
  then show ?thesis
    by (simp add: code_analysed_def push_machine_fields jumpdest_ref_contains_def dict_get_def)
      (simp add: code_in_region_def push_machine_fields code_slice_of_def jumpdest_code_def)
qed

lemma push_fetch: "fetch jumpdest_code 0 Amsterdam push_machine = Inr ((2, PUSH 1 91), push_machine)"
  by (simp add: bind_run fetch_def jumpdest_code_def code_slice_byte_def
      code_region_byte_at_def region_byte_def region_bytes_def code_slice_of_def slice_of_def py_slice_nonneg
      py_item_def push_machine_fields Let_def opcode_available_def opcode_forks_def deep_stack_operation_def
      decode_push_immediate_def read_push_def code_slice_load_n_def code_region_load_n_word_def load_word_def
      as_word_def ranged_def from_bytes_big_def ljust_zero_def)

lemma push_run: "\<exists>sp t. execute_push 3 empty_stack 1 91 push_machine = Inr ((0, sp, Continue), t)"
  by (simp add: execute_push_def stack_guarded_def guard_stack_def validate_stack_def stack_height_def
      stack_slot_count_def STACK_LIMIT_def stack_top_height_def empty_stack_def bind_run ranged_def pay_def
      G_verylow_def push_word_def stack_top_advance_def write_stack_word_def stack_slot_write_def
      stack_slot_write_host_def stack_slot_position_def stack_base_def push_stack Let_def
      operand_stack_height_def stack_top_height_host_def stack_top_advance_host_def stack_top_of_def)

lemma push_step:
  "\<exists>fr t. interpret_step lib Amsterdam 1 (push_frame, ctx) push_machine = Inr (Inr (fr, ctx), t) \<and> ft_pc fr = 2"
  using push_run
  by (auto simp: interpret_step_def interpret_running_def bind_run push_fetch Let_def
      execute_instruction_def after_stack_def settle_outcome_def)

theorem counter_stays_on_instructions_witness:
  "\<forall>lib ctx. \<exists>fr t. machine_step lib Amsterdam 1 ((push_frame, ctx), push_machine) ((fr, ctx), t) \<and>
     ft_pc fr = 2 \<and> aligned Amsterdam [0x60, 0x5b] 2"
proof (intro allI)
  fix lib ctx
  obtain fr t where run: "interpret_step lib Amsterdam 1 (push_frame, ctx) push_machine = Inr (Inr (fr, ctx), t)"
    and pc: "ft_pc fr = 2" using push_step by blast
  have step: "machine_step lib Amsterdam 1 ((push_frame, ctx), push_machine) ((fr, ctx), t)"
    using run by (rule iteration)
  have start: "aligned Amsterdam (code_slice_bytes (code_slice_of (ft_code push_frame)) push_machine) (ft_pc push_frame)"
    by (simp add: aligned_start)
  have "aligned Amsterdam [0x60, 0x5b] (ft_pc fr)"
    using counter_stays_on_instructions [OF step _ _ _ start] pc
    by (auto simp: solvent_def push_analysed push_machine_fields)
  with step pc show "\<exists>fr t. machine_step lib Amsterdam 1 ((push_frame, ctx), push_machine) ((fr, ctx), t) \<and>
      ft_pc fr = 2 \<and> aligned Amsterdam [0x60, 0x5b] 2" by auto
qed

end
