(* ===== verification/Spec2Isabelle.thy ===== *)
theory Spec2Isabelle
  imports Gas_Laws Htr_Laws Stateless_Laws Request_Laws Index_Laws Static_Laws Fuel_Laws
    Settlement_Laws Alu_Laws Validation_Ends Jump_Laws
begin

text \<open>
  A model of the Python extraction of the EVM specification
  (\<open>src/extractions/python/src/evm\<close>): a stateless validator that reads a request (a block with
  the witness it needs), executes the block, and writes the root of the request and a verdict to
  its public output. Names without a directory are files below \<open>src/extractions/python/src/evm\<close>.

  \<^bold>\<open>The program.\<close> \<open>main.py\<close> hands the request to \<open>executor/stateless.py\<close>, which decodes the SSZ
  containers, indexes the witness, and executes the block body: system calls, transactions,
  withdrawals, and the comparisons of receipts, logs bloom, requests, block access list and state
  root with what the header claims. A transaction runs the interpreter on a stack of call frames.
  The kernel gives the interpreter accounts, storage, code and logs; below it the host keeps the
  state, the byte regions, and a journal that undoes what a failed frame has done.

  \<^bold>\<open>How it is modelled.\<close> A Python function that reads or changes module state is a computation
  \<open>('s, 'a) action\<close>: a function of the state that returns an error (\<open>Inl\<close>) or a result with
  the new state (\<open>Inr\<close>), built with \<open>bind\<close> and \<open>ret\<close>. Every raise, assertion, failed range check and
  \<open>fatal_error\<close> of the source is an \<open>Inl\<close>. The state is a record that grows by component:
  \<open>host_state\<close> (the attributes of \<open>HostContract\<close>), \<open>kernel_state\<close> (the module variables of
  \<open>kernel/environment.py\<close> and \<open>kernel/scratch.py\<close>), \<open>machine_state\<close> (the suspended frames);
  a computation of a lower layer is polymorphic in the rest. Python integers are \<open>int\<close>, with the masks
  and the range checks of the source written out; bytes are \<open>8 word\<close> lists, dictionaries are
  association lists in insertion order.

  \<^bold>\<open>The parts.\<close>
  \<^item> \<open>Py_Base\<close>, \<open>Byte_Words\<close>, \<open>Words\<close>: errors, computations, byte vectors, slices and dictionaries of
    Python (\<open>_runtime.py\<close>), and the 256-bit words of \<open>prelude.py\<close>.
  \<^item> \<open>Host_State\<close>, \<open>Host_Regions\<close>, \<open>Host_World\<close>, \<open>Host_BAL\<close>, \<open>Accelerators\<close>: the operations of
    \<open>extractions/python/contract/HostContract.py\<close>, class by class.
  \<^item> \<open>Region_Access\<close>, \<open>Code_Analysis\<close>: \<open>host/region_access.py\<close>, \<open>host/stack.py\<close>, \<open>host/output.py\<close>,
    \<open>host/code.py\<close>. \<open>Profile\<close>: \<open>primitives/chain_config.py\<close>.
  \<^item> \<open>Rlp_Decode\<close>, \<open>Rlp_Encode\<close>, \<open>Tx_Codec\<close>, \<open>Receipts\<close>, \<open>Block_Codec\<close>: \<open>lib/rlp\<close> and its codecs.
    \<open>Ssz\<close>, \<open>Stateless_Input\<close>, \<open>Htr\<close>: \<open>lib/ssz\<close> and \<open>lib/htr.py\<close>.
  \<^item> \<open>Trie_Lookup\<close>, \<open>Trie_Codec\<close>, \<open>Trie_Update\<close>, \<open>State_Root\<close>: \<open>lib/mpt\<close> and \<open>lib/state_trie.py\<close>.
  \<^item> \<open>Kernel_State\<close>, \<open>Kernel\<close>, \<open>Kernel_Lifecycle\<close>, \<open>Logs_Bloom\<close>: \<open>kernel\<close>.
  \<^item> \<open>Machine\<close>, \<open>Gas\<close>, \<open>Gas_Precompiles\<close>, \<open>Instructions\<close>, \<open>Execute\<close>, \<open>Decode\<close>, \<open>Precompiles\<close>,
    \<open>Interpreter\<close>: \<open>evm\<close>, up to the interpreter loop. The local variables that the loop of the source
    carries are the record \<open>frame_transition\<close>; one iteration is \<open>interpret_step\<close>.
  \<^item> \<open>Tx_Gas\<close>, \<open>Tx_Processing\<close>: \<open>evm/transaction.py\<close>. \<open>System_Calls\<close>, \<open>Block_Access_List\<close>,
    \<open>Payload\<close>, \<open>Block_Execution\<close>, \<open>Stateless\<close>: \<open>executor\<close> and \<open>main.py\<close>.

  \<^bold>\<open>What is proved\<close> (the theories without a part of their own in the list above).
  \<^item> \<open>Words\<close>, \<open>Alu_Laws\<close>, \<open>Byte_Words\<close>, \<open>Code_Analysis\<close>, \<open>Profile\<close>, \<open>Logs_Bloom\<close>, \<open>Rlp_Encode\<close>: the operations
    against those on \<open>256 word\<close>, and against reference definitions that share no step with the code:
    immediate lengths by opcode, parameters by number of the fork, bloom bits by byte pairs.
  \<^item> \<open>Journal\<close>, \<open>Journal_Ops\<close>, \<open>Kernel_Journal\<close>, \<open>Kernel_Lifecycle\<close>: every write is journaled, so
    reverting a frame restores the world; the end of a transaction commits what is left.
    \<open>Settlement_Laws\<close>: the gas charged and the fees paid at that point.
  \<^item> \<open>Gas_Laws\<close>: the price computations. \<open>Gas_Flow\<close>, \<open>Call_Flow\<close>: how handlers, calls and creations
    spend and pass gas on. \<open>Interpreter_Laws\<close>: termination, conservation of gas, the bound on
    the call depth and the return to every caller, from one measure. \<open>Fuel_Laws\<close>: the fuel of the
    layers above does not matter. \<open>Jump_Laws\<close>: the program counter of analysed code never
    stands on an immediate byte. \<open>Fuel_Rules\<close>, \<open>Fuel_Codecs\<close>, \<open>Fuel_Roots\<close>, \<open>Fuel_Blocks\<close>,
    \<open>Index_Trie\<close>: no other loop runs for ever, by one rule for each definition; \<open>Validation_Ends\<close>:
    so the program ends.
  \<^item> \<open>Steady\<close>, \<open>Steady_Host\<close>, \<open>Steady_Handlers\<close>, \<open>Steady_Writers\<close>: which parts of the state an
    operation may change, by one rule for each definition. \<open>Static_Laws\<close>: static calls write nothing.
  \<^item> \<open>Trie_Path\<close>, \<open>Trie_Hex\<close>, \<open>Trie_Frame\<close>, \<open>Index_Laws\<close>, \<open>Htr_Laws\<close>: paths, hex-prefix coding,
    index keys and Merkle roots. \<open>Stateless_Laws\<close>, \<open>Request_Laws\<close>: the public output, and two ways
    in which requests go wrong: a fork before Cancun, and headers that share their fields.

  \<^bold>\<open>Interfaces.\<close> \<open>action_invariant\<close> (a reflexive and transitive relation that computations keep) and
  \<open>tolerant\<close> carry the frame rules and are interpreted for each relation used, \<open>update_stream\<close> states
  what the trie builder needs from a source of updates and is interpreted for the streams of accounts
  and of slots.

  \<^bold>\<open>Fuel.\<close> Only the interpreter loop has a number of iterations as an argument (\<open>interpret_loop\<close>),
  which the functions above it pass down. It takes the place of the counter
  \<open>call_tree_steps_remaining\<close> of the source, which starts from three times the gas and the state gas
  plus two, never stops the loop, and serves only as a termination measure in the Sail original.
  \<open>interpretation_terminates\<close> has another bound, three times the gas and the spilled state gas plus
  two, because spilled state gas can be handed back as gas; where state gas was spilled before the
  interpreter starts, as an Amsterdam transaction can do, the number of the source does not follow
  from it. \<open>validation_needs_no_fuel\<close> shows that \<open>3 * 2 ^ 64\<close> is enough for every request. The
  loop of \<open>Payload\<close> over the children of an indexed trie returns \<open>OutOfFuel\<close> where the source would
  repeat for ever; \<open>validation_ends\<close> shows that this never is the outcome. Every other loop is a function with a
  termination proof.

  \<^bold>\<open>Parameters.\<close> Keccak-256, SHA-256 and the native accelerators, which the source calls through
  \<open>ctypes\<close>, are the fields of the record \<open>crypto\<close>.

  \<^bold>\<open>Not modelled.\<close> The generated re-exports and reset code (\<open>__init__.py\<close>, the copy \<open>HostContract.py\<close>,
  \<open>_types.py\<close>); the empty debug hooks of \<open>host/debug_disabled.py\<close>; the generic bit-vector container,
  configuration lookup and printing of \<open>_runtime.py\<close>; the bindings of native libraries; and the
  tools under \<open>src/devtools\<close>, which build and test the program.
\<close>

end
